(* ===== verification/Py_Prelude.thy ===== *)
theory Py_Prelude
  imports Main "HOL-Library.AList"
begin

text \<open>
  The Python operations that the components share: exceptions as values, string methods,
  slices with negative indices, and insertion-ordered dictionaries.

  A Python string is modelled by a list of characters, each a code point below 256 (Latin-1),
  so that \<open>length\<close> counts what \<open>len\<close> counts. A dictionary is an association list with
  distinct keys in insertion order, changed by \<open>AList.update\<close> (which keeps the position of a
  key that is already there, as \<open>d[k] = v\<close> does) and \<open>AList.delete\<close>. Logging has no
  effect on a result and is left out everywhere.
\<close>

named_theorems py_str \<open>facts on the string operations\<close>
named_theorems py_slice \<open>facts on slices and indices\<close>

section \<open>Exceptions\<close>

datatype exc =
    ValueError string
  | KeyError string
  | IndexError
  | TypeError string
  | RuntimeError string
  | FileNotFoundError string
  | AssertionError
  | OtherException string string \<comment> \<open>class name and text\<close>

definition rbind :: "exc + 'a \<Rightarrow> ('a \<Rightarrow> exc + 'b) \<Rightarrow> exc + 'b" where
  "rbind m f = (case m of Inl e \<Rightarrow> Inl e | Inr x \<Rightarrow> f x)"

lemma rbind_simps [simp]:
  "rbind (Inl e) f = Inl e"
  "rbind (Inr x) f = f x"
  by (simp_all add: rbind_def)

lemma rbind_Inr_iff: "rbind m f = Inr y \<longleftrightarrow> (\<exists>x. m = Inr x \<and> f x = Inr y)"
  by (cases m) auto

lemma rbind_Inl_iff: "rbind m f = Inl e \<longleftrightarrow> m = Inl e \<or> (\<exists>x. m = Inr x \<and> f x = Inl e)"
  by (cases m) auto

text \<open>A loop whose body may raise: it stops at the first exception.\<close>

fun foldE :: "('a \<Rightarrow> 's \<Rightarrow> exc + 's) \<Rightarrow> 'a list \<Rightarrow> 's \<Rightarrow> exc + 's" where
  "foldE f [] s = Inr s"
| "foldE f (x # xs) s = rbind (f x s) (foldE f xs)"

lemma foldE_append: "foldE f (xs @ ys) s = rbind (foldE f xs s) (foldE f ys)"
  by (induction xs arbitrary: s) (auto simp: rbind_def split: sum.splits)

lemma foldE_invariant:
  assumes "foldE f xs s = Inr s'" and "P s"
    and "\<And>x a b. x \<in> set xs \<Longrightarrow> P a \<Longrightarrow> f x a = Inr b \<Longrightarrow> P b"
  shows "P s'"
  using assms
proof (induction xs arbitrary: s)
  case Nil
  then show ?case by simp
next
  case (Cons x xs)
  then obtain a where "f x s = Inr a" "foldE f xs a = Inr s'"
    by (auto simp: rbind_Inr_iff)
  with Cons show ?case by (meson list.set_intros)
qed

lemma foldE_Inr: "(\<And>x s. x \<in> set xs \<Longrightarrow> f x s = Inr (g x s)) \<Longrightarrow> foldE f xs s = Inr (fold g xs s)"
  by (induction xs arbitrary: s) auto

section \<open>Insertion-ordered dictionaries\<close>

type_synonym ('k, 'v) pydict = "('k \<times> 'v) list"

abbreviation dict_set :: "('k, 'v) pydict \<Rightarrow> 'k \<Rightarrow> 'v \<Rightarrow> ('k, 'v) pydict" where
  "dict_set d k v \<equiv> AList.update k v d"

abbreviation dict_del :: "'k \<Rightarrow> ('k, 'v) pydict \<Rightarrow> ('k, 'v) pydict" where
  "dict_del k d \<equiv> AList.delete k d"

abbreviation keys :: "('k, 'v) pydict \<Rightarrow> 'k list" where
  "keys d \<equiv> map fst d"

text \<open>\<open>d.update(other)\<close>: the entries of \<open>other\<close>, in order.\<close>

fun dict_update :: "('k, 'v) pydict \<Rightarrow> ('k, 'v) pydict \<Rightarrow> ('k, 'v) pydict" where
  "dict_update d [] = d"
| "dict_update d ((k, v) # r) = dict_update (dict_set d k v) r"

lemma map_of_dict_set [simp]: "map_of (dict_set d k v) = (map_of d)(k \<mapsto> v)"
  by (rule ext) (simp add: update_conv')

lemma map_of_dict_del [simp]: "map_of (dict_del k d) = (map_of d)(k := None)"
  by (rule ext) (simp add: delete_conv')

lemma distinct_dict_set [simp, intro]:
  "distinct (keys d) \<Longrightarrow> distinct (keys (dict_set d k v))"
  by (rule distinct_update)

lemma distinct_dict_del [simp, intro]:
  "distinct (keys d) \<Longrightarrow> distinct (keys (dict_del k d))"
  by (rule distinct_delete)

lemma set_keys_dict_set [simp]: "fst ` set (dict_set d k v) = insert k (fst ` set d)"
  by (simp add: dom_update)

lemma dict_set_values: "(k', v') \<in> set (dict_set d k v) \<Longrightarrow> (k', v') \<in> set d \<or> v' = v"
  by (induction d) (auto split: if_splits)

lemma distinct_dict_update:
  "distinct (keys d) \<Longrightarrow> distinct (keys (dict_update d e))"
  by (induction d e rule: dict_update.induct) auto

lemma map_of_dict_update:
  "distinct (keys e) \<Longrightarrow> map_of (dict_update d e) = map_of d ++ map_of e"
proof (induction d e rule: dict_update.induct)
  case (1 d)
  show ?case by simp
next
  case (2 d k v r)
  then have k: "k \<notin> dom (map_of r)"
    by (simp add: dom_map_of_conv_image_fst)
  have "map_of (dict_update (dict_set d k v) r) = map_of (dict_set d k v) ++ map_of r"
    by (rule "2.IH") (use "2.prems" in simp)
  then show ?case
    by (simp only: map_of_dict_set map_add_upd_left [OF k] map_of.simps map_add_upd
          dict_update.simps fst_conv snd_conv)
qed

lemma dict_set_fresh: "k \<notin> set (keys d) \<Longrightarrow> dict_set d k v = d @ [(k, v)]"
  by (induction d) auto

lemma dict_update_fresh: "distinct (keys (d @ e)) \<Longrightarrow> dict_update d e = d @ e"
  by (induction d e rule: dict_update.induct) (auto simp: dict_set_fresh)

lemma dict_update_append: "dict_update d (e @ f) = dict_update (dict_update d e) f"
  by (induction d e rule: dict_update.induct) auto

lemma map_of_dict_update_rev: "map_of (dict_update d e) = map_of d ++ map_of (rev e)"
proof (induction d e rule: dict_update.induct)
  case (1 d)
  show ?case by simp
next
  case (2 d k v r)
  have "(map_of d)(k \<mapsto> v) ++ map_of (rev r) = map_of d ++ (Map.empty(k \<mapsto> v) ++ map_of (rev r))"
    by (rule ext) (simp add: map_add_def split: option.splits)
  with 2 show ?case
    by (simp only: dict_update.simps map_of_dict_set rev.simps map_of_append map_of.simps fst_conv
          snd_conv)
qed

section \<open>Characters\<close>

text \<open>\<open>str.isspace\<close> on the code points below 256.\<close>

definition is_space :: "char \<Rightarrow> bool" where
  "is_space c \<longleftrightarrow> c \<in> set [CHR '' '', CHR 0x09, CHR 0x0A, CHR 0x0B, CHR 0x0C, CHR 0x0D,
     CHR 0x1C, CHR 0x1D, CHR 0x1E, CHR 0x1F, CHR 0x85, CHR 0xA0]"

definition is_digit :: "char \<Rightarrow> bool" where
  "is_digit c \<longleftrightarrow> c \<in> set ''0123456789''"

text \<open>\<open>str.lower\<close> on the code points below 256.\<close>

definition lower_char :: "char \<Rightarrow> char" where
  "lower_char c =
     (let n = (of_char c :: nat) in
      if (65 \<le> n \<and> n \<le> 90) \<or> (192 \<le> n \<and> n \<le> 222 \<and> n \<noteq> 215) then char_of (n + 32) else c)"

abbreviation lower :: "string \<Rightarrow> string" where
  "lower \<equiv> map lower_char"

abbreviation newline :: char where
  "newline \<equiv> CHR 0x0A"

section \<open>String methods\<close>

text \<open>\<open>s.startswith(p)\<close>, \<open>s.endswith(p)\<close>, \<open>p in s\<close>.\<close>

fun startswith :: "string \<Rightarrow> string \<Rightarrow> bool" where
  "startswith s [] = True"
| "startswith [] (y # ys) = False"
| "startswith (x # xs) (y # ys) = (x = y \<and> startswith xs ys)"

definition endswith :: "string \<Rightarrow> string \<Rightarrow> bool" where
  "endswith s p = startswith (rev s) (rev p)"

fun contains :: "string \<Rightarrow> string \<Rightarrow> bool" where
  "contains [] p = (p = [])"
| "contains (x # xs) p = (startswith (x # xs) p \<or> contains xs p)"

lemma startswith_iff: "startswith s p \<longleftrightarrow> (\<exists>t. s = p @ t)"
  by (induction s p rule: startswith.induct) auto

lemma startswith_append [simp, py_str]: "startswith (p @ t) p"
  by (simp add: startswith_iff)

lemma startswith_refl [simp, py_str]: "startswith p p"
  by (simp add: startswith_iff)

lemma startswith_drop: "startswith s p \<Longrightarrow> s = p @ drop (length p) s"
  by (auto simp: startswith_iff)

lemma endswith_iff: "endswith s p \<longleftrightarrow> (\<exists>t. s = t @ p)"
proof
  assume "endswith s p"
  then obtain t where "rev s = rev p @ t"
    by (auto simp: endswith_def startswith_iff)
  then have "s = rev t @ p"
    by (metis rev_append rev_rev_ident)
  then show "\<exists>t. s = t @ p" ..
qed (auto simp: endswith_def startswith_iff)

lemma contains_iff: "contains s p \<longleftrightarrow> (\<exists>a b. s = a @ p @ b)"
proof (induction s)
  case Nil
  then show ?case by auto
next
  case (Cons x xs)
  show ?case
  proof
    assume "contains (x # xs) p"
    then show "\<exists>a b. x # xs = a @ p @ b"
      using Cons.IH by (metis append_Cons append_Nil contains.simps(2) startswith_iff)
  next
    assume "\<exists>a b. x # xs = a @ p @ b"
    then obtain a b where ab: "x # xs = a @ p @ b" by blast
    show "contains (x # xs) p"
    proof (cases a)
      case Nil
      with ab show ?thesis by (metis append_Nil contains.simps(2) startswith_iff)
    next
      case (Cons y ys)
      with ab have "xs = ys @ p @ b" by simp
      with Cons.IH show ?thesis by auto
    qed
  qed
qed

text \<open>The first occurrence of a separator: the text before it and the text after it.\<close>

fun cut :: "string \<Rightarrow> string \<Rightarrow> (string \<times> string) option" where
  "cut sep [] = (if sep = [] then Some ([], []) else None)"
| "cut sep (x # xs) =
     (if startswith (x # xs) sep then Some ([], drop (length sep) (x # xs))
      else map_option (\<lambda>(a, b). (x # a, b)) (cut sep xs))"

lemma cut_Some: "cut sep s = Some (a, b) \<Longrightarrow> s = a @ sep @ b"
proof (induction s arbitrary: a)
  case Nil
  then show ?case by (auto split: if_splits)
next
  case (Cons x xs)
  then show ?case
    by (auto split: if_splits dest!: startswith_drop simp del: drop_Cons)
qed

lemma cut_None: "cut sep s = None \<longleftrightarrow> \<not> contains s sep"
  by (induction s) auto

text \<open>\<open>s.split(sep)\<close>. Python refuses an empty separator; no call here passes one, and the
  guard only makes the function total.\<close>

function split_on :: "string \<Rightarrow> string \<Rightarrow> string list" where
  "split_on sep s =
     (case cut sep s of
        None \<Rightarrow> [s]
      | Some (a, b) \<Rightarrow> a # (if length b < length s then split_on sep b else [b]))"
  by pat_completeness auto
termination
  by (relation "measure (\<lambda>(sep, s). length s)") auto

declare split_on.simps [simp del]

lemma split_on_None [simp]: "cut sep s = None \<Longrightarrow> split_on sep s = [s]"
  by (subst split_on.simps) simp

lemma split_on_Some: "cut sep s = Some (a, b) \<Longrightarrow> sep \<noteq> [] \<Longrightarrow> split_on sep s = a # split_on sep b"
  by (subst split_on.simps) (auto dest: cut_Some)

lemma cut_char_append:
  "cut [c] (a @ c # b) = (case cut [c] a of None \<Rightarrow> Some (a, b) | Some (x, y) \<Rightarrow> Some (x, y @ c # b))"
  by (induction a) (auto split: option.splits)

lemma split_on_char_append: "split_on [c] (a @ c # b) = split_on [c] a @ split_on [c] b"
proof (induction "[c]" a rule: split_on.induct)
  case (1 s)
  show ?case
  proof (cases "cut [c] s")
    case None
    then have "cut [c] (s @ c # b) = Some (s, b)" by (simp add: cut_char_append)
    with None show ?thesis by (simp add: split_on_Some)
  next
    case (Some p)
    obtain x y where p: "p = (x, y)" by fastforce
    with Some have "length y < length s" by (auto dest: cut_Some)
    with 1 Some p have "split_on [c] (y @ c # b) = split_on [c] y @ split_on [c] b" by auto
    moreover from Some p have "cut [c] (s @ c # b) = Some (x, y @ c # b)"
      by (simp add: cut_char_append)
    ultimately show ?thesis using Some p by (simp add: split_on_Some)
  qed
qed

lemma split_on_nonempty [simp]: "split_on sep s \<noteq> []"
  by (subst split_on.simps) (auto split: option.splits)

text \<open>\<open>sep.join(parts)\<close>.\<close>

fun join :: "string \<Rightarrow> string list \<Rightarrow> string" where
  "join sep [] = []"
| "join sep [x] = x"
| "join sep (x # y # zs) = x @ sep @ join sep (y # zs)"

lemma join_Cons: "ys \<noteq> [] \<Longrightarrow> join sep (x # ys) = x @ sep @ join sep ys"
  by (cases ys) auto

lemma join_split_on: "sep \<noteq> [] \<Longrightarrow> join sep (split_on sep s) = s"
proof (induction sep s rule: split_on.induct)
  case (1 sep s)
  show ?case
  proof (cases "cut sep s")
    case None
    then show ?thesis by simp
  next
    case (Some p)
    obtain a b where p: "p = (a, b)" by fastforce
    with Some have s: "s = a @ sep @ b" by (simp add: cut_Some)
    with 1 Some p have "join sep (split_on sep b) = b" by auto
    with Some p 1(2) s show ?thesis
      by (simp add: split_on_Some join_Cons)
  qed
qed

lemma cut_char_None: "cut [c] s = None \<longleftrightarrow> c \<notin> set s"
  by (induction s) auto

lemma split_on_join:
  assumes "ls \<noteq> []" and "\<forall>l \<in> set ls. c \<notin> set l"
  shows "split_on [c] (join [c] ls) = ls"
  using assms
proof (induction "[c]" ls rule: join.induct)
  case (3 x y zs)
  have "split_on [c] (x @ c # join [c] (y # zs)) = split_on [c] x @ split_on [c] (join [c] (y # zs))"
    by (rule split_on_char_append)
  with 3 show ?case by (simp add: cut_char_None)
qed (simp_all add: cut_char_None)

text \<open>\<open>s.split(sep, 1)\<close>, \<open>s.rsplit(sep, 1)\<close>, \<open>s.replace(old, new)\<close>.\<close>

definition split1 :: "string \<Rightarrow> string \<Rightarrow> string list" where
  "split1 sep s = (case cut sep s of None \<Rightarrow> [s] | Some (a, b) \<Rightarrow> [a, b])"

definition rsplit1 :: "string \<Rightarrow> string \<Rightarrow> string list" where
  "rsplit1 sep s =
     (case cut (rev sep) (rev s) of None \<Rightarrow> [s] | Some (a, b) \<Rightarrow> [rev b, rev a])"

definition replace :: "string \<Rightarrow> string \<Rightarrow> string \<Rightarrow> string" where
  "replace s old new =
     (if old = [] then new @ concat (map (\<lambda>c. c # new) s) else join new (split_on old s))"

lemma replace_absent: "old \<noteq> [] \<Longrightarrow> \<not> contains s old \<Longrightarrow> replace s old new = s"
  by (simp add: replace_def flip: cut_None)

text \<open>A part between two separators does not hold the separator, and is a piece of the text.\<close>

lemma cut_first: "cut sep s = Some (a, b) \<Longrightarrow> sep \<noteq> [] \<Longrightarrow> \<not> contains a sep"
proof (induction s arbitrary: a)
  case Nil
  then show ?case by (auto split: if_splits)
next
  case (Cons x xs)
  show ?case
  proof (cases "startswith (x # xs) sep")
    case True
    with Cons.prems show ?thesis by simp
  next
    case False
    with Cons.prems obtain a' where a: "a = x # a'" "cut sep xs = Some (a', b)" by auto
    with Cons have "\<not> contains a' sep" by blast
    moreover have "\<not> startswith (x # a') sep"
    proof
      assume "startswith (x # a') sep"
      then obtain t where "x # a' = sep @ t" by (auto simp: startswith_iff)
      moreover have "x # xs = (x # a') @ sep @ b" using cut_Some [OF a(2)] by simp
      ultimately have "x # xs = sep @ t @ sep @ b" by simp
      with False show False by (metis startswith_append)
    qed
    ultimately show ?thesis using a by simp
  qed
qed

lemma split_on_part:
  "sep \<noteq> [] \<Longrightarrow> p \<in> set (split_on sep s) \<Longrightarrow> \<not> contains p sep \<and> (\<exists>x y. s = x @ p @ y)"
proof (induction sep s rule: split_on.induct)
  case (1 sep s)
  show ?case
  proof (cases "cut sep s")
    case None
    with 1(3) show ?thesis by (auto simp: cut_None intro: exI [of _ "[]"])
  next
    case (Some q)
    obtain a b where q: "q = (a, b)" by fastforce
    with Some have s: "s = a @ sep @ b" by (simp add: cut_Some)
    show ?thesis
    proof (cases "p = a")
      case True
      from s True have "s = [] @ p @ (sep @ b)" by simp
      then show ?thesis using cut_first Some q True 1(2) by blast
    next
      case False
      with 1 Some q have "p \<in> set (split_on sep b)" by (simp add: split_on_Some)
      with 1 Some q s have "\<not> contains p sep \<and> (\<exists>x y. b = x @ p @ y)" by auto
      then show ?thesis using s by (metis append_assoc)
    qed
  qed
qed

text \<open>\<open>s.strip()\<close>, \<open>s.lstrip()\<close>, \<open>s.rstrip()\<close>, \<open>s.split()\<close>.\<close>

definition lstrip :: "string \<Rightarrow> string" where
  "lstrip s = dropWhile is_space s"

definition rstrip :: "string \<Rightarrow> string" where
  "rstrip s = rev (dropWhile is_space (rev s))"

definition strip :: "string \<Rightarrow> string" where
  "strip s = rstrip (lstrip s)"

fun words_go :: "string \<Rightarrow> string \<Rightarrow> string list" where
  "words_go acc [] = (if acc = [] then [] else [rev acc])"
| "words_go acc (c # cs) =
     (if is_space c then (if acc = [] then words_go [] cs else rev acc # words_go [] cs)
      else words_go (c # acc) cs)"

definition words :: "string \<Rightarrow> string list" where
  "words s = words_go [] s"

lemma words_go_props:
  "list_all (\<lambda>c. \<not> is_space c) acc \<Longrightarrow> w \<in> set (words_go acc s) \<Longrightarrow>
   w \<noteq> [] \<and> list_all (\<lambda>c. \<not> is_space c) w"
proof (induction s arbitrary: acc)
  case Nil
  then show ?case by (auto simp: list_all_iff split: if_splits)
next
  case (Cons c s)
  show ?case
    using Cons.prems Cons.IH [of "[]"] Cons.IH [of "c # acc"]
    by (auto simp: list_all_iff split: if_splits)
qed

lemma words_props [py_str]: "w \<in> set (words s) \<Longrightarrow> w \<noteq> [] \<and> (\<forall>c \<in> set w. \<not> is_space c)"
  using words_go_props [of "[]" w s] by (simp add: words_def list_all_iff)

lemma words_go_word:
  "\<forall>c \<in> set w. \<not> is_space c \<Longrightarrow> words_go acc (w @ s) = words_go (rev w @ acc) s"
  by (induction w arbitrary: acc) auto

lemma words_two:
  assumes "a \<noteq> []" "b \<noteq> []" "\<forall>c \<in> set a. \<not> is_space c" "\<forall>c \<in> set b. \<not> is_space c"
  shows "words (a @ '' '' @ b) = [a, b]"
proof -
  have sp: "is_space CHR '' ''" by (simp add: is_space_def)
  have "words (a @ '' '' @ b) = words_go (rev a) ('' '' @ b)"
    using words_go_word [of a "[]" "'' '' @ b"] assms(3) by (simp add: words_def)
  also have "\<dots> = a # words_go [] b"
    using assms(1) sp by simp
  also have "words_go [] b = [b]"
    using words_go_word [of b "[]" "[]"] assms(2,4) by simp
  finally show ?thesis .
qed

lemma strip_id: "s \<noteq> [] \<Longrightarrow> \<not> is_space (hd s) \<Longrightarrow> \<not> is_space (last s) \<Longrightarrow> strip s = s"
proof -
  assume s: "s \<noteq> []" "\<not> is_space (hd s)" "\<not> is_space (last s)"
  then have "lstrip s = s" by (cases s) (auto simp: lstrip_def)
  moreover have "rstrip s = s"
    using s by (cases s rule: rev_cases) (auto simp: rstrip_def)
  ultimately show ?thesis by (simp add: strip_def)
qed

text \<open>\<open>s.removesuffix(x)\<close> and \<open>s.removeprefix(x)\<close>.\<close>

definition removesuffix :: "string \<Rightarrow> string \<Rightarrow> string" where
  "removesuffix s x = (if x \<noteq> [] \<and> endswith s x then take (length s - length x) s else s)"

definition removeprefix :: "string \<Rightarrow> string \<Rightarrow> string" where
  "removeprefix s x = (if startswith s x then drop (length x) s else s)"

section \<open>Slices and indices\<close>

text \<open>\<open>xs[lo:hi]\<close> with Python's treatment of negative and out-of-range bounds, and \<open>xs[i]\<close>.\<close>

definition slice_bound :: "int \<Rightarrow> int \<Rightarrow> nat" where
  "slice_bound n i = nat (if i < 0 then max 0 (n + i) else min i n)"

definition slice :: "int option \<Rightarrow> int option \<Rightarrow> 'a list \<Rightarrow> 'a list" where
  "slice lo hi xs =
     (let n = int (length xs);
          l = (case lo of None \<Rightarrow> 0 | Some i \<Rightarrow> slice_bound n i);
          h = (case hi of None \<Rightarrow> length xs | Some i \<Rightarrow> slice_bound n i)
      in take (h - l) (drop l xs))"

abbreviation slice_to :: "int \<Rightarrow> 'a list \<Rightarrow> 'a list" where
  "slice_to hi xs \<equiv> slice None (Some hi) xs"

abbreviation slice_from :: "int \<Rightarrow> 'a list \<Rightarrow> 'a list" where
  "slice_from lo xs \<equiv> slice (Some lo) None xs"

definition index :: "'a list \<Rightarrow> int \<Rightarrow> exc + 'a" where
  "index xs i =
     (if i < - int (length xs) \<or> int (length xs) \<le> i then Inl IndexError
      else Inr (xs ! nat (i mod int (length xs))))"

lemma slice_to_nonneg [py_slice]: "0 \<le> k \<Longrightarrow> slice_to k xs = take (nat k) xs"
  by (cases "k \<le> int (length xs)") (auto simp: slice_def slice_bound_def min_def)

lemma slice_from_nonneg [py_slice]: "0 \<le> k \<Longrightarrow> slice_from k xs = drop (nat k) xs"
  by (auto simp: slice_def slice_bound_def Let_def min_def)

lemma slice_from_neg [py_slice]:
  assumes "0 < k"
  shows "slice_from (- k) xs = drop (length xs - nat k) xs"
proof -
  have "slice_bound (int (length xs)) (- k) = length xs - nat k"
    using assms by (simp add: slice_bound_def)
  then show ?thesis by (simp add: slice_def Let_def)
qed

lemma index_in_range [py_slice]: "i < length xs \<Longrightarrow> index xs (int i) = Inr (xs ! i)"
  by (simp add: index_def)

lemma set_slice: "set (slice lo hi xs) \<subseteq> set xs"
  by (auto simp: slice_def Let_def dest: in_set_takeD in_set_dropD)

text \<open>\<open>next((x for x in xs if p x), None)\<close> is \<open>List.find\<close>; the index of the first element
  that satisfies \<open>p\<close>, as \<open>list.index\<close> finds it.\<close>

fun first_index :: "('a \<Rightarrow> bool) \<Rightarrow> 'a list \<Rightarrow> nat option" where
  "first_index p [] = None"
| "first_index p (x # xs) = (if p x then Some 0 else map_option Suc (first_index p xs))"

lemma first_index_Some:
  "first_index p xs = Some i \<Longrightarrow> i < length xs \<and> p (xs ! i) \<and> (\<forall>j < i. \<not> p (xs ! j))"
proof (induction xs arbitrary: i)
  case Nil
  then show ?case by simp
next
  case (Cons x xs)
  show ?case
  proof (cases "p x")
    case True
    with Cons.prems show ?thesis by simp
  next
    case False
    with Cons.prems obtain k where k: "first_index p xs = Some k" and i: "i = Suc k"
      by auto
    from Cons.IH [OF k] False i show ?thesis
      by (auto simp: less_Suc_eq_0_disj)
  qed
qed

lemma first_index_None: "first_index p xs = None \<longleftrightarrow> (\<forall>x \<in> set xs. \<not> p x)"
  by (induction xs) auto

lemma filter_ConsD: "filter p xs = y # ys \<Longrightarrow> y \<in> set xs \<and> p y"
  using filter_eq_ConsD [of p xs y ys] by auto

section \<open>Decimal numerals\<close>

text \<open>\<open>str(n)\<close> for a natural number and \<open>int(s)\<close> for a string of digits.\<close>

definition digit_char :: "nat \<Rightarrow> char" where
  "digit_char d = ''0123456789'' ! d"

definition digit_value :: "char \<Rightarrow> nat" where
  "digit_value c = of_char c - 48"

fun show_nat :: "nat \<Rightarrow> string" where
  "show_nat n =
     (if n < 10 then [digit_char n] else show_nat (n div 10) @ [digit_char (n mod 10)])"

declare show_nat.simps [simp del]

definition show_int :: "int \<Rightarrow> string" where
  "show_int i = (if i < 0 then ''-'' @ show_nat (nat (- i)) else show_nat (nat i))"

fun read_nat_go :: "nat \<Rightarrow> string \<Rightarrow> nat" where
  "read_nat_go acc [] = acc"
| "read_nat_go acc (c # cs) = read_nat_go (10 * acc + digit_value c) cs"

definition read_nat :: "string \<Rightarrow> nat option" where
  "read_nat s = (if s \<noteq> [] \<and> list_all is_digit s then Some (read_nat_go 0 s) else None)"

lemma less_10_cases: "d < (10::nat) \<Longrightarrow> d \<in> {0, 1, 2, 3, 4, 5, 6, 7, 8, 9}"
  by auto

lemma digit_char_props: "d < 10 \<Longrightarrow> is_digit (digit_char d) \<and> digit_value (digit_char d) = d"
  by (drule less_10_cases) (auto simp: digit_char_def digit_value_def is_digit_def)

lemma show_nat_digits: "list_all is_digit (show_nat n) \<and> show_nat n \<noteq> []"
proof (induction n rule: show_nat.induct)
  case (1 n)
  then show ?case
    by (subst (1 2) show_nat.simps) (auto simp: digit_char_props)
qed

lemma read_nat_go_append: "read_nat_go a (s @ [c]) = 10 * read_nat_go a s + digit_value c"
  by (induction s arbitrary: a) auto

lemma read_nat_go_show: "read_nat_go 0 (show_nat n) = n"
proof (induction n rule: show_nat.induct)
  case (1 n)
  show ?case
  proof (cases "n < 10")
    case True
    then show ?thesis by (subst show_nat.simps) (simp add: digit_char_props)
  next
    case False
    with 1 have "read_nat_go 0 (show_nat (n div 10)) = n div 10" by simp
    with False show ?thesis
      by (subst show_nat.simps) (simp add: read_nat_go_append digit_char_props)
  qed
qed

lemma read_show_nat: "read_nat (show_nat n) = Some n"
  using show_nat_digits [of n] by (simp add: read_nat_def read_nat_go_show)

text \<open>
  \<open>int(s)\<close>: white space around, an optional sign, and digits with single underscores between
  them; \<open>None\<close> where Python raises \<open>ValueError\<close>.
\<close>

fun digits_ok :: "bool \<Rightarrow> string \<Rightarrow> bool" where
  "digits_ok after_digit [] = after_digit"
| "digits_ok after_digit (c # cs) =
     (if is_digit c then digits_ok True cs else c = CHR ''_'' \<and> after_digit \<and> digits_ok False cs)"

definition py_int :: "string \<Rightarrow> int option" where
  "py_int s =
     (let s = strip s;
          neg = startswith s ''-'';
          ds = (if neg \<or> startswith s ''+'' then tl s else s)
      in if digits_ok False ds
         then map_option (\<lambda>n. if neg then - int n else int n) (read_nat (filter is_digit ds))
         else None)"

lemma digits_ok_digits: "list_all is_digit s \<Longrightarrow> digits_ok b s \<longleftrightarrow> b \<or> s \<noteq> []"
  by (induction s arbitrary: b) auto

lemma digit_not_space: "is_digit c \<Longrightarrow> \<not> is_space c"
  by (auto simp: is_digit_def is_space_def)

lemma py_int_show_nat: "py_int (show_nat n) = Some (int n)"
proof -
  define s where "s = show_nat n"
  have s: "list_all is_digit s" "s \<noteq> []" using show_nat_digits by (auto simp: s_def)
  then have d: "is_digit (hd s)" "is_digit (last s)" by (auto simp: list_all_iff)
  then have st: "strip s = s" using s by (intro strip_id) (auto dest: digit_not_space)
  have sign: "\<not> startswith s ''-''" "\<not> startswith s ''+''"
    using d s by (cases s; auto simp: is_digit_def)+
  have "filter is_digit s = s" using s by (simp add: list_all_iff filter_id_conv)
  then show ?thesis
    unfolding s_def [symmetric]
    by (simp add: py_int_def st sign digits_ok_digits s) (simp add: s_def read_show_nat)
qed

lemma show_nat_inj: "show_nat m = show_nat n \<longleftrightarrow> m = n"
  by (metis read_show_nat option.inject)

end
