(* ===== verification/Regex.thy ===== *)
theory Regex
  imports Py_Prelude
begin

text \<open>
  Python's \<open>re\<close> module for the patterns the components use: a backtracking matcher as a list of
  successes. The list holds every way the pattern can match, in the order in which the
  backtracking search of \<open>re\<close> tries them, so its first element is the match \<open>re\<close> returns.
  Repetition is over a character class (no pattern here repeats a group), so the matcher is
  structurally recursive. A matcher state is the text already consumed (reversed), the text
  left, and the groups captured so far, the latest first.
\<close>

section \<open>Patterns\<close>

datatype cls =
    Chr char
  | Range char char
  | Digit      \<comment> \<open>backslash d\<close>
  | Space      \<comment> \<open>backslash s\<close>
  | WordCh     \<comment> \<open>backslash w\<close>
  | Dot        \<comment> \<open>any character but a newline\<close>
  | DotAll     \<comment> \<open>any character\<close>
  | OneOf "cls list"
  | Non cls    \<comment> \<open>complement\<close>

definition is_word :: "char \<Rightarrow> bool" where
  "is_word c =
     (let n = (of_char c :: nat) in
      (48 \<le> n \<and> n \<le> 57) \<or> (65 \<le> n \<and> n \<le> 90) \<or> n = 95 \<or> (97 \<le> n \<and> n \<le> 122) \<or>
      n = 170 \<or> n = 178 \<or> n = 179 \<or> n = 181 \<or> n = 185 \<or> n = 186 \<or> (188 \<le> n \<and> n \<le> 190) \<or>
      (192 \<le> n \<and> n \<noteq> 215 \<and> n \<noteq> 247))"

fun cls_mem :: "cls \<Rightarrow> char \<Rightarrow> bool" where
  "cls_mem (Chr d) c = (c = d)"
| "cls_mem (Range a b) c = ((of_char a :: nat) \<le> of_char c \<and> (of_char c :: nat) \<le> of_char b)"
| "cls_mem Digit c = is_digit c"
| "cls_mem Space c = is_space c"
| "cls_mem WordCh c = is_word c"
| "cls_mem Dot c = (c \<noteq> newline)"
| "cls_mem DotAll c = True"
| "cls_mem (OneOf ks) c = list_ex (\<lambda>k. cls_mem k c) ks"
| "cls_mem (Non k) c = (\<not> cls_mem k c)"

datatype re =
    Lit string
  | Cl cls
  | Seq re re
  | Alt re re
  | Opt re                            \<comment> \<open>greedy option\<close>
  | Rep bool nat "nat option" cls     \<comment> \<open>greedy?, least and greatest count, class\<close>
  | Grp nat re
  | Back nat
  | Bol bool                          \<comment> \<open>start of the text, or of a line (MULTILINE)\<close>
  | Eol bool                          \<comment> \<open>end of the text, or of a line (MULTILINE)\<close>
  | WordB                             \<comment> \<open>word boundary\<close>

fun cat :: "re list \<Rightarrow> re" where
  "cat [] = Lit []"
| "cat [r] = r"
| "cat (r # rs) = Seq r (cat rs)"

fun alts :: "string list \<Rightarrow> re" where
  "alts [] = Cl (OneOf [])"
| "alts [s] = Lit s"
| "alts (s # ss) = Alt (Lit s) (alts ss)"

abbreviation star :: "cls \<Rightarrow> re" where "star k \<equiv> Rep True 0 None k"
abbreviation plus :: "cls \<Rightarrow> re" where "plus k \<equiv> Rep True 1 None k"
abbreviation lazy_star :: "cls \<Rightarrow> re" where "lazy_star k \<equiv> Rep False 0 None k"
abbreviation lazy_plus :: "cls \<Rightarrow> re" where "lazy_plus k \<equiv> Rep False 1 None k"

section \<open>Matching\<close>

type_synonym mstate = "string \<times> string \<times> (nat \<times> string) list"

definition advance :: "mstate \<Rightarrow> nat \<Rightarrow> mstate" where
  "advance st n = (case st of (p, r, c) \<Rightarrow> (rev (take n r) @ p, drop n r, c))"

definition match_lit :: "string \<Rightarrow> mstate \<Rightarrow> mstate list" where
  "match_lit s st =
     (case st of (p, r, c) \<Rightarrow> if startswith r s then [advance st (length s)] else [])"

text \<open>How many characters of the class stand at the front of the text, up to a bound.\<close>

definition run_length :: "nat option \<Rightarrow> cls \<Rightarrow> string \<Rightarrow> nat" where
  "run_length hi k r =
     (let n = length (takeWhile (cls_mem k) r) in case hi of None \<Rightarrow> n | Some m \<Rightarrow> min m n)"

definition rep_counts :: "bool \<Rightarrow> nat \<Rightarrow> nat option \<Rightarrow> cls \<Rightarrow> string \<Rightarrow> nat list" where
  "rep_counts greedy lo hi k r =
     (let ns = [lo..<Suc (run_length hi k r)] in if greedy then rev ns else ns)"

fun at_word :: "string \<Rightarrow> bool" where
  "at_word [] = False"
| "at_word (c # cs) = is_word c"

fun rmatch :: "re \<Rightarrow> mstate \<Rightarrow> mstate list" where
  "rmatch (Lit s) st = match_lit s st"
| "rmatch (Cl k) (p, r, c) =
     (case r of [] \<Rightarrow> [] | x # xs \<Rightarrow> if cls_mem k x then [(x # p, xs, c)] else [])"
| "rmatch (Seq a b) st = concat (map (rmatch b) (rmatch a st))"
| "rmatch (Alt a b) st = rmatch a st @ rmatch b st"
| "rmatch (Opt a) st = rmatch a st @ [st]"
| "rmatch (Rep g lo hi k) (p, r, c) = map (advance (p, r, c)) (rep_counts g lo hi k r)"
| "rmatch (Grp i a) (p, r, c) =
     map (\<lambda>(p', r', c'). (p', r', (i, take (length r - length r') r) # c')) (rmatch a (p, r, c))"
| "rmatch (Back i) (p, r, c) =
     (case map_of c i of None \<Rightarrow> [] | Some s \<Rightarrow> match_lit s (p, r, c))"
| "rmatch (Bol ml) (p, r, c) =
     (if p = [] \<or> (ml \<and> hd p = newline) then [(p, r, c)] else [])"
| "rmatch (Eol ml) (p, r, c) =
     (if r = [] \<or> r = [newline] \<or> (ml \<and> hd r = newline) then [(p, r, c)] else [])"
| "rmatch WordB (p, r, c) = (if at_word p \<noteq> at_word r then [(p, r, c)] else [])"

text \<open>A match never leaves the text: what is consumed and what is left stay its two halves.\<close>

definition splits :: "mstate \<Rightarrow> mstate \<Rightarrow> bool" where
  "splits st st' \<longleftrightarrow> (\<exists>m. fst (snd st) = m @ fst (snd st') \<and> fst st' = rev m @ fst st)"

lemma splits_refl [simp]: "splits st st"
  by (simp add: splits_def)

lemma splits_trans: "splits a b \<Longrightarrow> splits b c \<Longrightarrow> splits a c"
  by (auto simp: splits_def)

lemma splits_advance [simp]: "splits st (advance st n)"
  by (cases st) (auto simp: splits_def advance_def intro!: exI [of _ "take n (fst (snd st))"])

lemma match_lit_splits: "m \<in> set (match_lit s st) \<Longrightarrow> splits st m"
  by (auto simp: match_lit_def split: prod.splits if_splits)

lemma splits_take_drop: "splits (p, r, c) (rev (take n r) @ p, drop n r, c')"
  by (auto simp: splits_def intro!: exI [of _ "take n r"])

lemma splits_caps: "splits (p, r, c) (p', r', c') \<Longrightarrow> splits (p, r, d) (p', r', d')"
  by (simp add: splits_def)

lemma rmatch_splits: "m \<in> set (rmatch r st) \<Longrightarrow> splits st m"
proof (induction r st arbitrary: m rule: rmatch.induct)
  case (2 k p r c)
  then show ?case by (auto simp: splits_def split: list.splits if_splits)
next
  case (3 a b st)
  then obtain m' where "m' \<in> set (rmatch a st)" "m \<in> set (rmatch b m')" by auto
  with 3 show ?case by (blast intro: splits_trans)
next
  case (6 g lo hi k p r c)
  then show ?case by (auto simp: advance_def splits_take_drop)
next
  case (7 i a p r c)
  then obtain p' r' c' c'' where "(p', r', c') \<in> set (rmatch a (p, r, c))" "m = (p', r', c'')"
    by auto
  with "7.IH" show ?case by (blast intro: splits_caps)
qed (auto dest: match_lit_splits split: if_splits option.splits)

lemma splits_length: "splits st st' \<Longrightarrow> length (fst (snd st')) \<le> length (fst (snd st))"
  by (auto simp: splits_def)

lemma rmatch_length: "(p', r', c') \<in> set (rmatch a (p, r, c)) \<Longrightarrow> length r' \<le> length r"
  by (drule rmatch_splits, drule splits_length) simp

section \<open>match, search, finditer, sub\<close>

definition re_match :: "re \<Rightarrow> string \<Rightarrow> mstate option" where
  "re_match a s = (case rmatch a ([], s, []) of [] \<Rightarrow> None | m # _ \<Rightarrow> Some m)"

lemma re_match_mem: "re_match a s = Some m \<Longrightarrow> m \<in> set (rmatch a ([], s, []))"
  by (auto simp: re_match_def split: list.splits)

definition group :: "mstate \<Rightarrow> nat \<Rightarrow> string option" where
  "group m i = map_of (snd (snd m)) i"

text \<open>A group in the result of \<open>findall\<close>: the empty string where it did not take part.\<close>

definition grp :: "mstate \<Rightarrow> nat \<Rightarrow> string" where
  "grp m i = (case group m i of Some g \<Rightarrow> g | None \<Rightarrow> [])"

text \<open>
  The first match at or after the current position. With \<open>adv\<close> (after an empty match) a match at
  the current position itself must not be empty.
\<close>

fun search_go :: "re \<Rightarrow> bool \<Rightarrow> string \<Rightarrow> string \<Rightarrow> (string \<times> string \<times> mstate) option" where
  "search_go a adv p [] =
     (case filter (\<lambda>m. \<not> adv) (rmatch a (p, [], [])) of m # _ \<Rightarrow> Some (p, [], m) | [] \<Rightarrow> None)"
| "search_go a adv p (x # r) =
     (case filter (\<lambda>m. \<not> adv \<or> length (fst (snd m)) < length (x # r)) (rmatch a (p, x # r, [])) of
        m # _ \<Rightarrow> Some (p, x # r, m)
      | [] \<Rightarrow> search_go a False (x # p) r)"

definition re_search :: "re \<Rightarrow> string \<Rightarrow> mstate option" where
  "re_search a s = map_option (\<lambda>(p, r, m). m) (search_go a False [] s)"

lemma search_go_mem:
  "search_go a adv p r = Some (p0, r0, m) \<Longrightarrow>
   m \<in> set (rmatch a (p0, r0, [])) \<and> rev p0 @ r0 = rev p @ r"
proof (induction r arbitrary: adv p)
  case Nil
  then show ?case by (auto split: list.splits dest!: filter_ConsD)
next
  case (Cons x r)
  then show ?case
    using Cons.IH [of False "x # p"] by (auto split: list.splits dest!: filter_ConsD)
qed

lemma search_go_length:
  "search_go a adv p r = Some (p0, r0, (p1, r1, c)) \<Longrightarrow>
   length r0 \<le> length r \<and> length r1 \<le> length r0 \<and> (adv \<longrightarrow> length r1 < length r)"
proof (induction r arbitrary: adv p)
  case Nil
  then show ?case
    by (auto split: list.splits dest!: filter_ConsD dest: rmatch_length)
next
  case (Cons x r)
  show ?case
  proof (cases "filter (\<lambda>m. \<not> adv \<or> length (fst (snd m)) < length (x # r)) (rmatch a (p, x # r, []))")
    case Nil
    with Cons.prems Cons.IH [of False "x # p"] show ?thesis by auto
  next
    case (Cons m ms)
    then have "m \<in> set (rmatch a (p, x # r, []))" "\<not> adv \<or> length (fst (snd m)) < length (x # r)"
      by (auto dest!: filter_ConsD)
    with Cons.prems Cons show ?thesis
      by (auto dest: rmatch_length)
  qed
qed

function finditer_go :: "re \<Rightarrow> bool \<Rightarrow> string \<Rightarrow> string \<Rightarrow> (string \<times> mstate) list" where
  "finditer_go a adv p r =
     (case search_go a adv p r of
        None \<Rightarrow> []
      | Some (p0, r0, (p1, r1, c)) \<Rightarrow>
          (take (length r0 - length r1) r0, (p1, r1, c))
            # finditer_go a (length r1 = length r0) p1 r1)"
  by pat_completeness auto
termination
proof (relation "measure (\<lambda>(a, adv, p, r). 2 * length r + (if adv then 0 else 1))", goal_cases)
  case 1
  show ?case by simp
next
  case (2 a adv p r x2 p0 y r0 y' p1 y'' r1 c)
  then have "length r0 \<le> length r \<and> length r1 \<le> length r0 \<and> (adv \<longrightarrow> length r1 < length r)"
    by (intro search_go_length) auto
  then show ?case by auto
qed

text \<open>\<open>finditer\<close>: the matched texts with their states; \<open>findall\<close> of a pattern with one group.\<close>

definition finditer :: "re \<Rightarrow> string \<Rightarrow> (string \<times> mstate) list" where
  "finditer a s = finditer_go a False [] s"

text \<open>\<open>re.sub(pattern, text, s)\<close> with a replacement that holds no group reference.\<close>

function sub_go :: "re \<Rightarrow> string \<Rightarrow> bool \<Rightarrow> string \<Rightarrow> string \<Rightarrow> string" where
  "sub_go a new adv p r =
     (case search_go a adv p r of
        None \<Rightarrow> r
      | Some (p0, r0, (p1, r1, c)) \<Rightarrow>
          take (length r - length r0) r @ new @ sub_go a new (length r1 = length r0) p1 r1)"
  by pat_completeness auto
termination
proof (relation "measure (\<lambda>(a, new, adv, p, r). 2 * length r + (if adv then 0 else 1))", goal_cases)
  case 1
  show ?case by simp
next
  case (2 a new adv p r x2 p0 y r0 y' p1 y'' r1 c)
  then have "length r0 \<le> length r \<and> length r1 \<le> length r0 \<and> (adv \<longrightarrow> length r1 < length r)"
    by (intro search_go_length) auto
  then show ?case by auto
qed

declare finditer_go.simps [simp del] sub_go.simps [simp del]

definition re_sub :: "re \<Rightarrow> string \<Rightarrow> string \<Rightarrow> string" where
  "re_sub a new s = sub_go a new False [] s"

section \<open>The match that backtracking finds first\<close>

text \<open>The first success of a sequence and of a greedy repetition.\<close>

definition first :: "re \<Rightarrow> mstate \<Rightarrow> mstate \<Rightarrow> bool" where
  "first a st m \<longleftrightarrow> (\<exists>ms. rmatch a st = m # ms)"

lemma first_Seq: "first a st m \<Longrightarrow> first b m m' \<Longrightarrow> first (Seq a b) st m'"
  by (auto simp: first_def)

lemma first_Lit: "first (Lit s) (p, s @ r, c) (rev s @ p, r, c)"
  by (simp add: first_def match_lit_def advance_def)

lemma first_Rep:
  assumes "\<forall>x \<in> set w. cls_mem k x" and "r = [] \<or> \<not> cls_mem k (hd r)" and "lo \<le> length w"
  shows "first (Rep True lo None k) (p, w @ r, c) (rev w @ p, r, c)"
proof -
  have "takeWhile (cls_mem k) (w @ r) = w"
    using assms(1,2) by (cases r) (auto simp: takeWhile_append2)
  then have "rep_counts True lo None k (w @ r) = rev [lo..<Suc (length w)]"
    by (simp add: rep_counts_def run_length_def)
  also have "\<dots> = length w # rev [lo..<length w]"
    using assms(3) by simp
  finally show ?thesis
    by (simp add: first_def advance_def)
qed

lemma first_Grp: "first a (p, w @ r, c) (p', r, c') \<Longrightarrow> first (Grp i a) (p, w @ r, c) (p', r, (i, w) # c')"
  by (auto simp: first_def)

lemma first_Bol: "first (Bol ml) ([], r, c) ([], r, c)"
  by (simp add: first_def)

lemma first_Eol: "first (Eol ml) (p, [], c) (p, [], c)"
  by (simp add: first_def)

lemma first_re_match: "first a ([], s, []) m \<Longrightarrow> re_match a s = Some m"
  by (auto simp: first_def re_match_def)

lemma word_no_space: "is_word c \<Longrightarrow> \<not> is_space c"
  by (auto simp: is_space_def is_word_def)

text \<open>
  \<open>re.sub\<close> with a replacement that refers to the groups of the match, and the facts on the
  patterns that end with a lazy repetition followed by a literal: the match ends at the first
  occurrence of the literal, so it is what \<open>str.partition\<close> finds.
\<close>

section \<open>\<open>re.sub\<close> with a function of the match\<close>

function sub_with_go :: "re \<Rightarrow> (mstate \<Rightarrow> string) \<Rightarrow> bool \<Rightarrow> string \<Rightarrow> string \<Rightarrow> string" where
  "sub_with_go a new adv p r =
     (case search_go a adv p r of
        None \<Rightarrow> r
      | Some (p0, r0, (p1, r1, c)) \<Rightarrow>
          take (length r - length r0) r @ new (p1, r1, c)
            @ sub_with_go a new (length r1 = length r0) p1 r1)"
  by pat_completeness auto
termination
proof (relation "measure (\<lambda>(a, new, adv, p, r). 2 * length r + (if adv then 0 else 1))", goal_cases)
  case 1
  show ?case by simp
next
  case (2 a new adv p r x2 p0 y r0 y' p1 y'' r1 c)
  then have "length r0 \<le> length r \<and> length r1 \<le> length r0 \<and> (adv \<longrightarrow> length r1 < length r)"
    by (intro search_go_length) auto
  then show ?case by auto
qed

declare sub_with_go.simps [simp del]

definition re_sub_with :: "re \<Rightarrow> (mstate \<Rightarrow> string) \<Rightarrow> string \<Rightarrow> string" where
  "re_sub_with a new s = sub_with_go a new False [] s"

section \<open>A lazy repetition up to a literal\<close>

text \<open>\<open>(.*?)lit\<close> with DOTALL.\<close>

lemma run_length_all: "run_length None DotAll r = length r"
  by (simp add: run_length_def) (metis cls_mem.simps(7) takeWhile_eq_all_conv)

lemma lazy_counts: "rep_counts False 0 None DotAll r = [0..<Suc (length r)]"
  by (simp add: rep_counts_def run_length_all)

text \<open>The first success of a lazy group, given what comes after it.\<close>

lemma lazy_group_states:
  "rmatch (Seq (Grp i (lazy_star DotAll)) k) (p, r, c) =
   concat (map (\<lambda>j. rmatch k (rev (take j r) @ p, drop j r, (i, take j r) # c)) [0..<Suc (length r)])"
proof -
  have "(\<lambda>(p', r', c'). (p', r', (i, take (length r - length r') r) # c')) (advance (p, r, c) j)
      = (rev (take j r) @ p, drop j r, (i, take j r) # c)" if "j < Suc (length r)" for j
    using that by (simp add: advance_def)
  then show ?thesis
    by (auto simp: lazy_counts comp_def simp del: upt_Suc intro!: arg_cong [of _ _ concat])
qed

lemma first_lazy:
  assumes "\<And>j. j < n \<Longrightarrow> rmatch k (rev (take j r) @ p, drop j r, (i, take j r) # c) = []"
    and "first k (rev (take n r) @ p, drop n r, (i, take n r) # c) m" and "n \<le> length r"
  shows "first (Seq (Grp i (lazy_star DotAll)) k) (p, r, c) m"
proof -
  let ?f = "\<lambda>j. rmatch k (rev (take j r) @ p, drop j r, (i, take j r) # c)"
  have "[0..<Suc (length r)] = [0..<n] @ [n..<Suc (length r)]"
    using assms(3) upt_add_eq_append [of 0 n "Suc (length r) - n"] by simp
  also have "[n..<Suc (length r)] = n # [Suc n..<Suc (length r)]"
    using assms(3) by (simp only: upt_conv_Cons)
  finally have "concat (map ?f [0..<Suc (length r)])
      = concat (map ?f [0..<n]) @ ?f n @ concat (map ?f [Suc n..<Suc (length r)])"
    by (simp only: map_append concat_append list.map concat.simps)
  moreover have "concat (map ?f [0..<n]) = []"
    using assms(1) by simp
  ultimately show ?thesis
    using assms(2) by (auto simp only: first_def lazy_group_states append_Nil append_Cons)
qed

section \<open>Occurrences of a text\<close>

lemma cut_startswith:
  "cut l s = Some (a, b) \<Longrightarrow> l \<noteq> [] \<Longrightarrow> i < length a \<Longrightarrow> \<not> startswith (drop i s) l"
proof (induction s arbitrary: a i)
  case Nil
  then show ?case by (auto split: if_splits)
next
  case (Cons x s)
  then show ?case by (cases i) (auto split: if_splits)
qed

lemma startswith_take: "startswith s l \<longleftrightarrow> take (length l) s = l"
  by (metis append_eq_conv_conj append_take_drop_id startswith_iff)

lemma contains_set: "contains s l \<Longrightarrow> set l \<subseteq> set s"
  by (auto simp: contains_iff)

lemma contains_intros [simp]: "contains (a @ l @ b) l" "contains (l @ b) l" "contains (a @ l) l" "contains l l"
  by (auto simp: contains_iff) (metis append_Nil append_Nil2)+

lemma contains_append1: "contains x l \<Longrightarrow> contains (x @ y) l"
  by (auto simp: contains_iff [of x])

lemma contains_append2: "contains y l \<Longrightarrow> contains (x @ y) l"
  by (auto simp: contains_iff) (metis append_assoc)

lemma cut_at:
  assumes "\<not> contains (u @ butlast l) l" and "l \<noteq> []"
  shows "cut l (u @ l @ r) = Some (u, r)"
  using assms(1)
proof (induction u)
  case Nil
  have "startswith (l @ r) l" by simp
  then show ?case using assms(2) by (cases l) auto
next
  case (Cons x u)
  have "take (length l) (x # u @ l @ r) = take (length l) (x # u @ butlast l)"
    using assms(2) by (cases l rule: rev_cases) (auto simp: take_Cons' butlast_append)
  then have "\<not> startswith (x # u @ l @ r) l"
    using Cons.prems by (simp add: startswith_take)
  with Cons show ?case by simp
qed

text \<open>A text whose first character occurs only there overlaps no other occurrence of itself.\<close>

definition unbordered :: "string \<Rightarrow> bool" where
  "unbordered l \<longleftrightarrow> l \<noteq> [] \<and> hd l \<notin> set (tl l)"

lemma contains_append_start:
  assumes "unbordered l" and "y \<noteq> []" and "hd y = hd l"
  shows "contains (x @ y) l \<longleftrightarrow> contains x l \<or> contains y l"
proof
  assume "contains (x @ y) l"
  then obtain a b where "x @ y = a @ l @ b" by (auto simp: contains_iff)
  then consider u where "x = a @ u" "u @ y = l @ b" | u where "a = x @ u" "y = u @ l @ b"
    by (auto simp: append_eq_append_conv2)
  then show "contains x l \<or> contains y l"
  proof cases
    case 1
    from 1(2) consider v where "u = l @ v" | v where "u @ v = l" "y = v @ b"
      by (auto simp: append_eq_append_conv2)
    then show ?thesis
    proof cases
      case 1
      with \<open>x = a @ u\<close> show ?thesis by (auto simp: contains_iff)
    next
      case 2
      show ?thesis
      proof (cases "u = [] \<or> v = []")
        case True
        with 2 \<open>x = a @ u\<close> show ?thesis by (auto simp del: append_assoc)
      next
        case False
        with 2 assms(3) have "l = u @ hd l # tl v" by (cases v) auto
        with False have "hd l \<in> set (tl l)" by (metis in_set_conv_decomp tl_append2)
        with assms(1) show ?thesis by (simp add: unbordered_def)
      qed
    qed
  next
    case 2
    then show ?thesis by (auto simp: contains_iff)
  qed
qed (auto intro: contains_append1 contains_append2)

lemma contains_mid:
  assumes "c \<notin> set l" and "l \<noteq> []"
  shows "contains (x @ c # y) l \<longleftrightarrow> contains x l \<or> contains y l"
proof
  assume "contains (x @ c # y) l"
  then obtain a b where "x @ c # y = a @ l @ b" by (auto simp: contains_iff)
  then consider u where "x = a @ u" "u @ c # y = l @ b" | u where "a = x @ u" "c # y = u @ l @ b"
    by (auto simp: append_eq_append_conv2)
  then show "contains x l \<or> contains y l"
  proof cases
    case 1
    from 1(2) consider v where "u = l @ v" | v where "u @ v = l" "c # y = v @ b"
      by (auto simp: append_eq_append_conv2)
    then show ?thesis
    proof cases
      case 1
      with \<open>x = a @ u\<close> show ?thesis by (auto simp: contains_iff)
    next
      case 2
      with assms(1) have "v = []" by (cases v) auto
      with 2 \<open>x = a @ u\<close> show ?thesis by simp
    qed
  next
    case 2
    with assms(2) show ?thesis
    proof (cases u)
      case Nil
      with 2 assms show ?thesis by (cases l) auto
    next
      case (Cons d u')
      with 2 show ?thesis by (auto simp: contains_iff)
    qed
  qed
next
  have "x @ c # y = (x @ [c]) @ y" by simp
  then show "contains x l \<or> contains y l \<Longrightarrow> contains (x @ c # y) l"
    by (metis contains_append1 contains_append2)
qed

lemma cut_unbordered:
  assumes "unbordered l" and "\<not> contains u l"
  shows "cut l (u @ l @ r) = Some (u, r)"
proof -
  have l: "l \<noteq> []" using assms(1) by (simp add: unbordered_def)
  have "\<not> contains (u @ butlast l) l"
  proof (cases "butlast l")
    case Nil
    then show ?thesis using assms(2) by simp
  next
    case (Cons a w)
    then have "hd (butlast l) = hd l" by (metis append_butlast_last_id hd_append2 l list.distinct(1))
    moreover have "\<not> contains (butlast l) l"
    proof
      assume "contains (butlast l) l"
      then obtain a b where "butlast l = a @ l @ b" by (auto simp: contains_iff)
      then have "length (butlast l) = length a + length l + length b" by (metis add.assoc length_append)
      moreover have "length (butlast l) < length l" using l by simp
      ultimately show False by linarith
    qed
    ultimately show ?thesis
      using contains_append_start [OF assms(1), of "butlast l" u] assms(2) Cons by simp
  qed
  with l show ?thesis by (simp add: cut_at)
qed

section \<open>Searching a pattern that begins with a literal\<close>

lemma search_lit:
  assumes "cut l r = Some (x, y)" and "l \<noteq> []" and "first a (rev l @ rev x @ p, y, []) m"
  shows "search_go (Seq (Lit l) a) False p r = Some (rev x @ p, l @ y, m)"
  using assms(1,3)
proof (induction r arbitrary: x p)
  case Nil
  then show ?case using assms(2) by (auto split: if_splits)
next
  case (Cons z r)
  show ?case
  proof (cases "startswith (z # r) l")
    case True
    with Cons.prems(1) have xy: "x = []" "y = drop (length l) (z # r)" by auto
    from True have zr: "z # r = l @ y" unfolding xy(2) by (rule startswith_drop)
    then have "rmatch (Lit l) (p, z # r, []) = [(rev l @ p, y, [])]"
      by (simp add: match_lit_def advance_def)
    then obtain ms where "rmatch (Seq (Lit l) a) (p, z # r, []) = m # ms"
      using Cons.prems(2) xy(1) by (auto simp: first_def)
    then have "search_go (Seq (Lit l) a) False p (z # r) = Some (p, z # r, m)"
      by (simp del: rmatch.simps)
    then show ?thesis using xy(1) zr by (simp del: search_go.simps)
  next
    case False
    with Cons.prems(1) obtain x' where x: "x = z # x'" "cut l r = Some (x', y)" by auto
    with Cons.IH [of x' "z # p"] Cons.prems(2) False show ?thesis
      by (simp add: match_lit_def)
  qed
qed

lemma search_lit_none:
  "\<not> contains r l \<Longrightarrow> search_go (Seq (Lit l) a) adv p r = None"
proof (induction r arbitrary: adv p)
  case Nil
  then show ?case by (cases l) (auto simp: match_lit_def)
next
  case (Cons z r)
  then show ?case by (simp add: match_lit_def)
qed

text \<open>Text without an occurrence of the literal is passed over.\<close>

lemma search_skip:
  assumes "cut l (x @ y) = Some (x, z)" and "l \<noteq> []"
  shows "search_go (Seq (Lit l) a) False p (x @ y) = search_go (Seq (Lit l) a) False (rev x @ p) y"
  using assms(1)
proof (induction x arbitrary: p)
  case (Cons c x)
  then have "\<not> startswith (c # x @ y) l" "cut l (x @ y) = Some (x, z)"
    by (auto split: if_splits)
  with Cons.IH [of "c # p"] show ?case by (simp add: match_lit_def)
qed simp

end
