(* ===== verification/SB_Constants.thy ===== *)
theory SB_Constants
  imports Regex
begin

text \<open>
  The constants of \<open>SWE-bench/swebench/harness/constants/__init__.py\<close> that the log parsers,
  the grading and the reports use, and the fields of a test specification they read.
\<close>

datatype TestStatus = FAILED | PASSED | SKIPPED | ERROR | XFAIL

text \<open>\<open>TestStatus.X.value\<close>, and the members in the order the enumeration iterates them.\<close>

fun test_status_value :: "TestStatus \<Rightarrow> string" where
  "test_status_value FAILED = ''FAILED''"
| "test_status_value PASSED = ''PASSED''"
| "test_status_value SKIPPED = ''SKIPPED''"
| "test_status_value ERROR = ''ERROR''"
| "test_status_value XFAIL = ''XFAIL''"

definition all_test_status :: "TestStatus list" where
  "all_test_status = [FAILED, PASSED, SKIPPED, ERROR, XFAIL]"

definition status_values :: "string list" where
  "status_values = map test_status_value all_test_status"

datatype ResolvedStatus = RESOLVED_NO | RESOLVED_PARTIAL | RESOLVED_FULL

fun resolved_status_value :: "ResolvedStatus \<Rightarrow> string" where
  "resolved_status_value RESOLVED_NO = ''RESOLVED_NO''"
| "resolved_status_value RESOLVED_PARTIAL = ''RESOLVED_PARTIAL''"
| "resolved_status_value RESOLVED_FULL = ''RESOLVED_FULL''"

datatype EvalType = PASS_AND_FAIL | FAIL_ONLY

definition APPLY_PATCH_FAIL :: string where "APPLY_PATCH_FAIL = ''>>>>> Patch Apply Failed''"
definition RESET_FAILED :: string where "RESET_FAILED = ''>>>>> Reset Failed''"
definition TESTS_ERROR :: string where "TESTS_ERROR = ''>>>>> Tests Errored''"
definition TESTS_TIMEOUT :: string where "TESTS_TIMEOUT = ''>>>>> Tests Timed Out''"
definition START_TEST_OUTPUT :: string where "START_TEST_OUTPUT = ''>>>>> Start Test Output''"
definition END_TEST_OUTPUT :: string where "END_TEST_OUTPUT = ''>>>>> End Test Output''"

definition FAIL_ONLY_REPOS :: "string list" where
  "FAIL_ONLY_REPOS = [''chartjs/Chart.js'', ''processing/p5.js'', ''markedjs/marked'']"

record test_spec =
  ts_instance_id :: string
  ts_repo :: string
  ts_version :: string
  ts_fail_to_pass :: "string list"
  ts_pass_to_pass :: "string list"

text \<open>A status map, as the log parsers return it, and a parser.\<close>

type_synonym status_map = "(string, string) pydict"
type_synonym log_parser = "string \<Rightarrow> test_spec \<Rightarrow> exc + status_map"

lemma test_status_value_inj: "test_status_value a = test_status_value b \<Longrightarrow> a = b"
  by (cases a; cases b) simp_all

lemma all_test_status_complete: "x \<in> set all_test_status"
  by (cases x) (simp_all add: all_test_status_def)

lemma status_values_iff: "v \<in> set status_values \<longleftrightarrow> (\<exists>s. v = test_status_value s)"
  by (auto simp: status_values_def all_test_status_complete)

lemma status_values_simps [simp]:
  "''FAILED'' \<in> set status_values" "''PASSED'' \<in> set status_values"
  "''SKIPPED'' \<in> set status_values" "''ERROR'' \<in> set status_values"
  "''XFAIL'' \<in> set status_values"
  by (simp_all add: status_values_def all_test_status_def)

end
