(* ===== verification/Log_Parsers.thy ===== *)
theory Log_Parsers
  imports SB_Constants
begin

text \<open>
  The log parsers of \<open>SWE-bench/swebench/harness/log_parsers/\<close> for C, Go, Java, JavaScript,
  Ruby and Rust. Each goes over the lines of the log and stores at most one status per line;
  that contract is the locale \<open>status_line_parser\<close>, whose lemmas hold of every parser here.
  A branch for a group that the pattern always captures has no counterpart in the code and
  returns the map unchanged. Not here: the parsers whose markers lie outside the character
  model (jest, vitest, karma, calypso, phpunit) and the one that parses XML (doctest).
\<close>

section \<open>The contract of a line parser\<close>

definition log_lines :: "string \<Rightarrow> string list" where
  "log_lines log = split_on [newline] log"

text \<open>A status map names each test once and holds only values of \<open>TestStatus\<close>.\<close>

definition statuses :: "status_map \<Rightarrow> bool" where
  "statuses d \<longleftrightarrow> (\<forall>(k, v) \<in> set d. v \<in> set status_values)"

definition status_map_ok :: "status_map \<Rightarrow> bool" where
  "status_map_ok d \<longleftrightarrow> distinct (keys d) \<and> statuses d"

lemma statuses_simps [simp]:
  "statuses []" "statuses ((k, v) # d) \<longleftrightarrow> v \<in> set status_values \<and> statuses d"
  by (simp_all add: statuses_def)

lemma statuses_set [simp]:
  assumes "statuses d" and "v \<in> set status_values"
  shows "statuses (dict_set d k v)"
  unfolding statuses_def
proof clarify
  fix a b assume "(a, b) \<in> set (dict_set d k v)"
  from dict_set_values [OF this] assms show "b \<in> set status_values"
    by (auto simp: statuses_def)
qed

lemma status_map_ok_Nil [simp]: "status_map_ok []"
  by (simp add: status_map_ok_def)

lemma status_map_ok_set [simp]:
  "status_map_ok d \<Longrightarrow> v \<in> set status_values \<Longrightarrow> status_map_ok (dict_set d test v)"
  unfolding status_map_ok_def using distinct_dict_set statuses_set by blast

lemma status_map_ok_update: "status_map_ok d \<Longrightarrow> statuses e \<Longrightarrow> status_map_ok (dict_update d e)"
  by (induction d e rule: dict_update.induct) auto

text \<open>
  A parser that keeps a state while it goes over the lines, and may raise: every line keeps the
  map in the state well-formed.
\<close>

locale status_parser =
  fixes step :: "string \<Rightarrow> 's \<Rightarrow> exc + 's" and view :: "'s \<Rightarrow> status_map"
  assumes step_ok:
    "step line s = Inr s' \<Longrightarrow> status_map_ok (view s) \<Longrightarrow> status_map_ok (view s')"
begin

lemma run_ok: "foldE step ls s = Inr s' \<Longrightarrow> status_map_ok (view s) \<Longrightarrow> status_map_ok (view s')"
  by (erule foldE_invariant) (auto intro: step_ok)

end

text \<open>
  A parser without any other state: what a line adds is its verdict, the map it gives on its own.
\<close>

locale verdict_parser =
  fixes step :: "string \<Rightarrow> status_map \<Rightarrow> status_map"
  assumes verdict: "step line d = dict_update d (step line [])"
begin

lemma fold_verdicts: "fold step ls d = dict_update d (concat (map (\<lambda>l. step l []) ls))"
proof (induction ls arbitrary: d)
  case Nil
  then show ?case by simp
next
  case (Cons l ls)
  show ?case
    using Cons.IH [of "step l d"] verdict [of l d] by (simp add: dict_update_append)
qed

text \<open>The last line with a verdict on a test decides.\<close>

lemma last_verdict:
  "map_of (fold step ls []) test = map_of (rev (concat (map (\<lambda>l. step l []) ls))) test"
  unfolding fold_verdicts by (simp add: map_of_dict_update_rev)

lemma fold_distinct: "distinct (keys (fold step ls []))"
  unfolding fold_verdicts by (rule distinct_dict_update) simp

text \<open>Parsing two logs, one after the other, is parsing them separately and merging the maps.\<close>

lemma parse_append:
  "fold step (log_lines (a @ newline # b)) [] =
   dict_update (fold step (log_lines a) []) (concat (map (\<lambda>l. step l []) (log_lines b)))"
proof -
  have "log_lines (a @ newline # b) = log_lines a @ log_lines b"
    by (simp add: log_lines_def split_on_char_append)
  then show ?thesis
    by (simp add: fold_verdicts dict_update_append)
qed

lemma parse_append_map:
  "map_of (fold step (log_lines (a @ newline # b)) []) =
   map_of (fold step (log_lines a) []) ++ map_of (fold step (log_lines b) [])"
  unfolding parse_append
  by (rule ext) (simp add: map_of_dict_update_rev map_add_def last_verdict)

end

locale line_parser = verdict_parser +
  assumes verdict_statuses: "statuses (step line [])"

sublocale line_parser \<subseteq> status_parser "\<lambda>line d. Inr (step line d)" "\<lambda>d. d"
proof
  fix line and s s' :: status_map
  assume "(Inr (step line s) :: exc + status_map) = Inr s'" and "status_map_ok s"
  moreover have "status_map_ok (dict_update s (step line []))" if "status_map_ok s"
    using that verdict_statuses by (rule status_map_ok_update)
  ultimately show "status_map_ok s'"
    using verdict [of line s] by simp
qed

context line_parser begin

lemma fold_ok: "status_map_ok (fold step ls [])"
  using run_ok [of ls "[]" "fold step ls []"] by (simp add: foldE_Inr)

end

text \<open>\<open>re.match(pattern, line.strip())\<close> with two groups, as most parsers use it.\<close>

definition match2 :: "re \<Rightarrow> nat \<Rightarrow> nat \<Rightarrow> string \<Rightarrow> (string \<times> string) option" where
  "match2 pat i j line =
     (case re_match pat line of
        None \<Rightarrow> None
      | Some m \<Rightarrow> (case (group m i, group m j) of (Some a, Some b) \<Rightarrow> Some (a, b) | _ \<Rightarrow> None))"

section \<open>Go: \<open>go.py\<close>\<close>

definition gotest_pattern :: re where
  "gotest_pattern = cat [Bol False, Lit ''--- '', Grp 1 (alts [''PASS'', ''FAIL'', ''SKIP'']),
     Lit '': '', Grp 2 (plus Dot), Lit '' ('', Grp 3 (plus Dot), Lit '')'', Eol False]"

definition gotest_step :: "string \<Rightarrow> status_map \<Rightarrow> status_map" where
  "gotest_step line d =
     (case match2 gotest_pattern 1 2 (strip line) of
        None \<Rightarrow> d
      | Some (status, test_name) \<Rightarrow>
          if status = ''PASS'' then dict_set d test_name (test_status_value PASSED)
          else if status = ''FAIL'' then dict_set d test_name (test_status_value FAILED)
          else if status = ''SKIP'' then dict_set d test_name (test_status_value SKIPPED)
          else d)"

definition parse_log_gotest :: log_parser where
  "parse_log_gotest log spec = Inr (fold gotest_step (log_lines log) [])"

section \<open>Rust: \<open>rust.py\<close>\<close>

definition cargo_pattern :: re where
  "cargo_pattern = cat [Bol False, Lit ''test'', plus Space, Grp 1 (plus (Non Space)), plus Space,
     Lit ''...'', plus Space, Grp 2 (plus WordCh), Eol False]"

definition cargo_step :: "string \<Rightarrow> status_map \<Rightarrow> status_map" where
  "cargo_step line d =
     (case match2 cargo_pattern 1 2 (strip line) of
        None \<Rightarrow> d
      | Some (test_name, outcome) \<Rightarrow>
          if outcome = ''ok'' then dict_set d test_name (test_status_value PASSED)
          else if outcome = ''FAILED'' then dict_set d test_name (test_status_value FAILED)
          else d)"

definition parse_log_cargo :: log_parser where
  "parse_log_cargo log spec = Inr (fold cargo_step (log_lines log) [])"

section \<open>C: \<open>c.py\<close>\<close>

definition redis_pattern :: re where
  "redis_pattern = cat [Bol False, Lit ''['', Grp 1 (alts [''ok'', ''err'', ''skip'', ''ignore'']),
     Lit '']:'', Cl Space, Grp 2 (lazy_plus Dot),
     Opt (cat [Cl Space, Lit ''('',
       Grp 3 (cat [plus Digit, star Space, Opt (Lit ''m''), Lit ''s'']), Lit '')'']),
     Eol False]"

text \<open>The path that a failed test's name ends in is cut off by a substitution.\<close>

definition redis_path_pattern :: re where
  "redis_path_pattern = cat [plus Space, Lit ''in'', plus Space, plus (Non Space), Eol False]"

definition redis_step :: "string \<Rightarrow> status_map \<Rightarrow> status_map" where
  "redis_step line d =
     (case match2 redis_pattern 1 2 (strip line) of
        None \<Rightarrow> d
      | Some (status, test_name) \<Rightarrow>
          if status = ''ok'' then dict_set d test_name (test_status_value PASSED)
          else if status = ''err'' then
            (let test_name = re_sub redis_path_pattern [] test_name
             in dict_set d test_name (test_status_value FAILED))
          else if status = ''skip'' \<or> status = ''ignore'' then
            dict_set d test_name (test_status_value SKIPPED)
          else d)"

definition parse_log_redis :: log_parser where
  "parse_log_redis log spec = Inr (fold redis_step (log_lines log) [])"

definition jq_pattern :: re where
  "jq_pattern = cat [Bol False, star Space, Grp 1 (alts [''PASS'', ''FAIL'']), Lit '':'', Cl Space,
     Grp 2 (plus Dot), Eol False]"

definition jq_step :: "string \<Rightarrow> status_map \<Rightarrow> status_map" where
  "jq_step line d =
     (case match2 jq_pattern 1 2 (strip line) of
        None \<Rightarrow> d
      | Some (status, test_name) \<Rightarrow>
          if status = ''PASS'' then dict_set d test_name (test_status_value PASSED)
          else if status = ''FAIL'' then dict_set d test_name (test_status_value FAILED)
          else d)"

definition parse_log_jq :: log_parser where
  "parse_log_jq log spec = Inr (fold jq_step (log_lines log) [])"

definition micropython_pattern :: re where
  "micropython_pattern = cat [Bol False, Grp 1 (alts [''pass'', ''FAIL'', ''skip'']), plus Space,
     Grp 2 (plus Dot), Eol False]"

definition micropython_step :: "string \<Rightarrow> status_map \<Rightarrow> status_map" where
  "micropython_step line d =
     (case match2 micropython_pattern 1 2 (strip line) of
        None \<Rightarrow> d
      | Some (status, test_name) \<Rightarrow>
          if status = ''pass'' then dict_set d test_name (test_status_value PASSED)
          else if status = ''FAIL'' then dict_set d test_name (test_status_value FAILED)
          else if status = ''skip'' then dict_set d test_name (test_status_value SKIPPED)
          else d)"

definition parse_log_micropython_test :: log_parser where
  "parse_log_micropython_test log spec = Inr (fold micropython_step (log_lines log) [])"

definition googletest_pattern :: re where
  "googletest_pattern = cat [Bol False, star Dot, Lit ''['', star Space,
     Grp 1 (alts [''OK'', ''FAILED'']), star Space, Lit '']'', Cl Space, Grp 2 (star Dot),
     Cl Space, Lit ''('', star Dot, Lit '')'', Eol False]"

definition googletest_step :: "string \<Rightarrow> status_map \<Rightarrow> status_map" where
  "googletest_step line d =
     (case match2 googletest_pattern 1 2 (strip line) of
        None \<Rightarrow> d
      | Some (status, test_name) \<Rightarrow>
          if status = ''OK'' then dict_set d test_name (test_status_value PASSED)
          else if status = ''FAILED'' then dict_set d test_name (test_status_value FAILED)
          else d)"

definition parse_log_googletest :: log_parser where
  "parse_log_googletest log spec = Inr (fold googletest_step (log_lines log) [])"

section \<open>Every parser meets the contract\<close>

interpretation gotest: line_parser gotest_step
  by unfold_locales (auto simp: gotest_step_def split: option.splits)

interpretation cargo: line_parser cargo_step
  by unfold_locales (auto simp: cargo_step_def split: option.splits)

interpretation redis: line_parser redis_step
  by unfold_locales (auto simp: redis_step_def Let_def split: option.splits)

interpretation jq: line_parser jq_step
  by unfold_locales (auto simp: jq_step_def split: option.splits)

interpretation micropython: line_parser micropython_step
  by unfold_locales (auto simp: micropython_step_def split: option.splits)

interpretation googletest: line_parser googletest_step
  by unfold_locales (auto simp: googletest_step_def split: option.splits)

end
