(* ===== verification/Log_Parsers_JS.thy ===== *)
theory Log_Parsers_JS
  imports Log_Parsers
begin

text \<open>
  The log parsers of \<open>SWE-bench/swebench/harness/log_parsers/javascript.py\<close> whose markers are
  Latin-1 characters: Chart.js, marked, p5.js, react-pdf, Jest's JSON output and TAP. The main
  lemma is that the loop of p5.js that removes XML blocks ends: each round shortens the text.
\<close>

section \<open>ANSI escape sequences: \<open>ansi_escape\<close> of \<open>utils.py\<close>\<close>

definition ansi_pattern :: re where
  "ansi_pattern = Seq (Lit [CHR 0x1B])
     (Alt (Cl (OneOf [Range CHR 0x40 CHR 0x5A, Range CHR 0x5C CHR 0x5F]))
       (cat [Lit ''['', star (Range CHR 0x30 CHR 0x3F), star (Range CHR 0x20 CHR 0x2F),
             Cl (Range CHR 0x40 CHR 0x7E)]))"

definition ansi_escape :: "string \<Rightarrow> string" where
  "ansi_escape text = re_sub ansi_pattern [] text"

section \<open>Chart.js and marked\<close>

definition gap :: cls where
  "gap = Non (OneOf [Non Space, Chr CHR 0x0D, Chr CHR 0x0A])"

definition chart_pattern :: re where
  "chart_pattern = cat [Lit ''Chrome'', Cl Space, plus (OneOf [Digit, Chr CHR ''.'']), Cl gap,
     Lit ''('', lazy_plus Dot, Lit '')'', Cl gap, Grp 1 (star Dot), Lit ''FAILED'', Eol True]"

text \<open>\<open>re.findall\<close> of a pattern with one group.\<close>

definition findall1 :: "re \<Rightarrow> string \<Rightarrow> string list" where
  "findall1 a s = map (\<lambda>(t, m). grp m 1) (finditer a s)"

definition parse_log_chart_js :: log_parser where
  "parse_log_chart_js log spec =
     Inr (fold (\<lambda>failure d. dict_set d failure (test_status_value FAILED))
           (findall1 chart_pattern (ansi_escape log)) [])"

definition marked_pattern :: re where
  "marked_pattern = cat [Bol False, plus Digit, Lit '')'', Cl Space, Grp 1 (star Dot)]"

definition marked_step :: "string \<Rightarrow> status_map \<Rightarrow> status_map" where
  "marked_step line d =
     (case re_search marked_pattern line of
        None \<Rightarrow> d
      | Some m \<Rightarrow> (case group m 1 of
            None \<Rightarrow> d
          | Some test \<Rightarrow> dict_set d (strip test) (test_status_value FAILED)))"

definition parse_log_marked :: log_parser where
  "parse_log_marked log spec = Inr (fold marked_step (log_lines log) [])"

section \<open>p5.js\<close>

text \<open>\<open>remove_json_blocks\<close>: the lines kept (reversed) and the two flags.\<close>

definition json_step :: "string \<Rightarrow> string list \<times> bool \<times> bool \<Rightarrow> string list \<times> bool \<times> bool" where
  "json_step line s =
     (let (filtered, in_block, in_list) = s; stripped = rstrip line in
      if endswith stripped ''{'' then (filtered, True, in_list)
      else if endswith stripped ''['' then (filtered, in_block, True)
      else if stripped = ''}'' \<and> in_block then (filtered, False, in_list)
      else if stripped = '']'' \<and> in_list then (filtered, in_block, False)
      else if in_block \<or> in_list then s
      else if startswith stripped ''{'' \<and> endswith stripped ''}'' then s
      else if startswith stripped ''['' \<and> endswith stripped '']'' then s
      else (line # filtered, in_block, in_list))"

definition remove_json_blocks :: "string \<Rightarrow> string" where
  "remove_json_blocks log_content =
     join [newline] (rev (fst (fold json_step (log_lines log_content) ([], False, False))))"

definition xml_pat :: re where
  "xml_pat = cat [Lit ''<'', Grp 1 (plus WordCh), Lit ''>'', lazy_star DotAll, Lit ''</'', Back 1,
     Lit ''>'']"

text \<open>\<open>s.count(sub)\<close>: the occurrences that do not overlap.\<close>

definition count_str :: "string \<Rightarrow> string \<Rightarrow> nat" where
  "count_str s sub = length (split_on sub s) - 1"

lemma length_join: "xs \<noteq> [] \<Longrightarrow> (length xs - 1) * length sep \<le> length (join sep xs)"
proof (induction sep xs rule: join.induct)
  case (3 sep x y zs)
  then have "length zs * length sep \<le> length (join sep (y # zs))" by simp
  then show ?case by simp
qed auto

lemma count_str_le: "sub \<noteq> [] \<Longrightarrow> count_str s sub * length sub \<le> length s"
  using length_join [of "split_on sub s" sub] by (simp add: count_str_def join_split_on)

text \<open>One round of \<open>remove_xml_blocks\<close>: the first block goes; tags that opened inside it stay.\<close>

definition xml_open :: "string \<Rightarrow> string" where
  "xml_open tag = ''<'' @ tag @ ''>''"

definition xml_round :: "string \<Rightarrow> string option" where
  "xml_round log_content =
     (case search_go xml_pat False [] log_content of
        None \<Rightarrow> None
      | Some (p0, r0, (p1, r1, c)) \<Rightarrow>
          (let tag = (case map_of c 1 of Some t \<Rightarrow> t | None \<Rightarrow> []);
               block = take (length r0 - length r1) r0;
               opening_tags = count_str block (xml_open tag) - 1
           in Some (rev p0 @ concat (replicate opening_tags (xml_open tag)) @ r1)))"

lemma xml_pat_progress:
  assumes "(p', r', c') \<in> set (rmatch xml_pat (p, r, []))"
  shows "length r' < length r"
proof -
  obtain rest where rest: "xml_pat = Seq (Lit ''<'') rest" by (simp add: xml_pat_def)
  from assms [unfolded rest] obtain st where st: "st \<in> set (match_lit ''<'' (p, r, []))"
      and m: "(p', r', c') \<in> set (rmatch rest st)"
    by auto
  from m have "length r' \<le> length (fst (snd st))"
    using splits_length [OF rmatch_splits] by fastforce
  with st show ?thesis
    by (auto simp: match_lit_def advance_def startswith_iff split: if_splits)
qed

lemma xml_round_shorter: "xml_round s = Some s' \<Longrightarrow> length s' < length s"
proof -
  assume "xml_round s = Some s'"
  then obtain p0 r0 p1 r1 c where
    go: "search_go xml_pat False [] s = Some (p0, r0, (p1, r1, c))"
    by (auto simp: xml_round_def split: option.splits)
  define tag where "tag = (case map_of c 1 of Some t \<Rightarrow> t | None \<Rightarrow> [])"
  define block where "block = take (length r0 - length r1) r0"
  define k where "k = count_str block (xml_open tag)"
  have s': "s' = rev p0 @ concat (replicate (k - 1) (xml_open tag)) @ r1"
    using \<open>xml_round s = Some s'\<close> go
    by (auto simp: xml_round_def tag_def block_def k_def Let_def)
  from search_go_mem [OF go] have s: "s = rev p0 @ r0" and lt: "length r1 < length r0"
    by (auto dest: xml_pat_progress)
  have le: "k * length (xml_open tag) \<le> length block"
    unfolding k_def by (rule count_str_le) (simp add: xml_open_def)
  have block: "length block = length r0 - length r1" by (simp add: block_def)
  have "(k - 1) * length (xml_open tag) < length r0 - length r1"
  proof (cases k)
    case 0
    with lt show ?thesis by simp
  next
    case (Suc j)
    have "0 < length (xml_open tag)" by (simp add: xml_open_def)
    moreover have "length (xml_open tag) + j * length (xml_open tag) \<le> length r0 - length r1"
      using le Suc block by simp
    ultimately show ?thesis unfolding Suc diff_Suc_1 by linarith
  qed
  then show ?thesis
    by (simp add: s s' length_concat sum_list_replicate)
qed

function remove_xml_blocks :: "string \<Rightarrow> string" where
  "remove_xml_blocks log_content =
     (case xml_round log_content of None \<Rightarrow> log_content | Some s \<Rightarrow> remove_xml_blocks s)"
  by pat_completeness auto
termination
  by (relation "measure length") (auto dest: xml_round_shorter)

declare remove_xml_blocks.simps [simp del]

definition indent_of :: "string \<Rightarrow> nat" where
  "indent_of line = length line - length (lstrip line)"

text \<open>\<open>is_valid_fail\<close>: the lines of the name are indented more and more.\<close>

fun indents_grow :: "nat \<Rightarrow> string list \<Rightarrow> bool" where
  "indents_grow prev [] = True"
| "indents_grow prev (line # ls) =
     (if indent_of line \<le> prev then False else indents_grow (indent_of line) ls)"

definition is_valid_fail :: "string \<Rightarrow> bool" where
  "is_valid_fail name = indents_grow 0 (split_on [newline] name)"

definition p5js_fail_pattern :: re where
  "p5js_fail_pattern = cat [Bol True, star Space, Grp 1 (plus Digit), Lit '')'',
     Grp 2 (Rep False 0 (Some 1000) DotAll), Lit '':'']"

definition p5js_add :: "string \<Rightarrow> status_map \<Rightarrow> status_map" where
  "p5js_add name d =
     (if is_valid_fail name then
        dict_set d (join '':'' (map strip (split_on [newline] name))) (test_status_value FAILED)
      else d)"

definition parse_log_p5js :: log_parser where
  "parse_log_p5js log spec =
     (let log = remove_xml_blocks (remove_json_blocks (ansi_escape log));
          names = map (\<lambda>(t, m). grp m 2) (finditer p5js_fail_pattern log)
      in Inr (fold p5js_add names []))"

section \<open>react-pdf, Jest (JSON), TAP\<close>

definition react_pattern :: "string \<Rightarrow> re list \<Rightarrow> re" where
  "react_pattern word end_unit =
     cat ([Bol False, Lit word, Cl Space, Grp 1 (star Dot)] @
       (if end_unit = [] then []
        else [Cl Space, Lit ''('', plus (OneOf [Digit, Chr CHR ''.''])] @ end_unit @ [Lit '')'']))"

definition react_patterns :: "(re \<times> TestStatus) list" where
  "react_patterns =
     map (\<lambda>u. (react_pattern ''PASS'' u, PASSED))
       [[Lit ''ms''], [Cl Space, Lit ''s''], [Lit ''s''], []] @
     map (\<lambda>u. (react_pattern ''FAIL'' u, FAILED))
       [[Lit ''ms''], [Cl Space, Lit ''s''], [Lit ''s''], []]"

fun react_try :: "(re \<times> TestStatus) list \<Rightarrow> string \<Rightarrow> status_map \<Rightarrow> status_map" where
  "react_try [] line d = d"
| "react_try ((pat, st) # rest) line d =
     (case re_search pat line of
        None \<Rightarrow> react_try rest line d
      | Some _ \<Rightarrow>
          (case re_match pat line of
             None \<Rightarrow> d
           | Some m \<Rightarrow> (case group m 1 of
                 None \<Rightarrow> d
               | Some test_name \<Rightarrow> dict_set d test_name (test_status_value st))))"

definition parse_log_react_pdf :: log_parser where
  "parse_log_react_pdf log spec = Inr (fold (react_try react_patterns) (log_lines log) [])"

definition jest_json_pattern :: re where
  "jest_json_pattern = cat [Bol False, Lit ''['', Grp 1 (alts [''PASSED'', ''FAILED'']), Lit '']'',
     Cl Space, Grp 2 (plus Dot), Eol False]"

definition jest_json_step :: "string \<Rightarrow> status_map \<Rightarrow> status_map" where
  "jest_json_step line d =
     (case match2 jest_json_pattern 1 2 (strip line) of
        None \<Rightarrow> d
      | Some (status, test_name) \<Rightarrow>
          if status = ''PASSED'' then dict_set d test_name (test_status_value PASSED)
          else if status = ''FAILED'' then dict_set d test_name (test_status_value FAILED)
          else d)"

definition parse_log_jest_json :: log_parser where
  "parse_log_jest_json log spec = Inr (fold jest_json_step (log_lines log) [])"

definition tap_pattern :: re where
  "tap_pattern = cat [Bol False, Grp 1 (alts [''ok'', ''not ok'']), Lit '' '', Grp 2 (plus Digit),
     Lit '' '', Grp 3 (plus Dot), Eol False]"

definition tap_step :: "string \<Rightarrow> status_map \<Rightarrow> status_map" where
  "tap_step line d =
     (case match2 tap_pattern 1 3 (strip line) of
        None \<Rightarrow> d
      | Some (status, test_name) \<Rightarrow>
          if status = ''ok'' then dict_set d test_name (test_status_value PASSED)
          else if status = ''not ok'' then dict_set d test_name (test_status_value FAILED)
          else d)"

definition parse_log_tap :: log_parser where
  "parse_log_tap log spec = Inr (fold tap_step (log_lines log) [])"

section \<open>Every parser meets its contract\<close>

interpretation marked: line_parser marked_step
  by unfold_locales (auto simp: marked_step_def split: option.splits)

interpretation jest_json: line_parser jest_json_step
  by unfold_locales (auto simp: jest_json_step_def split: option.splits)

interpretation tap: line_parser tap_step
  by unfold_locales (auto simp: tap_step_def split: option.splits)

lemma react_try_verdict:
  "react_try ps line d = dict_update d (react_try ps line [])"
  by (induction ps line d rule: react_try.induct) (auto split: option.splits)

lemma status_value_mem [simp]: "test_status_value st \<in> set status_values"
  by (cases st) simp_all

lemma react_try_statuses: "statuses (react_try ps line [])"
  by (induction ps line "[] :: status_map" rule: react_try.induct) (auto split: option.splits)

interpretation react: line_parser "react_try react_patterns"
  by unfold_locales (rule react_try_verdict, rule react_try_statuses)

text \<open>The parsers that go over matches rather than lines.\<close>

lemma fold_status_ok:
  assumes "\<And>x d. status_map_ok d \<Longrightarrow> status_map_ok (f x d)" and "status_map_ok d"
  shows "status_map_ok (fold f xs d)"
  using assms(2) by (induction xs arbitrary: d) (auto simp: assms(1))

lemma parse_log_p5js_ok:
  "parse_log_p5js log spec = Inr d \<Longrightarrow> status_map_ok d"
  by (auto simp: parse_log_p5js_def Let_def p5js_add_def intro!: fold_status_ok)

lemma parse_log_chart_js_ok:
  "parse_log_chart_js log spec = Inr d \<Longrightarrow> status_map_ok d"
  by (auto simp: parse_log_chart_js_def intro!: fold_status_ok)

end
