(* ===== verification/Log_Parsers_JVM_Ruby.thy ===== *)
theory Log_Parsers_JVM_Ruby
  imports Log_Parsers
begin

text \<open>
  The log parsers of \<open>java.py\<close> and \<open>ruby.py\<close> under
  \<open>SWE-bench/swebench/harness/log_parsers/\<close>, with the contract each of them meets.
\<close>

section \<open>Java: \<open>java.py\<close>\<close>

definition maven_name_pattern :: re where
  "maven_name_pattern = cat [Bol False, star Dot, Lit ''-Dtest='', Grp 1 (plus (Non Space)),
     star Dot, Eol False]"

definition maven_result_pattern :: re where
  "maven_result_pattern = cat [Bol False, star Dot, Lit ''BUILD '',
     Grp 1 (alts [''SUCCESS'', ''FAILURE'']), Eol False]"

text \<open>\<open>re.match(pattern, line)\<close> with the first group.\<close>

definition match1 :: "re \<Rightarrow> string \<Rightarrow> string option" where
  "match1 pat line = (case re_match pat line of None \<Rightarrow> None | Some m \<Rightarrow> group m 1)"

definition maven_no_name :: string where
  "maven_no_name = ''---NO TEST NAME FOUND YET---''"

text \<open>Maven prints no test name, so the name of the last \<open>-Dtest\<close> option seen is kept.\<close>

definition maven_step :: "string \<Rightarrow> status_map \<times> string \<Rightarrow> status_map \<times> string" where
  "maven_step line s =
     (let (d, current) = s;
          current = (case match1 maven_name_pattern (strip line) of
                       Some name \<Rightarrow> name | None \<Rightarrow> current)
      in case match1 maven_result_pattern (strip line) of
           None \<Rightarrow> (d, current)
         | Some status \<Rightarrow>
             if status = ''SUCCESS'' then (dict_set d current (test_status_value PASSED), current)
             else if status = ''FAILURE'' then
               (dict_set d current (test_status_value FAILED), current)
             else (d, current))"

definition parse_log_maven :: log_parser where
  "parse_log_maven log spec = Inr (fst (fold maven_step (log_lines log) ([], maven_no_name)))"

definition ant_pattern :: re where
  "ant_pattern = cat [Bol False, star Space, Lit ''[junit]'', plus Space, Lit ''['',
     Grp 1 (alts [''PASS'', ''FAIL'', ''ERR'']), Lit '']'', plus Space, Grp 2 (star Dot), Eol False]"

definition ant_step :: "string \<Rightarrow> status_map \<Rightarrow> status_map" where
  "ant_step line d =
     (case match2 ant_pattern 1 2 (strip line) of
        None \<Rightarrow> d
      | Some (status, test_name) \<Rightarrow>
          if status = ''PASS'' then dict_set d test_name (test_status_value PASSED)
          else if status \<in> set [''FAIL'', ''ERR''] then
            dict_set d test_name (test_status_value FAILED)
          else d)"

definition parse_log_ant :: log_parser where
  "parse_log_ant log spec = Inr (fold ant_step (log_lines log) [])"

definition gradle_pattern :: re where
  "gradle_pattern = cat [Bol False, Grp 1 (cat [Cl (Non (Chr CHR ''>'')), plus Dot]), plus Space,
     Grp 2 (alts [''PASSED'', ''FAILED'']), Eol False]"

definition gradle_step :: "string \<Rightarrow> status_map \<Rightarrow> status_map" where
  "gradle_step line d =
     (case match2 gradle_pattern 1 2 (strip line) of
        None \<Rightarrow> d
      | Some (test_name, status) \<Rightarrow>
          if status = ''PASSED'' then dict_set d test_name (test_status_value PASSED)
          else if status = ''FAILED'' then dict_set d test_name (test_status_value FAILED)
          else d)"

definition parse_log_gradle_custom :: log_parser where
  "parse_log_gradle_custom log spec = Inr (fold gradle_step (log_lines log) [])"

section \<open>Ruby: \<open>ruby.py\<close>\<close>

definition minitest_pattern :: re where
  "minitest_pattern = cat [Bol False, Grp 1 (plus Dot), Lit ''. '', star Dot, Lit ''='', star Dot,
     Grp 2 (alts [''.'', ''F'', ''E'']), star Dot, Eol False]"

definition minitest_step :: "string \<Rightarrow> status_map \<Rightarrow> status_map" where
  "minitest_step line d =
     (case match2 minitest_pattern 1 2 (strip line) of
        None \<Rightarrow> d
      | Some (test_name, outcome) \<Rightarrow>
          if outcome = ''.'' then dict_set d test_name (test_status_value PASSED)
          else if outcome \<in> set [''F'', ''E''] then
            dict_set d test_name (test_status_value FAILED)
          else d)"

definition parse_log_minitest :: log_parser where
  "parse_log_minitest log spec = Inr (fold minitest_step (log_lines log) [])"

definition cucumber_pattern :: re where
  "cucumber_pattern = cat [Bol False, Grp 1 (star Dot), Lit '' '', plus (Chr CHR ''.''),
     Grp 2 (alts [''.'', ''F''])]"

definition cucumber_step :: "string \<Rightarrow> status_map \<Rightarrow> status_map" where
  "cucumber_step line d =
     (case match2 cucumber_pattern 1 2 (strip line) of
        None \<Rightarrow> d
      | Some (test_name, outcome) \<Rightarrow>
          if outcome = ''.'' then dict_set d test_name (test_status_value PASSED)
          else if outcome = ''F'' then dict_set d test_name (test_status_value FAILED)
          else d)"

definition parse_log_cucumber :: log_parser where
  "parse_log_cucumber log spec = Inr (fold cucumber_step (log_lines log) [])"

definition ruby_unit_pattern :: re where
  "ruby_unit_pattern = cat [Bol False, star Space, Opt (Lit ''test: ''), Grp 1 (plus Dot), Lit '':'',
     plus Space,
     Grp 2 (Alt (Lit ''.'') (Alt (Seq (Lit ''E'') WordB)
       (Alt (Seq (Lit ''F'') WordB) (Seq (Lit ''O'') WordB))))]"

definition ruby_unit_step :: "string \<Rightarrow> status_map \<Rightarrow> status_map" where
  "ruby_unit_step line d =
     (case match2 ruby_unit_pattern 1 2 (strip line) of
        None \<Rightarrow> d
      | Some (test_name, outcome) \<Rightarrow>
          if outcome = ''.'' then dict_set d test_name (test_status_value PASSED)
          else if outcome \<in> set [''E'', ''F''] then
            dict_set d test_name (test_status_value FAILED)
          else if outcome = ''O'' then dict_set d test_name (test_status_value SKIPPED)
          else d)"

definition parse_log_ruby_unit :: log_parser where
  "parse_log_ruby_unit log spec = Inr (fold ruby_unit_step (log_lines log) [])"

definition rspec_pattern :: re where
  "rspec_pattern = cat [Grp 1 (plus Dot), Lit '' - '', Grp 2 (alts [''passed'', ''failed''])]"

definition rspec_step :: "string \<Rightarrow> status_map \<Rightarrow> exc + status_map" where
  "rspec_step line d =
     (case match2 rspec_pattern 1 2 (strip line) of
        None \<Rightarrow> Inr d
      | Some (test_name, outcome) \<Rightarrow>
          if outcome = ''passed'' then Inr (dict_set d test_name (test_status_value PASSED))
          else if outcome = ''failed'' then Inr (dict_set d test_name (test_status_value FAILED))
          else if outcome = ''pending'' then Inr (dict_set d test_name (test_status_value SKIPPED))
          else Inl (ValueError (''Unknown outcome: '' @ outcome)))"

definition parse_log_rspec_transformed_json :: log_parser where
  "parse_log_rspec_transformed_json log spec = foldE rspec_step (log_lines log) []"

definition parse_log_jekyll :: log_parser where
  "parse_log_jekyll log spec =
     rbind (index (split_on ''-'' (ts_instance_id spec)) 1) (\<lambda>pr_number.
       if pr_number \<in> set [''9141'', ''8047'', ''8167''] then parse_log_minitest log spec
       else if pr_number \<in> set [''8761'', ''8771''] then parse_log_cucumber log spec
       else Inl (ValueError (''Unknown instance id: '' @ ts_instance_id spec)))"

section \<open>Every parser meets its contract\<close>

interpretation maven: status_parser "\<lambda>line s. Inr (maven_step line s)" fst
  by unfold_locales (auto simp: maven_step_def Let_def split: option.splits if_splits prod.splits)

interpretation ant: line_parser ant_step
  by unfold_locales (auto simp: ant_step_def split: option.splits)

interpretation gradle: line_parser gradle_step
  by unfold_locales (auto simp: gradle_step_def split: option.splits)

interpretation minitest: line_parser minitest_step
  by unfold_locales (auto simp: minitest_step_def split: option.splits)

interpretation cucumber: line_parser cucumber_step
  by unfold_locales (auto simp: cucumber_step_def split: option.splits)

interpretation ruby_unit: line_parser ruby_unit_step
  by unfold_locales (auto simp: ruby_unit_step_def split: option.splits)

interpretation rspec: status_parser rspec_step "\<lambda>d. d"
  by unfold_locales (auto simp: rspec_step_def split: option.splits if_splits)

section \<open>The outcomes that a pattern admits\<close>

text \<open>A literal alternative captures one of its words.\<close>

lemma alts_match:
  "(p', r', c') \<in> set (rmatch (alts ws) (p, r, c)) \<Longrightarrow> c' = c \<and> (\<exists>w \<in> set ws. r = w @ r')"
  by (induction ws rule: alts.induct)
     (auto simp: match_lit_def advance_def startswith_iff split: list.splits if_splits)

lemma grp_alts_match:
  "(p', r', c') \<in> set (rmatch (Grp i (alts ws)) (p, r, c)) \<Longrightarrow> \<exists>w \<in> set ws. c' = (i, w) # c"
  by (auto dest!: alts_match)

text \<open>So the pattern of the RSpec parser admits neither \<open>pending\<close> nor an unknown outcome.\<close>

lemma rspec_outcome:
  assumes "match2 rspec_pattern 1 2 line = Some (test_name, outcome)"
  shows "outcome = ''passed'' \<or> outcome = ''failed''"
proof -
  obtain p r c where m: "re_match rspec_pattern line = Some (p, r, c)"
      and o: "map_of c 2 = Some outcome"
    using assms by (auto simp: match2_def group_def split: option.splits)
  then obtain st where "(p, r, c) \<in> set (rmatch (Grp 2 (alts [''passed'', ''failed''])) st)"
    by (fastforce dest!: re_match_mem simp: rspec_pattern_def simp del: alts.simps rmatch.simps(7))
  then obtain w c0 where "w \<in> set [''passed'', ''failed'']" "c = (2, w) # c0"
    by (cases st) (metis grp_alts_match)
  with o show ?thesis by auto
qed

end
