(* ===== verification/Log_Parsers_Python.thy ===== *)
theory Log_Parsers_Python
  imports Log_Parsers_JS Log_Parsers_JVM_Ruby
begin

text \<open>
  The log parsers of \<open>SWE-bench/swebench/harness/log_parsers/python.py\<close> and the registry that
  maps a repository to its parser. The pytest family takes the status from the log's text, so it
  meets the contract \<open>verdict_parser\<close> only; the Django and seaborn parsers may raise.
\<close>

section \<open>The pytest family\<close>

definition status_prefixed :: "string \<Rightarrow> bool" where
  "status_prefixed line = list_ex (\<lambda>x. startswith line (test_status_value x)) all_test_status"

definition status_suffixed :: "string \<Rightarrow> bool" where
  "status_suffixed line = list_ex (\<lambda>x. endswith line (test_status_value x)) all_test_status"

text \<open>The words of a summary line, the dash after a failed test's name removed.\<close>

definition test_case_words :: "string \<Rightarrow> string list" where
  "test_case_words line =
     words (if startswith line (test_status_value FAILED) then replace line '' - '' '' '' else line)"

definition pytest_step :: "string \<Rightarrow> status_map \<Rightarrow> status_map" where
  "pytest_step line d =
     (if status_prefixed line then
        (case test_case_words line of a # b # _ \<Rightarrow> dict_set d b a | _ \<Rightarrow> d)
      else d)"

definition parse_log_pytest :: log_parser where
  "parse_log_pytest log spec = Inr (fold pytest_step (log_lines log) [])"

definition option_pattern :: re where
  "option_pattern = cat [Grp 1 (lazy_star Dot), Lit ''['', Grp 2 (star Dot), Lit '']'']"

text \<open>A parameter that is an absolute path is cut to its last component.\<close>

definition short_option :: "string \<Rightarrow> string" where
  "short_option opt =
     (if startswith opt ''/'' \<and> \<not> startswith opt ''//'' \<and> \<not> contains opt ''*''
      then ''/'' @ last (split_on ''/'' opt) else opt)"

definition option_test_name :: "string \<Rightarrow> string" where
  "option_test_name name =
     (case re_search option_pattern name of
        None \<Rightarrow> name
      | Some m \<Rightarrow>
          (case (group m 1, group m 2) of
             (Some main, Some opt) \<Rightarrow> main @ ''['' @ short_option opt @ '']''
           | _ \<Rightarrow> name))"

definition pytest_options_step :: "string \<Rightarrow> status_map \<Rightarrow> status_map" where
  "pytest_options_step line d =
     (if status_prefixed line then
        (case test_case_words line of a # b # _ \<Rightarrow> dict_set d (option_test_name b) a | _ \<Rightarrow> d)
      else d)"

definition parse_log_pytest_options :: log_parser where
  "parse_log_pytest_options log spec = Inr (fold pytest_options_step (log_lines log) [])"

definition matplotlib_step :: "string \<Rightarrow> status_map \<Rightarrow> status_map" where
  "matplotlib_step line d =
     pytest_step (replace (replace line ''MouseButton.LEFT'' ''1'') ''MouseButton.RIGHT'' ''3'') d"

definition parse_log_matplotlib :: log_parser where
  "parse_log_matplotlib log spec = Inr (fold matplotlib_step (log_lines log) [])"

definition one_test_pattern :: re where
  "one_test_pattern = cat [Grp 1 (plus (Non (Chr newline))), plus Space, Lit ''.'',
     star (Non (Chr newline)), star Space, Lit ''[100%]'']"

definition colour_pattern :: re where
  "colour_pattern = cat [Lit ''['', Grp 1 (plus Digit), Lit ''m'']"

text \<open>\<open>line.translate(...)\<close>: the control characters 1 to 31 are deleted.\<close>

definition drop_escapes :: "string \<Rightarrow> string" where
  "drop_escapes line = filter (\<lambda>c. \<not> (1 \<le> (of_char c :: nat) \<and> (of_char c :: nat) < 32)) line"

definition pytest_v2_step :: "string \<Rightarrow> status_map \<Rightarrow> status_map" where
  "pytest_v2_step line d =
     (let line = drop_escapes (re_sub colour_pattern [] line) in
      if status_prefixed line then
        (case test_case_words line of a # b # _ \<Rightarrow> dict_set d b a | _ \<Rightarrow> d)
      else if status_suffixed line then
        (case words line of a # b # _ \<Rightarrow> dict_set d a b | _ \<Rightarrow> d)
      else d)"

definition parse_log_pytest_v2 :: log_parser where
  "parse_log_pytest_v2 log spec =
     (if contains log ''collected 1 item'' \<and> contains log ''[100%]'' then
        Inr (case re_search one_test_pattern log of
               None \<Rightarrow> []
             | Some m \<Rightarrow> (case group m 1 of
                   None \<Rightarrow> []
                 | Some name \<Rightarrow>
                     if contains log ''1 passed'' then [(strip name, ''PASSED'')]
                     else [(strip name, ''FAILED'')]))
      else Inr (fold pytest_v2_step (log_lines log) []))"

section \<open>Django\<close>

text \<open>The suffixes of a passed test; the first that the line ends in counts.\<close>

definition pass_suffixes :: "string list" where
  "pass_suffixes = ['' ... ok'', '' ... OK'', '' ...  OK'']"

definition django_7188_prefix :: string where
  "django_7188_prefix = ''Applying sites.0002_alter_domain_unique...test_no_migrations''"

fun django_pass :: "string list \<Rightarrow> string \<Rightarrow> status_map \<Rightarrow> string \<times> status_map" where
  "django_pass [] line d = (line, d)"
| "django_pass (suffix # rest) line d =
     (if endswith line suffix then
        (let line = (if startswith (strip line) django_7188_prefix
                     then strip (last (split1 ''...'' line)) else line)
         in (line, dict_set d (hd (rsplit1 suffix line)) (test_status_value PASSED)))
      else django_pass rest line d)"

definition set_if :: "bool \<Rightarrow> string \<Rightarrow> TestStatus \<Rightarrow> status_map \<Rightarrow> status_map" where
  "set_if b test st d = (if b then dict_set d test (test_status_value st) else d)"

text \<open>A line that starts with a marker such as \<open>FAIL:\<close> names the test as its second word.\<close>

definition set_marked :: "string \<Rightarrow> TestStatus \<Rightarrow> string \<Rightarrow> status_map \<Rightarrow> exc + status_map" where
  "set_marked marker st line d =
     (if startswith line marker
      then rbind (index (words line) 1) (\<lambda>w. Inr (dict_set d (strip w) (test_status_value st)))
      else Inr d)"

definition django_version_test :: string where
  "django_version_test = ''--version is equivalent to version''"

definition django_step ::
    "string \<Rightarrow> status_map \<times> string option \<Rightarrow> exc + status_map \<times> string option" where
  "django_step line s =
     (let (d, prev_test) = s;
          line = strip line;
          d = set_if (contains line django_version_test) django_version_test PASSED d;
          prev_test = (if contains line '' ... '' then Some (hd (split_on '' ... '' line))
                       else prev_test);
          (line, d) = django_pass pass_suffixes line d;
          d = set_if (contains line '' ... skipped'') (hd (split_on '' ... skipped'' line)) SKIPPED d;
          d = set_if (endswith line '' ... FAIL'') (hd (split_on '' ... FAIL'' line)) FAILED d
      in rbind (set_marked ''FAIL:'' FAILED line d) (\<lambda>d.
         rbind (set_marked ''ERROR:'' ERROR line
                  (set_if (endswith line '' ... ERROR'') (hd (split_on '' ... ERROR'' line)) ERROR d))
           (\<lambda>d.
             Inr (case prev_test of
                    None \<Rightarrow> d
                  | Some test \<Rightarrow> set_if (startswith (lstrip line) ''ok'') test PASSED d, prev_test))))"

text \<open>The three forms of a test whose output is interrupted by a print over several lines.\<close>

definition django_multiline :: "re list \<Rightarrow> re" where
  "django_multiline rest =
     cat ([Bol True, Grp 1 (lazy_star Dot), Cl Space, Lit ''...'', Cl Space] @ rest @
       [Lit (newline # ''ok''), Eol True])"

definition django_patterns :: "re list" where
  "django_patterns =
     [django_multiline [Lit ''Testing against Django installed in '', Grp 2 (lazy_star DotAll),
        Lit '' silenced).''],
      django_multiline [Lit ''Internal Server Error: /'', Grp 2 (star Dot), Lit ''/''],
      django_multiline [Lit ''System check identified no issues (0 silenced)'']]"

definition parse_log_django :: log_parser where
  "parse_log_django log spec =
     rbind (foldE django_step (log_lines log) ([], None)) (\<lambda>(d, prev_test).
       Inr (fold (\<lambda>name d. dict_set d name (test_status_value PASSED))
              (concat (map (\<lambda>pat. findall1 pat log) django_patterns)) d))"

section \<open>seaborn and SymPy\<close>

definition seaborn_step :: "string \<Rightarrow> status_map \<Rightarrow> exc + status_map" where
  "seaborn_step line d =
     (if startswith line (test_status_value FAILED) then
        rbind (index (words line) 1) (\<lambda>test. Inr (dict_set d test (test_status_value FAILED)))
      else if contains line ('' '' @ test_status_value PASSED @ '' '') then
        (let parts = words line in
         rbind (index parts 1) (\<lambda>w.
           if w = test_status_value PASSED then
             rbind (index parts 0) (\<lambda>test. Inr (dict_set d test (test_status_value PASSED)))
           else Inr d))
      else if startswith line (test_status_value PASSED) then
        rbind (index (words line) 1) (\<lambda>test. Inr (dict_set d test (test_status_value PASSED)))
      else Inr d)"

definition parse_log_seaborn :: log_parser where
  "parse_log_seaborn log spec = foldE seaborn_step (log_lines log) []"

definition sympy_pattern :: re where
  "sympy_pattern = cat [Grp 1 (star (Chr CHR ''_'')), Lit '' '', Grp 2 (star Dot), Lit ''.py:'',
     Grp 3 (star Dot), Lit '' '', Grp 4 (star (Chr CHR ''_''))]"

definition sympy_failures :: "string \<Rightarrow> string list" where
  "sympy_failures log =
     map (\<lambda>(t, m). grp m 2 @ ''.py:'' @ grp m 3) (finditer sympy_pattern log)"

definition sympy_step :: "string \<Rightarrow> status_map \<Rightarrow> exc + status_map" where
  "sympy_step line0 d =
     (let line = strip line0;
          mark = (\<lambda>suffix st d. if endswith line suffix
                    then rbind (index (words line) 0)
                           (\<lambda>test. Inr (dict_set d test (test_status_value st)))
                    else Inr d)
      in if startswith line ''test_'' then
           rbind (mark '' E'' ERROR d) (\<lambda>d. rbind (mark '' F'' FAILED d) (mark '' ok'' PASSED))
         else Inr d)"

definition parse_log_sympy :: log_parser where
  "parse_log_sympy log spec =
     foldE sympy_step (log_lines log)
       (fold (\<lambda>test d. dict_set d test (test_status_value FAILED)) (sympy_failures log) [])"

section \<open>Every parser meets its contract\<close>

interpretation pytest: verdict_parser pytest_step
  by unfold_locales (auto simp: pytest_step_def split: list.splits)

interpretation pytest_options: verdict_parser pytest_options_step
  by unfold_locales (auto simp: pytest_options_step_def split: list.splits)

interpretation pytest_v2: verdict_parser pytest_v2_step
  by unfold_locales (auto simp: pytest_v2_step_def Let_def split: list.splits)

interpretation matplotlib: verdict_parser matplotlib_step
  by unfold_locales (auto simp: matplotlib_step_def pytest_step_def split: list.splits)

lemma rbind_cases: "rbind m f = Inr y \<Longrightarrow> (\<And>x. m = Inr x \<Longrightarrow> f x = Inr y \<Longrightarrow> P) \<Longrightarrow> P"
  by (auto simp: rbind_Inr_iff)

interpretation seaborn: status_parser seaborn_step "\<lambda>d. d"
  by unfold_locales (auto simp: seaborn_step_def Let_def split: if_splits elim!: rbind_cases)

interpretation sympy: status_parser sympy_step "\<lambda>d. d"
  by unfold_locales
     (auto simp: sympy_step_def Let_def split: if_splits elim!: rbind_cases)

lemma django_pass_ok:
  "django_pass ss line d = (line', d') \<Longrightarrow> status_map_ok d \<Longrightarrow> status_map_ok d'"
  by (induction ss line d rule: django_pass.induct) (auto simp: Let_def split: if_splits)

lemma set_if_ok [simp]: "status_map_ok d \<Longrightarrow> status_map_ok (set_if b test st d)"
  by (simp add: set_if_def)

lemma set_marked_ok: "set_marked marker st line d = Inr d' \<Longrightarrow> status_map_ok d \<Longrightarrow> status_map_ok d'"
  by (auto simp: set_marked_def split: if_splits elim!: rbind_cases)

lemma django_step_ok:
  assumes "django_step line (d, prev) = Inr (d', prev')" and "status_map_ok d"
  shows "status_map_ok d'"
proof -
  obtain line1 d1 where pass: "django_pass pass_suffixes (strip line)
      (set_if (contains (strip line) django_version_test) django_version_test PASSED d) = (line1, d1)"
    by fastforce
  then have "status_map_ok d1"
    using assms(2) by (auto dest: django_pass_ok)
  with assms(1) pass show ?thesis
    by (auto simp: django_step_def Let_def split: option.splits elim!: rbind_cases
        dest!: set_marked_ok)
qed

interpretation django: status_parser django_step fst
  by unfold_locales (metis django_step_ok prod.collapse)

text \<open>The other names of the pytest parsers.\<close>

definition parse_log_astroid :: log_parser where "parse_log_astroid = parse_log_pytest"
definition parse_log_flask :: log_parser where "parse_log_flask = parse_log_pytest"
definition parse_log_marshmallow :: log_parser where "parse_log_marshmallow = parse_log_pytest"
definition parse_log_pvlib :: log_parser where "parse_log_pvlib = parse_log_pytest"
definition parse_log_pyvista :: log_parser where "parse_log_pyvista = parse_log_pytest"
definition parse_log_sqlfluff :: log_parser where "parse_log_sqlfluff = parse_log_pytest"
definition parse_log_xarray :: log_parser where "parse_log_xarray = parse_log_pytest"
definition parse_log_pydicom :: log_parser where "parse_log_pydicom = parse_log_pytest_options"
definition parse_log_requests :: log_parser where "parse_log_requests = parse_log_pytest_options"
definition parse_log_pylint :: log_parser where "parse_log_pylint = parse_log_pytest_options"
definition parse_log_astropy :: log_parser where "parse_log_astropy = parse_log_pytest_v2"
definition parse_log_scikit :: log_parser where "parse_log_scikit = parse_log_pytest_v2"
definition parse_log_sphinx :: log_parser where "parse_log_sphinx = parse_log_pytest_v2"

section \<open>The registry\<close>

text \<open>
  \<open>MAP_REPO_TO_PARSER\<close> of \<open>__init__.py\<close>: the maps of the languages, merged in its order. The
  parsers that are not modelled are the argument \<open>other\<close>, by their name.
\<close>

definition MAP_REPO_TO_PARSER_C :: "(string \<Rightarrow> log_parser) \<Rightarrow> (string, log_parser) pydict" where
  "MAP_REPO_TO_PARSER_C other =
     [(''redis/redis'', parse_log_redis),
      (''jqlang/jq'', parse_log_jq),
      (''nlohmann/json'', other ''parse_log_doctest''),
      (''micropython/micropython'', parse_log_micropython_test),
      (''valkey-io/valkey'', parse_log_redis),
      (''fmtlib/fmt'', parse_log_googletest)]"

definition MAP_REPO_TO_PARSER_GO :: "(string, log_parser) pydict" where
  "MAP_REPO_TO_PARSER_GO =
     [(''caddyserver/caddy'', parse_log_gotest),
      (''hashicorp/terraform'', parse_log_gotest),
      (''prometheus/prometheus'', parse_log_gotest),
      (''gohugoio/hugo'', parse_log_gotest),
      (''gin-gonic/gin'', parse_log_gotest)]"

definition MAP_REPO_TO_PARSER_JAVA :: "(string, log_parser) pydict" where
  "MAP_REPO_TO_PARSER_JAVA =
     [(''google/gson'', parse_log_maven),
      (''apache/druid'', parse_log_maven),
      (''javaparser/javaparser'', parse_log_maven),
      (''projectlombok/lombok'', parse_log_ant),
      (''apache/lucene'', parse_log_gradle_custom),
      (''reactivex/rxjava'', parse_log_gradle_custom)]"

definition MAP_REPO_TO_PARSER_JS :: "(string \<Rightarrow> log_parser) \<Rightarrow> (string, log_parser) pydict" where
  "MAP_REPO_TO_PARSER_JS other =
     [(''Automattic/wp-calypso'', other ''parse_log_calypso''),
      (''chartjs/Chart.js'', parse_log_chart_js),
      (''markedjs/marked'', parse_log_marked),
      (''processing/p5.js'', parse_log_p5js),
      (''diegomura/react-pdf'', parse_log_react_pdf),
      (''babel/babel'', other ''parse_log_jest''),
      (''vuejs/core'', other ''parse_log_vitest''),
      (''facebook/docusaurus'', other ''parse_log_jest''),
      (''immutable-js/immutable-js'', other ''parse_log_immutable_js''),
      (''mrdoob/three.js'', parse_log_tap),
      (''preactjs/preact'', other ''parse_log_karma''),
      (''axios/axios'', parse_log_tap)]"

definition MAP_REPO_TO_PARSER_PHP :: "(string \<Rightarrow> log_parser) \<Rightarrow> (string, log_parser) pydict" where
  "MAP_REPO_TO_PARSER_PHP other =
     [(''phpoffice/phpspreadsheet'', other ''parse_log_phpunit''),
      (''laravel/framework'', other ''parse_log_phpunit''),
      (''php-cs-fixer/php-cs-fixer'', other ''parse_log_phpunit''),
      (''briannesbitt/carbon'', other ''parse_log_phpunit'')]"

definition MAP_REPO_TO_PARSER_PY :: "(string, log_parser) pydict" where
  "MAP_REPO_TO_PARSER_PY =
     [(''astropy/astropy'', parse_log_astropy),
      (''django/django'', parse_log_django),
      (''marshmallow-code/marshmallow'', parse_log_marshmallow),
      (''matplotlib/matplotlib'', parse_log_matplotlib),
      (''mwaskom/seaborn'', parse_log_seaborn),
      (''pallets/flask'', parse_log_flask),
      (''psf/requests'', parse_log_requests),
      (''pvlib/pvlib-python'', parse_log_pvlib),
      (''pydata/xarray'', parse_log_xarray),
      (''pydicom/pydicom'', parse_log_pydicom),
      (''pylint-dev/astroid'', parse_log_astroid),
      (''pylint-dev/pylint'', parse_log_pylint),
      (''pytest-dev/pytest'', parse_log_pytest),
      (''pyvista/pyvista'', parse_log_pyvista),
      (''scikit-learn/scikit-learn'', parse_log_scikit),
      (''sqlfluff/sqlfluff'', parse_log_sqlfluff),
      (''sphinx-doc/sphinx'', parse_log_sphinx),
      (''sympy/sympy'', parse_log_sympy)]"

definition MAP_REPO_TO_PARSER_RUST :: "(string, log_parser) pydict" where
  "MAP_REPO_TO_PARSER_RUST =
     [(''burntsushi/ripgrep'', parse_log_cargo),
      (''sharkdp/bat'', parse_log_cargo),
      (''astral-sh/ruff'', parse_log_cargo),
      (''tokio-rs/tokio'', parse_log_cargo),
      (''uutils/coreutils'', parse_log_cargo),
      (''nushell/nushell'', parse_log_cargo),
      (''tokio-rs/axum'', parse_log_cargo)]"

definition MAP_REPO_TO_PARSER_RUBY :: "(string, log_parser) pydict" where
  "MAP_REPO_TO_PARSER_RUBY =
     [(''jekyll/jekyll'', parse_log_jekyll),
      (''fluent/fluentd'', parse_log_ruby_unit),
      (''fastlane/fastlane'', parse_log_rspec_transformed_json),
      (''jordansissel/fpm'', parse_log_rspec_transformed_json),
      (''faker-ruby/faker'', parse_log_ruby_unit),
      (''rubocop/rubocop'', parse_log_rspec_transformed_json)]"

definition language_maps :: "(string \<Rightarrow> log_parser) \<Rightarrow> (string, log_parser) pydict list" where
  "language_maps other =
     [MAP_REPO_TO_PARSER_C other, MAP_REPO_TO_PARSER_GO, MAP_REPO_TO_PARSER_JAVA,
      MAP_REPO_TO_PARSER_JS other, MAP_REPO_TO_PARSER_PHP other, MAP_REPO_TO_PARSER_PY,
      MAP_REPO_TO_PARSER_RUST, MAP_REPO_TO_PARSER_RUBY]"

definition MAP_REPO_TO_PARSER :: "(string \<Rightarrow> log_parser) \<Rightarrow> (string, log_parser) pydict" where
  "MAP_REPO_TO_PARSER other = fold (\<lambda>m d. dict_update d m) (language_maps other) []"

end
