(* ===== verification/Log_Parsers_Correct.thy ===== *)
theory Log_Parsers_Correct
  imports Log_Parsers_Python
begin

text \<open>
  The properties of the log parsers of SWE-bench: what a runner prints is read back, logs can be
  parsed piece by piece, the maps are well-formed, the loop over XML blocks ends with none left.
\<close>

text \<open>The specification of an instance, for the examples.\<close>

definition demo_spec :: test_spec where
  "demo_spec = \<lparr>ts_instance_id = ''tokio-rs__tokio-1'', ts_repo = ''tokio-rs/tokio'',
     ts_version = ''1.0'', ts_fail_to_pass = [''a''], ts_pass_to_pass = []\<rparr>"

section \<open>Reading back what a runner prints\<close>

text \<open>A test identifier: not empty and without white space.\<close>

definition test_id :: "string \<Rightarrow> bool" where
  "test_id t \<longleftrightarrow> t \<noteq> [] \<and> (\<forall>c \<in> set t. \<not> is_space c)"

text \<open>A line of pytest's short summary, and of cargo's output.\<close>

definition pytest_line :: "string \<times> TestStatus \<Rightarrow> string" where
  "pytest_line r = test_status_value (snd r) @ '' '' @ fst r"

lemma status_no_space: "c \<in> set (test_status_value st) \<Longrightarrow> \<not> is_space c"
  by (cases st) (auto simp: is_space_def)

lemma status_nonempty: "test_status_value st \<noteq> []"
  by (cases st) auto

lemma dash_absent:
  assumes "\<forall>c \<in> set a. \<not> is_space c" "\<forall>c \<in> set b. \<not> is_space c"
  shows "\<not> contains (a @ '' '' @ b) '' - ''"
proof
  assume "contains (a @ '' '' @ b) '' - ''"
  then obtain x y where eq: "a @ '' '' @ b = x @ '' - '' @ y"
    by (auto simp: contains_iff)
  have cnt: "count_list w CHR '' '' = 0" if "\<forall>c \<in> set w. \<not> is_space c" for w
    using that by (auto simp: count_list_0_iff is_space_def)
  have "count_list (a @ '' '' @ b) CHR '' '' = 1"
    using assms cnt by simp
  moreover have "2 \<le> count_list (x @ '' - '' @ y) CHR '' ''" by simp
  ultimately show False using arg_cong [OF eq, of "\<lambda>w. count_list w CHR '' ''"] by linarith
qed

lemma pytest_step_line:
  assumes "test_id t"
  shows "pytest_step (pytest_line (t, st)) d = dict_set d t (test_status_value st)"
proof -
  have t: "t \<noteq> []" "\<forall>c \<in> set t. \<not> is_space c" using assms by (auto simp: test_id_def)
  have "status_prefixed (pytest_line (t, st))"
    by (cases st) (auto simp: status_prefixed_def pytest_line_def all_test_status_def)
  moreover have "replace (pytest_line (t, st)) '' - '' '' '' = pytest_line (t, st)"
    unfolding pytest_line_def fst_conv snd_conv
    using t(2) status_no_space by (intro replace_absent dash_absent) (blast | simp)+
  moreover have "words (pytest_line (t, st)) = [test_status_value st, t]"
    unfolding pytest_line_def fst_conv snd_conv
    using t status_no_space status_nonempty by (intro words_two) blast+
  ultimately show ?thesis
    by (simp add: pytest_step_def test_case_words_def)
qed

lemma fold_lines:
  assumes "\<And>r d. r \<in> set rs \<Longrightarrow> step (line r) d = dict_update d (v r)"
  shows "fold step (map line rs) d = dict_update d (concat (map v rs))"
  using assms
  by (induction rs arbitrary: d) (auto simp: dict_update_append)

lemma pytest_line_no_newline: "test_id t \<Longrightarrow> newline \<notin> set (pytest_line (t, st))"
  using status_no_space [of newline st] by (auto simp: test_id_def pytest_line_def is_space_def)

definition cargo_line :: "string \<times> string \<Rightarrow> string" where
  "cargo_line r = ''test '' @ fst r @ '' ... '' @ snd r"

lemma cargo_match:
  assumes "test_id t" and "w \<noteq> []" and "\<forall>c \<in> set w. is_word c"
  shows "match2 cargo_pattern 1 2 (cargo_line (t, w)) = Some (t, w)"
proof -
  have t: "\<forall>c \<in> set t. cls_mem (Non Space) c" "1 \<le> length t" "t \<noteq> []" "\<not> is_space (hd t)"
    using assms(1) by (cases t; simp add: test_id_def)+
  have w: "\<forall>c \<in> set w. cls_mem WordCh c" "1 \<le> length w" "\<not> is_space (hd w)"
    using assms(2,3) by (cases w; simp add: word_no_space)+
  have sp: "is_space CHR '' ''" "\<not> is_space CHR ''.''" by (simp_all add: is_space_def)
  have blank: "first (plus Space) (p, '' '' @ r, c) ('' '' @ p, r, c)"
    if "r \<noteq> [] \<and> \<not> is_space (hd r)" for p r c
    using that first_Rep [of "'' ''" Space r 1 p c] by (simp add: sp)
  have name: "first (Grp 1 (plus (Non Space))) (p, t @ '' '' @ r, c) (rev t @ p, '' '' @ r, (1, t) # c)"
    for p r c
    using t by (intro first_Grp first_Rep) (simp_all add: sp)
  have outcome: "first (Grp 2 (plus WordCh)) (p, w @ [], c) (rev w @ p, [], (2, w) # c)" for p c
    using w by (intro first_Grp first_Rep) simp_all
  have "\<exists>p. first cargo_pattern ([], ''test'' @ '' '' @ t @ '' '' @ ''...'' @ '' '' @ w @ [], [])
      (p, [], [(2, w), (1, t)])"
    unfolding cargo_pattern_def cat.simps
    by (rule exI)
       (rule first_Seq [OF first_Bol] first_Seq [OF first_Lit] first_Seq [OF blank]
          first_Seq [OF name] first_Seq [OF outcome] first_Eol | use t w assms sp in simp)+
  then show ?thesis
    by (auto dest: first_re_match simp: match2_def group_def cargo_line_def)
qed

definition cargo_outcome :: "TestStatus \<Rightarrow> string" where
  "cargo_outcome st = (if st = PASSED then ''ok'' else ''FAILED'')"

lemma cargo_step_line:
  assumes "test_id t" and "st = PASSED \<or> st = FAILED"
  shows "cargo_step (cargo_line (t, cargo_outcome st)) d = dict_set d t (test_status_value st)"
proof -
  have w: "cargo_outcome st \<noteq> []" "\<forall>c \<in> set (cargo_outcome st). is_word c"
    by (auto simp: cargo_outcome_def is_word_def)
  have "strip (cargo_line (t, cargo_outcome st)) = cargo_line (t, cargo_outcome st)"
    by (rule strip_id) (simp_all add: cargo_line_def cargo_outcome_def is_space_def)
  with cargo_match [OF assms(1) w] assms(2) show ?thesis
    by (auto simp: cargo_step_def cargo_outcome_def)
qed

lemma cargo_line_no_newline: "test_id t \<Longrightarrow> newline \<notin> set (cargo_line (t, cargo_outcome st))"
  by (auto simp: test_id_def cargo_line_def cargo_outcome_def is_space_def)

lemma parse_results:
  assumes "rs \<noteq> []" and "\<And>r. r \<in> set rs \<Longrightarrow> newline \<notin> set (line r)"
    and "\<And>r d. r \<in> set rs \<Longrightarrow> step (line r) d = dict_set d (fst r) (test_status_value (snd r))"
  shows "\<exists>d. fold step (log_lines (join [newline] (map line rs))) [] = d \<and> distinct (keys d) \<and>
    map_of d = map_of (rev (map (\<lambda>(t, st). (t, test_status_value st)) rs))"
proof -
  define e where "e = map (\<lambda>(t, st). (t, test_status_value st)) rs"
  have "log_lines (join [newline] (map line rs)) = map line rs"
    unfolding log_lines_def using assms(1,2) by (intro split_on_join) auto
  moreover have "fold step (map line rs) [] =
      dict_update [] (concat (map (\<lambda>r. [(fst r, test_status_value (snd r))]) rs))"
    using assms(3) by (intro fold_lines) auto
  moreover have "concat (map (\<lambda>r. [(fst r, test_status_value (snd r))]) rs) = e"
    unfolding e_def by (induction rs) auto
  ultimately have "fold step (log_lines (join [newline] (map line rs))) [] = dict_update [] e"
    by simp
  then show ?thesis
    by (auto simp: map_of_dict_update_rev distinct_dict_update simp flip: e_def)
qed

text \<open>
  Printing one line \<open>STATUS test\<close> per result, as pytest's summary does, and parsing the log
  gives back the results: each test once, with the status of its last line.
\<close>

theorem parse_log_pytest_roundtrip:
  assumes "rs \<noteq> []" and "\<forall>(t, st) \<in> set rs. test_id t"
  shows "\<exists>d. parse_log_pytest (join [newline] (map pytest_line rs)) spec = Inr d \<and>
    distinct (keys d) \<and> map_of d = map_of (rev (map (\<lambda>(t, st). (t, test_status_value st)) rs))"
proof -
  have "\<exists>d. fold pytest_step (log_lines (join [newline] (map pytest_line rs))) [] = d \<and>
      distinct (keys d) \<and> map_of d = map_of (rev (map (\<lambda>(t, st). (t, test_status_value st)) rs))"
    using assms pytest_line_no_newline
    by (intro parse_results) (auto simp: pytest_step_line)
  then show ?thesis by (simp add: parse_log_pytest_def)
qed

theorem parse_log_pytest_roundtrip_witness:
  "\<exists>d. parse_log_pytest (join [newline] (map pytest_line [(''a::b'', FAILED), (''c'', PASSED)])) demo_spec
     = Inr d \<and> distinct (keys d) \<and> map_of d = map_of [(''c'', ''PASSED''), (''a::b'', ''FAILED'')]"
  using parse_log_pytest_roundtrip [of "[(''a::b'', FAILED), (''c'', PASSED)]" demo_spec]
  by (simp add: test_id_def is_space_def)

text \<open>
  The same for \<open>cargo test\<close>: the lines \<open>test NAME ... ok\<close> and \<open>test NAME ... FAILED\<close> that
  the runner prints are read back by the backtracking match of the parser's pattern.
\<close>

theorem parse_log_cargo_roundtrip:
  assumes "rs \<noteq> []" and "\<forall>(t, st) \<in> set rs. test_id t \<and> (st = PASSED \<or> st = FAILED)"
  shows "\<exists>d. parse_log_cargo (join [newline] (map (\<lambda>(t, st). cargo_line (t, cargo_outcome st)) rs)) spec
     = Inr d \<and> distinct (keys d) \<and>
    map_of d = map_of (rev (map (\<lambda>(t, st). (t, test_status_value st)) rs))"
proof -
  have "\<exists>d. fold cargo_step
        (log_lines (join [newline] (map (\<lambda>(t, st). cargo_line (t, cargo_outcome st)) rs))) [] = d \<and>
      distinct (keys d) \<and> map_of d = map_of (rev (map (\<lambda>(t, st). (t, test_status_value st)) rs))"
    using assms cargo_line_no_newline
    by (intro parse_results) (auto simp: cargo_step_line)
  then show ?thesis by (simp add: parse_log_cargo_def)
qed

theorem parse_log_cargo_roundtrip_witness:
  "\<exists>d. parse_log_cargo ''test a::b ... ok'' demo_spec = Inr d \<and> distinct (keys d) \<and>
     map_of d = [''a::b'' \<mapsto> ''PASSED'']"
  using parse_log_cargo_roundtrip [of "[(''a::b'', PASSED)]" demo_spec]
  by (simp add: test_id_def is_space_def cargo_line_def cargo_outcome_def)

section \<open>Well-formed maps, and logs parsed piece by piece\<close>

text \<open>The parsers that meet the contract of a status map, and those that go line by line.\<close>

definition checked_parsers :: "log_parser list" where
  "checked_parsers =
     [parse_log_gotest, parse_log_cargo, parse_log_redis, parse_log_jq, parse_log_micropython_test,
      parse_log_googletest, parse_log_maven, parse_log_ant, parse_log_gradle_custom,
      parse_log_minitest, parse_log_cucumber, parse_log_ruby_unit,
      parse_log_rspec_transformed_json, parse_log_jekyll, parse_log_marked, parse_log_chart_js,
      parse_log_p5js, parse_log_react_pdf, parse_log_jest_json, parse_log_tap, parse_log_seaborn,
      parse_log_sympy, parse_log_django]"

definition line_parsers :: "log_parser list" where
  "line_parsers =
     [parse_log_gotest, parse_log_cargo, parse_log_redis, parse_log_jq, parse_log_micropython_test,
      parse_log_googletest, parse_log_ant, parse_log_gradle_custom, parse_log_minitest,
      parse_log_cucumber, parse_log_ruby_unit, parse_log_marked, parse_log_react_pdf,
      parse_log_jest_json, parse_log_tap, parse_log_pytest, parse_log_pytest_options,
      parse_log_matplotlib]"

lemmas parsers_ok =
  gotest.fold_ok cargo.fold_ok redis.fold_ok jq.fold_ok micropython.fold_ok googletest.fold_ok
  ant.fold_ok gradle.fold_ok minitest.fold_ok cucumber.fold_ok ruby_unit.fold_ok marked.fold_ok
  react.fold_ok jest_json.fold_ok tap.fold_ok

lemmas line_parser_defs =
  parse_log_gotest_def parse_log_cargo_def parse_log_redis_def parse_log_jq_def
  parse_log_micropython_test_def parse_log_googletest_def parse_log_ant_def
  parse_log_gradle_custom_def parse_log_minitest_def parse_log_cucumber_def
  parse_log_ruby_unit_def parse_log_marked_def parse_log_react_pdf_def parse_log_jest_json_def
  parse_log_tap_def parse_log_pytest_def parse_log_pytest_options_def parse_log_matplotlib_def

lemma parse_log_maven_ok: "parse_log_maven log spec = Inr d \<Longrightarrow> status_map_ok d"
  using maven.run_ok [of "log_lines log" "([], maven_no_name)"]
  by (auto simp: parse_log_maven_def foldE_Inr)

lemma parse_log_django_ok: "parse_log_django log spec = Inr d \<Longrightarrow> status_map_ok d"
  using django.run_ok [of "log_lines log" "([], None)"]
  by (auto simp: parse_log_django_def elim!: rbind_cases intro!: fold_status_ok)

lemma parse_log_sympy_ok: "parse_log_sympy log spec = Inr d \<Longrightarrow> status_map_ok d"
  unfolding parse_log_sympy_def by (erule sympy.run_ok) (auto intro!: fold_status_ok)

lemma parse_log_seaborn_ok: "parse_log_seaborn log spec = Inr d \<Longrightarrow> status_map_ok d"
  unfolding parse_log_seaborn_def by (erule seaborn.run_ok) simp

lemma parse_log_rspec_ok: "parse_log_rspec_transformed_json log spec = Inr d \<Longrightarrow> status_map_ok d"
  unfolding parse_log_rspec_transformed_json_def by (erule rspec.run_ok) simp

lemma parse_log_jekyll_ok: "parse_log_jekyll log spec = Inr d \<Longrightarrow> status_map_ok d"
  by (auto simp: parse_log_jekyll_def line_parser_defs parsers_ok split: if_splits elim!: rbind_cases)

definition returns_status_map :: "log_parser \<Rightarrow> bool" where
  "returns_status_map p \<longleftrightarrow> (\<forall>log spec d. p log spec = Inr d \<longrightarrow> status_map_ok d)"

lemma returns_status_mapI:
  "(\<And>log spec d. p log spec = Inr d \<Longrightarrow> status_map_ok d) \<Longrightarrow> returns_status_map p"
  by (simp add: returns_status_map_def)

lemma returns_status_map_fold:
  "(\<And>log spec. p log spec = Inr (fold step (log_lines log) [])) \<Longrightarrow>
   (\<And>ls. status_map_ok (fold step ls [])) \<Longrightarrow> returns_status_map p"
  by (simp add: returns_status_map_def)

lemmas returns_status_map_facts =
  returns_status_map_fold [OF parse_log_gotest_def gotest.fold_ok]
  returns_status_map_fold [OF parse_log_cargo_def cargo.fold_ok]
  returns_status_map_fold [OF parse_log_redis_def redis.fold_ok]
  returns_status_map_fold [OF parse_log_jq_def jq.fold_ok]
  returns_status_map_fold [OF parse_log_micropython_test_def micropython.fold_ok]
  returns_status_map_fold [OF parse_log_googletest_def googletest.fold_ok]
  returns_status_map_fold [OF parse_log_ant_def ant.fold_ok]
  returns_status_map_fold [OF parse_log_gradle_custom_def gradle.fold_ok]
  returns_status_map_fold [OF parse_log_minitest_def minitest.fold_ok]
  returns_status_map_fold [OF parse_log_cucumber_def cucumber.fold_ok]
  returns_status_map_fold [OF parse_log_ruby_unit_def ruby_unit.fold_ok]
  returns_status_map_fold [OF parse_log_marked_def marked.fold_ok]
  returns_status_map_fold [OF parse_log_react_pdf_def react.fold_ok]
  returns_status_map_fold [OF parse_log_jest_json_def jest_json.fold_ok]
  returns_status_map_fold [OF parse_log_tap_def tap.fold_ok]
  returns_status_mapI [OF parse_log_maven_ok] returns_status_mapI [OF parse_log_django_ok]
  returns_status_mapI [OF parse_log_sympy_ok] returns_status_mapI [OF parse_log_seaborn_ok]
  returns_status_mapI [OF parse_log_rspec_ok] returns_status_mapI [OF parse_log_jekyll_ok]
  returns_status_mapI [OF parse_log_p5js_ok] returns_status_mapI [OF parse_log_chart_js_ok]

lemma checked_parsers_ok: "list_all returns_status_map checked_parsers"
  by (simp only: checked_parsers_def list.pred_inject returns_status_map_facts simp_thms)

text \<open>
  Whatever the log, a parser outside the pytest family returns a map that names each test
  once and whose values are values of \<open>TestStatus\<close>; so grading never meets an unknown status.
\<close>

theorem parse_log_well_formed:
  assumes "p \<in> set checked_parsers" and "p log spec = Inr d"
  shows "status_map_ok d"
  using assms checked_parsers_ok unfolding list_all_iff returns_status_map_def by blast

theorem parse_log_well_formed_witness:
  "parse_log_gotest ''--- PASS: a (0.1s)'' demo_spec = Inr [(''a'', ''PASSED'')] \<and>
   status_map_ok [(''a'', ''PASSED'')]"
proof -
  have p: "parse_log_gotest \<in> set checked_parsers" by (simp add: checked_parsers_def)
  have r: "parse_log_gotest ''--- PASS: a (0.1s)'' demo_spec = Inr [(''a'', ''PASSED'')]" by code_simp
  from r parse_log_well_formed [OF p r] show ?thesis by blast
qed

definition parses_piecewise :: "log_parser \<Rightarrow> bool" where
  "parses_piecewise p \<longleftrightarrow> (\<forall>a b spec. \<exists>da db d.
     p a spec = Inr da \<and> p b spec = Inr db \<and> p (a @ newline # b) spec = Inr d \<and>
     map_of d = map_of da ++ map_of db)"

lemma parses_piecewise_fold:
  assumes "\<And>log spec. p log spec = Inr (fold step (log_lines log) [])"
    and "\<And>a b. map_of (fold step (log_lines (a @ newline # b)) []) =
      map_of (fold step (log_lines a) []) ++ map_of (fold step (log_lines b) [])"
  shows "parses_piecewise p"
  unfolding parses_piecewise_def assms(1) using assms(2) by auto

lemmas parses_piecewise_facts =
  parses_piecewise_fold [OF parse_log_gotest_def gotest.parse_append_map]
  parses_piecewise_fold [OF parse_log_cargo_def cargo.parse_append_map]
  parses_piecewise_fold [OF parse_log_redis_def redis.parse_append_map]
  parses_piecewise_fold [OF parse_log_jq_def jq.parse_append_map]
  parses_piecewise_fold [OF parse_log_micropython_test_def micropython.parse_append_map]
  parses_piecewise_fold [OF parse_log_googletest_def googletest.parse_append_map]
  parses_piecewise_fold [OF parse_log_ant_def ant.parse_append_map]
  parses_piecewise_fold [OF parse_log_gradle_custom_def gradle.parse_append_map]
  parses_piecewise_fold [OF parse_log_minitest_def minitest.parse_append_map]
  parses_piecewise_fold [OF parse_log_cucumber_def cucumber.parse_append_map]
  parses_piecewise_fold [OF parse_log_ruby_unit_def ruby_unit.parse_append_map]
  parses_piecewise_fold [OF parse_log_marked_def marked.parse_append_map]
  parses_piecewise_fold [OF parse_log_react_pdf_def react.parse_append_map]
  parses_piecewise_fold [OF parse_log_jest_json_def jest_json.parse_append_map]
  parses_piecewise_fold [OF parse_log_tap_def tap.parse_append_map]
  parses_piecewise_fold [OF parse_log_pytest_def pytest.parse_append_map]
  parses_piecewise_fold [OF parse_log_pytest_options_def pytest_options.parse_append_map]
  parses_piecewise_fold [OF parse_log_matplotlib_def matplotlib.parse_append_map]

lemma line_parsers_piecewise: "list_all parses_piecewise line_parsers"
  by (simp only: line_parsers_def list.pred_inject parses_piecewise_facts simp_thms)

text \<open>
  A parser that goes line by line can be run on two logs separately: on their concatenation
  it finds what it finds on each, the second log taking precedence.
\<close>

theorem parse_log_append:
  assumes "p \<in> set line_parsers"
  shows "\<exists>da db d. p a spec = Inr da \<and> p b spec = Inr db \<and> p (a @ newline # b) spec = Inr d \<and>
    map_of d = map_of da ++ map_of db"
  using assms line_parsers_piecewise unfolding list_all_iff parses_piecewise_def by blast

theorem parse_log_append_witness:
  "\<exists>da db d. parse_log_tap ''ok 1 a'' demo_spec = Inr da \<and> parse_log_tap ''not ok 1 a'' demo_spec = Inr db \<and>
    parse_log_tap (''ok 1 a'' @ newline # ''not ok 1 a'') demo_spec = Inr d \<and>
    map_of d = map_of da ++ map_of db"
  by (rule parse_log_append) (simp add: line_parsers_def)

section \<open>Errors, and statuses that no test has\<close>

text \<open>
  The pytest parser stores the first word of a line that only begins with a status, so its
  map can hold a value that is not one of \<open>TestStatus\<close>: pytest's own usage error is one.
\<close>

theorem parse_log_pytest_foreign_status:
  "parse_log_pytest ''ERROR: usage: pytest [options]'' spec = Inr [(''usage:'', ''ERROR:'')] \<and>
   \<not> status_map_ok [(''usage:'', ''ERROR:'')]"
proof
  show "parse_log_pytest ''ERROR: usage: pytest [options]'' spec = Inr [(''usage:'', ''ERROR:'')]"
    by code_simp
  show "\<not> status_map_ok [(''usage:'', ''ERROR:'')]"
    by (simp add: status_map_ok_def statuses_def status_values_def all_test_status_def)
qed

text \<open>
  The RSpec parser never raises, and no test is ever recorded as skipped: its pattern admits
  only the outcomes \<open>passed\<close> and \<open>failed\<close>, so the branches for \<open>pending\<close> and for an unknown
  outcome are dead.
\<close>

theorem parse_log_rspec_total:
  "\<exists>d. parse_log_rspec_transformed_json log spec = Inr d \<and>
     snd ` set d \<subseteq> {test_status_value PASSED, test_status_value FAILED}"
proof -
  define P where "P = (\<lambda>d :: status_map. snd ` set d \<subseteq> {''PASSED'', ''FAILED''})"
  have set: "P (dict_set d k v)" if "P d" "v \<in> {''PASSED'', ''FAILED''}" for d k v
    unfolding P_def
  proof
    fix b assume "b \<in> snd ` set (dict_set d k v)"
    then obtain a where "(a, b) \<in> set (dict_set d k v)" by force
    from dict_set_values [OF this] that show "b \<in> {''PASSED'', ''FAILED''}"
      by (auto simp: P_def)
  qed
  have step: "\<exists>d'. rspec_step line d = Inr d' \<and> P d'" if "P d" for line d
    using that rspec_outcome [of "strip line"]
    by (auto simp: rspec_step_def set split: option.splits)
  have "\<exists>d'. foldE rspec_step ls d = Inr d' \<and> P d'" if "P d" for ls d
    using that
  proof (induction ls arbitrary: d)
    case (Cons l ls)
    then obtain d1 where "rspec_step l d = Inr d1" "P d1" using step by blast
    with Cons.IH show ?case by simp
  qed simp
  from this [of "[]" "log_lines log"] show ?thesis
    by (simp add: parse_log_rspec_transformed_json_def P_def)
qed

lemma foldE_Inl_iff:
  assumes "\<And>x s e. f x s = Inl e \<longleftrightarrow> bad x \<and> e = e0"
  shows "foldE f xs s = Inl e \<longleftrightarrow> e = e0 \<and> (\<exists>x \<in> set xs. bad x)"
proof (induction xs arbitrary: s)
  case (Cons x xs)
  show ?case
  proof (cases "f x s")
    case (Inl e')
    with assms [of x s e'] show ?thesis by auto
  next
    case (Inr s')
    with assms [of x s] Cons.IH [of s'] show ?thesis by auto
  qed
qed simp

lemma index_Inl: "index xs (int i) = Inl e \<longleftrightarrow> e = IndexError \<and> length xs \<le> i"
  by (auto simp: index_def)

text \<open>
  The seaborn parser raises exactly when the log has a line that carries a status and fewer
  than two words, such as a bare \<open>FAILED\<close>; the exception is \<open>IndexError\<close>.
\<close>

theorem parse_log_seaborn_raises_iff:
  "parse_log_seaborn log spec = Inl e \<longleftrightarrow> e = IndexError \<and>
     (\<exists>line \<in> set (log_lines log). (startswith line ''FAILED'' \<or> contains line '' PASSED '' \<or>
        startswith line ''PASSED'') \<and> length (words line) < 2)"
proof -
  have i1: "index xs 1 = Inl e \<longleftrightarrow> e = IndexError \<and> length xs < 2" for xs :: "string list" and e
    using index_Inl [of xs 1 e] by auto
  have i0: "index xs 0 = Inl e \<longleftrightarrow> e = IndexError \<and> length xs = 0" for xs :: "string list" and e
    using index_Inl [of xs 0 e] by auto
  show ?thesis
    unfolding parse_log_seaborn_def
    by (rule foldE_Inl_iff)
       (auto simp: seaborn_step_def Let_def rbind_Inl_iff i1 i0 index_def split: if_splits)
qed

section \<open>XML blocks\<close>

text \<open>
  The loop of the p5.js parser that removes XML blocks ends on every input, and then the
  text holds no block any more; it never grows the text.
\<close>

theorem remove_xml_blocks_done:
  "xml_round (remove_xml_blocks log) = None \<and> length (remove_xml_blocks log) \<le> length log"
proof (induction log rule: remove_xml_blocks.induct)
  case (1 log)
  show ?case
  proof (cases "xml_round log")
    case None
    then show ?thesis by (subst (1 2) remove_xml_blocks.simps) simp
  next
    case (Some s)
    with "1.IH" xml_round_shorter [OF Some] show ?thesis
      by (subst (1 2) remove_xml_blocks.simps) simp
  qed
qed

section \<open>The registry\<close>

lemmas registry_defs =
  MAP_REPO_TO_PARSER_C_def MAP_REPO_TO_PARSER_GO_def MAP_REPO_TO_PARSER_JAVA_def
  MAP_REPO_TO_PARSER_JS_def MAP_REPO_TO_PARSER_PHP_def MAP_REPO_TO_PARSER_PY_def
  MAP_REPO_TO_PARSER_RUST_def MAP_REPO_TO_PARSER_RUBY_def

lemma fold_dict_update_fresh:
  "distinct (keys (d @ concat ms)) \<Longrightarrow> fold (\<lambda>m d. dict_update d m) ms d = d @ concat ms"
proof (induction ms arbitrary: d)
  case (Cons m ms)
  then have "dict_update d m = d @ m" by (intro dict_update_fresh) auto
  with Cons.IH [of "d @ m"] Cons.prems show ?case by simp
qed simp

text \<open>
  No repository has two parsers: merging the maps of the languages keeps every entry of each.
\<close>

theorem registry_keeps_every_parser:
  "distinct (keys (MAP_REPO_TO_PARSER other)) \<and>
   set (MAP_REPO_TO_PARSER other) =
     set (MAP_REPO_TO_PARSER_C other) \<union> set MAP_REPO_TO_PARSER_GO \<union> set MAP_REPO_TO_PARSER_JAVA \<union>
     set (MAP_REPO_TO_PARSER_JS other) \<union> set (MAP_REPO_TO_PARSER_PHP other) \<union>
     set MAP_REPO_TO_PARSER_PY \<union> set MAP_REPO_TO_PARSER_RUST \<union> set MAP_REPO_TO_PARSER_RUBY"
proof -
  have "distinct (keys (concat (language_maps other)))"
    unfolding language_maps_def registry_defs by simp
  then have "MAP_REPO_TO_PARSER other = concat (language_maps other)"
    using fold_dict_update_fresh [of "[]" "language_maps other"]
    by (simp only: MAP_REPO_TO_PARSER_def append_Nil)
  with \<open>distinct (keys (concat (language_maps other)))\<close> show ?thesis
    by (simp add: language_maps_def Un_assoc)
qed

end
