(* ===== verification/Grading.thy ===== *)
theory Grading
  imports Log_Parsers_Python Complex_Main
begin

text \<open>
  \<open>SWE-bench/swebench/harness/grading.py\<close>: from the log of an evaluation run to the report on
  an instance. The log file's content is an argument, and so are the tables of repositories
  (\<open>MAP_REPO_TO_PARSER\<close> with the parsers that are not modelled, \<open>MAP_REPO_VERSION_TO_SPECS\<close>).
  Python's floats are rationals here: the ratios are only compared with 0 and 1.
\<close>

section \<open>Dictionaries that may lack a key\<close>

definition lookup :: "(string, 'v) pydict \<Rightarrow> string \<Rightarrow> exc + 'v" where
  "lookup d k = (case map_of d k of None \<Rightarrow> Inl (KeyError k) | Some v \<Rightarrow> Inr v)"

lemma lookup_Some [simp]: "map_of d k = Some v \<Longrightarrow> lookup d k = Inr v"
  by (simp add: lookup_def)

section \<open>The status of one test\<close>

definition test_passed :: "string \<Rightarrow> status_map \<Rightarrow> bool" where
  "test_passed test sm =
     (case map_of sm test of
        None \<Rightarrow> False
      | Some v \<Rightarrow> v \<in> set [test_status_value PASSED, test_status_value XFAIL])"

definition test_failed :: "string \<Rightarrow> status_map \<Rightarrow> bool" where
  "test_failed test sm =
     (case map_of sm test of
        None \<Rightarrow> True
      | Some v \<Rightarrow> v \<in> set [test_status_value FAILED, test_status_value ERROR])"

section \<open>Reading the log: \<open>get_logs_eval\<close>\<close>

datatype test_cmd = Cmd string | Cmds "string list"

text \<open>\<open>MAP_REPO_VERSION_TO_SPECS\<close>, of which only the key \<open>test_cmd\<close> is looked up.\<close>

type_synonym repo_specs = "(string, (string, (string, test_cmd) pydict) pydict) pydict"

definition last_test_cmd :: "test_cmd \<Rightarrow> exc + string" where
  "last_test_cmd c = (case c of Cmd s \<Rightarrow> Inr s | Cmds ss \<Rightarrow> index ss (- 1))"

definition bad_codes :: "string \<Rightarrow> string list" where
  "bad_codes content =
     filter (contains content) [APPLY_PATCH_FAIL, RESET_FAILED, TESTS_ERROR, TESTS_TIMEOUT]"

text \<open>\<open>content.split(START)[1].split(END)[0]\<close>.\<close>

definition test_section :: "string \<Rightarrow> exc + string" where
  "test_section content =
     rbind (index (split_on START_TEST_OUTPUT content) 1) (\<lambda>s.
       index (split_on END_TEST_OUTPUT s) 0)"

definition get_logs_eval ::
    "(string, log_parser) pydict \<Rightarrow> repo_specs \<Rightarrow> test_spec \<Rightarrow> string \<Rightarrow> exc + status_map \<times> bool" where
  "get_logs_eval parsers specs spec content =
     rbind (lookup parsers (ts_repo spec)) (\<lambda>log_parser.
     rbind (lookup specs (ts_repo spec)) (\<lambda>versions.
     rbind (lookup versions (ts_version spec)) (\<lambda>entry.
     rbind (lookup entry ''test_cmd'') (\<lambda>cmd.
     rbind (last_test_cmd cmd) (\<lambda>test_cmd.
       if bad_codes content \<noteq> [] then Inr ([], False)
       else if \<not> (contains content START_TEST_OUTPUT \<and> contains content END_TEST_OUTPUT)
       then Inr ([], False)
       else
         rbind (test_section content) (\<lambda>test_content.
         rbind (log_parser test_content spec) (\<lambda>status_map.
           if status_map = []
           then rbind (log_parser content spec) (\<lambda>status_map. Inr (status_map, True))
           else Inr (status_map, True))))))))"

section \<open>The report on the gold tests: \<open>get_eval_tests_report\<close>\<close>

record outcome =
  success :: "string list"
  failure :: "string list"

definition FAIL_TO_PASS :: string where "FAIL_TO_PASS = ''FAIL_TO_PASS''"
definition FAIL_TO_FAIL :: string where "FAIL_TO_FAIL = ''FAIL_TO_FAIL''"
definition PASS_TO_PASS :: string where "PASS_TO_PASS = ''PASS_TO_PASS''"
definition PASS_TO_FAIL :: string where "PASS_TO_FAIL = ''PASS_TO_FAIL''"

lemmas gold_keys = FAIL_TO_PASS_def FAIL_TO_FAIL_def PASS_TO_PASS_def PASS_TO_FAIL_def

text \<open>The gold results: the lists of tests by key, and \<open>gold_results.get("instance_id")\<close>.\<close>

record gold =
  gold_id :: "string option"
  gold_tests :: "(string, string list) pydict"

type_synonym tests_report = "(string, outcome) pydict"

definition silent_instances :: "string list" where
  "silent_instances =
     [''astropy__astropy-7606'', ''sphinx-doc__sphinx-8595'', ''sphinx-doc__sphinx-9711'']"

definition check_pass_and_fail ::
    "string option \<Rightarrow> status_map \<Rightarrow> string \<Rightarrow> outcome \<Rightarrow> outcome" where
  "check_pass_and_fail instance_id sm test r =
     (if map_of sm test = None \<and> instance_id \<in> Some ` set silent_instances
      then r\<lparr>success := success r @ [test]\<rparr>
      else if test_passed test sm then r\<lparr>success := success r @ [test]\<rparr>
      else if test_failed test sm then r\<lparr>failure := failure r @ [test]\<rparr>
      else r)"

definition check_fail_only :: "status_map \<Rightarrow> string \<Rightarrow> outcome \<Rightarrow> outcome" where
  "check_fail_only sm test r =
     (if map_of sm test = Some (test_status_value FAILED)
      then r\<lparr>failure := failure r @ [test]\<rparr>
      else r\<lparr>success := success r @ [test]\<rparr>)"

text \<open>
  The call of \<open>check_test_case\<close>. It always passes the keyword argument \<open>instance_id\<close>, which
  \<open>check_fail_only\<close> does not have.
\<close>

definition check_test_case ::
    "EvalType \<Rightarrow> string option \<Rightarrow> status_map \<Rightarrow> string \<Rightarrow> outcome \<Rightarrow> exc + outcome" where
  "check_test_case eval_type instance_id sm test r =
     (case eval_type of
        PASS_AND_FAIL \<Rightarrow> Inr (check_pass_and_fail instance_id sm test r)
      | FAIL_ONLY \<Rightarrow> Inl (TypeError ''unexpected keyword argument instance_id''))"

definition no_outcome :: outcome where
  "no_outcome = \<lparr>success = [], failure = []\<rparr>"

definition check_tests :: "EvalType \<Rightarrow> status_map \<Rightarrow> gold \<Rightarrow> string \<Rightarrow> exc + outcome" where
  "check_tests eval_type sm gold key =
     rbind (lookup (gold_tests gold) key) (\<lambda>tests.
       foldE (check_test_case eval_type (gold_id gold) sm) tests no_outcome)"

definition get_eval_tests_report ::
    "status_map \<Rightarrow> gold \<Rightarrow> bool \<Rightarrow> EvalType \<Rightarrow> exc + tests_report" where
  "get_eval_tests_report sm gold calculate_to_fail eval_type =
     rbind (check_tests eval_type sm gold FAIL_TO_PASS) (\<lambda>f2p.
     rbind (check_tests eval_type sm gold PASS_TO_PASS) (\<lambda>p2p.
     rbind (if calculate_to_fail then check_tests eval_type sm gold FAIL_TO_FAIL
            else Inr no_outcome) (\<lambda>f2f.
     rbind (if calculate_to_fail then check_tests eval_type sm gold PASS_TO_FAIL
            else Inr no_outcome) (\<lambda>p2f.
       Inr (dict_update [(FAIL_TO_PASS, f2p), (PASS_TO_PASS, p2p)]
              [(FAIL_TO_FAIL, f2f), (PASS_TO_FAIL, p2f)])))))"

section \<open>The resolution status\<close>

definition success_ratio :: "outcome \<Rightarrow> rat" where
  "success_ratio r =
     (let total = length (success r) + length (failure r)
      in if total = 0 then 1 else rat_of_nat (length (success r)) / rat_of_nat total)"

definition compute_fail_to_pass :: "tests_report \<Rightarrow> exc + rat" where
  "compute_fail_to_pass report = rbind (lookup report FAIL_TO_PASS) (\<lambda>r. Inr (success_ratio r))"

definition compute_pass_to_pass :: "tests_report \<Rightarrow> exc + rat" where
  "compute_pass_to_pass report = rbind (lookup report PASS_TO_PASS) (\<lambda>r. Inr (success_ratio r))"

definition get_resolution_status :: "tests_report \<Rightarrow> exc + ResolvedStatus" where
  "get_resolution_status report =
     rbind (compute_fail_to_pass report) (\<lambda>f2p.
     rbind (compute_pass_to_pass report) (\<lambda>p2p.
       Inr (if f2p = 1 \<and> p2p = 1 then RESOLVED_FULL
            else if f2p < 1 \<and> f2p > 0 \<and> p2p = 1 then RESOLVED_PARTIAL
            else RESOLVED_NO)))"

section \<open>The report on an instance: \<open>get_eval_report\<close>\<close>

record prediction =
  pred_instance_id :: string
  pred_patch :: "string option"

record instance_report =
  patch_is_None :: bool
  patch_exists :: bool
  patch_successfully_applied :: bool
  resolved :: bool
  tests_status :: "tests_report option"

definition empty_report :: instance_report where
  "empty_report = \<lparr>patch_is_None = False, patch_exists = False,
     patch_successfully_applied = False, resolved = False, tests_status = None\<rparr>"

text \<open>The last two assignments: \<open>resolved\<close> and, when asked for, \<open>tests_status\<close>.\<close>

definition finish_report ::
    "bool \<Rightarrow> tests_report \<Rightarrow> ResolvedStatus \<Rightarrow> instance_report \<Rightarrow> instance_report" where
  "finish_report include_tests_status report status r =
     (let r = (if status = RESOLVED_FULL then r\<lparr>resolved := True\<rparr> else r)
      in if include_tests_status then r\<lparr>tests_status := Some report\<rparr> else r)"

definition get_eval_report ::
    "(string, log_parser) pydict \<Rightarrow> repo_specs \<Rightarrow> test_spec \<Rightarrow> prediction \<Rightarrow> string \<Rightarrow> bool \<Rightarrow>
     exc + (string, instance_report) pydict" where
  "get_eval_report parsers specs spec pred content include_tests_status =
     (let instance_id = pred_instance_id pred; r = empty_report in
      if pred_patch pred = None then Inr [(instance_id, r\<lparr>patch_is_None := True\<rparr>)]
      else
        let r = r\<lparr>patch_exists := True\<rparr> in
        rbind (get_logs_eval parsers specs spec content) (\<lambda>(sm, found).
          if \<not> found then Inr [(instance_id, r)]
          else
            let r = r\<lparr>patch_successfully_applied := True\<rparr>;
                eval_ref = \<lparr>gold_id = Some (ts_instance_id spec),
                  gold_tests = [(FAIL_TO_PASS, ts_fail_to_pass spec),
                                (PASS_TO_PASS, ts_pass_to_pass spec)]\<rparr>;
                eval_type = (if ts_repo spec \<in> set FAIL_ONLY_REPOS then FAIL_ONLY
                             else PASS_AND_FAIL)
            in rbind (get_eval_tests_report sm eval_ref False eval_type) (\<lambda>report.
               rbind (get_resolution_status report) (\<lambda>status.
                 Inr [(instance_id, finish_report include_tests_status report status r)]))))"

section \<open>Lemmas\<close>

text \<open>When a test counts as a success or as a failure.\<close>

definition counts_success :: "string option \<Rightarrow> status_map \<Rightarrow> string \<Rightarrow> bool" where
  "counts_success instance_id sm test \<longleftrightarrow>
     test_passed test sm \<or> (map_of sm test = None \<and> instance_id \<in> Some ` set silent_instances)"

definition counts_failure :: "string option \<Rightarrow> status_map \<Rightarrow> string \<Rightarrow> bool" where
  "counts_failure instance_id sm test \<longleftrightarrow>
     test_failed test sm \<and> \<not> counts_success instance_id sm test"

lemma check_pass_and_fail_run:
  "foldE (check_test_case PASS_AND_FAIL i sm) tests r =
   Inr \<lparr>success = success r @ filter (counts_success i sm) tests,
        failure = failure r @ filter (counts_failure i sm) tests\<rparr>"
proof (induction tests arbitrary: r)
  case Nil
  then show ?case by simp
next
  case (Cons t ts)
  then show ?case
    by (auto simp: check_test_case_def check_pass_and_fail_def counts_success_def
        counts_failure_def)
qed

lemma check_tests_pass_and_fail:
  "map_of (gold_tests g) key = Some tests \<Longrightarrow>
   check_tests PASS_AND_FAIL sm g key =
     Inr \<lparr>success = filter (counts_success (gold_id g) sm) tests,
          failure = filter (counts_failure (gold_id g) sm) tests\<rparr>"
  by (simp add: check_tests_def check_pass_and_fail_run no_outcome_def)

lemma check_tests_fail_only:
  "map_of (gold_tests g) key = Some tests \<Longrightarrow> tests \<noteq> [] \<Longrightarrow>
   \<exists>e. check_tests FAIL_ONLY sm g key = Inl (TypeError e)"
  by (cases tests) (simp_all add: check_tests_def check_test_case_def)

lemma success_ratio_1: "success_ratio r = 1 \<longleftrightarrow> failure r = []"
proof (cases "length (success r) + length (failure r) = 0")
  case True
  then show ?thesis by (simp add: success_ratio_def)
next
  case False
  then have "success_ratio r = 1 \<longleftrightarrow>
      rat_of_nat (length (success r)) = rat_of_nat (length (success r) + length (failure r))"
    by (auto simp: success_ratio_def Let_def divide_eq_1_iff simp del: of_nat_add)
  then show ?thesis by (simp only: of_nat_eq_iff) simp
qed

lemma success_ratio_bounds: "0 \<le> success_ratio r" "success_ratio r \<le> 1"
  by (auto simp: success_ratio_def Let_def divide_le_eq_1)

lemma success_ratio_0: "success_ratio r = 0 \<longleftrightarrow> success r = [] \<and> failure r \<noteq> []"
  by (auto simp: success_ratio_def Let_def simp flip: of_nat_add)

lemma eval_tests_report:
  assumes "map_of (gold_tests g) FAIL_TO_PASS = Some f2p"
    and "map_of (gold_tests g) PASS_TO_PASS = Some p2p"
  shows "\<exists>report. get_eval_tests_report sm g False PASS_AND_FAIL = Inr report \<and>
    map_of report FAIL_TO_PASS =
      Some \<lparr>success = filter (counts_success (gold_id g) sm) f2p,
            failure = filter (counts_failure (gold_id g) sm) f2p\<rparr> \<and>
    map_of report PASS_TO_PASS =
      Some \<lparr>success = filter (counts_success (gold_id g) sm) p2p,
            failure = filter (counts_failure (gold_id g) sm) p2p\<rparr>"
  using assms check_tests_pass_and_fail [of g]
  by (simp add: get_eval_tests_report_def) (simp add: gold_keys)

lemma resolution_status:
  assumes "map_of report FAIL_TO_PASS = Some f" and "map_of report PASS_TO_PASS = Some p"
  shows "\<exists>st. get_resolution_status report = Inr st \<and>
    (st = RESOLVED_FULL \<longleftrightarrow> failure f = [] \<and> failure p = []) \<and>
    (st = RESOLVED_PARTIAL \<longleftrightarrow> success f \<noteq> [] \<and> failure f \<noteq> [] \<and> failure p = [])"
proof -
  have "success_ratio f < 1 \<longleftrightarrow> failure f \<noteq> []" "success_ratio f > 0 \<longleftrightarrow> success f \<noteq> [] \<or> failure f = []"
    using success_ratio_bounds [of f] success_ratio_1 [of f] success_ratio_0 [of f] by auto
  with assms show ?thesis
    by (auto simp: get_resolution_status_def compute_fail_to_pass_def compute_pass_to_pass_def
        success_ratio_1)
qed

section \<open>Properties\<close>

text \<open>
  For a repository whose tests pass and fail, the report sorts each list of gold tests into
  successes and failures, in its order: a success passed (or is absent in one of the three exempt
  instances), a failure is absent or failed. A test with another status, such as one that was
  skipped, is in neither.
\<close>

theorem get_eval_tests_report_partition:
  assumes "map_of (gold_tests g) FAIL_TO_PASS = Some f2p"
    and "map_of (gold_tests g) PASS_TO_PASS = Some p2p"
  shows "\<exists>report. get_eval_tests_report sm g False PASS_AND_FAIL = Inr report \<and>
    map_of report FAIL_TO_PASS =
      Some \<lparr>success = filter (counts_success (gold_id g) sm) f2p,
            failure = filter (counts_failure (gold_id g) sm) f2p\<rparr> \<and>
    map_of report PASS_TO_PASS =
      Some \<lparr>success = filter (counts_success (gold_id g) sm) p2p,
            failure = filter (counts_failure (gold_id g) sm) p2p\<rparr>"
  using eval_tests_report [OF assms] .

theorem get_eval_tests_report_partition_witness:
  "\<exists>report. get_eval_tests_report [(''a'', ''PASSED''), (''b'', ''SKIPPED'')]
      \<lparr>gold_id = None, gold_tests = [(FAIL_TO_PASS, [''a'', ''b'']), (PASS_TO_PASS, [''c''])]\<rparr>
      False PASS_AND_FAIL = Inr report \<and>
    map_of report FAIL_TO_PASS = Some \<lparr>success = [''a''], failure = []\<rparr> \<and>
    map_of report PASS_TO_PASS = Some \<lparr>success = [], failure = [''c'']\<rparr>"
  using get_eval_tests_report_partition
    [of "\<lparr>gold_id = None, gold_tests = [(FAIL_TO_PASS, [''a'', ''b'']), (PASS_TO_PASS, [''c''])]\<rparr>"
        "[''a'', ''b'']" "[''c'']" "[(''a'', ''PASSED''), (''b'', ''SKIPPED'')]"]
  by (simp add: counts_success_def counts_failure_def test_passed_def test_failed_def gold_keys
      silent_instances_def)

text \<open>
  For a repository whose tests only fail (Chart.js, p5.js, marked) grading raises
  \<open>TypeError\<close> as soon as there is one gold test: \<open>check_fail_only\<close> is called with a keyword
  argument that it does not have.
\<close>

theorem get_eval_tests_report_fail_only:
  assumes "map_of (gold_tests g) FAIL_TO_PASS = Some (t # ts)"
  shows "\<exists>e. get_eval_tests_report sm g calculate FAIL_ONLY = Inl (TypeError e)"
  using check_tests_fail_only [OF assms, of sm] by (auto simp: get_eval_tests_report_def)

theorem get_eval_tests_report_fail_only_witness:
  "\<exists>e. get_eval_tests_report [(''a'', ''PASSED'')]
      \<lparr>gold_id = None, gold_tests = [(FAIL_TO_PASS, [''a'']), (PASS_TO_PASS, [])]\<rparr>
      False FAIL_ONLY = Inl (TypeError e)"
  by (rule get_eval_tests_report_fail_only [of _ "''a''" "[]"]) simp

text \<open>
  C1. The resolution status is FULL exactly when no test failed, and PARTIAL exactly when no
  pass-to-pass test failed and the fail-to-pass tests have both a success and a failure.
\<close>

theorem get_resolution_status_iff:
  assumes "map_of report FAIL_TO_PASS = Some f" and "map_of report PASS_TO_PASS = Some p"
  shows "(get_resolution_status report = Inr RESOLVED_FULL \<longleftrightarrow> failure f = [] \<and> failure p = []) \<and>
    (get_resolution_status report = Inr RESOLVED_PARTIAL \<longleftrightarrow>
       success f \<noteq> [] \<and> failure f \<noteq> [] \<and> failure p = [])"
  using resolution_status [OF assms] by auto

theorem get_resolution_status_iff_witness:
  "get_resolution_status [(''FAIL_TO_PASS'', \<lparr>success = [''a''], failure = [''b'']\<rparr>),
     (''PASS_TO_PASS'', \<lparr>success = [], failure = []\<rparr>)] = Inr RESOLVED_PARTIAL"
  using get_resolution_status_iff [of "[(''FAIL_TO_PASS'', \<lparr>success = [''a''], failure = [''b'']\<rparr>),
     (''PASS_TO_PASS'', \<lparr>success = [], failure = []\<rparr>)]"]
  by (simp add: gold_keys)

text \<open>
  Reading a log succeeds in one of three ways: with no map and \<open>False\<close> when a marker of
  failure is in it or a marker of the test output is missing; otherwise with \<open>True\<close> and the map
  of the section between the markers, or of the whole log when that map is empty.
\<close>

theorem get_logs_eval_result:
  assumes "get_logs_eval parsers specs spec content = Inr (sm, found)"
    and "map_of parsers (ts_repo spec) = Some parser"
  shows "found = (bad_codes content = [] \<and> contains content START_TEST_OUTPUT \<and>
      contains content END_TEST_OUTPUT) \<and>
    (if found then \<exists>section. test_section content = Inr section \<and>
       (parser section spec = Inr sm \<and> sm \<noteq> [] \<or>
        parser section spec = Inr [] \<and> parser content spec = Inr sm)
     else sm = [])"
  using assms
  by (auto simp: get_logs_eval_def rbind_Inr_iff split: if_splits)

definition eval_specs :: repo_specs where
  "eval_specs = [(''tokio-rs/tokio'', [(''1.0'', [(''test_cmd'', Cmd ''cargo test'')])])]"

definition eval_spec :: test_spec where
  "eval_spec = \<lparr>ts_instance_id = ''tokio-rs__tokio-1'', ts_repo = ''tokio-rs/tokio'',
     ts_version = ''1.0'', ts_fail_to_pass = [''a''], ts_pass_to_pass = []\<rparr>"

definition eval_log :: string where
  "eval_log = START_TEST_OUTPUT @ newline # ''test a ... ok'' @ newline # END_TEST_OUTPUT"

definition eval_parsers :: "(string, log_parser) pydict" where
  "eval_parsers = [(''tokio-rs/tokio'', parse_log_cargo)]"

theorem get_logs_eval_result_witness:
  "get_logs_eval eval_parsers eval_specs eval_spec eval_log = Inr ([(''a'', ''PASSED'')], True) \<and>
   bad_codes eval_log = []"
proof -
  have r: "get_logs_eval eval_parsers eval_specs eval_spec eval_log =
      Inr ([(''a'', ''PASSED'')], True)"
    by code_simp
  have m: "map_of eval_parsers (ts_repo eval_spec) = Some parse_log_cargo"
    by (simp add: eval_parsers_def eval_spec_def)
  from get_logs_eval_result [OF r m] r show ?thesis by simp
qed

text \<open>
  C2. An instance is reported as resolved exactly when no gold test counts as a failure, for every
  prediction with a patch whose log was read, outside the repositories whose tests only fail.
\<close>

theorem get_eval_report_resolved_iff:
  assumes "pred_patch pred = Some patch" and "ts_repo spec \<notin> set FAIL_ONLY_REPOS"
    and "get_logs_eval parsers specs spec content = Inr (sm, True)"
  shows "\<exists>r. get_eval_report parsers specs spec pred content inc = Inr [(pred_instance_id pred, r)] \<and>
    patch_exists r \<and> patch_successfully_applied r \<and> (tests_status r \<noteq> None \<longleftrightarrow> inc) \<and>
    (resolved r \<longleftrightarrow> (\<forall>t \<in> set (ts_fail_to_pass spec) \<union> set (ts_pass_to_pass spec).
       \<not> counts_failure (Some (ts_instance_id spec)) sm t))"
proof -
  let ?i = "Some (ts_instance_id spec)"
  let ?g = "\<lparr>gold_id = ?i, gold_tests = [(FAIL_TO_PASS, ts_fail_to_pass spec),
    (PASS_TO_PASS, ts_pass_to_pass spec)]\<rparr>"
  obtain report where rep: "get_eval_tests_report sm ?g False PASS_AND_FAIL = Inr report"
      and f: "map_of report FAIL_TO_PASS = Some \<lparr>success = filter (counts_success ?i sm) (ts_fail_to_pass spec),
          failure = filter (counts_failure ?i sm) (ts_fail_to_pass spec)\<rparr>"
      and p: "map_of report PASS_TO_PASS = Some \<lparr>success = filter (counts_success ?i sm) (ts_pass_to_pass spec),
          failure = filter (counts_failure ?i sm) (ts_pass_to_pass spec)\<rparr>"
    using eval_tests_report [of ?g "ts_fail_to_pass spec" "ts_pass_to_pass spec" sm]
    by (auto simp: gold_keys)
  obtain st where st: "get_resolution_status report = Inr st" and
      full: "st = RESOLVED_FULL \<longleftrightarrow>
        filter (counts_failure ?i sm) (ts_fail_to_pass spec) = [] \<and>
        filter (counts_failure ?i sm) (ts_pass_to_pass spec) = []"
    using resolution_status [OF f p] by auto
  show ?thesis
    using assms rep st full
    by (auto simp: get_eval_report_def finish_report_def empty_report_def Let_def filter_empty_conv)
qed

theorem get_eval_report_resolved_iff_witness:
  "\<exists>r. get_eval_report eval_parsers eval_specs eval_spec
       \<lparr>pred_instance_id = ''tokio-rs__tokio-1'', pred_patch = Some ''diff''\<rparr> eval_log False
     = Inr [(''tokio-rs__tokio-1'', r)] \<and> resolved r"
proof -
  have r: "get_logs_eval eval_parsers eval_specs eval_spec eval_log =
      Inr ([(''a'', ''PASSED'')], True)"
    by code_simp
  have fo: "ts_repo eval_spec \<notin> set FAIL_ONLY_REPOS"
    by (simp add: eval_spec_def FAIL_ONLY_REPOS_def)
  have pp: "pred_patch \<lparr>pred_instance_id = ''tokio-rs__tokio-1'', pred_patch = Some ''diff''\<rparr> = Some ''diff''"
    by simp
  from get_eval_report_resolved_iff [OF pp fo r, of False] show ?thesis
    by (auto simp: eval_spec_def counts_failure_def counts_success_def test_passed_def)
qed

text \<open>
  The flags of a report go in stages: resolved only after the patch was applied, applied only
  when the patch exists, and the patch exists exactly when it is not \<open>None\<close>.
\<close>

theorem get_eval_report_stages:
  assumes "get_eval_report parsers specs spec pred content inc = Inr m"
  shows "\<exists>r. m = [(pred_instance_id pred, r)] \<and>
    (resolved r \<longrightarrow> patch_successfully_applied r) \<and>
    (patch_successfully_applied r \<longrightarrow> patch_exists r) \<and>
    (patch_exists r \<longleftrightarrow> \<not> patch_is_None r) \<and> (patch_is_None r \<longleftrightarrow> pred_patch pred = None)"
proof (cases "pred_patch pred")
  case None
  with assms have "m = [(pred_instance_id pred, empty_report\<lparr>patch_is_None := True\<rparr>)]"
    by (simp add: get_eval_report_def)
  with None show ?thesis by (simp add: empty_report_def)
next
  case (Some patch)
  with assms obtain sm found where logs: "get_logs_eval parsers specs spec content = Inr (sm, found)"
    by (cases "get_logs_eval parsers specs spec content") (auto simp: get_eval_report_def Let_def)
  show ?thesis
  proof (cases found)
    case False
    with assms Some logs have "m = [(pred_instance_id pred, empty_report\<lparr>patch_exists := True\<rparr>)]"
      by (simp add: get_eval_report_def Let_def)
    with Some show ?thesis by (simp add: empty_report_def)
  next
    case True
    define r where "r = empty_report\<lparr>patch_exists := True, patch_successfully_applied := True\<rparr>"
    define rest where "rest = (\<lambda>report. rbind (get_resolution_status report) (\<lambda>st.
      Inr [(pred_instance_id pred, finish_report inc report st r)] :: exc + _))"
    obtain g et where "get_eval_report parsers specs spec pred content inc =
        rbind (get_eval_tests_report sm g False et) rest"
      by (simp add: get_eval_report_def Some logs True Let_def r_def rest_def)
    with assms obtain report where "rest report = Inr m" by (auto simp: rbind_Inr_iff)
    then obtain st where "m = [(pred_instance_id pred, finish_report inc report st r)]"
      by (auto simp: rest_def rbind_Inr_iff)
    then show ?thesis
      using Some by (simp add: finish_report_def Let_def r_def empty_report_def)
  qed
qed

theorem get_eval_report_stages_witness:
  "get_eval_report [] [] eval_spec \<lparr>pred_instance_id = ''i'', pred_patch = None\<rparr> [] False =
     Inr [(''i'', empty_report\<lparr>patch_is_None := True\<rparr>)] \<and>
   \<not> patch_exists (empty_report\<lparr>patch_is_None := True\<rparr>)"
  using get_eval_report_stages
    [of "[]" "[]" eval_spec "\<lparr>pred_instance_id = ''i'', pred_patch = None\<rparr>" "[]" False
        "[(''i'', empty_report\<lparr>patch_is_None := True\<rparr>)]"]
  by (simp add: get_eval_report_def)

end
