(* ===== verification/Reporting.thy ===== *)
theory Reporting
  imports Grading "HOL-Library.List_Lexorder" "HOL-Library.Char_ord"
begin

text \<open>
  \<open>SWE-bench/swebench/harness/reporting.py\<close>: \<open>make_run_report\<close>. The files under the log
  directory are a function from paths to contents, \<open>json.loads\<close> on a report file is the argument
  \<open>loads\<close> (a parsed report maps an instance to its fields, of which \<open>resolved\<close> is read), and a
  Docker client is the lists of its images and of its containers' names. Printing is left out.
\<close>

section \<open>State and report\<close>

record run_sets =
  completed_ids :: "string set"
  resolved_ids :: "string set"
  error_ids :: "string set"
  unresolved_ids :: "string set"
  incomplete_ids :: "string set"
  empty_patch_ids :: "string set"

definition no_ids :: run_sets where
  "no_ids = \<lparr>completed_ids = {}, resolved_ids = {}, error_ids = {}, unresolved_ids = {},
     incomplete_ids = {}, empty_patch_ids = {}\<rparr>"

record run_prediction =
  rp_model :: string
  rp_patch :: "string option"
  rp_instance_id :: string

record docker_client =
  images :: "string list"
  containers :: "string list"

record run_report =
  total_instances :: nat
  submitted_instances :: nat
  completed_instances :: nat
  resolved_instances :: nat
  unresolved_instances :: nat
  empty_patch_instances :: nat
  error_instances :: nat
  r_completed_ids :: "string list"
  r_incomplete_ids :: "string list"
  r_empty_patch_ids :: "string list"
  r_submitted_ids :: "string list"
  r_resolved_ids :: "string list"
  r_unresolved_ids :: "string list"
  r_error_ids :: "string list"
  \<comment> \<open>\<open>unstopped_containers\<close> and \<open>unremoved_images\<close>, when the keys are in the report\<close>
  r_leftovers :: "(string list \<times> string list) option"

section \<open>Sorting the instances\<close>

type_synonym report_files = "string \<Rightarrow> string option"
type_synonym json_report = "(string, (string, bool) pydict) pydict"

definition report_path :: "string \<Rightarrow> run_prediction \<Rightarrow> string" where
  "report_path run_id p =
     join ''/'' [''logs/run_evaluation'', run_id, replace (rp_model p) ''/'' ''__'',
       rp_instance_id p, ''report.json'']"

text \<open>The exceptions that the \<open>except\<close> clause names.\<close>

definition report_error :: "exc \<Rightarrow> bool" where
  "report_error e =
     (case e of KeyError _ \<Rightarrow> True | OtherException c _ \<Rightarrow> c = ''JSONDecodeError'' | _ \<Rightarrow> False)"

definition read_resolved :: "(string \<Rightarrow> exc + json_report) \<Rightarrow> string \<Rightarrow> string \<Rightarrow> exc + bool" where
  "read_resolved loads instance_id content =
     rbind (loads content) (\<lambda>report. rbind (lookup report instance_id) (\<lambda>entry.
       lookup entry ''resolved''))"

definition run_step ::
    "(string, run_prediction) pydict \<Rightarrow> report_files \<Rightarrow> (string \<Rightarrow> exc + json_report) \<Rightarrow> string \<Rightarrow>
     string \<Rightarrow> run_sets \<Rightarrow> exc + run_sets" where
  "run_step predictions files loads run_id i s =
     (case map_of predictions i of
        None \<Rightarrow> Inr (s\<lparr>incomplete_ids := insert i (incomplete_ids s)\<rparr>)
      | Some p \<Rightarrow>
          if rp_patch p = None \<or> rp_patch p = Some [] then
            Inr (s\<lparr>empty_patch_ids := insert i (empty_patch_ids s)\<rparr>)
          else
            case files (report_path run_id p) of
              None \<Rightarrow> Inr (s\<lparr>error_ids := insert i (error_ids s)\<rparr>)
            | Some text \<Rightarrow>
                let s = s\<lparr>completed_ids := insert i (completed_ids s)\<rparr>; content = strip text in
                if content = [] then Inr (s\<lparr>error_ids := insert i (error_ids s)\<rparr>)
                else
                  case read_resolved loads i content of
                    Inr True \<Rightarrow> Inr (s\<lparr>resolved_ids := insert i (resolved_ids s)\<rparr>)
                  | Inr False \<Rightarrow> Inr (s\<lparr>unresolved_ids := insert i (unresolved_ids s)\<rparr>)
                  | Inl e \<Rightarrow>
                      if report_error e then Inr (s\<lparr>error_ids := insert i (error_ids s)\<rparr>)
                      else Inl e)"

section \<open>\<open>make_run_report\<close>\<close>

definition leftovers ::
    "docker_client option \<Rightarrow> (string \<Rightarrow> string) \<Rightarrow> string \<Rightarrow> string list \<Rightarrow> string set \<times> string set" where
  "leftovers client image_key run_id dataset =
     (case client of
        None \<Rightarrow> ({}, {})
      | Some c \<Rightarrow>
          (set (filter (\<lambda>name. contains name run_id) (containers c)),
           set (filter (\<lambda>image. image \<in> set (images c)) (map image_key dataset))))"

definition make_run_report ::
    "(string, run_prediction) pydict \<Rightarrow> report_files \<Rightarrow> (string \<Rightarrow> exc + json_report) \<Rightarrow>
     (string \<Rightarrow> string) \<Rightarrow> string list \<Rightarrow> string \<Rightarrow> docker_client option \<Rightarrow>
     exc + string \<times> run_report" where
  "make_run_report predictions files loads image_key dataset run_id client =
     rbind (foldE (run_step predictions files loads run_id) dataset no_ids) (\<lambda>s.
       let (unstopped, unremoved) = leftovers client image_key run_id dataset;
           report = \<lparr>total_instances = length dataset,
             submitted_instances = length predictions,
             completed_instances = card (completed_ids s),
             resolved_instances = card (resolved_ids s),
             unresolved_instances = card (unresolved_ids s),
             empty_patch_instances = card (empty_patch_ids s),
             error_instances = card (error_ids s),
             r_completed_ids = sorted_list_of_set (completed_ids s),
             r_incomplete_ids = sorted_list_of_set (incomplete_ids s),
             r_empty_patch_ids = sorted_list_of_set (empty_patch_ids s),
             r_submitted_ids = sort (keys predictions),
             r_resolved_ids = sorted_list_of_set (resolved_ids s),
             r_unresolved_ids = sorted_list_of_set (unresolved_ids s),
             r_error_ids = sorted_list_of_set (error_ids s),
             r_leftovers =
               (if client = None
                then Some (sorted_list_of_set unstopped, sorted_list_of_set unremoved)
                else None)\<rparr>
       in rbind (index (map snd predictions) 0) (\<lambda>p.
            Inr (replace (rp_model p) ''/'' ''__'' @ ''.'' @ run_id @ ''.json'', report)))"

section \<open>Specification: every instance has one category\<close>

datatype category = Incomplete | EmptyPatch | NotRun | BadReport | Resolved | Unresolved

text \<open>The category of an instance, or the exception that stops the report.\<close>

definition category_of ::
    "(string, run_prediction) pydict \<Rightarrow> report_files \<Rightarrow> (string \<Rightarrow> exc + json_report) \<Rightarrow> string \<Rightarrow>
     string \<Rightarrow> exc + category" where
  "category_of predictions files loads run_id i =
     (case map_of predictions i of
        None \<Rightarrow> Inr Incomplete
      | Some p \<Rightarrow>
          if rp_patch p \<in> {None, Some []} then Inr EmptyPatch
          else case files (report_path run_id p) of
            None \<Rightarrow> Inr NotRun
          | Some text \<Rightarrow>
              if strip text = [] then Inr BadReport
              else case read_resolved loads i (strip text) of
                Inr b \<Rightarrow> Inr (if b then Resolved else Unresolved)
              | Inl e \<Rightarrow> if report_error e then Inr BadReport else Inl e)"

definition ids_of :: "(string \<Rightarrow> exc + category) \<Rightarrow> string list \<Rightarrow> category set \<Rightarrow> string set" where
  "ids_of cf dataset cs = {i \<in> set dataset. \<exists>c \<in> cs. cf i = Inr c}"

definition sets_of :: "(string \<Rightarrow> exc + category) \<Rightarrow> string list \<Rightarrow> run_sets" where
  "sets_of cf dataset =
     \<lparr>completed_ids = ids_of cf dataset {BadReport, Resolved, Unresolved},
      resolved_ids = ids_of cf dataset {Resolved},
      error_ids = ids_of cf dataset {NotRun, BadReport},
      unresolved_ids = ids_of cf dataset {Unresolved},
      incomplete_ids = ids_of cf dataset {Incomplete},
      empty_patch_ids = ids_of cf dataset {EmptyPatch}\<rparr>"

lemma ids_of_snoc:
  "ids_of cf (xs @ [x]) cs = (if \<exists>c \<in> cs. cf x = Inr c then insert x (ids_of cf xs cs)
     else ids_of cf xs cs)"
  by (auto simp: ids_of_def)

lemma finite_ids_of [simp]: "finite (ids_of cf xs cs)"
  by (simp add: ids_of_def)

lemma run_step_category:
  "run_step ps files loads run_id i s =
     (case category_of ps files loads run_id i of
        Inl e \<Rightarrow> Inl e
      | Inr Incomplete \<Rightarrow> Inr (s\<lparr>incomplete_ids := insert i (incomplete_ids s)\<rparr>)
      | Inr EmptyPatch \<Rightarrow> Inr (s\<lparr>empty_patch_ids := insert i (empty_patch_ids s)\<rparr>)
      | Inr NotRun \<Rightarrow> Inr (s\<lparr>error_ids := insert i (error_ids s)\<rparr>)
      | Inr BadReport \<Rightarrow> Inr (s\<lparr>completed_ids := insert i (completed_ids s),
          error_ids := insert i (error_ids s)\<rparr>)
      | Inr Resolved \<Rightarrow> Inr (s\<lparr>completed_ids := insert i (completed_ids s),
          resolved_ids := insert i (resolved_ids s)\<rparr>)
      | Inr Unresolved \<Rightarrow> Inr (s\<lparr>completed_ids := insert i (completed_ids s),
          unresolved_ids := insert i (unresolved_ids s)\<rparr>))"
  by (simp add: run_step_def category_of_def Let_def split: option.split sum.split bool.split)

lemma run_step_sets_of:
  assumes "category_of ps files loads run_id i = Inr c"
  shows "run_step ps files loads run_id i (sets_of (category_of ps files loads run_id) xs) =
    Inr (sets_of (category_of ps files loads run_id) (xs @ [i]))"
  using assms unfolding run_step_category sets_of_def by (cases c) (simp_all add: ids_of_snoc)

lemma run_sets:
  "foldE (run_step ps files loads run_id) dataset no_ids = Inr s \<Longrightarrow>
   s = sets_of (category_of ps files loads run_id) dataset"
proof (induction dataset arbitrary: s rule: rev_induct)
  case Nil
  then show ?case by (simp add: no_ids_def sets_of_def ids_of_def)
next
  case (snoc i xs)
  then obtain s0 where "foldE (run_step ps files loads run_id) xs no_ids = Inr s0"
      and step: "run_step ps files loads run_id i s0 = Inr s"
    by (auto simp: foldE_append rbind_Inr_iff)
  with snoc.IH have s0: "s0 = sets_of (category_of ps files loads run_id) xs" by blast
  show ?case
  proof (cases "category_of ps files loads run_id i")
    case (Inl e)
    with step show ?thesis by (simp add: run_step_category)
  next
    case (Inr c)
    with run_step_sets_of [OF Inr] step s0 show ?thesis by simp
  qed
qed

lemma make_run_report_sets:
  assumes "make_run_report ps files loads image_key dataset run_id client = Inr (path, r)"
  defines "cf \<equiv> category_of ps files loads run_id"
  shows "(\<forall>i \<in> set dataset. \<exists>c. cf i = Inr c) \<and>
    set (r_completed_ids r) = ids_of cf dataset {BadReport, Resolved, Unresolved} \<and>
    set (r_resolved_ids r) = ids_of cf dataset {Resolved} \<and>
    set (r_unresolved_ids r) = ids_of cf dataset {Unresolved} \<and>
    set (r_error_ids r) = ids_of cf dataset {NotRun, BadReport} \<and>
    set (r_incomplete_ids r) = ids_of cf dataset {Incomplete} \<and>
    set (r_empty_patch_ids r) = ids_of cf dataset {EmptyPatch} \<and>
    r_leftovers r = (if client = None then Some ([], []) else None)"
proof -
  obtain s where run: "foldE (run_step ps files loads run_id) dataset no_ids = Inr s"
    using assms(1) by (auto simp: make_run_report_def rbind_Inr_iff)
  have total: "\<exists>c. cf i = Inr c" if "i \<in> set dataset" for i
  proof (rule ccontr)
    assume "\<nexists>c. cf i = Inr c"
    then obtain e where e: "cf i = Inl e" by (cases "cf i") auto
    from that obtain xs ys where "dataset = xs @ i # ys" by (auto simp: in_set_conv_decomp)
    with run show False
      by (auto simp: foldE_append rbind_Inr_iff run_step_category e [unfolded cf_def])
  qed
  from run_sets [OF run] have s: "s = sets_of cf dataset" by (simp add: cf_def)
  show ?thesis
    using assms(1) total
    by (auto simp: make_run_report_def run s sets_of_def rbind_Inr_iff leftovers_def Let_def
        split: prod.splits if_splits)
qed

section \<open>Properties\<close>


definition demo_predictions :: "(string, run_prediction) pydict" where
  "demo_predictions =
     [(''a'', \<lparr>rp_model = ''org/m'', rp_patch = Some ''diff'', rp_instance_id = ''a''\<rparr>),
      (''b'', \<lparr>rp_model = ''org/m'', rp_patch = None, rp_instance_id = ''b''\<rparr>)]"

definition demo_files :: report_files where
  "demo_files path =
     (if path = ''logs/run_evaluation/r/org__m/a/report.json'' then Some ''json'' else None)"

definition demo_loads :: "string \<Rightarrow> exc + json_report" where
  "demo_loads content = Inr [(''a'', [(''resolved'', True)])]"

lemma demo_run:
  "\<exists>path r. make_run_report demo_predictions demo_files demo_loads (\<lambda>i. i) [''a'', ''b'', ''c''] ''r'' c =
     Inr (path, r) \<and> r_resolved_ids r = [''a''] \<and> r_empty_patch_ids r = [''b''] \<and>
     r_incomplete_ids r = [''c'']"
proof -
  have path: "report_path ''r'' \<lparr>rp_model = ''org/m'', rp_patch = Some ''diff'', rp_instance_id = ''a''\<rparr>
      = ''logs/run_evaluation/r/org__m/a/report.json''"
    by code_simp
  have st: "strip ''json'' = ''json''" by code_simp
  show ?thesis
    by (simp add: make_run_report_def run_step_def demo_predictions_def demo_files_def path st
        demo_loads_def no_ids_def read_resolved_def lookup_def index_def Let_def
        split: prod.split)
qed


text \<open>
  The report never names a container or an image that is left over: the two keys are written
  only when there is no Docker client to ask, and then the lists are empty.
\<close>

theorem make_run_report_no_leftovers:
  assumes "make_run_report ps files loads image_key dataset run_id client = Inr (path, r)"
  shows "r_leftovers r = (if client = None then Some ([], []) else None)"
  using make_run_report_sets [OF assms] by simp

theorem make_run_report_no_leftovers_witness:
  "\<exists>path r. make_run_report demo_predictions demo_files demo_loads (\<lambda>i. i) [''a'', ''b'', ''c''] ''r''
     (Some \<lparr>images = [''a''], containers = [''sweb.eval.a.r'']\<rparr>) = Inr (path, r) \<and> r_leftovers r = None"
proof -
  obtain path r where run: "make_run_report demo_predictions demo_files demo_loads (\<lambda>i. i)
      [''a'', ''b'', ''c''] ''r'' (Some \<lparr>images = [''a''], containers = [''sweb.eval.a.r'']\<rparr>) = Inr (path, r)"
    using demo_run [of "Some \<lparr>images = [''a''], containers = [''sweb.eval.a.r'']\<rparr>"] by blast
  from make_run_report_no_leftovers [OF run] run show ?thesis by auto
qed

end
