(* ===== verification/Metrics.thy ===== *)
theory Metrics
  imports Py_Prelude Complex_Main
begin

text \<open>
  \<open>OpenHands/openhands/llm/metrics.py\<close>: the costs, latencies and token counts of LLM calls.
  Costs and times are rationals (no rounding); \<open>time.time()\<close> is an argument of the operations
  that call it. A Python object that is changed in place is returned changed. The lazily created
  attributes of old pickled objects always exist here.
\<close>

section \<open>Records\<close>

record Cost =
  c_model :: string
  c_cost :: rat
  c_timestamp :: rat

record ResponseLatency =
  rl_model :: string
  rl_latency :: rat
  rl_response_id :: string

record TokenUsage =
  tu_model :: string
  prompt_tokens :: int
  completion_tokens :: int
  cache_read_tokens :: int
  cache_write_tokens :: int
  context_window :: int
  per_turn_token :: int
  tu_response_id :: string

text \<open>\<open>TokenUsage.__add__\<close>: the model and the response of the left, the last turn of the right.\<close>

definition add_usage ::
    "'a TokenUsage_scheme \<Rightarrow> 'a TokenUsage_scheme \<Rightarrow> 'a TokenUsage_scheme" where
  "add_usage a b = a\<lparr>prompt_tokens := prompt_tokens a + prompt_tokens b,
     completion_tokens := completion_tokens a + completion_tokens b,
     cache_read_tokens := cache_read_tokens a + cache_read_tokens b,
     cache_write_tokens := cache_write_tokens a + cache_write_tokens b,
     context_window := max (context_window a) (context_window b),
     per_turn_token := per_turn_token b\<rparr>"

instantiation TokenUsage_ext :: (type) semigroup_add
begin

definition plus_TokenUsage_ext ::
    "'a TokenUsage_scheme \<Rightarrow> 'a TokenUsage_scheme \<Rightarrow> 'a TokenUsage_scheme" where
  "plus_TokenUsage_ext = add_usage"

instance
  by standard (simp add: plus_TokenUsage_ext_def add_usage_def)

end

lemma usage_plus_simps [simp]:
  "prompt_tokens (a + b) = prompt_tokens a + prompt_tokens (b :: TokenUsage)"
  "completion_tokens (a + b) = completion_tokens a + completion_tokens b"
  "cache_read_tokens (a + b) = cache_read_tokens a + cache_read_tokens b"
  "cache_write_tokens (a + b) = cache_write_tokens a + cache_write_tokens b"
  "context_window (a + b) = max (context_window a) (context_window b)"
  "per_turn_token (a + b) = per_turn_token b"
  "tu_model (a + b) = tu_model a"
  by (simp_all add: plus_TokenUsage_ext_def add_usage_def)

definition no_usage :: "string \<Rightarrow> TokenUsage" where
  "no_usage model = \<lparr>tu_model = model, prompt_tokens = 0, completion_tokens = 0,
     cache_read_tokens = 0, cache_write_tokens = 0, context_window = 0, per_turn_token = 0,
     tu_response_id = []\<rparr>"

record metrics =
  accumulated_cost :: rat
  max_budget_per_task :: "rat option"
  costs :: "Cost list"
  response_latencies :: "ResponseLatency list"
  model_name :: string
  token_usages :: "TokenUsage list"
  accumulated_token_usage :: TokenUsage

definition new_metrics :: "string \<Rightarrow> metrics" where
  "new_metrics model = \<lparr>accumulated_cost = 0, max_budget_per_task = None, costs = [],
     response_latencies = [], model_name = model, token_usages = [],
     accumulated_token_usage = no_usage model\<rparr>"

section \<open>Operations\<close>

definition set_accumulated_cost :: "rat \<Rightarrow> metrics \<Rightarrow> exc + metrics" where
  "set_accumulated_cost v m =
     (if v < 0 then Inl (ValueError ''Total cost cannot be negative.'')
      else Inr (m\<lparr>accumulated_cost := v\<rparr>))"

definition add_cost :: "rat \<Rightarrow> rat \<Rightarrow> metrics \<Rightarrow> exc + metrics" where
  "add_cost now v m =
     (if v < 0 then Inl (ValueError ''Added cost cannot be negative.'')
      else Inr (m\<lparr>accumulated_cost := accumulated_cost m + v,
                  costs := costs m @ [\<lparr>c_model = model_name m, c_cost = v, c_timestamp = now\<rparr>]\<rparr>))"

definition add_response_latency :: "rat \<Rightarrow> string \<Rightarrow> metrics \<Rightarrow> metrics" where
  "add_response_latency v response_id m =
     m\<lparr>response_latencies := response_latencies m @
         [\<lparr>rl_model = model_name m, rl_latency = max 0 v, rl_response_id = response_id\<rparr>]\<rparr>"

text \<open>The arguments of \<open>add_token_usage\<close> but the response.\<close>

record token_counts =
  n_prompt :: int
  n_completion :: int
  n_cache_read :: int
  n_cache_write :: int
  n_window :: int

definition usage_of :: "string \<Rightarrow> token_counts \<Rightarrow> string \<Rightarrow> TokenUsage" where
  "usage_of model n response_id =
     \<lparr>tu_model = model, prompt_tokens = n_prompt n, completion_tokens = n_completion n,
      cache_read_tokens = n_cache_read n, cache_write_tokens = n_cache_write n,
      context_window = n_window n, per_turn_token = n_prompt n + n_completion n,
      tu_response_id = response_id\<rparr>"

definition add_token_usage :: "token_counts \<Rightarrow> string \<Rightarrow> metrics \<Rightarrow> metrics" where
  "add_token_usage n response_id m =
     m\<lparr>token_usages := token_usages m @ [usage_of (model_name m) n response_id],
       accumulated_token_usage := accumulated_token_usage m + usage_of (model_name m) n []\<rparr>"

definition merge_metrics :: "metrics \<Rightarrow> metrics \<Rightarrow> metrics" where
  "merge_metrics m other =
     m\<lparr>accumulated_cost := accumulated_cost m + accumulated_cost other,
       max_budget_per_task :=
         (if max_budget_per_task m = None \<and> max_budget_per_task other \<noteq> None
          then max_budget_per_task other else max_budget_per_task m),
       costs := costs m @ costs other,
       token_usages := token_usages m @ token_usages other,
       response_latencies := response_latencies m @ response_latencies other,
       accumulated_token_usage := accumulated_token_usage m + accumulated_token_usage other\<rparr>"

definition diff_metrics :: "metrics \<Rightarrow> metrics \<Rightarrow> metrics" where
  "diff_metrics m baseline =
     (let cur = accumulated_token_usage m; base = accumulated_token_usage baseline in
      (new_metrics (model_name m))
       \<lparr>accumulated_cost := accumulated_cost m - accumulated_cost baseline,
        costs := (if costs baseline \<noteq> []
          then filter (\<lambda>c. c_timestamp c > c_timestamp (last (costs baseline))) (costs m)
          else costs m),
        response_latencies := slice_from (int (length (response_latencies baseline)))
          (response_latencies m),
        token_usages := slice_from (int (length (token_usages baseline))) (token_usages m),
        accumulated_token_usage :=
          (no_usage (model_name m))
            \<lparr>prompt_tokens := prompt_tokens cur - prompt_tokens base,
             completion_tokens := completion_tokens cur - completion_tokens base,
             cache_read_tokens := cache_read_tokens cur - cache_read_tokens base,
             cache_write_tokens := cache_write_tokens cur - cache_write_tokens base,
             context_window := context_window cur\<rparr>\<rparr>)"

section \<open>What the totals are totals of\<close>

text \<open>The cost is the sum of the costs, and the accumulated usage adds up the usages.\<close>

definition metrics_ok :: "metrics \<Rightarrow> bool" where
  "metrics_ok m \<longleftrightarrow>
     accumulated_cost m = sum_list (map c_cost (costs m)) \<and>
     (\<forall>c \<in> set (costs m). 0 \<le> c_cost c) \<and>
     prompt_tokens (accumulated_token_usage m) = sum_list (map prompt_tokens (token_usages m)) \<and>
     completion_tokens (accumulated_token_usage m) =
       sum_list (map completion_tokens (token_usages m)) \<and>
     cache_read_tokens (accumulated_token_usage m) =
       sum_list (map cache_read_tokens (token_usages m)) \<and>
     cache_write_tokens (accumulated_token_usage m) =
       sum_list (map cache_write_tokens (token_usages m)) \<and>
     context_window (accumulated_token_usage m) = fold max (map context_window (token_usages m)) 0"

lemma fold_max_max: "fold max xs (a :: int) = max a (fold max xs a)"
  by (induction xs arbitrary: a) (auto, metis max.assoc max.idem max.left_commute)

lemma fold_max_join: "0 \<le> (a :: int) \<Longrightarrow> fold max xs a = max a (fold max xs 0)"
proof (induction xs arbitrary: a)
  case (Cons x xs)
  then show ?case by (metis fold_simps(2) max.assoc max.cobounded2 max.commute max_def)
qed simp

lemma new_metrics_ok: "metrics_ok (new_metrics model)"
  by (simp add: metrics_ok_def new_metrics_def no_usage_def)

lemma add_cost_ok: "metrics_ok m \<Longrightarrow> add_cost now v m = Inr m' \<Longrightarrow> metrics_ok m'"
  by (auto simp: add_cost_def metrics_ok_def split: if_splits)

lemma add_response_latency_ok: "metrics_ok m \<Longrightarrow> metrics_ok (add_response_latency v r m)"
  by (simp add: add_response_latency_def metrics_ok_def)

lemma add_token_usage_ok: "metrics_ok m \<Longrightarrow> metrics_ok (add_token_usage n r m)"
  by (simp add: add_token_usage_def metrics_ok_def usage_of_def max.commute)

lemma fold_max_nonneg: "0 \<le> fold max xs (0 :: int)"
  by (metis fold_max_max max.cobounded1)

lemma merge_metrics_ok: "metrics_ok m \<Longrightarrow> metrics_ok n \<Longrightarrow> metrics_ok (merge_metrics m n)"
  by (auto simp: merge_metrics_def metrics_ok_def fold_max_nonneg fold_max_join [symmetric])

text \<open>
  The properties of the metrics: the totals are the totals of the lists after any sequence of
  operations, and the difference with a baseline is what was recorded since, when the clock has
  moved on after the baseline's last cost.
\<close>

section \<open>Sequences of operations\<close>

datatype metrics_op =
    AddCost rat rat                      \<comment> \<open>time, cost\<close>
  | AddLatency rat string
  | AddUsage token_counts string
  | Merge metrics

fun metrics_step :: "metrics_op \<Rightarrow> metrics \<Rightarrow> exc + metrics" where
  "metrics_step (AddCost now v) m = add_cost now v m"
| "metrics_step (AddLatency v r) m = Inr (add_response_latency v r m)"
| "metrics_step (AddUsage n r) m = Inr (add_token_usage n r m)"
| "metrics_step (Merge other) m = Inr (merge_metrics m other)"

lemma metrics_step_ok:
  "metrics_ok m \<Longrightarrow> (\<And>other. op = Merge other \<Longrightarrow> metrics_ok other) \<Longrightarrow>
   metrics_step op m = Inr m' \<Longrightarrow> metrics_ok m'"
  by (cases op) (auto intro: add_cost_ok add_response_latency_ok add_token_usage_ok merge_metrics_ok)


definition demo_counts :: token_counts where
  "demo_counts = \<lparr>n_prompt = 10, n_completion = 5, n_cache_read = 2, n_cache_write = 1, n_window = 8\<rparr>"


section \<open>The difference with a baseline\<close>

text \<open>What is recorded, without merges, does not depend on what is there.\<close>

fun recorded :: "metrics_op \<Rightarrow> bool" where
  "recorded (Merge _) = False"
| "recorded (AddCost now v) = (0 \<le> v)"
| "recorded _ = True"

fun recorded_at :: "metrics_op \<Rightarrow> rat option" where
  "recorded_at (AddCost now v) = Some now"
| "recorded_at _ = None"

fun run_ops :: "metrics_op list \<Rightarrow> metrics \<Rightarrow> metrics" where
  "run_ops [] m = m"
| "run_ops (op # ops) m = (case metrics_step op m of Inr m' \<Rightarrow> run_ops ops m' | Inl _ \<Rightarrow> m)"

lemma recorded_step: "recorded op \<Longrightarrow> \<exists>m'. metrics_step op m = Inr m'"
  by (cases op) (simp_all add: add_cost_def)

lemma foldE_recorded: "\<forall>op \<in> set ops. recorded op \<Longrightarrow> foldE metrics_step ops m = Inr (run_ops ops m)"
proof (induction ops arbitrary: m)
  case (Cons op ops)
  then obtain m' where "metrics_step op m = Inr m'" using recorded_step by (metis list.set_intros(1))
  with Cons show ?case by simp
qed simp

text \<open>Two metrics of the same model whose lists and totals differ by a baseline.\<close>

definition since :: "metrics \<Rightarrow> metrics \<Rightarrow> metrics \<Rightarrow> bool" where
  "since base m n \<longleftrightarrow>
     model_name m = model_name base \<and> model_name n = model_name base \<and>
     accumulated_cost m = accumulated_cost base + accumulated_cost n \<and>
     costs m = costs base @ costs n \<and>
     response_latencies m = response_latencies base @ response_latencies n \<and>
     token_usages m = token_usages base @ token_usages n \<and>
     prompt_tokens (accumulated_token_usage m) =
       prompt_tokens (accumulated_token_usage base) + prompt_tokens (accumulated_token_usage n) \<and>
     completion_tokens (accumulated_token_usage m) =
       completion_tokens (accumulated_token_usage base) + completion_tokens (accumulated_token_usage n) \<and>
     cache_read_tokens (accumulated_token_usage m) =
       cache_read_tokens (accumulated_token_usage base) + cache_read_tokens (accumulated_token_usage n) \<and>
     cache_write_tokens (accumulated_token_usage m) =
       cache_write_tokens (accumulated_token_usage base) + cache_write_tokens (accumulated_token_usage n)"

lemma since_start: "since base base (new_metrics (model_name base))"
  by (simp add: since_def new_metrics_def no_usage_def)

lemma since_step:
  assumes "since base m n" and "recorded op" and "metrics_step op m = Inr m'" and "metrics_step op n = Inr n'"
  shows "since base m' n'"
  using assms
  by (cases op) (auto simp: since_def add_cost_def add_response_latency_def add_token_usage_def)

lemma since_run:
  "since base m n \<Longrightarrow> \<forall>op \<in> set ops. recorded op \<Longrightarrow> since base (run_ops ops m) (run_ops ops n)"
proof (induction ops arbitrary: m n)
  case (Cons op ops)
  obtain m' n' where *: "metrics_step op m = Inr m'" "metrics_step op n = Inr n'"
    using recorded_step Cons.prems(2) by (metis list.set_intros(1))
  have "recorded op" using Cons.prems(2) by simp
  then have "since base m' n'" by (rule since_step [OF Cons.prems(1) _ *])
  with Cons * show ?case by simp
qed simp

lemma run_ops_costs:
  "\<forall>op \<in> set ops. recorded op \<Longrightarrow> c \<in> set (costs (run_ops ops m)) \<Longrightarrow>
   c \<in> set (costs m) \<or> (\<exists>op \<in> set ops. recorded_at op = Some (c_timestamp c))"
proof (induction ops arbitrary: m)
  case (Cons op ops)
  obtain m' where m': "metrics_step op m = Inr m'"
    using recorded_step Cons.prems(1) by (metis list.set_intros(1))
  then have "c \<in> set (costs m') \<Longrightarrow> c \<in> set (costs m) \<or> recorded_at op = Some (c_timestamp c)"
    using Cons.prems(1)
    by (cases op) (auto simp: add_cost_def add_response_latency_def add_token_usage_def)
  moreover have "c \<in> set (costs m') \<or> (\<exists>op \<in> set ops. recorded_at op = Some (c_timestamp c))"
    using Cons.prems m' by (intro Cons.IH) simp_all
  ultimately show ?case by auto
qed simp

lemma slice_from_append: "slice_from (int (length xs)) (xs @ ys) = ys"
  by (simp add: slice_from_nonneg)

lemma diff_since:
  assumes "since base m n"
    and "\<forall>c \<in> set (costs base). c_timestamp c \<le> t" "costs base \<noteq> [] \<longrightarrow> c_timestamp (last (costs base)) = t"
    and "\<forall>c \<in> set (costs n). t < c_timestamp c"
  shows "costs (diff_metrics m base) = costs n" "accumulated_cost (diff_metrics m base) = accumulated_cost n"
    "response_latencies (diff_metrics m base) = response_latencies n"
    "token_usages (diff_metrics m base) = token_usages n"
    "prompt_tokens (accumulated_token_usage (diff_metrics m base)) = prompt_tokens (accumulated_token_usage n)"
    "completion_tokens (accumulated_token_usage (diff_metrics m base)) =
       completion_tokens (accumulated_token_usage n)"
proof -
  have old: "filter (\<lambda>c. t < c_timestamp c) (costs base) = []"
    using assms(2) by (force simp: filter_empty_conv)
  have new: "filter (\<lambda>c. t < c_timestamp c) (costs n) = costs n"
    using assms(4) by (simp add: filter_id_conv)
  show "costs (diff_metrics m base) = costs n"
    using assms(1,3) old new by (cases "costs base = []") (auto simp: diff_metrics_def since_def Let_def)
qed (use assms(1) in \<open>simp_all add: diff_metrics_def since_def Let_def slice_from_append\<close>)

text \<open>
  The difference of the metrics with a snapshot of them is what was recorded since the snapshot,
  when every later cost has a later time than the costs of the snapshot.
\<close>

theorem diff_is_what_was_recorded:
  assumes "\<forall>op \<in> set ops. recorded op"
    and "\<forall>c \<in> set (costs base). c_timestamp c \<le> t" "costs base \<noteq> [] \<longrightarrow> c_timestamp (last (costs base)) = t"
    and "\<forall>op \<in> set ops. \<forall>now. recorded_at op = Some now \<longrightarrow> t < now"
  shows "let d = diff_metrics (run_ops ops base) base; r = run_ops ops (new_metrics (model_name base))
    in costs d = costs r \<and> accumulated_cost d = accumulated_cost r \<and>
       response_latencies d = response_latencies r \<and> token_usages d = token_usages r \<and>
       prompt_tokens (accumulated_token_usage d) = prompt_tokens (accumulated_token_usage r) \<and>
       completion_tokens (accumulated_token_usage d) = completion_tokens (accumulated_token_usage r)"
proof -
  have "\<forall>c \<in> set (costs (run_ops ops (new_metrics (model_name base)))). t < c_timestamp c"
    using run_ops_costs [OF assms(1)] assms(4) by (fastforce simp: new_metrics_def)
  from diff_since [OF since_run [OF since_start assms(1)] assms(2,3) this] show ?thesis
    by (simp add: Let_def)
qed

definition demo_base :: metrics where
  "demo_base = run_ops [AddCost 1 3, AddUsage demo_counts ''r''] (new_metrics ''a'')"

theorem diff_is_what_was_recorded_witness:
  "accumulated_cost (diff_metrics (run_ops [AddCost 2 7] demo_base) demo_base) = 7"
proof -
  have "costs demo_base = [\<lparr>c_model = ''a'', c_cost = 3, c_timestamp = 1\<rparr>]"
      "model_name demo_base = ''a''"
    by (simp_all add: demo_base_def add_cost_def new_metrics_def add_token_usage_def)
  with diff_is_what_was_recorded [of "[AddCost 2 7]" demo_base 1] show ?thesis
    by (simp add: Let_def) (simp add: add_cost_def new_metrics_def)
qed

text \<open>A cost recorded at the time of the snapshot's last cost is in the total and not in the list.\<close>

lemma diff_same_time:
  assumes "costs base = [\<lparr>c_model = model_name base, c_cost = v, c_timestamp = t\<rparr>]" and "0 \<le> w"
  shows "costs (diff_metrics (run_ops [AddCost t w] base) base) = [] \<and>
    accumulated_cost (diff_metrics (run_ops [AddCost t w] base) base) = w"
  using assms by (simp add: add_cost_def diff_metrics_def)

end
