(* ===== verification/Events.thy ===== *)
theory Events
  imports Metrics
begin

text \<open>
  \<open>OpenHands/openhands/events\<close>: the events of a conversation. An event is its class with the
  dataclass fields of that class (a constructor of \<open>action\<close> or \<open>observation\<close>), and the
  attributes every event may carry (\<open>_id\<close>, \<open>_source\<close>, \<open>_cause\<close>, ...). As in the code, two
  events are equal (\<open>==\<close>) when they have the same class and the same fields: \<open>ev_body\<close> is compared,
  the other attributes are not. String enumerations are datatypes with a function to their value.
\<close>

section \<open>JSON values and Python's \<open>repr\<close> of them\<close>

datatype json =
    JNull
  | JBool bool
  | JInt int
  | JFloat rat
  | JStr string
  | JList "json list"
  | JObj "(string \<times> json) list"

type_synonym dict = "(string, json) pydict"

definition hex_digit :: "nat \<Rightarrow> char" where
  "hex_digit n = ''0123456789abcdef'' ! n"

definition repr_char :: "char \<Rightarrow> char \<Rightarrow> string" where
  "repr_char quote c =
     (let n = (of_char c :: nat); bs = CHR 0x5C in
      if c = quote \<or> c = bs then [bs, c]
      else if c = CHR 0x0A then bs # ''n'' else if c = CHR 0x0D then bs # ''r''
      else if c = CHR 0x09 then bs # ''t''
      else if n < 32 \<or> (127 \<le> n \<and> n \<le> 160) \<or> n = 173
      then bs # ''x'' @ [hex_digit (n div 16), hex_digit (n mod 16)]
      else [c])"

definition repr_str :: "string \<Rightarrow> string" where
  "repr_str s =
     (let quote = (if CHR 0x27 \<in> set s \<and> CHR 0x22 \<notin> set s then CHR 0x22 else CHR 0x27)
      in quote # concat (map (repr_char quote) s) @ [quote])"

text \<open>The text of a float is an argument: floats are rationals here.\<close>

fun repr_json :: "(rat \<Rightarrow> string) \<Rightarrow> json \<Rightarrow> string" where
  "repr_json ff JNull = ''None''"
| "repr_json ff (JBool b) = (if b then ''True'' else ''False'')"
| "repr_json ff (JInt i) = show_int i"
| "repr_json ff (JFloat x) = ff x"
| "repr_json ff (JStr s) = repr_str s"
| "repr_json ff (JList xs) = ''['' @ join '', '' (map (repr_json ff) xs) @ '']''"
| "repr_json ff (JObj d) =
     ''{'' @ join '', '' (map (\<lambda>(k, v). repr_str k @ '': '' @ repr_json ff v) d) @ ''}''"

section \<open>Enumerations\<close>

datatype EventSource = AGENT | USER | ENVIRONMENT
datatype FileEditSource = LLM_BASED_EDIT | EDIT_OH_ACI
datatype FileReadSource = READ_OH_ACI | READ_DEFAULT
datatype RecallType = WORKSPACE_CONTEXT | KNOWLEDGE
datatype ActionConfirmationStatus = CONFIRMED | CONFIRM_REJECTED | AWAITING_CONFIRMATION
datatype ActionSecurityRisk = RISK_UNKNOWN | RISK_LOW | RISK_MEDIUM | RISK_HIGH

fun event_source_value :: "EventSource \<Rightarrow> string" where
  "event_source_value AGENT = ''agent''"
| "event_source_value USER = ''user''"
| "event_source_value ENVIRONMENT = ''environment''"

fun file_edit_source_value :: "FileEditSource \<Rightarrow> string" where
  "file_edit_source_value LLM_BASED_EDIT = ''llm_based_edit''"
| "file_edit_source_value EDIT_OH_ACI = ''oh_aci''"

fun file_read_source_value :: "FileReadSource \<Rightarrow> string" where
  "file_read_source_value READ_OH_ACI = ''oh_aci''"
| "file_read_source_value READ_DEFAULT = ''default''"

fun recall_type_value :: "RecallType \<Rightarrow> string" where
  "recall_type_value WORKSPACE_CONTEXT = ''workspace_context''"
| "recall_type_value KNOWLEDGE = ''knowledge''"

fun confirmation_value :: "ActionConfirmationStatus \<Rightarrow> string" where
  "confirmation_value CONFIRMED = ''confirmed''"
| "confirmation_value CONFIRM_REJECTED = ''rejected''"
| "confirmation_value AWAITING_CONFIRMATION = ''awaiting_confirmation''"

fun security_risk_value :: "ActionSecurityRisk \<Rightarrow> int" where
  "security_risk_value RISK_UNKNOWN = -1"
| "security_risk_value RISK_LOW = 0"
| "security_risk_value RISK_MEDIUM = 1"
| "security_risk_value RISK_HIGH = 2"

section \<open>Actions\<close>

record condensation =
  forgotten_event_ids :: "int list option"
  forgotten_events_start_id :: "int option"
  forgotten_events_end_id :: "int option"
  cd_summary :: "string option"
  cd_summary_offset :: "int option"

record message_action =
  ma_content :: string
  ma_file_urls :: "string list option"
  ma_image_urls :: "string list option"
  ma_wait_for_response :: bool
  ma_security_risk :: ActionSecurityRisk

record system_message =
  sm_content :: string
  sm_tools :: "json list option"
  sm_openhands_version :: "string option"
  sm_agent_class :: "string option"

record cmd_run =
  cr_command :: string
  cr_is_input :: bool
  cr_thought :: string
  cr_blocking :: bool
  cr_is_static :: bool
  cr_cwd :: "string option"
  cr_hidden :: bool
  cr_confirmation_state :: ActionConfirmationStatus
  cr_security_risk :: ActionSecurityRisk

record ipython_run =
  ip_code :: string
  ip_thought :: string
  ip_include_extra :: bool
  ip_confirmation_state :: ActionConfirmationStatus
  ip_security_risk :: ActionSecurityRisk
  ip_kernel_init_code :: string

record file_read =
  fr_path :: string
  fr_start :: int
  fr_end :: int
  fr_thought :: string
  fr_security_risk :: ActionSecurityRisk
  fr_impl_source :: FileReadSource
  fr_view_range :: "int list option"

record file_write =
  fw_path :: string
  fw_content :: string
  fw_start :: int
  fw_end :: int
  fw_thought :: string
  fw_security_risk :: ActionSecurityRisk

record file_edit =
  fe_path :: string
  fe_command :: string
  fe_file_text :: "string option"
  fe_old_str :: "string option"
  fe_new_str :: "string option"
  fe_insert_line :: "int option"
  fe_content :: string
  fe_start :: int
  fe_end :: int
  fe_thought :: string
  fe_security_risk :: ActionSecurityRisk
  fe_impl_source :: FileEditSource

record browse_url =
  bu_url :: string
  bu_thought :: string
  bu_security_risk :: ActionSecurityRisk
  bu_return_axtree :: bool

record browse_interactive =
  bi_browser_actions :: string
  bi_thought :: string
  bi_browsergym_send_msg_to_user :: string
  bi_security_risk :: ActionSecurityRisk
  bi_return_axtree :: bool

record mcp_action =
  mc_name :: string
  mc_arguments :: dict
  mc_thought :: string
  mc_security_risk :: ActionSecurityRisk

datatype action =
    NullAction
  | ChangeAgentStateAction string string                \<comment> \<open>agent\_state, thought\<close>
  | AgentFinishAction string dict string                \<comment> \<open>final\_thought, outputs, thought\<close>
  | AgentThinkAction string                             \<comment> \<open>thought\<close>
  | AgentRejectAction dict string                       \<comment> \<open>outputs, thought\<close>
  | AgentDelegateAction string dict string              \<comment> \<open>agent, inputs, thought\<close>
  | RecallAction RecallType string string               \<comment> \<open>recall\_type, query, thought\<close>
  | CondensationAction condensation
  | CondensationRequestAction
  | TaskTrackingAction string "dict list" string        \<comment> \<open>command, task\_list, thought\<close>
  | LoopRecoveryAction int                              \<comment> \<open>option\<close>
  | MessageAction message_action
  | SystemMessageAction system_message
  | CmdRunAction cmd_run
  | IPythonRunCellAction ipython_run
  | FileReadAction file_read
  | FileWriteAction file_write
  | FileEditAction file_edit
  | BrowseURLAction browse_url
  | BrowseInteractiveAction browse_interactive
  | MCPAction mcp_action

section \<open>Observations\<close>

record cmd_metadata =
  md_exit_code :: int
  md_pid :: int
  md_username :: "string option"
  md_hostname :: "string option"
  md_working_dir :: "string option"
  md_py_interpreter_path :: "string option"
  md_prefix :: string
  md_suffix :: string

record cmd_output =
  co_content :: string
  co_command :: string
  co_metadata :: cmd_metadata
  co_hidden :: bool

record microagent_knowledge =
  mk_name :: string
  mk_trigger :: string
  mk_content :: string

record recall_observation =
  ro_content :: string
  ro_recall_type :: RecallType
  ro_repo_name :: string
  ro_repo_directory :: string
  ro_repo_branch :: string
  ro_repo_instructions :: string
  ro_runtime_hosts :: "(string, int) pydict"
  ro_additional_agent_instructions :: string
  ro_date :: string
  ro_custom_secrets_descriptions :: "(string, string) pydict"
  ro_conversation_instructions :: string
  ro_working_dir :: string
  ro_microagent_knowledge :: "microagent_knowledge list"

record browser_output =
  bo_content :: string
  bo_url :: string
  bo_trigger_by_action :: string
  bo_screenshot :: string
  bo_screenshot_path :: "string option"
  bo_set_of_marks :: string
  bo_error :: bool
  bo_goal_image_urls :: "string list"
  bo_open_pages_urls :: "string list"
  bo_active_page_index :: int
  bo_dom_object :: dict
  bo_axtree_object :: dict
  bo_extra_element_properties :: dict
  bo_last_browser_action :: string
  bo_last_browser_action_error :: string
  bo_focused_element_bid :: string
  bo_filter_visible_only :: bool

record file_edit_observation =
  feo_content :: string
  feo_path :: string
  feo_prev_exist :: bool
  feo_old_content :: "string option"
  feo_new_content :: "string option"
  feo_impl_source :: FileEditSource
  feo_diff :: "string option"
  feo_diff_cache :: "string option"

datatype observation =
    NullObservation string
  | CmdOutputObservation cmd_output
  | IPythonRunCellObservation string string "string list option" \<comment> \<open>content, code, image\_urls\<close>
  | BrowserOutputObservation browser_output
  | FileReadObservation string string FileReadSource    \<comment> \<open>content, path, impl\_source\<close>
  | FileWriteObservation string string                  \<comment> \<open>content, path\<close>
  | FileEditObservation file_edit_observation
  | AgentDelegateObservation string dict                \<comment> \<open>content, outputs\<close>
  | SuccessObservation string
  | ErrorObservation string string                      \<comment> \<open>content, error\_id\<close>
  | AgentStateChangedObservation string string string   \<comment> \<open>content, agent\_state, reason\<close>
  | UserRejectObservation string
  | AgentCondensationObservation string
  | AgentThinkObservation string
  | RecallObservation recall_observation
  | MCPObservation string string dict                   \<comment> \<open>content, name, arguments\<close>
  | FileDownloadObservation string string               \<comment> \<open>content, file\_path\<close>
  | TaskTrackingObservation string string "dict list"   \<comment> \<open>content, command, task\_list\<close>
  | LoopDetectionObservation string

datatype body = Action action | Observation observation

section \<open>Events\<close>

record tool_call_metadata =
  tc_function_name :: string
  tc_tool_call_id :: string
  tc_model_response :: json
  tc_total_calls_in_response :: int

record event =
  ev_id :: "int option"
  ev_timestamp :: "string option"
  ev_source :: "EventSource option"
  ev_cause :: "int option"
  ev_timeout :: "rat option"
  ev_llm_metrics :: "metrics option"
  ev_tool_call_metadata :: "tool_call_metadata option"
  ev_response_id :: "string option"
  ev_body :: body

definition INVALID_ID :: int where "INVALID_ID = -1"

text \<open>The property \<open>Event.id\<close>.\<close>

definition event_id :: "event \<Rightarrow> int" where
  "event_id e = (case ev_id e of Some i \<Rightarrow> i | None \<Rightarrow> INVALID_ID)"

text \<open>A fresh instance of a class.\<close>

definition new_event :: "body \<Rightarrow> event" where
  "new_event b = \<lparr>ev_id = None, ev_timestamp = None, ev_source = None, ev_cause = None,
     ev_timeout = None, ev_llm_metrics = None, ev_tool_call_metadata = None,
     ev_response_id = None, ev_body = b\<rparr>"

text \<open>\<open>==\<close> of two events.\<close>

definition event_eq :: "event \<Rightarrow> event \<Rightarrow> bool" where
  "event_eq a b \<longleftrightarrow> ev_body a = ev_body b"

text \<open>\<open>set_hard_timeout\<close>: only \<open>CmdRunAction\<close> has the attribute \<open>blocking\<close>.\<close>

definition set_hard_timeout :: "rat option \<Rightarrow> bool \<Rightarrow> event \<Rightarrow> event" where
  "set_hard_timeout value blocking e =
     (let e = e\<lparr>ev_timeout := value\<rparr> in
      case ev_body e of
        Action (CmdRunAction r) \<Rightarrow> e\<lparr>ev_body := Action (CmdRunAction (r\<lparr>cr_blocking := blocking\<rparr>))\<rparr>
      | _ \<Rightarrow> e)"

section \<open>Classes\<close>

fun is_action :: "event \<Rightarrow> bool" where
  "is_action e = (case ev_body e of Action _ \<Rightarrow> True | Observation _ \<Rightarrow> False)"

fun is_observation :: "event \<Rightarrow> bool" where
  "is_observation e = (case ev_body e of Action _ \<Rightarrow> False | Observation _ \<Rightarrow> True)"

text \<open>The field \<open>action\<close> of an action class, the field \<open>observation\<close> of an observation class.\<close>

fun action_type :: "action \<Rightarrow> string" where
  "action_type NullAction = ''null''"
| "action_type (ChangeAgentStateAction _ _) = ''change_agent_state''"
| "action_type (AgentFinishAction _ _ _) = ''finish''"
| "action_type (AgentThinkAction _) = ''think''"
| "action_type (AgentRejectAction _ _) = ''reject''"
| "action_type (AgentDelegateAction _ _ _) = ''delegate''"
| "action_type (RecallAction _ _ _) = ''recall''"
| "action_type (CondensationAction _) = ''condensation''"
| "action_type CondensationRequestAction = ''condensation_request''"
| "action_type (TaskTrackingAction _ _ _) = ''task_tracking''"
| "action_type (LoopRecoveryAction _) = ''loop_recovery''"
| "action_type (MessageAction _) = ''message''"
| "action_type (SystemMessageAction _) = ''system''"
| "action_type (CmdRunAction _) = ''run''"
| "action_type (IPythonRunCellAction _) = ''run_ipython''"
| "action_type (FileReadAction _) = ''read''"
| "action_type (FileWriteAction _) = ''write''"
| "action_type (FileEditAction _) = ''edit''"
| "action_type (BrowseURLAction _) = ''browse''"
| "action_type (BrowseInteractiveAction _) = ''browse_interactive''"
| "action_type (MCPAction _) = ''call_tool_mcp''"

fun observation_type :: "observation \<Rightarrow> string" where
  "observation_type (NullObservation _) = ''null''"
| "observation_type (CmdOutputObservation _) = ''run''"
| "observation_type (IPythonRunCellObservation _ _ _) = ''run_ipython''"
| "observation_type (BrowserOutputObservation _) = ''browse''"
| "observation_type (FileReadObservation _ _ _) = ''read''"
| "observation_type (FileWriteObservation _ _) = ''write''"
| "observation_type (FileEditObservation _) = ''edit''"
| "observation_type (AgentDelegateObservation _ _) = ''delegate''"
| "observation_type (SuccessObservation _) = ''success''"
| "observation_type (ErrorObservation _ _) = ''error''"
| "observation_type (AgentStateChangedObservation _ _ _) = ''agent_state_changed''"
| "observation_type (UserRejectObservation _) = ''user_rejected''"
| "observation_type (AgentCondensationObservation _) = ''condense''"
| "observation_type (AgentThinkObservation _) = ''think''"
| "observation_type (RecallObservation _) = ''recall''"
| "observation_type (MCPObservation _ _ _) = ''mcp''"
| "observation_type (FileDownloadObservation _ _) = ''download''"
| "observation_type (TaskTrackingObservation _ _ _) = ''task_tracking''"
| "observation_type (LoopDetectionObservation _) = ''loop_detection''"

text \<open>The class variable \<open>runnable\<close>, and \<open>getattr(event, 'hidden', False)\<close>.\<close>

fun runnable :: "action \<Rightarrow> bool" where
  "runnable (CmdRunAction _) = True"
| "runnable (IPythonRunCellAction _) = True"
| "runnable (FileReadAction _) = True"
| "runnable (FileWriteAction _) = True"
| "runnable (FileEditAction _) = True"
| "runnable (BrowseURLAction _) = True"
| "runnable (BrowseInteractiveAction _) = True"
| "runnable (MCPAction _) = True"
| "runnable _ = False"

fun body_hidden :: "body \<Rightarrow> bool" where
  "body_hidden (Action (CmdRunAction r)) = cr_hidden r"
| "body_hidden (Observation (CmdOutputObservation r)) = co_hidden r"
| "body_hidden _ = False"

fun obs_content :: "observation \<Rightarrow> string" where
  "obs_content (NullObservation c) = c"
| "obs_content (CmdOutputObservation r) = co_content r"
| "obs_content (IPythonRunCellObservation c _ _) = c"
| "obs_content (BrowserOutputObservation r) = bo_content r"
| "obs_content (FileReadObservation c _ _) = c"
| "obs_content (FileWriteObservation c _) = c"
| "obs_content (FileEditObservation r) = feo_content r"
| "obs_content (AgentDelegateObservation c _) = c"
| "obs_content (SuccessObservation c) = c"
| "obs_content (ErrorObservation c _) = c"
| "obs_content (AgentStateChangedObservation c _ _) = c"
| "obs_content (UserRejectObservation c) = c"
| "obs_content (AgentCondensationObservation c) = c"
| "obs_content (AgentThinkObservation c) = c"
| "obs_content (RecallObservation r) = ro_content r"
| "obs_content (MCPObservation c _ _) = c"
| "obs_content (FileDownloadObservation c _) = c"
| "obs_content (TaskTrackingObservation c _ _) = c"
| "obs_content (LoopDetectionObservation c) = c"

section \<open>Command output\<close>

definition MAX_CMD_OUTPUT_SIZE :: int where "MAX_CMD_OUTPUT_SIZE = 30000"

definition truncation_note :: string where
  "truncation_note = newline # ''[... Observation truncated due to length ...]'' @ [newline]"

definition maybe_truncate :: "int \<Rightarrow> string \<Rightarrow> string" where
  "maybe_truncate max_size content =
     (if int (length content) \<le> max_size then content
      else let half = max_size div 2
           in slice_to half content @ truncation_note @ slice_from (- half) content)"

definition default_metadata :: cmd_metadata where
  "default_metadata = \<lparr>md_exit_code = -1, md_pid = -1, md_username = None, md_hostname = None,
     md_working_dir = None, md_py_interpreter_path = None, md_prefix = [], md_suffix = []\<rparr>"

text \<open>The constructor of \<open>CmdOutputObservation\<close>; output that is not hidden is truncated.\<close>

definition new_cmd_output :: "string \<Rightarrow> string \<Rightarrow> cmd_metadata option \<Rightarrow> bool \<Rightarrow> cmd_output" where
  "new_cmd_output content command metadata hidden =
     \<lparr>co_content = (if hidden then content else maybe_truncate MAX_CMD_OUTPUT_SIZE content),
      co_command = command,
      co_metadata = (case metadata of None \<Rightarrow> default_metadata | Some m \<Rightarrow> m),
      co_hidden = hidden\<rparr>"

definition cmd_exit_code :: "cmd_output \<Rightarrow> int" where
  "cmd_exit_code r = md_exit_code (co_metadata r)"

definition cmd_success :: "cmd_output \<Rightarrow> bool" where
  "cmd_success r \<longleftrightarrow> \<not> cmd_exit_code r \<noteq> 0"

text \<open>A string that is not \<open>None\<close> and not empty.\<close>

definition truthy :: "string option \<Rightarrow> bool" where
  "truthy s \<longleftrightarrow> s \<noteq> None \<and> s \<noteq> Some []"

definition to_agent_observation :: "cmd_output \<Rightarrow> string" where
  "to_agent_observation r =
     (let m = co_metadata r in
      md_prefix m @ co_content r @ md_suffix m @
      (if truthy (md_working_dir m)
       then newline # ''[Current working directory: '' @ the (md_working_dir m) @ '']'' else []) @
      (if truthy (md_py_interpreter_path m)
       then newline # ''[Python interpreter: '' @ the (md_py_interpreter_path m) @ '']'' else []) @
      (if md_exit_code m \<noteq> -1
       then newline # ''[Command finished with exit code '' @ show_int (md_exit_code m) @ '']''
       else []))"

section \<open>Condensation actions\<close>

definition validate_field_polymorphism :: "condensation \<Rightarrow> bool" where
  "validate_field_polymorphism c \<longleftrightarrow>
     (let using_event_ids = (forgotten_event_ids c \<noteq> None);
          using_event_range =
            (forgotten_events_start_id c \<noteq> None \<and> forgotten_events_end_id c \<noteq> None);
          forgotten_event_configuration = (using_event_ids \<noteq> using_event_range);
          summary_configuration =
            ((cd_summary c = None \<and> cd_summary_offset c = None) \<or>
             (cd_summary c \<noteq> None \<and> cd_summary_offset c \<noteq> None))
      in forgotten_event_configuration \<and> summary_configuration)"

definition invalid_condensation :: exc where
  "invalid_condensation = ValueError ''Invalid configuration of the optional fields.''"

text \<open>The constructor: \<open>__post_init__\<close> validates the fields.\<close>

definition new_condensation :: "condensation \<Rightarrow> exc + action" where
  "new_condensation c =
     (if validate_field_polymorphism c then Inr (CondensationAction c) else Inl invalid_condensation)"

definition forgotten :: "condensation \<Rightarrow> exc + int list" where
  "forgotten c =
     (if \<not> validate_field_polymorphism c then Inl invalid_condensation
      else case forgotten_event_ids c of
        Some ids \<Rightarrow> Inr ids
      | None \<Rightarrow>
          (case (forgotten_events_start_id c, forgotten_events_end_id c) of
             (Some s, Some e) \<Rightarrow> Inr [s..e]
           | _ \<Rightarrow> Inl AssertionError))"

lemma forgotten_valid:
  "validate_field_polymorphism c \<Longrightarrow> \<exists>ids. forgotten c = Inr ids"
  by (auto simp: validate_field_polymorphism_def forgotten_def Let_def split: option.splits)

lemma new_condensation_Inr: "new_condensation c = Inr a \<longleftrightarrow> validate_field_polymorphism c \<and> a = CondensationAction c"
  by (auto simp: new_condensation_def)

end
