(* ===== verification/Serialization.thy ===== *)
theory Serialization
  imports Events
begin

text \<open>
  \<open>OpenHands/openhands/events/serialization\<close>: \<open>event_to_dict\<close> and \<open>event_from_dict\<close>, with the
  property \<open>message\<close> of every class, which the dictionary holds. String enumerations are encoded by
  their value, with which Python identifies them. Python does not check the type of a keyword
  argument; here a value of another type than the field's is refused (\<open>Untyped\<close>). What the code
  takes from outside is a record of arguments: the version of the package (the default of
  \<open>SystemMessageAction\<close>), \<open>ast.literal_eval\<close>, and the text of a float.
\<close>

record py_env =
  env_version :: string
  env_literal_eval :: "string \<Rightarrow> exc + dict"
  env_float_text :: "rat \<Rightarrow> string"

named_theorems codec \<open>a decoder gives back what was encoded\<close>

section \<open>Values\<close>

definition untyped :: "string \<Rightarrow> exc" where
  "untyped k = OtherException ''Untyped'' k"

fun as_str :: "json \<Rightarrow> string option" where
  "as_str (JStr s) = Some s" | "as_str _ = None"

fun as_bool :: "json \<Rightarrow> bool option" where
  "as_bool (JBool b) = Some b" | "as_bool _ = None"

fun as_int :: "json \<Rightarrow> int option" where
  "as_int (JInt i) = Some i" | "as_int _ = None"

fun as_rat :: "json \<Rightarrow> rat option" where
  "as_rat (JFloat x) = Some x" | "as_rat (JInt i) = Some (of_int i)" | "as_rat _ = None"

fun as_list :: "json \<Rightarrow> json list option" where
  "as_list (JList xs) = Some xs" | "as_list _ = None"

fun as_obj :: "json \<Rightarrow> dict option" where
  "as_obj (JObj d) = Some d" | "as_obj _ = None"

fun as_opt :: "(json \<Rightarrow> 'a option) \<Rightarrow> json \<Rightarrow> 'a option option" where
  "as_opt f JNull = Some None" | "as_opt f v = map_option Some (f v)"

definition enc_opt :: "('a \<Rightarrow> json) \<Rightarrow> 'a option \<Rightarrow> json" where
  "enc_opt f x = (case x of None \<Rightarrow> JNull | Some y \<Rightarrow> f y)"

fun all_some :: "'a option list \<Rightarrow> 'a list option" where
  "all_some [] = Some []"
| "all_some (None # xs) = None"
| "all_some (Some x # xs) = map_option (Cons x) (all_some xs)"

definition enc_map :: "('a \<Rightarrow> json) \<Rightarrow> 'a list \<Rightarrow> json" where
  "enc_map f xs = JList (map f xs)"

definition as_map :: "(json \<Rightarrow> 'a option) \<Rightarrow> json \<Rightarrow> 'a list option" where
  "as_map f v = Option.bind (as_list v) (\<lambda>xs. all_some (map f xs))"

abbreviation enc_strs :: "string list \<Rightarrow> json" where "enc_strs \<equiv> enc_map JStr"
abbreviation as_strs :: "json \<Rightarrow> string list option" where "as_strs \<equiv> as_map as_str"
abbreviation enc_ints :: "int list \<Rightarrow> json" where "enc_ints \<equiv> enc_map JInt"
abbreviation as_ints :: "json \<Rightarrow> int list option" where "as_ints \<equiv> as_map as_int"
abbreviation enc_dicts :: "dict list \<Rightarrow> json" where "enc_dicts \<equiv> enc_map JObj"
abbreviation as_dicts :: "json \<Rightarrow> dict list option" where "as_dicts \<equiv> as_map as_obj"

definition enc_values :: "('a \<Rightarrow> json) \<Rightarrow> (string, 'a) pydict \<Rightarrow> json" where
  "enc_values f d = JObj (map (\<lambda>(k, v). (k, f v)) d)"

definition as_values :: "(json \<Rightarrow> 'a option) \<Rightarrow> json \<Rightarrow> (string, 'a) pydict option" where
  "as_values f v = Option.bind (as_obj v) (\<lambda>d.
     all_some (map (\<lambda>(k, v). map_option (Pair k) (f v)) d))"

abbreviation enc_hosts :: "(string, int) pydict \<Rightarrow> json" where "enc_hosts \<equiv> enc_values JInt"
abbreviation as_hosts :: "json \<Rightarrow> (string, int) pydict option" where "as_hosts \<equiv> as_values as_int"
abbreviation enc_strmap :: "(string, string) pydict \<Rightarrow> json" where "enc_strmap \<equiv> enc_values JStr"
abbreviation as_strmap :: "json \<Rightarrow> (string, string) pydict option" where
  "as_strmap \<equiv> as_values as_str"

text \<open>An enumeration from its value: \<open>E(value)\<close>.\<close>

definition enum_of :: "('a \<Rightarrow> 'v) \<Rightarrow> 'a list \<Rightarrow> 'v \<Rightarrow> 'a option" where
  "enum_of f xs v = List.find (\<lambda>x. f x = v) xs"

definition as_recall_type :: "json \<Rightarrow> RecallType option" where
  "as_recall_type v = Option.bind (as_str v) (enum_of recall_type_value [WORKSPACE_CONTEXT, KNOWLEDGE])"

definition as_confirmation :: "json \<Rightarrow> ActionConfirmationStatus option" where
  "as_confirmation v = Option.bind (as_str v)
     (enum_of confirmation_value [CONFIRMED, CONFIRM_REJECTED, AWAITING_CONFIRMATION])"

definition as_file_read_source :: "json \<Rightarrow> FileReadSource option" where
  "as_file_read_source v = Option.bind (as_str v)
     (enum_of file_read_source_value [READ_OH_ACI, READ_DEFAULT])"

definition as_file_edit_source :: "json \<Rightarrow> FileEditSource option" where
  "as_file_edit_source v = Option.bind (as_str v)
     (enum_of file_edit_source_value [LLM_BASED_EDIT, EDIT_OH_ACI])"

definition as_event_source :: "json \<Rightarrow> EventSource option" where
  "as_event_source v = Option.bind (as_str v)
     (enum_of event_source_value [AGENT, USER, ENVIRONMENT])"

text \<open>\<open>ActionSecurityRisk(value)\<close>; \<open>True\<close> and \<open>1.0\<close> are equal to 1 in Python.\<close>

definition as_risk :: "json \<Rightarrow> ActionSecurityRisk option" where
  "as_risk v =
     (case v of
        JBool b \<Rightarrow> Some (if b then RISK_MEDIUM else RISK_LOW)
      | _ \<Rightarrow> Option.bind (as_rat v)
          (enum_of (\<lambda>r. of_int (security_risk_value r)) [RISK_UNKNOWN, RISK_LOW, RISK_MEDIUM, RISK_HIGH]))"

lemma all_some_Some [simp]: "all_some (map Some xs) = Some xs"
  by (induction xs) auto

lemma as_opt_enc [codec]:
  "(\<And>x. f (g x) = Some x) \<Longrightarrow> (\<And>x. g x \<noteq> JNull) \<Longrightarrow> as_opt f (enc_opt g x) = Some x"
proof (cases x)
  case (Some y)
  assume a: "\<And>x. f (g x) = Some x" "\<And>x. g x \<noteq> JNull"
  from a(2) have "as_opt f (g y) = map_option Some (f (g y))"
    by (cases "g y") auto
  with Some a(1) show ?thesis by (simp add: enc_opt_def)
qed (simp add: enc_opt_def)

lemma as_map_enc [codec]: "(\<And>x. f (g x) = Some x) \<Longrightarrow> as_map f (enc_map g xs) = Some xs"
  by (simp add: as_map_def enc_map_def comp_def)

lemma as_values_enc [codec]: "(\<And>x. f (g x) = Some x) \<Longrightarrow> as_values f (enc_values g d) = Some d"
  unfolding as_values_def enc_values_def by (induction d) (auto simp: Option.bind_eq_Some_conv)

lemma enc_not_null [codec]: "enc_map g xs \<noteq> JNull" "enc_values g d \<noteq> JNull"
  by (simp_all add: enc_map_def enc_values_def)

lemma as_enum_enc [codec]:
  "as_recall_type (JStr (recall_type_value r)) = Some r"
  "as_confirmation (JStr (confirmation_value c)) = Some c"
  "as_file_read_source (JStr (file_read_source_value fr)) = Some fr"
  "as_file_edit_source (JStr (file_edit_source_value fe)) = Some fe"
  "as_event_source (JStr (event_source_value s)) = Some s"
  "as_risk (JInt (security_risk_value risk)) = Some risk"
       apply (cases r; simp add: as_recall_type_def enum_of_def)
      apply (cases c; simp add: as_confirmation_def enum_of_def)
     apply (cases fr; simp add: as_file_read_source_def enum_of_def)
    apply (cases fe; simp add: as_file_edit_source_def enum_of_def)
   apply (cases s; simp add: as_event_source_def enum_of_def)
  apply (cases risk; simp add: as_risk_def enum_of_def)
  done

section \<open>Keyword arguments\<close>

text \<open>A call with a keyword argument that the constructor does not have.\<close>

definition expect :: "string list \<Rightarrow> dict \<Rightarrow> exc + unit" where
  "expect names args =
     (case List.find (\<lambda>k. k \<notin> set names) (keys args) of
        Some k \<Rightarrow> Inl (TypeError (''got an unexpected keyword argument '' @ k))
      | None \<Rightarrow> Inr ())"

text \<open>The value of an argument: given, or its default, or missing.\<close>

definition arg :: "dict \<Rightarrow> string \<Rightarrow> (json \<Rightarrow> 'a option) \<Rightarrow> 'a option \<Rightarrow> exc + 'a" where
  "arg args k dec default_value =
     (case map_of args k of
        Some v \<Rightarrow> (case dec v of Some x \<Rightarrow> Inr x | None \<Rightarrow> Inl (untyped k))
      | None \<Rightarrow>
          (case default_value of
             Some x \<Rightarrow> Inr x
           | None \<Rightarrow> Inl (TypeError (''missing a required argument: '' @ k))))"

lemma expect_Inr [codec]: "set (keys args) \<subseteq> set names \<Longrightarrow> expect names args = Inr ()"
  by (auto simp: expect_def find_None_iff split: option.splits)

lemma arg_given [codec]: "map_of args k = Some v \<Longrightarrow> dec v = Some x \<Longrightarrow> arg args k dec d = Inr x"
  by (simp add: arg_def)

section \<open>Nested objects\<close>

definition enc_metadata :: "cmd_metadata \<Rightarrow> json" where
  "enc_metadata m =
     JObj [(''exit_code'', JInt (md_exit_code m)), (''pid'', JInt (md_pid m)),
       (''username'', enc_opt JStr (md_username m)), (''hostname'', enc_opt JStr (md_hostname m)),
       (''working_dir'', enc_opt JStr (md_working_dir m)),
       (''py_interpreter_path'', enc_opt JStr (md_py_interpreter_path m)),
       (''prefix'', JStr (md_prefix m)), (''suffix'', JStr (md_suffix m))]"

definition metadata_of :: "dict \<Rightarrow> exc + cmd_metadata" where
  "metadata_of d =
     rbind (arg d ''exit_code'' as_int (Some (-1))) (\<lambda>exit_code.
     rbind (arg d ''pid'' as_int (Some (-1))) (\<lambda>pid.
     rbind (arg d ''username'' (as_opt as_str) (Some None)) (\<lambda>username.
     rbind (arg d ''hostname'' (as_opt as_str) (Some None)) (\<lambda>hostname.
     rbind (arg d ''working_dir'' (as_opt as_str) (Some None)) (\<lambda>working_dir.
     rbind (arg d ''py_interpreter_path'' (as_opt as_str) (Some None)) (\<lambda>py.
     rbind (arg d ''prefix'' as_str (Some [])) (\<lambda>prefix.
     rbind (arg d ''suffix'' as_str (Some [])) (\<lambda>suffix.
       Inr \<lparr>md_exit_code = exit_code, md_pid = pid, md_username = username,
         md_hostname = hostname, md_working_dir = working_dir, md_py_interpreter_path = py,
         md_prefix = prefix, md_suffix = suffix\<rparr>))))))))"

definition knowledge_of :: "json \<Rightarrow> microagent_knowledge option" where
  "knowledge_of v =
     (case v of
        JObj d \<Rightarrow>
          (case rbind (expect [''name'', ''trigger'', ''content''] d) (\<lambda>_.
                rbind (arg d ''name'' as_str None) (\<lambda>nam.
                rbind (arg d ''trigger'' as_str None) (\<lambda>trigger.
                rbind (arg d ''content'' as_str None) (\<lambda>cont.
                  Inr \<lparr>mk_name = nam, mk_trigger = trigger, mk_content = cont\<rparr>)))) of
             Inl _ \<Rightarrow> None | Inr k \<Rightarrow> Some k)
      | _ \<Rightarrow> None)"

definition enc_knowledge :: "microagent_knowledge list \<Rightarrow> json" where
  "enc_knowledge = enc_map (\<lambda>k. JObj [(''name'', JStr (mk_name k)),
     (''trigger'', JStr (mk_trigger k)), (''content'', JStr (mk_content k))])"

definition as_knowledge :: "json \<Rightarrow> microagent_knowledge list option" where
  "as_knowledge = as_map knowledge_of"

lemmas kw_simps = arg_def expect_def codec

lemma metadata_of_enc [codec]:
  "enc_metadata m = JObj d \<Longrightarrow> metadata_of d = Inr m"
  by (auto simp: metadata_of_def enc_metadata_def arg_def as_opt_enc)

lemma as_knowledge_enc [codec]: "as_knowledge (enc_knowledge ks) = Some ks"
  unfolding as_knowledge_def enc_knowledge_def
  by (rule as_map_enc) (simp add: knowledge_of_def arg_def expect_def)

section \<open>Actions from keyword arguments, and back\<close>

definition null_action_of :: "dict \<Rightarrow> exc + action" where
  "null_action_of args =
     rbind (expect [] args) (\<lambda>_.
       Inr NullAction)"

definition change_agent_state_of :: "dict \<Rightarrow> exc + action" where
  "change_agent_state_of args =
     rbind (expect [''agent_state'', ''thought''] args) (\<lambda>_.
     rbind (arg args ''agent_state'' as_str None) (\<lambda>agent_state.
     rbind (arg args ''thought'' as_str (Some [])) (\<lambda>thought.
       Inr (ChangeAgentStateAction agent_state thought))))"

definition agent_finish_of :: "dict \<Rightarrow> exc + action" where
  "agent_finish_of args =
     rbind (expect [''final_thought'', ''outputs'', ''thought''] args) (\<lambda>_.
     rbind (arg args ''final_thought'' as_str (Some [])) (\<lambda>final_thought.
     rbind (arg args ''outputs'' as_obj (Some [])) (\<lambda>outp.
     rbind (arg args ''thought'' as_str (Some [])) (\<lambda>thought.
       Inr (AgentFinishAction final_thought outp thought)))))"

definition agent_think_of :: "dict \<Rightarrow> exc + action" where
  "agent_think_of args =
     rbind (expect [''thought''] args) (\<lambda>_.
     rbind (arg args ''thought'' as_str (Some [])) (\<lambda>thought.
       Inr (AgentThinkAction thought)))"

definition agent_reject_of :: "dict \<Rightarrow> exc + action" where
  "agent_reject_of args =
     rbind (expect [''outputs'', ''thought''] args) (\<lambda>_.
     rbind (arg args ''outputs'' as_obj (Some [])) (\<lambda>outp.
     rbind (arg args ''thought'' as_str (Some [])) (\<lambda>thought.
       Inr (AgentRejectAction outp thought))))"

definition agent_delegate_of :: "dict \<Rightarrow> exc + action" where
  "agent_delegate_of args =
     rbind (expect [''agent'', ''inputs'', ''thought''] args) (\<lambda>_.
     rbind (arg args ''agent'' as_str None) (\<lambda>agnt.
     rbind (arg args ''inputs'' as_obj None) (\<lambda>inputs.
     rbind (arg args ''thought'' as_str (Some [])) (\<lambda>thought.
       Inr (AgentDelegateAction agnt inputs thought)))))"

definition recall_action_of :: "dict \<Rightarrow> exc + action" where
  "recall_action_of args =
     rbind (expect [''recall_type'', ''query'', ''thought''] args) (\<lambda>_.
     rbind (arg args ''recall_type'' as_recall_type None) (\<lambda>recall_type.
     rbind (arg args ''query'' as_str (Some [])) (\<lambda>qry.
     rbind (arg args ''thought'' as_str (Some [])) (\<lambda>thought.
       Inr (RecallAction recall_type qry thought)))))"

definition condensation_request_of :: "dict \<Rightarrow> exc + action" where
  "condensation_request_of args =
     rbind (expect [] args) (\<lambda>_.
       Inr CondensationRequestAction)"

definition task_tracking_of :: "dict \<Rightarrow> exc + action" where
  "task_tracking_of args =
     rbind (expect [''command'', ''task_list'', ''thought''] args) (\<lambda>_.
     rbind (arg args ''command'' as_str (Some ''view'')) (\<lambda>cmd.
     rbind (arg args ''task_list'' as_dicts (Some [])) (\<lambda>task_list.
     rbind (arg args ''thought'' as_str (Some [])) (\<lambda>thought.
       Inr (TaskTrackingAction cmd task_list thought)))))"

definition loop_recovery_of :: "dict \<Rightarrow> exc + action" where
  "loop_recovery_of args =
     rbind (expect [''option''] args) (\<lambda>_.
     rbind (arg args ''option'' as_int (Some 1)) (\<lambda>opt.
       Inr (LoopRecoveryAction opt)))"

definition message_action_args :: "message_action \<Rightarrow> dict" where
  "message_action_args r =
     [(''content'', JStr (ma_content r)),
      (''file_urls'', enc_opt enc_strs (ma_file_urls r)),
      (''image_urls'', enc_opt enc_strs (ma_image_urls r)),
      (''wait_for_response'', JBool (ma_wait_for_response r)),
      (''security_risk'', JInt (security_risk_value (ma_security_risk r)))]"

definition message_action_of :: "dict \<Rightarrow> exc + action" where
  "message_action_of args =
     rbind (expect [''content'', ''file_urls'', ''image_urls'', ''wait_for_response'', ''security_risk''] args) (\<lambda>_.
     rbind (arg args ''content'' as_str None) (\<lambda>cont.
     rbind (arg args ''file_urls'' (as_opt as_strs) (Some None)) (\<lambda>file_urls.
     rbind (arg args ''image_urls'' (as_opt as_strs) (Some None)) (\<lambda>image_urls.
     rbind (arg args ''wait_for_response'' as_bool (Some False)) (\<lambda>wait_for_response.
     rbind (arg args ''security_risk'' as_risk (Some RISK_UNKNOWN)) (\<lambda>security_risk.
       Inr (MessageAction
         \<lparr>ma_content = cont, ma_file_urls = file_urls, ma_image_urls = image_urls,
           ma_wait_for_response = wait_for_response, ma_security_risk = security_risk\<rparr>)))))))"

definition cmd_run_args :: "cmd_run \<Rightarrow> dict" where
  "cmd_run_args r =
     [(''command'', JStr (cr_command r)), (''is_input'', JBool (cr_is_input r)),
      (''thought'', JStr (cr_thought r)), (''blocking'', JBool (cr_blocking r)),
      (''is_static'', JBool (cr_is_static r)), (''cwd'', enc_opt JStr (cr_cwd r)),
      (''hidden'', JBool (cr_hidden r)),
      (''confirmation_state'', JStr (confirmation_value (cr_confirmation_state r))),
      (''security_risk'', JInt (security_risk_value (cr_security_risk r)))]"

definition cmd_run_of :: "dict \<Rightarrow> exc + action" where
  "cmd_run_of args =
     rbind (expect [''command'', ''is_input'', ''thought'', ''blocking'', ''is_static'', ''cwd'',
        ''hidden'', ''confirmation_state'', ''security_risk''] args) (\<lambda>_.
     rbind (arg args ''command'' as_str None) (\<lambda>cmd.
     rbind (arg args ''is_input'' as_bool (Some False)) (\<lambda>is_input.
     rbind (arg args ''thought'' as_str (Some [])) (\<lambda>thought.
     rbind (arg args ''blocking'' as_bool (Some False)) (\<lambda>blocking.
     rbind (arg args ''is_static'' as_bool (Some False)) (\<lambda>is_static.
     rbind (arg args ''cwd'' (as_opt as_str) (Some None)) (\<lambda>cwd.
     rbind (arg args ''hidden'' as_bool (Some False)) (\<lambda>hidden.
     rbind (arg args ''confirmation_state'' as_confirmation (Some CONFIRMED)) (\<lambda>confirmation_state.
     rbind (arg args ''security_risk'' as_risk (Some RISK_UNKNOWN)) (\<lambda>security_risk.
       Inr (CmdRunAction
         \<lparr>cr_command = cmd, cr_is_input = is_input, cr_thought = thought,
           cr_blocking = blocking, cr_is_static = is_static, cr_cwd = cwd,
           cr_hidden = hidden, cr_confirmation_state = confirmation_state,
           cr_security_risk = security_risk\<rparr>)))))))))))"

definition ipython_run_args :: "ipython_run \<Rightarrow> dict" where
  "ipython_run_args r =
     [(''code'', JStr (ip_code r)), (''thought'', JStr (ip_thought r)),
      (''include_extra'', JBool (ip_include_extra r)),
      (''confirmation_state'', JStr (confirmation_value (ip_confirmation_state r))),
      (''security_risk'', JInt (security_risk_value (ip_security_risk r))),
      (''kernel_init_code'', JStr (ip_kernel_init_code r))]"

definition ipython_run_of :: "dict \<Rightarrow> exc + action" where
  "ipython_run_of args =
     rbind (expect [''code'', ''thought'', ''include_extra'', ''confirmation_state'',
        ''security_risk'', ''kernel_init_code''] args) (\<lambda>_.
     rbind (arg args ''code'' as_str None) (\<lambda>cod.
     rbind (arg args ''thought'' as_str (Some [])) (\<lambda>thought.
     rbind (arg args ''include_extra'' as_bool (Some True)) (\<lambda>include_extra.
     rbind (arg args ''confirmation_state'' as_confirmation (Some CONFIRMED)) (\<lambda>confirmation_state.
     rbind (arg args ''security_risk'' as_risk (Some RISK_UNKNOWN)) (\<lambda>security_risk.
     rbind (arg args ''kernel_init_code'' as_str (Some [])) (\<lambda>kernel_init_code.
       Inr (IPythonRunCellAction
         \<lparr>ip_code = cod, ip_thought = thought, ip_include_extra = include_extra,
           ip_confirmation_state = confirmation_state, ip_security_risk = security_risk,
           ip_kernel_init_code = kernel_init_code\<rparr>))))))))"

definition browse_url_args :: "browse_url \<Rightarrow> dict" where
  "browse_url_args r =
     [(''url'', JStr (bu_url r)), (''thought'', JStr (bu_thought r)),
      (''security_risk'', JInt (security_risk_value (bu_security_risk r))),
      (''return_axtree'', JBool (bu_return_axtree r))]"

definition browse_url_of :: "dict \<Rightarrow> exc + action" where
  "browse_url_of args =
     rbind (expect [''url'', ''thought'', ''security_risk'', ''return_axtree''] args) (\<lambda>_.
     rbind (arg args ''url'' as_str None) (\<lambda>url.
     rbind (arg args ''thought'' as_str (Some [])) (\<lambda>thought.
     rbind (arg args ''security_risk'' as_risk (Some RISK_UNKNOWN)) (\<lambda>security_risk.
     rbind (arg args ''return_axtree'' as_bool (Some False)) (\<lambda>return_axtree.
       Inr (BrowseURLAction
         \<lparr>bu_url = url, bu_thought = thought, bu_security_risk = security_risk,
           bu_return_axtree = return_axtree\<rparr>))))))"

definition browse_interactive_args :: "browse_interactive \<Rightarrow> dict" where
  "browse_interactive_args r =
     [(''browser_actions'', JStr (bi_browser_actions r)),
      (''thought'', JStr (bi_thought r)),
      (''browsergym_send_msg_to_user'', JStr (bi_browsergym_send_msg_to_user r)),
      (''security_risk'', JInt (security_risk_value (bi_security_risk r))),
      (''return_axtree'', JBool (bi_return_axtree r))]"

definition browse_interactive_of :: "dict \<Rightarrow> exc + action" where
  "browse_interactive_of args =
     rbind (expect [''browser_actions'', ''thought'', ''browsergym_send_msg_to_user'',
        ''security_risk'', ''return_axtree''] args) (\<lambda>_.
     rbind (arg args ''browser_actions'' as_str None) (\<lambda>browser_actions.
     rbind (arg args ''thought'' as_str (Some [])) (\<lambda>thought.
     rbind (arg args ''browsergym_send_msg_to_user'' as_str (Some [])) (\<lambda>browsergym_send_msg_to_user.
     rbind (arg args ''security_risk'' as_risk (Some RISK_UNKNOWN)) (\<lambda>security_risk.
     rbind (arg args ''return_axtree'' as_bool (Some False)) (\<lambda>return_axtree.
       Inr (BrowseInteractiveAction
         \<lparr>bi_browser_actions = browser_actions, bi_thought = thought,
           bi_browsergym_send_msg_to_user = browsergym_send_msg_to_user,
           bi_security_risk = security_risk, bi_return_axtree = return_axtree\<rparr>)))))))"

definition file_read_args :: "file_read \<Rightarrow> dict" where
  "file_read_args r =
     [(''path'', JStr (fr_path r)), (''start'', JInt (fr_start r)),
      (''end'', JInt (fr_end r)), (''thought'', JStr (fr_thought r)),
      (''security_risk'', JInt (security_risk_value (fr_security_risk r))),
      (''impl_source'', JStr (file_read_source_value (fr_impl_source r))),
      (''view_range'', enc_opt enc_ints (fr_view_range r))]"

definition file_read_of :: "dict \<Rightarrow> exc + action" where
  "file_read_of args =
     rbind (expect [''path'', ''start'', ''end'', ''thought'', ''security_risk'', ''impl_source'',
        ''view_range''] args) (\<lambda>_.
     rbind (arg args ''path'' as_str None) (\<lambda>pth.
     rbind (arg args ''start'' as_int (Some 0)) (\<lambda>first.
     rbind (arg args ''end'' as_int (Some (-1))) (\<lambda>last.
     rbind (arg args ''thought'' as_str (Some [])) (\<lambda>thought.
     rbind (arg args ''security_risk'' as_risk (Some RISK_UNKNOWN)) (\<lambda>security_risk.
     rbind (arg args ''impl_source'' as_file_read_source (Some READ_DEFAULT)) (\<lambda>impl_source.
     rbind (arg args ''view_range'' (as_opt as_ints) (Some None)) (\<lambda>view_range.
       Inr (FileReadAction
         \<lparr>fr_path = pth, fr_start = first, fr_end = last, fr_thought = thought,
           fr_security_risk = security_risk, fr_impl_source = impl_source,
           fr_view_range = view_range\<rparr>)))))))))"

definition file_write_args :: "file_write \<Rightarrow> dict" where
  "file_write_args r =
     [(''path'', JStr (fw_path r)), (''content'', JStr (fw_content r)),
      (''start'', JInt (fw_start r)), (''end'', JInt (fw_end r)),
      (''thought'', JStr (fw_thought r)),
      (''security_risk'', JInt (security_risk_value (fw_security_risk r)))]"

definition file_write_of :: "dict \<Rightarrow> exc + action" where
  "file_write_of args =
     rbind (expect [''path'', ''content'', ''start'', ''end'', ''thought'', ''security_risk''] args) (\<lambda>_.
     rbind (arg args ''path'' as_str None) (\<lambda>pth.
     rbind (arg args ''content'' as_str None) (\<lambda>cont.
     rbind (arg args ''start'' as_int (Some 0)) (\<lambda>first.
     rbind (arg args ''end'' as_int (Some (-1))) (\<lambda>last.
     rbind (arg args ''thought'' as_str (Some [])) (\<lambda>thought.
     rbind (arg args ''security_risk'' as_risk (Some RISK_UNKNOWN)) (\<lambda>security_risk.
       Inr (FileWriteAction
         \<lparr>fw_path = pth, fw_content = cont, fw_start = first, fw_end = last,
           fw_thought = thought, fw_security_risk = security_risk\<rparr>))))))))"

definition file_edit_args :: "file_edit \<Rightarrow> dict" where
  "file_edit_args r =
     [(''path'', JStr (fe_path r)), (''command'', JStr (fe_command r)),
      (''file_text'', enc_opt JStr (fe_file_text r)),
      (''old_str'', enc_opt JStr (fe_old_str r)),
      (''new_str'', enc_opt JStr (fe_new_str r)),
      (''insert_line'', enc_opt JInt (fe_insert_line r)),
      (''content'', JStr (fe_content r)), (''start'', JInt (fe_start r)),
      (''end'', JInt (fe_end r)), (''thought'', JStr (fe_thought r)),
      (''security_risk'', JInt (security_risk_value (fe_security_risk r))),
      (''impl_source'', JStr (file_edit_source_value (fe_impl_source r)))]"

definition file_edit_of :: "dict \<Rightarrow> exc + action" where
  "file_edit_of args =
     rbind (expect [''path'', ''command'', ''file_text'', ''old_str'', ''new_str'', ''insert_line'',
        ''content'', ''start'', ''end'', ''thought'', ''security_risk'', ''impl_source''] args) (\<lambda>_.
     rbind (arg args ''path'' as_str None) (\<lambda>pth.
     rbind (arg args ''command'' as_str (Some [])) (\<lambda>cmd.
     rbind (arg args ''file_text'' (as_opt as_str) (Some None)) (\<lambda>file_text.
     rbind (arg args ''old_str'' (as_opt as_str) (Some None)) (\<lambda>old_str.
     rbind (arg args ''new_str'' (as_opt as_str) (Some None)) (\<lambda>new_str.
     rbind (arg args ''insert_line'' (as_opt as_int) (Some None)) (\<lambda>insert_line.
     rbind (arg args ''content'' as_str (Some [])) (\<lambda>cont.
     rbind (arg args ''start'' as_int (Some 1)) (\<lambda>first.
     rbind (arg args ''end'' as_int (Some (-1))) (\<lambda>last.
     rbind (arg args ''thought'' as_str (Some [])) (\<lambda>thought.
     rbind (arg args ''security_risk'' as_risk (Some RISK_UNKNOWN)) (\<lambda>security_risk.
     rbind (arg args ''impl_source'' as_file_edit_source (Some EDIT_OH_ACI)) (\<lambda>impl_source.
       Inr (FileEditAction
         \<lparr>fe_path = pth, fe_command = cmd, fe_file_text = file_text, fe_old_str = old_str,
           fe_new_str = new_str, fe_insert_line = insert_line, fe_content = cont,
           fe_start = first, fe_end = last, fe_thought = thought,
           fe_security_risk = security_risk, fe_impl_source = impl_source\<rparr>))))))))))))))"

definition mcp_action_args :: "mcp_action \<Rightarrow> dict" where
  "mcp_action_args r =
     [(''name'', JStr (mc_name r)), (''arguments'', JObj (mc_arguments r)),
      (''thought'', JStr (mc_thought r)),
      (''security_risk'', JInt (security_risk_value (mc_security_risk r)))]"

definition mcp_action_of :: "dict \<Rightarrow> exc + action" where
  "mcp_action_of args =
     rbind (expect [''name'', ''arguments'', ''thought'', ''security_risk''] args) (\<lambda>_.
     rbind (arg args ''name'' as_str None) (\<lambda>nam.
     rbind (arg args ''arguments'' as_obj (Some [])) (\<lambda>arguments.
     rbind (arg args ''thought'' as_str (Some [])) (\<lambda>thought.
     rbind (arg args ''security_risk'' as_risk (Some RISK_UNKNOWN)) (\<lambda>security_risk.
       Inr (MCPAction
         \<lparr>mc_name = nam, mc_arguments = arguments, mc_thought = thought,
           mc_security_risk = security_risk\<rparr>))))))"

definition condensation_args :: "condensation \<Rightarrow> dict" where
  "condensation_args r =
     [(''forgotten_event_ids'', enc_opt enc_ints (forgotten_event_ids r)),
      (''forgotten_events_start_id'', enc_opt JInt (forgotten_events_start_id r)),
      (''forgotten_events_end_id'', enc_opt JInt (forgotten_events_end_id r)),
      (''summary'', enc_opt JStr (cd_summary r)),
      (''summary_offset'', enc_opt JInt (cd_summary_offset r))]"

definition condensation_of :: "dict \<Rightarrow> exc + action" where
  "condensation_of args =
     rbind (expect [''forgotten_event_ids'', ''forgotten_events_start_id'',
        ''forgotten_events_end_id'', ''summary'', ''summary_offset''] args) (\<lambda>_.
     rbind (arg args ''forgotten_event_ids'' (as_opt as_ints) (Some None)) (\<lambda>ids.
     rbind (arg args ''forgotten_events_start_id'' (as_opt as_int) (Some None)) (\<lambda>s.
     rbind (arg args ''forgotten_events_end_id'' (as_opt as_int) (Some None)) (\<lambda>e.
     rbind (arg args ''summary'' (as_opt as_str) (Some None)) (\<lambda>summary.
     rbind (arg args ''summary_offset'' (as_opt as_int) (Some None)) (\<lambda>offset.
       new_condensation \<lparr>forgotten_event_ids = ids, forgotten_events_start_id = s,
         forgotten_events_end_id = e, cd_summary = summary, cd_summary_offset = offset\<rparr>))))))"

definition system_message_args :: "system_message \<Rightarrow> dict" where
  "system_message_args r =
     [(''content'', JStr (sm_content r)), (''tools'', enc_opt JList (sm_tools r)),
      (''openhands_version'', enc_opt JStr (sm_openhands_version r)),
      (''agent_class'', enc_opt JStr (sm_agent_class r))]"

definition system_message_of :: "py_env \<Rightarrow> dict \<Rightarrow> exc + action" where
  "system_message_of env args =
     rbind (expect [''content'', ''tools'', ''openhands_version'', ''agent_class''] args) (\<lambda>_.
     rbind (arg args ''content'' as_str None) (\<lambda>cont.
     rbind (arg args ''tools'' (as_opt as_list) (Some None)) (\<lambda>tools.
     rbind (arg args ''openhands_version'' (as_opt as_str) (Some (Some (env_version env)))) (\<lambda>version.
     rbind (arg args ''agent_class'' (as_opt as_str) (Some None)) (\<lambda>agent_class.
       Inr (SystemMessageAction \<lparr>sm_content = cont, sm_tools = tools,
         sm_openhands_version = version, sm_agent_class = agent_class\<rparr>))))))"

fun action_args :: "action \<Rightarrow> dict" where
  "action_args NullAction =
     []"
| "action_args (ChangeAgentStateAction agent_state thought) =
     [(''agent_state'', JStr agent_state), (''thought'', JStr thought)]"
| "action_args (AgentFinishAction final_thought outp thought) =
     [(''final_thought'', JStr final_thought), (''outputs'', JObj outp),
      (''thought'', JStr thought)]"
| "action_args (AgentThinkAction thought) =
     [(''thought'', JStr thought)]"
| "action_args (AgentRejectAction outp thought) =
     [(''outputs'', JObj outp), (''thought'', JStr thought)]"
| "action_args (AgentDelegateAction agnt inputs thought) =
     [(''agent'', JStr agnt), (''inputs'', JObj inputs), (''thought'', JStr thought)]"
| "action_args (RecallAction recall_type qry thought) =
     [(''recall_type'', JStr (recall_type_value recall_type)), (''query'', JStr qry),
      (''thought'', JStr thought)]"
| "action_args CondensationRequestAction =
     []"
| "action_args (TaskTrackingAction cmd task_list thought) =
     [(''command'', JStr cmd), (''task_list'', enc_dicts task_list),
      (''thought'', JStr thought)]"
| "action_args (LoopRecoveryAction opt) =
     [(''option'', JInt opt)]"
| "action_args (MessageAction r) =
     message_action_args r"
| "action_args (CmdRunAction r) =
     cmd_run_args r"
| "action_args (IPythonRunCellAction r) =
     ipython_run_args r"
| "action_args (BrowseURLAction r) =
     browse_url_args r"
| "action_args (BrowseInteractiveAction r) =
     browse_interactive_args r"
| "action_args (FileReadAction r) =
     file_read_args r"
| "action_args (FileWriteAction r) =
     file_write_args r"
| "action_args (FileEditAction r) =
     file_edit_args r"
| "action_args (MCPAction r) =
     mcp_action_args r"
| "action_args (CondensationAction r) = condensation_args r"
| "action_args (SystemMessageAction r) = system_message_args r"

definition ACTION_TYPE_TO_CLASS :: "py_env \<Rightarrow> (string, dict \<Rightarrow> exc + action) pydict" where
  "ACTION_TYPE_TO_CLASS env =
     [(''null'', null_action_of),
      (''run'', cmd_run_of),
      (''run_ipython'', ipython_run_of),
      (''browse'', browse_url_of),
      (''browse_interactive'', browse_interactive_of),
      (''read'', file_read_of),
      (''write'', file_write_of),
      (''edit'', file_edit_of),
      (''think'', agent_think_of),
      (''finish'', agent_finish_of),
      (''reject'', agent_reject_of),
      (''delegate'', agent_delegate_of),
      (''recall'', recall_action_of),
      (''change_agent_state'', change_agent_state_of),
      (''message'', message_action_of),
      (''system'', system_message_of env),
      (''condensation'', condensation_of),
      (''condensation_request'', condensation_request_of),
      (''call_tool_mcp'', mcp_action_of),
      (''task_tracking'', task_tracking_of),
      (''loop_recovery'', loop_recovery_of)]"

section \<open>Observations from keyword arguments, and back\<close>

definition null_observation_of :: "string \<Rightarrow> dict \<Rightarrow> exc + observation" where
  "null_observation_of content args =
     rbind (expect [] args) (\<lambda>_.
       Inr (NullObservation content))"

definition ipython_observation_of :: "string \<Rightarrow> dict \<Rightarrow> exc + observation" where
  "ipython_observation_of content args =
     rbind (expect [''code'', ''image_urls''] args) (\<lambda>_.
     rbind (arg args ''code'' as_str None) (\<lambda>cod.
     rbind (arg args ''image_urls'' (as_opt as_strs) (Some None)) (\<lambda>image_urls.
       Inr (IPythonRunCellObservation content cod image_urls))))"

definition browser_output_args :: "browser_output \<Rightarrow> dict" where
  "browser_output_args r =
     [(''url'', JStr (bo_url r)), (''trigger_by_action'', JStr (bo_trigger_by_action r)),
      (''screenshot'', JStr (bo_screenshot r)),
      (''screenshot_path'', enc_opt JStr (bo_screenshot_path r)),
      (''set_of_marks'', JStr (bo_set_of_marks r)), (''error'', JBool (bo_error r)),
      (''goal_image_urls'', enc_strs (bo_goal_image_urls r)),
      (''open_pages_urls'', enc_strs (bo_open_pages_urls r)),
      (''active_page_index'', JInt (bo_active_page_index r)),
      (''dom_object'', JObj (bo_dom_object r)),
      (''axtree_object'', JObj (bo_axtree_object r)),
      (''extra_element_properties'', JObj (bo_extra_element_properties r)),
      (''last_browser_action'', JStr (bo_last_browser_action r)),
      (''last_browser_action_error'', JStr (bo_last_browser_action_error r)),
      (''focused_element_bid'', JStr (bo_focused_element_bid r)),
      (''filter_visible_only'', JBool (bo_filter_visible_only r))]"

definition browser_output_of :: "string \<Rightarrow> dict \<Rightarrow> exc + observation" where
  "browser_output_of content args =
     rbind (expect [''url'', ''trigger_by_action'', ''screenshot'', ''screenshot_path'',
        ''set_of_marks'', ''error'', ''goal_image_urls'', ''open_pages_urls'',
        ''active_page_index'', ''dom_object'', ''axtree_object'',
        ''extra_element_properties'', ''last_browser_action'',
        ''last_browser_action_error'', ''focused_element_bid'', ''filter_visible_only''] args) (\<lambda>_.
     rbind (arg args ''url'' as_str None) (\<lambda>url.
     rbind (arg args ''trigger_by_action'' as_str None) (\<lambda>trigger_by_action.
     rbind (arg args ''screenshot'' as_str (Some [])) (\<lambda>screenshot.
     rbind (arg args ''screenshot_path'' (as_opt as_str) (Some None)) (\<lambda>screenshot_path.
     rbind (arg args ''set_of_marks'' as_str (Some [])) (\<lambda>set_of_marks.
     rbind (arg args ''error'' as_bool (Some False)) (\<lambda>err.
     rbind (arg args ''goal_image_urls'' as_strs (Some [])) (\<lambda>goal_image_urls.
     rbind (arg args ''open_pages_urls'' as_strs (Some [])) (\<lambda>open_pages_urls.
     rbind (arg args ''active_page_index'' as_int (Some (-1))) (\<lambda>active_page_index.
     rbind (arg args ''dom_object'' as_obj (Some [])) (\<lambda>dom_object.
     rbind (arg args ''axtree_object'' as_obj (Some [])) (\<lambda>axtree_object.
     rbind (arg args ''extra_element_properties'' as_obj (Some [])) (\<lambda>extra_element_properties.
     rbind (arg args ''last_browser_action'' as_str (Some [])) (\<lambda>last_browser_action.
     rbind (arg args ''last_browser_action_error'' as_str (Some [])) (\<lambda>last_browser_action_error.
     rbind (arg args ''focused_element_bid'' as_str (Some [])) (\<lambda>focused_element_bid.
     rbind (arg args ''filter_visible_only'' as_bool (Some False)) (\<lambda>filter_visible_only.
       Inr (BrowserOutputObservation
         \<lparr>bo_content = content, bo_url = url, bo_trigger_by_action = trigger_by_action,
           bo_screenshot = screenshot, bo_screenshot_path = screenshot_path,
           bo_set_of_marks = set_of_marks, bo_error = err,
           bo_goal_image_urls = goal_image_urls, bo_open_pages_urls = open_pages_urls,
           bo_active_page_index = active_page_index, bo_dom_object = dom_object,
           bo_axtree_object = axtree_object,
           bo_extra_element_properties = extra_element_properties,
           bo_last_browser_action = last_browser_action,
           bo_last_browser_action_error = last_browser_action_error,
           bo_focused_element_bid = focused_element_bid,
           bo_filter_visible_only = filter_visible_only\<rparr>))))))))))))))))))"

definition file_read_observation_of :: "string \<Rightarrow> dict \<Rightarrow> exc + observation" where
  "file_read_observation_of content args =
     rbind (expect [''path'', ''impl_source''] args) (\<lambda>_.
     rbind (arg args ''path'' as_str None) (\<lambda>pth.
     rbind (arg args ''impl_source'' as_file_read_source (Some READ_DEFAULT)) (\<lambda>impl_source.
       Inr (FileReadObservation content pth impl_source))))"

definition file_write_observation_of :: "string \<Rightarrow> dict \<Rightarrow> exc + observation" where
  "file_write_observation_of content args =
     rbind (expect [''path''] args) (\<lambda>_.
     rbind (arg args ''path'' as_str None) (\<lambda>pth.
       Inr (FileWriteObservation content pth)))"

definition file_edit_observation_args :: "file_edit_observation \<Rightarrow> dict" where
  "file_edit_observation_args r =
     [(''path'', JStr (feo_path r)), (''prev_exist'', JBool (feo_prev_exist r)),
      (''old_content'', enc_opt JStr (feo_old_content r)),
      (''new_content'', enc_opt JStr (feo_new_content r)),
      (''impl_source'', JStr (file_edit_source_value (feo_impl_source r))),
      (''diff'', enc_opt JStr (feo_diff r)),
      (''_diff_cache'', enc_opt JStr (feo_diff_cache r))]"

definition file_edit_observation_of :: "string \<Rightarrow> dict \<Rightarrow> exc + observation" where
  "file_edit_observation_of content args =
     rbind (expect [''path'', ''prev_exist'', ''old_content'', ''new_content'', ''impl_source'',
        ''diff'', ''_diff_cache''] args) (\<lambda>_.
     rbind (arg args ''path'' as_str (Some [])) (\<lambda>pth.
     rbind (arg args ''prev_exist'' as_bool (Some False)) (\<lambda>prev_exist.
     rbind (arg args ''old_content'' (as_opt as_str) (Some None)) (\<lambda>old_content.
     rbind (arg args ''new_content'' (as_opt as_str) (Some None)) (\<lambda>new_content.
     rbind (arg args ''impl_source'' as_file_edit_source (Some LLM_BASED_EDIT)) (\<lambda>impl_source.
     rbind (arg args ''diff'' (as_opt as_str) (Some None)) (\<lambda>diff.
     rbind (arg args ''_diff_cache'' (as_opt as_str) (Some None)) (\<lambda>cache.
       Inr (FileEditObservation
         \<lparr>feo_content = content, feo_path = pth, feo_prev_exist = prev_exist,
           feo_old_content = old_content, feo_new_content = new_content,
           feo_impl_source = impl_source, feo_diff = diff, feo_diff_cache = cache\<rparr>)))))))))"

definition delegate_observation_of :: "string \<Rightarrow> dict \<Rightarrow> exc + observation" where
  "delegate_observation_of content args =
     rbind (expect [''outputs''] args) (\<lambda>_.
     rbind (arg args ''outputs'' as_obj None) (\<lambda>outp.
       Inr (AgentDelegateObservation content outp)))"

definition success_observation_of :: "string \<Rightarrow> dict \<Rightarrow> exc + observation" where
  "success_observation_of content args =
     rbind (expect [] args) (\<lambda>_.
       Inr (SuccessObservation content))"

definition error_observation_of :: "string \<Rightarrow> dict \<Rightarrow> exc + observation" where
  "error_observation_of content args =
     rbind (expect [''error_id''] args) (\<lambda>_.
     rbind (arg args ''error_id'' as_str (Some [])) (\<lambda>error_id.
       Inr (ErrorObservation content error_id)))"

definition state_changed_observation_of :: "string \<Rightarrow> dict \<Rightarrow> exc + observation" where
  "state_changed_observation_of content args =
     rbind (expect [''agent_state'', ''reason''] args) (\<lambda>_.
     rbind (arg args ''agent_state'' as_str None) (\<lambda>agent_state.
     rbind (arg args ''reason'' as_str (Some [])) (\<lambda>reason.
       Inr (AgentStateChangedObservation content agent_state reason))))"

definition user_reject_observation_of :: "string \<Rightarrow> dict \<Rightarrow> exc + observation" where
  "user_reject_observation_of content args =
     rbind (expect [] args) (\<lambda>_.
       Inr (UserRejectObservation content))"

definition condensation_observation_of :: "string \<Rightarrow> dict \<Rightarrow> exc + observation" where
  "condensation_observation_of content args =
     rbind (expect [] args) (\<lambda>_.
       Inr (AgentCondensationObservation content))"

definition think_observation_of :: "string \<Rightarrow> dict \<Rightarrow> exc + observation" where
  "think_observation_of content args =
     rbind (expect [] args) (\<lambda>_.
       Inr (AgentThinkObservation content))"

definition recall_observation_args :: "recall_observation \<Rightarrow> dict" where
  "recall_observation_args r =
     [(''recall_type'', JStr (recall_type_value (ro_recall_type r))),
      (''repo_name'', JStr (ro_repo_name r)),
      (''repo_directory'', JStr (ro_repo_directory r)),
      (''repo_branch'', JStr (ro_repo_branch r)),
      (''repo_instructions'', JStr (ro_repo_instructions r)),
      (''runtime_hosts'', enc_hosts (ro_runtime_hosts r)),
      (''additional_agent_instructions'', JStr (ro_additional_agent_instructions r)),
      (''date'', JStr (ro_date r)),
      (''custom_secrets_descriptions'', enc_strmap (ro_custom_secrets_descriptions r)),
      (''conversation_instructions'', JStr (ro_conversation_instructions r)),
      (''working_dir'', JStr (ro_working_dir r)),
      (''microagent_knowledge'', enc_knowledge (ro_microagent_knowledge r))]"

definition recall_observation_of :: "string \<Rightarrow> dict \<Rightarrow> exc + observation" where
  "recall_observation_of content args =
     rbind (expect [''recall_type'', ''repo_name'', ''repo_directory'', ''repo_branch'',
        ''repo_instructions'', ''runtime_hosts'', ''additional_agent_instructions'',
        ''date'', ''custom_secrets_descriptions'', ''conversation_instructions'',
        ''working_dir'', ''microagent_knowledge''] args) (\<lambda>_.
     rbind (arg args ''recall_type'' as_recall_type None) (\<lambda>recall_type.
     rbind (arg args ''repo_name'' as_str (Some [])) (\<lambda>repo_name.
     rbind (arg args ''repo_directory'' as_str (Some [])) (\<lambda>repo_directory.
     rbind (arg args ''repo_branch'' as_str (Some [])) (\<lambda>repo_branch.
     rbind (arg args ''repo_instructions'' as_str (Some [])) (\<lambda>repo_instructions.
     rbind (arg args ''runtime_hosts'' as_hosts (Some [])) (\<lambda>runtime_hosts.
     rbind (arg args ''additional_agent_instructions'' as_str (Some [])) (\<lambda>additional_agent_instructions.
     rbind (arg args ''date'' as_str (Some [])) (\<lambda>dat.
     rbind (arg args ''custom_secrets_descriptions'' as_strmap (Some [])) (\<lambda>custom_secrets_descriptions.
     rbind (arg args ''conversation_instructions'' as_str (Some [])) (\<lambda>conversation_instructions.
     rbind (arg args ''working_dir'' as_str (Some [])) (\<lambda>working_dir.
     rbind (arg args ''microagent_knowledge'' as_knowledge (Some [])) (\<lambda>microagent_knowledge.
       Inr (RecallObservation
         \<lparr>ro_content = content, ro_recall_type = recall_type, ro_repo_name = repo_name,
           ro_repo_directory = repo_directory, ro_repo_branch = repo_branch,
           ro_repo_instructions = repo_instructions, ro_runtime_hosts = runtime_hosts,
           ro_additional_agent_instructions = additional_agent_instructions, ro_date = dat,
           ro_custom_secrets_descriptions = custom_secrets_descriptions,
           ro_conversation_instructions = conversation_instructions,
           ro_working_dir = working_dir, ro_microagent_knowledge = microagent_knowledge\<rparr>))))))))))))))"

definition mcp_observation_of :: "string \<Rightarrow> dict \<Rightarrow> exc + observation" where
  "mcp_observation_of content args =
     rbind (expect [''name'', ''arguments''] args) (\<lambda>_.
     rbind (arg args ''name'' as_str (Some [])) (\<lambda>nam.
     rbind (arg args ''arguments'' as_obj (Some [])) (\<lambda>arguments.
       Inr (MCPObservation content nam arguments))))"

definition file_download_observation_of :: "string \<Rightarrow> dict \<Rightarrow> exc + observation" where
  "file_download_observation_of content args =
     rbind (expect [''file_path''] args) (\<lambda>_.
     rbind (arg args ''file_path'' as_str None) (\<lambda>file_path.
       Inr (FileDownloadObservation content file_path)))"

definition task_tracking_observation_of :: "string \<Rightarrow> dict \<Rightarrow> exc + observation" where
  "task_tracking_observation_of content args =
     rbind (expect [''command'', ''task_list''] args) (\<lambda>_.
     rbind (arg args ''command'' as_str (Some [])) (\<lambda>cmd.
     rbind (arg args ''task_list'' as_dicts (Some [])) (\<lambda>task_list.
       Inr (TaskTrackingObservation content cmd task_list))))"

definition loop_detection_observation_of :: "string \<Rightarrow> dict \<Rightarrow> exc + observation" where
  "loop_detection_observation_of content args =
     rbind (expect [] args) (\<lambda>_.
       Inr (LoopDetectionObservation content))"

definition cmd_output_extras :: "cmd_output \<Rightarrow> dict" where
  "cmd_output_extras r =
     [(''command'', JStr (co_command r)), (''metadata'', enc_metadata (co_metadata r)),
      (''hidden'', JBool (co_hidden r))]"

text \<open>
  \<open>CmdOutputObservation(content, **extras)\<close> after \<open>observation_from_dict\<close> has converted the
  metadata; the constructor takes any other keyword and drops it.
\<close>

definition cmd_output_of :: "string \<Rightarrow> dict \<Rightarrow> exc + observation" where
  "cmd_output_of content args =
     rbind (arg args ''command'' as_str None) (\<lambda>cmd.
     rbind (arg args ''hidden'' as_bool (Some False)) (\<lambda>hidden.
     rbind (case map_of args ''metadata'' of
              Some (JObj d) \<Rightarrow> metadata_of d
            | _ \<Rightarrow> Inr default_metadata) (\<lambda>metadata.
       Inr (CmdOutputObservation (new_cmd_output content cmd (Some metadata) hidden)))))"

fun observation_extras :: "observation \<Rightarrow> dict" where
  "observation_extras (NullObservation c) =
     []"
| "observation_extras (IPythonRunCellObservation c cod image_urls) =
     [(''code'', JStr cod), (''image_urls'', enc_opt enc_strs image_urls)]"
| "observation_extras (BrowserOutputObservation r) =
     browser_output_args r"
| "observation_extras (FileReadObservation c pth impl_source) =
     [(''path'', JStr pth), (''impl_source'', JStr (file_read_source_value impl_source))]"
| "observation_extras (FileWriteObservation c pth) =
     [(''path'', JStr pth)]"
| "observation_extras (FileEditObservation r) =
     file_edit_observation_args r"
| "observation_extras (AgentDelegateObservation c outp) =
     [(''outputs'', JObj outp)]"
| "observation_extras (SuccessObservation c) =
     []"
| "observation_extras (ErrorObservation c error_id) =
     [(''error_id'', JStr error_id)]"
| "observation_extras (AgentStateChangedObservation c agent_state reason) =
     [(''agent_state'', JStr agent_state), (''reason'', JStr reason)]"
| "observation_extras (UserRejectObservation c) =
     []"
| "observation_extras (AgentCondensationObservation c) =
     []"
| "observation_extras (AgentThinkObservation c) =
     []"
| "observation_extras (RecallObservation r) =
     recall_observation_args r"
| "observation_extras (MCPObservation c nam arguments) =
     [(''name'', JStr nam), (''arguments'', JObj arguments)]"
| "observation_extras (FileDownloadObservation c file_path) =
     [(''file_path'', JStr file_path)]"
| "observation_extras (TaskTrackingObservation c cmd task_list) =
     [(''command'', JStr cmd), (''task_list'', enc_dicts task_list)]"
| "observation_extras (LoopDetectionObservation c) =
     []"
| "observation_extras (CmdOutputObservation r) = cmd_output_extras r"

definition OBSERVATION_TYPE_TO_CLASS ::
    "(string, string \<Rightarrow> dict \<Rightarrow> exc + observation) pydict" where
  "OBSERVATION_TYPE_TO_CLASS =
     [(''null'', null_observation_of),
      (''run'', cmd_output_of),
      (''run_ipython'', ipython_observation_of),
      (''browse'', browser_output_of),
      (''read'', file_read_observation_of),
      (''write'', file_write_observation_of),
      (''edit'', file_edit_observation_of),
      (''delegate'', delegate_observation_of),
      (''success'', success_observation_of),
      (''error'', error_observation_of),
      (''agent_state_changed'', state_changed_observation_of),
      (''user_rejected'', user_reject_observation_of),
      (''condense'', condensation_observation_of),
      (''think'', think_observation_of),
      (''recall'', recall_observation_of),
      (''mcp'', mcp_observation_of),
      (''download'', file_download_observation_of),
      (''task_tracking'', task_tracking_observation_of),
      (''loop_detection'', loop_detection_observation_of)]"

end
