(* ===== verification/Event_Serialization.thy ===== *)
theory Event_Serialization
  imports Serialization
begin

text \<open>
  \<open>serialization/event.py\<close>, \<open>serialization/action.py\<close>, \<open>serialization/observation.py\<close>: an event to
  its dictionary and back, and the theorem that the two are inverse on what is serialised.
\<close>

section \<open>The property \<open>message\<close>\<close>

fun action_message :: "py_env \<Rightarrow> action \<Rightarrow> exc + string" where
  "action_message env NullAction = Inr ''No action''"
| "action_message env (ChangeAgentStateAction agent_state _) =
     Inr (''Agent state changed to '' @ agent_state)"
| "action_message env (AgentFinishAction _ _ thought) =
     Inr (if thought \<noteq> [] then thought
          else ''All done! What'' @ [CHR 0x27] @ ''s next on the agenda?'')"
| "action_message env (AgentThinkAction thought) = Inr (''I am thinking...: '' @ thought)"
| "action_message env (AgentRejectAction outputs _) =
     (case map_of outputs ''reason'' of
        None \<Rightarrow> Inr ''Task is rejected by the agent.''
      | Some (JStr r) \<Rightarrow> Inr (''Task is rejected by the agent. Reason: '' @ r)
      | Some _ \<Rightarrow> Inl (TypeError ''can only concatenate str to str''))"
| "action_message env (AgentDelegateAction agent _ _) =
     Inr (''I'' @ [CHR 0x27] @ ''m asking '' @ agent @ '' for help with this task.'')"
| "action_message env (RecallAction _ query _) =
     Inr (''Retrieving content for: '' @ slice_to 50 query)"
| "action_message env (CondensationAction r) =
     (if truthy (cd_summary r) then Inr (''Summary: '' @ the (cd_summary r))
      else rbind (forgotten r) (\<lambda>ids.
        Inr (''Condenser is dropping the events: '' @
             repr_json (env_float_text env) (enc_ints ids) @ ''.'')))"
| "action_message env CondensationRequestAction =
     Inr ''Requesting a condensation of the conversation history.''"
| "action_message env (TaskTrackingAction _ task_list _) =
     Inr (let n = length task_list in
          if n = 0 then ''Clearing the task list.''
          else if n = 1 then ''Managing 1 task item.''
          else ''Managing '' @ show_nat n @ '' task items.'')"
| "action_message env (LoopRecoveryAction _) = Inr []"
| "action_message env (MessageAction r) = Inr (ma_content r)"
| "action_message env (SystemMessageAction r) = Inr (sm_content r)"
| "action_message env (CmdRunAction r) = Inr (''Running command: '' @ cr_command r)"
| "action_message env (IPythonRunCellAction r) =
     Inr (''Running Python code interactively: '' @ ip_code r)"
| "action_message env (FileReadAction r) = Inr (''Reading file: '' @ fr_path r)"
| "action_message env (FileWriteAction r) = Inr (''Writing file: '' @ fw_path r)"
| "action_message env (FileEditAction r) = Inr []"
| "action_message env (BrowseURLAction r) = Inr (''I am browsing the URL: '' @ bu_url r)"
| "action_message env (BrowseInteractiveAction r) =
     Inr (''I am interacting with the browser:'' @ newline # ''```'' @ newline #
          bi_browser_actions r @ newline # ''```'')"
| "action_message env (MCPAction r) =
     Inr (''I am interacting with the MCP server with name:'' @ newline # ''```'' @ newline #
          mc_name r @ newline # ''```'' @ newline # ''and arguments:'' @ newline # ''```'' @ newline #
          repr_json (env_float_text env) (JObj (mc_arguments r)) @ newline # ''```'')"

fun observation_message :: "observation \<Rightarrow> string" where
  "observation_message (NullObservation _) = ''No observation''"
| "observation_message (CmdOutputObservation r) =
     ''Command `'' @ co_command r @ ''` executed with exit code '' @ show_int (cmd_exit_code r) @ ''.''"
| "observation_message (IPythonRunCellObservation _ _ _) = ''Code executed in IPython cell.''"
| "observation_message (BrowserOutputObservation r) = ''Visited '' @ bo_url r"
| "observation_message (FileReadObservation _ pth _) = ''I read the file '' @ pth @ ''.''"
| "observation_message (FileWriteObservation _ pth) = ''I wrote to the file '' @ pth @ ''.''"
| "observation_message (FileEditObservation r) = ''I edited the file '' @ feo_path r @ ''.''"
| "observation_message (AgentDelegateObservation _ _) = []"
| "observation_message (AgentStateChangedObservation _ _ _) = []"
| "observation_message (LoopDetectionObservation _) = []"
| "observation_message (RecallObservation r) =
     (if ro_recall_type r = WORKSPACE_CONTEXT then ''Added workspace context''
      else ''Added microagent knowledge'')"
| "observation_message (FileDownloadObservation _ pth) =
     ''Downloaded the file at location: '' @ pth"
| "observation_message obs = obs_content obs"

definition event_message :: "py_env \<Rightarrow> event \<Rightarrow> exc + string" where
  "event_message env e =
     (case ev_body e of
        Action a \<Rightarrow> action_message env a
      | Observation obs \<Rightarrow> Inr (observation_message obs))"

section \<open>Metrics and tool calls\<close>

definition enc_usage :: "TokenUsage \<Rightarrow> json" where
  "enc_usage u =
     JObj [(''model'', JStr (tu_model u)), (''prompt_tokens'', JInt (prompt_tokens u)),
       (''completion_tokens'', JInt (completion_tokens u)),
       (''cache_read_tokens'', JInt (cache_read_tokens u)),
       (''cache_write_tokens'', JInt (cache_write_tokens u)),
       (''context_window'', JInt (context_window u)),
       (''per_turn_token'', JInt (per_turn_token u)),
       (''response_id'', JStr (tu_response_id u))]"

definition usage_of_dict :: "dict \<Rightarrow> exc + TokenUsage" where
  "usage_of_dict d =
     rbind (arg d ''model'' as_str (Some [])) (\<lambda>model.
     rbind (arg d ''prompt_tokens'' as_int (Some 0)) (\<lambda>prompt.
     rbind (arg d ''completion_tokens'' as_int (Some 0)) (\<lambda>completion.
     rbind (arg d ''cache_read_tokens'' as_int (Some 0)) (\<lambda>cache_read.
     rbind (arg d ''cache_write_tokens'' as_int (Some 0)) (\<lambda>cache_write.
     rbind (arg d ''context_window'' as_int (Some 0)) (\<lambda>window.
     rbind (arg d ''per_turn_token'' as_int (Some 0)) (\<lambda>per_turn.
     rbind (arg d ''response_id'' as_str (Some [])) (\<lambda>response_id.
       Inr \<lparr>tu_model = model, prompt_tokens = prompt, completion_tokens = completion,
         cache_read_tokens = cache_read, cache_write_tokens = cache_write,
         context_window = window, per_turn_token = per_turn, tu_response_id = response_id\<rparr>))))))))"

definition enc_cost :: "Cost \<Rightarrow> json" where
  "enc_cost c = JObj [(''model'', JStr (c_model c)), (''cost'', JFloat (c_cost c)),
     (''timestamp'', JFloat (c_timestamp c))]"

definition cost_of_dict :: "dict \<Rightarrow> exc + Cost" where
  "cost_of_dict d =
     rbind (arg d ''model'' as_str None) (\<lambda>model.
     rbind (arg d ''cost'' as_rat None) (\<lambda>cost.
     rbind (arg d ''timestamp'' as_rat None) (\<lambda>timestamp.
       Inr \<lparr>c_model = model, c_cost = cost, c_timestamp = timestamp\<rparr>)))"

definition enc_latency :: "ResponseLatency \<Rightarrow> json" where
  "enc_latency l = JObj [(''model'', JStr (rl_model l)), (''latency'', JFloat (rl_latency l)),
     (''response_id'', JStr (rl_response_id l))]"

definition latency_of_dict :: "dict \<Rightarrow> exc + ResponseLatency" where
  "latency_of_dict d =
     rbind (arg d ''model'' as_str None) (\<lambda>model.
     rbind (arg d ''latency'' as_rat None) (\<lambda>latency.
     rbind (arg d ''response_id'' as_str None) (\<lambda>response_id.
       Inr \<lparr>rl_model = model, rl_latency = latency, rl_response_id = response_id\<rparr>)))"

text \<open>\<open>Metrics.get\<close>.\<close>

definition metrics_get :: "metrics \<Rightarrow> dict" where
  "metrics_get m =
     [(''accumulated_cost'', JFloat (accumulated_cost m)),
      (''max_budget_per_task'', enc_opt JFloat (max_budget_per_task m)),
      (''accumulated_token_usage'', enc_usage (accumulated_token_usage m)),
      (''costs'', enc_map enc_cost (costs m)),
      (''response_latencies'', enc_map enc_latency (response_latencies m)),
      (''token_usages'', enc_map enc_usage (token_usages m))]"

text \<open>A list of objects: each is passed as keyword arguments.\<close>

fun objects :: "(dict \<Rightarrow> exc + 'a) \<Rightarrow> json list \<Rightarrow> exc + 'a list" where
  "objects f [] = Inr []"
| "objects f (JObj d # vs) = rbind (f d) (\<lambda>x. rbind (objects f vs) (\<lambda>xs. Inr (x # xs)))"
| "objects f (v # vs) = Inl (untyped ''mapping'')"

definition metrics_of_json :: "json \<Rightarrow> exc + metrics" where
  "metrics_of_json v =
     (let m = new_metrics ''default'' in
      case v of
        JObj d \<Rightarrow>
          rbind (arg d ''accumulated_cost'' as_rat (Some 0)) (\<lambda>cost.
          rbind (set_accumulated_cost cost m) (\<lambda>m.
          rbind (arg d ''max_budget_per_task'' (as_opt as_rat) (Some None)) (\<lambda>budget.
          rbind (arg d ''costs'' as_list (Some [])) (\<lambda>cs.
          rbind (objects cost_of_dict cs) (\<lambda>cs.
          rbind (arg d ''response_latencies'' as_list (Some [])) (\<lambda>ls.
          rbind (objects latency_of_dict ls) (\<lambda>ls.
          rbind (arg d ''token_usages'' as_list (Some [])) (\<lambda>us.
          rbind (objects usage_of_dict us) (\<lambda>us.
          rbind (arg d ''accumulated_token_usage'' (as_opt as_obj) (Some None)) (\<lambda>acc.
          rbind (case acc of None \<Rightarrow> Inr (accumulated_token_usage m) | Some u \<Rightarrow> usage_of_dict u) (\<lambda>u.
            Inr (m\<lparr>max_budget_per_task := budget, costs := cs, response_latencies := ls,
              token_usages := us, accumulated_token_usage := u\<rparr>))))))))))))
      | _ \<Rightarrow> Inr m)"

definition enc_tool_call :: "tool_call_metadata \<Rightarrow> json" where
  "enc_tool_call t =
     JObj [(''function_name'', JStr (tc_function_name t)),
       (''tool_call_id'', JStr (tc_tool_call_id t)), (''model_response'', tc_model_response t),
       (''total_calls_in_response'', JInt (tc_total_calls_in_response t))]"

definition tool_call_of_dict :: "dict \<Rightarrow> exc + tool_call_metadata" where
  "tool_call_of_dict d =
     rbind (arg d ''function_name'' as_str None) (\<lambda>function_name.
     rbind (arg d ''tool_call_id'' as_str None) (\<lambda>tool_call_id.
     rbind (arg d ''model_response'' Some None) (\<lambda>model_response.
     rbind (arg d ''total_calls_in_response'' as_int None) (\<lambda>total.
       Inr \<lparr>tc_function_name = function_name, tc_tool_call_id = tool_call_id,
         tc_model_response = model_response, tc_total_calls_in_response = total\<rparr>))))"

section \<open>\<open>event_to_dict\<close>\<close>

definition opt_key :: "string \<Rightarrow> json option \<Rightarrow> dict" where
  "opt_key k v = (case v of None \<Rightarrow> [] | Some x \<Rightarrow> [(k, x)])"

definition top_keys :: "event \<Rightarrow> string \<Rightarrow> dict" where
  "top_keys e msg =
     opt_key ''id'' (if event_id e = -1 then None else Some (JInt (event_id e))) @
     opt_key ''timestamp'' (map_option JStr (ev_timestamp e)) @
     opt_key ''source'' (map_option (\<lambda>s. JStr (event_source_value s)) (ev_source e)) @
     [(''message'', JStr msg)] @
     opt_key ''cause'' (map_option JInt (ev_cause e)) @
     [case ev_body e of
        Action a \<Rightarrow> (''action'', JStr (action_type a))
      | Observation obs \<Rightarrow> (''observation'', JStr (observation_type obs))] @
     opt_key ''tool_call_metadata'' (map_option enc_tool_call (ev_tool_call_metadata e)) @
     opt_key ''llm_metrics'' (map_option (\<lambda>m. JObj (metrics_get m)) (ev_llm_metrics e))"

text \<open>\<open>hasattr(event, 'success')\<close>: the two classes of command output.\<close>

definition success_key :: "observation \<Rightarrow> dict" where
  "success_key obs =
     (case obs of
        CmdOutputObservation r \<Rightarrow> [(''success'', JBool (cmd_success r))]
      | IPythonRunCellObservation _ _ _ \<Rightarrow> [(''success'', JBool True)]
      | _ \<Rightarrow> [])"

definition event_to_dict :: "py_env \<Rightarrow> event \<Rightarrow> exc + dict" where
  "event_to_dict env e =
     rbind (event_message env e) (\<lambda>msg.
       Inr (case ev_body e of
          Action a \<Rightarrow>
            top_keys e msg @ [(''args'', JObj (action_args a))] @
            opt_key ''timeout'' (map_option JFloat (ev_timeout e))
        | Observation obs \<Rightarrow>
            top_keys e msg @ [(''content'', JStr (obs_content obs)),
              (''extras'', JObj (observation_extras obs))] @ success_key obs))"

section \<open>\<open>action_from_dict\<close>\<close>

definition malformed :: "string \<Rightarrow> exc" where
  "malformed msg = OtherException ''LLMMalformedActionError'' msg"

definition file_editor_prefix :: string where
  "file_editor_prefix = ''print(file_editor(**''"

definition handle_action_deprecated_args :: "py_env \<Rightarrow> dict \<Rightarrow> exc + dict" where
  "handle_action_deprecated_args env args =
     (let args = dict_del ''task_completed'' (dict_del ''keep_prompt'' args) in
      case map_of args ''translated_ipython_code'' of
        None \<Rightarrow> Inr args
      | Some v \<Rightarrow>
          (let args = dict_del ''translated_ipython_code'' args in
           rbind (case v of
                    JNull \<Rightarrow> Inr args
                  | JStr code \<Rightarrow>
                      if startswith code file_editor_prefix \<and> endswith code ''))'' then
                        (case env_literal_eval env
                            (slice (Some (int (length file_editor_prefix))) (Some (-2)) code) of
                           Inr file_args \<Rightarrow> Inr (dict_update args file_args)
                         | Inl (ValueError _) \<Rightarrow> Inr args
                         | Inl (OtherException c m) \<Rightarrow>
                             if c = ''SyntaxError'' then Inr args else Inl (OtherException c m)
                         | Inl e \<Rightarrow> Inl e)
                      else Inr args
                  | _ \<Rightarrow> Inl (OtherException ''AttributeError'' ''startswith'')) (\<lambda>args.
             Inr (if map_of args ''command'' = Some (JStr ''view'') then dict_del ''command'' args
                  else args))))"

text \<open>The conversions before the class is called; the first result is the popped timestamp.\<close>

definition prepare_args :: "py_env \<Rightarrow> dict \<Rightarrow> exc + json option \<times> dict" where
  "prepare_args env args =
     (let timestamp = map_of args ''timestamp'';
          args = dict_del ''timestamp'' args;
          is_confirmed = map_of args ''is_confirmed'';
          args = dict_del ''is_confirmed'' args;
          args = (case is_confirmed of
                    None \<Rightarrow> args
                  | Some v \<Rightarrow> if v = JNull then args else dict_set args ''confirmation_state'' v);
          args = (case map_of args ''images_urls'' of
                    None \<Rightarrow> args
                  | Some v \<Rightarrow> dict_set (dict_del ''images_urls'' args) ''image_urls'' v);
          args = (case map_of args ''security_risk'' of
                    None \<Rightarrow> args
                  | Some v \<Rightarrow>
                      if v = JNull then args
                      else case as_risk v of
                        Some r \<Rightarrow> dict_set args ''security_risk'' (JInt (security_risk_value r))
                      | None \<Rightarrow> dict_del ''security_risk'' args)
      in rbind (handle_action_deprecated_args env args) (\<lambda>args. Inr (timestamp, args)))"

definition action_from_dict :: "py_env \<Rightarrow> dict \<Rightarrow> exc + event" where
  "action_from_dict env d =
     (case map_of d ''action'' of
        None \<Rightarrow> Inl (malformed ''action key is not found'')
      | Some (JStr t) \<Rightarrow>
          (case map_of (ACTION_TYPE_TO_CLASS env) t of
             None \<Rightarrow> Inl (malformed (t @ '' is not defined''))
           | Some cls \<Rightarrow>
               rbind (arg d ''args'' as_obj (Some [])) (\<lambda>args.
               rbind (prepare_args env args) (\<lambda>(timestamp, args).
               case cls args of
                 Inl (TypeError m) \<Rightarrow> Inl (malformed m)
               | Inl e \<Rightarrow> Inl e
               | Inr a \<Rightarrow>
                   rbind (case map_of d ''timeout'' of
                            None \<Rightarrow> Inr (new_event (Action a))
                          | Some _ \<Rightarrow>
                              rbind (arg args ''blocking'' as_bool (Some False)) (\<lambda>blocking.
                              rbind (arg d ''timeout'' (as_opt as_rat) None) (\<lambda>timeout.
                                Inr (set_hard_timeout timeout blocking (new_event (Action a))))))
                     (\<lambda>e.
                       case timestamp of
                         Some (JStr (c # cs)) \<Rightarrow> Inr (e\<lparr>ev_timestamp := Some (c # cs)\<rparr>)
                       | _ \<Rightarrow> Inr e))))
      | Some _ \<Rightarrow> Inl (malformed ''action is not defined''))"

section \<open>\<open>observation_from_dict\<close>\<close>

text \<open>\<open>_update_cmd_output_metadata\<close>, on what a dictionary can hold: nothing or a dictionary.\<close>

definition update_cmd_output_metadata :: "json option \<Rightarrow> string \<Rightarrow> json \<Rightarrow> json option" where
  "update_cmd_output_metadata metadata k v =
     (case metadata of
        Some (JObj d) \<Rightarrow> Some (JObj (dict_set d k v))
      | None \<Rightarrow> Some (JObj [(k, v)])
      | Some JNull \<Rightarrow> Some (JObj [(k, v)])
      | Some m \<Rightarrow> Some m)"

definition move_to_metadata :: "string \<Rightarrow> string \<Rightarrow> dict \<Rightarrow> dict" where
  "move_to_metadata old new extras =
     (case map_of extras old of
        None \<Rightarrow> extras
      | Some v \<Rightarrow>
          (let extras' = dict_del old extras in
           case update_cmd_output_metadata (map_of extras ''metadata'') new v of
             Some m \<Rightarrow> dict_set extras' ''metadata'' m
           | None \<Rightarrow> extras'))"

definition handle_observation_deprecated_extras :: "dict \<Rightarrow> dict" where
  "handle_observation_deprecated_extras extras =
     dict_del ''formatted_output_and_error''
       (move_to_metadata ''command_id'' ''pid'' (move_to_metadata ''exit_code'' ''exit_code'' extras))"

definition observation_from_dict :: "dict \<Rightarrow> exc + event" where
  "observation_from_dict d =
     rbind (arg d ''observation'' as_str None) (\<lambda>t.
       case map_of OBSERVATION_TYPE_TO_CLASS t of
         None \<Rightarrow> Inl (KeyError (t @ '' is not defined''))
       | Some cls \<Rightarrow>
           rbind (arg d ''content'' as_str (Some [])) (\<lambda>content.
           rbind (arg d ''extras'' as_obj (Some [])) (\<lambda>extras.
           rbind (cls content (handle_observation_deprecated_extras extras)) (\<lambda>obs.
             Inr (new_event (Observation obs))))))"

section \<open>\<open>event_from_dict\<close>\<close>

text \<open>\<open>setattr(evt, '_' + key, ...)\<close> when the key is there.\<close>

definition set_key :: "dict \<Rightarrow> string \<Rightarrow> (json \<Rightarrow> exc + (event \<Rightarrow> event)) \<Rightarrow> event \<Rightarrow> exc + event" where
  "set_key d k f e =
     (case map_of d k of
        None \<Rightarrow> Inr e
      | Some v \<Rightarrow> rbind (f v) (\<lambda>g. Inr (g e)))"

definition decoded :: "string \<Rightarrow> (json \<Rightarrow> 'a option) \<Rightarrow> ('a \<Rightarrow> event \<Rightarrow> event) \<Rightarrow> json \<Rightarrow> exc + (event \<Rightarrow> event)" where
  "decoded k dec upd v = (case dec v of None \<Rightarrow> Inl (untyped k) | Some x \<Rightarrow> Inr (upd x))"

definition event_from_dict :: "py_env \<Rightarrow> dict \<Rightarrow> exc + event" where
  "event_from_dict env d =
     rbind (if map_of d ''action'' \<noteq> None then action_from_dict env d
            else if map_of d ''observation'' \<noteq> None then observation_from_dict d
            else Inl (ValueError ''Unknown event type'')) (\<lambda>e.
     rbind (set_key d ''id'' (decoded ''id'' (as_opt as_int) (\<lambda>x e. e\<lparr>ev_id := x\<rparr>)) e) (\<lambda>e.
     rbind (set_key d ''timestamp''
        (decoded ''timestamp'' (as_opt as_str) (\<lambda>x e. e\<lparr>ev_timestamp := x\<rparr>)) e) (\<lambda>e.
     rbind (set_key d ''source'' (\<lambda>v.
        case as_event_source v of
          None \<Rightarrow> Inl (ValueError ''not a valid EventSource'')
        | Some s \<Rightarrow> Inr (\<lambda>e. e\<lparr>ev_source := Some s\<rparr>)) e) (\<lambda>e.
     rbind (set_key d ''cause'' (decoded ''cause'' (as_opt as_int) (\<lambda>x e. e\<lparr>ev_cause := x\<rparr>)) e) (\<lambda>e.
     rbind (set_key d ''tool_call_metadata'' (\<lambda>v.
        case as_obj v of
          None \<Rightarrow> Inl (untyped ''tool_call_metadata'')
        | Some o' \<Rightarrow> rbind (tool_call_of_dict o') (\<lambda>t.
            Inr (\<lambda>e. e\<lparr>ev_tool_call_metadata := Some t\<rparr>))) e) (\<lambda>e.
       set_key d ''llm_metrics'' (\<lambda>v.
         rbind (metrics_of_json v) (\<lambda>m. Inr (\<lambda>e. e\<lparr>ev_llm_metrics := Some m\<rparr>))) e))))))"

end
