(* ===== verification/Event_Filter.thy ===== *)
theory Event_Filter
  imports Event_Serialization
begin

text \<open>
  \<open>OpenHands/openhands/events/event_filter.py\<close> and \<open>utils.py\<close>: the filter of a search and the
  pairing of actions with their observations. A tuple of types is a list of class predicates.
\<close>

section \<open>\<open>json.dumps\<close> and string comparison\<close>

definition hex4 :: "nat \<Rightarrow> string" where
  "hex4 n = ''00'' @ [hex_digit (n div 16), hex_digit (n mod 16)]"

definition dump_char :: "char \<Rightarrow> string" where
  "dump_char c =
     (let n = (of_char c :: nat); bs = CHR 0x5C in
      if c = CHR 0x22 \<or> c = bs then [bs, c]
      else if c = CHR 0x0A then bs # ''n'' else if c = CHR 0x0D then bs # ''r''
      else if c = CHR 0x09 then bs # ''t'' else if c = CHR 0x0C then bs # ''f''
      else if c = CHR 0x08 then bs # ''b''
      else if n < 32 \<or> 127 \<le> n then bs # ''u'' @ hex4 n
      else [c])"

definition dump_str :: "string \<Rightarrow> string" where
  "dump_str s = [CHR 0x22] @ concat (map dump_char s) @ [CHR 0x22]"

fun dumps :: "(rat \<Rightarrow> string) \<Rightarrow> json \<Rightarrow> string" where
  "dumps ff JNull = ''null''"
| "dumps ff (JBool b) = (if b then ''true'' else ''false'')"
| "dumps ff (JInt i) = show_int i"
| "dumps ff (JFloat x) = ff x"
| "dumps ff (JStr s) = dump_str s"
| "dumps ff (JList xs) = ''['' @ join '', '' (map (dumps ff) xs) @ '']''"
| "dumps ff (JObj d) =
     ''{'' @ join '', '' (map (\<lambda>(k, v). dump_str k @ '': '' @ dumps ff v) d) @ ''}''"

fun str_less :: "string \<Rightarrow> string \<Rightarrow> bool" where
  "str_less [] ys = (ys \<noteq> [])"
| "str_less (x # xs) [] = False"
| "str_less (x # xs) (y # ys) =
     ((of_char x :: nat) < of_char y \<or> (x = y \<and> str_less xs ys))"

section \<open>\<open>EventFilter\<close>\<close>

record event_filter =
  exclude_hidden :: bool
  f_query :: "string option"
  include_types :: "(event \<Rightarrow> bool) list option"
  exclude_types :: "(event \<Rightarrow> bool) list option"
  f_source :: "string option"
  start_date :: "string option"
  end_date :: "string option"

definition no_filter :: event_filter where
  "no_filter = \<lparr>exclude_hidden = False, f_query = None, include_types = None,
     exclude_types = None, f_source = None, start_date = None, end_date = None\<rparr>"

definition is_instance :: "event \<Rightarrow> (event \<Rightarrow> bool) list \<Rightarrow> bool" where
  "is_instance e types = list_ex (\<lambda>t. t e) types"

definition wrong_source :: "event_filter \<Rightarrow> event \<Rightarrow> bool" where
  "wrong_source f e =
     (case ev_source e of
        None \<Rightarrow> True
      | Some s \<Rightarrow> Some (event_source_value s) \<noteq> f_source f)"

definition filter_include :: "py_env \<Rightarrow> event_filter \<Rightarrow> event \<Rightarrow> exc + bool" where
  "filter_include env f e =
     (if (case include_types f of None \<Rightarrow> False | Some ts \<Rightarrow> ts \<noteq> [] \<and> \<not> is_instance e ts)
      then Inr False
      else if (case exclude_types f of None \<Rightarrow> False | Some ts \<Rightarrow> is_instance e ts) then Inr False
      else if truthy (f_source f) \<and> wrong_source f e then Inr False
      else if truthy (start_date f) \<and>
        (case ev_timestamp e of None \<Rightarrow> False | Some t \<Rightarrow> str_less t (the (start_date f)))
      then Inr False
      else if truthy (end_date f) \<and>
        (case ev_timestamp e of None \<Rightarrow> False | Some t \<Rightarrow> str_less (the (end_date f)) t)
      then Inr False
      else if exclude_hidden f \<and> body_hidden (ev_body e) then Inr False
      else if truthy (f_query f) then
        rbind (event_to_dict env e) (\<lambda>d.
          let event_str = lower (dumps (env_float_text env) (JObj d))
          in Inr (contains event_str (lower (the (f_query f)))))
      else Inr True)"

definition filter_exclude :: "py_env \<Rightarrow> event_filter \<Rightarrow> event \<Rightarrow> exc + bool" where
  "filter_exclude env f e = rbind (filter_include env f e) (\<lambda>b. Inr (\<not> b))"

lemma no_filter_includes [simp]: "filter_include env no_filter e = Inr True"
  by (simp add: filter_include_def no_filter_def truthy_def)

section \<open>\<open>get_pairs_from_events\<close>\<close>

type_synonym pair_maps = "(int, event) pydict \<times> (int, event) pydict"

definition pair_step :: "event \<Rightarrow> pair_maps \<Rightarrow> pair_maps" where
  "pair_step e s =
     (let (action_map, observation_map) = s;
          action_map = (if is_action e then dict_set action_map (event_id e) e else action_map)
      in if is_observation e then
           (case ev_cause e of
              None \<Rightarrow> (action_map, observation_map)
            | Some c \<Rightarrow> (action_map, dict_set observation_map c e))
         else (action_map, observation_map))"

definition is_null_observation :: "event \<Rightarrow> bool" where
  "is_null_observation e =
     (case ev_body e of Observation (NullObservation _) \<Rightarrow> True | _ \<Rightarrow> False)"

definition get_pairs_from_events :: "event list \<Rightarrow> (event \<times> event) list" where
  "get_pairs_from_events events =
     (let (action_map, observation_map) = fold pair_step events ([], []) in
      map (\<lambda>(i, action).
             case map_of observation_map i of
               Some obs \<Rightarrow> (action, obs)
             | None \<Rightarrow> (action, new_event (Observation (NullObservation [])))) action_map @
      map (\<lambda>(c, obs). (new_event (Action NullAction), obs))
        (filter (\<lambda>(c, obs). map_of action_map c = None \<and> \<not> is_null_observation obs)
           observation_map))"

text \<open>The entries that the loop adds to the two maps.\<close>

definition action_entries :: "event list \<Rightarrow> (int \<times> event) list" where
  "action_entries events = map (\<lambda>e. (event_id e, e)) (filter is_action events)"

definition observation_entries :: "event list \<Rightarrow> (int \<times> event) list" where
  "observation_entries events =
     map (\<lambda>e. (the (ev_cause e), e)) (filter (\<lambda>e. is_observation e \<and> ev_cause e \<noteq> None) events)"

lemma pair_maps:
  "fold pair_step events (am, om) =
     (dict_update am (action_entries events), dict_update om (observation_entries events))"
proof (induction events arbitrary: am om)
  case Nil
  then show ?case by (simp add: action_entries_def observation_entries_def)
next
  case (Cons e es)
  have "pair_step e (am, om) =
      (dict_update am (action_entries [e]), dict_update om (observation_entries [e]))"
    by (cases "ev_body e"; cases "ev_cause e")
       (simp_all add: pair_step_def action_entries_def observation_entries_def)
  moreover have "action_entries (e # es) = action_entries [e] @ action_entries es"
    "observation_entries (e # es) = observation_entries [e] @ observation_entries es"
    by (simp_all add: action_entries_def observation_entries_def)
  ultimately show ?case by (simp only: fold_simps comp_apply Cons.IH dict_update_append)
qed

text \<open>The observation that an action is paired with: the last one it caused, if any.\<close>

definition partner :: "event list \<Rightarrow> event \<Rightarrow> event" where
  "partner events a =
     (case List.find (\<lambda>e. is_observation e \<and> ev_cause e = Some (event_id a)) (rev events) of
        Some obs \<Rightarrow> obs
      | None \<Rightarrow> new_event (Observation (NullObservation [])))"

lemma observation_entries_last:
  "map_of (rev (observation_entries events)) i =
     List.find (\<lambda>e. is_observation e \<and> ev_cause e = Some i) (rev events)"
proof (induction events rule: rev_induct)
  case Nil
  then show ?case by (simp add: observation_entries_def)
next
  case (snoc e es)
  have "observation_entries (es @ [e]) = observation_entries es @ observation_entries [e]"
    by (simp add: observation_entries_def)
  then show ?case
    using snoc by (cases "ev_cause e") (auto simp: observation_entries_def)
qed

text \<open>
  When the actions have distinct ids, the pairs start with every action of the history, in
  order, each with the last observation that it caused, or with an empty observation.
\<close>

theorem get_pairs_of_actions:
  assumes "distinct (map event_id (filter is_action events))"
  shows "\<exists>rest. get_pairs_from_events events =
      map (\<lambda>a. (a, partner events a)) (filter is_action events) @ rest \<and>
    (\<forall>(a, obs) \<in> set rest. a = new_event (Action NullAction) \<and> \<not> is_null_observation obs)"
proof -
  have "map fst (action_entries events) = map event_id (filter is_action events)"
    by (simp add: action_entries_def comp_def)
  with assms have am: "dict_update [] (action_entries events) = action_entries events"
    using dict_update_fresh [of "[]" "action_entries events"] by simp
  have om: "map_of (dict_update [] (observation_entries events)) i =
      List.find (\<lambda>e. is_observation e \<and> ev_cause e = Some i) (rev events)" for i
    using observation_entries_last [of events i] by (simp add: map_of_dict_update_rev)
  show ?thesis
    unfolding get_pairs_from_events_def pair_maps Let_def prod.case am
    by (rule exI, rule conjI, rule arg_cong2 [where f = append, OF _ refl])
       (auto simp: action_entries_def partner_def om split: option.split)
qed

definition demo_history :: "event list" where
  "demo_history =
     [(new_event (Action (AgentThinkAction ''a'')))\<lparr>ev_id := Some 1\<rparr>,
      (new_event (Observation (SuccessObservation ''b'')))\<lparr>ev_id := Some 2, ev_cause := Some 1\<rparr>]"

theorem get_pairs_of_actions_witness:
  "\<exists>rest. get_pairs_from_events demo_history =
     (demo_history ! 0, demo_history ! 1) # rest"
proof -
  have d: "distinct (map event_id (filter is_action demo_history))"
    by (simp add: demo_history_def new_event_def)
  have f: "filter is_action demo_history = [demo_history ! 0]"
    "partner demo_history (demo_history ! 0) = demo_history ! 1"
    by (simp_all add: demo_history_def new_event_def partner_def event_id_def)
  from get_pairs_of_actions [OF d] show ?thesis by (auto simp: f)
qed

end
