(* ===== verification/Storage.thy ===== *)
theory Storage
  imports Py_Prelude
begin

text \<open>
  \<open>OpenHands/openhands/storage\<close>: the paths of a conversation's files (\<open>locations.py\<close>), the
  interface \<open>FileStore\<close> (\<open>files.py\<close>) as a locale, and \<open>InMemoryFileStore\<close> (\<open>memory.py\<close>), the
  implementation that interprets it. The contents of the files are of any type: the clients
  here store what they would serialise, and \<open>read\<close> returns what was written.
\<close>

section \<open>Paths: \<open>locations.py\<close>\<close>

definition CONVERSATION_BASE_DIR :: string where
  "CONVERSATION_BASE_DIR = ''sessions''"

definition get_conversation_dir :: "string \<Rightarrow> string option \<Rightarrow> string" where
  "get_conversation_dir sid user_id =
     (case user_id of
        Some (c # cs) \<Rightarrow> ''users/'' @ (c # cs) @ ''/conversations/'' @ sid @ ''/''
      | _ \<Rightarrow> CONVERSATION_BASE_DIR @ ''/'' @ sid @ ''/'')"

definition get_conversation_events_dir :: "string \<Rightarrow> string option \<Rightarrow> string" where
  "get_conversation_events_dir sid user_id = get_conversation_dir sid user_id @ ''events/''"

definition get_conversation_event_filename :: "string \<Rightarrow> int \<Rightarrow> string option \<Rightarrow> string" where
  "get_conversation_event_filename sid i user_id =
     get_conversation_events_dir sid user_id @ show_int i @ ''.json''"

definition get_conversation_metadata_filename :: "string \<Rightarrow> string option \<Rightarrow> string" where
  "get_conversation_metadata_filename sid user_id =
     get_conversation_dir sid user_id @ ''metadata.json''"

definition get_conversation_init_data_filename :: "string \<Rightarrow> string option \<Rightarrow> string" where
  "get_conversation_init_data_filename sid user_id =
     get_conversation_dir sid user_id @ ''init.json''"

definition get_conversation_agent_state_filename :: "string \<Rightarrow> string option \<Rightarrow> string" where
  "get_conversation_agent_state_filename sid user_id =
     get_conversation_dir sid user_id @ ''agent_state.pkl''"

definition get_conversation_llm_registry_filename :: "string \<Rightarrow> string option \<Rightarrow> string" where
  "get_conversation_llm_registry_filename sid user_id =
     get_conversation_dir sid user_id @ ''llm_registry.json''"

definition get_conversation_stats_filename :: "string \<Rightarrow> string option \<Rightarrow> string" where
  "get_conversation_stats_filename sid user_id =
     get_conversation_dir sid user_id @ ''conversation_stats.pkl''"

definition get_experiment_config_filename :: "string \<Rightarrow> string option \<Rightarrow> string" where
  "get_experiment_config_filename sid user_id =
     get_conversation_dir sid user_id @ ''exp_config.json''"

section \<open>The in-memory store: \<open>memory.py\<close>\<close>

type_synonym 'c files = "(string, 'c) pydict"

definition fs_write :: "string \<Rightarrow> 'c \<Rightarrow> 'c files \<Rightarrow> 'c files" where
  "fs_write path contents files = dict_set files path contents"

definition fs_read :: "string \<Rightarrow> 'c files \<Rightarrow> exc + 'c" where
  "fs_read path files =
     (case map_of files path of None \<Rightarrow> Inl (FileNotFoundError path) | Some c \<Rightarrow> Inr c)"

text \<open>\<open>os.path.join(a, b)\<close> on POSIX.\<close>

definition path_join :: "string \<Rightarrow> string \<Rightarrow> string" where
  "path_join a b =
     (if startswith b ''/'' then b
      else if a = [] \<or> endswith a ''/'' then a @ b else a @ ''/'' @ b)"

text \<open>The entry that a file adds to the listing of a directory: itself, or a subdirectory.\<close>

definition list_entry :: "string \<Rightarrow> string \<Rightarrow> string list \<Rightarrow> exc + string list" where
  "list_entry path file acc =
     (if \<not> startswith file path then Inr acc
      else
        let parts = split_on ''/'' (removeprefix file path);
            parts = (if hd parts = [] then tl parts else parts)
        in if length parts = 1 then Inr (acc @ [file])
           else
             rbind (index parts 0) (\<lambda>p.
               let dir = path_join path p;
                   dir = (if endswith dir ''/'' then dir else dir @ ''/'')
               in Inr (if dir \<in> set acc then acc else acc @ [dir])))"

definition fs_list :: "string \<Rightarrow> 'c files \<Rightarrow> exc + string list" where
  "fs_list path files = foldE (list_entry path) (keys files) []"

definition fs_delete :: "string \<Rightarrow> 'c files \<Rightarrow> 'c files" where
  "fs_delete path files =
     fold dict_del (filter (\<lambda>key. startswith key path) (keys files)) files"

section \<open>The interface: \<open>FileStore\<close>\<close>

text \<open>
  What the clients rely on: a read returns the last write to the path, a delete removes what lies
  under a path and nothing else, and a listing of a directory names the files directly in it.
\<close>

locale file_store =
  fixes put :: "string \<Rightarrow> 'c \<Rightarrow> 's \<Rightarrow> 's"
    and get :: "string \<Rightarrow> 's \<Rightarrow> exc + 'c"
    and rem :: "string \<Rightarrow> 's \<Rightarrow> 's"
  assumes get_put_same: "get p (put p c s) = Inr c"
    and get_put_other: "p \<noteq> q \<Longrightarrow> get q (put p c s) = get q s"
    and get_rem_under: "startswith q p \<Longrightarrow> get q (rem p s) = Inl (FileNotFoundError q)"
    and get_rem_other: "\<not> startswith q p \<Longrightarrow> get q (rem p s) = get q s"
begin

lemma get_put: "get q (put p c s) = (if p = q then Inr c else get q s)"
  by (simp add: get_put_same get_put_other)

text \<open>Writes to distinct files commute, and a later put to the same file wins.\<close>

lemma put_commute:
  "p \<noteq> q \<Longrightarrow> get r (put p c (put q d s)) = get r (put q d (put p c s))"
  by (auto simp: get_put)

lemma put_again: "get r (put p c (put p d s)) = get r (put p c s)"
  by (simp add: get_put)

lemma put_all:
  "distinct ps \<Longrightarrow> length ps = length cs \<Longrightarrow> i < length ps \<Longrightarrow>
   get (ps ! i) (fold (\<lambda>(p, c). put p c) (zip ps cs) s) = Inr (cs ! i)"
proof (induction ps arbitrary: cs s i)
  case Nil
  then show ?case by simp
next
  case (Cons p ps)
  then obtain c cs' where cs: "cs = c # cs'" by (cases cs) auto
  show ?case
  proof (cases i)
    case 0
    have "get p (fold (\<lambda>(p, c). put p c) (zip qs ds) s) = get p s"
      if "p \<notin> set qs" for qs ds s
      using that
    proof (induction qs arbitrary: ds s)
      case (Cons q qs)
      then show ?case by (cases ds) (auto simp: get_put)
    qed simp
    with Cons.prems cs 0 show ?thesis by (simp add: get_put)
  next
    case (Suc j)
    with Cons cs show ?thesis by simp
  qed
qed

end

lemma map_of_fold_dict_del:
  "map_of (fold dict_del ks d) k = (if k \<in> set ks then None else map_of d k)"
  by (induction ks arbitrary: d) auto

lemma map_of_fs_delete:
  "map_of (fs_delete path files) k = (if startswith k path then None else map_of files k)"
proof -
  have "map_of files k = None" if "k \<notin> set (keys files)"
    using that by (simp add: map_of_eq_None_iff)
  then show ?thesis
    by (auto simp: fs_delete_def map_of_fold_dict_del)
qed

interpretation mem: file_store fs_write fs_read fs_delete
  by unfold_locales (simp_all add: fs_write_def fs_read_def map_of_fs_delete)

end
