(* ===== verification/Event_Store.thy ===== *)
theory Event_Store
  imports Event_Filter Storage
begin

text \<open>
  \<open>OpenHands/openhands/events/event_store.py\<close>: the events of a conversation as files, one per
  event and one per page of \<open>cache_size\<close> events, over the in-memory file store. A file holds the
  parsed JSON: \<open>json.dumps\<close> and \<open>json.loads\<close> are inverse. A search is the list of the events
  that the generator yields and the exception that ends it, if one does. The process is not
  shutting down (\<open>should_continue()\<close> is true).
\<close>

section \<open>State\<close>

datatype content = EventFile dict | PageFile "dict list"

record event_store =
  es_sid :: string
  es_user_id :: "string option"
  es_cache_size :: int
  es_cur_id :: "int option"
  es_files :: "content files"

definition new_store :: "string \<Rightarrow> string option \<Rightarrow> content files \<Rightarrow> event_store" where
  "new_store sid user_id files = \<lparr>es_sid = sid, es_user_id = user_id, es_cache_size = 25,
     es_cur_id = None, es_files = files\<rparr>"

text \<open>A page of the cache; \<open>None\<close> for a page that was not found.\<close>

record cache_page =
  page_events :: "dict list option"
  page_start :: int
  page_end :: int

definition DUMMY_PAGE :: cache_page where
  "DUMMY_PAGE = \<lparr>page_events = None, page_start = 1, page_end = -1\<rparr>"

definition covers :: "cache_page \<Rightarrow> int \<Rightarrow> bool" where
  "covers p i =
     (if i < page_start p then False else if i \<ge> page_end p then False else True)"

definition page_get_event :: "py_env \<Rightarrow> cache_page \<Rightarrow> int \<Rightarrow> exc + event option" where
  "page_get_event env p i =
     (case page_events p of
        None \<Rightarrow> Inr None
      | Some [] \<Rightarrow> Inr None
      | Some (d # ds) \<Rightarrow>
          rbind (index (d # ds) (i - page_start p)) (\<lambda>data.
          rbind (event_from_dict env data) (\<lambda>e. Inr (Some e))))"

section \<open>Ids and file names\<close>

text \<open>\<open>_get_id_from_filename\<close>; \<open>s.split(c)[-1]\<close> and \<open>[0]\<close> always exist.\<close>

definition get_id_from_filename :: "string \<Rightarrow> int" where
  "get_id_from_filename filename =
     (case py_int (hd (split_on ''.'' (last (split_on ''/'' filename)))) of
        Some i \<Rightarrow> i
      | None \<Rightarrow> -1)"

definition calculate_cur_id :: "'a event_store_scheme \<Rightarrow> exc + int" where
  "calculate_cur_id st =
     (let events_dir = get_conversation_events_dir (es_sid st) (es_user_id st);
          listed = (case fs_list events_dir (es_files st) of
                      Inl (FileNotFoundError _) \<Rightarrow> Inr []
                    | r \<Rightarrow> r)
      in rbind listed (\<lambda>events.
           if events = [] then Inr 0
           else Inr (fold (\<lambda>f max_id. let i = get_id_from_filename f
                             in if i \<ge> max_id then i else max_id) events (-1) + 1)))"

text \<open>The lazily calculated property \<open>cur_id\<close>: the value and the store that remembers it.\<close>

definition cur_id :: "'a event_store_scheme \<Rightarrow> exc + int \<times> 'a event_store_scheme" where
  "cur_id st =
     (case es_cur_id st of
        Some i \<Rightarrow> Inr (i, st)
      | None \<Rightarrow> rbind (calculate_cur_id st) (\<lambda>i. Inr (i, st\<lparr>es_cur_id := Some i\<rparr>)))"

definition filename_for_id :: "'a event_store_scheme \<Rightarrow> int \<Rightarrow> string" where
  "filename_for_id st i = get_conversation_event_filename (es_sid st) i (es_user_id st)"

definition filename_for_cache :: "'a event_store_scheme \<Rightarrow> int \<Rightarrow> int \<Rightarrow> string" where
  "filename_for_cache st s e =
     get_conversation_dir (es_sid st) (es_user_id st) @ ''event_cache/'' @ show_int s @ ''-'' @
     show_int e @ ''.json''"

section \<open>Reading\<close>

definition load_cache_page :: "'a event_store_scheme \<Rightarrow> int \<Rightarrow> int \<Rightarrow> exc + cache_page" where
  "load_cache_page st s e =
     (case fs_read (filename_for_cache st s e) (es_files st) of
        Inr (PageFile ds) \<Rightarrow> Inr \<lparr>page_events = Some ds, page_start = s, page_end = e\<rparr>
      | Inr (EventFile _) \<Rightarrow> Inl (untyped ''page'')
      | Inl (FileNotFoundError _) \<Rightarrow> Inr \<lparr>page_events = None, page_start = s, page_end = e\<rparr>
      | Inl x \<Rightarrow> Inl x)"

text \<open>\<open>index - index % cache_size\<close>; a cache size of 0 makes Python raise.\<close>

definition load_cache_page_for_index :: "'a event_store_scheme \<Rightarrow> int \<Rightarrow> exc + cache_page" where
  "load_cache_page_for_index st i =
     (if es_cache_size st = 0 then Inl (OtherException ''ZeroDivisionError'' [])
      else
        let offset = i mod es_cache_size st; i = i - offset
        in load_cache_page st i (i + es_cache_size st))"

definition get_event :: "py_env \<Rightarrow> 'a event_store_scheme \<Rightarrow> int \<Rightarrow> exc + event" where
  "get_event env st i =
     rbind (fs_read (filename_for_id st i) (es_files st)) (\<lambda>c.
       case c of
         EventFile data \<Rightarrow> event_from_dict env data
       | PageFile _ \<Rightarrow> Inl (untyped ''event''))"

text \<open>The event at an index: from the page, or else from its file, or \<open>None\<close>.\<close>

definition event_at :: "py_env \<Rightarrow> 'a event_store_scheme \<Rightarrow> cache_page \<Rightarrow> int \<Rightarrow> exc + event option" where
  "event_at env st p i =
     rbind (page_get_event env p i) (\<lambda>r.
       case r of
         Some e \<Rightarrow> Inr (Some e)
       | None \<Rightarrow>
           (case get_event env st i of
              Inr e \<Rightarrow> Inr (Some e)
            | Inl (FileNotFoundError _) \<Rightarrow> Inr None
            | Inl x \<Rightarrow> Inl x))"

type_synonym search = "event list \<times> exc option"

definition emit :: "event \<Rightarrow> search \<Rightarrow> search" where
  "emit e r = (e # fst r, snd r)"

text \<open>\<open>not filter or filter.include(event)\<close>.\<close>

definition filter_accepts :: "py_env \<Rightarrow> event_filter option \<Rightarrow> event \<Rightarrow> exc + bool" where
  "filter_accepts env flt e = (case flt of None \<Rightarrow> Inr True | Some f \<Rightarrow> filter_include env f e)"

text \<open>The loop of \<open>search_events\<close> over the indices; \<open>n\<close> counts the results.\<close>

fun search_loop ::
    "py_env \<Rightarrow> 'a event_store_scheme \<Rightarrow> event_filter option \<Rightarrow> int option \<Rightarrow> int list \<Rightarrow> cache_page \<Rightarrow> int \<Rightarrow> search" where
  "search_loop env st flt limit [] page n = ([], None)"
| "search_loop env st flt limit (i # rest) page n =
     (case (if covers page i then Inr page else load_cache_page_for_index st i) of
        Inl x \<Rightarrow> ([], Some x)
      | Inr page \<Rightarrow>
          (case event_at env st page i of
             Inl x \<Rightarrow> ([], Some x)
           | Inr None \<Rightarrow> search_loop env st flt limit rest page n
           | Inr (Some e) \<Rightarrow>
               (case filter_accepts env flt e of
                  Inl x \<Rightarrow> ([], Some x)
                | Inr False \<Rightarrow> search_loop env st flt limit rest page n
                | Inr True \<Rightarrow>
                    let n = n + 1 in
                    if (case limit of None \<Rightarrow> False | Some l \<Rightarrow> l \<noteq> 0 \<and> l \<le> n) then ([e], None)
                    else emit e (search_loop env st flt limit rest page n))))"

text \<open>\<open>range(start, end, step)\<close> of the two directions.\<close>

definition search_indices :: "int \<Rightarrow> int \<Rightarrow> bool \<Rightarrow> int list" where
  "search_indices start_id end_id reverse =
     (if reverse then rev [start_id..end_id - 1] else [start_id..end_id - 1])"

definition search_events ::
    "py_env \<Rightarrow> 'a event_store_scheme \<Rightarrow> int \<Rightarrow> int option \<Rightarrow> bool \<Rightarrow> event_filter option \<Rightarrow> int option \<Rightarrow>
     search \<times> 'a event_store_scheme" where
  "search_events env st start_id end_id reverse flt limit =
     (case (case end_id of None \<Rightarrow> cur_id st | Some e \<Rightarrow> Inr (e + 1, st)) of
        Inl x \<Rightarrow> (([], Some x), st)
      | Inr (end_id, st) \<Rightarrow>
          (search_loop env st flt limit (search_indices start_id end_id reverse) DUMMY_PAGE 0, st))"

definition get_latest_event_id :: "'a event_store_scheme \<Rightarrow> exc + int \<times> 'a event_store_scheme" where
  "get_latest_event_id st = rbind (cur_id st) (\<lambda>(i, st). Inr (i - 1, st))"

definition get_latest_event :: "py_env \<Rightarrow> 'a event_store_scheme \<Rightarrow> exc + event \<times> 'a event_store_scheme" where
  "get_latest_event env st =
     rbind (cur_id st) (\<lambda>(i, st). rbind (get_event env st (i - 1)) (\<lambda>e. Inr (e, st)))"

definition filtered_events_by_source ::
    "py_env \<Rightarrow> 'a event_store_scheme \<Rightarrow> EventSource \<Rightarrow> search \<times> 'a event_store_scheme" where
  "filtered_events_by_source env st source =
     (let ((es, x), st) = search_events env st 0 None False None None
      in ((filter (\<lambda>e. ev_source e = Some source) es, x), st))"

text \<open>\<open>EventStoreABC.get_events\<close> and \<open>get_matching_events\<close>.\<close>

definition get_events ::
    "py_env \<Rightarrow> 'a event_store_scheme \<Rightarrow> int \<Rightarrow> int option \<Rightarrow> bool \<Rightarrow> (event \<Rightarrow> bool) list option \<Rightarrow> bool \<Rightarrow>
     search \<times> 'a event_store_scheme" where
  "get_events env st start_id end_id reverse filter_out_type filter_hidden =
     search_events env st start_id end_id reverse
       (Some (no_filter\<lparr>exclude_types := filter_out_type, exclude_hidden := filter_hidden\<rparr>)) None"

text \<open>\<open>list(islice(events, limit))\<close>: an exception after the last event taken is not met.\<close>

definition get_matching_events ::
    "py_env \<Rightarrow> 'a event_store_scheme \<Rightarrow> event_filter \<Rightarrow> int \<Rightarrow> int \<Rightarrow> bool \<Rightarrow> exc + event list \<times> 'a event_store_scheme" where
  "get_matching_events env st f start_id limit reverse =
     (if limit < 1 \<or> limit > 100 then Inl (ValueError ''Limit must be between 1 and 100'')
      else
        let ((es, x), st) = search_events env st start_id None reverse (Some f) None
        in case x of
             Some e \<Rightarrow> if int (length es) < limit then Inl e else Inr (take (nat limit) es, st)
           | None \<Rightarrow> Inr (take (nat limit) es, st))"

end
