(* ===== verification/Event_Stream.thy ===== *)
theory Event_Stream
  imports Event_Store
begin

text \<open>
  \<open>OpenHands/openhands/events/stream.py\<close>: the event stream of a conversation, which numbers the
  events, hides the secrets in them, stores them and hands them to its subscribers. The class
  inherits from \<open>EventStore\<close>; the record extends its record. The thread pools and event loops of
  the subscribers are left out: a step of the queue returns the calls that it submits, in order.
  The lock is not modelled; an operation is one step.
\<close>

section \<open>State\<close>

record 'cb event_stream = event_store +
  secrets :: "(string, string) pydict"
  subscribers :: "(string, (string, 'cb) pydict) pydict"
  write_page_cache :: "dict list"
  queue :: "event list"
  stop_flag :: bool

definition new_stream :: "string \<Rightarrow> string option \<Rightarrow> content files \<Rightarrow> 'cb event_stream" where
  "new_stream sid user_id files =
     event_store.extend (new_store sid user_id files)
       (event_stream.fields [] [] [] [] False)"

section \<open>Secrets\<close>

definition secret_hidden :: string where
  "secret_hidden = ''<secret_hidden>''"

definition hide_in_string :: "string list \<Rightarrow> string \<Rightarrow> string" where
  "hide_in_string values s = fold (\<lambda>secret s. replace s secret secret_hidden) values s"

text \<open>Below the top level: strings and dictionaries, but not lists.\<close>

fun hide :: "string list \<Rightarrow> json \<Rightarrow> json" where
  "hide values (JObj d) = JObj (map (\<lambda>(k, v). (k, hide values v)) d)"
| "hide values (JStr s) = JStr (hide_in_string values s)"
| "hide values v = v"

definition TOP_LEVEL_PROTECTED_FIELDS :: "string list" where
  "TOP_LEVEL_PROTECTED_FIELDS = [''timestamp'', ''id'', ''source'', ''cause'', ''action'',
     ''observation'', ''message'']"

definition replace_secrets :: "string list \<Rightarrow> dict \<Rightarrow> dict" where
  "replace_secrets values d =
     map (\<lambda>(k, v). (k, if k \<in> set TOP_LEVEL_PROTECTED_FIELDS then v else hide values v)) d"

definition set_secrets :: "(string, string) pydict \<Rightarrow> 'cb event_stream \<Rightarrow> 'cb event_stream" where
  "set_secrets new st = st\<lparr>secrets := new\<rparr>"

definition update_secrets :: "(string, string) pydict \<Rightarrow> 'cb event_stream \<Rightarrow> 'cb event_stream" where
  "update_secrets new st = st\<lparr>secrets := dict_update (secrets st) new\<rparr>"

section \<open>Subscribers\<close>

definition clean_up_subscriber :: "string \<Rightarrow> string \<Rightarrow> 'cb event_stream \<Rightarrow> 'cb event_stream" where
  "clean_up_subscriber subscriber_id callback_id st =
     (case map_of (subscribers st) subscriber_id of
        None \<Rightarrow> st
      | Some callbacks \<Rightarrow>
          if map_of callbacks callback_id = None then st
          else st\<lparr>subscribers :=
            dict_set (subscribers st) subscriber_id (dict_del callback_id callbacks)\<rparr>)"

text \<open>The entry of the subscriber is made before the callback is refused.\<close>

definition subscribe ::
    "string \<Rightarrow> 'cb \<Rightarrow> string \<Rightarrow> 'cb event_stream \<Rightarrow> 'cb event_stream \<times> exc option" where
  "subscribe subscriber_id callback callback_id st =
     (let st = (if map_of (subscribers st) subscriber_id = None
                then st\<lparr>subscribers := dict_set (subscribers st) subscriber_id []\<rparr> else st);
          callbacks = (case map_of (subscribers st) subscriber_id of Some c \<Rightarrow> c | None \<Rightarrow> [])
      in if map_of callbacks callback_id \<noteq> None
         then (st, Some (ValueError (''Callback ID on subscriber '' @ subscriber_id @
                 '' already exists: '' @ callback_id)))
         else (st\<lparr>subscribers := dict_set (subscribers st) subscriber_id
                 (dict_set callbacks callback_id callback)\<rparr>, None))"

definition unsubscribe :: "string \<Rightarrow> string \<Rightarrow> 'cb event_stream \<Rightarrow> 'cb event_stream" where
  "unsubscribe subscriber_id callback_id st =
     (case map_of (subscribers st) subscriber_id of
        None \<Rightarrow> st
      | Some callbacks \<Rightarrow>
          if map_of callbacks callback_id = None then st
          else clean_up_subscriber subscriber_id callback_id st)"

definition close :: "'cb event_stream \<Rightarrow> 'cb event_stream" where
  "close st =
     (let st = st\<lparr>stop_flag := True\<rparr>;
          st = fold (\<lambda>(subscriber_id, callbacks).
                 fold (clean_up_subscriber subscriber_id) (keys callbacks)) (subscribers st) st
      in st\<lparr>queue := []\<rparr>)"

section \<open>Adding an event\<close>

definition store_cache_page :: "dict list \<Rightarrow> 'cb event_stream \<Rightarrow> exc + 'cb event_stream" where
  "store_cache_page page st =
     (if int (length page) < es_cache_size st then Inr st
      else
        rbind (index page 0) (\<lambda>d.
        rbind (arg d ''id'' as_int None) (\<lambda>s.
          Inr (st\<lparr>es_files :=
            fs_write (filename_for_cache st s (s + es_cache_size st)) (PageFile page) (es_files st)\<rparr>))))"

text \<open>
  \<open>add_event\<close> at the time \<open>now\<close>. The new state and the exception that ends it, if one does: the id
  is taken before the event is serialised, so an event that cannot be serialised uses one up.
\<close>

definition add_event ::
    "py_env \<Rightarrow> string \<Rightarrow> event \<Rightarrow> EventSource \<Rightarrow> 'cb event_stream \<Rightarrow> 'cb event_stream \<times> exc option" where
  "add_event env now e source st =
     (if event_id e \<noteq> INVALID_ID
      then (st, Some (ValueError ''Event already has an ID''))
      else
        let e = e\<lparr>ev_timestamp := Some now, ev_source := Some source\<rparr> in
        case cur_id st of
          Inl x \<Rightarrow> (st, Some x)
        | Inr (i, st) \<Rightarrow>
            let e = e\<lparr>ev_id := Some i\<rparr>;
                st = st\<lparr>es_cur_id := Some (i + 1)\<rparr>
            in case event_to_dict env e of
                 Inl x \<Rightarrow> (st, Some x)
               | Inr data \<Rightarrow>
                   let data = replace_secrets (map snd (secrets st)) data in
                   case event_from_dict env data of
                     Inl x \<Rightarrow> (st, Some x)
                   | Inr e \<Rightarrow>
                       let page = write_page_cache st @ [data];
                           st = st\<lparr>write_page_cache :=
                             (if int (length page) = es_cache_size st then [] else page)\<rparr>;
                           st = st\<lparr>es_files :=
                             fs_write (filename_for_id st (event_id e)) (EventFile data) (es_files st)\<rparr>
                       in case store_cache_page page st of
                            Inl x \<Rightarrow> (st, Some x)
                          | Inr st \<Rightarrow> (st\<lparr>queue := queue st @ [e]\<rparr>, None))"

section \<open>The queue\<close>

text \<open>One round of \<open>_process_queue\<close>: the event taken and the calls submitted, in order.\<close>

definition str_le :: "string \<Rightarrow> string \<Rightarrow> bool" where
  "str_le a b \<longleftrightarrow> \<not> str_less b a"

fun insort :: "string \<Rightarrow> string list \<Rightarrow> string list" where
  "insort x [] = [x]"
| "insort x (y # ys) = (if str_le x y then x # y # ys else y # insort x ys)"

definition sorted_keys :: "string list \<Rightarrow> string list" where
  "sorted_keys ks = foldr insort ks []"

definition process_queue ::
    "'cb event_stream \<Rightarrow> 'cb event_stream \<times> (string \<times> string \<times> 'cb \<times> event) list" where
  "process_queue st =
     (if stop_flag st then (st, [])
      else case queue st of
        [] \<Rightarrow> (st, [])
      | e # rest \<Rightarrow>
          (st\<lparr>queue := rest\<rparr>,
           concat (map (\<lambda>key.
             case map_of (subscribers st) key of
               None \<Rightarrow> []
             | Some callbacks \<Rightarrow> map (\<lambda>(cid, cb). (key, cid, cb, e)) callbacks)
             (sorted_keys (keys (subscribers st))))))"

text \<open>
  What \<open>EventStream._replace_secrets\<close> hides: a secret without an angle bracket that the
  replacement text does not spell is gone from every string that the code visits, the strings of
  nested dictionaries under a key that is not protected. The strings in lists are not visited.
\<close>

text \<open>A secret that the replacement text cannot bring back.\<close>

definition hideable :: "string \<Rightarrow> bool" where
  "hideable w \<longleftrightarrow> w \<noteq> [] \<and> CHR ''<'' \<notin> set w \<and> CHR ''>'' \<notin> set w \<and> \<not> contains ''secret_hidden'' w"

lemma contains_sep: "c \<notin> set w \<Longrightarrow> contains (a @ c # b) w \<Longrightarrow> contains a w \<or> contains b w"
proof -
  assume c: "c \<notin> set w" and "contains (a @ c # b) w"
  then obtain x y where e: "a @ c # b = x @ w @ y" by (auto simp: contains_iff)
  then consider u where "a = x @ u" "u @ c # b = w @ y" | u where "a @ u = x" "c # b = u @ w @ y"
    by (auto simp: append_eq_append_conv2)
  then show ?thesis
  proof cases
    case 1
    then consider t where "u = w @ t" | t where "w = u @ t" "c # b = t @ y"
      by (auto simp: append_eq_append_conv2)
    then show ?thesis
    proof cases
      case 1
      with \<open>a = x @ u\<close> show ?thesis by (auto simp: contains_iff)
    next
      case 2
      with c have "w = u" by (cases t) auto
      with \<open>a = x @ u\<close> have "a = x @ w @ []" by simp
      then show ?thesis unfolding contains_iff by blast
    qed
  next
    case 2
    then show ?thesis using c by (cases u; cases w) (auto simp: contains_iff)
  qed
qed

lemma contains_hidden_join:
  assumes w: "hideable w"
  shows "contains (join secret_hidden ps) w \<Longrightarrow> \<exists>p \<in> set ps. contains p w"
proof (induction ps)
  case Nil
  with w show ?case by (simp add: hideable_def)
next
  case (Cons p ps)
  show ?case
  proof (cases "ps = []")
    case True
    with Cons.prems show ?thesis by simp
  next
    case False
    with Cons.prems have "contains (p @ CHR ''<'' # (''secret_hidden'' @ CHR ''>'' # join secret_hidden ps)) w"
      by (simp add: join_Cons secret_hidden_def)
    with w have "contains p w \<or> contains (''secret_hidden'' @ CHR ''>'' # join secret_hidden ps) w"
      unfolding hideable_def by (metis contains_sep)
    with w have "contains p w \<or> contains (join secret_hidden ps) w"
      unfolding hideable_def by (metis contains_sep)
    with Cons.IH show ?thesis by auto
  qed
qed

lemma contains_trans: "contains s p \<Longrightarrow> contains p w \<Longrightarrow> contains s w"
  by (auto simp: contains_iff) (metis append.assoc)

lemma replace_keeps_absent:
  assumes "hideable w" and "old \<noteq> []" and "\<not> contains s w"
  shows "\<not> contains (replace s old secret_hidden) w"
proof
  assume "contains (replace s old secret_hidden) w"
  then obtain p where "p \<in> set (split_on old s)" "contains p w"
    using contains_hidden_join assms(1,2) by (auto simp: replace_def)
  moreover then have "contains s p" using split_on_part assms(2) by (auto simp: contains_iff)
  ultimately show False using assms(3) contains_trans by blast
qed

lemma replace_removes: "hideable w \<Longrightarrow> \<not> contains (replace s w secret_hidden) w"
  using contains_hidden_join [of w "split_on w s"] split_on_part [of w _ s]
  by (auto simp: replace_def hideable_def)

lemma hide_keeps_absent:
  "hideable w \<Longrightarrow> \<forall>v \<in> set vs. v \<noteq> [] \<Longrightarrow> \<not> contains s w \<Longrightarrow> \<not> contains (hide_in_string vs s) w"
  by (induction vs arbitrary: s) (simp_all add: hide_in_string_def replace_keeps_absent)

lemma hide_in_string_hides:
  "\<forall>v \<in> set vs. hideable v \<Longrightarrow> w \<in> set vs \<Longrightarrow> \<not> contains (hide_in_string vs s) w"
proof (induction vs arbitrary: s)
  case Nil
  then show ?case by simp
next
  case (Cons v vs)
  have step: "hide_in_string (v # vs) s = hide_in_string vs (replace s v secret_hidden)"
    by (simp add: hide_in_string_def)
  show ?case
  proof (cases "w = v")
    case True
    with Cons.prems have "\<not> contains (hide_in_string vs (replace s v secret_hidden)) w"
      by (intro hide_keeps_absent) (auto simp: replace_removes hideable_def)
    then show ?thesis by (simp only: step not_False_eq_True)
  next
    case False
    with Cons show ?thesis by (simp add: step)
  qed
qed

text \<open>The strings below a value that are not in a list.\<close>

fun strings_outside_lists :: "json \<Rightarrow> string list" where
  "strings_outside_lists (JObj d) = concat (map (\<lambda>(k, v). strings_outside_lists v) d)"
| "strings_outside_lists (JStr s) = [s]"
| "strings_outside_lists v = []"

lemma hide_hides:
  "\<forall>v \<in> set vs. hideable v \<Longrightarrow> w \<in> set vs \<Longrightarrow> s \<in> set (strings_outside_lists (hide vs v)) \<Longrightarrow>
   \<not> contains s w"
proof (induction vs v rule: hide.induct)
  case (1 vs d)
  then show ?case by auto
qed (auto simp: hide_in_string_hides)

lemma replace_secrets_hides:
  assumes "\<forall>v \<in> set vs. hideable v" and "w \<in> set vs"
    and "(k, v) \<in> set (replace_secrets vs d)" and "k \<notin> set TOP_LEVEL_PROTECTED_FIELDS"
    and "s \<in> set (strings_outside_lists v)"
  shows "\<not> contains s w"
  using assms hide_hides [OF assms(1,2)]
  by (auto simp: replace_secrets_def split: if_splits)


lemma map_of_replace_secrets:
  "map_of (replace_secrets vs d) k = map_option
     (\<lambda>v. if k \<in> set TOP_LEVEL_PROTECTED_FIELDS then v else hide vs v) (map_of d k)"
  by (induction d) (auto simp: replace_secrets_def)

lemma hide_none: "hide [] v = v"
proof (induction "[] :: string list" v rule: hide.induct)
  case (1 d)
  then show ?case by (auto intro: map_idI)
qed (simp_all add: hide_in_string_def)

lemma replace_secrets_none: "replace_secrets [] d = d"
  by (auto simp: replace_secrets_def hide_none intro: map_idI)

text \<open>
  C24. No secret is left in the dictionary of an event, in the strings under the keys that are not
  protected, except inside lists.
\<close>

theorem secrets_are_hidden:
  assumes "\<forall>v \<in> set vs. hideable v" and "w \<in> set vs"
    and "(k, v) \<in> set (replace_secrets vs d)" and "k \<notin> set TOP_LEVEL_PROTECTED_FIELDS"
    and "s \<in> set (strings_outside_lists v)"
  shows "\<not> contains s w"
  using assms by (rule replace_secrets_hides)

definition demo_args :: dict where
  "demo_args = [(''id'', JInt 3),
     (''args'', JObj [(''command'', JStr ''echo tok1''), (''thought'', JStr ''s3cr3t tok1'')])]"

lemma demo_args_hidden: "replace_secrets [''tok1'', ''s3cr3t''] demo_args =
  [(''id'', JInt 3), (''args'', JObj [(''command'', JStr ''echo <secret_hidden>''),
     (''thought'', JStr ''<secret_hidden> <secret_hidden>'')])]"
  by (simp add: replace_secrets_def demo_args_def TOP_LEVEL_PROTECTED_FIELDS_def hide_in_string_def
      replace_def split_on.simps secret_hidden_def)

theorem secrets_are_hidden_witness: "\<not> contains ''echo <secret_hidden>'' ''tok1''"
proof (rule secrets_are_hidden)
  show "\<forall>v \<in> set [''tok1'', ''s3cr3t'']. hideable v" by (simp add: hideable_def)
  show "''tok1'' \<in> set [''tok1'', ''s3cr3t'']" by simp
  show "(''args'', JObj [(''command'', JStr ''echo <secret_hidden>''),
     (''thought'', JStr ''<secret_hidden> <secret_hidden>'')]) \<in>
     set (replace_secrets [''tok1'', ''s3cr3t''] demo_args)"
    by (simp add: demo_args_hidden)
  show "''args'' \<notin> set TOP_LEVEL_PROTECTED_FIELDS" by (simp add: TOP_LEVEL_PROTECTED_FIELDS_def)
  show "''echo <secret_hidden>'' \<in> set (strings_outside_lists (JObj
    [(''command'', JStr ''echo <secret_hidden>''), (''thought'', JStr ''<secret_hidden> <secret_hidden>'')]))"
    by simp
qed

text \<open>A list keeps its strings, and so does the message of an action that repeats its arguments.\<close>

lemma list_keeps_secrets:
  "k \<notin> set TOP_LEVEL_PROTECTED_FIELDS \<Longrightarrow>
   replace_secrets vs [(k, JObj [(a, JList xs)])] = [(k, JObj [(a, JList xs)])]"
  by (simp add: replace_secrets_def)

end
