(* ===== verification/Event_Roundtrip.thy ===== *)
theory Event_Roundtrip
  imports Event_Serialization
begin

text \<open>
  The properties of the serialisation: every class is decoded to what was encoded, an event read
  back is the event that was written, and truncating command output twice is truncating it once.
\<close>

section \<open>Inverse on every class\<close>

lemmas action_codec_defs =
  null_action_of_def change_agent_state_of_def agent_finish_of_def agent_think_of_def
  agent_reject_of_def agent_delegate_of_def recall_action_of_def condensation_request_of_def
  task_tracking_of_def loop_recovery_of_def message_action_of_def cmd_run_of_def
  ipython_run_of_def browse_url_of_def browse_interactive_of_def file_read_of_def
  file_write_of_def file_edit_of_def mcp_action_of_def message_action_args_def cmd_run_args_def
  ipython_run_args_def browse_url_args_def browse_interactive_args_def file_read_args_def
  file_write_args_def file_edit_args_def mcp_action_args_def condensation_of_def
  condensation_args_def system_message_of_def system_message_args_def

lemmas observation_codec_defs =
  null_observation_of_def ipython_observation_of_def browser_output_of_def
  file_read_observation_of_def file_write_observation_of_def file_edit_observation_of_def
  delegate_observation_of_def success_observation_of_def error_observation_of_def
  state_changed_observation_of_def user_reject_observation_of_def
  condensation_observation_of_def think_observation_of_def recall_observation_of_def
  mcp_observation_of_def file_download_observation_of_def task_tracking_observation_of_def
  loop_detection_observation_of_def browser_output_args_def file_edit_observation_args_def
  recall_observation_args_def

text \<open>What the constructors guarantee: a valid condensation, command output that is truncated.\<close>

fun body_ok :: "body \<Rightarrow> bool" where
  "body_ok (Action (CondensationAction c)) = validate_field_polymorphism c"
| "body_ok (Observation (CmdOutputObservation r)) =
     (co_hidden r \<or> maybe_truncate MAX_CMD_OUTPUT_SIZE (co_content r) = co_content r)"
| "body_ok _ = True"

lemma action_codec:
  "body_ok (Action a) \<Longrightarrow>
   \<exists>cls. map_of (ACTION_TYPE_TO_CLASS env) (action_type a) = Some cls \<and> cls (action_args a) = Inr a"
  by (cases a) (simp_all add: ACTION_TYPE_TO_CLASS_def action_codec_defs arg_def expect_def codec
      new_condensation_def validate_field_polymorphism_def)

lemma prepare_action_args: "prepare_args env (action_args a) = Inr (None, action_args a)"
  by (cases a) (simp_all add: prepare_args_def handle_action_deprecated_args_def
      action_codec_defs codec)

lemma action_args_blocking:
  "map_of (action_args a) ''blocking'' =
     (case a of CmdRunAction r \<Rightarrow> Some (JBool (cr_blocking r)) | _ \<Rightarrow> None)"
  by (cases a) (simp_all add: action_codec_defs)

lemma cmd_output_codec:
  assumes "body_ok (Observation (CmdOutputObservation r))"
  shows "cmd_output_of (co_content r) (cmd_output_extras r) = Inr (CmdOutputObservation r)"
proof -
  obtain d where d: "enc_metadata (co_metadata r) = JObj d" by (simp add: enc_metadata_def)
  have "new_cmd_output (co_content r) (co_command r) (Some (co_metadata r)) (co_hidden r) = r"
    using assms by (cases r) (auto simp: new_cmd_output_def)
  then show ?thesis
    by (simp add: cmd_output_of_def cmd_output_extras_def arg_def d metadata_of_enc [OF d])
qed

lemma observation_codec:
  "body_ok (Observation obs) \<Longrightarrow>
   \<exists>cls. map_of OBSERVATION_TYPE_TO_CLASS (observation_type obs) = Some cls \<and>
     cls (obs_content obs) (observation_extras obs) = Inr obs"
  by (cases obs) (simp_all add: OBSERVATION_TYPE_TO_CLASS_def observation_codec_defs arg_def
      expect_def codec cmd_output_codec)

lemma observation_extras_current:
  "handle_observation_deprecated_extras (observation_extras obs) = observation_extras obs"
  by (cases obs) (simp_all add: handle_observation_deprecated_extras_def move_to_metadata_def
      observation_codec_defs cmd_output_extras_def)


lemma map_of_opt_key [simp]: "map_of (opt_key k v) k' = (if k = k' then v else None)"
  by (auto simp: opt_key_def split: option.splits)

lemma objects_enc:
  "(\<And>x. \<exists>d. g x = JObj d \<and> f d = Inr x) \<Longrightarrow> objects f (map g xs) = Inr xs"
proof (induction xs)
  case (Cons x xs)
  from Cons.prems [of x] obtain d where "g x = JObj d" "f d = Inr x" by blast
  with Cons show ?case by simp
qed simp

lemma cost_codec: "\<exists>d. enc_cost c = JObj d \<and> cost_of_dict d = Inr c"
  by (simp add: enc_cost_def cost_of_dict_def arg_def)

lemma latency_codec: "\<exists>d. enc_latency l = JObj d \<and> latency_of_dict d = Inr l"
  by (simp add: enc_latency_def latency_of_dict_def arg_def)

lemma usage_codec: "\<exists>d. enc_usage u = JObj d \<and> usage_of_dict d = Inr u"
  by (simp add: enc_usage_def usage_of_dict_def arg_def)

lemma tool_call_codec: "\<exists>d. enc_tool_call t = JObj d \<and> tool_call_of_dict d = Inr t"
  by (simp add: enc_tool_call_def tool_call_of_dict_def arg_def)

lemma metrics_codec:
  assumes "0 \<le> accumulated_cost m"
  shows "metrics_of_json (JObj (metrics_get m)) = Inr (m\<lparr>model_name := ''default''\<rparr>)"
proof -
  obtain u where u: "enc_usage (accumulated_token_usage m) = JObj u"
      "usage_of_dict u = Inr (accumulated_token_usage m)"
    using usage_codec by blast
  show ?thesis
    using assms u
    by (simp add: metrics_of_json_def metrics_get_def arg_def as_opt_enc enc_map_def
        set_accumulated_cost_def new_metrics_def objects_enc [OF cost_codec]
        objects_enc [OF latency_codec] objects_enc [OF usage_codec])
qed

text \<open>What is serialised: all but the response, the timeout of an observation, the model of the
  metrics.\<close>

definition serialised :: "event \<Rightarrow> event" where
  "serialised e = e\<lparr>ev_response_id := None,
     ev_llm_metrics := map_option (\<lambda>m. m\<lparr>model_name := ''default''\<rparr>) (ev_llm_metrics e),
     ev_timeout := (if is_action e then ev_timeout e else None)\<rparr>"

definition event_ok :: "event \<Rightarrow> bool" where
  "event_ok e \<longleftrightarrow> body_ok (ev_body e) \<and> ev_id e \<noteq> Some (-1) \<and>
     (case ev_llm_metrics e of None \<Rightarrow> True | Some m \<Rightarrow> 0 \<le> accumulated_cost m)"

lemmas codec_defs = arg_def set_key_def decoded_def

lemma hard_timeout_action:
  "rbind (arg (action_args a) ''blocking'' as_bool (Some False)) (\<lambda>b.
     Inr (set_hard_timeout t b (new_event (Action a)))) =
   Inr ((new_event (Action a))\<lparr>ev_timeout := t\<rparr>)"
  by (cases a) (simp_all add: arg_def action_args_blocking set_hard_timeout_def new_event_def
      del: action_args.simps)

lemma action_from_dict_to_dict:
  assumes "body_ok (Action a)" and "map_of d ''action'' = Some (JStr (action_type a))"
    and "map_of d ''args'' = Some (JObj (action_args a))"
    and "map_of d ''timeout'' = map_option JFloat t"
  shows "action_from_dict env d = Inr ((new_event (Action a))\<lparr>ev_timeout := t\<rparr>)"
proof -
  obtain cls where "map_of (ACTION_TYPE_TO_CLASS env) (action_type a) = Some cls"
      "cls (action_args a) = Inr a"
    using action_codec [OF assms(1)] by blast
  moreover have "arg d ''args'' as_obj (Some []) = Inr (action_args a)"
    using assms(3) by (simp add: arg_def)
  moreover have "arg d ''timeout'' (as_opt as_rat) None = Inr t" if "t \<noteq> None"
    using assms(4) that by (auto simp: arg_def)
  ultimately show ?thesis
    using assms(2,4)
    by (cases t) (simp_all add: action_from_dict_def prepare_action_args hard_timeout_action,
        simp add: new_event_def)
qed

lemma observation_from_dict_to_dict:
  assumes "body_ok (Observation obs)"
    and "map_of d ''observation'' = Some (JStr (observation_type obs))"
    and "map_of d ''content'' = Some (JStr (obs_content obs))"
    and "map_of d ''extras'' = Some (JObj (observation_extras obs))"
  shows "observation_from_dict d = Inr (new_event (Observation obs))"
proof -
  obtain cls where "map_of OBSERVATION_TYPE_TO_CLASS (observation_type obs) = Some cls"
      "cls (obs_content obs) (observation_extras obs) = Inr obs"
    using observation_codec [OF assms(1)] by blast
  with assms show ?thesis
    by (simp add: observation_from_dict_def arg_def observation_extras_current)
qed

lemma set_keys_inverse:
  assumes ok: "event_ok e"
    and d: "map_of d ''id'' = (if event_id e = -1 then None else Some (JInt (event_id e)))"
      "map_of d ''timestamp'' = map_option JStr (ev_timestamp e)"
      "map_of d ''source'' = map_option (\<lambda>s. JStr (event_source_value s)) (ev_source e)"
      "map_of d ''cause'' = map_option JInt (ev_cause e)"
      "map_of d ''tool_call_metadata'' = map_option enc_tool_call (ev_tool_call_metadata e)"
      "map_of d ''llm_metrics'' = map_option (\<lambda>m. JObj (metrics_get m)) (ev_llm_metrics e)"
    and base: "(if map_of d ''action'' \<noteq> None then action_from_dict env d
            else if map_of d ''observation'' \<noteq> None then observation_from_dict d
            else Inl (ValueError ''Unknown event type'')) = 
       Inr ((new_event (ev_body e))\<lparr>ev_timeout := ev_timeout (serialised e)\<rparr>)"
  shows "event_from_dict env d = Inr (serialised e)"
proof -
  obtain t where t: "\<And>x. enc_tool_call x = JObj (t x)" "\<And>x. tool_call_of_dict (t x) = Inr x"
    using tool_call_codec by metis
  show ?thesis
    unfolding event_from_dict_def base rbind_simps
    using ok d t
    by (cases "ev_id e"; cases "ev_timestamp e"; cases "ev_source e"; cases "ev_cause e";
        cases "ev_tool_call_metadata e"; cases "ev_llm_metrics e")
       (simp_all add: codec_defs event_ok_def event_id_def INVALID_ID_def as_enum_enc
          new_event_def serialised_def metrics_codec)
qed

lemma event_to_dict_inverse:
  assumes "event_ok e" and "event_to_dict env e = Inr d"
  shows "event_from_dict env d = Inr (serialised e)"
proof -
  from assms(2) obtain msg where msg: "event_message env e = Inr msg"
    by (auto simp: event_to_dict_def rbind_Inr_iff)
  show ?thesis
  proof (cases "ev_body e")
    case (Action a)
    with assms(2) msg have d: "d = top_keys e msg @ [(''args'', JObj (action_args a))] @
        opt_key ''timeout'' (map_option JFloat (ev_timeout e))"
      by (simp add: event_to_dict_def)
    have "action_from_dict env d = Inr ((new_event (Action a))\<lparr>ev_timeout := ev_timeout e\<rparr>)"
      using assms(1) Action
      by (intro action_from_dict_to_dict) (auto simp: d event_ok_def top_keys_def map_add_def)
    then show ?thesis
      by (intro set_keys_inverse [OF assms(1)])
         (simp_all add: d top_keys_def map_add_def Action serialised_def split: option.split)
  next
    case (Observation obs)
    with assms(2) msg have d: "d = top_keys e msg @ [(''content'', JStr (obs_content obs)),
        (''extras'', JObj (observation_extras obs))] @ success_key obs"
      by (simp add: event_to_dict_def)
    have suc: "map_of (success_key obs) k = None" if "k \<noteq> ''success''" for k
      using that by (simp add: success_key_def split: observation.split)
    have "observation_from_dict d = Inr (new_event (Observation obs))"
      using assms(1) Observation
      by (intro observation_from_dict_to_dict) (auto simp: d event_ok_def top_keys_def map_add_def suc)
    then show ?thesis
      by (intro set_keys_inverse [OF assms(1)])
         (simp_all add: d top_keys_def map_add_def Observation serialised_def suc new_event_def
           split: option.split)
  qed
qed

text \<open>
  C16. An event that is serialised and read back is the same event, up to the attributes that the
  dictionary does not hold (the response id, the timeout of an observation, the metrics' model).
\<close>

theorem event_roundtrip:
  assumes "event_ok e" and "event_to_dict env e = Inr d"
  shows "event_from_dict env d = Inr (serialised e)"
  using assms by (rule event_to_dict_inverse)

definition demo_env :: py_env where
  "demo_env = \<lparr>env_version = ''1.0'', env_literal_eval = \<lambda>s. Inl (ValueError s),
     env_float_text = \<lambda>x. ''float''\<rparr>"

definition demo_event :: event where
  "demo_event = (new_event (Action (AgentFinishAction ''ok'' [] ''t'')))
     \<lparr>ev_id := Some 7, ev_source := Some AGENT, ev_response_id := Some ''r''\<rparr>"

definition demo_dict :: dict where
  "demo_dict = [(''id'', JInt 7), (''source'', JStr ''agent''), (''message'', JStr ''t''),
     (''action'', JStr ''finish''),
     (''args'', JObj [(''final_thought'', JStr ''ok''), (''outputs'', JObj []), (''thought'', JStr ''t'')])]"

theorem event_roundtrip_witness:
  "event_from_dict demo_env demo_dict = Inr (demo_event\<lparr>ev_response_id := None\<rparr>)"
proof -
  have ok: "event_ok demo_event"
    by (simp add: event_ok_def demo_event_def new_event_def)
  have d: "event_to_dict demo_env demo_event = Inr demo_dict"
    by (simp add: event_to_dict_def event_message_def demo_event_def new_event_def top_keys_def
        opt_key_def event_id_def demo_dict_def)
  from event_roundtrip [OF ok d] show ?thesis
    by (simp add: serialised_def demo_event_def new_event_def)
qed

section \<open>Truncation of command output\<close>

lemma maybe_truncate_long:
  assumes "n < int (length s)" and "n = 2 * int h" and "0 < h"
  shows "maybe_truncate n s = take h s @ truncation_note @ drop (length s - h) s"
  using assms by (simp add: maybe_truncate_def slice_to_nonneg slice_from_neg)

text \<open>
  Command output is cut to at most the limit and the note, and cutting it again, as reading
  an observation back does, changes nothing.
\<close>

theorem maybe_truncate_idempotent:
  "maybe_truncate MAX_CMD_OUTPUT_SIZE (maybe_truncate MAX_CMD_OUTPUT_SIZE s) =
     maybe_truncate MAX_CMD_OUTPUT_SIZE s \<and>
   int (length (maybe_truncate MAX_CMD_OUTPUT_SIZE s)) \<le>
     MAX_CMD_OUTPUT_SIZE + int (length truncation_note)"
proof (cases "MAX_CMD_OUTPUT_SIZE < int (length s)")
  case False
  then show ?thesis by (simp add: maybe_truncate_def)
next
  case True
  define h :: nat where "h = 15000"
  have n: "MAX_CMD_OUTPUT_SIZE = 2 * int h" "0 < h" by (simp_all add: h_def MAX_CMD_OUTPUT_SIZE_def)
  define p q where "p = take h s" and "q = drop (length s - h) s"
  from True n have len: "length p = h" "length q = h" by (auto simp: p_def q_def)
  have t: "maybe_truncate MAX_CMD_OUTPUT_SIZE s = p @ truncation_note @ q"
    unfolding p_def q_def by (rule maybe_truncate_long [OF True n])
  have "MAX_CMD_OUTPUT_SIZE < int (length (p @ truncation_note @ q))"
    using len n by (simp add: truncation_note_def)
  from maybe_truncate_long [OF this n] len
  have "maybe_truncate MAX_CMD_OUTPUT_SIZE (p @ truncation_note @ q) = p @ truncation_note @ q"
    by simp
  with t len n show ?thesis by simp
qed

end
