(* ===== verification/Event_Stream_Correct.thy ===== *)
theory Event_Stream_Correct
  imports Event_Stream Event_Roundtrip
begin

text \<open>
  The event stream refines a list: the log of the dictionaries it stored. The invariant relates
  the files of the store (one per event, and the pages) to the log; adding an event appends to it,
  a search reads from it whether or not a page serves it, and a store opened on the same files
  goes on with the next id. Hiding secrets is stated on the strings that the code visits.
\<close>

section \<open>File names\<close>

lemma not_in_show_nat: "\<not> is_digit c \<Longrightarrow> c \<notin> set (show_nat n)"
  using show_nat_digits [of n] by (auto simp: list_all_iff)

lemma show_nat_no_dash: "CHR ''-'' \<notin> set (show_nat n)"
  by (rule not_in_show_nat) (simp add: is_digit_def)

lemma show_int_inj: "show_int i = show_int j \<longleftrightarrow> i = j"
proof -
  have neg: "CHR ''-'' # s \<noteq> show_nat n" for n s
    using show_nat_no_dash [of n] by (metis list.set_intros(1))
  show ?thesis
    by (cases "i < 0"; cases "j < 0")
       (auto simp: show_int_def show_nat_inj neg neg [symmetric])
qed

lemma filename_for_id_inj: "filename_for_id st i = filename_for_id st j \<longleftrightarrow> i = j"
  by (simp add: filename_for_id_def get_conversation_event_filename_def show_int_inj)

lemma filename_id_cache: "filename_for_id st i \<noteq> filename_for_cache st s e"
  by (simp add: filename_for_id_def filename_for_cache_def get_conversation_event_filename_def
      get_conversation_events_dir_def)

lemma show_int_dash:
  assumes "0 \<le> k" and "show_int k @ ''-'' @ x = show_int s @ ''-'' @ y"
  shows "s = k"
proof -
  have dash: "\<not> is_digit CHR ''-''" by (simp add: is_digit_def)
  have tw: "takeWhile is_digit (show_nat n @ ''-'' @ z) = show_nat n" for n z
    using show_nat_digits [of n] dash by (auto simp: list_all_iff takeWhile_append)
  show ?thesis
  proof (cases "s < 0")
    case True
    with assms have "takeWhile is_digit (show_nat (nat k) @ ''-'' @ x) =
        takeWhile is_digit (''-'' @ show_nat (nat (- s)) @ ''-'' @ y)"
      by (simp add: show_int_def)
    then have "show_nat (nat k) = []" using dash by (simp only: tw) simp
    with show_nat_digits [of "nat k"] show ?thesis by simp
  next
    case False
    with assms have "takeWhile is_digit (show_nat (nat k) @ ''-'' @ x) =
        takeWhile is_digit (show_nat (nat s) @ ''-'' @ y)"
      by (simp add: show_int_def)
    with assms(1) False show ?thesis unfolding tw by (simp add: show_nat_inj)
  qed
qed

lemma filename_for_cache_inj:
  "0 \<le> k \<Longrightarrow> filename_for_cache st k e = filename_for_cache st s f \<Longrightarrow> s = k"
  unfolding filename_for_cache_def by (rule show_int_dash) auto

section \<open>The invariant\<close>

definition files_ok :: "'a event_store_scheme \<Rightarrow> dict list \<Rightarrow> bool" where
  "files_ok st lg \<longleftrightarrow> (\<forall>i. map_of (es_files st) (filename_for_id st i) =
     (if 0 \<le> i \<and> i < int (length lg) then Some (EventFile (lg ! nat i)) else None))"

definition pages_ok :: "'a event_store_scheme \<Rightarrow> dict list \<Rightarrow> bool" where
  "pages_ok st lg \<longleftrightarrow> (\<forall>s c.
     map_of (es_files st) (filename_for_cache st s (s + es_cache_size st)) = Some c \<longrightarrow>
       0 \<le> s \<and> s + es_cache_size st \<le> int (length lg) \<and>
       c = PageFile (take (nat (es_cache_size st)) (drop (nat s) lg)))"

definition log_ok :: "py_env \<Rightarrow> dict list \<Rightarrow> bool" where
  "log_ok env lg \<longleftrightarrow> (\<forall>i < length lg. map_of (lg ! i) ''id'' = Some (JInt (int i)) \<and>
     (\<exists>e. event_from_dict env (lg ! i) = Inr e))"

definition names_ok :: "'a event_store_scheme \<Rightarrow> bool" where
  "names_ok st \<longleftrightarrow> (\<forall>f \<in> set (keys (es_files st)).
     startswith f (get_conversation_events_dir (es_sid st) (es_user_id st)) \<longrightarrow>
     (\<exists>i \<ge> 0. f = filename_for_id st i))"

definition store_inv :: "py_env \<Rightarrow> 'a event_store_scheme \<Rightarrow> dict list \<Rightarrow> bool" where
  "store_inv env st lg \<longleftrightarrow> 0 < es_cache_size st \<and> files_ok st lg \<and> pages_ok st lg \<and>
     log_ok env lg \<and> names_ok st \<and> distinct (keys (es_files st)) \<and>
     es_cur_id st \<in> {None, Some (int (length lg))}"

text \<open>The page being written is the end of the log.\<close>

definition stream_inv :: "py_env \<Rightarrow> 'cb event_stream \<Rightarrow> dict list \<Rightarrow> bool" where
  "stream_inv env st lg \<longleftrightarrow> store_inv env st lg \<and>
     (\<exists>k \<le> length lg. write_page_cache st = drop k lg \<and> int (length lg - k) < es_cache_size st)"

text \<open>The events of the log.\<close>

definition decode :: "py_env \<Rightarrow> dict \<Rightarrow> event" where
  "decode env d = (case event_from_dict env d of Inr e \<Rightarrow> e | Inl _ \<Rightarrow> new_event (Action NullAction))"

lemma log_ok_decode:
  "log_ok env lg \<Longrightarrow> i < length lg \<Longrightarrow> event_from_dict env (lg ! i) = Inr (decode env (lg ! i))"
  by (auto simp: log_ok_def decode_def split: sum.splits)

section \<open>Searching\<close>

text \<open>A page in use is a page of the log, or none.\<close>

definition page_ok :: "'a event_store_scheme \<Rightarrow> dict list \<Rightarrow> cache_page \<Rightarrow> bool" where
  "page_ok st lg p \<longleftrightarrow> page_events p = None \<or>
     (0 \<le> page_start p \<and> page_end p = page_start p + es_cache_size st \<and>
      page_end p \<le> int (length lg) \<and>
      page_events p = Some (take (nat (es_cache_size st)) (drop (nat (page_start p)) lg)))"

lemma page_ok_dummy: "page_ok st lg DUMMY_PAGE"
  by (simp add: page_ok_def DUMMY_PAGE_def)

lemma load_page_ok:
  assumes "store_inv env st lg"
  shows "\<exists>p. load_cache_page_for_index st i = Inr p \<and> page_ok st lg p \<and> covers p i"
proof -
  define N where "N = es_cache_size st"
  define s where "s = i - i mod N"
  have N: "0 < N" using assms by (simp add: N_def store_inv_def)
  then have s: "s \<le> i" "i < s + N"
    using pos_mod_bound [of N i] pos_mod_sign [of N i] by (simp_all add: s_def del: pos_mod_bound)
  have load: "load_cache_page_for_index st i = load_cache_page st s (s + N)"
    using N by (simp add: load_cache_page_for_index_def N_def s_def Let_def)
  show ?thesis
  proof (cases "map_of (es_files st) (filename_for_cache st s (s + N))")
    case None
    with s show ?thesis
      by (simp add: load load_cache_page_def fs_read_def page_ok_def covers_def)
  next
    case (Some c)
    with assms have "0 \<le> s" "s + N \<le> int (length lg)" "c = PageFile (take (nat N) (drop (nat s) lg))"
      by (auto simp: store_inv_def pages_ok_def N_def)
    with s Some show ?thesis
      by (simp add: load load_cache_page_def fs_read_def page_ok_def covers_def N_def)
  qed
qed

lemma get_event_log:
  assumes "store_inv env st lg"
  shows "get_event env st i = (if 0 \<le> i \<and> i < int (length lg) then Inr (decode env (lg ! nat i))
    else Inl (FileNotFoundError (filename_for_id st i)))"
  using assms log_ok_decode [of env lg "nat i"]
  by (auto simp: get_event_def fs_read_def store_inv_def files_ok_def)

lemma event_at_log:
  assumes inv: "store_inv env st lg" and p: "page_ok st lg p" "covers p i"
  shows "event_at env st p i =
    Inr (if 0 \<le> i \<and> i < int (length lg) then Some (decode env (lg ! nat i)) else None)"
proof (cases "page_events p")
  case None
  then show ?thesis
    by (simp add: event_at_def page_get_event_def get_event_log [OF inv])
next
  case (Some ds)
  define N where "N = nat (es_cache_size st)"
  define s where "s = nat (page_start p)"
  have N: "0 < N" "int N = es_cache_size st" using inv by (simp_all add: N_def store_inv_def)
  from p Some N have *: "page_start p = int s" "s + N \<le> length lg" "ds = take N (drop s lg)"
      "int s \<le> i" "i < int (s + N)"
    by (auto simp: page_ok_def covers_def N_def s_def split: if_splits)
  define j where "j = nat (i - int s)"
  with * have j: "i = int (s + j)" "j < N" by auto
  have len: "length ds = N" using * by simp
  have "log_ok env lg" using inv by (simp add: store_inv_def)
  with * j have dec: "event_from_dict env (ds ! j) = Inr (decode env (lg ! (s + j)))"
    using log_ok_decode [of env lg "s + j"] by simp
  obtain d ds' where ds: "ds = d # ds'" using len N by (cases ds) auto
  have "page_get_event env p i = Inr (Some (decode env (lg ! (s + j))))"
  proof -
    have "index ds (i - page_start p) = Inr (ds ! j)"
      using index_in_range [of j ds] j len * by simp
    with dec show ?thesis unfolding page_get_event_def Some by (simp add: ds)
  qed
  with * j show ?thesis by (simp add: event_at_def nat_int_add)
qed

text \<open>The reference: the loop on the log, without pages.\<close>

fun log_search :: "(event \<Rightarrow> bool) \<Rightarrow> int option \<Rightarrow> event list \<Rightarrow> int \<Rightarrow> event list" where
  "log_search ok limit [] n = []"
| "log_search ok limit (e # es) n =
     (if ok e then
        if (case limit of None \<Rightarrow> False | Some l \<Rightarrow> l \<noteq> 0 \<and> l \<le> n + 1) then [e]
        else e # log_search ok limit es (n + 1)
      else log_search ok limit es n)"

definition log_events :: "py_env \<Rightarrow> dict list \<Rightarrow> int list \<Rightarrow> event list" where
  "log_events env lg is =
     map (\<lambda>i. decode env (lg ! nat i)) (filter (\<lambda>i. 0 \<le> i \<and> i < int (length lg)) is)"

lemma search_loop_log:
  assumes inv: "store_inv env st lg" and flt: "\<And>e. filter_accepts env flt e = Inr (ok e)"
  shows "page_ok st lg p \<Longrightarrow>
    search_loop env st flt limit is p n = (log_search ok limit (log_events env lg is) n, None)"
proof (induction "is" arbitrary: p n)
  case Nil
  then show ?case by (simp add: log_events_def)
next
  case (Cons i rest)
  obtain p' where p': "(if covers p i then Inr p else load_cache_page_for_index st i) = Inr p'"
      "page_ok st lg p'" "covers p' i"
    using load_page_ok [OF inv, of i] Cons.prems by (cases "covers p i") auto
  note at = event_at_log [OF inv p'(2,3)]
  show ?case
  proof (cases "0 \<le> i \<and> i < int (length lg)")
    case False
    then have "log_events env lg (i # rest) = log_events env lg rest"
      by (auto simp: log_events_def)
    moreover from False have "event_at env st p' i = Inr None" by (auto simp: at)
    ultimately show ?thesis
      using Cons.IH [OF p'(2)] by (simp add: p'(1))
  next
    case True
    then have "log_events env lg (i # rest) = decode env (lg ! nat i) # log_events env lg rest"
      by (simp add: log_events_def)
    moreover from True have "event_at env st p' i = Inr (Some (decode env (lg ! nat i)))"
      by (simp add: at)
    ultimately show ?thesis
      using Cons.IH [OF p'(2)] by (simp add: p'(1) flt emit_def Let_def)
  qed
qed

lemma log_search_all: "log_search ok None es n = filter ok es"
  by (induction es arbitrary: n) auto

lemma log_search_limit: "0 \<le> n \<Longrightarrow> n < l \<Longrightarrow> log_search ok (Some l) es n = take (nat (l - n)) (filter ok es)"
proof (induction es arbitrary: n)
  case Nil
  then show ?case by simp
next
  case (Cons e es)
  show ?case
  proof (cases "ok e")
    case False
    with Cons show ?thesis by simp
  next
    case True
    show ?thesis
    proof (cases "l \<le> n + 1")
      case True
      with Cons.prems have "l = n + 1" by simp
      with \<open>ok e\<close> Cons.prems show ?thesis by simp
    next
      case False
      then have "nat (l - n) = Suc (nat (l - (n + 1)))" by simp
      with False True Cons.IH [of "n + 1"] Cons.prems show ?thesis by simp
    qed
  qed
qed

section \<open>Adding\<close>

lemma set_key_keeps_id:
  assumes "set_key d k f e = Inr e'" and "\<And>v g. f v = Inr g \<Longrightarrow> ev_id (g e) = ev_id e"
  shows "ev_id e' = ev_id e"
  using assms by (auto simp: set_key_def rbind_Inr_iff split: option.splits)

lemma decoded_Inr: "decoded k dec f v = Inr g \<Longrightarrow> \<exists>x. g = f x"
  by (auto simp: decoded_def split: option.splits)

lemma event_from_dict_id:
  assumes "event_from_dict env d = Inr e" and "map_of d ''id'' = Some (JInt i)"
  shows "ev_id e = Some i"
proof -
  obtain e1 e2 e3 e4 e5 e0 where
      1: "set_key d ''id'' (decoded ''id'' (as_opt as_int) (\<lambda>x e. e\<lparr>ev_id := x\<rparr>)) e0 = Inr e1"
    and 2: "set_key d ''timestamp'' (decoded ''timestamp'' (as_opt as_str) (\<lambda>x e. e\<lparr>ev_timestamp := x\<rparr>)) e1 = Inr e2"
    and 3: "set_key d ''source'' (\<lambda>v. case as_event_source v of
          None \<Rightarrow> Inl (ValueError ''not a valid EventSource'')
        | Some s \<Rightarrow> Inr (\<lambda>e. e\<lparr>ev_source := Some s\<rparr>)) e2 = Inr e3"
    and 4: "set_key d ''cause'' (decoded ''cause'' (as_opt as_int) (\<lambda>x e. e\<lparr>ev_cause := x\<rparr>)) e3 = Inr e4"
    and 5: "set_key d ''tool_call_metadata'' (\<lambda>v. case as_obj v of
          None \<Rightarrow> Inl (untyped ''tool_call_metadata'')
        | Some o' \<Rightarrow> rbind (tool_call_of_dict o') (\<lambda>t.
            Inr (\<lambda>e. e\<lparr>ev_tool_call_metadata := Some t\<rparr>))) e4 = Inr e5"
    and 6: "set_key d ''llm_metrics'' (\<lambda>v.
         rbind (metrics_of_json v) (\<lambda>m. Inr (\<lambda>e. e\<lparr>ev_llm_metrics := Some m\<rparr>))) e5 = Inr e"
    using assms(1) unfolding event_from_dict_def rbind_Inr_iff by blast
  have "ev_id e1 = Some i" using 1 assms(2) by (auto simp: set_key_def decoded_def)
  moreover have "ev_id e2 = ev_id e1" by (rule set_key_keeps_id [OF 2]) (auto dest: decoded_Inr)
  moreover have "ev_id e3 = ev_id e2" by (rule set_key_keeps_id [OF 3]) (auto split: option.splits)
  moreover have "ev_id e4 = ev_id e3" by (rule set_key_keeps_id [OF 4]) (auto dest: decoded_Inr)
  moreover have "ev_id e5 = ev_id e4"
    by (rule set_key_keeps_id [OF 5]) (auto simp: rbind_Inr_iff split: option.splits)
  moreover have "ev_id e = ev_id e5"
    by (rule set_key_keeps_id [OF 6]) (auto simp: rbind_Inr_iff)
  ultimately show ?thesis by simp
qed

lemma event_to_dict_form:
  assumes "event_to_dict env e = Inr d"
  shows "\<exists>msg rest. d = top_keys e msg @ rest \<and> map_of rest ''id'' = None"
proof -
  obtain msg where msg: "event_message env e = Inr msg"
    using assms by (auto simp: event_to_dict_def rbind_Inr_iff)
  show ?thesis
  proof (cases "ev_body e")
    case (Action a)
    with assms msg have "d = top_keys e msg @ [(''args'', JObj (action_args a))] @
        opt_key ''timeout'' (map_option JFloat (ev_timeout e))"
      by (simp add: event_to_dict_def)
    then show ?thesis by (intro exI conjI) auto
  next
    case (Observation obs)
    with assms msg have "d = top_keys e msg @ [(''content'', JStr (obs_content obs)),
        (''extras'', JObj (observation_extras obs))] @ success_key obs"
      by (simp add: event_to_dict_def)
    moreover have "map_of (success_key obs) ''id'' = None"
      by (simp add: success_key_def split: observation.split)
    ultimately show ?thesis by (intro exI conjI) (assumption | simp)+
  qed
qed

lemma event_to_dict_id:
  assumes "event_to_dict env e = Inr d" and "event_id e = i" and "i \<noteq> -1"
  shows "map_of d ''id'' = Some (JInt i)"
proof -
  obtain msg rest where "d = top_keys e msg @ rest" "map_of rest ''id'' = None"
    using event_to_dict_form [OF assms(1)] by blast
  with assms(2,3) show ?thesis
    by (simp add: top_keys_def map_add_def split: option.split body.split)
qed

text \<open>The names of the files depend on the conversation only.\<close>

lemma filename_cong [simp]:
  "filename_for_id (st\<lparr>es_files := x\<rparr>) = filename_for_id st"
  "filename_for_cache (st\<lparr>es_files := x\<rparr>) = filename_for_cache st"
  "filename_for_id (st\<lparr>es_cur_id := c\<rparr>) = filename_for_id st"
  "filename_for_cache (st\<lparr>es_cur_id := c\<rparr>) = filename_for_cache st"
  "filename_for_id (sr\<lparr>write_page_cache := p\<rparr>) = filename_for_id sr"
  "filename_for_cache (sr\<lparr>write_page_cache := p\<rparr>) = filename_for_cache sr"
  "filename_for_id (sr\<lparr>queue := q\<rparr>) = filename_for_id sr"
  "filename_for_cache (sr\<lparr>queue := q\<rparr>) = filename_for_cache sr"
  by (simp_all add: fun_eq_iff filename_for_id_def filename_for_cache_def)

lemma store_inv_cong:
  "es_files a = es_files b \<Longrightarrow> es_sid a = es_sid b \<Longrightarrow> es_user_id a = es_user_id b \<Longrightarrow>
   es_cache_size a = es_cache_size b \<Longrightarrow> es_cur_id a = es_cur_id b \<Longrightarrow>
   store_inv env a lg = store_inv env b lg"
  by (simp add: store_inv_def files_ok_def pages_ok_def names_ok_def filename_for_id_def
      filename_for_cache_def)

text \<open>The file of a new event keeps the invariant, and so does the page that it completes.\<close>

lemma store_inv_add:
  assumes inv: "store_inv env st lg" and cur: "es_cur_id st' = Some (int (length lg) + 1)"
    and st': "es_sid st' = es_sid st" "es_user_id st' = es_user_id st"
      "es_cache_size st' = es_cache_size st"
      "es_files st' = fs_write (filename_for_id st (int (length lg))) (EventFile d) (es_files st)"
    and d: "map_of d ''id'' = Some (JInt (int (length lg)))" "event_from_dict env d = Inr e"
  shows "store_inv env st' (lg @ [d])"
proof -
  let ?n = "int (length lg)"
  have names: "filename_for_id st' = filename_for_id st" "filename_for_cache st' = filename_for_cache st"
    using st' by (simp_all add: fun_eq_iff filename_for_id_def filename_for_cache_def)
  have m: "map_of (es_files st') = (map_of (es_files st))(filename_for_id st ?n \<mapsto> EventFile d)"
    by (simp add: st' fs_write_def)
  have "files_ok st' (lg @ [d])"
    unfolding files_ok_def names m
  proof
    fix i
    have "nat i < length lg \<Longrightarrow> (lg @ [d]) ! nat i = lg ! nat i" by (simp add: nth_append)
    with inv show "((map_of (es_files st))(filename_for_id st ?n \<mapsto> EventFile d)) (filename_for_id st i) =
        (if 0 \<le> i \<and> i < int (length (lg @ [d])) then Some (EventFile ((lg @ [d]) ! nat i)) else None)"
      by (auto simp: store_inv_def files_ok_def filename_for_id_inj)
  qed
  moreover have "pages_ok st' (lg @ [d])"
    unfolding pages_ok_def names m st'(3)
  proof (intro allI impI)
    fix s c
    assume "((map_of (es_files st))(filename_for_id st ?n \<mapsto> EventFile d))
        (filename_for_cache st s (s + es_cache_size st)) = Some c"
    then have "map_of (es_files st) (filename_for_cache st s (s + es_cache_size st)) = Some c"
      by (simp add: filename_id_cache [symmetric])
    with inv have *: "0 \<le> s" "s + es_cache_size st \<le> ?n"
        "c = PageFile (take (nat (es_cache_size st)) (drop (nat s) lg))"
      by (auto simp: store_inv_def pages_ok_def)
    then show "0 \<le> s \<and> s + es_cache_size st \<le> int (length (lg @ [d])) \<and>
        c = PageFile (take (nat (es_cache_size st)) (drop (nat s) (lg @ [d])))"
      by auto
  qed
  moreover have "log_ok env (lg @ [d])"
    using inv d by (auto simp: store_inv_def log_ok_def nth_append less_Suc_eq)
  moreover have "names_ok st'"
    unfolding names_ok_def
  proof (intro ballI impI)
    fix f
    assume "f \<in> set (keys (es_files st'))"
      and *: "startswith f (get_conversation_events_dir (es_sid st') (es_user_id st'))"
    then have "f = filename_for_id st ?n \<or> f \<in> set (keys (es_files st))"
      by (simp add: st' fs_write_def)
    with inv * show "\<exists>i \<ge> 0. f = filename_for_id st' i"
      unfolding names by (auto simp: store_inv_def names_ok_def st' intro: exI [of _ ?n])
  qed
  moreover have "distinct (keys (es_files st'))"
    using inv by (simp add: store_inv_def st' fs_write_def distinct_update)
  ultimately show ?thesis
    using inv cur by (simp add: store_inv_def st')
qed

lemma cache_not_event: "\<not> startswith (filename_for_cache st s e)
    (get_conversation_events_dir (es_sid st) (es_user_id st))"
  by (auto simp: startswith_iff filename_for_cache_def get_conversation_events_dir_def)

lemma store_inv_page:
  assumes inv: "store_inv env st lg"
    and k: "0 \<le> k" "k + es_cache_size st = int (length lg)"
  shows "store_inv env (st\<lparr>es_files := fs_write (filename_for_cache st k (k + es_cache_size st))
    (PageFile (drop (nat k) lg)) (es_files st)\<rparr>) lg"
proof -
  let ?f = "filename_for_cache st k (k + es_cache_size st)"
  have "pages_ok (st\<lparr>es_files := fs_write ?f (PageFile (drop (nat k) lg)) (es_files st)\<rparr>) lg"
    unfolding pages_ok_def
  proof (intro allI impI)
    fix s c
    assume *: "map_of (es_files (st\<lparr>es_files := fs_write ?f (PageFile (drop (nat k) lg)) (es_files st)\<rparr>))
      (filename_for_cache (st\<lparr>es_files := fs_write ?f (PageFile (drop (nat k) lg)) (es_files st)\<rparr>) s
        (s + es_cache_size (st\<lparr>es_files := fs_write ?f (PageFile (drop (nat k) lg)) (es_files st)\<rparr>))) = Some c"
    show "0 \<le> s \<and> s + es_cache_size (st\<lparr>es_files := fs_write ?f (PageFile (drop (nat k) lg)) (es_files st)\<rparr>)
        \<le> int (length lg) \<and>
      c = PageFile (take (nat (es_cache_size (st\<lparr>es_files := fs_write ?f (PageFile (drop (nat k) lg))
        (es_files st)\<rparr>))) (drop (nat s) lg))"
    proof (cases "s = k")
      case True
      with * k inv show ?thesis by (auto simp: fs_write_def store_inv_def)
    next
      case False
      then have "?f \<noteq> filename_for_cache st s (s + es_cache_size st)"
        using filename_for_cache_inj k(1) by blast
      with * inv show ?thesis by (auto simp: fs_write_def store_inv_def pages_ok_def)
    qed
  qed
  with inv show ?thesis
    using filename_id_cache [of st] cache_not_event [of st]
    by (auto simp: store_inv_def files_ok_def names_ok_def fs_write_def distinct_update)
qed

lemma stream_inv_queue: "stream_inv env (st\<lparr>queue := q\<rparr>) lg = stream_inv env st lg"
  using store_inv_cong [of "st\<lparr>queue := q\<rparr>" st env lg] by (simp add: stream_inv_def)

lemma stream_invI:
  "store_inv env st lg \<Longrightarrow> k \<le> length lg \<Longrightarrow> write_page_cache st = drop k lg \<Longrightarrow>
   int (length lg - k) < es_cache_size st \<Longrightarrow> stream_inv env st lg"
  by (auto simp: stream_inv_def)

lemma add_event_log:
  assumes inv: "stream_inv env st lg" and cur: "es_cur_id st = Some (int (length lg))"
    and fresh: "event_id e = INVALID_ID"
    and dict: "event_to_dict env (e\<lparr>ev_timestamp := Some now, ev_source := Some source,
      ev_id := Some (int (length lg))\<rparr>) = Inr d"
    and dec: "event_from_dict env (replace_secrets (map snd (secrets st)) d) = Inr e'"
  shows "\<exists>st'. add_event env now e source st = (st', None) \<and>
    stream_inv env st' (lg @ [replace_secrets (map snd (secrets st)) d]) \<and>
    es_cur_id st' = Some (int (length lg) + 1) \<and> queue st' = queue st @ [e'] \<and>
    ev_id e' = Some (int (length lg)) \<and> secrets st' = secrets st \<and>
    subscribers st' = subscribers st"
proof -
  let ?n = "int (length lg)"
  define N where "N = es_cache_size st"
  define data where "data = replace_secrets (map snd (secrets st)) d"
  from inv obtain k where k: "k \<le> length lg" "write_page_cache st = drop k lg" "int (length lg - k) < N"
    by (auto simp: stream_inv_def N_def)
  have store: "store_inv env st lg" using inv by (simp add: stream_inv_def)
  then have N0: "0 < N" by (simp add: store_inv_def N_def)
  have id: "map_of data ''id'' = Some (JInt ?n)"
    using event_to_dict_id [OF dict] unfolding data_def map_of_replace_secrets
    by (simp add: event_id_def TOP_LEVEL_PROTECTED_FIELDS_def)
  then have e': "ev_id e' = Some ?n"
    using event_from_dict_id dec by (simp add: data_def)
  define page where "page = drop k (lg @ [data])"
  have page: "write_page_cache st @ [data] = page" using k by (simp add: page_def)
  have lp: "int (length page) = ?n + 1 - int k" using k by (simp add: page_def)
  have wl: "1 + int (length (write_page_cache st)) = int (length page)" by (simp add: page [symmetric])
  define st1 where "st1 = st\<lparr>es_cur_id := Some (?n + 1),
    write_page_cache := (if int (length page) = N then [] else page),
    es_files := fs_write (filename_for_id st ?n) (EventFile data) (es_files st)\<rparr>"
  have inv1: "store_inv env st1 (lg @ [data])"
    by (rule store_inv_add [OF store _ _ _ _ _ id]) (simp_all add: st1_def dec [folded data_def])
  have add: "add_event env now e source st =
      (case store_cache_page page st1 of
         Inl x \<Rightarrow> (st1, Some x) | Inr s \<Rightarrow> (s\<lparr>queue := queue s @ [e']\<rparr>, None))"
    using fresh dict dec e'
    by (simp add: add_event_def cur_id_def cur Let_def data_def [symmetric] page
        event_id_def st1_def N_def filename_for_id_def wl cong: sum.case_cong)
  show ?thesis
  proof (cases "int (length page) < N")
    case True
    then have "add_event env now e source st = (st1\<lparr>queue := queue st1 @ [e']\<rparr>, None)"
      by (simp add: add store_cache_page_def st1_def N_def)
    moreover have "stream_inv env (st1\<lparr>queue := queue st1 @ [e']\<rparr>) (lg @ [data])"
      unfolding stream_inv_queue
      by (rule stream_invI [OF inv1, of k]) (use True k lp in \<open>simp_all add: st1_def N_def page_def\<close>)
    ultimately show ?thesis using e' by (simp add: st1_def data_def)
  next
    case False
    with k lp have full: "int (length page) = N" by simp
    define st2 where "st2 = st1\<lparr>es_files := fs_write (filename_for_cache st1 (int k) (int k + N))
      (PageFile page) (es_files st1)\<rparr>"
    have N1: "es_cache_size st1 = N" by (simp add: st1_def N_def)
    obtain d0 where d0: "index page 0 = Inr d0" "map_of d0 ''id'' = Some (JInt (int k))"
    proof -
      have "index page 0 = Inr ((lg @ [data]) ! k)"
        using index_in_range [of 0 page] lp k by (simp add: page_def nth_append)
      moreover have "map_of ((lg @ [data]) ! k) ''id'' = Some (JInt (int k))"
        using inv1 k by (simp add: store_inv_def log_ok_def)
      ultimately show ?thesis by (rule that)
    qed
    have "store_cache_page page st1 = Inr st2"
      using full d0 by (simp add: store_cache_page_def arg_def N1 st2_def)
    then have "add_event env now e source st = (st2\<lparr>queue := queue st2 @ [e']\<rparr>, None)"
      by (simp add: add)
    moreover have "store_inv env st2 (lg @ [data])"
      using store_inv_page [OF inv1, of "int k"] full lp by (simp add: st2_def N1 page_def)
    then have "stream_inv env (st2\<lparr>queue := queue st2 @ [e']\<rparr>) (lg @ [data])"
      unfolding stream_inv_queue
      by (rule stream_invI [of _ _ _ "Suc (length lg)"])
        (use full N0 in \<open>simp_all add: st2_def st1_def N_def\<close>)
    ultimately show ?thesis using e' by (simp add: st2_def st1_def data_def)
  qed
qed

section \<open>Opening a store on existing files\<close>

lemma get_id_from_event_filename: "get_id_from_filename (filename_for_id st (int n)) = int n"
proof -
  let ?b = "show_nat n @ ''.json''"
  note no = not_in_show_nat [of _ n]
  have dot: "CHR ''.'' \<notin> set (show_nat n)" and slash: "CHR ''/'' \<notin> set ?b"
    using no [of "CHR ''.''"] no [of "CHR ''/''"] by (simp_all add: is_digit_def)
  obtain a where "filename_for_id st (int n) = a @ CHR ''/'' # ?b"
    by (simp add: filename_for_id_def get_conversation_event_filename_def show_int_def
        get_conversation_events_dir_def)
  then have "last (split_on ''/'' (filename_for_id st (int n))) = ?b"
    using slash by (simp add: split_on_char_append cut_char_None)
  moreover have "hd (split_on ''.'' ?b) = show_nat n"
    using dot split_on_char_append [of "CHR ''.''" "show_nat n" "''json''"] by (simp add: cut_char_None)
  ultimately show ?thesis by (simp add: get_id_from_filename_def py_int_show_nat)
qed

text \<open>The events of a conversation are listed one by one: none is in a subdirectory.\<close>

lemma list_event_file:
  assumes "0 \<le> i"
  shows "list_entry (get_conversation_events_dir (es_sid st) (es_user_id st)) (filename_for_id st i) acc =
    Inr (acc @ [filename_for_id st i])"
proof -
  let ?b = "show_nat (nat i) @ ''.json''"
  have "CHR ''/'' \<notin> set ?b"
    using not_in_show_nat [of "CHR ''/''" "nat i"] by (simp add: is_digit_def)
  then have "split_on ''/'' ?b = [?b]" by (simp add: cut_char_None)
  with assms show ?thesis
    by (simp add: list_entry_def filename_for_id_def get_conversation_event_filename_def show_int_def
        removeprefix_def Let_def)
qed

lemma list_event_files:
  assumes "\<forall>f \<in> set fs. startswith f (get_conversation_events_dir (es_sid st) (es_user_id st)) \<longrightarrow>
    (\<exists>i \<ge> 0. f = filename_for_id st i)"
  shows "foldE (list_entry (get_conversation_events_dir (es_sid st) (es_user_id st))) fs acc =
    Inr (acc @ filter (\<lambda>f. startswith f (get_conversation_events_dir (es_sid st) (es_user_id st))) fs)"
  using assms
proof (induction fs arbitrary: acc)
  case Nil
  then show ?case by simp
next
  case (Cons f fs)
  show ?case
  proof (cases "startswith f (get_conversation_events_dir (es_sid st) (es_user_id st))")
    case True
    with Cons.prems obtain i where "0 \<le> i" "f = filename_for_id st i" by auto
    with Cons True show ?thesis by (simp add: list_event_file)
  next
    case False
    then have "list_entry (get_conversation_events_dir (es_sid st) (es_user_id st)) f acc = Inr acc"
      by (simp add: list_entry_def)
    with Cons False show ?thesis by simp
  qed
qed

lemma fold_max:
  "fold (\<lambda>f m. let i = g f in if i \<ge> m then i else m) fs m = (Max (insert m (g ` set fs)) :: int)"
proof (induction fs arbitrary: m)
  case Nil
  then show ?case by simp
next
  case (Cons f fs)
  have "(if g f \<ge> m then g f else m) = max m (g f)" by (simp add: max_def)
  then have "fold (\<lambda>f m. let i = g f in if i \<ge> m then i else m) (f # fs) m =
      fold (\<lambda>f m. let i = g f in if i \<ge> m then i else m) fs (max m (g f))"
    by (simp add: Let_def)
  also have "\<dots> = Max (insert (max m (g f)) (g ` set fs))" by (rule Cons.IH)
  also have "\<dots> = Max (insert m (g ` set (f # fs)))"
    by (cases "g ` set fs = {}") (simp_all add: max.assoc)
  finally show ?case .
qed

lemma calculate_cur_id_log:
  assumes inv: "store_inv env st lg"
  shows "calculate_cur_id st = Inr (int (length lg))"
proof -
  define fs where "fs = filter (\<lambda>f. startswith f (get_conversation_events_dir (es_sid st) (es_user_id st)))
    (keys (es_files st))"
  have "names_ok st" using inv by (simp add: store_inv_def)
  then have ls: "fs_list (get_conversation_events_dir (es_sid st) (es_user_id st)) (es_files st) = Inr fs"
    unfolding fs_list_def fs_def names_ok_def by (subst list_event_files) auto
  have key: "filename_for_id st i \<in> set (keys (es_files st)) \<longleftrightarrow> 0 \<le> i \<and> i < int (length lg)" for i
  proof -
    have "filename_for_id st i \<in> set (keys (es_files st)) \<longleftrightarrow>
        map_of (es_files st) (filename_for_id st i) \<noteq> None"
      by (simp add: map_of_eq_None_iff)
    with inv show ?thesis by (auto simp: store_inv_def files_ok_def)
  qed
  have start: "startswith (filename_for_id st i) (get_conversation_events_dir (es_sid st) (es_user_id st))" for i
    by (simp add: filename_for_id_def get_conversation_event_filename_def)
  have sub: "f \<in> set fs \<Longrightarrow> \<exists>n < length lg. f = filename_for_id st (int n)" for f
  proof -
    assume f: "f \<in> set fs"
    with \<open>names_ok st\<close> obtain i where i: "0 \<le> i" "f = filename_for_id st i"
      by (auto simp: fs_def names_ok_def)
    with f key [of i] show ?thesis by (intro exI [of _ "nat i"]) (auto simp: fs_def)
  qed
  have mem: "n < length lg \<Longrightarrow> filename_for_id st (int n) \<in> set fs" for n
    using key [of "int n"] start by (simp add: fs_def)
  have ids: "get_id_from_filename ` set fs = int ` {..<length lg}"
  proof
    show "get_id_from_filename ` set fs \<subseteq> int ` {..<length lg}"
      using sub by (force simp: get_id_from_event_filename)
    show "int ` {..<length lg} \<subseteq> get_id_from_filename ` set fs"
      using mem get_id_from_event_filename by (metis (no_types, lifting) image_iff image_subsetI lessThan_iff)
  qed
  have "Max (insert (-1) (int ` {..<length lg})) = int (length lg) - 1"
  proof (cases "length lg")
    case (Suc n)
    then show ?thesis by (intro Max_eqI) auto
  qed simp
  moreover have "fs = [] \<longleftrightarrow> lg = []" using sub mem by (cases fs; cases lg) fastforce+
  ultimately show ?thesis
    by (cases "fs = []") (simp_all add: calculate_cur_id_def ls fold_max ids)
qed

text \<open>A store opened on the files of a stream sees the log of the stream.\<close>

lemma reopened:
  assumes "store_inv env st lg"
  shows "store_inv env (st\<lparr>es_cur_id := None\<rparr>) lg"
  using assms
  by (simp add: store_inv_def files_ok_def pages_ok_def names_ok_def)

end
