(* ===== verification/Event_Stream_Properties.thy ===== *)
theory Event_Stream_Properties
  imports Event_Stream_Correct
begin

text \<open>
  The properties of the event stream, from the refinement lemmas: adding an event appends to the
  log, a search reads the log, the next id survives a restart, a subscriber gets every event once
  and in order, and what happens to the ids when an event cannot be serialised.
\<close>

section \<open>An empty stream\<close>

lemma new_stream_inv: "stream_inv env (new_stream sid user_id [] :: 'cb event_stream) []"
  by (simp add: stream_inv_def store_inv_def new_stream_def new_store_def event_store.defs
      event_stream.defs files_ok_def pages_ok_def log_ok_def names_ok_def)

section \<open>Adding\<close>

text \<open>Taking the next id.\<close>

lemma cur_id_log:
  assumes "store_inv env st lg"
  shows "cur_id st = Inr (int (length lg), st\<lparr>es_cur_id := Some (int (length lg))\<rparr>)"
proof (cases "es_cur_id st")
  case None
  then show ?thesis by (simp add: cur_id_def calculate_cur_id_log [OF assms])
next
  case (Some i)
  with assms have "i = int (length lg)" by (auto simp: store_inv_def)
  with Some show ?thesis by (simp add: cur_id_def)
qed

lemma store_inv_cur_id:
  "store_inv env st lg \<Longrightarrow> store_inv env (st\<lparr>es_cur_id := Some (int (length lg))\<rparr>) lg"
  by (simp add: store_inv_def files_ok_def pages_ok_def names_ok_def)

lemma stream_inv_cur_id:
  "stream_inv env st lg \<Longrightarrow> stream_inv env (st\<lparr>es_cur_id := Some (int (length lg))\<rparr>) lg"
  by (simp add: stream_inv_def store_inv_cur_id)

lemma add_event_cur_id:
  assumes "store_inv env st lg" and "event_id e = INVALID_ID"
  shows "add_event env now e source st =
    add_event env now e source (st\<lparr>es_cur_id := Some (int (length lg))\<rparr>)"
  using assms by (simp add: add_event_def cur_id_log cur_id_def [of "_\<lparr>es_cur_id := _\<rparr>"])

lemma add_event_appends:
  assumes inv: "stream_inv env st lg" and fresh: "event_id e = INVALID_ID"
    and dict: "event_to_dict env (e\<lparr>ev_timestamp := Some now, ev_source := Some source,
      ev_id := Some (int (length lg))\<rparr>) = Inr d"
    and dec: "event_from_dict env (replace_secrets (map snd (secrets st)) d) = Inr e'"
  shows "\<exists>st'. add_event env now e source st = (st', None) \<and>
    stream_inv env st' (lg @ [replace_secrets (map snd (secrets st)) d]) \<and>
    es_cur_id st' = Some (int (length lg) + 1) \<and> queue st' = queue st @ [e'] \<and>
    ev_id e' = Some (int (length lg)) \<and> secrets st' = secrets st \<and>
    subscribers st' = subscribers st"
proof -
  have "store_inv env st lg" using inv by (simp add: stream_inv_def)
  with add_event_log [OF stream_inv_cur_id [OF inv] _ fresh dict] dec show ?thesis
    by (simp add: add_event_cur_id [OF _ fresh])
qed

text \<open>
  C10. Adding an event to a stream appends its dictionary, with the secrets hidden, to the log of
  the stream, gives it the next id, queues it, and keeps the invariant of files, pages and ids.
\<close>

theorem add_event_refines:
  assumes "stream_inv env st lg" and "event_id e = INVALID_ID"
    and "event_to_dict env (e\<lparr>ev_timestamp := Some now, ev_source := Some source,
      ev_id := Some (int (length lg))\<rparr>) = Inr d"
    and "event_from_dict env (replace_secrets (map snd (secrets st)) d) = Inr e'"
  shows "\<exists>st'. add_event env now e source st = (st', None) \<and>
    stream_inv env st' (lg @ [replace_secrets (map snd (secrets st)) d]) \<and>
    es_cur_id st' = Some (int (length lg) + 1) \<and> queue st' = queue st @ [e'] \<and>
    ev_id e' = Some (int (length lg)) \<and> secrets st' = secrets st \<and>
    subscribers st' = subscribers st"
  using assms by (rule add_event_appends)

definition demo_finish :: event where
  "demo_finish = new_event (Action (AgentFinishAction ''ok'' [] ''t''))"

definition demo_stream :: "nat event_stream" where
  "demo_stream = new_stream ''s'' None []"

definition finish_dict :: "int \<Rightarrow> dict" where
  "finish_dict i = [(''id'', JInt i), (''timestamp'', JStr ''now''), (''source'', JStr ''agent''),
     (''message'', JStr ''t''), (''action'', JStr ''finish''),
     (''args'', JObj [(''final_thought'', JStr ''ok''), (''outputs'', JObj []), (''thought'', JStr ''t'')])]"

definition stamped_finish :: "int \<Rightarrow> event" where
  "stamped_finish i = demo_finish\<lparr>ev_timestamp := Some ''now'', ev_source := Some AGENT, ev_id := Some i\<rparr>"

lemma finish_to_dict: "0 \<le> i \<Longrightarrow> event_to_dict demo_env (stamped_finish i) = Inr (finish_dict i)"
  by (simp add: event_to_dict_def event_message_def stamped_finish_def demo_finish_def new_event_def
      top_keys_def opt_key_def event_id_def finish_dict_def)

lemma finish_from_dict: "0 \<le> i \<Longrightarrow> event_from_dict demo_env (finish_dict i) = Inr (stamped_finish i)"
proof -
  assume i: "0 \<le> i"
  then have "event_ok (stamped_finish i)"
    by (simp add: event_ok_def stamped_finish_def demo_finish_def new_event_def)
  from event_to_dict_inverse [OF this finish_to_dict [OF i]] show ?thesis
    by (simp add: serialised_def stamped_finish_def demo_finish_def new_event_def)
qed

lemma demo_stream_fields [simp]:
  "secrets demo_stream = []" "queue demo_stream = []" "es_cur_id demo_stream = None"
  "es_cache_size demo_stream = 25" "es_files demo_stream = []" "write_page_cache demo_stream = []"
  by (simp_all add: demo_stream_def new_stream_def new_store_def event_store.defs event_stream.defs)

lemma demo_stream_inv: "stream_inv demo_env demo_stream []"
  by (simp add: demo_stream_def new_stream_inv)

lemma demo_finish_fresh [simp]: "event_id demo_finish = INVALID_ID"
  by (simp add: demo_finish_def new_event_def event_id_def)

lemmas finish_codec = finish_to_dict [of 0, unfolded stamped_finish_def, simplified]
  finish_from_dict [of 0, unfolded stamped_finish_def, simplified]

theorem add_event_refines_witness:
  "\<exists>st'. add_event demo_env ''now'' demo_finish AGENT demo_stream = (st', None) \<and>
     stream_inv demo_env st' [finish_dict 0] \<and> queue st' = [stamped_finish 0]"
  using add_event_refines [OF demo_stream_inv demo_finish_fresh, where now = "''now''" and source = AGENT
      and d = "finish_dict 0" and e' = "stamped_finish 0"] finish_codec
  by (auto simp: replace_secrets_none stamped_finish_def)

section \<open>Searching\<close>

lemma search_events_reads_log:
  assumes inv: "store_inv env st lg" and flt: "\<And>e. filter_accepts env flt e = Inr (ok e)"
    and limit: "\<And>l. limit = Some l \<Longrightarrow> 0 < l"
  shows "fst (search_events env st start_id end_id reverse flt limit) =
    ((case limit of None \<Rightarrow> id | Some l \<Rightarrow> take (nat l))
      (filter ok (log_events env lg (search_indices start_id
         (case end_id of None \<Rightarrow> int (length lg) | Some e \<Rightarrow> e + 1) reverse))), None)"
proof -
  define st' where "st' = (case end_id of None \<Rightarrow> st\<lparr>es_cur_id := Some (int (length lg))\<rparr> | Some _ \<Rightarrow> st)"
  have inv': "store_inv env st' lg"
    using inv by (simp add: st'_def store_inv_cur_id split: option.split)
  have "search_events env st start_id end_id reverse flt limit =
      (search_loop env st' flt limit (search_indices start_id
         (case end_id of None \<Rightarrow> int (length lg) | Some e \<Rightarrow> e + 1) reverse) DUMMY_PAGE 0, st')"
    by (cases end_id) (simp_all add: search_events_def cur_id_log [OF inv] st'_def)
  then show ?thesis
    using limit
    by (cases limit) (simp_all add: search_loop_log [OF inv' flt page_ok_dummy] log_search_all
        log_search_limit)
qed

text \<open>
  C11. A search reads the log: whether pages are cached or not, it yields the events in the range
  of ids that the filter accepts, in the order asked for, at most as many as the limit, and no error.
\<close>

theorem search_events_log:
  assumes "store_inv env st lg" and "\<And>e. filter_accepts env flt e = Inr (ok e)"
    and "\<And>l. limit = Some l \<Longrightarrow> 0 < l"
  shows "fst (search_events env st start_id end_id reverse flt limit) =
    ((case limit of None \<Rightarrow> id | Some l \<Rightarrow> take (nat l))
      (filter ok (log_events env lg (search_indices start_id
         (case end_id of None \<Rightarrow> int (length lg) | Some e \<Rightarrow> e + 1) reverse))), None)"
  using assms by (rule search_events_reads_log)

lemma demo_one: "\<exists>st. store_inv demo_env (st :: nat event_stream) [finish_dict 0]"
  using add_event_appends [OF demo_stream_inv demo_finish_fresh, where now = "''now''" and source = AGENT
      and d = "finish_dict 0" and e' = "stamped_finish 0"] finish_codec
  by (auto simp: replace_secrets_none stamped_finish_def stream_inv_def)

theorem search_events_log_witness:
  "\<exists>st :: nat event_stream.
     fst (search_events demo_env st 0 None True None (Some 5)) = ([stamped_finish 0], None)"
proof -
  obtain st :: "nat event_stream" where st: "store_inv demo_env st [finish_dict 0]"
    using demo_one by blast
  have "fst (search_events demo_env st 0 None True None (Some 5)) = ([stamped_finish 0], None)"
    using search_events_log [OF st, of None "\<lambda>_. True" "Some 5" 0 None True] finish_from_dict [of 0]
    by (simp add: filter_accepts_def search_indices_def log_events_def decode_def)
  then show ?thesis by blast
qed

section \<open>Opening the files again\<close>

text \<open>
  A store opened on the files that a stream wrote goes on with the id after the last event,
  and sees the same log.
\<close>

theorem restart_continues:
  assumes "store_inv env st lg"
  shows "calculate_cur_id st = Inr (int (length lg)) \<and> store_inv env (st\<lparr>es_cur_id := None\<rparr>) lg"
  using assms calculate_cur_id_log reopened by blast

theorem restart_continues_witness:
  "\<exists>st :: nat event_stream. calculate_cur_id st = Inr 1"
proof -
  obtain st :: "nat event_stream" where st: "store_inv demo_env st [finish_dict 0]"
    using demo_one by blast
  from restart_continues [OF st] show ?thesis by auto
qed

section \<open>Delivering\<close>

lemma set_sorted_keys: "set (sorted_keys ks) = set ks \<and> (distinct ks \<longrightarrow> distinct (sorted_keys ks))"
proof (induction ks)
  case Nil
  then show ?case by (simp add: sorted_keys_def)
next
  case (Cons k ks)
  have ins: "set (insort x ys) = insert x (set ys) \<and> (x \<notin> set ys \<longrightarrow> distinct ys \<longrightarrow> distinct (insort x ys))"
    for x ys by (induction ys) auto
  with Cons show ?case by (simp add: sorted_keys_def)
qed

text \<open>The subscribers and the callbacks of each are dictionaries; the operations keep them so.\<close>

definition subscribers_ok :: "'cb event_stream \<Rightarrow> bool" where
  "subscribers_ok st \<longleftrightarrow> distinct (keys (subscribers st)) \<and>
     (\<forall>key callbacks. map_of (subscribers st) key = Some callbacks \<longrightarrow> distinct (keys callbacks))"

lemma subscribers_ok_set:
  "subscribers_ok st \<Longrightarrow> distinct (keys callbacks) \<Longrightarrow>
   subscribers_ok (st\<lparr>subscribers := dict_set (subscribers st) key callbacks\<rparr>)"
  by (simp add: subscribers_ok_def distinct_dict_set del: map_of_eq_Some_iff)

lemma subscribers_ok_callbacks:
  "subscribers_ok st \<Longrightarrow> map_of (subscribers st) key = Some callbacks \<Longrightarrow> distinct (keys callbacks)"
  by (simp add: subscribers_ok_def del: map_of_eq_Some_iff)

lemma subscribers_ok_subscribe:
  assumes "subscribers_ok st"
  shows "subscribers_ok (fst (subscribe key cb cid st))"
proof (cases "map_of (subscribers st) key")
  case None
  have "subscribers_ok (st\<lparr>subscribers := dict_set (subscribers st) key []\<rparr>)"
    using assms by (simp add: subscribers_ok_set)
  from subscribers_ok_set [OF this, of "[(cid, cb)]" key] None show ?thesis
    by (simp add: subscribe_def)
next
  case (Some callbacks)
  with assms have "distinct (keys (dict_set callbacks cid cb))"
    by (intro distinct_dict_set) (rule subscribers_ok_callbacks)
  with assms Some show ?thesis by (simp add: subscribe_def subscribers_ok_set)
qed

lemma subscribers_ok_clean_up:
  "subscribers_ok st \<Longrightarrow> subscribers_ok (clean_up_subscriber key cid st)"
  by (simp add: clean_up_subscriber_def subscribers_ok_set subscribers_ok_callbacks distinct_dict_del
      split: option.split)

lemma subscribers_ok_unsubscribe:
  "subscribers_ok st \<Longrightarrow> subscribers_ok (unsubscribe key cid st)"
  by (auto simp: unsubscribe_def subscribers_ok_clean_up split: option.split)

lemma subscribe_fresh:
  assumes "\<And>callbacks. map_of (subscribers st) key = Some callbacks \<Longrightarrow> map_of callbacks cid = None"
  shows "\<exists>callbacks'. snd (subscribe key cb cid st) = None \<and>
    map_of (subscribers (fst (subscribe key cb cid st))) key = Some callbacks' \<and>
    map_of callbacks' cid = Some cb"
  using assms by (auto simp: subscribe_def Let_def split: option.splits)

text \<open>The queue until it is empty, and the calls that one callback gets.\<close>

fun drain :: "nat \<Rightarrow> 'cb event_stream \<Rightarrow> (string \<times> string \<times> 'cb \<times> event) list" where
  "drain 0 st = []"
| "drain (Suc n) st = (let (st', calls) = process_queue st in calls @ drain n st')"

definition calls_of :: "string \<Rightarrow> string \<Rightarrow> (string \<times> string \<times> 'cb \<times> event) list \<Rightarrow> (string \<times> string \<times> 'cb \<times> event) list" where
  "calls_of key cid calls = filter (\<lambda>(k, c, _, _). k = key \<and> c = cid) calls"

lemma calls_of_append [simp]: "calls_of key cid (xs @ ys) = calls_of key cid xs @ calls_of key cid ys"
  by (simp add: calls_of_def)

lemma calls_of_callbacks:
  "distinct (keys callbacks) \<Longrightarrow>
   calls_of key cid (map (\<lambda>(c, cb). (k, c, cb, e)) callbacks) =
     (if k = key then (case map_of callbacks cid of None \<Rightarrow> [] | Some cb \<Rightarrow> [(key, cid, cb, e)]) else [])"
proof (induction callbacks)
  case Nil
  then show ?case by (simp add: calls_of_def)
next
  case (Cons p callbacks)
  obtain c cb where p: "p = (c, cb)" by fastforce
  show ?case
  proof (cases "c = cid")
    case True
    with Cons.prems p have "map_of callbacks cid = None" by (auto simp: map_of_eq_None_iff)
    with Cons p True show ?thesis by (simp add: calls_of_def split: if_splits)
  next
    case False
    with Cons p show ?thesis by (simp add: calls_of_def split: if_splits)
  qed
qed

lemma calls_of_round:
  assumes "distinct ks" and "key \<in> set ks" and "subscribers_ok st"
    and "map_of (subscribers st) key = Some callbacks" and "map_of callbacks cid = Some cb"
  shows "calls_of key cid (concat (map (\<lambda>k. case map_of (subscribers st) k of None \<Rightarrow> []
     | Some callbacks \<Rightarrow> map (\<lambda>(c, cb). (k, c, cb, e)) callbacks) ks)) = [(key, cid, cb, e)]"
proof -
  let ?f = "\<lambda>k. case map_of (subscribers st) k of None \<Rightarrow> []
     | Some callbacks \<Rightarrow> map (\<lambda>(c, cb). (k, c, cb, e)) callbacks"
  have f: "calls_of key cid (?f k) = (if k = key then [(key, cid, cb, e)] else [])" for k
    using assms(3-5)
    by (auto simp: subscribers_ok_def calls_of_callbacks calls_of_def [of _ _ "[]"] split: option.split)
  have none: "key \<notin> set xs \<Longrightarrow> calls_of key cid (concat (map ?f xs)) = []" for xs
    by (induction xs) (auto simp: f, simp add: calls_of_def)
  obtain as bs where "ks = as @ key # bs" "key \<notin> set as" "key \<notin> set bs"
    using assms(1,2) by (metis distinct.simps(2) distinct_append not_distinct_conv_prefix split_list_first)
  then show ?thesis by (simp add: none f)
qed

lemma drain_calls:
  assumes "subscribers_ok st" and "\<not> stop_flag st"
    and "map_of (subscribers st) key = Some callbacks" and "map_of callbacks cid = Some cb"
  shows "calls_of key cid (drain (length (queue st)) st) = map (\<lambda>e. (key, cid, cb, e)) (queue st)"
  using assms
proof (induction "queue st" arbitrary: st)
  case Nil
  then show ?case by (simp add: calls_of_def flip: Nil(1))
next
  case (Cons e es)
  let ?st = "st\<lparr>queue := es\<rparr>"
  have "key \<in> set (keys (subscribers st))" using Cons.prems(3) by (force dest: map_of_SomeD)
  then have "calls_of key cid (snd (process_queue st)) = [(key, cid, cb, e)]"
    using Cons.prems set_sorted_keys [of "keys (subscribers st)"]
    by (simp add: process_queue_def flip: Cons.hyps(2))
      (rule calls_of_round, auto simp: subscribers_ok_def)
  moreover have "fst (process_queue st) = ?st"
    using Cons.prems(2) by (simp add: process_queue_def flip: Cons.hyps(2))
  moreover have "calls_of key cid (drain (length es) ?st) = map (\<lambda>e. (key, cid, cb, e)) es"
    using Cons.hyps(1) [of ?st] Cons.prems by (simp add: subscribers_ok_def)
  ultimately show ?case
    by (simp add: case_prod_beta flip: Cons.hyps(2))
qed

text \<open>
  C21. A callback that is subscribed when the queue is drained gets every event of the queue
  exactly once, in the order in which they were added.
\<close>

theorem subscriber_gets_every_event:
  assumes "subscribers_ok st" and "\<not> stop_flag st"
    and "map_of (subscribers st) key = Some callbacks" and "map_of callbacks cid = Some cb"
  shows "calls_of key cid (drain (length (queue st)) st) = map (\<lambda>e. (key, cid, cb, e)) (queue st)"
  using assms by (rule drain_calls)

theorem subscriber_gets_every_event_witness:
  "calls_of ''a'' ''1'' (drain 2 (fst (subscribe ''a'' (7 :: nat) ''1''
     (demo_stream\<lparr>queue := [stamped_finish 0, stamped_finish 1]\<rparr>)))) =
   [(''a'', ''1'', 7, stamped_finish 0), (''a'', ''1'', 7, stamped_finish 1)]"
proof -
  define st where "st = fst (subscribe ''a'' (7 :: nat) ''1''
    (demo_stream\<lparr>queue := [stamped_finish 0, stamped_finish 1]\<rparr>))"
  have "subscribers demo_stream = []" "stop_flag demo_stream = False"
    by (simp_all add: demo_stream_def new_stream_def event_store.defs event_stream.defs)
  then have "subscribers st = [(''a'', [(''1'', 7)])]" "\<not> stop_flag st"
      "queue st = [stamped_finish 0, stamped_finish 1]"
    by (simp_all add: st_def subscribe_def Let_def)
  with subscriber_gets_every_event [of st "''a''" "[(''1'', 7)]" "''1''" 7] show ?thesis
    by (simp add: subscribers_ok_def numeral_2_eq_2 flip: st_def)
qed

section \<open>An event that cannot be serialised\<close>

text \<open>
  An event whose serialisation raises is not stored, but its id is used up: the next event
  gets the id after it, and the files have a gap.
\<close>

theorem failed_event_takes_an_id:
  assumes "store_inv env st lg" and "event_id e = INVALID_ID"
    and "event_to_dict env (e\<lparr>ev_timestamp := Some now, ev_source := Some source,
      ev_id := Some (int (length lg))\<rparr>) = Inl x"
  shows "\<exists>st'. add_event env now e source st = (st', Some x) \<and>
    es_cur_id st' = Some (int (length lg) + 1) \<and> es_files st' = es_files st \<and>
    queue st' = queue st \<and>
    \<not> (\<exists>lg'. stream_inv env st' lg')"
proof -
  define st' where "st' = st\<lparr>es_cur_id := Some (int (length lg) + 1)\<rparr>"
  have "add_event env now e source st = (st', Some x)"
    using assms by (simp add: add_event_def cur_id_log st'_def)
  moreover have False if "stream_inv env st' lg'" for lg'
  proof -
    have n: "length lg' = Suc (length lg)" "files_ok st' lg'"
      using that by (auto simp: stream_inv_def store_inv_def st'_def)
    have "map_of (es_files st') (filename_for_id st' (int (length lg))) \<noteq> None"
      using n by (simp add: files_ok_def)
    moreover have "map_of (es_files st) (filename_for_id st (int (length lg))) = None"
      using assms(1) by (simp add: store_inv_def files_ok_def)
    ultimately show False by (simp add: st'_def)
  qed
  ultimately show ?thesis by (auto simp: st'_def)
qed

definition demo_reject :: event where
  "demo_reject = new_event (Action (AgentRejectAction [(''reason'', JInt 5)] []))"

theorem failed_event_takes_an_id_witness:
  "\<exists>st'. add_event demo_env ''now'' demo_reject AGENT demo_stream =
     (st', Some (TypeError ''can only concatenate str to str'')) \<and> es_cur_id st' = Some 1 \<and>
     es_files st' = []"
proof -
  have store: "store_inv demo_env demo_stream []"
    using demo_stream_inv by (simp add: stream_inv_def)
  have "event_id demo_reject = INVALID_ID"
    by (simp add: demo_reject_def new_event_def event_id_def)
  moreover have "event_to_dict demo_env (demo_reject\<lparr>ev_timestamp := Some ''now'',
      ev_source := Some AGENT, ev_id := Some (int (length ([] :: dict list)))\<rparr>) =
      Inl (TypeError ''can only concatenate str to str'')"
    by (simp add: demo_reject_def new_event_def event_to_dict_def event_message_def)
  ultimately show ?thesis
    using failed_event_takes_an_id [OF store] by fastforce
qed

text \<open>With pages of two events, the page that follows the gap is misaligned: a search
  finds event 2 at index 1 of the page, and again in its own file.\<close>

definition small_stream :: "nat event_stream" where
  "small_stream = demo_stream\<lparr>es_cache_size := 2\<rparr>"

definition gap_stream :: "nat event_stream" where
  "gap_stream =
     fst (add_event demo_env ''now'' demo_finish AGENT
       (fst (add_event demo_env ''now'' demo_reject AGENT
         (fst (add_event demo_env ''now'' demo_finish AGENT small_stream)))))"

lemma add_finish:
  assumes "es_cur_id st = Some i" "0 \<le> i" "secrets st = []"
  shows "add_event demo_env ''now'' demo_finish AGENT st =
    (let page = write_page_cache st @ [finish_dict i];
         st = st\<lparr>es_cur_id := Some (i + 1),
           write_page_cache := (if int (length page) = es_cache_size st then [] else page),
           es_files := fs_write (filename_for_id st i) (EventFile (finish_dict i)) (es_files st)\<rparr>
     in case store_cache_page page st of
          Inl x \<Rightarrow> (st, Some x)
        | Inr st \<Rightarrow> (st\<lparr>queue := queue st @ [stamped_finish i]\<rparr>, None))"
proof -
  have "event_to_dict demo_env (demo_finish\<lparr>ev_timestamp := Some ''now'', ev_source := Some AGENT,
      ev_id := Some i\<rparr>) = Inr (finish_dict i)"
    using finish_to_dict [OF assms(2)] by (simp add: stamped_finish_def)
  moreover have "event_id (stamped_finish i) = i" by (simp add: stamped_finish_def event_id_def)
  ultimately show ?thesis
    using assms finish_from_dict [OF assms(2)]
    by (simp add: add_event_def cur_id_def replace_secrets_none Let_def filename_for_id_def
        cong: sum.case_cong)
qed

lemma add_reject:
  assumes "es_cur_id st = Some i" "0 \<le> i"
  shows "fst (add_event demo_env ''now'' demo_reject AGENT st) = st\<lparr>es_cur_id := Some (i + 1)\<rparr>"
  using assms
  by (simp add: add_event_def cur_id_def demo_reject_def new_event_def event_to_dict_def
      event_message_def event_id_def)

lemma small_fields [simp]:
  "secrets small_stream = []" "es_cur_id small_stream = None" "es_files small_stream = []"
  "es_cache_size small_stream = 2" "write_page_cache small_stream = []" "es_sid small_stream = ''s''"
  "es_user_id small_stream = None" "queue small_stream = []"
  by (simp_all add: small_stream_def) (simp_all add: demo_stream_def new_stream_def new_store_def
      event_store.defs event_stream.defs)

lemma small_store: "store_inv demo_env small_stream []"
  using demo_stream_inv
  by (simp add: small_stream_def stream_inv_def store_inv_def files_ok_def pages_ok_def names_ok_def)

lemma finish_dict_id [simp]: "map_of (finish_dict i) ''id'' = Some (JInt i)"
  by (simp add: finish_dict_def)

lemma gap_stream_is:
  "gap_stream = small_stream\<lparr>es_cur_id := Some 3, write_page_cache := [],
     es_files :=
       [(filename_for_id small_stream 0, EventFile (finish_dict 0)),
        (filename_for_id small_stream 2, EventFile (finish_dict 2)),
        (filename_for_cache small_stream 0 2, PageFile [finish_dict 0, finish_dict 2])],
     queue := [stamped_finish 0, stamped_finish 2]\<rparr>"
proof -
  define st1 where "st1 = small_stream\<lparr>es_cur_id := Some 1, write_page_cache := [finish_dict 0],
    es_files := [(filename_for_id small_stream 0, EventFile (finish_dict 0))],
    queue := [stamped_finish 0]\<rparr>"
  have 1: "fst (add_event demo_env ''now'' demo_finish AGENT small_stream) = st1"
    by (subst add_event_cur_id [OF small_store demo_finish_fresh])
      (simp add: add_finish store_cache_page_def st1_def fs_write_def Let_def)
  have 2: "fst (add_event demo_env ''now'' demo_reject AGENT st1) = st1\<lparr>es_cur_id := Some 2\<rparr>"
    by (subst add_reject [of _ 1]) (simp_all add: st1_def)
  have ne: "filename_for_id small_stream 2 \<noteq> filename_for_id small_stream 0"
    by (simp add: filename_for_id_inj)
  show ?thesis
    unfolding gap_stream_def 1 2
    by (subst add_finish [of _ 2])
      (simp_all add: st1_def store_cache_page_def fs_write_def Let_def index_def arg_def ne
        ne [symmetric] filename_id_cache)
qed

text \<open>
  With a gap in the ids the pages no longer line up: after a good event, one that cannot be
  serialised and another good one, a search yields the third event twice.
\<close>

theorem gap_repeats_an_event:
  "fst (search_events demo_env gap_stream 0 None False None None) =
     ([stamped_finish 0, stamped_finish 2, stamped_finish 2], None)"
proof -
  have range: "[0..2] = [0, 1, 2 :: int]" by (simp add: upto_rec1)
  have names: "filename_for_id gap_stream = filename_for_id small_stream"
      "filename_for_cache gap_stream = filename_for_cache small_stream"
    by (simp_all add: gap_stream_is fun_eq_iff filename_for_id_def filename_for_cache_def)
  have cache: "filename_for_cache small_stream 2 4 \<noteq> filename_for_cache small_stream 0 2"
    using filename_for_cache_inj [of 2 small_stream 4 0 2] by auto
  have "search_events demo_env gap_stream 0 None False None None =
    (search_loop demo_env gap_stream None None [0, 1, 2] DUMMY_PAGE 0, gap_stream)"
    by (simp add: search_events_def cur_id_def gap_stream_is search_indices_def range)
  moreover have "es_files gap_stream =
       [(filename_for_id small_stream 0, EventFile (finish_dict 0)),
        (filename_for_id small_stream 2, EventFile (finish_dict 2)),
        (filename_for_cache small_stream 0 2, PageFile [finish_dict 0, finish_dict 2])]"
      "es_cache_size gap_stream = 2"
    by (simp_all add: gap_stream_is)
  ultimately show ?thesis
    using finish_from_dict [of 0] finish_from_dict [of 2]
    by (simp add: covers_def DUMMY_PAGE_def load_cache_page_for_index_def load_cache_page_def
        event_at_def page_get_event_def get_event_def index_def names cache fs_read_def Let_def
        filename_id_cache filename_id_cache [symmetric] filename_for_id_inj filter_accepts_def
        emit_def)
qed

section \<open>The message of a command\<close>

text \<open>
  A secret in a command that the agent runs is hidden in the arguments of the action but stays
  in the stored dictionary: the message of the action, a protected field, repeats the command.
\<close>

theorem command_secret_in_message:
  assumes "ev_body e = Action (CmdRunAction r)" and "contains (cr_command r) w"
    and "event_to_dict env e = Inr d"
  shows "\<exists>s. map_of (replace_secrets vs d) ''message'' = Some (JStr s) \<and> contains s w"
proof -
  have m: "event_message env e = Inr (''Running command: '' @ cr_command r)"
    using assms(1) by (simp add: event_message_def)
  then have "map_of d ''message'' = Some (JStr (''Running command: '' @ cr_command r))"
    using assms(1,3) by (auto simp: event_to_dict_def top_keys_def opt_key_def split: option.splits)
  moreover have "contains (''Running command: '' @ cr_command r) (cr_command r)"
    unfolding contains_iff by (intro exI [of _ "''Running command: ''"] exI [of _ "[]"]) simp
  ultimately show ?thesis
    using contains_trans assms(2)
    by (auto simp: map_of_replace_secrets TOP_LEVEL_PROTECTED_FIELDS_def simp del: append_Cons)
qed

definition demo_cmd :: event where
  "demo_cmd = new_event (Action (CmdRunAction \<lparr>cr_command = ''echo tok1'', cr_is_input = False,
     cr_thought = [], cr_blocking = False, cr_is_static = False, cr_cwd = None, cr_hidden = False,
     cr_confirmation_state = CONFIRMED, cr_security_risk = RISK_UNKNOWN\<rparr>))"

theorem command_secret_in_message_witness:
  "\<exists>d s. event_to_dict demo_env demo_cmd = Inr d \<and>
     map_of (replace_secrets [''tok1''] d) ''message'' = Some (JStr s) \<and> contains s ''tok1''"
proof -
  define r where "r = (case ev_body demo_cmd of Action (CmdRunAction r) \<Rightarrow> r)"
  have r: "ev_body demo_cmd = Action (CmdRunAction r)" "contains (cr_command r) ''tok1''"
    by (simp_all add: r_def demo_cmd_def new_event_def)
  moreover have "event_message demo_env demo_cmd = Inr (''Running command: '' @ cr_command r)"
    using r(1) by (simp add: event_message_def)
  then obtain d where "event_to_dict demo_env demo_cmd = Inr d"
    by (simp add: event_to_dict_def)
  ultimately show ?thesis using command_secret_in_message by blast
qed

end
