(* ===== verification/Views.thy ===== *)
theory Views
  imports Events
begin

text \<open>
  \<open>OpenHands/openhands/memory/view.py\<close>: the view of a history that the agent's model is given,
  with the events that condensations forgot left out and their last summary put in. The section on
  condensed histories proves what one more condensation does to the view; the condensers rest on it.
\<close>

section \<open>\<open>View.from_events\<close>\<close>

record view =
  v_events :: "event list"
  unhandled_condensation_request :: bool

fun condensation_of_event :: "event \<Rightarrow> condensation option" where
  "condensation_of_event e = (case ev_body e of Action (CondensationAction c) \<Rightarrow> Some c | _ \<Rightarrow> None)"

fun is_condensation_request :: "event \<Rightarrow> bool" where
  "is_condensation_request e = (case ev_body e of Action CondensationRequestAction \<Rightarrow> True | _ \<Rightarrow> False)"

text \<open>The set of forgotten ids, as the list of what is added to it.\<close>

definition forget_step :: "event \<Rightarrow> int list \<Rightarrow> exc + int list" where
  "forget_step e ids =
     rbind (case condensation_of_event e of
              None \<Rightarrow> Inr ids
            | Some c \<Rightarrow> rbind (forgotten c) (\<lambda>f. Inr (ids @ f @ [event_id e]))) (\<lambda>ids.
       Inr (if is_condensation_request e then ids @ [event_id e] else ids))"

text \<open>The summary of the last condensation that has one, and its offset.\<close>

fun last_summary :: "event list \<Rightarrow> (string \<times> int) option" where
  "last_summary [] = None"
| "last_summary (e # es) =
     (case condensation_of_event e of
        Some c \<Rightarrow>
          (case (cd_summary c, cd_summary_offset c) of
             (Some s, Some i) \<Rightarrow> Some (s, i)
           | _ \<Rightarrow> last_summary es)
      | None \<Rightarrow> last_summary es)"

fun unhandled :: "event list \<Rightarrow> bool" where
  "unhandled [] = False"
| "unhandled (e # es) =
     (if condensation_of_event e \<noteq> None then False
      else if is_condensation_request e then True
      else unhandled es)"

text \<open>\<open>xs.insert(i, x)\<close>.\<close>

definition list_insert :: "int \<Rightarrow> 'a \<Rightarrow> 'a list \<Rightarrow> 'a list" where
  "list_insert i x xs =
     (let k = slice_bound (int (length xs)) i in take k xs @ x # drop k xs)"

definition summary_event :: "string \<Rightarrow> event" where
  "summary_event s = new_event (Observation (AgentCondensationObservation s))"

definition from_events :: "event list \<Rightarrow> exc + view" where
  "from_events events =
     rbind (foldE forget_step events []) (\<lambda>forgotten_event_ids.
       let kept_events = filter (\<lambda>e. event_id e \<notin> set forgotten_event_ids) events;
           kept_events = (case last_summary (rev events) of
             None \<Rightarrow> kept_events
           | Some (summary, offset) \<Rightarrow> list_insert offset (summary_event summary) kept_events)
       in Inr \<lparr>v_events = kept_events, unhandled_condensation_request = unhandled (rev events)\<rparr>)"

section \<open>Condensed histories\<close>

text \<open>The ids of a history are distinct and its condensations valid: what the stream gives.\<close>

definition history_ok :: "event list \<Rightarrow> bool" where
  "history_ok h \<longleftrightarrow> sorted_wrt (<) (map event_id h) \<and> (\<forall>e \<in> set h. 0 \<le> event_id e) \<and>
     (\<forall>e \<in> set h. \<forall>c. condensation_of_event e = Some c \<longrightarrow> validate_field_polymorphism c)"

definition forgotten_in :: "event list \<Rightarrow> int list" where
  "forgotten_in h = (case foldE forget_step h [] of Inr ids \<Rightarrow> ids | Inl _ \<Rightarrow> [])"

definition kept :: "event list \<Rightarrow> event list" where
  "kept h = filter (\<lambda>e. event_id e \<notin> set (forgotten_in h)) h"

lemma forget_step_valid:
  assumes "\<forall>c. condensation_of_event e = Some c \<longrightarrow> validate_field_polymorphism c"
  shows "\<exists>new. \<forall>ids. forget_step e ids = Inr (ids @ new)"
proof (cases "condensation_of_event e")
  case None
  then show ?thesis
    by (intro exI [of _ "if is_condensation_request e then [event_id e] else []"])
      (simp add: forget_step_def)
next
  case (Some c)
  then obtain f where "forgotten c = Inr f" using assms forgotten_valid by blast
  with Some show ?thesis
    by (intro exI [of _ "f @ [event_id e] @ (if is_condensation_request e then [event_id e] else [])"])
      (simp add: forget_step_def)
qed

lemma forget_total:
  "\<forall>e \<in> set h. \<forall>c. condensation_of_event e = Some c \<longrightarrow> validate_field_polymorphism c \<Longrightarrow>
   \<exists>ids'. foldE forget_step h ids = Inr ids'"
proof (induction h arbitrary: ids)
  case (Cons e h)
  obtain new where "forget_step e ids = Inr (ids @ new)"
    using forget_step_valid [of e] Cons.prems by auto
  with Cons show ?case by auto
qed simp

lemma forgotten_in_eq: "history_ok h \<Longrightarrow> foldE forget_step h [] = Inr (forgotten_in h)"
  using forget_total [of h "[]"] by (auto simp: history_ok_def forgotten_in_def)

lemma from_events_eq:
  assumes "history_ok h"
  shows "from_events h = Inr \<lparr>v_events = (case last_summary (rev h) of
      None \<Rightarrow> kept h | Some (s, i) \<Rightarrow> list_insert i (summary_event s) (kept h)),
    unhandled_condensation_request = unhandled (rev h)\<rparr>"
  by (simp add: from_events_def forgotten_in_eq [OF assms] kept_def Let_def split: option.split)

text \<open>A condensation that is added to a history forgets what it names, and itself.\<close>

definition condensation_event :: "int \<Rightarrow> condensation \<Rightarrow> event" where
  "condensation_event i c = (new_event (Action (CondensationAction c)))\<lparr>ev_id := Some i\<rparr>"

lemma condensation_event_simps [simp]:
  "event_id (condensation_event i c) = i"
  "condensation_of_event (condensation_event i c) = Some c"
  "is_condensation_request (condensation_event i c) = False"
  by (simp_all add: condensation_event_def new_event_def event_id_def)

lemma forgotten_in_snoc:
  assumes "history_ok h" and "forgotten c = Inr ids"
  shows "forgotten_in (h @ [condensation_event i c]) = forgotten_in h @ ids @ [i]"
proof -
  have "foldE forget_step (h @ [condensation_event i c]) [] = Inr (forgotten_in h @ ids @ [i])"
    using assms(2)
    by (simp add: foldE_append forgotten_in_eq [OF assms(1)] forget_step_def
        del: condensation_of_event.simps is_condensation_request.simps)
  then show ?thesis by (simp add: forgotten_in_def)
qed

lemma kept_snoc:
  assumes ok: "history_ok h" and ids: "forgotten c = Inr ids"
    and new: "\<forall>e \<in> set h. event_id e < i"
  shows "kept (h @ [condensation_event i c]) = filter (\<lambda>e. event_id e \<notin> set ids) (kept h)"
proof -
  have "filter (\<lambda>e. event_id e \<notin> set (forgotten_in h) \<union> set ids \<union> {i}) h =
      filter (\<lambda>e. event_id e \<notin> set (forgotten_in h) \<and> event_id e \<notin> set ids) h"
    using new by (intro filter_cong) auto
  then show ?thesis
    by (simp add: kept_def forgotten_in_snoc [OF ok ids] conj_commute)
qed

lemma history_ok_snoc:
  assumes "history_ok h" and "\<forall>e \<in> set h. event_id e < i" and "0 \<le> i" and "validate_field_polymorphism c"
  shows "history_ok (h @ [condensation_event i c])"
  using assms by (auto simp: history_ok_def sorted_wrt_append simp del: condensation_of_event.simps)

text \<open>The view after a condensation, with its summary or with the one before.\<close>

lemma from_events_condensed:
  assumes ok: "history_ok h" and ids: "forgotten c = Inr ids" and valid: "validate_field_polymorphism c"
    and new: "\<forall>e \<in> set h. event_id e < i" "0 \<le> i"
  shows "from_events (h @ [condensation_event i c]) = Inr \<lparr>v_events =
      (case (case (cd_summary c, cd_summary_offset c) of (Some s, Some k) \<Rightarrow> Some (s, k)
             | _ \<Rightarrow> last_summary (rev h)) of
         None \<Rightarrow> filter (\<lambda>e. event_id e \<notin> set ids) (kept h)
       | Some (s, k) \<Rightarrow> list_insert k (summary_event s) (filter (\<lambda>e. event_id e \<notin> set ids) (kept h))),
     unhandled_condensation_request = False\<rparr>"
  using from_events_eq [OF history_ok_snoc [OF ok new valid]]
  by (simp add: kept_snoc [OF ok ids new(1)] del: condensation_of_event.simps split: option.split)

lemma kept_sorted: "history_ok h \<Longrightarrow> sorted_wrt (<) (map event_id (kept h))"
  by (auto simp: history_ok_def kept_def sorted_wrt_map intro: sorted_wrt_filter)

lemma kept_nonneg: "history_ok h \<Longrightarrow> e \<in> set (kept h) \<Longrightarrow> 0 \<le> event_id e"
  by (auto simp: history_ok_def kept_def)

text \<open>Forgetting a range of ids cuts a sorted list in the middle.\<close>

lemma filter_range:
  assumes "sorted_wrt (<) (map event_id (a @ m @ b))" and "m \<noteq> []"
  shows "filter (\<lambda>e. event_id e \<notin> set [event_id (hd m)..event_id (last m)]) (a @ m @ b) = a @ b"
proof -
  have a: "\<forall>e \<in> set a. event_id e < event_id (hd m)"
    using assms by (auto simp: sorted_wrt_append)
  have b: "\<forall>e \<in> set b. event_id (last m) < event_id e"
    using assms by (auto simp: sorted_wrt_append)
  have m: "\<forall>e \<in> set m. event_id (hd m) \<le> event_id e \<and> event_id e \<le> event_id (last m)"
  proof
    fix e
    assume e: "e \<in> set m"
    have s: "sorted (map event_id m)"
      using assms(1) by (auto simp: sorted_wrt_append intro: strict_sorted_imp_sorted)
    then show "event_id (hd m) \<le> event_id e \<and> event_id e \<le> event_id (last m)"
      using e assms(2) by (induction m) (auto split: if_splits)
  qed
  let ?p = "\<lambda>e. event_id e \<notin> set [event_id (hd m)..event_id (last m)]"
  have "filter ?p a = a" using a by (force simp: filter_id_conv)
  moreover have "filter ?p b = b" using b by (force simp: filter_id_conv)
  moreover have "filter ?p m = []" using m by (simp add: filter_empty_conv)
  ultimately show ?thesis by (simp only: filter_append) simp
qed

text \<open>Events that are neither condensations nor requests for one only make the view longer.\<close>

definition past_only :: "event list \<Rightarrow> bool" where
  "past_only h \<longleftrightarrow> (\<forall>j \<in> set (forgotten_in h). \<exists>e \<in> set h. j \<le> event_id e)"

definition plain :: "event \<Rightarrow> bool" where
  "plain e \<longleftrightarrow> condensation_of_event e = None \<and> \<not> is_condensation_request e"

lemma forget_plain: "\<forall>e \<in> set es. plain e \<Longrightarrow> foldE forget_step es ids = Inr ids"
  by (induction es) (simp_all add: plain_def forget_step_def
      del: condensation_of_event.simps is_condensation_request.simps)

lemma last_summary_plain: "\<forall>e \<in> set es. plain e \<Longrightarrow> last_summary (es @ h) = last_summary h"
  by (induction es) (simp_all add: plain_def del: condensation_of_event.simps)

lemma unhandled_plain: "\<forall>e \<in> set es. plain e \<Longrightarrow> unhandled (es @ h) = unhandled h"
  by (induction es) (simp_all add: plain_def del: condensation_of_event.simps is_condensation_request.simps)

lemma kept_plain:
  assumes "history_ok (h @ es)" and "past_only h" and "\<forall>e \<in> set es. plain e"
  shows "kept (h @ es) = kept h @ es"
proof -
  have h: "history_ok h" using assms(1) by (auto simp: history_ok_def sorted_wrt_append)
  have "foldE forget_step (h @ es) [] = Inr (forgotten_in h)"
    using forget_plain [OF assms(3), of "forgotten_in h"]
    by (simp add: foldE_append forgotten_in_eq [OF h])
  then have ids: "forgotten_in (h @ es) = forgotten_in h" by (simp add: forgotten_in_def [of "h @ es"])
  have "event_id e \<notin> set (forgotten_in h)" if e: "e \<in> set es" for e
  proof
    assume "event_id e \<in> set (forgotten_in h)"
    then obtain d where "d \<in> set h" "event_id e \<le> event_id d"
      using assms(2) by (auto simp: past_only_def)
    moreover have "event_id d < event_id e"
      using assms(1) e \<open>d \<in> set h\<close> by (auto simp: history_ok_def sorted_wrt_append)
    ultimately show False by simp
  qed
  then have "filter (\<lambda>e. event_id e \<notin> set (forgotten_in h)) es = es"
    by (auto intro: filter_True)
  then show ?thesis by (simp add: kept_def ids)
qed

lemma length_list_insert [simp]: "length (list_insert i x xs) = Suc (length xs)"
  by (simp add: list_insert_def Let_def)

lemma from_events_plain:
  assumes "history_ok (h @ es)" and "past_only h" and "\<forall>e \<in> set es. plain e" and "from_events h = Inr v"
  shows "\<exists>v'. from_events (h @ es) = Inr v' \<and>
    length (v_events v') = length (v_events v) + length es \<and>
    unhandled_condensation_request v' = unhandled_condensation_request v"
proof -
  have h: "history_ok h" using assms(1) by (auto simp: history_ok_def sorted_wrt_append)
  have "\<forall>e \<in> set (rev es). plain e" using assms(3) by simp
  note plain = last_summary_plain [OF this, of "rev h"] unhandled_plain [OF this, of "rev h"]
  show ?thesis
    using from_events_eq [OF h] from_events_eq [OF assms(1)] assms(4) plain
    by (auto simp: kept_plain [OF assms(1-3)] split: option.splits)
qed

end
