(* ===== verification/Condensers.thy ===== *)
theory Condensers
  imports Views Event_Serialization
begin

text \<open>
  \<open>OpenHands/openhands/memory/condenser\<close>: the condensers, which turn the view of a history into
  a smaller view or into a condensation action that shrinks the next view. A condenser is a
  function from a view to its result, or the exception, and the metadata batch that it added. The
  LLM, the text \<open>str(event)\<close> of an event and the parser of an LLM's reply are arguments, gathered
  in the record \<open>llm_service\<close>.
\<close>

section \<open>Results\<close>

datatype condense_result = RView view | RCondensation action

type_synonym condensed = "(exc + condense_result) \<times> dict"
type_synonym condenser = "view \<Rightarrow> condensed"

definition new_view :: "event list \<Rightarrow> view" where
  "new_view es = \<lparr>v_events = es, unhandled_condensation_request = False\<rparr>"

definition no_condensation :: condensation where
  "no_condensation = \<lparr>forgotten_event_ids = None, forgotten_events_start_id = None,
     forgotten_events_end_id = None, cd_summary = None, cd_summary_offset = None\<rparr>"

text \<open>\<open>Condensation(action=CondensationAction(...))\<close>.\<close>

definition condensation_result :: "condensation \<Rightarrow> exc + condense_result" where
  "condensation_result c = rbind (new_condensation c) (\<lambda>a. Inr (RCondensation a))"

text \<open>\<open>RollingCondenser.condense\<close>.\<close>

definition rolling_condense :: "(view \<Rightarrow> bool) \<Rightarrow> condenser \<Rightarrow> condenser" where
  "rolling_condense should_condense get_condensation v =
     (if should_condense v then get_condensation v else (Inr (RView v), []))"

definition py_min :: "int list \<Rightarrow> exc + int" where
  "py_min xs = (case xs of [] \<Rightarrow> Inl (ValueError ''min() arg is an empty sequence'')
     | x # xs \<Rightarrow> Inr (fold min xs x))"

definition py_max :: "int list \<Rightarrow> exc + int" where
  "py_max xs = (case xs of [] \<Rightarrow> Inl (ValueError ''max() arg is an empty sequence'')
     | x # xs \<Rightarrow> Inr (fold max xs x))"

definition forget_range :: "int list \<Rightarrow> (string \<times> int) option \<Rightarrow> exc + condense_result" where
  "forget_range ids summary =
     rbind (py_min ids) (\<lambda>s. rbind (py_max ids) (\<lambda>e.
       condensation_result (no_condensation\<lparr>forgotten_events_start_id := Some s,
         forgotten_events_end_id := Some e, cd_summary := map_option fst summary,
         cd_summary_offset := map_option snd summary\<rparr>)))"

text \<open>The checks of the constructors with a size, and their threshold.\<close>

record sizes =
  max_size :: int
  keep_first :: int

definition check_sizes :: "sizes \<Rightarrow> exc + unit" where
  "check_sizes c =
     (if keep_first c \<ge> max_size c div 2
      then Inl (ValueError ''keep_first must be less than half of max_size'')
      else if keep_first c < 0 then Inl (ValueError ''keep_first cannot be negative'')
      else if max_size c < 1 then Inl (ValueError ''max_size cannot be non-positive'')
      else Inr ())"

definition too_large :: "sizes \<Rightarrow> view \<Rightarrow> bool" where
  "too_large c v \<longleftrightarrow> int (length (v_events v)) > max_size c \<or> unhandled_condensation_request v"

section \<open>Forgetting\<close>

definition noop_condense :: condenser where
  "noop_condense v = (Inr (RView v), [])"

text \<open>\<open>AmortizedForgettingCondenser.get_condensation\<close>.\<close>

definition amortized_get :: "sizes \<Rightarrow> condenser" where
  "amortized_get c v =
     (let target_size = max_size c div 2;
          head = slice_to (keep_first c) (v_events v);
          events_from_tail = target_size - int (length head);
          tail = slice_from (- events_from_tail) (v_events v);
          event_ids_to_keep = map event_id (head @ tail);
          event_ids_to_forget =
            filter (\<lambda>i. i \<notin> set event_ids_to_keep) (map event_id (v_events v))
      in (forget_range event_ids_to_forget None, []))"

definition amortized_condense :: "sizes \<Rightarrow> condenser" where
  "amortized_condense c = rolling_condense (too_large c) (amortized_get c)"

text \<open>\<open>RecentEventsCondenser.condense\<close>.\<close>

definition recent_condense :: "int \<Rightarrow> int \<Rightarrow> condenser" where
  "recent_condense keep_first_events max_events v =
     (let head = slice_to keep_first_events (v_events v);
          tail_length = max 0 (max_events - int (length head));
          tail = slice_from (- tail_length) (v_events v)
      in (Inr (RView (new_view (head @ tail))), []))"

section \<open>Masking\<close>

definition mask_old :: "int \<Rightarrow> int \<Rightarrow> int \<Rightarrow> event \<Rightarrow> event" where
  "mask_old n attention_window i e =
     (if is_observation e \<and> i < n - attention_window then summary_event ''<MASKED>'' else e)"

definition masking_condense :: "int \<Rightarrow> condenser" where
  "masking_condense attention_window v =
     (Inr (RView (new_view (map (\<lambda>(i, e). mask_old (int (length (v_events v))) attention_window i e)
        (zip [0..int (length (v_events v)) - 1] (v_events v))))), [])"

text \<open>The loop of \<open>BrowserOutputCondenser\<close> from the end; \<open>cnt\<close> counts the browser outputs kept.\<close>

fun mask_browser :: "int \<Rightarrow> int \<Rightarrow> event list \<Rightarrow> event list" where
  "mask_browser attention_window cnt [] = []"
| "mask_browser attention_window cnt (e # es) =
     (case ev_body e of
        Observation (BrowserOutputObservation r) \<Rightarrow>
          if cnt \<ge> attention_window
          then summary_event (''Visited URL '' @ bo_url r @ newline # ''Content omitted'') #
               mask_browser attention_window cnt es
          else e # mask_browser attention_window (cnt + 1) es
      | _ \<Rightarrow> e # mask_browser attention_window cnt es)"

definition browser_condense :: "int \<Rightarrow> condenser" where
  "browser_condense attention_window v =
     (Inr (RView (new_view (rev (mask_browser attention_window 0 (rev (v_events v)))))), [])"

section \<open>The conversation window\<close>

fun is_system_message :: "event \<Rightarrow> bool" where
  "is_system_message e = (case ev_body e of Action (SystemMessageAction _) \<Rightarrow> True | _ \<Rightarrow> False)"

fun user_message :: "event \<Rightarrow> message_action option" where
  "user_message e = (case ev_body e of
     Action (MessageAction m) \<Rightarrow> if ev_source e = Some USER then Some m else None | _ \<Rightarrow> None)"

fun recalls :: "string \<Rightarrow> event \<Rightarrow> bool" where
  "recalls query e = (case ev_body e of Action (RecallAction _ q _) \<Rightarrow> q = query | _ \<Rightarrow> False)"

definition caused_by :: "int \<Rightarrow> event \<Rightarrow> bool" where
  "caused_by i e \<longleftrightarrow> is_observation e \<and> ev_cause e = Some i"

text \<open>The ids of the essential events: the system message, the first user message, its recall.\<close>

definition essential_ids :: "event list \<Rightarrow> nat \<Rightarrow> message_action \<Rightarrow> int list" where
  "essential_ids events k m =
     (case List.find is_system_message events of Some e \<Rightarrow> [event_id e] | None \<Rightarrow> []) @
     [event_id (events ! k)] @
     (let later = drop (Suc k) events in
      case first_index (recalls (ma_content m)) later of
        None \<Rightarrow> []
      | Some j \<Rightarrow> event_id (later ! j) #
          (case List.find (caused_by (event_id (later ! j))) (drop (Suc j) later) of
             None \<Rightarrow> [] | Some e \<Rightarrow> [event_id e]))"

definition window_start :: "event list \<Rightarrow> int \<Rightarrow> nat" where
  "window_start events num_essential_events =
     (let total_events = int (length events);
          num_recent_to_keep = max 1 ((total_events - num_essential_events) div 2);
          slice_start_index = nat (max 0 (total_events - num_recent_to_keep));
          recent = drop slice_start_index events
      in slice_start_index + length (takeWhile is_observation recent))"

definition window_forgotten :: "event list \<Rightarrow> int list \<Rightarrow> int list" where
  "window_forgotten events essential =
     (let keep = essential @ map event_id (drop (window_start events (int (length essential))) events)
      in sort (remdups (filter (\<lambda>i. i \<notin> set keep) (map event_id events))))"

definition window_get :: condenser where
  "window_get v =
     (let events = v_events v;
          nothing = (condensation_result (no_condensation\<lparr>forgotten_event_ids := Some []\<rparr>), [])
      in if events = [] then nothing
      else case first_index (\<lambda>e. user_message e \<noteq> None) events of
        None \<Rightarrow> nothing
      | Some k \<Rightarrow>
          let ids = window_forgotten events (essential_ids events k (the (user_message (events ! k))))
          in if ids \<noteq> [] then
               if length ids > 1 \<and> last ids - hd ids = int (length ids) - 1
               then (condensation_result (no_condensation\<lparr>forgotten_events_start_id := Some (hd ids),
                       forgotten_events_end_id := Some (last ids)\<rparr>), [])
               else (condensation_result (no_condensation\<lparr>forgotten_event_ids := Some ids\<rparr>), [])
             else nothing)"

definition window_condense :: condenser where
  "window_condense = rolling_condense unhandled_condensation_request window_get"

section \<open>Condensers with an LLM\<close>

record llm_response =
  resp_content :: string
  resp_tool_calls :: "(string \<times> string) list"   \<comment> \<open>name, arguments\<close>
  resp_dump :: json

text \<open>
  \<open>complete\<close> is the call of the LLM with a list of user messages, \<open>usage\<close> its metrics after the
  call, \<open>event_text\<close> is \<open>str(event)\<close>, and \<open>parse_ids\<close> and \<open>parse_object\<close> read JSON.
\<close>

record llm_service =
  complete :: "string list \<Rightarrow> exc + llm_response"
  usage :: "llm_response \<Rightarrow> dict"
  event_text :: "event \<Rightarrow> string"
  parse_ids :: "string \<Rightarrow> exc + int list"
  parse_object :: "string \<Rightarrow> exc + dict"
  s_env :: py_env

definition truncate_content :: "string \<Rightarrow> int option \<Rightarrow> string" where
  "truncate_content content max_chars =
     (case max_chars of
        None \<Rightarrow> content
      | Some m \<Rightarrow>
          if int (length content) \<le> m \<or> m < 0 then content
          else let half = m div 2
               in slice_to half content @
                  (newline # ''[... Observation truncated due to length ...]'' @ [newline]) @
                  slice_from (- half) content)"

definition ATTENTION_PROMPT :: string where
  \<open>ATTENTION_PROMPT = ''You will be given a list of actions, observations, and thoughts from a coding agent.
        Each item in the list has an identifier. Please sort the identifiers in order of how important the
        contents of the item are for the next step of the coding agent'' @ [CHR 0x27] @ ''s task, from most important to least
        important.''\<close>

text \<open>\<open>LLMAttentionCondenser.get_condensation\<close>.\<close>

fun fill_ids :: "int \<Rightarrow> event list \<Rightarrow> int list \<Rightarrow> int list" where
  "fill_ids n [] ids = ids"
| "fill_ids n (e # es) ids =
     (if int (length ids) \<ge> n then ids
      else fill_ids n es (if event_id e \<in> set ids then ids else ids @ [event_id e]))"

definition attention_messages :: "llm_service \<Rightarrow> event list \<Rightarrow> exc + string list" where
  "attention_messages svc events =
     foldE (\<lambda>e ms. rbind (event_message (s_env svc) e) (\<lambda>m.
       Inr (ms @ [''<ID>'' @ show_int (event_id e) @ ''</ID>'' @ newline # ''<CONTENT>'' @ m @
         ''</CONTENT>'']))) events [ATTENTION_PROMPT]"

definition attention_get :: "llm_service \<Rightarrow> sizes \<Rightarrow> condenser" where
  "attention_get svc c v =
     (let target_size = max_size c div 2;
          head_event_ids = map event_id (slice_to (keep_first c) (v_events v));
          events_from_tail = target_size - int (length head_event_ids)
      in case rbind (attention_messages svc (v_events v)) (\<lambda>ms. rbind (complete svc ms) (\<lambda>r.
           rbind (parse_ids svc (resp_content r)) (\<lambda>ids. Inr (r, ids)))) of
           Inl x \<Rightarrow> (Inl x, [])
         | Inr (response, ids) \<Rightarrow>
             let response_ids = slice_to events_from_tail (filter (\<lambda>i. i \<notin> set head_event_ids) ids);
                 response_ids = fill_ids events_from_tail (rev (v_events v)) response_ids
             in (condensation_result (no_condensation\<lparr>forgotten_event_ids :=
                   Some (filter (\<lambda>i. i \<notin> set response_ids \<and> i \<notin> set head_event_ids)
                     (map event_id (v_events v)))\<rparr>),
                 [(''metrics'', JObj (usage svc response))]))"

definition attention_condense :: "llm_service \<Rightarrow> sizes \<Rightarrow> condenser" where
  "attention_condense svc c = rolling_condense (too_large c) (attention_get svc c)"

section \<open>Summarising\<close>

definition SUMMARY_PROMPT :: string where
  \<open>SUMMARY_PROMPT = ''You are maintaining a context-aware state summary for an interactive agent.
You will be given a list of events corresponding to actions taken by the agent, and the most recent previous summary if one exists.
If the events being summarized contain ANY task-tracking, you MUST include a TASK_TRACKING section to maintain continuity.
When referencing tasks make sure to preserve exact task IDs and statuses.

Track:

USER_CONTEXT: (Preserve essential user requirements, goals, and clarifications in concise form)

TASK_TRACKING: {Active tasks, their IDs and statuses - PRESERVE TASK IDs}

COMPLETED: (Tasks completed so far, with brief results)
PENDING: (Tasks that still need to be done)
CURRENT_STATE: (Current variables, data structures, or relevant state)

For code-specific tasks, also include:
CODE_STATE: {File paths, function signatures, data structures}
TESTS: {Failing cases, error messages, outputs}
CHANGES: {Code edits, variable updates}
DEPS: {Dependencies, imports, external calls}
VERSION_CONTROL_STATUS: {Repository state, current branch, PR status, commit history}

PRIORITIZE:
1. Adapt tracking format to match the actual task type
2. Capture key user requirements and goals
3. Distinguish between completed and pending tasks
4. Keep all sections concise and relevant

SKIP: Tracking irrelevant details for the current task type

Example formats:

For code tasks:
USER_CONTEXT: Fix FITS card float representation issue
COMPLETED: Modified mod_float() in card.py, all tests passing
PENDING: Create PR, update documentation
CODE_STATE: mod_float() in card.py updated
TESTS: test_format() passed
CHANGES: str(val) replaces f"{val:.16G}"
DEPS: None modified
VERSION_CONTROL_STATUS: Branch: fix-float-precision, Latest commit: a1b2c3d

For other tasks:
USER_CONTEXT: Write 20 haikus based on coin flip results
COMPLETED: 15 haikus written for results [T,H,T,H,T,H,T,T,H,T,H,T,H,T,H]
PENDING: 5 more haikus needed
CURRENT_STATE: Last flip: Heads, Haiku count: 15/20''\<close>

definition STRUCTURED_PROMPT :: string where
  \<open>STRUCTURED_PROMPT = ''You are maintaining a context-aware state summary for an interactive software agent. This summary is critical because it:
1. Preserves essential context when conversation history grows too large
2. Prevents lost work when the session length exceeds token limits
3. Helps maintain continuity across multiple interactions

You will be given:
- A list of events (actions taken by the agent)
- The most recent previous summary (if one exists)

Capture all relevant information, especially:
- User requirements that were explicitly stated
- Work that has been completed
- Tasks that remain pending
- Current state of code, variables, and data structures
- The status of any version control operations''\<close>

fun condensation_summary :: "event \<Rightarrow> string option" where
  "condensation_summary e =
     (case ev_body e of Observation (AgentCondensationObservation s) \<Rightarrow> Some s | _ \<Rightarrow> None)"

text \<open>What both summarising condensers do before they ask: the events to forget and the prompt.\<close>

definition summarized_events :: "sizes \<Rightarrow> event list \<Rightarrow> event list" where
  "summarized_events c es =
     (let head = slice_to (keep_first c) es;
          events_from_tail = max_size c div 2 - int (length head) - 1
      in filter (\<lambda>e. condensation_summary e = None)
           (slice (Some (keep_first c)) (Some (- events_from_tail)) es))"

definition previous_summary :: "sizes \<Rightarrow> event list \<Rightarrow> exc + string" where
  "previous_summary c es =
     rbind (index es (keep_first c)) (\<lambda>e.
       Inr (case condensation_summary e of Some s \<Rightarrow> s | None \<Rightarrow> ''No events summarized''))"

definition summary_prompt :: "llm_service \<Rightarrow> int \<Rightarrow> string \<Rightarrow> string \<Rightarrow> event list \<Rightarrow> string" where
  "summary_prompt svc max_event_length intro previous events =
     intro @ [newline, newline] @
     ''<PREVIOUS SUMMARY>'' @ newline # truncate_content previous (Some max_event_length) @
     newline # ''</PREVIOUS SUMMARY>'' @ [newline] @ [newline, newline] @
     concat (map (\<lambda>e. ''<EVENT id='' @ show_int (event_id e) @ ''>'' @ newline #
       truncate_content (event_text svc e) (Some max_event_length) @ newline # ''</EVENT>'' @ [newline])
       events)"

definition llm_summary_get :: "llm_service \<Rightarrow> sizes \<Rightarrow> int \<Rightarrow> condenser" where
  "llm_summary_get svc c max_event_length v =
     (let events = summarized_events c (v_events v) in
      case rbind (previous_summary c (v_events v)) (\<lambda>previous.
             complete svc [summary_prompt svc max_event_length SUMMARY_PROMPT previous events @
               ''Now summarize the events using the rules above.'']) of
        Inl x \<Rightarrow> (Inl x, [])
      | Inr response \<Rightarrow>
          (forget_range (map event_id events) (Some (resp_content response, keep_first c)),
           [(''response'', resp_dump response), (''metrics'', JObj (usage svc response))]))"

definition llm_summary_condense :: "llm_service \<Rightarrow> sizes \<Rightarrow> int \<Rightarrow> condenser" where
  "llm_summary_condense svc c max_event_length =
     rolling_condense (too_large c) (llm_summary_get svc c max_event_length)"

section \<open>Structured summaries\<close>

text \<open>The fields of \<open>StateSummary\<close> with their descriptions, and the values given by a tool call.\<close>

definition state_summary_fields :: "(string \<times> string) list" where
  \<open>state_summary_fields = [
     (''user_context'', ''Essential user requirements, goals, and clarifications in concise form.''),
     (''completed_tasks'', ''List of tasks completed so far with brief results.''),
     (''pending_tasks'', ''List of tasks that still need to be done.''),
     (''current_state'', ''Current variables, data structures, or other relevant state information.''),
     (''files_modified'', ''List of files that have been created or modified.''),
     (''function_changes'', ''List of functions that have been created or modified.''),
     (''data_structures'', ''List of key data structures in use or modified.''),
     (''tests_written'', ''Whether tests have been written for the changes. True, false, or unknown.''),
     (''tests_passing'', ''Whether all tests are currently passing. True, false, or unknown.''),
     (''failing_tests'', ''List of names or descriptions of any failing tests.''),
     (''error_messages'', ''List of key error messages encountered.''),
     (''branch_created'', ''Whether a branch has been created for this work. True, false, or unknown.''),
     (''branch_name'', ''Name of the current working branch if known.''),
     (''commits_made'', ''Whether any commits have been made. True, false, or unknown.''),
     (''pr_created'', ''Whether a pull request has been created. True, false, or unknown.''),
     (''pr_status'', ''Status of any pull request: '' @ [CHR 0x27] @ ''draft'' @ [CHR 0x27] @ '', '' @ [CHR 0x27] @ ''open'' @ [CHR 0x27] @ '', '' @ [CHR 0x27] @ ''merged'' @ [CHR 0x27] @ '', '' @ [CHR 0x27] @ ''closed'' @ [CHR 0x27] @ '', or '' @ [CHR 0x27] @ ''unknown'' @ [CHR 0x27] @ ''.''),
     (''dependencies'', ''List of dependencies or imports that have been added or modified.''),
     (''other_relevant_context'', ''Any other important information that doesn'' @ [CHR 0x27] @ ''t fit into the categories above.'')]\<close>

definition tool_description :: json where
  "tool_description = JObj [(''type'', JStr ''function''),
     (''function'', JObj [(''name'', JStr ''create_state_summary''),
       (''description'', JStr (''Creates a comprehensive summary of the current state of the interaction to preserve context when history grows too large. '' @
          ''You must include non-empty values for user_context, completed_tasks, and pending_tasks.'')),
       (''parameters'', JObj [(''type'', JStr ''object''),
         (''properties'', JObj (map (\<lambda>(f, d). (f, JObj [(''type'', JStr ''string''), (''description'', JStr d)]))
            state_summary_fields)),
         (''required'', JList [JStr ''user_context'', JStr ''completed_tasks'', JStr ''pending_tasks''])])])]"

type_synonym state_summary = "string \<Rightarrow> string"

text \<open>\<open>StateSummary.model_validate\<close>: every field a string, absent ones empty.\<close>

definition validate_summary :: "dict \<Rightarrow> exc + state_summary" where
  "validate_summary d =
     (if \<forall>(f, _) \<in> set state_summary_fields.
           (case map_of d f of None \<Rightarrow> True | Some j \<Rightarrow> as_str j \<noteq> None)
      then Inr (\<lambda>f. case map_of d f of Some (JStr s) \<Rightarrow> s | _ \<Rightarrow> [])
      else Inl (ValueError ''validation error for StateSummary''))"

definition show_summary :: "state_summary \<Rightarrow> string" where
  "show_summary s = join [newline, newline]
     [''# State Summary'',
      ''## Core Information'',
      ''**User Context**: '' @ s ''user_context'',
      ''**Completed Tasks**: '' @ s ''completed_tasks'',
      ''**Pending Tasks**: '' @ s ''pending_tasks'',
      ''**Current State**: '' @ s ''current_state'',
      ''## Code Changes'',
      ''**Files Modified**: '' @ s ''files_modified'',
      ''**Function Changes**: '' @ s ''function_changes'',
      ''**Data Structures**: '' @ s ''data_structures'',
      ''**Dependencies**: '' @ s ''dependencies'',
      ''## Testing Status'',
      ''**Tests Written**: '' @ s ''tests_written'',
      ''**Tests Passing**: '' @ s ''tests_passing'',
      ''**Failing Tests**: '' @ s ''failing_tests'',
      ''**Error Messages**: '' @ s ''error_messages'',
      ''## Version Control'',
      ''**Branch Created**: '' @ s ''branch_created'',
      ''**Branch Name**: '' @ s ''branch_name'',
      ''**Commits Made**: '' @ s ''commits_made'',
      ''**PR Created**: '' @ s ''pr_created'',
      ''**PR Status**: '' @ s ''pr_status'',
      ''## Additional Context'',
      ''**Other Relevant Context**: '' @ s ''other_relevant_context'']"

text \<open>The tool call in the response; any failure to read it gives the empty summary.\<close>

definition parse_summary :: "llm_service \<Rightarrow> llm_response \<Rightarrow> state_summary" where
  "parse_summary svc r =
     (case (case List.find (\<lambda>(name, _). name = ''create_state_summary'') (resp_tool_calls r) of
              None \<Rightarrow> Inl (ValueError ''create_state_summary tool call not found'')
            | Some (_, arguments) \<Rightarrow> rbind (parse_object svc arguments) validate_summary) of
        Inr s \<Rightarrow> s
      | Inl _ \<Rightarrow> (\<lambda>_. []))"

definition structured_get :: "llm_service \<Rightarrow> sizes \<Rightarrow> int \<Rightarrow> condenser" where
  "structured_get svc c max_event_length v =
     (let events = summarized_events c (v_events v) in
      case rbind (previous_summary c (v_events v)) (\<lambda>previous.
             complete svc [summary_prompt svc max_event_length STRUCTURED_PROMPT previous events]) of
        Inl x \<Rightarrow> (Inl x, [])
      | Inr response \<Rightarrow>
          (forget_range (map event_id events)
             (Some (show_summary (parse_summary svc response), keep_first c)),
           [(''response'', resp_dump response), (''metrics'', JObj (usage svc response))]))"

definition structured_condense :: "llm_service \<Rightarrow> sizes \<Rightarrow> int \<Rightarrow> condenser" where
  "structured_condense svc c max_event_length =
     rolling_condense (too_large c) (structured_get svc c max_event_length)"

section \<open>Pipelines\<close>

text \<open>The result and the metadata batches of the condensers that were run.\<close>

fun pipeline_condense :: "condenser list \<Rightarrow> view \<Rightarrow> (exc + condense_result) \<times> dict list" where
  "pipeline_condense [] v = (Inr (RView v), [])"
| "pipeline_condense (f # fs) v =
     (case f v of
        (Inr (RView v'), batch) \<Rightarrow> (case pipeline_condense fs v' of (r, bs) \<Rightarrow> (r, batch # bs))
      | (r, batch) \<Rightarrow> (r, [batch]))"

section \<open>Metadata\<close>

definition CONDENSER_METADATA_KEY :: string where
  "CONDENSER_METADATA_KEY = ''condenser_meta''"

definition get_condensation_metadata :: "(string, dict list) pydict \<Rightarrow> dict list" where
  "get_condensation_metadata extra_data =
     (case map_of extra_data CONDENSER_METADATA_KEY of Some ms \<Rightarrow> ms | None \<Rightarrow> [])"

definition write_metadata :: "dict \<Rightarrow> (string, dict list) pydict \<Rightarrow> (string, dict list) pydict" where
  "write_metadata batch extra_data =
     dict_set extra_data CONDENSER_METADATA_KEY
       (get_condensation_metadata extra_data @ (if batch \<noteq> [] then [batch] else []))"

section \<open>Configurations\<close>

text \<open>The configuration of a condenser; \<open>from_config\<close> is the condenser or the exception.\<close>

datatype condenser_config =
    NoOpCondenserConfig
  | ObservationMaskingCondenserConfig int
  | BrowserOutputCondenserConfig int
  | RecentEventsCondenserConfig int int
  | LLMSummarizingCondenserConfig sizes int
  | AmortizedForgettingCondenserConfig sizes
  | LLMAttentionCondenserConfig sizes
  | StructuredSummaryCondenserConfig sizes int
  | CondenserPipelineConfig "condenser_config list"
  | ConversationWindowCondenserConfig

text \<open>The bounds that the fields declare.\<close>

definition sizes_valid :: "sizes \<Rightarrow> bool" where
  "sizes_valid c \<longleftrightarrow> 0 \<le> keep_first c \<and> 2 \<le> max_size c"

fun config_valid :: "condenser_config \<Rightarrow> bool" where
  "config_valid (ObservationMaskingCondenserConfig w) = (1 \<le> w)"
| "config_valid (BrowserOutputCondenserConfig w) = (1 \<le> w)"
| "config_valid (RecentEventsCondenserConfig k m) = (0 \<le> k \<and> 1 \<le> m)"
| "config_valid (LLMSummarizingCondenserConfig c _) = sizes_valid c"
| "config_valid (AmortizedForgettingCondenserConfig c) = sizes_valid c"
| "config_valid (LLMAttentionCondenserConfig c) = sizes_valid c"
| "config_valid (StructuredSummaryCondenserConfig c _) = sizes_valid c"
| "config_valid (CondenserPipelineConfig cs) = list_all config_valid cs"
| "config_valid _ = True"

text \<open>A pipeline in a pipeline writes its own, empty, batch.\<close>

datatype built = Single condenser | Pipeline "condenser list"

fun as_element :: "built \<Rightarrow> condenser" where
  "as_element (Single f) v = f v"
| "as_element (Pipeline fs) v = (fst (pipeline_condense fs v), [])"

fun condense_built :: "built \<Rightarrow> view \<Rightarrow> (exc + condense_result) \<times> dict list" where
  "condense_built (Single f) v = (case f v of (r, batch) \<Rightarrow> (r, [batch]))"
| "condense_built (Pipeline fs) v = pipeline_condense fs v"

fun from_config :: "llm_service \<Rightarrow> condenser_config \<Rightarrow> exc + built"
  and from_configs :: "llm_service \<Rightarrow> condenser_config list \<Rightarrow> exc + condenser list" where
  "from_config svc NoOpCondenserConfig = Inr (Single noop_condense)"
| "from_config svc (ObservationMaskingCondenserConfig w) = Inr (Single (masking_condense w))"
| "from_config svc (BrowserOutputCondenserConfig w) = Inr (Single (browser_condense w))"
| "from_config svc (RecentEventsCondenserConfig k m) = Inr (Single (recent_condense k m))"
| "from_config svc (LLMSummarizingCondenserConfig c n) =
     rbind (check_sizes c) (\<lambda>_. Inr (Single (llm_summary_condense svc c n)))"
| "from_config svc (AmortizedForgettingCondenserConfig c) =
     rbind (check_sizes c) (\<lambda>_. Inr (Single (amortized_condense c)))"
| "from_config svc (LLMAttentionCondenserConfig c) =
     rbind (check_sizes c) (\<lambda>_. Inr (Single (attention_condense svc c)))"
| "from_config svc (StructuredSummaryCondenserConfig c n) =
     rbind (check_sizes c) (\<lambda>_. Inr (Single (structured_condense svc c n)))"
| "from_config svc (CondenserPipelineConfig cs) =
     rbind (from_configs svc cs) (\<lambda>fs. Inr (Pipeline fs))"
| "from_config svc ConversationWindowCondenserConfig = Inr (Single window_condense)"
| "from_configs svc [] = Inr []"
| "from_configs svc (c # cs) =
     rbind (from_config svc c) (\<lambda>b. rbind (from_configs svc cs) (\<lambda>fs. Inr (as_element b # fs)))"

end
