(* ===== verification/Condensers_Correct.thy ===== *)
theory Condensers_Correct
  imports Condensers
begin

text \<open>
  The contract of the rolling condensers: a view that is too large is condensed, and the view of
  the history with the condensation is small again, so the next step gets a view and not another
  condensation. The condensers that forget and the one that summarises interpret it.
\<close>

section \<open>Forgetting the middle of a history\<close>

lemma py_min_sorted: "sorted (x # xs) \<Longrightarrow> py_min (x # xs) = Inr x"
proof -
  assume "sorted (x # xs)"
  then have "fold min xs x = x" by (induction xs) (auto simp: min_def)
  then show ?thesis by (simp add: py_min_def)
qed

lemma py_max_sorted: "sorted (xs @ [x]) \<Longrightarrow> py_max (xs @ [x]) = Inr x"
proof -
  assume s: "sorted (xs @ [x])"
  have "fold max ys y = Max (insert y (set ys))" for ys and y :: int
    using Max.set_eq_fold [of y ys] by simp
  moreover have "Max (set (xs @ [x])) = x"
    using s by (intro Max_eqI) (auto simp: sorted_append)
  ultimately show ?thesis by (cases xs) (simp_all add: py_max_def insert_commute)
qed

definition range_condensation :: "event list \<Rightarrow> (string \<times> int) option \<Rightarrow> condensation" where
  "range_condensation m summary = no_condensation\<lparr>forgotten_events_start_id := Some (event_id (hd m)),
     forgotten_events_end_id := Some (event_id (last m)), cd_summary := map_option fst summary,
     cd_summary_offset := map_option snd summary\<rparr>"

lemma range_condensation_valid [simp]:
  "validate_field_polymorphism (range_condensation m summary)"
  "forgotten (range_condensation m summary) = Inr [event_id (hd m)..event_id (last m)]"
  by (cases summary; simp add: range_condensation_def no_condensation_def
      validate_field_polymorphism_def forgotten_def)+

lemma forget_range_sorted:
  assumes "sorted_wrt (<) (map event_id m)" and "m \<noteq> []"
  shows "forget_range (map event_id m) summary =
    Inr (RCondensation (CondensationAction (range_condensation m summary)))"
proof -
  have s: "sorted (map event_id m)" using assms(1) by (rule strict_sorted_imp_sorted)
  obtain x xs where x: "m = x # xs" using assms(2) by (cases m) auto
  obtain ys y where y: "m = ys @ [y]" using assms(2) by (cases m rule: rev_cases) auto
  have "py_min (map event_id m) = Inr (event_id (hd m))"
    using s py_min_sorted [of "event_id x" "map event_id xs"] by (simp add: x)
  moreover have "py_max (map event_id m) = Inr (event_id (last m))"
    using s py_max_sorted [of "map event_id ys" "event_id y"] by (simp add: y)
  ultimately show ?thesis
    using range_condensation_valid(1) [of m summary]
    by (simp add: forget_range_def condensation_result_def new_condensation_def range_condensation_def)
qed

text \<open>The kept events after the middle is forgotten, and the view with its summary.\<close>

lemma condense_middle:
  assumes ok: "history_ok h" and split: "kept h = a @ m @ b" "m \<noteq> []"
    and new: "\<forall>e \<in> set h. event_id e < i" "0 \<le> i"
  shows "from_events (h @ [condensation_event i (range_condensation m (Some (s, k)))]) =
      Inr (new_view (list_insert k (summary_event s) (a @ b)))"
    and "last_summary (rev h) = None \<Longrightarrow>
      from_events (h @ [condensation_event i (range_condensation m None)]) = Inr (new_view (a @ b))"
proof -
  have f: "filter (\<lambda>e. event_id e \<notin> set [event_id (hd m)..event_id (last m)]) (kept h) = a @ b"
    using filter_range [of a m b] kept_sorted [OF ok] split by simp
  note from_events_condensed [OF ok range_condensation_valid(2,1) new]
  note v = this [unfolded f]
  show "from_events (h @ [condensation_event i (range_condensation m (Some (s, k)))]) =
      Inr (new_view (list_insert k (summary_event s) (a @ b)))"
    using v [of m "Some (s, k)"] f by (simp add: range_condensation_def new_view_def)
  show "last_summary (rev h) = None \<Longrightarrow>
      from_events (h @ [condensation_event i (range_condensation m None)]) = Inr (new_view (a @ b))"
    using v [of m None] f by (simp add: range_condensation_def new_view_def no_condensation_def)
qed

lemma past_only_snoc:
  assumes "history_ok h" and "past_only h" and "forgotten c = Inr ids"
    and "\<forall>j \<in> set ids. \<exists>e \<in> set h. j \<le> event_id e"
  shows "past_only (h @ [condensation_event i c])"
  using assms by (auto simp: past_only_def forgotten_in_snoc)

section \<open>The contract\<close>

text \<open>
  \<open>fits\<close> are the histories that a condenser works on (which summaries they hold). Condensing a
  view above the limit gives a valid action, and with it the view has at most half the limit.
\<close>

definition next_id :: "event list \<Rightarrow> int \<Rightarrow> bool" where
  "next_id h i \<longleftrightarrow> 0 \<le> i \<and> (\<forall>e \<in> set h. event_id e < i)"

locale rolling_condenser =
  fixes valid :: "'c \<Rightarrow> bool"
    and limit :: "'c \<Rightarrow> int"
    and should :: "'c \<Rightarrow> view \<Rightarrow> bool"
    and get :: "'c \<Rightarrow> condenser"
    and fits :: "'c \<Rightarrow> event list \<Rightarrow> bool"
  assumes should_iff: "should c v \<longleftrightarrow>
      limit c < int (length (v_events v)) \<or> unhandled_condensation_request v"
    and condenses: "valid c \<Longrightarrow> history_ok h \<Longrightarrow> past_only h \<Longrightarrow> fits c h \<Longrightarrow> from_events h = Inr v \<Longrightarrow>
      limit c < int (length (v_events v)) \<Longrightarrow>
      \<exists>a batch. get c v = (Inr (RCondensation (CondensationAction a)), batch) \<and>
        validate_field_polymorphism a \<and>
        (\<forall>i. next_id h i \<longrightarrow> fits c (h @ [condensation_event i a]) \<and>
           past_only (h @ [condensation_event i a]) \<and>
           (\<exists>v'. from_events (h @ [condensation_event i a]) = Inr v' \<and>
              int (length (v_events v')) \<le> limit c div 2 \<and> \<not> unhandled_condensation_request v'))"
    and limit_pos: "valid c \<Longrightarrow> 0 < limit c"
begin

lemma no_condensation_below:
  "int (length (v_events v)) \<le> limit c \<Longrightarrow> \<not> unhandled_condensation_request v \<Longrightarrow>
   rolling_condense (should c) (get c) v = (Inr (RView v), [])"
  by (simp add: rolling_condense_def should_iff)

text \<open>A view above the limit is condensed, and half of the limit is then free for new events.\<close>

lemma amortised:
  assumes "valid c" "history_ok h" "past_only h" "fits c h" "from_events h = Inr v"
    and "limit c < int (length (v_events v))" and i: "next_id h i"
  shows "\<exists>a batch. rolling_condense (should c) (get c) v =
      (Inr (RCondensation (CondensationAction a)), batch) \<and>
    (\<forall>es. (\<forall>e \<in> set es. plain e) \<longrightarrow> history_ok (h @ condensation_event i a # es) \<longrightarrow>
       int (length es) \<le> limit c - limit c div 2 \<longrightarrow>
       (\<exists>v'. from_events (h @ condensation_event i a # es) = Inr v' \<and>
          int (length (v_events v')) \<le> limit c \<and>
          rolling_condense (should c) (get c) v' = (Inr (RView v'), [])))"
proof -
  obtain a batch where get: "get c v = (Inr (RCondensation (CondensationAction a)), batch)"
    and after: "past_only (h @ [condensation_event i a])"
      "\<exists>v'. from_events (h @ [condensation_event i a]) = Inr v' \<and>
         int (length (v_events v')) \<le> limit c div 2 \<and> \<not> unhandled_condensation_request v'"
    using condenses [OF assms(1-6)] i by blast
  from after(2) obtain v1 where v1: "from_events (h @ [condensation_event i a]) = Inr v1"
      "int (length (v_events v1)) \<le> limit c div 2" "\<not> unhandled_condensation_request v1" by blast
  have "rolling_condense (should c) (get c) v = (Inr (RCondensation (CondensationAction a)), batch)"
    using get assms(6) by (simp add: rolling_condense_def should_iff)
  moreover have "\<exists>v'. from_events (h @ condensation_event i a # es) = Inr v' \<and>
          int (length (v_events v')) \<le> limit c \<and>
          rolling_condense (should c) (get c) v' = (Inr (RView v'), [])"
    if es: "\<forall>e \<in> set es. plain e" "history_ok (h @ condensation_event i a # es)"
      "int (length es) \<le> limit c - limit c div 2" for es
  proof -
    from from_events_plain [OF _ after(1) es(1) v1(1)] es(2) obtain v' where
      "from_events (h @ condensation_event i a # es) = Inr v'"
      "length (v_events v') = length (v_events v1) + length es" "\<not> unhandled_condensation_request v'"
      using v1(3) by auto
    with v1(2) es(3) show ?thesis by (auto intro!: no_condensation_below)
  qed
  ultimately show ?thesis by blast
qed

end

section \<open>Forgetting\<close>

definition small_enough :: "sizes \<Rightarrow> bool" where
  "small_enough c \<longleftrightarrow> check_sizes c = Inr () \<and> 2 \<le> max_size c"

definition no_summary :: "sizes \<Rightarrow> event list \<Rightarrow> bool" where
  "no_summary c h \<longleftrightarrow> last_summary (rev h) = None"

lemma small_enoughD:
  "small_enough c \<Longrightarrow> 0 \<le> keep_first c \<and> keep_first c < max_size c div 2 \<and> 2 \<le> max_size c"
  by (auto simp: small_enough_def check_sizes_def split: if_splits)

lemma ids_of_middle:
  assumes "sorted_wrt (<) (map event_id (a @ m @ b))"
  shows "filter (\<lambda>i. i \<notin> set (map event_id (a @ b))) (map event_id (a @ m @ b)) = map event_id m"
proof -
  have d: "distinct (map event_id (a @ m @ b))"
    using assms by (rule strict_sorted_iff [THEN iffD1, THEN conjunct2])
  let ?p = "\<lambda>i. i \<notin> set (map event_id (a @ b))"
  have "filter ?p (map event_id a) = []" "filter ?p (map event_id b) = []"
    by (auto simp: filter_empty_conv)
  moreover have "filter ?p (map event_id m) = map event_id m"
    using d by (intro filter_True) auto
  ultimately show ?thesis by (simp only: map_append filter_append) simp
qed

lemma amortized_get_view:
  assumes c: "small_enough c" and ok: "history_ok h" and none: "no_summary c h"
    and v: "from_events h = Inr v" and large: "max_size c < int (length (v_events v))"
  shows "\<exists>m. m \<noteq> [] \<and> set m \<subseteq> set h \<and>
    kept h = take (nat (keep_first c)) (kept h) @ m @
      drop (length (kept h) - nat (max_size c div 2 - keep_first c)) (kept h) \<and>
    amortized_get c v = (Inr (RCondensation (CondensationAction (range_condensation m None))), []) \<and>
    v_events v = kept h"
proof -
  define es where "es = kept h"
  have es: "v_events v = es"
    using from_events_eq [OF ok] v none by (auto simp: no_summary_def es_def)
  define k t where "k = nat (keep_first c)" and "t = nat (max_size c div 2 - keep_first c)"
  note b = small_enoughD [OF c]
  have n: "k + t < length es" using b large es by (auto simp: k_def t_def)
  have head: "slice_to (keep_first c) es = take k es" "length (take k es) = k"
    using b n by (simp_all add: slice_to_nonneg k_def)
  have t: "max_size c div 2 - int k = int t" "0 < t" using b by (auto simp: k_def t_def)
  have tail: "slice_from (- int t) es = drop (length es - t) es"
    using slice_from_neg [of "int t" es] t by simp
  define m where "m = take (length es - (k + t)) (drop k es)"
  have split: "es = take k es @ m @ drop (length es - t) es"
  proof -
    have "drop k es = m @ drop (length es - (k + t)) (drop k es)"
      unfolding m_def by (simp only: append_take_drop_id)
    moreover have "length es - (k + t) + k = length es - t" using n by simp
    ultimately show ?thesis by (metis append_take_drop_id drop_drop)
  qed
  have m: "m \<noteq> []" using n by (simp add: m_def)
  have sub: "set m \<subseteq> set h"
    by (auto simp: m_def es_def kept_def dest!: in_set_takeD in_set_dropD)
  have sorted: "sorted_wrt (<) (map event_id es)" using kept_sorted [OF ok] by (simp add: es_def)
  then have "filter (\<lambda>i. i \<notin> set (map event_id (take k es @ drop (length es - t) es))) (map event_id es) =
      map event_id m"
    using ids_of_middle [of "take k es" m "drop (length es - t) es"] split by simp
  moreover have "sorted_wrt (<) (map event_id m)"
    using sorted by (subst (asm) split) (simp add: sorted_wrt_append)
  ultimately have "amortized_get c v =
      (Inr (RCondensation (CondensationAction (range_condensation m None))), [])"
    using forget_range_sorted [OF _ m, of None]
    unfolding amortized_get_def Let_def es head t tail
    by (simp only:)
  then show ?thesis
    using split m sub es by (intro exI [of _ m]) (simp add: es_def k_def t_def)
qed

lemma past_only_range:
  assumes "history_ok h" "past_only h" "m \<noteq> []" "set m \<subseteq> set h"
  shows "past_only (h @ [condensation_event i (range_condensation m s)])"
proof (rule past_only_snoc [OF assms(1,2) range_condensation_valid(2)])
  show "\<forall>j \<in> set [event_id (hd m)..event_id (last m)]. \<exists>e \<in> set h. j \<le> event_id e"
    using assms(4) last_in_set [OF assms(3)] by (auto intro!: bexI [of _ "last m"])
qed

lemma last_summary_range [simp]:
  "last_summary (rev (h @ [condensation_event i (range_condensation m None)])) = last_summary (rev h)"
  "last_summary (rev (h @ [condensation_event i (range_condensation m (Some (s, k)))])) = Some (s, k)"
  by (simp_all add: range_condensation_def no_condensation_def del: condensation_of_event.simps)

interpretation amortized: rolling_condenser small_enough max_size too_large amortized_get no_summary
proof
  show "too_large c v \<longleftrightarrow> max_size c < int (length (v_events v)) \<or> unhandled_condensation_request v"
    for c v by (simp add: too_large_def)
  show "small_enough c \<Longrightarrow> 0 < max_size c" for c by (auto dest: small_enoughD)
next
  fix c h v
  assume c: "small_enough c" and ok: "history_ok h" "past_only h" and none: "no_summary c h"
    and v: "from_events h = Inr v" "max_size c < int (length (v_events v))"
  note b = small_enoughD [OF c]
  obtain m where m: "m \<noteq> []" "set m \<subseteq> set h"
      "kept h = take (nat (keep_first c)) (kept h) @ m @
        drop (length (kept h) - nat (max_size c div 2 - keep_first c)) (kept h)"
      "amortized_get c v = (Inr (RCondensation (CondensationAction (range_condensation m None))), [])"
    using amortized_get_view [OF c ok(1) none v] by blast
  have "\<exists>v'. from_events (h @ [condensation_event i (range_condensation m None)]) = Inr v' \<and>
      int (length (v_events v')) \<le> max_size c div 2 \<and> \<not> unhandled_condensation_request v'"
    if "next_id h i" for i
    using condense_middle(2) [OF ok(1) m(3,1)] that none b
    by (simp add: new_view_def next_id_def no_summary_def) linarith
  moreover have "no_summary c (h @ [condensation_event i (range_condensation m None)])" for i
    using none by (simp add: no_summary_def del: rev_append)
  ultimately show "\<exists>a batch. amortized_get c v = (Inr (RCondensation (CondensationAction a)), batch) \<and>
      validate_field_polymorphism a \<and>
      (\<forall>i. next_id h i \<longrightarrow> no_summary c (h @ [condensation_event i a]) \<and>
         past_only (h @ [condensation_event i a]) \<and>
         (\<exists>v'. from_events (h @ [condensation_event i a]) = Inr v' \<and>
            int (length (v_events v')) \<le> max_size c div 2 \<and> \<not> unhandled_condensation_request v'))"
    using m(4) past_only_range [OF ok m(1,2)] range_condensation_valid(1) by blast
qed

section \<open>Summarising\<close>

definition room_for_summary :: "sizes \<Rightarrow> bool" where
  "room_for_summary c \<longleftrightarrow> small_enough c \<and> keep_first c + 1 < max_size c div 2"

definition one_summary :: "sizes \<Rightarrow> event list \<Rightarrow> bool" where
  "one_summary c h \<longleftrightarrow> (\<forall>e \<in> set h. condensation_summary e = None) \<and>
     (case last_summary (rev h) of
        None \<Rightarrow> True
      | Some (_, offset) \<Rightarrow> offset = keep_first c \<and> keep_first c \<le> int (length (kept h)))"

lemma condensation_summary_simps [simp]:
  "condensation_summary (summary_event s) = Some s"
  "condensation_summary (condensation_event i c) = None"
  by (simp_all add: summary_event_def condensation_event_def new_event_def)

declare condensation_summary.simps [simp del]

text \<open>The slice to summarise, in a view with the summary or without it.\<close>

lemma slice_middle:
  assumes "0 < t" and "a + t < length xs"
  shows "slice (Some (int a)) (Some (- int t)) xs = take (length xs - t - a) (drop a xs)"
proof -
  have "slice_bound (int (length xs)) (- int t) = length xs - t"
      "slice_bound (int (length xs)) (int a) = a"
    using assms by (auto simp: slice_bound_def)
  then show ?thesis by (simp add: slice_def Let_def)
qed

lemma summarized_middle:
  assumes "room_for_summary c" and plain: "\<forall>e \<in> set K. condensation_summary e = None"
    and es: "es = K \<or> (es = take k K @ summary_event s # drop k K \<and> k \<le> length K)"
    and k: "k = nat (keep_first c)" and t: "t = nat (max_size c div 2 - keep_first c - 1)"
    and large: "max_size c < int (length es)"
  shows "\<exists>m. m \<noteq> [] \<and> K = take k K @ m @ drop (length K - t) K \<and> summarized_events c es = m \<and>
    k + t < length K \<and> (\<exists>p. previous_summary c es = Inr p)"
proof -
  have b: "0 \<le> keep_first c" "keep_first c + 1 < max_size c div 2" "2 \<le> max_size c"
    using assms(1) small_enoughD by (auto simp: room_for_summary_def)
  then have kt: "int k = keep_first c" "int t = max_size c div 2 - keep_first c - 1" "0 < t"
    using k t by auto
  have len: "length es = length K \<or> length es = Suc (length K)" using es by auto
  have n: "Suc (k + t) < length es" using b large kt by linarith
  then have nK: "k + t < length K" using len by linarith
  define m where "m = take (length K - (k + t)) (drop k K)"
  have m: "m \<noteq> []" using nK by (simp add: m_def)
  have "drop k K = m @ drop (length K - (k + t)) (drop k K)"
    unfolding m_def by (simp only: append_take_drop_id)
  moreover have "length K - (k + t) + k = length K - t" using nK by simp
  ultimately have split: "K = take k K @ m @ drop (length K - t) K"
    by (metis append_take_drop_id drop_drop)
  have head: "length (slice_to (keep_first c) es) = k"
    using n b by (simp add: slice_to_nonneg k)
  have sl0: "slice (Some (keep_first c)) (Some (- int t)) es = take (length es - t - k) (drop k es)"
    unfolding kt(1) [symmetric] by (rule slice_middle) (use n kt in auto)
  then have sl: "summarized_events c es =
      filter (\<lambda>e. condensation_summary e = None) (take (length es - t - k) (drop k es))"
  proof -
    have e: "max_size c div 2 - int (length (slice_to (keep_first c) es)) - 1 = int t"
      using kt(1,2) by (simp add: head)
    show ?thesis unfolding summarized_events_def Let_def e by (simp only: sl0)
  qed
  have "summarized_events c es = m"
    using es
  proof
    assume "es = K"
    then have "take (length es - t - k) (drop k es) = m"
      using nK by (simp add: m_def diff_diff_left add.commute)
    moreover have "filter (\<lambda>e. condensation_summary e = None) m = m"
      using plain by (intro filter_True) (auto simp: m_def dest: in_set_takeD in_set_dropD)
    ultimately show ?thesis by (simp add: sl)
  next
    assume e: "es = take k K @ summary_event s # drop k K \<and> k \<le> length K"
    then have "drop k es = summary_event s # drop k K" "length es = Suc (length K)" by auto
    moreover have "Suc (length K) - t - k = Suc (length K - (k + t))" using nK by simp
    ultimately have "take (length es - t - k) (drop k es) = summary_event s # m"
      by (simp add: m_def)
    moreover have "filter (\<lambda>e. condensation_summary e = None) m = m"
      using plain by (intro filter_True) (auto simp: m_def dest: in_set_takeD in_set_dropD)
    ultimately show ?thesis by (simp add: sl)
  qed
  moreover have "\<exists>p. previous_summary c es = Inr p"
    using index_in_range [of k es] n kt(1) by (simp add: previous_summary_def)
  ultimately show ?thesis using m split nK by blast
qed

lemma summarized_view:
  assumes c: "room_for_summary c" and ok: "history_ok h" and one: "one_summary c h"
    and v: "from_events h = Inr v" and large: "max_size c < int (length (v_events v))"
  shows "\<exists>m p. m \<noteq> [] \<and> set m \<subseteq> set h \<and>
    kept h = take (nat (keep_first c)) (kept h) @ m @
      drop (length (kept h) - nat (max_size c div 2 - keep_first c - 1)) (kept h) \<and>
    nat (keep_first c) + nat (max_size c div 2 - keep_first c - 1) < length (kept h) \<and>
    summarized_events c (v_events v) = m \<and> previous_summary c (v_events v) = Inr p \<and>
    sorted_wrt (<) (map event_id m)"
proof -
  define k where "k = nat (keep_first c)"
  have b: "0 \<le> keep_first c" using c small_enoughD by (auto simp: room_for_summary_def)
  have plain: "\<forall>e \<in> set (kept h). condensation_summary e = None"
    using one by (auto simp: one_summary_def kept_def)
  have ins: "list_insert (keep_first c) x xs = take k xs @ x # drop k xs" if "k \<le> length xs"
    for x :: event and xs
    using that b by (simp add: list_insert_def slice_bound_def k_def Let_def nat_le_iff)
  have "\<exists>s. v_events v = kept h \<or>
      (v_events v = take k (kept h) @ summary_event s # drop k (kept h) \<and> k \<le> length (kept h))"
    using from_events_eq [OF ok] v one b
    by (auto simp: one_summary_def ins k_def nat_le_iff split: option.splits)
  then obtain s where es: "v_events v = kept h \<or>
      (v_events v = take k (kept h) @ summary_event s # drop k (kept h) \<and> k \<le> length (kept h))" by blast
  from summarized_middle [OF c plain es k_def refl large] obtain m where
    m: "m \<noteq> []" "kept h = take k (kept h) @ m @
        drop (length (kept h) - nat (max_size c div 2 - keep_first c - 1)) (kept h)"
      "summarized_events c (v_events v) = m" "k + nat (max_size c div 2 - keep_first c - 1) < length (kept h)"
      "\<exists>p. previous_summary c (v_events v) = Inr p" by blast
  have "set m \<subseteq> set (kept h)" by (subst m(2)) auto
  then have "set m \<subseteq> set h" by (auto simp: kept_def)
  moreover have "sorted_wrt (<) (map event_id m)"
    using kept_sorted [OF ok] by (subst (asm) m(2)) (simp add: sorted_wrt_append)
  ultimately show ?thesis using m unfolding k_def by blast
qed

text \<open>The view after the summary is the head, the summary and the tail: half the limit.\<close>

lemma summarized_next_view:
  assumes c: "room_for_summary c" and ok: "history_ok h" and one: "one_summary c h" and i: "next_id h i"
    and m: "m \<noteq> []" "kept h = take (nat (keep_first c)) (kept h) @ m @
      drop (length (kept h) - nat (max_size c div 2 - keep_first c - 1)) (kept h)"
    and len: "nat (keep_first c) + nat (max_size c div 2 - keep_first c - 1) < length (kept h)"
  shows "\<exists>v'. from_events (h @ [condensation_event i (range_condensation m (Some (s, keep_first c)))]) =
      Inr v' \<and> int (length (v_events v')) = max_size c div 2 \<and> \<not> unhandled_condensation_request v'"
    and "one_summary c (h @ [condensation_event i (range_condensation m (Some (s, keep_first c)))])"
proof -
  define a b where "a = take (nat (keep_first c)) (kept h)"
    and "b = drop (length (kept h) - nat (max_size c div 2 - keep_first c - 1)) (kept h)"
  have bounds: "0 \<le> keep_first c" "keep_first c + 1 < max_size c div 2"
    using c small_enoughD by (auto simp: room_for_summary_def)
  have i': "\<forall>e \<in> set h. event_id e < i" "0 \<le> i" using i by (simp_all add: next_id_def)
  have split: "kept h = a @ m @ b" using m(2) by (simp add: a_def b_def)
  have ab: "length a = nat (keep_first c)" "length b = nat (max_size c div 2 - keep_first c - 1)"
    using len by (simp_all add: a_def b_def)
  show "\<exists>v'. from_events (h @ [condensation_event i (range_condensation m (Some (s, keep_first c)))]) =
      Inr v' \<and> int (length (v_events v')) = max_size c div 2 \<and> \<not> unhandled_condensation_request v'"
    using condense_middle(1) [OF ok split m(1) i', of s "keep_first c"] ab bounds
    by (simp add: new_view_def)
  have "kept (h @ [condensation_event i (range_condensation m (Some (s, keep_first c)))]) = a @ b"
    using kept_snoc [OF ok range_condensation_valid(2) i'(1)] kept_sorted [OF ok]
      filter_range [of a m b] split m(1) by simp
  then show "one_summary c (h @ [condensation_event i (range_condensation m (Some (s, keep_first c)))])"
    using one ab bounds
    by (simp add: one_summary_def del: rev_append)
qed

text \<open>An LLM that answers; it is a condition on the service, not on the condenser.\<close>

definition answers :: "llm_service \<Rightarrow> bool" where
  "answers svc \<longleftrightarrow> (\<forall>ms. \<exists>r. complete svc ms = Inr r)"

definition summarizer_ok :: "llm_service \<times> sizes \<times> int \<Rightarrow> bool" where
  "summarizer_ok = (\<lambda>(svc, c, n). answers svc \<and> room_for_summary c)"

lemma summarizer_contract:
  assumes svc: "answers svc" and c: "room_for_summary c" and ok: "history_ok h" "past_only h"
    and one: "one_summary c h" and v: "from_events h = Inr v" "max_size c < int (length (v_events v))"
    and get: "\<And>p m r. previous_summary c (v_events v) = Inr p \<Longrightarrow> summarized_events c (v_events v) = m \<Longrightarrow>
      complete svc (msgs p m) = Inr r \<Longrightarrow>
      g v = (forget_range (map event_id m) (Some (out r, keep_first c)), batch r)"
  shows "\<exists>a batch. g v = (Inr (RCondensation (CondensationAction a)), batch) \<and>
    validate_field_polymorphism a \<and>
    (\<forall>i. next_id h i \<longrightarrow> one_summary c (h @ [condensation_event i a]) \<and>
       past_only (h @ [condensation_event i a]) \<and>
       (\<exists>v'. from_events (h @ [condensation_event i a]) = Inr v' \<and>
          int (length (v_events v')) \<le> max_size c div 2 \<and> \<not> unhandled_condensation_request v'))"
proof -
  obtain m p where m: "m \<noteq> []" "set m \<subseteq> set h"
      "kept h = take (nat (keep_first c)) (kept h) @ m @
        drop (length (kept h) - nat (max_size c div 2 - keep_first c - 1)) (kept h)"
      "nat (keep_first c) + nat (max_size c div 2 - keep_first c - 1) < length (kept h)"
      "summarized_events c (v_events v) = m" "previous_summary c (v_events v) = Inr p"
      "sorted_wrt (<) (map event_id m)"
    using summarized_view [OF c ok(1) one v] by blast
  obtain r where r: "complete svc (msgs p m) = Inr r" using svc by (auto simp: answers_def)
  define a where "a = range_condensation m (Some (out r, keep_first c))"
  have "g v = (Inr (RCondensation (CondensationAction a)), batch r)"
    using get [OF m(6,5) r] forget_range_sorted [OF m(7,1)] by (simp add: a_def)
  moreover have "\<exists>v'. from_events (h @ [condensation_event i a]) = Inr v' \<and>
      int (length (v_events v')) \<le> max_size c div 2 \<and> \<not> unhandled_condensation_request v'"
      "one_summary c (h @ [condensation_event i a])" if "next_id h i" for i
    using summarized_next_view [OF c ok(1) one that m(1,3,4), of "out r"] unfolding a_def by auto
  moreover have "past_only (h @ [condensation_event i a])" for i
    unfolding a_def by (rule past_only_range [OF ok m(1,2)])
  moreover have "validate_field_polymorphism a" by (simp add: a_def)
  ultimately show ?thesis by blast
qed

abbreviation with_service :: "(llm_service \<Rightarrow> sizes \<Rightarrow> int \<Rightarrow> condenser) \<Rightarrow> llm_service \<times> sizes \<times> int \<Rightarrow> condenser" where
  "with_service g \<equiv> (\<lambda>(svc, c, n). g svc c n)"

abbreviation sizes_of :: "llm_service \<times> sizes \<times> int \<Rightarrow> sizes" where
  "sizes_of \<equiv> (\<lambda>(svc, c, n). c)"

lemma summarizer_limit:
  "summarizer_ok d \<Longrightarrow> 0 < max_size (sizes_of d)"
  by (auto simp: summarizer_ok_def room_for_summary_def dest: small_enoughD)

interpretation summarizing: rolling_condenser summarizer_ok "\<lambda>d. max_size (sizes_of d)"
  "\<lambda>d. too_large (sizes_of d)" "with_service llm_summary_get" "\<lambda>d. one_summary (sizes_of d)"
proof
  show "too_large (sizes_of d) v \<longleftrightarrow>
      max_size (sizes_of d) < int (length (v_events v)) \<or> unhandled_condensation_request v" for d v
    by (simp add: too_large_def split: prod.split)
  show "summarizer_ok d \<Longrightarrow> 0 < max_size (sizes_of d)" for d by (rule summarizer_limit)
next
  fix d h v
  assume *: "summarizer_ok d" "history_ok h" "past_only h" "one_summary (sizes_of d) h"
    "from_events h = Inr v" "max_size (sizes_of d) < int (length (v_events v))"
  obtain svc c n where d: "d = (svc, c, n)" by (metis prod_cases3)
  have *: "answers svc" "room_for_summary c" "one_summary c h" "max_size c < int (length (v_events v))"
    using * by (simp_all add: d summarizer_ok_def)
  show "\<exists>a batch. with_service llm_summary_get d v = (Inr (RCondensation (CondensationAction a)), batch) \<and>
      validate_field_polymorphism a \<and>
      (\<forall>i. next_id h i \<longrightarrow> one_summary (sizes_of d) (h @ [condensation_event i a]) \<and>
         past_only (h @ [condensation_event i a]) \<and>
         (\<exists>v'. from_events (h @ [condensation_event i a]) = Inr v' \<and>
            int (length (v_events v')) \<le> max_size (sizes_of d) div 2 \<and>
            \<not> unhandled_condensation_request v'))"
    unfolding d prod.case
    by (rule summarizer_contract [OF *(1,2) \<open>history_ok h\<close> \<open>past_only h\<close> *(3) \<open>from_events h = Inr v\<close> *(4),
          where out = resp_content
          and batch = "\<lambda>r. [(''response'', resp_dump r), (''metrics'', JObj (usage svc r))]"
          and msgs = "\<lambda>p m. [summary_prompt svc n SUMMARY_PROMPT p m @
            ''Now summarize the events using the rules above.'']"])
      (simp add: llm_summary_get_def)
qed

interpretation structured: rolling_condenser summarizer_ok "\<lambda>d. max_size (sizes_of d)"
  "\<lambda>d. too_large (sizes_of d)" "with_service structured_get" "\<lambda>d. one_summary (sizes_of d)"
proof
  show "too_large (sizes_of d) v \<longleftrightarrow>
      max_size (sizes_of d) < int (length (v_events v)) \<or> unhandled_condensation_request v" for d v
    by (simp add: too_large_def split: prod.split)
  show "summarizer_ok d \<Longrightarrow> 0 < max_size (sizes_of d)" for d by (rule summarizer_limit)
next
  fix d h v
  assume *: "summarizer_ok d" "history_ok h" "past_only h" "one_summary (sizes_of d) h"
    "from_events h = Inr v" "max_size (sizes_of d) < int (length (v_events v))"
  obtain svc c n where d: "d = (svc, c, n)" by (metis prod_cases3)
  have *: "answers svc" "room_for_summary c" "one_summary c h" "max_size c < int (length (v_events v))"
    using * by (simp_all add: d summarizer_ok_def)
  show "\<exists>a batch. with_service structured_get d v = (Inr (RCondensation (CondensationAction a)), batch) \<and>
      validate_field_polymorphism a \<and>
      (\<forall>i. next_id h i \<longrightarrow> one_summary (sizes_of d) (h @ [condensation_event i a]) \<and>
         past_only (h @ [condensation_event i a]) \<and>
         (\<exists>v'. from_events (h @ [condensation_event i a]) = Inr v' \<and>
            int (length (v_events v')) \<le> max_size (sizes_of d) div 2 \<and>
            \<not> unhandled_condensation_request v'))"
    unfolding d prod.case
    by (rule summarizer_contract [OF *(1,2) \<open>history_ok h\<close> \<open>past_only h\<close> *(3) \<open>from_events h = Inr v\<close> *(4),
          where out = "\<lambda>r. show_summary (parse_summary svc r)"
          and batch = "\<lambda>r. [(''response'', resp_dump r), (''metrics'', JObj (usage svc r))]"
          and msgs = "\<lambda>p m. [summary_prompt svc n STRUCTURED_PROMPT p m]"])
      (simp add: structured_get_def)
qed

section \<open>Attention\<close>

definition attention_ok :: "llm_service \<times> sizes \<Rightarrow> bool" where
  "attention_ok = (\<lambda>(svc, c). answers svc \<and> (\<forall>s. \<exists>ids. parse_ids svc s = Inr ids) \<and> small_enough c)"

definition speaks :: "llm_service \<Rightarrow> event list \<Rightarrow> bool" where
  "speaks svc h \<longleftrightarrow> (\<forall>e \<in> set h. \<exists>m. event_message (s_env svc) e = Inr m)"

definition attention_fits :: "llm_service \<times> sizes \<Rightarrow> event list \<Rightarrow> bool" where
  "attention_fits = (\<lambda>(svc, c) h. no_summary c h \<and> speaks svc h)"

lemma attention_messages_total: "speaks svc es \<Longrightarrow> \<exists>ms. attention_messages svc es = Inr ms"
proof -
  assume "speaks svc es"
  then have "\<exists>ms. foldE (\<lambda>e ms. rbind (event_message (s_env svc) e) (\<lambda>m.
       Inr (ms @ [''<ID>'' @ show_int (event_id e) @ ''</ID>'' @ newline # ''<CONTENT>'' @ m @
         ''</CONTENT>'']))) es acc = Inr ms" for acc
    by (induction es arbitrary: acc) (auto simp: speaks_def)
  then show ?thesis by (simp add: attention_messages_def)
qed

lemma length_fill_ids: "int (length (fill_ids n es ids)) \<le> max n (int (length ids))"
  by (induction n es ids rule: fill_ids.induct) (auto simp: max_def split: if_splits)

lemma length_filter_ids:
  assumes "distinct (map event_id es)"
  shows "length (filter (\<lambda>e. event_id e \<in> set ids) es) \<le> length ids"
proof -
  have "length (filter (\<lambda>e. event_id e \<in> set ids) es) =
      card (event_id ` set (filter (\<lambda>e. event_id e \<in> set ids) es))"
    using assms by (simp add: distinct_map card_image inj_on_subset distinct_card [symmetric] inj_on_def)
  also have "\<dots> \<le> card (set ids)" by (intro card_mono) auto
  also have "\<dots> \<le> length ids" by (rule card_length)
  finally show ?thesis .
qed

lemma attention_get_view:
  assumes d: "attention_ok (svc, c)" and ok: "history_ok h" and fits: "attention_fits (svc, c) h"
    and v: "from_events h = Inr v"
  shows "\<exists>keep batch. v_events v = kept h \<and> int (length keep) \<le> max_size c div 2 \<and>
    attention_get svc c v = (Inr (RCondensation (CondensationAction (no_condensation\<lparr>
      forgotten_event_ids := Some (filter (\<lambda>i. i \<notin> set keep) (map event_id (kept h)))\<rparr>))), batch)"
proof -
  have es: "v_events v = kept h"
    using from_events_eq [OF ok] v fits by (auto simp: attention_fits_def no_summary_def)
  have "speaks svc (kept h)" using fits by (auto simp: attention_fits_def speaks_def kept_def)
  then obtain ms where ms: "attention_messages svc (kept h) = Inr ms"
    using attention_messages_total by blast
  obtain r where r: "complete svc ms = Inr r" using d by (auto simp: attention_ok_def answers_def)
  obtain ids where ids: "parse_ids svc (resp_content r) = Inr ids"
    using d by (auto simp: attention_ok_def)
  define hd_ids n where "hd_ids = map event_id (slice_to (keep_first c) (kept h))"
    and "n = max_size c div 2 - int (length hd_ids)"
  define rs where "rs = fill_ids n (rev (kept h)) (slice_to n (filter (\<lambda>i. i \<notin> set hd_ids) ids))"
  have b: "0 \<le> keep_first c" "keep_first c < max_size c div 2"
    using d small_enoughD by (auto simp: attention_ok_def)
  then have "int (length hd_ids) \<le> keep_first c" by (simp add: hd_ids_def slice_to_nonneg)
  then have n: "0 \<le> n" using b by (simp add: n_def)
  then have "int (length rs) \<le> n"
    using length_fill_ids [of n "rev (kept h)" "slice_to n (filter (\<lambda>i. i \<notin> set hd_ids) ids)"]
    by (simp add: rs_def slice_to_nonneg max_def split: if_splits)
  then have "int (length (rs @ hd_ids)) \<le> max_size c div 2" by (simp add: n_def)
  moreover have "attention_get svc c v = (Inr (RCondensation (CondensationAction (no_condensation\<lparr>
      forgotten_event_ids := Some (filter (\<lambda>i. i \<notin> set (rs @ hd_ids)) (map event_id (kept h)))\<rparr>))),
      [(''metrics'', JObj (usage svc r))])"
    by (simp add: attention_get_def es ms r ids Let_def condensation_result_def new_condensation_def
        no_condensation_def validate_field_polymorphism_def flip: hd_ids_def n_def)
      (simp add: rs_def)
  ultimately show ?thesis using es by blast
qed

lemma ids_condensation_valid [simp]:
  "validate_field_polymorphism (no_condensation\<lparr>forgotten_event_ids := Some ids\<rparr>)"
  "forgotten (no_condensation\<lparr>forgotten_event_ids := Some ids\<rparr>) = Inr ids"
  by (simp_all add: no_condensation_def validate_field_polymorphism_def forgotten_def)

lemma ids_condensation_next:
  assumes ok: "history_ok h" and i: "next_id h i" and none: "last_summary (rev h) = None"
  shows "from_events (h @ [condensation_event i (no_condensation\<lparr>forgotten_event_ids := Some
      (filter (\<lambda>i. i \<notin> set keep) (map event_id (kept h)))\<rparr>)]) =
    Inr (new_view (filter (\<lambda>e. event_id e \<in> set keep) (kept h)))"
proof -
  have "filter (\<lambda>e. event_id e \<notin> set (filter (\<lambda>i. i \<notin> set keep) (map event_id (kept h)))) (kept h) =
      filter (\<lambda>e. event_id e \<in> set keep) (kept h)"
    by (intro filter_cong) auto
  then show ?thesis
    using from_events_condensed [OF ok ids_condensation_valid(2,1), of i] i none
    by (simp add: next_id_def new_view_def no_condensation_def)
qed

interpretation attention: rolling_condenser attention_ok "\<lambda>d. max_size (snd d)"
  "\<lambda>d. too_large (snd d)" "\<lambda>d. attention_get (fst d) (snd d)" attention_fits
proof
  show "too_large (snd d) v \<longleftrightarrow>
      max_size (snd d) < int (length (v_events v)) \<or> unhandled_condensation_request v" for d v
    by (simp add: too_large_def)
  show "attention_ok d \<Longrightarrow> 0 < max_size (snd d)" for d
    by (auto simp: attention_ok_def dest: small_enoughD)
next
  fix d h v
  assume *: "attention_ok d" "history_ok h" "past_only h" "attention_fits d h" "from_events h = Inr v"
  obtain svc c where d: "d = (svc, c)" by fastforce
  obtain keep batch where keep: "int (length keep) \<le> max_size c div 2"
      "attention_get svc c v = (Inr (RCondensation (CondensationAction (no_condensation\<lparr>
        forgotten_event_ids := Some (filter (\<lambda>i. i \<notin> set keep) (map event_id (kept h)))\<rparr>))), batch)"
    using attention_get_view [of svc c h v] * unfolding d by blast
  define a where "a = no_condensation\<lparr>
    forgotten_event_ids := Some (filter (\<lambda>i. i \<notin> set keep) (map event_id (kept h)))\<rparr>"
  have a: "validate_field_polymorphism a" "forgotten a = Inr (filter (\<lambda>i. i \<notin> set keep) (map event_id (kept h)))"
    unfolding a_def by (rule ids_condensation_valid)+
  have none: "last_summary (rev h) = None" and sp: "speaks svc h"
    using *(4) by (simp_all add: d attention_fits_def no_summary_def)
  have "distinct (map event_id (kept h))"
    using kept_sorted [OF *(2)] by (simp add: strict_sorted_iff)
  then have len: "int (length (filter (\<lambda>e. event_id e \<in> set keep) (kept h))) \<le> max_size c div 2"
    using length_filter_ids [of "kept h" keep] keep(1) by linarith
  have "\<exists>v'. from_events (h @ [condensation_event i a]) = Inr v' \<and>
      int (length (v_events v')) \<le> max_size c div 2 \<and> \<not> unhandled_condensation_request v'"
    if "next_id h i" for i
    using ids_condensation_next [OF *(2) that none, of keep] len by (simp add: a_def new_view_def)
  moreover have "attention_fits d (h @ [condensation_event i a])" for i
  proof -
    have "\<exists>m. event_message (s_env svc) (condensation_event i a) = Inr m"
      using a by (simp add: event_message_def condensation_event_def new_event_def)
    moreover have "last_summary (rev (h @ [condensation_event i a])) = None"
      using none by (simp add: a_def no_condensation_def del: condensation_of_event.simps)
    ultimately show ?thesis using sp by (simp add: d attention_fits_def no_summary_def speaks_def)
  qed
  moreover have "past_only (h @ [condensation_event i a])" for i
    by (rule past_only_snoc [OF *(2,3) a(2)]) (auto simp: kept_def)
  ultimately show "\<exists>a batch. attention_get (fst d) (snd d) v =
      (Inr (RCondensation (CondensationAction a)), batch) \<and> validate_field_polymorphism a \<and>
      (\<forall>i. next_id h i \<longrightarrow> attention_fits d (h @ [condensation_event i a]) \<and>
         past_only (h @ [condensation_event i a]) \<and>
         (\<exists>v'. from_events (h @ [condensation_event i a]) = Inr v' \<and>
            int (length (v_events v')) \<le> max_size (snd d) div 2 \<and> \<not> unhandled_condensation_request v'))"
    using keep(2) a(1) unfolding d by (auto simp flip: a_def)
qed

end
