(* ===== verification/Condensers_Properties.thy ===== *)
theory Condensers_Properties
  imports Condensers_Correct
begin

text \<open>
  The properties of the condensers: what one condensation does to the views that follow, what the
  maskers leave, and when a condensation that is asked for raises.
\<close>

section \<open>Rolling condensers\<close>

text \<open>
  When the view has grown past its limit, the amortized condenser condenses it, and then not
  again before as many events were added as make up the other half of the limit.
\<close>

theorem amortized_condenses_rarely:
  assumes "small_enough c" and "history_ok h" and "past_only h" and "last_summary (rev h) = None"
    and "from_events h = Inr v" and "max_size c < int (length (v_events v))" and "next_id h i"
  shows "\<exists>a batch. amortized_condense c v = (Inr (RCondensation (CondensationAction a)), batch) \<and>
    (\<forall>es. (\<forall>e \<in> set es. plain e) \<longrightarrow> history_ok (h @ condensation_event i a # es) \<longrightarrow>
       int (length es) \<le> max_size c - max_size c div 2 \<longrightarrow>
       (\<exists>v'. from_events (h @ condensation_event i a # es) = Inr v' \<and>
          int (length (v_events v')) \<le> max_size c \<and> amortized_condense c v' = (Inr (RView v'), [])))"
  using amortized.amortised [of c h v i] assms by (simp add: amortized_condense_def no_summary_def)

text \<open>A plain history with the ids from 0.\<close>

definition think :: "nat \<Rightarrow> event" where
  "think i = (new_event (Action (AgentThinkAction [])))\<lparr>ev_id := Some (int i), ev_source := Some AGENT\<rparr>"

definition thoughts :: "nat \<Rightarrow> event list" where
  "thoughts n = map think [0..<n]"

lemma think_simps [simp]:
  "event_id (think i) = int i" "condensation_of_event (think i) = None"
  "is_condensation_request (think i) = False" "plain (think i)" "condensation_summary (think i) = None"
  by (simp_all add: think_def new_event_def event_id_def plain_def condensation_summary.simps)

lemma thoughts_ok:
  "history_ok (thoughts n)" "forgotten_in (thoughts n) = []" "past_only (thoughts n)"
  "kept (thoughts n) = thoughts n" "last_summary (rev (thoughts n)) = None"
  "next_id (thoughts n) (int n)" "from_events (thoughts n) = Inr (new_view (thoughts n))"
proof -
  show ok: "history_ok (thoughts n)"
    by (auto simp: history_ok_def thoughts_def sorted_wrt_map sorted_wrt_upt
        simp del: condensation_of_event.simps)
  have plain: "\<forall>e \<in> set (thoughts n). plain e" "\<forall>e \<in> set (rev (thoughts n)). plain e"
    by (auto simp: thoughts_def)
  show ids: "forgotten_in (thoughts n) = []"
    using forget_plain [OF plain(1), of "[]"] by (simp add: forgotten_in_def)
  then show "past_only (thoughts n)" and kept: "kept (thoughts n) = thoughts n"
    by (simp_all add: past_only_def kept_def)
  show none: "last_summary (rev (thoughts n)) = None"
    using last_summary_plain [OF plain(2), of "[]"] by simp
  show "next_id (thoughts n) (int n)" by (auto simp: next_id_def thoughts_def)
  show "from_events (thoughts n) = Inr (new_view (thoughts n))"
    using unhandled_plain [OF plain(2), of "[]"]
    by (simp add: from_events_eq [OF ok] none kept new_view_def)
qed

lemma length_thoughts [simp]: "length (thoughts n) = n"
  by (simp add: thoughts_def)

theorem amortized_condenses_rarely_witness:
  "\<exists>a batch. amortized_condense \<lparr>max_size = 4, keep_first = 1\<rparr> (new_view (thoughts 5)) =
     (Inr (RCondensation (CondensationAction a)), batch)"
  using amortized_condenses_rarely [of "\<lparr>max_size = 4, keep_first = 1\<rparr>" "thoughts 5" "new_view (thoughts 5)" 5]
    thoughts_ok [of 5]
  by (simp add: small_enough_def check_sizes_def new_view_def) blast

text \<open>
  A summary replaces the middle of the view: the next view is its first events, the summary
  that the LLM wrote and its last events, half the limit in all, and is not condensed again.
\<close>

theorem summary_replaces_the_middle:
  assumes svc: "answers svc" and c: "room_for_summary c" and ok: "history_ok h" and one: "one_summary c h"
    and v: "from_events h = Inr v" and large: "max_size c < int (length (v_events v))" and i: "next_id h i"
  shows "\<exists>a batch (r :: llm_response) v'. llm_summary_condense svc c n v = (Inr (RCondensation (CondensationAction a)), batch) \<and>
    from_events (h @ [condensation_event i a]) = Inr v' \<and>
    v_events v' = take (nat (keep_first c)) (kept h) @ summary_event (resp_content r) #
      drop (length (kept h) - nat (max_size c div 2 - keep_first c - 1)) (kept h) \<and>
    int (length (v_events v')) = max_size c div 2 \<and>
    llm_summary_condense svc c n v' = (Inr (RView v'), [])"
proof -
  obtain m p where m: "m \<noteq> []" "kept h = take (nat (keep_first c)) (kept h) @ m @
        drop (length (kept h) - nat (max_size c div 2 - keep_first c - 1)) (kept h)"
      "nat (keep_first c) + nat (max_size c div 2 - keep_first c - 1) < length (kept h)"
      "summarized_events c (v_events v) = m" "previous_summary c (v_events v) = Inr p"
      "sorted_wrt (<) (map event_id m)"
    using summarized_view [OF c ok one v large] by blast
  obtain r where r: "complete svc [summary_prompt svc n SUMMARY_PROMPT p m @
      ''Now summarize the events using the rules above.''] = Inr r"
    using svc by (auto simp: answers_def)
  let ?a = "range_condensation m (Some (resp_content r, keep_first c))"
  let ?b = "drop (length (kept h) - nat (max_size c div 2 - keep_first c - 1)) (kept h)"
  have get: "llm_summary_condense svc c n v = (Inr (RCondensation (CondensationAction ?a)),
      [(''response'', resp_dump r), (''metrics'', JObj (usage svc r))])"
    using large forget_range_sorted [OF m(6,1)]
    by (simp add: llm_summary_condense_def rolling_condense_def too_large_def llm_summary_get_def m(4,5) r)
  obtain v' where v': "from_events (h @ [condensation_event i ?a]) = Inr v'"
      "int (length (v_events v')) = max_size c div 2" "\<not> unhandled_condensation_request v'"
    using summarized_next_view(1) [OF c ok one i m(1,2,3)] by blast
  have k: "0 \<le> keep_first c" "2 \<le> max_size c"
    using c small_enoughD by (auto simp: room_for_summary_def)
  have nl: "\<not> max_size c < max_size c div 2" using k(2) by linarith
  have "\<forall>e \<in> set h. event_id e < i" "0 \<le> i" using i by (simp_all add: next_id_def)
  note condense_middle(1) [OF ok m(2,1) this, of "resp_content r" "keep_first c"]
  moreover have "list_insert (keep_first c) x (take (nat (keep_first c)) (kept h) @ ?b) =
      take (nat (keep_first c)) (kept h) @ x # ?b" for x
  proof -
    have "slice_bound (int (length (take (nat (keep_first c)) (kept h) @ ?b))) (keep_first c) =
        nat (keep_first c)" using m(3) k by (auto simp: slice_bound_def)
    then show ?thesis using m(3) by (simp add: list_insert_def Let_def del: length_append)
  qed
  ultimately have "v_events v' = take (nat (keep_first c)) (kept h) @ summary_event (resp_content r) # ?b"
    using v'(1) by (simp add: new_view_def)
  moreover have "llm_summary_condense svc c n v' = (Inr (RView v'), [])"
    using v'(2,3) k(2) nl by (simp add: llm_summary_condense_def rolling_condense_def too_large_def)
  ultimately show ?thesis
    using get v'(1,2) by (intro exI [of _ ?a]
        exI [of _ "[(''response'', resp_dump r), (''metrics'', JObj (usage svc r))]"]
        exI [of _ r] exI [of _ v'] conjI) assumption+
qed

definition demo_llm :: llm_service where
  "demo_llm = \<lparr>complete = \<lambda>ms. Inr \<lparr>resp_content = ''sum'', resp_tool_calls = [], resp_dump = JNull\<rparr>,
     usage = \<lambda>r. [], event_text = \<lambda>e. ''event'', parse_ids = \<lambda>s. Inr [], parse_object = \<lambda>s. Inr [],
     s_env = \<lparr>env_version = [], env_literal_eval = \<lambda>s. Inl (ValueError s), env_float_text = \<lambda>x. []\<rparr>\<rparr>"

theorem summary_replaces_the_middle_witness:
  "\<exists>a batch. llm_summary_condense demo_llm \<lparr>max_size = 6, keep_first = 1\<rparr> 100 (new_view (thoughts 7)) =
     (Inr (RCondensation (CondensationAction a)), batch)"
proof -
  let ?c = "\<lparr>max_size = 6, keep_first = 1\<rparr>"
  have "answers demo_llm" by (simp add: answers_def demo_llm_def)
  moreover have "room_for_summary ?c" by (simp add: room_for_summary_def small_enough_def check_sizes_def)
  moreover have "one_summary ?c (thoughts 7)"
    using thoughts_ok(5) [of 7] by (auto simp: one_summary_def thoughts_def)
  moreover have "max_size ?c < int (length (v_events (new_view (thoughts 7))))" by (simp add: new_view_def)
  moreover have "next_id (thoughts 7) 7" using thoughts_ok(6) [of 7] by simp
  ultimately show ?thesis
    using summary_replaces_the_middle [of demo_llm ?c "thoughts 7" "new_view (thoughts 7)" 7 100]
      thoughts_ok(1,7) [of 7] by blast
qed

section \<open>A condensation that is asked for\<close>

lemma set_take_drop_overlap:
  assumes "length xs \<le> t + k"
  shows "set (take k xs @ drop (length xs - t) xs) = set xs"
proof -
  have "set (drop k xs) \<subseteq> set (drop (length xs - t) xs)"
    using assms by (intro set_drop_subset_set_drop) simp
  moreover have "set xs = set (take k xs) \<union> set (drop k xs)" by (metis append_take_drop_id set_append)
  ultimately show ?thesis by (auto dest: in_set_takeD in_set_dropD)
qed

text \<open>
  A condensation request on a view with fewer events than half the limit makes the amortized
  condenser raise, and the summarising one too: there is nothing between the head and the tail.
\<close>

theorem request_on_small_view_raises:
  assumes c: "small_enough c" and req: "unhandled_condensation_request v"
    and small: "int (length (v_events v)) < max_size c div 2"
  shows "amortized_condense c v = (Inl (ValueError ''min() arg is an empty sequence''), []) \<and>
    (\<exists>x. fst (llm_summary_condense svc c n v) = Inl x)"
proof
  note b = small_enoughD [OF c]
  let ?es = "v_events v"
  define k where "k = length (slice_to (keep_first c) ?es)"
  have k: "k \<le> length ?es" "int k \<le> keep_first c" using b by (auto simp: k_def slice_to_nonneg)
  then have t: "0 < max_size c div 2 - int k" "length ?es \<le> nat (max_size c div 2 - int k) + k"
    using b small by auto
  have "slice_from (- (max_size c div 2 - int k)) ?es = drop (length ?es - nat (max_size c div 2 - int k)) ?es"
    by (rule slice_from_neg [OF t(1)])
  moreover have "slice_to (keep_first c) ?es = take k ?es"
    using b by (auto simp: k_def slice_to_nonneg min_def)
  ultimately have "set (slice_to (keep_first c) ?es @ slice_from (- (max_size c div 2 - int k)) ?es) = set ?es"
    using set_take_drop_overlap [OF t(2)] by simp
  then have "filter (\<lambda>i. i \<notin> set (map event_id (slice_to (keep_first c) ?es @
      slice_from (- (max_size c div 2 - int k)) ?es))) (map event_id ?es) = []"
    by (simp only: filter_empty_conv set_map image_set [symmetric] map_append [symmetric]) simp
  then show "amortized_condense c v = (Inl (ValueError ''min() arg is an empty sequence''), [])"
    using req by (simp add: amortized_condense_def rolling_condense_def too_large_def amortized_get_def
        Let_def forget_range_def py_min_def flip: k_def)
  show "\<exists>x. fst (llm_summary_condense svc c n v) = Inl x"
  proof (cases "int (length ?es) \<le> keep_first c")
    case True
    then have "previous_summary c ?es = Inl IndexError" by (simp add: previous_summary_def index_def)
    then show ?thesis
      using req by (simp add: llm_summary_condense_def rolling_condense_def too_large_def llm_summary_get_def Let_def)
  next
    case False
    then have kk: "int k = keep_first c" using b by (simp add: k_def slice_to_nonneg)
    have "slice (Some (keep_first c)) (Some (- (max_size c div 2 - int k - 1))) ?es = []"
      using b small kk by (auto simp: slice_def slice_bound_def Let_def)
    then have "summarized_events c ?es = []" by (simp add: summarized_events_def Let_def flip: k_def)
    then show ?thesis
      using req by (auto simp: llm_summary_condense_def rolling_condense_def too_large_def
          llm_summary_get_def Let_def forget_range_def py_min_def split: sum.split)
  qed
qed

theorem request_on_small_view_raises_witness:
  "amortized_condense \<lparr>max_size = 100, keep_first = 1\<rparr>
     \<lparr>v_events = thoughts 20, unhandled_condensation_request = True\<rparr> =
   (Inl (ValueError ''min() arg is an empty sequence''), [])"
  using request_on_small_view_raises [of "\<lparr>max_size = 100, keep_first = 1\<rparr>"
      "\<lparr>v_events = thoughts 20, unhandled_condensation_request = True\<rparr>" demo_llm 100]
  by (simp add: small_enough_def check_sizes_def)

section \<open>Recent events\<close>

text \<open>
  The condenser that keeps the recent events repeats the first ones while the view is short:
  as long as all of it fits into the tail, the head comes twice.
\<close>

theorem recent_events_repeat_the_head:
  assumes "0 \<le> k" and "k \<le> int (length (v_events v))" and "int (length (v_events v)) \<le> m - k" and "0 < m - k"
  shows "recent_condense k m v = (Inr (RView (new_view (take (nat k) (v_events v) @ v_events v))), [])"
proof -
  have "int (length (slice_to k (v_events v))) = k" using assms(1,2) by (simp add: slice_to_nonneg)
  moreover have "slice_from (- (m - k)) (v_events v) = v_events v"
    using slice_from_neg [OF assms(4), of "v_events v"] assms(3) by simp
  ultimately show ?thesis using assms by (simp add: recent_condense_def slice_to_nonneg Let_def)
qed

theorem recent_events_repeat_the_head_witness:
  "recent_condense 1 10 (new_view (thoughts 2)) = (Inr (RView (new_view [think 0, think 0, think 1])), [])"
  using recent_events_repeat_the_head [of 1 "new_view (thoughts 2)" 10]
  by (simp add: new_view_def thoughts_def upt_rec)

section \<open>Browser outputs\<close>

fun is_browser_output :: "event \<Rightarrow> bool" where
  "is_browser_output e = (case ev_body e of Observation (BrowserOutputObservation _) \<Rightarrow> True | _ \<Rightarrow> False)"

fun browser_mask :: "event \<Rightarrow> event" where
  "browser_mask e = (case ev_body e of
     Observation (BrowserOutputObservation r) \<Rightarrow>
       summary_event (''Visited URL '' @ bo_url r @ newline # ''Content omitted'')
   | _ \<Rightarrow> e)"

declare is_browser_output.simps [simp del] browser_mask.simps [simp del]

lemma mask_browser_Cons:
  "mask_browser w n (e # es) =
     (if is_browser_output e
      then if n \<ge> w then browser_mask e # mask_browser w n es else e # mask_browser w (n + 1) es
      else e # mask_browser w n es)"
  by (auto simp: is_browser_output.simps browser_mask.simps split: body.split observation.split)

lemma mask_browser_nth:
  "length (mask_browser w n es) = length es \<and>
   (\<forall>i < length es. mask_browser w n es ! i =
     (if is_browser_output (es ! i) \<and> w \<le> n + int (length (filter is_browser_output (take i es)))
      then browser_mask (es ! i) else es ! i))"
proof (induction es arbitrary: n)
  case Nil
  then show ?case by simp
next
  case (Cons e es)
  show ?case
  proof (intro conjI allI impI)
    show "length (mask_browser w n (e # es)) = length (e # es)"
      using Cons.IH [of n] Cons.IH [of "n + 1"] by (simp add: mask_browser_Cons del: mask_browser.simps)
    fix i
    assume i: "i < length (e # es)"
    show "mask_browser w n (e # es) ! i =
        (if is_browser_output ((e # es) ! i) \<and>
            w \<le> n + int (length (filter is_browser_output (take i (e # es))))
         then browser_mask ((e # es) ! i) else (e # es) ! i)"
    proof (cases i)
      case 0
      then show ?thesis by (simp add: mask_browser_Cons del: mask_browser.simps)
    next
      case (Suc j)
      with i have j: "j < length es" by simp
      note IH = Cons.IH [THEN conjunct2, rule_format, OF j]
      show ?thesis
        using IH [of n] IH [of "n + 1"] Suc
        by (cases "is_browser_output e"; cases "w \<le> n")
          (simp_all add: mask_browser_Cons algebra_simps del: mask_browser.simps)
    qed
  qed
qed

text \<open>
  Browser outputs are masked exactly where the window of later browser outputs is full; every
  other event stays, in its place.
\<close>

theorem browser_condense_pointwise:
  "browser_condense w v = (Inr (RView (new_view (map (\<lambda>i.
     if is_browser_output (v_events v ! i) \<and>
        w \<le> int (length (filter is_browser_output (drop (Suc i) (v_events v))))
     then browser_mask (v_events v ! i) else v_events v ! i) [0..<length (v_events v)]))), [])"
proof -
  let ?xs = "v_events v"
  let ?es = "rev (mask_browser w 0 (rev ?xs))"
  have m: "length (mask_browser w 0 (rev ?xs)) = length ?xs"
    using mask_browser_nth [of w 0 "rev ?xs"] by simp
  have "?es ! i = (if is_browser_output (?xs ! i) \<and>
      w \<le> int (length (filter is_browser_output (drop (Suc i) ?xs)))
      then browser_mask (?xs ! i) else ?xs ! i)" if i: "i < length ?xs" for i
  proof -
    have "take (length ?xs - Suc i) (rev ?xs) = rev (drop (Suc i) ?xs)" by (simp add: rev_drop)
    then have "length (filter is_browser_output (take (length ?xs - Suc i) (rev ?xs))) =
        length (filter is_browser_output (drop (Suc i) ?xs))" by (simp add: rev_filter [symmetric])
    moreover have "rev ?xs ! (length ?xs - Suc i) = ?xs ! i" using i by (simp add: rev_nth)
    ultimately show ?thesis
      using mask_browser_nth [of w 0 "rev ?xs"] i m
      by (simp add: rev_nth)
  qed
  with m have "?es = map (\<lambda>i. if is_browser_output (?xs ! i) \<and>
      w \<le> int (length (filter is_browser_output (drop (Suc i) ?xs)))
      then browser_mask (?xs ! i) else ?xs ! i) [0..<length ?xs]"
    by (intro nth_equalityI) simp_all
  then show ?thesis by (simp add: browser_condense_def)
qed

section \<open>The conversation window\<close>

declare user_message.simps [simp del]

lemma contiguous_ids:
  assumes "sorted_wrt (<) (ids :: int list)" and "ids \<noteq> []" and "last ids - hd ids = int (length ids) - 1"
  shows "set [hd ids..last ids] = set ids"
proof -
  have s: "sorted ids" and d: "distinct ids" using assms(1) by (simp_all add: strict_sorted_iff)
  have "set ids \<subseteq> {hd ids..last ids}"
  proof
    fix x
    assume x: "x \<in> set ids"
    have "hd ids \<le> x" using s x assms(2) by (cases ids) auto
    moreover have "x \<le> last ids"
      using s x assms(2) by (cases ids rule: rev_cases) (auto simp: sorted_append)
    ultimately show "x \<in> {hd ids..last ids}" by simp
  qed
  moreover have "card {hd ids..last ids} = card (set ids)"
    using assms(3) d by (simp add: distinct_card)
  ultimately have "{hd ids..last ids} = set ids"
    by (intro card_subset_eq [symmetric]) simp_all
  then show ?thesis by simp
qed

lemma sort_remdups_strict: "sorted_wrt (<) (sort (remdups (xs :: int list)))"
  by (simp add: strict_sorted_iff)

lemma window_get_forgets:
  assumes es: "v_events v = es" "es \<noteq> []" and k: "first_index (\<lambda>e. user_message e \<noteq> None) es = Some k"
    and ess: "ess = essential_ids es k (the (user_message (es ! k)))"
  shows "\<exists>a ids. window_get v = (Inr (RCondensation (CondensationAction a)), []) \<and> forgotten a = Inr ids \<and>
    set ids = event_id ` set es - (set ess \<union> event_id ` set (drop (window_start es (int (length ess))) es))"
proof -
  define ids where "ids = window_forgotten es ess"
  have set_ids: "set ids = event_id ` set es -
      (set ess \<union> event_id ` set (drop (window_start es (int (length ess))) es))"
    by (auto simp: ids_def window_forgotten_def Let_def)
  have strict: "sorted_wrt (<) ids"
    unfolding ids_def window_forgotten_def Let_def by (rule sort_remdups_strict)
  have w: "window_get v = (if ids \<noteq> [] then
      if length ids > 1 \<and> last ids - hd ids = int (length ids) - 1
      then (condensation_result (no_condensation\<lparr>forgotten_events_start_id := Some (hd ids),
              forgotten_events_end_id := Some (last ids)\<rparr>), [])
      else (condensation_result (no_condensation\<lparr>forgotten_event_ids := Some ids\<rparr>), [])
    else (condensation_result (no_condensation\<lparr>forgotten_event_ids := Some []\<rparr>), []))"
    unfolding window_get_def Let_def es(1) k option.case ess [symmetric] ids_def [symmetric]
    using es(2) by (simp only: if_False)
  show ?thesis
  proof (cases "ids \<noteq> [] \<and> length ids > 1 \<and> last ids - hd ids = int (length ids) - 1")
    case True
    let ?a = "no_condensation\<lparr>forgotten_events_start_id := Some (hd ids), forgotten_events_end_id := Some (last ids)\<rparr>"
    have "validate_field_polymorphism ?a" "forgotten ?a = Inr [hd ids..last ids]"
      by (simp_all add: no_condensation_def validate_field_polymorphism_def forgotten_def)
    moreover have "window_get v = (condensation_result ?a, [])"
      using True by (simp add: w)
    ultimately show ?thesis
      using contiguous_ids [OF strict] True set_ids
      by (intro exI [of _ ?a] exI [of _ "[hd ids..last ids]"])
        (simp add: condensation_result_def new_condensation_def)
  next
    case False
    let ?a = "no_condensation\<lparr>forgotten_event_ids := Some ids\<rparr>"
    have "window_get v = (condensation_result ?a, [])"
      using False by (auto simp: w)
    then show ?thesis
      using set_ids by (intro exI [of _ ?a] exI [of _ ids])
        (simp add: condensation_result_def new_condensation_def)
  qed
qed

lemma window_start_bounds:
  assumes "es \<noteq> []"
  shows "window_start es n \<le> length es \<and>
    (window_start es n < length es \<longrightarrow> \<not> is_observation (es ! window_start es n)) \<and>
    int (length es) - max 1 ((int (length es) - n) div 2) \<le> int (window_start es n)"
proof -
  define s where "s = nat (max 0 (int (length es) - max 1 ((int (length es) - n) div 2)))"
  have s: "s \<le> length es" by (simp add: s_def)
  have w: "window_start es n = s + length (takeWhile is_observation (drop s es))"
    by (simp add: window_start_def s_def Let_def)
  have "length (takeWhile is_observation (drop s es)) \<le> length es - s"
    using length_takeWhile_le [of is_observation "drop s es"] by simp
  then have "window_start es n \<le> length es" using s w by simp
  moreover have "\<not> is_observation (es ! window_start es n)" if "window_start es n < length es"
  proof -
    have "length (takeWhile is_observation (drop s es)) < length (drop s es)" using that w by simp
    from nth_length_takeWhile [OF this] show ?thesis
      using that w s by (simp add: add.commute del: is_observation.simps)
  qed
  moreover have "int (length es) - max 1 ((int (length es) - n) div 2) \<le> int s" by (simp add: s_def)
  then have "int (length es) - max 1 ((int (length es) - n) div 2) \<le> int (window_start es n)"
    using w by linarith
  ultimately show ?thesis by blast
qed

text \<open>
  The window condenser forgets exactly the events that are neither essential (the system
  message, the first user message, its recall) nor recent; the recent ones are at most half of the
  rest (at least one) and do not start with an observation whose action is gone.
\<close>

theorem window_forgets_the_rest:
  assumes "v_events v = es" and "es \<noteq> []"
    and "first_index (\<lambda>e. user_message e \<noteq> None) es = Some k"
    and "ess = essential_ids es k (the (user_message (es ! k)))"
  shows "\<exists>a ids s. window_get v = (Inr (RCondensation (CondensationAction a)), []) \<and> forgotten a = Inr ids \<and>
    set ids = event_id ` set es - (set ess \<union> event_id ` set (drop s es)) \<and>
    (s < length es \<longrightarrow> \<not> is_observation (es ! s)) \<and>
    int (length (drop s es)) \<le> max 1 ((int (length es) - int (length ess)) div 2)"
proof -
  note b = window_start_bounds [OF assms(2), of "int (length ess)"]
  then have "int (length (drop (window_start es (int (length ess))) es)) \<le>
      max 1 ((int (length es) - int (length ess)) div 2)" by (simp add: of_nat_diff)
  with window_get_forgets [OF assms] b show ?thesis by blast
qed

definition demo_user :: event where
  "demo_user = (new_event (Action (MessageAction \<lparr>ma_content = ''task'', ma_file_urls = None,
     ma_image_urls = None, ma_wait_for_response = False, ma_security_risk = RISK_UNKNOWN\<rparr>)))
     \<lparr>ev_id := Some 0, ev_source := Some USER\<rparr>"

theorem window_forgets_the_rest_witness:
  "\<exists>a ids. window_get (new_view (demo_user # map think [1..<8])) =
     (Inr (RCondensation (CondensationAction a)), []) \<and> forgotten a = Inr ids \<and> 0 \<notin> set ids"
proof -
  let ?es = "demo_user # map think [1..<8]"
  have u: "user_message demo_user \<noteq> None" "event_id demo_user = 0"
    by (simp_all add: demo_user_def new_event_def event_id_def user_message.simps)
  then have "first_index (\<lambda>e. user_message e \<noteq> None) ?es = Some 0" by simp
  from window_forgets_the_rest [OF _ _ this refl, of "new_view ?es"] show ?thesis
    by (auto simp: new_view_def essential_ids_def u)
qed

end
