(* ===== verification/Conversation_Stats.thy ===== *)
theory Conversation_Stats
  imports Metrics Storage
begin

text \<open>
  \<open>OpenHands/openhands/llm/llm_registry.py\<close> and
  \<open>OpenHands/openhands/server/services/conversation_stats.py\<close>: the LLMs of a conversation and what
  they have spent. An LLM and the statistics share the LLM's \<open>Metrics\<close> object, which the LLM
  changes in place; these objects live in a store, a list whose positions are the references.
  A pickled object is the value it had when it was pickled. An LLM is known by its service id,
  which the registry never assigns twice. The router and the listeners of retries are left out.
\<close>

section \<open>The objects\<close>

type_synonym ref = nat
type_synonym heap = "metrics list"

definition deref :: "heap \<Rightarrow> ref \<Rightarrow> metrics" where
  "deref h r = h ! r"

definition alloc :: "metrics \<Rightarrow> heap \<Rightarrow> ref \<times> heap" where
  "alloc m h = (length h, h @ [m])"

record 'cfg llm =
  llm_config :: 'cfg
  llm_metrics :: ref

record stats =
  metrics_path :: string
  stats_conversation_id :: string
  stats_has_store :: bool
  service_to_metrics :: "(string, ref) pydict"
  restored_metrics :: "(string, metrics) pydict"

text \<open>The pickled files of a session: the statistics, or the state of the agent.\<close>

datatype 'st session_file = StatsFile "(string, metrics) pydict" | StateFile 'st

section \<open>Saving and restoring the statistics\<close>

definition combined_for_save :: "heap \<Rightarrow> stats \<Rightarrow> (string, metrics) pydict" where
  "combined_for_save h s =
     dict_update (restored_metrics s) (map (\<lambda>(k, r). (k, deref h r)) (service_to_metrics s))"

definition save_metrics :: "heap \<Rightarrow> stats \<Rightarrow> 'st session_file files \<Rightarrow> 'st session_file files" where
  "save_metrics h s files =
     (if \<not> stats_has_store s then files
      else fs_write (metrics_path s) (StatsFile (combined_for_save h s)) files)"

definition maybe_restore_metrics :: "'st session_file files \<Rightarrow> stats \<Rightarrow> exc + stats" where
  "maybe_restore_metrics files s =
     (if \<not> stats_has_store s \<or> stats_conversation_id s = [] then Inr s
      else case fs_read (metrics_path s) files of
        Inr (StatsFile m) \<Rightarrow> Inr (s\<lparr>restored_metrics := m\<rparr>)
      | Inr (StateFile _) \<Rightarrow> Inl (TypeError ''not a dictionary of metrics'')
      | Inl (FileNotFoundError _) \<Rightarrow> Inr s
      | Inl x \<Rightarrow> Inl x)"

definition new_stats ::
    "'st session_file files option \<Rightarrow> string \<Rightarrow> string option \<Rightarrow> exc + stats" where
  "new_stats store conversation_id user_id =
     maybe_restore_metrics (case store of None \<Rightarrow> [] | Some files \<Rightarrow> files)
       \<lparr>metrics_path = get_conversation_stats_filename conversation_id user_id,
        stats_conversation_id = conversation_id,
        stats_has_store = (store \<noteq> None),
        service_to_metrics = [], restored_metrics = []\<rparr>"

text \<open>\<open>Metrics()\<close> has the model name \<open>default\<close>.\<close>

definition get_combined_metrics :: "heap \<Rightarrow> stats \<Rightarrow> metrics" where
  "get_combined_metrics h s =
     fold (\<lambda>(k, r) total. merge_metrics total (deref h r)) (service_to_metrics s)
       (new_metrics ''default'')"

definition get_metrics_for_service :: "heap \<Rightarrow> stats \<Rightarrow> string \<Rightarrow> exc + metrics" where
  "get_metrics_for_service h s service_id =
     (case map_of (service_to_metrics s) service_id of
        None \<Rightarrow> Inl (OtherException ''Exception'' (''LLM service does not exist '' @ service_id))
      | Some r \<Rightarrow> Inr (deref h r))"

text \<open>\<open>register_llm\<close> with the LLM of the event; the LLM is returned with its new \<open>metrics\<close>.\<close>

definition register_llm ::
    "'cfg llm \<Rightarrow> string \<Rightarrow> heap \<times> stats \<Rightarrow> 'cfg llm \<times> heap \<times> stats" where
  "register_llm llm service_id hs =
     (let (h, s) = hs;
          (llm, h, s) =
            (case map_of (restored_metrics s) service_id of
               None \<Rightarrow> (llm, h, s)
             | Some m \<Rightarrow>
                 let (r, h) = alloc m h
                 in (llm\<lparr>llm_metrics := r\<rparr>, h,
                     s\<lparr>restored_metrics := dict_del service_id (restored_metrics s)\<rparr>))
      in (llm, h, s\<lparr>service_to_metrics :=
                      dict_set (service_to_metrics s) service_id (llm_metrics llm)\<rparr>))"

definition drop_zero_cost :: "(string, metrics) pydict \<Rightarrow> (string, metrics) pydict" where
  "drop_zero_cost d = filter (\<lambda>(k, m). accumulated_cost m \<noteq> 0) d"

text \<open>Both objects are changed.\<close>

definition merge_and_save ::
    "heap \<Rightarrow> stats \<Rightarrow> stats \<Rightarrow> 'st session_file files \<Rightarrow> stats \<times> stats \<times> 'st session_file files" where
  "merge_and_save h s other files =
     (let s = s\<lparr>restored_metrics := drop_zero_cost (restored_metrics s)\<rparr>;
          other = other\<lparr>restored_metrics := drop_zero_cost (restored_metrics other)\<rparr>;
          s = s\<lparr>restored_metrics := dict_update (restored_metrics s) (restored_metrics other)\<rparr>
      in (s, other, save_metrics h s files))"

section \<open>The registry\<close>

text \<open>
  \<open>reg_stats\<close> are the statistics whose \<open>register_llm\<close> is the subscriber, when there is one
  (\<open>subscribed\<close>).
\<close>

record 'cfg registry =
  reg_heap :: heap
  service_to_llm :: "(string, 'cfg llm) pydict"
  active_agent_llm :: string
  subscribed :: bool
  reg_stats :: stats

definition notify :: "string \<Rightarrow> 'cfg registry \<Rightarrow> 'cfg registry" where
  "notify service_id g =
     (if \<not> subscribed g then g
      else case map_of (service_to_llm g) service_id of
        None \<Rightarrow> g
      | Some llm \<Rightarrow>
          let (llm, h, s) = register_llm llm service_id (reg_heap g, reg_stats g)
          in g\<lparr>reg_heap := h, reg_stats := s,
               service_to_llm := dict_set (service_to_llm g) service_id llm\<rparr>)"

text \<open>
  The constructor of an LLM makes its own \<open>Metrics\<close> for the model of its configuration, and keeps a
  copy of the configuration that it changes: it rewrites a model \<open>openhands/...\<close> and fills in the
  limits that it finds for the model. \<open>prepared\<close> stands for these changes.
\<close>

record 'cfg llm_class =
  model_of :: "'cfg \<Rightarrow> string"
  prepared :: "'cfg \<Rightarrow> 'cfg"

definition create_new_llm :: "'cfg llm_class \<Rightarrow> string \<Rightarrow> 'cfg \<Rightarrow> 'cfg registry \<Rightarrow> 'cfg registry" where
  "create_new_llm cls service_id config g =
     (let (r, h) = alloc (new_metrics (model_of cls config)) (reg_heap g);
          llm = \<lparr>llm_config = prepared cls config, llm_metrics = r\<rparr>
      in notify service_id
           (g\<lparr>reg_heap := h, service_to_llm := dict_set (service_to_llm g) service_id llm\<rparr>))"

definition get_llm ::
    "'cfg llm_class \<Rightarrow> string \<Rightarrow> 'cfg option \<Rightarrow> 'cfg registry \<Rightarrow> exc + 'cfg registry" where
  "get_llm cls service_id config g =
     (case map_of (service_to_llm g) service_id of
        Some llm \<Rightarrow>
          if Some (llm_config llm) \<noteq> config
          then Inl (ValueError (''Requesting same service ID '' @ service_id @
                 '' with different config, use a new service ID''))
          else Inr g
      | None \<Rightarrow>
          (case config of
             None \<Rightarrow> Inl (ValueError ''Requesting new LLM without specifying LLM config'')
           | Some c \<Rightarrow> Inr (create_new_llm cls service_id c g)))"

definition get_llm_from_agent_config ::
    "'cfg llm_class \<Rightarrow> string \<Rightarrow> 'cfg \<Rightarrow> 'cfg registry \<Rightarrow> 'cfg registry" where
  "get_llm_from_agent_config cls service_id config g =
     (if map_of (service_to_llm g) service_id \<noteq> None then g
      else create_new_llm cls service_id config g)"

text \<open>The constructor of the registry makes the LLM of the service \<open>agent\<close>; nobody listens yet.\<close>

definition new_registry :: "'cfg llm_class \<Rightarrow> 'cfg \<Rightarrow> stats \<Rightarrow> exc + 'cfg registry" where
  "new_registry cls config s =
     get_llm cls ''agent'' (Some config)
       \<lparr>reg_heap = [], service_to_llm = [], active_agent_llm = ''agent'', subscribed = False,
        reg_stats = s\<rparr>"

definition subscribe_stats :: "'cfg registry \<Rightarrow> 'cfg registry" where
  "subscribe_stats g = notify (active_agent_llm g) (g\<lparr>subscribed := True\<rparr>)"

text \<open>What a call of an LLM does to its \<open>Metrics\<close> (\<open>add_cost\<close>, \<open>add_token_usage\<close>, ...).\<close>

definition update_llm_metrics :: "string \<Rightarrow> (metrics \<Rightarrow> metrics) \<Rightarrow> 'cfg registry \<Rightarrow> 'cfg registry" where
  "update_llm_metrics service_id f g =
     (case map_of (service_to_llm g) service_id of
        None \<Rightarrow> g
      | Some llm \<Rightarrow> g\<lparr>reg_heap := (reg_heap g)[llm_metrics llm := f (deref (reg_heap g) (llm_metrics llm))]\<rparr>)"

text \<open>
  The statistics of a conversation: what an LLM spends is counted as long as the registry and the
  statistics share its \<open>Metrics\<close> object (the invariant \<open>registry_ok\<close> of every run of the registry),
  and what was saved comes back to the service that registers under the same name.
\<close>

section \<open>The registry and the statistics share the objects\<close>

definition registry_ok :: "'cfg registry \<Rightarrow> bool" where
  "registry_ok g \<longleftrightarrow>
     (\<forall>k l. map_of (service_to_llm g) k = Some l \<longrightarrow> llm_metrics l < length (reg_heap g)) \<and>
     (\<forall>j k l m. map_of (service_to_llm g) j = Some l \<longrightarrow> map_of (service_to_llm g) k = Some m \<longrightarrow>
        llm_metrics l = llm_metrics m \<longrightarrow> j = k) \<and>
     distinct (keys (service_to_metrics (reg_stats g))) \<and>
     (\<forall>k r. map_of (service_to_metrics (reg_stats g)) k = Some r \<longrightarrow>
        (\<exists>l. map_of (service_to_llm g) k = Some l \<and> llm_metrics l = r))"

lemma registry_ok_notify:
  assumes "registry_ok g"
  shows "registry_ok (notify k g)"
proof (cases "subscribed g \<and> map_of (service_to_llm g) k \<noteq> None")
  case False
  then show ?thesis using assms by (auto simp: notify_def split: option.splits)
next
  case True
  then obtain l where l: "map_of (service_to_llm g) k = Some l" and sub: "subscribed g" by auto
  show ?thesis
  proof (cases "map_of (restored_metrics (reg_stats g)) k")
    case None
    with l sub have "notify k g = g\<lparr>reg_stats := (reg_stats g)\<lparr>service_to_metrics :=
        dict_set (service_to_metrics (reg_stats g)) k (llm_metrics l)\<rparr>,
        service_to_llm := dict_set (service_to_llm g) k l\<rparr>"
      by (simp add: notify_def register_llm_def)
    moreover have "map_of (dict_set (service_to_llm g) k l) = map_of (service_to_llm g)"
      using l by auto
    ultimately show ?thesis using assms l unfolding registry_ok_def by (auto simp: update_conv')
  next
    case (Some m)
    with l sub have eq: "notify k g = g\<lparr>reg_heap := reg_heap g @ [m],
        reg_stats := (reg_stats g)\<lparr>
          restored_metrics := dict_del k (restored_metrics (reg_stats g)),
          service_to_metrics :=
            dict_set (service_to_metrics (reg_stats g)) k (length (reg_heap g))\<rparr>,
        service_to_llm := dict_set (service_to_llm g) k (l\<lparr>llm_metrics := length (reg_heap g)\<rparr>)\<rparr>"
      by (simp add: notify_def register_llm_def alloc_def)
    have range: "map_of (service_to_llm g) j = Some x \<Longrightarrow> llm_metrics x < length (reg_heap g)" for j x
      using assms unfolding registry_ok_def by blast
    have less: "map_of (service_to_llm g) j = Some x \<Longrightarrow> llm_metrics x < Suc (length (reg_heap g))" for j x
      using range by (simp add: less_SucI)
    have fresh: "map_of (service_to_llm g) j = Some x \<Longrightarrow> llm_metrics x \<noteq> length (reg_heap g)" for j x
      using range [of j x] by auto
    show ?thesis unfolding eq using assms less fresh fresh [symmetric]
      unfolding registry_ok_def by (auto split: if_splits)
  qed
qed

lemma registry_ok_create:
  assumes "registry_ok g" and "map_of (service_to_llm g) k = None"
  shows "registry_ok (create_new_llm cls k c g)"
proof -
  let ?l = "\<lparr>llm_config = prepared cls c, llm_metrics = length (reg_heap g)\<rparr>"
  let ?g = "g\<lparr>reg_heap := reg_heap g @ [new_metrics (model_of cls c)],
      service_to_llm := dict_set (service_to_llm g) k ?l\<rparr>"
  have range: "map_of (service_to_llm g) j = Some x \<Longrightarrow> llm_metrics x < length (reg_heap g)" for j x
    using assms unfolding registry_ok_def by blast
  have less: "map_of (service_to_llm g) j = Some x \<Longrightarrow> llm_metrics x < Suc (length (reg_heap g))" for j x
    using range by (simp add: less_SucI)
  have fresh: "map_of (service_to_llm g) j = Some x \<Longrightarrow> llm_metrics x \<noteq> length (reg_heap g)" for j x
    using range [of j x] by auto
  have "(k, r) \<notin> set (service_to_metrics (reg_stats g))" for r
    using assms unfolding registry_ok_def by (metis map_of_eq_Some_iff option.distinct(1))
  then have "registry_ok ?g"
    using assms less fresh fresh [symmetric] unfolding registry_ok_def by (auto split: if_splits)
  then show ?thesis
    by (simp add: create_new_llm_def alloc_def registry_ok_notify)
qed

lemma registry_ok_update:
  assumes "registry_ok g"
  shows "registry_ok (update_llm_metrics k f g)"
  using assms unfolding registry_ok_def update_llm_metrics_def by (auto split: option.splits)

text \<open>What the rest of the server does with a registry, from its creation on.\<close>

inductive registry_run :: "'cfg llm_class \<Rightarrow> 'cfg registry \<Rightarrow> bool" for cls where
  start: "service_to_metrics s = [] \<Longrightarrow> new_registry cls c s = Inr g \<Longrightarrow> registry_run cls g"
| subscribe: "registry_run cls g \<Longrightarrow> registry_run cls (subscribe_stats g)"
| request: "registry_run cls g \<Longrightarrow> get_llm cls k c g = Inr g' \<Longrightarrow> registry_run cls g'"
| agent_request: "registry_run cls g \<Longrightarrow> registry_run cls (get_llm_from_agent_config cls k c g)"
| spend: "registry_run cls g \<Longrightarrow> registry_run cls (update_llm_metrics k f g)"

lemma registry_ok_get_llm:
  "registry_ok g \<Longrightarrow> get_llm cls k c g = Inr g' \<Longrightarrow> registry_ok g'"
  by (auto simp: get_llm_def registry_ok_create split: option.splits if_splits)

lemma registry_run_ok: "registry_run cls g \<Longrightarrow> registry_ok g"
proof (induction rule: registry_run.induct)
  case (start s c g)
  have "registry_ok \<lparr>reg_heap = [], service_to_llm = ([] :: (string, 'a llm) pydict),
      active_agent_llm = ''agent'', subscribed = False, reg_stats = s\<rparr>"
    using start by (simp add: registry_ok_def)
  with start show ?case by (auto simp: new_registry_def intro: registry_ok_get_llm)
next
  case (subscribe g)
  then have "registry_ok (g\<lparr>subscribed := True\<rparr>)" by (simp add: registry_ok_def)
  then show ?case by (simp add: subscribe_stats_def registry_ok_notify)
next
  case (agent_request g k c)
  then show ?case by (auto simp: get_llm_from_agent_config_def registry_ok_create)
qed (auto intro: registry_ok_get_llm registry_ok_update)

section \<open>The total\<close>

lemma combined_cost_fold:
  "accumulated_cost (fold (\<lambda>(k, r) total. merge_metrics total (deref h r)) l t) =
   accumulated_cost t + sum_list (map (\<lambda>r. accumulated_cost (deref h r)) (map snd l))"
  by (induction l arbitrary: t) (auto simp: merge_metrics_def)

lemma combined_cost:
  "accumulated_cost (get_combined_metrics h s) =
   sum_list (map (\<lambda>r. accumulated_cost (deref h r)) (map snd (service_to_metrics s)))"
  by (simp add: get_combined_metrics_def combined_cost_fold new_metrics_def)

lemma sum_update_outside:
  "r \<notin> set rs \<Longrightarrow> map (\<lambda>x. c (deref (h[r := m]) x)) rs = map (\<lambda>x. c (deref h x)) rs"
  by (induction rs) (auto simp: deref_def)

lemma sum_update:
  assumes "distinct rs" and "r \<in> set rs" and "r < length h"
  shows "sum_list (map (\<lambda>x. c (deref (h[r := m]) x)) rs) =
         sum_list (map (\<lambda>x. c (deref h x)) rs) + (c m - c (deref h r) :: rat)"
  using assms
proof (induction rs)
  case (Cons x rs)
  show ?case
  proof (cases "x = r")
    case True
    with Cons.prems have "r \<notin> set rs" by simp
    with True Cons.prems(3) show ?thesis
      by (simp add: sum_update_outside) (simp add: deref_def)
  next
    case False
    with Cons show ?thesis by (simp add: deref_def)
  qed
qed simp

lemma registered_refs_distinct:
  assumes "registry_ok g"
  shows "distinct (map snd (service_to_metrics (reg_stats g)))"
proof -
  let ?d = "service_to_metrics (reg_stats g)"
  have keys: "distinct (keys ?d)" using assms by (simp add: registry_ok_def)
  have shared: "\<exists>l. map_of (service_to_llm g) k = Some l \<and> llm_metrics l = r" if "(k, r) \<in> set ?d" for k r
    using that keys assms unfolding registry_ok_def by simp
  have "inj_on snd (set ?d)"
  proof (rule inj_onI)
    fix x y assume xy: "x \<in> set ?d" "y \<in> set ?d" "snd x = snd y"
    obtain l where "map_of (service_to_llm g) (fst x) = Some l" "llm_metrics l = snd x"
      using shared [of "fst x" "snd x"] xy(1) by auto
    moreover obtain m where "map_of (service_to_llm g) (fst y) = Some m" "llm_metrics m = snd y"
      using shared [of "fst y" "snd y"] xy(2) by auto
    ultimately have "fst x = fst y"
      using xy(3) assms unfolding registry_ok_def by metis
    with xy(3) show "x = y" by (simp add: prod_eq_iff)
  qed
  moreover have "distinct ?d" using keys by (simp add: distinct_map)
  ultimately show ?thesis by (simp add: distinct_map)
qed

text \<open>
  Whatever an LLM does to its metrics (\<open>f\<close>: a call that costs, say) shows in the total that the
  budget of the task is compared with: in every run of the registry, if the LLM's service is
  registered with the statistics, the combined cost moves by what the cost of the LLM's own object
  moved. (The \<open>Metrics\<close> object is shared, also when it was replaced by a restored one.)
\<close>

theorem spending_is_counted:
  assumes "registry_run cls g"
    and "map_of (service_to_metrics (reg_stats g)) k = Some r"
  shows "accumulated_cost (get_combined_metrics (reg_heap (update_llm_metrics k f g))
           (reg_stats (update_llm_metrics k f g))) =
         accumulated_cost (get_combined_metrics (reg_heap g) (reg_stats g)) +
         (accumulated_cost (f (deref (reg_heap g) r)) - accumulated_cost (deref (reg_heap g) r))"
proof -
  have ok: "registry_ok g" using assms(1) by (rule registry_run_ok)
  then obtain l where l: "map_of (service_to_llm g) k = Some l" "llm_metrics l = r"
    using assms(2) unfolding registry_ok_def by blast
  moreover have "r < length (reg_heap g)" using ok l unfolding registry_ok_def by blast
  moreover have "r \<in> set (map snd (service_to_metrics (reg_stats g)))"
    using map_of_SomeD [OF assms(2)] by force
  ultimately show ?thesis
    using sum_update [OF registered_refs_distinct [OF ok], of r "reg_heap g" accumulated_cost]
    by (simp only: update_llm_metrics_def combined_cost option.case) simp
qed

definition demo_class :: "string llm_class" where
  "demo_class = \<lparr>model_of = (\<lambda>m. m), prepared = (\<lambda>m.
     if startswith ''openhands/'' m then ''litellm_proxy/'' @ removeprefix ''openhands/'' m else m)\<rparr>"

definition demo_stats :: stats where
  "demo_stats = \<lparr>metrics_path = ''p'', stats_conversation_id = ''c'', stats_has_store = True,
     service_to_metrics = [], restored_metrics = [(''agent'', (new_metrics ''m'')\<lparr>accumulated_cost := 3\<rparr>)]\<rparr>"

definition demo_registry :: "string registry" where
  "demo_registry = subscribe_stats (projr (new_registry demo_class ''m'' demo_stats))"

lemma demo_registry_run: "registry_run demo_class demo_registry"
  unfolding demo_registry_def
proof (intro registry_run.subscribe registry_run.start)
  show "service_to_metrics demo_stats = []" by (simp add: demo_stats_def)
  show "new_registry demo_class ''m'' demo_stats = Inr (projr (new_registry demo_class ''m'' demo_stats))"
    by (simp add: new_registry_def get_llm_def)
qed

lemma demo_registered: "map_of (service_to_metrics (reg_stats demo_registry)) ''agent'' = Some 1"
  by code_simp

lemma spending_is_counted_witness:
  "accumulated_cost (get_combined_metrics
       (reg_heap (update_llm_metrics ''agent'' (accumulated_cost_update (\<lambda>c. c + 2)) demo_registry))
       (reg_stats (update_llm_metrics ''agent'' (accumulated_cost_update (\<lambda>c. c + 2)) demo_registry))) =
   accumulated_cost (get_combined_metrics (reg_heap demo_registry) (reg_stats demo_registry)) + 2"
  using spending_is_counted [OF demo_registry_run demo_registered,
      of "accumulated_cost_update (\<lambda>c. c + 2)"] by simp

section \<open>Restarting\<close>

lemma restore_what_was_saved:
  assumes "stats_has_store s" and "cid \<noteq> []"
    and "metrics_path s = get_conversation_stats_filename cid user_id"
  shows "new_stats (Some (save_metrics h s files)) cid user_id =
         Inr \<lparr>metrics_path = metrics_path s, stats_conversation_id = cid, stats_has_store = True,
              service_to_metrics = [], restored_metrics = combined_for_save h s\<rparr>"
  using assms
  by (simp add: new_stats_def maybe_restore_metrics_def save_metrics_def mem.get_put_same)

lemma registered_after_create:
  assumes "subscribed g" and "map_of (service_to_llm g) k = None"
  shows "get_metrics_for_service (reg_heap (create_new_llm cls k c g))
           (reg_stats (create_new_llm cls k c g)) k =
         Inr (case map_of (restored_metrics (reg_stats g)) k of
                Some m \<Rightarrow> m | None \<Rightarrow> new_metrics (model_of cls c))"
proof -
  have [simp]: "deref (h @ [m]) (length h) = m" "deref (h @ [x, m]) (Suc (length h)) = m" for h m x
    by (simp_all add: deref_def nth_append)
  show ?thesis using assms
    by (cases "map_of (restored_metrics (reg_stats g)) k")
      (simp_all add: create_new_llm_def alloc_def notify_def register_llm_def get_metrics_for_service_def)
qed

lemma combined_for_save_registered:
  assumes "distinct (keys (service_to_metrics s))"
    and "map_of (service_to_metrics s) k = Some r"
  shows "map_of (combined_for_save h s) k = Some (deref h r)"
proof -
  have "distinct (keys (map (\<lambda>(k, r). (k, deref h r)) (service_to_metrics s)))"
    using assms(1) by (simp add: comp_def case_prod_unfold)
  moreover have "map_of (map (\<lambda>(k, r). (k, deref h r)) (service_to_metrics s)) k = Some (deref h r)"
    using assms(2) by (simp add: map_of_map)
  ultimately show ?thesis
    by (simp add: combined_for_save_def map_of_dict_update)
qed

text \<open>
  Statistics survive a restart: after \<open>save_metrics\<close>, new statistics for the same conversation
  read the file, and when an LLM registers under the name of a service of the old session it
  continues with the metrics that service had, whatever its own new object contained. A service that
  was still waiting to be registered when the file was written is carried over in the same way.
\<close>

theorem stats_survive_restart:
  assumes "stats_has_store s" and "cid \<noteq> []"
    and "metrics_path s = get_conversation_stats_filename cid user_id"
    and "distinct (keys (service_to_metrics s))"
    and "new_stats (Some (save_metrics h s files)) cid user_id = Inr s'"
    and "subscribed g" and "reg_stats g = s'" and "map_of (service_to_llm g) k = None"
    and "map_of (service_to_metrics s) k = Some r \<and> m = deref h r \<or>
         map_of (service_to_metrics s) k = None \<and> map_of (restored_metrics s) k = Some m"
  shows "get_metrics_for_service (reg_heap (create_new_llm cls k c g))
           (reg_stats (create_new_llm cls k c g)) k = Inr m"
proof -
  have s': "restored_metrics s' = combined_for_save h s"
    using assms(5) restore_what_was_saved [OF assms(1-3), of h files] by auto
  have "map_of (combined_for_save h s) k = Some m"
    using assms(9)
  proof
    assume "map_of (service_to_metrics s) k = Some r \<and> m = deref h r"
    with combined_for_save_registered [OF assms(4)] show ?thesis by simp
  next
    assume k: "map_of (service_to_metrics s) k = None \<and> map_of (restored_metrics s) k = Some m"
    have "distinct (keys (map (\<lambda>(k, r). (k, deref h r)) (service_to_metrics s)))"
      using assms(4) by (simp add: comp_def case_prod_unfold)
    with k show ?thesis
      by (simp add: combined_for_save_def map_of_dict_update map_of_map map_add_def)
  qed
  with s' show ?thesis
    using registered_after_create [OF assms(6,8)] assms(7) by simp
qed

definition old_session :: stats where
  "old_session = \<lparr>metrics_path = get_conversation_stats_filename ''c'' None,
     stats_conversation_id = ''c'', stats_has_store = True,
     service_to_metrics = [(''agent'', 0)], restored_metrics = [(''draft'', new_metrics ''d'')]\<rparr>"

definition new_session :: "string registry" where
  "new_session = \<lparr>reg_heap = [], service_to_llm = [], active_agent_llm = ''agent'', subscribed = True,
     reg_stats = projr (new_stats (Some (save_metrics [(new_metrics ''m'')\<lparr>accumulated_cost := 5\<rparr>]
       old_session ([] :: unit session_file files))) ''c'' None)\<rparr>"

lemma stats_survive_restart_witness:
  "get_metrics_for_service (reg_heap (create_new_llm demo_class ''agent'' ''m'' new_session))
     (reg_stats (create_new_llm demo_class ''agent'' ''m'' new_session)) ''agent'' =
   Inr ((new_metrics ''m'')\<lparr>accumulated_cost := 5\<rparr>)"
proof (rule stats_survive_restart [where s = old_session and cid = "''c''" and user_id = None
      and h = "[(new_metrics ''m'')\<lparr>accumulated_cost := 5\<rparr>]" and r = 0
      and files = "[] :: unit session_file files" and s' = "reg_stats new_session"])
  have "new_stats (Some (save_metrics [(new_metrics ''m'')\<lparr>accumulated_cost := 5\<rparr>]
      old_session ([] :: unit session_file files))) ''c'' None =
    Inr \<lparr>metrics_path = metrics_path old_session, stats_conversation_id = ''c'', stats_has_store = True,
      service_to_metrics = [], restored_metrics =
        combined_for_save [(new_metrics ''m'')\<lparr>accumulated_cost := 5\<rparr>] old_session\<rparr>"
    by (rule restore_what_was_saved) (simp_all add: old_session_def)
  then show "new_stats (Some (save_metrics [(new_metrics ''m'')\<lparr>accumulated_cost := 5\<rparr>]
      old_session ([] :: unit session_file files))) ''c'' None = Inr (reg_stats new_session)"
    by (simp add: new_session_def)
qed (simp_all add: old_session_def new_session_def deref_def)

section \<open>Asking for the same LLM again\<close>

text \<open>
  \<open>get_llm\<close> refuses a second request for a service although the configuration is the same,
  exactly when the constructor of the LLM changed its copy of it (it rewrites a model
  \<open>openhands/...\<close>, for instance): the request is compared with the changed copy.
\<close>

theorem same_request_refused_iff:
  "(\<exists>msg. get_llm cls k (Some c) (create_new_llm cls k c g) = Inl (ValueError msg)) \<longleftrightarrow> prepared cls c \<noteq> c"
proof -
  have "\<exists>l. map_of (service_to_llm (create_new_llm cls k c g)) k = Some l \<and> llm_config l = prepared cls c"
    by (simp add: create_new_llm_def alloc_def notify_def register_llm_def Let_def split: option.splits)
  then show ?thesis by (auto simp: get_llm_def)
qed

end
