(* ===== verification/Control_Flags.thy ===== *)
theory Control_Flags
  imports Py_Prelude Complex_Main
begin

text \<open>
  \<open>OpenHands/openhands/controller/state/control_flags.py\<close>: the limits on the iterations and on the
  budget of a task. A step is the new flag and the exception that it raises, if it does. The locale
  states what the state tracker relies on: a flag at its limit refuses to step, and after the limit
  was increased it steps again. Both flags interpret it.
\<close>

section \<open>Flags\<close>

record 'v control_flag =
  limit_increase_amount :: 'v
  current_value :: 'v
  max_value :: 'v
  flag_headless_mode :: bool
  hit_limit :: bool

definition new_flag :: "'v \<Rightarrow> 'v \<Rightarrow> 'v \<Rightarrow> 'v control_flag" where
  "new_flag amount current limit = \<lparr>limit_increase_amount = amount, current_value = current,
     max_value = limit, flag_headless_mode = False, hit_limit = False\<rparr>"

text \<open>\<open>reached_limit\<close>, the same for both flags; the answer is \<open>hit_limit\<close> of the result.\<close>

definition reached_limit :: "'v::linorder control_flag \<Rightarrow> 'v control_flag" where
  "reached_limit f = f\<lparr>hit_limit := (current_value f \<ge> max_value f)\<rparr>"

definition iteration_increase_limit :: "bool \<Rightarrow> int control_flag \<Rightarrow> int control_flag" where
  "iteration_increase_limit headless_mode f =
     (if \<not> headless_mode \<and> hit_limit f
      then f\<lparr>max_value := max_value f + limit_increase_amount f, hit_limit := False\<rparr> else f)"

definition iteration_step :: "int control_flag \<Rightarrow> int control_flag \<times> exc option" where
  "iteration_step f =
     (let f = reached_limit f in
      if hit_limit f
      then (f, Some (RuntimeError (''Agent reached maximum iteration. Current iteration: '' @
              show_int (current_value f) @ '', max iteration: '' @ show_int (max_value f))))
      else (f\<lparr>current_value := current_value f + 1\<rparr>, None))"

definition budget_increase_limit :: "bool \<Rightarrow> rat control_flag \<Rightarrow> rat control_flag" where
  "budget_increase_limit headless_mode f =
     (if hit_limit f
      then f\<lparr>max_value := current_value f + limit_increase_amount f, hit_limit := False\<rparr> else f)"

text \<open>\<open>money\<close> is the format \<open>:.2f\<close>. The text has no space before \<open>Current\<close>.\<close>

definition budget_step :: "(rat \<Rightarrow> string) \<Rightarrow> rat control_flag \<Rightarrow> rat control_flag \<times> exc option" where
  "budget_step money f =
     (let f = reached_limit f in
      if hit_limit f
      then (f, Some (RuntimeError (''Agent reached maximum budget for conversation.Current budget: '' @
              money (current_value f) @ '', max budget: '' @ money (max_value f))))
      else (f, None))"

section \<open>What the state tracker relies on\<close>

locale control_flag_ops =
  fixes step :: "'f \<Rightarrow> 'f \<times> exc option"
    and increase :: "bool \<Rightarrow> 'f \<Rightarrow> 'f"
    and at_limit :: "'f \<Rightarrow> bool"
    and ok :: "'f \<Rightarrow> bool"
  assumes step_raises: "snd (step f) \<noteq> None \<longleftrightarrow> at_limit f"
    and step_at_limit: "at_limit f \<Longrightarrow> at_limit (fst (step f))"
    and step_ok: "ok f \<Longrightarrow> ok (fst (step f))"
    and increase_frees: "ok f \<Longrightarrow> at_limit f \<Longrightarrow> \<not> at_limit (increase False (fst (step f)))"
    and increase_keeps: "ok f \<Longrightarrow> \<not> at_limit f \<Longrightarrow> \<not> at_limit (increase h f)"
begin

text \<open>A refused step does not change whether the next one is refused.\<close>

lemma refused_again: "at_limit f \<Longrightarrow> snd (step (fst (step f))) \<noteq> None"
  using step_raises step_at_limit by blast

text \<open>After the user increased the limit, the flag steps.\<close>

lemma steps_after_increase: "ok f \<Longrightarrow> snd (step (increase False (fst (step f)))) = None \<or> \<not> at_limit f"
  using step_raises increase_frees by blast

end

definition iteration_ok :: "int control_flag \<Rightarrow> bool" where
  "iteration_ok f \<longleftrightarrow> 0 < limit_increase_amount f \<and> current_value f \<le> max_value f"

definition budget_ok :: "rat control_flag \<Rightarrow> bool" where
  "budget_ok f \<longleftrightarrow> 0 < limit_increase_amount f"

definition over_limit :: "'v::linorder control_flag \<Rightarrow> bool" where
  "over_limit f \<longleftrightarrow> max_value f \<le> current_value f"

lemma iteration_step_under:
  "\<not> over_limit f \<Longrightarrow> iteration_step f =
     (f\<lparr>current_value := current_value f + 1, hit_limit := False\<rparr>, None)"
  by (simp add: iteration_step_def reached_limit_def over_limit_def Let_def)

lemma iteration_step_over:
  "over_limit f \<Longrightarrow> \<exists>msg. iteration_step f = (f\<lparr>hit_limit := True\<rparr>,
     Some (RuntimeError (''Agent reached maximum iteration.'' @ msg)))"
  by (simp add: iteration_step_def reached_limit_def over_limit_def Let_def)

lemma budget_step_under: "\<not> over_limit f \<Longrightarrow> budget_step money f = (f\<lparr>hit_limit := False\<rparr>, None)"
  by (simp add: budget_step_def reached_limit_def over_limit_def Let_def)

lemma budget_step_over:
  "over_limit f \<Longrightarrow> \<exists>msg. budget_step money f = (f\<lparr>hit_limit := True\<rparr>,
     Some (RuntimeError (''Agent reached maximum budget for conversation.'' @ msg)))"
  by (simp add: budget_step_def reached_limit_def over_limit_def Let_def)

interpretation iteration: control_flag_ops iteration_step iteration_increase_limit over_limit iteration_ok
proof
  fix f :: "int control_flag" and h
  show "(snd (iteration_step f) \<noteq> None) = over_limit f"
    using iteration_step_under [of f] iteration_step_over [of f] by (cases "over_limit f") auto
  show "over_limit f \<Longrightarrow> over_limit (fst (iteration_step f))"
    using iteration_step_over [of f] by (auto simp: over_limit_def)
  show "iteration_ok f \<Longrightarrow> iteration_ok (fst (iteration_step f))"
    using iteration_step_under [of f] iteration_step_over [of f]
    by (cases "over_limit f") (auto simp: iteration_ok_def over_limit_def)
  show "iteration_ok f \<Longrightarrow> over_limit f \<Longrightarrow> \<not> over_limit (iteration_increase_limit False (fst (iteration_step f)))"
    using iteration_step_over [of f]
    by (auto simp: iteration_ok_def over_limit_def iteration_increase_limit_def)
  show "iteration_ok f \<Longrightarrow> \<not> over_limit f \<Longrightarrow> \<not> over_limit (iteration_increase_limit h f)"
    by (auto simp: over_limit_def iteration_increase_limit_def iteration_ok_def)
qed

interpretation budget: control_flag_ops "budget_step money" budget_increase_limit over_limit budget_ok
proof
  fix f :: "rat control_flag" and h
  show "(snd (budget_step money f) \<noteq> None) = over_limit f"
    using budget_step_under [of f money] budget_step_over [of f money] by (cases "over_limit f") auto
  show "over_limit f \<Longrightarrow> over_limit (fst (budget_step money f))"
    using budget_step_over [of f money] by (auto simp: over_limit_def)
  show "budget_ok f \<Longrightarrow> budget_ok (fst (budget_step money f))"
    using budget_step_under [of f money] budget_step_over [of f money]
    by (cases "over_limit f") (auto simp: budget_ok_def)
  show "budget_ok f \<Longrightarrow> over_limit f \<Longrightarrow> \<not> over_limit (budget_increase_limit False (fst (budget_step money f)))"
    using budget_step_over [of f money]
    by (auto simp: budget_ok_def over_limit_def budget_increase_limit_def)
  show "budget_ok f \<Longrightarrow> \<not> over_limit f \<Longrightarrow> \<not> over_limit (budget_increase_limit h f)"
    by (auto simp: over_limit_def budget_increase_limit_def budget_ok_def)
qed

text \<open>The budget's limit is raised in headless mode as well; the one on the iterations is not.\<close>

lemma headless_increase:
  "iteration_increase_limit True f = f"
  "hit_limit g \<Longrightarrow> max_value (budget_increase_limit True g) = current_value g + limit_increase_amount g"
  by (simp_all add: iteration_increase_limit_def budget_increase_limit_def)

end
