(* ===== verification/Agent_State.thy ===== *)
theory Agent_State
  imports Control_Flags Conversation_Stats Views
begin

text \<open>
  \<open>OpenHands/openhands/core/schema/agent.py\<close> and \<open>OpenHands/openhands/controller/state/state.py\<close>: the
  state of an agent. \<open>agent_state\<close> is the string it is in the code (\<open>AgentState\<close> is a string
  enumeration, and an event that changes the state carries any string). The control flags and the
  metrics are objects that a parent shares with its delegates; they are in the record \<open>limits\<close>. The
  statistics of the conversation are an object of their own, here only whether the state has one.
\<close>

section \<open>States of the agent\<close>

datatype AgentState =
    LOADING | RUNNING | AWAITING_USER_INPUT | PAUSED | STOPPED | FINISHED | REJECTED | ERROR
  | AWAITING_USER_CONFIRMATION | USER_CONFIRMED | USER_REJECTED | RATE_LIMITED

fun agent_state_value :: "AgentState \<Rightarrow> string" where
  "agent_state_value LOADING = ''loading''"
| "agent_state_value RUNNING = ''running''"
| "agent_state_value AWAITING_USER_INPUT = ''awaiting_user_input''"
| "agent_state_value PAUSED = ''paused''"
| "agent_state_value STOPPED = ''stopped''"
| "agent_state_value FINISHED = ''finished''"
| "agent_state_value REJECTED = ''rejected''"
| "agent_state_value ERROR = ''error''"
| "agent_state_value AWAITING_USER_CONFIRMATION = ''awaiting_user_confirmation''"
| "agent_state_value USER_CONFIRMED = ''user_confirmed''"
| "agent_state_value USER_REJECTED = ''user_rejected''"
| "agent_state_value RATE_LIMITED = ''rate_limited''"

lemma agent_state_value_eq [simp]: "agent_state_value a = agent_state_value b \<longleftrightarrow> a = b"
  by (cases a; cases b) simp_all

definition RESUMABLE_STATES :: "string list" where
  "RESUMABLE_STATES = map agent_state_value [RUNNING, PAUSED, AWAITING_USER_INPUT, FINISHED]"

section \<open>The state\<close>

record state =
  session_id :: string
  st_user_id :: "string option"
  has_stats :: bool
  st_confirmation_mode :: bool
  history :: "event list"
  inputs :: dict
  outputs :: dict
  agent_state :: string
  resume_state :: "string option"
  delegate_level :: int
  start_id :: int
  end_id :: int
  parent_metrics_snapshot :: "metrics option"
  parent_iteration :: int
  extra_data :: dict
  last_error :: string
  history_checksum :: int
  cached_view :: "Views.view option"

record limits =
  iteration_flag :: "int control_flag"
  budget_flag :: "rat control_flag option"
  global_metrics :: metrics

text \<open>The defaults of the dataclass.\<close>

definition new_state :: state where
  "new_state = \<lparr>session_id = [], st_user_id = None, has_stats = False, st_confirmation_mode = False,
     history = [], inputs = [], outputs = [], agent_state = agent_state_value LOADING,
     resume_state = None, delegate_level = 0, start_id = -1, end_id = -1,
     parent_metrics_snapshot = None, parent_iteration = 100, extra_data = [], last_error = [],
     history_checksum = -1, cached_view = None\<rparr>"

definition new_limits :: limits where
  "new_limits = \<lparr>iteration_flag = new_flag 100 0 100, budget_flag = None,
     global_metrics = new_metrics ''default''\<rparr>"

section \<open>Pickling\<close>

text \<open>
  What a pickle holds. Old pickles have the keys \<open>iteration\<close> and \<open>max_iterations\<close> and may lack the
  iteration flag.
\<close>

record pickled =
  pk_state :: state
  pk_iteration_flag :: "int control_flag option"
  pk_budget_flag :: "rat control_flag option"
  pk_metrics :: metrics
  pk_iteration :: "int option"
  pk_max_iterations :: "int option"

definition state_getstate :: "state \<Rightarrow> limits \<Rightarrow> pickled" where
  "state_getstate st l =
     \<lparr>pk_state = st\<lparr>history := [], history_checksum := -1, cached_view := None\<rparr>,
      pk_iteration_flag = Some (iteration_flag l), pk_budget_flag = budget_flag l,
      pk_metrics = global_metrics l, pk_iteration = None, pk_max_iterations = None\<rparr>"

definition state_setstate :: "pickled \<Rightarrow> state \<times> limits" where
  "state_setstate p =
     (let flag = (case pk_iteration p of
          Some current_iteration \<Rightarrow>
            let max_iterations = (case pk_max_iterations p of None \<Rightarrow> 100 | Some m \<Rightarrow> m)
            in Some (new_flag max_iterations current_iteration max_iterations)
        | None \<Rightarrow> pk_iteration_flag p)
      in (pk_state p,
          \<lparr>iteration_flag = (case flag of None \<Rightarrow> new_flag 100 0 100 | Some f \<Rightarrow> f),
           budget_flag = pk_budget_flag p, global_metrics = pk_metrics p\<rparr>))"

text \<open>The reference to the statistics is taken away for the pickle and set again after it.\<close>

definition save_to_session ::
    "string \<Rightarrow> string option \<Rightarrow> state \<Rightarrow> limits \<Rightarrow> pickled session_file files \<Rightarrow> pickled session_file files" where
  "save_to_session sid user_id st l files =
     (let files = fs_write (get_conversation_agent_state_filename sid user_id)
            (StateFile (state_getstate (st\<lparr>has_stats := False\<rparr>) l)) files
      in if truthy user_id
         then fs_delete (get_conversation_agent_state_filename sid None) files else files)"

definition unpickle_state :: "pickled session_file \<Rightarrow> exc + state \<times> limits" where
  "unpickle_state f =
     (case f of
        StateFile p \<Rightarrow> Inr (state_setstate p)
      | StatsFile _ \<Rightarrow> Inl (OtherException ''AttributeError'' ''agent_state''))"

definition restore_from_session ::
    "string \<Rightarrow> string option \<Rightarrow> pickled session_file files \<Rightarrow> exc + state \<times> limits" where
  "restore_from_session sid user_id files =
     rbind
       (case fs_read (get_conversation_agent_state_filename sid user_id) files of
          Inr f \<Rightarrow> unpickle_state f
        | Inl (FileNotFoundError _) \<Rightarrow>
            if truthy user_id
            then rbind (fs_read (get_conversation_agent_state_filename sid None) files) unpickle_state
            else Inl (FileNotFoundError (''Could not restore state from session file for sid: '' @ sid))
        | Inl x \<Rightarrow> Inl x)
       (\<lambda>(st, l).
          let st = st\<lparr>resume_state :=
                (if agent_state st \<in> set RESUMABLE_STATES then Some (agent_state st) else None)\<rparr>
          in Inr (st\<lparr>agent_state := agent_state_value LOADING\<rparr>, l))"

section \<open>Reading the state\<close>

text \<open>
  The property \<open>view\<close>: computed again when the length of the history changed. The checksum is set
  before the view is computed.
\<close>

definition state_view :: "state \<Rightarrow> (exc + Views.view) \<times> state" where
  "state_view st =
     (let checksum = int (length (history st)) in
      if checksum \<noteq> history_checksum st
      then
        let st = st\<lparr>history_checksum := checksum\<rparr>
        in case from_events (history st) of
             Inl x \<Rightarrow> (Inl x, st)
           | Inr v \<Rightarrow> (Inr v, st\<lparr>cached_view := Some v\<rparr>)
      else
        (case cached_view st of
           None \<Rightarrow> (Inl (OtherException ''AttributeError'' ''_view''), st)
         | Some v \<Rightarrow> (Inr v, st)))"

fun message_of :: "event \<Rightarrow> message_action option" where
  "message_of e = (case ev_body e of Action (MessageAction m) \<Rightarrow> Some m | _ \<Rightarrow> None)"

fun is_finish :: "event \<Rightarrow> bool" where
  "is_finish e = (case ev_body e of Action (AgentFinishAction _ _ _) \<Rightarrow> True | _ \<Rightarrow> False)"

lemma action_or_observation: "is_observation e \<longleftrightarrow> \<not> is_action e"
  by (simp split: body.splits)

declare is_action.simps [simp del] is_observation.simps [simp del]
declare message_of.simps [simp del] is_finish.simps [simp del]

definition message_from :: "EventSource \<Rightarrow> event \<Rightarrow> bool" where
  "message_from s e \<longleftrightarrow> message_of e \<noteq> None \<and> ev_source e = Some s"

type_synonym intent = "string option \<times> string list option"

text \<open>The loop of \<open>get_current_user_intent\<close> over the reversed view.\<close>

fun intent_loop :: "event list \<Rightarrow> intent \<Rightarrow> intent" where
  "intent_loop [] (m, urls) = (m, urls)"
| "intent_loop (e # es) (m, urls) =
     (if message_from USER e
      then intent_loop es (map_option ma_content (message_of e), Option.bind (message_of e) ma_image_urls)
      else if is_finish e \<and> m \<noteq> None then (m, None)
      else intent_loop es (m, urls))"

definition get_current_user_intent :: "state \<Rightarrow> (exc + intent) \<times> state" where
  "get_current_user_intent st =
     (let (v, st) = state_view st
      in (rbind v (\<lambda>v. Inr (intent_loop (rev (v_events v)) (None, Some []))), st))"

definition last_message_from :: "EventSource \<Rightarrow> state \<Rightarrow> (exc + event option) \<times> state" where
  "last_message_from s st =
     (let (v, st) = state_view st
      in (rbind v (\<lambda>v. Inr (List.find (message_from s) (rev (v_events v)))), st))"

definition get_last_agent_message :: "state \<Rightarrow> (exc + event option) \<times> state" where
  "get_last_agent_message = last_message_from AGENT"

definition get_last_user_message :: "state \<Rightarrow> (exc + event option) \<times> state" where
  "get_last_user_message = last_message_from USER"

text \<open>The version and the environment's \<open>WEB_HOST\<close> are arguments.\<close>

definition to_llm_metadata ::
    "string \<Rightarrow> string option \<Rightarrow> string \<Rightarrow> string \<Rightarrow> state \<Rightarrow> dict" where
  "to_llm_metadata version web_host model agent st =
     [(''session_id'', JStr (session_id st)),
      (''trace_version'', JStr version),
      (''trace_user_id'', (case st_user_id st of None \<Rightarrow> JNull | Some u \<Rightarrow> JStr u)),
      (''tags'', JList (map JStr
        [''model:'' @ model, ''agent:'' @ agent,
         ''web_host:'' @ (case web_host of None \<Rightarrow> ''unspecified'' | Some h \<Rightarrow> h),
         ''openhands_version:'' @ version]))]"

definition get_local_step :: "state \<Rightarrow> limits \<Rightarrow> int" where
  "get_local_step st l =
     (if parent_iteration st = 0 then current_value (iteration_flag l)
      else current_value (iteration_flag l) - parent_iteration st)"

definition get_local_metrics :: "state \<Rightarrow> limits \<Rightarrow> metrics" where
  "get_local_metrics st l =
     (case parent_metrics_snapshot st of
        None \<Rightarrow> global_metrics l
      | Some m \<Rightarrow> diff_metrics (global_metrics l) m)"

text \<open>
  The state of an agent across sessions: what a restored state keeps, which message is taken for the
  user's intent, and when the cached view is not the view of the history.
\<close>

section \<open>Saving and restoring\<close>

lemma state_path_not_old: "truthy user_id \<Longrightarrow>
    \<not> startswith (get_conversation_agent_state_filename sid user_id)
       (get_conversation_agent_state_filename sid None)"
  by (auto simp: truthy_def get_conversation_agent_state_filename_def get_conversation_dir_def
      CONVERSATION_BASE_DIR_def split: option.splits list.splits)

lemma read_saved_state:
  "fs_read (get_conversation_agent_state_filename sid user_id) (save_to_session sid user_id st l files) =
   Inr (StateFile (state_getstate (st\<lparr>has_stats := False\<rparr>) l))"
  by (simp add: save_to_session_def Let_def mem.get_put_same mem.get_rem_other state_path_not_old)

text \<open>
  C17. What is saved is what the next session starts from: everything but the history and the cached
  view, which the next session rebuilds, and the reference to the statistics. The control flags and
  the metrics come back as they were. The agent is loading, and remembers the state it was in when
  that was one to resume. With a user id, a file left at the old path is gone.
\<close>

theorem state_survives_session:
  "restore_from_session sid user_id (save_to_session sid user_id st l files) =
   Inr (st\<lparr>has_stats := False, history := [], history_checksum := -1, cached_view := None,
          resume_state := (if agent_state st \<in> set RESUMABLE_STATES then Some (agent_state st) else None),
          agent_state := agent_state_value LOADING\<rparr>, l)"
  by (simp add: restore_from_session_def read_saved_state unpickle_state_def state_setstate_def
      state_getstate_def Let_def)

text \<open>A pickle of an old version: its iterations become the flag, with the old limit as increment.\<close>

lemma old_pickle_flag:
  "pk_iteration p = Some i \<Longrightarrow> pk_max_iterations p = Some m \<Longrightarrow>
   iteration_flag (snd (state_setstate p)) = new_flag m i m"
  by (simp add: state_setstate_def)

section \<open>The user's intent\<close>

lemma finish_not_message [simp]: "is_finish e \<Longrightarrow> \<not> message_from s e"
  by (auto simp: message_from_def message_of.simps is_finish.simps split: body.splits action.splits)

lemma intent_loop_append:
  "list_all (\<lambda>e. \<not> (is_finish e)) es \<Longrightarrow>
   intent_loop (rev es @ rest) r =
   (case List.find (message_from USER) es of
      None \<Rightarrow> intent_loop rest r
    | Some e \<Rightarrow> intent_loop rest (map_option ma_content (message_of e), Option.bind (message_of e) ma_image_urls))"
proof (induction es arbitrary: rest)
  case (Cons e es)
  then show ?case by (cases r) (auto split: option.splits)
qed simp

lemma intent_loop_no_message:
  "\<not> list_ex (message_from USER) es \<Longrightarrow> intent_loop (rev es @ rest) (None, u) = intent_loop rest (None, u)"
  by (induction es arbitrary: rest) auto

lemma message_content: "message_from s e \<Longrightarrow> \<exists>m. message_of e = Some m"
  by (auto simp: message_from_def)

lemma find_message: "List.find (message_from USER) es = Some e \<Longrightarrow> message_from USER e"
  by (auto simp: find_Some_iff)

text \<open>
  The intent is not the latest message of the user but the first one after the last finished task
  that was followed by a message: if the history ends with a finish \<open>f\<close>, then \<open>ys\<close> with no other
  finish, and the first user message of \<open>ys\<close> is \<open>e\<close>, the result is the text of \<open>e\<close> without its
  images; a finish that no message follows (in \<open>zs\<close>) does not count.
\<close>

theorem intent_is_first_after_finish:
  assumes "state_view st = (Inr v, st')"
    and "v_events v = xs @ f # ys @ zs"
    and "is_finish f" and "list_all (\<lambda>e. \<not> is_finish e) ys" and "\<not> list_ex (message_from USER) zs"
    and "List.find (message_from USER) ys = Some e"
  shows "get_current_user_intent st = (Inr (map_option ma_content (message_of e), None), st')"
proof -
  obtain m where m: "message_of e = Some m"
    using message_content [OF find_message [OF assms(6)]] by blast
  have "intent_loop (rev (v_events v)) (None, Some []) =
        intent_loop (rev zs @ rev ys @ f # rev xs) (None, Some [])"
    by (simp add: assms(2))
  also have "\<dots> = intent_loop (rev ys @ f # rev xs) (None, Some [])"
    by (rule intent_loop_no_message [OF assms(5)])
  also have "\<dots> = intent_loop (f # rev xs) (Some (ma_content m), ma_image_urls m)"
    by (simp add: intent_loop_append [OF assms(4)] assms(6) m del: intent_loop.simps)
  also have "\<dots> = (Some (ma_content m), None)"
    using assms(3) by simp
  finally show ?thesis by (simp add: get_current_user_intent_def assms(1) m)
qed

definition user_says :: "string \<Rightarrow> event" where
  "user_says t = (new_event (Action (MessageAction \<lparr>ma_content = t, ma_file_urls = None,
     ma_image_urls = Some [''picture''], ma_wait_for_response = False, ma_security_risk = RISK_UNKNOWN\<rparr>)))
     \<lparr>ev_source := Some USER\<rparr>"

definition finishes :: event where
  "finishes = (new_event (Action (AgentFinishAction [] [] [])))\<lparr>ev_source := Some AGENT\<rparr>"

lemma intent_is_first_after_finish_witness:
  "fst (get_current_user_intent (new_state\<lparr>
     history := [finishes, user_says ''first'', user_says ''second'', finishes]\<rparr>)) = Inr (Some ''first'', None)"
proof -
  let ?es = "[finishes, user_says ''first'', user_says ''second'', finishes]"
  let ?v = "\<lparr>v_events = ?es, unhandled_condensation_request = False\<rparr>"
  let ?st = "new_state\<lparr>history := ?es\<rparr>"
  have "from_events ?es = Inr ?v"
    by (simp add: from_events_def forget_step_def finishes_def user_says_def new_event_def)
  then have "state_view ?st = (Inr ?v, ?st\<lparr>history_checksum := 4, cached_view := Some ?v\<rparr>)"
    by (simp add: state_view_def new_state_def)
  then have "get_current_user_intent ?st = (Inr (map_option ma_content (message_of (user_says ''first'')), None),
      ?st\<lparr>history_checksum := 4, cached_view := Some ?v\<rparr>)"
    by (rule intent_is_first_after_finish [where xs = "[]" and f = finishes and zs = "[finishes]"
          and ys = "[user_says ''first'', user_says ''second'']"])
      (simp_all add: finishes_def user_says_def new_event_def message_from_def message_of.simps is_finish.simps)
  then show ?thesis by (simp add: user_says_def new_event_def message_of.simps)
qed

section \<open>The cached view\<close>

definition view_current :: "state \<Rightarrow> bool" where
  "view_current st \<longleftrightarrow> history_checksum st \<noteq> int (length (history st)) \<or>
     (\<exists>v. cached_view st = Some v \<and> from_events (history st) = Inr v)"

text \<open>Appending events never makes a stale view be used; the length tells.\<close>

lemma state_view_current:
  "view_current st \<Longrightarrow> fst (state_view st) = from_events (history st)"
  by (auto simp: view_current_def state_view_def Let_def split: sum.splits option.splits)

lemma view_current_append:
  assumes "view_current st" and "history_checksum st \<le> int (length (history st))" and "es \<noteq> []"
  shows "view_current (st\<lparr>history := history st @ es\<rparr>)"
  using assms by (auto simp: view_current_def)

text \<open>
  The cached view is looked up by the length of the history alone: when the history was cut back
  and grew to the old length again, \<open>view\<close> still returns the view of the events that are gone.
\<close>

theorem truncated_history_stale_view:
  assumes "from_events (h @ old) = Inr v" and "length new = length old"
  shows "fst (state_view ((snd (state_view (st\<lparr>history := h @ old, history_checksum := -1\<rparr>)))
           \<lparr>history := h @ new\<rparr>)) = from_events (h @ old)"
  using assms by (simp add: state_view_def Let_def)

lemma truncated_history_stale_view_witness:
  "fst (state_view ((snd (state_view (new_state\<lparr>history := [finishes] @ [user_says ''a''], history_checksum := -1\<rparr>)))
     \<lparr>history := [finishes] @ [user_says ''b'']\<rparr>)) = from_events [finishes, user_says ''a''] \<and>
   from_events [finishes, user_says ''a''] \<noteq> from_events [finishes, user_says ''b'']"
proof -
  have "\<exists>v. from_events ([finishes] @ [user_says ''a'']) = Inr v"
    by (simp add: from_events_def forget_step_def finishes_def user_says_def new_event_def rbind_def)
  then obtain v where v: "from_events ([finishes] @ [user_says ''a'']) = Inr v" by blast
  have "from_events [finishes, user_says ''a''] \<noteq> from_events [finishes, user_says ''b'']"
    by (simp add: from_events_def forget_step_def finishes_def user_says_def new_event_def rbind_def)
  moreover have "fst (state_view ((snd (state_view (new_state\<lparr>history := [finishes] @ [user_says ''a''], history_checksum := -1\<rparr>)))
     \<lparr>history := [finishes] @ [user_says ''b'']\<rparr>)) = from_events ([finishes] @ [user_says ''a''])"
    by (rule truncated_history_stale_view [OF v]) simp
  ultimately show ?thesis by simp
qed

end
