(* ===== verification/Stuck.thy ===== *)
theory Stuck
  imports Agent_State "HOL-Library.Sublist"
begin

text \<open>
  \<open>OpenHands/openhands/controller/stuck.py\<close>: the detector of loops in the history of an agent. The
  detector keeps the analysis of the last loop found, \<open>stuck_analysis\<close>; a check returns whether the
  agent is stuck and the analysis that it leaves. The checks of the five scenarios return the analysis
  of the loop that they find.
\<close>

section \<open>Comparing events\<close>

record stuck_analysis =
  loop_type :: string
  loop_repeat_times :: int
  loop_start_idx :: int

text \<open>\<open>_eq_no_pid\<close>: edits are compared by the first three lines of their code, command outputs by
  command and exit code.\<close>

definition eq_no_pid :: "event \<Rightarrow> event \<Rightarrow> bool" where
  "eq_no_pid e1 e2 =
     (case (ev_body e1, ev_body e2) of
        (Action (IPythonRunCellAction a), Action (IPythonRunCellAction b)) \<Rightarrow>
          if contains (ip_code a) ''edit_file_by_replace('' \<and> contains (ip_code b) ''edit_file_by_replace(''
          then 2 < length (split_on [newline] (ip_code a)) \<and>
               slice_to 3 (split_on [newline] (ip_code a)) = slice_to 3 (split_on [newline] (ip_code b))
          else event_eq e1 e2
      | (Observation (CmdOutputObservation a), Observation (CmdOutputObservation b)) \<Rightarrow>
          co_command a = co_command b \<and> cmd_exit_code a = cmd_exit_code b
      | _ \<Rightarrow> event_eq e1 e2)"

text \<open>\<open>events.index(e)\<close>, which compares with \<open>==\<close>; \<open>e\<close> is one of the events.\<close>

definition index_of :: "event \<Rightarrow> event list \<Rightarrow> int" where
  "index_of e es = (case first_index (event_eq e) es of Some i \<Rightarrow> int i | None \<Rightarrow> -1)"

text \<open>The loops that take the last \<open>k\<close> actions and the last \<open>k\<close> observations, \<open>es\<close> reversed.\<close>

fun take_last :: "nat \<Rightarrow> event list \<Rightarrow> event list \<times> event list \<Rightarrow> event list \<times> event list" where
  "take_last k [] (as, os) = (as, os)"
| "take_last k (e # es) (as, os) =
     (let (as, os) =
        (if is_action e \<and> length as < k then (as @ [e], os)
         else if is_observation e \<and> length os < k then (as, os @ [e])
         else (as, os))
      in if length as = k \<and> length os = k then (as, os) else take_last k es (as, os))"

section \<open>The scenarios\<close>

definition repeating_action_observation ::
    "event list \<Rightarrow> event list \<Rightarrow> event list \<Rightarrow> int \<Rightarrow> stuck_analysis option" where
  "repeating_action_observation last_actions last_observations filtered_history offset =
     (if length last_actions = 4 \<and> length last_observations = 4 \<and>
         list_all (eq_no_pid (hd last_actions)) last_actions \<and>
         list_all (eq_no_pid (hd last_observations)) last_observations
      then Some \<lparr>loop_type = ''repeating_action_observation'', loop_repeat_times = 4,
             loop_start_idx = index_of (last last_actions) filtered_history + offset\<rparr>
      else None)"

definition check_for_consistent_invalid_syntax :: "string list \<Rightarrow> string \<Rightarrow> bool" where
  "check_for_consistent_invalid_syntax contents error_message =
     (let all_lines = map (\<lambda>c. split_on [newline] (strip c)) contents in
      if list_ex (\<lambda>lines. length lines < 6 \<or> \<not> startswith (strip (hd lines)) ''Cell In[1], line'') all_lines
      then False
      else
        let first_lines = map (\<lambda>lines. strip (hd lines)) all_lines;
            valid = filter (\<lambda>lines. let n = length lines in
              startswith (lines ! (n - 1)) ''[Jupyter Python interpreter:'' \<and>
              startswith (lines ! (n - 2)) ''[Jupyter current working directory:'' \<and>
              contains (lines ! (n - 3)) error_message) all_lines
        in length (remdups first_lines) = 1 \<and> length valid = 3 \<and>
           length (remdups (map (\<lambda>lines. lines ! (length lines - 3)) valid)) = 1)"

definition check_for_consistent_line_error :: "string list \<Rightarrow> string \<Rightarrow> bool" where
  "check_for_consistent_line_error contents error_message =
     (let all_lines = map (\<lambda>c. split_on [newline] (strip c)) contents in
      if list_ex (\<lambda>lines. let n = length lines in
           n < 3 \<or> \<not> (startswith (lines ! (n - 2)) ''[Jupyter current working directory:'' \<and>
             startswith (lines ! (n - 1)) ''[Jupyter Python interpreter:'')) all_lines
      then False
      else
        let error_lines = filter (\<lambda>line. contains line error_message) (map (\<lambda>lines. lines ! (length lines - 3)) all_lines)
        in length error_lines = 3 \<and> length (remdups error_lines) = 1)"

definition SYNTAX_ERROR_MESSAGES :: "string list" where
  "SYNTAX_ERROR_MESSAGES =
     [''SyntaxError: unterminated string literal (detected at line'',
      ''SyntaxError: invalid syntax. Perhaps you forgot a comma?'',
      ''SyntaxError: incomplete input'']"

fun is_error :: "event \<Rightarrow> bool" where
  "is_error e = (case ev_body e of Observation (ErrorObservation _ _) \<Rightarrow> True | _ \<Rightarrow> False)"

fun ipython_content :: "event \<Rightarrow> string option" where
  "ipython_content e =
     (case ev_body e of Observation (IPythonRunCellObservation c _ _) \<Rightarrow> Some c | _ \<Rightarrow> None)"

definition syntax_error_repeated :: "string list \<Rightarrow> string \<Rightarrow> bool" where
  "syntax_error_repeated contents error_message =
     (if startswith error_message ''SyntaxError: unterminated string literal (detected at line''
      then check_for_consistent_line_error contents error_message
      else error_message \<in> {''SyntaxError: invalid syntax. Perhaps you forgot a comma?'',
             ''SyntaxError: incomplete input''} \<and>
           check_for_consistent_invalid_syntax contents error_message)"

definition repeating_action_error ::
    "event list \<Rightarrow> event list \<Rightarrow> event list \<Rightarrow> int \<Rightarrow> stuck_analysis option" where
  "repeating_action_error last_actions last_observations filtered_history offset =
     (let found = Some \<lparr>loop_type = ''repeating_action_error'', loop_repeat_times = 3,
            loop_start_idx = index_of (last last_actions) filtered_history + offset\<rparr>;
          obs = take 3 last_observations
      in if length last_actions < 3 \<or> length last_observations < 3 then None
      else if list_all (eq_no_pid (hd last_actions)) (take 3 last_actions)
      then
        if list_all is_error obs then found
        else if list_all (\<lambda>e. ipython_content e \<noteq> None) obs \<and>
          list_ex (syntax_error_repeated (map (\<lambda>e. the (ipython_content e)) obs)) SYNTAX_ERROR_MESSAGES
        then found
        else None
      else None)"

definition monologue :: "event list \<Rightarrow> int \<Rightarrow> stuck_analysis option" where
  "monologue filtered_history offset =
     (let messages = filter (\<lambda>(i, e). message_from AGENT e)
            (zip [0..<length filtered_history] filtered_history);
          recent = drop (length messages - 3) messages
      in if 3 \<le> length messages \<and> list_all (\<lambda>(i, e). event_eq (snd (hd recent)) e) recent
      then
        let start_index = fst (hd recent); end_index = fst (last recent);
            between = take (end_index - (start_index + 1)) (drop (start_index + 1) filtered_history)
        in if list_ex is_observation between then None
           else Some \<lparr>loop_type = ''monologue'', loop_repeat_times = 3,
                  loop_start_idx = int start_index + offset\<rparr>
      else None)"

definition alternating :: "event list \<Rightarrow> bool" where
  "alternating es \<longleftrightarrow> eq_no_pid (es ! 0) (es ! 2) \<and> eq_no_pid (es ! 0) (es ! 4) \<and>
     eq_no_pid (es ! 1) (es ! 3) \<and> eq_no_pid (es ! 1) (es ! 5)"

definition action_observation_pattern :: "event list \<Rightarrow> int \<Rightarrow> stuck_analysis option" where
  "action_observation_pattern filtered_history offset =
     (let (last_six_actions, last_six_observations) = take_last 6 (rev filtered_history) ([], [])
      in if length last_six_actions = 6 \<and> length last_six_observations = 6 \<and>
            alternating last_six_actions \<and> alternating last_six_observations
         then Some \<lparr>loop_type = ''repeating_action_observation_pattern'', loop_repeat_times = 3,
                loop_start_idx = index_of (last last_six_actions) filtered_history + offset\<rparr>
         else None)"

fun is_condensation_observation :: "event \<Rightarrow> bool" where
  "is_condensation_observation e =
     (case ev_body e of Observation (AgentCondensationObservation _) \<Rightarrow> True | _ \<Rightarrow> False)"

text \<open>The loop over the adjacent pairs of the last ten condensation observations.\<close>

fun first_gapless :: "event list \<Rightarrow> nat list \<Rightarrow> nat option" where
  "first_gapless es (i # j # is) =
     (if list_all is_condensation_observation (take (j - (i + 1)) (drop (i + 1) es)) then Some i
      else first_gapless es (j # is))"
| "first_gapless es _ = None"

definition context_window_error :: "event list \<Rightarrow> int \<Rightarrow> stuck_analysis option" where
  "context_window_error filtered_history offset =
     (let positions = map fst (filter (\<lambda>(i, e). is_condensation_observation e)
            (zip [0..<length filtered_history] filtered_history))
      in if length positions < 10 then None
         else case first_gapless filtered_history (drop (length positions - 10) positions) of
           None \<Rightarrow> None
         | Some start_idx \<Rightarrow>
             Some \<lparr>loop_type = ''context_window_error'', loop_repeat_times = 2,
               loop_start_idx = int start_idx + offset\<rparr>)"

declare is_error.simps [simp del] ipython_content.simps [simp del] is_condensation_observation.simps [simp del]

section \<open>The check\<close>

fun is_null :: "event \<Rightarrow> bool" where
  "is_null e = (case ev_body e of Action NullAction \<Rightarrow> True | Observation (NullObservation _) \<Rightarrow> True | _ \<Rightarrow> False)"

text \<open>The index after the last message of the user, 0 without one.\<close>

definition after_last_user_message :: "event list \<Rightarrow> nat" where
  "after_last_user_message es =
     (case first_index (message_from USER) (rev es) of None \<Rightarrow> 0 | Some i \<Rightarrow> length es - i)"

definition history_offset :: "bool \<Rightarrow> event list \<Rightarrow> nat" where
  "history_offset headless_mode h = (if headless_mode then 0 else after_last_user_message h)"

definition filtered_history :: "bool \<Rightarrow> event list \<Rightarrow> event list" where
  "filtered_history headless_mode h =
     filter (\<lambda>e. \<not> (message_from USER e \<or> is_null e)) (drop (history_offset headless_mode h) h)"

definition find_loop :: "event list \<Rightarrow> int \<Rightarrow> stuck_analysis option" where
  "find_loop fh offset =
     (let (last_actions, last_observations) = take_last 4 (rev fh) ([], []) in
      case repeating_action_observation last_actions last_observations fh offset of Some a \<Rightarrow> Some a
      | None \<Rightarrow> (case repeating_action_error last_actions last_observations fh offset of Some a \<Rightarrow> Some a
      | None \<Rightarrow> (case monologue fh offset of Some a \<Rightarrow> Some a
      | None \<Rightarrow> (case (if 6 \<le> length fh then action_observation_pattern fh offset else None) of Some a \<Rightarrow> Some a
      | None \<Rightarrow> if 10 \<le> length fh then context_window_error fh offset else None))))"

definition is_stuck :: "bool \<Rightarrow> event list \<Rightarrow> stuck_analysis option \<Rightarrow> bool \<times> stuck_analysis option" where
  "is_stuck headless_mode h analysis =
     (let fh = filtered_history headless_mode h in
      if length fh < 3 then (False, analysis)
      else
        let found = find_loop fh (int (history_offset headless_mode h))
        in (found \<noteq> None, found))"

text \<open>
  What the detector of loops finds: four repeated steps always, and nothing at all unless an action was
  repeated or the history was condensed ten times.
\<close>

section \<open>The last actions and observations\<close>

lemma take_last_eq:
  assumes "length as \<le> k" and "length os \<le> k"
    and "es \<noteq> [] \<Longrightarrow> \<not> (length as = k \<and> length os = k)"
  shows "take_last k es (as, os) = (as @ take (k - length as) (filter is_action es),
           os @ take (k - length os) (filter is_observation es))"
  using assms
proof (induction es arbitrary: as os)
  case (Cons e es)
  note IH = Cons.IH
  show ?case
  proof (cases "is_action e")
    case True
    then show ?thesis
      using Cons.prems IH [of "as @ [e]" os] IH [of as os]
      by (auto simp: Let_def action_or_observation Suc_diff_Suc take_Cons' split: if_splits)
  next
    case False
    then show ?thesis
      using Cons.prems IH [of as "os @ [e]"] IH [of as os]
      by (auto simp: Let_def action_or_observation Suc_diff_Suc take_Cons' split: if_splits)
  qed
qed simp

lemma take_last_rev:
  "0 < k \<Longrightarrow> take_last k (rev es) ([], []) =
     (take k (rev (filter is_action es)), take k (rev (filter is_observation es)))"
  by (simp add: take_last_eq rev_filter)

section \<open>Repeated steps are found\<close>

text \<open>
  Four repeated steps: if the last four actions of the relevant history (without messages of the
  user and null events; in interactive mode only after the last message of the user) are the same up
  to a thought or a process id, and so are the last four observations, however they are interleaved,
  the agent is stuck. The loop is said to start at the first event that equals the oldest of
  the four actions, which may lie long before the loop.
\<close>

theorem four_repeats_are_stuck:
  assumes "filter is_action (filtered_history headless h) = xs @ as" and "length as = 4"
    and "filter is_observation (filtered_history headless h) = ys @ os" and "length os = 4"
    and "list_all (eq_no_pid (last as)) as" and "list_all (eq_no_pid (last os)) os"
  shows "is_stuck headless h analysis =
    (True, Some \<lparr>loop_type = ''repeating_action_observation'', loop_repeat_times = 4,
       loop_start_idx = index_of (hd as) (filtered_history headless h) + int (history_offset headless h)\<rparr>)"
proof -
  let ?fh = "filtered_history headless h"
  have "length as \<le> length (filter is_action ?fh)" by (simp add: assms(1))
  also have "\<dots> \<le> length ?fh" by (rule length_filter_le)
  finally have long: "\<not> length ?fh < 3" using assms(2) by simp
  have ne: "as \<noteq> []" "os \<noteq> []" using assms(2,4) by auto
  have "take_last 4 (rev ?fh) ([], []) = (rev as, rev os)"
    by (simp add: take_last_rev assms(1-4))
  moreover have "repeating_action_observation (rev as) (rev os) ?fh (int (history_offset headless h)) =
      Some \<lparr>loop_type = ''repeating_action_observation'', loop_repeat_times = 4,
        loop_start_idx = index_of (hd as) ?fh + int (history_offset headless h)\<rparr>"
    using assms(2,4-6) ne by (simp add: repeating_action_observation_def hd_rev last_rev)
  ultimately show ?thesis using long by (simp add: is_stuck_def find_loop_def)
qed

definition step_ls :: event where
  "step_ls = new_event (Action (CmdRunAction \<lparr>cr_command = ''ls'', cr_is_input = False, cr_thought = [],
     cr_blocking = False, cr_is_static = False, cr_cwd = None, cr_hidden = False,
     cr_confirmation_state = CONFIRMED, cr_security_risk = RISK_UNKNOWN\<rparr>))"

definition output_ls :: "string \<Rightarrow> event" where
  "output_ls content = new_event (Observation (CmdOutputObservation
     (new_cmd_output content ''ls'' (Some (default_metadata\<lparr>md_exit_code := 0\<rparr>)) False)))"

definition looping :: "event list" where
  "looping = [step_ls, output_ls ''1'', new_event (Action (AgentThinkAction ''ok'')),
     new_event (Observation (AgentThinkObservation ''ok'')), step_ls, output_ls ''2'', step_ls, output_ls ''3'',
     step_ls, step_ls, output_ls ''4'', output_ls ''5'']"

lemma four_repeats_are_stuck_witness:
  "is_stuck True looping None = (True, Some \<lparr>loop_type = ''repeating_action_observation'',
     loop_repeat_times = 4, loop_start_idx = 0\<rparr>)"
proof -
  have fh: "filtered_history True looping = looping"
    by (simp add: filtered_history_def history_offset_def looping_def step_ls_def output_ls_def
        new_event_def message_from_def message_of.simps)
  have "is_stuck True looping None = (True, Some \<lparr>loop_type = ''repeating_action_observation'',
     loop_repeat_times = 4, loop_start_idx = index_of (hd [step_ls, step_ls, step_ls, step_ls])
       (filtered_history True looping) + int (history_offset True looping)\<rparr>)"
    by (rule four_repeats_are_stuck [where xs = "[step_ls, new_event (Action (AgentThinkAction ''ok''))]"
          and ys = "[output_ls ''1'', new_event (Observation (AgentThinkObservation ''ok''))]"
          and os = "[output_ls ''2'', output_ls ''3'', output_ls ''4'', output_ls ''5'']"])
      (simp_all add: fh, simp_all add: looping_def step_ls_def output_ls_def new_event_def is_action.simps
        is_observation.simps eq_no_pid_def event_eq_def new_cmd_output_def cmd_exit_code_def)
  then show ?thesis
    by (simp add: fh index_of_def history_offset_def) (simp add: looping_def event_eq_def)
qed

section \<open>Nothing else is\<close>

definition repeats_action :: "event list \<Rightarrow> bool" where
  "repeats_action es \<longleftrightarrow> (\<exists>a b. subseq [a, b] es \<and> is_action a \<and> is_action b \<and> (eq_no_pid b a \<or> event_eq a b))"

lemma subseq_nth: "i < j \<Longrightarrow> j < length xs \<Longrightarrow> subseq [xs ! i, xs ! j] xs"
proof (induction xs arbitrary: i j)
  case (Cons x xs)
  then obtain j' where j: "j = Suc j'" by (cases j) auto
  show ?case
  proof (cases i)
    case 0
    with Cons.prems j have "subseq [xs ! j'] xs" by (simp add: subseq_singleton_left)
    then show ?thesis using 0 j by simp
  next
    case (Suc i')
    with Cons.prems j have "subseq [xs ! i', xs ! j'] xs" by (intro Cons.IH) simp_all
    then have "subseq [xs ! i', xs ! j'] (x # xs)" by (rule list_emb_Cons)
    with Suc j show ?thesis by simp
  qed
qed simp

lemma subseq_set: "subseq xs ys \<Longrightarrow> set xs \<subseteq> set ys"
  by (induction rule: list_emb.induct) auto

lemma repeats_in_filter:
  assumes "subseq [a, b] (filter is_action es)" and "eq_no_pid b a \<or> event_eq a b"
  shows "repeats_action es"
proof -
  have "set [a, b] \<subseteq> set (filter is_action es)"
    by (rule subseq_set) (rule assms(1))
  moreover have "subseq [a, b] es"
    using assms(1) subseq_filter_left subseq_order.trans by blast
  ultimately show ?thesis using assms(2) unfolding repeats_action_def by auto
qed

text \<open>The \<open>k\<close> last actions, newest first: two of them that are the same are a repeated action.\<close>

lemma repeats_in_last:
  assumes "as = take k (rev (filter is_action es))" and "i < j" and "j < length as"
    and "eq_no_pid (as ! i) (as ! j) \<or> event_eq (as ! j) (as ! i)"
  shows "repeats_action es"
proof (rule repeats_in_filter)
  let ?f = "filter is_action es"
  have j: "j < length ?f" using assms(1,3) by simp
  have "as ! i = ?f ! (length ?f - Suc i)" "as ! j = ?f ! (length ?f - Suc j)"
    using assms(1-3) j by (simp_all add: rev_nth)
  then show "subseq [as ! j, as ! i] ?f"
    using subseq_nth [of "length ?f - Suc j" "length ?f - Suc i" ?f] assms(2) j by simp
  show "eq_no_pid (as ! i) (as ! j) \<or> event_eq (as ! j) (as ! i)" by (rule assms(4))
qed

lemma monologue_repeats:
  assumes "monologue fh offset = Some a"
  shows "repeats_action fh"
proof -
  define z where "z = zip [0..<length fh] fh"
  define m where "m = filter (\<lambda>(i, e). message_from AGENT e) z"
  define r where "r = drop (length m - 3) m"
  have "3 \<le> length m \<and> list_all (\<lambda>(i, e). event_eq (snd (hd r)) e) r"
    using assms unfolding r_def m_def z_def monologue_def Let_def by (meson option.distinct(1))
  then have len: "length r = 3" and same: "list_all (\<lambda>(i, e). event_eq (snd (hd r)) e) r"
    by (simp_all add: r_def)
  moreover have "hd r = r ! 0" using len by (cases r) simp_all
  ultimately have eq: "event_eq (snd (r ! 0)) (snd (r ! 1))"
    by (auto simp: list_all_length case_prod_unfold)
  have "subseq [r ! 0, r ! 1] r" by (rule subseq_nth) (use len in simp_all)
  also have "subseq r m" unfolding r_def by (rule suffix_imp_subseq) (rule suffix_drop)
  finally have sub: "subseq [r ! 0, r ! 1] m" .
  also have "subseq m z" unfolding m_def by simp
  finally have "subseq (map snd [r ! 0, r ! 1]) (map snd z)" by (rule subseq_map)
  then have "subseq [snd (r ! 0), snd (r ! 1)] fh" by (simp add: z_def)
  moreover have "set [r ! 0, r ! 1] \<subseteq> set m" using sub by (rule subseq_set)
  then have "message_from AGENT (snd (r ! 0))" "message_from AGENT (snd (r ! 1))"
    unfolding m_def by auto
  then have "is_action (snd (r ! 0))" "is_action (snd (r ! 1))"
    by (auto simp: message_from_def message_of.simps is_action.simps split: body.splits)
  ultimately show ?thesis using eq unfolding repeats_action_def by blast
qed

lemma condensations_counted:
  "length (filter (\<lambda>(i, e). P e) (zip [0..<length es] es)) = length (filter P es)"
proof -
  have "filter P (map snd (zip [0..<length es] es)) = map snd (filter (P \<circ> snd) (zip [0..<length es] es))"
    by (rule filter_map)
  then show ?thesis by (simp add: case_prod_unfold comp_def)
qed

lemma same_repeats:
  assumes "repeating_action_observation (take 4 (rev (filter is_action fh))) os fh offset = Some a"
  shows "repeats_action fh"
proof -
  define as where "as = take 4 (rev (filter is_action fh))"
  have as: "length as = 4" "list_all (eq_no_pid (hd as)) as"
    using assms unfolding as_def [symmetric] by (auto simp: repeating_action_observation_def split: if_splits)
  then have "\<forall>n < 4. eq_no_pid (as ! 0) (as ! n)"
    by (metis hd_conv_nth list_all_length list.size(3) zero_neq_numeral)
  then have "eq_no_pid (as ! 0) (as ! 1)" by simp
  then show ?thesis using repeats_in_last [OF as_def, of 0 1] as(1) by simp
qed

lemma error_repeats:
  assumes "repeating_action_error (take 4 (rev (filter is_action fh))) os fh offset = Some a"
  shows "repeats_action fh"
proof -
  define as where "as = take 4 (rev (filter is_action fh))"
  have as: "3 \<le> length as" "list_all (eq_no_pid (hd as)) (take 3 as)"
    using assms unfolding as_def [symmetric] by (auto simp: repeating_action_error_def Let_def split: if_splits)
  then obtain x y zs where "as = x # y # zs"
    by (metis One_nat_def Suc_le_length_iff numeral_3_eq_3)
  with as(2) have "eq_no_pid (as ! 0) (as ! 1)" by simp
  then show ?thesis using repeats_in_last [OF as_def, of 0 1] as(1) by simp
qed

lemma pattern_repeats:
  assumes "action_observation_pattern fh offset = Some a"
  shows "repeats_action fh"
proof -
  define as where "as = take 6 (rev (filter is_action fh))"
  have "length as = 6" "alternating as"
    using assms unfolding action_observation_pattern_def take_last_rev [of 6, simplified] as_def [symmetric]
    by (auto split: if_splits)
  then show ?thesis using repeats_in_last [OF as_def, of 0 2] by (simp add: alternating_def)
qed

lemma window_counts:
  assumes "context_window_error fh offset = Some a"
  shows "10 \<le> length (filter is_condensation_observation fh)"
  using assms by (auto simp: context_window_error_def Let_def condensations_counted split: if_splits)

lemma find_loop_cases:
  "find_loop fh offset \<noteq> None \<Longrightarrow>
   (\<exists>a os. repeating_action_observation (take 4 (rev (filter is_action fh))) os fh offset = Some a) \<or>
   (\<exists>a os. repeating_action_error (take 4 (rev (filter is_action fh))) os fh offset = Some a) \<or>
   (\<exists>a. monologue fh offset = Some a) \<or> (\<exists>a. action_observation_pattern fh offset = Some a) \<or>
   (\<exists>a. context_window_error fh offset = Some a)"
  unfolding find_loop_def take_last_rev [of 4, simplified] prod.case
  by (auto split: option.splits if_splits)

text \<open>
  The detector needs a repetition: whenever it says that the agent is stuck, the relevant history
  has two actions that are the same (up to a thought or a process id), or at least ten condensation
  observations. An agent that never repeats an action is never stopped by it.
\<close>

theorem stuck_needs_a_repetition:
  assumes "fst (is_stuck headless h analysis)"
  shows "repeats_action (filtered_history headless h) \<or>
         10 \<le> length (filter is_condensation_observation (filtered_history headless h))"
proof -
  let ?fh = "filtered_history headless h"
  let ?o = "int (history_offset headless h)"
  have "find_loop ?fh ?o \<noteq> None"
    using assms by (auto simp: is_stuck_def Let_def split: if_splits)
  then show ?thesis
    using find_loop_cases [of ?fh ?o] same_repeats [of ?fh] error_repeats [of ?fh]
      monologue_repeats [of ?fh] pattern_repeats [of ?fh] window_counts [of ?fh]
    by blast
qed

lemma stuck_needs_a_repetition_witness:
  "repeats_action (filtered_history True looping) \<or>
   10 \<le> length (filter is_condensation_observation (filtered_history True looping))"
proof -
  have "take_last 4 (rev looping) ([], []) = ([step_ls, step_ls, step_ls, step_ls],
      [output_ls ''5'', output_ls ''4'', output_ls ''3'', output_ls ''2''])"
    by (simp add: looping_def step_ls_def output_ls_def new_event_def is_action.simps is_observation.simps)
  moreover have "filtered_history True looping = looping"
    by (simp add: filtered_history_def history_offset_def looping_def step_ls_def output_ls_def
        new_event_def message_from_def message_of.simps)
  moreover have "length looping = 12" by (simp add: looping_def)
  ultimately have "fst (is_stuck True looping None)"
    by (simp add: is_stuck_def find_loop_def repeating_action_observation_def)
      (simp add: step_ls_def output_ls_def new_event_def eq_no_pid_def event_eq_def new_cmd_output_def
        cmd_exit_code_def)
  then show ?thesis by (rule stuck_needs_a_repetition)
qed

section \<open>The analysis that is kept\<close>

text \<open>With fewer than three relevant events the agent is not stuck, but an old analysis stays.\<close>

lemma short_history_keeps_analysis:
  "length (filtered_history headless h) < 3 \<Longrightarrow> is_stuck headless h analysis = (False, analysis)"
  by (simp add: is_stuck_def)

lemma analysis_of_long_history:
  "\<not> length (filtered_history headless h) < 3 \<Longrightarrow>
   fst (is_stuck headless h analysis) \<longleftrightarrow> snd (is_stuck headless h analysis) \<noteq> None"
  by (simp add: is_stuck_def Let_def)

text \<open>Two adjacent condensations among the last ten are enough, whatever lies between the others.\<close>

lemma gapless_pair_suffices: "j = Suc i \<Longrightarrow> first_gapless es (i # j # is) = Some i"
  by simp

end
