(* ===== verification/State_Tracker.thy ===== *)
theory State_Tracker
  imports Agent_State Event_Stream "HOL-Library.Product_Lexorder"
begin

text \<open>
  \<open>OpenHands/openhands/controller/state/state_tracker.py\<close>: the state of an agent and its history as
  the events of the stream come in, across sessions and delegates. An operation takes the parts of
  the tracker's state that it uses and returns them changed. \<open>event_to_trajectory\<close>
  (\<open>events/serialization/event.py\<close>) and \<open>remove_fields\<close> are here too.
\<close>

section \<open>The filter of the history\<close>

fun is_null_action :: "event \<Rightarrow> bool" where
  "is_null_action e = (case ev_body e of Action NullAction \<Rightarrow> True | _ \<Rightarrow> False)"

fun is_null_observation_class :: "event \<Rightarrow> bool" where
  "is_null_observation_class e = (case ev_body e of Observation (NullObservation _) \<Rightarrow> True | _ \<Rightarrow> False)"

fun is_change_state :: "event \<Rightarrow> bool" where
  "is_change_state e = (case ev_body e of Action (ChangeAgentStateAction _ _) \<Rightarrow> True | _ \<Rightarrow> False)"

fun is_state_changed :: "event \<Rightarrow> bool" where
  "is_state_changed e = (case ev_body e of Observation (AgentStateChangedObservation _ _ _) \<Rightarrow> True | _ \<Rightarrow> False)"

declare is_null_action.simps [simp del] is_null_observation_class.simps [simp del]
declare is_change_state.simps [simp del] is_state_changed.simps [simp del]

definition agent_history_filter :: event_filter where
  "agent_history_filter = no_filter\<lparr>
     exclude_types := Some [is_null_action, is_null_observation_class, is_change_state, is_state_changed],
     exclude_hidden := True\<rparr>"

section \<open>The initial state\<close>

definition set_initial_state ::
    "string \<Rightarrow> string option \<Rightarrow> (state \<times> limits) option \<Rightarrow> int \<Rightarrow> rat option \<Rightarrow> bool \<Rightarrow> state \<times> limits" where
  "set_initial_state cid user_id initial max_iterations max_budget confirmation_mode =
     (case initial of
        None \<Rightarrow>
          (new_state\<lparr>session_id := removesuffix ''-delegate'' cid, st_user_id := user_id, inputs := [],
             has_stats := True, st_confirmation_mode := confirmation_mode, start_id := 0\<rparr>,
           new_limits\<lparr>iteration_flag := new_flag max_iterations 0 max_iterations,
             budget_flag := (case max_budget of
                 None \<Rightarrow> None
               | Some b \<Rightarrow> if b = 0 then None else Some (new_flag b 0 b))\<rparr>)
      | Some (st, l) \<Rightarrow>
          (st\<lparr>start_id := (if start_id st \<le> -1 then 0 else start_id st), has_stats := True\<rparr>, l))"

section \<open>The history\<close>

fun is_delegate_action :: "event \<Rightarrow> bool" where
  "is_delegate_action e = (case ev_body e of Action (AgentDelegateAction _ _ _) \<Rightarrow> True | _ \<Rightarrow> False)"

fun is_delegate_observation :: "event \<Rightarrow> bool" where
  "is_delegate_observation e = (case ev_body e of Observation (AgentDelegateObservation _ _) \<Rightarrow> True | _ \<Rightarrow> False)"

declare is_delegate_action.simps [simp del] is_delegate_observation.simps [simp del]

text \<open>The pairs of a delegate action and its observation; \<open>stack\<close> holds the actions not yet matched.\<close>

fun delegate_ranges :: "event list \<Rightarrow> int list \<Rightarrow> (int \<times> int) list" where
  "delegate_ranges [] stack = []"
| "delegate_ranges (e # es) stack =
     (if is_delegate_action e then delegate_ranges es (event_id e # stack)
      else if is_delegate_observation e then
        (case stack of
           [] \<Rightarrow> delegate_ranges es []
         | a # stack \<Rightarrow> (a, event_id e) # delegate_ranges es stack)
      else delegate_ranges es stack)"

text \<open>One round of the loop over the sorted ranges, on \<open>filtered_events\<close> and \<open>current_idx\<close>.\<close>

definition range_step :: "event list \<Rightarrow> int \<times> int \<Rightarrow> event list \<times> nat \<Rightarrow> event list \<times> nat" where
  "range_step events r acc =
     (let (a, b) = r; (filtered_events, current_idx) = acc in
      (filtered_events @ filter (\<lambda>e. event_id e < a) (drop current_idx events) @
         filter (\<lambda>e. event_id e = a \<or> event_id e = b) events,
       case first_index (\<lambda>e. event_id e > b) events of Some i \<Rightarrow> i | None \<Rightarrow> length events))"

definition without_delegates :: "event list \<Rightarrow> (int \<times> int) list \<Rightarrow> event list" where
  "without_delegates events ranges =
     (let (filtered_events, current_idx) = fold (range_step events) (sort ranges) ([], 0)
      in filtered_events @ drop current_idx events)"

definition history_bounds ::
    "state \<Rightarrow> 'cb event_stream \<Rightarrow> exc + (int \<times> int) \<times> 'cb event_stream" where
  "history_bounds st es =
     (let s = (if start_id st \<ge> 0 then start_id st else 0) in
      if end_id st \<ge> 0 then Inr ((s, end_id st), es)
      else rbind (get_latest_event_id es) (\<lambda>(e, es). Inr ((s, e), es)))"

definition search_history ::
    "py_env \<Rightarrow> int \<Rightarrow> int \<Rightarrow> 'cb event_stream \<Rightarrow> exc + event list \<times> 'cb event_stream" where
  "search_history env s e es =
     (case search_events env es s (Some e) False (Some agent_history_filter) None of
        ((events, None), es) \<Rightarrow> Inr (events, es)
      | ((_, Some x), _) \<Rightarrow> Inl x)"

text \<open>
  \<open>_init_history\<close>. The loop over the ranges assigns the variable \<open>start_id\<close>, which is stored in
  the state at the end: after a loop it is the start of the last range.
\<close>

definition init_history :: "py_env \<Rightarrow> state \<Rightarrow> 'cb event_stream \<Rightarrow> exc + state \<times> 'cb event_stream" where
  "init_history env st es =
     rbind (history_bounds st es) (\<lambda>((s, e), es).
       if s > e + 1 then Inr (st\<lparr>history := []\<rparr>, es)
       else rbind (search_history env s e es) (\<lambda>(events, es).
         let ranges = delegate_ranges events [] in
         if ranges \<noteq> []
         then Inr (st\<lparr>history := without_delegates events ranges, start_id := fst (last (sort ranges))\<rparr>, es)
         else Inr (st\<lparr>history := events, start_id := s\<rparr>, es)))"

definition close_history :: "py_env \<Rightarrow> state \<Rightarrow> 'cb event_stream \<Rightarrow> exc + state \<times> 'cb event_stream" where
  "close_history env st es =
     rbind (history_bounds st es) (\<lambda>((s, e), es).
     rbind (search_history env s e es) (\<lambda>(events, es). Inr (st\<lparr>history := events\<rparr>, es)))"

definition add_history :: "py_env \<Rightarrow> event \<Rightarrow> state \<Rightarrow> exc + state" where
  "add_history env e st =
     rbind (filter_include env agent_history_filter e) (\<lambda>b.
       Inr (if b then st\<lparr>history := history st @ [e]\<rparr> else st))"

section \<open>Trajectories\<close>

fun remove_fields :: "string list \<Rightarrow> json \<Rightarrow> json" where
  "remove_fields names (JObj d) =
     JObj (map (\<lambda>(k, v). (k, remove_fields names v)) (filter (\<lambda>(k, v). k \<notin> set names) d))"
| "remove_fields names (JList xs) = JList (map (remove_fields names) xs)"
| "remove_fields names j = j"

definition DELETE_FROM_TRAJECTORY_EXTRAS :: "string list" where
  "DELETE_FROM_TRAJECTORY_EXTRAS = [''dom_object'', ''axtree_object'', ''active_page_index'',
     ''last_browser_action'', ''last_browser_action_error'', ''focused_element_bid'',
     ''extra_element_properties'']"

definition DELETE_FROM_TRAJECTORY_EXTRAS_AND_SCREENSHOTS :: "string list" where
  "DELETE_FROM_TRAJECTORY_EXTRAS_AND_SCREENSHOTS =
     DELETE_FROM_TRAJECTORY_EXTRAS @ [''screenshot'', ''set_of_marks'']"

definition event_to_trajectory :: "py_env \<Rightarrow> bool \<Rightarrow> event \<Rightarrow> exc + dict" where
  "event_to_trajectory env include_screenshots e =
     rbind (event_to_dict env e) (\<lambda>d.
       Inr (case map_of d ''extras'' of
         None \<Rightarrow> d
       | Some x \<Rightarrow> dict_set d ''extras'' (remove_fields
           (if include_screenshots then DELETE_FROM_TRAJECTORY_EXTRAS
            else DELETE_FROM_TRAJECTORY_EXTRAS_AND_SCREENSHOTS) x)))"

fun trajectory_of :: "py_env \<Rightarrow> bool \<Rightarrow> event list \<Rightarrow> exc + dict list" where
  "trajectory_of env s [] = Inr []"
| "trajectory_of env s (e # es) =
     rbind (event_to_trajectory env s e) (\<lambda>d. rbind (trajectory_of env s es) (\<lambda>ds. Inr (d # ds)))"

definition get_trajectory :: "py_env \<Rightarrow> bool \<Rightarrow> state \<Rightarrow> exc + dict list" where
  "get_trajectory env include_screenshots st = trajectory_of env include_screenshots (history st)"

section \<open>Limits and saving\<close>

definition maybe_increase_control_flags_limits :: "bool \<Rightarrow> limits \<Rightarrow> limits" where
  "maybe_increase_control_flags_limits headless_mode l =
     l\<lparr>iteration_flag := iteration_increase_limit headless_mode (iteration_flag l),
       budget_flag := map_option (budget_increase_limit headless_mode) (budget_flag l)\<rparr>"

definition get_metrics_snapshot :: "limits \<Rightarrow> metrics" where
  "get_metrics_snapshot l = global_metrics l"

text \<open>\<open>sid\<close> is \<open>None\<close> or empty, or there is no file store: then the state is not saved.\<close>

definition save_state ::
    "string option \<Rightarrow> bool \<Rightarrow> string option \<Rightarrow> state \<Rightarrow> limits \<Rightarrow> heap \<Rightarrow> stats \<Rightarrow>
     pickled session_file files \<Rightarrow> pickled session_file files" where
  "save_state sid has_file_store user_id st l h s files =
     (let files = (if truthy sid \<and> has_file_store
                   then save_to_session (the sid) user_id st l files else files)
      in if has_stats st then save_metrics h s files else files)"

definition run_control_flags :: "(rat \<Rightarrow> string) \<Rightarrow> limits \<Rightarrow> limits \<times> exc option" where
  "run_control_flags money l =
     (let (f, x) = iteration_step (iteration_flag l); l = l\<lparr>iteration_flag := f\<rparr> in
      case x of
        Some x \<Rightarrow> (l, Some x)
      | None \<Rightarrow>
          (case budget_flag l of
             None \<Rightarrow> (l, None)
           | Some b \<Rightarrow> let (b, x) = budget_step money b in (l\<lparr>budget_flag := Some b\<rparr>, x)))"

definition sync_budget_flag_with_metrics :: "state \<Rightarrow> heap \<Rightarrow> stats \<Rightarrow> limits \<Rightarrow> limits" where
  "sync_budget_flag_with_metrics st h s l =
     (case budget_flag l of
        Some b \<Rightarrow>
          if has_stats st
          then l\<lparr>budget_flag := Some (b\<lparr>current_value := accumulated_cost (get_combined_metrics h s)\<rparr>)\<rparr>
          else l
      | None \<Rightarrow> l)"

end
