(* ===== verification/Replay.thy ===== *)
theory Replay
  imports Agent_State Event_Serialization
begin

text \<open>
  \<open>OpenHands/openhands/controller/replay.py\<close>: a session that is replayed from a trajectory. The
  manager steps through the events of the trajectory and hands out the actions. The last section
  proves that it hands out all of them, in order, and then stops.
\<close>

section \<open>The manager\<close>

record replay_manager =
  replay_events :: "event list"
  replay_mode :: bool
  replay_index :: nat

fun is_null_obs :: "event \<Rightarrow> bool" where
  "is_null_obs e = (case ev_body e of Observation (NullObservation _) \<Rightarrow> True | _ \<Rightarrow> False)"

declare is_null_obs.simps [simp del] is_action.simps [simp del] is_observation.simps [simp del]

definition dont_wait :: "event \<Rightarrow> event" where
  "dont_wait e =
     (case ev_body e of
        Action (MessageAction m) \<Rightarrow> e\<lparr>ev_body := Action (MessageAction (m\<lparr>ma_wait_for_response := False\<rparr>))\<rparr>
      | _ \<Rightarrow> e)"

text \<open>Every message but the last event stops waiting for a response.\<close>

fun dont_wait_but_last :: "event list \<Rightarrow> event list" where
  "dont_wait_but_last [] = []"
| "dont_wait_but_last [e] = [e]"
| "dont_wait_but_last (e # f # es) = dont_wait e # dont_wait_but_last (f # es)"

definition new_replay :: "event list option \<Rightarrow> replay_manager" where
  "new_replay events =
     (let es = (case events of None \<Rightarrow> [] | Some es \<Rightarrow> es);
          es = filter (\<lambda>e. ev_source e \<noteq> Some ENVIRONMENT \<and> \<not> is_null_obs e) es
      in \<lparr>replay_events = dont_wait_but_last es, replay_mode = (es \<noteq> []), replay_index = 0\<rparr>)"

definition replayable :: "replay_manager \<Rightarrow> bool" where
  "replayable m \<longleftrightarrow> replay_index m < length (replay_events m) \<and>
     is_action (replay_events m ! replay_index m)"

function skip_to_action :: "replay_manager \<Rightarrow> replay_manager" where
  "skip_to_action m =
     (if replay_index m < length (replay_events m) \<and> \<not> replayable m
      then skip_to_action (m\<lparr>replay_index := replay_index m + 1\<rparr>) else m)"
  by pat_completeness auto
termination
  by (relation "measure (\<lambda>m. length (replay_events m) - replay_index m)") auto

declare skip_to_action.simps [simp del]

definition should_replay :: "replay_manager \<Rightarrow> bool \<times> replay_manager" where
  "should_replay m =
     (if \<not> replay_mode m then (False, m)
      else let m = skip_to_action m in (replayable m, m))"

definition replay_step :: "replay_manager \<Rightarrow> (exc + event) \<times> replay_manager" where
  "replay_step m =
     (if \<not> replay_index m < length (replay_events m) then (Inl IndexError, m)
      else
        let e = replay_events m ! replay_index m
        in if \<not> is_action e then (Inl AssertionError, m)
           else (Inr e, m\<lparr>replay_index := replay_index m + 1\<rparr>))"

section \<open>Reading a trajectory\<close>

definition json_type_name :: "json \<Rightarrow> string" where
  "json_type_name j =
     (case j of JNull \<Rightarrow> ''NoneType'' | JBool _ \<Rightarrow> ''bool'' | JInt _ \<Rightarrow> ''int'' | JFloat _ \<Rightarrow> ''float''
      | JStr _ \<Rightarrow> ''str'' | JList _ \<Rightarrow> ''list'' | JObj _ \<Rightarrow> ''dict'')"

fun trajectory_events :: "py_env \<Rightarrow> json list \<Rightarrow> exc + event list" where
  "trajectory_events env [] = Inr []"
| "trajectory_events env (JObj item # items) =
     rbind (event_from_dict env item) (\<lambda>e.
     rbind (trajectory_events env items) (\<lambda>es.
       Inr (if ev_source e = Some ENVIRONMENT then es else e\<lparr>ev_id := None\<rparr> # es)))"
| "trajectory_events env (item # items) = Inl (TypeError ''item'')"

definition get_replay_events :: "py_env \<Rightarrow> json \<Rightarrow> exc + event list" where
  "get_replay_events env trajectory =
     (case trajectory of
        JList items \<Rightarrow> trajectory_events env items
      | _ \<Rightarrow> Inl (ValueError (''Expected a list in '' @
          (case trajectory of JStr s \<Rightarrow> s | _ \<Rightarrow> repr_json (env_float_text env) trajectory) @
          '', got '' @ json_type_name trajectory)))"

section \<open>What is replayed\<close>

text \<open>The controller's use of the manager: a step as long as there is one to replay.\<close>

fun replay_all :: "nat \<Rightarrow> replay_manager \<Rightarrow> event list" where
  "replay_all 0 m = []"
| "replay_all (Suc n) m =
     (let (more, m) = should_replay m in
      if \<not> more then []
      else case replay_step m of
        (Inl _, _) \<Rightarrow> []
      | (Inr e, m) \<Rightarrow> e # replay_all n m)"

definition remaining :: "replay_manager \<Rightarrow> event list" where
  "remaining m = filter is_action (drop (replay_index m) (replay_events m))"

lemma skip_to_action_keeps:
  "remaining (skip_to_action m) = remaining m \<and> replay_events (skip_to_action m) = replay_events m \<and>
   replay_mode (skip_to_action m) = replay_mode m \<and>
   (replayable (skip_to_action m) \<or> \<not> replay_index (skip_to_action m) < length (replay_events m))"
proof (induction m rule: skip_to_action.induct)
  case (1 m)
  show ?case
  proof (cases "replay_index m < length (replay_events m) \<and> \<not> replayable m")
    case True
    then have "remaining (m\<lparr>replay_index := replay_index m + 1\<rparr>) = remaining m"
      by (simp add: remaining_def replayable_def flip: Cons_nth_drop_Suc)
    then show ?thesis using 1 [OF True] True skip_to_action.simps [of m] by simp
  next
    case False
    then have "skip_to_action m = m" by (simp only: skip_to_action.simps [of m] if_False)
    then show ?thesis using False by auto
  qed
qed

lemma remaining_replayable:
  "replayable m \<Longrightarrow> remaining m = replay_events m ! replay_index m #
     remaining (m\<lparr>replay_index := replay_index m + 1\<rparr>)"
  by (simp add: remaining_def replayable_def flip: Cons_nth_drop_Suc)

lemma replay_all_remaining:
  "replay_mode m \<Longrightarrow> length (remaining m) < n \<Longrightarrow> replay_all n m = remaining m"
proof (induction n arbitrary: m)
  case (Suc n)
  let ?m = "skip_to_action m"
  have keep: "remaining ?m = remaining m" "replay_mode ?m = replay_mode m"
    "replay_events ?m = replay_events m"
    "replayable ?m \<or> \<not> replay_index ?m < length (replay_events m)"
    using skip_to_action_keeps [of m] by auto
  show ?case
  proof (cases "replayable ?m")
    case True
    let ?n = "?m\<lparr>replay_index := replay_index ?m + 1\<rparr>"
    have step: "remaining m = replay_events ?m ! replay_index ?m # remaining ?n"
      using remaining_replayable [OF True] keep(1) by simp
    moreover have "replay_all n ?n = remaining ?n"
      by (rule Suc.IH) (use Suc.prems keep step in auto)
    ultimately show ?thesis
      using True Suc.prems(1) by (simp add: should_replay_def replay_step_def replayable_def Let_def)
  next
    case False
    then have "remaining m = []" using keep by (simp flip: keep(1)) (simp add: remaining_def)
    with False Suc.prems(1) show ?thesis by (simp add: should_replay_def)
  qed
qed simp

lemma dont_wait_keeps [simp]:
  "is_action (dont_wait e) = is_action e" "ev_source (dont_wait e) = ev_source e"
  by (auto simp: dont_wait_def is_action.simps split: body.splits action.splits)

text \<open>The events of a trajectory as they are replayed: only the messages are changed.\<close>

lemma filter_dont_wait:
  "list_all2 (\<lambda>a b. a = b \<or> a = dont_wait b) (filter is_action (dont_wait_but_last es)) (filter is_action es)"
  by (induction es rule: dont_wait_but_last.induct) auto

text \<open>
  A replay hands out every action of the trajectory that is not the environment's, in order, and
  nothing else, and then it is over. The only change to an action is that a message before the
  last event no longer waits for a response. (The bound on the steps is the length of the
  trajectory.)
\<close>

theorem replay_hands_out_the_actions:
  "list_all2 (\<lambda>a b. a = b \<or> a = dont_wait b)
     (replay_all (length es + 1) (new_replay (Some es)))
     (filter (\<lambda>e. is_action e \<and> ev_source e \<noteq> Some ENVIRONMENT) es)"
proof -
  let ?p = "\<lambda>e. ev_source e \<noteq> Some ENVIRONMENT \<and> \<not> is_null_obs e"
  let ?m = "new_replay (Some es)"
  have "filter is_action (filter ?p es) = filter (\<lambda>e. is_action e \<and> ev_source e \<noteq> Some ENVIRONMENT) es"
    by (auto simp: is_action.simps is_null_obs.simps intro!: filter_cong split: body.splits)
  then have actions: "list_all2 (\<lambda>a b. a = b \<or> a = dont_wait b) (remaining ?m)
      (filter (\<lambda>e. is_action e \<and> ev_source e \<noteq> Some ENVIRONMENT) es)"
    using filter_dont_wait [of "filter ?p es"] by (simp add: remaining_def new_replay_def Let_def)
  show ?thesis
  proof (cases "filter ?p es = []")
    case True
    then have none: "remaining ?m = []" by (simp add: remaining_def new_replay_def Let_def)
    have "replay_all (length es + 1) ?m = []"
      using True by (simp add: new_replay_def should_replay_def)
    with actions none show ?thesis by simp
  next
    case False
    have "length (remaining ?m) = length (filter (\<lambda>e. is_action e \<and> ev_source e \<noteq> Some ENVIRONMENT) es)"
      using actions by (rule list_all2_lengthD)
    also have "\<dots> < length es + 1" using length_filter_le [of _ es] by (simp add: less_Suc_eq_le)
    finally have "replay_all (length es + 1) ?m = remaining ?m"
      using False by (intro replay_all_remaining) (simp_all add: new_replay_def)
    with actions show ?thesis by simp
  qed
qed

end
