(* ===== verification/Stream_Of_Log.thy ===== *)
theory Stream_Of_Log
  imports Event_Stream_Properties
begin

text \<open>
  Every list of serialisable events with the ids 0, 1, ... is the log of a stream: the invariant of
  the stream can be met with any contents. Concrete streams for the components that read one.
\<close>

definition log_of :: "py_env \<Rightarrow> event list \<Rightarrow> dict list" where
  "log_of env es = map (\<lambda>e. projr (event_to_dict env e)) es"

definition serialisable :: "py_env \<Rightarrow> event \<Rightarrow> bool" where
  "serialisable env e \<longleftrightarrow> event_ok e \<and> \<not> isl (event_to_dict env e)"

definition numbered :: "event list \<Rightarrow> event list" where
  "numbered es = map (\<lambda>(i, e). e\<lparr>ev_id := Some (int i)\<rparr>) (zip [0..<length es] es)"

definition event_files :: "string \<Rightarrow> string option \<Rightarrow> dict list \<Rightarrow> content files" where
  "event_files sid user_id lg =
     map (\<lambda>i. (get_conversation_event_filename sid (int i) user_id, EventFile (lg ! i))) [0..<length lg]"

definition stream_of :: "string \<Rightarrow> string option \<Rightarrow> dict list \<Rightarrow> 'cb event_stream" where
  "stream_of sid user_id lg =
     (new_stream sid user_id [])\<lparr>es_files := event_files sid user_id lg,
        write_page_cache := drop (length lg - length lg mod 25) lg\<rparr>"

lemma stream_of_fields [simp]:
  "es_sid (stream_of sid user_id lg) = sid" "es_user_id (stream_of sid user_id lg) = user_id"
  "es_cache_size (stream_of sid user_id lg) = 25" "es_cur_id (stream_of sid user_id lg) = None"
  "secrets (stream_of sid user_id lg) = []" "queue (stream_of sid user_id lg) = []"
  "subscribers (stream_of sid user_id lg) = []" "stop_flag (stream_of sid user_id lg) = False"
  "es_files (stream_of sid user_id lg) = event_files sid user_id lg"
  "write_page_cache (stream_of sid user_id lg) = drop (length lg - length lg mod 25) lg"
  by (simp_all add: stream_of_def new_stream_def new_store_def event_store.defs event_stream.defs)

lemma event_filename_inj: "get_conversation_event_filename sid i u = get_conversation_event_filename sid j u \<longleftrightarrow> i = j"
  by (simp add: get_conversation_event_filename_def show_int_inj)

lemma distinct_event_files: "distinct (keys (event_files sid user_id lg))"
  by (auto simp: event_files_def distinct_map comp_def inj_on_def event_filename_inj)

lemma event_file_of_id:
  "map_of (event_files sid user_id lg) (get_conversation_event_filename sid i user_id) =
   (if 0 \<le> i \<and> i < int (length lg) then Some (EventFile (lg ! nat i)) else None)"
proof (cases "0 \<le> i \<and> i < int (length lg)")
  case True
  then have "(get_conversation_event_filename sid i user_id, EventFile (lg ! nat i))
      \<in> set (event_files sid user_id lg)"
    by (auto simp: event_files_def image_iff intro: bexI [of _ "nat i"])
  with True distinct_event_files [of sid user_id lg] show ?thesis by simp
next
  case False
  then have "get_conversation_event_filename sid i user_id \<notin> set (keys (event_files sid user_id lg))"
    by (auto simp: event_files_def event_filename_inj)
  then have "map_of (event_files sid user_id lg) (get_conversation_event_filename sid i user_id) = None"
    by (simp only: map_of_eq_None_iff set_map not_False_eq_True)
  with False show ?thesis by auto
qed

lemma event_files_only:
  "map_of (event_files sid user_id lg) f = Some c \<Longrightarrow>
   \<exists>i < length lg. f = get_conversation_event_filename sid (int i) user_id"
  by (drule map_of_SomeD) (auto simp: event_files_def)

lemma stream_of_inv:
  assumes "log_ok env lg"
  shows "stream_inv env (stream_of sid user_id lg) lg"
proof -
  let ?st = "stream_of sid user_id lg :: 'a event_stream"
  have name: "filename_for_id ?st i = get_conversation_event_filename sid i user_id" for i
    by (simp add: filename_for_id_def)
  have "files_ok ?st lg" by (simp add: files_ok_def name event_file_of_id)
  moreover have "pages_ok ?st lg"
    unfolding pages_ok_def
    using event_files_only filename_id_cache [of ?st] by (metis name stream_of_fields(9))
  moreover have "names_ok ?st"
    by (auto simp: names_ok_def name event_files_def) (metis of_nat_0_le_iff)
  ultimately have "store_inv env ?st lg"
    using assms distinct_event_files by (simp add: store_inv_def)
  then show ?thesis
    by (intro stream_invI [of _ _ _ "length lg - length lg mod 25"]) auto
qed

lemma numbered_nth: "i < length es \<Longrightarrow> numbered es ! i = (es ! i)\<lparr>ev_id := Some (int i)\<rparr>"
  by (simp add: numbered_def)

lemma length_numbered [simp]: "length (numbered es) = length es" "length (log_of env es) = length es"
  by (simp_all add: numbered_def log_of_def)

lemma log_of_nth:
  assumes "list_all (serialisable env) (numbered es)" and "i < length es"
  shows "event_to_dict env (numbered es ! i) = Inr (log_of env (numbered es) ! i) \<and>
    event_from_dict env (log_of env (numbered es) ! i) = Inr (serialised (numbered es ! i))"
proof -
  have "serialisable env (numbered es ! i)" using assms by (simp add: list_all_length)
  then have ok: "event_ok (numbered es ! i)" and
    dict: "event_to_dict env (numbered es ! i) = Inr (log_of env (numbered es) ! i)"
    using assms(2) by (cases "event_to_dict env (numbered es ! i)"; simp add: serialisable_def log_of_def)+
  then show ?thesis using event_to_dict_inverse by blast
qed

lemma log_ok_log_of:
  assumes "list_all (serialisable env) (numbered es)"
  shows "log_ok env (log_of env (numbered es))"
  unfolding log_ok_def
proof (intro allI impI conjI)
  fix i assume "i < length (log_of env (numbered es))"
  then have i: "i < length es" by simp
  show "map_of (log_of env (numbered es) ! i) ''id'' = Some (JInt (int i))"
    using log_of_nth [OF assms i] i
    by (intro event_to_dict_id [of env "numbered es ! i"]) (simp_all add: numbered_nth event_id_def)
  show "\<exists>e. event_from_dict env (log_of env (numbered es) ! i) = Inr e"
    using log_of_nth [OF assms i] by blast
qed

lemma log_events_log_of:
  assumes "list_all (serialisable env) (numbered es)"
  shows "log_events env (log_of env (numbered es)) is =
    map (\<lambda>i. serialised (numbered es ! nat i)) (filter (\<lambda>i. 0 \<le> i \<and> i < int (length es)) is)"
proof -
  have "decode env (log_of env (numbered es) ! nat i) = serialised (numbered es ! nat i)"
    if "0 \<le> i" "i < int (length es)" for i
    using log_of_nth [OF assms, of "nat i"] that by (simp add: decode_def)
  then show ?thesis by (simp add: log_events_def)
qed

end
