(* ===== verification/State_Tracker_Correct.thy ===== *)
theory State_Tracker_Correct
  imports State_Tracker Replay Stream_Of_Log
begin

text \<open>
  The history that a restored agent starts with: the events of the stream outside the ranges of its
  delegates; what the next closing of the agent makes of it; and the replay of a trajectory.
\<close>

section \<open>What the history filter keeps\<close>

definition in_history :: "event \<Rightarrow> bool" where
  "in_history e \<longleftrightarrow> \<not> (is_null_action e \<or> is_null_observation_class e \<or> is_change_state e \<or>
     is_state_changed e) \<and> \<not> body_hidden (ev_body e)"

lemma history_filter: "filter_include env agent_history_filter e = Inr (in_history e)"
  by (simp add: filter_include_def agent_history_filter_def no_filter_def truthy_def is_instance_def
      in_history_def)

lemma add_history_eq:
  "add_history env e st = Inr (if in_history e then st\<lparr>history := history st @ [e]\<rparr> else st)"
  by (simp add: add_history_def history_filter)

section \<open>Ranges of delegates\<close>

definition inside :: "(int \<times> int) list \<Rightarrow> event \<Rightarrow> bool" where
  "inside ranges e \<longleftrightarrow> list_ex (\<lambda>(a, b). a < event_id e \<and> event_id e < b) ranges"

definition ids_ok :: "event list \<Rightarrow> bool" where
  "ids_ok es \<longleftrightarrow> sorted_wrt (<) (map event_id es) \<and> (\<forall>e \<in> set es. 0 \<le> event_id e)"

definition flat_ranges :: "(int \<times> int) list \<Rightarrow> bool" where
  "flat_ranges rs \<longleftrightarrow> sorted_wrt (\<lambda>r s. snd r < fst s) rs"

lemma filter_append_by_id:
  assumes "sorted_wrt (<) (map event_id es)"
    and "\<And>x y. P x \<Longrightarrow> Q y \<Longrightarrow> event_id x < event_id y"
  shows "filter P es @ filter Q es = filter (\<lambda>e. P e \<or> Q e) es"
  using assms(1)
proof (induction es)
  case (Cons e es)
  then have IH: "filter P es @ filter Q es = filter (\<lambda>e. P e \<or> Q e) es"
    and later: "\<forall>x \<in> set es. event_id e < event_id x" by auto
  show ?case
  proof (cases "Q e")
    case True
    have "\<not> P x" if "x \<in> set es" for x
      using assms(2) [of x e] True later that by force
    then have "filter P es = []" by (simp add: filter_empty_conv)
    moreover have "\<not> P e" using assms(2) [of e e] True by auto
    ultimately show ?thesis using IH True by simp
  next
    case False
    with IH show ?thesis by simp
  qed
qed simp

lemma drop_first_above:
  assumes "sorted_wrt (<) (map event_id es)"
  shows "drop (case first_index (\<lambda>e. event_id e > b) es of Some i \<Rightarrow> i | None \<Rightarrow> length es) es =
         filter (\<lambda>e. event_id e > b) es"
  using assms
proof (induction es)
  case (Cons e es)
  show ?case
  proof (cases "event_id e > b")
    case True
    with Cons.prems have "filter (\<lambda>e. event_id e > b) es = es"
      by (intro filter_True) (auto intro: less_trans)
    with True show ?thesis by simp
  next
    case False
    with Cons show ?thesis by (cases "first_index (\<lambda>e. event_id e > b) es") simp_all
  qed
qed simp

lemma fold_ranges:
  assumes "sorted_wrt (<) (map event_id es)" and "flat_ranges rs"
    and "\<forall>(a, b) \<in> set rs. lo < a \<and> a < b"
    and "drop k es = filter (\<lambda>e. lo < event_id e) es"
  shows "(let (acc', k') = fold (range_step es) rs (acc, k) in acc' @ drop k' es) =
         acc @ filter (\<lambda>e. lo < event_id e \<and> \<not> inside rs e) es"
  using assms(2-4)
proof (induction rs arbitrary: acc k lo)
  case Nil
  then show ?case by (simp add: inside_def)
next
  case (Cons r rs)
  obtain a b where r: "r = (a, b)" by fastforce
  from Cons.prems have ab: "lo < a" "a < b" and flat: "flat_ranges rs"
    and above: "\<forall>(c, d) \<in> set rs. b < c \<and> c < d"
    by (auto simp: r flat_ranges_def)
  let ?i = "case first_index (\<lambda>e. event_id e > b) es of Some i \<Rightarrow> i | None \<Rightarrow> length es"
  let ?mid = "filter (\<lambda>e. lo < event_id e \<and> event_id e < a) es @
     filter (\<lambda>e. event_id e = a \<or> event_id e = b) es"
  have step: "range_step es r (acc, k) = (acc @ ?mid, ?i)"
    using Cons.prems(3) by (simp add: range_step_def r conj_commute)
  have low: "\<not> inside rs e" if "event_id e \<le> b" for e
    using above that by (fastforce simp: inside_def list_ex_iff)
  have "filter (\<lambda>e. event_id e = a \<or> event_id e = b) es @ filter (\<lambda>e. b < event_id e \<and> \<not> inside rs e) es =
      filter (\<lambda>e. (event_id e = a \<or> event_id e = b) \<or> (b < event_id e \<and> \<not> inside rs e)) es"
    using ab by (intro filter_append_by_id [OF assms(1)]) auto
  then have "?mid @ filter (\<lambda>e. b < event_id e \<and> \<not> inside rs e) es =
      filter (\<lambda>e. lo < event_id e \<and> event_id e < a) es @
      filter (\<lambda>e. (event_id e = a \<or> event_id e = b) \<or> (b < event_id e \<and> \<not> inside rs e)) es"
    by simp
  also have "\<dots> = filter (\<lambda>e. (lo < event_id e \<and> event_id e < a) \<or>
      ((event_id e = a \<or> event_id e = b) \<or> (b < event_id e \<and> \<not> inside rs e))) es"
    using ab by (intro filter_append_by_id [OF assms(1)]) auto
  also have "\<dots> = filter (\<lambda>e. lo < event_id e \<and> \<not> inside (r # rs) e) es"
    by (rule filter_cong) (use ab low in \<open>auto simp: r inside_def\<close>)
  finally have parts: "?mid @ filter (\<lambda>e. b < event_id e \<and> \<not> inside rs e) es =
      filter (\<lambda>e. lo < event_id e \<and> \<not> inside (r # rs) e) es" .
  have "(let (acc', k') = fold (range_step es) rs (acc @ ?mid, ?i) in acc' @ drop k' es) =
      (acc @ ?mid) @ filter (\<lambda>e. b < event_id e \<and> \<not> inside rs e) es"
    by (rule Cons.IH [OF flat above drop_first_above [OF assms(1)]])
  then show ?case using parts by (simp add: step)
qed

lemma delegate_ranges_order:
  assumes "sorted_wrt (<) (map event_id es)" and "\<forall>s \<in> set stack. \<forall>e \<in> set es. s < event_id e"
    and "(a, b) \<in> set (delegate_ranges es stack)"
  shows "a < b \<and> (a \<in> set stack \<or> a \<in> event_id ` set es)"
  using assms
proof (induction es stack rule: delegate_ranges.induct)
  case (2 e es stack)
  have later: "\<forall>x \<in> set es. event_id e < event_id x" "sorted_wrt (<) (map event_id es)"
    using "2.prems"(1) by auto
  have stack: "\<forall>s \<in> set stack. \<forall>x \<in> set es. s < event_id x" "\<forall>s \<in> set stack. s < event_id e"
    using "2.prems"(2) by auto
  consider (action) "is_delegate_action e"
    | (none) "\<not> is_delegate_action e" "is_delegate_observation e" "stack = []"
    | (pop) s rest where "\<not> is_delegate_action e" "is_delegate_observation e" "stack = s # rest"
    | (other) "\<not> is_delegate_action e" "\<not> is_delegate_observation e"
    by (cases stack) auto
  then show ?case
  proof cases
    case action
    then have "a < b \<and> (a \<in> set (event_id e # stack) \<or> a \<in> event_id ` set es)"
      using "2.prems"(3) later stack by (intro "2.IH"(1)) auto
    then show ?thesis by auto
  next
    case none
    then have "a < b \<and> (a \<in> set [] \<or> a \<in> event_id ` set es)"
      using "2.prems"(3) later by (intro "2.IH"(2)) auto
    then show ?thesis by auto
  next
    case pop
    show ?thesis
    proof (cases "(a, b) = (s, event_id e)")
      case True
      then show ?thesis using pop stack(2) by auto
    next
      case False
      then have "a < b \<and> (a \<in> set rest \<or> a \<in> event_id ` set es)"
        using pop "2.prems"(3) later stack by (intro "2.IH"(3)) auto
      then show ?thesis using pop by auto
    qed
  next
    case other
    then have "a < b \<and> (a \<in> set stack \<or> a \<in> event_id ` set es)"
      using "2.prems"(3) later stack by (intro "2.IH"(4)) auto
    then show ?thesis by auto
  qed
qed simp

lemma flat_ranges_sorted:
  assumes "flat_ranges rs" and "\<forall>(a, b) \<in> set rs. a < b"
  shows "sort rs = rs"
proof (rule sort_key_id_if_sorted [of "\<lambda>x. x", simplified])
  have "sorted_wrt (\<lambda>r s. snd r < fst s \<and> fst r < snd r) rs"
    using assms by (auto simp: flat_ranges_def sorted_wrt_iff_nth_less)
  then show "sorted rs"
    by (rule sorted_wrt_mono_rel [rotated]) (auto simp: less_eq_prod_def)
qed

lemma without_delegates_flat:
  assumes "ids_ok es" and "flat_ranges (delegate_ranges es [])"
  shows "without_delegates es (delegate_ranges es []) =
         filter (\<lambda>e. \<not> inside (delegate_ranges es []) e) es"
proof -
  let ?rs = "delegate_ranges es []"
  have order: "\<forall>(a, b) \<in> set ?rs. -1 < a \<and> a < b"
    using delegate_ranges_order [of es "[]"] assms(1) by (fastforce simp: ids_ok_def)
  then have "sort ?rs = ?rs" by (intro flat_ranges_sorted [OF assms(2)]) auto
  moreover have "filter (\<lambda>e. -1 < event_id e) es = es"
    using assms(1) by (intro filter_True) (auto simp: ids_ok_def)
  moreover have "filter (\<lambda>e. -1 < event_id e \<and> \<not> inside ?rs e) es = filter (\<lambda>e. \<not> inside ?rs e) es"
    using assms(1) by (intro filter_cong) (auto simp: ids_ok_def)
  ultimately show ?thesis
    using fold_ranges [OF _ assms(2) order, where k = 0 and acc = "[]"] assms(1)
    by (simp add: without_delegates_def ids_ok_def)
qed

section \<open>The history of a stream\<close>

lemma search_history_log:
  assumes "store_inv env es lg"
  shows "search_history env s e es = Inr (filter in_history (log_events env lg [s..e]), es)"
proof -
  have "fst (search_events env es s (Some e) False (Some agent_history_filter) None) =
      (filter in_history (log_events env lg (search_indices s (e + 1) False)), None)"
    using search_events_reads_log [OF assms, of "Some agent_history_filter" in_history None s "Some e" False]
    by (simp add: filter_accepts_def history_filter)
  moreover have "snd (search_events env es s (Some e) False (Some agent_history_filter) None) = es"
    by (simp add: search_events_def)
  ultimately show ?thesis
    by (cases "search_events env es s (Some e) False (Some agent_history_filter) None")
      (simp add: search_history_def search_indices_def)
qed

definition first_id :: "state \<Rightarrow> int" where
  "first_id st = max 0 (start_id st)"

definition last_id :: "state \<Rightarrow> dict list \<Rightarrow> int" where
  "last_id st lg = (if 0 \<le> end_id st then end_id st else int (length lg) - 1)"

definition session_events :: "py_env \<Rightarrow> dict list \<Rightarrow> int \<Rightarrow> int \<Rightarrow> event list" where
  "session_events env lg s e = filter in_history (log_events env lg [s..e])"

lemma history_bounds_log:
  assumes "store_inv env es lg"
  shows "\<exists>es'. history_bounds st es = Inr ((first_id st, last_id st lg), es') \<and> store_inv env es' lg"
proof (cases "0 \<le> end_id st")
  case True
  with assms show ?thesis by (auto simp: history_bounds_def first_id_def last_id_def)
next
  case False
  then show ?thesis
    using store_inv_cur_id [OF assms]
    by (auto simp: history_bounds_def first_id_def last_id_def get_latest_event_id_def cur_id_log [OF assms])
qed

lemma log_event_id:
  assumes "log_ok env lg" and "0 \<le> i" and "i < int (length lg)"
  shows "event_id (decode env (lg ! nat i)) = i"
proof -
  have n: "nat i < length lg" using assms(2,3) by simp
  have "map_of (lg ! nat i) ''id'' = Some (JInt i)"
    using assms(1) n assms(2) by (auto simp: log_ok_def)
  then show ?thesis
    using event_from_dict_id [OF log_ok_decode [OF assms(1) n]] by (simp add: event_id_def)
qed

lemma sorted_log_events:
  "log_ok env lg \<Longrightarrow> sorted_wrt (<) is \<Longrightarrow> ids_ok (log_events env lg is)"
proof (induction "is")
  case (Cons i "is")
  then have IH: "ids_ok (log_events env lg is)" by simp
  show ?case
  proof (cases "0 \<le> i \<and> i < int (length lg)")
    case True
    have "i < event_id e" if "e \<in> set (log_events env lg is)" for e
      using that Cons.prems log_event_id [OF Cons.prems(1)] by (auto simp: log_events_def)
    moreover have "\<forall>x \<in> set is. i < x" using Cons.prems(2) by simp
    ultimately show ?thesis
      using True IH log_event_id [OF Cons.prems(1)] by (auto simp: log_events_def ids_ok_def)
  next
    case False
    then have "log_events env lg (i # is) = log_events env lg is" by (auto simp: log_events_def)
    with IH show ?thesis by simp
  qed
qed (simp add: log_events_def ids_ok_def)

lemma sorted_upto: "sorted_wrt (<) [i..j :: int]"
  by (simp add: sorted_wrt_iff_nth_less)

lemma session_events_ids:
  assumes "store_inv env es lg"
  shows "ids_ok (session_events env lg s e)"
proof -
  have "ids_ok (log_events env lg [s..e])"
    using assms by (intro sorted_log_events sorted_upto) (simp add: store_inv_def)
  then show ?thesis
    by (auto simp: session_events_def ids_ok_def sorted_wrt_map intro: sorted_wrt_filter)
qed

lemma init_history_log:
  assumes "store_inv env es lg"
    and "events = session_events env lg (first_id st) (last_id st lg)"
    and "ranges = delegate_ranges events []"
  shows "\<exists>es'. init_history env st es =
      Inr (st\<lparr>history := (if ranges = [] then events else without_delegates events ranges),
             start_id := (if ranges = [] then first_id st else fst (last (sort ranges)))\<rparr>, es') \<and>
    store_inv env es' lg"
proof -
  obtain es' where es': "history_bounds st es = Inr ((first_id st, last_id st lg), es')"
    "store_inv env es' lg" using history_bounds_log [OF assms(1)] by blast
  show ?thesis
  proof (cases "first_id st > last_id st lg + 1")
    case True
    then have "events = []" by (simp add: assms(2) session_events_def log_events_def)
    moreover have "st\<lparr>history := [], start_id := first_id st\<rparr> = st\<lparr>history := []\<rparr>"
      using True by (auto simp: first_id_def last_id_def max_def split: if_splits)
    ultimately show ?thesis
      using True es' by (auto simp: init_history_def assms(3))
  next
    case False
    then show ?thesis
      using es' assms(2,3)
      by (auto simp: init_history_def search_history_log [OF es'(2)] session_events_def Let_def)
  qed
qed

text \<open>A session with a delegate, on a stream.\<close>

definition delegation :: "event list" where
  "delegation =
     [demo_finish, new_event (Action (AgentDelegateAction ''Browser'' [] ''t'')),
      new_event (Observation (AgentThinkObservation ''thinking'')),
      new_event (Observation (AgentDelegateObservation ''done'' [])), demo_finish]"

abbreviation delegation_stream :: "nat event_stream" where
  "delegation_stream \<equiv> stream_of ''s'' None (log_of demo_env (numbered delegation))"

lemma delegation_serialisable: "list_all (serialisable demo_env) (numbered delegation)"
  by (simp add: numbered_def delegation_def serialisable_def event_ok_def demo_finish_def new_event_def
      event_to_dict_def event_message_def)

lemma delegation_inv:
  "store_inv demo_env delegation_stream (log_of demo_env (numbered delegation))"
  using stream_of_inv [OF log_ok_log_of [OF delegation_serialisable], of "''s''" None]
  unfolding stream_inv_def by (rule conjunct1)

lemma delegation_events:
  "session_events demo_env (log_of demo_env (numbered delegation)) 0 4 = numbered delegation"
proof -
  have "[0..4 :: int] = [0, 1, 2, 3, 4]" by (simp add: upto.simps)
  then show ?thesis
    by (simp add: session_events_def log_events_log_of [OF delegation_serialisable])
      (simp add: delegation_def numbered_def in_history_def is_null_action.simps
        is_null_observation_class.simps is_change_state.simps is_state_changed.simps demo_finish_def
        new_event_def serialised_def is_action.simps)
qed

lemma delegation_ranges: "delegate_ranges (numbered delegation) [] = [(1, 3)]"
  by (simp add: delegation_def numbered_def is_delegate_action.simps is_delegate_observation.simps
      demo_finish_def new_event_def event_id_def)

definition fresh_state :: state where
  "fresh_state = new_state\<lparr>start_id := 0\<rparr>"

lemma delegation_bounds:
  "numbered delegation = session_events demo_env (log_of demo_env (numbered delegation))
     (first_id fresh_state) (last_id fresh_state (log_of demo_env (numbered delegation)))"
proof -
  have "first_id fresh_state = 0"
    by (simp add: first_id_def fresh_state_def new_state_def)
  moreover have "last_id fresh_state (log_of demo_env (numbered delegation)) = 4"
    by (simp add: last_id_def fresh_state_def new_state_def) (simp add: delegation_def)
  ultimately show ?thesis by (simp only: delegation_events)
qed



text \<open>
  When the history had a finished delegate, \<open>start_id\<close> is moved to the last delegate action. The
  history that \<open>close\<close> rebuilds from the stream (and the one of the next session, which restores
  \<open>start_id\<close>) therefore has lost every event before that action.
\<close>

theorem close_loses_events_before_delegate:
  assumes "store_inv env es lg"
    and "events = session_events env lg (first_id st) (last_id st lg)"
    and "ranges = delegate_ranges events []" and "ranges \<noteq> []"
    and "init_history env st es = Inr (st', es')"
  shows "\<exists>st'' es''. close_history env st' es' = Inr (st'', es'') \<and>
    history st'' = session_events env lg (fst (last (sort ranges))) (last_id st lg) \<and>
    (\<forall>e \<in> set (history st''). fst (last (sort ranges)) \<le> event_id e)"
proof -
  let ?a = "fst (last (sort ranges))"
  have st': "start_id st' = ?a" "end_id st' = end_id st" and inv: "store_inv env es' lg"
    using init_history_log [OF assms(1-3)] assms(4,5) by auto
  have "last (sort ranges) \<in> set ranges"
    using assms(4) by (metis last_in_set set_sort sort_key_simps(1) set_empty)
  then have "?a \<in> event_id ` set events"
    using delegate_ranges_order [of events "[]"] session_events_ids [OF assms(1)] assms(2,3)
    by (metis ids_ok_def prod.collapse empty_iff list.set(1))
  then have a: "0 \<le> ?a"
    using session_events_ids [OF assms(1)] assms(2) by (auto simp: ids_ok_def)
  obtain es'' where "history_bounds st' es' = Inr ((?a, last_id st lg), es'')" "store_inv env es'' lg"
    using history_bounds_log [OF inv, of st'] st' a by (auto simp: first_id_def last_id_def)
  then have "close_history env st' es' = Inr (st'\<lparr>history := session_events env lg ?a (last_id st lg)\<rparr>, es'')"
    by (simp add: close_history_def search_history_log session_events_def)
  moreover have "?a \<le> event_id e" if "e \<in> set (session_events env lg ?a (last_id st lg))" for e
    using that log_event_id [of env lg] assms(1)
    by (auto simp: session_events_def log_events_def store_inv_def)
  ultimately show ?thesis by auto
qed

lemma close_loses_events_before_delegate_witness:
  "\<exists>st' es' st'' es''. init_history demo_env fresh_state delegation_stream = Inr (st', es') \<and>
     close_history demo_env st' es' = Inr (st'', es'') \<and> (\<forall>e \<in> set (history st''). 1 \<le> event_id e)"
proof -
  obtain st' es' where "init_history demo_env fresh_state delegation_stream = Inr (st', es')"
    using init_history_log [OF delegation_inv refl refl, of fresh_state] by blast
  with close_loses_events_before_delegate [OF delegation_inv
      delegation_bounds delegation_ranges [symmetric] _ this]
  show ?thesis by auto
qed

text \<open>Nested delegates: the result of the outer one appears twice, and inner events come back.\<close>

lemma nested_delegates_scrambled:
  "map event_id (without_delegates (map (\<lambda>i. (new_event (Action NullAction))\<lparr>ev_id := Some i\<rparr>) [1, 2, 3, 4, 5])
     [(2, 3), (1, 5)]) = [1, 5, 2, 3, 4, 5]"
  by (simp add: without_delegates_def range_step_def new_event_def event_id_def less_eq_prod_def insort_key.simps)

section \<open>Replaying a trajectory\<close>

text \<open>
  Events whose trajectory entry is their dictionary: all actions, and the observations without the
  fields that are taken out of a trajectory.
\<close>

lemma trajectory_of_action:
  assumes "is_action e"
  shows "event_to_trajectory env s e = event_to_dict env e"
proof -
  have "map_of d ''extras'' = None" if "event_to_dict env e = Inr d" for d
    using assms that
    by (auto simp: event_to_dict_def rbind_Inr_iff is_action.simps top_keys_def opt_key_def
        split: body.splits option.splits)
  then show ?thesis by (cases "event_to_dict env e") (auto simp: event_to_trajectory_def)
qed

lemma trajectory_events_of:
  assumes "list_all event_ok es" and "list_all (\<lambda>e. event_to_trajectory env s e = event_to_dict env e) es"
    and "trajectory_of env s es = Inr ds"
  shows "trajectory_events env (map JObj ds) =
    Inr (map (\<lambda>e. (serialised e)\<lparr>ev_id := None\<rparr>) (filter (\<lambda>e. ev_source e \<noteq> Some ENVIRONMENT) es))"
  using assms
proof (induction es arbitrary: ds)
  case (Cons e es)
  then obtain d ds' where ds: "ds = d # ds'" "event_to_dict env e = Inr d" "trajectory_of env s es = Inr ds'"
    by (auto simp: rbind_Inr_iff)
  have "ev_source (serialised e) = ev_source e" by (simp add: serialised_def)
  moreover have "event_from_dict env d = Inr (serialised e)"
    using Cons.prems(1) ds(2) by (intro event_to_dict_inverse) simp_all
  moreover have "trajectory_events env (map JObj ds') =
      Inr (map (\<lambda>e. (serialised e)\<lparr>ev_id := None\<rparr>) (filter (\<lambda>e. ev_source e \<noteq> Some ENVIRONMENT) es))"
    using Cons ds(3) by simp
  ultimately show ?case by (simp add: ds(1))
qed simp

text \<open>
  A trajectory that was saved from a history can be replayed: reading it gives back the events
  that are not the environment's, as they were serialised, without their ids, so that they can
  be added to a new stream.
\<close>

theorem trajectory_can_be_replayed:
  assumes "list_all event_ok (history st)"
    and "list_all (\<lambda>e. event_to_trajectory env s e = event_to_dict env e) (history st)"
    and "get_trajectory env s st = Inr ds"
  shows "get_replay_events env (JList (map JObj ds)) =
    Inr (map (\<lambda>e. (serialised e)\<lparr>ev_id := None\<rparr>)
      (filter (\<lambda>e. ev_source e \<noteq> Some ENVIRONMENT) (history st)))"
  using trajectory_events_of [OF assms(1,2)] assms(3)
  by (simp add: get_replay_events_def get_trajectory_def)

lemma trajectory_can_be_replayed_witness:
  "\<exists>ds. get_trajectory demo_env False (new_state\<lparr>history := [stamped_finish 3]\<rparr>) = Inr ds \<and>
     get_replay_events demo_env (JList (map JObj ds)) = Inr [(stamped_finish 3)\<lparr>ev_id := None\<rparr>]"
proof -
  let ?st = "new_state\<lparr>history := [stamped_finish 3]\<rparr>"
  have act: "is_action (stamped_finish 3)"
    by (simp add: stamped_finish_def demo_finish_def new_event_def is_action.simps)
  have traj: "get_trajectory demo_env False ?st = Inr [finish_dict 3]"
    by (simp add: get_trajectory_def trajectory_of_action [OF act] finish_to_dict)
  have "get_replay_events demo_env (JList (map JObj [finish_dict 3])) =
      Inr (map (\<lambda>e. (serialised e)\<lparr>ev_id := None\<rparr>)
        (filter (\<lambda>e. ev_source e \<noteq> Some ENVIRONMENT) (history ?st)))"
    by (rule trajectory_can_be_replayed [OF _ _ traj])
      (simp_all add: trajectory_of_action [OF act],
        simp add: event_ok_def stamped_finish_def demo_finish_def new_event_def)
  with traj show ?thesis
    by (simp add: serialised_def stamped_finish_def demo_finish_def new_event_def)
qed

end
