(* ===== verification/Controller_State.thy ===== *)
theory Controller_State
  imports State_Tracker Stuck Replay
begin

text \<open>
  The state of \<open>OpenHands/openhands/controller/agent_controller.py\<close> and the effects its methods are
  composed of. A controller and the chain of its delegates (the delegate, the delegate's delegate, ...)
  are in \<open>self\<close> and \<open>delegates\<close>; the rest of the record is what they share: the event stream, the
  control flags, the statistics, the files of the session. A method is a program: it may raise, and
  what it changed before it raised stays changed. The agents (\<open>Agent\<close> is an abstract class), the
  security analyzer, the clock and the classes of the LLM library's exceptions are in \<open>agent_env\<close>.
\<close>

section \<open>Actions as objects\<close>

text \<open>
  The controller sets \<open>confirmation_state\<close> on actions of classes that do not declare it. Such an
  attribute lives on the object only: it is not a field, so it is not serialised.
\<close>

record live_action =
  la_event :: event
  la_confirmation :: "ActionConfirmationStatus option"

definition live :: "event \<Rightarrow> live_action" where
  "live e = \<lparr>la_event = e, la_confirmation = None\<rparr>"

fun declared_confirmation :: "body \<Rightarrow> ActionConfirmationStatus option" where
  "declared_confirmation (Action (CmdRunAction r)) = Some (cr_confirmation_state r)"
| "declared_confirmation (Action (IPythonRunCellAction r)) = Some (ip_confirmation_state r)"
| "declared_confirmation _ = None"

text \<open>\<open>getattr(action, 'confirmation_state', None)\<close>.\<close>

definition confirmation_state :: "live_action \<Rightarrow> ActionConfirmationStatus option" where
  "confirmation_state a =
     (case declared_confirmation (ev_body (la_event a)) of Some c \<Rightarrow> Some c | None \<Rightarrow> la_confirmation a)"

definition set_confirmation_state :: "ActionConfirmationStatus \<Rightarrow> live_action \<Rightarrow> live_action" where
  "set_confirmation_state c a =
     (case ev_body (la_event a) of
        Action (CmdRunAction r) \<Rightarrow>
          a\<lparr>la_event := (la_event a)\<lparr>ev_body := Action (CmdRunAction (r\<lparr>cr_confirmation_state := c\<rparr>))\<rparr>\<rparr>
      | Action (IPythonRunCellAction r) \<Rightarrow>
          a\<lparr>la_event := (la_event a)\<lparr>ev_body := Action (IPythonRunCellAction (r\<lparr>ip_confirmation_state := c\<rparr>))\<rparr>\<rparr>
      | _ \<Rightarrow> a\<lparr>la_confirmation := Some c\<rparr>)"

fun security_risk :: "body \<Rightarrow> ActionSecurityRisk option" where
  "security_risk (Action (MessageAction r)) = Some (ma_security_risk r)"
| "security_risk (Action (CmdRunAction r)) = Some (cr_security_risk r)"
| "security_risk (Action (IPythonRunCellAction r)) = Some (ip_security_risk r)"
| "security_risk (Action (FileReadAction r)) = Some (fr_security_risk r)"
| "security_risk (Action (FileWriteAction r)) = Some (fw_security_risk r)"
| "security_risk (Action (FileEditAction r)) = Some (fe_security_risk r)"
| "security_risk (Action (BrowseURLAction r)) = Some (bu_security_risk r)"
| "security_risk (Action (BrowseInteractiveAction r)) = Some (bi_security_risk r)"
| "security_risk (Action (MCPAction r)) = Some (mc_security_risk r)"
| "security_risk _ = None"

text \<open>\<open>if hasattr(action, 'security_risk'): action.security_risk = risk\<close>.\<close>

fun with_security_risk :: "ActionSecurityRisk \<Rightarrow> body \<Rightarrow> body" where
  "with_security_risk s (Action (MessageAction r)) = Action (MessageAction (r\<lparr>ma_security_risk := s\<rparr>))"
| "with_security_risk s (Action (CmdRunAction r)) = Action (CmdRunAction (r\<lparr>cr_security_risk := s\<rparr>))"
| "with_security_risk s (Action (IPythonRunCellAction r)) = Action (IPythonRunCellAction (r\<lparr>ip_security_risk := s\<rparr>))"
| "with_security_risk s (Action (FileReadAction r)) = Action (FileReadAction (r\<lparr>fr_security_risk := s\<rparr>))"
| "with_security_risk s (Action (FileWriteAction r)) = Action (FileWriteAction (r\<lparr>fw_security_risk := s\<rparr>))"
| "with_security_risk s (Action (FileEditAction r)) = Action (FileEditAction (r\<lparr>fe_security_risk := s\<rparr>))"
| "with_security_risk s (Action (BrowseURLAction r)) = Action (BrowseURLAction (r\<lparr>bu_security_risk := s\<rparr>))"
| "with_security_risk s (Action (BrowseInteractiveAction r)) =
     Action (BrowseInteractiveAction (r\<lparr>bi_security_risk := s\<rparr>))"
| "with_security_risk s (Action (MCPAction r)) = Action (MCPAction (r\<lparr>mc_security_risk := s\<rparr>))"
| "with_security_risk s b = b"

text \<open>\<open>if hasattr(action, 'thought'): action.thought = ''\<close>.\<close>

fun without_thought :: "body \<Rightarrow> body" where
  "without_thought (Action (ChangeAgentStateAction s t)) = Action (ChangeAgentStateAction s [])"
| "without_thought (Action (AgentFinishAction f os t)) = Action (AgentFinishAction f os [])"
| "without_thought (Action (AgentThinkAction t)) = Action (AgentThinkAction [])"
| "without_thought (Action (AgentRejectAction os t)) = Action (AgentRejectAction os [])"
| "without_thought (Action (AgentDelegateAction a i t)) = Action (AgentDelegateAction a i [])"
| "without_thought (Action (RecallAction r q t)) = Action (RecallAction r q [])"
| "without_thought (Action (TaskTrackingAction c l t)) = Action (TaskTrackingAction c l [])"
| "without_thought (Action (CmdRunAction r)) = Action (CmdRunAction (r\<lparr>cr_thought := []\<rparr>))"
| "without_thought (Action (IPythonRunCellAction r)) = Action (IPythonRunCellAction (r\<lparr>ip_thought := []\<rparr>))"
| "without_thought (Action (FileReadAction r)) = Action (FileReadAction (r\<lparr>fr_thought := []\<rparr>))"
| "without_thought (Action (FileWriteAction r)) = Action (FileWriteAction (r\<lparr>fw_thought := []\<rparr>))"
| "without_thought (Action (FileEditAction r)) = Action (FileEditAction (r\<lparr>fe_thought := []\<rparr>))"
| "without_thought (Action (BrowseURLAction r)) = Action (BrowseURLAction (r\<lparr>bu_thought := []\<rparr>))"
| "without_thought (Action (BrowseInteractiveAction r)) = Action (BrowseInteractiveAction (r\<lparr>bi_thought := []\<rparr>))"
| "without_thought (Action (MCPAction r)) = Action (MCPAction (r\<lparr>mc_thought := []\<rparr>))"
| "without_thought b = b"

section \<open>Controllers\<close>

record 'a ctl =
  c_id :: string
  c_sid :: "string option"
  c_user_id :: "string option"
  has_file_store :: bool
  headless_mode :: bool
  is_delegate :: bool
  agent :: 'a
  c_state :: state
  pending_action :: "live_action option"
  c_closed :: bool
  cached_first_user_message :: "event option"
  initial_max_iterations :: int
  initial_max_budget :: "rat option"
  c_analysis :: "stuck_analysis option"
  has_status_callback :: bool
  replay_man :: replay_manager
  c_confirmation_mode :: bool

text \<open>\<open>status_log\<close> holds the calls of the status callback; \<open>ticks\<close> counts the readings of the clock.\<close>

record 'a machine =
  self :: "'a ctl"
  delegates :: "'a ctl list"
  stream :: "unit event_stream"
  m_limits :: limits
  m_heap :: heap
  m_stats :: stats
  session_files :: "pickled session_file files"
  ticks :: nat
  status_log :: "(string \<times> string \<times> string) list"

record 'a agent_env =
  env_py :: py_env
  env_clock :: "nat \<Rightarrow> string"
  env_money :: "rat \<Rightarrow> string"
  env_bases :: "string \<Rightarrow> string list"
  env_retries_exhausted :: "exc \<Rightarrow> bool"
  security_analyzer :: "(event \<Rightarrow> exc + ActionSecurityRisk) option"
  ag_name :: "'a \<Rightarrow> string"
  ag_step :: "'a \<Rightarrow> state \<Rightarrow> limits \<Rightarrow> heap \<Rightarrow> (exc + event option) \<times> 'a \<times> state \<times> heap"
  ag_reset :: "'a \<Rightarrow> 'a"
  ag_system_message :: "'a \<Rightarrow> event option"
  ag_cli_mode :: "'a \<Rightarrow> bool"
  ag_history_truncation :: "'a \<Rightarrow> bool"
  ag_delegate :: "string \<Rightarrow> 'a \<Rightarrow> exc + 'a"

section \<open>Programs\<close>

type_synonym ('a, 'r) prog = "'a machine \<Rightarrow> (exc + 'r) \<times> 'a machine"

definition ret :: "'r \<Rightarrow> ('a, 'r) prog" where
  "ret x m = (Inr x, m)"

definition throw :: "exc \<Rightarrow> ('a, 'r) prog" where
  "throw x m = (Inl x, m)"

definition bindP :: "('a, 'r) prog \<Rightarrow> ('r \<Rightarrow> ('a, 's) prog) \<Rightarrow> ('a, 's) prog" where
  "bindP f g m = (case f m of (Inl x, m) \<Rightarrow> (Inl x, m) | (Inr y, m) \<Rightarrow> g y m)"

definition thenP :: "('a, 'r) prog \<Rightarrow> ('a, 's) prog \<Rightarrow> ('a, 's) prog" where
  "thenP f g = bindP f (\<lambda>_. g)"

definition reads :: "('a machine \<Rightarrow> ('a, 'r) prog) \<Rightarrow> ('a, 'r) prog" where
  "reads f m = f m m"

definition modify :: "('a machine \<Rightarrow> 'a machine) \<Rightarrow> ('a, unit) prog" where
  "modify f m = (Inr (), f m)"

definition whenP :: "bool \<Rightarrow> ('a, unit) prog \<Rightarrow> ('a, unit) prog" where
  "whenP b f = (if b then f else ret ())"

definition tryP :: "('a, 'r) prog \<Rightarrow> (exc \<Rightarrow> ('a, 'r) prog) \<Rightarrow> ('a, 'r) prog" where
  "tryP f h m = (case f m of (Inl x, m) \<Rightarrow> h x m | (Inr y, m) \<Rightarrow> (Inr y, m))"

definition seqP :: "('a, unit) prog list \<Rightarrow> ('a, unit) prog" where
  "seqP ps = foldr thenP ps (ret ())"

text \<open>A method of \<open>self.delegate\<close>.\<close>

definition on_delegate :: "('a, 'r) prog \<Rightarrow> ('a, 'r) prog" where
  "on_delegate f m =
     (case delegates m of
        [] \<Rightarrow> (Inl (OtherException ''AttributeError'' ''delegate''), m)
      | d # ds \<Rightarrow>
          let (r, m') = f (m\<lparr>self := d, delegates := ds\<rparr>)
          in (r, m'\<lparr>self := self m, delegates := self m' # delegates m'\<rparr>))"

definition update_self :: "('a ctl \<Rightarrow> 'a ctl) \<Rightarrow> ('a, unit) prog" where
  "update_self f = modify (\<lambda>m. m\<lparr>self := f (self m)\<rparr>)"

definition update_state :: "(state \<Rightarrow> state) \<Rightarrow> ('a, unit) prog" where
  "update_state f = update_self (\<lambda>c. c\<lparr>c_state := f (c_state c)\<rparr>)"

section \<open>Exceptions\<close>

fun exc_class :: "exc \<Rightarrow> string" where
  "exc_class (ValueError s) = ''ValueError''"
| "exc_class (KeyError s) = ''KeyError''"
| "exc_class IndexError = ''IndexError''"
| "exc_class (TypeError s) = ''TypeError''"
| "exc_class (RuntimeError s) = ''RuntimeError''"
| "exc_class (FileNotFoundError s) = ''FileNotFoundError''"
| "exc_class AssertionError = ''AssertionError''"
| "exc_class (OtherException c s) = c"

fun exc_text :: "exc \<Rightarrow> string" where
  "exc_text (ValueError s) = s"
| "exc_text (KeyError s) = repr_str s"
| "exc_text IndexError = ''list index out of range''"
| "exc_text (TypeError s) = s"
| "exc_text (RuntimeError s) = s"
| "exc_text (FileNotFoundError s) = s"
| "exc_text AssertionError = []"
| "exc_text (OtherException c s) = s"

definition is_a :: "'a agent_env \<Rightarrow> exc \<Rightarrow> string list \<Rightarrow> bool" where
  "is_a env x classes \<longleftrightarrow> list_ex (\<lambda>c. c \<in> set classes) (exc_class x # env_bases env (exc_class x))"

section \<open>The event stream\<close>

text \<open>The event object after \<open>add_event\<close>: it is given the time, the source and its id.\<close>

definition stamped :: "string \<Rightarrow> EventSource \<Rightarrow> unit event_stream \<Rightarrow> event \<Rightarrow> event" where
  "stamped now source st e =
     (if event_id e \<noteq> INVALID_ID then e
      else
        let e = e\<lparr>ev_timestamp := Some now, ev_source := Some source\<rparr>
        in case cur_id st of Inl _ \<Rightarrow> e | Inr (i, _) \<Rightarrow> e\<lparr>ev_id := Some i\<rparr>)"

definition publish :: "'a agent_env \<Rightarrow> event \<Rightarrow> EventSource \<Rightarrow> ('a, unit) prog" where
  "publish env e source m =
     (let (st, x) = add_event (env_py env) (env_clock env (ticks m)) e source (stream m);
          m = m\<lparr>stream := st, ticks := ticks m + 1\<rparr>
      in (case x of None \<Rightarrow> Inr () | Some x \<Rightarrow> Inl x, m))"

text \<open>The same for the pending action, whose object is stamped also when \<open>add_event\<close> raises.\<close>

definition publish_pending :: "'a agent_env \<Rightarrow> EventSource \<Rightarrow> ('a, unit) prog" where
  "publish_pending env source m =
     (case pending_action (self m) of
        None \<Rightarrow> (Inr (), m)
      | Some a \<Rightarrow>
          let e = stamped (env_clock env (ticks m)) source (stream m) (la_event a);
              (r, m) = publish env (la_event a) source m
          in (r, m\<lparr>self := (self m)\<lparr>pending_action := Some (a\<lparr>la_event := e\<rparr>)\<rparr>\<rparr>))"

text \<open>The first event of the stream from \<open>start\<close> on that satisfies \<open>p\<close>; the search is lazy.\<close>

definition first_event :: "'a agent_env \<Rightarrow> int \<Rightarrow> bool \<Rightarrow> (event \<Rightarrow> bool) \<Rightarrow> ('a, event option) prog" where
  "first_event env start reverse p m =
     (let ((es, x), st) = search_events (env_py env) (stream m) start None reverse None None;
          m = m\<lparr>stream := st\<rparr>
      in case List.find p es of
           Some e \<Rightarrow> (Inr (Some e), m)
         | None \<Rightarrow> (case x of None \<Rightarrow> (Inr None, m) | Some x \<Rightarrow> (Inl x, m)))"

end
