(* ===== verification/Agent_Controller.thy ===== *)
theory Agent_Controller
  imports Controller_State
begin

text \<open>
  The methods of \<open>OpenHands/openhands/controller/agent_controller.py\<close>, in the order in which they
  call each other. A coroutine that is awaited is a call; logging and the age of the pending action
  (only logged) are left out.
\<close>

section \<open>Constants\<close>

datatype RuntimeStatus =
    RS_STOPPED | RS_BUILDING_RUNTIME | RS_STARTING_RUNTIME
  | RS_RUNTIME_STARTED | RS_SETTING_UP_WORKSPACE | RS_SETTING_UP_GIT_HOOKS
  | RS_READY | RS_ERROR | RS_ERROR_RUNTIME_DISCONNECTED
  | RS_ERROR_LLM_AUTHENTICATION | RS_ERROR_LLM_SERVICE_UNAVAILABLE | RS_ERROR_LLM_INTERNAL_SERVER_ERROR
  | RS_ERROR_LLM_OUT_OF_CREDITS | RS_ERROR_LLM_CONTENT_POLICY_VIOLATION | RS_AGENT_RATE_LIMITED_STOPPED_MESSAGE
  | RS_GIT_PROVIDER_AUTHENTICATION_ERROR | RS_LLM_RETRY | RS_ERROR_MEMORY

fun runtime_status_value :: "RuntimeStatus \<Rightarrow> string" where
  "runtime_status_value RS_STOPPED = ''STATUS$STOPPED''"
| "runtime_status_value RS_BUILDING_RUNTIME = ''STATUS$BUILDING_RUNTIME''"
| "runtime_status_value RS_STARTING_RUNTIME = ''STATUS$STARTING_RUNTIME''"
| "runtime_status_value RS_RUNTIME_STARTED = ''STATUS$RUNTIME_STARTED''"
| "runtime_status_value RS_SETTING_UP_WORKSPACE = ''STATUS$SETTING_UP_WORKSPACE''"
| "runtime_status_value RS_SETTING_UP_GIT_HOOKS = ''STATUS$SETTING_UP_GIT_HOOKS''"
| "runtime_status_value RS_READY = ''STATUS$READY''"
| "runtime_status_value RS_ERROR = ''STATUS$ERROR''"
| "runtime_status_value RS_ERROR_RUNTIME_DISCONNECTED = ''STATUS$ERROR_RUNTIME_DISCONNECTED''"
| "runtime_status_value RS_ERROR_LLM_AUTHENTICATION = ''STATUS$ERROR_LLM_AUTHENTICATION''"
| "runtime_status_value RS_ERROR_LLM_SERVICE_UNAVAILABLE = ''STATUS$ERROR_LLM_SERVICE_UNAVAILABLE''"
| "runtime_status_value RS_ERROR_LLM_INTERNAL_SERVER_ERROR = ''STATUS$ERROR_LLM_INTERNAL_SERVER_ERROR''"
| "runtime_status_value RS_ERROR_LLM_OUT_OF_CREDITS = ''STATUS$ERROR_LLM_OUT_OF_CREDITS''"
| "runtime_status_value RS_ERROR_LLM_CONTENT_POLICY_VIOLATION = ''STATUS$ERROR_LLM_CONTENT_POLICY_VIOLATION''"
| "runtime_status_value RS_AGENT_RATE_LIMITED_STOPPED_MESSAGE = ''CHAT_INTERFACE$AGENT_RATE_LIMITED_STOPPED_MESSAGE''"
| "runtime_status_value RS_GIT_PROVIDER_AUTHENTICATION_ERROR = ''STATUS$GIT_PROVIDER_AUTHENTICATION_ERROR''"
| "runtime_status_value RS_LLM_RETRY = ''STATUS$LLM_RETRY''"
| "runtime_status_value RS_ERROR_MEMORY = ''STATUS$ERROR_MEMORY''"

definition ERROR_ACTION_NOT_EXECUTED_STOPPED_ID :: string where
  "ERROR_ACTION_NOT_EXECUTED_STOPPED_ID = ''AGENT_ERROR$ERROR_ACTION_NOT_EXECUTED_STOPPED''"

definition ERROR_ACTION_NOT_EXECUTED_ERROR_ID :: string where
  "ERROR_ACTION_NOT_EXECUTED_ERROR_ID = ''AGENT_ERROR$ERROR_ACTION_NOT_EXECUTED_ERROR''"

definition ERROR_ACTION_NOT_EXECUTED_STOPPED :: string where
  "ERROR_ACTION_NOT_EXECUTED_STOPPED = ''Stop button pressed. The action has not been executed.''"

definition ERROR_ACTION_NOT_EXECUTED_ERROR :: string where
  "ERROR_ACTION_NOT_EXECUTED_ERROR = ''The action has not been executed due to a runtime error. The runtime system may have crashed and restarted due to resource constraints. Any previously established system state, dependencies, or environment variables may have been lost.''"

section \<open>Changing the state of the agent\<close>

definition get_agent_state :: "'a machine \<Rightarrow> string" where
  "get_agent_state m = agent_state (c_state (self m))"

definition controller_save_state :: "('a, unit) prog" where
  "controller_save_state = modify (\<lambda>m. m\<lparr>session_files :=
     save_state (c_sid (self m)) (has_file_store (self m)) (c_user_id (self m)) (c_state (self m))
       (m_limits m) (m_heap m) (m_stats m) (session_files m)\<rparr>)"

definition not_executed :: "bool \<Rightarrow> event \<Rightarrow> event" where
  "not_executed stopped_by_user pending =
     (new_event (Observation (if stopped_by_user
        then ErrorObservation ERROR_ACTION_NOT_EXECUTED_STOPPED ERROR_ACTION_NOT_EXECUTED_STOPPED_ID
        else ErrorObservation ERROR_ACTION_NOT_EXECUTED_ERROR ERROR_ACTION_NOT_EXECUTED_ERROR_ID)))
     \<lparr>ev_tool_call_metadata := ev_tool_call_metadata pending, ev_cause := Some (event_id pending)\<rparr>"

text \<open>Every event has the property \<open>tool_call_metadata\<close>; it is \<open>None\<close> when there was no tool call.\<close>

definition reset :: "'a agent_env \<Rightarrow> ('a, unit) prog" where
  "reset env = reads (\<lambda>m.
     thenP
       (case pending_action (self m) of
          None \<Rightarrow> ret ()
        | Some a \<Rightarrow>
            let pending = la_event a;
                found_observation = list_ex (\<lambda>e. is_observation e \<and>
                  ev_tool_call_metadata e = ev_tool_call_metadata pending) (history (c_state (self m)))
            in whenP (\<not> found_observation)
                 (publish env (not_executed (get_agent_state m = agent_state_value STOPPED) pending) AGENT))
       (update_self (\<lambda>c. c\<lparr>pending_action := None, agent := ag_reset env (agent c)\<rparr>)))"

definition confirm_pending :: "'a agent_env \<Rightarrow> ActionConfirmationStatus \<Rightarrow> ('a, unit) prog" where
  "confirm_pending env status =
     thenP
       (update_self (\<lambda>c. c\<lparr>pending_action := map_option (\<lambda>a.
          let a = a\<lparr>la_event := (la_event a)\<lparr>ev_body := without_thought (ev_body (la_event a))\<rparr>\<rparr>;
              a = set_confirmation_state status a
          in a\<lparr>la_event := (la_event a)\<lparr>ev_id := None\<rparr>\<rparr>) (pending_action c)\<rparr>))
       (publish_pending env AGENT)"

definition state_changed :: "string \<Rightarrow> string \<Rightarrow> event" where
  "state_changed target reason =
     new_event (Observation (AgentStateChangedObservation [] target reason))"

definition set_agent_state_to :: "'a agent_env \<Rightarrow> string \<Rightarrow> ('a, unit) prog" where
  "set_agent_state_to env target = reads (\<lambda>m.
     let old_state = get_agent_state m in
     if target = old_state then ret ()
     else seqP [
       update_state (\<lambda>st. st\<lparr>agent_state := target\<rparr>),
       whenP (target \<in> {agent_state_value STOPPED, agent_state_value ERROR}) (reset env),
       whenP (old_state = agent_state_value ERROR \<and> target = agent_state_value RUNNING)
         (modify (\<lambda>m. m\<lparr>m_limits :=
            maybe_increase_control_flags_limits (headless_mode (self m)) (m_limits m)\<rparr>)),
       reads (\<lambda>m. whenP (pending_action (self m) \<noteq> None \<and>
           target \<in> {agent_state_value USER_CONFIRMED, agent_state_value USER_REJECTED})
         (confirm_pending env
           (if target = agent_state_value USER_CONFIRMED then CONFIRMED else CONFIRM_REJECTED))),
       reads (\<lambda>m. publish env
         (state_changed (get_agent_state m)
           (if target = agent_state_value ERROR then last_error (c_state (self m)) else [])) ENVIRONMENT),
       controller_save_state])"

section \<open>Exceptions of a step\<close>

definition set_last_error :: "string \<Rightarrow> ('a, unit) prog" where
  "set_last_error s = update_state (\<lambda>st. st\<lparr>last_error := s\<rparr>)"

text \<open>The status that is reported for an exception; \<open>None\<close> for a rate limit.\<close>

definition status_of_exception :: "'a agent_env \<Rightarrow> exc \<Rightarrow> RuntimeStatus option" where
  "status_of_exception env x =
     (if is_a env x [''AuthenticationError''] then Some RS_ERROR_LLM_AUTHENTICATION
      else if is_a env x [''ServiceUnavailableError'', ''APIConnectionError'', ''APIError'']
      then Some RS_ERROR_LLM_SERVICE_UNAVAILABLE
      else if is_a env x [''InternalServerError''] then Some RS_ERROR_LLM_INTERNAL_SERVER_ERROR
      else if is_a env x [''BadRequestError''] \<and> contains (exc_text x) ''ExceededBudget''
      then Some RS_ERROR_LLM_OUT_OF_CREDITS
      else if is_a env x [''ContentPolicyViolationError''] \<or>
        is_a env x [''BadRequestError''] \<and> contains (exc_text x) ''ContentPolicyViolationError''
      then Some RS_ERROR_LLM_CONTENT_POLICY_VIOLATION
      else if is_a env x [''RateLimitError''] then None
      else Some RS_ERROR)"

definition react_to_exception :: "'a agent_env \<Rightarrow> exc \<Rightarrow> ('a, unit) prog" where
  "react_to_exception env x = seqP [
     set_last_error (exc_class x @ '': '' @ exc_text x),
     reads (\<lambda>m.
       if \<not> has_status_callback (self m) then set_agent_state_to env (agent_state_value ERROR)
       else case status_of_exception env x of
         None \<Rightarrow>
           if env_retries_exhausted env x
           then seqP [set_last_error (runtime_status_value RS_AGENT_RATE_LIMITED_STOPPED_MESSAGE),
                  set_agent_state_to env (agent_state_value ERROR)]
           else set_agent_state_to env (agent_state_value RATE_LIMITED)
       | Some status \<Rightarrow> seqP [
           whenP (status \<noteq> RS_ERROR) (set_last_error (runtime_status_value status)),
           modify (\<lambda>m. m\<lparr>status_log := status_log m @
             [(''error'', runtime_status_value status, last_error (c_state (self m)))]\<rparr>),
           set_agent_state_to env (agent_state_value ERROR)])]"

definition reported_exception :: "'a agent_env \<Rightarrow> exc \<Rightarrow> exc" where
  "reported_exception env x =
     (if is_a env x [''Timeout'', ''APIError'', ''BadRequestError'', ''NotFoundError'',
        ''InternalServerError'', ''AuthenticationError'', ''RateLimitError'',
        ''ContentPolicyViolationError'', ''LLMContextWindowExceedError'']
      then x
      else RuntimeError (''There was an unexpected error while running the agent: '' @ exc_class x @
             ''. You can refresh the page or ask the agent to try again.''))"

section \<open>Stuck agents\<close>

definition own_is_stuck :: "'a ctl \<Rightarrow> bool \<times> 'a ctl" where
  "own_is_stuck c =
     (let (b, a) = is_stuck (headless_mode c) (history (c_state c)) (c_analysis c)
      in (b, c\<lparr>c_analysis := a\<rparr>))"

text \<open>\<open>_is_stuck\<close> of a controller and its delegates, the innermost first.\<close>

fun chain_is_stuck :: "'a ctl list \<Rightarrow> bool \<times> 'a ctl list" where
  "chain_is_stuck [] = (False, [])"
| "chain_is_stuck (c # ds) =
     (let (b, ds) = chain_is_stuck ds in
      if b then (True, c # ds)
      else let (b, c) = own_is_stuck c in (b, c # ds))"

definition controller_is_stuck :: "('a, bool) prog" where
  "controller_is_stuck m =
     (let (b, cs) = chain_is_stuck (self m # delegates m)
      in (Inr b, m\<lparr>self := hd cs, delegates := tl cs\<rparr>))"

section \<open>One step\<close>

text \<open>\<open>_handle_security_analyzer\<close>.\<close>

definition handle_security_analyzer :: "'a agent_env \<Rightarrow> live_action \<Rightarrow> live_action" where
  "handle_security_analyzer env a =
     (let e = la_event a;
          risk = (case security_analyzer env of
            None \<Rightarrow> RISK_UNKNOWN
          | Some analyze \<Rightarrow> (case analyze e of Inr s \<Rightarrow> s | Inl _ \<Rightarrow> RISK_UNKNOWN))
      in a\<lparr>la_event := e\<lparr>ev_body := with_security_risk risk (ev_body e)\<rparr>\<rparr>)"

fun asks_confirmation :: "action \<Rightarrow> bool" where
  "asks_confirmation (CmdRunAction _) = True"
| "asks_confirmation (IPythonRunCellAction _) = True"
| "asks_confirmation (BrowseInteractiveAction _) = True"
| "asks_confirmation (FileEditAction _) = True"
| "asks_confirmation (FileReadAction _) = True"
| "asks_confirmation _ = False"

text \<open>The part of \<open>_step\<close> that decides whether a runnable action waits for the user.\<close>

definition review_action :: "'a agent_env \<Rightarrow> 'a ctl \<Rightarrow> live_action \<Rightarrow> live_action" where
  "review_action env c a =
     (case ev_body (la_event a) of
        Observation _ \<Rightarrow> a
      | Action act \<Rightarrow>
          if \<not> (st_confirmation_mode (c_state c) \<and> asks_confirmation act) then a
          else
            let a = handle_security_analyzer env a;
                risk = (case security_risk (ev_body (la_event a)) of Some s \<Rightarrow> s | None \<Rightarrow> RISK_UNKNOWN);
                is_high_security_risk = (risk = RISK_HIGH);
                is_ask_for_every_action = (risk = RISK_UNKNOWN \<and> security_analyzer env = None)
            in if ag_cli_mode env (agent c) then set_confirmation_state AWAITING_CONFIRMATION a
               else if (is_high_security_risk \<or> is_ask_for_every_action) \<and> c_confirmation_mode c
               then set_confirmation_state AWAITING_CONFIRMATION a
               else a)"

text \<open>\<open>_prepare_metrics_for_frontend\<close>: the metrics that are attached to the action.\<close>

definition frontend_metrics :: "'a machine \<Rightarrow> exc + metrics" where
  "frontend_metrics m =
     (let metrics = get_combined_metrics (m_heap m) (m_stats m) in
      rbind (set_accumulated_cost (accumulated_cost metrics) (new_metrics ''default'')) (\<lambda>clean.
        let clean = clean\<lparr>accumulated_token_usage := accumulated_token_usage metrics\<rparr> in
        Inr (case budget_flag (m_limits m) of
          None \<Rightarrow> clean
        | Some b \<Rightarrow> clean\<lparr>max_budget_per_task := Some (max_value b)\<rparr>)))"

definition lift_exc :: "exc + 'r \<Rightarrow> ('a, 'r) prog" where
  "lift_exc r = (case r of Inl x \<Rightarrow> throw x | Inr y \<Rightarrow> ret y)"

text \<open>The rest of \<open>_step\<close>, when there is an action. A runnable action is the pending one.\<close>

definition emit_action :: "'a agent_env \<Rightarrow> event \<Rightarrow> ('a, unit) prog" where
  "emit_action env action = reads (\<lambda>m.
     let run = (case ev_body action of Action a \<Rightarrow> runnable a | _ \<Rightarrow> False);
         a = (if run then review_action env (self m) (live action) else live action)
     in seqP [
       whenP run (update_self (\<lambda>c. c\<lparr>pending_action := Some a\<rparr>)),
       whenP (ev_body action \<noteq> Action NullAction) (seqP [
         whenP (confirmation_state a = Some AWAITING_CONFIRMATION)
           (set_agent_state_to env (agent_state_value AWAITING_USER_CONFIRMATION)),
         bindP (reads (\<lambda>m. lift_exc (frontend_metrics m))) (\<lambda>metrics.
           let a = a\<lparr>la_event := (la_event a)\<lparr>ev_llm_metrics := Some metrics\<rparr>\<rparr>
           in thenP (whenP run (update_self (\<lambda>c. c\<lparr>pending_action := Some a\<rparr>)))
             (case ev_source (la_event a) of
                None \<Rightarrow> throw (OtherException ''AttributeError'' ''_source'')
              | Some source \<Rightarrow>
                  if run then publish_pending env source else publish env (la_event a) source))])])"

definition context_window_exceeded :: "'a agent_env \<Rightarrow> exc \<Rightarrow> bool" where
  "context_window_exceeded env x =
     (let error_str = lower (exc_text x) in
      contains error_str ''contextwindowexceedederror'' \<or>
      contains error_str ''prompt is too long'' \<or>
      contains error_str ''input length and `max_tokens` exceed context limit'' \<or>
      contains error_str ''please reduce the length of'' \<or>
      contains error_str ''the request exceeds the available context size'' \<or>
      contains error_str ''context length exceeded'' \<or>
      (contains error_str ''sambanovaexception'' \<and> contains error_str ''maximum context length'') \<or>
      is_a env x [''ContextWindowExceededError''])"

text \<open>
  \<open>agent.step(state)\<close>. Of the state, an agent changes the extra data (its condenser writes there) and
  the cached view.
\<close>

definition call_agent :: "'a agent_env \<Rightarrow> ('a, event option) prog" where
  "call_agent env m =
     (let c = self m;
          (r, a, st, h) = ag_step env (agent c) (c_state c) (m_limits m) (m_heap m);
          c = c\<lparr>agent := a, c_state := (c_state c)\<lparr>extra_data := extra_data st,
                 history_checksum := history_checksum st, cached_view := cached_view st\<rparr>\<rparr>
      in (r, m\<lparr>self := c, m_heap := h\<rparr>))"

text \<open>The next action, or \<open>None\<close> when the step ends without one.\<close>

definition agent_error :: "'a agent_env \<Rightarrow> exc \<Rightarrow> ('a, event option) prog" where
  "agent_error env x =
     (if is_a env x [''LLMMalformedActionError'', ''LLMNoActionError'', ''LLMResponseError'',
        ''FunctionCallValidationError'', ''FunctionCallNotExistsError'']
      then thenP (publish env (new_event (Observation (ErrorObservation (exc_text x) []))) AGENT) (ret None)
      else if is_a env x [''ContextWindowExceededError'', ''BadRequestError'', ''OpenAIError'']
      then
        if context_window_exceeded env x then
          reads (\<lambda>m.
            if ag_history_truncation env (agent (self m))
            then thenP (publish env (new_event (Action CondensationRequestAction)) AGENT) (ret None)
            else throw (OtherException ''LLMContextWindowExceedError'' ''Conversation history longer than LLM context window limit. Consider turning on enable_history_truncation config to avoid this error''))
        else throw x
      else throw x)"

definition require_action :: "event option \<Rightarrow> ('a, event option) prog" where
  "require_action a =
     (case a of
        None \<Rightarrow> throw (OtherException ''LLMNoActionError'' ''No action was returned'')
      | Some e \<Rightarrow> ret (Some (e\<lparr>ev_source := Some AGENT\<rparr>)))"

definition next_action :: "'a agent_env \<Rightarrow> ('a, event option) prog" where
  "next_action env m =
     (let (replaying, r) = should_replay (replay_man (self m));
          m = m\<lparr>self := (self m)\<lparr>replay_man := r\<rparr>\<rparr>
      in if replaying
         then let (e, r) = replay_step r
              in (map_sum id Some e, m\<lparr>self := (self m)\<lparr>replay_man := r\<rparr>\<rparr>)
         else
           tryP (bindP (call_agent env) require_action) (agent_error env) m)"

definition run_limits :: "'a agent_env \<Rightarrow> ('a, exc option) prog" where
  "run_limits env m =
     (let (l, x) = run_control_flags (env_money env) (m_limits m) in (Inr x, m\<lparr>m_limits := l\<rparr>))"

definition sync_budget :: "('a, unit) prog" where
  "sync_budget = modify (\<lambda>m. m\<lparr>m_limits :=
     sync_budget_flag_with_metrics (c_state (self m)) (m_heap m) (m_stats m) (m_limits m)\<rparr>)"

definition controller_step :: "'a agent_env \<Rightarrow> ('a, unit) prog" where
  "controller_step env = reads (\<lambda>m.
     if get_agent_state m \<noteq> agent_state_value RUNNING then ret ()
     else if pending_action (self m) \<noteq> None then ret ()
     else thenP sync_budget (bindP controller_is_stuck (\<lambda>stuck.
       if stuck
       then react_to_exception env (OtherException ''AgentStuckInLoopError'' ''Agent got stuck in a loop'')
       else bindP (run_limits env) (\<lambda>x.
         case x of
           Some x \<Rightarrow> react_to_exception env x
         | None \<Rightarrow> bindP (next_action env) (\<lambda>a.
             case a of None \<Rightarrow> ret () | Some e \<Rightarrow> emit_action env e)))))"

definition step_with_exception_handling :: "'a agent_env \<Rightarrow> ('a, unit) prog" where
  "step_with_exception_handling env =
     tryP (controller_step env) (\<lambda>x. react_to_exception env (reported_exception env x))"

end
