(* ===== verification/Controller_Events.thy ===== *)
theory Controller_Events
  imports Agent_Controller
begin

text \<open>
  The rest of \<open>OpenHands/openhands/controller/agent_controller.py\<close>: what the controller does with an
  event, its delegates, the recovery from loops, and closing. The controller gets the events of the
  stream one after the other (\<open>deliver\<close>), also those that it published itself. Characters outside
  Latin-1 in a text are their UTF-8 bytes.
\<close>

section \<open>Messages\<close>

text \<open>\<open>_first_user_message\<close> without a list of events.\<close>

definition first_user_message :: "'a agent_env \<Rightarrow> ('a, event option) prog" where
  "first_user_message env = reads (\<lambda>m.
     case cached_first_user_message (self m) of
       Some e \<Rightarrow> ret (Some e)
     | None \<Rightarrow>
         bindP (first_event env (start_id (c_state (self m))) False (message_from USER)) (\<lambda>e.
           thenP (update_self (\<lambda>c. c\<lparr>cached_first_user_message := e\<rparr>)) (ret e)))"

definition first_user_message_in :: "event list \<Rightarrow> event option" where
  "first_user_message_in es = List.find (message_from USER) es"

definition handle_message_action :: "'a agent_env \<Rightarrow> event \<Rightarrow> ('a, unit) prog" where
  "handle_message_action env action =
     (case message_of action of
        None \<Rightarrow> ret ()
      | Some msg \<Rightarrow>
          if ev_source action = Some USER then
            bindP (first_user_message env) (\<lambda>first.
              let is_first_user_message =
                    (case first of None \<Rightarrow> False | Some e \<Rightarrow> event_id action = event_id e);
                  recall_type = (if is_first_user_message then WORKSPACE_CONTEXT else KNOWLEDGE);
                  recall_action = new_event (Action (RecallAction recall_type (ma_content msg) []))
              in seqP [
                update_self (\<lambda>c. c\<lparr>pending_action := Some (live recall_action)\<rparr>),
                publish_pending env USER,
                reads (\<lambda>m. whenP (get_agent_state m \<noteq> agent_state_value RUNNING)
                  (set_agent_state_to env (agent_state_value RUNNING)))])
          else whenP (ev_source action = Some AGENT \<and> ma_wait_for_response msg)
            (set_agent_state_to env (agent_state_value AWAITING_USER_INPUT)))"

section \<open>Recovery from loops\<close>

definition truncate_memory_to_point :: "int \<Rightarrow> ('a, unit) prog" where
  "truncate_memory_to_point recovery_point = reads (\<lambda>m.
     let all_events = history (c_state (self m)) in
     whenP (recovery_point < int (length all_events))
       (let events_to_keep = slice_to recovery_point all_events in
        thenP
          (update_state (\<lambda>st. st\<lparr>history := events_to_keep,
             end_id := (if events_to_keep \<noteq> [] then event_id (last events_to_keep) else -1)\<rparr>))
          (update_self (\<lambda>c. c\<lparr>cached_first_user_message := None\<rparr>))))"

definition check_mark :: string where
  "check_mark = [CHR 0xE2, CHR 0x9C, CHR 0x85]"

definition warning_sign :: string where
  "warning_sign = [CHR 0xE2, CHR 0x9A, CHR 0xA0, CHR 0xEF, CHR 0xB8, CHR 0x8F]"

definition loop_detection :: "string \<Rightarrow> event" where
  "loop_detection content = new_event (Observation (LoopDetectionObservation content))"

definition perform_loop_recovery :: "'a agent_env \<Rightarrow> stuck_analysis \<Rightarrow> ('a, unit) prog" where
  "perform_loop_recovery env analysis = seqP [
     truncate_memory_to_point (loop_start_idx analysis),
     set_agent_state_to env (agent_state_value AWAITING_USER_INPUT),
     publish env (loop_detection (check_mark @
       '' Loop recovery completed. Agent has been reset to before the loop.'' @ [newline] @
       ''You can now provide new instructions to continue.'' @ [newline])) ENVIRONMENT]"

definition user_message_again :: "string \<Rightarrow> event" where
  "user_message_again content =
     (new_event (Action (MessageAction \<lparr>ma_content = content, ma_file_urls = None, ma_image_urls = None,
        ma_wait_for_response = False, ma_security_risk = RISK_UNKNOWN\<rparr>)))\<lparr>ev_source := Some USER\<rparr>"

text \<open>The new action is a message, which \<open>_handle_action\<close> hands to \<open>_handle_message_action\<close>.\<close>

definition restart_with_last_user_message :: "'a agent_env \<Rightarrow> stuck_analysis \<Rightarrow> ('a, unit) prog" where
  "restart_with_last_user_message env analysis = reads (\<lambda>m.
     case List.find (message_from USER) (rev (history (c_state (self m)))) of
       None \<Rightarrow> perform_loop_recovery env analysis
     | Some e \<Rightarrow>
         let content = (case message_of e of Some msg \<Rightarrow> ma_content msg | None \<Rightarrow> [])
         in seqP [
           truncate_memory_to_point (loop_start_idx analysis),
           set_agent_state_to env (agent_state_value RUNNING),
           publish env (loop_detection ([newline] @ check_mark @
             '' Restarting with your last instruction: '' @ content @ [newline] @
             ''Agent is now continuing with the same task...'' @ [newline])) ENVIRONMENT,
           handle_message_action env (user_message_again content)])"

definition handle_loop_recovery_action :: "'a agent_env \<Rightarrow> int \<Rightarrow> ('a, unit) prog" where
  "handle_loop_recovery_action env option = reads (\<lambda>m.
     case c_analysis (self m) of
       None \<Rightarrow> ret ()
     | Some analysis \<Rightarrow>
         if option = 1 then perform_loop_recovery env analysis
         else if option = 2 then restart_with_last_user_message env analysis
         else if option = 3 then set_agent_state_to env (agent_state_value STOPPED)
         else ret ())"

text \<open>\<open>attempt_loop_recovery\<close>, which the command line calls when the agent is stuck.\<close>

definition attempt_loop_recovery :: "'a agent_env \<Rightarrow> ('a, bool) prog" where
  "attempt_loop_recovery env = reads (\<lambda>m.
     case c_analysis (self m) of
       None \<Rightarrow> ret False
     | Some analysis \<Rightarrow>
         thenP (publish env (loop_detection (warning_sign @ ''  Agent detected in a loop!'' @ [newline] @
             ''Loop type: '' @ loop_type analysis @ [newline] @
             ''Loop detected at iteration '' @ show_int (current_value (iteration_flag (m_limits m))) @
             [newline, newline] @ ''Recovery options:'' @ [newline] @
             ''/resume 1. Restart from before loop (preserves '' @ show_int (loop_start_idx analysis) @
             '' events)'' @ [newline] @
             ''/resume 2. Restart with last user message (reuses your most recent instruction)'' @ [newline] @
             ''/exit. Quit directly'' @ [newline, newline] @
             ''The agent has been paused. Type '' @ [CHR 0x27] @ ''/resume 1'' @ [CHR 0x27] @ '', '' @ [CHR 0x27] @
             ''/resume 2'' @ [CHR 0x27] @ '', or '' @ [CHR 0x27] @ ''/exit'' @ [CHR 0x27] @
             '' to choose an option.'' @ [newline])) ENVIRONMENT)
         (thenP (publish env (new_event (Action (ChangeAgentStateAction (agent_state_value PAUSED) []))) ENVIRONMENT)
           (ret True)))"

section \<open>Starting a controller\<close>

fun is_system_or_user_message :: "event \<Rightarrow> bool" where
  "is_system_or_user_message e =
     (case ev_body e of
        Action (MessageAction _) \<Rightarrow> ev_source e = Some USER
      | Action (SystemMessageAction _) \<Rightarrow> True
      | _ \<Rightarrow> False)"

fun system_content :: "event \<Rightarrow> string" where
  "system_content e = (case ev_body e of Action (SystemMessageAction s) \<Rightarrow> sm_content s | _ \<Rightarrow> [])"

declare is_system_or_user_message.simps [simp del] system_content.simps [simp del]

definition add_system_message :: "'a agent_env \<Rightarrow> ('a, unit) prog" where
  "add_system_message env = reads (\<lambda>m.
     bindP (first_event env (start_id (c_state (self m))) False is_system_or_user_message) (\<lambda>found.
       case found of
         Some _ \<Rightarrow> ret ()
       | None \<Rightarrow>
           (case ag_system_message env (agent (self m)) of
              None \<Rightarrow> ret ()
            | Some e \<Rightarrow> whenP (system_content e \<noteq> []) (publish env e AGENT))))"

definition controller_set_initial_state ::
    "'a agent_env \<Rightarrow> (state \<times> limits) option \<Rightarrow> int \<Rightarrow> rat option \<Rightarrow> bool \<Rightarrow> ('a, unit) prog" where
  "controller_set_initial_state env initial max_iterations max_budget confirmation_mode m =
     (let (st, l) = set_initial_state (c_id (self m)) (c_user_id (self m)) initial max_iterations max_budget
            confirmation_mode;
          m = m\<lparr>self := (self m)\<lparr>c_state := st\<rparr>, m_limits := l\<rparr>
      in case init_history (env_py env) st (stream m) of
           Inl x \<Rightarrow> (Inl x, m)
         | Inr (st, es) \<Rightarrow> (Inr (), m\<lparr>self := (self m)\<lparr>c_state := st\<rparr>, stream := es\<rparr>))"

definition new_ctl :: "'a \<Rightarrow> string option \<Rightarrow> string \<Rightarrow> 'a ctl" where
  "new_ctl a sid stream_sid =
     \<lparr>c_id = (if truthy sid then the sid else stream_sid), c_sid = sid, c_user_id = None,
      has_file_store = False, headless_mode = True, is_delegate = False, agent = a, c_state = new_state,
      pending_action = None, c_closed = False, cached_first_user_message = None,
      initial_max_iterations = 0, initial_max_budget = None, c_analysis = None,
      has_status_callback = False, replay_man = new_replay None, c_confirmation_mode = False\<rparr>"

text \<open>
  \<open>__init__\<close>, on a \<open>self\<close> made by \<open>new_ctl\<close> whose plain attributes are set. The confirmation mode is
  set after the initial state; nothing before it reads it.
\<close>

definition init_controller :: "'a agent_env \<Rightarrow> (state \<times> limits) option \<Rightarrow> ('a, unit) prog" where
  "init_controller env initial = reads (\<lambda>m.
     let c = self m in
     seqP [
       whenP (\<not> is_delegate c) (\<lambda>m.
         let (es, x) = subscribe ''agent_controller'' () (c_id c) (stream m)
         in (case x of None \<Rightarrow> Inr () | Some x \<Rightarrow> Inl x, m\<lparr>stream := es\<rparr>)),
       controller_set_initial_state env initial (initial_max_iterations c) (initial_max_budget c)
         (c_confirmation_mode c),
       add_system_message env])"

section \<open>Closing\<close>

definition close_tracker :: "'a agent_env \<Rightarrow> ('a, unit) prog" where
  "close_tracker env m =
     (case close_history (env_py env) (c_state (self m)) (stream m) of
        Inl x \<Rightarrow> (Inl x, m)
      | Inr (st, es) \<Rightarrow> (Inr (), m\<lparr>self := (self m)\<lparr>c_state := st\<rparr>, stream := es\<rparr>))"

definition close_controller :: "'a agent_env \<Rightarrow> bool \<Rightarrow> ('a, unit) prog" where
  "close_controller env set_stop_state = seqP [
     whenP set_stop_state (set_agent_state_to env (agent_state_value STOPPED)),
     close_tracker env,
     reads (\<lambda>m. whenP (\<not> is_delegate (self m))
       (modify (\<lambda>m. m\<lparr>stream := unsubscribe ''agent_controller'' (c_id (self m)) (stream m)\<rparr>))),
     update_self (\<lambda>c. c\<lparr>c_closed := True\<rparr>)]"

definition controller_get_trajectory :: "'a agent_env \<Rightarrow> bool \<Rightarrow> 'a machine \<Rightarrow> exc + dict list" where
  "controller_get_trajectory env include_screenshots m =
     (if \<not> c_closed (self m) then Inl AssertionError
      else get_trajectory (env_py env) include_screenshots (c_state (self m)))"

section \<open>Delegates\<close>

definition delegate_state :: "'a machine \<Rightarrow> dict \<Rightarrow> int \<Rightarrow> state" where
  "delegate_state m action_inputs start =
     (let c = self m; st = c_state c in
      new_state\<lparr>session_id := removesuffix ''-delegate'' (c_id c), st_user_id := c_user_id c,
        inputs := action_inputs, delegate_level := delegate_level st + 1, start_id := start,
        parent_metrics_snapshot := Some (get_metrics_snapshot (m_limits m)),
        parent_iteration := current_value (iteration_flag (m_limits m))\<rparr>)"

definition delegate_ctl :: "'a ctl \<Rightarrow> 'a \<Rightarrow> 'a ctl" where
  "delegate_ctl c a =
     (new_ctl a (Some (c_id c @ ''-delegate'')) [])
       \<lparr>c_user_id := c_user_id c, has_file_store := has_file_store c, headless_mode := headless_mode c,
        is_delegate := True, initial_max_iterations := initial_max_iterations c,
        initial_max_budget := initial_max_budget c\<rparr>"

text \<open>The flags and the metrics of the parent are passed on as the objects they are.\<close>

definition start_delegate :: "'a agent_env \<Rightarrow> string \<Rightarrow> dict \<Rightarrow> ('a, unit) prog" where
  "start_delegate env agent_name action_inputs m =
     (case ag_delegate env agent_name (agent (self m)) of
        Inl x \<Rightarrow> (Inl x, m)
      | Inr a \<Rightarrow>
          (case get_latest_event_id (stream m) of
             Inl x \<Rightarrow> (Inl x, m)
           | Inr (latest, es) \<Rightarrow>
               let m = m\<lparr>stream := es\<rparr>;
                   st = delegate_state m action_inputs (latest + 1);
                   (r, m') = init_controller env (Some (st, m_limits m))
                     (m\<lparr>self := delegate_ctl (self m) a, delegates := []\<rparr>)
               in case r of
                    Inl x \<Rightarrow> (Inl x, m'\<lparr>self := self m, delegates := delegates m\<rparr>)
                  | Inr _ \<Rightarrow> (Inr (), m'\<lparr>self := self m, delegates := [self m']\<rparr>)))"

definition str_json :: "py_env \<Rightarrow> json \<Rightarrow> string" where
  "str_json env j = (case j of JStr s \<Rightarrow> s | _ \<Rightarrow> repr_json (env_float_text env) j)"

definition delegate_result :: "'a agent_env \<Rightarrow> string \<Rightarrow> 'a ctl \<Rightarrow> string" where
  "delegate_result env delegate_agent_state d =
     ''Delegated agent finished with result:'' @ [newline, newline] @
     (if delegate_agent_state \<in> {agent_state_value FINISHED, agent_state_value REJECTED}
      then ag_name env (agent d) @ '' finishes task with '' @
        join '', '' (map (\<lambda>(k, v). k @ '': '' @ str_json (env_py env) v)
          (filter (\<lambda>(k, v). k \<noteq> ''metrics'') (outputs (c_state d))))
      else ag_name env (agent d) @ '' encountered an error during execution.'')"

text \<open>
  \<open>end_delegate\<close>. The iteration flag of the delegate is the parent's own object, so copying its value
  changes nothing.
\<close>

definition end_delegate :: "'a agent_env \<Rightarrow> ('a, unit) prog" where
  "end_delegate env = reads (\<lambda>m.
     case delegates m of
       [] \<Rightarrow> ret ()
     | d # _ \<Rightarrow>
         let delegate_agent_state = agent_state (c_state d) in
         thenP (on_delegate (close_controller env True)) (reads (\<lambda>m.
           case delegates m of
             [] \<Rightarrow> throw (OtherException ''AttributeError'' ''delegate'')
           | d # _ \<Rightarrow>
               let obs = new_event (Observation (AgentDelegateObservation
                     (delegate_result env delegate_agent_state d) (outputs (c_state d))));
                   obs = (case List.find is_delegate_action (rev (history (c_state (self m)))) of
                     None \<Rightarrow> obs
                   | Some e \<Rightarrow> obs\<lparr>ev_tool_call_metadata := ev_tool_call_metadata e\<rparr>)
               in thenP (publish env obs AGENT) (modify (\<lambda>m. m\<lparr>delegates := []\<rparr>)))))"

section \<open>Events\<close>

definition task_message :: "string \<Rightarrow> event" where
  "task_message task = new_event (Action (MessageAction \<lparr>ma_content = ''TASK: '' @ task, ma_file_urls = None,
     ma_image_urls = None, ma_wait_for_response = False, ma_security_risk = RISK_UNKNOWN\<rparr>))"

definition handle_delegate_action :: "'a agent_env \<Rightarrow> string \<Rightarrow> dict \<Rightarrow> ('a, unit) prog" where
  "handle_delegate_action env agent_name action_inputs =
     thenP (start_delegate env agent_name action_inputs)
       (case map_of action_inputs ''task'' of
          None \<Rightarrow> ret ()
        | Some (JStr task) \<Rightarrow>
            thenP (publish env (task_message task) USER)
              (on_delegate (set_agent_state_to env (agent_state_value RUNNING)))
        | Some _ \<Rightarrow> throw (TypeError ''can only concatenate str''))"

definition handle_action :: "'a agent_env \<Rightarrow> event \<Rightarrow> ('a, unit) prog" where
  "handle_action env e =
     (case ev_body e of
        Action (ChangeAgentStateAction target _) \<Rightarrow> set_agent_state_to env target
      | Action (MessageAction _) \<Rightarrow> handle_message_action env e
      | Action (AgentDelegateAction name ins _) \<Rightarrow> handle_delegate_action env name ins
      | Action (AgentFinishAction _ outs _) \<Rightarrow>
          thenP (update_state (\<lambda>st. st\<lparr>outputs := outs\<rparr>)) (set_agent_state_to env (agent_state_value FINISHED))
      | Action (AgentRejectAction outs _) \<Rightarrow>
          thenP (update_state (\<lambda>st. st\<lparr>outputs := outs\<rparr>)) (set_agent_state_to env (agent_state_value REJECTED))
      | Action (LoopRecoveryAction option) \<Rightarrow> handle_loop_recovery_action env option
      | _ \<Rightarrow> ret ())"

definition handle_observation :: "'a agent_env \<Rightarrow> event \<Rightarrow> ('a, unit) prog" where
  "handle_observation env e = reads (\<lambda>m.
     case pending_action (self m) of
       None \<Rightarrow> ret ()
     | Some a \<Rightarrow>
         if Some (event_id (la_event a)) \<noteq> ev_cause e then ret ()
         else if get_agent_state m = agent_state_value AWAITING_USER_CONFIRMATION then ret ()
         else seqP [
           update_self (\<lambda>c. c\<lparr>pending_action := None\<rparr>),
           reads (\<lambda>m. whenP (get_agent_state m = agent_state_value USER_CONFIRMED)
             (set_agent_state_to env (agent_state_value RUNNING))),
           reads (\<lambda>m. whenP (get_agent_state m = agent_state_value USER_REJECTED)
             (set_agent_state_to env (agent_state_value AWAITING_USER_INPUT)))])"

definition should_step :: "'a machine \<Rightarrow> event \<Rightarrow> bool" where
  "should_step m e =
     (if delegates m \<noteq> [] then False
      else case ev_body e of
        Action (MessageAction _) \<Rightarrow>
          ev_source e = Some USER \<or> get_agent_state m \<noteq> agent_state_value AWAITING_USER_INPUT
      | Action (AgentDelegateAction _ _ _) \<Rightarrow> True
      | Action (CondensationAction _) \<Rightarrow> True
      | Action CondensationRequestAction \<Rightarrow> True
      | Action _ \<Rightarrow> False
      | Observation (NullObservation _) \<Rightarrow> (case ev_cause e of Some c \<Rightarrow> 0 < c | None \<Rightarrow> False)
      | Observation (AgentStateChangedObservation _ _ _) \<Rightarrow> False
      | Observation _ \<Rightarrow> True)"

definition add_to_history :: "'a agent_env \<Rightarrow> event \<Rightarrow> ('a, unit) prog" where
  "add_to_history env e m =
     (case add_history (env_py env) e (c_state (self m)) of
        Inl x \<Rightarrow> (Inl x, m)
      | Inr st \<Rightarrow> (Inr (), m\<lparr>self := (self m)\<lparr>c_state := st\<rparr>\<rparr>))"

text \<open>\<open>_on_event\<close>: for the controller itself, whether or not it has a delegate.\<close>

definition on_event_self :: "'a agent_env \<Rightarrow> event \<Rightarrow> ('a, unit) prog" where
  "on_event_self env e =
     (if body_hidden (ev_body e) then ret ()
      else seqP [
        add_to_history env e,
        if is_action e then handle_action env e else handle_observation env e,
        reads (\<lambda>m. whenP (should_step m e) (step_with_exception_handling env))])"

definition delegate_active :: "state \<Rightarrow> bool" where
  "delegate_active st \<longleftrightarrow>
     agent_state st \<notin> {agent_state_value FINISHED, agent_state_value ERROR, agent_state_value REJECTED} \<or>
     contains (last_error st) ''RuntimeError: Agent reached maximum iteration.'' \<or>
     contains (last_error st) ''RuntimeError:Agent reached maximum budget for conversation''"

definition on_event :: "'a agent_env \<Rightarrow> event \<Rightarrow> ('a, unit) prog" where
  "on_event env e = reads (\<lambda>m.
     case delegates m of
       [] \<Rightarrow> on_event_self env e
     | d # _ \<Rightarrow>
         if delegate_active (c_state d) then on_delegate (on_event_self env e) else end_delegate env)"

text \<open>\<open>_is_awaiting_observation\<close>.\<close>

definition is_awaiting_observation :: "'a agent_env \<Rightarrow> ('a, bool) prog" where
  "is_awaiting_observation env =
     bindP (first_event env 0 True is_state_changed) (\<lambda>found. ret
       (case found of
          Some e \<Rightarrow> (case ev_body e of
              Observation (AgentStateChangedObservation _ s _) \<Rightarrow> s = agent_state_value RUNNING
            | _ \<Rightarrow> False)
        | None \<Rightarrow> False))"

section \<open>The stream and the controller together\<close>

text \<open>
  One round of the stream's queue. The controller's callback runs on the event that was taken; what
  it raises is logged by the stream. Callbacks of others are not the controller's business.
\<close>

definition deliver :: "'a agent_env \<Rightarrow> 'a machine \<Rightarrow> 'a machine" where
  "deliver env m =
     (let (es, calls) = process_queue (stream m); m = m\<lparr>stream := es\<rparr>
      in fold (\<lambda>(key, cid, _, e) m.
           if key = ''agent_controller'' \<and> cid = c_id (self m) then snd (on_event env e m) else m) calls m)"

end
