(* ===== verification/Controller_Effects.thy ===== *)
theory Controller_Effects
  imports Controller_Events
begin

text \<open>
  Every method of the controller is composed of a few effects on what controllers share. The locale
  \<open>controller_effects\<close> states what a relation between the shared state before and after has to satisfy
  for these effects; it then holds for every method, and for the delivery of an event, delegates
  included. Its interpretations are relations on the limits, the LLM's metrics and the stream.
\<close>

section \<open>Programs\<close>

lemma prog_simps [simp]:
  "ret x m = (Inr x, m)" "throw e m = (Inl e, m)" "reads f m = f m m" "modify g m = (Inr (), g m)"
  "whenP True p = p" "whenP False p = ret ()" "seqP [] = ret ()" "seqP (p # ps) = thenP p (seqP ps)"
  by (simp_all add: ret_def throw_def reads_def modify_def whenP_def seqP_def)

lemma bindP_ret [simp]: "bindP (ret x) g = g x"
  by (simp add: bindP_def fun_eq_iff)

lemma thenP_ret [simp]: "thenP (ret x) g = g" "thenP g (ret ()) = g"
  by (simp_all add: thenP_def bindP_def fun_eq_iff split: prod.splits sum.splits)

lemma bindP_Inr: "f m = (Inr x, m') \<Longrightarrow> bindP f g m = g x m'"
  by (simp add: bindP_def)

lemma bindP_Inl: "f m = (Inl x, m') \<Longrightarrow> bindP f g m = (Inl x, m')"
  by (simp add: bindP_def)

lemma thenP_Inr: "f m = (Inr x, m') \<Longrightarrow> thenP f g m = g m'"
  by (simp add: thenP_def bindP_def)

lemma thenP_Inl: "f m = (Inl x, m') \<Longrightarrow> thenP f g m = (Inl x, m')"
  by (simp add: thenP_def bindP_def)

section \<open>The shared state\<close>

type_synonym core = "unit event_stream \<times> limits \<times> heap"

definition core :: "'a machine \<Rightarrow> core" where
  "core m = (stream m, m_limits m, m_heap m)"

lemma core_simps [simp]:
  "core (m\<lparr>self := c\<rparr>) = core m" "core (m\<lparr>delegates := ds\<rparr>) = core m" "core (m\<lparr>ticks := t\<rparr>) = core m"
  "core (m\<lparr>session_files := fs\<rparr>) = core m" "core (m\<lparr>status_log := l\<rparr>) = core m"
  "core (m\<lparr>stream := st\<rparr>) = (st, m_limits m, m_heap m)" "core (m\<lparr>m_limits := l'\<rparr>) = (stream m, l', m_heap m)"
  "core (m\<lparr>m_heap := h\<rparr>) = (stream m, m_limits m, h)"
  by (simp_all add: core_def)

definition in_modes :: "bool set \<Rightarrow> 'a machine \<Rightarrow> bool" where
  "in_modes modes m \<longleftrightarrow> (\<forall>c \<in> set (self m # delegates m). headless_mode c \<in> modes)"

lemma in_modes_simps [simp]:
  "in_modes modes (m\<lparr>self := c\<rparr>) \<longleftrightarrow> headless_mode c \<in> modes \<and> (\<forall>d \<in> set (delegates m). headless_mode d \<in> modes)"
  "in_modes modes (m\<lparr>delegates := ds\<rparr>) \<longleftrightarrow> headless_mode (self m) \<in> modes \<and> (\<forall>d \<in> set ds. headless_mode d \<in> modes)"
  "in_modes modes (m\<lparr>self := c, delegates := ds\<rparr>) \<longleftrightarrow> headless_mode c \<in> modes \<and> (\<forall>d \<in> set ds. headless_mode d \<in> modes)"
  "in_modes modes (m\<lparr>ticks := t\<rparr>) = in_modes modes m" "in_modes modes (m\<lparr>session_files := fs\<rparr>) = in_modes modes m"
  "in_modes modes (m\<lparr>status_log := lg\<rparr>) = in_modes modes m" "in_modes modes (m\<lparr>stream := st\<rparr>) = in_modes modes m"
  "in_modes modes (m\<lparr>m_limits := l\<rparr>) = in_modes modes m" "in_modes modes (m\<lparr>m_heap := h\<rparr>) = in_modes modes m"
  by (auto simp: in_modes_def)

section \<open>The effects\<close>

locale controller_effects =
  fixes env :: "'a agent_env" and R :: "core \<Rightarrow> core \<Rightarrow> bool" and modes :: "bool set"
  assumes same: "R x x"
    and also_then: "R x y \<Longrightarrow> R y z \<Longrightarrow> R x z"
    and added: "R (st, l, h) (fst (add_event (env_py env) now e source st), l, h)"
    and searched: "R (st, l, h) (snd (search_events (env_py env) st i e' rv flt most), l, h)"
    and latest: "get_latest_event_id st = Inr (i, st') \<Longrightarrow> R (st, l, h) (st', l, h)"
    and subscribed: "R (st, l, h) (fst (subscribe key () cid st), l, h)"
    and unsubscribed: "R (st, l, h) (unsubscribe key cid st, l, h)"
    and processed: "R (st, l, h) (fst (process_queue st), l, h)"
    and increased: "b \<in> modes \<Longrightarrow> R (st, l, h) (st, maybe_increase_control_flags_limits b l, h)"
    and synced: "R (st, l, h) (st, sync_budget_flag_with_metrics s hp ss l, h)"
    and limited: "R (st, l, h) (st, fst (run_control_flags (env_money env) l), h)"
    and turn: "run_control_flags (env_money env) l = (l', None) \<Longrightarrow>
      ag_step env a s l' h = (r, a', s', h') \<Longrightarrow> R (st, l, h) (st, l', h')"
begin

definition keeps :: "('a, 'r) prog \<Rightarrow> bool" where
  "keeps f \<longleftrightarrow> (\<forall>m. in_modes modes m \<longrightarrow>
     in_modes modes (snd (f m)) \<and> R (core m) (core (snd (f m))))"

lemma keepsI:
  "(\<And>m. in_modes modes m \<Longrightarrow> in_modes modes (snd (f m)) \<and> R (core m) (core (snd (f m)))) \<Longrightarrow> keeps f"
  by (simp add: keeps_def)

lemma keepsD:
  "keeps f \<Longrightarrow> in_modes modes m \<Longrightarrow> f m = (r, m') \<Longrightarrow> in_modes modes m' \<and> R (core m) (core m')"
  unfolding keeps_def by (metis snd_conv)

lemma keeps_ret: "keeps (ret x)"
  by (simp add: keeps_def same)

lemma keeps_throw: "keeps (throw x)"
  by (simp add: keeps_def same)

lemma keeps_reads: "(\<And>m. in_modes modes m \<Longrightarrow> keeps (f m)) \<Longrightarrow> keeps (reads f)"
  by (simp add: keeps_def)

lemma keeps_modify:
  "(\<And>m. in_modes modes m \<Longrightarrow> in_modes modes (g m) \<and> R (core m) (core (g m))) \<Longrightarrow> keeps (modify g)"
  by (simp add: keeps_def)

lemma keeps_bind:
  assumes "keeps f" and "\<And>x. keeps (g x)"
  shows "keeps (bindP f g)"
proof (rule keepsI)
  fix m :: "'a machine"
  assume m: "in_modes modes m"
  obtain r m1 where f: "f m = (r, m1)" by fastforce
  note m1 = keepsD [OF assms(1) m f]
  show "in_modes modes (snd (bindP f g m)) \<and> R (core m) (core (snd (bindP f g m)))"
  proof (cases r)
    case (Inl x)
    with f m1 show ?thesis by (simp add: bindP_def)
  next
    case (Inr x)
    obtain r2 m2 where g: "g x m1 = (r2, m2)" by fastforce
    from keepsD [OF assms(2) _ g] m1 have "in_modes modes m2" "R (core m1) (core m2)" by auto
    with m1 have "R (core m) (core m2)" using also_then by blast
    with f g Inr \<open>in_modes modes m2\<close> show ?thesis by (simp add: bindP_def)
  qed
qed

lemma keeps_then: "keeps f \<Longrightarrow> keeps g \<Longrightarrow> keeps (thenP f g)"
  unfolding thenP_def by (rule keeps_bind)

lemma keeps_when: "(b \<Longrightarrow> keeps f) \<Longrightarrow> keeps (whenP b f)"
  by (cases b) (simp_all add: keeps_ret)

lemma keeps_try:
  assumes "keeps f" and "\<And>x. keeps (h x)"
  shows "keeps (tryP f h)"
proof (rule keepsI)
  fix m :: "'a machine"
  assume m: "in_modes modes m"
  obtain r m1 where f: "f m = (r, m1)" by fastforce
  note m1 = keepsD [OF assms(1) m f]
  show "in_modes modes (snd (tryP f h m)) \<and> R (core m) (core (snd (tryP f h m)))"
  proof (cases r)
    case (Inr x)
    with f m1 show ?thesis by (simp add: tryP_def)
  next
    case (Inl x)
    obtain r2 m2 where g: "h x m1 = (r2, m2)" by fastforce
    from keepsD [OF assms(2) _ g] m1 have "in_modes modes m2" "R (core m1) (core m2)" by auto
    with m1 have "R (core m) (core m2)" using also_then by blast
    with f g Inl \<open>in_modes modes m2\<close> show ?thesis by (simp add: tryP_def)
  qed
qed

lemma keeps_seq_nil: "keeps (seqP [])" and
  keeps_seq: "keeps p \<Longrightarrow> keeps (seqP ps) \<Longrightarrow> keeps (seqP (p # ps))"
  by (simp_all add: keeps_ret keeps_then)

lemma keeps_update_self: "(\<And>c. headless_mode (g c) = headless_mode c) \<Longrightarrow> keeps (update_self g)"
  unfolding update_self_def by (rule keeps_modify) (simp add: same, simp add: in_modes_def)

lemma keeps_update_state: "keeps (update_state g)"
  unfolding update_state_def by (rule keeps_update_self) simp

lemma keeps_on_delegate:
  assumes "keeps f"
  shows "keeps (on_delegate f)"
proof (rule keepsI)
  fix m :: "'a machine"
  assume m: "in_modes modes m"
  show "in_modes modes (snd (on_delegate f m)) \<and> R (core m) (core (snd (on_delegate f m)))"
  proof (cases "delegates m")
    case Nil
    with m show ?thesis by (simp add: on_delegate_def same)
  next
    case (Cons d ds)
    obtain r m' where f: "f (m\<lparr>self := d, delegates := ds\<rparr>) = (r, m')" by fastforce
    have "in_modes modes (m\<lparr>self := d, delegates := ds\<rparr>)" using m Cons by (simp add: in_modes_def)
    from keepsD [OF assms this f] have "in_modes modes m'" "R (core m) (core m')" by simp_all
    with m f Cons show ?thesis by (simp add: on_delegate_def) (simp add: in_modes_def)
  qed
qed

lemmas keeps_intros = keeps_ret keeps_throw keeps_bind keeps_then keeps_when keeps_try keeps_seq
  keeps_seq_nil keeps_update_state keeps_on_delegate

subsection \<open>The stream\<close>

lemma keeps_publish: "keeps (publish env e source)"
proof (rule keepsI)
  fix m :: "'a machine"
  assume "in_modes modes m"
  then show "in_modes modes (snd (publish env e source m)) \<and> R (core m) (core (snd (publish env e source m)))"
    using added [of "stream m" "m_limits m" "m_heap m" "env_clock env (ticks m)" e source]
    by (simp add: publish_def split_beta core_def [of m])
qed

lemma keeps_publish_pending: "keeps (publish_pending env source)"
proof (rule keepsI)
  fix m :: "'a machine"
  assume m: "in_modes modes m"
  show "in_modes modes (snd (publish_pending env source m)) \<and>
    R (core m) (core (snd (publish_pending env source m)))"
  proof (cases "pending_action (self m)")
    case None
    with m show ?thesis by (simp add: publish_pending_def same)
  next
    case (Some a)
    obtain r m' where p: "publish env (la_event a) source m = (r, m')" by fastforce
    from keepsD [OF keeps_publish m p] have "in_modes modes m'" "R (core m) (core m')" by simp_all
    with p Some show ?thesis by (simp add: publish_pending_def) (simp add: in_modes_def)
  qed
qed

lemma keeps_first_event: "keeps (first_event env s rv p)"
proof (rule keepsI)
  fix m :: "'a machine"
  assume m: "in_modes modes m"
  have "snd (first_event env s rv p m) =
      m\<lparr>stream := snd (search_events (env_py env) (stream m) s None rv None None)\<rparr>"
    by (simp add: first_event_def split_beta Let_def split: option.split)
  with m searched [of "stream m" "m_limits m" "m_heap m" s None rv None None]
  show "in_modes modes (snd (first_event env s rv p m)) \<and> R (core m) (core (snd (first_event env s rv p m)))"
    by (simp add: core_def [of m])
qed

lemma kept_bounds:
  "history_bounds st es = Inr (b, es') \<Longrightarrow> R (es, l, h) (es', l, h)"
  using latest same by (auto simp: history_bounds_def Let_def rbind_Inr_iff split: if_splits)

lemma kept_search_history:
  "search_history (env_py env) s e es = Inr (evs, es') \<Longrightarrow> R (es, l, h) (es', l, h)"
  using searched [of es l h s "Some e" False "Some agent_history_filter" None]
  by (auto simp: search_history_def split: prod.splits option.splits)

lemma kept_init_history:
  assumes "init_history (env_py env) st es = Inr (st', es')"
  shows "R (es, l, h) (es', l, h)"
proof -
  obtain s e es1 where b: "history_bounds st es = Inr ((s, e), es1)"
    and rest: "(if s > e + 1 then Inr (st\<lparr>history := []\<rparr>, es1)
       else rbind (search_history (env_py env) s e es1) (\<lambda>(events, es).
         let ranges = delegate_ranges events [] in
         if ranges \<noteq> []
         then Inr (st\<lparr>history := without_delegates events ranges, start_id := fst (last (sort ranges))\<rparr>, es)
         else Inr (st\<lparr>history := events, start_id := s\<rparr>, es))) = Inr (st', es')"
    using assms unfolding init_history_def rbind_Inr_iff by fastforce
  show ?thesis
  proof (cases "s > e + 1")
    case True
    with b rest show ?thesis using kept_bounds by auto
  next
    case False
    with rest obtain evs where "search_history (env_py env) s e es1 = Inr (evs, es')"
      by (auto simp: rbind_Inr_iff Let_def split: if_splits)
    with b show ?thesis using kept_bounds kept_search_history also_then by blast
  qed
qed

lemma kept_close_history:
  assumes "close_history (env_py env) st es = Inr (st', es')"
  shows "R (es, l, h) (es', l, h)"
proof -
  obtain s e es1 evs where "history_bounds st es = Inr ((s, e), es1)"
    "search_history (env_py env) s e es1 = Inr (evs, es')"
    using assms by (auto simp: close_history_def rbind_Inr_iff)
  then show ?thesis using kept_bounds kept_search_history also_then by blast
qed

subsection \<open>The methods\<close>

lemma keeps_save: "keeps controller_save_state"
  unfolding controller_save_state_def by (rule keeps_modify) (simp add: same)

lemma keeps_reset: "keeps (reset env)"
  unfolding reset_def
  by (intro keeps_reads keeps_then keeps_update_self)
    (auto simp: Let_def intro!: keeps_when keeps_publish keeps_ret split: option.split)

lemma keeps_confirm: "keeps (confirm_pending env status)"
  unfolding confirm_pending_def by (intro keeps_then keeps_update_self keeps_publish_pending) simp

lemma keeps_set_agent_state: "keeps (set_agent_state_to env target)"
proof -
  have "keeps (modify (\<lambda>m. m\<lparr>m_limits :=
      maybe_increase_control_flags_limits (headless_mode (self m)) (m_limits m)\<rparr>))"
  proof (rule keeps_modify)
    fix m :: "'a machine"
    assume m: "in_modes modes m"
    then have "headless_mode (self m) \<in> modes" by (simp add: in_modes_def)
    then show "in_modes modes (m\<lparr>m_limits := maybe_increase_control_flags_limits (headless_mode (self m)) (m_limits m)\<rparr>) \<and>
        R (core m) (core (m\<lparr>m_limits := maybe_increase_control_flags_limits (headless_mode (self m)) (m_limits m)\<rparr>))"
      using m increased by (simp add: core_def [of m])
  qed
  then show ?thesis
    unfolding set_agent_state_to_def Let_def
    by (intro keeps_reads) (auto intro!: keeps_reads keeps_intros keeps_reset keeps_confirm keeps_publish keeps_save)
qed

lemma keeps_react: "keeps (react_to_exception env x)"
  unfolding react_to_exception_def set_last_error_def
  by (auto intro!: keeps_reads keeps_intros keeps_set_agent_state keeps_modify same split: option.split)

lemma chain_is_stuck_modes: "map headless_mode (snd (chain_is_stuck cs)) = map headless_mode cs"
proof (induction cs)
  case (Cons c cs)
  obtain b ds where "chain_is_stuck cs = (b, ds)" by fastforce
  with Cons show ?case by (auto simp: own_is_stuck_def split: prod.splits)
qed simp

lemma keeps_is_stuck: "keeps controller_is_stuck"
proof (rule keepsI)
  fix m :: "'a machine"
  assume m: "in_modes modes m"
  obtain b cs where cs: "chain_is_stuck (self m # delegates m) = (b, cs)" by fastforce
  with chain_is_stuck_modes [of "self m # delegates m"]
  have modes: "map headless_mode cs = headless_mode (self m) # map headless_mode (delegates m)" by simp
  then obtain c ds where c: "cs = c # ds" "headless_mode c = headless_mode (self m)"
    "map headless_mode ds = map headless_mode (delegates m)" by (cases cs) auto
  then have "headless_mode ` set ds = headless_mode ` set (delegates m)" by (metis set_map)
  moreover have "headless_mode ` set (delegates m) \<subseteq> modes" "headless_mode (self m) \<in> modes"
    using m by (auto simp: in_modes_def)
  ultimately have "headless_mode c \<in> modes" "\<forall>d \<in> set ds. headless_mode d \<in> modes"
    using c(2) by auto
  then show "in_modes modes (snd (controller_is_stuck m)) \<and> R (core m) (core (snd (controller_is_stuck m)))"
    using cs by (simp add: controller_is_stuck_def c(1) same del: chain_is_stuck.simps)
qed

lemma keeps_lift: "keeps (lift_exc x)"
  by (auto simp: lift_exc_def intro: keeps_throw keeps_ret split: sum.split)

lemma keeps_emit: "keeps (emit_action env action)"
  unfolding emit_action_def Let_def
  by (intro keeps_reads keeps_seq keeps_seq_nil keeps_when keeps_bind keeps_then keeps_update_self
      keeps_set_agent_state keeps_lift)
    (auto intro: keeps_throw keeps_publish keeps_publish_pending split: option.split)

lemma keeps_agent_error: "keeps (agent_error env x)"
  unfolding agent_error_def by (auto intro!: keeps_reads keeps_intros keeps_publish)

text \<open>The limits and the turn of the agent are one effect: the agent's turn is paid for.\<close>

lemma kept_turn:
  assumes "in_modes modes m" and "run_control_flags (env_money env) (m_limits m) = (l, None)"
  shows "in_modes modes (snd (next_action env (m\<lparr>m_limits := l\<rparr>))) \<and>
    R (core m) (core (snd (next_action env (m\<lparr>m_limits := l\<rparr>))))"
proof -
  obtain replaying q where q: "should_replay (replay_man (self m)) = (replaying, q)" by fastforce
  have limits: "R (core m) (stream m, l, m_heap m)"
    using limited [of "stream m" "m_limits m" "m_heap m"] assms(2) by (simp add: core_def)
  show ?thesis
  proof (cases replaying)
    case True
    obtain e q' where "replay_step q = (e, q')" by fastforce
    with True q limits assms(1) show ?thesis
      by (simp add: next_action_def) (simp add: in_modes_def core_def)
  next
    case False
    let ?m = "m\<lparr>m_limits := l, self := (self m)\<lparr>replay_man := q\<rparr>\<rparr>"
    obtain r a s h where step: "ag_step env (agent (self ?m)) (c_state (self ?m)) l (m_heap m) = (r, a, s, h)"
      by (metis prod_cases4)
    define m1 where "m1 = snd (call_agent env ?m)"
    have call: "call_agent env ?m = (r, m1)" and m1: "core m1 = (stream m, l, h)" "in_modes modes m1"
      using step assms(1) by (simp_all add: call_agent_def m1_def core_def in_modes_def)
    have R1: "R (core m) (core m1)"
      using turn [OF assms(2) step, of "stream m"] by (simp only: m1(1) core_def [of m])
    have g: "keeps (require_action x)" for x
      unfolding require_action_def by (cases x) (simp_all add: keeps_throw keeps_ret)
    obtain r2 m2 where b: "bindP (call_agent env) require_action ?m = (r2, m2)" by fastforce
    have m2: "in_modes modes m2 \<and> R (core m) (core m2)"
    proof (cases r)
      case (Inl x)
      with b call R1 m1 show ?thesis by (simp add: bindP_Inl)
    next
      case (Inr x)
      then have "require_action x m1 = (r2, m2)" using b call by (simp add: bindP_Inr)
      from keepsD [OF g m1(2) this] R1 show ?thesis using also_then by blast
    qed
    have next_eq: "next_action env (m\<lparr>m_limits := l\<rparr>) =
        (case (r2, m2) of (Inl x, m) \<Rightarrow> agent_error env x m | (Inr y, m) \<Rightarrow> (Inr y, m))"
      using False q b by (simp add: next_action_def tryP_def)
    show ?thesis
    proof (cases r2)
      case (Inl x)
      obtain r3 m3 where "agent_error env x m2 = (r3, m3)" by fastforce
      with m2 keepsD [OF keeps_agent_error _ this] have "in_modes modes m3" "R (core m) (core m3)"
        using also_then by blast+
      with \<open>agent_error env x m2 = (r3, m3)\<close> Inl next_eq show ?thesis by simp
    next
      case (Inr x)
      with m2 next_eq show ?thesis by simp
    qed
  qed
qed

lemma keeps_sync: "keeps sync_budget"
  unfolding sync_budget_def by (rule keeps_modify) (simp add: synced core_def)

lemma keeps_limited_turn:
  assumes "\<And>x. keeps (f x)" and "\<And>a. keeps (g a)"
  shows "keeps (bindP (run_limits env) (\<lambda>x. case x of Some x \<Rightarrow> f x | None \<Rightarrow> bindP (next_action env) g))"
proof (rule keepsI)
  fix m :: "'a machine"
  assume m: "in_modes modes m"
  let ?p = "bindP (run_limits env) (\<lambda>x. case x of Some x \<Rightarrow> f x | None \<Rightarrow> bindP (next_action env) g)"
  obtain l x where run: "run_control_flags (env_money env) (m_limits m) = (l, x)" by fastforce
  then have eq: "?p m = (case x of Some x \<Rightarrow> f x | None \<Rightarrow> bindP (next_action env) g) (m\<lparr>m_limits := l\<rparr>)"
    by (simp add: bindP_def run_limits_def)
  show "in_modes modes (snd (?p m)) \<and> R (core m) (core (snd (?p m)))"
  proof (cases x)
    case (Some y)
    obtain r m' where "f y (m\<lparr>m_limits := l\<rparr>) = (r, m')" by fastforce
    moreover have "R (core m) (core (m\<lparr>m_limits := l\<rparr>))"
      using limited [of "stream m" "m_limits m" "m_heap m"] run by (simp add: core_def)
    ultimately show ?thesis
      using keepsD [OF assms(1), of "m\<lparr>m_limits := l\<rparr>"] m eq Some also_then by fastforce
  next
    case None
    obtain r m1 where n: "next_action env (m\<lparr>m_limits := l\<rparr>) = (r, m1)" by fastforce
    have m1: "in_modes modes m1" "R (core m) (core m1)"
      using kept_turn [OF m] run None n by fastforce+
    show ?thesis
    proof (cases r)
      case (Inl y)
      with eq None n m1 show ?thesis by (simp add: bindP_Inl)
    next
      case (Inr y)
      obtain r2 m2 where g: "g y m1 = (r2, m2)" by fastforce
      from keepsD [OF assms(2) m1(1) g] m1(2) have "in_modes modes m2" "R (core m) (core m2)"
        using also_then by blast+
      with eq None n Inr g show ?thesis by (simp add: bindP_Inr)
    qed
  qed
qed

lemma keeps_step: "keeps (controller_step env)"
proof -
  have *: "keeps (bindP (run_limits env) (\<lambda>x. case x of Some x \<Rightarrow> react_to_exception env x
      | None \<Rightarrow> bindP (next_action env) (\<lambda>a. case a of None \<Rightarrow> ret () | Some e \<Rightarrow> emit_action env e)))"
    by (rule keeps_limited_turn) (auto intro: keeps_react keeps_ret keeps_emit split: option.split)
  show ?thesis
    unfolding controller_step_def
    by (auto intro!: keeps_reads keeps_ret keeps_then keeps_bind keeps_sync keeps_is_stuck keeps_react *)
qed

lemma keeps_step_handled: "keeps (step_with_exception_handling env)"
  unfolding step_with_exception_handling_def by (intro keeps_try keeps_step keeps_react)

lemma keeps_first_user: "keeps (first_user_message env)"
  unfolding first_user_message_def
  by (auto intro!: keeps_reads keeps_intros keeps_first_event keeps_update_self split: option.split)

lemma keeps_message: "keeps (handle_message_action env e)"
  unfolding handle_message_action_def Let_def
  by (auto intro!: keeps_reads keeps_intros keeps_first_user keeps_update_self keeps_publish_pending
      keeps_set_agent_state split: option.split)

lemma keeps_truncate: "keeps (truncate_memory_to_point r)"
  unfolding truncate_memory_to_point_def Let_def
  by (intro keeps_reads keeps_when keeps_then keeps_update_state keeps_update_self) simp

lemma keeps_perform_recovery: "keeps (perform_loop_recovery env a)"
  unfolding perform_loop_recovery_def
  by (intro keeps_seq keeps_seq_nil keeps_truncate keeps_set_agent_state keeps_publish)

lemma keeps_recovery: "keeps (handle_loop_recovery_action env n)"
  unfolding handle_loop_recovery_action_def restart_with_last_user_message_def Let_def
  by (auto intro!: keeps_reads keeps_intros keeps_perform_recovery keeps_truncate keeps_set_agent_state
      keeps_publish keeps_message split: option.split)

lemma keeps_close_tracker: "keeps (close_tracker env)"
proof (rule keepsI)
  fix m :: "'a machine"
  assume "in_modes modes m"
  then show "in_modes modes (snd (close_tracker env m)) \<and> R (core m) (core (snd (close_tracker env m)))"
    using kept_close_history [of "c_state (self m)" "stream m" _ _ "m_limits m" "m_heap m"]
    by (auto simp: close_tracker_def same in_modes_def core_def split: sum.splits)
qed

lemma keeps_close: "keeps (close_controller env b)"
proof -
  have "keeps (modify (\<lambda>m. m\<lparr>stream := unsubscribe ''agent_controller'' (c_id (self m)) (stream m)\<rparr>))"
    by (rule keeps_modify) (simp add: unsubscribed core_def)
  then show ?thesis
    unfolding close_controller_def
    by (auto intro!: keeps_reads keeps_intros keeps_set_agent_state keeps_close_tracker keeps_update_self)
qed

lemma keeps_system_message: "keeps (add_system_message env)"
  unfolding add_system_message_def
  by (auto intro!: keeps_reads keeps_intros keeps_first_event keeps_publish split: option.split)

lemma kept_init:
  assumes "in_modes modes m" and "is_delegate (self m)"
  shows "in_modes modes (snd (init_controller env (Some (st, m_limits m)) m)) \<and>
    R (core m) (core (snd (init_controller env (Some (st, m_limits m)) m)))"
proof -
  let ?init = "controller_set_initial_state env (Some (st, m_limits m)) (initial_max_iterations (self m))
    (initial_max_budget (self m)) (c_confirmation_mode (self m))"
  obtain r m1 where i: "?init m = (r, m1)" by fastforce
  have m1: "in_modes modes m1 \<and> R (core m) (core m1)"
    using i assms(1) kept_init_history [of _ "stream m" _ _ "m_limits m" "m_heap m"]
    by (auto simp: controller_set_initial_state_def set_initial_state_def Let_def same in_modes_def core_def
        split: sum.splits)
  have eq: "init_controller env (Some (st, m_limits m)) m = thenP ?init (add_system_message env) m"
    using assms(2) by (simp add: init_controller_def Let_def)
  show ?thesis
  proof (cases r)
    case (Inl x)
    with i m1 show ?thesis by (simp add: eq thenP_Inl)
  next
    case (Inr x)
    obtain r2 m2 where g: "add_system_message env m1 = (r2, m2)" by fastforce
    from keepsD [OF keeps_system_message _ g] m1 have "in_modes modes m2" "R (core m) (core m2)"
      using also_then by blast+
    with i Inr g show ?thesis by (simp add: eq thenP_Inr)
  qed
qed

lemma keeps_start_delegate: "keeps (start_delegate env name ins)"
proof (rule keepsI)
  fix m :: "'a machine"
  assume m: "in_modes modes m"
  show "in_modes modes (snd (start_delegate env name ins m)) \<and>
    R (core m) (core (snd (start_delegate env name ins m)))"
  proof (cases "ag_delegate env name (agent (self m))")
    case (Inl x)
    with m show ?thesis by (simp add: start_delegate_def same)
  next
    case (Inr a)
    show ?thesis
    proof (cases "get_latest_event_id (stream m)")
      case (Inl x)
      with Inr m show ?thesis by (simp add: start_delegate_def same)
    next
      case i: (Inr p)
      obtain i es where p: "p = (i, es)" by fastforce
      let ?m = "m\<lparr>stream := es\<rparr>"
      let ?d = "?m\<lparr>self := delegate_ctl (self ?m) a, delegates := []\<rparr>"
      let ?st = "delegate_state ?m ins (i + 1)"
      obtain r m' where init: "init_controller env (Some (?st, m_limits ?m)) ?d = (r, m')" by fastforce
      have d: "in_modes modes ?d" using m by (simp add: in_modes_def delegate_ctl_def)
      have "is_delegate (self ?d)" by (simp add: delegate_ctl_def)
      from kept_init [OF d this, of ?st] init have m': "in_modes modes m'" "R (core ?d) (core m')" by simp_all
      have "R (core m) (core ?d)" using latest i p by (simp add: core_def)
      with m' have "R (core m) (core m')" using also_then by blast
      moreover have "snd (start_delegate env name ins m) =
          (case r of Inl x \<Rightarrow> m'\<lparr>self := self m, delegates := delegates m\<rparr>
           | Inr _ \<Rightarrow> m'\<lparr>self := self m, delegates := [self m']\<rparr>)"
        using Inr i p init by (cases r) (simp_all add: start_delegate_def Let_def)
      ultimately show ?thesis
        using m m' by (cases r) (simp_all, simp_all add: in_modes_def)
    qed
  qed
qed

lemma keeps_delegate_action: "keeps (handle_delegate_action env name ins)"
  unfolding handle_delegate_action_def
  by (intro keeps_then keeps_start_delegate)
    (auto intro!: keeps_intros keeps_publish keeps_set_agent_state split: option.split json.split)

lemma keeps_end_delegate: "keeps (end_delegate env)"
proof -
  have "keeps (modify (\<lambda>m :: 'a machine. m\<lparr>delegates := []\<rparr>))"
    by (rule keeps_modify) (auto simp: same in_modes_def)
  then show ?thesis
    unfolding end_delegate_def Let_def
    by (auto intro!: keeps_reads keeps_intros keeps_close keeps_publish split: list.split option.split)
qed

lemma keeps_add_history: "keeps (add_to_history env e)"
  by (rule keepsI) (auto simp: add_to_history_def same in_modes_def core_def split: sum.split)

lemma keeps_action: "keeps (handle_action env e)"
  unfolding handle_action_def
  by (auto intro!: keeps_intros keeps_set_agent_state keeps_message keeps_delegate_action keeps_recovery
      split: body.split action.split)

lemma keeps_observation: "keeps (handle_observation env e)"
  unfolding handle_observation_def
  by (auto intro!: keeps_reads keeps_intros keeps_update_self keeps_set_agent_state split: option.split)

lemma keeps_on_event_self: "keeps (on_event_self env e)"
  unfolding on_event_self_def
  by (auto intro!: keeps_reads keeps_intros keeps_add_history keeps_action keeps_observation keeps_step_handled)

theorem keeps_on_event: "keeps (on_event env e)"
  unfolding on_event_def
  by (auto intro!: keeps_reads keeps_intros keeps_on_event_self keeps_end_delegate split: list.split)

lemma kept_calls:
  "in_modes modes m \<Longrightarrow> in_modes modes (fold (\<lambda>(key, cid, _, e) m.
      if key = ''agent_controller'' \<and> cid = c_id (self m) then snd (on_event env e m) else m) calls m) \<and>
   R (core m) (core (fold (\<lambda>(key, cid, _, e) m.
      if key = ''agent_controller'' \<and> cid = c_id (self m) then snd (on_event env e m) else m) calls m))"
proof (induction calls arbitrary: m)
  case Nil
  then show ?case by (simp add: same)
next
  case (Cons c calls)
  obtain key cid cb e where c: "c = (key, cid, cb, e)" by (metis prod_cases4)
  let ?m = "if key = ''agent_controller'' \<and> cid = c_id (self m) then snd (on_event env e m) else m"
  let ?f = "\<lambda>(key, cid, _, e) m. if key = ''agent_controller'' \<and> cid = c_id (self m)
    then snd (on_event env e m) else m"
  have "in_modes modes ?m \<and> R (core m) (core ?m)"
    using keeps_on_event [of e] Cons.prems same by (simp add: keeps_def)
  then have "in_modes modes (fold ?f calls ?m) \<and> R (core m) (core (fold ?f calls ?m))"
    using Cons.IH [of ?m] also_then by blast
  then show ?case by (simp add: c)
qed

theorem kept_deliver:
  assumes "in_modes modes m"
  shows "in_modes modes (deliver env m) \<and> R (core m) (core (deliver env m))"
proof -
  obtain es calls where q: "process_queue (stream m) = (es, calls)" by fastforce
  have "in_modes modes (m\<lparr>stream := es\<rparr>)" using assms by simp
  moreover have "R (core m) (core (m\<lparr>stream := es\<rparr>))"
    using processed [of "stream m" "m_limits m" "m_heap m"] q by (simp add: core_def)
  ultimately show ?thesis
    using kept_calls [of "m\<lparr>stream := es\<rparr>" calls] also_then
    by (simp only: deliver_def q prod.case Let_def)
qed

end

end
