(* ===== verification/Controller_Limits.thy ===== *)
theory Controller_Limits
  imports Controller_Effects Stream_Of_Log
begin

text \<open>
  What holds in every run of a controller: the limits on the iterations, the number of calls of the
  LLM that they allow, and that the stream is append-only. Each is an interpretation of
  \<open>controller_effects\<close>: it is checked for the single effects and then holds for every method, with
  any number of delegates.
\<close>

section \<open>Runs\<close>

text \<open>
  The stream delivers its next event to the controller, or another component (the user, the runtime,
  the memory) adds an event.
\<close>

inductive run :: "'a agent_env \<Rightarrow> 'a machine \<Rightarrow> 'a machine \<Rightarrow> bool" for env m0 where
  start: "run env m0 m0"
| delivers: "run env m0 m \<Longrightarrow> run env m0 (deliver env m)"
| others_add: "run env m0 m \<Longrightarrow>
    run env m0 (m\<lparr>stream := fst (add_event (env_py env) now e source (stream m))\<rparr>)"

text \<open>A relation that the effects satisfy holds between the start and the end of a run.\<close>

context controller_effects
begin

lemma kept_run:
  assumes "run env m0 m" and "in_modes modes m0"
  shows "in_modes modes m \<and> R (core m0) (core m)"
  using assms(1)
proof (induction rule: run.induct)
  case start
  then show ?case using assms(2) same by simp
next
  case (delivers m)
  then show ?case using kept_deliver also_then by blast
next
  case (others_add m now e source)
  have "R (core m) (core (m\<lparr>stream := fst (add_event (env_py env) now e source (stream m))\<rparr>))"
    using added [of "stream m" "m_limits m" "m_heap m"] by (simp add: core_def)
  moreover have "in_modes modes (m\<lparr>stream := fst (add_event (env_py env) now e source (stream m))\<rparr>)"
    using others_add.IH by (simp only: in_modes_simps)
  ultimately show ?case using others_add.IH also_then by blast
qed

end

section \<open>Iterations\<close>

definition limits_ok :: "limits \<Rightarrow> bool" where
  "limits_ok l \<longleftrightarrow> iteration_ok (iteration_flag l)"

fun limits_grow :: "bool set \<Rightarrow> core \<Rightarrow> core \<Rightarrow> bool" where
  "limits_grow modes (st, l, h) (st', l', h') \<longleftrightarrow>
     (limits_ok l \<longrightarrow> limits_ok l' \<and>
        current_value (iteration_flag l) \<le> current_value (iteration_flag l') \<and>
        max_value (iteration_flag l) \<le> max_value (iteration_flag l') \<and>
        (False \<notin> modes \<longrightarrow> max_value (iteration_flag l') = max_value (iteration_flag l)))"

lemma iteration_after_run:
  "iteration_flag (fst (run_control_flags money l)) = fst (iteration_step (iteration_flag l))"
  by (simp add: run_control_flags_def split_beta Let_def split: option.split)

lemma iteration_run_None:
  "run_control_flags money l = (l', None) \<Longrightarrow> \<not> over_limit (iteration_flag l) \<and>
     iteration_flag l' = (iteration_flag l)
       \<lparr>current_value := current_value (iteration_flag l) + 1, hit_limit := False\<rparr>"
  using iteration_step_under [of "iteration_flag l"] iteration_step_over [of "iteration_flag l"]
    iteration_after_run [of money l]
  by (cases "over_limit (iteration_flag l)") (auto simp: run_control_flags_def Let_def)

lemma iteration_after_sync [simp]:
  "iteration_flag (sync_budget_flag_with_metrics s h ss l) = iteration_flag l"
  by (simp add: sync_budget_flag_with_metrics_def split: option.split)

lemma iteration_step_grows:
  "iteration_ok f \<Longrightarrow> current_value f \<le> current_value (fst (iteration_step f)) \<and>
     max_value (fst (iteration_step f)) = max_value f \<and> iteration_ok (fst (iteration_step f))"
  using iteration_step_under [of f] iteration_step_over [of f] iteration.step_ok [of f]
  by (cases "over_limit f") auto

interpretation iterations: controller_effects env "limits_grow modes" modes
proof
  fix b :: bool and st :: "unit event_stream" and l :: limits and h :: heap
  assume "b \<in> modes"
  then show "limits_grow modes (st, l, h) (st, maybe_increase_control_flags_limits b l, h)"
    by (cases b) (auto simp: maybe_increase_control_flags_limits_def limits_ok_def iteration_ok_def
        iteration_increase_limit_def)
next
  fix st :: "unit event_stream" and l l' :: limits and h h' :: heap and a a' :: 'a and s s' r
  assume "run_control_flags (env_money env) l = (l', None)"
  from iteration_run_None [OF this] show "limits_grow modes (st, l, h) (st, l', h')"
    by (auto simp: limits_ok_def iteration_ok_def over_limit_def)
qed (auto simp: iteration_after_run limits_ok_def dest: iteration_step_grows)

section \<open>A concrete controller\<close>

text \<open>An agent that runs \<open>ls\<close>, one completion a step, and a controller with five iterations.\<close>

definition run_ls :: event where
  "run_ls = new_event (Action (CmdRunAction \<lparr>cr_command = ''ls'', cr_is_input = False, cr_thought = [],
     cr_blocking = False, cr_is_static = False, cr_cwd = None, cr_hidden = False,
     cr_confirmation_state = CONFIRMED, cr_security_risk = RISK_UNKNOWN\<rparr>))"

definition demo_agent :: "unit agent_env" where
  "demo_agent = \<lparr>env_py = demo_env, env_clock = (\<lambda>_. ''now''), env_money = (\<lambda>_. ''0.00''),
     env_bases = (\<lambda>_. []), env_retries_exhausted = (\<lambda>_. False), security_analyzer = None,
     ag_name = (\<lambda>_. ''Demo''),
     ag_step = (\<lambda>a s l h. (Inr (Some run_ls), a, s, h @ [(new_metrics ''m'')
       \<lparr>costs := [\<lparr>c_model = ''m'', c_cost = 1, c_timestamp = 0\<rparr>]\<rparr>])),
     ag_reset = (\<lambda>a. a), ag_system_message = (\<lambda>_. None), ag_cli_mode = (\<lambda>_. False),
     ag_history_truncation = (\<lambda>_. True), ag_delegate = (\<lambda>_ a. Inr a)\<rparr>"

definition demo_machine :: "unit machine" where
  "demo_machine = \<lparr>self = (new_ctl () None ''s'')\<lparr>c_state := new_state\<lparr>agent_state := agent_state_value RUNNING\<rparr>\<rparr>,
     delegates = [], stream = (fst (subscribe ''agent_controller'' () ''s'' (stream_of ''s'' None [])))
       \<lparr>queue := [new_event (Observation (LoopDetectionObservation []))]\<rparr>,
     m_limits = new_limits\<lparr>iteration_flag := new_flag 5 0 5\<rparr>, m_heap = [],
     m_stats = \<lparr>metrics_path = [], stats_conversation_id = [], stats_has_store = False,
       service_to_metrics = [], restored_metrics = []\<rparr>,
     session_files = [], ticks = 0, status_log = []\<rparr>"

lemma demo_machine_headless: "in_modes {True} demo_machine"
  by (simp add: in_modes_def demo_machine_def new_ctl_def)

lemma demo_machine_limits: "limits_ok (m_limits demo_machine)"
  by (simp add: demo_machine_def limits_ok_def iteration_ok_def new_flag_def)

text \<open>
  C8. In headless mode the iterations are bounded: in every run, however many delegates, errors
  and messages of the user there are, the counter of the iterations never goes back, never exceeds the
  limit that was set, and the limit is never raised.
\<close>

theorem headless_iterations_bounded:
  assumes "run env m0 m" and "in_modes {True} m0" and "limits_ok (m_limits m0)"
  shows "current_value (iteration_flag (m_limits m0)) \<le> current_value (iteration_flag (m_limits m)) \<and>
    current_value (iteration_flag (m_limits m)) \<le> max_value (iteration_flag (m_limits m0)) \<and>
    max_value (iteration_flag (m_limits m)) = max_value (iteration_flag (m_limits m0))"
  using iterations.kept_run [OF assms(1,2)] assms(3)
  by (auto simp: core_def limits_ok_def iteration_ok_def)

lemma headless_iterations_bounded_witness:
  "current_value (iteration_flag (m_limits (deliver demo_agent (deliver demo_agent demo_machine)))) \<le> 5"
  using headless_iterations_bounded [OF run.delivers [OF run.delivers [OF run.start]]
      demo_machine_headless demo_machine_limits]
  by (simp add: demo_machine_def new_flag_def)

section \<open>Calls of the LLM\<close>

text \<open>Every completion of an LLM adds a cost to its metrics.\<close>

definition completions :: "heap \<Rightarrow> nat" where
  "completions h = sum_list (map (\<lambda>m. length (costs m)) h)"

definition agent_bounded :: "'a agent_env \<Rightarrow> nat \<Rightarrow> bool" where
  "agent_bounded env k \<longleftrightarrow> (\<forall>a s l h. completions (snd (snd (snd (ag_step env a s l h)))) \<le> completions h + k)"

fun turns_paid :: "'a agent_env \<Rightarrow> nat \<Rightarrow> core \<Rightarrow> core \<Rightarrow> bool" where
  "turns_paid env k (st, l, h) (st', l', h') \<longleftrightarrow>
     (agent_bounded env k \<longrightarrow>
        current_value (iteration_flag l) \<le> current_value (iteration_flag l') \<and>
        completions h' \<le> completions h +
          k * nat (current_value (iteration_flag l') - current_value (iteration_flag l)))"

lemma iteration_step_current:
  "current_value f \<le> current_value (fst (iteration_step f))"
  using iteration_step_under [of f] iteration_step_over [of f] by (cases "over_limit f") auto

lemma turns_paid_trans:
  assumes "turns_paid env k x y" and "turns_paid env k y z"
  shows "turns_paid env k x z"
proof -
  obtain st l h where x: "x = (st, l, h)" by (cases x)
  obtain st1 l1 h1 where y: "y = (st1, l1, h1)" by (cases y)
  obtain st2 l2 h2 where z: "z = (st2, l2, h2)" by (cases z)
  let ?c = "\<lambda>l. current_value (iteration_flag l)"
  show ?thesis
  proof (cases "agent_bounded env k")
    case True
    with assms x y z have le: "?c l \<le> ?c l1" "?c l1 \<le> ?c l2"
      and "completions h2 \<le> completions h + (k * nat (?c l1 - ?c l) + k * nat (?c l2 - ?c l1))" by auto
    moreover have "k * nat (?c l1 - ?c l) + k * nat (?c l2 - ?c l1) = k * nat (?c l2 - ?c l)"
      using le by (simp flip: add_mult_distrib2 nat_add_distrib)
    ultimately show ?thesis by (simp add: x z)
  qed (simp add: x z)
qed

interpretation turns: controller_effects env "turns_paid env k" modes
proof
  fix x y z :: core
  show "turns_paid env k x y \<Longrightarrow> turns_paid env k y z \<Longrightarrow> turns_paid env k x z"
    by (rule turns_paid_trans)
  show "turns_paid env k x x" by (cases x) simp
next
  fix b :: bool and st :: "unit event_stream" and l :: limits and h :: heap
  show "turns_paid env k (st, l, h) (st, maybe_increase_control_flags_limits b l, h)"
    by (simp add: maybe_increase_control_flags_limits_def iteration_increase_limit_def)
next
  fix st :: "unit event_stream" and l l' :: limits and h h' :: heap and a a' :: 'a and s s' r
  assume l': "run_control_flags (env_money env) l = (l', None)"
    and h': "ag_step env a s l' h = (r, a', s', h')"
  have "completions h' \<le> completions h + k" if "agent_bounded env k"
    using that h' unfolding agent_bounded_def by (metis snd_conv)
  with iteration_run_None [OF l'] show "turns_paid env k (st, l, h) (st, l', h')" by simp
qed (simp_all add: iteration_after_run iteration_step_current)



section \<open>The stream is append-only\<close>

definition next_id :: "'a event_store_scheme \<Rightarrow> int option" where
  "next_id st = (case cur_id st of Inr (n, _) \<Rightarrow> Some n | Inl _ \<Rightarrow> None)"

definition event_file :: "'a event_store_scheme \<Rightarrow> int \<Rightarrow> content option" where
  "event_file st i = map_of (es_files st) (filename_for_id st i)"

definition grown :: "unit event_stream \<Rightarrow> unit event_stream \<Rightarrow> bool" where
  "grown st st' \<longleftrightarrow>
     es_sid st' = es_sid st \<and> es_user_id st' = es_user_id st \<and> secrets st' = secrets st \<and>
     (\<forall>n. next_id st = Some n \<longrightarrow> 0 \<le> n \<longrightarrow>
        (\<exists>n' \<ge> n. next_id st' = Some n' \<and> (\<forall>i < n. event_file st' i = event_file st i)))"

lemma grown_refl: "grown st st"
  by (auto simp: grown_def)

lemma grown_trans:
  assumes "grown a b" and "grown b c"
  shows "grown a c"
  unfolding grown_def
proof (intro conjI allI impI)
  fix n assume n: "next_id a = Some n" "0 \<le> n"
  then obtain n1 where n1: "n \<le> n1" "next_id b = Some n1" "\<forall>i < n. event_file b i = event_file a i"
    using assms(1) unfolding grown_def by blast
  then obtain n2 where "n1 \<le> n2" "next_id c = Some n2" "\<forall>i < n1. event_file c i = event_file b i"
    using assms(2) n(2) unfolding grown_def by (meson order_trans)
  with n1 show "\<exists>n' \<ge> n. next_id c = Some n' \<and> (\<forall>i < n. event_file c i = event_file a i)"
    by (intro exI [of _ n2]) auto
qed (use assms in \<open>auto simp: grown_def\<close>)

lemma next_id_cached [simp]: "es_cur_id st = Some n \<Longrightarrow> next_id st = Some n"
  by (simp add: next_id_def cur_id_def)

lemma cur_id_caches:
  "cur_id st = Inr (n, st') \<Longrightarrow> st' = st\<lparr>es_cur_id := Some n\<rparr> \<and> next_id st = Some n"
  by (auto simp: cur_id_def next_id_def rbind_Inr_iff split: option.splits)

lemma next_id_cong:
  "es_cur_id a = es_cur_id b \<Longrightarrow> es_files a = es_files b \<Longrightarrow> es_sid a = es_sid b \<Longrightarrow>
   es_user_id a = es_user_id b \<Longrightarrow> next_id a = next_id b"
  by (auto simp: next_id_def cur_id_def calculate_cur_id_def rbind_def split: option.splits sum.splits)

text \<open>A change of the stream that keeps the files and at most remembers the next id.\<close>

lemma grown_same_files:
  assumes "es_files st' = es_files st" and "es_sid st' = es_sid st" and "es_user_id st' = es_user_id st"
    and "secrets st' = secrets st" and "es_cur_id st' = es_cur_id st \<or> es_cur_id st' = next_id st"
  shows "grown st st'"
proof -
  have "next_id st' = Some n" if n: "next_id st = Some n" for n
    using assms(5)
  proof
    assume "es_cur_id st' = es_cur_id st"
    with assms(1-3) n show ?thesis by (metis next_id_cong)
  next
    assume "es_cur_id st' = next_id st"
    with n show ?thesis by simp
  qed
  then show ?thesis using assms(1-4) by (auto simp: grown_def event_file_def filename_for_id_def)
qed

lemma grown_written:
  assumes "next_id st = Some n" and "0 \<le> n" and "es_cur_id st' = Some (n + 1)"
    and "es_sid st' = es_sid st" and "es_user_id st' = es_user_id st" and "secrets st' = secrets st"
    and "\<And>i. i < n \<Longrightarrow> event_file st' i = event_file st i"
  shows "grown st st'"
  using assms by (auto simp: grown_def intro: exI [of _ "n + 1"])

lemma store_cache_page_keeps:
  assumes "store_cache_page page st = Inr st'"
  shows "es_sid st' = es_sid st \<and> es_user_id st' = es_user_id st \<and> secrets st' = secrets st \<and>
    es_cur_id st' = es_cur_id st \<and> (\<forall>i. event_file st' i = event_file st i)"
proof (cases "int (length page) < es_cache_size st")
  case True
  with assms show ?thesis by (auto simp: store_cache_page_def)
next
  case False
  with assms obtain s where "st' = st\<lparr>es_files :=
      fs_write (filename_for_cache st s (s + es_cache_size st)) (PageFile page) (es_files st)\<rparr>"
    by (auto simp: store_cache_page_def rbind_Inr_iff)
  then show ?thesis
    by (simp add: event_file_def fs_write_def filename_id_cache)
qed

lemma add_event_grows: "grown st (fst (add_event env now e source st))"
proof (cases "event_id e \<noteq> INVALID_ID \<or> isl (cur_id st)")
  case True
  then show ?thesis by (auto simp: add_event_def grown_refl split: sum.splits)
next
  case False
  then obtain n st1 where c: "cur_id st = Inr (n, st1)" by (cases "cur_id st") auto
  have st1: "st1 = st\<lparr>es_cur_id := Some n\<rparr>" "next_id st = Some n" using cur_id_caches [OF c] by auto
  let ?e = "e\<lparr>ev_timestamp := Some now, ev_source := Some source, ev_id := Some n\<rparr>"
  define st2 where "st2 = st1\<lparr>es_cur_id := Some (n + 1)\<rparr>"
  define st' where "st' = fst (add_event env now e source st)"
  have "es_sid st' = es_sid st \<and> es_user_id st' = es_user_id st \<and> secrets st' = secrets st \<and>
      es_cur_id st' = Some (n + 1) \<and> (0 \<le> n \<longrightarrow> (\<forall>i < n. event_file st' i = event_file st i))"
  proof (cases "event_to_dict env ?e")
    case (Inl x)
    then have "st' = st2" using False c by (simp add: st'_def add_event_def st2_def)
    then show ?thesis by (simp add: st2_def st1 event_file_def)
  next
    case (Inr d)
    let ?data = "replace_secrets (map snd (secrets st)) d"
    show ?thesis
    proof (cases "event_from_dict env ?data")
      case (Inl x)
      then have "st' = st2" using False c Inr
        by (simp add: st'_def add_event_def st2_def st1(1))
      then show ?thesis by (simp add: st2_def st1 event_file_def)
    next
      case e': (Inr e')
      define page where "page = write_page_cache st @ [?data]"
      define st3 where "st3 = st2\<lparr>write_page_cache :=
          (if int (length page) = es_cache_size st then [] else page),
        es_files := fs_write (filename_for_id st (event_id e')) (EventFile ?data) (es_files st)\<rparr>"
      have st'_eq: "st' = (case store_cache_page page st3 of
          Inl x \<Rightarrow> st3 | Inr s \<Rightarrow> s\<lparr>queue := queue s @ [e']\<rparr>)"
        using False c Inr e'
        by (simp add: st'_def add_event_def st3_def st2_def st1(1) page_def Let_def filename_for_id_def
            split: sum.split)
      have "map_of ?data ''id'' = Some (JInt n)" if "0 \<le> n"
        using event_to_dict_id [OF Inr, of n] that unfolding map_of_replace_secrets
        by (simp add: event_id_def TOP_LEVEL_PROTECTED_FIELDS_def)
      then have "event_id e' = n" if "0 \<le> n"
        using event_from_dict_id [OF e'] that by (simp add: event_id_def)
      then have st3: "es_sid st3 = es_sid st \<and> es_user_id st3 = es_user_id st \<and> secrets st3 = secrets st \<and>
          es_cur_id st3 = Some (n + 1) \<and> (0 \<le> n \<longrightarrow> (\<forall>i < n. event_file st3 i = event_file st i))"
        by (simp add: st3_def st2_def st1(1) event_file_def fs_write_def filename_for_id_inj filename_for_id_def
            event_filename_inj)
      show ?thesis
      proof (cases "store_cache_page page st3")
        case (Inl x)
        with st'_eq st3 show ?thesis by simp
      next
        case (Inr s)
        then have "event_file st' i = event_file s i" for i
          using st'_eq by (simp add: event_file_def filename_for_id_def)
        with Inr st'_eq store_cache_page_keeps [OF Inr] st3 show ?thesis by simp
      qed
    qed
  qed
  then have s: "es_sid st' = es_sid st" "es_user_id st' = es_user_id st" "secrets st' = secrets st"
    "es_cur_id st' = Some (n + 1)" "\<And>i. 0 \<le> n \<Longrightarrow> i < n \<Longrightarrow> event_file st' i = event_file st i" by auto
  show ?thesis
  proof (cases "0 \<le> n")
    case True
    then show ?thesis unfolding st'_def [symmetric] using s by (intro grown_written [OF st1(2)]) auto
  next
    case False
    then show ?thesis unfolding st'_def [symmetric] using s st1(2) by (simp add: grown_def)
  qed
qed

fun stream_grows :: "core \<Rightarrow> core \<Rightarrow> bool" where
  "stream_grows (st, l, h) (st', l', h') \<longleftrightarrow> grown st st'"

lemma grown_cur_id: "cur_id st = Inr (n, st') \<Longrightarrow> grown st st'"
  using cur_id_caches [of st n st'] by (intro grown_same_files) auto

lemma grown_clean_up: "grown st (clean_up_subscriber key cid st)"
  by (rule grown_same_files) (auto simp: clean_up_subscriber_def split: option.splits)

interpretation appends: controller_effects env stream_grows modes
proof
  fix x y z :: core
  show "stream_grows x y \<Longrightarrow> stream_grows y z \<Longrightarrow> stream_grows x z"
    using grown_trans by (cases x; cases y; cases z) auto
  show "stream_grows x x" by (cases x) (simp add: grown_refl)
next
  fix st st' :: "unit event_stream" and i e' rv flt most l h
  show "stream_grows (st, l, h) (snd (search_events (env_py env) st i e' rv flt most), l, h)"
    by (auto simp: search_events_def grown_refl grown_cur_id split: sum.split option.split)
  show "get_latest_event_id st = Inr (i, st') \<Longrightarrow> stream_grows (st, l, h) (st', l, h)"
    by (auto simp: get_latest_event_id_def rbind_Inr_iff grown_cur_id)
next
  fix st :: "unit event_stream" and key cid l h
  show "stream_grows (st, l, h) (fst (subscribe key () cid st), l, h)"
    by (auto simp: subscribe_def Let_def intro!: grown_same_files)
  show "stream_grows (st, l, h) (unsubscribe key cid st, l, h)"
    by (auto simp: unsubscribe_def grown_refl grown_clean_up split: option.split)
  show "stream_grows (st, l, h) (fst (process_queue st), l, h)"
    by (auto simp: process_queue_def grown_refl intro!: grown_same_files split: list.split)
qed (simp_all add: add_event_grows grown_refl)

text \<open>
  C12. The stream is append-only: whatever the controller, its delegates and the other components do in
  a run, the files of the events that were stored stay as they are, and the next id never goes
  back, so no id is given twice.
\<close>

theorem stored_events_stay:
  assumes "run env m0 m" and "next_id (stream m0) = Some n" and "0 \<le> n" and "i < n"
  shows "event_file (stream m) i = event_file (stream m0) i \<and>
    (\<exists>n' \<ge> n. next_id (stream m) = Some n')"
proof -
  have "in_modes UNIV m0" by (simp add: in_modes_def)
  from appends.kept_run [OF assms(1) this] have "grown (stream m0) (stream m)" by (simp add: core_def)
  with assms(2-4) show ?thesis unfolding grown_def by blast
qed

lemma stored_events_stay_witness:
  "event_file (stream (deliver demo_agent (demo_machine\<lparr>stream := stream_of ''s'' None [finish_dict 0]\<rparr>))) 0 =
   Some (EventFile (finish_dict 0))"
proof -
  let ?m = "demo_machine\<lparr>stream := stream_of ''s'' None [finish_dict 0]\<rparr>"
  have "log_ok demo_env [finish_dict 0]"
    using finish_from_dict [of 0] by (simp add: log_ok_def finish_dict_def)
  then have inv: "store_inv demo_env (stream_of ''s'' None [finish_dict 0] :: unit event_stream) [finish_dict 0]"
    using stream_of_inv by (auto simp: stream_inv_def)
  have n: "next_id (stream ?m) = Some 1"
    using cur_id_log [OF inv] by (simp add: next_id_def)
  have "event_file (stream ?m) 0 = Some (EventFile (finish_dict 0))"
    using event_file_of_id [of "''s''" None "[finish_dict 0]" 0]
    by (simp add: event_file_def filename_for_id_def)
  with stored_events_stay [OF run.delivers [OF run.start, of demo_agent ?m] n, of 0] show ?thesis by simp
qed

end
