(* ===== verification/Runtime_Dispatch.thy ===== *)
theory Runtime_Dispatch
  imports Controller_Events
begin

text \<open>
  The part of \<open>OpenHands/openhands/runtime/base.py\<close> that decides what happens with an action of the
  stream: \<open>on_event\<close>, \<open>_handle_action\<close> and \<open>run_action\<close>. What a runtime does when it carries out
  an action (its methods \<open>run\<close>, \<open>read\<close>, \<open>edit\<close>, ...: abstract in the class) and the export of
  provider tokens are in \<open>runtime_ops\<close>. Characters outside Latin-1 are their UTF-8 bytes.
\<close>

section \<open>Runtimes\<close>

record 'r runtime_ops =
  rt_has_method :: "string \<Rightarrow> bool"
  rt_method :: "string \<Rightarrow> event \<Rightarrow> 'r \<Rightarrow> (exc + observation) \<times> 'r"
  rt_export_tokens :: "event \<Rightarrow> 'r \<Rightarrow> exc option \<times> 'r"
  rt_timeout :: rat

text \<open>\<open>rt_calls\<close> holds the calls of the status callback, \<open>rt_files\<close> the files with task lists.\<close>

record 'r runtime =
  rt_sid :: string
  rt_world :: 'r
  rt_files :: "string files"
  rt_status :: "RuntimeStatus option"
  rt_has_callback :: bool
  rt_calls :: "(string \<times> RuntimeStatus \<times> string) list"

definition set_runtime_status :: "RuntimeStatus \<Rightarrow> string \<Rightarrow> string \<Rightarrow> 'r runtime \<Rightarrow> 'r runtime" where
  "set_runtime_status s msg level rt =
     (let rt = rt\<lparr>rt_status := Some s\<rparr> in
      if rt_has_callback rt then rt\<lparr>rt_calls := rt_calls rt @ [(level, s, msg)]\<rparr> else rt)"

section \<open>Task lists\<close>

definition hourglass :: string where
  "hourglass = [CHR 0xE2, CHR 0x8F, CHR 0xB3]"

definition arrows :: string where
  "arrows = [CHR 0xF0, CHR 0x9F, CHR 0x94, CHR 0x84]"

definition status_icon :: "json \<Rightarrow> exc + string" where
  "status_icon j =
     (case j of
        JStr s \<Rightarrow> Inr (if s = ''todo'' then hourglass else if s = ''in_progress'' then arrows
                        else if s = ''done'' then check_mark else hourglass)
      | JList _ \<Rightarrow> Inl (TypeError ''unhashable type'')
      | JObj _ \<Rightarrow> Inl (TypeError ''unhashable type'')
      | _ \<Rightarrow> Inr hourglass)"

definition task_field :: "py_env \<Rightarrow> dict \<Rightarrow> string \<Rightarrow> string" where
  "task_field env task k = (case map_of task k of None \<Rightarrow> [] | Some j \<Rightarrow> str_json env j)"

fun task_lines :: "py_env \<Rightarrow> int \<Rightarrow> dict list \<Rightarrow> exc + string" where
  "task_lines env i [] = Inr []"
| "task_lines env i (task # tasks) =
     rbind (status_icon (case map_of task ''status'' of None \<Rightarrow> JStr ''todo'' | Some j \<Rightarrow> j)) (\<lambda>icon.
     rbind (task_lines env (i + 1) tasks) (\<lambda>rest.
       Inr (show_int i @ ''. '' @ icon @ '' '' @ task_field env task ''title'' @ [newline] @
            task_field env task ''notes'' @ [newline] @ rest)))"

definition task_tracking ::
    "py_env \<Rightarrow> string option \<Rightarrow> string \<Rightarrow> dict list \<Rightarrow> 'r runtime \<Rightarrow> (exc + observation) \<times> 'r runtime" where
  "task_tracking env user_id cmd task_list rt =
     (let task_file_path = get_conversation_dir (rt_sid rt) user_id @ ''TASKS.md'' in
      if cmd = ''plan'' then
        (case task_lines env 1 task_list of
           Inl x \<Rightarrow> (Inl x, rt)
         | Inr tasks \<Rightarrow>
             (Inr (TaskTrackingObservation (''Task list has been updated with '' @
                show_int (int (length task_list)) @ '' items. Stored in session directory: '' @ task_file_path)
                cmd task_list),
              rt\<lparr>rt_files := fs_write task_file_path (''# Task List'' @ [newline, newline] @ tasks) (rt_files rt)\<rparr>))
      else if cmd = ''view'' then
        (case fs_read task_file_path (rt_files rt) of
           Inr content \<Rightarrow> (Inr (TaskTrackingObservation content cmd []), rt)
         | Inl (FileNotFoundError _) \<Rightarrow>
             (Inr (TaskTrackingObservation
                ''No task list found. Use the \"plan\" command to create one.'' cmd []), rt)
         | Inl x \<Rightarrow>
             (Inr (TaskTrackingObservation (''Failed to read the task list from session directory '' @
                task_file_path @ ''. Error: '' @ exc_text x) cmd []), rt))
      else (Inr (TaskTrackingObservation (''Unknown command: '' @ cmd) cmd []), rt))"

section \<open>Actions\<close>

definition run_method :: "'r runtime_ops \<Rightarrow> string \<Rightarrow> event \<Rightarrow> 'r runtime \<Rightarrow> (exc + observation) \<times> 'r runtime" where
  "run_method ops name e rt = (let (r, w) = rt_method ops name e (rt_world rt) in (r, rt\<lparr>rt_world := w\<rparr>))"

text \<open>\<open>run_action\<close>. Every action is in the registry of classes.\<close>

definition run_action ::
    "py_env \<Rightarrow> 'r runtime_ops \<Rightarrow> string option \<Rightarrow> event \<Rightarrow> 'r runtime \<Rightarrow> (exc + observation) \<times> 'r runtime" where
  "run_action env ops user_id e rt =
     (case ev_body e of
        Observation _ \<Rightarrow> (Inl (OtherException ''AttributeError'' ''runnable''), rt)
      | Action a \<Rightarrow>
          if \<not> runnable a then
            (case a of
               AgentThinkAction _ \<Rightarrow> (Inr (AgentThinkObservation ''Your thought has been logged.''), rt)
             | TaskTrackingAction cmd task_list _ \<Rightarrow> task_tracking env user_id cmd task_list rt
             | _ \<Rightarrow> (Inr (NullObservation []), rt))
          else if declared_confirmation (ev_body e) = Some AWAITING_CONFIRMATION
          then (Inr (NullObservation []), rt)
          else if map_of (ACTION_TYPE_TO_CLASS env) (action_type a) = None
          then (Inr (ErrorObservation (''Action '' @ action_type a @ '' does not exist.'') []), rt)
          else if \<not> rt_has_method ops (action_type a)
          then (Inr (ErrorObservation (''Action '' @ action_type a @
                 '' is not supported in the current runtime.'') []), rt)
          else if declared_confirmation (ev_body e) = Some CONFIRM_REJECTED
          then (Inr (UserRejectObservation
                 ''Action has been rejected by the user! Waiting for further user input.''), rt)
          else run_method ops (action_type a) e rt)"

text \<open>
  \<open>_handle_action\<close>: the exception that it raises, if one does. The observation is made by the source
  of the action and names it as its cause; null observations are not added to the stream.
\<close>

definition answer_to :: "event \<Rightarrow> observation \<Rightarrow> event" where
  "answer_to e obs = (new_event (Observation obs))
     \<lparr>ev_cause := Some (event_id e), ev_tool_call_metadata := ev_tool_call_metadata e\<rparr>"

definition add_answer ::
    "'a agent_env \<Rightarrow> string \<Rightarrow> event \<Rightarrow> observation \<Rightarrow> unit event_stream \<Rightarrow> unit event_stream \<times> exc option" where
  "add_answer env now e obs st =
     (case obs of
        NullObservation _ \<Rightarrow> (st, None)
      | _ \<Rightarrow> add_event (env_py env) now (answer_to e obs)
               (case ev_source e of Some s \<Rightarrow> s | None \<Rightarrow> AGENT) st)"

definition carry_out ::
    "py_env \<Rightarrow> 'r runtime_ops \<Rightarrow> string option \<Rightarrow> event \<Rightarrow> 'r runtime \<Rightarrow> (exc + observation) \<times> 'r runtime" where
  "carry_out env ops user_id e rt =
     (case ev_body e of
        Action (MCPAction _) \<Rightarrow> run_method ops ''call_tool_mcp'' e rt
      | _ \<Rightarrow> run_action env ops user_id e rt)"

definition runtime_handle_action ::
    "'a agent_env \<Rightarrow> 'r runtime_ops \<Rightarrow> string \<Rightarrow> event \<Rightarrow> 'r runtime \<Rightarrow> unit event_stream \<Rightarrow>
     'r runtime \<times> unit event_stream \<times> exc option" where
  "runtime_handle_action env ops now e rt st =
     (let e = (if ev_timeout e = None then set_hard_timeout (Some (rt_timeout ops)) False e else e);
          (failed, w) = rt_export_tokens ops e (rt_world rt);
          rt = rt\<lparr>rt_world := w\<rparr>;
          (r, rt) = (case failed of
              Some x \<Rightarrow> (Inl x, rt)
            | None \<Rightarrow> carry_out (env_py env) ops (es_user_id st) e rt)
      in case r of
           Inr obs \<Rightarrow> (let (st, x) = add_answer env now e obs st in (rt, st, x))
         | Inl x \<Rightarrow>
             if is_a env x [''PermissionError'']
             then (let (st, x) = add_answer env now e (ErrorObservation (exc_text x) []) st in (rt, st, x))
             else
               let status = (if is_a env x [''NetworkError'', ''AgentRuntimeDisconnectedError'']
                     then RS_ERROR_RUNTIME_DISCONNECTED else RS_ERROR)
               in (set_runtime_status status (exc_class x @ '': '' @ exc_text x) ''error'' rt, st, None))"

definition runtime_on_event ::
    "'a agent_env \<Rightarrow> 'r runtime_ops \<Rightarrow> string \<Rightarrow> event \<Rightarrow> 'r runtime \<Rightarrow> unit event_stream \<Rightarrow>
     'r runtime \<times> unit event_stream \<times> exc option" where
  "runtime_on_event env ops now e rt st =
     (if is_action e then runtime_handle_action env ops now e rt st else (rt, st, None))"

end
