(* ===== verification/Controller_Confirmation.thy ===== *)
theory Controller_Confirmation
  imports Controller_Limits Runtime_Dispatch
begin

text \<open>
  Confirmation of actions by the user, from the controller through the stream to the runtime: which
  actions wait, which do not, and what the user's answer changes. The runtime sees the event as it
  was serialised and read back.
\<close>

section \<open>Publishing on a stream with a log\<close>

definition stream_ok :: "'a agent_env \<Rightarrow> unit event_stream \<Rightarrow> dict list \<Rightarrow> bool" where
  "stream_ok env st lg \<longleftrightarrow> stream_inv (env_py env) st lg \<and> secrets st = []"

definition stamp :: "string \<Rightarrow> EventSource \<Rightarrow> nat \<Rightarrow> event \<Rightarrow> event" where
  "stamp now source i e = e\<lparr>ev_timestamp := Some now, ev_source := Some source, ev_id := Some (int i)\<rparr>"

definition publishable :: "'a agent_env \<Rightarrow> event \<Rightarrow> bool" where
  "publishable env e \<longleftrightarrow> event_id e = INVALID_ID \<and> event_ok e \<and> \<not> isl (event_message (env_py env) e)"

lemma publishable_to_dict:
  "publishable env e \<Longrightarrow> \<exists>d. event_to_dict (env_py env) (stamp now source i e) = Inr d \<and>
     event_from_dict (env_py env) d = Inr (serialised (stamp now source i e))"
proof -
  assume e: "publishable env e"
  then obtain msg where "event_message (env_py env) (stamp now source i e) = Inr msg"
    by (cases "event_message (env_py env) e") (auto simp: publishable_def event_message_def stamp_def)
  then obtain d where d: "event_to_dict (env_py env) (stamp now source i e) = Inr d"
    by (auto simp: event_to_dict_def)
  moreover have "event_ok (stamp now source i e)"
    using e by (simp add: publishable_def event_ok_def stamp_def)
  ultimately show ?thesis using event_to_dict_inverse by blast
qed

lemma publish_appends:
  assumes "stream_ok env (stream m) lg" and "publishable env e"
  shows "\<exists>st' d. publish env e source m = (Inr (), m\<lparr>stream := st', ticks := ticks m + 1\<rparr>) \<and>
    stream_ok env st' (lg @ [d]) \<and> subscribers st' = subscribers (stream m) \<and>
    queue st' = queue (stream m) @ [serialised (stamp (env_clock env (ticks m)) source (length lg) e)]"
proof -
  let ?now = "env_clock env (ticks m)"
  obtain d where d: "event_to_dict (env_py env) (stamp ?now source (length lg) e) = Inr d"
    "event_from_dict (env_py env) d = Inr (serialised (stamp ?now source (length lg) e))"
    using publishable_to_dict [OF assms(2)] by blast
  have "replace_secrets (map snd (secrets (stream m))) d = d"
    using assms(1) by (simp add: stream_ok_def replace_secrets_none)
  with add_event_appends [where env = "env_py env" and st = "stream m" and lg = lg and e = e and now = ?now
      and source = source and d = d] assms d
  obtain st' where "add_event (env_py env) ?now e source (stream m) = (st', None)"
    "stream_inv (env_py env) st' (lg @ [d])" "secrets st' = secrets (stream m)"
    "subscribers st' = subscribers (stream m)"
    "queue st' = queue (stream m) @ [serialised (stamp ?now source (length lg) e)]"
    by (auto simp: stream_ok_def publishable_def stamp_def)
  then show ?thesis
    using assms(1) by (auto simp: publish_def stream_ok_def)
qed

lemma publishable_state_changed: "publishable env (state_changed target reason)"
  by (simp add: publishable_def state_changed_def event_ok_def event_id_def new_event_def event_message_def)

text \<open>A change to a state that has no other effects than the notice.\<close>

lemma set_agent_state_plain:
  assumes "stream_ok env (stream m) lg" and "target \<noteq> get_agent_state m"
    and "target \<notin> agent_state_value ` {STOPPED, ERROR, USER_CONFIRMED, USER_REJECTED, RUNNING}"
  shows "\<exists>st' d fs. set_agent_state_to env target m =
      (Inr (), m\<lparr>self := (self m)\<lparr>c_state := (c_state (self m))\<lparr>agent_state := target\<rparr>\<rparr>, stream := st',
         ticks := ticks m + 1, session_files := fs\<rparr>) \<and>
    stream_ok env st' (lg @ [d]) \<and>
    queue st' = queue (stream m) @
      [serialised (stamp (env_clock env (ticks m)) ENVIRONMENT (length lg) (state_changed target []))]"
proof -
  let ?m = "m\<lparr>self := (self m)\<lparr>c_state := (c_state (self m))\<lparr>agent_state := target\<rparr>\<rparr>\<rparr>"
  have "stream_ok env (stream ?m) lg" using assms(1) by simp
  from publish_appends [OF this publishable_state_changed, of target "[]" ENVIRONMENT]
  obtain st' d where p: "publish env (state_changed target []) ENVIRONMENT ?m =
      (Inr (), ?m\<lparr>stream := st', ticks := ticks m + 1\<rparr>)"
    "stream_ok env st' (lg @ [d])" "queue st' = queue (stream m) @
      [serialised (stamp (env_clock env (ticks m)) ENVIRONMENT (length lg) (state_changed target []))]"
    by auto
  moreover obtain fs where "controller_save_state (?m\<lparr>stream := st', ticks := ticks m + 1\<rparr>) =
      (Inr (), ?m\<lparr>stream := st', ticks := ticks m + 1, session_files := fs\<rparr>)"
    by (simp add: controller_save_state_def)
  ultimately show ?thesis
    using assms(2,3)
    by (auto simp: set_agent_state_to_def Let_def update_state_def update_self_def thenP_def bindP_def
        get_agent_state_def)
qed

lemma publish_pending_appends:
  assumes "stream_ok env (stream m) lg" and "pending_action (self m) = Some a" and "publishable env (la_event a)"
  shows "\<exists>st' d. publish_pending env source m =
      (Inr (), m\<lparr>stream := st', ticks := ticks m + 1, self := (self m)\<lparr>pending_action :=
         Some (a\<lparr>la_event := stamp (env_clock env (ticks m)) source (length lg) (la_event a)\<rparr>)\<rparr>\<rparr>) \<and>
    stream_ok env st' (lg @ [d]) \<and>
    queue st' = queue (stream m) @ [serialised (stamp (env_clock env (ticks m)) source (length lg) (la_event a))]"
proof -
  have "cur_id (stream m) = Inr (int (length lg), (stream m)\<lparr>es_cur_id := Some (int (length lg))\<rparr>)"
    using assms(1) by (intro cur_id_log [of "env_py env"]) (simp add: stream_ok_def stream_inv_def)
  then have "stamped (env_clock env (ticks m)) source (stream m) (la_event a) =
      stamp (env_clock env (ticks m)) source (length lg) (la_event a)"
    using assms(3) by (simp add: stamped_def stamp_def publishable_def Let_def)
  moreover obtain st' d where "publish env (la_event a) source m = (Inr (), m\<lparr>stream := st', ticks := ticks m + 1\<rparr>)"
    "stream_ok env st' (lg @ [d])" "queue st' = queue (stream m) @
      [serialised (stamp (env_clock env (ticks m)) source (length lg) (la_event a))]"
    using publish_appends [OF assms(1,3), of source] by blast
  ultimately show ?thesis
    using assms(2) by (auto simp: publish_pending_def)
qed

section \<open>Review\<close>

definition with_confirmation :: "ActionConfirmationStatus \<Rightarrow> body \<Rightarrow> body" where
  "with_confirmation c b =
     (case b of
        Action (CmdRunAction r) \<Rightarrow> Action (CmdRunAction (r\<lparr>cr_confirmation_state := c\<rparr>))
      | Action (IPythonRunCellAction r) \<Rightarrow> Action (IPythonRunCellAction (r\<lparr>ip_confirmation_state := c\<rparr>))
      | _ \<Rightarrow> b)"

lemma set_confirmation_event:
  "la_event (set_confirmation_state c a) = (la_event a)\<lparr>ev_body := with_confirmation c (ev_body (la_event a))\<rparr>"
  by (auto simp: set_confirmation_state_def with_confirmation_def split: body.split action.split)

lemma confirmation_after_set: "confirmation_state (set_confirmation_state c a) = Some c"
  by (auto simp: set_confirmation_state_def confirmation_state_def split: body.split action.split option.split)

text \<open>The controller asks the user about the action.\<close>

definition must_ask :: "'a agent_env \<Rightarrow> 'a ctl \<Rightarrow> action \<Rightarrow> bool" where
  "must_ask env c act \<longleftrightarrow> st_confirmation_mode (c_state c) \<and> asks_confirmation act \<and>
     (ag_cli_mode env (agent c) \<or> security_analyzer env = None \<and> c_confirmation_mode c)"

lemma security_risk_set:
  "asks_confirmation act \<Longrightarrow> security_risk (with_security_risk s (Action act)) = Some s"
  by (cases act) simp_all

lemma asks_runnable: "asks_confirmation act \<Longrightarrow> runnable act"
  by (cases act) simp_all

lemma review_must_ask:
  assumes "ev_body e = Action act" and "must_ask env c act"
  shows "\<exists>risk. review_action env c (live e) = set_confirmation_state AWAITING_CONFIRMATION
    ((live e)\<lparr>la_event := e\<lparr>ev_body := with_security_risk risk (Action act)\<rparr>\<rparr>)"
  using assms security_risk_set [of act]
  by (auto simp: review_action_def must_ask_def handle_security_analyzer_def live_def Let_def)

lemma publishable_body:
  assumes "publishable env e" and "body_ok b = body_ok (ev_body e)"
    and "event_message (env_py env) (e\<lparr>ev_body := b\<rparr>) = event_message (env_py env) e"
  shows "publishable env (e\<lparr>ev_body := b\<rparr>)"
  using assms by (simp add: publishable_def event_ok_def event_id_def)

lemma reviewed_body:
  assumes "asks_confirmation act"
  shows "body_ok (with_confirmation c (with_security_risk s (Action act))) = body_ok (Action act) \<and>
    isl (event_message env (e\<lparr>ev_body := with_confirmation c (with_security_risk s (Action act))\<rparr>)) =
    isl (event_message env (e\<lparr>ev_body := Action act\<rparr>))"
  using assms by (cases act) (simp_all add: with_confirmation_def event_message_def)

lemma frontend_metrics_cost: "frontend_metrics m = Inr mt \<Longrightarrow> 0 \<le> accumulated_cost mt"
  by (auto simp: frontend_metrics_def set_accumulated_cost_def rbind_Inr_iff Let_def
      split: if_splits option.splits)

lemma frontend_metrics_cong:
  "m_heap m' = m_heap m \<Longrightarrow> m_stats m' = m_stats m \<Longrightarrow> m_limits m' = m_limits m \<Longrightarrow>
   frontend_metrics m' = frontend_metrics m"
  by (simp add: frontend_metrics_def)

text \<open>An action that the user is asked about is published, with the agent waiting.\<close>

definition reviewed :: "ActionSecurityRisk \<Rightarrow> metrics \<Rightarrow> event \<Rightarrow> event" where
  "reviewed risk mt e = e\<lparr>ev_body := with_confirmation AWAITING_CONFIRMATION (with_security_risk risk (ev_body e)),
     ev_llm_metrics := Some mt\<rparr>"

lemma publishable_reviewed:
  assumes "publishable env e" and "ev_body e = Action act" and "asks_confirmation act"
    and "0 \<le> accumulated_cost mt"
  shows "publishable env (reviewed risk mt e)"
proof -
  have "isl (event_message (env_py env) (reviewed risk mt e)) = isl (event_message (env_py env) e)"
    using reviewed_body [OF assms(3), of AWAITING_CONFIRMATION risk "env_py env" e] assms(2)
    by (simp add: reviewed_def event_message_def)
  then show ?thesis
    using reviewed_body [OF assms(3), of AWAITING_CONFIRMATION risk "env_py env" e] assms
    by (simp add: publishable_def reviewed_def event_ok_def event_id_def)
qed

lemma emit_asks:
  assumes "stream_ok env (stream m) lg" and "publishable env e" and "ev_body e = Action act"
    and "ev_source e = Some source" and "must_ask env (self m) act"
    and "get_agent_state m \<noteq> agent_state_value AWAITING_USER_CONFIRMATION"
    and "frontend_metrics m = Inr mt"
  shows "\<exists>m' notice risk. emit_action env e m = (Inr (), m') \<and>
    get_agent_state m' = agent_state_value AWAITING_USER_CONFIRMATION \<and>
    (\<exists>d d'. stream_ok env (stream m') (lg @ [d, d'])) \<and>
    queue (stream m') = queue (stream m) @
      [notice, serialised (stamp (env_clock env (ticks m + 1)) source (length lg + 1) (reviewed risk mt e))]"
proof -
  let ?target = "agent_state_value AWAITING_USER_CONFIRMATION"
  have asks: "asks_confirmation act" using assms(5) by (simp add: must_ask_def)
  obtain risk where risk: "review_action env (self m) (live e) = set_confirmation_state AWAITING_CONFIRMATION
      ((live e)\<lparr>la_event := e\<lparr>ev_body := with_security_risk risk (Action act)\<rparr>\<rparr>)"
    using review_must_ask [OF assms(3,5)] by blast
  define a where "a = review_action env (self m) (live e)"
  define m1 where "m1 = m\<lparr>self := (self m)\<lparr>pending_action := Some a\<rparr>\<rparr>"
  have a: "confirmation_state a = Some AWAITING_CONFIRMATION"
    "(la_event a)\<lparr>ev_llm_metrics := Some mt\<rparr> = reviewed risk mt e" "ev_source (la_event a) = Some source"
    using assms(3,4) by (simp_all add: a_def risk confirmation_after_set set_confirmation_event reviewed_def)
  have m1: "stream_ok env (stream m1) lg" "?target \<noteq> get_agent_state m1" "queue (stream m1) = queue (stream m)"
    using assms(1,6) by (simp_all add: m1_def get_agent_state_def)
  obtain st1 d fs where set1: "set_agent_state_to env ?target m1 =
      (Inr (), m1\<lparr>self := (self m1)\<lparr>c_state := (c_state (self m1))\<lparr>agent_state := ?target\<rparr>\<rparr>,
         stream := st1, ticks := ticks m1 + 1, session_files := fs\<rparr>)"
    "stream_ok env st1 (lg @ [d])" "\<exists>notice. queue st1 = queue (stream m) @ [notice]"
    using set_agent_state_plain [OF m1(1,2)] m1(3) by auto
  define m2 where "m2 = m1\<lparr>self := (self m1)\<lparr>c_state := (c_state (self m1))\<lparr>agent_state := ?target\<rparr>\<rparr>,
     stream := st1, ticks := ticks m1 + 1, session_files := fs\<rparr>"
  define a' where "a' = a\<lparr>la_event := reviewed risk mt e\<rparr>"
  define m3 where "m3 = m2\<lparr>self := (self m2)\<lparr>pending_action := Some a'\<rparr>\<rparr>"
  have metrics: "frontend_metrics m2 = Inr mt"
    using assms(7) frontend_metrics_cong [of m2 m] by (simp add: m2_def m1_def)
  have "publishable env (la_event a')"
    using publishable_reviewed [OF assms(2,3) asks frontend_metrics_cost [OF assms(7)]] by (simp add: a'_def)
  moreover have "stream_ok env (stream m3) (lg @ [d])" "ticks m3 = ticks m + 1" "queue (stream m3) = queue st1"
    using set1(2) by (simp_all add: m3_def m2_def m1_def)
  moreover have "pending_action (self m3) = Some a'" by (simp add: m3_def)
  ultimately obtain st' d' where p: "publish_pending env source m3 =
      (Inr (), m3\<lparr>stream := st', ticks := ticks m3 + 1, self := (self m3)\<lparr>pending_action :=
        Some (a'\<lparr>la_event := stamp (env_clock env (ticks m + 1)) source (length lg + 1) (la_event a')\<rparr>)\<rparr>\<rparr>)"
    "stream_ok env st' (lg @ [d, d'])" "queue st' = queue st1 @
      [serialised (stamp (env_clock env (ticks m + 1)) source (length lg + 1) (reviewed risk mt e))]"
    using publish_pending_appends [of env m3 "lg @ [d]" a' source] by (auto simp: a'_def)
  let ?m' = "m3\<lparr>stream := st', ticks := ticks m3 + 1, self := (self m3)\<lparr>pending_action :=
    Some (a'\<lparr>la_event := stamp (env_clock env (ticks m + 1)) source (length lg + 1) (la_event a')\<rparr>)\<rparr>\<rparr>"
  have "act \<noteq> NullAction" using asks by auto
  moreover have "set_agent_state_to env ?target m1 = (Inr (), m2)" using set1(1) by (simp only: m2_def)
  ultimately have "emit_action env e m = publish_pending env source m3"
    using metrics a assms(3) asks_runnable [OF asks]
    by (auto simp: emit_action_def Let_def update_self_def thenP_def bindP_def lift_exc_def
        a_def [symmetric] m1_def [symmetric] m3_def a'_def split: prod.splits sum.splits)
  then have "emit_action env e m = (Inr (), ?m')" using p(1) by simp
  moreover have "get_agent_state ?m' = ?target" by (simp add: m3_def m2_def get_agent_state_def)
  ultimately show ?thesis using p(2,3) set1(3) by (auto simp del: One_nat_def)
qed

section \<open>The runtime\<close>

text \<open>The event as the runtime carries it out: with a timeout.\<close>

definition timed :: "'r runtime_ops \<Rightarrow> event \<Rightarrow> event" where
  "timed ops e = (if ev_timeout e = None then set_hard_timeout (Some (rt_timeout ops)) False e else e)"

definition no_tokens :: "'r runtime_ops \<Rightarrow> bool" where
  "no_tokens ops \<longleftrightarrow> (\<forall>e w. rt_export_tokens ops e w = (None, w))"

lemma set_hard_timeout_body:
  "\<exists>r. (\<exists>r'. ev_body e = Action (CmdRunAction r') \<and> ev_body (set_hard_timeout v b e) = Action (CmdRunAction r) \<and>
     cr_confirmation_state r = cr_confirmation_state r') \<or> ev_body (set_hard_timeout v b e) = ev_body e"
  by (cases "ev_body e") (auto simp: set_hard_timeout_def Let_def split: action.split)

lemma timed_body:
  assumes "ev_body e = Action act"
  shows "\<exists>act'. ev_body (timed ops e) = Action act' \<and> action_type act' = action_type act \<and>
    runnable act' = runnable act \<and> declared_confirmation (Action act') = declared_confirmation (Action act)"
  using assms set_hard_timeout_body [of e "Some (rt_timeout ops)" False] by (auto simp: timed_def)

lemma in_registry: "map_of (ACTION_TYPE_TO_CLASS env) (action_type a) \<noteq> None"
  by (cases a) (simp_all add: ACTION_TYPE_TO_CLASS_def)

text \<open>What becomes of the world of the runtime; a null observation is not even added to the stream.\<close>

lemma runtime_event:
  assumes "is_action e" and "no_tokens ops"
    and "carry_out (env_py env) ops (es_user_id st) (timed ops e) rt = (r, rt')"
  shows "rt_world (fst (runtime_on_event env ops now e rt st)) = rt_world rt' \<and>
    (\<forall>t. r = Inr (NullObservation t) \<longrightarrow> runtime_on_event env ops now e rt st = (rt', st, None))"
  using assms
  by (auto simp: runtime_on_event_def runtime_handle_action_def timed_def [symmetric] no_tokens_def
      add_answer_def set_runtime_status_def Let_def split: sum.split prod.split)

lemma carry_out_declared:
  assumes "ev_body e = Action act" and "declared_confirmation (Action act) = Some c"
  shows "carry_out env ops u e rt = run_action env ops u e rt" and "runnable act"
  using assms by (cases act; simp add: carry_out_def)+

lemma runtime_waits:
  assumes "ev_body e = Action act" and "no_tokens ops"
    and "declared_confirmation (Action act) = Some AWAITING_CONFIRMATION"
  shows "runtime_on_event env ops now e rt st = (rt, st, None)"
proof -
  obtain act' where act': "ev_body (timed ops e) = Action act'"
    "declared_confirmation (Action act') = Some AWAITING_CONFIRMATION"
    using timed_body [OF assms(1), of ops] assms(3) by auto
  then have "carry_out (env_py env) ops (es_user_id st) (timed ops e) rt = (Inr (NullObservation []), rt)"
    using act' carry_out_declared [OF act'] by (simp add: run_action_def)
  moreover have "is_action e" using assms(1) by (simp add: is_action.simps)
  ultimately show ?thesis using runtime_event assms(2) by blast
qed

lemma runtime_runs:
  assumes "ev_body e = Action act" and "no_tokens ops" and "runnable act" and "rt_has_method ops (action_type act)"
    and "declared_confirmation (Action act) \<notin> {Some AWAITING_CONFIRMATION, Some CONFIRM_REJECTED}"
  shows "rt_world (fst (runtime_on_event env ops now e rt st)) =
    snd (rt_method ops (action_type act) (timed ops e) (rt_world rt))"
proof -
  obtain act' where act': "ev_body (timed ops e) = Action act'" "runnable act'" "action_type act' = action_type act"
    "declared_confirmation (Action act') = declared_confirmation (Action act)"
    using timed_body [OF assms(1), of ops] assms(3) by auto
  obtain r w where r: "rt_method ops (action_type act) (timed ops e) (rt_world rt) = (r, w)" by fastforce
  have "carry_out (env_py env) ops (es_user_id st) (timed ops e) rt = (r, rt\<lparr>rt_world := w\<rparr>)"
    using act' assms(4,5) r in_registry [of "env_py env" act']
    by (auto simp: carry_out_def run_action_def run_method_def split: action.split)
  moreover have "is_action e" using assms(1) by (simp add: is_action.simps)
  ultimately show ?thesis using runtime_event [of e ops env st rt r "rt\<lparr>rt_world := w\<rparr>" now] assms(2) r by simp
qed

lemma runtime_rejects:
  assumes "ev_body e = Action act" and "no_tokens ops"
    and "declared_confirmation (Action act) = Some CONFIRM_REJECTED"
  shows "rt_world (fst (runtime_on_event env ops now e rt st)) = rt_world rt"
proof -
  obtain act' where act': "ev_body (timed ops e) = Action act'"
    "declared_confirmation (Action act') = Some CONFIRM_REJECTED"
    using timed_body [OF assms(1), of ops] assms(3) by auto
  then have "\<exists>obs. run_action (env_py env) ops (es_user_id st) (timed ops e) rt = (Inr obs, rt)"
    using carry_out_declared(2) [OF act'] in_registry [of "env_py env" act'] by (auto simp: run_action_def)
  then have "\<exists>obs. carry_out (env_py env) ops (es_user_id st) (timed ops e) rt = (Inr obs, rt)"
    by (simp only: carry_out_declared(1) [OF act'])
  moreover have "is_action e" using assms(1) by (simp add: is_action.simps)
  ultimately show ?thesis using runtime_event assms(2) by blast
qed

section \<open>What waits and what does not\<close>

lemma declared_reviewed:
  "asks_confirmation act \<Longrightarrow> ev_body e = Action act \<Longrightarrow>
   \<exists>act'. ev_body (serialised (stamp now source i (reviewed risk mt e))) = Action act' \<and>
     action_type act' = action_type act \<and> runnable act' \<and>
     declared_confirmation (Action act') =
       (if declared_confirmation (Action act) = None then None else Some AWAITING_CONFIRMATION)"
  by (cases act) (simp_all add: serialised_def stamp_def reviewed_def with_confirmation_def)


text \<open>
  Editing or reading a file and driving the browser do not wait, although the user is asked: these
  actions have no field for the confirmation, the mark is lost when the event is serialised, and the
  runtime carries the action out at once.
\<close>

theorem file_action_runs_unconfirmed:
  assumes "stream_ok env (stream m) lg" and "publishable env e" and "ev_body e = Action act"
    and "ev_source e = Some source" and "must_ask env (self m) act"
    and "get_agent_state m \<noteq> agent_state_value AWAITING_USER_CONFIRMATION"
    and "frontend_metrics m = Inr mt" and "no_tokens ops" and "declared_confirmation (Action act) = None"
    and "rt_has_method ops (action_type act)"
  shows "\<exists>m' notice e'. emit_action env e m = (Inr (), m') \<and>
    get_agent_state m' = agent_state_value AWAITING_USER_CONFIRMATION \<and>
    queue (stream m') = queue (stream m) @ [notice, e'] \<and>
    rt_world (fst (runtime_on_event env ops now e' rt st)) =
      snd (rt_method ops (action_type act) (timed ops e') (rt_world rt))"
proof -
  have asks: "asks_confirmation act" using assms(5) by (simp add: must_ask_def)
  obtain m' notice risk where m': "emit_action env e m = (Inr (), m')"
    "get_agent_state m' = agent_state_value AWAITING_USER_CONFIRMATION"
    "queue (stream m') = queue (stream m) @
      [notice, serialised (stamp (env_clock env (ticks m + 1)) source (length lg + 1) (reviewed risk mt e))]"
    using emit_asks [OF assms(1-7)] by blast
  let ?e = "serialised (stamp (env_clock env (ticks m + 1)) source (length lg + 1) (reviewed risk mt e))"
  obtain act' where "ev_body ?e = Action act'" "action_type act' = action_type act" "runnable act'"
    "declared_confirmation (Action act') = None"
    using declared_reviewed [OF asks assms(3), of "env_clock env (ticks m + 1)" source "length lg + 1" risk mt]
      assms(9) by auto
  with runtime_runs [of ?e act' ops env now rt st] assms(8,10) m' show ?thesis by auto
qed

section \<open>The answer of the user\<close>

definition answered :: "ActionConfirmationStatus \<Rightarrow> event \<Rightarrow> event" where
  "answered c e = e\<lparr>ev_body := with_confirmation c (without_thought (ev_body e)), ev_id := None\<rparr>"

lemma answered_action:
  "asks_confirmation act \<Longrightarrow> ev_body e = Action act \<Longrightarrow>
   \<exists>act'. ev_body (serialised (stamp now source i (answered c e))) = Action act' \<and>
     action_type act' = action_type act \<and> runnable act' \<and>
     declared_confirmation (Action act') = (if declared_confirmation (Action act) = None then None else Some c)"
  by (cases act) (simp_all add: serialised_def stamp_def answered_def with_confirmation_def)

lemma publishable_answered:
  assumes "event_ok e" and "ev_body e = Action act" and "asks_confirmation act"
  shows "publishable env (answered c e)"
  using assms by (cases act) (simp_all add: publishable_def answered_def event_ok_def event_id_def
      event_message_def with_confirmation_def)

lemma confirm_pending_publishes:
  assumes "stream_ok env (stream m) lg" and "pending_action (self m) = Some a" and "event_ok (la_event a)"
    and "ev_body (la_event a) = Action act" and "asks_confirmation act"
  shows "\<exists>m' d. confirm_pending env c m = (Inr (), m') \<and> stream_ok env (stream m') (lg @ [d]) \<and>
    c_state (self m') = c_state (self m) \<and>
    queue (stream m') = queue (stream m) @
      [serialised (stamp (env_clock env (ticks m)) AGENT (length lg) (answered c (la_event a)))]"
proof -
  define a' where "a' = (let a = a\<lparr>la_event := (la_event a)\<lparr>ev_body := without_thought (ev_body (la_event a))\<rparr>\<rparr>;
     a = set_confirmation_state c a in a\<lparr>la_event := (la_event a)\<lparr>ev_id := None\<rparr>\<rparr>)"
  define m1 where "m1 = m\<lparr>self := (self m)\<lparr>pending_action := Some a'\<rparr>\<rparr>"
  have a': "la_event a' = answered c (la_event a)"
    by (simp add: a'_def Let_def set_confirmation_event answered_def)
  have "stream_ok env (stream m1) lg" "pending_action (self m1) = Some a'"
    using assms(1) by (simp_all add: m1_def)
  moreover have "publishable env (la_event a')"
    unfolding a' using publishable_answered [OF assms(3,4,5)] .
  ultimately obtain st' d where p: "publish_pending env AGENT m1 =
      (Inr (), m1\<lparr>stream := st', ticks := ticks m1 + 1, self := (self m1)\<lparr>pending_action :=
        Some (a'\<lparr>la_event := stamp (env_clock env (ticks m1)) AGENT (length lg) (la_event a')\<rparr>)\<rparr>\<rparr>)"
    "stream_ok env st' (lg @ [d])" "queue st' = queue (stream m1) @
      [serialised (stamp (env_clock env (ticks m1)) AGENT (length lg) (la_event a'))]"
    using publish_pending_appends [of env m1 lg a' AGENT] by blast
  have "confirm_pending env c m = publish_pending env AGENT m1"
    using assms(2) by (simp add: confirm_pending_def thenP_def bindP_def update_self_def m1_def a'_def)
  with p show ?thesis by (simp add: m1_def a') blast
qed

text \<open>
  C14. The answer of the user decides about commands only: after a rejection the runtime does not carry
  out a shell command or a code cell, after a confirmation it does; but the editing or reading of a
  file and the action of the browser are carried out (once more) in both cases.
\<close>

theorem user_answer_decides:
  assumes "stream_ok env (stream m) lg" and "pending_action (self m) = Some a" and "event_ok (la_event a)"
    and "ev_body (la_event a) = Action act" and "asks_confirmation act"
    and "target \<in> {agent_state_value USER_CONFIRMED, agent_state_value USER_REJECTED}"
    and "get_agent_state m \<noteq> target" and "no_tokens ops" and "rt_has_method ops (action_type act)"
  shows "\<exists>m' e' notice. set_agent_state_to env target m = (Inr (), m') \<and> get_agent_state m' = target \<and>
    queue (stream m') = queue (stream m) @ [e', notice] \<and>
    rt_world (fst (runtime_on_event env ops now e' rt st)) =
      (if target = agent_state_value USER_REJECTED \<and> declared_confirmation (Action act) \<noteq> None then rt_world rt
       else snd (rt_method ops (action_type act) (timed ops e') (rt_world rt)))"
proof -
  define c where "c = (if target = agent_state_value USER_CONFIRMED then CONFIRMED else CONFIRM_REJECTED)"
  define m1 where "m1 = m\<lparr>self := (self m)\<lparr>c_state := (c_state (self m))\<lparr>agent_state := target\<rparr>\<rparr>\<rparr>"
  let ?e = "serialised (stamp (env_clock env (ticks m)) AGENT (length lg) (answered c (la_event a)))"
  have pending: "pending_action (self m1) = Some a" using assms(2) by (simp add: m1_def)
  have "stream_ok env (stream m1) lg" "ticks m1 = ticks m" "queue (stream m1) = queue (stream m)"
    using assms(1) by (simp_all add: m1_def)
  with pending confirm_pending_publishes [OF _ _ assms(3,4,5), of env m1 lg c]
  obtain m2 d where m2: "confirm_pending env c m1 = (Inr (), m2)" "stream_ok env (stream m2) (lg @ [d])"
    "c_state (self m2) = c_state (self m1)" "queue (stream m2) = queue (stream m) @ [?e]" by auto
  obtain st' d' where p: "publish env (state_changed target []) ENVIRONMENT m2 =
      (Inr (), m2\<lparr>stream := st', ticks := ticks m2 + 1\<rparr>)" "\<exists>notice. queue st' = queue (stream m2) @ [notice]"
    using publish_appends [OF m2(2) publishable_state_changed] by blast
  obtain fs where save: "controller_save_state (m2\<lparr>stream := st', ticks := ticks m2 + 1\<rparr>) =
      (Inr (), m2\<lparr>stream := st', ticks := ticks m2 + 1, session_files := fs\<rparr>)"
    by (simp add: controller_save_state_def)
  have state: "get_agent_state m2 = target" by (simp add: get_agent_state_def m2(3) m1_def)
  have "set_agent_state_to env target m = (Inr (), m2\<lparr>stream := st', ticks := ticks m2 + 1, session_files := fs\<rparr>)"
    using pending assms(6,7) m2(1) p(1) save state
    by (auto simp: set_agent_state_to_def Let_def update_state_def update_self_def thenP_def bindP_def
        m1_def [symmetric] c_def)
  moreover have "rt_world (fst (runtime_on_event env ops now ?e rt st)) =
      (if target = agent_state_value USER_REJECTED \<and> declared_confirmation (Action act) \<noteq> None then rt_world rt
       else snd (rt_method ops (action_type act) (timed ops ?e) (rt_world rt)))"
  proof -
    obtain act' where act': "ev_body ?e = Action act'" "action_type act' = action_type act" "runnable act'"
      "declared_confirmation (Action act') = (if declared_confirmation (Action act) = None then None else Some c)"
      using answered_action [OF assms(5,4)] by blast
    show ?thesis
      using runtime_runs [OF act'(1) assms(8) act'(3), of env now rt st]
        runtime_rejects [OF act'(1) assms(8), of env now rt st] act' assms(6,9)
      by (auto simp: c_def)
  qed
  ultimately show ?thesis using state m2(4) p(2) by (auto simp: get_agent_state_def)
qed

section \<open>A concrete session\<close>

definition reads_file :: event where
  "reads_file = (new_event (Action (FileReadAction \<lparr>fr_path = ''f'', fr_start = 0, fr_end = -1, fr_thought = [],
     fr_security_risk = RISK_UNKNOWN, fr_impl_source = READ_DEFAULT, fr_view_range = None\<rparr>)))\<lparr>ev_source := Some AGENT\<rparr>"

definition asking :: "unit machine" where
  "asking = demo_machine\<lparr>self := (self demo_machine)\<lparr>c_confirmation_mode := True,
     c_state := (c_state (self demo_machine))\<lparr>st_confirmation_mode := True\<rparr>\<rparr>,
     stream := stream_of ''s'' None []\<rparr>"

text \<open>A runtime whose world is the list of the methods that were called.\<close>

definition demo_ops :: "string list runtime_ops" where
  "demo_ops = \<lparr>rt_has_method = (\<lambda>_. True),
     rt_method = (\<lambda>name e w. (Inr (SuccessObservation []), w @ [name])),
     rt_export_tokens = (\<lambda>_ w. (None, w)), rt_timeout = 120\<rparr>"

definition demo_runtime :: "string list runtime" where
  "demo_runtime = \<lparr>rt_sid = ''s'', rt_world = [], rt_files = [], rt_status = None, rt_has_callback = False,
     rt_calls = []\<rparr>"

definition listing :: event where
  "listing = run_ls\<lparr>ev_source := Some AGENT\<rparr>"

lemma asking_stream: "stream_ok demo_agent (stream asking) []"
  using stream_of_inv [of demo_env "[]" "''s''" None]
  by (simp add: stream_ok_def asking_def demo_agent_def log_ok_def)

lemma asking_publishable: "publishable demo_agent listing" "publishable demo_agent reads_file"
  by (simp_all add: publishable_def listing_def run_ls_def reads_file_def new_event_def event_id_def
      event_ok_def event_message_def)

lemma asking_must_ask:
  "asks_confirmation act \<Longrightarrow> must_ask demo_agent (self asking) act"
  by (simp add: must_ask_def asking_def demo_machine_def demo_agent_def new_ctl_def new_state_def)

lemma asking_state: "get_agent_state asking = agent_state_value RUNNING"
  by (simp add: get_agent_state_def asking_def demo_machine_def new_ctl_def)

lemma asking_metrics: "frontend_metrics asking = Inr (new_metrics ''default'')"
  by (simp add: frontend_metrics_def asking_def demo_machine_def get_combined_metrics_def set_accumulated_cost_def
      new_metrics_def new_limits_def)

lemma demo_ops_tokens: "no_tokens demo_ops"
  by (simp add: no_tokens_def demo_ops_def)

lemma demo_ops_method [simp]:
  "rt_method demo_ops name e w = (Inr (SuccessObservation []), w @ [name])" "rt_has_method demo_ops name"
  "rt_world demo_runtime = []" "queue (stream asking) = []"
  by (simp_all add: demo_ops_def demo_runtime_def asking_def)


theorem file_action_runs_unconfirmed_witness:
  "\<exists>m' notice e'. emit_action demo_agent reads_file asking = (Inr (), m') \<and>
    get_agent_state m' = agent_state_value AWAITING_USER_CONFIRMATION \<and>
    queue (stream m') = [notice, e'] \<and>
    rt_world (fst (runtime_on_event demo_agent demo_ops ''now'' e' demo_runtime (stream asking))) = [''read'']"
proof -
  obtain r where r: "ev_body reads_file = Action (FileReadAction r)"
    by (simp add: reads_file_def new_event_def)
  have "ev_source reads_file = Some AGENT" by (simp add: reads_file_def)
  from file_action_runs_unconfirmed [OF asking_stream asking_publishable(2) r this asking_must_ask _ asking_metrics
      demo_ops_tokens, of "''now''" demo_runtime "stream asking"]
  show ?thesis using asking_state by simp
qed

definition answering :: "unit machine" where
  "answering = asking\<lparr>self := (self asking)\<lparr>pending_action := Some (live reads_file)\<rparr>\<rparr>"

theorem user_answer_decides_witness:
  "\<exists>m' e' notice. set_agent_state_to demo_agent (agent_state_value USER_REJECTED) answering = (Inr (), m') \<and>
    get_agent_state m' = agent_state_value USER_REJECTED \<and> queue (stream m') = [e', notice] \<and>
    rt_world (fst (runtime_on_event demo_agent demo_ops ''now'' e' demo_runtime (stream asking))) = [''read'']"
proof -
  obtain r where r: "ev_body (la_event (live reads_file)) = Action (FileReadAction r)"
    by (simp add: live_def reads_file_def new_event_def)
  have "event_ok (la_event (live reads_file))"
    by (simp add: live_def reads_file_def new_event_def event_ok_def)
  moreover have "stream_ok demo_agent (stream answering) []" "queue (stream answering) = []"
    "pending_action (self answering) = Some (live reads_file)" "get_agent_state answering = agent_state_value RUNNING"
    using asking_stream asking_state by (simp_all add: answering_def get_agent_state_def)
  ultimately show ?thesis
    using user_answer_decides [OF _ _ _ r _ _ _ demo_ops_tokens, of demo_agent answering "[]"
        "agent_state_value USER_REJECTED" "''now''" demo_runtime "stream asking"] by simp
qed

end
