(* ===== verification/Controller_Properties.thy ===== *)
theory Controller_Properties
  imports Controller_Confirmation Stuck State_Tracker_Correct
begin

text \<open>
  What the methods of the controller do in the situations a user meets: stopping an agent, resuming one
  that reached a limit, an agent that fails, and delegates that fail or that run actions of their own.
\<close>

section \<open>Resuming after a limit\<close>

lemma publish_same [simp]:
  "m_limits (snd (publish env e s m)) = m_limits m" "self (snd (publish env e s m)) = self m"
  "delegates (snd (publish env e s m)) = delegates m"
  by (simp_all add: publish_def split: prod.split option.split)

lemma publish_limits: "publish env e s m = (r, m') \<Longrightarrow> m_limits m' = m_limits m"
  using publish_same(1) [of env e s m] by simp

lemma save_limits: "controller_save_state m = (r, m') \<Longrightarrow> m_limits m' = m_limits m"
  by (auto simp: controller_save_state_def)

text \<open>A state that was left with an error is the only one from which resuming raises the limits.\<close>

lemma running_after_error:
  assumes "get_agent_state m = agent_state_value ERROR"
  shows "m_limits (snd (set_agent_state_to env (agent_state_value RUNNING) m)) =
    maybe_increase_control_flags_limits (headless_mode (self m)) (m_limits m)"
  using assms
  by (auto simp: set_agent_state_to_def Let_def update_state_def update_self_def thenP_def bindP_def
      whenP_def dest!: publish_limits save_limits split: prod.split sum.split)

lemma run_control_flags_cases:
  "run_control_flags money l =
     (if over_limit (iteration_flag l)
      then (l\<lparr>iteration_flag := fst (iteration_step (iteration_flag l))\<rparr>, snd (iteration_step (iteration_flag l)))
      else (let l = l\<lparr>iteration_flag := fst (iteration_step (iteration_flag l))\<rparr> in
        case budget_flag l of None \<Rightarrow> (l, None)
        | Some b \<Rightarrow> (l\<lparr>budget_flag := Some (fst (budget_step money b))\<rparr>, snd (budget_step money b))))"
  using iteration.step_raises [of "iteration_flag l"]
  by (auto simp: run_control_flags_def Let_def split: prod.split option.split)

lemma run_refused_iff:
  "snd (run_control_flags money l) \<noteq> None \<longleftrightarrow> over_limit (iteration_flag l) \<or>
     (\<exists>b. budget_flag l = Some b \<and> over_limit b)"
  using iteration.step_raises [of "iteration_flag l"] budget.step_raises [of money]
  by (auto simp: run_control_flags_cases Let_def split: option.split)

lemma budget_over_after_increase:
  "budget_ok b \<Longrightarrow> over_limit (budget_increase_limit h b) \<longleftrightarrow> over_limit b \<and> \<not> hit_limit b"
  by (auto simp: budget_increase_limit_def over_limit_def budget_ok_def)

text \<open>
  When the user resumes an agent that was stopped by a limit (not in headless mode), its next step
  is allowed, with two exceptions: the iterations had run out and the budget too, which was not
  noticed; or the budget had run out and this was the last iteration.
\<close>

theorem resume_after_limit:
  assumes "run_control_flags (env_money env) l = (m_limits m, Some x)"
    and "get_agent_state m = agent_state_value ERROR" and "\<not> headless_mode (self m)"
    and "iteration_ok (iteration_flag l)" and "\<forall>b. budget_flag l = Some b \<longrightarrow> budget_ok b"
  shows "snd (run_control_flags (env_money env) (m_limits (snd (set_agent_state_to env
      (agent_state_value RUNNING) m)))) = None \<longleftrightarrow>
    (if over_limit (iteration_flag l) then \<forall>b. budget_flag l = Some b \<longrightarrow> over_limit b \<longrightarrow> hit_limit b
     else current_value (iteration_flag l) + 1 < max_value (iteration_flag l))"
proof -
  let ?l = "maybe_increase_control_flags_limits False (m_limits m)"
  have l: "m_limits (snd (set_agent_state_to env (agent_state_value RUNNING) m)) = ?l"
    using running_after_error [OF assms(2)] assms(3) by simp
  show ?thesis
  proof (cases "over_limit (iteration_flag l)")
    case True
    then have m: "m_limits m = l\<lparr>iteration_flag := fst (iteration_step (iteration_flag l))\<rparr>"
      using assms(1) by (simp add: run_control_flags_cases)
    then have "\<not> over_limit (iteration_flag ?l)"
      using iteration.increase_frees [OF assms(4) True] by (simp add: maybe_increase_control_flags_limits_def)
    moreover have "(\<exists>b. budget_flag ?l = Some b \<and> over_limit b) \<longleftrightarrow>
        (\<exists>b. budget_flag l = Some b \<and> over_limit b \<and> \<not> hit_limit b)"
      using assms(5) budget_over_after_increase
      by (cases "budget_flag l") (simp_all add: m maybe_increase_control_flags_limits_def)
    ultimately have "snd (run_control_flags (env_money env) ?l) \<noteq> None \<longleftrightarrow>
        (\<exists>b. budget_flag l = Some b \<and> over_limit b \<and> \<not> hit_limit b)"
      by (simp only: run_refused_iff simp_thms)
    then show ?thesis unfolding l using True by auto
  next
    case False
    then obtain b where b: "budget_flag l = Some b" "over_limit b"
      "m_limits m = l\<lparr>iteration_flag := fst (iteration_step (iteration_flag l)),
         budget_flag := Some (fst (budget_step (env_money env) b))\<rparr>"
      using assms(1) budget_step_under [of _ "env_money env"]
      by (fastforce simp: run_control_flags_cases Let_def split: option.splits)
    then have "\<not> (\<exists>b. budget_flag ?l = Some b \<and> over_limit b)"
      using budget.increase_frees [of b "env_money env"] assms(5)
      by (simp add: maybe_increase_control_flags_limits_def)
    moreover have "over_limit (iteration_flag ?l) \<longleftrightarrow>
        max_value (iteration_flag l) \<le> current_value (iteration_flag l) + 1"
      using iteration_step_under [OF False] b(3)
      by (simp add: maybe_increase_control_flags_limits_def iteration_increase_limit_def over_limit_def)
    ultimately have "snd (run_control_flags (env_money env) ?l) \<noteq> None \<longleftrightarrow>
        max_value (iteration_flag l) \<le> current_value (iteration_flag l) + 1"
      by (simp only: run_refused_iff simp_thms)
    then show ?thesis unfolding l using False by auto
  qed
qed

text \<open>In headless mode nobody can raise the limit on the iterations.\<close>

lemma headless_resume_refused:
  assumes "get_agent_state m = agent_state_value ERROR" and "headless_mode (self m)"
    and "over_limit (iteration_flag (m_limits m))"
  shows "snd (run_control_flags money (m_limits (snd (set_agent_state_to env (agent_state_value RUNNING) m)))) \<noteq> None"
  unfolding run_refused_iff running_after_error [OF assms(1)]
  using assms(2,3) headless_increase(1) [of "iteration_flag (m_limits m)"]
  by (simp add: maybe_increase_control_flags_limits_def)

definition out_of_iterations :: "unit machine" where
  "out_of_iterations = demo_machine\<lparr>self := (self demo_machine)\<lparr>headless_mode := False,
     c_state := (c_state (self demo_machine))\<lparr>agent_state := agent_state_value ERROR\<rparr>\<rparr>,
     m_limits := (m_limits demo_machine)\<lparr>iteration_flag := (new_flag 5 5 5)\<lparr>hit_limit := True\<rparr>\<rparr>\<rparr>"

theorem resume_after_limit_witness:
  "snd (run_control_flags (env_money demo_agent) (m_limits (snd (set_agent_state_to demo_agent
     (agent_state_value RUNNING) out_of_iterations)))) = None"
proof -
  let ?l = "new_limits\<lparr>iteration_flag := new_flag 5 5 5\<rparr>"
  have l: "iteration_ok (iteration_flag ?l)" "budget_flag ?l = None" "over_limit (iteration_flag ?l)"
    by (simp_all add: iteration_ok_def new_flag_def new_limits_def over_limit_def)
  then obtain x where "run_control_flags (env_money demo_agent) ?l = (m_limits out_of_iterations, Some x)"
    using iteration_step_over [OF l(3)]
    by (auto simp: run_control_flags_cases out_of_iterations_def demo_machine_def)
  moreover have "get_agent_state out_of_iterations = agent_state_value ERROR"
    "\<not> headless_mode (self out_of_iterations)"
    by (simp_all add: out_of_iterations_def get_agent_state_def)
  ultimately show ?thesis using resume_after_limit [of demo_agent ?l out_of_iterations x] l by simp
qed

section \<open>Interrupted actions\<close>

definition answered_call :: "state \<Rightarrow> event \<Rightarrow> bool" where
  "answered_call st e \<longleftrightarrow>
     list_ex (\<lambda>e'. is_observation e' \<and> ev_tool_call_metadata e' = ev_tool_call_metadata e) (history st)"

lemma publishable_not_executed: "publishable env (not_executed b e)"
  by (simp add: publishable_def not_executed_def event_ok_def event_id_def new_event_def event_message_def)

lemma reset_publishes:
  assumes "stream_ok env (stream m) lg" and "pending_action (self m) = Some a"
    and "\<not> answered_call (c_state (self m)) (la_event a)"
  shows "\<exists>st' d. reset env m = (Inr (), m\<lparr>stream := st', ticks := ticks m + 1,
      self := (self m)\<lparr>pending_action := None, agent := ag_reset env (agent (self m))\<rparr>\<rparr>) \<and>
    stream_ok env st' (lg @ [d]) \<and>
    queue st' = queue (stream m) @ [serialised (stamp (env_clock env (ticks m)) AGENT (length lg)
      (not_executed (get_agent_state m = agent_state_value STOPPED) (la_event a)))]"
proof -
  let ?e = "not_executed (get_agent_state m = agent_state_value STOPPED) (la_event a)"
  obtain st' d where p: "publish env ?e AGENT m = (Inr (), m\<lparr>stream := st', ticks := ticks m + 1\<rparr>)"
    "stream_ok env st' (lg @ [d])" "queue st' = queue (stream m) @
      [serialised (stamp (env_clock env (ticks m)) AGENT (length lg) ?e)]"
    using publish_appends [OF assms(1) publishable_not_executed] by blast
  have "reset env m = thenP (publish env ?e AGENT)
      (update_self (\<lambda>c. c\<lparr>pending_action := None, agent := ag_reset env (agent c)\<rparr>)) m"
    using assms(2,3) by (simp add: reset_def answered_call_def Let_def)
  with p show ?thesis by (auto simp: thenP_def bindP_def update_self_def)
qed



section \<open>Failures of a step\<close>

lemma bindP_ret_right [simp]: "bindP f ret = f"
  by (simp add: bindP_def fun_eq_iff split: prod.split sum.split)

lemma set_agent_state_error:
  assumes "stream_ok env (stream m) lg" and "pending_action (self m) = None"
    and "get_agent_state m \<noteq> agent_state_value ERROR"
  shows "\<exists>m'. set_agent_state_to env (agent_state_value ERROR) m = (Inr (), m') \<and>
    get_agent_state m' = agent_state_value ERROR \<and> last_error (c_state (self m')) = last_error (c_state (self m)) \<and>
    queue (stream m') = queue (stream m) @ [serialised (stamp (env_clock env (ticks m)) ENVIRONMENT (length lg)
      (state_changed (agent_state_value ERROR) (last_error (c_state (self m)))))]"
proof -
  define m1 where "m1 = m\<lparr>self := (self m)\<lparr>c_state := (c_state (self m))\<lparr>agent_state := agent_state_value ERROR\<rparr>,
     pending_action := None, agent := ag_reset env (agent (self m))\<rparr>\<rparr>"
  have m1: "stream_ok env (stream m1) lg" "stream m1 = stream m" "ticks m1 = ticks m"
    "get_agent_state m1 = agent_state_value ERROR" "pending_action (self m1) = None"
    "last_error (c_state (self m1)) = last_error (c_state (self m))"
    using assms(1) by (simp_all add: m1_def get_agent_state_def)
  obtain st' where p: "publish env (state_changed (agent_state_value ERROR) (last_error (c_state (self m)))) ENVIRONMENT m1
      = (Inr (), m1\<lparr>stream := st', ticks := ticks m1 + 1\<rparr>)" "queue st' = queue (stream m) @
      [serialised (stamp (env_clock env (ticks m)) ENVIRONMENT (length lg)
        (state_changed (agent_state_value ERROR) (last_error (c_state (self m)))))]"
    using publish_appends [OF m1(1) publishable_state_changed, of "agent_state_value ERROR"
        "last_error (c_state (self m))" ENVIRONMENT] m1(2,3) by auto
  obtain fs where save: "controller_save_state (m1\<lparr>stream := st', ticks := ticks m1 + 1\<rparr>) =
      (Inr (), m1\<lparr>stream := st', ticks := ticks m1 + 1, session_files := fs\<rparr>)"
    by (simp add: controller_save_state_def)
  have "set_agent_state_to env (agent_state_value ERROR) m =
      (Inr (), m1\<lparr>stream := st', ticks := ticks m1 + 1, session_files := fs\<rparr>)"
    using assms(2,3) p(1) save m1(4-6)
    by (simp add: set_agent_state_to_def Let_def update_state_def update_self_def thenP_def bindP_def reset_def
        whenP_def m1_def [symmetric] del: agent_state_value.simps)
  with p(2) m1(4,6) show ?thesis by (simp add: get_agent_state_def)
qed


text \<open>An agent whose LLM cannot be reached.\<close>

definition failing_agent :: "unit agent_env" where
  "failing_agent = demo_agent\<lparr>ag_step := \<lambda>a s l h. (Inl (RuntimeError ''no answer''), a, s, h)\<rparr>"


definition failing :: "unit machine" where
  "failing = asking\<lparr>m_limits := new_limits\<rparr>"

lemma failing_fields [simp]:
  "get_agent_state failing = agent_state_value RUNNING" "pending_action (self failing) = None"
  "delegates failing = []" "m_limits failing = new_limits" "stream failing = stream asking"
  "history (c_state (self failing)) = []" "c_analysis (self failing) = None" "replay_man (self failing) = new_replay None"
  "has_status_callback (self failing) = False"
  by (simp_all add: failing_def asking_def demo_machine_def new_ctl_def new_state_def get_agent_state_def)

lemma failing_step:
  "\<exists>m1. controller_step failing_agent failing = (Inl (RuntimeError ''no answer''), m1) \<and>
    stream m1 = stream asking \<and> \<not> has_status_callback (self m1) \<and> pending_action (self m1) = None \<and>
    get_agent_state m1 = agent_state_value RUNNING"
proof -
  have stuck: "is_stuck h [] None = (False, None)" for h
    by (simp add: short_history_keeps_analysis filtered_history_def)
  have limits: "run_control_flags money new_limits =
      (new_limits\<lparr>iteration_flag := (iteration_flag new_limits)\<lparr>current_value := 1, hit_limit := False\<rparr>\<rparr>, None)" for money
    by (simp add: run_control_flags_cases over_limit_def new_limits_def new_flag_def iteration_step_under)
  have "sync_budget failing = (Inr (), failing)"
    by (simp add: sync_budget_def sync_budget_flag_with_metrics_def new_limits_def failing_def)
  moreover have "controller_is_stuck failing = (Inr False, failing)"
    by (simp add: controller_is_stuck_def own_is_stuck_def stuck)
  moreover have "should_replay (new_replay None) = (False, new_replay None)"
    by (simp add: should_replay_def replayable_def new_replay_def)
  ultimately show ?thesis
    by (simp add: controller_step_def thenP_def bindP_def run_limits_def limits next_action_def tryP_def call_agent_def
        failing_agent_def agent_error_def is_a_def demo_agent_def get_agent_state_def)
      (simp add: failing_def asking_def demo_machine_def new_ctl_def)
qed


section \<open>Delegates\<close>

text \<open>A word that starts with a letter found nowhere else in a text can only be its beginning.\<close>

lemma contains_at_head:
  assumes "c \<notin> set s"
  shows "contains (c # s) (c # p) \<longleftrightarrow> startswith s p"
proof -
  have "a = []" if "c # s = a @ (c # p) @ b" for a b
    using that assms by (cases a) auto
  then show ?thesis unfolding contains_iff startswith_iff by (metis append_Cons append_Nil list.inject)
qed

text \<open>
  When a delegate fails because the iterations have run out, the parent keeps it, and events still
  go to the delegate, which can be resumed. When the budget has run out, the parent ends it at
  the next event: the text that is looked for in the error lacks a space and is never found.
\<close>

theorem limit_decides_about_delegate:
  assumes "delegates m = d # ds" and "agent_state (c_state d) = agent_state_value ERROR"
    and "last_error (c_state d) = exc_class x @ '': '' @ exc_text x"
    and "run_control_flags (env_money env) l = (l', Some x)"
    and "\<forall>r. CHR ''R'' \<notin> set (env_money env r)"
  shows "on_event env e m = (if over_limit (iteration_flag l) then on_delegate (on_event_self env e) m
    else end_delegate env m)"
proof (cases "over_limit (iteration_flag l)")
  case True
  then obtain msg where "x = RuntimeError (''Agent reached maximum iteration.'' @ msg)"
    using assms(4) iteration_step_over [OF True] by (auto simp: run_control_flags_cases)
  then have "last_error (c_state d) = [] @ ''RuntimeError: Agent reached maximum iteration.'' @ msg"
    using assms(3) by simp
  then have "contains (last_error (c_state d)) ''RuntimeError: Agent reached maximum iteration.''"
    unfolding contains_iff by blast
  then show ?thesis using True assms(1) by (simp add: on_event_def delegate_active_def)
next
  case False
  then obtain b where "budget_step (env_money env) b = (fst (budget_step (env_money env) b), Some x)"
    using assms(4) by (auto simp: run_control_flags_cases Let_def prod_eq_iff split: option.splits)
  then have x: "x = RuntimeError (''Agent reached maximum budget for conversation.Current budget: '' @
      env_money env (current_value b) @ '', max budget: '' @ env_money env (max_value b))"
    by (auto simp: budget_step_def reached_limit_def Let_def split: if_splits)
  define s where "s = ''untimeError: Agent reached maximum budget for conversation.Current budget: '' @
      env_money env (current_value b) @ '', max budget: '' @ env_money env (max_value b)"
  have s: "last_error (c_state d) = CHR ''R'' # s" "CHR ''R'' \<notin> set s"
    using assms(3,5) by (simp_all add: x s_def)
  have "\<not> startswith s ''untimeError: Agent reached maximum iteration.''"
    "\<not> startswith s ''untimeError:Agent reached maximum budget for conversation''"
    by (simp_all add: s_def)
  then have "\<not> delegate_active (c_state d)"
    using assms(2) by (simp add: delegate_active_def s(1) contains_at_head [OF s(2)] del: contains.simps)
  then show ?thesis using False assms(1) by (simp add: on_event_def)
qed

definition failed_delegate :: "string \<Rightarrow> unit machine" where
  "failed_delegate text = demo_machine\<lparr>delegates := [(self demo_machine)\<lparr>c_state :=
     new_state\<lparr>agent_state := agent_state_value ERROR, last_error := text\<rparr>\<rparr>]\<rparr>"

theorem limit_decides_about_delegate_witness:
  "\<exists>text. on_event demo_agent run_ls (failed_delegate text) = end_delegate demo_agent (failed_delegate text)"
proof -
  let ?l = "new_limits\<lparr>iteration_flag := new_flag 5 0 5, budget_flag := Some (new_flag 1 2 (1 :: rat))\<rparr>"
  have "over_limit (new_flag 1 2 (1 :: rat))" by (simp add: over_limit_def new_flag_def)
  then obtain x where "snd (run_control_flags (env_money demo_agent) ?l) = Some x"
    using run_refused_iff [of "env_money demo_agent" ?l] by auto
  then have run: "run_control_flags (env_money demo_agent) ?l =
      (fst (run_control_flags (env_money demo_agent) ?l), Some x)"
    by (simp add: prod_eq_iff)
  let ?text = "exc_class x @ '': '' @ exc_text x"
  have "\<not> over_limit (iteration_flag ?l)" by (simp add: over_limit_def new_flag_def)
  with limit_decides_about_delegate [OF _ _ _ run, of "failed_delegate ?text" "(self demo_machine)\<lparr>c_state :=
      new_state\<lparr>agent_state := agent_state_value ERROR, last_error := ?text\<rparr>\<rparr>" "[]" run_ls]
  have "on_event demo_agent run_ls (failed_delegate ?text) = end_delegate demo_agent (failed_delegate ?text)"
    by (simp add: failed_delegate_def demo_agent_def)
  then show ?thesis by blast
qed

text \<open>What starting a controller leaves alone.\<close>

lemma first_event_self: "self (snd (first_event env i r p m)) = self m"
  by (simp add: first_event_def Let_def split: prod.split option.split)

lemma system_message_self: "self (snd (add_system_message env m)) = self m"
proof -
  obtain r m1 where f: "first_event env (start_id (c_state (self m))) False is_system_or_user_message m = (r, m1)"
    by fastforce
  then have m1: "self m1 = self m" using first_event_self by (metis snd_conv)
  have "self (snd ((case ag_system_message env (agent (self m)) of None \<Rightarrow> ret ()
      | Some e \<Rightarrow> whenP (system_content e \<noteq> []) (publish env e AGENT)) m1)) = self m1"
    by (simp add: whenP_def split: option.split)
  with f m1 show ?thesis
    by (cases r) (simp_all add: add_system_message_def bindP_def split: option.split)
qed

lemma init_history_mode:
  "init_history env st es = Inr (st', es') \<Longrightarrow> st_confirmation_mode st' = st_confirmation_mode st"
  by (auto simp: init_history_def rbind_Inr_iff Let_def split: if_splits prod.splits)

lemma delegate_modes:
  assumes "start_delegate env name ins m = (Inr (), m')"
  shows "\<exists>d. delegates m' = [d] \<and> \<not> c_confirmation_mode d \<and> \<not> st_confirmation_mode (c_state d)"
proof -
  obtain a where a: "ag_delegate env name (agent (self m)) = Inr a"
    using assms by (auto simp: start_delegate_def split: sum.splits)
  obtain i es where l: "get_latest_event_id (stream m) = Inr (i, es)"
    using assms a by (auto simp: start_delegate_def split: sum.splits)
  let ?m = "m\<lparr>stream := es\<rparr>"
  let ?st = "delegate_state ?m ins (i + 1)"
  let ?d = "?m\<lparr>self := delegate_ctl (self ?m) a, delegates := []\<rparr>"
  obtain r m1 where init: "init_controller env (Some (?st, m_limits ?m)) ?d = (r, m1)" by fastforce
  have m': "delegates m' = [self m1]" "r = Inr ()"
    using assms a l init by (cases r; auto simp: start_delegate_def Let_def)+
  define set where "set = controller_set_initial_state env (Some (?st, m_limits ?m))
    (initial_max_iterations (self ?d)) (initial_max_budget (self ?d)) (c_confirmation_mode (self ?d)) ?d"
  have "init_controller env (Some (?st, m_limits ?m)) ?d =
      (case set of (Inl x, m) \<Rightarrow> (Inl x, m) | (Inr _, m) \<Rightarrow> add_system_message env m)"
    by (simp add: init_controller_def Let_def thenP_def bindP_def set_def delegate_ctl_def)
  with init m'(2) obtain m2 where m2: "set = (Inr (), m2)" "add_system_message env m2 = (Inr (), m1)"
    by (auto split: prod.splits sum.splits)
  have "\<not> c_confirmation_mode (self m2) \<and> \<not> st_confirmation_mode (c_state (self m2))"
    using m2(1) init_history_mode
    by (fastforce simp: set_def controller_set_initial_state_def set_initial_state_def Let_def delegate_ctl_def
        new_ctl_def delegate_state_def new_state_def split: sum.splits prod.splits)
  moreover have "self m1 = self m2" using m2(2) system_message_self by (metis snd_conv)
  ultimately show ?thesis using m'(1) by simp
qed

text \<open>
  A delegate never asks the user, whatever the confirmation mode of its parent is: no action that
  it emits is reviewed.
\<close>

theorem delegate_never_asks:
  assumes "start_delegate env name ins m = (Inr (), m')"
  shows "\<exists>d. delegates m' = [d] \<and> (\<forall>a. review_action env d a = a)"
  using delegate_modes [OF assms] by (auto simp: review_action_def split: body.split)

lemma delegate_state_start [simp]: "start_id (delegate_state m ins n) = n"
  by (simp add: delegate_state_def Let_def)

lemma demo_agent_fields [simp]:
  "env_py demo_agent = demo_env" "ag_delegate demo_agent name a = Inr a" "ag_system_message demo_agent a = None"
  by (simp_all add: demo_agent_def)

lemma starting_delegate: "\<exists>m'. start_delegate demo_agent ''Demo'' [] asking = (Inr (), m')"
proof -
  have inv: "store_inv demo_env (stream asking) []"
    using asking_stream by (simp add: stream_ok_def stream_inv_def demo_agent_def)
  define es where "es = (stream asking)\<lparr>es_cur_id := Some 0\<rparr>"
  have latest: "get_latest_event_id (stream asking) = Inr (-1, es)"
    using cur_id_log [OF inv] by (simp add: get_latest_event_id_def es_def)
  have es: "store_inv demo_env es []" using store_inv_cur_id [OF inv] by (simp add: es_def)
  let ?m = "asking\<lparr>stream := es\<rparr>"
  define st where "st = (delegate_state ?m [] 0)\<lparr>start_id := 0, has_stats := True\<rparr>"
  obtain st' es' where init: "init_history demo_env st es = Inr (st', es')" "store_inv demo_env es' []"
    using init_history_log [OF es refl refl, of st] by auto
  have "fst (search_events demo_env es' (start_id st') None False None None) = ([], None)"
    using search_events_reads_log [OF init(2), of None "\<lambda>_. True" None]
    by (simp add: filter_accepts_def log_events_def)
  then have sys: "\<exists>m'. add_system_message demo_agent m2 = (Inr (), m')"
    if "stream m2 = es'" "c_state (self m2) = st'" for m2
    using that by (auto simp: add_system_message_def first_event_def bindP_def Let_def split: prod.split)
  let ?d = "?m\<lparr>self := delegate_ctl (self ?m) (), delegates := []\<rparr>"
  define m2 where "m2 = ?d\<lparr>self := (self ?d)\<lparr>c_state := st\<rparr>, m_limits := m_limits asking,
     self := (self ?d)\<lparr>c_state := st'\<rparr>, stream := es'\<rparr>"
  have "controller_set_initial_state demo_agent (Some (delegate_state ?m [] 0, m_limits ?m)) a b c ?d = (Inr (), m2)" for a b c
    using init(1) by (simp add: controller_set_initial_state_def set_initial_state_def st_def m2_def Let_def)
  moreover have "is_delegate (self ?d)" by (simp add: delegate_ctl_def)
  ultimately have "init_controller demo_agent (Some (delegate_state ?m [] 0, m_limits ?m)) ?d =
      add_system_message demo_agent m2"
    by (simp add: init_controller_def Let_def thenP_def bindP_def)
  moreover obtain m' where "add_system_message demo_agent m2 = (Inr (), m')"
    using sys [of m2] by (auto simp: m2_def)
  ultimately show ?thesis using latest by (simp add: start_delegate_def Let_def)
qed

theorem delegate_never_asks_witness:
  "\<exists>m' d. start_delegate demo_agent ''Demo'' [] asking = (Inr (), m') \<and> delegates m' = [d] \<and>
    review_action demo_agent d (live run_ls) = live run_ls"
  using starting_delegate delegate_never_asks by metis

section \<open>After a recovery from a loop\<close>

text \<open>
  The recovery stores the id of the last event it kept as the end of the history. No method removes it
  again, and closing searches up to there only.
\<close>

lemma recovery_sets_end:
  assumes "0 < r" and "nat r < length (history (c_state (self m)))"
  shows "end_id (c_state (self (snd (truncate_memory_to_point r m)))) =
    event_id (history (c_state (self m)) ! (nat r - 1))"
  using assms
  by (simp add: truncate_memory_to_point_def Let_def thenP_def bindP_def update_state_def update_self_def
      py_slice last_conv_nth whenP_def) auto

lemma end_bounds_history: "0 \<le> end_id st \<Longrightarrow> last_id st lg = end_id st"
  by (simp add: last_id_def)

end
