(* ===== verification/Py_Objects.thy ===== *)
theory Py_Objects
  imports Json
begin

text \<open>
  Python's operations on the objects that JSON values stand for, where the code works on plain
  dictionaries: subscripts, \<open>in\<close>, \<open>len\<close>, iteration, truth value, \<open>==\<close>, \<open>str\<close> and
  \<open>json.dumps(..., indent=n)\<close>, each with the exception Python raises on another type.
\<close>

section \<open>Types and truth values\<close>

fun type_name :: "json \<Rightarrow> string" where
  "type_name JNull = ''NoneType''"
| "type_name (JBool b) = ''bool''"
| "type_name (JInt i) = ''int''"
| "type_name (JFloat x) = ''float''"
| "type_name (JStr s) = ''str''"
| "type_name (JList xs) = ''list''"
| "type_name (JObj d) = ''dict''"

definition class_text :: "json \<Rightarrow> string" where
  "class_text v = ''<class '' @ CHR 0x27 # type_name v @ CHR 0x27 # ''>''"

fun json_truthy :: "json \<Rightarrow> bool" where
  "json_truthy JNull = False"
| "json_truthy (JBool b) = b"
| "json_truthy (JInt i) = (i \<noteq> 0)"
| "json_truthy (JFloat x) = (x \<noteq> 0)"
| "json_truthy (JStr s) = (s \<noteq> [])"
| "json_truthy (JList xs) = (xs \<noteq> [])"
| "json_truthy (JObj d) = (d \<noteq> [])"

definition attribute_error :: "json \<Rightarrow> string \<Rightarrow> exc" where
  "attribute_error v a = OtherException ''AttributeError''
     (CHR 0x27 # type_name v @ CHR 0x27 # '' object has no attribute '' @ repr_str a)"

text \<open>\<open>str(v)\<close>, which an f-string uses.\<close>

fun py_str :: "(rat \<Rightarrow> string) \<Rightarrow> json \<Rightarrow> string" where
  "py_str ff (JStr s) = s"
| "py_str ff v = repr_json ff v"

section \<open>Subscripts\<close>

text \<open>\<open>d[k]\<close> and \<open>d.get(k, v)\<close> on a dictionary, and \<open>v[k]\<close> on any object.\<close>

definition sub :: "dict \<Rightarrow> string \<Rightarrow> exc + json" where
  "sub d k = (case map_of d k of Some v \<Rightarrow> Inr v | None \<Rightarrow> Inl (KeyError k))"

definition get_key :: "dict \<Rightarrow> string \<Rightarrow> json \<Rightarrow> json" where
  "get_key d k v = (case map_of d k of Some w \<Rightarrow> w | None \<Rightarrow> v)"

definition has_key :: "string \<Rightarrow> dict \<Rightarrow> bool" where
  "has_key k d \<longleftrightarrow> map_of d k \<noteq> None"

fun item :: "json \<Rightarrow> string \<Rightarrow> exc + json" where
  "item (JObj d) k = sub d k"
| "item (JList xs) k = Inl (TypeError ''list indices must be integers or slices, not str'')"
| "item (JStr s) k = Inl (TypeError ''string indices must be integers'')"
| "item v k = Inl (TypeError (CHR 0x27 # type_name v @ CHR 0x27 # '' object is not subscriptable''))"

fun get_item :: "json \<Rightarrow> string \<Rightarrow> json \<Rightarrow> exc + json" where
  "get_item (JObj d) k v = Inr (get_key d k v)"
| "get_item w k v = Inl (attribute_error w ''get'')"

fun set_item :: "json \<Rightarrow> string \<Rightarrow> json \<Rightarrow> exc + json" where
  "set_item (JObj d) k v = Inr (JObj (dict_set d k v))"
| "set_item (JList xs) k v = Inl (TypeError ''list indices must be integers or slices, not str'')"
| "set_item w k v =
     Inl (TypeError (CHR 0x27 # type_name w @ CHR 0x27 # '' object does not support item assignment''))"

text \<open>The attribute access \<open>v.items()\<close>.\<close>

fun dict_of :: "string \<Rightarrow> json \<Rightarrow> exc + dict" where
  "dict_of a (JObj d) = Inr d"
| "dict_of a v = Inl (attribute_error v a)"

text \<open>An operand that has to be a string.\<close>

fun str_of :: "json \<Rightarrow> exc + string" where
  "str_of (JStr s) = Inr s"
| "str_of v = Inl (TypeError (''expected str, not '' @ type_name v))"

section \<open>Equality, membership, iteration\<close>

text \<open>\<open>==\<close>: numbers and booleans are compared by value, dictionaries without regard to order.\<close>

fun number_value :: "json \<Rightarrow> rat option" where
  "number_value (JBool b) = Some (if b then 1 else 0)"
| "number_value (JInt i) = Some (of_int i)"
| "number_value (JFloat x) = Some x"
| "number_value v = None"

fun py_eq :: "json \<Rightarrow> json \<Rightarrow> bool"
  and py_eq_list :: "json list \<Rightarrow> json list \<Rightarrow> bool"
  and py_eq_dict :: "dict \<Rightarrow> dict \<Rightarrow> bool" where
  "py_eq JNull w = (w = JNull)"
| "py_eq (JStr s) w = (w = JStr s)"
| "py_eq (JList xs) w = (case w of JList ys \<Rightarrow> py_eq_list xs ys | _ \<Rightarrow> False)"
| "py_eq (JObj d) w = (case w of JObj e \<Rightarrow> length d = length e \<and> py_eq_dict d e | _ \<Rightarrow> False)"
| "py_eq v w = (number_value v = number_value w)"
| "py_eq_list [] ys = (ys = [])"
| "py_eq_list (x # xs) ys = (case ys of [] \<Rightarrow> False | y # ys \<Rightarrow> py_eq x y \<and> py_eq_list xs ys)"
| "py_eq_dict [] e = True"
| "py_eq_dict ((k, v) # d) e =
     ((case map_of e k of None \<Rightarrow> False | Some w \<Rightarrow> py_eq v w) \<and> py_eq_dict d e)"

text \<open>\<open>v in w\<close>.\<close>

fun py_in :: "json \<Rightarrow> json \<Rightarrow> exc + bool" where
  "py_in v (JList xs) = Inr (list_ex (\<lambda>x. py_eq v x) xs)"
| "py_in v (JObj d) = Inr (list_ex (\<lambda>(k, x). v = JStr k) d)"
| "py_in v (JStr t) = rbind (str_of v) (\<lambda>s. Inr (contains t s))"
| "py_in v w = Inl (TypeError (''argument of type '' @ type_name w @ '' is not iterable''))"

text \<open>\<open>for x in v\<close>, and \<open>set(v)\<close>, whose members must be hashable.\<close>

fun py_iter :: "json \<Rightarrow> exc + json list" where
  "py_iter (JList xs) = Inr xs"
| "py_iter (JObj d) = Inr (map (\<lambda>(k, v). JStr k) d)"
| "py_iter (JStr s) = Inr (map (\<lambda>c. JStr [c]) s)"
| "py_iter v = Inl (TypeError (CHR 0x27 # type_name v @ CHR 0x27 # '' object is not iterable''))"

fun hashable :: "json \<Rightarrow> bool" where
  "hashable (JList xs) = False"
| "hashable (JObj d) = False"
| "hashable v = True"

definition py_set :: "json \<Rightarrow> exc + json list" where
  "py_set v = rbind (py_iter v) (\<lambda>xs.
     case find (\<lambda>x. \<not> hashable x) xs of
       Some x \<Rightarrow> Inl (TypeError (''unhashable type: '' @ CHR 0x27 # type_name x @ [CHR 0x27]))
     | None \<Rightarrow> Inr xs)"

fun py_len :: "json \<Rightarrow> exc + int" where
  "py_len (JList xs) = Inr (int (length xs))"
| "py_len (JObj d) = Inr (int (length d))"
| "py_len (JStr s) = Inr (int (length s))"
| "py_len v = Inl (TypeError (''object of type '' @ CHR 0x27 # type_name v @ CHR 0x27 # '' has no len()''))"

section \<open>\<open>json.dumps\<close> with an indent\<close>

fun dumps_indent :: "(rat \<Rightarrow> string) \<Rightarrow> nat \<Rightarrow> nat \<Rightarrow> json \<Rightarrow> string" where
  "dumps_indent ff n m (JList xs) =
     (if xs = [] then ''[]''
      else let pad = newline # replicate (n + m) (CHR '' '') in
        ''['' @ pad @ join ('','' @ pad) (map (dumps_indent ff n (n + m)) xs)
            @ newline # replicate m (CHR '' '') @ '']'')"
| "dumps_indent ff n m (JObj d) =
     (if d = [] then ''{}''
      else let pad = newline # replicate (n + m) (CHR '' '') in
        ''{'' @ pad @ join ('','' @ pad)
                 (map (\<lambda>(k, v). dump_str k @ '': '' @ dumps_indent ff n (n + m) v) d)
            @ newline # replicate m (CHR '' '') @ ''}'')"
| "dumps_indent ff n m v = dumps ff v"

section \<open>Loops that may raise\<close>

fun mapE :: "('a \<Rightarrow> exc + 'b) \<Rightarrow> 'a list \<Rightarrow> exc + 'b list" where
  "mapE f [] = Inr []"
| "mapE f (x # xs) = rbind (f x) (\<lambda>y. rbind (mapE f xs) (\<lambda>ys. Inr (y # ys)))"

text \<open>\<open>next((x for x in xs if p(x)), None)\<close> and \<open>any(p(x) for x in xs)\<close>.\<close>

fun findE :: "('a \<Rightarrow> exc + bool) \<Rightarrow> 'a list \<Rightarrow> exc + 'a option" where
  "findE p [] = Inr None"
| "findE p (x # xs) = rbind (p x) (\<lambda>b. if b then Inr (Some x) else findE p xs)"

fun anyE :: "('a \<Rightarrow> exc + bool) \<Rightarrow> 'a list \<Rightarrow> exc + bool" where
  "anyE p [] = Inr False"
| "anyE p (x # xs) = rbind (p x) (\<lambda>b. if b then Inr True else anyE p xs)"

text \<open>\<open>xs[-1] = f(xs[-1])\<close> on a list that is not empty.\<close>

definition modify_last :: "('a \<Rightarrow> exc + 'a) \<Rightarrow> 'a list \<Rightarrow> exc + 'a list" where
  "modify_last f xs = rbind (f (last xs)) (\<lambda>y. Inr (butlast xs @ [y]))"

lemma mapE_Inr: "(\<And>x. x \<in> set xs \<Longrightarrow> f x = Inr (g x)) \<Longrightarrow> mapE f xs = Inr (map g xs)"
  by (induction xs) auto

lemma mapE_length: "mapE f xs = Inr ys \<Longrightarrow> length ys = length xs"
  by (induction xs arbitrary: ys) (auto simp: rbind_Inr_iff)

lemma modify_last_snoc [simp]: "modify_last f (xs @ [x]) = rbind (f x) (\<lambda>y. Inr (xs @ [y]))"
  by (simp add: modify_last_def)

lemma sub_Some: "map_of d k = Some v \<Longrightarrow> sub d k = Inr v"
  by (simp add: sub_def)

lemma sub_Cons [simp]: "sub ((k', v) # d) k = (if k = k' then Inr v else sub d k)"
  by (simp add: sub_def)

lemma has_key_Cons [simp]: "has_key k ((k', v) # d) \<longleftrightarrow> k = k' \<or> has_key k d"
  by (simp add: has_key_def)

lemma has_key_Nil [simp]: "\<not> has_key k []"
  by (simp add: has_key_def)

lemma py_eq_str [simp]: "py_eq v (JStr s) \<longleftrightarrow> v = JStr s"
  by (cases v) auto

end
