(* ===== verification/Json_Roundtrip.thy ===== *)
theory Json_Roundtrip
  imports Json Py_Objects
begin

text \<open>
  \<open>openhands/io/json.py\<close>: \<open>loads\<close>, which falls back on the first balanced object of the text and on
  a repair of it (a package, an argument here), and the round trip with \<open>dumps\<close>: every JSON value
  whose dictionaries have distinct keys and whose floats are written as Python writes them is read
  back as it was, without the fallback.
\<close>

section \<open>\<open>loads\<close>\<close>

text \<open>The loop over the characters: the depth of the braces, where the outermost one opened, and
  the bounds of the first object that closes.\<close>

fun find_object :: "nat \<Rightarrow> int \<Rightarrow> nat option \<Rightarrow> string \<Rightarrow> (nat \<times> nat) option" where
  "find_object i depth start [] = None"
| "find_object i depth start (c # cs) =
     (if c = CHR ''{'' then
        find_object (i + 1) (depth + 1) (if depth = 0 then Some i else start) cs
      else if c = CHR ''}'' then
        (case start of
           Some a \<Rightarrow> if depth - 1 = 0 then Some (a, i + 1) else find_object (i + 1) (depth - 1) start cs
         | None \<Rightarrow> find_object (i + 1) (depth - 1) start cs)
      else find_object (i + 1) depth start cs)"

definition llm_response_error :: "string \<Rightarrow> exc" where
  "llm_response_error s = OtherException ''LLMResponseError'' s"

definition invalid_json :: exc where
  "invalid_json = llm_response_error
     ''Invalid JSON in response. Please make sure the response is a valid JSON object.''"

definition loads :: "(string \<Rightarrow> exc + string) \<Rightarrow> json_reader \<Rightarrow> string \<Rightarrow> exc + json" where
  "loads repair_json R json_str =
     (case json_loads R json_str of
        Some v \<Rightarrow> Inr v
      | None \<Rightarrow>
          (case find_object 0 0 None json_str of
             None \<Rightarrow> Inl (llm_response_error ''No valid JSON object found in response.'')
           | Some (a, b) \<Rightarrow>
               (case repair_json (take (b - a) (drop a json_str)) of
                  Inl (ValueError t) \<Rightarrow> Inl invalid_json
                | Inl (TypeError t) \<Rightarrow> Inl invalid_json
                | Inl e \<Rightarrow> Inl e
                | Inr s \<Rightarrow> (case json_loads R s of Some v \<Rightarrow> Inr v | None \<Rightarrow> Inl invalid_json))))"

section \<open>Strings\<close>

lemma hex_value_digit: "k < 16 \<Longrightarrow> hex_value (hex_digit k) = Some k"
proof -
  have "list_all (\<lambda>k. hex_value (hex_digit k) = Some k) [0..<16]" by code_simp
  then show "k < 16 \<Longrightarrow> ?thesis" by (simp only: list_all_iff set_upt atLeast0LessThan lessThan_iff)
qed

lemma code_unit_hex4:
  assumes "n < 256"
  shows "code_unit (hex4 n @ z) = Some n"
proof -
  have "n div 16 < 16" "n mod 16 < 16" using assms by auto
  moreover have "16 * (n div 16) + n mod 16 = n" by simp
  moreover have "hex_value (CHR ''0'') = Some 0" by (simp add: hex_value_def)
  ultimately show ?thesis by (simp add: hex4_def hex_value_digit)
qed

lemma read_dump_char:
  "read_char R (dump_char c @ z) = Some ([c], z) \<and> \<not> startswith (dump_char c @ z) [CHR 0x22]"
proof -
  let ?n = "of_char c :: nat"
  consider "c \<in> {CHR 0x22, CHR 0x5C, CHR 0x0A, CHR 0x0D, CHR 0x09, CHR 0x0C, CHR 0x08}"
    | "c \<notin> {CHR 0x22, CHR 0x5C, CHR 0x0A, CHR 0x0D, CHR 0x09, CHR 0x0C, CHR 0x08}" "?n < 32 \<or> 127 \<le> ?n"
    | "c \<notin> {CHR 0x22, CHR 0x5C, CHR 0x0A, CHR 0x0D, CHR 0x09, CHR 0x0C, CHR 0x08}" "\<not> (?n < 32 \<or> 127 \<le> ?n)"
    by blast
  then show ?thesis
  proof cases
    case 1
    then show ?thesis by (auto simp: dump_char_def simple_escapes_def Let_def)
  next
    case 2
    have n: "?n < 256" by simp
    then have m: "\<not> 0xD800 \<le> ?n" by linarith
    have "dump_char c = CHR 0x5C # CHR ''u'' # hex4 ?n"
      using 2 by (simp add: dump_char_def Let_def)
    moreover have "drop 4 (hex4 ?n @ z) = z" by (simp add: hex4_def)
    then have "unicode_escape R (hex4 ?n @ z) = Some ([c], z)"
      using n m by (simp add: unicode_escape_def code_unit_hex4 code_point_def)
    ultimately show ?thesis by simp
  next
    case 3
    then have "dump_char c = [c]" by (simp add: dump_char_def Let_def)
    with 3 show ?thesis by simp
  qed
qed

lemma read_dumped_string:
  "read_string R (concat (map dump_char s) @ CHR 0x22 # r) = Some (s, r)"
proof (induction s)
  case Nil
  show ?case by (simp add: read_string.simps [of R "CHR 0x22 # r"])
next
  case (Cons c s)
  let ?z = "concat (map dump_char s) @ CHR 0x22 # r"
  have "read_string R (dump_char c @ ?z) = map_option (\<lambda>(u, q). ([c] @ u, q)) (read_string R ?z)"
    using read_dump_char [of R c ?z] by (subst read_string.simps) simp
  with Cons show ?case by simp
qed

section \<open>Numbers\<close>

text \<open>What may follow a value in a text that \<open>dumps\<close> wrote.\<close>

definition ends :: "string \<Rightarrow> bool" where
  "ends r \<longleftrightarrow> r = [] \<or> hd r \<in> set (newline # '',]}'')"

lemma ends_digits:
  assumes "ends r"
  shows "takeWhile is_digit (s @ r) = takeWhile is_digit s"
    and "dropWhile is_digit (s @ r) = dropWhile is_digit s @ r"
proof -
  have "takeWhile is_digit r = []" "dropWhile is_digit r = r"
    using assms by (cases r; auto simp: ends_def is_digit_def)+
  then show "takeWhile is_digit (s @ r) = takeWhile is_digit s"
    and "dropWhile is_digit (s @ r) = dropWhile is_digit s @ r"
    by (induction s) auto
qed

lemma int_part_append: "int_part s = Some (i, t) \<Longrightarrow> ends r \<Longrightarrow> int_part (s @ r) = Some (i, t @ r)"
  by (cases s) (auto simp: int_part_def ends_digits split: if_splits)

lemma frac_part_append:
  assumes "frac_part s = (f, t)" and "ends r"
  shows "frac_part (s @ r) = (f, t @ r)"
proof (cases s)
  case Nil
  with assms show ?thesis by (cases r) (auto simp: frac_part_def ends_def)
next
  case (Cons c u)
  with assms show ?thesis by (auto simp: frac_part_def ends_digits split: if_splits)
qed

lemma exp_part_append:
  assumes "exp_part s = (e, [])" and "ends r"
  shows "exp_part (s @ r) = (e, r)"
proof (cases s)
  case Nil
  with assms have "e = []" by (simp add: exp_part_def)
  with Nil assms(2) show ?thesis
    by (cases r) (auto simp: exp_part_def ends_def Let_def split: prod.splits)
next
  case (Cons c u)
  then have "u \<noteq> []" using assms(1) by (auto simp: exp_part_def split: if_splits)
  with Cons assms show ?thesis
    by (cases u) (auto simp: exp_part_def ends_digits Let_def split: if_splits)
qed

lemma number_parts_append:
  assumes "number_parts t = Some (g, i, f, e, [])" and "ends r"
  shows "number_parts (t @ r) = Some (g, i, f, e, r)"
proof -
  let ?g = "if startswith t ''-'' then ''-'' else []"
  obtain s1 s2 where p: "int_part (drop (length ?g) t) = Some (i, s1)" "frac_part s1 = (f, s2)"
    "exp_part s2 = (e, [])" "g = ?g"
    using assms(1) by (auto simp: number_parts_def Let_def split: option.splits prod.splits)
  have "t \<noteq> []" using p(1) by (auto simp: int_part_def)
  then have "startswith (t @ r) ''-'' = startswith t ''-''" by (cases t) auto
  moreover have "drop (length ?g) (t @ r) = drop (length ?g) t @ r"
    using \<open>t \<noteq> []\<close> by (cases t) auto
  ultimately show ?thesis
    using p int_part_append [OF p(1) assms(2)] frac_part_append [OF p(2) assms(2)]
      exp_part_append [OF p(3) assms(2)]
    by (simp add: number_parts_def Let_def)
qed

lemma number_parts_start: "number_parts t = Some p \<Longrightarrow> \<exists>c u. t = c # u \<and> (is_digit c \<or> c = CHR ''-'')"
  by (cases t) (auto simp: number_parts_def int_part_def is_digit_def Let_def split: if_splits list.splits)

lemma show_nat_hd: "0 < n \<Longrightarrow> hd (show_nat n) \<noteq> CHR ''0''"
proof (induction n rule: show_nat.induct)
  case (1 n)
  show ?case
  proof (cases "n < 10")
    case True
    with 1(2) show ?thesis
      by (subst show_nat.simps) (drule less_10_cases, auto simp: digit_char_def)
  next
    case False
    with 1(1) have "hd (show_nat (n div 10)) \<noteq> CHR ''0''" by simp
    then show ?thesis using False show_nat_digits [of "n div 10"] by (subst show_nat.simps) simp
  qed
qed

lemma int_part_show_nat: "int_part (show_nat n) = Some (show_nat n, [])"
proof (cases "n = 0")
  case True
  moreover have "show_nat 0 = ''0''" by (simp add: show_nat.simps digit_char_def)
  ultimately show ?thesis by (simp add: int_part_def)
next
  case False
  have d: "list_all is_digit (show_nat n)" "show_nat n \<noteq> []" using show_nat_digits by auto
  moreover have "takeWhile is_digit (show_nat n) = show_nat n" "dropWhile is_digit (show_nat n) = []"
    using d by (simp_all add: list_all_iff takeWhile_eq_all_conv dropWhile_eq_Nil_conv)
  ultimately show ?thesis
    using show_nat_hd [of n] False by (cases "show_nat n") (simp_all add: int_part_def)
qed

lemma number_parts_show_int:
  "number_parts (show_int i)
    = Some (if i < 0 then ''-'' else [], show_nat (nat (if i < 0 then - i else i)), [], [], [])"
proof -
  have "\<not> startswith (show_nat n) ''-''" for n
    using show_nat_digits [of n] by (cases "show_nat n") (auto simp: is_digit_def)
  then show ?thesis
    by (simp add: show_int_def number_parts_def int_part_show_nat frac_part_def exp_part_def)
qed

definition float_reads :: "json_reader \<Rightarrow> (rat \<Rightarrow> string) \<Rightarrow> rat \<Rightarrow> bool" where
  "float_reads R ff x \<longleftrightarrow>
     (case number_parts (ff x) of
        Some (g, i, f, e, r) \<Rightarrow> r = [] \<and> (f \<noteq> [] \<or> e \<noteq> []) \<and> jr_float R (g @ i @ f @ e) = x
      | None \<Rightarrow> False)"

text \<open>Neither a literal nor the start of anything but a number.\<close>

lemma number_is_scalar:
  assumes "number_parts t = Some p" and "ends r"
  shows "read_literal json_literals R (t @ r) = None"
    and "\<exists>c u. t = c # u \<and> c \<notin> {CHR 0x22, CHR ''{'', CHR ''['', CHR '']'', CHR ''}''} \<and> \<not> jspace c"
proof -
  obtain c u where t: "t = c # u" "is_digit c \<or> c = CHR ''-''"
    using number_parts_start [OF assms(1)] by blast
  then show "read_literal json_literals R (t @ r) = None"
    by (auto simp: read_literal_def json_literals_def is_digit_def)
  show "\<exists>c u. t = c # u \<and> c \<notin> {CHR 0x22, CHR ''{'', CHR ''['', CHR '']'', CHR ''}''} \<and> \<not> jspace c"
    using t by (auto simp: is_digit_def jspace_def)
qed

lemma read_number_value:
  assumes "number_parts t = Some (g, i, f, e, [])" and "ends r"
  shows "read_value R (t @ r) = Some
    (if f = [] \<and> e = [] then JInt (if g = [] then int (read_nat_go 0 i) else - int (read_nat_go 0 i))
     else JFloat (jr_float R (g @ i @ f @ e)), r)"
proof -
  obtain c u where t: "t = c # u" "c \<notin> {CHR 0x22, CHR ''{'', CHR ''['', CHR '']'', CHR ''}''}"
    using number_is_scalar(2) [OF assms] by blast
  have "read_value R (t @ r) = read_scalar R (t @ r)"
    using t by (simp add: read_value.simps)
  also have "\<dots> = read_number R (t @ r)"
    using number_parts_append [OF assms] number_is_scalar(1) [OF assms]
    by (simp add: read_scalar_def read_number_def)
  finally show ?thesis
    using number_parts_append [OF assms] by (simp add: read_number_def)
qed

lemma read_int_value: "ends r \<Longrightarrow> read_value R (show_int i @ r) = Some (JInt i, r)"
  using read_number_value [OF number_parts_show_int, of r R i]
  by (simp add: read_nat_go_show)

lemma read_float_value:
  assumes "float_reads R ff x" and "ends r"
  shows "read_value R (ff x @ r) = Some (JFloat x, r)"
proof -
  obtain g i f e where p: "number_parts (ff x) = Some (g, i, f, e, [])"
    "f \<noteq> [] \<or> e \<noteq> []" "jr_float R (g @ i @ f @ e) = x"
    using assms(1) by (auto simp: float_reads_def split: option.splits)
  show ?thesis using read_number_value [OF p(1) assms(2), of R] p(2,3) by auto
qed

section \<open>Values\<close>

fun json_ok :: "(rat \<Rightarrow> bool) \<Rightarrow> json \<Rightarrow> bool" where
  "json_ok F (JFloat x) = F x"
| "json_ok F (JList xs) = list_all (json_ok F) xs"
| "json_ok F (JObj d) = (distinct (keys d) \<and> list_all (\<lambda>(k, v). json_ok F v) d)"
| "json_ok F v = True"

lemma dumps_start:
  assumes "json_ok (float_reads R ff) v"
  shows "\<exists>c u. dumps ff v = c # u \<and> c \<notin> {CHR '']'', CHR ''}''} \<and> \<not> jspace c"
proof (cases v)
  case (JInt i)
  then show ?thesis using number_is_scalar(2) [OF number_parts_show_int, of "[]" i] by (auto simp: ends_def)
next
  case (JFloat x)
  with assms obtain p where "number_parts (ff x) = Some p" by (auto simp: float_reads_def split: option.splits)
  then show ?thesis using number_is_scalar(2) [of "ff x" p "[]"] JFloat by (auto simp: ends_def)
qed (auto simp: jspace_def dump_str_def)

lemma jskip_dumps: "json_ok (float_reads R ff) v \<Longrightarrow> jskip (dumps ff v @ r) = dumps ff v @ r"
  using dumps_start [of R ff v] by auto

lemma ends_comma [simp]: "ends (CHR '','' # r)" "ends (CHR '']'' # r)" "ends (CHR ''}'' # r)"
  by (simp_all add: ends_def)

lemma jspace_simps [simp]:
  "\<not> jspace CHR '',''" "\<not> jspace CHR '']''" "\<not> jspace CHR ''}''" "jspace CHR '' ''" "\<not> jspace CHR '':''"
  "\<not> jspace CHR 0x22"
  by (simp_all add: jspace_def)

lemma jskip_simps:
  "jskip (CHR '','' # r) = CHR '','' # r" "jskip (CHR '']'' # r) = CHR '']'' # r"
  "jskip (CHR ''}'' # r) = CHR ''}'' # r" "jskip (CHR '' '' # r) = jskip r" "jskip (CHR '':'' # r) = CHR '':'' # r"
  "jskip (CHR 0x22 # r) = CHR 0x22 # r"
  by (simp_all add: jspace_def)

lemma read_items_dumps:
  assumes "xs \<noteq> []" and "list_all (json_ok (float_reads R ff)) xs"
    and "\<And>x r. x \<in> set xs \<Longrightarrow> ends r \<Longrightarrow> read_value R (dumps ff x @ r) = Some (x, r)"
  shows "read_items R (join '', '' (map (dumps ff) xs) @ CHR '']'' # r) = Some (xs, r)"
  using assms
proof (induction xs rule: induct_list012)
  case (2 x)
  then show ?case by (subst read_items.simps) simp
next
  case (3 x y zs)
  let ?q = "join '', '' (map (dumps ff) (y # zs)) @ CHR '']'' # r"
  obtain c u where "dumps ff y = c # u" "\<not> jspace c"
    using dumps_start [of R ff y] "3.prems"(2) by auto
  then obtain w where q: "?q = c # w" "\<not> jspace c" by (cases zs) auto
  have x: "read_value R (dumps ff x @ CHR '','' # CHR '' '' # ?q) = Some (x, CHR '','' # CHR '' '' # ?q)"
    using "3.prems"(3) by simp
  moreover have "jskip (CHR '' '' # ?q) = ?q" unfolding jskip_simps q(1) using q(2) by simp
  moreover have "read_items R ?q = Some (y # zs, r)"
    by (rule "3.IH"(2)) (use "3.prems" in auto)
  ultimately have "read_items R (dumps ff x @ CHR '','' # CHR '' '' # ?q) = Some (x # y # zs, r)"
    by (subst read_items.simps) (simp only: option.case prod.case jskip_simps list.case, simp)
  then show ?case by simp
qed simp

lemma read_key: "read_string R (concat (map dump_char k) @ CHR 0x22 # r) = Some (k, r)"
  by (rule read_dumped_string)

definition dump_member :: "(rat \<Rightarrow> string) \<Rightarrow> string \<times> json \<Rightarrow> string" where
  "dump_member ff p = dump_str (fst p) @ '': '' @ dumps ff (snd p)"

lemma read_member:
  assumes "json_ok (float_reads R ff) v"
    and "\<And>r. ends r \<Longrightarrow> read_value R (dumps ff v @ r) = Some (v, r)" and "ends r" and "r = e # q"
    and "\<not> jspace e"
  shows "read_members R (dump_member ff (k, v) @ r) =
    (if e = CHR ''}'' then Some ([(k, v)], q)
     else if e = CHR '','' then map_option (\<lambda>(d, q). ((k, v) # d, q)) (read_members R (jskip q))
     else None)"
proof -
  let ?r = "CHR '':'' # CHR '' '' # dumps ff v @ r"
  have "dump_member ff (k, v) @ r = CHR 0x22 # concat (map dump_char k) @ CHR 0x22 # ?r"
    by (simp add: dump_member_def dump_str_def)
  moreover have "jskip (tl (jskip ?r)) = dumps ff v @ r"
    using jskip_dumps [OF assms(1), of r] by simp
  moreover have "jskip r = r" using assms(4,5) by simp
  moreover have "length q < length (CHR 0x22 # concat (map dump_char k) @ CHR 0x22 # ?r)"
    using assms(4) by simp
  ultimately show ?thesis
    using assms(2) [OF assms(3)] assms(4) read_key [of R k ?r]
    by (simp add: read_members.simps(2))
qed

lemma read_members_dumps:
  assumes "d \<noteq> []" and "list_all (\<lambda>(k, v). json_ok (float_reads R ff) v) d"
    and "\<And>k v r. (k, v) \<in> set d \<Longrightarrow> ends r \<Longrightarrow> read_value R (dumps ff v @ r) = Some (v, r)"
  shows "read_members R (join '', '' (map (dump_member ff) d) @ CHR ''}'' # r) = Some (d, r)"
  using assms
proof (induction d rule: induct_list012)
  case (2 p)
  then obtain k v where p: "p = (k, v)" by fastforce
  with 2 show ?case
    using read_member [of R ff v "CHR ''}'' # r" "CHR ''}''" r k] by simp
next
  case (3 p p' d)
  obtain k v where p: "p = (k, v)" by fastforce
  let ?q = "join '', '' (map (dump_member ff) (p' # d)) @ CHR ''}'' # r"
  have "\<exists>w. ?q = CHR 0x22 # w" by (cases d) (simp_all add: dump_member_def dump_str_def)
  then have "jskip (CHR '' '' # ?q) = ?q" by auto
  moreover have "read_members R ?q = Some (p' # d, r)"
    by (rule "3.IH"(2)) (use "3.prems" in auto)
  moreover have "read_members R (dump_member ff (k, v) @ CHR '','' # CHR '' '' # ?q)
      = map_option (\<lambda>(d, q). ((k, v) # d, q)) (read_members R (jskip (CHR '' '' # ?q)))"
    by (subst read_member [where R = R and ff = ff and e = "CHR '',''" and q = "CHR '' '' # ?q"])
      (use "3.prems" p in \<open>auto simp del: dropWhile.simps\<close>)
  ultimately have "read_members R (dump_member ff p @ CHR '','' # CHR '' '' # ?q) = Some (p # p' # d, r)"
    by (simp only: p option.map prod.case)
  then show ?case by simp
qed simp

lemma dumps_obj: "dumps ff (JObj d) = CHR ''{'' # join '', '' (map (dump_member ff) d) @ ''}''"
  by (simp add: dump_member_def case_prod_beta cong: map_cong)

lemma read_value_dumps:
  "json_ok (float_reads R ff) v \<Longrightarrow> ends r \<Longrightarrow> read_value R (dumps ff v @ r) = Some (v, r)"
proof (induction v arbitrary: r)
  case (JInt i)
  then show ?case by (simp add: read_int_value)
next
  case (JFloat x)
  then show ?case by (simp add: read_float_value)
next
  case (JStr s)
  show ?case by (simp add: dump_str_def read_value.simps read_dumped_string)
next
  case (JList xs)
  show ?case
  proof (cases "xs = []")
    case True
    then show ?thesis by (simp add: read_value.simps)
  next
    case False
    obtain c u where c: "dumps ff (hd xs) = c # u" "c \<noteq> CHR '']''" "\<not> jspace c"
      using False JList.prems(1) dumps_start [of R ff "hd xs"] by (cases xs) auto
    let ?t = "join '', '' (map (dumps ff) xs) @ CHR '']'' # r"
    have "\<exists>w. ?t = c # w" using c(1) False by (cases xs rule: remdups_adj.cases) auto
    then have "jskip ?t = ?t" "\<not> startswith ?t '']''" using c by auto
    moreover have "read_items R ?t = Some (xs, r)"
      by (rule read_items_dumps) (use False JList in \<open>auto simp: list_all_iff\<close>)
    ultimately show ?thesis by (simp add: read_value.simps)
  qed
next
  case (JObj d)
  show ?case
  proof (cases "d = []")
    case True
    then show ?thesis by (simp add: read_value.simps)
  next
    case False
    let ?t = "join '', '' (map (dump_member ff) d) @ CHR ''}'' # r"
    have "\<exists>w. ?t = CHR 0x22 # w"
      using False by (cases d rule: remdups_adj.cases) (simp_all add: dump_member_def dump_str_def)
    then have "jskip ?t = ?t" "\<not> startswith ?t ''}''" by auto
    moreover have "read_members R ?t = Some (d, r)"
      by (rule read_members_dumps) (use False JObj in \<open>auto simp: list_all_iff\<close>)
    moreover have "dict_update [] d = d"
      using JObj.prems(1) dict_update_fresh [of "[]" d] by simp
    ultimately show ?thesis unfolding dumps_obj by (simp add: read_value.simps)
  qed
qed (simp_all add: read_value.simps read_scalar_def read_literal_def json_literals_def)

lemma json_loads_dumps:
  assumes "json_ok (float_reads R ff) v"
  shows "json_loads R (dumps ff v) = Some v"
proof -
  have "jskip (dumps ff v) = dumps ff v" using jskip_dumps [OF assms, of "[]"] by simp
  moreover have "read_value R (dumps ff v) = Some (v, [])"
    using read_value_dumps [OF assms, of "[]"] by (simp add: ends_def)
  ultimately show ?thesis by (simp add: json_loads_def)
qed

text \<open>
  C29. What \<open>dumps\<close> writes is what \<open>loads\<close> reads, for every value (of any depth) whose dictionaries
  have distinct keys and whose floats have a text that is a JSON number and reads as the float;
  the repair of the text is never called.
\<close>

theorem loads_dumps:
  assumes "json_ok (float_reads R ff) v"
  shows "loads repair R (dumps ff v) = Inr v"
  using json_loads_dumps [OF assms] by (simp add: loads_def)

theorem loads_dumps_witness:
  "loads (\<lambda>s. Inl (ValueError [])) \<lparr>jr_float = (\<lambda>t. 3 / 2), jr_wide = (\<lambda>n. [])\<rparr>
     (dumps (\<lambda>x. ''1.5'') (JObj [(''a'', JList [JInt (- 7), JNull, JFloat (3 / 2)]), (''b'', JStr [newline])]))
   = Inr (JObj [(''a'', JList [JInt (- 7), JNull, JFloat (3 / 2)]), (''b'', JStr [newline])])"
  by (rule loads_dumps)
    (simp add: float_reads_def number_parts_def int_part_def frac_part_def exp_part_def is_digit_def)

text \<open>
  \<open>json.dumps(v, indent=n)\<close> is read back as it was: the line breaks and blanks that the indentation puts
  between the members of a list or dictionary are what \<open>json.loads\<close> skips there.
\<close>

definition indent_pad :: "nat \<Rightarrow> string" where
  "indent_pad n = newline # replicate n (CHR '' '')"

lemma jskip_pad: "jskip (indent_pad n @ r) = jskip r"
proof -
  have "list_all jspace (indent_pad n)" by (simp add: indent_pad_def jspace_def list_all_iff)
  then show ?thesis by (simp add: list_all_iff dropWhile_append2)
qed

lemma ends_pad [simp]: "ends (indent_pad n @ r)"
  by (simp add: ends_def indent_pad_def)

lemma dumps_indent_nested:
  "xs \<noteq> [] \<Longrightarrow> dumps_indent ff n m (JList xs) = ''['' @ indent_pad (n + m)
     @ join ('','' @ indent_pad (n + m)) (map (dumps_indent ff n (n + m)) xs) @ indent_pad m @ '']''"
  "d \<noteq> [] \<Longrightarrow> dumps_indent ff n m (JObj d) = ''{'' @ indent_pad (n + m)
     @ join ('','' @ indent_pad (n + m))
         (map (\<lambda>(k, v). dump_str k @ '': '' @ dumps_indent ff n (n + m) v) d) @ indent_pad m @ ''}''"
  by (simp_all add: indent_pad_def Let_def)

text \<open>A text that reads as a value whatever follows, and starts with no blank or bracket.\<close>

definition reads_as :: "json_reader \<Rightarrow> string \<Rightarrow> json \<Rightarrow> bool" where
  "reads_as R t v \<longleftrightarrow> (\<forall>r. ends r \<longrightarrow> read_value R (t @ r) = Some (v, r)) \<and>
     (\<exists>c u. t = c # u \<and> c \<notin> {CHR '']'', CHR ''}''} \<and> \<not> jspace c)"

lemma reads_as_start: "reads_as R t v \<Longrightarrow> jskip (t @ r) = t @ r \<and> \<not> startswith (t @ r) '']''"
  by (auto simp: reads_as_def)

lemma read_items_padded:
  assumes "xs \<noteq> []" and "\<And>x. x \<in> set xs \<Longrightarrow> reads_as R (f x) x"
  shows "read_items R (join ('','' @ indent_pad p) (map f xs) @ indent_pad q @ '']'' @ r) = Some (xs, r)"
  using assms
proof (induction xs rule: induct_list012)
  case (2 x)
  then have "read_value R (f x @ indent_pad q @ '']'' @ r) = Some (x, indent_pad q @ '']'' @ r)"
    by (simp add: reads_as_def)
  then show ?case
    by (subst read_items.simps) (simp add: jskip_pad jskip_simps del: append_assoc)
next
  case (3 x y zs)
  let ?q = "join ('','' @ indent_pad p) (map f (y # zs)) @ indent_pad q @ '']'' @ r"
  have "\<exists>t. ?q = f y @ t" by (cases zs) auto
  then have y: "jskip ?q = ?q" using reads_as_start [of R "f y" y] "3.prems"(2) by auto
  have x: "read_value R (f x @ CHR '','' # indent_pad p @ ?q) = Some (x, CHR '','' # indent_pad p @ ?q)"
    using "3.prems"(2) [of x] by (simp add: reads_as_def)
  moreover have "read_items R ?q = Some (y # zs, r)"
    by (rule "3.IH"(2)) (use "3.prems" in auto)
  ultimately have "read_items R (f x @ CHR '','' # indent_pad p @ ?q) = Some (x # y # zs, r)"
    by (subst read_items.simps) (simp only: option.case prod.case jskip_simps list.case jskip_pad y, simp)
  then show ?case by simp
qed simp

definition member_text :: "('v \<Rightarrow> string) \<Rightarrow> string \<times> 'v \<Rightarrow> string" where
  "member_text f p = dump_str (fst p) @ '': '' @ f (snd p)"

lemma read_member_padded:
  assumes "reads_as R t v" and "ends r" and "jskip r = e # q" and "length q < length r + length t"
  shows "read_members R (dump_str k @ '': '' @ t @ r) =
    (if e = CHR ''}'' then Some ([(k, v)], q)
     else if e = CHR '','' then map_option (\<lambda>(d, q). ((k, v) # d, q)) (read_members R (jskip q))
     else None)"
proof -
  let ?r = "CHR '':'' # CHR '' '' # t @ r"
  have "dump_str k @ '': '' @ t @ r = CHR 0x22 # concat (map dump_char k) @ CHR 0x22 # ?r"
    by (simp add: dump_str_def)
  moreover have "jskip (tl (jskip ?r)) = t @ r"
    using reads_as_start [OF assms(1), of r] by simp
  moreover have "read_value R (t @ r) = Some (v, r)" using assms(1,2) by (simp add: reads_as_def)
  moreover have "length q < length (CHR 0x22 # concat (map dump_char k) @ CHR 0x22 # ?r)"
    using assms(4) by simp
  ultimately show ?thesis
    using assms(3) read_key [of R k ?r]
    by (simp add: read_members.simps(2))
qed

lemma read_members_padded:
  assumes "d \<noteq> []" and "\<And>k v. (k, v) \<in> set d \<Longrightarrow> reads_as R (f v) v"
  shows "read_members R (join ('','' @ indent_pad p) (map (member_text f) d) @ indent_pad q @ ''}'' @ r)
    = Some (d, r)"
  using assms
proof (induction d rule: induct_list012)
  case (2 kv)
  obtain k v where kv: "kv = (k, v)" by fastforce
  have "jskip (indent_pad q @ ''}'' @ r) = CHR ''}'' # r" by (simp add: jskip_pad jskip_simps)
  with "2.prems" kv show ?case
    using read_member_padded [of R "f v" v "indent_pad q @ ''}'' @ r" "CHR ''}''" r k]
    by (simp add: member_text_def)
next
  case (3 kv kv' d)
  obtain k v where kv: "kv = (k, v)" by fastforce
  then have v: "reads_as R (f v) v" using "3.prems"(2) [of k v] by simp
  let ?q = "join ('','' @ indent_pad p) (map (member_text f) (kv' # d)) @ indent_pad q @ ''}'' @ r"
  have "\<exists>w. ?q = CHR 0x22 # w" by (cases d) (simp_all add: member_text_def dump_str_def)
  then have y: "jskip ?q = ?q" by auto
  have "read_members R ?q = Some (kv' # d, r)"
    by (rule "3.IH"(2)) (use "3.prems" in auto)
  moreover have "read_members R (dump_str k @ '': '' @ f v @ CHR '','' # indent_pad p @ ?q)
      = map_option (\<lambda>(d, q). ((k, v) # d, q)) (read_members R (jskip (indent_pad p @ ?q)))"
    by (subst read_member_padded [where e = "CHR '',''" and q = "indent_pad p @ ?q"])
      (use v in \<open>simp_all add: jskip_simps\<close>)
  ultimately have "read_members R (member_text f kv @ CHR '','' # indent_pad p @ ?q) = Some (kv # kv' # d, r)"
    by (simp only: kv member_text_def fst_conv snd_conv append_assoc jskip_pad y option.map prod.case)
  then show ?case by simp
qed simp

lemma reads_as_dumps: "json_ok (float_reads R ff) v \<Longrightarrow> reads_as R (dumps ff v) v"
  using read_value_dumps dumps_start by (auto simp: reads_as_def)

lemma reads_as_indented: "json_ok (float_reads R ff) v \<Longrightarrow> reads_as R (dumps_indent ff n m v) v"
proof (induction v arbitrary: m)
  case (JList xs)
  show ?case
  proof (cases "xs = []")
    case True
    then show ?thesis using reads_as_dumps [of R ff "JList []"] by simp
  next
    case False
    let ?f = "dumps_indent ff n (n + m)" and ?p = "indent_pad (n + m)"
    have x: "reads_as R (?f x) x" if "x \<in> set xs" for x
      using JList that by (auto simp: list_all_iff)
    have "read_value R (dumps_indent ff n m (JList xs) @ r) = Some (JList xs, r)" for r
    proof -
      let ?t = "join ('','' @ ?p) (map ?f xs) @ indent_pad m @ '']'' @ r"
      have "\<exists>t. ?t = ?f (hd xs) @ t" using False by (cases xs rule: remdups_adj.cases) auto
      then have "jskip (?p @ ?t) = ?t" "\<not> startswith ?t '']''"
        using reads_as_start [OF x [of "hd xs"]] False by (auto simp: jskip_pad)
      moreover have "read_items R ?t = Some (xs, r)"
        using False x by (rule read_items_padded)
      ultimately show ?thesis
        by (simp only: dumps_indent_nested(1) [OF False]) (simp add: read_value.simps)
    qed
    moreover have "\<exists>u. dumps_indent ff n m (JList xs) = CHR ''['' # u"
      by (simp add: dumps_indent_nested(1) [OF False])
    ultimately show ?thesis by (auto simp: reads_as_def jspace_def)
  qed
next
  case (JObj d)
  show ?case
  proof (cases "d = []")
    case True
    then show ?thesis using reads_as_dumps [of R ff "JObj []"] by simp
  next
    case False
    let ?f = "dumps_indent ff n (n + m)" and ?p = "indent_pad (n + m)"
    have e: "dumps_indent ff n m (JObj d) = ''{'' @ ?p @ join ('','' @ ?p) (map (member_text ?f) d)
        @ indent_pad m @ ''}''"
    proof -
      have "(\<lambda>(k, v). dump_str k @ '': '' @ ?f v) = member_text ?f"
        by (auto simp: member_text_def fun_eq_iff)
      then show ?thesis by (simp only: dumps_indent_nested(2) [OF False])
    qed
    have v: "reads_as R (?f v) v" if "(k, v) \<in> set d" for k v
      using JObj that by (fastforce simp: list_all_iff)
    have u: "dict_update [] d = d"
      using JObj.prems dict_update_fresh [of "[]" d] by simp
    have "read_value R (dumps_indent ff n m (JObj d) @ r) = Some (JObj d, r)" for r
    proof -
      let ?t = "join ('','' @ ?p) (map (member_text ?f) d) @ indent_pad m @ ''}'' @ r"
      have "\<exists>w. ?t = CHR 0x22 # w"
        using False by (cases d rule: remdups_adj.cases) (simp_all add: member_text_def dump_str_def)
      then have "jskip (?p @ ?t) = ?t" "\<not> startswith ?t ''}''" by (auto simp: jskip_pad)
      moreover have "read_members R ?t = Some (d, r)"
        using False v by (rule read_members_padded)
      ultimately show ?thesis unfolding e by (simp add: read_value.simps u)
    qed
    moreover have "\<exists>u. dumps_indent ff n m (JObj d) = CHR ''{'' # u" unfolding e by simp
    ultimately show ?thesis by (auto simp: reads_as_def jspace_def)
  qed
qed (use reads_as_dumps in \<open>fastforce+\<close>)

lemma json_loads_indented:
  assumes "json_ok (float_reads R ff) v"
  shows "json_loads R (dumps_indent ff n 0 v) = Some v"
proof -
  note r = reads_as_indented [OF assms, of n 0]
  then have "jskip (dumps_indent ff n 0 v) = dumps_indent ff n 0 v"
    using reads_as_start [of R _ v "[]"] by simp
  moreover have "read_value R (dumps_indent ff n 0 v) = Some (v, [])"
    using r by (simp add: reads_as_def) (metis append_Nil2 ends_def)
  ultimately show ?thesis by (simp add: json_loads_def)
qed

end
