(* ===== verification/Fn_Call_Prompts.thy ===== *)
theory Fn_Call_Prompts
  imports Py_Objects
begin

text \<open>
  The texts of \<open>llm/fn_call_converter.py\<close> and \<open>llm/tool_names.py\<close>: what is added to the prompt of a
  model that cannot call functions, the worked example put together from the tools at hand, and
  the description of the tools. A text is written line by line, joined by line breaks.
\<close>

section \<open>Names of the tools\<close>

definition EXECUTE_BASH_TOOL_NAME :: string where "EXECUTE_BASH_TOOL_NAME = ''execute_bash''"
definition STR_REPLACE_EDITOR_TOOL_NAME :: string where
  "STR_REPLACE_EDITOR_TOOL_NAME = ''str_replace_editor''"
definition BROWSER_TOOL_NAME :: string where "BROWSER_TOOL_NAME = ''browser''"
definition FINISH_TOOL_NAME :: string where "FINISH_TOOL_NAME = ''finish''"
definition LLM_BASED_EDIT_TOOL_NAME :: string where "LLM_BASED_EDIT_TOOL_NAME = ''edit_file''"
definition TASK_TRACKER_TOOL_NAME :: string where "TASK_TRACKER_TOOL_NAME = ''task_tracker''"

lemmas tool_names = EXECUTE_BASH_TOOL_NAME_def STR_REPLACE_EDITOR_TOOL_NAME_def BROWSER_TOOL_NAME_def
  FINISH_TOOL_NAME_def LLM_BASED_EDIT_TOOL_NAME_def TASK_TRACKER_TOOL_NAME_def

section \<open>The texts\<close>

definition SYSTEM_PROMPT_SUFFIX_TEMPLATE :: string where
  \<open>SYSTEM_PROMPT_SUFFIX_TEMPLATE =
     join [newline]
     [[],
      ''You have access to the following functions:'',
      [],
      ''{description}'',
      [],
      ''If you choose to call a function ONLY reply in the following format with NO suffix:'',
      [],
      ''<function=example_function_name>'',
      ''<parameter=example_parameter_1>value_1</parameter>'',
      ''<parameter=example_parameter_2>'',
      ''This is the value for the second parameter'',
      ''that can span'',
      ''multiple lines'',
      ''</parameter>'',
      ''</function>'',
      [],
      ''<IMPORTANT>'',
      ''Reminder:'',
      ''- Function calls MUST follow the specified format, start with <function= and end with </function>'',
      ''- Required parameters MUST be specified'',
      ''- Only call one function at a time'',
      ''- You may provide optional reasoning for your function call in natural language BEFORE the function call, but NOT after.'',
      ''- If there is no function call available, answer the question like normal with your current knowledge and do not tell the user about function calls'',
      ''</IMPORTANT>'',
      []]\<close>

definition example_execute_bash_check_dir :: string where
  \<open>example_execute_bash_check_dir =
     join [newline]
     [[],
      ''ASSISTANT: Sure! Let me first check the current directory:'',
      ''<function=execute_bash>'',
      ''<parameter=command>'',
      ''pwd && ls'',
      ''</parameter>'',
      ''</function>'',
      [],
      ''USER: EXECUTION RESULT of [execute_bash]:'',
      ''/workspace'',
      ''openhands@runtime:~/workspace$'',
      []]\<close>

definition example_execute_bash_run_server :: string where
  \<open>example_execute_bash_run_server =
     join [newline]
     [[],
      ''ASSISTANT:'',
      ''Let me run the Python file for you:'',
      ''<function=execute_bash>'',
      ''<parameter=command>'',
      ''python3 app.py > server.log 2>&1 &'',
      ''</parameter>'',
      ''</function>'',
      [],
      ''USER: EXECUTION RESULT of [execute_bash]:'',
      ''[1] 121'',
      ''[1]+  Exit 1                  python3 app.py > server.log 2>&1'',
      [],
      ''ASSISTANT:'',
      ''Looks like the server was running with PID 121 then crashed. Let me check the server log:'',
      ''<function=execute_bash>'',
      ''<parameter=command>'',
      ''cat server.log'',
      ''</parameter>'',
      ''</function>'',
      [],
      ''USER: EXECUTION RESULT of [execute_bash]:'',
      ''Traceback (most recent call last):'',
      ''  File "/workspace/app.py", line 2, in <module>'',
      ''    from flask import Flask'',
      ''ModuleNotFoundError: No module named 'flask'' @ [CHR 0x27],
      [],
      ''ASSISTANT:'',
      ''Looks like the server crashed because the `flask` module is not installed. Let me install the `flask` module for you:'',
      ''<function=execute_bash>'',
      ''<parameter=command>'',
      ''pip3 install flask'',
      ''</parameter>'',
      ''</function>'',
      [],
      ''USER: EXECUTION RESULT of [execute_bash]:'',
      ''Defaulting to user installation because normal site-packages is not writeable'',
      ''Collecting flask'',
      ''  Using cached flask-3.0.3-py3-none-any.whl (101 kB)'',
      ''Collecting blinker>=1.6.2'',
      ''  Using cached blinker-1.7.0-py3-none-any.whl (13 kB)'',
      ''Collecting Werkzeug>=3.0.0'',
      ''  Using cached werkzeug-3.0.2-py3-none-any.whl (226 kB)'',
      ''Collecting click>=8.1.3'',
      ''  Using cached click-8.1.7-py3-none-any.whl (97 kB)'',
      ''Collecting itsdangerous>=2.1.2'',
      ''  Using cached itsdangerous-2.2.0-py3-none-any.whl (16 kB)'',
      ''Requirement already satisfied: Jinja2>=3.1.2 in /home/openhands/.local/lib/python3.10/site-packages (from flask) (3.1.3)'',
      ''Requirement already satisfied: MarkupSafe>=2.0 in /home/openhands/.local/lib/python3.10/site-packages (from Jinja2>=3.1.2->flask) (2.1.5)'',
      ''Installing collected packages: Werkzeug, itsdangerous, click, blinker, flask'',
      ''Successfully installed Werkzeug-3.0.2 blinker-1.7.0 click-8.1.7 flask-3.0.3 itsdangerous-2.2.0'',
      [],
      ''ASSISTANT:'',
      ''The `flask` module is installed successfully. Let me run the Python file again:'',
      ''<function=execute_bash>'',
      ''<parameter=command>'',
      ''python3 app.py > server.log 2>&1 &'',
      ''</parameter>'',
      ''</function>'',
      [],
      ''USER: EXECUTION RESULT of [execute_bash]:'',
      ''[1] 124'',
      [],
      ''ASSISTANT:'',
      ''Let me check the server log again:'',
      ''<function=execute_bash>'',
      ''<parameter=command>'',
      ''cat server.log'',
      ''</parameter>'',
      ''</function>'',
      [],
      ''USER: EXECUTION RESULT of [execute_bash]:'',
      ''* Serving Flask app 'app'' @ [CHR 0x27],
      '' * Debug mode: off'',
      ''WARNING: This is a development server. Do not use it in a production deployment. Use a production WSGI server instead.'',
      '' * Running on http://127.0.0.1:5000'',
      ''Press CTRL+C to quit'',
      [],
      ''ASSISTANT:'',
      ''The server is running on port 5000 with PID 124. You can access the list of numbers by visiting http://127.0.0.1:5000. If you have any further questions, feel free to ask!'',
      []]\<close>

definition example_execute_bash_kill_server :: string where
  \<open>example_execute_bash_kill_server =
     join [newline]
     [[],
      ''USER: Now kill the server, make it display the numbers in a table format.'',
      [],
      ''ASSISTANT:'',
      ''Sure! Let me stop the server first:'',
      ''<function=execute_bash>'',
      ''<parameter=command>'',
      ''kill 124'',
      ''</parameter>'',
      ''</function>'',
      [],
      ''USER: EXECUTION RESULT of [execute_bash]:'',
      ''[1]+  Terminated              python3 app.py > server.log 2>&1'',
      []]\<close>

definition example_execute_bash_run_server_again :: string where
  \<open>example_execute_bash_run_server_again =
     join [newline]
     [[],
      ''ASSISTANT:'',
      ''Running the updated file:'',
      ''<function=execute_bash>'',
      ''<parameter=command>'',
      ''python3 app.py > server.log 2>&1 &'',
      ''</parameter>'',
      ''</function>'',
      [],
      ''USER: EXECUTION RESULT of [execute_bash]:'',
      ''[1] 126'',
      [],
      ''ASSISTANT:'',
      ''The server is running on port 5000 with PID 126. You can access the list of numbers in a table format by visiting http://127.0.0.1:5000.'',
      []]\<close>

definition example_str_replace_editor_create_file :: string where
  \<open>example_str_replace_editor_create_file =
     join [newline]
     [[],
      ''ASSISTANT:'',
      ''There is no `app.py` file in the current directory. Let me create a Python file `app.py`:'',
      ''<function=str_replace_editor>'',
      ''<parameter=command>create</parameter>'',
      ''<parameter=path>/workspace/app.py</parameter>'',
      ''<parameter=file_text>'',
      ''from flask import Flask'',
      ''app = Flask(__name__)'',
      [],
      ''@app.route('/')'',
      ''def index():'',
      ''    numbers = list(range(1, 11))'',
      ''    return str(numbers)'',
      [],
      ''if __name__ == '__main__':'',
      ''    app.run(port=5000)'',
      ''</parameter>'',
      ''</function>'',
      [],
      ''USER: EXECUTION RESULT of [str_replace_editor]:'',
      ''File created successfully at: /workspace/app.py'',
      []]\<close>

definition example_str_replace_editor_edit_file :: string where
  \<open>example_str_replace_editor_edit_file =
     join [newline]
     [[],
      ''ASSISTANT:'',
      ''Now let me display the numbers in a table format:'',
      ''<function=str_replace_editor>'',
      ''<parameter=command>str_replace</parameter>'',
      ''<parameter=path>/workspace/app.py</parameter>'',
      ''<parameter=old_str>return str(numbers)</parameter>'',
      ''<parameter=new_str>return '<table>' + '' @ [CHR 0x27] @ [CHR 0x27] @ ''.join([f'<tr><td>{i}</td></tr>' for i in numbers]) + '</table>'</parameter>'',
      ''</function>'',
      [],
      ''USER: EXECUTION RESULT of [str_replace_editor]:'',
      ''The file /workspace/app.py has been edited. Here's the result of running `cat -n` on a snippet of /workspace/app.py:'',
      ''     3'',
      ''     4  @app.route('/')'',
      ''     5  def index():'',
      ''     6      numbers = list(range(1, 11))'',
      ''     7      return '<table>' + '' @ [CHR 0x27] @ [CHR 0x27] @ ''.join([f'<tr><td>{i}</td></tr>' for i in numbers]) + '</table>'' @ [CHR 0x27],
      ''     8'',
      ''     9  if __name__ == '__main__':'',
      ''    10      app.run(port=5000)'',
      ''Review the changes and make sure they are as expected. Edit the file again if necessary.'',
      [],
      []]\<close>

definition example_browser_view_page :: string where
  \<open>example_browser_view_page =
     join [newline]
     [[],
      ''ASSISTANT:'',
      ''Let me check how the page looks in the browser:'',
      ''<function=browser>'',
      ''<parameter=code>'',
      ''goto('http://127.0.0.1:5000')'',
      ''noop(1000)  # Wait for page to load'',
      ''</parameter>'',
      ''</function>'',
      [],
      ''USER: EXECUTION RESULT of [browser]:'',
      ''[Browser shows the numbers in a table format]'',
      []]\<close>

definition example_edit_file_create_file :: string where
  \<open>example_edit_file_create_file =
     join [newline]
     [[],
      ''ASSISTANT: There is no `app.py` file in the current directory. Let me create a Python file `app.py`:'',
      ''<function=edit_file>'',
      ''<parameter=path>/workspace/app.py</parameter>'',
      ''<parameter=start>1</parameter>'',
      ''<parameter=end>-1</parameter>'',
      ''<parameter=content>'',
      ''from flask import Flask'',
      ''app = Flask(__name__)'',
      [],
      ''@app.route('/')'',
      ''def index():'',
      ''    numbers = list(range(1, 11))'',
      ''    return str(numbers)'',
      [],
      ''if __name__ == '__main__':'',
      ''    app.run(port=5000)'',
      ''</parameter>'',
      ''</function>'',
      [],
      ''USER: EXECUTION RESULT of [edit_file]:'',
      ''File created successfully at: /workspace/app.py'',
      []]\<close>

definition example_edit_file_edit_file :: string where
  \<open>example_edit_file_edit_file =
     join [newline]
     [[],
      ''ASSISTANT:'',
      ''Now let me display the numbers in a table format:'',
      ''<function=edit_file>'',
      ''<parameter=path>/workspace/app.py</parameter>'',
      ''<parameter=start>6</parameter>'',
      ''<parameter=end>9</parameter>'',
      ''<parameter=content>'',
      ''    numbers = list(range(1, 11))'',
      ''    return '<table>' + '' @ [CHR 0x27] @ [CHR 0x27] @ ''.join([f'<tr><td>{i}</td></tr>' for i in numbers]) + '</table>'' @ [CHR 0x27],
      ''    # ... existing code ...'',
      ''if __name__ == '__main__':'',
      ''</parameter>'',
      ''</function>'',
      [],
      ''USER: EXECUTION RESULT of [edit_file]:'',
      ''The file /workspace/app.py has been edited. Here's the result of running `cat -n` on a snippet of /workspace/app.py:'',
      ''     3'',
      ''     4  @app.route('/')'',
      ''     5  def index():'',
      ''     6      numbers = list(range(1, 11))'',
      ''     7      return '<table>' + '' @ [CHR 0x27] @ [CHR 0x27] @ ''.join([f'<tr><td>{i}</td></tr>' for i in numbers]) + '</table>'' @ [CHR 0x27],
      ''     8'',
      ''     9  if __name__ == '__main__':'',
      ''    10      app.run(port=5000)'',
      ''Review the changes and make sure they are as expected. Edit the file again if necessary.'',
      []]\<close>

definition example_finish_example :: string where
  \<open>example_finish_example =
     join [newline]
     [[],
      ''ASSISTANT:'',
      ''The server is running on port 5000 with PID 126. You can access the list of numbers in a table format by visiting http://127.0.0.1:5000. Let me know if you have any further requests!'',
      ''<function=finish>'',
      ''<parameter=message>The task has been completed. The web server is running and displaying numbers 1-10 in a table format at http://127.0.0.1:5000.</parameter>'',
      ''</function>'',
      []]\<close>

text \<open>The dictionary of dictionaries.\<close>

definition TOOL_EXAMPLES :: "(string, (string, string) pydict) pydict" where
  "TOOL_EXAMPLES =
     [(''execute_bash'', [(''check_dir'', example_execute_bash_check_dir),
        (''run_server'', example_execute_bash_run_server),
        (''kill_server'', example_execute_bash_kill_server),
        (''run_server_again'', example_execute_bash_run_server_again)]),
      (''str_replace_editor'', [(''create_file'', example_str_replace_editor_create_file),
        (''edit_file'', example_str_replace_editor_edit_file)]),
      (''browser'', [(''view_page'', example_browser_view_page)]),
      (''edit_file'', [(''create_file'', example_edit_file_create_file),
        (''edit_file'', example_edit_file_edit_file)]),
      (''finish'', [(''example'', example_finish_example)])]"

definition tool_example :: "string \<Rightarrow> string \<Rightarrow> string" where
  "tool_example t k =
     (case map_of TOOL_EXAMPLES t of
        Some d \<Rightarrow> (case map_of d k of Some s \<Rightarrow> s | None \<Rightarrow> [])
      | None \<Rightarrow> [])"

text \<open>\<open>sys.platform == 'win32'\<close> is an argument.\<close>

definition refine_prompt :: "bool \<Rightarrow> string \<Rightarrow> string" where
  "refine_prompt win32 prompt = (if win32 then replace prompt ''bash'' ''powershell'' else prompt)"

definition example_opening :: string where
  \<open>example_opening =
     join [newline]
     [''Here's a running example of how to perform a task with the provided tools.'',
      [],
      ''--------------------- START OF EXAMPLE ---------------------'',
      [],
      ''USER: Create a list of numbers from 1 to 10, and display them in a web page at port 5000.'',
      [],
      []]\<close>

definition example_closing :: string where
  \<open>example_closing =
     join [newline]
     [[],
      ''--------------------- END OF EXAMPLE ---------------------'',
      [],
      ''Do NOT assume the environment is the same as in the example above.'',
      [],
      ''--------------------- NEW TASK DESCRIPTION ---------------------'',
      []]\<close>

definition IN_CONTEXT_LEARNING_EXAMPLE_SUFFIX :: string where
  \<open>IN_CONTEXT_LEARNING_EXAMPLE_SUFFIX =
     join [newline]
     [[],
      ''--------------------- END OF NEW TASK DESCRIPTION ---------------------'',
      [],
      ''PLEASE follow the format strictly! PLEASE EMIT ONE AND ONLY ONE FUNCTION CALL PER MESSAGE.'',
      []]\<close>

section \<open>The example for the tools at hand\<close>

text \<open>The names under \<open>TOOL_EXAMPLES\<close> of the tools that have an example.\<close>

definition example_names :: "(string \<times> string) list" where
  "example_names =
     [(EXECUTE_BASH_TOOL_NAME, ''execute_bash''), (STR_REPLACE_EDITOR_TOOL_NAME, ''str_replace_editor''),
      (BROWSER_TOOL_NAME, ''browser''), (FINISH_TOOL_NAME, ''finish''),
      (LLM_BASED_EDIT_TOOL_NAME, ''edit_file'')]"

definition available_tool :: "dict \<Rightarrow> exc + string list" where
  "available_tool tool =
     rbind (sub tool ''type'') (\<lambda>t.
     if t \<noteq> JStr ''function'' then Inr []
     else rbind (sub tool ''function'') (\<lambda>fn. rbind (item fn ''name'') (\<lambda>n.
       Inr (map snd (filter (\<lambda>(a, b). n = JStr a) example_names)))))"

definition available_tools :: "dict list \<Rightarrow> exc + string list" where
  "available_tools tools = rbind (mapE available_tool tools) (\<lambda>ns. Inr (concat ns))"

definition example_text :: "string list \<Rightarrow> string" where
  "example_text ts =
     (let bash = (\<lambda>k. if ''execute_bash'' \<in> set ts then tool_example ''execute_bash'' k else []);
          editor = (\<lambda>k. if ''str_replace_editor'' \<in> set ts then tool_example ''str_replace_editor'' k
                        else if ''edit_file'' \<in> set ts then tool_example ''edit_file'' k else [])
      in example_opening
         @ bash ''check_dir'' @ editor ''create_file'' @ bash ''run_server''
         @ (if ''browser'' \<in> set ts then tool_example ''browser'' ''view_page'' else [])
         @ bash ''kill_server'' @ editor ''edit_file'' @ bash ''run_server_again''
         @ (if ''finish'' \<in> set ts then tool_example ''finish'' ''example'' else [])
         @ example_closing)"

definition get_example_for_tools :: "bool \<Rightarrow> dict list \<Rightarrow> exc + string" where
  "get_example_for_tools win32 tools =
     rbind (available_tools tools) (\<lambda>ts.
     Inr (if ts = [] then [] else refine_prompt win32 (lstrip (example_text ts))))"

section \<open>The description of the tools\<close>

definition allowed_values :: "(rat \<Rightarrow> string) \<Rightarrow> json \<Rightarrow> exc + string" where
  "allowed_values ff enum =
     rbind (py_iter enum) (\<lambda>vs.
     Inr (newline # ''Allowed values: [''
            @ join '', '' (map (\<lambda>v. ''`'' @ py_str ff v @ ''`'') vs) @ '']''))"

definition describe_param ::
    "(rat \<Rightarrow> string) \<Rightarrow> json list \<Rightarrow> nat \<Rightarrow> string \<Rightarrow> json \<Rightarrow> exc + string" where
  "describe_param ff required j name info =
     (let status = (if JStr name \<in> set required then ''required'' else ''optional'') in
      rbind (get_item info ''type'' (JStr ''string'')) (\<lambda>param_type.
      rbind (get_item info ''description'' (JStr ''No description provided'')) (\<lambda>desc.
      rbind (dict_of ''items'' info) (\<lambda>d.
      rbind (if has_key ''enum'' d
             then rbind (sub d ''enum'') (\<lambda>enum. rbind (allowed_values ff enum) (\<lambda>vs.
                  rbind (str_of desc) (\<lambda>s. Inr (s @ vs))))
             else Inr (py_str ff desc)) (\<lambda>desc.
      Inr (''  ('' @ show_nat (j + 1) @ '') '' @ name @ '' ('' @ py_str ff param_type @ '', '' @ status
           @ ''): '' @ desc @ [newline]))))))"

fun describe_params ::
    "(rat \<Rightarrow> string) \<Rightarrow> json list \<Rightarrow> nat \<Rightarrow> dict \<Rightarrow> exc + string" where
  "describe_params ff required j [] = Inr []"
| "describe_params ff required j ((name, info) # r) =
     rbind (describe_param ff required j name info) (\<lambda>s.
     rbind (describe_params ff required (j + 1) r) (\<lambda>t. Inr (s @ t)))"

definition describe_parameters :: "(rat \<Rightarrow> string) \<Rightarrow> json \<Rightarrow> exc + string" where
  "describe_parameters ff parameters =
     rbind (get_item parameters ''properties'' (JObj [])) (\<lambda>properties.
     rbind (get_item parameters ''required'' (JList [])) (\<lambda>req.
     rbind (py_set req) (\<lambda>required.
     rbind (dict_of ''items'' properties) (\<lambda>d.
     rbind (describe_params ff required 0 d) (\<lambda>s.
     Inr (''Parameters:'' @ newline # s))))))"

definition describe_tool :: "(rat \<Rightarrow> string) \<Rightarrow> nat \<Rightarrow> dict \<Rightarrow> exc + string" where
  "describe_tool ff i tool =
     rbind (sub tool ''type'') (\<lambda>t.
     if t \<noteq> JStr ''function'' then Inl AssertionError
     else rbind (sub tool ''function'') (\<lambda>fn.
     rbind (item fn ''name'') (\<lambda>name.
     rbind (item fn ''description'') (\<lambda>description.
     rbind (dict_of ''get'' fn) (\<lambda>d.
     rbind (if has_key ''parameters'' d
            then rbind (sub d ''parameters'') (describe_parameters ff)
            else Inr (''No parameters are required for this function.'' @ [newline])) (\<lambda>params.
     Inr ((if i > 0 then [newline] else [])
          @ ''---- BEGIN FUNCTION #'' @ show_nat (i + 1) @ '': '' @ py_str ff name @ '' ----'' @ newline
          # ''Description: '' @ py_str ff description @ newline
          # params @ ''---- END FUNCTION #'' @ show_nat (i + 1) @ '' ----'' @ [newline])))))))"

fun describe_tools :: "(rat \<Rightarrow> string) \<Rightarrow> nat \<Rightarrow> dict list \<Rightarrow> exc + string" where
  "describe_tools ff i [] = Inr []"
| "describe_tools ff i (tool # tools) =
     rbind (describe_tool ff i tool) (\<lambda>s. rbind (describe_tools ff (i + 1) tools) (\<lambda>t. Inr (s @ t)))"

definition convert_tools_to_description :: "(rat \<Rightarrow> string) \<Rightarrow> dict list \<Rightarrow> exc + string" where
  "convert_tools_to_description ff tools = describe_tools ff 0 tools"

text \<open>\<open>SYSTEM_PROMPT_SUFFIX_TEMPLATE.format(description=...)\<close>.\<close>

definition system_prompt_suffix :: "(rat \<Rightarrow> string) \<Rightarrow> dict list \<Rightarrow> exc + string" where
  "system_prompt_suffix ff tools =
     rbind (convert_tools_to_description ff tools) (\<lambda>d.
     Inr (replace SYSTEM_PROMPT_SUFFIX_TEMPLATE ''{description}'' d))"

end
