(* ===== verification/Agent_Tools.thy ===== *)
theory Agent_Tools
  imports Fn_Call_Prompts Regex
begin

text \<open>
  \<open>agenthub/codeact_agent/tools/\<close>: the tools the agent offers to the LLM, as the dictionaries that
  are passed to it: names, descriptions, and the schemas of the parameters, against which a call
  that was read from text is validated. The platform, the environment variable, the current directory
  and \<open>os.path.abspath\<close> are arguments.
\<close>

section \<open>\<open>refine_prompt\<close> of the tools\<close>

text \<open>A word without regard to case. The look-behinds of the second pattern are implied by its first
  word boundary, as the underscore is a word character.\<close>

definition other_case :: "char \<Rightarrow> char" where
  "other_case c =
     (let n = (of_char c :: nat) in
      if 97 \<le> n \<and> n \<le> 122 then char_of (n - 32) else c)"

definition any_case :: "string \<Rightarrow> re" where
  "any_case s = cat (map (\<lambda>c. Cl (OneOf [Chr c, Chr (other_case c)])) s)"

definition word_any_case :: "string \<Rightarrow> re" where
  "word_any_case s = Seq WordB (Seq (any_case s) WordB)"

definition refine_tool_prompt :: "bool \<Rightarrow> string \<Rightarrow> string" where
  "refine_tool_prompt win32 prompt =
     (if win32
      then re_sub (word_any_case ''bash'') ''powershell''
             (re_sub (word_any_case ''execute_bash'') ''execute_powershell'' prompt)
      else prompt)"

section \<open>Security risk\<close>

definition SECURITY_RISK_DESC :: string where
  \<open>SECURITY_RISK_DESC =
     ''The LLM's assessment of the safety risk of this action. See the SECURITY_RISK_ASSESSMENT section in the system prompt for risk level definitions.''\<close>

definition RISK_LEVELS :: "string list" where
  "RISK_LEVELS = [''LOW'', ''MEDIUM'', ''HIGH'']"

section \<open>The tools\<close>

definition DETAILED_BASH_DESCRIPTION :: string where
  \<open>DETAILED_BASH_DESCRIPTION =
     join [newline]
     [''Execute a bash command in the terminal within a persistent shell session.'',
      [],
      [],
      ''### Command Execution'',
      ''* One command at a time: You can only execute one bash command at a time. If you need to run multiple commands sequentially, use `&&` or `;` to chain them together.'',
      ''* Persistent session: Commands execute in a persistent shell session where environment variables, virtual environments, and working directory persist between commands.'',
      ''* Soft timeout: Commands have a soft timeout of 10 seconds, once that's reached, you have the option to continue or interrupt the command (see section below for details)'',
      ''* Shell options: Do NOT use `set -e`, `set -eu`, or `set -euo pipefail` in shell scripts or commands in this environment. The runtime may not support them and can cause unusable shell sessions. If you want to run multi-line bash commands, write the commands to a file and then run it, instead.'',
      [],
      ''### Long-running Commands'',
      ''* For commands that may run indefinitely, run them in the background and redirect output to a file, e.g. `python3 app.py > server.log 2>&1 &`.'',
      ''* For commands that may run for a long time (e.g. installation or testing commands), or commands that run for a fixed amount of time (e.g. sleep), you should set the "timeout" parameter of your function call to an appropriate value.'',
      ''* If a bash command returns exit code `-1`, this means the process hit the soft timeout and is not yet finished. By setting `is_input` to `true`, you can:'',
      ''  - Send empty `command` to retrieve additional logs'',
      ''  - Send text (set `command` to the text) to STDIN of the running process'',
      ''  - Send control commands like `C-c` (Ctrl+C), `C-d` (Ctrl+D), or `C-z` (Ctrl+Z) to interrupt the process'',
      ''  - If you do C-c, you can re-start the process with a longer "timeout" parameter to let it run to completion'',
      [],
      ''### Best Practices'',
      ''* Directory verification: Before creating new directories or files, first verify the parent directory exists and is the correct location.'',
      ''* Directory management: Try to maintain working directory by using absolute paths and avoiding excessive use of `cd`.'',
      [],
      ''### Output Handling'',
      ''* Output truncation: If the output exceeds a maximum length, it will be truncated before being returned.'',
      []]\<close>

definition SHORT_BASH_DESCRIPTION :: string where
  \<open>SHORT_BASH_DESCRIPTION =
     join [newline]
     [''Execute a bash command in the terminal.'',
      ''* Long running commands: For commands that may run indefinitely, it should be run in the background and the output should be redirected to a file, e.g. command = `python3 app.py > server.log 2>&1 &`. For commands that need to run for a specific duration, you can set the "timeout" argument to specify a hard timeout in seconds.'',
      ''* Interact with running process: If a bash command returns exit code `-1`, this means the process is not yet finished. By setting `is_input` to `true`, the assistant can interact with the running process and send empty `command` to retrieve any additional logs, or send additional text (set `command` to the text) to STDIN of the running process, or send command like `C-c` (Ctrl+C), `C-d` (Ctrl+D), `C-z` (Ctrl+Z) to interrupt the process.'',
      ''* One command at a time: You can only execute one bash command at a time. If you need to run multiple commands sequentially, you can use `&&` or `;` to chain them together.'']\<close>

definition create_cmd_run_tool :: "bool \<Rightarrow> bool \<Rightarrow> dict" where
  \<open>create_cmd_run_tool win32 use_short_description =
     (let description = (if use_short_description then SHORT_BASH_DESCRIPTION else DETAILED_BASH_DESCRIPTION) in
     [(''type'', JStr ''function''),
      (''function'',
        JObj
        [(''name'', JStr EXECUTE_BASH_TOOL_NAME),
         (''description'', JStr (refine_tool_prompt win32 description)),
         (''parameters'',
           JObj
           [(''type'', JStr ''object''),
            (''properties'',
              JObj
              [(''command'',
                 JObj
                 [(''type'', JStr ''string''),
                  (''description'',
                    JStr (refine_tool_prompt win32 ''The bash command to execute. Can be empty string to view additional logs when previous exit code is `-1`. Can be `C-c` (Ctrl+C) to interrupt the currently running process. Note: You can only execute one bash command at a time. If you need to run multiple commands sequentially, you can use `&&` or `;` to chain them together.''))]),
               (''is_input'',
                 JObj
                 [(''type'', JStr ''string''),
                  (''description'',
                    JStr (refine_tool_prompt win32 ''If True, the command is an input to the running process. If False, the command is a bash command to be executed in the terminal. Default is False.'')),
                  (''enum'', JList [JStr ''true'', JStr ''false''])]),
               (''timeout'',
                 JObj
                 [(''type'', JStr ''number''),
                  (''description'',
                    JStr ''Optional. Sets a hard timeout in seconds for the command execution. If not provided, the command will use the default soft timeout behavior.'')]),
               (''security_risk'',
                 JObj
                 [(''type'', JStr ''string''),
                  (''description'', JStr SECURITY_RISK_DESC),
                  (''enum'', JList (map JStr RISK_LEVELS))])]),
            (''required'', JList [JStr ''command'', JStr ''security_risk''])])])])\<close>

definition THINK_DESCRIPTION :: string where
  \<open>THINK_DESCRIPTION =
     join [newline]
     [''Use the tool to think about something. It will not obtain new information or make any changes to the repository, but just log the thought. Use it when complex reasoning or brainstorming is needed.'',
      [],
      ''Common use cases:'',
      ''1. When exploring a repository and discovering the source of a bug, call this tool to brainstorm several unique ways of fixing the bug, and assess which change(s) are likely to be simplest and most effective.'',
      ''2. After receiving test results, use this tool to brainstorm ways to fix failing tests.'',
      ''3. When planning a complex refactoring, use this tool to outline different approaches and their tradeoffs.'',
      ''4. When designing a new feature, use this tool to think through architecture decisions and implementation details.'',
      ''5. When debugging a complex issue, use this tool to organize your thoughts and hypotheses.'',
      [],
      ''The tool simply logs your thought process for better transparency and does not execute any code or make changes.'']\<close>

definition ThinkTool :: dict where
  \<open>ThinkTool =
     [(''type'', JStr ''function''),
      (''function'',
        JObj
        [(''name'', JStr ''think''),
         (''description'', JStr THINK_DESCRIPTION),
         (''parameters'',
           JObj
           [(''type'', JStr ''object''),
            (''properties'',
              JObj
              [(''thought'',
                 JObj
                 [(''type'', JStr ''string''),
                  (''description'', JStr ''The thought to log.'')])]),
            (''required'', JList [JStr ''thought''])])])]\<close>

definition FINISH_DESCRIPTION :: string where
  \<open>FINISH_DESCRIPTION =
     join [newline]
     [''Signals the completion of the current task or conversation.'',
      [],
      ''Use this tool when:'',
      ''- You have successfully completed the user's requested task'',
      ''- You cannot proceed further due to technical limitations or missing information'',
      [],
      ''The message should include:'',
      ''- A clear summary of actions taken and their results'',
      ''- Any next steps for the user'',
      ''- Explanation if you're unable to complete the task'',
      ''- Any follow-up questions if more information is needed'',
      []]\<close>

definition FinishTool :: dict where
  \<open>FinishTool =
     [(''type'', JStr ''function''),
      (''function'',
        JObj
        [(''name'', JStr FINISH_TOOL_NAME),
         (''description'', JStr FINISH_DESCRIPTION),
         (''parameters'',
           JObj
           [(''type'', JStr ''object''),
            (''required'', JList [JStr ''message'']),
            (''properties'',
              JObj
              [(''message'',
                 JObj
                 [(''type'', JStr ''string''),
                  (''description'', JStr ''Final message to send to the user'')])])])])]\<close>

definition CONDENSATION_REQUEST_DESCRIPTION :: string where
  \<open>CONDENSATION_REQUEST_DESCRIPTION =
     ''Request a condensation of the conversation history when the context becomes too long or when you need to focus on the most relevant information.''\<close>

definition CondensationRequestTool :: dict where
  \<open>CondensationRequestTool =
     [(''type'', JStr ''function''),
      (''function'',
        JObj
        [(''name'', JStr ''request_condensation''),
         (''description'', JStr CONDENSATION_REQUEST_DESCRIPTION),
         (''parameters'',
           JObj
           [(''type'', JStr ''object''),
            (''properties'', JObj []),
            (''required'', JList [])])])]\<close>

definition IPYTHON_DESCRIPTION :: string where
  \<open>IPYTHON_DESCRIPTION =
     join [newline]
     [''Run a cell of Python code in an IPython environment.'',
      ''* The assistant should define variables and import packages before using them.'',
      ''* The variable defined in the IPython environment will not be available outside the IPython environment (e.g., in terminal).'',
      []]\<close>

definition IPythonTool :: dict where
  \<open>IPythonTool =
     [(''type'', JStr ''function''),
      (''function'',
        JObj
        [(''name'', JStr ''execute_ipython_cell''),
         (''description'', JStr IPYTHON_DESCRIPTION),
         (''parameters'',
           JObj
           [(''type'', JStr ''object''),
            (''properties'',
              JObj
              [(''code'',
                 JObj
                 [(''type'', JStr ''string''),
                  (''description'',
                    JStr ''The Python code to execute. Supports magic commands like %pip.'')]),
               (''security_risk'',
                 JObj
                 [(''type'', JStr ''string''),
                  (''description'', JStr SECURITY_RISK_DESC),
                  (''enum'', JList (map JStr RISK_LEVELS))])]),
            (''required'', JList [JStr ''code'', JStr ''security_risk''])])])]\<close>

definition FILE_EDIT_DESCRIPTION :: string where
  \<open>FILE_EDIT_DESCRIPTION =
     join [newline]
     [''Edit a file in plain-text format.'',
      ''* The assistant can edit files by specifying the file path and providing a draft of the new file content.'',
      ''* The draft content doesn't need to be exactly the same as the existing file; the assistant may skip unchanged lines using comments like `# ... existing code ...` to indicate unchanged sections.'',
      ''* IMPORTANT: For large files (e.g., > 300 lines), specify the range of lines to edit using `start` and `end` (1-indexed, inclusive). The range should be smaller than 300 lines.'',
      ''* -1 indicates the last line of the file when used as the `start` or `end` value.'',
      ''* Keep at least one unchanged line before the changed section and after the changed section wherever possible.'',
      ''* Make sure to set the `start` and `end` to include all the lines in the original file referred to in the draft of the new file content. Failure to do so will result in bad edits.'',
      ''* To append to a file, set both `start` and `end` to `-1`.'',
      ''* If the file doesn't exist, a new file will be created with the provided content.'',
      ''* IMPORTANT: Make sure you include all the required indentations for each line of code in the draft, otherwise the edited code will be incorrectly indented.'',
      ''* IMPORTANT: Make sure that the first line of the draft is also properly indented and has the required whitespaces.'',
      ''* IMPORTANT: NEVER include or make references to lines from outside the `start` and `end` range in the draft.'',
      ''* IMPORTANT: Start the content with a comment in the format: #EDIT: Reason for edit'',
      ''* IMPORTANT: If you are not appending to the file, avoid setting `start` and `end` to the same value.'',
      [],
      ''**Example 1: general edit for short files**'',
      ''For example, given an existing file `/path/to/file.py` that looks like this:'',
      ''(this is the beginning of the file)'',
      ''1|class MyClass:'',
      ''2|    def __init__(self):'',
      ''3|        self.x = 1'',
      ''4|        self.y = 2'',
      ''5|        self.z = 3'',
      ''6|'',
      ''7|print(MyClass().z)'',
      ''8|print(MyClass().x)'',
      ''(this is the end of the file)'',
      [],
      ''The assistant wants to edit the file to look like this:'',
      ''(this is the beginning of the file)'',
      ''1|class MyClass:'',
      ''2|    def __init__(self):'',
      ''3|        self.x = 1'',
      ''4|        self.y = 2'',
      ''5|'',
      ''6|print(MyClass().y)'',
      ''(this is the end of the file)'',
      [],
      ''The assistant may produce an edit action like this:'',
      ''path="/path/to/file.txt" start=1 end=-1'',
      ''content=```'',
      ''#EDIT: I want to change the value of y to 2'',
      ''class MyClass:'',
      ''    def __init__(self):'',
      ''        # ... existing code ...'',
      ''        self.y = 2'',
      [],
      ''print(MyClass().y)'',
      ''```'',
      [],
      ''**Example 2: append to file for short files**'',
      ''For example, given an existing file `/path/to/file.py` that looks like this:'',
      ''(this is the beginning of the file)'',
      ''1|class MyClass:'',
      ''2|    def __init__(self):'',
      ''3|        self.x = 1'',
      ''4|        self.y = 2'',
      ''5|        self.z = 3'',
      ''6|'',
      ''7|print(MyClass().z)'',
      ''8|print(MyClass().x)'',
      ''(this is the end of the file)'',
      [],
      ''To append the following lines to the file:'',
      ''```python'',
      ''#EDIT: I want to print the value of y'',
      ''print(MyClass().y)'',
      ''```'',
      [],
      ''The assistant may produce an edit action like this:'',
      ''path="/path/to/file.txt" start=-1 end=-1'',
      ''content=```'',
      ''print(MyClass().y)'',
      ''```'',
      [],
      ''**Example 3: edit for long files**'',
      [],
      ''Given an existing file `/path/to/file.py` that looks like this:'',
      ''(1000 more lines above)'',
      ''1001|class MyClass:'',
      ''1002|    def __init__(self):'',
      ''1003|        self.x = 1'',
      ''1004|        self.y = 2'',
      ''1005|        self.z = 3'',
      ''1006|'',
      ''1007|print(MyClass().z)'',
      ''1008|print(MyClass().x)'',
      ''(2000 more lines below)'',
      [],
      ''The assistant wants to edit the file to look like this:'',
      [],
      ''(1000 more lines above)'',
      ''1001|class MyClass:'',
      ''1002|    def __init__(self):'',
      ''1003|        self.x = 1'',
      ''1004|        self.y = 2'',
      ''1005|'',
      ''1006|print(MyClass().y)'',
      ''(2000 more lines below)'',
      [],
      ''The assistant may produce an edit action like this:'',
      ''path="/path/to/file.txt" start=1002 end=1008'',
      ''content=```'',
      ''#EDIT: I want to change the value of y to 2'',
      ''    def __init__(self):'',
      ''        # no changes before'',
      ''        self.y = 2'',
      ''        # self.z is removed'',
      [],
      ''# MyClass().z is removed'',
      ''print(MyClass().y)'',
      ''```'',
      []]\<close>

definition LLMBasedFileEditTool :: dict where
  \<open>LLMBasedFileEditTool =
     [(''type'', JStr ''function''),
      (''function'',
        JObj
        [(''name'', JStr ''edit_file''),
         (''description'', JStr FILE_EDIT_DESCRIPTION),
         (''parameters'',
           JObj
           [(''type'', JStr ''object''),
            (''properties'',
              JObj
              [(''path'',
                 JObj
                 [(''type'', JStr ''string''),
                  (''description'', JStr ''The absolute path to the file to be edited.'')]),
               (''content'',
                 JObj
                 [(''type'', JStr ''string''),
                  (''description'',
                    JStr ''A draft of the new content for the file being edited. Note that the assistant may skip unchanged lines.'')]),
               (''start'',
                 JObj
                 [(''type'', JStr ''integer''),
                  (''description'',
                    JStr ''The starting line number for the edit (1-indexed, inclusive). Default is 1.'')]),
               (''end'',
                 JObj
                 [(''type'', JStr ''integer''),
                  (''description'',
                    JStr ''The ending line number for the edit (1-indexed, inclusive). Default is -1 (end of file).'')]),
               (''security_risk'',
                 JObj
                 [(''type'', JStr ''string''),
                  (''description'', JStr SECURITY_RISK_DESC),
                  (''enum'', JList (map JStr RISK_LEVELS))])]),
            (''required'',
              JList [JStr ''path'', JStr ''content'', JStr ''security_risk''])])])]\<close>

definition BROWSER_DESCRIPTION :: string where
  \<open>BROWSER_DESCRIPTION =
     join [newline]
     [''Interact with the browser using Python code. Use it ONLY when you need to interact with a webpage.'',
      [],
      ''See the description of "code" parameter for more details.'',
      [],
      ''Multiple actions can be provided at once, but will be executed sequentially without any feedback from the page.'',
      ''More than 2-3 actions usually leads to failure or unexpected behavior. Example:'',
      ''fill('a12', 'example with "quotes"')'',
      ''click('a51')'',
      ''click('48', button='middle', modifiers=['Shift'])'',
      [],
      ''You can also use the browser to view pdf, png, jpg files.'',
      ''You should first check the content of `tmp/oh-server-url` under the OpenHands repo (or `$OPENHANDS_TMP_DIR/oh-server-url` if set) to get the server url, and then use it to view the file by `goto("{server_url}/view?path={absolute_file_path}")`.'',
      ''For example: `goto("http://localhost:8000/view?path=/workspace/test_document.pdf")`'',
      ''Note: The file should be downloaded to the local machine first before using the browser to view it.'',
      []]\<close>

definition BROWSER_TOOL_DESCRIPTION :: string where
  \<open>BROWSER_TOOL_DESCRIPTION =
     join [newline]
     [[],
      ''The following 15 functions are available. Nothing else is supported.'',
      [],
      ''goto(url: str)'',
      ''    Description: Navigate to a url.'',
      ''    Examples:'',
      ''        goto('http://www.example.com')'',
      [],
      ''go_back()'',
      ''    Description: Navigate to the previous page in history.'',
      ''    Examples:'',
      ''        go_back()'',
      [],
      ''go_forward()'',
      ''    Description: Navigate to the next page in history.'',
      ''    Examples:'',
      ''        go_forward()'',
      [],
      ''noop(wait_ms: float = 1000)'',
      ''    Description: Do nothing, and optionally wait for the given time (in milliseconds).'',
      ''    You can use this to get the current page content and/or wait for the page to load.'',
      ''    Examples:'',
      ''        noop()'',
      [],
      ''        noop(500)'',
      [],
      ''scroll(delta_x: float, delta_y: float)'',
      ''    Description: Scroll horizontally and vertically. Amounts in pixels, positive for right or down scrolling, negative for left or up scrolling. Dispatches a wheel event.'',
      ''    Examples:'',
      ''        scroll(0, 200)'',
      [],
      ''        scroll(-50.2, -100.5)'',
      [],
      ''fill(bid: str, value: str)'',
      ''    Description: Fill out a form field. It focuses the element and triggers an input event with the entered text. It works for <input>, <textarea> and [contenteditable] elements.'',
      ''    Examples:'',
      ''        fill('237', 'example value')'',
      [],
      ''        fill('45', 'multi-line'',
      ''example')'',
      [],
      ''        fill('a12', 'example with "quotes"')'',
      [],
      ''select_option(bid: str, options: str | list[str])'',
      ''    Description: Select one or multiple options in a <select> element. You can specify option value or label to select. Multiple options can be selected.'',
      ''    Examples:'',
      ''        select_option('a48', 'blue')'',
      [],
      ''        select_option('c48', ['red', 'green', 'blue'])'',
      [],
      ''click(bid: str, button: Literal['left', 'middle', 'right'] = 'left', modifiers: list[typing.Literal['Alt', 'Control', 'ControlOrMeta', 'Meta', 'Shift']] = [])'',
      ''    Description: Click an element.'',
      ''    Examples:'',
      ''        click('a51')'',
      [],
      ''        click('b22', button='right')'',
      [],
      ''        click('48', button='middle', modifiers=['Shift'])'',
      [],
      ''dblclick(bid: str, button: Literal['left', 'middle', 'right'] = 'left', modifiers: list[typing.Literal['Alt', 'Control', 'ControlOrMeta', 'Meta', 'Shift']] = [])'',
      ''    Description: Double click an element.'',
      ''    Examples:'',
      ''        dblclick('12')'',
      [],
      ''        dblclick('ca42', button='right')'',
      [],
      ''        dblclick('178', button='middle', modifiers=['Shift'])'',
      [],
      ''hover(bid: str)'',
      ''    Description: Hover over an element.'',
      ''    Examples:'',
      ''        hover('b8')'',
      [],
      ''press(bid: str, key_comb: str)'',
      ''    Description: Focus the matching element and press a combination of keys. It accepts the logical key names that are emitted in the keyboardEvent.key property of the keyboard events: Backquote, Minus, Equal, Backslash, Backspace, Tab, Delete, Escape, ArrowDown, End, Enter, Home, Insert, PageDown, PageUp, ArrowRight, ArrowUp, F1 - F12, Digit0 - Digit9, KeyA - KeyZ, etc. You can alternatively specify a single character you'd like to produce such as "a" or "#". Following modification shortcuts are also supported: Shift, Control, Alt, Meta, ShiftLeft, ControlOrMeta. ControlOrMeta resolves to Control on Windows and Linux and to Meta on macOS.'',
      ''    Examples:'',
      ''        press('88', 'Backspace')'',
      [],
      ''        press('a26', 'ControlOrMeta+a')'',
      [],
      ''        press('a61', 'Meta+Shift+t')'',
      [],
      ''focus(bid: str)'',
      ''    Description: Focus the matching element.'',
      ''    Examples:'',
      ''        focus('b455')'',
      [],
      ''clear(bid: str)'',
      ''    Description: Clear the input field.'',
      ''    Examples:'',
      ''        clear('996')'',
      [],
      ''drag_and_drop(from_bid: str, to_bid: str)'',
      ''    Description: Perform a drag & drop. Hover the element that will be dragged. Press left mouse button. Move mouse to the element that will receive the drop. Release left mouse button.'',
      ''    Examples:'',
      ''        drag_and_drop('56', '498')'',
      [],
      ''upload_file(bid: str, file: str | list[str])'',
      ''    Description: Click an element and wait for a "filechooser" event, then select one or multiple input files for upload. Relative file paths are resolved relative to the current working directory. An empty list clears the selected files.'',
      ''    Examples:'',
      ''        upload_file('572', '/home/user/my_receipt.pdf')'',
      [],
      ''        upload_file('63', ['/home/bob/Documents/image.jpg', '/home/bob/Documents/file.zip'])'',
      []]\<close>

definition BrowserTool :: dict where
  \<open>BrowserTool =
     [(''type'', JStr ''function''),
      (''function'',
        JObj
        [(''name'', JStr BROWSER_TOOL_NAME),
         (''description'', JStr BROWSER_DESCRIPTION),
         (''parameters'',
           JObj
           [(''type'', JStr ''object''),
            (''properties'',
              JObj
              [(''code'',
                 JObj
                 [(''type'', JStr ''string''),
                  (''description'',
                    JStr (join [newline]
                      [''The Python code that interacts with the browser.'',
                       []] @ BROWSER_TOOL_DESCRIPTION))]),
               (''security_risk'',
                 JObj
                 [(''type'', JStr ''string''),
                  (''description'', JStr SECURITY_RISK_DESC),
                  (''enum'', JList (map JStr RISK_LEVELS))])]),
            (''required'', JList [JStr ''code'', JStr ''security_risk''])])])]\<close>

definition DETAILED_STR_REPLACE_EDITOR_DESCRIPTION :: string where
  \<open>DETAILED_STR_REPLACE_EDITOR_DESCRIPTION =
     join [newline]
     [''Custom editing tool for viewing, creating and editing files in plain-text format'',
      ''* State is persistent across command calls and discussions with the user'',
      ''* If `path` is a text file, `view` displays the result of applying `cat -n`. If `path` is a directory, `view` lists non-hidden files and directories up to 2 levels deep'',
      ''* The following binary file extensions can be viewed in Markdown format: [".xlsx", ".pptx", ".wav", ".mp3", ".m4a", ".flac", ".pdf", ".docx"]. IT DOES NOT HANDLE IMAGES.'',
      ''* The `create` command cannot be used if the specified `path` already exists as a file'',
      ''* If a `command` generates a long output, it will be truncated and marked with `<response clipped>`'',
      ''* The `undo_edit` command will revert the last edit made to the file at `path`'',
      ''* This tool can be used for creating and editing files in plain-text format.'',
      [],
      [],
      ''Before using this tool:'',
      ''1. Use the view tool to understand the file's contents and context'',
      ''2. Verify the directory path is correct (only applicable when creating new files):'',
      ''   - Use the view tool to verify the parent directory exists and is the correct location'',
      [],
      ''When making edits:'',
      ''   - Ensure the edit results in idiomatic, correct code'',
      ''   - Do not leave the code in a broken state'',
      ''   - Always use absolute file paths (starting with /)'',
      [],
      ''CRITICAL REQUIREMENTS FOR USING THIS TOOL:'',
      [],
      ''1. EXACT MATCHING: The `old_str` parameter must match EXACTLY one or more consecutive lines from the file, including all whitespace and indentation. The tool will fail if `old_str` matches multiple locations or doesn't match exactly with the file content.'',
      [],
      ''2. UNIQUENESS: The `old_str` must uniquely identify a single instance in the file:'',
      ''   - Include sufficient context before and after the change point (3-5 lines recommended)'',
      ''   - If not unique, the replacement will not be performed'',
      [],
      ''3. REPLACEMENT: The `new_str` parameter should contain the edited lines that replace the `old_str`. Both strings must be different.'',
      [],
      ''Remember: when making multiple file edits in a row to the same file, you should prefer to send all edits in a single message with multiple calls to this tool, rather than multiple messages with a single call each.'',
      []]\<close>

definition SHORT_STR_REPLACE_EDITOR_DESCRIPTION :: string where
  \<open>SHORT_STR_REPLACE_EDITOR_DESCRIPTION =
     join [newline]
     [''Custom editing tool for viewing, creating and editing files in plain-text format'',
      ''* State is persistent across command calls and discussions with the user'',
      ''* If `path` is a file, `view` displays the result of applying `cat -n`. If `path` is a directory, `view` lists non-hidden files and directories up to 2 levels deep'',
      ''* The `create` command cannot be used if the specified `path` already exists as a file'',
      ''* If a `command` generates a long output, it will be truncated and marked with `<response clipped>`'',
      ''* The `undo_edit` command will revert the last edit made to the file at `path`'',
      ''Notes for using the `str_replace` command:'',
      ''* The `old_str` parameter should match EXACTLY one or more consecutive lines from the original file. Be mindful of whitespaces!'',
      ''* If the `old_str` parameter is not unique in the file, the replacement will not be performed. Make sure to include enough context in `old_str` to make it unique'',
      ''* The `new_str` parameter should contain the edited lines that should replace the `old_str`'',
      []]\<close>

text \<open>\<open>_get_workspace_mount_path_from_env\<close>.\<close>

record workspace_env =
  sandbox_volumes :: "string option"
  abspath :: "string \<Rightarrow> string"
  getcwd :: string

definition DEFAULT_WORKSPACE_MOUNT_PATH_IN_SANDBOX :: string where
  "DEFAULT_WORKSPACE_MOUNT_PATH_IN_SANDBOX = ''/workspace''"

definition workspace_mount :: "string \<Rightarrow> string option" where
  "workspace_mount mount =
     (case split_on '':'' mount of
        host # target # _ \<Rightarrow> if target = ''/workspace'' then Some host else None
      | _ \<Rightarrow> None)"

definition get_workspace_mount_path_from_env :: "workspace_env \<Rightarrow> string option \<Rightarrow> string" where
  "get_workspace_mount_path_from_env env runtime_type =
     (if runtime_type \<in> {Some ''local'', Some ''cli''} then
        (case sandbox_volumes env of
           None \<Rightarrow> getcwd env
         | Some [] \<Rightarrow> getcwd env
         | Some s \<Rightarrow>
             (case List.map_filter workspace_mount (split_on '','' s) of
                host # _ \<Rightarrow> abspath env host
              | [] \<Rightarrow> getcwd env))
      else DEFAULT_WORKSPACE_MOUNT_PATH_IN_SANDBOX)"

definition create_str_replace_editor_tool :: "workspace_env \<Rightarrow> bool \<Rightarrow> string option \<Rightarrow> string option \<Rightarrow> dict" where
  \<open>create_str_replace_editor_tool env use_short_description workspace_mount_path_in_sandbox runtime_type =
     (let workspace_path = (case workspace_mount_path_in_sandbox of
          Some p \<Rightarrow> p | None \<Rightarrow> get_workspace_mount_path_from_env env runtime_type);
        description = (if use_short_description then SHORT_STR_REPLACE_EDITOR_DESCRIPTION
          else DETAILED_STR_REPLACE_EDITOR_DESCRIPTION) in
     [(''type'', JStr ''function''),
      (''function'',
        JObj
        [(''name'', JStr STR_REPLACE_EDITOR_TOOL_NAME),
         (''description'', JStr description),
         (''parameters'',
           JObj
           [(''type'', JStr ''object''),
            (''properties'',
              JObj
              [(''command'',
                 JObj
                 [(''description'',
                    JStr ''The commands to run. Allowed options are: `view`, `create`, `str_replace`, `insert`, `undo_edit`.''),
                  (''enum'',
                    JList [JStr ''view'', JStr ''create'', JStr ''str_replace'', JStr ''insert'', JStr ''undo_edit'']),
                  (''type'', JStr ''string'')]),
               (''path'',
                 JObj
                 [(''description'',
                    JStr (''Absolute path to file or directory, e.g. `'' @ workspace_path @ ''/file.py` or `'' @ workspace_path @ ''`.'')),
                  (''type'', JStr ''string'')]),
               (''file_text'',
                 JObj
                 [(''description'',
                    JStr ''Required parameter of `create` command, with the content of the file to be created.''),
                  (''type'', JStr ''string'')]),
               (''old_str'',
                 JObj
                 [(''description'',
                    JStr ''Required parameter of `str_replace` command containing the string in `path` to replace.''),
                  (''type'', JStr ''string'')]),
               (''new_str'',
                 JObj
                 [(''description'',
                    JStr ''Optional parameter of `str_replace` command containing the new string (if not given, no string will be added). Required parameter of `insert` command containing the string to insert.''),
                  (''type'', JStr ''string'')]),
               (''insert_line'',
                 JObj
                 [(''description'',
                    JStr ''Required parameter of `insert` command. The `new_str` will be inserted AFTER the line `insert_line` of `path`.''),
                  (''type'', JStr ''integer'')]),
               (''view_range'',
                 JObj
                 [(''description'',
                    JStr ''Optional parameter of `view` command when `path` points to a file. If none is given, the full file is shown. If provided, the file will be shown in the indicated line number range, e.g. [11, 12] will show lines 11 and 12. Indexing at 1 to start. Setting `[start_line, -1]` shows all lines from `start_line` to the end of the file.''),
                  (''items'',
                    JObj
                    [(''type'', JStr ''integer'')]),
                  (''type'', JStr ''array'')]),
               (''security_risk'',
                 JObj
                 [(''type'', JStr ''string''),
                  (''description'', JStr SECURITY_RISK_DESC),
                  (''enum'', JList (map JStr RISK_LEVELS))])]),
            (''required'',
              JList [JStr ''command'', JStr ''path'', JStr ''security_risk''])])])])\<close>

definition DETAILED_TASK_TRACKER_DESCRIPTION :: string where
  \<open>DETAILED_TASK_TRACKER_DESCRIPTION =
     join [newline]
     [''This tool provides structured task management capabilities for development workflows.'',
      ''It enables systematic tracking of work items, progress monitoring, and efficient'',
      ''organization of complex development activities.'',
      [],
      ''The tool maintains visibility into project status and helps communicate'',
      ''progress effectively to users.'',
      [],
      ''## Application Guidelines'',
      [],
      ''Utilize this tool in the following situations:'',
      [],
      ''1. Multi-phase development work - When projects involve multiple sequential or'',
      ''   parallel activities'',
      ''2. Complex implementation tasks - Work requiring systematic planning and'',
      ''   coordination across multiple components'',
      ''3. Explicit user request for task organization - When users specifically ask'',
      ''   for structured task management'',
      ''4. Multiple concurrent requirements - When users present several work items'',
      ''   that need coordination'',
      ''5. Project initiation - Capture and organize user requirements at project start'',
      ''6. Work commencement - Update task status to in_progress before beginning'',
      ''   implementation. Maintain focus by limiting active work to one task'',
      ''7. Task completion - Update status to done and identify any additional work'',
      ''   that emerged during implementation'',
      [],
      ''## Situations Where Tool Usage Is Unnecessary'',
      [],
      ''Avoid using this tool when:'',
      [],
      ''1. Single atomic tasks that require no decomposition'',
      ''2. Trivial operations where tracking adds no organizational value'',
      ''3. Simple activities completable in minimal steps'',
      ''4. Pure information exchange or discussion'',
      [],
      ''Note: For single straightforward tasks, proceed with direct implementation'',
      ''rather than creating tracking overhead.'',
      [],
      ''## Usage Scenarios'',
      [],
      ''**Scenario A: Feature Development with Validation**'',
      ''User request: "Build a user authentication system with login/logout functionality.'',
      ''Don't forget to include input validation and error handling!"'',
      [],
      ''Response approach: I'll implement a user authentication system with comprehensive'',
      ''validation. Let me organize this work systematically.'',
      [],
      ''*Task breakdown includes:*'',
      ''1. Design authentication API endpoints and data models'',
      ''2. Implement user login/logout controllers with session management'',
      ''3. Add client-side form validation and error display'',
      ''4. Create backend input sanitization and security checks'',
      ''5. Implement comprehensive error handling for edge cases'',
      ''6. Perform integration testing and fix any issues'',
      [],
      ''**Scenario B: Codebase Refactoring**'',
      ''User request: "I need to update all instances of the method 'fetchData' to'',
      [CHR 0x27] @ ''retrieveInformation' throughout the entire project"'',
      [],
      ''Response approach: Let me first analyze your codebase to identify all locations'',
      ''where 'fetchData' appears.'',
      [],
      ''*After code analysis*'',
      [],
      ''I've located 12 occurrences of 'fetchData' across 6 files in your project.'',
      ''I'll create a systematic plan to update these references.'',
      [],
      ''*Organized task list includes specific file-by-file updates*'',
      [],
      ''**Scenario C: Multi-feature Development**'',
      ''User request: "Set up a blog platform with these components: admin dashboard,'',
      ''article management, comment system, and user profiles."'',
      [],
      ''Response approach: I'll help build your blog platform. Let me break down these'',
      ''components into manageable implementation phases.'',
      [],
      ''*Creates structured plan with each feature decomposed into specific development tasks*'',
      [],
      ''## Counter-examples - Direct Implementation Preferred'',
      [],
      ''**Counter-example A: Simple inquiry**'',
      ''User request: "What's the syntax for a for loop in JavaScript?"'',
      [],
      ''Response approach: Here's how to write a for loop in JavaScript:'',
      [],
      ''```javascript'',
      ''for (let i = 0; i < array.length; i++) {'',
      ''    console.log(array[i]);'',
      ''}'',
      ''```'',
      [],
      ''*No task tracking needed - single informational response*'',
      [],
      ''**Counter-example B: Minor modification**'',
      ''User request: "Please add a docstring to the processPayment function explaining'',
      ''its parameters."'',
      [],
      ''Response approach: I'll add a docstring to explain the processPayment function.'',
      [],
      ''*Direct edit without task tracking for simple modification*'',
      [],
      ''## Status Management and Workflow'',
      [],
      ''1. **Status Values**: Track work using these states:'',
      ''   - todo: Not yet initiated'',
      ''   - in_progress: Currently active (maintain single focus)'',
      ''   - done: Successfully completed'',
      [],
      ''2. **Workflow Practices**:'',
      ''   - Update status dynamically as work progresses'',
      ''   - Mark completion immediately upon task finish'',
      ''   - Limit active work to ONE task at any given time'',
      ''   - Complete current activities before initiating new ones'',
      ''   - Remove obsolete tasks from tracking entirely'',
      [],
      ''3. **Completion Criteria**:'',
      ''   - Mark tasks as done only when fully achieved'',
      ''   - Keep status as in_progress if errors, blocks, or partial completion exist'',
      ''   - Create new tasks for discovered issues or dependencies'',
      ''   - Never mark done when:'',
      ''       - Test suites are failing'',
      ''       - Implementation remains incomplete'',
      ''       - Unresolved errors persist'',
      ''       - Required resources are unavailable'',
      [],
      ''4. **Task Organization**:'',
      ''   - Write precise, actionable descriptions'',
      ''   - Decompose complex work into manageable units'',
      ''   - Use descriptive, clear naming conventions'',
      [],
      ''When uncertain, favor using this tool. Proactive task management demonstrates'',
      ''systematic approach and ensures comprehensive requirement fulfillment.'',
      []]\<close>

definition SHORT_TASK_TRACKER_DESCRIPTION :: string where
  \<open>SHORT_TASK_TRACKER_DESCRIPTION =
     join [newline]
     [''Provides structured task management for development workflows, enabling progress'',
      ''tracking and systematic organization of complex coding activities.'',
      [],
      ''* Apply to multi-phase projects (3+ distinct steps) or when managing multiple user requirements'',
      ''* Update status (todo/in_progress/done) dynamically throughout work'',
      ''* Maintain single active task focus at any time'',
      ''* Mark completion immediately upon task finish'',
      ''* Decompose complex work into manageable, actionable units'',
      []]\<close>

definition create_task_tracker_tool :: "bool \<Rightarrow> dict" where
  \<open>create_task_tracker_tool use_short_description =
     (let description = (if use_short_description then SHORT_TASK_TRACKER_DESCRIPTION else DETAILED_TASK_TRACKER_DESCRIPTION) in
     [(''type'', JStr ''function''),
      (''function'',
        JObj
        [(''name'', JStr TASK_TRACKER_TOOL_NAME),
         (''description'', JStr description),
         (''parameters'',
           JObj
           [(''type'', JStr ''object''),
            (''properties'',
              JObj
              [(''command'',
                 JObj
                 [(''type'', JStr ''string''),
                  (''enum'', JList [JStr ''view'', JStr ''plan'']),
                  (''description'',
                    JStr ''The command to execute. `view` shows the current task list. `plan` creates or updates the task list based on provided requirements and progress. Always `view` the current list before making changes.'')]),
               (''task_list'',
                 JObj
                 [(''type'', JStr ''array''),
                  (''description'',
                    JStr ''The full task list. Required parameter of `plan` command.''),
                  (''items'',
                    JObj
                    [(''type'', JStr ''object''),
                     (''properties'',
                       JObj
                       [(''id'',
                          JObj
                          [(''type'', JStr ''string''),
                           (''description'', JStr ''Unique task identifier'')]),
                        (''title'',
                          JObj
                          [(''type'', JStr ''string''),
                           (''description'', JStr ''Brief task description'')]),
                        (''status'',
                          JObj
                          [(''type'', JStr ''string''),
                           (''description'', JStr ''Current task status''),
                           (''enum'', JList [JStr ''todo'', JStr ''in_progress'', JStr ''done''])]),
                        (''notes'',
                          JObj
                          [(''type'', JStr ''string''),
                           (''description'', JStr ''Optional additional context or details'')])]),
                     (''required'', JList [JStr ''title'', JStr ''status'', JStr ''id'']),
                     (''additionalProperties'', JBool False)])])]),
            (''required'', JList [JStr ''command'']),
            (''additionalProperties'', JBool False)])])])\<close>

end
