(* ===== verification/Agent_Tools_Search.thy ===== *)
theory Agent_Tools_Search
  imports Agent_Tools
begin

text \<open>
  \<open>agenthub/readonly_agent/tools/\<close> and \<open>agenthub/loc_agent/tools/\<close>: the tools of the agents that only read
  and search.
\<close>

section \<open>The tools of the read-only agent\<close>

definition GLOB_DESCRIPTION :: string where
  \<open>GLOB_DESCRIPTION =
     join [newline]
     [''Fast file pattern matching tool.'',
      ''* Supports glob patterns like "**/*.js" or "src/**/*.ts"'',
      ''* Use this tool when you need to find files by name patterns'',
      ''* Returns matching file paths sorted by modification time'',
      ''* Only the first 100 results are returned. Consider narrowing your search with stricter glob patterns or provide path parameter if you need more results.'',
      ''* When you are doing an open ended search that may require multiple rounds of globbing and grepping, use the Agent tool instead'',
      []]\<close>

definition GlobTool :: dict where
  \<open>GlobTool =
     [(''type'', JStr ''function''),
      (''function'',
        JObj
        [(''name'', JStr ''glob''),
         (''description'', JStr GLOB_DESCRIPTION),
         (''parameters'',
           JObj
           [(''type'', JStr ''object''),
            (''properties'',
              JObj
              [(''pattern'',
                 JObj
                 [(''type'', JStr ''string''),
                  (''description'',
                    JStr ''The glob pattern to match files (e.g., "**/*.js", "src/**/*.ts")'')]),
               (''path'',
                 JObj
                 [(''type'', JStr ''string''),
                  (''description'',
                    JStr ''The directory (absolute path) to search in. Defaults to the current working directory.'')])]),
            (''required'', JList [JStr ''pattern''])])])]\<close>

definition GREP_DESCRIPTION :: string where
  \<open>GREP_DESCRIPTION =
     join [newline]
     [''Fast content search tool.'',
      ''* Searches file contents using regular expressions'',
      ''* Supports full regex syntax (eg. "log.*Error", "function'' @ [CHR 0x5C] @ ''s+'' @ [CHR 0x5C] @ ''w+", etc.)'',
      ''* Filter files by pattern with the include parameter (eg. "*.js", "*.{ts,tsx}")'',
      ''* Returns matching file paths sorted by modification time.'',
      ''* Only the first 100 results are returned. Consider narrowing your search with stricter regex patterns or provide path parameter if you need more results.'',
      ''* Use this tool when you need to find files containing specific patterns'',
      ''* When you are doing an open ended search that may require multiple rounds of globbing and grepping, use the Agent tool instead'',
      []]\<close>

definition GrepTool :: dict where
  \<open>GrepTool =
     [(''type'', JStr ''function''),
      (''function'',
        JObj
        [(''name'', JStr ''grep''),
         (''description'', JStr GREP_DESCRIPTION),
         (''parameters'',
           JObj
           [(''type'', JStr ''object''),
            (''properties'',
              JObj
              [(''pattern'',
                 JObj
                 [(''type'', JStr ''string''),
                  (''description'', JStr ''The regex pattern to search for in file contents'')]),
               (''path'',
                 JObj
                 [(''type'', JStr ''string''),
                  (''description'',
                    JStr ''The directory (absolute path) to search in. Defaults to the current working directory.'')]),
               (''include'',
                 JObj
                 [(''type'', JStr ''string''),
                  (''description'',
                    JStr ''Optional file pattern to filter which files to search (e.g., "*.js", "*.{ts,tsx}")'')])]),
            (''required'', JList [JStr ''pattern''])])])]\<close>

definition VIEW_DESCRIPTION :: string where
  \<open>VIEW_DESCRIPTION =
     join [newline]
     [''Reads a file or list directories from the local filesystem.'',
      ''* The path parameter must be an absolute path, not a relative path.'',
      ''* If `path` is a file, `view` displays the result of applying `cat -n`; if `path` is a directory, `view` lists non-hidden files and directories up to 2 levels deep.'',
      ''* You can optionally specify a line range to view (especially handy for long files), but it's recommended to read the whole file by not providing this parameter.'',
      ''* For image files, the tool will display the image for you.'',
      ''* For large files that exceed the display limit:'',
      ''  - The output will be truncated and marked with `<response clipped>`'',
      ''  - Use the `view_range` parameter to view specific sections after the truncation point'',
      []]\<close>

definition ViewTool :: dict where
  \<open>ViewTool =
     [(''type'', JStr ''function''),
      (''function'',
        JObj
        [(''name'', JStr ''view''),
         (''description'', JStr VIEW_DESCRIPTION),
         (''parameters'',
           JObj
           [(''type'', JStr ''object''),
            (''properties'',
              JObj
              [(''path'',
                 JObj
                 [(''type'', JStr ''string''),
                  (''description'',
                    JStr ''The absolute path to the file to read or directory to list'')]),
               (''view_range'',
                 JObj
                 [(''description'',
                    JStr ''Optional parameter of `view` command when `path` points to a *file*. If none is given, the full file is shown. If provided, the file will be shown in the indicated line number range, e.g. [11, 12] will show lines 11 and 12. Indexing at 1 to start. Setting `[start_line, -1]` shows all lines from `start_line` to the end of the file.''),
                  (''items'',
                    JObj
                    [(''type'', JStr ''integer'')]),
                  (''type'', JStr ''array'')])]),
            (''required'', JList [JStr ''path''])])])]\<close>

definition READ_ONLY_TOOLS :: "dict list" where
  "READ_ONLY_TOOLS = [ViewTool, GrepTool, GlobTool]"

section \<open>The tools of the localisation agent\<close>

definition SEARCH_ENTITY_DESCRIPTION :: string where
  \<open>SEARCH_ENTITY_DESCRIPTION =
     join [newline]
     [[],
      ''Searches the codebase to retrieve the complete implementations of specified entities based on the provided entity names.'',
      ''The tool can handle specific entity queries such as function names, class names, or file paths.'',
      [],
      ''**Usage Example:**'',
      ''# Search for a specific function implementation'',
      ''get_entity_contents(['src/my_file.py:MyClass.func_name'])'',
      [],
      ''# Search for a file's complete content'',
      ''get_entity_contents(['src/my_file.py'])'',
      [],
      ''**Entity Name Format:**'',
      ''- To specify a function or class, use the format: `file_path:QualifiedName`'',
      ''  (e.g., 'src/helpers/math_helpers.py:MathUtils.calculate_sum').'',
      ''- To search for a file's content, use only the file path (e.g., 'src/my_file.py').'',
      []]\<close>

definition SEARCH_REPO_DESCRIPTION :: string where
  \<open>SEARCH_REPO_DESCRIPTION =
     join [newline]
     [''Searches the codebase to retrieve relevant code snippets based on given queries(terms or line numbers).'',
      ''** Note:'',
      ''- Either `search_terms` or `line_nums` must be provided to perform a search.'',
      ''- If `search_terms` are provided, it searches for code snippets based on each term:'',
      ''- If `line_nums` is provided, it searches for code snippets around the specified lines within the file defined by `file_path_or_pattern`.'',
      [],
      ''** Example Usage:'',
      ''# Search for code content contain keyword `order`, `bill`'',
      ''search_code_snippets(search_terms=["order", "bill"])'',
      [],
      ''# Search for a class'',
      ''search_code_snippets(search_terms=["MyClass"])'',
      [],
      ''# Search for context around specific lines (10 and 15) within a file'',
      ''search_code_snippets(line_nums=[10, 15], file_path_or_pattern='src/example.py')'',
      []]\<close>

definition SearchEntityTool :: dict where
  \<open>SearchEntityTool =
     [(''type'', JStr ''function''),
      (''function'',
        JObj
        [(''name'', JStr ''get_entity_contents''),
         (''description'', JStr SEARCH_ENTITY_DESCRIPTION),
         (''parameters'',
           JObj
           [(''type'', JStr ''object''),
            (''properties'',
              JObj
              [(''entity_names'',
                 JObj
                 [(''type'', JStr ''array''),
                  (''items'',
                    JObj
                    [(''type'', JStr ''string'')]),
                  (''description'',
                    JStr ''A list of entity names to query. Each entity name can represent a function, class, or file. For functions or classes, the format should be 'file_path:QualifiedName' (e.g., 'src/helpers/math_helpers.py:MathUtils.calculate_sum'). For files, use just the file path (e.g., 'src/my_file.py').'')])]),
            (''required'', JList [JStr ''entity_names''])])])]\<close>

definition SearchRepoTool :: dict where
  \<open>SearchRepoTool =
     [(''type'', JStr ''function''),
      (''function'',
        JObj
        [(''name'', JStr ''search_code_snippets''),
         (''description'', JStr SEARCH_REPO_DESCRIPTION),
         (''parameters'',
           JObj
           [(''type'', JStr ''object''),
            (''properties'',
              JObj
              [(''search_terms'',
                 JObj
                 [(''type'', JStr ''array''),
                  (''items'',
                    JObj
                    [(''type'', JStr ''string'')]),
                  (''description'',
                    JStr ''A list of names, keywords, or code snippets to search for within the codebase. This can include potential function names, class names, or general code fragments. Either `search_terms` or `line_nums` must be provided to perform a search.'')]),
               (''line_nums'',
                 JObj
                 [(''type'', JStr ''array''),
                  (''items'',
                    JObj
                    [(''type'', JStr ''integer'')]),
                  (''description'',
                    JStr ''Specific line numbers to locate code snippets within a specified file. Must be used alongside a valid `file_path_or_pattern`. Either `line_nums` or `search_terms` must be provided to perform a search.'')]),
               (''file_path_or_pattern'',
                 JObj
                 [(''type'', JStr ''string''),
                  (''description'',
                    JStr ''A glob pattern or specific file path used to filter search results to particular files or directories. Defaults to "**/*.py", meaning all Python files are searched by default. If `line_nums` are provided, this must specify a specific file path.''),
                  (''default'', JStr ''**/*.py'')])]),
            (''required'', JList [])])])]\<close>

definition SIMPLIFIED_STRUCTURE_EXPLORER_DESCRIPTION :: string where
  \<open>SIMPLIFIED_STRUCTURE_EXPLORER_DESCRIPTION =
     join [newline]
     [[],
      ''A unified tool that traverses a pre-built code graph to retrieve dependency structure around specified entities,'',
      ''with options to explore upstream or downstream, and control traversal depth and filters for entity and dependency types.'',
      []]\<close>

definition SIMPLIFIED_TREE_EXAMPLE :: string where
  \<open>SIMPLIFIED_TREE_EXAMPLE =
     join [newline]
     [[],
      ''Example Usage:'',
      ''1. Exploring Downstream Dependencies:'',
      ''    ```'',
      ''    explore_tree_structure('',
      ''        start_entities=['src/module_a.py:ClassA'],'',
      ''        direction='downstream','',
      ''        traversal_depth=2,'',
      ''        dependency_type_filter=['invokes', 'imports']'',
      ''    )'',
      ''    ```'',
      ''2. Exploring the repository structure from the root directory (/) up to two levels deep:'',
      ''    ```'',
      ''    explore_tree_structure('',
      ''      start_entities=['/'],'',
      ''      traversal_depth=2,'',
      ''      dependency_type_filter=['contains']'',
      ''    )'',
      ''    ```'',
      ''3. Generate Class Diagrams:'',
      ''    ```'',
      ''    explore_tree_structure('',
      ''        start_entities=selected_entity_ids,'',
      ''        direction='both','',
      ''        traverse_depth=-1,'',
      ''        dependency_type_filter=['inherits']'',
      ''    )'',
      ''    ```'',
      []]\<close>

definition DETAILED_STRUCTURE_EXPLORER_DESCRIPTION :: string where
  \<open>DETAILED_STRUCTURE_EXPLORER_DESCRIPTION =
     join [newline]
     [[],
      ''Unified repository exploring tool that traverses a pre-built code graph to retrieve dependency structure around specified entities.'',
      ''The search can be controlled to traverse upstream (exploring dependencies that entities rely on) or downstream (exploring how entities impact others), with optional limits on traversal depth and filters for entity and dependency types.'',
      [],
      ''Code Graph Definition:'',
      ''* Entity Types: 'directory', 'file', 'class', 'function'.'',
      ''* Dependency Types: 'contains', 'imports', 'invokes', 'inherits'.'',
      ''* Hierarchy:'',
      ''    - Directories contain files and subdirectories.'',
      ''    - Files contain classes and functions.'',
      ''    - Classes contain inner classes and methods.'',
      ''    - Functions can contain inner functions.'',
      ''* Interactions:'',
      ''    - Files/classes/functions can import classes and functions.'',
      ''    - Classes can inherit from other classes.'',
      ''    - Classes and functions can invoke others (invocations in a class's `__init__` are attributed to the class).'',
      ''Entity ID:'',
      ''* Unique identifier including file path and module path.'',
      ''* Here's an example of an Entity ID: `"interface/C.py:C.method_a.inner_func"` identifies function `inner_func` within `method_a` of class `C` in `"interface/C.py"`.'',
      [],
      ''Notes:'',
      ''* Traversal Control: The `traversal_depth` parameter specifies how deep the function should explore the graph starting from the input entities.'',
      ''* Filtering: Use `entity_type_filter` and `dependency_type_filter` to narrow down the scope of the search, focusing on specific entity types and relationships.'',
      [],
      []]\<close>

definition DETAILED_TREE_EXAMPLE :: string where
  \<open>DETAILED_TREE_EXAMPLE =
     join [newline]
     [[],
      ''Example Usage:'',
      ''1. Exploring Outward Dependencies:'',
      ''    ```'',
      ''    explore_tree_structure('',
      ''        start_entities=['src/module_a.py:ClassA'],'',
      ''        direction='downstream','',
      ''        traversal_depth=2,'',
      ''        dependency_type_filter=['invokes', 'imports']'',
      ''    )'',
      ''    ```'',
      ''    This retrieves the dependencies of `ClassA` up to 2 levels deep, focusing only on classes and functions with 'invokes' and 'imports' relationships.'',
      [],
      ''2. Exploring Inward Dependencies:'',
      ''    ```'',
      ''    explore_tree_structure('',
      ''        start_entities=['src/module_b.py:FunctionY'],'',
      ''        direction='upstream','',
      ''        traversal_depth=-1'',
      ''    )'',
      ''    ```'',
      ''    This finds all entities that depend on `FunctionY` without restricting the traversal depth.'',
      ''3. Exploring Repository Structure:'',
      ''    ```'',
      ''    explore_tree_structure('',
      ''      start_entities=['/'],'',
      ''      traversal_depth=2,'',
      ''      dependency_type_filter=['contains']'',
      ''    )'',
      ''    ```'',
      ''    This retrieves the tree repository structure from the root directory (/), traversing up to two levels deep and focusing only on 'contains' relationship.'',
      ''4. Generate Class Diagrams:'',
      ''    ```'',
      ''    explore_tree_structure('',
      ''        start_entities=selected_entity_ids,'',
      ''        direction='both','',
      ''        traverse_depth=-1,'',
      ''        dependency_type_filter=['inherits']'',
      ''    )'',
      ''    ```'',
      []]\<close>

definition STRUCTURE_EXPLORER_PARAMETERS :: json where
  \<open>STRUCTURE_EXPLORER_PARAMETERS =
     JObj
     [(''type'', JStr ''object''),
      (''properties'',
        JObj
        [(''start_entities'',
           JObj
           [(''description'',
              JStr (join [newline]
                [''List of entities (e.g., class, function, file, or directory paths) to begin the search from.'',
                 ''Entities representing classes or functions must be formatted as "file_path:QualifiedName" (e.g., `interface/C.py:C.method_a.inner_func`).'',
                 ''For files or directories, provide only the file or directory path (e.g., `src/module_a.py` or `src/`).''])),
            (''type'', JStr ''array''),
            (''items'',
              JObj
              [(''type'', JStr ''string'')])]),
         (''direction'',
           JObj
           [(''description'',
              JStr (join [newline]
                [''Direction of traversal in the code graph; allowed options are: `upstream`, `downstream`, `both`.'',
                 ''- 'upstream': Traversal to explore dependencies that the specified entities rely on (how they depend on others).'',
                 ''- 'downstream': Traversal to explore the effects or interactions of the specified entities on others (how others depend on them).'',
                 ''- 'both': Traversal on both direction.''])),
            (''type'', JStr ''string''),
            (''enum'',
              JList [JStr ''upstream'', JStr ''downstream'', JStr ''both'']),
            (''default'', JStr ''downstream'')]),
         (''traversal_depth'',
           JObj
           [(''description'',
              JStr (''Maximum depth of traversal. A value of -1 indicates unlimited depth (subject to a maximum limit).Must be either `-1` or a non-negative integer ('' @ [CHR 0xE2, CHR 0x89, CHR 0xA5] @ '' 0).'')),
            (''type'', JStr ''integer''),
            (''default'', JInt 2)]),
         (''entity_type_filter'',
           JObj
           [(''description'',
              JStr ''List of entity types (e.g., 'class', 'function', 'file', 'directory') to include in the traversal. If None, all entity types are included.''),
            (''type'', JList [JStr ''array'', JStr ''null'']),
            (''items'',
              JObj
              [(''type'', JStr ''string'')]),
            (''default'', JNull)]),
         (''dependency_type_filter'',
           JObj
           [(''description'',
              JStr ''List of dependency types (e.g., 'contains', 'imports', 'invokes', 'inherits') to include in the traversal. If None, all dependency types are included.''),
            (''type'', JList [JStr ''array'', JStr ''null'']),
            (''items'',
              JObj
              [(''type'', JStr ''string'')]),
            (''default'', JNull)])]),
      (''required'', JList [JStr ''start_entities''])]\<close>

definition create_explore_tree_structure_tool :: "bool \<Rightarrow> dict" where
  \<open>create_explore_tree_structure_tool use_simplified_description =
     (let description = (if use_simplified_description then SIMPLIFIED_STRUCTURE_EXPLORER_DESCRIPTION
          else DETAILED_STRUCTURE_EXPLORER_DESCRIPTION);
        example = (if use_simplified_description then SIMPLIFIED_TREE_EXAMPLE else DETAILED_TREE_EXAMPLE) in
     [(''type'', JStr ''function''),
      (''function'',
        JObj
        [(''name'', JStr ''explore_tree_structure''),
         (''description'', JStr (description @ example)),
         (''parameters'', STRUCTURE_EXPLORER_PARAMETERS)])])\<close>

end
