(* ===== verification/Fn_Call_Converter.thy ===== *)
theory Fn_Call_Converter
  imports Fn_Call_Prompts Regex
begin

text \<open>
  \<open>llm/fn_call_converter.py\<close>: messages with function calls written as text for a model that
  cannot call functions, and the answers of such a model read back. A message is a plain
  dictionary, as in the code, so a missing key or a value of another type raises what Python
  raises. \<open>copy.deepcopy\<close> of the messages makes every change local, so it is a functional update
  here. The platform, the text of floats, \<open>json.loads\<close>' reading of floats and the order in which a
  set is printed are in a \<open>conv_env\<close>.
\<close>

record conv_env =
  ce_win32 :: bool
  ce_float_text :: "rat \<Rightarrow> string"
  ce_reader :: json_reader
  ce_set_text :: "json list \<Rightarrow> string"

definition conversion_error :: "string \<Rightarrow> exc" where
  "conversion_error s = OtherException ''FunctionCallConversionError'' s"

definition validation_error :: "string \<Rightarrow> exc" where
  "validation_error s = OtherException ''FunctionCallValidationError'' s"

definition unexpected_content :: "conv_env \<Rightarrow> json \<Rightarrow> exc" where
  "unexpected_content env content = conversion_error
     (''Unexpected content type '' @ class_text content @ ''. Expected str or list. Content: ''
      @ py_str (ce_float_text env) content)"

definition quoted :: "string \<Rightarrow> string" where
  "quoted s = CHR 0x27 # s @ [CHR 0x27]"

section \<open>A tool call as text\<close>

definition param_text :: "conv_env \<Rightarrow> string \<Rightarrow> json \<Rightarrow> string" where
  "param_text env name v =
     (let nl = (case v of JStr s \<Rightarrow> if newline \<in> set s then [newline] else [] | _ \<Rightarrow> []);
          text = (case v of
                    JList xs \<Rightarrow> dumps (ce_float_text env) v
                  | JObj d \<Rightarrow> dumps (ce_float_text env) v
                  | _ \<Rightarrow> py_str (ce_float_text env) v)
      in ''<parameter='' @ name @ ''>'' @ nl @ text @ nl @ ''</parameter>'' @ [newline])"

definition call_arguments :: "conv_env \<Rightarrow> json \<Rightarrow> exc + dict" where
  "call_arguments env fn =
     rbind (item fn ''arguments'') (\<lambda>a. rbind (str_of a) (\<lambda>s.
     case json_loads (ce_reader env) s of
       None \<Rightarrow> Inl (conversion_error (''Failed to parse arguments as JSON. Arguments: '' @ s))
     | Some v \<Rightarrow> dict_of ''items'' v))"

definition missing_key :: "string \<Rightarrow> exc" where
  "missing_key k = conversion_error (''Tool call must contain '' @ quoted k @ '' key.'')"

definition require_key :: "string \<Rightarrow> json \<Rightarrow> exc + unit" where
  "require_key k v =
     rbind (py_in (JStr k) v) (\<lambda>b. if b then Inr () else Inl (missing_key k))"

definition convert_tool_call_to_string :: "conv_env \<Rightarrow> json \<Rightarrow> exc + string" where
  "convert_tool_call_to_string env tool_call =
     rbind (require_key ''function'' tool_call) (\<lambda>_.
     rbind (require_key ''id'' tool_call) (\<lambda>_.
     rbind (require_key ''type'' tool_call) (\<lambda>_.
     rbind (item tool_call ''type'') (\<lambda>t.
     if t \<noteq> JStr ''function''
     then Inl (conversion_error (''Tool call type must be '' @ quoted ''function'' @ ''.''))
     else rbind (item tool_call ''function'') (\<lambda>fn. rbind (item fn ''name'') (\<lambda>name.
          rbind (call_arguments env fn) (\<lambda>args.
          Inr (''<function='' @ py_str (ce_float_text env) name @ ''>'' @ newline
               # concat (map (\<lambda>(k, v). param_text env k v) args) @ ''</function>''))))))))"

section \<open>To messages without function calls\<close>

definition is_text_item :: "json \<Rightarrow> exc + bool" where
  "is_text_item x = rbind (item x ''type'') (\<lambda>t. Inr (t = JStr ''text''))"

text \<open>\<open>x['text'] = f(x['text'])\<close>.\<close>

definition change_text :: "(string \<Rightarrow> string) \<Rightarrow> json \<Rightarrow> exc + json" where
  "change_text f x =
     rbind (item x ''text'') (\<lambda>t. rbind (str_of t) (\<lambda>s. set_item x ''text'' (JStr (f s))))"

definition text_item :: "string \<Rightarrow> json" where
  "text_item s = JObj [(''type'', JStr ''text''), (''text'', JStr s)]"

text \<open>\<open>content and content[-1]['type'] == 'text'\<close>, and the same for the first item.\<close>

definition last_is_text :: "json list \<Rightarrow> exc + bool" where
  "last_is_text xs = (if xs = [] then Inr False else is_text_item (last xs))"

definition first_is_text :: "json list \<Rightarrow> exc + bool" where
  "first_is_text xs = (if xs = [] then Inr False else is_text_item (hd xs))"

definition add_system_suffix :: "conv_env \<Rightarrow> string \<Rightarrow> json \<Rightarrow> exc + json" where
  "add_system_suffix env suffix content =
     (case content of
        JStr s \<Rightarrow> Inr (JStr (s @ suffix))
      | JList xs \<Rightarrow>
          rbind (last_is_text xs) (\<lambda>b.
          rbind (if b then modify_last (change_text (\<lambda>s. s @ suffix)) xs
                 else Inr (xs @ [text_item suffix])) (\<lambda>ys. Inr (JList ys)))
      | _ \<Rightarrow> Inl (unexpected_content env content))"

definition add_example :: "conv_env \<Rightarrow> string \<Rightarrow> json \<Rightarrow> exc + json" where
  "add_example env example content =
     (case content of
        JStr s \<Rightarrow> Inr (JStr (example @ s @ IN_CONTEXT_LEARNING_EXAMPLE_SUFFIX))
      | JList xs \<Rightarrow>
          rbind (first_is_text xs) (\<lambda>b.
          rbind (if b then rbind (change_text (\<lambda>s. example @ s @ IN_CONTEXT_LEARNING_EXAMPLE_SUFFIX) (hd xs))
                             (\<lambda>y. Inr (y # tl xs))
                 else Inr (text_item example # xs @ [text_item IN_CONTEXT_LEARNING_EXAMPLE_SUFFIX]))
            (\<lambda>ys. Inr (JList ys)))
      | _ \<Rightarrow> Inl (unexpected_content env content))"

definition add_tool_text :: "conv_env \<Rightarrow> string \<Rightarrow> json \<Rightarrow> exc + json" where
  "add_tool_text env tool_content content =
     (let nl2 = [newline, newline] in
      case content of
        JStr s \<Rightarrow> Inr (JStr (lstrip (s @ nl2 @ tool_content)))
      | JList xs \<Rightarrow>
          rbind (last_is_text xs) (\<lambda>b.
          rbind (if b then modify_last (change_text (\<lambda>s. lstrip (s @ nl2 @ tool_content))) xs
                 else Inr (xs @ [text_item tool_content])) (\<lambda>ys. Inr (JList ys)))
      | _ \<Rightarrow> Inl (unexpected_content env content))"

text \<open>The first text item of a list changed; \<open>None\<close> if there is none.\<close>

fun change_first_text :: "(string \<Rightarrow> string) \<Rightarrow> json list \<Rightarrow> exc + json list option" where
  "change_first_text f [] = Inr None"
| "change_first_text f (x # xs) =
     rbind (is_text_item x) (\<lambda>b.
     if b then rbind (change_text f x) (\<lambda>y. Inr (Some (y # xs)))
     else rbind (change_first_text f xs) (\<lambda>ys. Inr (map_option (\<lambda>ys. x # ys) ys)))"

definition add_result_prefix :: "conv_env \<Rightarrow> string \<Rightarrow> json \<Rightarrow> exc + json" where
  "add_result_prefix env prefix content =
     (case content of
        JStr s \<Rightarrow> Inr (JStr (prefix @ s))
      | JList xs \<Rightarrow>
          rbind (change_first_text (\<lambda>s. prefix @ s) xs) (\<lambda>ys.
          Inr (JList (case ys of Some ys \<Rightarrow> ys | None \<Rightarrow> text_item prefix # xs)))
      | _ \<Rightarrow> Inl (unexpected_content env content))"

text \<open>\<open>content[-1]['cache_control'] = ...\<close>, also tried on a string.\<close>

definition mark_cached :: "json \<Rightarrow> exc + json" where
  "mark_cached content =
     (case content of
        JList xs \<Rightarrow>
          if xs = [] then Inl IndexError
          else rbind (modify_last (\<lambda>x. set_item x ''cache_control'' (JObj [(''type'', JStr ''ephemeral'')])) xs)
                 (\<lambda>ys. Inr (JList ys))
      | JStr s \<Rightarrow>
          if s = [] then Inl IndexError
          else set_item (JStr [last s]) ''cache_control'' (JObj [(''type'', JStr ''ephemeral'')])
      | _ \<Rightarrow> Inl (TypeError ''object is not subscriptable''))"

definition message_json :: "string \<Rightarrow> json \<Rightarrow> dict" where
  "message_json role content = [(''role'', JStr role), (''content'', content)]"

text \<open>The text of the single tool call of an assistant message.\<close>

definition assistant_tool_text :: "conv_env \<Rightarrow> dict list \<Rightarrow> json \<Rightarrow> json \<Rightarrow> exc + string" where
  "assistant_tool_text env messages content calls =
     rbind (py_len calls) (\<lambda>n.
     if n \<noteq> 1
     then Inl (conversion_error (''Expected exactly one tool call in the message. More than one tool call is not supported. But got ''
            @ show_int n @ '' tool calls. Content: '' @ py_str (ce_float_text env) content))
     else (case calls of
       JList (tool_call # _) \<Rightarrow>
         (case convert_tool_call_to_string env tool_call of
            Inl (OtherException k m) \<Rightarrow>
              if k = ''FunctionCallConversionError''
              then Inl (conversion_error
                 (''Failed to convert tool call to string.'' @ newline # ''Current tool call: ''
                  @ py_str (ce_float_text env) tool_call @ ''.'' @ newline # ''Raw messages: ''
                  @ dumps_indent (ce_float_text env) 2 0 (JList (map JObj messages))))
              else Inl (OtherException k m)
          | r \<Rightarrow> r)
     | JStr s \<Rightarrow> convert_tool_call_to_string env (JStr s)
     | _ \<Rightarrow> Inl (KeyError ''0'')))"

record to_text_state =
  first_user_seen :: bool
  converted :: "dict list"

definition to_text_step ::
    "conv_env \<Rightarrow> dict list \<Rightarrow> dict list \<Rightarrow> string \<Rightarrow> bool \<Rightarrow> dict \<Rightarrow> to_text_state
      \<Rightarrow> exc + to_text_state" where
  "to_text_step env messages tools suffix add_in_context_learning_example message st =
     rbind (sub message ''role'') (\<lambda>role. rbind (sub message ''content'') (\<lambda>content.
     let emit = (\<lambda>st r c. Inr (st\<lparr>converted := converted st @ [message_json r c]\<rparr>)) in
     if role = JStr ''system'' then
       rbind (add_system_suffix env suffix content) (emit st ''system'')
     else if role = JStr ''user'' then
       (if \<not> first_user_seen st \<and> add_in_context_learning_example then
          rbind (get_example_for_tools (ce_win32 env) tools) (\<lambda>example.
          rbind (if example \<noteq> [] then add_example env example content else Inr content)
            (emit (st\<lparr>first_user_seen := True\<rparr>) ''user''))
        else emit st ''user'' content)
     else if role = JStr ''assistant'' then
       (case map_of message ''tool_calls'' of
          None \<Rightarrow> emit st ''assistant'' content
        | Some JNull \<Rightarrow> emit st ''assistant'' content
        | Some calls \<Rightarrow>
            rbind (assistant_tool_text env messages content calls) (\<lambda>t.
            rbind (add_tool_text env t content) (emit st ''assistant'')))
     else if role = JStr ''tool'' then
       (let name = get_key message ''name'' (JStr ''function'');
            prefix = ''EXECUTION RESULT of ['' @ py_str (ce_float_text env) name @ '']:'' @ [newline] in
        rbind (add_result_prefix env prefix content) (\<lambda>content.
        rbind (if has_key ''cache_control'' message then mark_cached content else Inr content)
          (emit st ''user'')))
     else Inl (conversion_error (''Unexpected role '' @ py_str (ce_float_text env) role
            @ ''. Expected system, user, assistant or tool.''))))"

definition convert_fncall_messages_to_non_fncall_messages ::
    "conv_env \<Rightarrow> dict list \<Rightarrow> dict list \<Rightarrow> bool \<Rightarrow> exc + dict list" where
  "convert_fncall_messages_to_non_fncall_messages env messages tools add_in_context_learning_example =
     rbind (system_prompt_suffix (ce_float_text env) tools) (\<lambda>suffix.
     rbind (foldE (to_text_step env messages tools suffix add_in_context_learning_example) messages
              \<lparr>first_user_seen = False, converted = []\<rparr>) (\<lambda>st.
     Inr (converted st)))"

section \<open>The parameters of a function call read from text\<close>

definition FN_REGEX_PATTERN :: re where
  "FN_REGEX_PATTERN =
     Seq (Lit ''<function='') (Seq (Grp 1 (plus (Non (Chr CHR ''>''))))
       (Seq (Lit (''>'' @ [newline])) (Seq (Grp 2 (lazy_star DotAll)) (Lit ''</function>''))))"

definition FN_PARAM_REGEX_PATTERN :: re where
  "FN_PARAM_REGEX_PATTERN =
     Seq (Lit ''<parameter='') (Seq (Grp 1 (plus (Non (Chr CHR ''>''))))
       (Seq (Lit ''>'') (Seq (Grp 2 (lazy_star DotAll)) (Lit ''</parameter>''))))"

definition TOOL_RESULT_REGEX_PATTERN :: re where
  "TOOL_RESULT_REGEX_PATTERN =
     Seq (Lit ''EXECUTION RESULT of ['') (Seq (Grp 1 (lazy_star DotAll))
       (Seq (Lit ('']:'' @ [newline])) (Grp 2 (star DotAll))))"

definition declared_params :: "json \<Rightarrow> exc + dict option" where
  "declared_params matching_tool =
     rbind (dict_of ''get'' matching_tool) (\<lambda>t.
     case map_of t ''parameters'' of
       None \<Rightarrow> Inr None
     | Some p \<Rightarrow> rbind (dict_of ''get'' p) (\<lambda>d. Inr (Some d)))"

definition required_params :: "dict option \<Rightarrow> exc + json list" where
  "required_params parameters =
     (case parameters of
        Some d \<Rightarrow> if has_key ''required'' d then py_set (get_key d ''required'' (JList [])) else Inr []
      | None \<Rightarrow> Inr [])"

definition declared_properties :: "dict option \<Rightarrow> exc + dict" where
  "declared_properties parameters =
     (case parameters of
        Some d \<Rightarrow> (case map_of d ''properties'' of Some p \<Rightarrow> dict_of ''keys'' p | None \<Rightarrow> Inr [])
      | None \<Rightarrow> Inr [])"

text \<open>\<open>{name: val.get('type', 'string') for ...}\<close>.\<close>

definition param_types :: "dict \<Rightarrow> exc + dict" where
  "param_types props =
     mapE (\<lambda>(n, v). rbind (get_item v ''type'' (JStr ''string'')) (\<lambda>t. Inr (n, t))) props"

definition convert_value :: "conv_env \<Rightarrow> dict \<Rightarrow> string \<Rightarrow> string \<Rightarrow> exc + json" where
  "convert_value env types name v =
     (case map_of types name of
        None \<Rightarrow> Inr (JStr v)
      | Some t \<Rightarrow>
          if t = JStr ''integer'' then
            (case py_int v of
               Some i \<Rightarrow> Inr (JInt i)
             | None \<Rightarrow> Inl (validation_error (''Parameter '' @ quoted name @ '' is expected to be an integer.'')))
          else if t = JStr ''array'' then
            (case json_loads (ce_reader env) v of
               Some x \<Rightarrow> Inr x
             | None \<Rightarrow> Inl (validation_error (''Parameter '' @ quoted name @ '' is expected to be an array.'')))
          else Inr (JStr v))"

text \<open>\<open>matching_tool['parameters']['properties'][param_name]\<close>, looked up without a test.\<close>

definition param_info :: "json \<Rightarrow> string \<Rightarrow> exc + json" where
  "param_info matching_tool name =
     rbind (item matching_tool ''parameters'') (\<lambda>p. rbind (item p ''properties'') (\<lambda>q. item q name))"

definition check_enum :: "conv_env \<Rightarrow> json \<Rightarrow> string \<Rightarrow> json \<Rightarrow> exc + unit" where
  "check_enum env matching_tool name v =
     rbind (param_info matching_tool name) (\<lambda>info.
     rbind (py_in (JStr ''enum'') info) (\<lambda>b.
     if \<not> b then Inr ()
     else rbind (item info ''enum'') (\<lambda>enum. rbind (py_in v enum) (\<lambda>ok.
       if ok then Inr ()
       else Inl (validation_error (''Parameter '' @ quoted name @ '' is expected to be one of ''
                   @ py_str (ce_float_text env) enum @ ''.''))))))"

definition validate_param ::
    "conv_env \<Rightarrow> json \<Rightarrow> string \<Rightarrow> dict \<Rightarrow> dict \<Rightarrow> string \<times> string \<Rightarrow> dict \<Rightarrow> exc + dict" where
  "validate_param env matching_tool fn_name props types m params =
     (let (name, v) = m in
      if props \<noteq> [] \<and> \<not> has_key name props
      then Inl (validation_error (''Parameter '' @ quoted name @ '' is not allowed for function ''
             @ quoted fn_name @ ''. Allowed parameters: ''
             @ ce_set_text env (map (\<lambda>(k, x). JStr k) props)))
      else rbind (convert_value env types name v) (\<lambda>v.
           rbind (check_enum env matching_tool name v) (\<lambda>_.
           Inr (dict_set params name v))))"

definition extract_and_validate_params ::
    "conv_env \<Rightarrow> json \<Rightarrow> (string \<times> string) list \<Rightarrow> string \<Rightarrow> exc + dict" where
  "extract_and_validate_params env matching_tool param_matches fn_name =
     rbind (declared_params matching_tool) (\<lambda>parameters.
     rbind (required_params parameters) (\<lambda>required.
     rbind (declared_properties parameters) (\<lambda>props.
     rbind (param_types props) (\<lambda>types.
     rbind (foldE (validate_param env matching_tool fn_name props types) param_matches []) (\<lambda>params.
     let missing = remdups (filter (\<lambda>r. r \<notin> set (map (\<lambda>(k, x). JStr k) params)) required) in
     if missing \<noteq> []
     then Inl (validation_error (''Missing required parameters for function '' @ quoted fn_name @ '': ''
            @ ce_set_text env missing))
     else Inr params)))))"

section \<open>From messages without function calls\<close>

definition count_text :: "string \<Rightarrow> string \<Rightarrow> nat" where
  "count_text s p = length (split_on p s) - 1"

definition fix_stopword :: "string \<Rightarrow> string" where
  "fix_stopword content =
     (if contains content ''<function='' \<and> count_text content ''<function='' = 1 then
        (if endswith content ''</'' then rstrip content @ ''function>''
         else content @ newline # ''</function>'')
      else content)"

definition NAME_CHAR :: cls where
  "NAME_CHAR = OneOf [Range (CHR ''a'') (CHR ''z''), Range (CHR ''A'') (CHR ''Z''),
     Range (CHR ''0'') (CHR ''9''), Chr (CHR ''_'')]"

definition MALFORMED_PARAMETER :: re where
  "MALFORMED_PARAMETER =
     Seq (Lit ''<parameter='') (Seq (Grp 1 (plus NAME_CHAR))
       (Seq (Lit ''='') (Seq (Grp 2 (star (Non (Chr CHR ''<'')))) (Lit ''</parameter>''))))"

definition normalize_parameter_tags :: "string \<Rightarrow> string" where
  "normalize_parameter_tags fn_body =
     re_sub_with MALFORMED_PARAMETER
       (\<lambda>m. ''<parameter='' @ grp m 1 @ ''>'' @ grp m 2 @ ''</parameter>'') fn_body"

text \<open>\<open>s.split(sep)[0]\<close> and \<open>s.replace(old, '', 1)\<close>.\<close>

definition before_first :: "string \<Rightarrow> string \<Rightarrow> string" where
  "before_first sep s = hd (split_on sep s)"

definition remove_first :: "string \<Rightarrow> string \<Rightarrow> string" where
  "remove_first old s = (case cut old s of None \<Rightarrow> s | Some (a, b) \<Rightarrow> a @ b)"

definition remove_example :: "string \<Rightarrow> string \<Rightarrow> string" where
  "remove_example example s =
     (let s = (if startswith s example then remove_first example s else s) in
      if endswith s IN_CONTEXT_LEARNING_EXAMPLE_SUFFIX
      then remove_first IN_CONTEXT_LEARNING_EXAMPLE_SUFFIX s else s)"

definition remove_system_suffix :: "string \<Rightarrow> json \<Rightarrow> exc + json" where
  "remove_system_suffix suffix content =
     (case content of
        JStr s \<Rightarrow> Inr (JStr (before_first suffix s))
      | JList xs \<Rightarrow>
          rbind (last_is_text xs) (\<lambda>b.
          rbind (if b then modify_last (change_text (before_first suffix)) xs else Inr xs)
            (\<lambda>ys. Inr (JList ys)))
      | _ \<Rightarrow> Inr content)"

definition remove_example_item :: "string \<Rightarrow> json \<Rightarrow> exc + json" where
  "remove_example_item example x =
     rbind (is_text_item x) (\<lambda>b. if b then change_text (remove_example example) x else Inr x)"

definition strip_example :: "conv_env \<Rightarrow> string \<Rightarrow> json \<Rightarrow> exc + json" where
  "strip_example env example content =
     (case content of
        JStr s \<Rightarrow> Inr (JStr (remove_example example s))
      | JList xs \<Rightarrow> rbind (mapE (remove_example_item example) xs) (\<lambda>ys. Inr (JList ys))
      | _ \<Rightarrow> Inl (unexpected_content env content))"

text \<open>\<open>item.get('type') == 'text'\<close>, then the match of a pattern in the text of the item.\<close>

definition match_item :: "re \<Rightarrow> json \<Rightarrow> exc + mstate option" where
  "match_item a x =
     rbind (get_item x ''type'' JNull) (\<lambda>t.
     if t \<noteq> JStr ''text'' then Inr None
     else rbind (item x ''text'') (\<lambda>s. rbind (str_of s) (\<lambda>s. Inr (re_search a s))))"

fun first_match :: "re \<Rightarrow> json list \<Rightarrow> exc + mstate option" where
  "first_match a [] = Inr None"
| "first_match a (x # xs) =
     rbind (match_item a x) (\<lambda>m. case m of Some m \<Rightarrow> Inr (Some m) | None \<Rightarrow> first_match a xs)"

definition tool_result_match :: "conv_env \<Rightarrow> json \<Rightarrow> exc + mstate option" where
  "tool_result_match env content =
     (case content of
        JStr s \<Rightarrow> Inr (re_search TOOL_RESULT_REGEX_PATTERN s)
      | JList xs \<Rightarrow> first_match TOOL_RESULT_REGEX_PATTERN xs
      | _ \<Rightarrow> Inl (unexpected_content env content))"

text \<open>\<open>f'toolu_{n:02d}'\<close>.\<close>

definition toolu :: "int \<Rightarrow> string" where
  "toolu n = (let s = show_int n in ''toolu_'' @ (if length s < 2 then ''0'' @ s else s))"

text \<open>The content with its stop word repaired, and the function call found in its last text.\<close>

definition find_function :: "conv_env \<Rightarrow> json \<Rightarrow> exc + json \<times> mstate option" where
  "find_function env content =
     (case content of
        JStr s \<Rightarrow> Inr (JStr (fix_stopword s), re_search FN_REGEX_PATTERN (fix_stopword s))
      | JList xs \<Rightarrow>
          rbind (last_is_text xs) (\<lambda>b.
          rbind (if b then modify_last (change_text fix_stopword) xs else Inr xs) (\<lambda>xs.
          rbind (if b then match_item FN_REGEX_PATTERN (last xs) else Inr None) (\<lambda>fn_match.
          rbind (anyE (\<lambda>x. rbind (match_item FN_REGEX_PATTERN x) (\<lambda>m. Inr (m \<noteq> None))) xs) (\<lambda>found.
          if found \<and> fn_match = None
          then Inl (conversion_error (''Expecting function call in the LAST index of content list. But got content=''
                 @ py_str (ce_float_text env) (JList xs)))
          else Inr (JList xs, fn_match)))))
      | _ \<Rightarrow> Inl (unexpected_content env content))"

definition is_function_tool :: "dict \<Rightarrow> exc + bool" where
  "is_function_tool tool = rbind (sub tool ''type'') (\<lambda>t. Inr (t = JStr ''function''))"

definition tool_name :: "dict \<Rightarrow> exc + json" where
  "tool_name tool = rbind (sub tool ''function'') (\<lambda>fn. item fn ''name'')"

definition matching_tool :: "dict list \<Rightarrow> string \<Rightarrow> exc + json" where
  "matching_tool tools fn_name =
     rbind (findE (\<lambda>tool. rbind (is_function_tool tool) (\<lambda>b.
               if b then rbind (tool_name tool) (\<lambda>n. Inr (n = JStr fn_name)) else Inr False)) tools)
       (\<lambda>found. case found of Some tool \<Rightarrow> sub tool ''function'' | None \<Rightarrow> Inr JNull)"

text \<open>The names of the function tools, for the text of an error.\<close>

fun function_names :: "dict list \<Rightarrow> exc + json list" where
  "function_names [] = Inr []"
| "function_names (tool # tools) =
     rbind (is_function_tool tool) (\<lambda>b.
     if b then rbind (tool_name tool) (\<lambda>n. rbind (function_names tools) (\<lambda>ns. Inr (n # ns)))
     else function_names tools)"

definition cut_call :: "json \<Rightarrow> exc + json" where
  "cut_call content =
     (let f = (\<lambda>s. strip (before_first ''<function='' s)) in
      case content of
        JList xs \<Rightarrow>
          rbind (last_is_text xs) (\<lambda>b. if \<not> b then Inl AssertionError
          else rbind (modify_last (change_text f) xs) (\<lambda>ys. Inr (JList ys)))
      | JStr s \<Rightarrow> Inr (JStr (f s))
      | _ \<Rightarrow> Inr content)"

definition param_matches :: "string \<Rightarrow> (string \<times> string) list" where
  "param_matches fn_body =
     map (\<lambda>(w, m). (grp m 1, grp m 2)) (finditer FN_PARAM_REGEX_PATTERN fn_body)"

definition call_json :: "conv_env \<Rightarrow> int \<Rightarrow> string \<Rightarrow> dict \<Rightarrow> json" where
  "call_json env n fn_name params =
     JObj [(''index'', JInt 1), (''id'', JStr (toolu n)), (''type'', JStr ''function''),
       (''function'', JObj [(''name'', JStr fn_name),
          (''arguments'', JStr (dumps (ce_float_text env) (JObj params)))])]"

record from_text_state =
  user_seen :: bool
  tool_call_counter :: int
  restored :: "dict list"

text \<open>An assistant message in which a function call was found.\<close>

definition restore_call ::
    "conv_env \<Rightarrow> dict list \<Rightarrow> json \<Rightarrow> mstate \<Rightarrow> from_text_state \<Rightarrow> exc + from_text_state" where
  "restore_call env tools content fn_match st =
     (let fn_name = grp fn_match 1; fn_body = normalize_parameter_tags (grp fn_match 2) in
      rbind (matching_tool tools fn_name) (\<lambda>tool.
      if \<not> json_truthy tool
      then rbind (function_names tools) (\<lambda>names. Inl (validation_error (''Function '' @ quoted fn_name
             @ '' not found in available tools: '' @ py_str (ce_float_text env) (JList names))))
      else rbind (extract_and_validate_params env tool (param_matches fn_body) fn_name) (\<lambda>params.
           rbind (cut_call content) (\<lambda>content.
           Inr (st\<lparr>tool_call_counter := tool_call_counter st + 1,
                 restored := restored st @ [message_json ''assistant'' content
                   @ [(''tool_calls'', JList [call_json env (tool_call_counter st) fn_name params])]]\<rparr>)))))"

text \<open>A user message with the result of a tool.\<close>

definition restore_result :: "json \<Rightarrow> mstate \<Rightarrow> from_text_state \<Rightarrow> dict" where
  "restore_result content m st =
     (let result = strip (grp m 2) in
      [(''role'', JStr ''tool''), (''name'', JStr (grp m 1)),
       (''content'', case content of JList xs \<Rightarrow> JList [text_item result] | _ \<Rightarrow> JStr result),
       (''tool_call_id'', JStr (toolu (tool_call_counter st - 1)))])"

definition from_text_step ::
    "conv_env \<Rightarrow> dict list \<Rightarrow> string \<Rightarrow> dict \<Rightarrow> from_text_state \<Rightarrow> exc + from_text_state" where
  "from_text_step env tools suffix message st =
     rbind (sub message ''role'') (\<lambda>role. rbind (sub message ''content'') (\<lambda>raw.
     let content = (if json_truthy raw then raw else JStr []);
         emit = (\<lambda>st m. Inr (st\<lparr>restored := restored st @ [m]\<rparr>)) in
     if role = JStr ''system'' then
       rbind (remove_system_suffix suffix content) (\<lambda>c. emit st (message_json ''system'' c))
     else if role = JStr ''user'' then
       rbind (if user_seen st then Inr content
              else rbind (get_example_for_tools (ce_win32 env) tools) (\<lambda>example.
                   strip_example env example content)) (\<lambda>content.
       let st = st\<lparr>user_seen := True\<rparr> in
       rbind (tool_result_match env content) (\<lambda>m.
       case m of
         Some m \<Rightarrow> emit st (restore_result content m st)
       | None \<Rightarrow> emit st (message_json ''user'' content)))
     else if role = JStr ''assistant'' then
       rbind (find_function env content) (\<lambda>(content, fn_match).
       case fn_match of
         Some m \<Rightarrow> restore_call env tools content m st
       | None \<Rightarrow> emit st (case content of JList xs \<Rightarrow> dict_set message ''content'' content | _ \<Rightarrow> message))
     else Inl (conversion_error (''Unexpected role '' @ py_str (ce_float_text env) role
            @ ''. Expected system, user, or assistant in non-function calling messages.''))))"

definition convert_non_fncall_messages_to_fncall_messages ::
    "conv_env \<Rightarrow> dict list \<Rightarrow> dict list \<Rightarrow> exc + dict list" where
  "convert_non_fncall_messages_to_fncall_messages env messages tools =
     rbind (system_prompt_suffix (ce_float_text env) tools) (\<lambda>suffix.
     rbind (foldE (from_text_step env tools suffix) messages
              \<lparr>user_seen = False, tool_call_counter = 1, restored = []\<rparr>) (\<lambda>st.
     Inr (restored st)))"

section \<open>One tool call per message\<close>

text \<open>The calls of a message that wait for their results, by the id of the call.\<close>

type_synonym pending_calls = "(json, dict) pydict"

definition single_call :: "json \<Rightarrow> json \<Rightarrow> dict" where
  "single_call content tool_call = message_json ''assistant'' content @ [(''tool_calls'', JList [tool_call])]"

text \<open>Only the first of the messages keeps the content.\<close>

fun add_pending :: "json \<Rightarrow> json list \<Rightarrow> pending_calls \<Rightarrow> exc + pending_calls" where
  "add_pending content [] pending = Inr pending"
| "add_pending content (tc # tcs) pending =
     rbind (item tc ''id'') (\<lambda>i. add_pending (JStr []) tcs (dict_set pending i (single_call content tc)))"

definition single_step :: "dict \<Rightarrow> pending_calls \<times> dict list \<Rightarrow> exc + pending_calls \<times> dict list" where
  "single_step message s =
     (let (pending, out) = s in
      rbind (sub message ''role'') (\<lambda>role. rbind (sub message ''content'') (\<lambda>content.
      if role = JStr ''assistant'' then
        (let calls = get_key message ''tool_calls'' JNull in
         rbind (if json_truthy calls then py_len calls else Inr 0) (\<lambda>n.
         if n > 1
         then rbind (py_iter calls) (\<lambda>tcs. rbind (add_pending content tcs pending) (\<lambda>p. Inr (p, out)))
         else Inr (pending, out @ [message])))
      else if role = JStr ''tool'' then
        rbind (sub message ''tool_call_id'') (\<lambda>i.
        case map_of pending i of
          Some m \<Rightarrow> Inr (dict_del i pending, out @ [m, message])
        | None \<Rightarrow> if pending = [] then Inr (pending, out @ [message]) else Inl AssertionError)
      else if pending = [] then Inr (pending, out @ [message]) else Inl AssertionError)))"

text \<open>The text of the last error holds the pending messages.\<close>

definition pending_text :: "conv_env \<Rightarrow> pending_calls \<Rightarrow> string" where
  "pending_text env pending =
     ''{'' @ join '', '' (map (\<lambda>(i, m). repr_json (ce_float_text env) i @ '': ''
                                     @ repr_json (ce_float_text env) (JObj m)) pending) @ ''}''"

definition convert_from_multiple_tool_calls_to_single_tool_call_messages ::
    "conv_env \<Rightarrow> dict list \<Rightarrow> bool \<Rightarrow> exc + dict list" where
  "convert_from_multiple_tool_calls_to_single_tool_call_messages env messages ignore_final_tool_result =
     rbind (foldE single_step messages ([], [])) (\<lambda>(pending, out).
     if \<not> ignore_final_tool_result \<and> pending \<noteq> []
     then Inl (conversion_error (''Found pending tool calls but no tool result: pending_tool_calls=''
            @ pending_text env pending))
     else Inr out)"

end
