(* ===== verification/Fn_Call_Correct.thy ===== *)
theory Fn_Call_Correct
  imports Fn_Call_Converter
begin

text \<open>
  What the two conversions of \<open>llm/fn_call_converter.py\<close> owe to each other: a tool call that is
  written as text is found again in the text, with the same name and the same parameters, and a
  conversation that goes there and back is the same but for the ids of its calls.
\<close>

section \<open>A tool call in the text\<close>

definition param_piece :: "string \<times> string \<Rightarrow> string" where
  "param_piece p = ''<parameter='' @ fst p @ ''>'' @ snd p @ ''</parameter>'' @ [newline]"

definition call_body :: "(string \<times> string) list \<Rightarrow> string" where
  "call_body args = concat (map param_piece args)"

definition call_text :: "string \<Rightarrow> (string \<times> string) list \<Rightarrow> string" where
  "call_text name args = ''<function='' @ name @ ''>'' @ newline # call_body args @ ''</function>''"

definition str_args :: "(string \<times> string) list \<Rightarrow> dict" where
  "str_args args = map (\<lambda>(k, v). (k, JStr v)) args"

text \<open>The tags of the format.\<close>

definition format_tags :: "string list" where
  "format_tags = [''<function='', ''</function>'', ''<parameter='', ''</parameter>'']"

text \<open>A value that holds no tag, and the name of a parameter.\<close>

definition plain_value :: "string \<Rightarrow> bool" where
  "plain_value v \<longleftrightarrow> list_all (\<lambda>t. \<not> contains v t) format_tags"

definition plain_param :: "string \<Rightarrow> bool" where
  "plain_param k \<longleftrightarrow> k \<noteq> [] \<and> list_all (cls_mem NAME_CHAR) k"

definition plain_args :: "(string \<times> string) list \<Rightarrow> bool" where
  "plain_args args \<longleftrightarrow> list_all (\<lambda>(k, v). plain_param k \<and> plain_value v) args"

text \<open>How a value stands between its tags: a value that spans lines gets lines of its own.\<close>

definition shown :: "string \<Rightarrow> string" where
  "shown v = (if newline \<in> set v then newline # v @ [newline] else v)"

definition shown_args :: "(string \<times> string) list \<Rightarrow> (string \<times> string) list" where
  "shown_args args = map (\<lambda>(k, v). (k, shown v)) args"

definition plain_function :: "string \<Rightarrow> bool" where
  "plain_function name \<longleftrightarrow> name \<noteq> [] \<and> CHR ''<'' \<notin> set name \<and> CHR ''>'' \<notin> set name"

lemma name_char_props: "cls_mem NAME_CHAR c \<Longrightarrow> c \<noteq> CHR ''<'' \<and> c \<noteq> CHR ''>'' \<and> c \<noteq> CHR ''=''"
  by (auto simp: NAME_CHAR_def)

lemma plain_param_chars: "plain_param k \<Longrightarrow> CHR ''<'' \<notin> set k \<and> CHR ''>'' \<notin> set k"
  by (auto simp: plain_param_def list_all_iff dest: name_char_props)

lemma plain_shown:
  assumes "plain_value v"
  shows "plain_value (shown v)"
proof -
  have "\<not> contains (newline # v @ newline # []) t" if "t \<in> set format_tags" for t
  proof -
    have t: "newline \<notin> set t" "t \<noteq> []" "\<not> contains v t"
      using that assms by (auto simp: plain_value_def format_tags_def)
    have "contains (newline # v @ newline # []) t \<longleftrightarrow> contains (newline # v) t \<or> contains [] t"
      using contains_mid [OF t(1,2), of "newline # v" "[]"] by simp
    also have "\<dots> \<longleftrightarrow> contains v t"
      using contains_mid [OF t(1,2), of "[]" v] t(2) by simp
    finally show ?thesis using t(3) by simp
  qed
  with assms show ?thesis by (simp add: plain_value_def shown_def list_all_iff)
qed

lemma plain_shown_args: "plain_args args \<Longrightarrow> plain_args (shown_args args)"
  by (auto simp: plain_args_def shown_args_def list_all_iff plain_shown)

lemma keys_shown_args [simp]: "keys (shown_args args) = keys args"
  by (simp add: shown_args_def comp_def case_prod_beta)

lemma plain_args_Cons [simp]:
  "plain_args ((k, v) # args) \<longleftrightarrow> plain_param k \<and> plain_value v \<and> plain_args args"
  by (simp add: plain_args_def)

lemma tags_unbordered [simp]:
  "unbordered ''<function=''" "unbordered ''</function>''"
  "unbordered ''<parameter=''" "unbordered ''</parameter>''"
  by (simp_all add: unbordered_def)

lemma contains_skip: "hd l \<notin> set x \<Longrightarrow> l \<noteq> [] \<Longrightarrow> contains (x @ y) l = contains y l"
proof (induction x)
  case (Cons c x)
  then have "\<not> startswith (c # x @ y) l" by (cases l) auto
  with Cons show ?case by simp
qed simp

lemma call_body_Nil [simp]: "call_body [] = []"
  by (simp add: call_body_def)

lemma call_body_Cons [simp]: "call_body (p # args) = param_piece p @ call_body args"
  by (simp add: call_body_def)

text \<open>Where the tags of a function stand in the text of a call.\<close>

lemma piece_free:
  assumes "plain_param k" and "\<not> contains v l" and l: "l \<in> {''<function='', ''</function>''}"
  shows "\<not> contains (param_piece (k, v)) l"
proof -
  have un: "unbordered l" "l \<noteq> []" "hd l = CHR ''<''" using l by auto
  have "CHR ''<'' \<notin> set (''parameter='' @ k @ ''>'')" using plain_param_chars [OF assms(1)] by simp
  then have "contains ((''parameter='' @ k @ ''>'') @ (v @ (''</parameter>'' @ [newline]))) l
      = contains (v @ (''</parameter>'' @ [newline])) l"
    using un by (intro contains_skip) auto
  also have "\<dots> = (contains v l \<or> contains (''</parameter>'' @ [newline]) l)"
    using un by (intro contains_append_start) auto
  also have "\<not> \<dots>" using assms(2) l by auto
  finally show ?thesis using l by (auto simp: param_piece_def)
qed

lemma piece_start: "param_piece p = CHR ''<'' # tl (param_piece p)"
  by (simp add: param_piece_def)

lemma body_start: "call_body args = [] \<or> hd (call_body args) = CHR ''<''"
  by (cases args) (simp_all add: param_piece_def)

lemma body_free:
  assumes "plain_args args" and l: "l \<in> {''<function='', ''</function>''}"
  shows "\<not> contains (call_body args) l"
  using assms(1)
proof (induction args)
  case Nil
  then show ?case using l by auto
next
  case (Cons p args)
  obtain k v where p: "p = (k, v)" by fastforce
  with Cons.prems l have "\<not> contains v l"
    by (auto simp: plain_value_def format_tags_def)
  with Cons.prems p l have "\<not> contains (param_piece p) l"
    by (auto simp: piece_free)
  moreover have "\<not> contains (call_body args) l" using Cons p by simp
  ultimately show ?case
    using contains_append_start [of l "call_body args" "param_piece p"] l body_start [of args]
    by (cases "call_body args") auto
qed

text \<open>The end of the call: the body, the closing tag, and whatever follows.\<close>

lemma cut_close:
  assumes "plain_args args"
  shows "cut ''</function>'' (call_body args @ ''</function>'' @ r) = Some (call_body args, r)"
  using body_free [OF assms] by (intro cut_unbordered) auto

lemma tail_free:
  assumes "plain_function name" and "plain_args args"
  shows "\<not> contains (name @ ''>'' @ newline # call_body args @ ''</function>'' @ s) ''<function=''
    \<longleftrightarrow> \<not> contains s ''<function=''"
proof -
  let ?x = "name @ ''>'' @ [newline]"
  have "CHR ''<'' \<notin> set ?x" using assms(1) by (simp add: plain_function_def)
  then have "contains (?x @ (call_body args @ ''</function>'' @ s)) ''<function=''
      = contains (call_body args @ ''</function>'' @ s) ''<function=''"
    by (intro contains_skip) auto
  also have "\<dots> = (contains (call_body args) ''<function='' \<or> contains (''</function>'' @ s) ''<function='')"
    by (intro contains_append_start) auto
  also have "\<dots> = contains s ''<function=''"
    using body_free [OF assms(2), of "''<function=''"] by auto
  finally show ?thesis by simp
qed

section \<open>The patterns on the text of a call\<close>

lemma lazy_until:
  assumes "cut l r = Some (v, t)" and "l \<noteq> []"
    and "first k (rev l @ rev v @ p, t, (i, v) # c) m"
  shows "first (Seq (Grp i (lazy_star DotAll)) (Seq (Lit l) k)) (p, r, c) m"
proof (rule first_lazy [where n = "length v"])
  have r: "r = v @ l @ t" using assms(1) by (rule cut_Some)
  show "length v \<le> length r" using r by simp
  show "rmatch (Seq (Lit l) k) (rev (take j r) @ p, drop j r, (i, take j r) # c) = []"
    if "j < length v" for j
    using cut_startswith [OF assms(1,2) that] by (simp add: match_lit_def)
  show "first (Seq (Lit l) k)
      (rev (take (length v) r) @ p, drop (length v) r, (i, take (length v) r) # c) m"
    using assms(3) first_Lit [of l "rev v @ p" t "(i, v) # c"] by (simp add: r first_Seq)
qed

lemma lazy_until_end:
  assumes "cut l r = Some (v, t)" and "l \<noteq> []"
  shows "first (Seq (Grp i (lazy_star DotAll)) (Lit l)) (p, r, c) (rev l @ rev v @ p, t, (i, v) # c)"
proof (rule first_lazy [where n = "length v"])
  have r: "r = v @ l @ t" using assms(1) by (rule cut_Some)
  show "length v \<le> length r" using r by simp
  show "rmatch (Lit l) (rev (take j r) @ p, drop j r, (i, take j r) # c) = []"
    if "j < length v" for j
    using cut_startswith [OF assms that] by (simp add: match_lit_def)
  show "first (Lit l) (rev (take (length v) r) @ p, drop (length v) r, (i, take (length v) r) # c)
      (rev l @ rev v @ p, t, (i, v) # c)"
    using first_Lit [of l "rev v @ p" t "(i, v) # c"] by (simp add: r)
qed

text \<open>\<open>([^>]+)\<close>, the text up to the end of the tag, and the lazy group up to the closing tag.\<close>

lemma tag_first:
  assumes "k \<noteq> []" and "CHR ''>'' \<notin> set k" and "cut l r = Some (v, t)" and "l \<noteq> []"
  shows "first (Seq (Grp 1 (plus (Non (Chr CHR ''>''))))
      (Seq (Lit (CHR ''>'' # w)) (Seq (Grp 2 (lazy_star DotAll)) (Lit l))))
    (p, k @ CHR ''>'' # w @ r, [])
    (rev l @ rev v @ rev (CHR ''>'' # w) @ rev k @ p, t, [(2, v), (1, k)])"
proof -
  let ?r = "CHR ''>'' # w @ r"
  have "first (plus (Non (Chr CHR ''>''))) (p, k @ ?r, []) (rev k @ p, ?r, [])"
    using assms(1,2) by (intro first_Rep) (auto simp: Suc_le_eq)
  then have "first (Grp 1 (plus (Non (Chr CHR ''>'')))) (p, k @ ?r, []) (rev k @ p, ?r, [(1, k)])"
    by (rule first_Grp)
  moreover have "first (Lit (CHR ''>'' # w)) (rev k @ p, ?r, [(1, k)])
      (rev (CHR ''>'' # w) @ rev k @ p, r, [(1, k)])"
    using first_Lit [of "CHR ''>'' # w" "rev k @ p" r] by simp
  ultimately show ?thesis
    using lazy_until_end [OF assms(3,4), of 2 "rev (CHR ''>'' # w) @ rev k @ p" "[(1, k)]"]
    by (blast intro: first_Seq)
qed

lemma group_simps [simp]: "grp (p, r, c) i = (case map_of c i of Some g \<Rightarrow> g | None \<Rightarrow> [])"
  by (simp add: grp_def group_def)

text \<open>The function call is found where the tag first stands.\<close>

lemma fn_found:
  assumes "\<not> contains s ''<function=''" and "plain_function name" and "plain_args args"
  shows "\<exists>p r. re_search FN_REGEX_PATTERN (s @ call_text name args @ t)
      = Some (p, r, [(2, call_body args), (1, name)])"
proof -
  let ?z = "name @ ''>'' @ newline # call_body args @ ''</function>'' @ t"
  have c: "cut ''<function='' (s @ ''<function='' @ ?z) = Some (s, ?z)"
    using assms(1) by (intro cut_unbordered) auto
  have "first (Seq (Grp 1 (plus (Non (Chr CHR ''>''))))
      (Seq (Lit (CHR ''>'' # [newline])) (Seq (Grp 2 (lazy_star DotAll)) (Lit ''</function>''))))
    (rev ''<function='' @ rev s @ [], name @ CHR ''>'' # [newline] @ call_body args @ ''</function>'' @ t, [])
    (rev ''</function>'' @ rev (call_body args) @ rev (CHR ''>'' # [newline]) @ rev name
       @ rev ''<function='' @ rev s @ [], t, [(2, call_body args), (1, name)])"
    by (rule tag_first) (use assms(2) cut_close [OF assms(3)] in \<open>auto simp: plain_function_def\<close>)
  then have "\<exists>m. search_go FN_REGEX_PATTERN False [] (s @ ''<function='' @ ?z)
      = Some (rev s @ [], ''<function='' @ ?z, m) \<and> snd (snd m) = [(2, call_body args), (1, name)]"
    unfolding FN_REGEX_PATTERN_def
    using search_lit [OF c, of _ "[]"] by (intro exI conjI) (auto simp del: rev.simps)
  then show ?thesis by (auto simp: re_search_def call_text_def)
qed

text \<open>Every parameter is found, in order.\<close>

lemma params_found:
  assumes "plain_args args" and "w = [] \<or> w = [newline]"
  shows "map (\<lambda>(x, m). (grp m 1, grp m 2)) (finditer_go FN_PARAM_REGEX_PATTERN False p (w @ call_body args))
    = args"
  using assms
proof (induction args arbitrary: p w)
  case Nil
  then have "search_go FN_PARAM_REGEX_PATTERN False p (w @ call_body []) = None"
    unfolding FN_PARAM_REGEX_PATTERN_def by (intro search_lit_none) auto
  then show ?case by (simp add: finditer_go.simps)
next
  case (Cons a args)
  obtain k v where a: "a = (k, v)" by fastforce
  let ?r = "[newline] @ call_body args"
  let ?y = "k @ CHR ''>'' # v @ ''</parameter>'' @ ?r"
  let ?p = "rev ''<parameter='' @ rev w @ p"
  let ?p' = "rev ''</parameter>'' @ rev v @ rev (CHR ''>'' # []) @ rev k @ ?p"
  have k: "plain_param k" and v: "plain_value v" and args: "plain_args args"
    using Cons.prems(1) a by simp_all
  have body: "w @ call_body (a # args) = w @ ''<parameter='' @ ?y"
    by (simp add: a param_piece_def)
  have c: "cut ''<parameter='' (w @ ''<parameter='' @ ?y) = Some (w, ?y)"
    using Cons.prems(2) by (intro cut_unbordered) auto
  have "cut ''</parameter>'' (v @ ''</parameter>'' @ ?r) = Some (v, ?r)"
    using v by (intro cut_unbordered) (auto simp: plain_value_def format_tags_def)
  then have "first (Seq (Grp 1 (plus (Non (Chr CHR ''>''))))
      (Seq (Lit (CHR ''>'' # [])) (Seq (Grp 2 (lazy_star DotAll)) (Lit ''</parameter>''))))
    (?p, k @ CHR ''>'' # [] @ (v @ ''</parameter>'' @ ?r), []) (?p', ?r, [(2, v), (1, k)])"
    using k plain_param_chars [OF k] by (intro tag_first) (auto simp: plain_param_def)
  then have "search_go FN_PARAM_REGEX_PATTERN False p (w @ call_body (a # args))
      = Some (rev w @ p, ''<parameter='' @ ?y, (?p', ?r, [(2, v), (1, k)]))"
    unfolding FN_PARAM_REGEX_PATTERN_def body
    by (intro search_lit [OF c]) (simp_all del: rev.simps)
  moreover have "length ?r \<noteq> length (''<parameter='' @ ?y)" by simp
  ultimately have "map (\<lambda>(x, m). (grp m 1, grp m 2))
        (finditer_go FN_PARAM_REGEX_PATTERN False p (w @ call_body (a # args)))
      = (k, v) # map (\<lambda>(x, m). (grp m 1, grp m 2)) (finditer_go FN_PARAM_REGEX_PATTERN False ?p' ?r)"
    by (subst finditer_go.simps) simp
  also have "\<dots> = (k, v) # args"
    using Cons.IH [OF args, of "[newline]" ?p'] by (simp only: simp_thms)
  finally show ?case using a by simp
qed

lemma param_matches_body: "plain_args args \<Longrightarrow> param_matches (call_body args) = args"
  using params_found [of args "[]" "[]"] by (simp add: param_matches_def finditer_def)

text \<open>A well-formed tag is no malformed one, so the body is left as it is.\<close>

lemma run_length_le: "run_length None K (k @ e # r) \<le> length k" if "\<not> cls_mem K e"
proof -
  have "takeWhile (cls_mem K) (k @ e # r) = takeWhile (cls_mem K) k"
    using that by (induction k) auto
  then show ?thesis by (simp add: run_length_def length_takeWhile_le)
qed

lemma malformed_fails:
  assumes "plain_param k"
  shows "rmatch (Seq (Grp 1 (plus NAME_CHAR)) (Seq (Lit ''='') b)) (p, k @ CHR ''>'' # r, c) = []"
proof -
  have n: "\<not> cls_mem NAME_CHAR CHR ''>''" using name_char_props by blast
  have "rmatch (Seq (Lit ''='') b) (rev (take j (k @ CHR ''>'' # r)) @ p, drop j (k @ CHR ''>'' # r), c') = []"
    if "j \<le> length k" for j c'
  proof -
    have "\<not> startswith (drop j (k @ CHR ''>'' # r)) ''=''"
    proof (cases "j = length k")
      case False
      with that have j: "j < length k" by simp
      then have "cls_mem NAME_CHAR (k ! j)" using assms by (simp add: plain_param_def list_all_iff)
      then have "k ! j \<noteq> CHR ''=''" using name_char_props by blast
      then show ?thesis using j by (simp add: Cons_nth_drop_Suc [symmetric])
    qed simp
    then show ?thesis by (simp add: match_lit_def)
  qed
  moreover have "j \<le> length k" if "j \<in> set (rep_counts True 1 None NAME_CHAR (k @ CHR ''>'' # r))" for j
    using that run_length_le [OF n, of k r] by (auto simp: rep_counts_def simp del: upt_Suc)
  ultimately show ?thesis by (auto simp: advance_def)
qed

lemma rmatch_lit: "rmatch (Seq (Lit l) b) (p, l @ z, c) = rmatch b (rev l @ p, z, c)"
  by (simp add: match_lit_def advance_def)

lemma search_step:
  "rmatch a (p, x # r, []) = [] \<Longrightarrow> search_go a False p (x # r) = search_go a False (x # p) r"
  by simp

lemma malformed_none:
  assumes "plain_args args" and "\<not> contains w ''<parameter=''"
  shows "search_go MALFORMED_PARAMETER False p (w @ call_body args) = None"
  using assms
proof (induction args arbitrary: p w)
  case Nil
  then show ?case unfolding MALFORMED_PARAMETER_def by (simp add: search_lit_none)
next
  case (Cons a args)
  obtain k v where a: "a = (k, v)" by fastforce
  have k: "plain_param k" and v: "plain_value v" and args: "plain_args args"
    using Cons.prems(1) a by simp_all
  let ?w = "''parameter='' @ k @ CHR ''>'' # v @ ''</parameter>'' @ [newline]"
  let ?z = "k @ CHR ''>'' # v @ ''</parameter>'' @ newline # call_body args"
  have body: "w @ call_body (a # args) = w @ ''<parameter='' @ ?z"
    by (simp add: a param_piece_def)
  have "cut ''<parameter='' (w @ ''<parameter='' @ ?z) = Some (w, ?z)"
    using Cons.prems(2) by (intro cut_unbordered) auto
  then have "search_go MALFORMED_PARAMETER False p (w @ call_body (a # args))
      = search_go MALFORMED_PARAMETER False (rev w @ p) (''<parameter='' @ ?z)"
    unfolding body MALFORMED_PARAMETER_def by (intro search_skip) simp_all
  also have "\<dots> = search_go MALFORMED_PARAMETER False (CHR ''<'' # rev w @ p) (?w @ call_body args)"
  proof -
    have "rmatch MALFORMED_PARAMETER (rev w @ p, ''<parameter='' @ ?z, []) = []"
      unfolding MALFORMED_PARAMETER_def rmatch_lit by (rule malformed_fails [OF k])
    then have "rmatch MALFORMED_PARAMETER (rev w @ p, CHR ''<'' # ?w @ call_body args, []) = []"
      by (simp only: append_Cons append_Nil append_assoc)
    then have "search_go MALFORMED_PARAMETER False (rev w @ p) (CHR ''<'' # ?w @ call_body args)
        = search_go MALFORMED_PARAMETER False (CHR ''<'' # rev w @ p) (?w @ call_body args)"
      by (rule search_step)
    then show ?thesis by (simp only: append_Cons append_Nil append_assoc)
  qed
  also have "\<dots> = None"
  proof (rule Cons.IH [OF args])
    have "CHR ''<'' \<notin> set (''parameter='' @ k @ ''>'')" using plain_param_chars [OF k] by simp
    then have "contains ((''parameter='' @ k @ ''>'') @ (v @ ''</parameter>'' @ [newline])) ''<parameter=''
        = contains (v @ ''</parameter>'' @ [newline]) ''<parameter=''"
      by (intro contains_skip) auto
    also have "\<dots> = (contains v ''<parameter='' \<or> contains (''</parameter>'' @ [newline]) ''<parameter='')"
      by (intro contains_append_start) auto
    finally show "\<not> contains ?w ''<parameter=''"
      using v by (simp add: plain_value_def format_tags_def)
  qed
  finally show ?case .
qed

lemma normalize_body: "plain_args args \<Longrightarrow> normalize_parameter_tags (call_body args) = call_body args"
  using malformed_none [of args "[]" "[]"]
  by (simp add: normalize_parameter_tags_def re_sub_with_def sub_with_go.simps)

section \<open>A call the tool accepts\<close>

text \<open>A parameter declared with a type read as text, and a value its enumeration allows.\<close>

definition string_param :: "json \<Rightarrow> string \<Rightarrow> bool" where
  "string_param info v =
     (case info of
        JObj i \<Rightarrow> get_key i ''type'' (JStr ''string'') \<notin> {JStr ''integer'', JStr ''array''} \<and>
          (case map_of i ''enum'' of
             None \<Rightarrow> True
           | Some (JList vs) \<Rightarrow> JStr v \<in> set vs
           | _ \<Rightarrow> False)
      | _ \<Rightarrow> False)"

definition declares :: "dict \<Rightarrow> (string \<times> string) list \<Rightarrow> bool" where
  "declares props args \<longleftrightarrow>
     list_all (\<lambda>(k, v). case map_of props k of Some info \<Rightarrow> string_param info v | None \<Rightarrow> False) args \<and>
     list_all (\<lambda>(k, info). case info of JObj i \<Rightarrow> True | _ \<Rightarrow> False) props"

text \<open>The properties and the required names a tool declares.\<close>

definition tool_schema :: "json \<Rightarrow> (dict \<times> dict \<times> json list) option" where
  "tool_schema tool =
     Option.bind (as_obj tool) (\<lambda>t. Option.bind (map_of t ''parameters'') (\<lambda>p.
     Option.bind (as_obj p) (\<lambda>d. Option.bind (map_of d ''properties'') (\<lambda>q.
     Option.bind (as_obj q) (\<lambda>props.
     Option.bind (as_list (get_key d ''required'' (JList []))) (\<lambda>rs. Some (d, props, rs)))))))"

definition accepts :: "json \<Rightarrow> (string \<times> string) list \<Rightarrow> bool" where
  "accepts tool args =
     (case tool_schema tool of
        Some (d, props, rs) \<Rightarrow>
          declares props args \<and> list_all (\<lambda>r. r \<in> set (map (\<lambda>(k, v). JStr k) args)) rs
      | None \<Rightarrow> False)"

lemma as_obj_Some [simp]: "as_obj v = Some d \<longleftrightarrow> v = JObj d"
  by (cases v) auto

lemma as_list_Some [simp]: "as_list v = Some xs \<longleftrightarrow> v = JList xs"
  by (cases v) auto

lemma acceptsE:
  assumes "accepts tool args"
  obtains t d props rs where "tool = JObj t" "map_of t ''parameters'' = Some (JObj d)"
    "map_of d ''properties'' = Some (JObj props)" "get_key d ''required'' (JList []) = JList rs"
    "declares props args" "list_all (\<lambda>r. r \<in> set (map (\<lambda>(k, v). JStr k) args)) rs"
  using assms
  by (auto simp: accepts_def tool_schema_def bind_eq_Some_conv simp del: set_map split: option.splits)

lemma str_args_Nil [simp]: "str_args [] = []"
  by (simp add: str_args_def)

lemma accepts_truthy: "accepts tool args \<Longrightarrow> json_truthy tool"
  by (erule acceptsE) auto

lemma keys_str_args: "map (\<lambda>(k, x). JStr k) (str_args args) = map (\<lambda>(k, v). JStr k) args"
  by (auto simp: str_args_def)

lemma py_in_key [simp]: "py_in (JStr k) (JObj d) = Inr (has_key k d)"
proof -
  have "list_ex (\<lambda>(j, x). JStr k = JStr j) d \<longleftrightarrow> k \<in> set (keys d)"
    by (induction d) auto
  also have "\<dots> \<longleftrightarrow> has_key k d"
    by (simp add: has_key_def map_of_eq_None_iff)
  finally show ?thesis by simp
qed

declare py_in.simps(2) [simp del]

lemma param_types_ok:
  assumes "list_all (\<lambda>(k, info). case info of JObj i \<Rightarrow> True | _ \<Rightarrow> False) props"
  shows "\<exists>types. param_types props = Inr types \<and>
    (\<forall>k i. map_of props k = Some (JObj i) \<longrightarrow> map_of types k = Some (get_key i ''type'' (JStr ''string'')))
    \<and> (\<forall>k. map_of props k = None \<longrightarrow> map_of types k = None)"
  using assms
proof (induction props)
  case (Cons p props)
  obtain k i where p: "p = (k, JObj i)" using Cons.prems by (auto split: json.splits)
  with Cons obtain types where "param_types props = Inr types"
    "\<forall>k i. map_of props k = Some (JObj i) \<longrightarrow> map_of types k = Some (get_key i ''type'' (JStr ''string''))"
    "\<forall>k. map_of props k = None \<longrightarrow> map_of types k = None" by auto
  with p show ?case by (auto simp: param_types_def)
qed (simp add: param_types_def)

lemma enum_member: "JStr v \<in> set vs \<Longrightarrow> py_in (JStr v) (JList vs) = Inr True"
  by (auto simp: list_ex_iff intro: bexI [of _ "JStr v"])

lemma check_enum_ok:
  assumes "map_of t ''parameters'' = Some (JObj d)" "map_of d ''properties'' = Some (JObj props)"
    and "map_of props k = Some info" and "string_param info v"
  shows "check_enum env (JObj t) k (JStr v) = Inr ()"
proof -
  have pi: "param_info (JObj t) k = Inr info" using assms(1-3) by (simp add: param_info_def sub_def)
  from assms(4) obtain i where i: "info = JObj i"
    and e: "case map_of i ''enum'' of None \<Rightarrow> True | Some (JList vs) \<Rightarrow> JStr v \<in> set vs | _ \<Rightarrow> False"
    by (auto simp: string_param_def split: json.splits)
  show ?thesis
  proof (cases "map_of i ''enum''")
    case None
    with pi i show ?thesis by (simp add: check_enum_def has_key_def)
  next
    case (Some en)
    with e obtain vs where vs: "en = JList vs" "JStr v \<in> set vs" by (auto split: json.splits)
    then have "py_in (JStr v) en = Inr True" by (simp only: enum_member)
    with Some pi i show ?thesis by (simp add: check_enum_def has_key_def sub_def)
  qed
qed

lemma validate_ok:
  assumes "map_of t ''parameters'' = Some (JObj d)" "map_of d ''properties'' = Some (JObj props)"
    and "map_of props k = Some info" and "string_param info v"
    and "\<And>i. info = JObj i \<Longrightarrow> map_of types k = Some (get_key i ''type'' (JStr ''string''))"
  shows "validate_param env (JObj t) name props types (k, v) params = Inr (dict_set params k (JStr v))"
proof -
  from assms(4) obtain i where "info = JObj i" "get_key i ''type'' (JStr ''string'') \<notin> {JStr ''integer'', JStr ''array''}"
    by (auto simp: string_param_def split: json.splits)
  with assms(5) have "convert_value env types k v = Inr (JStr v)"
    by (auto simp: convert_value_def)
  moreover have "has_key k props" using assms(3) by (simp add: has_key_def)
  moreover have "check_enum env (JObj t) k (JStr v) = Inr ()" by (rule check_enum_ok [OF assms(1-4)])
  ultimately show ?thesis by (simp add: validate_param_def)
qed

lemma extract_accepted:
  assumes "accepts tool args" and "distinct (keys args)"
  shows "extract_and_validate_params env tool args name = Inr (str_args args)"
proof -
  from assms(1) obtain t d props rs where tool: "tool = JObj t"
    and p: "map_of t ''parameters'' = Some (JObj d)" "map_of d ''properties'' = Some (JObj props)"
    and rs: "get_key d ''required'' (JList []) = JList rs"
    and decl: "declares props args"
    and req: "list_all (\<lambda>r. r \<in> set (map (\<lambda>(k, v). JStr k) args)) rs"
    by (rule acceptsE)
  obtain types where types: "param_types props = Inr types"
    and ty: "\<And>k i. map_of props k = Some (JObj i) \<Longrightarrow> map_of types k = Some (get_key i ''type'' (JStr ''string''))"
    using decl param_types_ok [of props] by (auto simp: declares_def)
  have loop: "foldE (validate_param env tool name props types) as (str_args done) = Inr (str_args (done @ as))"
    if "list_all (\<lambda>(k, v). case map_of props k of Some info \<Rightarrow> string_param info v | None \<Rightarrow> False) as"
      and "distinct (keys (done @ as))" for as "done"
    using that
  proof (induction as arbitrary: "done")
    case (Cons a as)
    obtain k v where a: "a = (k, v)" by fastforce
    with Cons.prems obtain info where info: "map_of props k = Some info" "string_param info v"
      by (auto split: option.splits)
    have "validate_param env tool name props types a (str_args done) = Inr (dict_set (str_args done) k (JStr v))"
      unfolding a tool by (rule validate_ok [OF p info]) (use info ty in auto)
    also have "dict_set (str_args done) k (JStr v) = str_args (done @ [a])"
      using Cons.prems(2) a by (subst dict_set_fresh) (force simp: str_args_def)+
    finally show ?case using Cons.IH [of "done @ [a]"] Cons.prems by simp
  qed simp
  have "required_params (Some d) = Inr (if has_key ''required'' d then rs else [])"
  proof -
    have "find (\<lambda>x. \<not> hashable x) rs = None"
      using req by (induction rs) auto
    then show ?thesis by (simp add: required_params_def rs py_set_def)
  qed
  moreover have "filter (\<lambda>r. r \<notin> set (map (\<lambda>(k, x). JStr k) (str_args args))) (if b then rs else []) = []" for b
    unfolding keys_str_args using req by (auto simp: filter_empty_conv list_all_iff)
  ultimately show ?thesis
    using loop [of args "[]"] decl assms(2) types p tool
    by (simp add: extract_and_validate_params_def declared_params_def declared_properties_def declares_def
        del: set_map)
qed

section \<open>One message there and back\<close>

text \<open>A turn of an agent: what it says, the call, and the result of the tool.\<close>

record turn =
  t_content :: string
  t_id :: string
  t_name :: string
  t_args :: "(string \<times> string) list"
  t_arguments :: string
  t_result :: string

definition call_message :: "turn \<Rightarrow> dict" where
  "call_message t = message_json ''assistant'' (JStr (t_content t)) @
     [(''tool_calls'', JList [JObj [(''id'', JStr (t_id t)), (''type'', JStr ''function''),
        (''function'', JObj [(''name'', JStr (t_name t)), (''arguments'', JStr (t_arguments t))])]])]"

definition result_message :: "turn \<Rightarrow> dict" where
  "result_message t = message_json ''tool'' (JStr (t_result t)) @
     [(''tool_call_id'', JStr (t_id t)), (''name'', JStr (t_name t))]"

definition result_text :: "turn \<Rightarrow> string" where
  "result_text t = ''EXECUTION RESULT of ['' @ t_name t @ '']:'' @ newline # t_result t"

text \<open>What comes back: the content stripped, the calls numbered, the values as they were shown.\<close>

definition restored_turn :: "conv_env \<Rightarrow> int \<Rightarrow> turn \<Rightarrow> dict list" where
  "restored_turn env n t =
     [message_json ''assistant'' (JStr (strip (t_content t))) @
        [(''tool_calls'', JList [call_json env n (t_name t) (str_args (shown_args (t_args t)))])],
      [(''role'', JStr ''tool''), (''name'', JStr (t_name t)), (''content'', JStr (strip (t_result t))),
       (''tool_call_id'', JStr (toolu n))]]"

definition valid_turn :: "conv_env \<Rightarrow> dict list \<Rightarrow> turn \<Rightarrow> bool" where
  "valid_turn env tools t \<longleftrightarrow>
     plain_function (t_name t) \<and> CHR '']'' \<notin> set (t_name t) \<and> plain_args (t_args t) \<and>
     distinct (keys (t_args t)) \<and> \<not> contains (t_content t) ''<function='' \<and>
     json_loads (ce_reader env) (t_arguments t) = Some (JObj (str_args (t_args t))) \<and>
     (case matching_tool tools (t_name t) of Inr tool \<Rightarrow> accepts tool (shown_args (t_args t)) | _ \<Rightarrow> False)"

text \<open>The text before the call.\<close>

definition call_prefix :: "string \<Rightarrow> string" where
  "call_prefix s = (if list_all is_space s then [] else lstrip s @ [newline, newline])"

lemma newline_space [simp]: "is_space newline"
  by (simp add: is_space_def)

lemma dropWhile_all: "list_all P xs \<Longrightarrow> dropWhile P (xs @ ys) = dropWhile P ys"
  by (induction xs) auto

lemma dropWhile_some: "\<not> list_all P xs \<Longrightarrow> dropWhile P (xs @ ys) = dropWhile P xs @ ys"
  by (induction xs) auto

lemma lstrip_call:
  "lstrip (s @ [newline, newline] @ call_text name args) = call_prefix s @ call_text name args"
proof (cases "list_all is_space s")
  case True
  then show ?thesis
    by (simp add: lstrip_def call_prefix_def dropWhile_all call_text_def is_space_def)
next
  case False
  then show ?thesis by (simp add: lstrip_def call_prefix_def dropWhile_some)
qed

lemma strip_call_prefix: "strip (call_prefix s) = strip s"
proof (cases "list_all is_space s")
  case True
  then have "lstrip s = []" by (simp add: lstrip_def dropWhile_eq_Nil_conv list_all_iff)
  moreover have "lstrip [] = []" by (simp add: lstrip_def)
  ultimately show ?thesis using True by (simp add: call_prefix_def strip_def)
next
  case False
  have "lstrip (lstrip s @ [newline, newline]) = lstrip s @ [newline, newline]"
  proof -
    obtain c u where "lstrip s = c # u" "\<not> is_space c"
      using False by (cases "lstrip s") (auto simp: lstrip_def dropWhile_eq_Nil_conv list_all_iff
          dropWhile_eq_Cons_conv)
    then show ?thesis by (simp add: lstrip_def)
  qed
  with False show ?thesis by (simp add: call_prefix_def strip_def rstrip_def)
qed

lemma call_prefix_free:
  assumes "\<not> contains s ''<function=''"
  shows "\<not> contains (call_prefix s) ''<function=''"
proof -
  have "s = takeWhile is_space s @ lstrip s" by (simp add: lstrip_def)
  then have "\<not> contains (lstrip s) ''<function=''" using assms contains_append2 by metis
  then have "\<not> contains (lstrip s @ newline # [newline]) ''<function=''"
    by (subst contains_mid) auto
  then show ?thesis by (simp add: call_prefix_def)
qed

lemma split_first:
  "unbordered l \<Longrightarrow> \<not> contains x l \<Longrightarrow> split_on l (x @ l @ z) = x # split_on l z"
  by (rule split_on_Some) (simp_all add: cut_unbordered unbordered_def)

lemma fix_stopword_call:
  assumes "\<not> contains pre ''<function=''" and "plain_function name" and "plain_args args"
  shows "fix_stopword (pre @ call_text name args) = pre @ call_text name args @ newline # ''</function>''"
    and "before_first ''<function='' (pre @ call_text name args @ newline # ''</function>'') = pre"
proof -
  let ?z = "name @ ''>'' @ newline # call_body args @ ''</function>''"
  have "cut ''<function='' ?z = None"
    using tail_free [OF assms(2,3), of "[]"] by (simp add: cut_None)
  then have "split_on ''<function='' ?z = [?z]" by (rule split_on_None)
  then have "split_on ''<function='' (pre @ call_text name args) = [pre, ?z]"
    unfolding call_text_def by (subst split_first) (simp_all only: assms(1) tags_unbordered not_False_eq_True)
  moreover have "\<not> endswith (pre @ call_text name args) ''</''"
    by (simp add: call_text_def endswith_def)
  moreover have "contains (pre @ call_text name args) ''<function=''"
    unfolding call_text_def by (rule contains_intros)
  ultimately show "fix_stopword (pre @ call_text name args)
      = pre @ call_text name args @ newline # ''</function>''"
    by (simp add: fix_stopword_def count_text_def)
  show "before_first ''<function='' (pre @ call_text name args @ newline # ''</function>'') = pre"
    unfolding before_first_def call_text_def append_assoc
    by (subst split_first) (simp_all only: assms(1) tags_unbordered not_False_eq_True list.sel)
qed

lemma param_text_shown: "param_text env k (JStr v) = param_piece (k, shown v)"
  by (simp add: param_text_def param_piece_def shown_def)

lemma tool_call_text:
  assumes "json_loads (ce_reader env) a = Some (JObj (str_args args))"
  shows "convert_tool_call_to_string env (JObj [(''id'', JStr i), (''type'', JStr ''function''),
      (''function'', JObj [(''name'', JStr name), (''arguments'', JStr a)])]) = Inr (call_text name (shown_args args))"
proof -
  have "concat (map (\<lambda>(k, v). param_text env k v) (str_args args)) = call_body (shown_args args)"
    by (induction args) (auto simp: str_args_def shown_args_def param_text_shown)
  with assms show ?thesis
    by (simp add: convert_tool_call_to_string_def require_key_def call_arguments_def call_text_def)
qed

lemma to_text_call:
  assumes "valid_turn env tools t"
  shows "to_text_step env msgs tools suffix ex (call_message t) st = Inr (st\<lparr>converted := converted st @
     [message_json ''assistant'' (JStr (call_prefix (t_content t) @ call_text (t_name t) (shown_args (t_args t))))]\<rparr>)"
proof -
  have "convert_tool_call_to_string env (JObj [(''id'', JStr (t_id t)), (''type'', JStr ''function''),
      (''function'', JObj [(''name'', JStr (t_name t)), (''arguments'', JStr (t_arguments t))])])
    = Inr (call_text (t_name t) (shown_args (t_args t)))"
    using assms by (intro tool_call_text) (auto simp: valid_turn_def)
  then show ?thesis
    using lstrip_call [of "t_content t" "t_name t" "shown_args (t_args t)"]
    by (simp add: to_text_step_def call_message_def message_json_def assistant_tool_text_def add_tool_text_def)
qed

lemma to_text_result:
  "to_text_step env msgs tools suffix ex (result_message t) st = Inr (st\<lparr>converted := converted st @
     [message_json ''user'' (JStr (result_text t))]\<rparr>)"
  by (simp add: result_text_def to_text_step_def result_message_def message_json_def get_key_def add_result_prefix_def)

lemma from_text_call:
  assumes "valid_turn env tools t"
  shows "from_text_step env tools suffix
      (message_json ''assistant'' (JStr (call_prefix (t_content t) @ call_text (t_name t) (shown_args (t_args t))))) st
    = Inr (st\<lparr>tool_call_counter := tool_call_counter st + 1,
        restored := restored st @ [hd (restored_turn env (tool_call_counter st) t)]\<rparr>)"
proof -
  let ?pre = "call_prefix (t_content t)"
  let ?c = "?pre @ call_text (t_name t) (shown_args (t_args t))"
  have v: "plain_function (t_name t)" "plain_args (shown_args (t_args t))" "distinct (keys (shown_args (t_args t)))"
      "\<not> contains ?pre ''<function=''"
    using assms by (auto simp: valid_turn_def call_prefix_free plain_shown_args)
  obtain tool where tool: "matching_tool tools (t_name t) = Inr tool" "accepts tool (shown_args (t_args t))"
    using assms by (auto simp: valid_turn_def split: sum.splits)
  then have "json_truthy tool" by (simp add: accepts_truthy)
  obtain p r where found: "re_search FN_REGEX_PATTERN (?c @ newline # ''</function>'')
      = Some (p, r, [(2, call_body (shown_args (t_args t))), (1, t_name t)])"
    using fn_found [OF v(4,1,2), of "newline # ''</function>''"] by auto
  have fixed: "fix_stopword ?c = ?c @ newline # ''</function>''"
    "before_first ''<function='' (?c @ newline # ''</function>'') = ?pre"
    using fix_stopword_call [OF v(4,1,2)] by simp_all
  have "json_truthy (JStr ?c)" by (simp add: call_text_def)
  then show ?thesis
    using found fixed tool \<open>json_truthy tool\<close> v
    by (simp add: from_text_step_def message_json_def find_function_def restore_call_def normalize_body
        param_matches_body extract_accepted cut_call_def strip_call_prefix restored_turn_def)
qed

lemma tool_result_found:
  assumes "CHR '']'' \<notin> set name"
  shows "\<exists>p. re_search TOOL_RESULT_REGEX_PATTERN (''EXECUTION RESULT of ['' @ name @ '']:'' @ newline # r)
    = Some (p, [], [(2, r), (1, name)])"
proof -
  let ?l = "''EXECUTION RESULT of [''"
  let ?y = "name @ ('']:'' @ [newline]) @ r"
  have c: "cut ?l ([] @ ?l @ ?y) = Some ([], ?y)" by (rule cut_at) simp_all
  have "unbordered ('']:'' @ [newline])" by (simp add: unbordered_def)
  moreover have "\<not> contains name ('']:'' @ [newline])" using assms contains_set by fastforce
  ultimately have cl: "cut ('']:'' @ [newline]) ?y = Some (name, r)" by (rule cut_unbordered)
  have "first (star DotAll) (p, r @ [], [(1, name)]) (rev r @ p, [], [(1, name)])" for p
    by (rule first_Rep) simp_all
  then have "first (Grp 2 (star DotAll)) (p, r @ [], [(1, name)]) (rev r @ p, [], [(2, r), (1, name)])" for p
    by (rule first_Grp)
  then have "first (Seq (Grp 1 (lazy_star DotAll)) (Seq (Lit ('']:'' @ [newline])) (Grp 2 (star DotAll))))
      (rev ?l @ rev [] @ [], ?y, [])
      (rev r @ rev ('']:'' @ [newline]) @ rev name @ rev ?l @ rev [] @ [], [], [(2, r), (1, name)])"
    by (intro lazy_until [OF cl]) (simp_all del: rev.simps)
  then have "search_go TOOL_RESULT_REGEX_PATTERN False [] ([] @ ?l @ ?y) = Some (rev [] @ [], ?l @ ?y,
      (rev r @ rev ('']:'' @ [newline]) @ rev name @ rev ?l @ rev [] @ [], [], [(2, r), (1, name)]))"
    unfolding TOOL_RESULT_REGEX_PATTERN_def by (intro search_lit [OF c]) simp_all
  then show ?thesis by (simp add: re_search_def)
qed

lemma from_text_result:
  assumes "CHR '']'' \<notin> set (t_name t)" and "user_seen st" and "tool_call_counter st = n + 1"
  shows "from_text_step env tools suffix (message_json ''user'' (JStr (result_text t))) st
    = Inr (st\<lparr>restored := restored st @ [last (restored_turn env n t)]\<rparr>)"
proof -
  obtain p where "re_search TOOL_RESULT_REGEX_PATTERN (result_text t)
      = Some (p, [], [(2, t_result t), (1, t_name t)])"
    using tool_result_found [OF assms(1)] unfolding result_text_def by blast
  moreover have "result_text t \<noteq> []" by (simp add: result_text_def)
  moreover have "st\<lparr>user_seen := True, restored := x\<rparr> = st\<lparr>restored := x\<rparr>" for x
    using assms(2) by simp
  ultimately show ?thesis
    using assms(2,3)
    by (simp add: from_text_step_def message_json_def tool_result_match_def restore_result_def
        restored_turn_def)
qed

end
