(* ===== verification/Fn_Call_Properties.thy ===== *)
theory Fn_Call_Properties
  imports Fn_Call_Correct
begin

text \<open>
  The properties of \<open>llm/fn_call_converter.py\<close>: a conversation with tool calls survives the way to
  text and back, the parameters that are accepted are those the tool declares, and the split of a
  message with several calls leaves one call per message, each followed by its result.
\<close>

section \<open>A conversation there and back\<close>

definition turn_messages :: "turn list \<Rightarrow> dict list" where
  "turn_messages ts = concat (map (\<lambda>t. [call_message t, result_message t]) ts)"

definition turn_texts :: "turn list \<Rightarrow> dict list" where
  "turn_texts ts = concat (map (\<lambda>t.
     [message_json ''assistant'' (JStr (call_prefix (t_content t) @ call_text (t_name t) (shown_args (t_args t)))),
      message_json ''user'' (JStr (result_text t))]) ts)"

fun restored_turns :: "conv_env \<Rightarrow> int \<Rightarrow> turn list \<Rightarrow> dict list" where
  "restored_turns env n [] = []"
| "restored_turns env n (t # ts) = restored_turn env n t @ restored_turns env (n + 1) ts"

lemma to_text_turns:
  "list_all (valid_turn env tools) ts \<Longrightarrow>
   foldE (to_text_step env msgs tools suffix ex) (turn_messages ts) st
     = Inr (st\<lparr>converted := converted st @ turn_texts ts\<rparr>)"
proof (induction ts arbitrary: st)
  case (Cons t ts)
  then show ?case
    by (simp add: turn_messages_def turn_texts_def to_text_call to_text_result)
qed (simp add: turn_messages_def turn_texts_def)

lemma restored_turn_two: "[hd (restored_turn env n t), last (restored_turn env n t)] = restored_turn env n t"
  by (simp add: restored_turn_def)

lemma from_text_turns:
  "list_all (valid_turn env tools) ts \<Longrightarrow> user_seen st \<Longrightarrow>
   \<exists>st'. foldE (from_text_step env tools suffix) (turn_texts ts) st = Inr st' \<and>
     restored st' = restored st @ restored_turns env (tool_call_counter st) ts"
proof (induction ts arbitrary: st)
  case (Cons t ts)
  let ?n = "tool_call_counter st"
  let ?st = "st\<lparr>tool_call_counter := ?n + 1, restored := restored st @ restored_turn env ?n t\<rparr>"
  have t: "valid_turn env tools t" "list_all (valid_turn env tools) ts" using Cons.prems by simp_all
  then have "CHR '']'' \<notin> set (t_name t)" by (simp add: valid_turn_def)
  then have "foldE (from_text_step env tools suffix) (turn_texts [t]) st = Inr ?st"
    using from_text_call [OF t(1), of suffix st] restored_turn_two [of env ?n t] Cons.prems(2)
      from_text_result [of t "st\<lparr>tool_call_counter := ?n + 1,
          restored := restored st @ [hd (restored_turn env ?n t)]\<rparr>" ?n env tools suffix]
    by (simp add: turn_texts_def)
  moreover have "turn_texts (t # ts) = turn_texts [t] @ turn_texts ts" by (simp add: turn_texts_def)
  ultimately have "foldE (from_text_step env tools suffix) (turn_texts (t # ts)) st
      = foldE (from_text_step env tools suffix) (turn_texts ts) ?st"
    by (simp only: foldE_append rbind_simps)
  then show ?case
    using Cons.IH [OF t(2), of ?st] Cons.prems(2) by simp
qed (simp add: turn_texts_def)

lemma cut_start: "l \<noteq> [] \<Longrightarrow> cut l (l @ r) = Some ([], r)"
  by (cases l) (simp_all add: startswith_iff)

lemma suffix_start: "system_prompt_suffix ff tools = Inr suffix \<Longrightarrow> \<exists>r. suffix = newline # r"
proof -
  assume "system_prompt_suffix ff tools = Inr suffix"
  then obtain d where d: "suffix = replace SYSTEM_PROMPT_SUFFIX_TEMPLATE ''{description}'' d"
    by (auto simp: system_prompt_suffix_def rbind_Inr_iff)
  obtain r where r: "SYSTEM_PROMPT_SUFFIX_TEMPLATE = newline # r"
    by (simp add: SYSTEM_PROMPT_SUFFIX_TEMPLATE_def)
  have "\<exists>x xs. split_on ''{description}'' (newline # r) = (newline # x) # xs"
  proof (cases "cut ''{description}'' (newline # r)")
    case (Some p)
    then show ?thesis
      by (cases p) (auto simp: split_on_Some split: if_splits)
  qed simp
  then obtain x xs where "split_on ''{description}'' (newline # r) = (newline # x) # xs" by blast
  then show ?thesis
    unfolding d r replace_def by (cases xs) auto
qed

lemma no_early_occurrence:
  assumes "l \<noteq> []" and "hd l \<notin> set u"
  shows "\<not> contains (u @ butlast l) l"
proof -
  have "\<not> contains (butlast l) l"
  proof
    assume "contains (butlast l) l"
    then obtain a b where "butlast l = a @ l @ b" by (auto simp: contains_iff)
    then have "length (butlast l) = length a + length l + length b" by (metis add.assoc length_append)
    moreover have "length (butlast l) < length l" using assms(1) by simp
    ultimately show False by linarith
  qed
  with contains_skip [OF assms(2,1)] show ?thesis by simp
qed

lemma remove_example_added:
  assumes "\<not> contains (u @ butlast IN_CONTEXT_LEARNING_EXAMPLE_SUFFIX) IN_CONTEXT_LEARNING_EXAMPLE_SUFFIX"
  shows "remove_example ex (if ex \<noteq> [] then ex @ u @ IN_CONTEXT_LEARNING_EXAMPLE_SUFFIX else u) = u"
proof -
  let ?l = IN_CONTEXT_LEARNING_EXAMPLE_SUFFIX
  have l: "?l \<noteq> []" by (simp add: IN_CONTEXT_LEARNING_EXAMPLE_SUFFIX_def)
  have c: "cut ?l (u @ ?l) = Some (u, [])"
    using cut_at [OF assms l, of "[]"] by simp
  have n: "\<not> endswith u ?l"
    using assms contains_append1 [of u ?l "butlast ?l"] by (auto simp: endswith_iff)
  show ?thesis
  proof (cases "ex = []")
    case True
    moreover have "cut [] u = Some ([], u)" by (cases u) simp_all
    ultimately show ?thesis using n by (simp add: remove_example_def remove_first_def)
  next
    case False
    moreover have "endswith (u @ ?l) ?l" by (auto simp: endswith_iff)
    ultimately show ?thesis
      using c by (simp add: remove_example_def remove_first_def cut_start)
  qed
qed

lemma from_text_system:
  assumes "\<not> contains (s @ butlast suffix) suffix" and "suffix \<noteq> []"
  shows "from_text_step env tools suffix (message_json ''system'' (JStr (s @ suffix))) st
    = Inr (st\<lparr>restored := restored st @ [message_json ''system'' (JStr s)]\<rparr>)"
  using cut_at [OF assms, of "[]"] assms(2)
  by (simp add: from_text_step_def message_json_def remove_system_suffix_def before_first_def split_on_Some)

lemma from_text_user:
  assumes "get_example_for_tools (ce_win32 env) tools = Inr ex"
    and "\<not> contains (u @ butlast IN_CONTEXT_LEARNING_EXAMPLE_SUFFIX) IN_CONTEXT_LEARNING_EXAMPLE_SUFFIX"
    and "\<not> contains u ''EXECUTION RESULT of [''" and "\<not> user_seen st"
  shows "from_text_step env tools suffix (message_json ''user''
      (JStr (if ex \<noteq> [] then ex @ u @ IN_CONTEXT_LEARNING_EXAMPLE_SUFFIX else u))) st
    = Inr (st\<lparr>user_seen := True, restored := restored st @ [message_json ''user'' (JStr u)]\<rparr>)"
proof -
  let ?c = "if ex \<noteq> [] then ex @ u @ IN_CONTEXT_LEARNING_EXAMPLE_SUFFIX else u"
  have "re_search TOOL_RESULT_REGEX_PATTERN u = None"
    unfolding re_search_def TOOL_RESULT_REGEX_PATTERN_def by (simp add: search_lit_none [OF assms(3)])
  moreover have "(if json_truthy (JStr ?c) then JStr ?c else JStr []) = JStr ?c"
    by simp
  moreover have "remove_example ex ?c = u" by (rule remove_example_added [OF assms(2)])
  ultimately show ?thesis
    using assms(1,4)
    unfolding from_text_step_def message_json_def strip_example_def
    by (simp only: sub_Cons refl if_True if_False rbind_simps json.case json.inject list.inject
        char.inject simp_thms list.distinct Let_def tool_result_match_def option.case
        from_text_state.simps) simp
qed

text \<open>
  C25. A conversation made of a system message, a request and turns of one tool call and its result
  each comes back from its textual form: the system prompt without the description of the tools,
  the request without the example, every call with its name and its parameters, every result
  (stripped). The ids change, as the calls are numbered from 1, and a value that spans lines keeps
  the line breaks that were put around it; a value on one line is as it was. A turn is valid when
  the tool declares the parameters and no tag of the format stands in what the agent says or in a
  value.
\<close>

theorem conversation_roundtrip:
  assumes "system_prompt_suffix (ce_float_text env) tools = Inr suffix"
    and "get_example_for_tools (ce_win32 env) tools = Inr ex"
    and "\<not> contains (s @ butlast suffix) suffix"
    and "\<not> contains (u @ butlast IN_CONTEXT_LEARNING_EXAMPLE_SUFFIX) IN_CONTEXT_LEARNING_EXAMPLE_SUFFIX"
    and "\<not> contains u ''EXECUTION RESULT of [''"
    and "list_all (valid_turn env tools) ts"
  shows "rbind (convert_fncall_messages_to_non_fncall_messages env
           (message_json ''system'' (JStr s) # message_json ''user'' (JStr u) # turn_messages ts) tools True)
         (\<lambda>texts. convert_non_fncall_messages_to_fncall_messages env texts tools)
    = Inr (message_json ''system'' (JStr s) # message_json ''user'' (JStr u) # restored_turns env 1 ts)"
proof -
  let ?u = "if ex \<noteq> [] then ex @ u @ IN_CONTEXT_LEARNING_EXAMPLE_SUFFIX else u"
  let ?msgs = "message_json ''system'' (JStr s) # message_json ''user'' (JStr u) # turn_messages ts"
  let ?texts = "message_json ''system'' (JStr (s @ suffix)) # message_json ''user'' (JStr ?u) # turn_texts ts"
  have "to_text_step env ?msgs tools suffix True (message_json ''system'' (JStr s)) st
      = Inr (st\<lparr>converted := converted st @ [message_json ''system'' (JStr (s @ suffix))]\<rparr>)" for st
    by (simp add: to_text_step_def message_json_def add_system_suffix_def)
  moreover have "to_text_step env ?msgs tools suffix True (message_json ''user'' (JStr u)) st
      = Inr (st\<lparr>first_user_seen := True, converted := converted st @ [message_json ''user'' (JStr ?u)]\<rparr>)"
    if "\<not> first_user_seen st" for st
    using assms(2) that by (simp add: to_text_step_def message_json_def add_example_def)
  ultimately have "convert_fncall_messages_to_non_fncall_messages env ?msgs tools True = Inr ?texts"
    using assms(1) to_text_turns [OF assms(6)]
    by (simp add: convert_fncall_messages_to_non_fncall_messages_def)
  moreover have "suffix \<noteq> []" using suffix_start [OF assms(1)] by blast
  then have "convert_non_fncall_messages_to_fncall_messages env ?texts tools
      = Inr (message_json ''system'' (JStr s) # message_json ''user'' (JStr u) # restored_turns env 1 ts)"
    using assms(1) from_text_system [OF assms(3)] from_text_user [OF assms(2,4,5)]
      from_text_turns [OF assms(6), of "\<lparr>user_seen = True, tool_call_counter = 1,
          restored = [message_json ''system'' (JStr s), message_json ''user'' (JStr u)]\<rparr>" suffix]
    by (auto simp: convert_non_fncall_messages_to_fncall_messages_def)
  ultimately show ?thesis by simp
qed

definition demo_env :: conv_env where
  "demo_env = \<lparr>ce_win32 = False, ce_float_text = (\<lambda>x. ''1.5''),
     ce_reader = \<lparr>jr_float = (\<lambda>t. 3 / 2), jr_wide = (\<lambda>n. ''?'')\<rparr>, ce_set_text = (\<lambda>xs. ''{}'')\<rparr>"

definition demo_tool :: json where
  "demo_tool = JObj [(''name'', JStr ''execute_bash''), (''description'', JStr ''Run a command.''),
     (''parameters'', JObj [(''type'', JStr ''object''),
       (''properties'', JObj [(''command'', JObj [(''type'', JStr ''string'')])]),
       (''required'', JList [JStr ''command''])])]"

definition demo_tools :: "dict list" where
  "demo_tools = [[(''type'', JStr ''function''), (''function'', demo_tool)]]"

definition demo_turn :: turn where
  "demo_turn = \<lparr>t_content = ''Let me look:'', t_id = ''call_7'', t_name = ''execute_bash'',
     t_args = [(''command'', ''ls -la'')], t_arguments = dumps (\<lambda>x. []) (JObj [(''command'', JStr ''ls -la'')]),
     t_result = ''a.txt''\<rparr>"

lemma demo_turn_valid: "valid_turn demo_env demo_tools demo_turn"
  by code_simp

lemma demo_description: "\<exists>d. convert_tools_to_description ff demo_tools = Inr d"
  by (simp add: convert_tools_to_description_def demo_tools_def demo_tool_def describe_tool_def
      describe_parameters_def describe_param_def get_key_def py_set_def)

lemma demo_example: "get_example_for_tools False demo_tools = Inr (lstrip (example_text [''execute_bash'']))"
  by (simp add: get_example_for_tools_def available_tools_def available_tool_def demo_tools_def demo_tool_def
      example_names_def tool_names refine_prompt_def)

theorem conversation_roundtrip_witness:
  "rbind (convert_fncall_messages_to_non_fncall_messages demo_env
      (message_json ''system'' (JStr ''You are OpenHands.'') # message_json ''user'' (JStr ''List the files.'')
        # turn_messages [demo_turn]) demo_tools True)
     (\<lambda>texts. convert_non_fncall_messages_to_fncall_messages demo_env texts demo_tools)
   = Inr (message_json ''system'' (JStr ''You are OpenHands.'') # message_json ''user'' (JStr ''List the files.'')
        # restored_turns demo_env 1 [demo_turn])"
proof -
  obtain d where "convert_tools_to_description (ce_float_text demo_env) demo_tools = Inr d"
    using demo_description by blast
  then obtain suffix where suffix: "system_prompt_suffix (ce_float_text demo_env) demo_tools = Inr suffix"
    by (simp add: system_prompt_suffix_def)
  then obtain r where "suffix = newline # r" using suffix_start by blast
  then have "\<not> contains (''You are OpenHands.'' @ butlast suffix) suffix"
    by (intro no_early_occurrence) auto
  moreover have "IN_CONTEXT_LEARNING_EXAMPLE_SUFFIX \<noteq> [] \<and> hd IN_CONTEXT_LEARNING_EXAMPLE_SUFFIX = newline"
    by (simp add: IN_CONTEXT_LEARNING_EXAMPLE_SUFFIX_def)
  then have "\<not> contains (''List the files.'' @ butlast IN_CONTEXT_LEARNING_EXAMPLE_SUFFIX) IN_CONTEXT_LEARNING_EXAMPLE_SUFFIX"
    by (intro no_early_occurrence) auto
  ultimately show ?thesis
    by (intro conversation_roundtrip [OF suffix, of "lstrip (example_text [''execute_bash''])"])
      (simp_all add: demo_example demo_turn_valid, simp_all add: demo_env_def demo_example)
qed

section \<open>The parameters that are accepted\<close>

definition param_ok :: "dict \<Rightarrow> string \<Rightarrow> json \<Rightarrow> bool" where
  "param_ok props k v \<longleftrightarrow>
     (case map_of props k of
        Some (JObj info) \<Rightarrow>
          (get_key info ''type'' (JStr ''string'') = JStr ''integer'' \<longrightarrow> (\<exists>i. v = JInt i)) \<and>
          (\<forall>enum. map_of info ''enum'' = Some enum \<longrightarrow> py_in v enum = Inr True)
      | _ \<Rightarrow> False)"

lemma param_types_all:
  "param_types props = Inr types \<Longrightarrow> map_of props k = Some info \<Longrightarrow>
   \<exists>i. info = JObj i \<and> map_of types k = Some (get_key i ''type'' (JStr ''string''))"
proof (induction props arbitrary: types)
  case (Cons p props)
  obtain k' w where p: "p = (k', w)" by fastforce
  from Cons.prems(1) p obtain t ts where t: "get_item w ''type'' (JStr ''string'') = Inr t"
    "param_types props = Inr ts" "types = (k', t) # ts"
    by (auto simp: param_types_def rbind_Inr_iff)
  then obtain i where "w = JObj i" by (cases w) auto
  with t p Cons show ?case by auto
qed simp

lemma dict_set_entries: "x \<in> set (dict_set d k v) \<Longrightarrow> x \<in> set d \<or> x = (k, v)"
  by (induction d) (auto split: if_splits)

lemma validate_param_ok:
  assumes "validate_param env (JObj t) name props types (k, s) params = Inr params'"
    and "map_of t ''parameters'' = Some (JObj d)" and "map_of d ''properties'' = Some (JObj props)"
    and "props \<noteq> []" and "param_types props = Inr types"
  shows "\<exists>v. params' = dict_set params k v \<and> param_ok props k v"
proof -
  from assms(1,4) obtain v where k: "has_key k props"
    and v: "convert_value env types k s = Inr v" "check_enum env (JObj t) k v = Inr ()"
      "params' = dict_set params k v"
    by (auto simp: validate_param_def rbind_Inr_iff split: if_splits)
  from k obtain info where "map_of props k = Some info" by (auto simp: has_key_def)
  with assms(5) obtain i where i: "map_of props k = Some (JObj i)"
    "map_of types k = Some (get_key i ''type'' (JStr ''string''))"
    using param_types_all by blast
  have "get_key i ''type'' (JStr ''string'') = JStr ''integer'' \<longrightarrow> (\<exists>n. v = JInt n)"
    using v(1) i(2) by (auto simp: convert_value_def split: option.splits)
  moreover have "py_in v enum = Inr True" if "map_of i ''enum'' = Some enum" for enum
    using v(2) i(1) assms(2,3) that
    by (auto simp: check_enum_def param_info_def sub_def has_key_def rbind_Inr_iff split: if_splits)
  ultimately show ?thesis using v(3) i(1) by (auto simp: param_ok_def)
qed


lemma demo_schema:
  "tool_schema demo_tool = Some ([(''type'', JStr ''object''),
       (''properties'', JObj [(''command'', JObj [(''type'', JStr ''string'')])]),
       (''required'', JList [JStr ''command''])],
     [(''command'', JObj [(''type'', JStr ''string'')])], [JStr ''command''])"
  by (simp add: tool_schema_def demo_tool_def get_key_def)


text \<open>A tool that declares no properties fails on any parameter with a \<open>KeyError\<close>, which no caller
  takes for a badly formed call.\<close>

lemma undeclared_properties_key_error:
  assumes "map_of t ''parameters'' = Some (JObj d)" and "map_of d ''properties'' = None"
    and "get_key d ''required'' (JList []) = JList []"
  shows "extract_and_validate_params env (JObj t) (m # ms) name = Inl (KeyError ''properties'')"
proof -
  have "check_enum env (JObj t) k v = Inl (KeyError ''properties'')" for k v
    using assms(1,2) by (simp add: check_enum_def param_info_def sub_def)
  then have "validate_param env (JObj t) name [] [] m [] = Inl (KeyError ''properties'')"
    by (cases m) (simp add: validate_param_def convert_value_def)
  then show ?thesis
    using assms by (simp add: extract_and_validate_params_def declared_params_def declared_properties_def
        required_params_def py_set_def param_types_def)
qed

text \<open>The values of a parameter of type array: any JSON text passes, an array or not.\<close>

lemma array_takes_any_json:
  assumes "map_of types k = Some (JStr ''array'')" and "json_loads (ce_reader env) s = Some v"
  shows "convert_value env types k s = Inr v"
  using assms by (simp add: convert_value_def)

text \<open>A parameter whose value spans lines does not come back as it was: the way back keeps the two
  line breaks that were added around it.\<close>

lemma multiline_value_grows:
  "newline \<in> set v \<Longrightarrow>
   restored_turn env n t = [m, r] \<Longrightarrow> t_args t = [(k, v)] \<Longrightarrow>
   map_of m ''tool_calls'' = Some (JList [call_json env n (t_name t) [(k, JStr (newline # v @ [newline]))]])"
  by (auto simp: restored_turn_def message_json_def str_args_def shown_args_def shown_def)

section \<open>One call per message\<close>

definition tool_result :: "json \<Rightarrow> dict \<Rightarrow> bool" where
  "tool_result i r \<longleftrightarrow> map_of r ''role'' = Some (JStr ''tool'') \<and> has_key ''content'' r \<and>
     map_of r ''tool_call_id'' = Some i"

text \<open>The single messages of several calls, by the id of the call.\<close>

definition single_calls :: "json \<Rightarrow> json list \<Rightarrow> json list \<Rightarrow> pending_calls" where
  "single_calls content ids tcs =
     zip ids (map2 single_call (content # replicate (length tcs - 1) (JStr [])) tcs)"

lemma single_step_result:
  assumes "tool_result i r" and "map_of pending i = Some m"
  shows "single_step r (pending, out) = Inr (dict_del i pending, out @ [m, r])"
  using assms by (auto simp: tool_result_def single_step_def sub_def has_key_def)

lemma single_results:
  assumes "list_all2 tool_result is rs" and "distinct is" and "set (keys pending) = set is"
  shows "foldE single_step rs (pending, out)
    = Inr ([], out @ concat (map2 (\<lambda>i r. [the (map_of pending i), r]) is rs))"
  using assms
proof (induction "is" rs arbitrary: pending out rule: list_all2_induct)
  case (Cons i "is" r rs)
  then obtain m where m: "map_of pending i = Some m"
    by (metis list.set_intros(1) map_of_eq_None_iff not_None_eq set_map)
  have "set (keys (dict_del i pending)) = set is"
    using Cons.prems by (auto simp: delete_keys)
  moreover have "map2 (\<lambda>j r. [the (map_of (dict_del i pending) j), r]) is rs
      = map2 (\<lambda>j r. [the (map_of pending j), r]) is rs"
    using Cons.prems(1) by (intro map_cong) (auto dest: set_zip_leftD)
  ultimately have "foldE single_step rs (dict_del i pending, out @ [m, r])
      = Inr ([], (out @ [m, r]) @ concat (map2 (\<lambda>j r. [the (map_of pending j), r]) is rs))"
    using Cons.IH [of "dict_del i pending" "out @ [m, r]"] Cons.prems(1)
    by (simp only: distinct.simps simp_thms)
  with Cons.hyps(1) m show ?case by (simp add: single_step_result)
qed simp

lemma add_pending_rest:
  "map (\<lambda>tc. item tc ''id'') tcs = map Inr ids \<Longrightarrow> distinct (keys pending @ ids) \<Longrightarrow>
   add_pending (JStr []) tcs pending = Inr (pending @ zip ids (map (single_call (JStr [])) tcs))"
proof (induction tcs arbitrary: ids pending)
  case (Cons tc tcs)
  then obtain i ids' where ids: "ids = i # ids'" "item tc ''id'' = Inr i"
    "map (\<lambda>tc. item tc ''id'') tcs = map Inr ids'" by (cases ids) auto
  then have "dict_set pending i (single_call (JStr []) tc) = pending @ [(i, single_call (JStr []) tc)]"
    using Cons.prems(2) by (intro dict_set_fresh) auto
  then show ?case
    using Cons.IH [of ids' "pending @ [(i, single_call (JStr []) tc)]"] Cons.prems(2) ids
    by auto
qed simp

lemma add_pending_all:
  assumes "map (\<lambda>tc. item tc ''id'') tcs = map Inr ids" and "distinct ids" and "tcs \<noteq> []"
  shows "add_pending content tcs [] = Inr (single_calls content ids tcs)"
proof -
  obtain tc tcs' i ids' where c: "tcs = tc # tcs'" "ids = i # ids'" "item tc ''id'' = Inr i"
    "map (\<lambda>tc. item tc ''id'') tcs' = map Inr ids'"
    using assms(1,3) by (cases tcs; cases ids) auto
  have "map2 single_call (replicate (length tcs') (JStr [])) tcs' = map (single_call (JStr [])) tcs'"
    by (simp add: zip_replicate1 comp_def)
  with c assms(2) show ?thesis
    using add_pending_rest [of tcs' ids' "[(i, single_call content tc)]"]
    by (simp add: single_calls_def)
qed

text \<open>
  A message with several tool calls, followed by the results of all of them in any order,
  becomes one message per call, each right before its result: no call or result is lost, repeated
  or separated from its partner, the order is that of the results, and the content of the message
  stays with its first call only.
\<close>

theorem split_calls:
  assumes m: "map_of m ''role'' = Some (JStr ''assistant'')" "map_of m ''content'' = Some content"
      "map_of m ''tool_calls'' = Some (JList tcs)"
    and ids: "map (\<lambda>tc. item tc ''id'') tcs = map Inr ids" "distinct ids" "length ids > 1"
    and rs: "list_all2 tool_result js rs" "distinct js" "set js = set ids"
  shows "convert_from_multiple_tool_calls_to_single_tool_call_messages env (m # rs) ignore
    = Inr (concat (map2 (\<lambda>j r. [the (map_of (single_calls content ids tcs) j), r]) js rs))"
proof -
  have len: "length tcs = length ids" using ids(1) by (metis length_map)
  with ids(3) have "tcs \<noteq> []" by auto
  then have "single_step m ([], []) = Inr (single_calls content ids tcs, [])"
    using m len ids add_pending_all [OF ids(1,2)]
    by (simp add: single_step_def sub_def get_key_def)
  moreover have "set (keys (single_calls content ids tcs)) = set js"
    using rs(3) len ids(3) by (simp add: single_calls_def)
  then have "foldE single_step rs (single_calls content ids tcs, [])
      = Inr ([], concat (map2 (\<lambda>j r. [the (map_of (single_calls content ids tcs) j), r]) js rs))"
    using single_results [OF rs(1,2)] by simp
  ultimately show ?thesis
    by (simp add: convert_from_multiple_tool_calls_to_single_tool_call_messages_def)
qed

text \<open>Whatever the messages are: no message that comes out has more than one call.\<close>

definition few_calls :: "dict \<Rightarrow> bool" where
  "few_calls m \<longleftrightarrow> map_of m ''role'' = Some (JStr ''assistant'') \<longrightarrow>
     (let calls = get_key m ''tool_calls'' JNull in
      json_truthy calls \<longrightarrow> (\<exists>n. py_len calls = Inr n \<and> n \<le> 1))"

lemma few_single: "few_calls (single_call c tc)"
  by (simp add: few_calls_def single_call_def message_json_def get_key_def)

lemma few_pending:
  "add_pending c tcs p = Inr q \<Longrightarrow> \<forall>(i, m) \<in> set p. few_calls m \<Longrightarrow> \<forall>(i, m) \<in> set q. few_calls m"
proof (induction c tcs p rule: add_pending.induct)
  case (2 c tc tcs p)
  then obtain i where i: "item tc ''id'' = Inr i" by (auto simp: rbind_Inr_iff)
  have "\<forall>(i, m) \<in> set (dict_set p i (single_call c tc)). few_calls m"
    using "2.prems"(2) few_single by (auto dest!: dict_set_entries)
  with 2 i show ?case by auto
qed simp

lemma few_step:
  assumes "single_step m (p, out) = Inr (p', out')"
    and "\<forall>(i, m) \<in> set p. few_calls m" and "\<forall>m \<in> set out. few_calls m"
  shows "(\<forall>(i, m) \<in> set p'. few_calls m) \<and> (\<forall>m \<in> set out'. few_calls m)"
proof -
  from assms(1) obtain role content where r: "map_of m ''role'' = Some role" "map_of m ''content'' = Some content"
    by (auto simp: single_step_def rbind_Inr_iff sub_def split: option.splits)
  consider "role = JStr ''assistant''" | "role = JStr ''tool''" | "role \<notin> {JStr ''assistant'', JStr ''tool''}"
    by blast
  then show ?thesis
  proof cases
    case 1
    with assms r show ?thesis
      using few_pending
      by (auto simp: single_step_def sub_def rbind_Inr_iff few_calls_def [of m] Let_def
          split: if_splits; fastforce)
  next
    case 2
    from 2 r have "few_calls m" by (simp add: few_calls_def)
    with 2 assms r show ?thesis
      by (auto simp: single_step_def sub_def rbind_Inr_iff split: option.splits if_splits
          dest!: map_of_SomeD simp: AList.delete_eq)
  next
    case 3
    then have "few_calls m" using r by (simp add: few_calls_def)
    with 3 assms r show ?thesis
      by (auto simp: single_step_def sub_def split: if_splits)
  qed
qed

lemma at_most_one_call:
  assumes "convert_from_multiple_tool_calls_to_single_tool_call_messages env messages ignore = Inr out"
  shows "\<forall>m \<in> set out. few_calls m"
proof -
  from assms obtain p where "foldE single_step messages ([], []) = Inr (p, out)"
    by (auto simp: convert_from_multiple_tool_calls_to_single_tool_call_messages_def rbind_Inr_iff
        split: if_splits)
  then have "case (p, out) of (p, out) \<Rightarrow> (\<forall>(i, m) \<in> set p. few_calls m) \<and> (\<forall>m \<in> set out. few_calls m)"
  proof (rule foldE_invariant)
    fix m a b
    assume "case a of (p, out) \<Rightarrow> (\<forall>(i, m) \<in> set p. few_calls m) \<and> (\<forall>m \<in> set out. few_calls m)"
      "single_step m a = Inr b"
    then show "case b of (p, out) \<Rightarrow> (\<forall>(i, m) \<in> set p. few_calls m) \<and> (\<forall>m \<in> set out. few_calls m)"
      using few_step by (cases a; cases b) blast
  qed simp
  then show ?thesis by simp
qed

definition demo_call :: "string \<Rightarrow> json" where
  "demo_call i = JObj [(''id'', JStr i), (''type'', JStr ''function'')]"

definition demo_result :: "string \<Rightarrow> dict" where
  "demo_result i = [(''role'', JStr ''tool''), (''content'', JStr ''done''), (''tool_call_id'', JStr i)]"

theorem split_calls_witness:
  "convert_from_multiple_tool_calls_to_single_tool_call_messages demo_env
     ([(''role'', JStr ''assistant''), (''content'', JStr ''Both:''),
       (''tool_calls'', JList [demo_call ''a'', demo_call ''b''])] # [demo_result ''b'', demo_result ''a'']) False
   = Inr (concat (map2 (\<lambda>j r. [the (map_of (single_calls (JStr ''Both:'') [JStr ''a'', JStr ''b'']
            [demo_call ''a'', demo_call ''b'']) j), r]) [JStr ''b'', JStr ''a''] [demo_result ''b'', demo_result ''a'']))"
  by (rule split_calls) (auto simp: demo_call_def demo_result_def tool_result_def)

end
