(* ===== verification/Function_Calling.thy ===== *)
theory Function_Calling
  imports Agent_Tools_Search Fn_Call_Properties Controller_State
begin

text \<open>
  \<open>agenthub/*/function_calling.py\<close>: the answer of the LLM turned into actions, for the agent that acts by
  code, the read-only agent and the localisation agent. The three functions share the loop over the
  calls, \<open>answer_actions\<close>, which takes what an agent makes of one call as an argument. A
  response is what the code reads of it: the id, the messages of the choices, their content and
  calls, and the JSON value that is kept in the metadata. As in the serialisation, an argument
  of another type than that of the field of the action is refused (\<open>Untyped\<close>).
\<close>

section \<open>Responses\<close>

record fn_call =
  fc_id :: string
  fc_name :: string
  fc_arguments :: string

record assistant_msg =
  am_content :: json
  am_tool_calls :: "fn_call list"   \<comment> \<open>empty where the attribute is missing or \<open>None\<close>\<close>

record model_response =
  lr_id :: string
  lr_messages :: "assistant_msg list"
  lr_dump :: json

record call_env = conv_env +
  ce_read_float :: "string \<Rightarrow> rat option"
  ce_workspace :: workspace_env

section \<open>Thoughts and risks\<close>

text \<open>The attribute \<open>thought\<close>, where the class has one.\<close>

fun map_thought :: "(string \<Rightarrow> string) \<Rightarrow> action \<Rightarrow> action" where
  "map_thought f (ChangeAgentStateAction s t) = ChangeAgentStateAction s (f t)"
| "map_thought f (AgentFinishAction m os t) = AgentFinishAction m os (f t)"
| "map_thought f (AgentThinkAction t) = AgentThinkAction (f t)"
| "map_thought f (AgentRejectAction os t) = AgentRejectAction os (f t)"
| "map_thought f (AgentDelegateAction a i t) = AgentDelegateAction a i (f t)"
| "map_thought f (RecallAction r q t) = RecallAction r q (f t)"
| "map_thought f (TaskTrackingAction c l t) = TaskTrackingAction c l (f t)"
| "map_thought f (CmdRunAction r) = CmdRunAction (r\<lparr>cr_thought := f (cr_thought r)\<rparr>)"
| "map_thought f (IPythonRunCellAction r) = IPythonRunCellAction (r\<lparr>ip_thought := f (ip_thought r)\<rparr>)"
| "map_thought f (FileReadAction r) = FileReadAction (r\<lparr>fr_thought := f (fr_thought r)\<rparr>)"
| "map_thought f (FileWriteAction r) = FileWriteAction (r\<lparr>fw_thought := f (fw_thought r)\<rparr>)"
| "map_thought f (FileEditAction r) = FileEditAction (r\<lparr>fe_thought := f (fe_thought r)\<rparr>)"
| "map_thought f (BrowseURLAction r) = BrowseURLAction (r\<lparr>bu_thought := f (bu_thought r)\<rparr>)"
| "map_thought f (BrowseInteractiveAction r) = BrowseInteractiveAction (r\<lparr>bi_thought := f (bi_thought r)\<rparr>)"
| "map_thought f (MCPAction r) = MCPAction (r\<lparr>mc_thought := f (mc_thought r)\<rparr>)"
| "map_thought f a = a"

definition combine_thought :: "string \<Rightarrow> action \<Rightarrow> action" where
  "combine_thought thought a =
     map_thought (\<lambda>t. if thought \<noteq> [] \<and> t \<noteq> [] then thought @ newline # t
                      else if thought \<noteq> [] then thought else t) a"

definition risk_levels :: "(string \<times> ActionSecurityRisk) list" where
  "risk_levels = zip RISK_LEVELS [RISK_LOW, RISK_MEDIUM, RISK_HIGH]"

definition set_security_risk :: "event \<Rightarrow> json \<Rightarrow> exc + event" where
  "set_security_risk e arguments =
     rbind (py_in (JStr ''security_risk'') arguments) (\<lambda>b.
     if \<not> b then Inr e
     else rbind (item arguments ''security_risk'') (\<lambda>r.
       Inr (case r of
              JStr s \<Rightarrow> (case map_of risk_levels s of
                           Some l \<Rightarrow> e\<lparr>ev_body := with_security_risk l (ev_body e)\<rparr>
                         | None \<Rightarrow> e)
            | _ \<Rightarrow> e)))"

section \<open>The calls of the agent that acts by code\<close>

definition act_event :: "action \<Rightarrow> event" where
  "act_event a = new_event (Action a)"

definition missing_argument :: "string \<Rightarrow> string \<Rightarrow> exc" where
  "missing_argument k name = validation_error
     (''Missing required argument '' @ CHR 0x22 # k @ CHR 0x22 # '' in tool call '' @ name)"

definition required_argument :: "string \<Rightarrow> json \<Rightarrow> string \<Rightarrow> exc + json" where
  "required_argument name arguments k =
     rbind (py_in (JStr k) arguments) (\<lambda>b.
     if b then item arguments k else Inl (missing_argument k name))"

text \<open>\<open>float(v)\<close>.\<close>

fun py_float :: "(string \<Rightarrow> rat option) \<Rightarrow> json \<Rightarrow> exc + rat" where
  "py_float rf (JInt i) = Inr (of_int i)"
| "py_float rf (JFloat x) = Inr x"
| "py_float rf (JBool b) = Inr (if b then 1 else 0)"
| "py_float rf (JStr s) =
     (case rf s of Some x \<Rightarrow> Inr x | None \<Rightarrow> Inl (ValueError ''could not convert string to float''))"
| "py_float rf v = Inl (TypeError ''float() argument must be a string or a real number'')"

definition set_timeout :: "call_env \<Rightarrow> json \<Rightarrow> event \<Rightarrow> exc + event" where
  "set_timeout env arguments e =
     rbind (py_in (JStr ''timeout'') arguments) (\<lambda>b.
     if \<not> b then Inr e
     else rbind (item arguments ''timeout'') (\<lambda>v.
       case py_float (ce_read_float env) v of
         Inr x \<Rightarrow> Inr (set_hard_timeout (Some x) True e)
       | Inl (ValueError t) \<Rightarrow>
           Inl (validation_error (''Invalid float passed to '' @ quoted ''timeout'' @ '' argument: ''
                 @ py_str (ce_float_text env) v))
       | Inl x \<Rightarrow> Inl x))"

definition run_call :: "call_env \<Rightarrow> string \<Rightarrow> json \<Rightarrow> exc + event" where
  "run_call env name arguments =
     rbind (required_argument name arguments ''command'') (\<lambda>cmd.
     rbind (get_item arguments ''is_input'' (JStr ''false'')) (\<lambda>is_input.
     rbind (cmd_run_of [(''command'', cmd), (''is_input'', JBool (is_input = JStr ''true''))]) (\<lambda>a.
     rbind (set_timeout env arguments (act_event a)) (\<lambda>e.
     set_security_risk e arguments))))"

definition ipython_call :: "string \<Rightarrow> json \<Rightarrow> exc + event" where
  "ipython_call name arguments =
     rbind (required_argument name arguments ''code'') (\<lambda>code.
     rbind (ipython_run_of [(''code'', code)]) (\<lambda>a. set_security_risk (act_event a) arguments))"

definition delegate_call :: "json \<Rightarrow> exc + event" where
  "delegate_call arguments =
     rbind (agent_delegate_of [(''agent'', JStr ''BrowsingAgent''), (''inputs'', arguments)])
       (\<lambda>a. Inr (act_event a))"

definition finish_call :: "json \<Rightarrow> exc + event" where
  "finish_call arguments =
     rbind (get_item arguments ''message'' (JStr [])) (\<lambda>m.
     rbind (agent_finish_of [(''final_thought'', m)]) (\<lambda>a. Inr (act_event a)))"

definition edit_file_call :: "string \<Rightarrow> json \<Rightarrow> exc + event" where
  "edit_file_call name arguments =
     rbind (py_in (JStr ''path'') arguments) (\<lambda>p. if \<not> p then Inl (missing_argument ''path'' name) else
     rbind (required_argument name arguments ''content'') (\<lambda>cont.
     rbind (item arguments ''path'') (\<lambda>pth.
     rbind (get_item arguments ''start'' (JInt 1)) (\<lambda>first.
     rbind (get_item arguments ''end'' (JInt (- 1))) (\<lambda>last.
     rbind (get_item arguments ''impl_source'' (JStr (file_edit_source_value LLM_BASED_EDIT))) (\<lambda>src.
     rbind (file_edit_of [(''path'', pth), (''content'', cont), (''start'', first), (''end'', last),
              (''impl_source'', src)]) (\<lambda>a.
     Inr (act_event a))))))))"

text \<open>The names of the parameters in the schema of the editor.\<close>

definition tool_properties :: "dict \<Rightarrow> dict" where
  "tool_properties tool =
     (case map_of tool ''function'' of
        Some fn \<Rightarrow> (case tool_schema fn of Some (d, props, rs) \<Rightarrow> props | None \<Rightarrow> [])
      | None \<Rightarrow> [])"

definition editor_params :: "call_env \<Rightarrow> string list" where
  "editor_params env = keys (tool_properties (create_str_replace_editor_tool (ce_workspace env) False None None))"

definition unexpected_argument :: "call_env \<Rightarrow> string \<Rightarrow> string \<Rightarrow> exc" where
  "unexpected_argument env k name = validation_error
     (''Unexpected argument '' @ k @ '' in tool call '' @ name @ ''. Allowed arguments are: ''
      @ ce_set_text env (map JStr (editor_params env)))"

definition editor_kwargs :: "call_env \<Rightarrow> string \<Rightarrow> dict \<Rightarrow> exc + dict" where
  "editor_kwargs env name kwargs =
     (case find (\<lambda>(k, v). k \<notin> set (editor_params env)) kwargs of
        Some (k, v) \<Rightarrow> Inl (unexpected_argument env k name)
      | None \<Rightarrow> Inr (filter (\<lambda>(k, v). k \<noteq> ''security_risk'') kwargs))"

definition editor_call :: "call_env \<Rightarrow> string \<Rightarrow> json \<Rightarrow> exc + event" where
  "editor_call env name arguments =
     rbind (py_in (JStr ''command'') arguments) (\<lambda>c. if \<not> c then Inl (missing_argument ''command'' name) else
     rbind (required_argument name arguments ''path'') (\<lambda>pth.
     rbind (item arguments ''command'') (\<lambda>cmd.
     rbind (dict_of ''items'' arguments) (\<lambda>d.
     let other_kwargs = filter (\<lambda>(k, v). k \<noteq> ''command'' \<and> k \<noteq> ''path'') d in
     rbind (if cmd = JStr ''view''
            then file_read_of [(''path'', pth), (''impl_source'', JStr (file_read_source_value READ_OH_ACI)),
                   (''view_range'', get_key other_kwargs ''view_range'' JNull)]
            else rbind (editor_kwargs env name (filter (\<lambda>(k, v). k \<noteq> ''view_range'') other_kwargs)) (\<lambda>kwargs.
                 file_edit_of ([(''path'', pth), (''command'', cmd),
                   (''impl_source'', JStr (file_edit_source_value EDIT_OH_ACI))] @ kwargs))) (\<lambda>a.
     set_security_risk (act_event a) arguments)))))"

definition think_call :: "json \<Rightarrow> exc + event" where
  "think_call arguments =
     rbind (get_item arguments ''thought'' (JStr [])) (\<lambda>t.
     rbind (agent_think_of [(''thought'', t)]) (\<lambda>a. Inr (act_event a)))"

definition browser_call :: "string \<Rightarrow> json \<Rightarrow> exc + event" where
  "browser_call name arguments =
     rbind (required_argument name arguments ''code'') (\<lambda>code.
     rbind (browse_interactive_of [(''browser_actions'', code)]) (\<lambda>a.
     set_security_risk (act_event a) arguments))"

definition normalized_task :: "nat \<Rightarrow> dict \<Rightarrow> dict" where
  "normalized_task i task =
     [(''id'', get_key task ''id'' (JStr (''task-'' @ show_nat (i + 1)))),
      (''title'', get_key task ''title'' (JStr ''Untitled task'')),
      (''status'', get_key task ''status'' (JStr ''todo'')),
      (''notes'', get_key task ''notes'' (JStr []))]"

fun normalized_tasks :: "nat \<Rightarrow> json list \<Rightarrow> exc + json list" where
  "normalized_tasks i [] = Inr []"
| "normalized_tasks i (t # ts) =
     (case t of
        JObj d \<Rightarrow> rbind (normalized_tasks (i + 1) ts) (\<lambda>r. Inr (JObj (normalized_task i d) # r))
      | _ \<Rightarrow> Inl (validation_error (''Unexpected task format in task_list: '' @ class_text t
               @ ''. Each task should be a dictionary.'')))"

text \<open>The loop over the tasks uses the variable \<open>i\<close> of the loop over the calls: after it, \<open>i\<close> is the
  index of the last task, where there is one.\<close>

definition task_call :: "string \<Rightarrow> json \<Rightarrow> nat \<Rightarrow> exc + event \<times> nat" where
  "task_call name arguments i =
     rbind (required_argument name arguments ''command'') (\<lambda>cmd.
     rbind (py_in (JStr ''task_list'') arguments) (\<lambda>given.
     if cmd = JStr ''plan'' \<and> \<not> given
     then Inl (validation_error (''Missing required argument '' @ CHR 0x22 # ''task_list'' @ CHR 0x22 # '' for ''
            @ CHR 0x22 # ''plan'' @ CHR 0x22 # '' command in tool call '' @ name))
     else rbind (get_item arguments ''task_list'' (JList [])) (\<lambda>raw.
       case raw of
         JList ts \<Rightarrow>
           rbind (normalized_tasks 0 ts) (\<lambda>tasks.
           rbind (task_tracking_of [(''command'', cmd), (''task_list'', JList tasks)]) (\<lambda>a.
           Inr (act_event a, if ts = [] then i else length ts - 1)))
       | _ \<Rightarrow> Inl (validation_error (''Invalid format for '' @ CHR 0x22 # ''task_list'' @ CHR 0x22
                # ''. Expected a list but got '' @ class_text raw @ ''.'')))))"

definition mcp_call :: "string \<Rightarrow> json \<Rightarrow> exc + event" where
  "mcp_call name arguments =
     rbind (mcp_action_of [(''name'', JStr name), (''arguments'', arguments)]) (\<lambda>a. Inr (act_event a))"

definition unregistered_tool :: "call_env \<Rightarrow> string \<Rightarrow> json \<Rightarrow> exc" where
  "unregistered_tool env name arguments = OtherException ''FunctionCallNotExistsError''
     (''Tool '' @ name @ '' is not registered. (arguments: '' @ py_str (ce_float_text env) arguments
      @ ''). Please check the tool name and retry with an existing tool.'')"

text \<open>\<open>tool['function']['name']\<close>.\<close>

definition tool_fn_name :: "dict \<Rightarrow> string" where
  "tool_fn_name tool =
     (case tool_name tool of Inr (JStr n) \<Rightarrow> n | _ \<Rightarrow> [])"

text \<open>What is made of a call: the event, and the index of the call as the loop has it afterwards.\<close>

type_synonym call_maker = "string \<Rightarrow> json \<Rightarrow> nat \<Rightarrow> exc + event \<times> nat"

definition keep_index :: "nat \<Rightarrow> exc + event \<Rightarrow> exc + event \<times> nat" where
  "keep_index i r = rbind r (\<lambda>e. Inr (e, i))"

definition codeact_call :: "call_env \<Rightarrow> string list \<Rightarrow> call_maker" where
  "codeact_call env mcp_tool_names name arguments i =
     (if name = tool_fn_name (create_cmd_run_tool (ce_win32 env) False) then keep_index i (run_call env name arguments)
      else if name = tool_fn_name IPythonTool then keep_index i (ipython_call name arguments)
      else if name = ''delegate_to_browsing_agent'' then keep_index i (delegate_call arguments)
      else if name = tool_fn_name FinishTool then keep_index i (finish_call arguments)
      else if name = tool_fn_name LLMBasedFileEditTool then keep_index i (edit_file_call name arguments)
      else if name = tool_fn_name (create_str_replace_editor_tool (ce_workspace env) False None None)
      then keep_index i (editor_call env name arguments)
      else if name = tool_fn_name ThinkTool then keep_index i (think_call arguments)
      else if name = tool_fn_name CondensationRequestTool
      then keep_index i (Inr (act_event CondensationRequestAction))
      else if name = tool_fn_name BrowserTool then keep_index i (browser_call name arguments)
      else if name = TASK_TRACKER_TOOL_NAME then task_call name arguments i
      else if name \<in> set mcp_tool_names then keep_index i (mcp_call name arguments)
      else Inl (unregistered_tool env name arguments))"

section \<open>The loop over the calls\<close>

fun text_of_items :: "json list \<Rightarrow> exc + string" where
  "text_of_items [] = Inr []"
| "text_of_items (x # xs) =
     rbind (is_text_item x) (\<lambda>b.
     rbind (if b then rbind (item x ''text'') str_of else Inr []) (\<lambda>s.
     rbind (text_of_items xs) (\<lambda>t. Inr (s @ t))))"

definition thought_of_content :: "json \<Rightarrow> exc + string" where
  "thought_of_content content =
     (case content of
        JStr s \<Rightarrow> Inr s
      | JList xs \<Rightarrow> text_of_items xs
      | _ \<Rightarrow> Inr [])"

definition add_metadata :: "model_response \<Rightarrow> nat \<Rightarrow> fn_call \<Rightarrow> event \<Rightarrow> event" where
  "add_metadata response n_calls tc e =
     e\<lparr>ev_tool_call_metadata := Some
        \<lparr>tc_function_name = fc_name tc, tc_tool_call_id = fc_id tc, tc_model_response = lr_dump response,
          tc_total_calls_in_response = int n_calls\<rparr>\<rparr>"

definition map_action :: "(action \<Rightarrow> action) \<Rightarrow> event \<Rightarrow> event" where
  "map_action f e = (case ev_body e of Action a \<Rightarrow> e\<lparr>ev_body := Action (f a)\<rparr> | Observation _ \<Rightarrow> e)"

fun call_loop ::
    "call_env \<Rightarrow> (string \<Rightarrow> exc) \<Rightarrow> call_maker \<Rightarrow> model_response \<Rightarrow> nat \<Rightarrow> string \<Rightarrow> nat \<Rightarrow> fn_call list
      \<Rightarrow> exc + event list" where
  "call_loop env fail mk response n_calls thought i [] = Inr []"
| "call_loop env fail mk response n_calls thought i (tc # tcs) =
     (case json_loads (ce_reader env) (fc_arguments tc) of
        None \<Rightarrow> Inl (fail (fc_arguments tc))
      | Some arguments \<Rightarrow>
          rbind (mk (fc_name tc) arguments i) (\<lambda>(e, j).
          let e = (if j = 0 then map_action (combine_thought thought) e else e);
              e = add_metadata response n_calls tc e
          in rbind (call_loop env fail mk response n_calls thought (i + 1) tcs) (\<lambda>es. Inr (e # es))))"

definition answer_message :: "call_env \<Rightarrow> json \<Rightarrow> event" where
  "answer_message env content = act_event (MessageAction
     \<lparr>ma_content = (if json_truthy content then py_str (ce_float_text env) content else []),
       ma_file_urls = None, ma_image_urls = None, ma_wait_for_response = True,
       ma_security_risk = RISK_UNKNOWN\<rparr>)"

definition answer_actions ::
    "call_env \<Rightarrow> (string \<Rightarrow> exc) \<Rightarrow> call_maker \<Rightarrow> model_response \<Rightarrow> exc + event list" where
  "answer_actions env fail mk response =
     (case lr_messages response of
        [msg] \<Rightarrow>
          rbind (if am_tool_calls msg = [] then Inr [answer_message env (am_content msg)]
                 else rbind (thought_of_content (am_content msg)) (\<lambda>thought.
                      call_loop env fail mk response (length (am_tool_calls msg)) thought 0
                        (am_tool_calls msg))) (\<lambda>es.
          Inr (map (\<lambda>e. e\<lparr>ev_response_id := Some (lr_id response)\<rparr>) es))
      | _ \<Rightarrow> Inl AssertionError)"

definition arguments_error :: "string \<Rightarrow> exc" where
  "arguments_error s = validation_error (''Failed to parse tool call arguments: '' @ s)"

definition codeact_response_to_actions ::
    "call_env \<Rightarrow> string list \<Rightarrow> model_response \<Rightarrow> exc + event list" where
  "codeact_response_to_actions env mcp_tool_names =
     answer_actions env arguments_error (codeact_call env mcp_tool_names)"

section \<open>The read-only agent\<close>

text \<open>\<open>shlex.quote\<close>: a text of safe characters is left as it is, any other is put in single quotes,
  its single quotes in double quotes.\<close>

definition shell_safe :: "char \<Rightarrow> bool" where
  "shell_safe c \<longleftrightarrow> ((of_char c :: nat) < 128 \<and> is_word c) \<or> c \<in> set ''@%+=:,./-''"

definition quote_escape :: string where
  "quote_escape = [CHR 0x27, CHR 0x22, CHR 0x27, CHR 0x22, CHR 0x27]"

definition shlex_quote :: "string \<Rightarrow> string" where
  "shlex_quote s =
     (if s = [] then [CHR 0x27, CHR 0x27]
      else if list_all shell_safe s then s
      else CHR 0x27 # replace s [CHR 0x27] quote_escape @ [CHR 0x27])"

definition grep_command :: "string \<Rightarrow> string option \<Rightarrow> string option \<Rightarrow> string" where
  "grep_command pattern path incl =
     (let quoted_pattern = shlex_quote pattern;
          path_arg = (if truthy path then shlex_quote (the path) else ''.'');
          rg_cmd = ''rg -li '' @ quoted_pattern @ '' --sortr=modified'';
          rg_cmd = (if truthy incl then rg_cmd @ '' --glob '' @ shlex_quote (the incl) else rg_cmd)
      in rg_cmd @ '' '' @ path_arg @ '' | head -n 100'')"

definition with_header :: "string \<Rightarrow> string \<Rightarrow> string" where
  "with_header what complete_cmd =
     ''echo '' @ CHR 0x22 # ''Below are the execution results of the '' @ what @ '' command: '' @ complete_cmd
       @ newline # CHR 0x22 # ''; '' @ complete_cmd"

definition grep_to_cmdrun :: "string \<Rightarrow> string option \<Rightarrow> string option \<Rightarrow> string" where
  "grep_to_cmdrun pattern path incl = with_header ''search'' (grep_command pattern path incl)"

definition glob_command :: "string \<Rightarrow> string \<Rightarrow> string" where
  "glob_command pattern path =
     ''rg --files '' @ shlex_quote path @ '' -g '' @ shlex_quote pattern @ '' --sortr=modified''
       @ '' | head -n 100''"

definition glob_to_cmdrun :: "string \<Rightarrow> string \<Rightarrow> string" where
  "glob_to_cmdrun pattern path = with_header ''glob'' (glob_command pattern path)"

definition view_call :: "string \<Rightarrow> json \<Rightarrow> exc + event" where
  "view_call name arguments =
     rbind (required_argument name arguments ''path'') (\<lambda>pth.
     rbind (get_item arguments ''view_range'' JNull) (\<lambda>r.
     rbind (file_read_of [(''path'', pth), (''impl_source'', JStr (file_read_source_value READ_OH_ACI)),
              (''view_range'', r)]) (\<lambda>a. Inr (act_event a))))"

text \<open>An argument of a type that \<open>shlex.quote\<close> takes.\<close>

definition optional_str :: "json \<Rightarrow> exc + string option" where
  "optional_str v = (if v = JNull then Inr None else rbind (str_of v) (\<lambda>s. Inr (Some s)))"

definition run_command :: "string \<Rightarrow> exc + event" where
  "run_command c =
     rbind (cmd_run_of [(''command'', JStr c), (''is_input'', JBool False)]) (\<lambda>a. Inr (act_event a))"

definition grep_call :: "string \<Rightarrow> json \<Rightarrow> exc + event" where
  "grep_call name arguments =
     rbind (required_argument name arguments ''pattern'') (\<lambda>p. rbind (str_of p) (\<lambda>pattern.
     rbind (get_item arguments ''path'' JNull) (\<lambda>a. rbind (optional_str a) (\<lambda>path.
     rbind (get_item arguments ''include'' JNull) (\<lambda>b. rbind (optional_str b) (\<lambda>incl.
     run_command (grep_to_cmdrun pattern path incl)))))))"

definition glob_call :: "string \<Rightarrow> json \<Rightarrow> exc + event" where
  "glob_call name arguments =
     rbind (required_argument name arguments ''pattern'') (\<lambda>p. rbind (str_of p) (\<lambda>pattern.
     rbind (get_item arguments ''path'' (JStr ''.'')) (\<lambda>a. rbind (str_of a) (\<lambda>path.
     run_command (glob_to_cmdrun pattern path)))))"

definition readonly_call :: "call_env \<Rightarrow> string list \<Rightarrow> call_maker" where
  "readonly_call env mcp_tool_names name arguments i = keep_index i
     (if name = tool_fn_name FinishTool then finish_call arguments
      else if name = tool_fn_name ViewTool then view_call name arguments
      else if name = tool_fn_name ThinkTool then think_call arguments
      else if name = tool_fn_name GrepTool then grep_call name arguments
      else if name = tool_fn_name GlobTool then glob_call name arguments
      else if name \<in> set mcp_tool_names then mcp_call name arguments
      else Inl (unregistered_tool env name arguments))"

definition readonly_response_to_actions ::
    "call_env \<Rightarrow> string list \<Rightarrow> model_response \<Rightarrow> exc + event list" where
  "readonly_response_to_actions env mcp_tool_names =
     answer_actions env arguments_error (readonly_call env mcp_tool_names)"

definition readonly_get_tools :: "dict list" where
  "readonly_get_tools = [ThinkTool, FinishTool, GrepTool, GlobTool, ViewTool]"

section \<open>The localisation agent\<close>

definition ALL_FUNCTIONS :: "string list" where
  "ALL_FUNCTIONS = [''explore_tree_structure'', ''search_code_snippets'', ''get_entity_contents'']"

definition loc_call :: "call_env \<Rightarrow> call_maker" where
  "loc_call env name arguments i = keep_index i
     (if name \<in> set ALL_FUNCTIONS then
        rbind (ipython_run_of [(''code'', JStr (''print('' @ name @ ''(**''
                 @ py_str (ce_float_text env) arguments @ ''))''))]) (\<lambda>a. Inr (act_event a))
      else if name = tool_fn_name FinishTool then finish_call arguments
      else Inl (unregistered_tool env name arguments))"

definition loc_response_to_actions :: "call_env \<Rightarrow> model_response \<Rightarrow> exc + event list" where
  "loc_response_to_actions env =
     answer_actions env (\<lambda>s. RuntimeError (''Failed to parse tool call arguments: '' @ s)) (loc_call env)"

definition loc_get_tools :: "dict list" where
  "loc_get_tools = [FinishTool, SearchRepoTool, SearchEntityTool, create_explore_tree_structure_tool True]"

end
