(* ===== verification/Function_Calling_Correct.thy ===== *)
theory Function_Calling_Correct
  imports Function_Calling
begin

text \<open>
  What the agents make of the calls of a response. The contract of the functions that make an action
  of one call is a locale: with it, the actions answer the calls one by one. The functions that keep
  the index of the loop satisfy a stronger contract, under which the thought goes to the first action
  and to no other; the function of the agent that acts by code does not keep it.
\<close>

section \<open>The names of the tools\<close>

lemma tool_fn_names [simp]:
  "tool_fn_name (create_cmd_run_tool w b) = ''execute_bash''"
  "tool_fn_name IPythonTool = ''execute_ipython_cell''"
  "tool_fn_name FinishTool = ''finish''"
  "tool_fn_name LLMBasedFileEditTool = ''edit_file''"
  "tool_fn_name (create_str_replace_editor_tool we b p t) = ''str_replace_editor''"
  "tool_fn_name ThinkTool = ''think''"
  "tool_fn_name CondensationRequestTool = ''request_condensation''"
  "tool_fn_name BrowserTool = ''browser''"
  "tool_fn_name ViewTool = ''view''" "tool_fn_name GrepTool = ''grep''" "tool_fn_name GlobTool = ''glob''"
  by (simp_all add: tool_fn_name_def tool_name_def create_cmd_run_tool_def IPythonTool_def FinishTool_def
      LLMBasedFileEditTool_def create_str_replace_editor_tool_def ThinkTool_def CondensationRequestTool_def
      BrowserTool_def ViewTool_def GrepTool_def GlobTool_def tool_names Let_def)

section \<open>One action per call\<close>

definition is_act :: "event \<Rightarrow> bool" where
  "is_act e \<longleftrightarrow> (case ev_body e of Action a \<Rightarrow> True | Observation ob \<Rightarrow> False)"

locale call_making =
  fixes mk :: call_maker
  assumes makes_action: "mk name args i = Inr (e, j) \<Longrightarrow> is_act e"
begin

lemma loop_answers:
  "call_loop env fail mk response n thought i tcs = Inr es \<Longrightarrow>
   list_all2 (\<lambda>e tc. is_act e \<and> (\<exists>m. ev_tool_call_metadata e = Some m \<and>
     tc_tool_call_id m = fc_id tc \<and> tc_function_name m = fc_name tc \<and>
     tc_model_response m = lr_dump response \<and> tc_total_calls_in_response m = int n)) es tcs"
proof (induction tcs arbitrary: i es)
  case (Cons tc tcs)
  then obtain args e j r where p: "json_loads (ce_reader env) (fc_arguments tc) = Some args"
    "mk (fc_name tc) args i = Inr (e, j)"
    "call_loop env fail mk response n thought (i + 1) tcs = Inr r"
    "es = add_metadata response n tc (if j = 0 then map_action (combine_thought thought) e else e) # r"
    by (auto simp: rbind_Inr_iff Let_def split: option.splits)
  then show ?case
    using Cons.IH [OF p(3)] makes_action [OF p(2)]
    by (auto simp: add_metadata_def is_act_def map_action_def split: body.splits)
qed simp

lemma calls_answered:
  assumes "answer_actions env fail mk response = Inr es" and "lr_messages response = [msg]"
    and "am_tool_calls msg \<noteq> []"
  shows "list_all2 (\<lambda>e tc. is_act e \<and> ev_response_id e = Some (lr_id response) \<and>
     (\<exists>m. ev_tool_call_metadata e = Some m \<and>
       tc_tool_call_id m = fc_id tc \<and> tc_function_name m = fc_name tc \<and>
       tc_model_response m = lr_dump response \<and>
       tc_total_calls_in_response m = int (length (am_tool_calls msg)))) es (am_tool_calls msg)"
proof -
  from assms obtain thought r where "call_loop env fail mk response (length (am_tool_calls msg)) thought 0
      (am_tool_calls msg) = Inr r" "es = map (\<lambda>e. e\<lparr>ev_response_id := Some (lr_id response)\<rparr>) r"
    by (auto simp: answer_actions_def rbind_Inr_iff)
  then show ?thesis
    using loop_answers by (auto simp: list_all2_map1 is_act_def elim!: list_all2_mono)
qed

end

text \<open>The stronger contract: the index of the loop is not touched.\<close>

locale index_keeping = call_making +
  assumes keeps_index: "mk name args i = Inr (e, j) \<Longrightarrow> j = i"
begin

lemma later_calls_no_thought:
  "0 < i \<Longrightarrow> call_loop env fail mk response n thought i tcs
     = call_loop env fail mk response n other i tcs"
proof (induction tcs arbitrary: i)
  case (Cons tc tcs)
  show ?case
  proof (cases "json_loads (ce_reader env) (fc_arguments tc)")
    case (Some args)
    with Cons keeps_index [of "fc_name tc" args i] show ?thesis
      by (cases "mk (fc_name tc) args i") auto
  qed simp
qed simp

text \<open>The thought shows in the first action only.\<close>

lemma thought_first:
  assumes "call_loop env fail mk response n thought 0 (tc # tcs) = Inr es"
  obtains args e rest where "json_loads (ce_reader env) (fc_arguments tc) = Some args"
    "mk (fc_name tc) args 0 = Inr (e, 0)"
    "es = add_metadata response n tc (map_action (combine_thought thought) e) # rest"
    "call_loop env fail mk response n [] 1 tcs = Inr rest"
proof -
  from assms obtain args e j rest where p: "json_loads (ce_reader env) (fc_arguments tc) = Some args"
    "mk (fc_name tc) args 0 = Inr (e, j)"
    "call_loop env fail mk response n thought 1 tcs = Inr rest"
    "es = add_metadata response n tc (if j = 0 then map_action (combine_thought thought) e else e) # rest"
    by (auto simp: rbind_Inr_iff Let_def split: option.splits)
  moreover have "j = 0" using keeps_index [OF p(2)] .
  moreover have "call_loop env fail mk response n [] 1 tcs = Inr rest"
    using p(3) later_calls_no_thought [of 1 env fail response n thought tcs "[]"]
    by (simp only: zero_less_one simp_thms)
  ultimately show thesis using that by simp
qed

end

text \<open>Every branch makes an action.\<close>

lemma act_event_is_act [simp]: "is_act (act_event a)"
  by (simp add: is_act_def act_event_def new_event_def)

lemma with_security_risk_act: "is_act e \<Longrightarrow> is_act (e\<lparr>ev_body := with_security_risk r (ev_body e)\<rparr>)"
  by (cases "(r, ev_body e)" rule: with_security_risk.cases) (simp_all add: is_act_def)

lemma set_security_risk_act:
  assumes "set_security_risk e args = Inr e'" "is_act e"
  shows "is_act e'"
proof -
  consider "e' = e" | r where "item args ''security_risk'' = Inr r"
    "e' = (case r of JStr s \<Rightarrow> (case map_of risk_levels s of
             Some l \<Rightarrow> e\<lparr>ev_body := with_security_risk l (ev_body e)\<rparr> | None \<Rightarrow> e) | _ \<Rightarrow> e)"
    using assms by (auto simp: set_security_risk_def rbind_Inr_iff split: if_splits)
  then show ?thesis
  proof cases
    case 2
    with assms(2) show ?thesis
      by (cases r) (simp_all add: with_security_risk_act split: option.split)
  qed (use assms in simp)
qed

lemma set_hard_timeout_act: "is_act e \<Longrightarrow> is_act (set_hard_timeout x b e)"
  by (auto simp: set_hard_timeout_def is_act_def Let_def split: body.splits action.splits)

lemma set_timeout_act:
  assumes "set_timeout env args e = Inr e'" "is_act e"
  shows "is_act e'"
proof -
  consider "e' = e" | v where "(case py_float (ce_read_float env) v of
         Inr x \<Rightarrow> Inr (set_hard_timeout (Some x) True e)
       | Inl (ValueError t) \<Rightarrow>
           Inl (validation_error (''Invalid float passed to '' @ quoted ''timeout'' @ '' argument: ''
                 @ py_str (ce_float_text env) v))
       | Inl x \<Rightarrow> Inl x) = Inr e'"
    using assms(1) by (auto simp only: set_timeout_def rbind_Inr_iff sum.inject if_True if_False split: if_splits)
  then show ?thesis
  proof cases
    case (2 v)
    then show ?thesis
    proof (cases "py_float (ce_read_float env) v")
      case (Inl x)
      with 2 show ?thesis by (cases x) simp_all
    next
      case (Inr x)
      with 2 assms(2) show ?thesis by (auto intro: set_hard_timeout_act)
    qed
  qed (use assms in simp)
qed

lemma act_rbind: "rbind r f = Inr e \<Longrightarrow> (\<And>x. r = Inr x \<Longrightarrow> f x = Inr e \<Longrightarrow> is_act e) \<Longrightarrow> is_act e"
  by (auto simp: rbind_Inr_iff)

lemma act_Inr: "Inr (act_event a) = Inr e \<Longrightarrow> is_act e"
  by auto

lemma act_if: "(if b then Inl x else m) = Inr e \<Longrightarrow> (m = Inr e \<Longrightarrow> is_act e) \<Longrightarrow> is_act e"
  by (auto split: if_splits)

lemma run_call_act: "run_call env name args = Inr e \<Longrightarrow> is_act e"
  unfolding run_call_def
  by (elim act_rbind, erule set_security_risk_act, erule set_timeout_act, simp)

lemma editor_call_act: "editor_call env name args = Inr e \<Longrightarrow> is_act e"
  unfolding editor_call_def Let_def
  by (elim act_rbind act_if, erule set_security_risk_act, simp)

lemma edit_file_call_act: "edit_file_call name args = Inr e \<Longrightarrow> is_act e"
  unfolding edit_file_call_def
  by (elim act_rbind act_if act_Inr)

lemma code_call_act:
  "ipython_call name args = Inr e \<Longrightarrow> is_act e" "browser_call name args = Inr e \<Longrightarrow> is_act e"
  unfolding ipython_call_def browser_call_def
  by (elim act_rbind, erule set_security_risk_act, simp)+

lemma plain_call_act:
  "delegate_call args = Inr e \<Longrightarrow> is_act e" "finish_call args = Inr e \<Longrightarrow> is_act e"
  "think_call args = Inr e \<Longrightarrow> is_act e" "mcp_call name args = Inr e \<Longrightarrow> is_act e"
  "view_call name args = Inr e \<Longrightarrow> is_act e" "run_command c = Inr e \<Longrightarrow> is_act e"
  unfolding delegate_call_def finish_call_def think_call_def mcp_call_def view_call_def run_command_def
  by (elim act_rbind act_Inr)+

lemma searches_act: "grep_call name args = Inr e \<Longrightarrow> is_act e" "glob_call name args = Inr e \<Longrightarrow> is_act e"
  unfolding grep_call_def glob_call_def
  by (elim act_rbind, erule plain_call_act)+

lemmas calls_act = run_call_act editor_call_act edit_file_call_act code_call_act plain_call_act

lemma task_call_Inr:
  assumes "task_call name args i = Inr (e, j)"
  obtains cmd ts tasks a where "item args ''command'' = Inr cmd"
    "get_item args ''task_list'' (JList []) = Inr (JList ts)" "normalized_tasks 0 ts = Inr tasks"
    "task_tracking_of [(''command'', cmd), (''task_list'', JList tasks)] = Inr a"
    "e = act_event a" "j = (if ts = [] then i else length ts - 1)"
proof -
  from assms obtain cmd given where c: "required_argument name args ''command'' = Inr cmd"
    and g: "py_in (JStr ''task_list'') args = Inr given" "\<not> (cmd = JStr ''plan'' \<and> \<not> given)"
    by (auto simp: task_call_def rbind_Inr_iff split: if_splits)
  from assms c g obtain raw where r: "get_item args ''task_list'' (JList []) = Inr raw"
    by (auto simp: task_call_def rbind_Inr_iff simp del: de_Morgan_conj)
  from c have "item args ''command'' = Inr cmd"
    by (auto simp: required_argument_def rbind_Inr_iff split: if_splits)
  with assms c g r show thesis
    by (cases raw) (auto simp: task_call_def rbind_Inr_iff simp del: de_Morgan_conj intro: that)
qed

lemma task_call_act: "task_call name args i = Inr (e, j) \<Longrightarrow> is_act e"
  by (erule task_call_Inr) simp

interpretation codeact: call_making "codeact_call env mcp_tool_names" for env mcp_tool_names
  by unfold_locales
    (auto simp: codeact_call_def keep_index_def rbind_Inr_iff calls_act task_call_act split: if_splits)

interpretation readonly: index_keeping "readonly_call env mcp_tool_names" for env mcp_tool_names
  by unfold_locales
    (auto simp: readonly_call_def keep_index_def rbind_Inr_iff calls_act searches_act split: if_splits)

interpretation loc: index_keeping "loc_call env" for env
  by unfold_locales
    (auto simp: loc_call_def keep_index_def rbind_Inr_iff calls_act split: if_splits)

text \<open>
  The properties of the answers of the agents: every call becomes one action that carries its
  identity, the thought of the message goes to the first action where the agent keeps the index of
  its loop, and a list of tasks moves it where the agent does not.
\<close>

section \<open>The actions of a response\<close>

text \<open>What an event has to be to answer the call with index \<open>k\<close>.\<close>

definition answers_with ::
    "call_env \<Rightarrow> call_maker \<Rightarrow> string \<Rightarrow> event \<Rightarrow> nat \<Rightarrow> fn_call \<Rightarrow> bool" where
  "answers_with env mk thought e k tc \<longleftrightarrow>
     (case json_loads (ce_reader env) (fc_arguments tc) of
        None \<Rightarrow> False
      | Some args \<Rightarrow>
          (case mk (fc_name tc) args k of
             Inl x \<Rightarrow> False
           | Inr (e0, j) \<Rightarrow> ev_body e = ev_body (if j = 0 then map_action (combine_thought thought) e0 else e0)))"

lemma loop_bodies:
  "call_loop env fail mk response n thought i tcs = Inr es \<Longrightarrow>
   list_all2 (\<lambda>e (k, tc). answers_with env mk thought e k tc) es (List.enumerate i tcs)"
proof (induction tcs arbitrary: i es)
  case (Cons tc tcs)
  then obtain args e j r where p: "json_loads (ce_reader env) (fc_arguments tc) = Some args"
    "mk (fc_name tc) args i = Inr (e, j)"
    "call_loop env fail mk response n thought (i + 1) tcs = Inr r"
    "es = add_metadata response n tc (if j = 0 then map_action (combine_thought thought) e else e) # r"
    by (auto simp: rbind_Inr_iff Let_def split: option.splits)
  then show ?case
    using Cons.IH [OF p(3)] by (simp add: add_metadata_def answers_with_def)
qed simp

lemma answer_bodies:
  assumes "answer_actions env fail mk response = Inr es" and "lr_messages response = [msg]"
    and "am_tool_calls msg \<noteq> []" and "thought_of_content (am_content msg) = Inr thought"
  shows "list_all2 (\<lambda>e (k, tc). answers_with env mk thought e k tc) es (List.enumerate 0 (am_tool_calls msg))"
proof -
  from assms obtain r where "call_loop env fail mk response (length (am_tool_calls msg)) thought 0
      (am_tool_calls msg) = Inr r" "es = map (\<lambda>e. e\<lparr>ev_response_id := Some (lr_id response)\<rparr>) r"
    by (auto simp: answer_actions_def rbind_Inr_iff)
  moreover have "answers_with env mk thought (e\<lparr>ev_response_id := i\<rparr>) k tc = answers_with env mk thought e k tc"
    for e i k tc
  proof -
    have "ev_body (e\<lparr>ev_response_id := i\<rparr>) = ev_body e" by simp
    then show ?thesis unfolding answers_with_def by presburger
  qed
  ultimately show ?thesis using loop_bodies [of env fail mk response "length (am_tool_calls msg)" thought 0]
    by (force simp: list_all2_conv_all_nth split_beta)
qed

text \<open>With the index kept, the action of the first call has the thought and no other does.\<close>

definition plainly_answers ::
    "call_env \<Rightarrow> call_maker \<Rightarrow> string \<Rightarrow> event \<Rightarrow> nat \<Rightarrow> fn_call \<Rightarrow> bool" where
  "plainly_answers env mk thought e k tc \<longleftrightarrow>
     (case json_loads (ce_reader env) (fc_arguments tc) of
        None \<Rightarrow> False
      | Some args \<Rightarrow>
          (case mk (fc_name tc) args k of
             Inl x \<Rightarrow> False
           | Inr (e0, j) \<Rightarrow> ev_body e = ev_body (if k = 0 then map_action (combine_thought thought) e0 else e0)))"

context index_keeping
begin

lemma thought_to_first:
  assumes "answer_actions env fail mk response = Inr es" and "lr_messages response = [msg]"
    and "am_tool_calls msg \<noteq> []" and "thought_of_content (am_content msg) = Inr thought"
  shows "list_all2 (\<lambda>e (k, tc). plainly_answers env mk thought e k tc) es (List.enumerate 0 (am_tool_calls msg))"
  using answer_bodies [OF assms]
  by (rule list_all2_mono)
    (auto simp: answers_with_def plainly_answers_def dest: keeps_index split: option.splits sum.splits)

end

section \<open>The lists of tasks\<close>

lemma task_tracker_call:
  "codeact_call env mcp TASK_TRACKER_TOOL_NAME args i = task_call TASK_TRACKER_TOOL_NAME args i"
  by (simp add: codeact_call_def tool_names)

lemma task_call_tasks:
  assumes "task_call name args i = Inr (e, j)"
    and "get_item args ''task_list'' (JList []) = Inr (JList (t # ts))"
  shows "j = length ts \<and> (\<exists>c l. e = act_event (TaskTrackingAction c l []))"
  using assms(1)
proof (rule task_call_Inr)
  fix cmd raw tasks a
  assume "task_tracking_of [(''command'', cmd), (''task_list'', JList tasks)] = Inr a"
    and "get_item args ''task_list'' (JList []) = Inr (JList raw)"
    and "e = act_event a" and "j = (if raw = [] then i else length raw - 1)"
  then show ?thesis
    using assms(2) by (auto simp: task_tracking_of_def rbind_Inr_iff arg_def)
qed


section \<open>The properties\<close>

text \<open>
  C27. The agent that acts by code answers a response with one action per call of a tool, in the
  order of the calls: each event is an action that carries the id of the response and, as metadata,
  the id and the name of its call, the response and the number of its calls.
\<close>

theorem codeact_answers_every_call:
  assumes "codeact_response_to_actions env mcp_tool_names response = Inr es"
    and "lr_messages response = [msg]" and "am_tool_calls msg \<noteq> []"
  shows "list_all2 (\<lambda>e tc. is_act e \<and> ev_response_id e = Some (lr_id response) \<and>
     (\<exists>m. ev_tool_call_metadata e = Some m \<and>
       tc_tool_call_id m = fc_id tc \<and> tc_function_name m = fc_name tc \<and>
       tc_model_response m = lr_dump response \<and>
       tc_total_calls_in_response m = int (length (am_tool_calls msg)))) es (am_tool_calls msg)"
  using codeact.calls_answered assms unfolding codeact_response_to_actions_def by blast

text \<open>
  The read-only agent gives the text of the message, as the thought, to the action of the first
  call; the action of every later call is what the call alone makes of it.
\<close>

theorem readonly_thought_to_first:
  assumes "readonly_response_to_actions env mcp_tool_names response = Inr es"
    and "lr_messages response = [msg]" and "am_tool_calls msg \<noteq> []"
    and "thought_of_content (am_content msg) = Inr thought"
  shows "list_all2 (\<lambda>e (k, tc). plainly_answers env (readonly_call env mcp_tool_names) thought e k tc)
     es (List.enumerate 0 (am_tool_calls msg))"
  using readonly.thought_to_first assms unfolding readonly_response_to_actions_def by blast

text \<open>
  The agent that acts by code gives the thought to the wrong actions when a call lists tasks: the
  loop over the tasks overwrites the index of the loop over the calls. A call of the task tracker
  with two tasks or more never gets the thought of the message, not even as the first call, and a
  call with exactly one task always gets it, at whatever place it stands.
\<close>

theorem task_calls_take_the_thought:
  assumes "codeact_response_to_actions env mcp_tool_names response = Inr es"
    and "lr_messages response = [msg]" and "thought_of_content (am_content msg) = Inr thought"
    and "k < length (am_tool_calls msg)" and "fc_name (am_tool_calls msg ! k) = TASK_TRACKER_TOOL_NAME"
    and "json_loads (ce_reader env) (fc_arguments (am_tool_calls msg ! k)) = Some args"
    and "get_item args ''task_list'' (JList []) = Inr (JList (t # ts))"
  shows "\<exists>c l. ev_body (es ! k) = Action (TaskTrackingAction c l (if ts = [] then thought else []))"
proof -
  have "am_tool_calls msg \<noteq> []" using assms(4) by auto
  then have "list_all2 (\<lambda>e (k, tc). answers_with env (codeact_call env mcp_tool_names) thought e k tc) es
      (List.enumerate 0 (am_tool_calls msg))"
    using answer_bodies assms(1-3) unfolding codeact_response_to_actions_def by blast
  then have "answers_with env (codeact_call env mcp_tool_names) thought (es ! k) k (am_tool_calls msg ! k)"
    using assms(4) by (auto simp: list_all2_conv_all_nth nth_enumerate_eq)
  then obtain e0 j where "task_call TASK_TRACKER_TOOL_NAME args k = Inr (e0, j)"
    and b: "ev_body (es ! k) = ev_body (if j = 0 then map_action (combine_thought thought) e0 else e0)"
    using assms(5,6) by (auto simp: answers_with_def task_tracker_call split: sum.splits)
  then obtain c l where "j = length ts" "e0 = act_event (TaskTrackingAction c l [])"
    using task_call_tasks assms(7) by blast
  with b show ?thesis
    by (auto simp: map_action_def act_event_def new_event_def combine_thought_def)
qed


section \<open>Instances\<close>

definition demo_call_env :: call_env where
  "demo_call_env = conv_env.extend demo_env
     \<lparr>ce_read_float = (\<lambda>s. None),
       ce_workspace = \<lparr>sandbox_volumes = None, abspath = (\<lambda>p. p), getcwd = ''/workspace''\<rparr>\<rparr>"

definition run_ls :: fn_call where
  "run_ls = \<lparr>fc_id = ''call_1'', fc_name = ''execute_bash'',
     fc_arguments = dumps (\<lambda>x. []) (JObj [(''command'', JStr ''ls'')])\<rparr>"

definition list_one_task :: fn_call where
  "list_one_task = \<lparr>fc_id = ''call_2'', fc_name = ''task_tracker'',
     fc_arguments = dumps (\<lambda>x. []) (JObj [(''command'', JStr ''plan''),
       (''task_list'', JList [JObj [(''title'', JStr ''Fix it'')]])])\<rparr>"

definition demo_message :: assistant_msg where
  "demo_message = \<lparr>am_content = JStr ''Look first.'', am_tool_calls = [run_ls, list_one_task]\<rparr>"

definition demo_response :: model_response where
  "demo_response = \<lparr>lr_id = ''r1'', lr_messages = [demo_message], lr_dump = JObj []\<rparr>"

lemma demo_accepted: "\<not> isl (codeact_response_to_actions demo_call_env [] demo_response)"
  by code_simp

lemma demo_calls:
  "lr_messages demo_response = [demo_message]" "am_tool_calls demo_message = [run_ls, list_one_task]"
  "thought_of_content (am_content demo_message) = Inr ''Look first.''"
  by (simp_all add: demo_response_def demo_message_def thought_of_content_def)

theorem codeact_answers_every_call_witness:
  "\<exists>es. codeact_response_to_actions demo_call_env [] demo_response = Inr es \<and>
     list_all2 (\<lambda>e tc. is_act e \<and> ev_response_id e = Some (lr_id demo_response) \<and>
       (\<exists>m. ev_tool_call_metadata e = Some m \<and>
         tc_tool_call_id m = fc_id tc \<and> tc_function_name m = fc_name tc \<and>
         tc_model_response m = lr_dump demo_response \<and>
         tc_total_calls_in_response m = int (length (am_tool_calls demo_message)))) es (am_tool_calls demo_message)"
proof -
  obtain es where "codeact_response_to_actions demo_call_env [] demo_response = Inr es"
    using demo_accepted by (cases "codeact_response_to_actions demo_call_env [] demo_response") simp_all
  from this codeact_answers_every_call [OF this demo_calls(1)] show ?thesis
    by (simp add: demo_calls)
qed

text \<open>The second call of the message, with one task, takes the thought that the first call has.\<close>

theorem task_calls_take_the_thought_witness:
  "\<exists>es c l. codeact_response_to_actions demo_call_env [] demo_response = Inr es \<and>
     ev_body (es ! 1) = Action (TaskTrackingAction c l ''Look first.'')"
proof -
  obtain es where es: "codeact_response_to_actions demo_call_env [] demo_response = Inr es"
    using demo_accepted by (cases "codeact_response_to_actions demo_call_env [] demo_response") simp_all
  have args: "json_loads (ce_reader demo_call_env) (fc_arguments (am_tool_calls demo_message ! 1))
      = Some (JObj [(''command'', JStr ''plan''), (''task_list'', JList [JObj [(''title'', JStr ''Fix it'')]])])"
    by code_simp
  have "\<exists>c l. ev_body (es ! 1) = Action (TaskTrackingAction c l (if ([] :: json list) = [] then ''Look first.'' else []))"
    by (rule task_calls_take_the_thought [OF es demo_calls(1,3) _ _ args])
      (simp_all add: demo_calls list_one_task_def tool_names get_key_def)
  with es show ?thesis by simp
qed

definition think_aloud :: fn_call where
  "think_aloud = \<lparr>fc_id = ''call_3'', fc_name = ''think'',
     fc_arguments = dumps (\<lambda>x. []) (JObj [(''thought'', JStr ''hm'')])\<rparr>"

definition demo_reading :: model_response where
  "demo_reading = \<lparr>lr_id = ''r2'', lr_messages = [\<lparr>am_content = JStr ''Look first.'',
     am_tool_calls = [think_aloud, think_aloud]\<rparr>], lr_dump = JObj []\<rparr>"

theorem readonly_thought_to_first_witness:
  "\<exists>es. readonly_response_to_actions demo_call_env [] demo_reading = Inr es \<and>
     list_all2 (\<lambda>e (k, tc). plainly_answers demo_call_env (readonly_call demo_call_env []) ''Look first.'' e k tc)
       es [(0, think_aloud), (1, think_aloud)]"
proof -
  have "\<not> isl (readonly_response_to_actions demo_call_env [] demo_reading)" by code_simp
  then obtain es where es: "readonly_response_to_actions demo_call_env [] demo_reading = Inr es"
    by (cases "readonly_response_to_actions demo_call_env [] demo_reading") simp_all
  have m: "lr_messages demo_reading = [\<lparr>am_content = JStr ''Look first.'', am_tool_calls = [think_aloud, think_aloud]\<rparr>]"
    by (simp add: demo_reading_def)
  from readonly_thought_to_first [OF es m, of "''Look first.''"] es show ?thesis
    by (simp add: thought_of_content_def)
qed

end
