(* ===== verification/Search_Commands.thy ===== *)
theory Search_Commands
  imports Function_Calling_Correct
begin

text \<open>
  The command lines of the read-only agent, against the quoting rules of the POSIX shell: a text that
  \<open>shlex.quote\<close> returned is read as one word, the text that was quoted, and no part of it is expanded.
  The header that the code puts in front of the command repeats it between double quotes, where that
  no longer holds.
\<close>

section \<open>Reading a word\<close>

text \<open>What the shell makes of a character depends on the quotes it is in.\<close>

datatype quoting = Plain | Single | Double

text \<open>The characters that mean something to the shell outside quotes, blanks and quotes apart.\<close>

definition shell_special :: "char \<Rightarrow> bool" where
  "shell_special c \<longleftrightarrow> c \<in> set [CHR 0x21, CHR 0x23, CHR 0x24, CHR 0x26, CHR 0x28, CHR 0x29, CHR 0x2A,
     CHR 0x3B, CHR 0x3C, CHR 0x3E, CHR 0x3F, CHR 0x5B, CHR 0x5C, CHR 0x5D, CHR 0x60, CHR 0x7B, CHR 0x7C,
     CHR 0x7D, CHR 0x7E, newline, CHR 0x09]"

text \<open>The next word and what follows it: \<open>None\<close> where the word holds anything but literal text.\<close>

fun shell_word :: "quoting \<Rightarrow> string \<Rightarrow> (string \<times> string) option" where
  "shell_word Plain [] = Some ([], [])"
| "shell_word Plain (c # cs) =
     (if c = CHR 0x20 then Some ([], c # cs)
      else if c = CHR 0x27 then shell_word Single cs
      else if c = CHR 0x22 then shell_word Double cs
      else if shell_special c then None
      else map_option (apfst ((#) c)) (shell_word Plain cs))"
| "shell_word Single [] = None"
| "shell_word Single (c # cs) =
     (if c = CHR 0x27 then shell_word Plain cs
      else map_option (apfst ((#) c)) (shell_word Single cs))"
| "shell_word Double [] = None"
| "shell_word Double (c # cs) =
     (if c = CHR 0x22 then shell_word Plain cs
      else if c \<in> {CHR 0x24, CHR 0x5C, CHR 0x60} then None
      else map_option (apfst ((#) c)) (shell_word Double cs))"

text \<open>The first \<open>n\<close> words, each with one blank after it.\<close>

fun shell_words :: "nat \<Rightarrow> string \<Rightarrow> (string list \<times> string) option" where
  "shell_words 0 cs = Some ([], cs)"
| "shell_words (Suc n) cs =
     Option.bind (shell_word Plain cs) (\<lambda>(w, r).
       if startswith r [CHR 0x20] then map_option (apfst ((#) w)) (shell_words n (tl r)) else None)"

text \<open>Does the shell expand anything: a dollar or a back quote outside single quotes, with no
  backslash before it.\<close>

fun shell_expands :: "quoting \<Rightarrow> string \<Rightarrow> bool" where
  "shell_expands q [] = False"
| "shell_expands Plain (c # cs) \<longleftrightarrow>
     (if c = CHR 0x5C then (case cs of [] \<Rightarrow> False | d # ds \<Rightarrow> shell_expands Plain ds)
      else c = CHR 0x24 \<or> c = CHR 0x60 \<or>
        shell_expands (if c = CHR 0x27 then Single else if c = CHR 0x22 then Double else Plain) cs)"
| "shell_expands Single (c # cs) \<longleftrightarrow> shell_expands (if c = CHR 0x27 then Plain else Single) cs"
| "shell_expands Double (c # cs) \<longleftrightarrow>
     (if c = CHR 0x5C then (case cs of [] \<Rightarrow> False | d # ds \<Rightarrow> shell_expands Double ds)
      else c = CHR 0x24 \<or> c = CHR 0x60 \<or> shell_expands (if c = CHR 0x22 then Plain else Double) cs)"

section \<open>Quoted text\<close>

definition escaped :: "string \<Rightarrow> string" where
  "escaped s = concat (map (\<lambda>c. if c = CHR 0x27 then quote_escape else [c]) s)"

lemma split_on_char:
  "split_on [c] (d # s) =
     (if d = c then [] # split_on [c] s else (d # hd (split_on [c] s)) # tl (split_on [c] s))"
proof (cases "cut [c] s")
  case None
  then show ?thesis by (auto simp: split_on_Some startswith_iff)
next
  case (Some p)
  then show ?thesis by (cases p) (auto simp: split_on_Some startswith_iff)
qed

lemma replace_char: "replace s [c] r = concat (map (\<lambda>d. if d = c then r else [d]) s)"
proof (induction s)
  case (Cons d s)
  obtain x xs where x: "split_on [c] s = x # xs" by (cases "split_on [c] s") simp_all
  with Cons show ?case by (cases xs) (simp_all add: replace_def split_on_char)
qed (simp add: replace_def)

lemma shlex_quote_cases:
  obtains "s \<noteq> []" "list_all shell_safe s" "shlex_quote s = s"
  | "shlex_quote s = CHR 0x27 # escaped s @ [CHR 0x27]"
  by (cases "s = [] \<or> \<not> list_all shell_safe s")
    (auto simp: shlex_quote_def escaped_def replace_char)

lemma safe_char:
  "shell_safe c \<Longrightarrow> c \<noteq> CHR 0x20 \<and> c \<noteq> CHR 0x27 \<and> c \<noteq> CHR 0x22 \<and> \<not> shell_special c"
  by (auto simp: shell_safe_def shell_special_def is_word_def)

lemma safe_word: "list_all shell_safe s \<Longrightarrow> startswith r [CHR 0x20] \<Longrightarrow> shell_word Plain (s @ r) = Some (s, r)"
  by (induction s) (auto simp: safe_char startswith_iff)

lemma escaped_word:
  "shell_word Single (escaped s @ CHR 0x27 # r) = map_option (apfst ((@) s)) (shell_word Plain r)"
  by (induction s) (auto simp: escaped_def quote_escape_def option.map_comp o_def apfst_def map_prod_def
      option.map_ident_strong split_beta)

lemma quoted_word:
  assumes "startswith r [CHR 0x20]"
  shows "shell_word Plain (shlex_quote s @ r) = Some (s, r)"
proof (cases rule: shlex_quote_cases [of s])
  case 1
  with assms show ?thesis by (simp add: safe_word)
next
  case 2
  with assms show ?thesis by (auto simp: escaped_word startswith_iff)
qed

lemma quoted_words:
  "shell_words (Suc n) (shlex_quote s @ CHR 0x20 # r) = map_option (apfst ((#) s)) (shell_words n r)"
  by (simp add: quoted_word startswith_iff)

lemma safe_words:
  "list_all shell_safe s \<Longrightarrow>
   shell_words (Suc n) (s @ CHR 0x20 # r) = map_option (apfst ((#) s)) (shell_words n r)"
  by (simp add: safe_word startswith_iff)

lemma safe_expands: "list_all shell_safe s \<Longrightarrow> shell_expands Plain (s @ r) = shell_expands Plain r"
  using safe_char by (induction s) (auto simp: shell_special_def)

lemma escaped_expands: "shell_expands Single (escaped s @ CHR 0x27 # r) = shell_expands Plain r"
  by (induction s) (auto simp: escaped_def quote_escape_def)

lemma quoted_expands: "shell_expands Plain (shlex_quote s @ r) = shell_expands Plain r"
  by (cases rule: shlex_quote_cases [of s]) (simp_all add: safe_expands escaped_expands)


lemma double_expands:
  "CHR 0x22 \<notin> set x \<Longrightarrow> CHR 0x5C \<notin> set x \<Longrightarrow> c = CHR 0x24 \<or> c = CHR 0x60 \<Longrightarrow>
   shell_expands Double (x @ c # y)"
  by (induction x) auto

lemma escaped_append: "escaped (a @ b) = escaped a @ escaped b"
  by (simp add: escaped_def)

lemma escaped_id: "CHR 0x27 \<notin> set a \<Longrightarrow> escaped a = a"
  by (induction a) (auto simp: escaped_def)

text \<open>A text with a dollar or a back quote, quoted.\<close>

lemma quoted_unsafe:
  assumes "c = CHR 0x24 \<or> c = CHR 0x60" and "CHR 0x27 \<notin> set a"
  shows "\<exists>y. shlex_quote (a @ c # b) = CHR 0x27 # a @ c # y"
proof -
  have "\<not> shell_safe c" using assms(1) by (auto simp: shell_safe_def is_word_def)
  then have "shlex_quote (a @ c # b) = CHR 0x27 # escaped (a @ c # b) @ [CHR 0x27]"
    by (cases rule: shlex_quote_cases [of "a @ c # b"]) simp_all
  moreover have "escaped (c # b) = c # escaped b" using assms(1) by (auto simp: escaped_def)
  ultimately show ?thesis by (simp add: escaped_append escaped_id [OF assms(2)])
qed

section \<open>The properties\<close>


text \<open>
  The header of the command does not keep the promise of the quoting: it repeats the command
  between the double quotes of an \<open>echo\<close>, where the single quotes of \<open>shlex.quote\<close> mean nothing. A
  pattern with a dollar or a back quote, and no quote or backslash before it, is expanded by the
  shell: a search for the text of a command substitution runs that command.
\<close>

theorem search_header_expands:
  assumes "c = CHR 0x24 \<or> c = CHR 0x60"
    and "CHR 0x22 \<notin> set a" and "CHR 0x27 \<notin> set a" and "CHR 0x5C \<notin> set a"
  shows "shell_expands Plain (grep_to_cmdrun (a @ c # b) path incl)"
proof -
  obtain y where y: "shlex_quote (a @ c # b) = CHR 0x27 # a @ c # y"
    using quoted_unsafe [OF assms(1,3)] by blast
  have "\<exists>z. grep_command (a @ c # b) path incl = (''rg -li '' @ CHR 0x27 # a) @ c # z"
    by (cases "truthy incl"; cases "truthy path") (simp_all add: grep_command_def y)
  then obtain z where z: "grep_command (a @ c # b) path incl = (''rg -li '' @ CHR 0x27 # a) @ c # z" ..
  have "shell_expands Double ((''rg -li '' @ CHR 0x27 # a) @ c # z @ r)" for r
    using assms by (intro double_expands) simp_all
  then show ?thesis by (simp add: grep_to_cmdrun_def with_header_def z)
qed

theorem search_header_expands_witness:
  "shell_expands Plain (grep_to_cmdrun (''TODO: '' @ CHR 0x24 # ''(touch pwned)'') None None)"
  by (rule search_header_expands) simp_all

end
