(* ===== verification/Messages.thy ===== *)
theory Messages
  imports Function_Calling
begin

text \<open>
  \<open>core/message.py\<close>: the messages of a conversation with an LLM, and the dictionaries they are sent as.
  A content item is a text or a list of image urls, with the mark for prompt caching. A call of a
  tool is what the code reads of \<open>ChatCompletionMessageToolCall\<close> (\<open>fn_call\<close>).
\<close>

datatype message_role = ROLE_USER | ROLE_SYSTEM | ROLE_ASSISTANT | ROLE_TOOL

fun role_value :: "message_role \<Rightarrow> string" where
  "role_value ROLE_USER = ''user''"
| "role_value ROLE_SYSTEM = ''system''"
| "role_value ROLE_ASSISTANT = ''assistant''"
| "role_value ROLE_TOOL = ''tool''"

text \<open>A role that is not one of the four is refused by the class.\<close>

definition role_of :: "string \<Rightarrow> exc + message_role" where
  "role_of s =
     (case find (\<lambda>r. role_value r = s) [ROLE_USER, ROLE_SYSTEM, ROLE_ASSISTANT, ROLE_TOOL] of
        Some r \<Rightarrow> Inr r
      | None \<Rightarrow> Inl (ValueError ''validation error for Message''))"

datatype content_item =
    TextContent string bool               \<comment> \<open>text, cache\_prompt\<close>
  | ImageContent "string list" bool       \<comment> \<open>image\_urls, cache\_prompt\<close>

record message =
  mg_role :: message_role
  mg_content :: "content_item list"
  mg_cache_enabled :: bool
  mg_vision_enabled :: bool
  mg_function_calling_enabled :: bool
  mg_tool_calls :: "fn_call list option"
  mg_tool_call_id :: "string option"
  mg_name :: "string option"
  mg_force_string_serializer :: bool

definition new_message :: "message_role \<Rightarrow> content_item list \<Rightarrow> message" where
  "new_message r cs = \<lparr>mg_role = r, mg_content = cs, mg_cache_enabled = False, mg_vision_enabled = False,
     mg_function_calling_enabled = False, mg_tool_calls = None, mg_tool_call_id = None, mg_name = None,
     mg_force_string_serializer = False\<rparr>"

fun is_text :: "content_item \<Rightarrow> bool" where
  "is_text (TextContent t c) = True"
| "is_text (ImageContent us c) = False"

fun cache_prompt :: "content_item \<Rightarrow> bool" where
  "cache_prompt (TextContent t c) = c"
| "cache_prompt (ImageContent us c) = c"

definition contains_image :: "message \<Rightarrow> bool" where
  "contains_image m \<longleftrightarrow> list_ex (\<lambda>c. \<not> is_text c) (mg_content m)"

section \<open>Serialization\<close>

definition ephemeral :: "string \<times> json" where
  "ephemeral = (''cache_control'', JObj [(''type'', JStr ''ephemeral'')])"

definition text_dump :: "string \<Rightarrow> bool \<Rightarrow> dict" where
  "text_dump t cached =
     [(''type'', JStr ''text''), (''text'', JStr t)] @ (if cached then [ephemeral] else [])"

definition image_dump :: "string list \<Rightarrow> bool \<Rightarrow> dict list" where
  "image_dump urls cached =
     (let images = map (\<lambda>u. [(''type'', JStr ''image_url''), (''image_url'', JObj [(''url'', JStr u)])]) urls in
      if cached \<and> images \<noteq> [] then butlast images @ [last images @ [ephemeral]] else images)"

definition call_dump :: "fn_call \<Rightarrow> json" where
  "call_dump tc = JObj [(''id'', JStr (fc_id tc)), (''type'', JStr ''function''),
     (''function'', JObj [(''name'', JStr (fc_name tc)), (''arguments'', JStr (fc_arguments tc))])]"

definition add_tool_call_keys :: "message \<Rightarrow> dict \<Rightarrow> exc + dict" where
  "add_tool_call_keys m d =
     (let d = (case mg_tool_calls m of
                 Some tcs \<Rightarrow> dict_set d ''tool_calls'' (JList (map call_dump tcs))
               | None \<Rightarrow> d) in
      case mg_tool_call_id m of
        Some i \<Rightarrow>
          (case mg_name m of
             Some n \<Rightarrow> Inr (dict_set (dict_set d ''tool_call_id'' (JStr i)) ''name'' (JStr n))
           | None \<Rightarrow> Inl AssertionError)
      | None \<Rightarrow> Inr d)"

fun item_text :: "content_item \<Rightarrow> string option" where
  "item_text (TextContent t c) = Some t"
| "item_text (ImageContent us c) = None"

definition string_serializer :: "message \<Rightarrow> exc + dict" where
  "string_serializer m =
     add_tool_call_keys m
       [(''content'', JStr (join [newline] (List.map_filter item_text (mg_content m)))),
        (''role'', JStr (role_value (mg_role m)))]"

text \<open>What an item adds to the list: a tool message has the mark on the message, not on its items.\<close>

definition item_dump :: "message \<Rightarrow> content_item \<Rightarrow> dict list" where
  "item_dump m x =
     (let pop = (\<lambda>d. if mg_role m = ROLE_TOOL \<and> cache_prompt x then dict_del ''cache_control'' d else d) in
      case x of
        TextContent t c \<Rightarrow> [pop (text_dump t c)]
      | ImageContent us c \<Rightarrow> if mg_vision_enabled m then map pop (image_dump us c) else [])"

definition list_serializer :: "message \<Rightarrow> exc + dict" where
  "list_serializer m =
     (let role_tool_with_prompt_caching = (mg_role m = ROLE_TOOL \<and> list_ex cache_prompt (mg_content m));
          d = [(''content'', JList (map JObj (concat (map (item_dump m) (mg_content m))))),
               (''role'', JStr (role_value (mg_role m)))];
          d = (if role_tool_with_prompt_caching then d @ [ephemeral] else d)
      in add_tool_call_keys m d)"

definition serialize_model :: "message \<Rightarrow> exc + dict" where
  "serialize_model m =
     (if \<not> mg_force_string_serializer m \<and>
         (mg_cache_enabled m \<or> mg_vision_enabled m \<or> mg_function_calling_enabled m)
      then list_serializer m
      else string_serializer m)"

end
