(* ===== verification/Conversation_Memory.thy ===== *)
theory Conversation_Memory
  imports Messages Condensers
begin

text \<open>
  \<open>memory/conversation_memory.py\<close>: the events of a history turned into the messages for the LLM. The
  templates of the prompt manager, the attributes of a response object of \<open>litellm\<close> and
  \<open>str(event)\<close> are in \<open>memory_env\<close>. A history that is processed is changed: a system message and the
  first message of the user are put in where they are missing, and a finish action takes over the
  text of its response; the result holds the messages and the changed history.
\<close>

section \<open>The environment\<close>

record repository_info =
  ri_repo_name :: string
  ri_repo_directory :: string
  ri_branch_name :: "string option"

record runtime_info =
  rt_date :: string
  rt_available_hosts :: "(string, int) pydict"
  rt_additional_agent_instructions :: string
  rt_custom_secrets_descriptions :: "(string, string) pydict"
  rt_working_dir :: string

text \<open>The attributes of a response: \<open>id\<close>, and of the message of the first choice the role, the content
  and the calls.\<close>

record response_view =
  rv_id :: string
  rv_role :: string
  rv_content :: "string option"
  rv_tool_calls :: "fn_call list option"

record memory_env =
  me_enable_som_visual_browsing :: bool
  me_enable_prompt_extensions :: bool
  me_disabled_microagents :: "string list"
  me_system_message :: string                \<comment> \<open>\<open>get_system_message(cli_mode=...)\<close>\<close>
  me_workspace_context ::
    "repository_info option \<Rightarrow> runtime_info \<Rightarrow> string option \<Rightarrow> string \<Rightarrow> string"
  me_microagent_info :: "microagent_knowledge list \<Rightarrow> string"
  me_response :: "json \<Rightarrow> exc + response_view"
  me_event_text :: "event \<Rightarrow> string"

text \<open>The arguments of \<open>process_events\<close> beside the history.\<close>

record view_options =
  vo_max_message_chars :: "int option"
  vo_vision_is_active :: bool

definition user_text :: "string \<Rightarrow> message" where
  "user_text t = new_message ROLE_USER [TextContent t False]"

definition opt_truthy :: "string option \<Rightarrow> string" where
  "opt_truthy s = (case s of Some t \<Rightarrow> t | None \<Rightarrow> [])"

text \<open>Is there a url, and not just blanks.\<close>

definition is_valid_image_url :: "string option \<Rightarrow> bool" where
  "is_valid_image_url url \<longleftrightarrow> strip (opt_truthy url) \<noteq> []"

section \<open>Actions\<close>

text \<open>The classes whose actions are calls of tools; \<open>CmdRunAction\<close> only from the agent.\<close>

fun is_tool_action :: "EventSource option \<Rightarrow> action \<Rightarrow> bool" where
  "is_tool_action s (AgentDelegateAction a i t) = True"
| "is_tool_action s (AgentThinkAction t) = True"
| "is_tool_action s (IPythonRunCellAction r) = True"
| "is_tool_action s (FileEditAction r) = True"
| "is_tool_action s (FileReadAction r) = True"
| "is_tool_action s (BrowseInteractiveAction r) = True"
| "is_tool_action s (BrowseURLAction r) = True"
| "is_tool_action s (MCPAction r) = True"
| "is_tool_action s (TaskTrackingAction c l t) = True"
| "is_tool_action s (CmdRunAction r) = (s = Some AGENT)"
| "is_tool_action s a = False"

type_synonym id_messages = "(string, message) pydict"

text \<open>The message of the LLM that made the calls.\<close>

definition calling_message :: "response_view \<Rightarrow> exc + message" where
  "calling_message r =
     rbind (role_of (rv_role r)) (\<lambda>role.
     let text = opt_truthy (rv_content r) in
     Inr ((new_message role (if strip text \<noteq> [] then [TextContent text False] else []))
            \<lparr>mg_tool_calls := rv_tool_calls r\<rparr>))"

definition process_tool_action ::
    "memory_env \<Rightarrow> event \<Rightarrow> id_messages \<Rightarrow> exc + message list \<times> id_messages" where
  "process_tool_action env e pending =
     (case ev_tool_call_metadata e of
        None \<Rightarrow>
          if ev_source e = Some USER
          then Inr ([user_text (''User requested to read file: '' @ me_event_text env e)], pending)
          else Inl AssertionError
      | Some m \<Rightarrow>
          rbind (me_response env (tc_model_response m)) (\<lambda>r.
          rbind (calling_message r) (\<lambda>msg. Inr ([], dict_set pending (rv_id r) msg))))"

definition role_by_source :: "event \<Rightarrow> message_role" where
  "role_by_source e = (if ev_source e = Some USER then ROLE_USER else ROLE_ASSISTANT)"

text \<open>A finish action with the metadata of its call takes over the content of the response.\<close>

definition finish_thought :: "string \<Rightarrow> string \<Rightarrow> string" where
  "finish_thought thought content =
     (if thought \<noteq> [] then (if thought \<noteq> content then thought @ newline # content else thought)
      else content)"

definition process_finish ::
    "memory_env \<Rightarrow> event \<Rightarrow> string \<Rightarrow> dict \<Rightarrow> string \<Rightarrow> exc + message list \<times> event" where
  "process_finish env e ft os thought =
     rbind (case ev_tool_call_metadata e of
              None \<Rightarrow> Inr (thought, e)
            | Some m \<Rightarrow>
                rbind (me_response env (tc_model_response m)) (\<lambda>r.
                let t = finish_thought thought (opt_truthy (rv_content r)) in
                Inr (t, e\<lparr>ev_body := Action (AgentFinishAction ft os t),
                          ev_tool_call_metadata := None\<rparr>))) (\<lambda>(t, e').
     Inr ([new_message (role_by_source e) [TextContent t False]], e'))"

fun numbered_images :: "bool \<Rightarrow> nat \<Rightarrow> string list \<Rightarrow> content_item list" where
  "numbered_images vision idx [] = []"
| "numbered_images vision idx (u # us) =
     (if vision then [TextContent (''Image '' @ show_nat (idx + 1) @ '':'') False] else [])
     @ ImageContent [u] False # numbered_images vision (idx + 1) us"

definition process_message_action :: "view_options \<Rightarrow> event \<Rightarrow> message_action \<Rightarrow> message" where
  "process_message_action vo e r =
     (let urls = (case ma_image_urls r of Some us \<Rightarrow> us | None \<Rightarrow> []) in
      new_message (role_by_source e)
        (TextContent (ma_content r) False #
         (if urls = [] then []
          else if ev_source e = Some USER then numbered_images (vo_vision_is_active vo) 0 urls
          else [ImageContent urls False])))"

text \<open>\<open>_process_action\<close>: the messages, the pending messages, and the action as it is afterwards.\<close>

definition process_action ::
    "memory_env \<Rightarrow> view_options \<Rightarrow> event \<Rightarrow> action \<Rightarrow> id_messages
      \<Rightarrow> exc + message list \<times> id_messages \<times> event" where
  "process_action env vo e a pending =
     (if is_tool_action (ev_source e) a
      then rbind (process_tool_action env e pending) (\<lambda>(ms, p). Inr (ms, p, e))
      else case a of
        AgentFinishAction f os t \<Rightarrow>
          rbind (process_finish env e f os t) (\<lambda>(ms, e'). Inr (ms, pending, e'))
      | MessageAction r \<Rightarrow> Inr ([process_message_action vo e r], pending, e)
      | CmdRunAction r \<Rightarrow>
          if ev_source e = Some USER
          then Inr ([user_text (''User executed the command:'' @ newline # cr_command r)], pending, e)
          else Inr ([], pending, e)
      | SystemMessageAction r \<Rightarrow> Inr ([new_message ROLE_SYSTEM [TextContent (sm_content r) False]], pending, e)
      | _ \<Rightarrow> Inr ([], pending, e))"

section \<open>Observations\<close>

definition BASE64_MARK :: string where
  "BASE64_MARK = ''![image](data:image/png;base64,''"

definition clean_base64 :: "string \<Rightarrow> string" where
  "clean_base64 text = join [newline]
     (map (\<lambda>line. if contains line BASE64_MARK
                  then ''![image](data:image/png;base64, ...) already displayed to user'' else line)
        (split_on [newline] text))"

definition ipython_items :: "view_options \<Rightarrow> string \<Rightarrow> string list option \<Rightarrow> content_item list" where
  "ipython_items vo content image_urls =
     (let text = truncate_content (clean_base64 content) (vo_max_message_chars vo);
          urls = (case image_urls of Some us \<Rightarrow> us | None \<Rightarrow> []);
          valid = filter (\<lambda>u. is_valid_image_url (Some u)) urls;
          invalid_count = length urls - length valid
      in if urls = [] then [TextContent text False]
         else if valid \<noteq> []
         then [TextContent (if vo_vision_is_active vo \<and> invalid_count > 0
                 then text @ newline # newline # ''Note: '' @ show_nat invalid_count
                   @ '' invalid or empty image(s) were filtered from this output. The agent may need to use alternative methods to access visual information.''
                 else text) False, ImageContent valid False]
         else [TextContent (if vo_vision_is_active vo
                 then text @ newline # newline # ''Note: All '' @ show_nat (length urls)
                   @ '' image(s) in this output were invalid or empty and have been filtered. The agent should use alternative methods to access visual information.''
                 else text) False])"

definition screenshot_text :: string where
  "screenshot_text = ''Image: Current webpage screenshot (Note that only visible portion of webpage is present in the screenshot. However, the Accessibility tree contains information from the entire webpage.)''
     @ [newline]"

text \<open>The image of a page: the set of marks, else the screenshot.\<close>

definition page_image :: "browser_output \<Rightarrow> (string \<times> string) option" where
  "page_image r =
     (if bo_set_of_marks r \<noteq> [] then Some (bo_set_of_marks r, ''set of marks'')
      else if bo_screenshot r \<noteq> [] then Some (bo_screenshot r, ''screenshot'')
      else None)"

definition browser_content :: "memory_env \<Rightarrow> view_options \<Rightarrow> browser_output \<Rightarrow> content_item list" where
  "browser_content env vo r =
     (if bo_trigger_by_action r = ''browse_interactive'' \<and> me_enable_som_visual_browsing env then
        (let vision = vo_vision_is_active vo;
             text = (if vision then bo_content r @ screenshot_text else bo_content r);
             note = (\<lambda>s. newline # newline # ''Note: '' @ s)
         in case page_image r of
              Some (url, kind) \<Rightarrow>
                if is_valid_image_url (Some url) then [TextContent text False, ImageContent [url] False]
                else [TextContent (if vision then text @ note (''The '' @ kind
                        @ '' for this webpage was invalid or empty and has been filtered. The agent should use alternative methods to access visual information about the webpage.'')
                      else text) False]
            | None \<Rightarrow>
                [TextContent (if vision then text @ note ''No visual information (screenshot or set of marks) is available for this webpage. The agent should rely on the text content above.''
                      else text) False])
      else [TextContent (bo_content r) False])"

definition enabled_agents :: "memory_env \<Rightarrow> microagent_knowledge list \<Rightarrow> microagent_knowledge list" where
  "enabled_agents env ks = filter (\<lambda>k. mk_name k \<notin> set (me_disabled_microagents env)) ks"

definition workspace_info :: "recall_observation \<Rightarrow> repository_info option \<times> runtime_info" where
  "workspace_info r =
     ((if ro_repo_name r \<noteq> [] \<or> ro_repo_directory r \<noteq> []
       then Some \<lparr>ri_repo_name = ro_repo_name r, ri_repo_directory = ro_repo_directory r,
              ri_branch_name = (if ro_repo_branch r \<noteq> [] then Some (ro_repo_branch r) else None)\<rparr>
       else None),
      (if ro_runtime_hosts r \<noteq> [] \<or> ro_additional_agent_instructions r \<noteq> []
       then \<lparr>rt_date = ro_date r, rt_available_hosts = ro_runtime_hosts r,
              rt_additional_agent_instructions = ro_additional_agent_instructions r,
              rt_custom_secrets_descriptions = ro_custom_secrets_descriptions r,
              rt_working_dir = ro_working_dir r\<rparr>
       else \<lparr>rt_date = ro_date r, rt_available_hosts = [], rt_additional_agent_instructions = [],
              rt_custom_secrets_descriptions = ro_custom_secrets_descriptions r,
              rt_working_dir = ro_working_dir r\<rparr>))"

definition workspace_content :: "memory_env \<Rightarrow> recall_observation \<Rightarrow> content_item list" where
  "workspace_content env r =
     (let (repo, runtime) = workspace_info r;
          instructions = (if ro_conversation_instructions r \<noteq> []
                          then Some (ro_conversation_instructions r) else None);
          agents = enabled_agents env (ro_microagent_knowledge r)
      in (if repo \<noteq> None \<or> rt_date runtime \<noteq> [] \<or> rt_custom_secrets_descriptions runtime \<noteq> []
             \<or> strip (ro_repo_instructions r) \<noteq> [] \<or> instructions \<noteq> None
          then [TextContent (me_workspace_context env repo runtime instructions (ro_repo_instructions r)) False]
          else []) @
         (if agents \<noteq> [] then [TextContent (me_microagent_info env agents) False] else []))"

definition has_agent_in_earlier_events :: "string \<Rightarrow> nat \<Rightarrow> event list \<Rightarrow> bool" where
  "has_agent_in_earlier_events name current_index events \<longleftrightarrow>
     list_ex (\<lambda>e. case ev_body e of
         Observation (RecallObservation r) \<Rightarrow> list_ex (\<lambda>k. mk_name k = name) (ro_microagent_knowledge r)
       | _ \<Rightarrow> False) (take current_index events)"

definition filter_agents_in_microagent_obs ::
    "recall_observation \<Rightarrow> nat \<Rightarrow> event list \<Rightarrow> microagent_knowledge list" where
  "filter_agents_in_microagent_obs r current_index events =
     (if ro_recall_type r \<noteq> KNOWLEDGE then ro_microagent_knowledge r
      else filter (\<lambda>k. \<not> has_agent_in_earlier_events (mk_name k) current_index events)
             (ro_microagent_knowledge r))"

text \<open>The content of the message for an observation: \<open>None\<close> where no message is made; the second component
  tells whether the message may answer a call (the knowledge of microagents is returned at once).\<close>

definition recall_content ::
    "memory_env \<Rightarrow> recall_observation \<Rightarrow> nat \<Rightarrow> event list \<Rightarrow> (content_item list \<times> bool) option" where
  "recall_content env r current_index events =
     (if \<not> me_enable_prompt_extensions env then None
      else case ro_recall_type r of
        WORKSPACE_CONTEXT \<Rightarrow>
          (let c = workspace_content env r in if c \<noteq> [] then Some (c, True) else None)
      | KNOWLEDGE \<Rightarrow>
          (let agents = enabled_agents env (filter_agents_in_microagent_obs r current_index events) in
           if agents \<noteq> [] then Some ([TextContent (me_microagent_info env agents) False], False) else None))"

definition unknown_observation :: "string \<Rightarrow> exc" where
  "unknown_observation c =
     ValueError (''Unknown observation type: <class '' @ CHR 0x27 # ''openhands.events.observation.'' @ c
                 @ CHR 0x27 # ''>'')"

definition observation_content ::
    "memory_env \<Rightarrow> view_options \<Rightarrow> event \<Rightarrow> observation \<Rightarrow> nat \<Rightarrow> event list
      \<Rightarrow> exc + (content_item list \<times> bool) option" where
  "observation_content env vo e ob current_index events =
     (let cut = (\<lambda>t. truncate_content t (vo_max_message_chars vo));
          answer = (\<lambda>t. Inr (Some ([TextContent t False], True)))
      in case ob of
        CmdOutputObservation r \<Rightarrow>
          answer (if ev_tool_call_metadata e = None
                  then cut (newline # ''Observed result of command executed by user:'' @ newline # to_agent_observation r)
                  else cut (to_agent_observation r))
      | MCPObservation c n as \<Rightarrow> answer (cut c)
      | IPythonRunCellObservation c code urls \<Rightarrow> Inr (Some (ipython_items vo c urls, True))
      | FileEditObservation r \<Rightarrow> answer (cut (me_event_text env e))
      | FileReadObservation c p i \<Rightarrow> answer c
      | BrowserOutputObservation r \<Rightarrow> Inr (Some (browser_content env vo r, True))
      | AgentDelegateObservation c os \<Rightarrow>
          rbind (str_of (get_key os ''content'' (JStr c))) (\<lambda>t. answer (cut t))
      | AgentThinkObservation c \<Rightarrow> answer (cut c)
      | TaskTrackingObservation c cmd l \<Rightarrow> answer (cut c)
      | ErrorObservation c i \<Rightarrow>
          answer (cut c @ newline # ''[Error occurred in processing last action]'')
      | UserRejectObservation c \<Rightarrow>
          answer (''OBSERVATION:'' @ newline # cut c @ newline # ''[Last action has been rejected by the user]'')
      | AgentCondensationObservation c \<Rightarrow> answer (cut c)
      | FileDownloadObservation c p \<Rightarrow> answer (cut c)
      | LoopDetectionObservation c \<Rightarrow> Inr None
      | RecallObservation r \<Rightarrow> Inr (recall_content env r current_index events)
      | NullObservation c \<Rightarrow> Inl (unknown_observation ''empty.NullObservation'')
      | FileWriteObservation c p \<Rightarrow> Inl (unknown_observation ''files.FileWriteObservation'')
      | SuccessObservation c \<Rightarrow> Inl (unknown_observation ''success.SuccessObservation'')
      | AgentStateChangedObservation c s r \<Rightarrow> Inl (unknown_observation ''agent.AgentStateChangedObservation''))"

definition tool_message :: "tool_call_metadata \<Rightarrow> content_item list \<Rightarrow> message" where
  "tool_message m c = (new_message ROLE_TOOL c)
     \<lparr>mg_tool_call_id := Some (tc_tool_call_id m), mg_name := Some (tc_function_name m)\<rparr>"

definition process_observation ::
    "memory_env \<Rightarrow> view_options \<Rightarrow> event \<Rightarrow> observation \<Rightarrow> id_messages \<Rightarrow> nat \<Rightarrow> event list
      \<Rightarrow> exc + message list \<times> id_messages" where
  "process_observation env vo e ob results current_index events =
     rbind (observation_content env vo e ob current_index events) (\<lambda>c.
     case c of
       None \<Rightarrow> Inr ([], results)
     | Some (content, answers) \<Rightarrow>
         (case ev_tool_call_metadata e of
            Some m \<Rightarrow>
              if answers then Inr ([], dict_set results (tc_tool_call_id m) (tool_message m content))
              else Inr ([new_message ROLE_USER content], results)
          | None \<Rightarrow> Inr ([new_message ROLE_USER content], results)))"

section \<open>Calls and their results\<close>

text \<open>The results of the calls of a message, in the order of the calls; each is taken out.\<close>

fun take_results :: "fn_call list \<Rightarrow> id_messages \<Rightarrow> exc + message list \<times> id_messages" where
  "take_results [] results = Inr ([], results)"
| "take_results (tc # tcs) results =
     (case map_of results (fc_id tc) of
        None \<Rightarrow> Inl (KeyError (fc_id tc))
      | Some m \<Rightarrow>
          rbind (take_results tcs (dict_del (fc_id tc) results)) (\<lambda>(ms, r). Inr (m # ms, r)))"

text \<open>The messages whose calls all have results go out, followed by the results; the others stay.\<close>

fun complete_pending ::
    "id_messages \<Rightarrow> id_messages \<Rightarrow> exc + message list \<times> id_messages \<times> id_messages" where
  "complete_pending [] results = Inr ([], [], results)"
| "complete_pending ((i, m) # pending) results =
     (case mg_tool_calls m of
        None \<Rightarrow> Inl AssertionError
      | Some tcs \<Rightarrow>
          if list_all (\<lambda>tc. map_of results (fc_id tc) \<noteq> None) tcs
          then rbind (take_results tcs results) (\<lambda>(ms, results).
               rbind (complete_pending pending results) (\<lambda>(out, p, r). Inr (m # ms @ out, p, r)))
          else rbind (complete_pending pending results) (\<lambda>(out, p, r). Inr (out, (i, m) # p, r)))"

definition call_ids :: "message list \<Rightarrow> string list" where
  "call_ids ms = concat (map (\<lambda>m.
     (case mg_tool_calls m of
        Some tcs \<Rightarrow> if mg_role m = ROLE_ASSISTANT then filter (\<lambda>i. i \<noteq> []) (map fc_id tcs) else []
      | None \<Rightarrow> [])) ms)"

definition response_ids :: "message list \<Rightarrow> string list" where
  "response_ids ms = concat (map (\<lambda>m.
     (case mg_tool_call_id m of
        Some i \<Rightarrow> if mg_role m = ROLE_TOOL \<and> i \<noteq> [] then [i] else []
      | None \<Rightarrow> [])) ms)"

definition filter_message :: "string set \<Rightarrow> string set \<Rightarrow> message \<Rightarrow> message list" where
  "filter_message calls responses m =
     (if mg_role m = ROLE_TOOL \<and> truthy (mg_tool_call_id m)
      then (if the (mg_tool_call_id m) \<in> calls then [m] else [])
      else if mg_role m = ROLE_ASSISTANT \<and> mg_tool_calls m \<noteq> None \<and> mg_tool_calls m \<noteq> Some []
      then (let tcs = the (mg_tool_calls m);
                matched = filter (\<lambda>tc. fc_id tc \<in> responses) tcs
            in if list_all (\<lambda>tc. fc_id tc \<in> responses) tcs then [m]
               else if matched \<noteq> [] then [m\<lparr>mg_tool_calls := Some matched\<rparr>]
               else [])
      else [m])"

definition filter_unmatched_tool_calls :: "message list \<Rightarrow> message list" where
  "filter_unmatched_tool_calls messages =
     concat (map (filter_message (set (call_ids messages)) (set (response_ids messages))) messages)"

section \<open>The messages of a history\<close>

fun separate_text :: "content_item list \<Rightarrow> content_item list" where
  "separate_text [] = []"
| "separate_text (TextContent t c # xs) = TextContent (newline # newline # t) c # xs"
| "separate_text (x # xs) = x # separate_text xs"

fun format_user_messages :: "message_role option \<Rightarrow> message list \<Rightarrow> message list" where
  "format_user_messages prev [] = []"
| "format_user_messages prev (m # ms) =
     (if mg_role m = ROLE_USER \<and> prev = Some ROLE_USER
      then m\<lparr>mg_content := separate_text (mg_content m)\<rparr> else m)
     # format_user_messages (Some (mg_role m)) ms"

definition apply_user_message_formatting :: "message list \<Rightarrow> message list" where
  "apply_user_message_formatting = format_user_messages None"

definition is_user_message :: "event \<Rightarrow> bool" where
  "is_user_message e \<longleftrightarrow>
     (case ev_body e of Action (MessageAction r) \<Rightarrow> ev_source e = Some USER | _ \<Rightarrow> False)"

definition system_event :: "string \<Rightarrow> event" where
  "system_event prompt = new_event (Action (SystemMessageAction
     \<lparr>sm_content = prompt, sm_tools = None, sm_openhands_version = None, sm_agent_class = None\<rparr>))"

definition ensure_system_message :: "memory_env \<Rightarrow> event list \<Rightarrow> event list" where
  "ensure_system_message env events =
     (if list_ex is_system_message events \<or> me_system_message env = [] then events
      else system_event (me_system_message env) # events)"

fun ensure_initial_user_message :: "event \<Rightarrow> event list \<Rightarrow> event list" where
  "ensure_initial_user_message initial [] = []"
| "ensure_initial_user_message initial [e] = [e, initial]"
| "ensure_initial_user_message initial (e # f # es) =
     (if is_user_message f then e # f # es else e # initial # f # es)"

text \<open>One event: the messages it adds, the event afterwards, and what is pending.\<close>

definition process_event ::
    "memory_env \<Rightarrow> view_options \<Rightarrow> event list \<Rightarrow> nat \<Rightarrow> event \<Rightarrow> id_messages \<times> id_messages
      \<Rightarrow> exc + message list \<times> event \<times> id_messages \<times> id_messages" where
  "process_event env vo events i e st =
     (let (pending, results) = st in
      rbind (case ev_body e of
               Action a \<Rightarrow>
                 rbind (process_action env vo e a pending) (\<lambda>(ms, p, e'). Inr (ms, e', p, results))
             | Observation ob \<Rightarrow>
                 rbind (process_observation env vo e ob results i events) (\<lambda>(ms, r). Inr (ms, e, pending, r)))
        (\<lambda>(ms, e', pending, results).
         rbind (complete_pending pending results) (\<lambda>(out, p, r). Inr (ms @ out, e', p, r))))"

fun process_loop ::
    "memory_env \<Rightarrow> view_options \<Rightarrow> event list \<Rightarrow> nat \<Rightarrow> event list \<Rightarrow> id_messages \<times> id_messages
      \<Rightarrow> exc + message list \<times> event list" where
  "process_loop env vo events i [] st = Inr ([], [])"
| "process_loop env vo events i (e # es) st =
     rbind (process_event env vo events i e st) (\<lambda>(ms, e', st').
     rbind (process_loop env vo events (i + 1) es st') (\<lambda>(rest, es'). Inr (ms @ rest, e' # es')))"

definition ensured :: "memory_env \<Rightarrow> event \<Rightarrow> event list \<Rightarrow> event list" where
  "ensured env initial events = ensure_initial_user_message initial (ensure_system_message env events)"

definition process_events ::
    "memory_env \<Rightarrow> view_options \<Rightarrow> event list \<Rightarrow> event \<Rightarrow> exc + message list \<times> event list" where
  "process_events env vo condensed_history initial_user_action =
     (let events = ensured env initial_user_action condensed_history in
      rbind (process_loop env vo events 0 events ([], [])) (\<lambda>(messages, events').
      Inr (apply_user_message_formatting (filter_unmatched_tool_calls messages), events')))"

section \<open>Prompt caching\<close>

fun mark_item :: "content_item \<Rightarrow> content_item" where
  "mark_item (TextContent t c) = TextContent t True"
| "mark_item (ImageContent us c) = ImageContent us True"

definition mark_last :: "message \<Rightarrow> exc + message" where
  "mark_last m =
     (if mg_content m = [] then Inl IndexError
      else Inr (m\<lparr>mg_content := butlast (mg_content m) @ [mark_item (last (mg_content m))]\<rparr>))"

text \<open>The first message from the end of the list that is the user's or a tool's.\<close>

fun mark_first_input :: "message list \<Rightarrow> exc + message list" where
  "mark_first_input [] = Inr []"
| "mark_first_input (m # ms) =
     (if mg_role m \<in> {ROLE_USER, ROLE_TOOL}
      then rbind (mark_last m) (\<lambda>m'. Inr (m' # ms))
      else rbind (mark_first_input ms) (\<lambda>ms'. Inr (m # ms')))"

definition apply_prompt_caching :: "message list \<Rightarrow> exc + message list" where
  "apply_prompt_caching messages =
     rbind (case messages of
              m # ms \<Rightarrow> if mg_role m = ROLE_SYSTEM then rbind (mark_last m) (\<lambda>m'. Inr (m' # ms)) else Inr messages
            | [] \<Rightarrow> Inr []) (\<lambda>messages.
     rbind (mark_first_input (rev messages)) (\<lambda>ms. Inr (rev ms)))"

end
