(* ===== verification/CodeAct_Agent.thy ===== *)
theory CodeAct_Agent
  imports Conversation_Memory Agent_State
begin

text \<open>
  \<open>agenthub/codeact_agent/codeact_agent.py\<close>, the tools part of \<open>controller/agent.py\<close>, and \<open>llm/llm_utils.py\<close>: a step
  of the agent that acts by code. It hands out the actions of the last response; when there are
  none, it condenses the history, makes the messages, asks the LLM and keeps the actions of the
  answer. The completion of the LLM is an argument that works on the heap of the metrics. Where a
  step raises while the messages are made, the changes of the history so far are not shown.
\<close>

section \<open>The tools\<close>

record agent_config =
  ac_enable_cmd :: bool
  ac_enable_think :: bool
  ac_enable_finish :: bool
  ac_enable_condensation_request :: bool
  ac_enable_browsing :: bool
  ac_enable_jupyter :: bool
  ac_enable_plan_mode :: bool
  ac_enable_llm_editor :: bool
  ac_enable_editor :: bool
  ac_runtime :: "string option"

definition SHORT_TOOL_DESCRIPTION_LLM_SUBSTRS :: "string list" where
  "SHORT_TOOL_DESCRIPTION_LLM_SUBSTRS = [''gpt-4'', ''o3'', ''o1'', ''o4'']"

text \<open>The model is that of the agent's LLM, which may be missing.\<close>

definition get_tools :: "agent_config \<Rightarrow> call_env \<Rightarrow> string option \<Rightarrow> dict list" where
  "get_tools c env model =
     (let use_short_tool_desc =
            (case model of
               None \<Rightarrow> False
             | Some m \<Rightarrow> list_ex (\<lambda>s. contains m s) SHORT_TOOL_DESCRIPTION_LLM_SUBSTRS) in
      (if ac_enable_cmd c then [create_cmd_run_tool (ce_win32 env) use_short_tool_desc] else []) @
      (if ac_enable_think c then [ThinkTool] else []) @
      (if ac_enable_finish c then [FinishTool] else []) @
      (if ac_enable_condensation_request c then [CondensationRequestTool] else []) @
      (if ac_enable_browsing c \<and> \<not> ce_win32 env then [BrowserTool] else []) @
      (if ac_enable_jupyter c then [IPythonTool] else []) @
      (if ac_enable_plan_mode c then [create_task_tracker_tool use_short_tool_desc] else []) @
      (if ac_enable_llm_editor c then [LLMBasedFileEditTool]
       else if ac_enable_editor c
       then [create_str_replace_editor_tool (ce_workspace env) use_short_tool_desc None (ac_runtime c)]
       else []))"

text \<open>What is taken from a parameter of a tool for Gemini: defaults, and the formats of strings that it does
  not know.\<close>

definition check_property :: "dict \<Rightarrow> dict" where
  "check_property prop =
     (let prop = dict_del ''default'' prop in
      if get_key prop ''type'' JNull = JStr ''string'' \<and> has_key ''format'' prop \<and>
         get_key prop ''format'' JNull \<notin> {JStr ''enum'', JStr ''date-time''}
      then dict_del ''format'' prop else prop)"

fun check_properties :: "dict \<Rightarrow> exc + dict" where
  "check_properties [] = Inr []"
| "check_properties ((name, prop) # props) =
     rbind (dict_of ''get'' prop) (\<lambda>p.
     rbind (check_properties props) (\<lambda>r. Inr ((name, JObj (check_property p)) # r)))"

definition check_tool :: "dict \<Rightarrow> exc + dict" where
  "check_tool tool =
     (case map_of tool ''function'' of
        Some (JObj fn) \<Rightarrow>
          (case map_of fn ''parameters'' of
             Some (JObj params) \<Rightarrow>
               (case map_of params ''properties'' of
                  Some (JObj props) \<Rightarrow>
                    rbind (check_properties props) (\<lambda>props.
                    Inr (dict_set tool ''function'' (JObj (dict_set fn ''parameters''
                          (JObj (dict_set params ''properties'' (JObj props)))))))
                | _ \<Rightarrow> Inr tool)
           | _ \<Rightarrow> Inr tool)
      | _ \<Rightarrow> Inr tool)"

definition check_tools :: "dict list \<Rightarrow> string \<Rightarrow> exc + dict list" where
  "check_tools tools model =
     (if contains (map lower_char model) ''gemini'' then mapE check_tool tools else Inr tools)"

section \<open>The agent\<close>

record codeact =
  ca_pending_actions :: "event list"
  ca_tools :: "dict list"
  ca_mcp_tools :: "(string, dict) pydict"

definition new_codeact :: "agent_config \<Rightarrow> call_env \<Rightarrow> string option \<Rightarrow> codeact" where
  "new_codeact c env model = \<lparr>ca_pending_actions = [], ca_tools = get_tools c env model, ca_mcp_tools = []\<rparr>"

definition codeact_reset :: "codeact \<Rightarrow> codeact" where
  "codeact_reset ag = ag\<lparr>ca_pending_actions := []\<rparr>"

definition add_mcp_tool :: "dict \<Rightarrow> codeact \<Rightarrow> exc + codeact" where
  "add_mcp_tool tool ag =
     rbind (tool_name tool) (\<lambda>n. rbind (str_of n) (\<lambda>name.
     if name \<in> set (keys (ca_mcp_tools ag)) then Inr ag
     else Inr (ag\<lparr>ca_mcp_tools := dict_set (ca_mcp_tools ag) name tool, ca_tools := ca_tools ag @ [tool]\<rparr>)))"

definition set_mcp_tools :: "dict list \<Rightarrow> codeact \<Rightarrow> exc + codeact" where
  "set_mcp_tools tools ag = foldE add_mcp_tool tools ag"

text \<open>\<open>get_system_message\<close>: \<open>None\<close> where the prompt could not be made.\<close>

definition get_system_message :: "string \<Rightarrow> exc + string \<Rightarrow> codeact \<Rightarrow> event option" where
  "get_system_message name prompt ag =
     (case prompt of
        Inl x \<Rightarrow> None
      | Inr p \<Rightarrow> Some ((new_event (Action (SystemMessageAction
          \<lparr>sm_content = p, sm_tools = Some (map JObj (ca_tools ag)), sm_openhands_version = None,
            sm_agent_class = Some name\<rparr>)))\<lparr>ev_source := Some AGENT\<rparr>))"

section \<open>A step\<close>

record codeact_env =
  ca_calls :: call_env
  ca_memory :: memory_env
  ca_options :: view_options
  ca_condenser :: built
  ca_shares_view :: bool
  ca_model :: string
  ca_caching_prompt_active :: bool
  ca_version :: string
  ca_web_host :: "string option"
  ca_complete :: "message list \<Rightarrow> dict list \<Rightarrow> dict \<Rightarrow> heap \<Rightarrow> (exc + model_response) \<times> heap"

text \<open>The condensers that return the view they are given, not a new one, where they do not condense.\<close>

fun shares_view :: "condenser_config \<Rightarrow> bool" where
  "shares_view (ObservationMaskingCondenserConfig w) = False"
| "shares_view (BrowserOutputCondenserConfig w) = False"
| "shares_view (RecentEventsCondenserConfig k m) = False"
| "shares_view (CondenserPipelineConfig cs) = list_all shares_view cs"
| "shares_view c = True"

definition get_initial_user_message :: "event list \<Rightarrow> exc + event" where
  "get_initial_user_message hist =
     (case List.find is_user_message hist of
        Some e \<Rightarrow> Inr e
      | None \<Rightarrow> Inl (ValueError ''Initial user message not found in history. Please report this issue.''))"

text \<open>\<open>write_metadata\<close> on the extra data of the state.\<close>

definition record_batch :: "dict \<Rightarrow> dict \<Rightarrow> dict" where
  "record_batch batch extra =
     (let old = (case map_of extra CONDENSER_METADATA_KEY of Some (JList xs) \<Rightarrow> xs | _ \<Rightarrow> [])
      in dict_set extra CONDENSER_METADATA_KEY (JList (old @ (if batch \<noteq> [] then [JObj batch] else []))))"

text \<open>The events that processing changed are those of the history; a view that the condenser passed on
  is the cached view of the state, and its list of events was changed in place.\<close>

definition keep_processed :: "bool \<Rightarrow> event list \<Rightarrow> event list \<Rightarrow> state \<Rightarrow> state" where
  "keep_processed shared before after st =
     (let st = st\<lparr>history := map (\<lambda>e. case map_of (zip before after) e of Some e' \<Rightarrow> e' | None \<Rightarrow> e) (history st)\<rparr>
      in if shared then st\<lparr>cached_view := map_option (\<lambda>v. v\<lparr>v_events := after\<rparr>) (cached_view st)\<rparr> else st)"

definition get_messages ::
    "codeact_env \<Rightarrow> event list \<Rightarrow> event \<Rightarrow> exc + message list \<times> event list" where
  "get_messages env events initial =
     rbind (process_events (ca_memory env) (ca_options env) events initial) (\<lambda>(ms, es).
     rbind (if ca_caching_prompt_active env then apply_prompt_caching ms else Inr ms) (\<lambda>ms. Inr (ms, es)))"

definition take_actions :: "codeact_env \<Rightarrow> codeact \<Rightarrow> model_response \<Rightarrow> (exc + event) \<times> codeact" where
  "take_actions env ag response =
     (case codeact_response_to_actions (ca_calls env) (keys (ca_mcp_tools ag)) response of
        Inl x \<Rightarrow> (Inl x, ag)
      | Inr [] \<Rightarrow> (Inl IndexError, ag)
      | Inr (a # rest) \<Rightarrow> (Inr a, ag\<lparr>ca_pending_actions := rest\<rparr>))"

definition ask_llm ::
    "codeact_env \<Rightarrow> codeact \<Rightarrow> event list \<Rightarrow> state \<Rightarrow> heap \<Rightarrow> (exc + event) \<times> codeact \<times> state \<times> heap" where
  "ask_llm env ag events st h =
     (case rbind (get_initial_user_message (history st)) (\<lambda>initial.
           rbind (get_messages env events initial) (\<lambda>(ms, es). Inr (initial, ms, es))) of
        Inl x \<Rightarrow> (Inl x, ag, st, h)
      | Inr (initial, ms, es) \<Rightarrow>
          let st = keep_processed (ca_shares_view env) (ensured (ca_memory env) initial events) es st in
          (case check_tools (ca_tools ag) (ca_model env) of
             Inl x \<Rightarrow> (Inl x, ag, st, h)
           | Inr tools \<Rightarrow>
               let (response, h) = ca_complete env ms tools
                     (to_llm_metadata (ca_version env) (ca_web_host env) (ca_model env) ''CodeActAgent'' st) h in
               (case response of
                  Inl x \<Rightarrow> (Inl x, ag, st, h)
                | Inr r \<Rightarrow> let (result, ag) = take_actions env ag r in (result, ag, st, h))))"

definition wants_exit :: "event option \<Rightarrow> bool" where
  "wants_exit m \<longleftrightarrow>
     (case Option.bind m message_of of Some r \<Rightarrow> strip (ma_content r) = ''/exit'' | None \<Rightarrow> False)"

definition codeact_step ::
    "codeact_env \<Rightarrow> codeact \<Rightarrow> state \<Rightarrow> heap \<Rightarrow> (exc + event) \<times> codeact \<times> state \<times> heap" where
  "codeact_step env ag st h =
     (case ca_pending_actions ag of
        a # rest \<Rightarrow> (Inr a, ag\<lparr>ca_pending_actions := rest\<rparr>, st, h)
      | [] \<Rightarrow>
          let (latest_user_message, st) = get_last_user_message st in
          (case latest_user_message of
             Inl x \<Rightarrow> (Inl x, ag, st, h)
           | Inr m \<Rightarrow>
               if wants_exit m then (Inr (act_event (AgentFinishAction [] [] [])), ag, st, h)
               else let (v, st) = state_view st in
                 (case v of
                    Inl x \<Rightarrow> (Inl x, ag, st, h)
                  | Inr v \<Rightarrow>
                      let (result, batches) = condense_built (ca_condenser env) v;
                          st = st\<lparr>extra_data := fold record_batch batches (extra_data st)\<rparr> in
                      (case result of
                         Inl x \<Rightarrow> (Inl x, ag, st, h)
                       | Inr (RCondensation a) \<Rightarrow> (Inr (act_event a), ag, st, h)
                       | Inr (RView w) \<Rightarrow> ask_llm env ag (v_events w) st h))))"

end
