(* ===== verification/Conversation_Memory_Correct.thy ===== *)
theory Conversation_Memory_Correct
  imports Conversation_Memory
begin

text \<open>
  What the messages of a history guarantee. \<open>paired\<close> is what the interfaces of the LLMs ask for: a
  message with calls is followed by the results of its calls, in their order, and there are no other
  results. The loop over the events keeps it, so that the final filter has nothing left to do; what
  the filter promises by itself holds of any messages.
\<close>

section \<open>Calls followed by their results\<close>

definition answers_call :: "message \<Rightarrow> fn_call \<Rightarrow> bool" where
  "answers_call m tc \<longleftrightarrow>
     mg_role m = ROLE_TOOL \<and> mg_tool_call_id m = Some (fc_id tc) \<and> mg_tool_calls m = None"

function paired :: "message list \<Rightarrow> bool" where
  "paired [] = True"
| "paired (m # ms) =
     (mg_role m \<noteq> ROLE_TOOL \<and>
      (case mg_tool_calls m of
         None \<Rightarrow> paired ms
       | Some tcs \<Rightarrow>
           list_all2 answers_call (take (length tcs) ms) tcs \<and> paired (drop (length tcs) ms)))"
  by pat_completeness auto
termination
  by (relation "measure length") (auto simp: less_Suc_eq_le)

lemma paired_append: "paired a \<Longrightarrow> paired b \<Longrightarrow> paired (a @ b)"
proof (induction a rule: paired.induct)
  case (2 m ms)
  show ?case
  proof (cases "mg_tool_calls m")
    case None
    with 2 show ?thesis by simp
  next
    case (Some tcs)
    with 2(3) have l: "list_all2 answers_call (take (length tcs) ms) tcs" and d: "paired (drop (length tcs) ms)"
      and r: "mg_role m \<noteq> ROLE_TOOL" by auto
    from l have "length tcs \<le> length ms" by (auto dest!: list_all2_lengthD)
    with 2(2) [OF Some d 2(4)] l r Some show ?thesis by simp
  qed
qed simp

definition calls_ok :: "message \<Rightarrow> bool" where
  "calls_ok m \<longleftrightarrow>
     (case mg_tool_calls m of
        None \<Rightarrow> True
      | Some tcs \<Rightarrow> mg_role m = ROLE_ASSISTANT \<and> list_all (\<lambda>tc. fc_id tc \<noteq> []) tcs)"

lemma call_ids_append [simp]: "call_ids (a @ b) = call_ids a @ call_ids b"
  by (simp add: call_ids_def)

lemma response_ids_append [simp]: "response_ids (a @ b) = response_ids a @ response_ids b"
  by (simp add: response_ids_def)

lemma call_ids_Cons:
  "call_ids (m # ms) =
     (case mg_tool_calls m of
        Some tcs \<Rightarrow> if mg_role m = ROLE_ASSISTANT then filter (\<lambda>i. i \<noteq> []) (map fc_id tcs) else []
      | None \<Rightarrow> []) @ call_ids ms"
  by (simp add: call_ids_def)

lemma response_ids_Cons:
  "response_ids (m # ms) =
     (case mg_tool_call_id m of
        Some i \<Rightarrow> if mg_role m = ROLE_TOOL \<and> i \<noteq> [] then [i] else []
      | None \<Rightarrow> []) @ response_ids ms"
  by (simp add: response_ids_def)

lemma answering_ids:
  "list_all2 answers_call ms tcs \<Longrightarrow> list_all (\<lambda>tc. fc_id tc \<noteq> []) tcs \<Longrightarrow>
   response_ids ms = map fc_id tcs \<and> call_ids ms = []"
  by (induction rule: list_all2_induct)
    (auto simp: answers_call_def response_ids_Cons call_ids_Cons response_ids_def call_ids_def)

text \<open>In paired messages the calls and the results are the same, in the same order.\<close>

lemma paired_ids:
  "paired ms \<Longrightarrow> list_all calls_ok ms \<Longrightarrow> call_ids ms = response_ids ms"
proof (induction ms rule: paired.induct)
  case (2 m ms)
  have r: "mg_role m \<noteq> ROLE_TOOL" using 2(3) by simp
  show ?case
  proof (cases "mg_tool_calls m")
    case None
    with 2 r show ?thesis
      by (simp add: call_ids_Cons response_ids_Cons split: option.split)
  next
    case (Some tcs)
    let ?a = "take (length tcs) ms" and ?b = "drop (length tcs) ms"
    from Some 2(3,4) have l: "list_all2 answers_call ?a tcs" "list_all (\<lambda>tc. fc_id tc \<noteq> []) tcs"
      and p: "paired ?b" and a: "mg_role m = ROLE_ASSISTANT"
      by (auto simp: calls_ok_def)
    have "list_all calls_ok ?b" using 2(4) by (auto simp: list_all_iff dest: in_set_dropD)
    with 2(2) [OF Some p] have ih: "call_ids ?b = response_ids ?b" .
    have "call_ids (m # ?a @ ?b) = filter (\<lambda>i. i \<noteq> []) (map fc_id tcs) @ call_ids ?b"
      using answering_ids [OF l] Some a by (simp add: call_ids_Cons del: append_take_drop_id)
    also have "filter (\<lambda>i. i \<noteq> []) (map fc_id tcs) = map fc_id tcs"
      using l(2) by (auto simp: filter_id_conv list_all_iff)
    also have "map fc_id tcs @ call_ids ?b = response_ids (m # ?a @ ?b)"
      using answering_ids [OF l] ih r by (simp add: response_ids_Cons del: append_take_drop_id split: option.split)
    finally show ?thesis by simp
  qed
qed (simp add: call_ids_def response_ids_def)

text \<open>Every result of paired messages has an id.\<close>

lemma in_call_ids:
  "m \<in> set ms \<Longrightarrow> mg_tool_calls m = Some tcs \<Longrightarrow> calls_ok m \<Longrightarrow> tc \<in> set tcs \<Longrightarrow> fc_id tc \<in> set (call_ids ms)"
  by (force simp: call_ids_def calls_ok_def list_all_iff)

lemma in_response_ids:
  "m \<in> set ms \<Longrightarrow> mg_role m = ROLE_TOOL \<Longrightarrow> mg_tool_call_id m = Some i \<Longrightarrow> i \<noteq> [] \<Longrightarrow> i \<in> set (response_ids ms)"
  by (force simp: response_ids_def)

lemma concat_single: "(\<And>x. x \<in> set xs \<Longrightarrow> f x = [x]) \<Longrightarrow> concat (map f xs) = xs"
  by (induction xs) simp_all

lemma filter_paired:
  assumes "paired ms" and "list_all calls_ok ms"
  shows "filter_unmatched_tool_calls ms = ms"
proof -
  have ids: "call_ids ms = response_ids ms" using paired_ids assms .
  have "filter_message (set (call_ids ms)) (set (response_ids ms)) m = [m]" if m: "m \<in> set ms" for m
  proof -
    have ok: "calls_ok m" using assms(2) m by (simp add: list_all_iff)
    have "the (mg_tool_call_id m) \<in> set (call_ids ms)"
      if "mg_role m = ROLE_TOOL" "truthy (mg_tool_call_id m)"
      using that in_response_ids [OF m, of "the (mg_tool_call_id m)"] ids by (auto simp: truthy_def)
    moreover have "list_all (\<lambda>tc. fc_id tc \<in> set (response_ids ms)) tcs"
      if "mg_tool_calls m = Some tcs" for tcs
      using that in_call_ids [OF m that ok] ids by (simp add: list_all_iff)
    ultimately show ?thesis by (auto simp: filter_message_def Let_def)
  qed
  then show ?thesis unfolding filter_unmatched_tool_calls_def by (rule concat_single)
qed

section \<open>What the filter keeps\<close>

lemma call_ids_concat: "call_ids (concat (map f ms)) = concat (map (\<lambda>m. call_ids (f m)) ms)"
  by (induction ms) (simp_all, simp add: call_ids_def)

lemma response_ids_concat: "response_ids (concat (map f ms)) = concat (map (\<lambda>m. response_ids (f m)) ms)"
  by (induction ms) (simp_all, simp add: response_ids_def)

lemma filter_message_calls: "call_ids (filter_message C R m) = filter (\<lambda>i. i \<in> R) (call_ids [m])"
  by (auto simp: filter_message_def call_ids_def Let_def filter_empty_conv list_all_iff filter_map o_def
      split: option.split intro!: arg_cong [of _ _ "map fc_id"] filter_cong)

lemma filter_message_responses: "response_ids (filter_message C R m) = filter (\<lambda>i. i \<in> C) (response_ids [m])"
  by (auto simp: filter_message_def response_ids_def Let_def truthy_def split: option.split)

lemma filter_concat: "filter p (concat (map f ms)) = concat (map (\<lambda>m. filter p (f m)) ms)"
  by (induction ms) simp_all

lemma filter_calls:
  "call_ids (filter_unmatched_tool_calls ms) = filter (\<lambda>i. i \<in> set (response_ids ms)) (call_ids ms)"
proof -
  have "call_ids ms = concat (map (\<lambda>m. call_ids [m]) ms)" by (simp add: call_ids_def)
  then show ?thesis
    by (simp add: filter_unmatched_tool_calls_def call_ids_concat filter_message_calls flip: filter_concat)
qed

lemma filter_responses:
  "response_ids (filter_unmatched_tool_calls ms) = filter (\<lambda>i. i \<in> set (call_ids ms)) (response_ids ms)"
proof -
  have "response_ids ms = concat (map (\<lambda>m. response_ids [m]) ms)" by (simp add: response_ids_def)
  then show ?thesis
    by (simp add: filter_unmatched_tool_calls_def response_ids_concat filter_message_responses flip: filter_concat)
qed

section \<open>What is pending\<close>

text \<open>The responses the code relies on: of the role \<open>assistant\<close>, and with calls that have an id.\<close>

definition responses_ok :: "memory_env \<Rightarrow> bool" where
  "responses_ok env \<longleftrightarrow> (\<forall>d r. me_response env d = Inr r \<longrightarrow>
     rv_role r = ''assistant'' \<and>
     (\<forall>tcs. rv_tool_calls r = Some tcs \<longrightarrow> list_all (\<lambda>tc. fc_id tc \<noteq> []) tcs))"

definition pending_ok :: "id_messages \<Rightarrow> bool" where
  "pending_ok p \<longleftrightarrow> (\<forall>(i, m) \<in> set p. mg_role m = ROLE_ASSISTANT \<and> calls_ok m)"

definition results_ok :: "id_messages \<Rightarrow> bool" where
  "results_ok r \<longleftrightarrow> (\<forall>(i, m) \<in> set r.
     mg_role m = ROLE_TOOL \<and> mg_tool_call_id m = Some i \<and> mg_tool_calls m = None)"

lemma pending_okI: "pending_ok p \<Longrightarrow> mg_role m = ROLE_ASSISTANT \<Longrightarrow> calls_ok m \<Longrightarrow> pending_ok (dict_set p i m)"
  by (auto simp: pending_ok_def dest: dict_set_values)

lemma results_okI:
  assumes "results_ok r"
  shows "results_ok (dict_set r (tc_tool_call_id m) (tool_message m c))"
  unfolding results_ok_def
proof (clarsimp, goal_cases)
  case (1 i x)
  then have "(i, x) \<in> set r \<or> i = tc_tool_call_id m \<and> x = tool_message m c"
    by (induction r) (auto split: if_splits)
  with assms show ?case by (auto simp: results_ok_def tool_message_def new_message_def)
qed

lemma take_results_ok:
  "take_results tcs r = Inr (ms, r') \<Longrightarrow> results_ok r \<Longrightarrow> list_all2 answers_call ms tcs \<and> results_ok r'"
proof (induction tcs arbitrary: r ms)
  case (Cons tc tcs)
  then obtain m ms' where m: "map_of r (fc_id tc) = Some m" "ms = m # ms'"
    and t: "take_results tcs (dict_del (fc_id tc) r) = Inr (ms', r')"
    by (auto simp: rbind_Inr_iff split: option.splits)
  have "results_ok (dict_del (fc_id tc) r)" using Cons.prems(2) by (auto simp: results_ok_def AList.delete_eq)
  with Cons.IH [OF t] m Cons.prems(2) show ?case
    by (auto simp: results_ok_def answers_call_def dest!: map_of_SomeD)
qed simp

lemma complete_pending_ok:
  "complete_pending p r = Inr (out, p', r') \<Longrightarrow> pending_ok p \<Longrightarrow> results_ok r \<Longrightarrow>
   paired out \<and> list_all calls_ok out \<and> pending_ok p' \<and> results_ok r'"
proof (induction p arbitrary: r out p')
  case (Cons x p)
  obtain i m where x: "x = (i, m)" by fastforce
  from Cons.prems(2) x have m: "mg_role m = ROLE_ASSISTANT" "calls_ok m" and p: "pending_ok p"
    by (auto simp: pending_ok_def)
  from Cons.prems(1) x obtain tcs where tcs: "mg_tool_calls m = Some tcs" by (auto split: option.splits)
  show ?case
  proof (cases "list_all (\<lambda>tc. map_of r (fc_id tc) \<noteq> None) tcs")
    case True
    with Cons.prems(1) x tcs obtain ms r1 out1 where t: "take_results tcs r = Inr (ms, r1)"
      and c: "complete_pending p r1 = Inr (out1, p', r')" and o: "out = m # ms @ out1"
      by (auto simp: rbind_Inr_iff)
    note ms = take_results_ok [OF t Cons.prems(3)]
    with Cons.IH [OF c p] have ih: "paired out1" "list_all calls_ok out1" "pending_ok p'" "results_ok r'" by auto
    have "length ms = length tcs" using ms by (auto dest: list_all2_lengthD)
    then have "paired out" using ms m(1) ih(1) tcs o by simp
    moreover have "list_all calls_ok ms"
      using ms by (auto simp: list_all_length list_all2_conv_all_nth answers_call_def calls_ok_def)
    ultimately show ?thesis using ih m o by simp
  next
    case False
    with Cons.prems(1) x tcs obtain p1 where c: "complete_pending p r = Inr (out, p1, r')"
      and o: "p' = (i, m) # p1"
      by (auto simp: rbind_Inr_iff)
    from Cons.IH [OF c p Cons.prems(3)] o m show ?thesis by (auto simp: pending_ok_def)
  qed
qed simp

text \<open>The messages of a single event are no calls and no results.\<close>

definition plain :: "message \<Rightarrow> bool" where
  "plain m \<longleftrightarrow> mg_role m \<noteq> ROLE_TOOL \<and> mg_tool_calls m = None"

lemma plain_paired: "list_all plain ms \<Longrightarrow> paired ms \<and> list_all calls_ok ms"
  by (induction ms) (auto simp: plain_def calls_ok_def)

lemma plain_new: "r \<noteq> ROLE_TOOL \<Longrightarrow> plain (new_message r c)"
  by (simp add: plain_def new_message_def)

lemma role_by_source_plain [simp]: "role_by_source e \<noteq> ROLE_TOOL"
  by (simp add: role_by_source_def)

lemma calling_message_ok:
  assumes "responses_ok env" and "me_response env d = Inr r" and "calling_message r = Inr m"
  shows "mg_role m = ROLE_ASSISTANT \<and> calls_ok m"
proof -
  have r: "role_of (rv_role r) = Inr ROLE_ASSISTANT"
    using assms(1,2) by (simp add: responses_ok_def role_of_def)
  then show ?thesis
    using assms by (auto simp: calling_message_def Let_def new_message_def calls_ok_def responses_ok_def
        split: option.splits)
qed

lemma process_tool_action_ok:
  assumes "responses_ok env" and "process_tool_action env e p = Inr (ms, p')" and "pending_ok p"
  shows "list_all plain ms \<and> pending_ok p'"
proof (cases "ev_tool_call_metadata e")
  case None
  with assms show ?thesis by (auto simp: process_tool_action_def user_text_def plain_new split: if_splits)
next
  case (Some m)
  with assms(2) obtain r msg where "me_response env (tc_model_response m) = Inr r"
    "calling_message r = Inr msg" "ms = []" "p' = dict_set p (rv_id r) msg"
    by (auto simp: process_tool_action_def rbind_Inr_iff)
  with calling_message_ok [OF assms(1)] assms(3) show ?thesis by (auto intro: pending_okI)
qed

lemma process_finish_plain: "process_finish env e f os t = Inr (ms, e') \<Longrightarrow> list_all plain ms"
  by (auto simp: process_finish_def rbind_Inr_iff plain_new)

lemma process_message_plain: "plain (process_message_action vo e r)"
  by (simp add: process_message_action_def Let_def plain_new)

lemma process_other_action:
  assumes "process_action env vo e a p = Inr (ms, p', e')" "\<not> is_tool_action (ev_source e) a"
    "\<not> (\<exists>f os t. a = AgentFinishAction f os t)"
  shows "list_all plain ms \<and> p' = p"
  using assms
  by (cases a; simp add: process_action_def process_message_plain plain_new user_text_def split: if_split_asm)
    (auto simp: plain_new process_message_plain)

lemma process_action_ok:
  assumes "responses_ok env" and "process_action env vo e a p = Inr (ms, p', e')" and "pending_ok p"
  shows "list_all plain ms \<and> pending_ok p'"
proof (cases "is_tool_action (ev_source e) a")
  case True
  with assms(2) have "process_tool_action env e p = Inr (ms, p')"
    by (auto simp: process_action_def rbind_Inr_iff)
  with assms show ?thesis using process_tool_action_ok by blast
next
  case False
  have "list_all plain ms \<and> p' = p"
  proof (cases "\<exists>f os t. a = AgentFinishAction f os t")
    case True
    then obtain f os t where a: "a = AgentFinishAction f os t" by blast
    with assms(2) have "rbind (process_finish env e f os t) (\<lambda>(ms, e'). Inr (ms, p, e')) = Inr (ms, p', e')"
      by (simp add: process_action_def)
    then have "process_finish env e f os t = Inr (ms, e')" and "p' = p"
      by (auto simp: rbind_Inr_iff)
    then show ?thesis using process_finish_plain by blast
  next
    case no_finish: False
    from assms(2) False no_finish show ?thesis by (rule process_other_action)
  qed
  with assms(3) show ?thesis by simp
qed

lemma process_observation_ok:
  assumes "process_observation env vo e ob r i events = Inr (ms, r')" and "results_ok r"
  shows "list_all plain ms \<and> results_ok r'"
proof -
  obtain c where c: "observation_content env vo e ob i events = Inr c"
    using assms(1) by (auto simp: process_observation_def rbind_Inr_iff)
  show ?thesis
  proof (cases c)
    case None
    with assms c show ?thesis by (simp add: process_observation_def)
  next
    case (Some x)
    obtain content answers where x: "x = (content, answers)" by fastforce
    show ?thesis
    proof (cases "ev_tool_call_metadata e")
      case None
      with assms c Some x show ?thesis by (auto simp: process_observation_def plain_new)
    next
      case (Some m)
      with assms c \<open>c = Some x\<close> x show ?thesis
        by (cases answers) (auto simp: process_observation_def plain_new intro: results_okI)
    qed
  qed
qed

lemma process_event_ok:
  assumes "responses_ok env" and "process_event env vo events i e (p, r) = Inr (ms, e', p', r')"
    and "pending_ok p" and "results_ok r"
  shows "paired ms \<and> list_all calls_ok ms \<and> pending_ok p' \<and> results_ok r'"
proof -
  obtain own p1 r1 out where own: "list_all plain own" "pending_ok p1" "results_ok r1"
    and c: "complete_pending p1 r1 = Inr (out, p', r')" "ms = own @ out"
  proof (cases "ev_body e")
    case (Action a)
    with assms(2) obtain own p1 out where "process_action env vo e a p = Inr (own, p1, e')"
      "complete_pending p1 r = Inr (out, p', r')" "ms = own @ out"
      by (auto simp: process_event_def rbind_Inr_iff)
    with process_action_ok [OF assms(1)] assms(3,4) that show thesis by blast
  next
    case (Observation ob)
    with assms(2) obtain own r1 out where "process_observation env vo e ob r i events = Inr (own, r1)"
      "complete_pending p r1 = Inr (out, p', r')" "ms = own @ out"
      by (auto simp: process_event_def rbind_Inr_iff)
    with process_observation_ok assms(3,4) that show thesis by blast
  qed
  with complete_pending_ok plain_paired show ?thesis by (simp add: paired_append)
qed

lemma process_loop_ok:
  "process_loop env vo events i es (p, r) = Inr (ms, es') \<Longrightarrow> responses_ok env \<Longrightarrow> pending_ok p \<Longrightarrow> results_ok r \<Longrightarrow>
   paired ms \<and> list_all calls_ok ms"
proof (induction es arbitrary: i p r ms es')
  case (Cons e es)
  then obtain ms1 e1 p1 r1 rest es1 where e: "process_event env vo events i e (p, r) = Inr (ms1, e1, p1, r1)"
    and l: "process_loop env vo events (i + 1) es (p1, r1) = Inr (rest, es1)" and ms: "ms = ms1 @ rest"
    by (auto simp: rbind_Inr_iff)
  note ok = process_event_ok [OF Cons.prems(2) e Cons.prems(3,4)]
  with Cons.IH [OF l Cons.prems(2)] ms show ?case by (simp add: paired_append)
qed simp

lemma loop_starts_ok: "pending_ok []" "results_ok []"
  by (simp_all add: pending_ok_def results_ok_def)

text \<open>So the filter changes nothing in the messages of a history.\<close>

lemma process_events_unfiltered:
  assumes "responses_ok env"
  shows "process_events env vo h initial =
    rbind (process_loop env vo (ensured env initial h) 0 (ensured env initial h) ([], []))
      (\<lambda>(ms, es). Inr (apply_user_message_formatting ms, es))"
proof (cases "process_loop env vo (ensured env initial h) 0 (ensured env initial h) ([], [])")
  case (Inr x)
  obtain ms es where x: "x = (ms, es)" by fastforce
  with Inr have "process_loop env vo (ensured env initial h) 0 (ensured env initial h) ([], []) = Inr (ms, es)"
    by simp
  from process_loop_ok [OF this assms loop_starts_ok] have "filter_unmatched_tool_calls ms = ms"
    by (simp add: filter_paired)
  with Inr x show ?thesis by (simp add: process_events_def Let_def)
qed (simp add: process_events_def)

section \<open>Truncation\<close>

text \<open>A limit of two characters or more bounds the text, up to the note; a limit of none or one character
  keeps all of it.\<close>

lemma truncate_bound:
  assumes "2 \<le> m"
  shows "length (truncate_content c (Some m)) \<le> nat m + length truncation_note"
proof (cases "int (length c) \<le> m")
  case True
  with assms show ?thesis by (simp add: truncate_content_def)
next
  case False
  have "length (slice_to (m div 2) c) \<le> nat (m div 2)"
    using assms by (simp add: py_slice)
  moreover have "length (slice_from (- (m div 2)) c) \<le> nat (m div 2)"
    using assms by (simp add: py_slice)
  moreover have "2 * nat (m div 2) \<le> nat m" using assms by linarith
  ultimately show ?thesis
    using False assms by (simp add: truncate_content_def truncation_note_def Let_def)
qed

lemma truncate_to_nothing_keeps_all:
  "m \<in> {0, 1} \<Longrightarrow> m < int (length c) \<Longrightarrow> truncate_content c (Some m) = truncation_note @ c"
  by (auto simp: truncate_content_def truncation_note_def py_slice)

end
