(* ===== verification/Conversation_Memory_Properties.thy ===== *)
theory Conversation_Memory_Properties
  imports Conversation_Memory_Correct Fn_Call_Properties
begin

text \<open>
  The properties of the messages of a history: calls and results pair up, the results of a turn come
  in the order of the calls, the conversation starts with the system and the user, and a history
  that was processed gives the same messages again.
\<close>

section \<open>Formatting\<close>

definition shape :: "message \<Rightarrow> message_role \<times> fn_call list option \<times> string option" where
  "shape m = (mg_role m, mg_tool_calls m, mg_tool_call_id m)"

lemma shape_format: "map shape (format_user_messages prev ms) = map shape ms"
  by (induction prev ms rule: format_user_messages.induct) (simp_all add: shape_def)

lemma answers_shape:
  "list_all2 answers_call ms tcs =
   list_all2 (\<lambda>(r, c, i) tc. r = ROLE_TOOL \<and> i = Some (fc_id tc) \<and> c = None) (map shape ms) tcs"
  by (simp add: list_all2_map1 answers_call_def [abs_def] shape_def)

lemma paired_shape: "map shape a = map shape b \<Longrightarrow> paired a = paired b"
proof (induction a arbitrary: b rule: paired.induct)
  case (2 m ms)
  then obtain m' ms' where b: "b = m' # ms'" and m: "shape m = shape m'" and ms: "map shape ms = map shape ms'"
    by (cases b) auto
  show ?case
  proof (cases "mg_tool_calls m")
    case None
    with 2(1) [OF None ms] b m show ?thesis by (simp add: shape_def)
  next
    case (Some tcs)
    have "map shape (drop (length tcs) ms) = map shape (drop (length tcs) ms')"
      using ms by (simp flip: drop_map)
    then have "paired (drop (length tcs) ms) = paired (drop (length tcs) ms')" using 2(2) Some by blast
    moreover have "map shape (take (length tcs) ms) = map shape (take (length tcs) ms')"
      using ms by (simp flip: take_map)
    then have "list_all2 answers_call (take (length tcs) ms) tcs = list_all2 answers_call (take (length tcs) ms') tcs"
      by (simp only: answers_shape)
    moreover have "mg_tool_calls m' = Some tcs" "mg_role m' = mg_role m" using Some m by (simp_all add: shape_def)
    ultimately show ?thesis using Some b by simp
  qed
qed simp

declare is_system_message.simps [simp del]

section \<open>A history that was processed\<close>

text \<open>Processing changes finish actions only.\<close>

definition same_event :: "event \<Rightarrow> event \<Rightarrow> bool" where
  "same_event e' e \<longleftrightarrow> e' = e \<or>
     (\<exists>f os t t'. ev_body e = Action (AgentFinishAction f os t) \<and>
        ev_body e' = Action (AgentFinishAction f os t') \<and> ev_source e' = ev_source e)"

lemma same_event_kinds:
  assumes "same_event e' e"
  shows "is_system_message e' = is_system_message e" "is_user_message e' = is_user_message e"
  using assms by (auto simp: same_event_def is_system_message.simps is_user_message_def)

lemma has_agent_same:
  "list_all2 same_event es evs \<Longrightarrow> has_agent_in_earlier_events n i es = has_agent_in_earlier_events n i evs"
proof (induction arbitrary: i rule: list_all2_induct)
  case (Cons e' es e evs)
  have "(case ev_body e' of
         Observation (RecallObservation r) \<Rightarrow> list_ex (\<lambda>k. mk_name k = n) (ro_microagent_knowledge r)
       | _ \<Rightarrow> False) = (case ev_body e of
         Observation (RecallObservation r) \<Rightarrow> list_ex (\<lambda>k. mk_name k = n) (ro_microagent_knowledge r)
       | _ \<Rightarrow> False)"
    using Cons(1) by (auto simp: same_event_def)
  with Cons(3) show ?case by (cases i) (simp_all add: has_agent_in_earlier_events_def)
qed (simp add: has_agent_in_earlier_events_def)

lemma process_observation_same:
  assumes "list_all2 same_event es evs"
  shows "process_observation env vo e ob r i es = process_observation env vo e ob r i evs"
proof -
  have "filter_agents_in_microagent_obs q i es = filter_agents_in_microagent_obs q i evs" for q
    by (simp add: filter_agents_in_microagent_obs_def has_agent_same [OF assms])
  then have "recall_content env q i es = recall_content env q i evs" for q
    by (cases "ro_recall_type q") (simp_all add: recall_content_def)
  then have "observation_content env vo e ob i es = observation_content env vo e ob i evs"
    by (cases ob) (simp_all add: observation_content_def)
  then show ?thesis by (simp add: process_observation_def)
qed

lemma process_finish_again:
  assumes "process_finish env e f os t = Inr (ms, e')" and "ev_body e = Action (AgentFinishAction f os t)"
  shows "\<exists>t'. ev_body e' = Action (AgentFinishAction f os t') \<and> ev_source e' = ev_source e \<and>
    process_finish env e' f os t' = Inr (ms, e')"
proof (cases "ev_tool_call_metadata e")
  case None
  with assms show ?thesis by (auto simp: process_finish_def)
next
  case (Some m)
  with assms(1) obtain t' where "e' = e\<lparr>ev_body := Action (AgentFinishAction f os t'), ev_tool_call_metadata := None\<rparr>"
    "ms = [new_message (role_by_source e) [TextContent t' False]]"
    by (auto simp: process_finish_def rbind_Inr_iff Let_def)
  then show ?thesis by (simp add: process_finish_def role_by_source_def)
qed

lemma process_action_unchanged:
  "process_action env vo e a p = Inr (ms, p', e') \<Longrightarrow> \<not> (\<exists>f os t. a = AgentFinishAction f os t) \<Longrightarrow> e' = e"
  by (cases a; simp add: process_action_def rbind_Inr_iff split: if_split_asm prod.splits)

lemma process_action_again:
  assumes "process_action env vo e a p = Inr (ms, p', e')" and "ev_body e = Action a"
  shows "same_event e' e \<and> (\<exists>a'. ev_body e' = Action a' \<and> process_action env vo e' a' p = Inr (ms, p', e'))"
proof (cases "\<exists>f os t. a = AgentFinishAction f os t")
  case True
  then obtain f os t where a: "a = AgentFinishAction f os t" by blast
  with assms(1) have "process_finish env e f os t = Inr (ms, e')" and p: "p' = p"
    by (auto simp: process_action_def rbind_Inr_iff)
  from process_finish_again [OF this(1)] assms(2) a obtain t' where
    "ev_body e' = Action (AgentFinishAction f os t')" "ev_source e' = ev_source e"
    "process_finish env e' f os t' = Inr (ms, e')" by blast
  with a assms(2) p show ?thesis by (auto simp: same_event_def process_action_def)
next
  case False
  with process_action_unchanged assms have "e' = e" by blast
  with assms show ?thesis by (auto simp: same_event_def)
qed

lemma process_event_again:
  assumes "process_event env vo evs i e st = Inr (ms, e', st')" and "list_all2 same_event es evs"
  shows "process_event env vo es i e' st = Inr (ms, e', st')" "same_event e' e"
proof -
  obtain p r where st: "st = (p, r)" by fastforce
  have "process_event env vo es i e' st = Inr (ms, e', st') \<and> same_event e' e"
  proof (cases "ev_body e")
    case (Action a)
    with assms(1) st obtain own p1 where a: "process_action env vo e a p = Inr (own, p1, e')"
      and c: "rbind (complete_pending p1 r) (\<lambda>(out, p, r). Inr (own @ out, e', p, r)) = Inr (ms, e', st')"
      by (auto simp: process_event_def rbind_Inr_iff)
    from process_action_again [OF a Action] obtain a' where "same_event e' e" "ev_body e' = Action a'"
      "process_action env vo e' a' p = Inr (own, p1, e')" by blast
    with c st show ?thesis by (simp add: process_event_def)
  next
    case (Observation ob)
    with assms(1) st have "e' = e" by (auto simp: process_event_def rbind_Inr_iff)
    moreover have "process_event env vo es i e st = process_event env vo evs i e st"
      using st Observation by (simp add: process_event_def process_observation_same [OF assms(2)])
    ultimately show ?thesis using assms(1) by (simp add: same_event_def)
  qed
  then show "process_event env vo es i e' st = Inr (ms, e', st')" "same_event e' e" by auto
qed

lemma process_loop_same: "process_loop env vo evs i l st = Inr (ms, l') \<Longrightarrow> list_all2 same_event l' l"
proof (induction l arbitrary: i st ms l')
  case (Cons e l)
  then obtain m1 e1 st1 m2 l2 where "process_event env vo evs i e st = Inr (m1, e1, st1)"
    "process_loop env vo evs (i + 1) l st1 = Inr (m2, l2)" "l' = e1 # l2"
    by (auto simp: rbind_Inr_iff)
  moreover from this(1) have "same_event e1 e"
    by (rule process_event_again(2) [of env vo evs i e st m1 e1 st1 evs])
      (simp add: list_all2_refl same_event_def)
  ultimately show ?case using Cons.IH by auto
qed simp

lemma process_loop_again:
  "process_loop env vo evs i l st = Inr (ms, l') \<Longrightarrow> list_all2 same_event es evs \<Longrightarrow>
   process_loop env vo es i l' st = Inr (ms, l')"
proof (induction l arbitrary: i st ms l')
  case (Cons e l)
  then obtain m1 e1 st1 m2 l2 where e: "process_event env vo evs i e st = Inr (m1, e1, st1)"
    "process_loop env vo evs (i + 1) l st1 = Inr (m2, l2)" "l' = e1 # l2" "ms = m1 @ m2"
    by (auto simp: rbind_Inr_iff)
  with process_event_again(1) [OF e(1) Cons.prems(2)] Cons.IH [OF e(2) Cons.prems(2)] show ?case by simp
qed simp

text \<open>A history that starts as it should.\<close>

fun user_second :: "event list \<Rightarrow> bool" where
  "user_second [] = True"
| "user_second [e] = False"
| "user_second (e # f # es) = is_user_message f"

definition settled :: "memory_env \<Rightarrow> event list \<Rightarrow> bool" where
  "settled env es \<longleftrightarrow> (list_ex is_system_message es \<or> me_system_message env = []) \<and> user_second es"

lemma ensured_settled: "settled env es \<Longrightarrow> ensured env initial es = es"
  by (cases es rule: user_second.cases) (auto simp: settled_def ensured_def ensure_system_message_def)

lemma settled_ensured:
  assumes "is_user_message initial"
  shows "settled env (ensured env initial h)"
proof -
  have "list_ex is_system_message (ensure_system_message env h) \<or> me_system_message env = []"
    by (auto simp: ensure_system_message_def system_event_def is_system_message.simps new_event_def)
  moreover have "user_second (ensure_initial_user_message initial x)" for x
    using assms by (cases x rule: user_second.cases) auto
  moreover have "list_ex is_system_message x \<Longrightarrow> list_ex is_system_message (ensure_initial_user_message initial x)" for x
    by (cases x rule: user_second.cases) auto
  ultimately show ?thesis by (auto simp: settled_def ensured_def)
qed

lemma settled_same:
  assumes "list_all2 same_event es evs" and "settled env evs"
  shows "settled env es"
proof -
  have "list_ex is_system_message es = list_ex is_system_message evs"
    using assms(1) by (induction rule: list_all2_induct) (simp_all add: same_event_kinds)
  moreover have "user_second es"
    using assms by (cases es rule: user_second.cases)
      (auto simp: settled_def list_all2_Cons1 same_event_kinds)
  ultimately show ?thesis using assms(2) by (simp add: settled_def)
qed

section \<open>A turn\<close>

text \<open>An action that makes a call of the response \<open>r\<close>, and what an observation answers to a call.\<close>

definition calls_in :: "memory_env \<Rightarrow> response_view \<Rightarrow> event \<Rightarrow> bool" where
  "calls_in env r e \<longleftrightarrow>
     (case ev_body e of
        Action a \<Rightarrow> is_tool_action (ev_source e) a \<and>
          (case ev_tool_call_metadata e of
             Some m \<Rightarrow> me_response env (tc_model_response m) = Inr r
           | None \<Rightarrow> False)
      | Observation ob \<Rightarrow> False)"

definition result_of ::
    "memory_env \<Rightarrow> view_options \<Rightarrow> event list \<Rightarrow> nat \<Rightarrow> event \<Rightarrow> (string \<times> message) option" where
  "result_of env vo events i e =
     (case ev_body e of
        Action a \<Rightarrow> None
      | Observation ob \<Rightarrow>
          (case (ev_tool_call_metadata e, observation_content env vo e ob i events) of
             (Some m, Inr (Some (c, True))) \<Rightarrow> Some (tc_tool_call_id m, tool_message m c)
           | _ \<Rightarrow> None))"

fun results_of ::
    "memory_env \<Rightarrow> view_options \<Rightarrow> event list \<Rightarrow> nat \<Rightarrow> event list \<Rightarrow> (string \<times> message) list option" where
  "results_of env vo events i [] = Some []"
| "results_of env vo events i (e # es) =
     (case result_of env vo events i e of
        None \<Rightarrow> None
      | Some x \<Rightarrow> map_option ((#) x) (results_of env vo events (i + 1) es))"

lemma take_results_all:
  "distinct (map fc_id tcs) \<Longrightarrow> fc_id ` set tcs \<subseteq> fst ` set rs \<Longrightarrow>
   \<exists>rest. take_results tcs rs = Inr (map (\<lambda>tc. the (map_of rs (fc_id tc))) tcs, rest) \<and>
     fst ` set rest = fst ` set rs - fc_id ` set tcs"
proof (induction tcs arbitrary: rs)
  case (Cons tc tcs)
  obtain m where m: "map_of rs (fc_id tc) = Some m"
    using Cons.prems(2) by (auto simp: image_iff) (metis weak_map_of_SomeI)
  let ?d = "dict_del (fc_id tc) rs"
  have d: "fst ` set ?d = fst ` set rs - {fc_id tc}" by (auto simp: AList.delete_eq image_iff)
  have "map_of ?d (fc_id x) = map_of rs (fc_id x)" if "x \<in> set tcs" for x
    using Cons.prems(1) that by (auto simp: image_iff)
  then have vs: "map (\<lambda>x. the (map_of ?d (fc_id x))) tcs = map (\<lambda>x. the (map_of rs (fc_id x))) tcs"
    by (intro map_cong) (simp_all only:)
  have "fc_id ` set tcs \<subseteq> fst ` set ?d"
  proof
    fix k assume "k \<in> fc_id ` set tcs"
    moreover have "fc_id tc \<notin> fc_id ` set tcs" using Cons.prems(1) by simp
    moreover have "fc_id ` set tcs \<subseteq> fst ` set rs" using Cons.prems(2) by simp
    ultimately show "k \<in> fst ` set ?d" unfolding d by blast
  qed
  with Cons.IH [of ?d] Cons.prems(1) obtain rest where
    "take_results tcs ?d = Inr (map (\<lambda>x. the (map_of ?d (fc_id x))) tcs, rest)"
    "fst ` set rest = fst ` set ?d - fc_id ` set tcs"
    by auto
  moreover have "fst ` set ?d - fc_id ` set tcs = fst ` set rs - fc_id ` set (tc # tcs)"
    unfolding d by auto
  ultimately have "take_results (tc # tcs) rs = Inr (map (\<lambda>x. the (map_of rs (fc_id x))) (tc # tcs), rest)"
    "fst ` set rest = fst ` set rs - fc_id ` set (tc # tcs)"
    using m vs by simp_all
  then show ?case by blast
qed simp

lemma calling_event:
  assumes "calls_in env r e" and "calling_message r = Inr msg" and "mg_tool_calls msg = Some tcs" and "tcs \<noteq> []"
    and "pending = [] \<or> pending = [(rv_id r, msg)]"
  shows "process_event env vo events i e (pending, []) = Inr ([], e, [(rv_id r, msg)], [])"
proof -
  obtain a m where e: "ev_body e = Action a" "is_tool_action (ev_source e) a" "ev_tool_call_metadata e = Some m"
    "me_response env (tc_model_response m) = Inr r"
    using assms(1) by (auto simp: calls_in_def split: body.splits option.splits)
  have "dict_set pending (rv_id r) msg = [(rv_id r, msg)]" using assms(5) by auto
  with e assms(2,3,4) show ?thesis
    by (cases tcs) (simp_all add: process_event_def process_action_def process_tool_action_def)
qed

lemma calling_events:
  "list_all (calls_in env r) acts \<Longrightarrow> calling_message r = Inr msg \<Longrightarrow> mg_tool_calls msg = Some tcs \<Longrightarrow> tcs \<noteq> [] \<Longrightarrow>
   pending = [(rv_id r, msg)] \<Longrightarrow>
   process_loop env vo events i (acts @ es) (pending, []) =
     rbind (process_loop env vo events (i + length acts) es (pending, [])) (\<lambda>(ms, es'). Inr (ms, acts @ es'))"
proof (induction acts arbitrary: i)
  case Nil
  then show ?case by (cases "process_loop env vo events i es (pending, [])") (auto simp: rbind_def)
next
  case (Cons a acts)
  have "process_event env vo events i a (pending, []) = Inr ([], a, pending, [])"
    using calling_event [of env r a msg tcs pending] Cons.prems by simp
  with Cons show ?case
    by (cases "process_loop env vo events (Suc (i + length acts)) es (pending, [])") (auto simp: rbind_def)
qed

lemma result_event:
  assumes "result_of env vo events i e = Some (k, m)" and "k \<notin> fst ` set rs"
  shows "process_event env vo events i e (pending, rs) =
    rbind (complete_pending pending (rs @ [(k, m)])) (\<lambda>(out, p, r). Inr (out, e, p, r))"
proof -
  obtain ob tm c where e: "ev_body e = Observation ob" "ev_tool_call_metadata e = Some tm"
    "observation_content env vo e ob i events = Inr (Some (c, True))" "k = tc_tool_call_id tm" "m = tool_message tm c"
    using assms(1) by (auto simp: result_of_def split: body.splits option.splits sum.splits prod.splits bool.splits)
  with assms(2) have "dict_set rs (tc_tool_call_id tm) (tool_message tm c) = rs @ [(k, m)]"
    by (simp add: dict_set_fresh)
  with e show ?thesis by (simp add: process_event_def process_observation_def)
qed

lemma complete_one:
  assumes "mg_tool_calls msg = Some tcs"
  shows "complete_pending [(k, msg)] rs =
    (if list_all (\<lambda>tc. map_of rs (fc_id tc) \<noteq> None) tcs
     then rbind (take_results tcs rs) (\<lambda>(ms, r). Inr (msg # ms, [], r))
     else Inr ([], [(k, msg)], rs))"
proof (cases "list_all (\<lambda>tc. map_of rs (fc_id tc) \<noteq> None) tcs")
  case True
  with assms show ?thesis by (cases "take_results tcs rs") auto
qed (use assms in simp)

text \<open>The observations of the turn: the last of them completes the calls.\<close>

lemma result_events:
  assumes "mg_tool_calls msg = Some tcs" and "distinct (map fc_id tcs)"
  shows "results_of env vo events i obs = Some rs \<Longrightarrow> obs \<noteq> [] \<Longrightarrow> distinct (map fst (got @ rs)) \<Longrightarrow>
     fst ` set (got @ rs) = fc_id ` set tcs \<Longrightarrow>
     process_loop env vo events i (obs @ es) ([(k, msg)], got) =
       rbind (process_loop env vo events (i + length obs) es ([], [])) (\<lambda>(ms, es').
       Inr (msg # map (\<lambda>tc. the (map_of (got @ rs) (fc_id tc))) tcs @ ms, obs @ es'))"
proof (induction obs arbitrary: i rs got)
  case (Cons e obs)
  from Cons.prems(1) obtain k' m rs' where e: "result_of env vo events i e = Some (k', m)"
    and o: "results_of env vo events (i + 1) obs = Some rs'" and rs: "rs = (k', m) # rs'"
    by (auto split: option.splits)
  let ?d = "got @ [(k', m)]"
  have "k' \<notin> fst ` set got" using Cons.prems(3) rs by auto
  note step = result_event [OF e this, of "[(k, msg)]"]
  show ?case
  proof (cases "obs = []")
    case True
    with o have rs': "rs' = []" by simp
    then have all: "fst ` set ?d = fc_id ` set tcs" using Cons.prems(4) rs by simp
    then obtain rest where t: "take_results tcs ?d = Inr (map (\<lambda>tc. the (map_of ?d (fc_id tc))) tcs, rest)"
      "fst ` set rest = {}"
      using take_results_all [OF assms(2), of ?d] by auto
    have "list_all (\<lambda>tc. map_of ?d (fc_id tc) \<noteq> None) tcs"
      using all by (auto simp: list_all_iff map_of_eq_None_iff simp del: map_of_append)
    with t assms(1) have "complete_pending [(k, msg)] ?d =
        Inr (msg # map (\<lambda>tc. the (map_of ?d (fc_id tc))) tcs, [], [])"
      by (simp add: complete_one)
    with step True rs rs' show ?thesis by simp
  next
    case False
    with o have "rs' \<noteq> []" by (cases obs) (auto split: option.splits)
    then obtain k2 m2 where k2: "(k2, m2) \<in> set rs'" by (cases rs') auto
    then have k2': "k2 \<in> fst ` set rs'" by force
    then have "k2 \<notin> fst ` set ?d" using Cons.prems(3) rs by auto
    moreover have "k2 \<in> fst ` set (got @ rs)" using k2' rs by auto
    then have "k2 \<in> fc_id ` set tcs" using Cons.prems(4) by simp
    then obtain tc where tc: "tc \<in> set tcs" "fc_id tc = k2" by auto
    moreover have "map_of ?d k2 = None"
      using \<open>k2 \<notin> fst ` set ?d\<close> by (simp only: map_of_eq_None_iff not_False_eq_True)
    ultimately have "\<not> list_all (\<lambda>tc. map_of ?d (fc_id tc) \<noteq> None) tcs"
      unfolding list_all_iff by blast
    then have "complete_pending [(k, msg)] ?d = Inr ([], [(k, msg)], ?d)"
      using assms(1) by (simp add: complete_one)
    then have one: "process_event env vo events i e ([(k, msg)], got) = Inr ([], e, [(k, msg)], ?d)"
      using step by simp
    have "process_loop env vo events (i + 1) (obs @ es) ([(k, msg)], ?d) =
       rbind (process_loop env vo events (i + 1 + length obs) es ([], [])) (\<lambda>(ms, es').
       Inr (msg # map (\<lambda>tc. the (map_of (?d @ rs') (fc_id tc))) tcs @ ms, obs @ es'))"
      by (rule Cons.IH [OF o False]) (use Cons.prems(3,4) rs in auto)
    then show ?thesis using one rs
      by (cases "process_loop env vo events (i + 1 + length obs) es ([], [])") auto
  qed
qed simp

section \<open>The properties\<close>

text \<open>
  The final filter leaves the calls that have a result and the results that have a call, in their
  order, whatever the messages are: afterwards the ids of the calls and of the results are the same.
\<close>

theorem filtered_calls_match:
  "call_ids (filter_unmatched_tool_calls ms) = filter (\<lambda>i. i \<in> set (response_ids ms)) (call_ids ms) \<and>
   response_ids (filter_unmatched_tool_calls ms) = filter (\<lambda>i. i \<in> set (call_ids ms)) (response_ids ms) \<and>
   set (call_ids (filter_unmatched_tool_calls ms)) = set (response_ids (filter_unmatched_tool_calls ms))"
  by (auto simp: filter_calls filter_responses)

lemma processed_pairs:
  assumes "process_events env vo h initial = Inr (ms, es)" and "responses_ok env"
  obtains raw where "process_loop env vo (ensured env initial h) 0 (ensured env initial h) ([], []) = Inr (raw, es)"
    "ms = apply_user_message_formatting raw" "paired ms"
proof -
  obtain raw where raw: "process_loop env vo (ensured env initial h) 0 (ensured env initial h) ([], []) = Inr (raw, es)"
    "ms = apply_user_message_formatting raw"
    using assms(1) by (auto simp: process_events_unfiltered [OF assms(2)] rbind_Inr_iff)
  have "paired raw" using process_loop_ok [OF raw(1) assms(2) loop_starts_ok] by simp
  then have "paired ms"
    unfolding raw(2) apply_user_message_formatting_def using paired_shape shape_format by blast
  with raw that show ?thesis by blast
qed

lemma calls_then_results_paired:
  "process_events env vo h initial = Inr (ms, es) \<Longrightarrow> responses_ok env \<Longrightarrow> paired ms"
  by (rule processed_pairs)

text \<open>
  C30. In the messages made from any history, whatever condensers removed from it, a message with calls
  of tools is followed by the results of exactly its calls in the order of the calls, and there are
  no other results; the filter has removed nothing.
\<close>

theorem calls_then_results:
  assumes "process_events env vo h initial = Inr (ms, es)" and "responses_ok env"
  shows "paired ms \<and> (\<exists>raw. process_loop env vo (ensured env initial h) 0 (ensured env initial h) ([], [])
      = Inr (raw, es) \<and> ms = apply_user_message_formatting raw)"
  using processed_pairs [OF assms] by blast

text \<open>
  A history that was processed once, and so was changed, gives the same messages when it is
  processed again, and is not changed any more: a step of the agent sees what the step before saw.
\<close>

theorem process_events_again:
  assumes "process_events env vo h initial = Inr (ms, es)" and "is_user_message initial"
  shows "process_events env vo es initial = Inr (ms, es)"
proof -
  let ?evs = "ensured env initial h"
  obtain raw where raw: "process_loop env vo ?evs 0 ?evs ([], []) = Inr (raw, es)"
    "ms = apply_user_message_formatting (filter_unmatched_tool_calls raw)"
    using assms(1) by (auto simp: process_events_def Let_def rbind_Inr_iff)
  have same: "list_all2 same_event es ?evs" using process_loop_same [OF raw(1)] .
  have "ensured env initial es = es"
    using ensured_settled settled_same [OF same settled_ensured [OF assms(2)]] by blast
  moreover have "process_loop env vo es 0 es ([], []) = Inr (raw, es)"
    using process_loop_again [OF raw(1) same] .
  ultimately show ?thesis using raw(2) by (simp add: process_events_def)
qed

text \<open>
  A turn of calls shows as the message of the LLM followed by the results in the order of its
  calls, in whatever order the observations arrived, and leaves nothing pending for what follows.
\<close>

theorem turn_is_shown:
  assumes "acts \<noteq> []" and "list_all (calls_in env r) acts" and "calling_message r = Inr msg"
    and "mg_tool_calls msg = Some tcs" and "tcs \<noteq> []" and "distinct (map fc_id tcs)"
    and "results_of env vo events (i + length acts) obs = Some rs" and "distinct (map fst rs)"
    and "fst ` set rs = fc_id ` set tcs"
  shows "process_loop env vo events i (acts @ obs @ es) ([], []) =
    rbind (process_loop env vo events (i + length acts + length obs) es ([], [])) (\<lambda>(ms, es').
    Inr (msg # map (\<lambda>tc. the (map_of rs (fc_id tc))) tcs @ ms, acts @ obs @ es'))"
proof -
  obtain a acts' where acts: "acts = a # acts'" using assms(1) by (cases acts) auto
  have obs: "obs \<noteq> []" using assms(5,7,9) by (cases obs) auto
  have first: "process_event env vo events i a ([], []) = Inr ([], a, [(rv_id r, msg)], [])"
    using calling_event [of env r a msg tcs "[]"] assms(2-5) acts by simp
  have rest: "process_loop env vo events (i + 1) (acts' @ obs @ es) ([(rv_id r, msg)], []) =
     rbind (process_loop env vo events (i + 1 + length acts') (obs @ es) ([(rv_id r, msg)], []))
       (\<lambda>(ms, es'). Inr (ms, acts' @ es'))"
    using calling_events [of env r acts' msg tcs] assms(2-5) acts by simp
  have "process_loop env vo events (i + length acts) (obs @ es) ([(rv_id r, msg)], []) =
     rbind (process_loop env vo events (i + length acts + length obs) es ([], [])) (\<lambda>(ms, es').
     Inr (msg # map (\<lambda>tc. the (map_of ([] @ rs) (fc_id tc))) tcs @ ms, obs @ es'))"
    by (rule result_events [OF assms(4,6,7) obs]) (use assms(8,9) in auto)
  with first rest acts show ?thesis
    by (cases "process_loop env vo events (i + length acts + length obs) es ([], [])") auto
qed

text \<open>
  The messages of a history start with the system message and a message of the user: also where
  the history has lost them, as they are put back.
\<close>

theorem starts_with_system_and_user:
  assumes "process_events env vo h initial = Inr (ms, es)" and "responses_ok env" and "is_user_message initial"
    and "h = [] \<or> is_system_message (hd h) \<or> \<not> list_ex is_system_message h" and "me_system_message env \<noteq> []"
  shows "\<exists>s u rest. ms = s # u # rest \<and> mg_role s = ROLE_SYSTEM \<and> mg_role u = ROLE_USER"
proof -
  let ?evs = "ensured env initial h"
  have "is_system_message (hd (ensure_system_message env h)) \<and> ensure_system_message env h \<noteq> []"
    using assms(4,5) by (cases h)
      (auto simp: ensure_system_message_def system_event_def is_system_message.simps new_event_def)
  moreover have "user_second (ensured env initial h)"
    using settled_ensured [OF assms(3)] by (simp add: settled_def)
  moreover have "hd (ensure_initial_user_message initial x) = hd x \<and> ensure_initial_user_message initial x \<noteq> []"
    if "x \<noteq> []" for x
    using that by (cases x rule: user_second.cases) auto
  ultimately have "is_system_message (hd ?evs)" "user_second ?evs" "?evs \<noteq> []" by (simp_all add: ensured_def)
  then obtain s u rest where evs: "?evs = s # u # rest" and s: "is_system_message s" and u: "is_user_message u"
    by (cases ?evs rule: user_second.cases) auto
  obtain raw where raw: "process_loop env vo ?evs 0 (s # u # rest) ([], []) = Inr (raw, es)"
    "ms = apply_user_message_formatting raw"
    using processed_pairs [OF assms(1,2)] evs by metis
  obtain rs where rs: "ev_body s = Action (SystemMessageAction rs)"
    using s by (auto simp: is_system_message.simps split: body.splits action.splits)
  obtain ru where ru: "ev_body u = Action (MessageAction ru)" "ev_source u = Some USER"
    using u by (auto simp: is_user_message_def split: body.splits action.splits)
  from raw(1) rs ru obtain ms1 where "raw = new_message ROLE_SYSTEM [TextContent (sm_content rs) False]
      # process_message_action vo u ru # ms1"
    by (auto simp: rbind_Inr_iff process_event_def process_action_def)
  moreover have "mg_role (process_message_action vo u ru) = ROLE_USER"
    using ru by (simp add: process_message_action_def Let_def new_message_def role_by_source_def)
  ultimately show ?thesis
    using raw(2) by (auto simp: apply_user_message_formatting_def new_message_def)
qed

section \<open>Instances\<close>

text \<open>One response with two calls; its dump is not looked at.\<close>

definition two_calls :: response_view where
  "two_calls = \<lparr>rv_id = ''r1'', rv_role = ''assistant'', rv_content = Some ''Looking'',
     rv_tool_calls = Some [\<lparr>fc_id = ''a'', fc_name = ''execute_bash'', fc_arguments = ''{}''\<rparr>,
       \<lparr>fc_id = ''b'', fc_name = ''execute_bash'', fc_arguments = ''{}''\<rparr>]\<rparr>"

definition demo_memory :: memory_env where
  "demo_memory = \<lparr>me_enable_som_visual_browsing = False, me_enable_prompt_extensions = True,
     me_disabled_microagents = [], me_system_message = ''You are OpenHands.'',
     me_workspace_context = (\<lambda>r i c s. ''context''), me_microagent_info = (\<lambda>ks. ''info''),
     me_response = (\<lambda>d. Inr two_calls), me_event_text = (\<lambda>e. ''event'')\<rparr>"

definition demo_options :: view_options where
  "demo_options = \<lparr>vo_max_message_chars = None, vo_vision_is_active = False\<rparr>"

definition call_event :: "string \<Rightarrow> body \<Rightarrow> event" where
  "call_event i b = (new_event b)\<lparr>ev_source := Some AGENT, ev_tool_call_metadata := Some
     \<lparr>tc_function_name = ''execute_bash'', tc_tool_call_id = i, tc_model_response = JNull,
       tc_total_calls_in_response = 2\<rparr>\<rparr>"

definition hello :: event where
  "hello = (new_event (Action (MessageAction \<lparr>ma_content = ''Hello'', ma_file_urls = None,
     ma_image_urls = None, ma_wait_for_response = False, ma_security_risk = RISK_UNKNOWN\<rparr>)))
     \<lparr>ev_source := Some USER\<rparr>"

definition demo_acts :: "event list" where
  "demo_acts = [call_event ''a'' (Action (AgentThinkAction ''x'')), call_event ''b'' (Action (AgentThinkAction ''y''))]"

text \<open>The second call is answered first.\<close>

definition demo_obs :: "event list" where
  "demo_obs = [call_event ''b'' (Observation (AgentThinkObservation ''two'')),
     call_event ''a'' (Observation (AgentThinkObservation ''one''))]"

lemma demo_responses: "responses_ok demo_memory"
  by (simp add: responses_ok_def demo_memory_def two_calls_def)

lemma hello_user: "is_user_message hello"
  by (simp add: is_user_message_def hello_def new_event_def)

lemma demo_processed: "\<not> isl (process_events demo_memory demo_options (demo_acts @ demo_obs) hello)"
  by code_simp

theorem calls_then_results_witness:
  "\<exists>ms es. process_events demo_memory demo_options (demo_acts @ demo_obs) hello = Inr (ms, es) \<and> paired ms"
proof -
  obtain ms es where p: "process_events demo_memory demo_options (demo_acts @ demo_obs) hello = Inr (ms, es)"
    using demo_processed by (cases "process_events demo_memory demo_options (demo_acts @ demo_obs) hello") auto
  with calls_then_results [OF p demo_responses] show ?thesis by blast
qed

theorem process_events_again_witness:
  "\<exists>ms es. process_events demo_memory demo_options (demo_acts @ demo_obs) hello = Inr (ms, es) \<and>
     process_events demo_memory demo_options es hello = Inr (ms, es)"
proof -
  obtain ms es where p: "process_events demo_memory demo_options (demo_acts @ demo_obs) hello = Inr (ms, es)"
    using demo_processed by (cases "process_events demo_memory demo_options (demo_acts @ demo_obs) hello") auto
  with process_events_again [OF p hello_user] show ?thesis by blast
qed

theorem starts_with_system_and_user_witness:
  "\<exists>s u rest es. process_events demo_memory demo_options (demo_acts @ demo_obs) hello = Inr (s # u # rest, es) \<and>
     mg_role s = ROLE_SYSTEM \<and> mg_role u = ROLE_USER"
proof -
  obtain ms es where p: "process_events demo_memory demo_options (demo_acts @ demo_obs) hello = Inr (ms, es)"
    using demo_processed by (cases "process_events demo_memory demo_options (demo_acts @ demo_obs) hello") auto
  have "demo_acts @ demo_obs = [] \<or> is_system_message (hd (demo_acts @ demo_obs)) \<or>
      \<not> list_ex is_system_message (demo_acts @ demo_obs)" by code_simp
  from starts_with_system_and_user [OF p demo_responses hello_user this] p show ?thesis
    by (auto simp: demo_memory_def)
qed

theorem turn_is_shown_witness:
  "\<exists>one two. process_loop demo_memory demo_options [] 0 (demo_acts @ demo_obs @ []) ([], []) =
     Inr ([(new_message ROLE_ASSISTANT [TextContent ''Looking'' False])\<lparr>mg_tool_calls := rv_tool_calls two_calls\<rparr>,
           one, two], demo_acts @ demo_obs @ []) \<and>
     mg_tool_call_id one = Some ''a'' \<and> mg_tool_call_id two = Some ''b''"
proof -
  have r: "results_of demo_memory demo_options [] (0 + length demo_acts) demo_obs = Some
     [(''b'', tool_message \<lparr>tc_function_name = ''execute_bash'', tc_tool_call_id = ''b'', tc_model_response = JNull,
         tc_total_calls_in_response = 2\<rparr> [TextContent ''two'' False]),
      (''a'', tool_message \<lparr>tc_function_name = ''execute_bash'', tc_tool_call_id = ''a'', tc_model_response = JNull,
         tc_total_calls_in_response = 2\<rparr> [TextContent ''one'' False])]"
    by (simp add: demo_obs_def demo_acts_def call_event_def new_event_def result_of_def observation_content_def
        Let_def truncate_content_def demo_options_def)
  have a: "list_all (calls_in demo_memory two_calls) demo_acts" "demo_acts \<noteq> []"
    by (simp_all add: demo_acts_def calls_in_def call_event_def new_event_def demo_memory_def)
  have c: "calling_message two_calls = Inr ((new_message ROLE_ASSISTANT [TextContent ''Looking'' False])
      \<lparr>mg_tool_calls := rv_tool_calls two_calls\<rparr>)"
    by code_simp
  let ?tcs = "the (rv_tool_calls two_calls)"
  have t: "mg_tool_calls ((new_message ROLE_ASSISTANT [TextContent ''Looking'' False])
      \<lparr>mg_tool_calls := rv_tool_calls two_calls\<rparr>) = Some ?tcs" "?tcs \<noteq> []" "distinct (map fc_id ?tcs)"
    by (simp_all add: two_calls_def)
  from turn_is_shown [OF a(2,1) c t r, of "[]"] show ?thesis
    by (simp add: two_calls_def new_message_def tool_message_def insert_commute)
qed

end
