(* ===== verification/CodeAct_Agent_Properties.thy ===== *)
theory CodeAct_Agent_Properties
  imports CodeAct_Agent Conversation_Memory_Properties Function_Calling_Correct
begin

text \<open>
  The properties of a step of the agent: a response is carried out completely and in order, the LLM is
  asked with well-formed messages only, and every tool that it is offered can be called.
\<close>

section \<open>Handing out\<close>

text \<open>Steps of the agent, each in whatever state and heap it finds.\<close>

fun hand_out :: "codeact_env \<Rightarrow> codeact \<Rightarrow> (state \<times> heap) list \<Rightarrow> (exc + event) list" where
  "hand_out env ag [] = []"
| "hand_out env ag ((st, h) # xs) =
     (case codeact_step env ag st h of (r, ag', _, _) \<Rightarrow> r # hand_out env ag' xs)"

lemma pending_step:
  "ca_pending_actions ag = a # rest \<Longrightarrow>
   codeact_step env ag st h = (Inr a, ag\<lparr>ca_pending_actions := rest\<rparr>, st, h)"
  by (simp add: codeact_step_def)

lemma hand_out_pending:
  "length xs = length (ca_pending_actions ag) \<Longrightarrow> hand_out env ag xs = map Inr (ca_pending_actions ag)"
proof (induction xs arbitrary: ag)
  case (Cons x xs)
  obtain st h where x: "x = (st, h)" by fastforce
  obtain a rest where p: "ca_pending_actions ag = a # rest" using Cons.prems by (cases "ca_pending_actions ag") auto
  with Cons.prems Cons.IH [of "ag\<lparr>ca_pending_actions := rest\<rparr>"] x show ?case
    by (simp add: pending_step)
qed simp

text \<open>
  C31. The actions of a response are carried out completely and in order: the step that got the
  response returns the first, and the steps after it return the others one by one, whatever
  has become of the state in between and without asking the LLM again.
\<close>

theorem response_is_carried_out:
  assumes "take_actions env ag r = (Inr e, ag')" and "length xs = length (ca_pending_actions ag')"
  shows "\<exists>es. codeact_response_to_actions (ca_calls env) (keys (ca_mcp_tools ag)) r = Inr es \<and>
    Inr e # hand_out env ag' xs = map Inr es"
proof -
  from assms(1) obtain rest where
    "codeact_response_to_actions (ca_calls env) (keys (ca_mcp_tools ag)) r = Inr (e # rest)"
    "ag' = ag\<lparr>ca_pending_actions := rest\<rparr>"
    by (auto simp: take_actions_def split: sum.splits list.splits)
  moreover from this(2) have "hand_out env ag' xs = map Inr rest"
    using hand_out_pending [OF assms(2)] by simp
  ultimately show ?thesis by auto
qed

section \<open>Asking the LLM\<close>

lemma mark_last_shape: "mark_last m = Inr m' \<Longrightarrow> shape m' = shape m"
  by (auto simp: mark_last_def shape_def split: if_splits)

lemma mark_first_input_shape: "mark_first_input ms = Inr ms' \<Longrightarrow> map shape ms' = map shape ms"
  by (induction ms arbitrary: ms') (auto simp: rbind_Inr_iff mark_last_shape split: if_splits)

lemma apply_prompt_caching_shape:
  assumes "apply_prompt_caching ms = Inr ms'"
  shows "map shape ms' = map shape ms"
proof -
  obtain a b where a: "(case ms of
              m # ms \<Rightarrow> if mg_role m = ROLE_SYSTEM then rbind (mark_last m) (\<lambda>m'. Inr (m' # ms)) else Inr (m # ms)
            | [] \<Rightarrow> Inr []) = Inr a" and b: "mark_first_input (rev a) = Inr b" "ms' = rev b"
    using assms by (cases ms) (auto simp: apply_prompt_caching_def rbind_Inr_iff split: if_splits)
  have "map shape a = map shape ms"
    using a by (cases ms) (auto simp: rbind_Inr_iff mark_last_shape split: if_splits)
  with mark_first_input_shape [OF b(1)] b(2) show ?thesis by (simp flip: rev_map)
qed

lemma get_messages_paired:
  assumes "responses_ok (ca_memory env)" and "get_messages env events initial = Inr (ms, es)"
  shows "paired ms"
proof -
  from assms(2) obtain ms0 where ms0: "process_events (ca_memory env) (ca_options env) events initial = Inr (ms0, es)"
    and ms: "(if ca_caching_prompt_active env then apply_prompt_caching ms0 else Inr ms0) = Inr ms"
    by (auto simp: get_messages_def rbind_Inr_iff)
  have "paired ms0" using calls_then_results_paired [OF ms0 assms(1)] .
  then show ?thesis
    using ms apply_prompt_caching_shape [of ms0 ms] paired_shape [of ms ms0] by (auto split: if_splits)
qed

lemma ask_llm_requests:
  assumes "responses_ok (ca_memory env)"
    and "\<And>ms tools d h. paired ms \<Longrightarrow> P h \<Longrightarrow> P (snd (ca_complete env ms tools d h))"
    and "P h" and "ask_llm env ag events st h = (r, ag', st', h')"
  shows "P h'"
proof (cases "rbind (get_initial_user_message (history st)) (\<lambda>initial.
           rbind (get_messages env events initial) (\<lambda>(ms, es). Inr (initial, ms, es)))")
  case (Inl x)
  with assms(3,4) show ?thesis by (simp add: ask_llm_def)
next
  case (Inr y)
  then obtain initial ms es where y: "y = (initial, ms, es)" and m: "get_messages env events initial = Inr (ms, es)"
    by (auto simp: rbind_Inr_iff)
  let ?st = "keep_processed (ca_shares_view env) (ensured (ca_memory env) initial events) es st"
  let ?d = "to_llm_metadata (ca_version env) (ca_web_host env) (ca_model env) ''CodeActAgent'' ?st"
  show ?thesis
  proof (cases "check_tools (ca_tools ag) (ca_model env)")
    case (Inl x)
    with assms(3,4) Inr y show ?thesis by (simp add: ask_llm_def Let_def)
  next
    case tools: (Inr tools)
    with assms(4) Inr y have "h' = snd (ca_complete env ms tools ?d h)"
      by (auto simp: ask_llm_def Let_def split: sum.splits prod.splits)
    then show ?thesis using assms(2,3) get_messages_paired [OF assms(1) m] by simp
  qed
qed

text \<open>
  C32. Whatever a property of the past requests is, if it is kept by requests whose calls of tools are
  followed by their results, then every step of the agent keeps it: no step, on any history and
  with any condenser, sends the LLM a call without its result or a result without its call.
\<close>

theorem requests_are_paired:
  assumes "responses_ok (ca_memory env)"
    and "\<And>ms tools d h. paired ms \<Longrightarrow> P h \<Longrightarrow> P (snd (ca_complete env ms tools d h))"
    and "P h" and "codeact_step env ag st h = (r, ag', st', h')"
  shows "P h'"
proof (cases "h' = h")
  case False
  with assms(4) obtain events st1 where "ask_llm env ag events st1 h = (r, ag', st', h')"
    by (auto simp: codeact_step_def Let_def split: list.splits sum.splits prod.splits if_splits condense_result.splits)
  with ask_llm_requests [of env P] assms(1-3) show ?thesis by blast
qed (use assms(3) in simp)

section \<open>The tools that are offered\<close>

lemma task_tracker_name: "tool_fn_name (create_task_tracker_tool b) = TASK_TRACKER_TOOL_NAME"
  by (simp add: tool_fn_name_def tool_name_def create_task_tracker_tool_def tool_names Let_def)

lemma offered_tools:
  "t \<in> set (get_tools c env model) \<Longrightarrow>
   tool_fn_name t \<in> {''execute_bash'', ''think'', ''finish'', ''request_condensation'', ''browser'',
     ''execute_ipython_cell'', TASK_TRACKER_TOOL_NAME, ''edit_file'', ''str_replace_editor''}"
  by (auto simp: get_tools_def Let_def task_tracker_name split: if_splits)

text \<open>Arguments with which a call of the tool is accepted.\<close>

definition sample_arguments :: "string \<Rightarrow> dict" where
  "sample_arguments name =
     (if name = ''execute_bash'' then [(''command'', JStr ''ls''), (''security_risk'', JStr ''LOW'')]
      else if name = ''browser'' then [(''code'', JStr ''noop()''), (''security_risk'', JStr ''LOW'')]
      else if name = ''execute_ipython_cell'' then [(''code'', JStr ''1 + 1''), (''security_risk'', JStr ''LOW'')]
      else if name = TASK_TRACKER_TOOL_NAME then [(''command'', JStr ''view'')]
      else if name = ''edit_file'' then [(''path'', JStr ''/x''), (''content'', JStr ''y'')]
      else if name = ''str_replace_editor'' then [(''command'', JStr ''view''), (''path'', JStr ''/x'')]
      else [])"

definition accepts_sample :: "call_env \<Rightarrow> string list \<Rightarrow> string \<Rightarrow> bool" where
  "accepts_sample env mcp name \<longleftrightarrow> \<not> isl (codeact_call env mcp name (JObj (sample_arguments name)) 0)"

lemmas call_defs = accepts_sample_def codeact_call_def sample_arguments_def keep_index_def required_argument_def
  get_key_def set_security_risk_def arg_def tool_names rbind_def expect_def as_str.simps
  as_int.simps as_opt.simps as_list.simps as_obj.simps as_map_def as_file_read_source_def as_file_edit_source_def enum_of_def

lemma sample_run: "accepts_sample env mcp ''execute_bash''"
  by (simp add: call_defs run_call_def set_timeout_def cmd_run_of_def sub_def)

lemma sample_ipython: "accepts_sample env mcp ''execute_ipython_cell''"
  by (simp add: call_defs ipython_call_def ipython_run_of_def sub_def)

lemma sample_browser: "accepts_sample env mcp ''browser''"
  by (simp add: call_defs browser_call_def browse_interactive_of_def sub_def)

lemma sample_think: "accepts_sample env mcp ''think''"
  by (simp add: call_defs think_call_def agent_think_of_def)

lemma sample_finish: "accepts_sample env mcp ''finish''"
  by (simp add: call_defs finish_call_def agent_finish_of_def)

lemma sample_condensation: "accepts_sample env mcp ''request_condensation''"
  by (simp add: call_defs)

lemma sample_tasks: "accepts_sample env mcp TASK_TRACKER_TOOL_NAME"
  by (simp add: call_defs task_call_def task_tracking_of_def sub_def)

lemma sample_edit: "accepts_sample env mcp ''edit_file''"
  by (simp add: call_defs edit_file_call_def file_edit_of_def sub_def)

lemma sample_editor: "accepts_sample env mcp ''str_replace_editor''"
  by (simp add: call_defs editor_call_def file_read_of_def sub_def)

lemmas samples = sample_run sample_ipython sample_browser sample_think sample_finish sample_condensation
  sample_tasks sample_edit sample_editor

text \<open>
  Every tool that the agent offers to the LLM, in every configuration and for every model, can be
  called: there are arguments with which its call becomes an action. No tool is offered under a
  name that the agent does not know.
\<close>

theorem offered_tools_can_be_called:
  assumes "t \<in> set (get_tools c env model)"
  shows "\<exists>args e j. codeact_call env mcp_tool_names (tool_fn_name t) args 0 = Inr (e, j)"
proof -
  have "accepts_sample env mcp_tool_names (tool_fn_name t)"
    using offered_tools [OF assms] samples by auto
  then obtain x where "codeact_call env mcp_tool_names (tool_fn_name t) (JObj (sample_arguments (tool_fn_name t))) 0
      = Inr x"
    unfolding accepts_sample_def by (cases "codeact_call env mcp_tool_names (tool_fn_name t)
      (JObj (sample_arguments (tool_fn_name t))) 0") auto
  then show ?thesis by (cases x) blast
qed

section \<open>Instances\<close>

definition all_tools :: agent_config where
  "all_tools = \<lparr>ac_enable_cmd = True, ac_enable_think = True, ac_enable_finish = True,
     ac_enable_condensation_request = True, ac_enable_browsing = True, ac_enable_jupyter = True,
     ac_enable_plan_mode = True, ac_enable_llm_editor = False, ac_enable_editor = True, ac_runtime = None\<rparr>"

theorem offered_tools_can_be_called_witness:
  "\<exists>args e j. codeact_call demo_call_env [] (tool_fn_name ThinkTool) args 0 = Inr (e, j)"
  by (rule offered_tools_can_be_called [of _ all_tools _ "Some ''gpt-4o''"])
    (simp add: get_tools_def all_tools_def Let_def)

text \<open>An LLM that answers with a text, and puts an entry on the heap for a request that is malformed.\<close>

definition plain_answer :: model_response where
  "plain_answer = \<lparr>lr_id = ''r9'', lr_messages = [\<lparr>am_content = JStr ''Hi'', am_tool_calls = []\<rparr>], lr_dump = JNull\<rparr>"

definition demo_agent_env :: codeact_env where
  "demo_agent_env = \<lparr>ca_calls = demo_call_env, ca_memory = demo_memory, ca_options = demo_options,
     ca_condenser = Single noop_condense, ca_shares_view = True, ca_model = ''gpt-4o'',
     ca_caching_prompt_active = True, ca_version = ''1'', ca_web_host = None,
     ca_complete = (\<lambda>ms tools d h. (Inr plain_answer, if paired ms then h else h @ [new_metrics []]))\<rparr>"

definition demo_agent :: codeact where
  "demo_agent = \<lparr>ca_pending_actions = [], ca_tools = [], ca_mcp_tools = []\<rparr>"

definition demo_started :: state where
  "demo_started = new_state\<lparr>history := hello # demo_acts @ demo_obs\<rparr>"

theorem requests_are_paired_witness:
  "\<exists>r ag' st' h'. codeact_step demo_agent_env demo_agent demo_started [] = (r, ag', st', h') \<and> \<not> isl r \<and> h' = []"
proof -
  obtain r ag' st' h' where s: "codeact_step demo_agent_env demo_agent demo_started [] = (r, ag', st', h')"
    by (cases "codeact_step demo_agent_env demo_agent demo_started []") blast
  have ok: "responses_ok (ca_memory demo_agent_env)" by (simp add: demo_agent_env_def demo_responses)
  have "h' = []"
    by (rule requests_are_paired [OF ok _ _ s, of "\<lambda>h. h = []"]) (simp_all add: demo_agent_env_def)
  moreover have "\<not> isl (fst (codeact_step demo_agent_env demo_agent demo_started []))" by code_simp
  ultimately show ?thesis using s by auto
qed

theorem response_is_carried_out_witness:
  "\<exists>e ag' es. take_actions demo_agent_env demo_agent demo_response = (Inr e, ag') \<and>
     codeact_response_to_actions demo_call_env [] demo_response = Inr es \<and> length es = 2 \<and>
     Inr e # hand_out demo_agent_env ag' [(demo_started, [])] = map Inr es"
proof -
  obtain es where es: "codeact_response_to_actions demo_call_env [] demo_response = Inr es"
    using demo_accepted by (cases "codeact_response_to_actions demo_call_env [] demo_response") simp_all
  from codeact.calls_answered [OF es [unfolded codeact_response_to_actions_def] demo_calls(1)]
  have "length es = 2" by (auto simp: demo_calls dest: list_all2_lengthD)
  then obtain a b where ab: "es = [a, b]" by (auto simp: length_Suc_conv numeral_2_eq_2)
  with es have t: "take_actions demo_agent_env demo_agent demo_response
      = (Inr a, demo_agent\<lparr>ca_pending_actions := [b]\<rparr>)"
    by (simp add: take_actions_def demo_agent_env_def demo_agent_def)
  have "\<exists>es. codeact_response_to_actions (ca_calls demo_agent_env) (keys (ca_mcp_tools demo_agent)) demo_response = Inr es \<and>
      Inr a # hand_out demo_agent_env (demo_agent\<lparr>ca_pending_actions := [b]\<rparr>) [(demo_started, [])] = map Inr es"
    by (rule response_is_carried_out [OF t]) simp
  with t es ab show ?thesis by (auto simp: demo_agent_env_def demo_agent_def)
qed

end
