(* ===== verification/Test_Spec_Python.thy ===== *)
theory Test_Spec_Python
  imports Grading Regex Py_Objects
begin

text \<open>
  \<open>SWE-bench/swebench/harness/test_spec/utils.py\<close> and \<open>python.py\<close>: the shell commands that set up
  the repository and the environment of an instance and that run its tests. The tables of
  \<open>harness/constants\<close>, the parser of patches (\<open>unidiff\<close>), HTTP requests and the packaged files are
  arguments; an entry of the tables is a dictionary of JSON values, and a script is a list of them,
  since the code puts the values of an entry into it as they are. \<open>functools.cache\<close> repeats a
  result and is left out.
\<close>

section \<open>Instances and surroundings\<close>

text \<open>A row of the dataset: \<open>None\<close> for a key that it does not have.\<close>

record dataset_instance =
  di_instance_id :: string
  di_repo :: string
  di_version :: "string option"
  di_base_commit :: string
  di_test_patch :: string
  di_environment_setup_commit :: "string option"
  di_fail_to_pass :: "json option"
  di_pass_to_pass :: "json option"
  di_image_assets :: "json option"

type_synonym spec_tables = "(string, (string, dict) pydict) pydict"

record ts_env =
  te_specs :: spec_tables                  \<comment> \<open>\<open>MAP_REPO_VERSION_TO_SPECS\<close>\<close>
  te_ext :: "(string, string) pydict"      \<comment> \<open>\<open>MAP_REPO_TO_EXT\<close>\<close>
  te_install :: "(string, json) pydict"    \<comment> \<open>\<open>MAP_REPO_TO_INSTALL\<close>\<close>
  te_env_yml_paths :: "(string, string list) pydict"
  te_reqs_paths :: "(string, string list) pydict"
  te_branches :: "(string, (string, string) pydict) pydict"
  te_patch_set :: "string \<Rightarrow> exc + (string \<times> string) list"
    \<comment> \<open>\<open>PatchSet\<close>: the \<open>source_file\<close> and the \<open>path\<close> of every file\<close>
  te_get :: "string \<Rightarrow> exc + int \<times> string"  \<comment> \<open>\<open>requests.get\<close>: status and text\<close>
  te_resource :: "string \<Rightarrow> exc + string"    \<comment> \<open>a file of \<open>swebench.resources\<close>\<close>
  te_sha256 :: "string \<Rightarrow> string"           \<comment> \<open>hexadecimal digest\<close>
  te_loads :: "string \<Rightarrow> exc + json"        \<comment> \<open>\<open>json.loads\<close>\<close>
  te_float :: "rat \<Rightarrow> string"               \<comment> \<open>\<open>str\<close> of a float\<close>

abbreviation quote :: char where "quote \<equiv> CHR 0x27"

definition version_of :: "dataset_instance \<Rightarrow> exc + string" where
  "version_of inst =
     (case di_version inst of Some v \<Rightarrow> Inr v | None \<Rightarrow> Inl (KeyError ''version''))"

text \<open>\<open>MAP_REPO_VERSION_TO_SPECS[instance["repo"]][instance["version"]]["test_cmd"]\<close>.\<close>

definition test_cmd_entry :: "ts_env \<Rightarrow> dataset_instance \<Rightarrow> exc + json" where
  "test_cmd_entry env inst =
     rbind (lookup (te_specs env) (di_repo inst)) (\<lambda>versions.
     rbind (version_of inst) (\<lambda>v.
     rbind (lookup versions v) (\<lambda>entry. sub entry ''test_cmd'')))"

text \<open>\<open>harness/utils.py\<close>: \<open>get_modified_files\<close> and \<open>load_cached_environment_yml\<close>.\<close>

definition get_modified_files :: "ts_env \<Rightarrow> string \<Rightarrow> exc + string list" where
  "get_modified_files env patch =
     rbind (te_patch_set env patch) (\<lambda>files.
       let sources = filter (\<lambda>f. f \<noteq> ''/dev/null'') (map fst files)
       in Inr (map (drop 2) (filter (\<lambda>f. startswith f ''a/'') sources)))"

definition load_cached_environment_yml :: "ts_env \<Rightarrow> string \<Rightarrow> exc + string option" where
  "load_cached_environment_yml env instance_id =
     (case rsplit1 ''-'' instance_id of
        [repo, number] \<Rightarrow>
          (case te_resource env (join ''/'' [''swebench-og'', repo, number, ''environment.yml'']) of
             Inl (FileNotFoundError f) \<Rightarrow> Inr None
           | Inl e \<Rightarrow> Inl e
           | Inr s \<Rightarrow> Inr (Some s))
      | _ \<Rightarrow> Inr None)"

text \<open>\<open>posixpath.join\<close>, which \<open>os.path.join\<close> is.\<close>

definition url_join2 :: "string \<Rightarrow> string \<Rightarrow> string" where
  "url_join2 a b =
     (if startswith b ''/'' then b else if a = [] \<or> endswith a ''/'' then a @ b else a @ ''/'' @ b)"

definition url_join :: "string list \<Rightarrow> string" where
  "url_join ps = foldl url_join2 (hd ps) (tl ps)"

text \<open>\<open>"\<close>\<open> \<close>\<open>".join(xs)\<close> on values that have to be strings, and \<open>xs.extend(v)\<close>.\<close>

definition join_values :: "string \<Rightarrow> json list \<Rightarrow> exc + string" where
  "join_values sep vs = rbind (mapE str_of vs) (\<lambda>ss. Inr (join sep ss))"

definition extend_by :: "dict \<Rightarrow> string \<Rightarrow> json list \<Rightarrow> exc + json list" where
  "extend_by specs k cmds =
     (if has_key k specs
      then rbind (sub specs k) (\<lambda>v. rbind (py_iter v) (\<lambda>vs. Inr (cmds @ vs)))
      else Inr cmds)"

abbreviation lines_of :: "string list \<Rightarrow> json list" where "lines_of ss \<equiv> map JStr ss"

section \<open>\<open>utils.py\<close>: the scripts of most languages\<close>

definition get_test_cmds :: "ts_env \<Rightarrow> dataset_instance \<Rightarrow> exc + json" where
  "get_test_cmds env inst =
     rbind (test_cmd_entry env inst) (\<lambda>test_cmd.
       Inr (case test_cmd of JStr s \<Rightarrow> JList [JStr s] | _ \<Rightarrow> test_cmd))"

definition make_repo_script_list_common ::
    "ts_env \<Rightarrow> dict \<Rightarrow> string \<Rightarrow> string \<Rightarrow> string \<Rightarrow> string \<Rightarrow> exc + json list" where
  "make_repo_script_list_common env specs repo repo_directory base_commit env_name =
     rbind (extend_by specs ''pre_install'' (lines_of
       [''git clone -o origin https://github.com/'' @ repo @ '' '' @ repo_directory,
        ''chmod -R 777 '' @ repo_directory,
        ''cd '' @ repo_directory,
        ''git reset --hard '' @ base_commit,
        ''git remote remove origin''])) (\<lambda>cmds.
     rbind (extend_by specs ''install'' cmds) (extend_by specs ''build''))"

definition make_env_script_list_common ::
    "ts_env \<Rightarrow> dataset_instance \<Rightarrow> dict \<Rightarrow> string \<Rightarrow> exc + json list" where
  "make_env_script_list_common env inst specs env_name =
     (if has_key ''apt-pkgs'' specs then
        rbind (sub specs ''apt-pkgs'') (\<lambda>v. rbind (py_iter v) (\<lambda>pkgs.
        rbind (join_values '' '' pkgs) (\<lambda>s.
          Inr (lines_of [''apt-get update'', ''apt-get install -y '' @ s]))))
      else Inr [])"

definition HEREDOC_DELIMITER :: string where "HEREDOC_DELIMITER = ''EOF_114329324912''"

text \<open>A command that reads a text from a here document: \<open>cmd <<'D'\<close>, the text, \<open>D\<close>.\<close>

definition heredoc :: "string \<Rightarrow> string \<Rightarrow> string \<Rightarrow> string" where
  "heredoc cmd delim body =
     cmd @ '' <<'' @ quote # delim @ quote # newline # body @ newline # delim"

definition start_marker :: string where "start_marker = '': '' @ quote # START_TEST_OUTPUT @ [quote]"
definition end_marker :: string where "end_marker = '': '' @ quote # END_TEST_OUTPUT @ [quote]"

definition make_eval_script_list_common ::
    "ts_env \<Rightarrow> dataset_instance \<Rightarrow> dict \<Rightarrow> string \<Rightarrow> string \<Rightarrow> string \<Rightarrow> string \<Rightarrow> exc + json list" where
  \<open>make_eval_script_list_common env inst specs env_name repo_directory base_commit test_patch =
     rbind (get_modified_files env test_patch) (\<lambda>test_files.
     let reset_tests_command =
           (if test_files \<noteq> [] then ''git checkout '' @ base_commit @ '' '' @ join '' '' test_files
            else ''echo "No test files to reset"'')
     in
     rbind (extend_by specs ''build'' []) (\<lambda>build_commands.
     let apply_test_patch_command =
           heredoc ''git apply --verbose --reject -'' HEREDOC_DELIMITER test_patch
     in
     rbind (get_test_cmds env inst) (\<lambda>v. rbind (py_iter v) (\<lambda>test_commands.
       Inr (lines_of
             [''cd '' @ repo_directory,
              ''git config --global --add safe.directory '' @ repo_directory,
              ''cd '' @ repo_directory,
              reset_tests_command,
              apply_test_patch_command]
            @ build_commands @ [JStr start_marker] @ test_commands
            @ lines_of [end_marker, reset_tests_command])))))\<close>

section \<open>\<open>python.py\<close>: requirements and environments\<close>

definition REPLACE_REQ_PACKAGES :: "(string \<times> string option) list" where
  "REPLACE_REQ_PACKAGES = [(''types-pkg_resources'', Some ''types-setuptools'')]"

definition SWE_BENCH_URL_RAW :: string where
  "SWE_BENCH_URL_RAW = ''https://raw.githubusercontent.com/''"

text \<open>The first path of a repository that answers with status 200, with its text.\<close>

fun first_found ::
    "ts_env \<Rightarrow> string \<Rightarrow> string \<Rightarrow> string list \<Rightarrow> exc + (string \<times> string) option" where
  "first_found env repo commit [] = Inr None"
| "first_found env repo commit (req_path # paths) =
     rbind (te_get env (url_join [SWE_BENCH_URL_RAW, repo, commit, req_path])) (\<lambda>(status, text).
       if status = 200 then Inr (Some (req_path, text)) else first_found env repo commit paths)"

definition not_found :: "ts_env \<Rightarrow> string \<Rightarrow> string list \<Rightarrow> string \<Rightarrow> string \<Rightarrow> exc" where
  "not_found env name paths repo commit =
     ValueError (''Could not find '' @ name @ '' at paths ''
       @ repr_json (te_float env) (JList (lines_of paths)) @ '' for repo '' @ repo
       @ '' at commit '' @ commit)"

definition get_environment_yml_by_commit :: "ts_env \<Rightarrow> string \<Rightarrow> string \<Rightarrow> string \<Rightarrow> exc + string" where
  "get_environment_yml_by_commit env repo commit env_name =
     rbind (lookup (te_env_yml_paths env) repo) (\<lambda>paths.
     rbind (first_found env repo commit paths) (\<lambda>found.
       case found of
         None \<Rightarrow> Inl (not_found env ''environment.yml'' paths repo commit)
       | Some (req_path, text) \<Rightarrow>
           Inr (join [newline]
             (map (\<lambda>line. if startswith line ''name:'' then ''name: '' @ env_name else line)
                (split_on [newline] text)))))"

text \<open>\<open>^(\s*-\s*pip\s*:\s*\n)\<close>.\<close>

definition pip_line :: re where
  "pip_line = Seq (Bol True)
     (Grp 1 (cat [star Space, Lit ''-'', star Space, Lit ''pip'', star Space, Lit '':'', star Space,
        Lit [newline]]))"

text \<open>\<open>([<>=!~]=?.*|$)\<close>, the version of a package, and \<open>([<>~]=?.*|$)\<close>.\<close>

definition version_spec :: "string \<Rightarrow> re" where
  "version_spec ops =
     Alt (cat [Cl (OneOf (map Chr ops)), Opt (Lit ''=''), star Dot]) (Eol True)"

definition bullet :: re where "bullet = cat [star Space, Lit ''-'', star Space]"

definition replace_in_pip :: "string \<times> string option \<Rightarrow> string \<Rightarrow> string" where
  "replace_in_pip = (\<lambda>(pkg, replacement) portion.
     case replacement of
       None \<Rightarrow>
         re_sub (cat [Bol True, Grp 1 bullet, Lit pkg, Grp 2 (version_spec ''<>~''),
           Opt (Lit [newline])]) [] portion
     | Some new \<Rightarrow>
         re_sub_with (cat [Bol True, Grp 1 bullet, Lit pkg, Grp 2 (version_spec ''<>=!~'')])
           (\<lambda>m. grp m 1 @ new) portion)"

definition leading_blanks :: "string \<Rightarrow> nat" where
  "leading_blanks line = length line - length (lstrip line)"

text \<open>Where the section ends: the length of the lines before the first line that is indented no deeper,
  \<open>None\<close> when there is none.\<close>

fun pip_end :: "nat \<Rightarrow> nat \<Rightarrow> string list \<Rightarrow> nat option" where
  "pip_end pip_indent n [] = None"
| "pip_end pip_indent n (line # ls) =
     (if strip line = [] then pip_end pip_indent (n + length line + 1) ls
      else if leading_blanks line \<le> pip_indent then Some n
      else pip_end pip_indent (n + length line + 1) ls)"

definition clean_environment_yml :: "string \<Rightarrow> string" where
  "clean_environment_yml yml_text =
     (case search_go pip_line False [] yml_text of
        None \<Rightarrow> yml_text
      | Some (p0, r0, m) \<Rightarrow>
          let pip_indent = leading_blanks (grp m 1);
              content_start = length (fst m);
              lines_after_pip = split_on [newline] (drop content_start yml_text);
              section_end = (case pip_end pip_indent 0 lines_after_pip of
                Some n \<Rightarrow> content_start + n | None \<Rightarrow> length yml_text);
              prefix = take content_start yml_text;
              pip_portion = take (section_end - content_start) (drop content_start yml_text);
              suffix = drop section_end yml_text
          in prefix @ fold replace_in_pip REPLACE_REQ_PACKAGES pip_portion @ suffix)"

definition setup_commit :: "dataset_instance \<Rightarrow> string" where
  "setup_commit inst =
     (case di_environment_setup_commit inst of Some c \<Rightarrow> c | None \<Rightarrow> di_base_commit inst)"

definition get_environment_yml :: "ts_env \<Rightarrow> dataset_instance \<Rightarrow> string \<Rightarrow> exc + string" where
  "get_environment_yml env inst env_name =
     rbind (get_environment_yml_by_commit env (di_repo inst) (setup_commit inst) env_name) (\<lambda>s.
       Inr (clean_environment_yml s))"

definition exclude_line :: "string \<Rightarrow> bool" where
  "exclude_line line \<longleftrightarrow> list_ex (\<lambda>x. startswith (strip line) x) [''-e .'', ''#'', ''.[test'']"

text \<open>The loop over the lines: the lines of the file itself, and those of the files it names.\<close>

fun requirement_lines ::
    "ts_env \<Rightarrow> string \<Rightarrow> string \<Rightarrow> string \<Rightarrow> string list \<Rightarrow> string list \<times> string list \<Rightarrow>
     exc + string list \<times> string list" where
  "requirement_lines env repo commit req_dir [] acc = Inr acc"
| "requirement_lines env repo commit req_dir (line # ls) (original, additional) =
     (if startswith (strip line) ''-r'' then
        rbind (te_get env (url_join [SWE_BENCH_URL_RAW, repo, commit, req_dir, strip (drop 2 line)]))
          (\<lambda>(status, text).
             requirement_lines env repo commit req_dir ls
               (original,
                if status = 200
                then additional @ filter (\<lambda>l. \<not> exclude_line l) (split_on [newline] text)
                else additional))
      else requirement_lines env repo commit req_dir ls
             (if exclude_line line then (original, additional) else (original @ [line], additional)))"

definition get_requirements_by_commit :: "ts_env \<Rightarrow> string \<Rightarrow> string \<Rightarrow> exc + string" where
  "get_requirements_by_commit env repo commit =
     rbind (lookup (te_reqs_paths env) repo) (\<lambda>paths.
     rbind (first_found env repo commit paths) (\<lambda>found.
       case found of
         None \<Rightarrow> Inl (not_found env ''requirements.txt'' paths repo commit)
       | Some (req_path, text) \<Rightarrow>
           let req_dir = join ''/'' (butlast (split_on ''/'' req_path)) in
           rbind (requirement_lines env repo commit req_dir (split_on [newline] text) ([], []))
             (\<lambda>(original, additional).
                Inr (join [newline] (additional @ [join [newline] original])))))"

definition replace_requirement :: "string \<times> string option \<Rightarrow> string \<Rightarrow> string" where
  "replace_requirement = (\<lambda>(pkg, replacement) text.
     case replacement of
       None \<Rightarrow>
         re_sub (cat [Bol True, Lit pkg, Grp 1 (version_spec ''<>=!~''), Opt (Lit [newline])]) [] text
     | Some new \<Rightarrow> re_sub (cat [Bol True, Lit pkg, Grp 1 (version_spec ''<>=!~'')]) new text)"

definition clean_requirements :: "string \<Rightarrow> string" where
  "clean_requirements text = fold replace_requirement REPLACE_REQ_PACKAGES text"

definition get_requirements :: "ts_env \<Rightarrow> dataset_instance \<Rightarrow> exc + string" where
  "get_requirements env inst =
     rbind (get_requirements_by_commit env (di_repo inst) (setup_commit inst)) (\<lambda>s.
       Inr (clean_requirements s))"

section \<open>\<open>python.py\<close>: the tests of an instance\<close>

definition NON_TEST_EXTS :: "string list" where
  "NON_TEST_EXTS = [''.json'', ''.png'', ''csv'', ''.txt'', ''.md'', ''.jpg'', ''.jpeg'', ''.pkl'',
     ''.yml'', ''.yaml'', ''.toml'']"

text \<open>\<open>diff --git a/.* b/(.*)\<close>.\<close>

definition diff_pat :: re where
  "diff_pat = cat [Lit ''diff --git a/'', star Dot, Lit '' b/'', Grp 1 (star Dot)]"

definition django_directive :: "string \<Rightarrow> string" where
  "django_directive d =
     replace (removeprefix (removesuffix d ''.py'') ''tests/'') ''/'' ''.''"

definition get_test_directives :: "dataset_instance \<Rightarrow> string list" where
  "get_test_directives inst =
     (if di_repo inst = ''swe-bench/humaneval'' then [''test.py'']
      else
        let directives = filter (\<lambda>d. \<not> list_ex (endswith d) NON_TEST_EXTS)
              (map (\<lambda>(s, m). grp m 1) (finditer diff_pat (di_test_patch inst)))
        in if di_repo inst = ''django/django'' then map django_directive directives else directives)"

section \<open>\<open>python.py\<close>: the scripts\<close>

definition make_repo_script_list_py ::
    "ts_env \<Rightarrow> dict \<Rightarrow> string \<Rightarrow> string \<Rightarrow> string \<Rightarrow> string \<Rightarrow> exc + json list" where
  \<open>make_repo_script_list_py env specs repo repo_directory base_commit env_name =
     (let branch = (case map_of (te_branches env) repo of
            None \<Rightarrow> []
          | Some m \<Rightarrow> (case map_of m base_commit of None \<Rightarrow> [] | Some b \<Rightarrow> b));
          branch = (if branch \<noteq> [] then ''--branch '' @ branch else []);
          setup_commands = lines_of
            [''git clone -o origin '' @ branch @ '' --single-branch https://github.com/'' @ repo @ '' ''
               @ repo_directory,
             ''chmod -R 777 '' @ repo_directory,
             ''cd '' @ repo_directory,
             ''git reset --hard '' @ base_commit,
             ''git remote remove origin'',
             ''TARGET_TIMESTAMP=$(git show -s --format=%ci '' @ base_commit @ '')'',
             ''git tag -l | while read tag; do TAG_COMMIT=$(git rev-list -n 1 "$tag"); TAG_TIME=$(git show -s --format=%ci "$TAG_COMMIT"); if [[ "$TAG_TIME" > "$TARGET_TIMESTAMP" ]]; then git tag -d "$tag"; fi; done'',
             ''git reflog expire --expire=now --all'',
             ''git gc --prune=now --aggressive'',
             ''AFTER_TIMESTAMP=$(date -d "$TARGET_TIMESTAMP + 1 second" '' @ quote # ''+%Y-%m-%d %H:%M:%S''
               @ quote # '')'',
             ''COMMIT_COUNT=$(git log --oneline --all --since="$AFTER_TIMESTAMP" | wc -l)'',
             ''[ "$COMMIT_COUNT" -eq 0 ] || exit 1'',
             ''source /opt/miniconda3/bin/activate'',
             ''conda activate '' @ env_name,
             ''echo "Current environment: $CONDA_DEFAULT_ENV"''];
          setup_commands = (case map_of (te_install env) repo of
            Some c \<Rightarrow> setup_commands @ [c] | None \<Rightarrow> setup_commands)
      in
      rbind (extend_by specs ''pre_install'' setup_commands) (\<lambda>cmds.
      rbind (if has_key ''install'' specs then rbind (sub specs ''install'') (\<lambda>c. Inr (cmds @ [c]))
             else Inr cmds) (\<lambda>cmds.
        Inr (cmds @ lines_of
          [''git config --global user.email setup@swebench.config'',
           ''git config --global user.name SWE-bench'',
           ''git commit --allow-empty -am SWE-bench'']))))\<close>

definition ENV_HEREDOC_DELIMITER :: string where "ENV_HEREDOC_DELIMITER = ''EOF_59812759871''"

text \<open>\<open>cat <<'D' > path\<close>, the text, \<open>D\<close>.\<close>

definition write_file_command :: "string \<Rightarrow> string \<Rightarrow> string" where
  "write_file_command path body =
     ''cat <<'' @ quote # ENV_HEREDOC_DELIMITER @ quote # '' > '' @ path @ newline # body
       @ newline # ENV_HEREDOC_DELIMITER"

definition make_env_script_list_py_from_conda :: "string \<Rightarrow> string \<Rightarrow> json list" where
  "make_env_script_list_py_from_conda env_name cached_environment_yml = lines_of
     [''source /opt/miniconda3/bin/activate'',
      write_file_command ''/root/environment.yml'' cached_environment_yml,
      ''conda env create -f /root/environment.yml'',
      ''conda activate '' @ env_name]"

text \<open>The commands that create the environment, for each kind of \<open>specs["packages"]\<close>.\<close>

definition create_env_commands ::
    "ts_env \<Rightarrow> dataset_instance \<Rightarrow> dict \<Rightarrow> string \<Rightarrow> exc + string list" where
  "create_env_commands env inst specs env_name =
     (let pkgs = get_key specs ''packages'' (JStr []);
          python = rbind (sub specs ''python'') (\<lambda>v. Inr (py_str (te_float env) v))
      in
      if pkgs = JStr ''requirements.txt'' then
        let path_to_reqs = ''$HOME/requirements.txt'' in
        rbind python (\<lambda>version. rbind (get_requirements env inst) (\<lambda>reqs.
          Inr [''conda create -n '' @ env_name @ '' python='' @ version @ '' -y'',
               write_file_command path_to_reqs reqs,
               ''conda activate '' @ env_name @ '' && python -m pip install -r '' @ path_to_reqs,
               ''rm '' @ path_to_reqs]))
      else if pkgs = JStr ''environment.yml'' then
        let path_to_reqs = ''environment.yml'' in
        rbind (get_environment_yml env inst env_name) (\<lambda>reqs. rbind python (\<lambda>version.
          Inr (write_file_command path_to_reqs reqs
               # (if json_truthy (get_key specs ''no_use_env'' (JBool False))
                  then [''conda create -c conda-forge -n '' @ env_name @ '' python='' @ version @ '' -y'',
                        ''conda env update -f '' @ path_to_reqs]
                  else [''conda env create --file '' @ path_to_reqs,
                        ''conda activate '' @ env_name @ '' && conda install python='' @ version @ '' -y''])
               @ [''rm '' @ path_to_reqs])))
      else
        rbind python (\<lambda>version.
          Inr [''conda create -n '' @ env_name @ '' python='' @ version @ '' ''
                 @ py_str (te_float env) pkgs @ '' -y'']))"

definition make_uncached_env_script ::
    "ts_env \<Rightarrow> dataset_instance \<Rightarrow> dict \<Rightarrow> string \<Rightarrow> exc + json list" where
  "make_uncached_env_script env inst specs env_name =
     rbind (create_env_commands env inst specs env_name) (\<lambda>create.
     let cmds = lines_of (''source /opt/miniconda3/bin/activate'' # create
                  @ [''conda activate '' @ env_name]) in
     if has_key ''pip_packages'' specs then
       rbind (sub specs ''pip_packages'') (\<lambda>v. rbind (py_iter v) (\<lambda>vs.
       rbind (join_values '' '' vs) (\<lambda>pip_packages.
         Inr (cmds @ [JStr (''python -m pip install '' @ pip_packages)]))))
     else Inr cmds)"

definition make_env_script_list_py ::
    "ts_env \<Rightarrow> dataset_instance \<Rightarrow> dict \<Rightarrow> string \<Rightarrow> exc + json list" where
  "make_env_script_list_py env inst specs env_name =
     rbind (load_cached_environment_yml env (di_instance_id inst)) (\<lambda>cached.
       case cached of
         Some yml \<Rightarrow>
           if yml \<noteq> [] then Inr (make_env_script_list_py_from_conda env_name yml)
           else make_uncached_env_script env inst specs env_name
       | None \<Rightarrow> make_uncached_env_script env inst specs env_name)"

section \<open>\<open>python.py\<close>: running the tests\<close>

text \<open>Characters outside Latin-1 are written as their UTF-8 bytes.\<close>

definition astropy_8707_command :: string where
  \<open>astropy_8707_command =
     ''pip install pytest==6.2.5''\<close>

definition astropy_8872_command :: string where
  \<open>astropy_8872_command =
     ''sed -i.bak -e '' @ [CHR 0x27] @ ''s/from distutils.version import LooseVersion/from packaging.version import Version/'' @ [CHR 0x27] @ '' -e '' @ [CHR 0x27] @ ''s/LooseVersion(/Version(/g'' @ [CHR 0x27] @ '' astropy/units/tests/test_quantity.py''\<close>

definition requests_2317_command :: string where
  \<open>requests_2317_command =
     join [newline]
      [[],
       ''python - <<'' @ [CHR 0x27] @ ''PY'' @ [CHR 0x27],
       ''from pathlib import Path'',
       ''nl = chr(10)'',
       ''p = Path("test_requests.py")'',
       ''text = p.read_text()'',
       [],
       ''# 1) '' @ [CHR 0xE8, CHR 0xA1, CHR 0xA5, CHR 0xE5, CHR 0x85, CHR 0x85] @ '' http.client import'',
       ''text = text.replace("import io"+nl+"import requests"+nl+"import pytest"+nl+"",'',
       ''                    "import http.client"+nl+"import io"+nl+"import requests"+nl+"import pytest"+nl+"")'',
       [],
       ''# 2) '' @ [CHR 0xE5, CHR 0x9C, CHR 0xA8] @ '' u '' @ [CHR 0xE5, CHR 0x87, CHR 0xBD, CHR 0xE6, CHR 0x95, CHR 0xB0, CHR 0xE5, CHR 0x90, CHR 0x8E, CHR 0xE6, CHR 0x8F, CHR 0x92, CHR 0xE5, CHR 0x85, CHR 0xA5, CHR 0xE5, CHR 0x85, CHR 0xBC, CHR 0xE5, CHR 0xAE, CHR 0xB9, CHR 0xE8, CHR 0xA1, CHR 0xA5, CHR 0xE4, CHR 0xB8, CHR 0x81],
       ''shim = """# Compat shim: vendored urllib3 in requests 2.4.3 calls getresponse(buffering=True),'',
       ''# but http.client.HTTPConnection on Py3 does not accept that keyword.'',
       ''from requests.packages.urllib3.connection import HTTPConnection as _Urllib3HTTPConnection'',
       [],
       ''def _compat_getresponse(self, *args, **kwargs):'',
       ''    kwargs.pop("buffering", None)'',
       ''    return http.client.HTTPConnection.getresponse(self, *args, **kwargs)'',
       [],
       ''_Urllib3HTTPConnection.getresponse = _compat_getresponse'',
       [],
       ''"""'',
       ''needle = "    def u(s):"+nl+"        return s.decode('' @ [CHR 0x27] @ ''unicode-escape'' @ [CHR 0x27] @ '')"+nl+""+nl+""'',
       ''if shim not in text:'',
       ''    text = text.replace(needle, needle + shim)'',
       [],
       ''# 3) '' @ [CHR 0xE5, CHR 0xA4, CHR 0x96, CHR 0xE5, CHR 0x9F, CHR 0x9F, CHR 0xE9, CHR 0x87, CHR 0x8D, CHR 0xE5, CHR 0xAE, CHR 0x9A, CHR 0xE5, CHR 0x90, CHR 0x91, CHR 0xE6, CHR 0x94, CHR 0xB9, CHR 0xE4, CHR 0xB8, CHR 0xBA] @ '' example.com'',
       ''text = text.replace("params={'' @ [CHR 0x27] @ ''url'' @ [CHR 0x27] @ '': '' @ [CHR 0x27] @ ''http://www.google.co.uk'' @ [CHR 0x27] @ ''},",'',
       ''                    "params={'' @ [CHR 0x27] @ ''url'' @ [CHR 0x27] @ '': '' @ [CHR 0x27] @ ''http://example.com/'' @ [CHR 0x27] @ ''},", 1)'',
       [],
       ''# 4) history '' @ [CHR 0xE7, CHR 0x94, CHR 0xA8] @ '' httpbin '' @ [CHR 0xE5, CHR 0xB9, CHR 0xB6, CHR 0xE6, CHR 0x96, CHR 0xAD, CHR 0xE8, CHR 0xA8, CHR 0x80, CHR 0xE9, CHR 0x95, CHR 0xBF, CHR 0xE5, CHR 0xBA, CHR 0xA6],
       ''text = text.replace("r = requests.get('' @ [CHR 0x27] @ ''https://httpbin.org/redirect/5'' @ [CHR 0x27] @ '')",'',
       ''                    "r = requests.get(httpbin('' @ [CHR 0x27] @ ''redirect'' @ [CHR 0x27] @ '', '' @ [CHR 0x27] @ ''5'' @ [CHR 0x27] @ ''))")'',
       ''text = text.replace("total = r.history[-1].history",'',
       ''                    "assert len(r.history) == 5"+nl+"        total = r.history[-1].history", 1)'',
       [],
       ''p.write_text(text)'',
       ''PY'',
       []]\<close>

definition FIXED_COMMANDS :: "(string \<times> string) list" where
  "FIXED_COMMANDS =
     [(''astropy__astropy-8707'', astropy_8707_command),
      (''astropy__astropy-8872'', astropy_8872_command),
      (''psf__requests-2317'', requests_2317_command)]"

text \<open>The script around \<open>fixed_patch\<close>.\<close>

definition fixed_patch_before :: string where
  \<open>fixed_patch_before =
     join [newline]
      [[],
       ''pip install certifi'',
       ''python - << '' @ [CHR 0x27] @ ''PYEOF'' @ [CHR 0x27],
       ''from pathlib import Path'',
       ''path = Path("test_requests.py")'',
       ''text = path.read_text()'',
       ''marker = "from __future__ import division"'',
       ''patch = """'']\<close>

definition fixed_patch_after :: string where
  \<open>fixed_patch_after =
     join [newline]
      [''"""'',
       ''if marker not in text:'',
       ''    raise SystemExit("'' @ [CHR 0xE6, CHR 0xB2, CHR 0xA1, CHR 0xE5, CHR 0x9C, CHR 0xA8, CHR 0xE6, CHR 0x96, CHR 0x87, CHR 0xE4, CHR 0xBB, CHR 0xB6, CHR 0xE9, CHR 0x87, CHR 0x8C, CHR 0xE6, CHR 0x89, CHR 0xBE, CHR 0xE5, CHR 0x88, CHR 0xB0] @ '' '' @ [CHR 0x27] @ ''from __future__ import division'' @ [CHR 0x27] @ '' '' @ [CHR 0xE8, CHR 0xBF, CHR 0x99, CHR 0xE4, CHR 0xB8, CHR 0x80, CHR 0xE8, CHR 0xA1, CHR 0x8C, CHR 0xEF, CHR 0xBC, CHR 0x8C, CHR 0xE8, CHR 0x84, CHR 0x9A, CHR 0xE6, CHR 0x9C, CHR 0xAC, CHR 0xE6, CHR 0xB2, CHR 0xA1, CHR 0xE6, CHR 0x94, CHR 0xB9, CHR 0xE4, CHR 0xBB, CHR 0xBB, CHR 0xE4, CHR 0xBD, CHR 0x95, CHR 0xE4, CHR 0xB8, CHR 0x9C, CHR 0xE8, CHR 0xA5, CHR 0xBF, CHR 0xE3, CHR 0x80, CHR 0x82] @ ''")'',
       ''# '' @ [CHR 0xE5, CHR 0x8F, CHR 0xAA, CHR 0xE6, CHR 0x9B, CHR 0xBF, CHR 0xE6, CHR 0x8D, CHR 0xA2, CHR 0xE7, CHR 0xAC, CHR 0xAC, CHR 0xE4, CHR 0xB8, CHR 0x80, CHR 0xE6, CHR 0xAC, CHR 0xA1, CHR 0xE5, CHR 0x87, CHR 0xBA, CHR 0xE7, CHR 0x8E, CHR 0xB0, CHR 0xE7, CHR 0x9A, CHR 0x84] @ '' marker'',
       ''text = text.replace(marker, patch, 1)'',
       ''path.write_text(text)'',
       ''PYEOF'',
       ''            '']\<close>

definition CUSTOM_PATCH_DELIMITER :: string where
  "CUSTOM_PATCH_DELIMITER = ''EOF_CUSTOM_PATCH_789''"

definition custom_patch_commands :: "ts_env \<Rightarrow> dict \<Rightarrow> string list" where
  "custom_patch_commands env specs =
     (let custom = get_key specs ''custom_test_patch'' (JStr []) in
      if json_truthy custom
      then [heredoc ''git apply -v -'' CUSTOM_PATCH_DELIMITER (py_str (te_float env) custom)]
      else [])"

definition fixed_patch_commands :: "ts_env \<Rightarrow> dataset_instance \<Rightarrow> dict \<Rightarrow> string list" where
  "fixed_patch_commands env inst specs =
     (let fixed = get_key specs ''fixed_patch'' (JStr []) in
      (if json_truthy fixed
       then [fixed_patch_before @ py_str (te_float env) fixed @ fixed_patch_after] else [])
      @ map snd (filter (\<lambda>(i, c). i = di_instance_id inst) FIXED_COMMANDS))"

definition django_10097_commands :: "string list" where
  "django_10097_commands =
     [''DJANGO_SKIP_GENERIC_INLINE_ADMIN=1 && ./tests/runtests.py --verbosity 2 --settings=test_sqlite --parallel 1'',
      ''DJANGO_SKIP_GENERIC_INLINE_ADMIN= && ./tests/runtests.py --verbosity 2 --settings=test_sqlite --parallel 1 generic_inline_admin.tests '']"

definition make_eval_script_list_py ::
    "ts_env \<Rightarrow> dataset_instance \<Rightarrow> dict \<Rightarrow> string \<Rightarrow> string \<Rightarrow> string \<Rightarrow> string \<Rightarrow> exc + json list" where
  "make_eval_script_list_py env inst specs env_name repo_directory base_commit test_patch =
     rbind (get_modified_files env test_patch) (\<lambda>test_files.
     let reset_tests_command = ''git checkout '' @ base_commit @ '' '' @ join '' '' test_files;
         apply_test_patch_command = heredoc ''git apply -v -'' HEREDOC_DELIMITER test_patch
     in
     rbind (test_cmd_entry env inst) (\<lambda>cmd.
     rbind (join_values '' '' (cmd # lines_of (get_test_directives inst))) (\<lambda>test_command.
     rbind (extend_by specs ''eval_commands'' (lines_of
       [''source /opt/miniconda3/bin/activate'',
        ''conda activate '' @ env_name,
        ''cd '' @ repo_directory])) (\<lambda>cmds.
     let cmds = cmds @ lines_of
           [''git config --global --add safe.directory '' @ repo_directory,
            ''cd '' @ repo_directory,
            ''git status'',
            ''git show'',
            ''git -c core.fileMode=false diff '' @ base_commit,
            ''source /opt/miniconda3/bin/activate'',
            ''conda activate '' @ env_name]
     in
     rbind (if has_key ''install'' specs then rbind (sub specs ''install'') (\<lambda>c. Inr (cmds @ [c]))
            else Inr cmds) (\<lambda>cmds.
       Inr (cmds
            @ lines_of ([reset_tests_command, apply_test_patch_command]
                @ custom_patch_commands env specs @ fixed_patch_commands env inst specs
                @ [start_marker]
                @ (if di_instance_id inst = ''django__django-10097'' then django_10097_commands
                   else [test_command])
                @ [end_marker, reset_tests_command])))))))"

end
