(* ===== verification/Test_Spec.thy ===== *)
theory Test_Spec
  imports Test_Spec_Python
begin

text \<open>
  \<open>SWE-bench/swebench/harness/test_spec/javascript.py\<close>, \<open>create_scripts.py\<close> and \<open>test_spec.py\<close>: the
  choice of the scripts by language, the \<open>TestSpec\<close> of an instance, its scripts as texts and the
  names of its images and of its container.
\<close>

section \<open>\<open>javascript.py\<close>\<close>

text \<open>\<open>__snapshots__/(.*).js.snap$\<close>.\<close>

definition snapshot_pat :: re where
  "snapshot_pat = cat [Lit ''__snapshots__/'', Grp 1 (star Dot), Cl Dot, Lit ''js'', Cl Dot, Lit ''snap'',
     Eol False]"

definition jest_config_js_versions :: "string list" where
  "jest_config_js_versions =
     [''10.10.0'', ''10.12.0'', ''10.13.0'', ''10.14.0'', ''10.15.2'', ''10.16.3'']"

definition jest_config_json_versions :: "string list" where
  "jest_config_json_versions =
     [''6.11.5'', ''8.9.1'', ''8.9.3'', ''8.9.4'', ''8.11.0'', ''8.11.2'', ''10.4.1'', ''10.5.0'', ''10.6.0'',
      ''10.9.0'']"

definition calypso_test_path :: "string \<Rightarrow> string" where
  "calypso_test_path test_path =
     (if re_search snapshot_pat test_path \<noteq> None
      then join ''/'' (slice_to (- 2) (split_on ''/'' test_path)) else test_path)"

definition calypso_cmds :: "dataset_instance \<Rightarrow> string \<Rightarrow> exc + string list" where
  "calypso_cmds inst path =
     (let test_path = calypso_test_path path in
      if list_ex (startswith test_path) [''client'', ''packages''] then
        rbind (index (split_on ''/'' test_path) 0) (\<lambda>pkg.
        rbind (version_of inst) (\<lambda>version.
          Inr [if version \<in> set jest_config_js_versions
               then ''./node_modules/.bin/jest --verbose -c=test/'' @ pkg @ ''/jest.config.js ''
                      @ quote # test_path @ [quote]
               else if version \<in> set jest_config_json_versions
               then ''./node_modules/.bin/jest --verbose -c=test/'' @ pkg @ ''/jest.config.json ''
                      @ quote # test_path @ [quote]
               else ''npm run test-'' @ pkg @ '' --verbose '' @ quote # test_path @ [quote]]))
      else if startswith test_path ''test/e2e'' then
        Inr [''cd test/e2e'', ''NODE_CONFIG_ENV=test npm run test '' @ test_path, ''cd ../..'']
      else Inr [])"

definition get_test_cmds_calypso :: "ts_env \<Rightarrow> dataset_instance \<Rightarrow> exc + string list" where
  "get_test_cmds_calypso env inst =
     rbind (te_patch_set env (di_test_patch inst)) (\<lambda>files.
     rbind (mapE (calypso_cmds inst) (map snd files)) (\<lambda>cmds. Inr (concat cmds)))"

text \<open>\<open>str(Path(p).parent)\<close>.\<close>

definition path_parent :: "string \<Rightarrow> string" where
  "path_parent p =
     (let root = (if startswith p ''//'' \<and> \<not> startswith p ''///'' then ''//''
                  else if startswith p ''/'' then ''/'' else []);
          parts = butlast (filter (\<lambda>x. x \<noteq> [] \<and> x \<noteq> ''.'') (split_on ''/'' p))
      in if root = [] \<and> parts = [] then ''.'' else root @ join ''/'' parts)"

definition download_commands :: "ts_env \<Rightarrow> json \<Rightarrow> exc + string list" where
  "download_commands env i =
     rbind (item i ''path'') (\<lambda>p. rbind (str_of p) (\<lambda>path. rbind (item i ''url'') (\<lambda>url.
       Inr [''mkdir -p '' @ path_parent path,
            ''curl -o '' @ path @ '' '' @ py_str (te_float env) url,
            ''chmod 777 '' @ path])))"

definition get_download_img_commands :: "ts_env \<Rightarrow> dataset_instance \<Rightarrow> exc + string list" where
  "get_download_img_commands env inst =
     rbind (case di_image_assets inst of
              None \<Rightarrow> Inr (JObj [])
            | Some (JStr s) \<Rightarrow> te_loads env s
            | Some v \<Rightarrow> Inr v) (\<lambda>image_assets.
     rbind (get_item image_assets ''test_patch'' (JList [])) (\<lambda>v.
     rbind (py_iter v) (\<lambda>images.
     rbind (mapE (download_commands env) images) (\<lambda>cmds. Inr (concat cmds)))))"

text \<open>\<open>MAP_REPO_TO_TEST_CMDS\<close>.\<close>

definition custom_test_cmds :: "ts_env \<Rightarrow> dataset_instance \<Rightarrow> (exc + string list) option" where
  "custom_test_cmds env inst =
     (if di_repo inst = ''Automattic/wp-calypso'' then Some (get_test_cmds_calypso env inst) else None)"

text \<open>\<open>xs.index(v)\<close>.\<close>

definition position_of :: "json \<Rightarrow> json list \<Rightarrow> exc + nat" where
  "position_of v xs =
     (case first_index (\<lambda>x. py_eq x v) xs of
        Some i \<Rightarrow> Inr i
      | None \<Rightarrow> Inl (ValueError ''not in list''))"

text \<open>\<open>xs[i:j] = ys\<close> for indices that are not negative.\<close>

definition set_slice_to :: "nat \<Rightarrow> nat \<Rightarrow> 'a list \<Rightarrow> 'a list \<Rightarrow> 'a list" where
  "set_slice_to i j ys xs = take i xs @ ys @ drop (max i j) xs"

definition make_eval_script_list_js ::
    "ts_env \<Rightarrow> dataset_instance \<Rightarrow> dict \<Rightarrow> string \<Rightarrow> string \<Rightarrow> string \<Rightarrow> string \<Rightarrow> exc + json list" where
  "make_eval_script_list_js env inst specs env_name repo_directory base_commit test_patch =
     rbind (make_eval_script_list_common env inst specs env_name repo_directory base_commit test_patch)
       (\<lambda>eval_commands.
     rbind (get_download_img_commands env inst) (\<lambda>images.
     let eval_commands = set_slice_to 4 4 (lines_of images) eval_commands in
     case custom_test_cmds env inst of
       None \<Rightarrow> Inr eval_commands
     | Some get_cmds \<Rightarrow>
         rbind get_cmds (\<lambda>test_commands.
         rbind (position_of (JStr start_marker) eval_commands) (\<lambda>i.
         rbind (position_of (JStr end_marker) eval_commands) (\<lambda>j.
           Inr (set_slice_to (i + 1) j (lines_of test_commands) eval_commands))))))"

section \<open>\<open>create_scripts.py\<close>\<close>

definition make_repo_script_list ::
    "ts_env \<Rightarrow> dict \<Rightarrow> string \<Rightarrow> string \<Rightarrow> string \<Rightarrow> string \<Rightarrow> exc + json list" where
  "make_repo_script_list env specs repo repo_directory base_commit env_name =
     rbind (lookup (te_ext env) repo) (\<lambda>ext.
       (if ext = ''py'' then make_repo_script_list_py else make_repo_script_list_common)
         env specs repo repo_directory base_commit env_name)"

definition make_env_script_list ::
    "ts_env \<Rightarrow> dataset_instance \<Rightarrow> dict \<Rightarrow> string \<Rightarrow> exc + json list" where
  "make_env_script_list env inst specs env_name =
     rbind (lookup (te_ext env) (di_repo inst)) (\<lambda>ext.
       (if ext = ''py'' then make_env_script_list_py else make_env_script_list_common)
         env inst specs env_name)"

definition make_eval_script_list ::
    "ts_env \<Rightarrow> dataset_instance \<Rightarrow> dict \<Rightarrow> string \<Rightarrow> string \<Rightarrow> string \<Rightarrow> string \<Rightarrow> exc + json list" where
  "make_eval_script_list env inst specs env_name repo_directory base_commit test_patch =
     rbind (lookup (te_ext env) (di_repo inst)) (\<lambda>ext.
       (if ext = ''js'' then make_eval_script_list_js
        else if ext = ''py'' then make_eval_script_list_py
        else make_eval_script_list_common)
         env inst specs env_name repo_directory base_commit test_patch)"

section \<open>\<open>test_spec.py\<close>\<close>

definition LATEST :: string where "LATEST = ''latest''"

record TestSpec =
  sp_instance_id :: string
  sp_repo :: string
  sp_version :: string
  sp_repo_script_list :: "json list"
  sp_eval_script_list :: "json list"
  sp_env_script_list :: "json list"
  sp_arch :: string
  sp_FAIL_TO_PASS :: json
  sp_PASS_TO_PASS :: json
  sp_language :: string
  sp_docker_specs :: json
  sp_namespace :: "string option"
  sp_base_image_tag :: string
  sp_env_image_tag :: string
  sp_instance_image_tag :: string

text \<open>\<open>"\<close>\<open>\n\<close>\<open>".join(header + script_list) + "\<close>\<open>\n\<close>\<open>"\<close>.\<close>

definition script_text :: "string list \<Rightarrow> json list \<Rightarrow> exc + string" where
  "script_text header cmds =
     rbind (join_values [newline] (lines_of header @ cmds)) (\<lambda>s. Inr (s @ [newline]))"

definition setup_env_script :: "TestSpec \<Rightarrow> exc + string" where
  "setup_env_script spec =
     script_text [''#!/bin/bash'', ''set -euxo pipefail''] (sp_env_script_list spec)"

definition eval_script_header :: "string list" where
  \<open>eval_script_header =
     [''#!/bin/bash'', ''set -uxo pipefail'', ''export HTTPBIN_URL="https://httpbin-new.opensii.ai/"'']\<close>

definition eval_script :: "TestSpec \<Rightarrow> exc + string" where
  "eval_script spec = script_text eval_script_header (sp_eval_script_list spec)"

definition install_repo_script :: "TestSpec \<Rightarrow> exc + string" where
  "install_repo_script spec =
     script_text [''#!/bin/bash'', ''set -euxo pipefail''] (sp_repo_script_list spec)"

definition base_image_key :: "ts_env \<Rightarrow> TestSpec \<Rightarrow> exc + string" where
  "base_image_key env spec =
     rbind (lookup (te_ext env) (sp_repo spec)) (\<lambda>ext.
       Inr (''sweb.base.'' @ ext @ ''.'' @ sp_arch spec
         @ (if sp_docker_specs spec \<noteq> JObj []
            then CHR ''.'' # take 10 (te_sha256 env (py_str (te_float env) (sp_docker_specs spec)))
            else [])
         @ CHR '':'' # sp_base_image_tag spec))"

definition env_image_key :: "ts_env \<Rightarrow> TestSpec \<Rightarrow> exc + string" where
  "env_image_key env spec =
     (let hash_key = repr_json (te_float env) (JList (sp_env_script_list spec))
            @ (if sp_docker_specs spec \<noteq> JObj [] then py_str (te_float env) (sp_docker_specs spec)
               else [])
      in rbind (lookup (te_ext env) (sp_repo spec)) (\<lambda>ext.
           Inr (''sweb.env.'' @ ext @ ''.'' @ sp_arch spec @ CHR ''.'' # take 22 (te_sha256 env hash_key)
             @ CHR '':'' # sp_env_image_tag spec)))"

definition is_remote_image :: "TestSpec \<Rightarrow> bool" where
  "is_remote_image spec \<longleftrightarrow> sp_namespace spec \<noteq> None"

definition instance_image_key :: "TestSpec \<Rightarrow> string" where
  "instance_image_key spec =
     (let key = ''sweb.eval.'' @ sp_arch spec @ ''.'' @ lower (sp_instance_id spec)
            @ CHR '':'' # sp_instance_image_tag spec
      in case sp_namespace spec of
           Some ns \<Rightarrow> replace (ns @ ''/'' @ key) ''__'' ''_1776_''
         | None \<Rightarrow> key)"

definition get_instance_container_name :: "TestSpec \<Rightarrow> string option \<Rightarrow> string" where
  "get_instance_container_name spec run_id =
     (if run_id = None \<or> run_id = Some [] then ''sweb.eval.'' @ sp_instance_id spec
      else ''sweb.eval.'' @ lower (sp_instance_id spec) @ ''.'' @ the run_id)"

definition platform :: "TestSpec \<Rightarrow> exc + string" where
  "platform spec =
     (if sp_arch spec = ''x86_64'' then Inr ''linux/x86_64''
      else if sp_arch spec = ''arm64'' then Inr ''linux/arm64/v8''
      else Inl (ValueError (''Invalid architecture: '' @ sp_arch spec)))"

definition from_json_or_obj :: "ts_env \<Rightarrow> json option \<Rightarrow> exc + json" where
  "from_json_or_obj env v =
     (case v of None \<Rightarrow> Inr (JList []) | Some (JStr s) \<Rightarrow> te_loads env s | Some w \<Rightarrow> Inr w)"

text \<open>The tags of the images, \<open>None\<close> where the caller passes \<open>None\<close>.\<close>

record image_tags =
  base_tag :: "string option"
  env_tag :: "string option"
  instance_tag :: "string option"

definition latest_tags :: image_tags where
  "latest_tags = \<lparr>base_tag = Some LATEST, env_tag = Some LATEST, instance_tag = Some LATEST\<rparr>"

definition make_spec_of ::
    "ts_env \<Rightarrow> dataset_instance \<Rightarrow> string option \<Rightarrow> string \<Rightarrow> string \<Rightarrow> string \<Rightarrow> string \<Rightarrow> exc + TestSpec" where
  "make_spec_of env inst namespace btag etag itag arch =
     rbind (from_json_or_obj env (di_pass_to_pass inst)) (\<lambda>pass_to_pass.
     rbind (from_json_or_obj env (di_fail_to_pass inst)) (\<lambda>fail_to_pass.
     let env_name = ''testbed''; repo_directory = ''/'' @ env_name; repo = di_repo inst in
     rbind (lookup (te_specs env) repo) (\<lambda>versions.
     rbind (version_of inst) (\<lambda>version.
     rbind (lookup versions version) (\<lambda>specs.
     rbind (make_repo_script_list env specs repo repo_directory (di_base_commit inst) env_name)
       (\<lambda>repo_script_list.
     rbind (make_env_script_list env inst specs env_name) (\<lambda>env_script_list.
     rbind (make_eval_script_list env inst specs env_name repo_directory (di_base_commit inst)
              (di_test_patch inst)) (\<lambda>eval_script_list.
     rbind (lookup (te_ext env) repo) (\<lambda>language.
       Inr \<lparr>sp_instance_id = di_instance_id inst, sp_repo = repo, sp_version = version,
            sp_repo_script_list = repo_script_list, sp_eval_script_list = eval_script_list,
            sp_env_script_list = env_script_list, sp_arch = arch, sp_FAIL_TO_PASS = fail_to_pass,
            sp_PASS_TO_PASS = pass_to_pass, sp_language = language,
            sp_docker_specs = get_key specs ''docker_specs'' (JObj []), sp_namespace = namespace,
            sp_base_image_tag = btag, sp_env_image_tag = etag,
            sp_instance_image_tag = itag\<rparr>)))))))))"

text \<open>An entry of a dataset is an instance or a specification made before.\<close>

definition make_test_spec ::
    "ts_env \<Rightarrow> dataset_instance + TestSpec \<Rightarrow> string option \<Rightarrow> image_tags \<Rightarrow> string \<Rightarrow> exc + TestSpec" where
  "make_test_spec env entry namespace tags arch =
     (case entry of
        Inr spec \<Rightarrow> Inr spec
      | Inl inst \<Rightarrow>
          (case (base_tag tags, env_tag tags, instance_tag tags) of
             (Some b, Some e, Some i) \<Rightarrow> make_spec_of env inst namespace b e i arch
           | _ \<Rightarrow> Inl AssertionError))"

text \<open>
  The call inside passes the tags by position: the tag of the instance image stands where the tag of
  the base image is expected.
\<close>

definition get_test_specs_from_dataset ::
    "ts_env \<Rightarrow> dataset_instance list + TestSpec list \<Rightarrow> string option \<Rightarrow> string option \<Rightarrow>
     string option \<Rightarrow> exc + TestSpec list" where
  "get_test_specs_from_dataset env dataset namespace instance_image_tag env_image_tag =
     (case dataset of
        Inr specs \<Rightarrow> rbind (index specs 0) (\<lambda>first. Inr specs)
      | Inl insts \<Rightarrow> rbind (index insts 0) (\<lambda>first.
          mapE (\<lambda>x. make_test_spec env (Inl x) namespace
                 \<lparr>base_tag = instance_image_tag, env_tag = env_image_tag,
                   instance_tag = Some LATEST\<rparr> ''x86_64'') insts))"

end
