(* ===== verification/Test_Spec_Correct.thy ===== *)
theory Test_Spec_Correct
  imports Test_Spec
begin

text \<open>
  The evaluation script from the side of the shell that reads it: the commands with their here
  documents, the log of a run, and where the output of the tests stands in it.
\<close>

section \<open>Reading a script\<close>

text \<open>
  The delimiter of the here document that a line opens: the word after \<open><<\<close>, in quotes or not.
  Here strings (\<open><<<\<close>) open none; \<open><<-\<close> is not covered.
\<close>

definition heredoc_delim :: "string \<Rightarrow> string option" where
  "heredoc_delim line =
     (case cut ''<<'' line of
        None \<Rightarrow> None
      | Some (a, b) \<Rightarrow>
          (case dropWhile (\<lambda>c. c = CHR '' '') b of
             [] \<Rightarrow> None
           | c # r \<Rightarrow>
               if c = CHR ''<'' then None
               else if c = quote \<or> c = CHR 0x22 then map_option fst (cut [c] r)
               else Some (takeWhile (\<lambda>c. \<not> is_space c) (c # r))))"

text \<open>The commands of a script: a line with the lines of its here document.\<close>

type_synonym command = "string \<times> string list"

function read_script :: "string list \<Rightarrow> command list" where
  "read_script [] = []"
| "read_script (l # ls) =
     (case heredoc_delim l of
        None \<Rightarrow> (l, []) # read_script ls
      | Some d \<Rightarrow>
          (l, takeWhile (\<lambda>x. x \<noteq> d) ls) # read_script (drop 1 (dropWhile (\<lambda>x. x \<noteq> d) ls)))"
  by pat_completeness auto
termination
  by (relation "measure length") (auto simp: less_Suc_eq_le intro: le_trans [OF diff_le_self length_dropWhile_le])

declare read_script.simps(2) [simp del]

text \<open>Every here document of the lines is closed in them.\<close>

function closed_lines :: "string list \<Rightarrow> bool" where
  "closed_lines [] = True"
| "closed_lines (l # ls) =
     (case heredoc_delim l of
        None \<Rightarrow> closed_lines ls
      | Some d \<Rightarrow> d \<in> set ls \<and> closed_lines (drop 1 (dropWhile (\<lambda>x. x \<noteq> d) ls)))"
  by pat_completeness auto
termination
  by (relation "measure length") (auto simp: less_Suc_eq_le intro: le_trans [OF diff_le_self length_dropWhile_le])

declare closed_lines.simps(2) [simp del]

lemma read_script_append:
  "closed_lines xs \<Longrightarrow> read_script (xs @ ys) = read_script xs @ read_script ys"
proof (induction xs rule: closed_lines.induct)
  case (2 l ls)
  show ?case
  proof (cases "heredoc_delim l")
    case None
    with 2 show ?thesis by (simp add: read_script.simps(2) closed_lines.simps(2))
  next
    case (Some d)
    with "2.prems" have d: "d \<in> set ls" and c: "closed_lines (drop 1 (dropWhile (\<lambda>x. x \<noteq> d) ls))"
      by (simp_all add: closed_lines.simps(2))
    from d have "takeWhile (\<lambda>x. x \<noteq> d) (ls @ ys) = takeWhile (\<lambda>x. x \<noteq> d) ls"
      and "dropWhile (\<lambda>x. x \<noteq> d) (ls @ ys) = dropWhile (\<lambda>x. x \<noteq> d) ls @ ys"
      and "dropWhile (\<lambda>x. x \<noteq> d) ls \<noteq> []"
      by (auto simp: dropWhile_eq_Nil_conv)
    with "2.IH"(2) [OF Some c] Some show ?thesis
      by (cases "dropWhile (\<lambda>x. x \<noteq> d) ls") (simp_all add: read_script.simps(2))
  qed
qed simp

lemma closed_lines_append: "closed_lines xs \<Longrightarrow> closed_lines ys \<Longrightarrow> closed_lines (xs @ ys)"
proof (induction xs rule: closed_lines.induct)
  case (2 l ls)
  show ?case
  proof (cases "heredoc_delim l")
    case None
    with 2 show ?thesis by (simp add: closed_lines.simps(2))
  next
    case (Some d)
    with "2.prems" have d: "d \<in> set ls" and c: "closed_lines (drop 1 (dropWhile (\<lambda>x. x \<noteq> d) ls))"
      by (simp_all add: closed_lines.simps(2))
    from d have "dropWhile (\<lambda>x. x \<noteq> d) (ls @ ys) = dropWhile (\<lambda>x. x \<noteq> d) ls @ ys"
      and "dropWhile (\<lambda>x. x \<noteq> d) ls \<noteq> []"
      by (auto simp: dropWhile_eq_Nil_conv)
    with "2.IH"(2) [OF Some c "2.prems"(2)] Some d show ?thesis
      by (cases "dropWhile (\<lambda>x. x \<noteq> d) ls") (simp_all add: closed_lines.simps(2))
  qed
qed simp

text \<open>The lines of an entry of a script, which may hold line breaks itself.\<close>

abbreviation entry_lines :: "string \<Rightarrow> string list" where "entry_lines \<equiv> split_on [newline]"

abbreviation closed_entry :: "string \<Rightarrow> bool" where "closed_entry s \<equiv> closed_lines (entry_lines s)"

abbreviation commands_of :: "string list \<Rightarrow> command list" where
  "commands_of ss \<equiv> concat (map (\<lambda>s. read_script (entry_lines s)) ss)"

lemma split_join_lines: "ss \<noteq> [] \<Longrightarrow> entry_lines (join [newline] ss) = concat (map entry_lines ss)"
proof (induction ss rule: induct_list012)
  case (3 s t ss)
  then show ?case by (simp add: join_Cons split_on_char_append)
qed simp_all

lemma read_script_entries:
  assumes "\<forall>s \<in> set ss. closed_entry s"
  shows "read_script (concat (map entry_lines ss) @ ys) = commands_of ss @ read_script ys"
  using assms by (induction ss) (simp_all add: read_script_append)

section \<open>The log of a run\<close>

text \<open>
  The shell is a function: from a state and a command to the next state and what appears in the log
  meanwhile, with the trace that \<open>set -x\<close> writes.
\<close>

fun script_log :: "('s \<Rightarrow> command \<Rightarrow> 's \<times> string) \<Rightarrow> 's \<Rightarrow> command list \<Rightarrow> 's \<times> string" where
  "script_log sh s [] = (s, [])"
| "script_log sh s (c # cs) =
     (let (s1, out) = sh s c; (s2, rest) = script_log sh s1 cs in (s2, out @ rest))"

definition run_script :: "('s \<Rightarrow> command \<Rightarrow> 's \<times> string) \<Rightarrow> 's \<Rightarrow> string \<Rightarrow> string" where
  "run_script sh s text = snd (script_log sh s (read_script (entry_lines text)))"

lemma script_log_append:
  "script_log sh s (xs @ ys) =
     (let (s1, a) = script_log sh s xs; (s2, b) = script_log sh s1 ys in (s2, a @ b))"
  by (induction xs arbitrary: s) (auto split: prod.splits)

section \<open>The section of the tests\<close>

text \<open>What the trace of a marker looks like.\<close>

definition traced :: "string \<Rightarrow> string" where
  "traced marker = ''+ : '' @ quote # marker @ quote # [newline]"

lemma markers_plain:
  "entry_lines start_marker = [start_marker]" "entry_lines end_marker = [end_marker]"
  "heredoc_delim start_marker = None" "heredoc_delim end_marker = None"
  by code_simp+

lemma startswith_break:
  "c \<notin> set l \<Longrightarrow> startswith (u @ c # r) l \<longleftrightarrow> startswith u l"
proof (induction u arbitrary: l)
  case Nil
  then show ?case by (cases l) auto
next
  case (Cons x u)
  then show ?case by (cases l) auto
qed

lemma cut_after:
  assumes "\<not> contains u l" and "c \<notin> set l" and "l \<noteq> []"
  shows "cut l (u @ c # r) = map_option (\<lambda>(p, q). (u @ c # p, q)) (cut l r)"
  using assms(1)
proof (induction u)
  case Nil
  have "\<not> startswith (c # r) l" using assms(2,3) by (cases l) auto
  then show ?case by (cases "cut l r") auto
next
  case (Cons x u)
  then have "\<not> startswith (x # u) l" and "\<not> contains u l" by auto
  with startswith_break [OF assms(2), of "x # u" r] Cons.IH show ?case
    by (cases "cut l r") auto
qed

lemma split_on_head:
  assumes "\<not> contains u l" and "c \<notin> set l" and "l \<noteq> []"
  obtains p where "hd (split_on l (u @ c # r)) = u @ c # p"
proof (cases "cut l r")
  case None
  with cut_after [OF assms, of r] have "hd (split_on l (u @ c # r)) = u @ c # r" by simp
  then show ?thesis by (rule that)
next
  case (Some pq)
  obtain p q where "pq = (p, q)" by fastforce
  with Some cut_after [OF assms, of r] assms(3)
  have "hd (split_on l (u @ c # r)) = u @ c # p" by (simp add: split_on_Some)
  then show ?thesis by (rule that)
qed

lemma index_hd: "xs \<noteq> [] \<Longrightarrow> index xs 0 = Inr (hd xs)"
  by (simp add: index_def hd_conv_nth)

lemma index_second: "ys \<noteq> [] \<Longrightarrow> index (x # ys) 1 = Inr (hd ys)"
  by (cases ys) (auto simp: index_def)

lemma marker_chars:
  "quote \<notin> set START_TEST_OUTPUT" "quote \<notin> set END_TEST_OUTPUT"
  "CHR ''+'' \<notin> set START_TEST_OUTPUT" "CHR ''+'' \<notin> set END_TEST_OUTPUT"
  "newline \<notin> set START_TEST_OUTPUT" "newline \<notin> set END_TEST_OUTPUT"
  "START_TEST_OUTPUT \<noteq> []" "END_TEST_OUTPUT \<noteq> []"
  "\<not> contains (butlast START_TEST_OUTPUT) START_TEST_OUTPUT"
  "\<not> contains (butlast END_TEST_OUTPUT) END_TEST_OUTPUT"
  "\<not> contains '' : '' START_TEST_OUTPUT" "\<not> contains '' : '' END_TEST_OUTPUT"
  "\<not> contains (END_TEST_OUTPUT @ [quote]) START_TEST_OUTPUT"
  by (simp_all add: START_TEST_OUTPUT_def END_TEST_OUTPUT_def)

text \<open>A marker is found where its trace stands, when it does not occur before.\<close>

lemma cut_trace:
  assumes "\<not> contains a m" and "quote \<notin> set m" and "CHR ''+'' \<notin> set m" and "m \<noteq> []"
    and "\<not> contains (butlast m) m" and "\<not> contains '' : '' m"
  shows "cut m (a @ ''+ : '' @ quote # m @ r) = Some (a @ ''+ : '' @ [quote], r)"
proof -
  have "\<not> contains (a @ CHR ''+'' # '' : '') m"
    by (subst contains_mid [OF assms(3,4)]) (use assms in simp)
  then have "\<not> contains ((a @ ''+ : '') @ quote # butlast m) m"
    by (subst contains_mid [OF assms(2,4)]) (use assms in simp)
  then have "\<not> contains ((a @ ''+ : '' @ [quote]) @ butlast m) m" by simp
  from cut_at [OF this assms(4), of r] show ?thesis by simp
qed

lemma test_section_found:
  assumes "\<not> contains a START_TEST_OUTPUT" and "\<not> contains b START_TEST_OUTPUT"
    and "\<not> contains b END_TEST_OUTPUT"
  shows "test_section (a @ traced START_TEST_OUTPUT @ b @ traced END_TEST_OUTPUT @ c) =
    Inr (quote # newline # b @ ''+ : '' @ [quote])"
proof -
  let ?S = START_TEST_OUTPUT and ?E = END_TEST_OUTPUT
  define r where "r = quote # newline # b @ ''+ : '' @ quote # ?E @ quote # newline # c"
  have t: "a @ traced ?S @ b @ traced ?E @ c = a @ ''+ : '' @ quote # ?S @ r"
    by (simp add: r_def traced_def)
  have "cut ?S (a @ ''+ : '' @ quote # ?S @ r) = Some (a @ ''+ : '' @ [quote], r)"
    using assms(1) marker_chars by (intro cut_trace) auto
  then have i: "index (split_on ?S (a @ traced ?S @ b @ traced ?E @ c)) 1 = Inr (hd (split_on ?S r))"
    using marker_chars by (simp only: t split_on_Some index_second split_on_nonempty simp_thms)
  define u where "u = quote # newline # b @ ''+ : '' @ quote # ?E @ [quote]"
  have "\<not> contains u ?S"
  proof -
    have "\<not> contains ((quote # newline # b @ ''+ : '') @ quote # ?E @ [quote]) ?S"
    proof (subst contains_mid [OF marker_chars(1,7)])
      have "\<not> contains ([] @ quote # [] @ newline # b @ CHR ''+'' # '' : '') ?S"
        by (subst contains_mid [OF marker_chars(1,7)], subst contains_mid [OF marker_chars(5,7)],
            subst contains_mid [OF marker_chars(3,7)]) (use assms(2) marker_chars in simp)
      then show "\<not> (contains (quote # newline # b @ ''+ : '') ?S \<or> contains (?E @ [quote]) ?S)"
        using marker_chars by simp
    qed
    then show ?thesis by (simp add: u_def)
  qed
  then obtain p where "hd (split_on ?S (u @ newline # c)) = u @ newline # p"
    using split_on_head marker_chars(5,7) by metis
  then have h: "hd (split_on ?S r) = quote # newline # b @ ''+ : '' @ quote # ?E @ quote # newline # p"
    by (simp add: u_def r_def)
  have nb: "\<not> contains (quote # newline # b) ?E"
  proof -
    have "\<not> contains ([] @ quote # [] @ newline # b) ?E"
      by (subst contains_mid [OF marker_chars(2,8)], subst contains_mid [OF marker_chars(6,8)])
        (use assms(3) marker_chars in simp)
    then show ?thesis by simp
  qed
  have "cut ?E ((quote # newline # b) @ ''+ : '' @ quote # ?E @ quote # newline # p)
      = Some ((quote # newline # b) @ ''+ : '' @ [quote], quote # newline # p)"
    using nb marker_chars by (intro cut_trace) auto
  then show ?thesis
    using marker_chars by (simp add: test_section_def i h split_on_Some index_hd)
qed

section \<open>Scripts as texts\<close>

lemma mapE_str_of: "mapE str_of (lines_of ss) = Inr ss"
  by (induction ss) auto

lemma mapE_str_of_Inr: "mapE str_of vs = Inr ss \<Longrightarrow> vs = lines_of ss"
proof (induction vs arbitrary: ss)
  case (Cons v vs)
  then show ?case by (cases v) (auto simp: rbind_Inr_iff)
qed auto

lemma script_text_lines: "script_text header (lines_of ss) = Inr (join [newline] (header @ ss) @ [newline])"
  using mapE_str_of [of "header @ ss"] by (simp add: script_text_def join_values_def)

lemma script_text_Inr:
  assumes "script_text header vs = Inr text"
  obtains ss where "vs = lines_of ss" and "text = join [newline] (header @ ss) @ [newline]"
proof -
  from assms obtain ws where w: "mapE str_of (lines_of header @ vs) = Inr ws"
      and t: "text = join [newline] ws @ [newline]"
    by (auto simp: script_text_def join_values_def rbind_Inr_iff)
  from mapE_str_of_Inr [OF w] have l: "lines_of ws = lines_of header @ vs" by simp
  define ss where "ss = drop (length header) ws"
  have "take (length header) (lines_of ws) = lines_of header" "drop (length header) (lines_of ws) = vs"
    unfolding l by simp_all
  then have "lines_of (take (length header) ws) = lines_of header" "vs = lines_of ss"
    by (simp_all add: take_map drop_map ss_def)
  moreover have "inj JStr" by (simp add: inj_def)
  ultimately have "take (length header) ws = header" by (metis inj_map_eq_map)
  then have "ws = header @ ss" by (metis append_take_drop_id ss_def)
  with t \<open>vs = lines_of ss\<close> that show ?thesis by blast
qed

text \<open>The commands that the shell reads are those of the entries, one entry after the other.\<close>

lemma read_script_text:
  assumes "\<forall>s \<in> set xs. closed_entry s" and "xs \<noteq> []"
  shows "\<exists>rest. read_script (entry_lines (join [newline] (xs @ ys) @ [newline])) = commands_of xs @ rest"
proof -
  have "entry_lines (join [newline] (xs @ ys) @ newline # []) = concat (map entry_lines (xs @ ys)) @ [[]]"
    using assms(2) by (subst split_on_char_append) (simp add: split_join_lines)
  then have "read_script (entry_lines (join [newline] (xs @ ys) @ [newline]))
      = commands_of xs @ read_script (concat (map entry_lines ys) @ [[]])"
    using read_script_entries [OF assms(1)] by simp
  then show ?thesis by blast
qed

lemma header_closed: "\<forall>s \<in> set eval_script_header. closed_entry s"
  by code_simp

lemma commands_of_marker:
  "read_script (entry_lines start_marker) = [(start_marker, [])]"
  "read_script (entry_lines end_marker) = [(end_marker, [])]"
  "closed_entry start_marker" "closed_entry end_marker"
  by (simp_all add: markers_plain read_script.simps(2) closed_lines.simps(2))

text \<open>A text in a here document reaches its command line by line.\<close>

lemma read_heredoc:
  assumes "delim \<notin> set (entry_lines body)" and "newline \<notin> set delim"
    and "heredoc_delim line = Some delim"
  shows "read_script (line # entry_lines body @ [delim]) = [(line, entry_lines body)]"
    and "closed_lines (line # entry_lines body @ [delim])"
proof -
  have n: "x \<noteq> delim" if "x \<in> set (entry_lines body)" for x using that assms(1) by auto
  have "takeWhile (\<lambda>x. x \<noteq> delim) (entry_lines body @ [delim]) = entry_lines body"
    using takeWhile_append2 [of "entry_lines body" "\<lambda>x. x \<noteq> delim"] n by simp
  moreover have "dropWhile (\<lambda>x. x \<noteq> delim) (entry_lines body @ [delim]) = [delim]"
    using dropWhile_append2 [of "entry_lines body" "\<lambda>x. x \<noteq> delim"] n by simp
  ultimately show "read_script (line # entry_lines body @ [delim]) = [(line, entry_lines body)]"
    and "closed_lines (line # entry_lines body @ [delim])"
    using assms(3) by (simp_all add: read_script.simps(2) closed_lines.simps(2))
qed

lemma heredoc_lines:
  assumes "newline \<notin> set cmd" and "newline \<notin> set delim"
  shows "entry_lines (heredoc cmd delim body) =
    (cmd @ '' <<'' @ quote # delim @ [quote]) # entry_lines body @ [delim]"
proof -
  let ?l = "cmd @ '' <<'' @ quote # delim @ [quote]"
  have e: "heredoc cmd delim body = ?l @ newline # body @ newline # delim"
    by (simp add: heredoc_def)
  have "newline \<notin> set ?l" using assms by simp
  then show ?thesis unfolding e using assms(2)
    by (simp only: split_on_char_append) (simp add: cut_char_None)
qed

text \<open>
  What the scripts of an instance do: every language's script resets the test files, applies the test
  patch, runs the tests between the two markers and resets again; the shell hands the test patch to
  git as it is; and the part of the log that the grading reads is the output of the tests.
\<close>

section \<open>The order of the steps\<close>

text \<open>The command that resets the test files, and the commands of the tests, for each language.\<close>

definition reset_command :: "string \<Rightarrow> string \<Rightarrow> string list \<Rightarrow> string" where
  \<open>reset_command ext base_commit test_files =
     (if ext = ''py'' \<or> test_files \<noteq> [] then ''git checkout '' @ base_commit @ '' '' @ join '' '' test_files
      else ''echo "No test files to reset"'')\<close>

definition apply_command :: "string \<Rightarrow> string" where
  "apply_command ext = (if ext = ''py'' then ''git apply -v -'' else ''git apply --verbose --reject -'')"

definition test_commands :: "ts_env \<Rightarrow> dataset_instance \<Rightarrow> string \<Rightarrow> exc + json list" where
  "test_commands env inst ext =
     (if ext = ''py'' then
        rbind (test_cmd_entry env inst) (\<lambda>cmd.
        rbind (join_values '' '' (cmd # lines_of (get_test_directives inst))) (\<lambda>c.
          Inr (lines_of (if di_instance_id inst = ''django__django-10097'' then django_10097_commands
                         else [c]))))
      else rbind (get_test_cmds env inst) py_iter)"

text \<open>The steps in their order, with anything else between them that is not a step.\<close>

definition steps_in_order :: "json list \<Rightarrow> string \<Rightarrow> string \<Rightarrow> json list \<Rightarrow> bool" where
  "steps_in_order script reset apply_patch tests \<longleftrightarrow>
     (\<exists>a b c. script = a @ [JStr reset] @ b @ [JStr apply_patch] @ c @ [JStr start_marker] @ tests
                @ [JStr end_marker, JStr reset])"

lemma steps_in_orderI:
  "script = a @ [JStr reset] @ b @ [JStr apply_patch] @ c @ [JStr start_marker] @ tests
     @ [JStr end_marker, JStr reset] \<Longrightarrow> steps_in_order script reset apply_patch tests"
  by (auto simp: steps_in_order_def)

lemma common_steps:
  assumes "make_eval_script_list_common env inst specs e d c p = Inr script" and "ext \<noteq> ''py''"
  obtains files build tests where "get_modified_files env p = Inr files"
    and "test_commands env inst ext = Inr tests"
    and "script = lines_of [''cd '' @ d, ''git config --global --add safe.directory '' @ d, ''cd '' @ d,
        reset_command ext c files, heredoc (apply_command ext) HEREDOC_DELIMITER p]
      @ build @ [JStr start_marker] @ tests @ [JStr end_marker, JStr (reset_command ext c files)]"
  using assms unfolding make_eval_script_list_common_def test_commands_def reset_command_def apply_command_def
  by (auto simp: rbind_Inr_iff Let_def)

lemma js_steps:
  assumes "make_eval_script_list_js env inst specs e d c p = Inr script"
    and "custom_test_cmds env inst = None"
  obtains files images build tests where "get_modified_files env p = Inr files"
    and "test_commands env inst ''js'' = Inr tests"
    and "script = lines_of [''cd '' @ d, ''git config --global --add safe.directory '' @ d, ''cd '' @ d,
        reset_command ''js'' c files] @ lines_of images
      @ lines_of [heredoc (apply_command ''js'') HEREDOC_DELIMITER p]
      @ build @ [JStr start_marker] @ tests @ [JStr end_marker, JStr (reset_command ''js'' c files)]"
proof -
  from assms(1) obtain com images where com: "make_eval_script_list_common env inst specs e d c p = Inr com"
      and im: "get_download_img_commands env inst = Inr images"
      and s: "script = set_slice_to 4 4 (lines_of images) com"
    by (auto simp: make_eval_script_list_js_def rbind_Inr_iff Let_def assms(2))
  from com obtain files build tests where f: "get_modified_files env p = Inr files"
      "test_commands env inst ''js'' = Inr tests"
      and c: "com = lines_of [''cd '' @ d, ''git config --global --add safe.directory '' @ d, ''cd '' @ d,
        reset_command ''js'' c files, heredoc (apply_command ''js'') HEREDOC_DELIMITER p]
      @ build @ [JStr start_marker] @ tests @ [JStr end_marker, JStr (reset_command ''js'' c files)]"
    by (rule common_steps [where ext = "''js''"]) auto
  show ?thesis
    by (rule that [OF f]) (simp add: s c set_slice_to_def numeral_eq_Suc)
qed

lemma py_steps:
  assumes "make_eval_script_list_py env inst specs e d c p = Inr script"
  obtains files pre mid tests where "get_modified_files env p = Inr files"
    and "test_commands env inst ''py'' = Inr tests"
    and "script = pre @ lines_of [reset_command ''py'' c files,
        heredoc (apply_command ''py'') HEREDOC_DELIMITER p]
      @ mid @ [JStr start_marker] @ tests @ [JStr end_marker, JStr (reset_command ''py'' c files)]"
proof -
  from assms obtain files cmd tc c1 c2 where f: "get_modified_files env p = Inr files"
      and t: "test_cmd_entry env inst = Inr cmd"
      and j: "join_values '' '' (cmd # lines_of (get_test_directives inst)) = Inr tc"
      and s: "script = c2 @ lines_of ([''git checkout '' @ c @ '' '' @ join '' '' files,
          heredoc ''git apply -v -'' HEREDOC_DELIMITER p]
        @ custom_patch_commands env specs @ fixed_patch_commands env inst specs @ [start_marker]
        @ (if di_instance_id inst = ''django__django-10097'' then django_10097_commands else [tc])
        @ [end_marker, ''git checkout '' @ c @ '' '' @ join '' '' files])"
    unfolding make_eval_script_list_py_def Let_def rbind_Inr_iff by blast
  show ?thesis
    by (rule that [OF f, of "lines_of (if di_instance_id inst = ''django__django-10097''
            then django_10097_commands else [tc])" c2
          "lines_of (custom_patch_commands env specs @ fixed_patch_commands env inst specs)"])
      (simp_all add: test_commands_def t j s reset_command_def apply_command_def)
qed

text \<open>
  The evaluation script of an instance resets the test files, applies the test patch, runs the
  tests of the instance between the two markers, and resets the test files again, in this order and
  for every language (outside the repository with test commands of its own).
\<close>

theorem script_runs_the_tests:
  assumes "make_eval_script_list env inst specs e d c p = Inr script"
    and "map_of (te_ext env) (di_repo inst) = Some ext" and "custom_test_cmds env inst = None"
  shows "\<exists>files tests. get_modified_files env p = Inr files \<and> test_commands env inst ext = Inr tests \<and>
    steps_in_order script (reset_command ext c files)
      (heredoc (apply_command ext) HEREDOC_DELIMITER p) tests"
proof -
  from assms(1,2) have m: "(if ext = ''js'' then make_eval_script_list_js
      else if ext = ''py'' then make_eval_script_list_py else make_eval_script_list_common)
        env inst specs e d c p = Inr script"
    by (simp add: make_eval_script_list_def lookup_def)
  consider "ext = ''js''" | "ext = ''py''" | "ext \<noteq> ''js''" "ext \<noteq> ''py''" by blast
  then show ?thesis
  proof cases
    case 1
    with m have "make_eval_script_list_js env inst specs e d c p = Inr script" by simp
    then obtain files images build tests where f: "get_modified_files env p = Inr files"
        "test_commands env inst ''js'' = Inr tests"
        and c: "script = lines_of [''cd '' @ d, ''git config --global --add safe.directory '' @ d, ''cd '' @ d,
            reset_command ''js'' c files] @ lines_of images
          @ lines_of [heredoc (apply_command ''js'') HEREDOC_DELIMITER p]
          @ build @ [JStr start_marker] @ tests @ [JStr end_marker, JStr (reset_command ''js'' c files)]"
      using assms(3) by (rule js_steps)
    have "steps_in_order script (reset_command ''js'' c files)
        (heredoc (apply_command ''js'') HEREDOC_DELIMITER p) tests"
      by (rule steps_in_orderI [where a = "lines_of [''cd '' @ d,
            ''git config --global --add safe.directory '' @ d, ''cd '' @ d]" and b = "lines_of images"
            and c = build]) (simp add: c)
    with f 1 show ?thesis by blast
  next
    case 2
    with m have "make_eval_script_list_py env inst specs e d c p = Inr script" by simp
    then obtain files pre mid tests where f: "get_modified_files env p = Inr files"
        "test_commands env inst ''py'' = Inr tests"
        and c: "script = pre @ lines_of [reset_command ''py'' c files,
            heredoc (apply_command ''py'') HEREDOC_DELIMITER p]
          @ mid @ [JStr start_marker] @ tests @ [JStr end_marker, JStr (reset_command ''py'' c files)]"
      by (rule py_steps)
    have "steps_in_order script (reset_command ''py'' c files)
        (heredoc (apply_command ''py'') HEREDOC_DELIMITER p) tests"
      by (rule steps_in_orderI [where a = pre and b = "[]" and c = mid]) (simp add: c)
    with f 2 show ?thesis by blast
  next
    case 3
    with m have "make_eval_script_list_common env inst specs e d c p = Inr script" by simp
    then obtain files build tests where f: "get_modified_files env p = Inr files"
        "test_commands env inst ext = Inr tests"
        and c: "script = lines_of [''cd '' @ d, ''git config --global --add safe.directory '' @ d, ''cd '' @ d,
            reset_command ext c files, heredoc (apply_command ext) HEREDOC_DELIMITER p]
          @ build @ [JStr start_marker] @ tests @ [JStr end_marker, JStr (reset_command ext c files)]"
      using 3(2) by (rule common_steps)
    have "steps_in_order script (reset_command ext c files)
        (heredoc (apply_command ext) HEREDOC_DELIMITER p) tests"
      by (rule steps_in_orderI [where a = "lines_of [''cd '' @ d,
            ''git config --global --add safe.directory '' @ d, ''cd '' @ d]" and b = "[]" and c = build])
        (simp add: c)
    with f show ?thesis by blast
  qed
qed

section \<open>The part of the log that is graded\<close>


text \<open>
  The shell hands the test patch to git as it is: the here document that \<open>git apply\<close> reads holds the
  lines of the patch, whatever they are, unless one of them is the delimiter of the here document.
\<close>

theorem patch_reaches_git:
  assumes "eval_script spec = Inr text"
    and "sp_eval_script_list spec =
      lines_of (pre @ [heredoc (apply_command ext) HEREDOC_DELIMITER patch] @ post)"
    and "list_all closed_entry pre" and "HEREDOC_DELIMITER \<notin> set (entry_lines patch)"
  shows "\<exists>line body. (line, body) \<in> set (read_script (entry_lines text)) \<and>
    startswith line (apply_command ext) \<and> join [newline] body = patch"
proof -
  let ?e = "heredoc (apply_command ext) HEREDOC_DELIMITER patch"
  define line where "line = apply_command ext @ '' <<'' @ quote # HEREDOC_DELIMITER @ [quote]"
  have d: "heredoc_delim line = Some HEREDOC_DELIMITER" and nd: "newline \<notin> set HEREDOC_DELIMITER"
    unfolding line_def by (cases "ext = ''py''"; simp add: apply_command_def; code_simp) code_simp
  have "newline \<notin> set (apply_command ext)" by (simp add: apply_command_def)
  then have l: "entry_lines ?e = line # entry_lines patch @ [HEREDOC_DELIMITER]"
    using nd unfolding line_def by (rule heredoc_lines)
  note read = read_heredoc [OF assms(4) nd d]
  let ?xs = "eval_script_header @ pre @ [?e]"
  have t: "text = join [newline] (?xs @ post) @ [newline]"
    using assms(1,2) by (simp add: eval_script_def script_text_lines del: map_append)
  have "\<forall>x \<in> set ?xs. closed_entry x"
    using assms(3) header_closed read(2) by (auto simp: list_all_iff l)
  then obtain rest where "read_script (entry_lines text) = commands_of ?xs @ rest"
    using read_script_text [of ?xs post] t by auto
  then have "(line, entry_lines patch) \<in> set (read_script (entry_lines text))"
    by (simp add: l read(1))
  moreover have "join [newline] (entry_lines patch) = patch" by (rule join_split_on) simp
  moreover have "startswith line (apply_command ext)" by (simp add: line_def)
  ultimately show ?thesis by blast
qed

section \<open>The tags of the images\<close>

lemma make_test_spec_tags:
  assumes "make_test_spec env (Inl inst) ns tags arch = Inr spec"
  shows "base_tag tags = Some (sp_base_image_tag spec) \<and> env_tag tags = Some (sp_env_image_tag spec) \<and>
    instance_tag tags = Some (sp_instance_image_tag spec)"
  using assms by (auto simp: make_test_spec_def make_spec_of_def rbind_Inr_iff Let_def split: option.splits)

lemma mapE_mem: "mapE f xs = Inr ys \<Longrightarrow> y \<in> set ys \<Longrightarrow> \<exists>x \<in> set xs. f x = Inr y"
  by (induction xs arbitrary: ys) (auto simp: rbind_Inr_iff)

text \<open>
  Specifications made from a dataset do not have the tags they were asked for: the tag of the
  instance image becomes the tag of the base image, and the instance image is always the latest.
\<close>

theorem dataset_tags_are_shifted:
  assumes "get_test_specs_from_dataset env (Inl insts) ns (Some itag) (Some etag) = Inr specs"
    and "spec \<in> set specs"
  shows "sp_base_image_tag spec = itag \<and> sp_env_image_tag spec = etag \<and>
    sp_instance_image_tag spec = LATEST"
proof -
  from assms(1) obtain x where "mapE (\<lambda>x. make_test_spec env (Inl x) ns
      \<lparr>base_tag = Some itag, env_tag = Some etag, instance_tag = Some LATEST\<rparr> ''x86_64'') insts = Inr specs"
    by (auto simp: get_test_specs_from_dataset_def rbind_Inr_iff)
  from mapE_mem [OF this assms(2)] obtain inst where "make_test_spec env (Inl inst) ns
      \<lparr>base_tag = Some itag, env_tag = Some etag, instance_tag = Some LATEST\<rparr> ''x86_64'' = Inr spec"
    by blast
  from make_test_spec_tags [OF this] show ?thesis by simp
qed

text \<open>Without tags, the default of the callers in \<open>docker_build.py\<close>, no specification is made.\<close>

lemma dataset_needs_tags:
  assumes "insts \<noteq> []" and "itag = None \<or> etag = None"
  shows "get_test_specs_from_dataset env (Inl insts) ns itag etag = Inl AssertionError"
  using assms by (cases insts; cases itag; cases etag)
    (auto simp: get_test_specs_from_dataset_def make_test_spec_def index_def)

text \<open>The evaluation script of a Python instance whose patch touches no test file that existed before
  checks out the commit itself; the scripts of the other languages guard against it.\<close>

lemma reset_without_files: "reset_command ''py'' c [] = ''git checkout '' @ c @ '' ''"
  by (simp add: reset_command_def)

section \<open>Examples\<close>

definition sample_specs :: dict where
  "sample_specs = [(''test_cmd'', JStr ''pytest''), (''python'', JStr ''3.9'')]"

definition sample_env :: ts_env where
  "sample_env = \<lparr>te_specs = [(''swe-bench/humaneval'', [(''1.0'', sample_specs)])],
     te_ext = [(''swe-bench/humaneval'', ''py'')], te_install = [], te_env_yml_paths = [],
     te_reqs_paths = [], te_branches = [], te_patch_set = (\<lambda>p. Inr [(''a/test.py'', ''test.py'')]),
     te_get = (\<lambda>u. Inr (404, [])), te_resource = (\<lambda>f. Inl (FileNotFoundError f)),
     te_sha256 = (\<lambda>s. ''00''), te_loads = (\<lambda>s. Inr (JList [])), te_float = (\<lambda>x. ''0.0'')\<rparr>"

definition sample_patch :: string where "sample_patch = ''diff --git a/test.py b/test.py''"

definition sample_instance :: dataset_instance where
  "sample_instance = \<lparr>di_instance_id = ''h-1'', di_repo = ''swe-bench/humaneval'', di_version = Some ''1.0'',
     di_base_commit = ''c0'', di_test_patch = sample_patch, di_environment_setup_commit = None,
     di_fail_to_pass = None, di_pass_to_pass = None, di_image_assets = None\<rparr>"

lemma sample_script_made:
  "\<not> isl (make_eval_script_list sample_env sample_instance sample_specs ''testbed'' ''/testbed'' ''c0'' sample_patch)"
  by code_simp

theorem script_runs_the_tests_witness:
  "\<exists>files tests. get_modified_files sample_env sample_patch = Inr files \<and>
     test_commands sample_env sample_instance ''py'' = Inr tests \<and>
     steps_in_order (projr (make_eval_script_list sample_env sample_instance sample_specs ''testbed''
         ''/testbed'' ''c0'' sample_patch))
       (reset_command ''py'' ''c0'' files) (heredoc (apply_command ''py'') HEREDOC_DELIMITER sample_patch) tests"
proof (rule script_runs_the_tests)
  show "make_eval_script_list sample_env sample_instance sample_specs ''testbed'' ''/testbed'' ''c0''
      sample_patch = Inr (projr (make_eval_script_list sample_env sample_instance sample_specs ''testbed''
        ''/testbed'' ''c0'' sample_patch))"
    using sample_script_made by (simp add: sum.collapse(2))
qed (simp_all add: sample_env_def sample_instance_def custom_test_cmds_def)

definition sample_spec :: TestSpec where
  "sample_spec = \<lparr>sp_instance_id = ''h-1'', sp_repo = ''swe-bench/humaneval'', sp_version = ''1.0'',
     sp_repo_script_list = [],
     sp_eval_script_list = lines_of ([''cd /testbed''] @ [heredoc (apply_command ''py'') HEREDOC_DELIMITER sample_patch]
       @ [start_marker, ''pytest'', end_marker, ''git checkout c0 test.py'']),
     sp_env_script_list = [], sp_arch = ''x86_64'', sp_FAIL_TO_PASS = JList [], sp_PASS_TO_PASS = JList [],
     sp_language = ''py'', sp_docker_specs = JObj [], sp_namespace = None, sp_base_image_tag = LATEST,
     sp_env_image_tag = LATEST, sp_instance_image_tag = LATEST\<rparr>"

definition sample_script :: string where
  "sample_script = projr (eval_script sample_spec)"

lemma sample_script: "eval_script sample_spec = Inr sample_script"
  unfolding sample_script_def eval_script_def sample_spec_def by (simp only: TestSpec.simps script_text_lines sum.sel)

text \<open>A shell whose tests print one line.\<close>

definition sample_shell :: "unit \<Rightarrow> command \<Rightarrow> unit \<times> string" where
  "sample_shell s c =
     ((), if c = (start_marker, []) then traced START_TEST_OUTPUT
          else if c = (end_marker, []) then traced END_TEST_OUTPUT
          else if fst c = ''pytest'' then ''1 passed'' @ [newline] else [])"


theorem patch_reaches_git_witness:
  "\<exists>line body. (line, body) \<in> set (read_script (entry_lines sample_script)) \<and>
     startswith line (apply_command ''py'') \<and> join [newline] body = sample_patch"
proof (rule patch_reaches_git [OF sample_script])
  show "sp_eval_script_list sample_spec = lines_of ([''cd /testbed'']
      @ [heredoc (apply_command ''py'') HEREDOC_DELIMITER sample_patch]
      @ [start_marker, ''pytest'', end_marker, ''git checkout c0 test.py''])"
    by (simp add: sample_spec_def)
qed code_simp+

lemma sample_dataset:
  "\<not> isl (get_test_specs_from_dataset sample_env (Inl [sample_instance]) None (Some ''v1'') (Some ''v2''))"
  "length (projr (get_test_specs_from_dataset sample_env (Inl [sample_instance]) None (Some ''v1'') (Some ''v2''))) = 1"
  by code_simp+

theorem dataset_tags_are_shifted_witness:
  "sp_instance_image_tag (hd (projr (get_test_specs_from_dataset sample_env (Inl [sample_instance]) None
     (Some ''v1'') (Some ''v2'')))) = LATEST"
proof -
  let ?r = "get_test_specs_from_dataset sample_env (Inl [sample_instance]) None (Some ''v1'') (Some ''v2'')"
  have r: "?r = Inr (projr ?r)" using sample_dataset(1) by (simp add: sum.collapse(2))
  have "hd (projr ?r) \<in> set (projr ?r)" using sample_dataset(2) by (cases "projr ?r") auto
  from dataset_tags_are_shifted [OF r this] show ?thesis by blast
qed

end
