(* ===== verification/Dockerfiles.thy ===== *)
theory Dockerfiles
  imports Py_Objects
begin

text \<open>
  \<open>SWE-bench/swebench/harness/dockerfiles\<close>: the templates of the Dockerfiles, \<open>str.format\<close> as they use
  it, and the choice of a template by language. The names of the templates lose their leading
  underscore.
\<close>

section \<open>\<open>str.format\<close> with keyword arguments\<close>

datatype segment = Text char | Field string

text \<open>The pieces of a template: characters, with \<open>{{\<close> and \<open>}}\<close> for braces, and the fields \<open>{name}\<close>.\<close>

function format_segments :: "string \<Rightarrow> exc + segment list" where
  "format_segments [] = Inr []"
| "format_segments (c # cs) =
     (if c = CHR 0x7B then
        (if startswith cs [CHR 0x7B]
         then rbind (format_segments (tl cs)) (\<lambda>r. Inr (Text c # r))
         else
           let name = takeWhile (\<lambda>d. d \<noteq> CHR 0x7D) cs; rest = dropWhile (\<lambda>d. d \<noteq> CHR 0x7D) cs in
           if rest = [] then Inl (ValueError ''expected } before end of string'')
           else rbind (format_segments (tl rest)) (\<lambda>r. Inr (Field name # r)))
      else if c = CHR 0x7D then
        (if startswith cs [CHR 0x7D]
         then rbind (format_segments (tl cs)) (\<lambda>r. Inr (Text c # r))
         else Inl (ValueError ''Single } encountered in format string''))
      else rbind (format_segments cs) (\<lambda>r. Inr (Text c # r)))"
  by pat_completeness auto
termination
  by (relation "measure length")
    (auto simp: less_Suc_eq_le intro: le_trans [OF diff_le_self] le_trans [OF _ length_dropWhile_le])

declare format_segments.simps(2) [simp del]

fun fill :: "(string, string) pydict \<Rightarrow> segment \<Rightarrow> exc + string" where
  "fill kw (Text c) = Inr [c]"
| "fill kw (Field name) =
     (case map_of kw name of Some v \<Rightarrow> Inr v | None \<Rightarrow> Inl (KeyError name))"

definition str_format :: "string \<Rightarrow> (string, string) pydict \<Rightarrow> exc + string" where
  "str_format template kw =
     rbind (format_segments template) (\<lambda>segments.
     rbind (mapE (fill kw) segments) (\<lambda>parts. Inr (concat parts)))"

section \<open>The templates\<close>

definition DOCKERFILE_BASE_C :: string where
  \<open>DOCKERFILE_BASE_C =
     join [newline]
      [[],
       ''FROM --platform={platform} ubuntu:22.04'',
       [],
       ''ARG DEBIAN_FRONTEND=noninteractive'',
       ''ENV TZ=Etc/UTC'',
       [],
       ''# Uncomment deb-src lines. Only works on Ubuntu 22.04 and below'',
       ''RUN sed -i '' @ [CHR 0x27] @ ''s/^# deb-src/deb-src/'' @ [CHR 0x27] @ '' /etc/apt/sources.list'',
       [],
       ''# Includes dependencies for all C/C++ projects'',
       ''RUN apt update && '' @ [CHR 0x5C],
       ''    apt install -y wget git build-essential libtool automake autoconf tcl bison flex cmake python3 python3-pip python3-venv python-is-python3 && '' @ [CHR 0x5C],
       ''    rm -rf /var/lib/apt/lists/*'',
       [],
       ''RUN adduser --disabled-password --gecos '' @ [CHR 0x27] @ ''dog'' @ [CHR 0x27] @ '' nonroot'',
       []]\<close>

definition DOCKERFILE_INSTANCE_C :: string where
  \<open>DOCKERFILE_INSTANCE_C =
     join [newline]
      [''FROM --platform={platform} {env_image_name}'',
       [],
       ''COPY ./setup_repo.sh /root/'',
       ''RUN /bin/bash /root/setup_repo.sh'',
       [],
       ''WORKDIR /testbed/'',
       []]\<close>

definition DOCKERFILE_BASE_GO :: string where
  \<open>DOCKERFILE_BASE_GO =
     join [newline]
      [[],
       ''FROM --platform={platform} ubuntu:{ubuntu_version}'',
       [],
       ''ARG DEBIAN_FRONTEND=noninteractive'',
       ''ENV TZ=Etc/UTC'',
       [],
       ''RUN apt update && apt install -y '' @ [CHR 0x5C],
       ''wget '' @ [CHR 0x5C],
       ''git '' @ [CHR 0x5C],
       ''build-essential '' @ [CHR 0x5C],
       ''&& rm -rf /var/lib/apt/lists/*'',
       [],
       ''# Install go. Based on https://github.com/docker-library/golang/blob/7ba64590f6cd1268b3604329ac28e5fd7400ca79/1.24/bookworm/Dockerfile'',
       ''RUN set -eux; '' @ [CHR 0x5C],
       [CHR 0x09] @ ''now="$(date '' @ [CHR 0x27] @ ''+%s'' @ [CHR 0x27] @ '')"; '' @ [CHR 0x5C],
       [CHR 0x09] @ ''arch="$(dpkg --print-architecture)"; '' @ [CHR 0x5C],
       [CHR 0x09] @ ''url=; '' @ [CHR 0x5C],
       [CHR 0x09] @ ''case "$arch" in '' @ [CHR 0x5C],
       [CHR 0x09, CHR 0x09, CHR 0x27] @ ''amd64'' @ [CHR 0x27] @ '') '' @ [CHR 0x5C],
       [CHR 0x09, CHR 0x09, CHR 0x09] @ ''url='' @ [CHR 0x27] @ ''https://dl.google.com/go/go{go_version}.linux-amd64.tar.gz'' @ [CHR 0x27] @ ''; '' @ [CHR 0x5C],
       [CHR 0x09, CHR 0x09, CHR 0x09] @ '';; '' @ [CHR 0x5C],
       [CHR 0x09, CHR 0x09, CHR 0x27] @ ''armhf'' @ [CHR 0x27] @ '') '' @ [CHR 0x5C],
       [CHR 0x09, CHR 0x09, CHR 0x09] @ ''url='' @ [CHR 0x27] @ ''https://dl.google.com/go/go{go_version}.linux-armv6l.tar.gz'' @ [CHR 0x27] @ ''; '' @ [CHR 0x5C],
       [CHR 0x09, CHR 0x09, CHR 0x09] @ '';; '' @ [CHR 0x5C],
       [CHR 0x09, CHR 0x09, CHR 0x27] @ ''arm64'' @ [CHR 0x27] @ '') '' @ [CHR 0x5C],
       [CHR 0x09, CHR 0x09, CHR 0x09] @ ''url='' @ [CHR 0x27] @ ''https://dl.google.com/go/go{go_version}.linux-arm64.tar.gz'' @ [CHR 0x27] @ ''; '' @ [CHR 0x5C],
       [CHR 0x09, CHR 0x09, CHR 0x09] @ '';; '' @ [CHR 0x5C],
       [CHR 0x09, CHR 0x09, CHR 0x27] @ ''i386'' @ [CHR 0x27] @ '') '' @ [CHR 0x5C],
       [CHR 0x09, CHR 0x09, CHR 0x09] @ ''url='' @ [CHR 0x27] @ ''https://dl.google.com/go/go{go_version}.linux-386.tar.gz'' @ [CHR 0x27] @ ''; '' @ [CHR 0x5C],
       [CHR 0x09, CHR 0x09, CHR 0x09] @ '';; '' @ [CHR 0x5C],
       [CHR 0x09, CHR 0x09, CHR 0x27] @ ''mips64el'' @ [CHR 0x27] @ '') '' @ [CHR 0x5C],
       [CHR 0x09, CHR 0x09, CHR 0x09] @ ''url='' @ [CHR 0x27] @ ''https://dl.google.com/go/go{go_version}.linux-mips64le.tar.gz'' @ [CHR 0x27] @ ''; '' @ [CHR 0x5C],
       [CHR 0x09, CHR 0x09, CHR 0x09] @ '';; '' @ [CHR 0x5C],
       [CHR 0x09, CHR 0x09, CHR 0x27] @ ''ppc64el'' @ [CHR 0x27] @ '') '' @ [CHR 0x5C],
       [CHR 0x09, CHR 0x09, CHR 0x09] @ ''url='' @ [CHR 0x27] @ ''https://dl.google.com/go/go{go_version}.linux-ppc64le.tar.gz'' @ [CHR 0x27] @ ''; '' @ [CHR 0x5C],
       [CHR 0x09, CHR 0x09, CHR 0x09] @ '';; '' @ [CHR 0x5C],
       [CHR 0x09, CHR 0x09, CHR 0x27] @ ''riscv64'' @ [CHR 0x27] @ '') '' @ [CHR 0x5C],
       [CHR 0x09, CHR 0x09, CHR 0x09] @ ''url='' @ [CHR 0x27] @ ''https://dl.google.com/go/go{go_version}.linux-riscv64.tar.gz'' @ [CHR 0x27] @ ''; '' @ [CHR 0x5C],
       [CHR 0x09, CHR 0x09, CHR 0x09] @ '';; '' @ [CHR 0x5C],
       [CHR 0x09, CHR 0x09, CHR 0x27] @ ''s390x'' @ [CHR 0x27] @ '') '' @ [CHR 0x5C],
       [CHR 0x09, CHR 0x09, CHR 0x09] @ ''url='' @ [CHR 0x27] @ ''https://dl.google.com/go/go{go_version}.linux-s390x.tar.gz'' @ [CHR 0x27] @ ''; '' @ [CHR 0x5C],
       [CHR 0x09, CHR 0x09, CHR 0x09] @ '';; '' @ [CHR 0x5C],
       [CHR 0x09, CHR 0x09] @ ''*) echo >&2 "error: unsupported architecture '' @ [CHR 0x27] @ ''$arch'' @ [CHR 0x27] @ '' (likely packaging update needed)"; exit 1 ;; '' @ [CHR 0x5C],
       [CHR 0x09] @ ''esac; '' @ [CHR 0x5C],
       [CHR 0x09, CHR 0x5C],
       [CHR 0x09] @ ''wget -O go.tgz "$url" --progress=dot:giga; '' @ [CHR 0x5C],
       ''    tar -C /usr/local -xzf go.tgz; '' @ [CHR 0x5C],
       ''    rm go.tgz;'',
       ''ENV PATH=/usr/local/go/bin:$PATH'',
       ''RUN go version'',
       [],
       ''RUN adduser --disabled-password --gecos '' @ [CHR 0x27] @ ''dog'' @ [CHR 0x27] @ '' nonroot'',
       []]\<close>

definition DOCKERFILE_INSTANCE_GO :: string where
  \<open>DOCKERFILE_INSTANCE_GO =
     join [newline]
      [''FROM --platform={platform} {env_image_name}'',
       [],
       ''COPY ./setup_repo.sh /root/'',
       ''RUN /bin/bash /root/setup_repo.sh'',
       [],
       ''WORKDIR /testbed/'',
       []]\<close>

definition DOCKERFILE_BASE_JAVA :: string where
  \<open>DOCKERFILE_BASE_JAVA =
     join [newline]
      [[],
       ''FROM --platform={platform} maven:3.9-eclipse-temurin-{java_version}'',
       [],
       ''ARG DEBIAN_FRONTEND=noninteractive'',
       ''ENV TZ=Etc/UTC'',
       [],
       ''RUN apt update && apt install -y '' @ [CHR 0x5C],
       ''wget '' @ [CHR 0x5C],
       ''git '' @ [CHR 0x5C],
       ''build-essential '' @ [CHR 0x5C],
       ''ant '' @ [CHR 0x5C],
       ''unzip '' @ [CHR 0x5C],
       ''&& rm -rf /var/lib/apt/lists/*'',
       [],
       ''RUN curl -fsSL -o mvnd.zip https://downloads.apache.org/maven/mvnd/1.0.2/maven-mvnd-1.0.2-linux-amd64.zip && '' @ [CHR 0x5C],
       ''    unzip mvnd.zip -d /tmp && '' @ [CHR 0x5C],
       ''    mv /tmp/maven-mvnd-1.0.2-linux-amd64 /usr/local/mvnd && '' @ [CHR 0x5C],
       ''    rm mvnd.zip && '' @ [CHR 0x5C],
       ''    rm -rf /tmp/maven-mvnd-1.0.2-linux-amd64'',
       [],
       ''ENV MVND_HOME=/usr/local/mvnd'',
       ''ENV PATH=$MVND_HOME/bin:$PATH'',
       [],
       ''RUN adduser --disabled-password --gecos '' @ [CHR 0x27] @ ''dog'' @ [CHR 0x27] @ '' nonroot'',
       []]\<close>

definition DOCKERFILE_INSTANCE_JAVA :: string where
  \<open>DOCKERFILE_INSTANCE_JAVA =
     join [newline]
      [''FROM --platform={platform} {env_image_name}'',
       [],
       ''COPY ./setup_repo.sh /root/'',
       ''RUN /bin/bash /root/setup_repo.sh'',
       [],
       ''WORKDIR /testbed/'',
       []]\<close>

definition DOCKERFILE_BASE_JS :: string where
  \<open>DOCKERFILE_BASE_JS =
     join [newline]
      [[],
       ''FROM --platform={platform} ubuntu:{ubuntu_version}'',
       [],
       ''ARG DEBIAN_FRONTEND=noninteractive'',
       ''ENV TZ=Etc/UTC'',
       ''RUN rm /bin/sh && ln -s /bin/bash /bin/sh'',
       [],
       ''# Install necessary packages'',
       ''RUN apt-get update && apt-get install -y '' @ [CHR 0x5C],
       ''    build-essential '' @ [CHR 0x5C],
       ''    curl '' @ [CHR 0x5C],
       ''    git '' @ [CHR 0x5C],
       ''    libssl-dev '' @ [CHR 0x5C],
       ''    software-properties-common '' @ [CHR 0x5C],
       ''    wget '' @ [CHR 0x5C],
       ''    gnupg '' @ [CHR 0x5C],
       ''    jq '' @ [CHR 0x5C],
       ''    ca-certificates '' @ [CHR 0x5C],
       ''    dbus '' @ [CHR 0x5C],
       ''    ffmpeg '' @ [CHR 0x5C],
       ''    imagemagick '' @ [CHR 0x5C],
       ''    && apt-get -y autoclean '' @ [CHR 0x5C],
       ''    && rm -rf /var/lib/apt/lists/*'',
       [],
       ''# Install Chrome'',
       ''RUN wget -q -O - https://dl-ssl.google.com/linux/linux_signing_key.pub | apt-key add - '' @ [CHR 0x5C],
       ''    && echo "deb [arch=amd64] http://dl.google.com/linux/chrome/deb/ stable main" >> /etc/apt/sources.list.d/google-chrome.list '' @ [CHR 0x5C],
       ''    && apt-get update '' @ [CHR 0x5C],
       ''    && apt-get install -y google-chrome-stable fonts-ipafont-gothic fonts-wqy-zenhei fonts-thai-tlwg '' @ [CHR 0x5C],
       ''        fonts-khmeros fonts-kacst fonts-freefont-ttf libxss1 dbus dbus-x11 '' @ [CHR 0x5C],
       ''        --no-install-recommends '' @ [CHR 0x5C],
       ''    && rm -rf /var/lib/apt/lists/*'',
       [],
       ''# Install NVM'',
       ''ENV NVM_DIR /usr/local/nvm'',
       [],
       ''RUN mkdir -p $NVM_DIR'',
       ''RUN curl --silent -o- https://raw.githubusercontent.com/creationix/nvm/v0.39.3/install.sh | bash'',
       [],
       ''# Install necessary libraries for Chrome'',
       ''RUN apt-get update && apt-get install -y '' @ [CHR 0x5C],
       ''    procps '' @ [CHR 0x5C],
       ''    libasound2 libatk-bridge2.0-0 libatk1.0-0 libcups2 libdrm2 '' @ [CHR 0x5C],
       ''    libgbm1 libgconf-2-4 libgdk-pixbuf2.0-0 libgtk-3-0 libnspr4 '' @ [CHR 0x5C],
       ''    libnss3 libpango-1.0-0 libpangocairo-1.0-0 libxcomposite1 '' @ [CHR 0x5C],
       ''    libxdamage1 libxfixes3 libxkbcommon0 libxrandr2 libxss1 libxshmfence1 libglu1 '' @ [CHR 0x5C],
       ''    && apt-get -y autoclean '' @ [CHR 0x5C],
       ''    && rm -rf /var/lib/apt/lists/*'',
       [],
       ''# Set up Chrome for running in a container'',
       ''ENV CHROME_BIN /usr/bin/google-chrome'',
       ''RUN echo "CHROME_BIN=$CHROME_BIN" >> /etc/environment'',
       [],
       ''# Set DBUS for Chrome'',
       ''RUN mkdir -p /run/dbus'',
       ''ENV DBUS_SESSION_BUS_ADDRESS="unix:path=/run/dbus/system_bus_socket"'',
       ''RUN dbus-daemon --system --fork'',
       [],
       ''# If puppeteer is used, make it use the installed Chrome, not download its own'',
       ''ENV PUPPETEER_SKIP_CHROMIUM_DOWNLOAD=true'',
       [],
       ''# Fix for PhantomJS runs (used by older task instances)'',
       ''ENV OPENSSL_CONF /etc/ssl'',
       [],
       ''# Add a non-root user to run Chrome'',
       ''RUN useradd -m chromeuser'',
       ''USER chromeuser'',
       ''WORKDIR /home/chromeuser'',
       [],
       ''# Switch back to root for any further commands'',
       ''USER root'',
       []]\<close>

definition DOCKERFILE_ENV_JS :: string where
  \<open>DOCKERFILE_ENV_JS =
     join [newline]
      [''FROM --platform={platform} {base_image_key}'',
       [],
       ''ARG DEBIAN_FRONTEND=noninteractive'',
       ''ENV TZ=Etc/UTC'',
       [],
       ''COPY ./setup_env.sh /root/'',
       ''RUN sed -i -e '' @ [CHR 0x27] @ ''s/'' @ [CHR 0x5C] @ ''r$//'' @ [CHR 0x27] @ '' /root/setup_env.sh'',
       ''RUN chmod +x /root/setup_env.sh'',
       [],
       ''# Install Node'',
       ''ENV NODE_VERSION {node_version}'',
       ''RUN source $NVM_DIR/nvm.sh '' @ [CHR 0x5C],
       ''    && nvm install $NODE_VERSION '' @ [CHR 0x5C],
       ''    && nvm alias default $NODE_VERSION '' @ [CHR 0x5C],
       ''    && nvm use default'',
       [],
       ''# Install Python'',
       ''RUN add-apt-repository ppa:deadsnakes/ppa && apt-get update && apt-get install -y python{python_version}'',
       ''RUN ln -s /usr/bin/python{python_version} /usr/bin/python'',
       [],
       ''# Install Python2'',
       ''RUN apt-get install -y python2'',
       [],
       ''# Set up environment variables for Node'',
       ''ENV NODE_PATH $NVM_DIR/v$NODE_VERSION/lib/node_modules'',
       ''ENV PATH $NVM_DIR/versions/node/v$NODE_VERSION/bin:$PATH'',
       ''RUN echo "PATH=$PATH:/usr/local/nvm/versions/node/$NODE_VERSION/bin/node" >> /etc/environment'',
       [],
       ''# Install pnpm'',
       ''ENV PNPM_VERSION {pnpm_version}'',
       ''ENV PNPM_HOME /usr/local/pnpm'',
       ''ENV PATH $PNPM_HOME:$PATH'',
       [],
       ''RUN mkdir -p $PNPM_HOME && '' @ [CHR 0x5C],
       ''    wget -qO $PNPM_HOME/pnpm "https://github.com/pnpm/pnpm/releases/download/v$PNPM_VERSION/pnpm-linux-x64" && '' @ [CHR 0x5C],
       ''    chmod +x $PNPM_HOME/pnpm && '' @ [CHR 0x5C],
       ''    ln -s $PNPM_HOME/pnpm /usr/local/bin/pnpm'',
       [],
       ''RUN echo "export PNPM_HOME=$PNPM_HOME" >> /etc/profile && '' @ [CHR 0x5C],
       ''    echo "export PATH='' @ [CHR 0x5C] @ ''$PNPM_HOME:'' @ [CHR 0x5C] @ ''$PATH" >> /etc/profile'',
       [],
       ''# Run the setup script'',
       ''RUN /bin/bash -c "source ~/.bashrc && /root/setup_env.sh"'',
       ''RUN node -v'',
       ''RUN npm -v'',
       ''RUN pnpm -v'',
       ''RUN python -V'',
       ''RUN python2 -V'',
       [],
       ''WORKDIR /testbed/'',
       []]\<close>

definition DOCKERFILE_INSTANCE_JS :: string where
  \<open>DOCKERFILE_INSTANCE_JS =
     join [newline]
      [''FROM --platform={platform} {env_image_name}'',
       [],
       ''COPY ./setup_repo.sh /root/'',
       ''RUN sed -i -e '' @ [CHR 0x27] @ ''s/'' @ [CHR 0x5C] @ ''r$//'' @ [CHR 0x27] @ '' /root/setup_repo.sh'',
       ''RUN node -v'',
       ''RUN npm -v'',
       ''RUN /bin/bash /root/setup_repo.sh'',
       [],
       ''WORKDIR /testbed/'',
       []]\<close>

definition DOCKERFILE_BASE_JS_2 :: string where
  \<open>DOCKERFILE_BASE_JS_2 =
     join [newline]
      [[],
       ''FROM --platform={platform} ubuntu:{ubuntu_version}'',
       [],
       ''ARG DEBIAN_FRONTEND=noninteractive'',
       ''ENV TZ=Etc/UTC'',
       [],
       ''RUN apt update && apt install -y '' @ [CHR 0x5C],
       ''    wget '' @ [CHR 0x5C],
       ''    curl '' @ [CHR 0x5C],
       ''    git '' @ [CHR 0x5C],
       ''    build-essential '' @ [CHR 0x5C],
       ''    jq '' @ [CHR 0x5C],
       ''    gnupg '' @ [CHR 0x5C],
       ''    ca-certificates '' @ [CHR 0x5C],
       ''    apt-transport-https'',
       [],
       ''# Install node'',
       ''RUN bash -c "set -eo pipefail && curl -fsSL https://deb.nodesource.com/setup_{node_version}.x | bash -"'',
       ''RUN apt-get update && apt-get install -y nodejs'',
       ''RUN node -v && npm -v'',
       [],
       ''# Install pnpm'',
       ''RUN npm install --global corepack@latest'',
       ''RUN corepack enable pnpm'',
       [],
       ''# Install Chrome for browser testing'',
       ''RUN wget -q -O - https://dl-ssl.google.com/linux/linux_signing_key.pub | apt-key add - '' @ [CHR 0x5C],
       ''    && echo "deb http://dl.google.com/linux/chrome/deb/ stable main" >> /etc/apt/sources.list.d/google.list '' @ [CHR 0x5C],
       ''    && apt-get update '' @ [CHR 0x5C],
       ''    && apt-get install -y google-chrome-stable '' @ [CHR 0x5C],
       ''    && rm -rf /var/lib/apt/lists/*'',
       [],
       ''# Set up Chrome environment variables'',
       ''ENV CHROME_BIN /usr/bin/google-chrome'',
       ''ENV CHROME_PATH /usr/bin/google-chrome'',
       [],
       ''RUN adduser --disabled-password --gecos '' @ [CHR 0x27] @ ''dog'' @ [CHR 0x27] @ '' nonroot'',
       []]\<close>

definition DOCKERFILE_BASE_PHP :: string where
  \<open>DOCKERFILE_BASE_PHP =
     join [newline]
      [[],
       ''FROM --platform={platform} php:{php_version}'',
       [],
       ''ARG DEBIAN_FRONTEND=noninteractive'',
       ''ENV TZ=Etc/UTC'',
       [],
       ''RUN apt update && apt install -y '' @ [CHR 0x5C],
       ''    wget '' @ [CHR 0x5C],
       ''    git '' @ [CHR 0x5C],
       ''    build-essential '' @ [CHR 0x5C],
       ''    libgd-dev '' @ [CHR 0x5C],
       ''    libzip-dev '' @ [CHR 0x5C],
       ''    libgmp-dev '' @ [CHR 0x5C],
       ''    libftp-dev '' @ [CHR 0x5C],
       ''    libcurl4-openssl-dev '' @ [CHR 0x5C],
       ''    && apt-get -y autoclean '' @ [CHR 0x5C],
       ''    && rm -rf /var/lib/apt/lists/*'',
       [],
       ''RUN docker-php-ext-install gd zip gmp ftp curl pcntl'',
       [],
       ''RUN curl -sS https://getcomposer.org/installer | php -- --2.2 --install-dir=/usr/local/bin --filename=composer'',
       [],
       ''RUN adduser --disabled-password --gecos '' @ [CHR 0x27] @ ''dog'' @ [CHR 0x27] @ '' nonroot'',
       []]\<close>

definition DOCKERFILE_INSTANCE_PHP :: string where
  \<open>DOCKERFILE_INSTANCE_PHP =
     join [newline]
      [''FROM --platform={platform} {env_image_name}'',
       [],
       ''COPY ./setup_repo.sh /root/'',
       ''RUN /bin/bash /root/setup_repo.sh'',
       [],
       ''WORKDIR /testbed/'',
       []]\<close>

definition DOCKERFILE_BASE_PY :: string where
  \<open>DOCKERFILE_BASE_PY =
     join [newline]
      [[],
       ''FROM --platform={platform} ubuntu:{ubuntu_version}'',
       [],
       ''ARG DEBIAN_FRONTEND=noninteractive'',
       ''ENV TZ=Etc/UTC'',
       [],
       ''RUN apt update && apt install -y '' @ [CHR 0x5C],
       ''wget '' @ [CHR 0x5C],
       ''git '' @ [CHR 0x5C],
       ''build-essential '' @ [CHR 0x5C],
       ''libffi-dev '' @ [CHR 0x5C],
       ''libtiff-dev '' @ [CHR 0x5C],
       ''python3 '' @ [CHR 0x5C],
       ''python3-pip '' @ [CHR 0x5C],
       ''python-is-python3 '' @ [CHR 0x5C],
       ''jq '' @ [CHR 0x5C],
       ''curl '' @ [CHR 0x5C],
       ''locales '' @ [CHR 0x5C],
       ''locales-all '' @ [CHR 0x5C],
       ''tzdata '' @ [CHR 0x5C],
       ''&& rm -rf /var/lib/apt/lists/*'',
       [],
       ''# Download and install conda'',
       ''RUN wget '' @ [CHR 0x27] @ ''https://repo.anaconda.com/miniconda/Miniconda3-{conda_version}-Linux-{conda_arch}.sh'' @ [CHR 0x27] @ '' -O miniconda.sh '' @ [CHR 0x5C],
       ''    && bash miniconda.sh -b -p /opt/miniconda3'',
       ''# Add conda to PATH'',
       ''ENV PATH=/opt/miniconda3/bin:$PATH'',
       ''# Add conda to shell startup scripts like .bashrc (DO NOT REMOVE THIS)'',
       ''RUN conda init --all'',
       ''RUN conda config --append channels conda-forge'',
       [],
       ''RUN adduser --disabled-password --gecos '' @ [CHR 0x27] @ ''dog'' @ [CHR 0x27] @ '' nonroot'',
       []]\<close>

definition DOCKERFILE_ENV_PY :: string where
  \<open>DOCKERFILE_ENV_PY =
     join [newline]
      [''FROM --platform={platform} {base_image_key}'',
       [],
       ''COPY ./setup_env.sh /root/'',
       ''RUN sed -i -e '' @ [CHR 0x27] @ ''s/'' @ [CHR 0x5C] @ ''r$//'' @ [CHR 0x27] @ '' /root/setup_env.sh'',
       ''RUN chmod +x /root/setup_env.sh'',
       ''RUN /bin/bash -c "source ~/.bashrc && /root/setup_env.sh"'',
       [],
       ''WORKDIR /testbed/'',
       [],
       ''# Automatically activate the testbed environment'',
       ''RUN echo "source /opt/miniconda3/etc/profile.d/conda.sh && conda activate testbed" > /root/.bashrc'',
       []]\<close>

definition DOCKERFILE_INSTANCE_PY :: string where
  \<open>DOCKERFILE_INSTANCE_PY =
     join [newline]
      [''FROM --platform={platform} {env_image_name}'',
       [],
       ''COPY ./setup_repo.sh /root/'',
       ''RUN sed -i -e '' @ [CHR 0x27] @ ''s/'' @ [CHR 0x5C] @ ''r$//'' @ [CHR 0x27] @ '' /root/setup_repo.sh'',
       ''RUN /bin/bash /root/setup_repo.sh'',
       [],
       ''WORKDIR /testbed/'',
       []]\<close>

definition DOCKERFILE_BASE_RUBY :: string where
  \<open>DOCKERFILE_BASE_RUBY =
     join [newline]
      [[],
       ''FROM --platform={platform} ruby:{ruby_version}'',
       [],
       ''ARG DEBIAN_FRONTEND=noninteractive'',
       ''ENV TZ=Etc/UTC'',
       [],
       ''RUN apt update && apt install -y '' @ [CHR 0x5C],
       ''wget '' @ [CHR 0x5C],
       ''git '' @ [CHR 0x5C],
       ''build-essential '' @ [CHR 0x5C],
       ''jq '' @ [CHR 0x5C],
       ''&& rm -rf /var/lib/apt/lists/*'',
       [],
       ''RUN adduser --disabled-password --gecos '' @ [CHR 0x27] @ ''dog'' @ [CHR 0x27] @ '' nonroot'',
       []]\<close>

definition DOCKERFILE_INSTANCE_RUBY :: string where
  \<open>DOCKERFILE_INSTANCE_RUBY =
     join [newline]
      [''FROM --platform={platform} {env_image_name}'',
       [],
       ''COPY ./setup_repo.sh /root/'',
       ''RUN /bin/bash /root/setup_repo.sh'',
       [],
       ''WORKDIR /testbed/'',
       []]\<close>

definition DOCKERFILE_BASE_RUST :: string where
  \<open>DOCKERFILE_BASE_RUST =
     join [newline]
      [[],
       ''FROM --platform={platform} rust:{rust_version}'',
       [],
       ''ARG DEBIAN_FRONTEND=noninteractive'',
       ''ENV TZ=Etc/UTC'',
       [],
       ''RUN apt update && apt install -y '' @ [CHR 0x5C],
       ''wget '' @ [CHR 0x5C],
       ''git '' @ [CHR 0x5C],
       ''build-essential '' @ [CHR 0x5C],
       ''&& rm -rf /var/lib/apt/lists/*'',
       [],
       ''RUN adduser --disabled-password --gecos '' @ [CHR 0x27] @ ''dog'' @ [CHR 0x27] @ '' nonroot'',
       []]\<close>

definition DOCKERFILE_INSTANCE_RUST :: string where
  \<open>DOCKERFILE_INSTANCE_RUST =
     join [newline]
      [''FROM --platform={platform} {env_image_name}'',
       [],
       ''COPY ./setup_repo.sh /root/'',
       ''RUN /bin/bash /root/setup_repo.sh'',
       [],
       ''WORKDIR /testbed/'',
       []]\<close>

section \<open>The choice by language\<close>

definition DOCKERFILE_BASE :: "(string, string) pydict" where
  "DOCKERFILE_BASE =
     [(''c'', DOCKERFILE_BASE_C), (''go'', DOCKERFILE_BASE_GO), (''py'', DOCKERFILE_BASE_PY),
      (''java'', DOCKERFILE_BASE_JAVA), (''js'', DOCKERFILE_BASE_JS), (''php'', DOCKERFILE_BASE_PHP),
      (''rb'', DOCKERFILE_BASE_RUBY), (''rs'', DOCKERFILE_BASE_RUST)]"

definition DOCKERFILE_ENV :: "(string, string) pydict" where
  "DOCKERFILE_ENV = [(''py'', DOCKERFILE_ENV_PY), (''js'', DOCKERFILE_ENV_JS)]"

definition DOCKERFILE_INSTANCE :: "(string, string) pydict" where
  "DOCKERFILE_INSTANCE =
     [(''c'', DOCKERFILE_INSTANCE_C), (''go'', DOCKERFILE_INSTANCE_GO), (''py'', DOCKERFILE_INSTANCE_PY),
      (''java'', DOCKERFILE_INSTANCE_JAVA), (''js'', DOCKERFILE_INSTANCE_JS),
      (''php'', DOCKERFILE_INSTANCE_PHP), (''rb'', DOCKERFILE_INSTANCE_RUBY),
      (''rs'', DOCKERFILE_INSTANCE_RUST)]"

definition template_of :: "(string, string) pydict \<Rightarrow> string \<Rightarrow> exc + string" where
  "template_of templates language =
     (case map_of templates language of Some t \<Rightarrow> Inr t | None \<Rightarrow> Inl (KeyError language))"

text \<open>The keyword arguments are the docker specifications; their values appear as \<open>str\<close> shows them.\<close>

definition shown_kwargs :: "(rat \<Rightarrow> string) \<Rightarrow> dict \<Rightarrow> (string, string) pydict" where
  "shown_kwargs ff kwargs = map (\<lambda>(k, v). (k, py_str ff v)) kwargs"

definition get_dockerfile_base ::
    "(rat \<Rightarrow> string) \<Rightarrow> string \<Rightarrow> string \<Rightarrow> string \<Rightarrow> dict \<Rightarrow> exc + string" where
  "get_dockerfile_base ff platform arch language kwargs =
     (let conda_arch = (if arch = ''arm64'' then ''aarch64'' else arch) in
      if map_of kwargs ''_variant'' = Some (JStr ''js_2'')
      then str_format DOCKERFILE_BASE_JS_2 ((''platform'', platform) # shown_kwargs ff (dict_del ''_variant'' kwargs))
      else rbind (template_of DOCKERFILE_BASE language) (\<lambda>t.
        str_format t ([(''platform'', platform), (''conda_arch'', conda_arch)] @ shown_kwargs ff kwargs)))"

definition get_dockerfile_env ::
    "(rat \<Rightarrow> string) \<Rightarrow> string \<Rightarrow> string \<Rightarrow> string \<Rightarrow> string \<Rightarrow> dict \<Rightarrow> exc + string" where
  "get_dockerfile_env ff platform arch language base_image_key kwargs =
     rbind (template_of DOCKERFILE_BASE language) (\<lambda>base.
       let dockerfile = (case map_of DOCKERFILE_ENV language of Some t \<Rightarrow> t | None \<Rightarrow> base) in
       if map_of kwargs ''_variant'' = Some (JStr ''js_2'')
       then str_format DOCKERFILE_BASE_JS_2 ((''platform'', platform) # shown_kwargs ff (dict_del ''_variant'' kwargs))
       else str_format dockerfile
              ([(''platform'', platform), (''arch'', arch), (''base_image_key'', base_image_key)]
               @ shown_kwargs ff kwargs))"

definition get_dockerfile_instance :: "string \<Rightarrow> string \<Rightarrow> string \<Rightarrow> exc + string" where
  "get_dockerfile_instance platform language env_image_name =
     rbind (template_of DOCKERFILE_INSTANCE language) (\<lambda>t.
       str_format t [(''platform'', platform), (''env_image_name'', env_image_name)])"

end
