(* ===== verification/Harness_Docker.thy ===== *)
theory Harness_Docker
  imports Test_Spec Dockerfiles
begin

text \<open>
  \<open>SWE-bench/swebench/harness/docker_utils.py\<close> and \<open>docker_build.py\<close>: images and containers of the
  harness. The Docker daemon is an argument: a record of the calls of the \<open>docker\<close> package that the
  code makes, each from a state of the daemon to the next and a result or an exception. The files of
  the host are a dictionary from paths to texts. Log files, other than those that are read again, and
  the files of a build context are left out; a build gets their texts.
\<close>

section \<open>Effects\<close>

type_synonym ('w, 'a) io = "'w \<Rightarrow> 'w \<times> (exc + 'a)"

definition ret :: "'a \<Rightarrow> ('w, 'a) io" where "ret x = (\<lambda>w. (w, Inr x))"

definition raise :: "exc \<Rightarrow> ('w, 'a) io" where "raise e = (\<lambda>w. (w, Inl e))"

definition lift :: "exc + 'a \<Rightarrow> ('w, 'a) io" where "lift r = (\<lambda>w. (w, r))"

definition bind_io :: "('w, 'a) io \<Rightarrow> ('a \<Rightarrow> ('w, 'b) io) \<Rightarrow> ('w, 'b) io" where
  "bind_io m f = (\<lambda>w. case m w of (w1, Inl e) \<Rightarrow> (w1, Inl e) | (w1, Inr x) \<Rightarrow> f x w1)"

text \<open>\<open>try: m except Exception as e: h(e)\<close>.\<close>

definition try_io :: "('w, 'a) io \<Rightarrow> (exc \<Rightarrow> ('w, 'a) io) \<Rightarrow> ('w, 'a) io" where
  "try_io m h = (\<lambda>w. case m w of (w1, Inl e) \<Rightarrow> h e w1 | (w1, Inr x) \<Rightarrow> (w1, Inr x))"

lemma io_simps [simp]:
  "ret x w = (w, Inr x)" "raise e w = (w, Inl e)" "lift r w = (w, r)"
  by (simp_all add: ret_def raise_def lift_def)

lemma bind_io_cases: "bind_io m f w = (case m w of (w1, Inl e) \<Rightarrow> (w1, Inl e) | (w1, Inr x) \<Rightarrow> f x w1)"
  by (simp add: bind_io_def)

lemma bind_io_ret [simp]: "bind_io (ret x) f = f x" "bind_io (lift (Inr x)) f = f x"
  by (simp_all add: bind_io_def fun_eq_iff)

fun for_each :: "('a \<Rightarrow> ('w, unit) io) \<Rightarrow> 'a list \<Rightarrow> ('w, unit) io" where
  "for_each f [] = ret ()"
| "for_each f (x # xs) = bind_io (f x) (\<lambda>_. for_each f xs)"

section \<open>The Docker daemon\<close>

record build_request =
  br_tag :: string
  br_scripts :: "(string, string) pydict"
  br_dockerfile :: string
  br_platform :: string
  br_nocache :: bool

text \<open>A chunk of the answer to a build: \<open>stream\<close>, \<open>errorDetail\<close> with its message, or another key.\<close>

datatype build_chunk = Stream string | ErrorDetail string | OtherChunk

text \<open>A command that was started and waited for: what it printed, whether it still runs.\<close>

record exec_outcome =
  ex_output :: string
  ex_alive :: bool
  ex_error :: "exc option"
  ex_id :: "string option"

record 'd docker =
  images_get :: "string \<Rightarrow> ('d, unit) io"
  images_pull :: "string \<Rightarrow> ('d, unit) io"
  images_remove :: "string \<Rightarrow> ('d, unit) io"
  images_tags :: "('d, string list) io"
  api_build :: "build_request \<Rightarrow> ('d, build_chunk list) io"
  containers_create :: "string \<Rightarrow> string \<Rightarrow> string \<Rightarrow> json \<Rightarrow> ('d, string) io"
    \<comment> \<open>image, name, platform, added capabilities; the id of the container\<close>
  container_start :: "string \<Rightarrow> ('d, unit) io"
  container_stop :: "string \<Rightarrow> ('d, unit) io"
  container_remove :: "string \<Rightarrow> ('d, unit) io"
  container_pid :: "string \<Rightarrow> ('d, int) io"
  kill_process :: "int \<Rightarrow> ('d, unit) io"
  put_archive :: "string \<Rightarrow> string \<Rightarrow> string \<Rightarrow> ('d, unit) io" \<comment> \<open>container, file, text\<close>
  exec_run :: "string \<Rightarrow> string \<Rightarrow> ('d, int \<times> string) io"      \<comment> \<open>exit code and output\<close>
  exec_stream :: "string \<Rightarrow> string \<Rightarrow> int option \<Rightarrow> ('d, exec_outcome) io"
  exec_pid :: "string \<Rightarrow> ('d, int) io"

text \<open>The files of the host and the daemon.\<close>

record 'd world =
  w_files :: "(string, string) pydict"
  w_docker :: 'd

definition on_docker :: "('d, 'a) io \<Rightarrow> ('d world, 'a) io" where
  "on_docker m = (\<lambda>w. let (d, r) = m (w_docker w) in (w\<lparr>w_docker := d\<rparr>, r))"

definition write_text :: "string \<Rightarrow> string \<Rightarrow> ('d world, unit) io" where
  "write_text path text = (\<lambda>w. (w\<lparr>w_files := dict_set (w_files w) path text\<rparr>, Inr ()))"

definition path_exists :: "'d world \<Rightarrow> string \<Rightarrow> bool" where
  "path_exists w path \<longleftrightarrow> map_of (w_files w) path \<noteq> None"

definition read_text :: "string \<Rightarrow> ('d world, string) io" where
  "read_text path = (\<lambda>w. (w, case map_of (w_files w) path of
     Some t \<Rightarrow> Inr t | None \<Rightarrow> Inl (FileNotFoundError path)))"

definition image_not_found :: "exc \<Rightarrow> bool" where
  "image_not_found e \<longleftrightarrow> (case e of OtherException c _ \<Rightarrow> c = ''ImageNotFound'' | _ \<Rightarrow> False)"

text \<open>\<open>docker.errors.NotFound\<close>, of which \<open>ImageNotFound\<close> is a subclass.\<close>

definition docker_not_found :: "exc \<Rightarrow> bool" where
  "docker_not_found e \<longleftrightarrow>
     (case e of OtherException c _ \<Rightarrow> c = ''NotFound'' \<or> c = ''ImageNotFound'' | _ \<Rightarrow> False)"

fun exc_text :: "exc \<Rightarrow> string" where
  "exc_text (ValueError s) = s"
| "exc_text (KeyError s) = repr_str s"
| "exc_text IndexError = ''list index out of range''"
| "exc_text (TypeError s) = s"
| "exc_text (RuntimeError s) = s"
| "exc_text (FileNotFoundError s) = s"
| "exc_text AssertionError = []"
| "exc_text (OtherException c s) = s"

section \<open>\<open>docker_utils.py\<close>\<close>

text \<open>Who gets to know of an error: the logger of an instance, or nobody, and then it is raised again.\<close>

datatype log_to = Quiet | Logged

definition remove_image :: "'d docker \<Rightarrow> string \<Rightarrow> log_to \<Rightarrow> ('d world, unit) io" where
  "remove_image dk image_id logger =
     try_io (on_docker (images_remove dk image_id)) (\<lambda>e.
       if image_not_found e then ret ()
       else case logger of Quiet \<Rightarrow> raise e | Logged \<Rightarrow> ret ())"

text \<open>The code as called: with a logger, errors are logged and not raised.\<close>

definition stop_container :: "'d docker \<Rightarrow> string \<Rightarrow> log_to \<Rightarrow> ('d world, unit) io" where
  "stop_container dk c logger =
     try_io (on_docker (container_stop dk c)) (\<lambda>e.
       try_io (bind_io (on_docker (container_pid dk c)) (\<lambda>pid.
                 if 0 < pid then on_docker (kill_process dk pid) else ret ()))
         (\<lambda>e2. case logger of Quiet \<Rightarrow> raise e2 | Logged \<Rightarrow> ret ()))"

definition cleanup_container :: "'d docker \<Rightarrow> string option \<Rightarrow> log_to \<Rightarrow> ('d world, unit) io" where
  "cleanup_container dk container logger =
     (case container of
        None \<Rightarrow> ret ()
      | Some c \<Rightarrow>
          bind_io (stop_container dk c logger) (\<lambda>_.
          try_io (on_docker (container_remove dk c))
            (\<lambda>e. case logger of Quiet \<Rightarrow> raise e | Logged \<Rightarrow> ret ())))"

definition exec_run_with_timeout ::
    "'d docker \<Rightarrow> string \<Rightarrow> string \<Rightarrow> int option \<Rightarrow> ('d world, string \<times> bool) io" where
  "exec_run_with_timeout dk c cmd timeout =
     bind_io (on_docker (exec_stream dk c cmd timeout)) (\<lambda>out.
       case ex_error out of
         Some e \<Rightarrow> raise e
       | None \<Rightarrow>
           if ex_alive out then
             bind_io (case ex_id out of
                        None \<Rightarrow> ret ()
                      | Some i \<Rightarrow>
                          bind_io (on_docker (exec_pid dk i)) (\<lambda>pid.
                          bind_io (on_docker (exec_run dk c (''kill -TERM '' @ show_int pid))) (\<lambda>_. ret ())))
               (\<lambda>_. ret (ex_output out, True))
           else ret (ex_output out, False))"

definition parent_dir :: "string \<Rightarrow> string" where
  "parent_dir dst = join ''/'' (butlast (split_on ''/'' dst))"

text \<open>The destinations here are files in the root directory, whose \<open>dirname\<close> is a slash.\<close>

definition copy_to_container :: "'d docker \<Rightarrow> string \<Rightarrow> string \<Rightarrow> string \<Rightarrow> ('d world, unit) io" where
  "copy_to_container dk c text dst =
     (if \<not> contains dst ''/'' then
        raise (ValueError (''Destination path parent directory cannot be empty!, dst: '' @ dst))
      else
        bind_io (on_docker (exec_run dk c (''mkdir -p '' @ (if parent_dir dst = [] then ''/'' else parent_dir dst))))
          (\<lambda>_. on_docker (put_archive dk c dst text)))"

definition list_images :: "'d docker \<Rightarrow> ('d world, string list) io" where
  "list_images dk = on_docker (images_tags dk)"

definition should_remove :: "string \<Rightarrow> string \<Rightarrow> bool \<Rightarrow> string list \<Rightarrow> bool" where
  "should_remove image_name cache_level clean prior_images \<longleftrightarrow>
     (let existed_before = image_name \<in> set prior_images;
          image_name = (if contains image_name ''/'' then last (rsplit1 ''/'' image_name) else image_name)
      in if startswith image_name ''sweb.base''
         then cache_level \<in> {''none''} \<and> (clean \<or> \<not> existed_before)
         else if startswith image_name ''sweb.env''
         then cache_level \<in> {''none'', ''base''} \<and> (clean \<or> \<not> existed_before)
         else if startswith image_name ''sweb.eval''
         then cache_level \<in> {''none'', ''base'', ''env''} \<and> (clean \<or> \<not> existed_before)
         else False)"

text \<open>A set of tags is iterated over in no particular order; here it is the order of the daemon's list.\<close>

definition clean_images ::
    "'d docker \<Rightarrow> string list \<Rightarrow> string \<Rightarrow> bool \<Rightarrow> ('d world, unit) io" where
  "clean_images dk prior_images cache_level clean =
     bind_io (list_images dk) (\<lambda>images.
       for_each (\<lambda>image_name.
         if should_remove image_name cache_level clean prior_images
         then try_io (remove_image dk image_name Quiet) (\<lambda>e. ret ())
         else ret ()) (remdups images))"

section \<open>\<open>TestSpec\<close>: the Dockerfiles\<close>

definition DEFAULT_DOCKER_SPECS :: dict where
  "DEFAULT_DOCKER_SPECS =
     [(''conda_version'', JStr ''py311_23.11.0-2''), (''node_version'', JStr ''21.6.2''),
      (''pnpm_version'', JStr ''9.5.0''), (''python_version'', JStr ''3.9''),
      (''ubuntu_version'', JStr ''22.04'')]"

definition docker_kwargs :: "TestSpec \<Rightarrow> exc + dict" where
  "docker_kwargs spec =
     rbind (dict_of ''keys'' (sp_docker_specs spec)) (\<lambda>d. Inr (dict_update DEFAULT_DOCKER_SPECS d))"

definition base_dockerfile :: "ts_env \<Rightarrow> TestSpec \<Rightarrow> exc + string" where
  "base_dockerfile env spec =
     rbind (platform spec) (\<lambda>p. rbind (docker_kwargs spec) (\<lambda>kw.
       get_dockerfile_base (te_float env) p (sp_arch spec) (sp_language spec) kw))"

definition env_dockerfile :: "ts_env \<Rightarrow> TestSpec \<Rightarrow> exc + string" where
  "env_dockerfile env spec =
     rbind (platform spec) (\<lambda>p. rbind (base_image_key env spec) (\<lambda>base. rbind (docker_kwargs spec) (\<lambda>kw.
       get_dockerfile_env (te_float env) p (sp_arch spec) (sp_language spec) base kw)))"

definition instance_dockerfile :: "ts_env \<Rightarrow> TestSpec \<Rightarrow> exc + string" where
  "instance_dockerfile env spec =
     rbind (platform spec) (\<lambda>p. rbind (env_image_key env spec) (\<lambda>key.
       get_dockerfile_instance p (sp_language spec) key))"

section \<open>\<open>docker_build.py\<close>\<close>

definition BuildImageError :: "string \<Rightarrow> string \<Rightarrow> exc" where
  "BuildImageError image_name message = OtherException ''BuildImageError''
     (''Error building image '' @ image_name @ '': '' @ message)"

text \<open>The loop over the chunks stops at the first \<open>errorDetail\<close>.\<close>

fun build_chunks :: "build_chunk list \<Rightarrow> exc + unit" where
  "build_chunks [] = Inr ()"
| "build_chunks (ErrorDetail m # cs) = Inl (OtherException ''BuildError'' m)"
| "build_chunks (_ # cs) = build_chunks cs"

definition build_image :: "'d docker \<Rightarrow> build_request \<Rightarrow> ('d world, unit) io" where
  "build_image dk req =
     try_io (bind_io (on_docker (api_build dk req)) (\<lambda>chunks. lift (build_chunks chunks)))
       (\<lambda>e. raise (BuildImageError (br_tag req) (exc_text e)))"

text \<open>Does the image exist: only \<open>ImageNotFound\<close> means that it does not.\<close>

definition image_exists :: "'d docker \<Rightarrow> string \<Rightarrow> ('d world, bool) io" where
  "image_exists dk name =
     try_io (bind_io (on_docker (images_get dk name)) (\<lambda>_. ret True))
       (\<lambda>e. if image_not_found e then ret False else raise e)"

definition base_image_entry :: "ts_env \<Rightarrow> TestSpec \<Rightarrow> exc + string \<times> string \<times> string" where
  "base_image_entry env spec =
     rbind (base_image_key env spec) (\<lambda>k. rbind (base_dockerfile env spec) (\<lambda>f.
     rbind (platform spec) (\<lambda>p. Inr (k, f, p))))"

definition build_base_image ::
    "'d docker \<Rightarrow> bool \<Rightarrow> string \<times> string \<times> string \<Rightarrow> ('d world, unit) io" where
  "build_base_image dk force_rebuild = (\<lambda>(image_name, dockerfile, platform).
     let build = build_image dk \<lparr>br_tag = image_name, br_scripts = [], br_dockerfile = dockerfile,
           br_platform = platform, br_nocache = False\<rparr>
     in bind_io (image_exists dk image_name) (\<lambda>exists.
          if exists then
            if force_rebuild then bind_io (remove_image dk image_name Quiet) (\<lambda>_. build) else ret ()
          else build))"

definition build_base_images ::
    "ts_env \<Rightarrow> 'd docker \<Rightarrow> dataset_instance list + TestSpec list \<Rightarrow> bool \<Rightarrow> string option \<Rightarrow>
     string option \<Rightarrow> string option \<Rightarrow> ('d world, unit) io" where
  "build_base_images env dk dataset force_rebuild namespace instance_image_tag env_image_tag =
     bind_io (lift (get_test_specs_from_dataset env dataset namespace instance_image_tag env_image_tag))
       (\<lambda>specs.
     bind_io (lift (mapE (base_image_entry env) specs)) (\<lambda>entries.
       for_each (build_base_image dk force_rebuild) (dict_update [] entries)))"

record env_config =
  ec_setup_script :: string
  ec_dockerfile :: string
  ec_platform :: string

definition env_image_config :: "ts_env \<Rightarrow> TestSpec \<Rightarrow> exc + env_config" where
  "env_image_config env spec =
     rbind (setup_env_script spec) (\<lambda>s. rbind (env_dockerfile env spec) (\<lambda>f. rbind (platform spec) (\<lambda>p.
       Inr \<lparr>ec_setup_script = s, ec_dockerfile = f, ec_platform = p\<rparr>)))"

text \<open>One round of the loop: the base images found so far and the images to build.\<close>

definition env_config_step ::
    "ts_env \<Rightarrow> 'd docker \<Rightarrow> TestSpec \<Rightarrow> string list \<times> (string, env_config) pydict \<Rightarrow>
     ('d world, string list \<times> (string, env_config) pydict) io" where
  "env_config_step env dk spec = (\<lambda>(base_images, image_scripts).
     bind_io (lift (base_image_key env spec)) (\<lambda>base.
     bind_io (if base \<in> set base_images then ret True else image_exists dk base) (\<lambda>found.
     bind_io (lift (env_image_key env spec)) (\<lambda>key.
       if \<not> found then
         raise (OtherException ''Exception'' (''Base image '' @ base @ '' not found for '' @ key @ newline
           # ''.Please build the base images first.''))
       else
         bind_io (image_exists dk key) (\<lambda>exists.
           if exists then ret (base # base_images, image_scripts)
           else bind_io (lift (env_image_config env spec)) (\<lambda>config.
             ret (base # base_images, dict_set image_scripts key config)))))))"

fun env_configs_loop ::
    "ts_env \<Rightarrow> 'd docker \<Rightarrow> TestSpec list \<Rightarrow> string list \<times> (string, env_config) pydict \<Rightarrow>
     ('d world, (string, env_config) pydict) io" where
  "env_configs_loop env dk [] st = ret (snd st)"
| "env_configs_loop env dk (spec # specs) st =
     bind_io (env_config_step env dk spec st) (env_configs_loop env dk specs)"

definition get_env_configs_to_build ::
    "ts_env \<Rightarrow> 'd docker \<Rightarrow> dataset_instance list + TestSpec list \<Rightarrow> string option \<Rightarrow>
     string option \<Rightarrow> string option \<Rightarrow> ('d world, (string, env_config) pydict) io" where
  "get_env_configs_to_build env dk dataset namespace instance_image_tag env_image_tag =
     bind_io (lift (get_test_specs_from_dataset env dataset namespace instance_image_tag env_image_tag))
       (\<lambda>specs. env_configs_loop env dk specs ([], []))"

text \<open>
  \<open>harness/utils.py\<close>: \<open>run_threadpool\<close> and \<open>run_sequential\<close>. The payloads of a pool touch different
  images, containers and files, so a run is a run of one after the other, in an order (\<open>sched\<close>) that
  the pool chooses. The payloads that succeeded and those that failed are returned, as payloads.
\<close>

fun run_all :: "('p \<Rightarrow> ('w, 'r) io) \<Rightarrow> 'p list \<Rightarrow> 'w \<Rightarrow> 'w \<times> 'p list \<times> 'p list" where
  "run_all func [] w = (w, [], [])"
| "run_all func (p # ps) w =
     (let (w1, r) = func p w; (w2, succeeded, failed) = run_all func ps w1 in
      case r of Inr x \<Rightarrow> (w2, p # succeeded, failed) | Inl e \<Rightarrow> (w2, succeeded, p # failed))"

definition run_threadpool ::
    "('p list \<Rightarrow> 'p list) \<Rightarrow> ('p \<Rightarrow> ('w, 'r) io) \<Rightarrow> 'p list \<Rightarrow> int \<Rightarrow> ('w, 'p list \<times> 'p list) io" where
  "run_threadpool sched func payloads max_workers =
     (\<lambda>w. let (w1, r) = run_all func (if max_workers \<le> 0 then payloads else sched payloads) w in (w1, Inr r))"

definition env_build_request :: "string \<times> env_config \<Rightarrow> build_request" where
  "env_build_request = (\<lambda>(name, config).
     \<lparr>br_tag = name, br_scripts = [(''setup_env.sh'', ec_setup_script config)],
      br_dockerfile = ec_dockerfile config, br_platform = ec_platform config, br_nocache = False\<rparr>)"

definition build_env_images ::
    "ts_env \<Rightarrow> 'd docker \<Rightarrow> (build_request list \<Rightarrow> build_request list) \<Rightarrow>
     dataset_instance list + TestSpec list \<Rightarrow> bool \<Rightarrow> int \<Rightarrow> string option \<Rightarrow> string option \<Rightarrow>
     string option \<Rightarrow> ('d world, build_request list \<times> build_request list) io" where
  "build_env_images env dk sched dataset force_rebuild max_workers namespace instance_image_tag env_image_tag =
     bind_io
       (if force_rebuild then
          bind_io (lift (get_test_specs_from_dataset env dataset namespace instance_image_tag env_image_tag))
            (\<lambda>specs.
          bind_io (lift (mapE (env_image_key env) specs)) (\<lambda>env_image_keys.
            for_each (\<lambda>key. remove_image dk key Quiet) (remdups env_image_keys)))
        else ret ()) (\<lambda>_.
     bind_io (build_base_images env dk dataset force_rebuild namespace instance_image_tag env_image_tag) (\<lambda>_.
     bind_io (get_env_configs_to_build env dk dataset namespace instance_image_tag env_image_tag)
       (\<lambda>configs_to_build.
       if configs_to_build = [] then ret ([], [])
       else run_threadpool sched (build_image dk) (map env_build_request configs_to_build) max_workers)))"

definition build_instance_image ::
    "ts_env \<Rightarrow> 'd docker \<Rightarrow> TestSpec \<Rightarrow> bool \<Rightarrow> ('d world, unit) io" where
  "build_instance_image env dk spec nocache =
     (let image_name = instance_image_key spec in
      bind_io (lift (env_image_key env spec)) (\<lambda>env_image_name.
      bind_io (lift (instance_dockerfile env spec)) (\<lambda>dockerfile.
      bind_io (image_exists dk env_image_name) (\<lambda>env_exists.
        if \<not> env_exists then
          raise (BuildImageError (sp_instance_id spec) (''Environment image '' @ env_image_name
            @ '' not found for '' @ sp_instance_id spec))
        else
          bind_io (image_exists dk image_name) (\<lambda>exists.
            if exists then ret ()
            else
              bind_io (lift (install_repo_script spec)) (\<lambda>script.
              bind_io (lift (platform spec)) (\<lambda>p.
                build_image dk \<lparr>br_tag = image_name, br_scripts = [(''setup_repo.sh'', script)],
                  br_dockerfile = dockerfile, br_platform = p, br_nocache = nocache\<rparr>)))))))"

text \<open>
  \<open>env_failed\<close> holds the payloads of the builds that failed, and the code asks whether the name of an
  image is among them: \<open>name in env_failed\<close> compares a string with tuples, which are never equal.
\<close>

definition name_equals_payload :: "string \<Rightarrow> build_request \<Rightarrow> bool" where
  "name_equals_payload name payload = False"

definition skip_failed ::
    "ts_env \<Rightarrow> build_request list \<Rightarrow> TestSpec list \<Rightarrow> exc + TestSpec list" where
  "skip_failed env env_failed specs =
     (if env_failed = [] then Inr specs
      else rbind (mapE (env_image_key env) specs) (\<lambda>names.
        Inr (map fst (filter (\<lambda>(spec, name). \<not> list_ex (name_equals_payload name) env_failed)
               (zip specs names)))))"

definition build_instance_images ::
    "ts_env \<Rightarrow> 'd docker \<Rightarrow> (build_request list \<Rightarrow> build_request list) \<Rightarrow> (TestSpec list \<Rightarrow> TestSpec list) \<Rightarrow>
     dataset_instance list \<Rightarrow> bool \<Rightarrow> int \<Rightarrow> string option \<Rightarrow> string option \<Rightarrow> string option \<Rightarrow>
     ('d world, TestSpec list \<times> TestSpec list) io" where
  "build_instance_images env dk sched1 sched2 dataset force_rebuild max_workers namespace tag env_image_tag =
     bind_io (lift (mapE (\<lambda>x. make_test_spec env (Inl x) namespace
        \<lparr>base_tag = Some LATEST, env_tag = env_image_tag, instance_tag = tag\<rparr> ''x86_64'') dataset)) (\<lambda>specs.
     bind_io (if force_rebuild
              then for_each (\<lambda>spec. remove_image dk (instance_image_key spec) Quiet) specs else ret ()) (\<lambda>_.
     bind_io (build_env_images env dk sched1 (Inr specs) force_rebuild max_workers None None None)
       (\<lambda>(built, env_failed).
     bind_io (lift (skip_failed env env_failed specs)) (\<lambda>specs.
       run_threadpool sched2 (\<lambda>spec. build_instance_image env dk spec False) specs max_workers))))"

definition container_name :: "TestSpec \<Rightarrow> string \<Rightarrow> string" where
  "container_name spec run_id = get_instance_container_name spec (Some run_id)"

definition instance_image_at_hand ::
    "ts_env \<Rightarrow> 'd docker \<Rightarrow> TestSpec \<Rightarrow> bool \<Rightarrow> ('d world, unit) io" where
  "instance_image_at_hand env dk spec nocache =
     (let key = instance_image_key spec in
      if \<not> is_remote_image spec then build_instance_image env dk spec nocache
      else
        bind_io (image_exists dk key) (\<lambda>exists.
          if exists then ret ()
          else try_io (on_docker (images_pull dk key)) (\<lambda>e.
            if docker_not_found e then raise (BuildImageError (sp_instance_id spec) (exc_text e))
            else bind_io (lift (base_image_key env spec)) (\<lambda>base.
              raise (OtherException ''Exception''
                (''Error occurred while pulling image '' @ base @ '': '' @ exc_text e))))))"

definition build_container ::
    "ts_env \<Rightarrow> 'd docker \<Rightarrow> TestSpec \<Rightarrow> string \<Rightarrow> bool \<Rightarrow> bool \<Rightarrow> ('d world, string) io" where
  "build_container env dk spec run_id nocache force_rebuild =
     bind_io (if force_rebuild then remove_image dk (instance_image_key spec) Quiet else ret ()) (\<lambda>_.
     bind_io (instance_image_at_hand env dk spec nocache) (\<lambda>_.
     try_io
       (bind_io (lift (get_item (sp_docker_specs spec) ''run_args'' (JObj []))) (\<lambda>run_args.
        bind_io (lift (get_item run_args ''cap_add'' (JList []))) (\<lambda>cap_add.
        bind_io (lift (platform spec)) (\<lambda>p.
          on_docker (containers_create dk (instance_image_key spec) (container_name spec run_id) p cap_add)))))
       (\<lambda>e. raise (BuildImageError (sp_instance_id spec) (exc_text e)))))"

end
