(* ===== verification/Run_Evaluation.thy ===== *)
theory Run_Evaluation
  imports Harness_Docker Reporting
begin

text \<open>
  \<open>SWE-bench/swebench/harness/run_evaluation.py\<close>: the evaluation of a prediction on an instance, the
  run over the instances of a dataset, the choice of the instances that are run, and \<open>main\<close> for local
  runs. The link to the build directory and the progress bar are left out. \<open>KeyboardInterrupt\<close> and
  what else is no \<open>Exception\<close> is not modelled.
\<close>

section \<open>Paths\<close>

definition model_dir :: "run_prediction \<Rightarrow> string" where
  "model_dir pred = replace (rp_model pred) ''/'' ''__''"

definition log_dir :: "string \<Rightarrow> run_prediction \<Rightarrow> string \<Rightarrow> string" where
  "log_dir run_id pred instance_id =
     join ''/'' [''logs/run_evaluation'', run_id, model_dir pred, instance_id]"

definition report_file :: "string \<Rightarrow> run_prediction \<Rightarrow> string \<Rightarrow> string" where
  "report_file run_id pred instance_id = log_dir run_id pred instance_id @ ''/report.json''"

definition test_output_file :: "string \<Rightarrow> run_prediction \<Rightarrow> string \<Rightarrow> string" where
  "test_output_file run_id pred instance_id = log_dir run_id pred instance_id @ ''/test_output.txt''"

section \<open>What the grading gets\<close>

text \<open>The commands in the tables, as the grading looks them up.\<close>

fun test_cmd_of :: "json \<Rightarrow> (string, test_cmd) pydict" where
  "test_cmd_of (JStr s) = [(''test_cmd'', Cmd s)]"
| "test_cmd_of (JList vs) =
     (case mapE str_of vs of Inr ss \<Rightarrow> [(''test_cmd'', Cmds ss)] | Inl e \<Rightarrow> [])"
| "test_cmd_of v = []"

definition grading_specs :: "spec_tables \<Rightarrow> repo_specs" where
  "grading_specs tables = map (\<lambda>(repo, versions). (repo, map (\<lambda>(version, entry).
     (version, case map_of entry ''test_cmd'' of Some v \<Rightarrow> test_cmd_of v | None \<Rightarrow> [])) versions)) tables"

text \<open>The gold tests have to be lists of names here, as they are in every dataset.\<close>

fun names_of :: "json \<Rightarrow> exc + string list" where
  "names_of (JList vs) = mapE str_of vs"
| "names_of v = Inl (TypeError ''the tests are no list'')"

definition graded_spec :: "TestSpec \<Rightarrow> exc + test_spec" where
  "graded_spec spec =
     rbind (names_of (sp_FAIL_TO_PASS spec)) (\<lambda>f2p. rbind (names_of (sp_PASS_TO_PASS spec)) (\<lambda>p2p.
       Inr \<lparr>ts_instance_id = sp_instance_id spec, ts_repo = sp_repo spec, ts_version = sp_version spec,
            ts_fail_to_pass = f2p, ts_pass_to_pass = p2p\<rparr>))"

record harness =
  h_env :: ts_env
  h_parsers :: "(string, log_parser) pydict"

definition grade ::
    "harness \<Rightarrow> TestSpec \<Rightarrow> run_prediction \<Rightarrow> string \<Rightarrow> exc + (string, instance_report) pydict" where
  "grade h spec pred content =
     rbind (graded_spec spec) (\<lambda>gs.
       get_eval_report (h_parsers h) (grading_specs (te_specs (h_env h))) gs
         \<lparr>pred_instance_id = rp_instance_id pred, pred_patch = rp_patch pred\<rparr> content True)"

section \<open>The report as JSON\<close>

definition outcome_json :: "outcome \<Rightarrow> json" where
  "outcome_json r = JObj [(''success'', JList (lines_of (success r))), (''failure'', JList (lines_of (failure r)))]"

definition report_fields :: "instance_report \<Rightarrow> dict" where
  "report_fields r =
     [(''patch_is_None'', JBool (patch_is_None r)), (''patch_exists'', JBool (patch_exists r)),
      (''patch_successfully_applied'', JBool (patch_successfully_applied r)),
      (''resolved'', JBool (resolved r))]
     @ (case tests_status r of
          None \<Rightarrow> []
        | Some st \<Rightarrow> [(''tests_status'', JObj (map (\<lambda>(k, v). (k, outcome_json v)) st))])"

definition report_json :: "(string, instance_report) pydict \<Rightarrow> json" where
  "report_json report = JObj (map (\<lambda>(k, r). (k, JObj (report_fields r))) report)"

definition report_text :: "harness \<Rightarrow> (string, instance_report) pydict \<Rightarrow> string" where
  "report_text h report = dumps_indent (te_float (h_env h)) 4 0 (report_json report)"

definition reported_resolved :: "json \<Rightarrow> string \<Rightarrow> exc + json" where
  "reported_resolved report instance_id = rbind (item report instance_id) (\<lambda>r. item r ''resolved'')"

section \<open>\<open>run_instance\<close>\<close>

record run_result =
  rr_completed :: bool
  rr_resolved :: json

definition GIT_APPLY_CMDS :: "string list" where
  "GIT_APPLY_CMDS =
     [''git apply --verbose'', ''git apply --verbose --reject'', ''patch --forward --batch --fuzz=5 -p1 -i'']"

definition DOCKER_PATCH :: string where "DOCKER_PATCH = ''/tmp/patch.diff''"

text \<open>The commands that apply the patch, one after the other: whether it counts as applied, and the
  output of the last command that ran.\<close>

fun try_patch :: "'d docker \<Rightarrow> string \<Rightarrow> string list \<Rightarrow> bool \<times> string \<Rightarrow> ('d world, bool \<times> string) io" where
  "try_patch dk c [] st = ret st"
| "try_patch dk c (cmd # cmds) st =
     bind_io (on_docker (exec_run dk c (cmd @ '' '' @ DOCKER_PATCH))) (\<lambda>(code, out).
       if code = 0 then ret (True, out)
       else if cmd = last GIT_APPLY_CMDS then try_patch dk c cmds (True, out)
       else try_patch dk c cmds (fst st, out))"

definition EvaluationError :: "string \<Rightarrow> string \<Rightarrow> exc" where
  "EvaluationError instance_id message = OtherException ''EvaluationError'' (instance_id @ '': '' @ message)"

definition git_diff :: "'d docker \<Rightarrow> string \<Rightarrow> ('d world, string) io" where
  "git_diff dk c =
     bind_io (on_docker (exec_run dk c ''git -c core.fileMode=false diff'')) (\<lambda>(code, out). ret (strip out))"

definition show_timeout :: "int option \<Rightarrow> string" where
  "show_timeout t = (case t of None \<Rightarrow> ''None'' | Some n \<Rightarrow> show_int n)"

text \<open>The body of the \<open>try\<close> once the container is there: the report, when the evaluation completes.\<close>

definition evaluate_in ::
    "harness \<Rightarrow> 'd docker \<Rightarrow> TestSpec \<Rightarrow> run_prediction \<Rightarrow> string \<Rightarrow> int option \<Rightarrow> string \<Rightarrow>
     ('d world, (string, instance_report) pydict) io" where
  "evaluate_in h dk spec pred run_id timeout c =
     (let i = sp_instance_id spec; dir = log_dir run_id pred i;
          patch = (case rp_patch pred of Some p \<Rightarrow> p | None \<Rightarrow> []) in
      bind_io (on_docker (container_start dk c)) (\<lambda>_.
      bind_io (write_text (dir @ ''/patch.diff'') patch) (\<lambda>_.
      bind_io (copy_to_container dk c patch DOCKER_PATCH) (\<lambda>_.
      bind_io (try_patch dk c GIT_APPLY_CMDS (False, [])) (\<lambda>(applied_patch, out).
      if \<not> applied_patch then raise (EvaluationError i (APPLY_PATCH_FAIL @ '':'' @ newline # out))
      else
      bind_io (git_diff dk c) (\<lambda>git_diff_output_before.
      bind_io (lift (eval_script spec)) (\<lambda>script.
      bind_io (write_text (dir @ ''/eval.sh'') script) (\<lambda>_.
      bind_io (copy_to_container dk c script ''/eval.sh'') (\<lambda>_.
      bind_io (exec_run_with_timeout dk c ''/bin/bash /eval.sh'' timeout) (\<lambda>(test_output, timed_out).
      if timed_out then
        bind_io (write_text (test_output_file run_id pred i)
            (test_output @ newline # newline # ''Timeout error: '' @ show_timeout timeout @ '' seconds exceeded.''))
          (\<lambda>_. raise (EvaluationError i (''Test timed out after '' @ show_timeout timeout @ '' seconds.'')))
      else
      bind_io (write_text (test_output_file run_id pred i) test_output) (\<lambda>_.
      bind_io (git_diff dk c) (\<lambda>git_diff_output_after.
      bind_io (lift (grade h spec pred test_output)) (\<lambda>report.
      bind_io (lift (lookup report i)) (\<lambda>entry.
      bind_io (write_text (report_file run_id pred i) (report_text h report)) (\<lambda>_.
        ret report)))))))))))))))"

text \<open>The \<open>finally\<close> clause: with a logger nothing in it raises, and it returns the result.\<close>

definition finish_run ::
    "'d docker \<Rightarrow> TestSpec \<Rightarrow> bool \<Rightarrow> string option \<Rightarrow> run_result \<Rightarrow> ('d world, run_result) io" where
  "finish_run dk spec rm_image container result =
     bind_io (cleanup_container dk container Logged) (\<lambda>_.
     bind_io (if rm_image then remove_image dk (instance_image_key spec) Logged else ret ()) (\<lambda>_.
       ret result))"

definition not_completed :: run_result where
  "not_completed = \<lparr>rr_completed = False, rr_resolved = JBool False\<rparr>"

definition completed_with :: "TestSpec \<Rightarrow> (string, instance_report) pydict \<Rightarrow> run_result" where
  "completed_with spec report =
     \<lparr>rr_completed = True,
      rr_resolved = (case map_of report (sp_instance_id spec) of
        Some r \<Rightarrow> JBool (resolved r) | None \<Rightarrow> JBool False)\<rparr>"

definition run_fresh ::
    "harness \<Rightarrow> 'd docker \<Rightarrow> TestSpec \<Rightarrow> run_prediction \<Rightarrow> bool \<Rightarrow> bool \<Rightarrow> string \<Rightarrow> int option \<Rightarrow>
     ('d world, run_result) io" where
  "run_fresh h dk spec pred rm_image force_rebuild run_id timeout = (\<lambda>w.
     case build_container (h_env h) dk spec run_id rm_image force_rebuild w of
       (w1, Inl e) \<Rightarrow> finish_run dk spec rm_image None not_completed w1
     | (w1, Inr c) \<Rightarrow>
         (case evaluate_in h dk spec pred run_id timeout c w1 of
            (w2, Inl e) \<Rightarrow> finish_run dk spec rm_image (Some c) not_completed w2
          | (w2, Inr report) \<Rightarrow> finish_run dk spec rm_image (Some c) (completed_with spec report) w2))"

definition rewrite_report ::
    "harness \<Rightarrow> TestSpec \<Rightarrow> run_prediction \<Rightarrow> string \<Rightarrow> ('d world, run_result) io" where
  "rewrite_report h spec pred run_id =
     (let i = sp_instance_id spec; path = test_output_file run_id pred i in
      (\<lambda>w. if \<not> path_exists w path
          then (w, Inl (ValueError (''Test output file '' @ path @ '' does not exist'')))
          else
            bind_io (read_text path) (\<lambda>content.
            bind_io (lift (grade h spec pred content)) (\<lambda>report.
            bind_io (write_text (report_file run_id pred i) (report_text h report)) (\<lambda>_.
            bind_io (lift (lookup report i)) (\<lambda>r.
              ret \<lparr>rr_completed = True, rr_resolved = JBool (resolved r)\<rparr>)))) w))"

definition run_instance ::
    "harness \<Rightarrow> 'd docker \<Rightarrow> TestSpec \<Rightarrow> run_prediction \<Rightarrow> bool \<Rightarrow> bool \<Rightarrow> string \<Rightarrow> int option \<Rightarrow> bool \<Rightarrow>
     ('d world, run_result) io" where
  "run_instance h dk spec pred rm_image force_rebuild run_id timeout rewrite_reports =
     (let path = report_file run_id pred (sp_instance_id spec) in
      if rewrite_reports then rewrite_report h spec pred run_id
      else (\<lambda>w.
        if path_exists w path then
          bind_io (read_text path) (\<lambda>text.
          bind_io (lift (te_loads (h_env h) text)) (\<lambda>report.
          bind_io (lift (reported_resolved report (sp_instance_id spec))) (\<lambda>r.
            ret \<lparr>rr_completed = True, rr_resolved = r\<rparr>))) w
        else run_fresh h dk spec pred rm_image force_rebuild run_id timeout w))"

section \<open>\<open>run_instances\<close>\<close>

record run_options =
  ro_cache_level :: string
  ro_clean :: bool
  ro_force_rebuild :: bool
  ro_max_workers :: int
  ro_run_id :: string
  ro_timeout :: "int option"
  ro_namespace :: "string option"
  ro_instance_image_tag :: string
  ro_env_image_tag :: string
  ro_rewrite_reports :: bool

text \<open>What a worker gets: the specification, the prediction and whether the image is removed.\<close>

type_synonym payload = "TestSpec \<times> run_prediction \<times> bool"

definition instance_payload ::
    "(string, run_prediction) pydict \<Rightarrow> run_options \<Rightarrow> string list \<Rightarrow> TestSpec \<Rightarrow> exc + payload" where
  "instance_payload predictions opts existing_images spec =
     rbind (lookup predictions (sp_instance_id spec)) (\<lambda>pred.
       Inr (spec, pred, should_remove (instance_image_key spec) (ro_cache_level opts) (ro_clean opts)
                          existing_images))"

definition run_payload ::
    "harness \<Rightarrow> 'd docker \<Rightarrow> run_options \<Rightarrow> payload \<Rightarrow> ('d world, run_result) io" where
  "run_payload h dk opts = (\<lambda>(spec, pred, rm_image).
     run_instance h dk spec pred rm_image (ro_force_rebuild opts) (ro_run_id opts) (ro_timeout opts)
       (ro_rewrite_reports opts))"

definition run_tags :: "run_options \<Rightarrow> image_tags" where
  "run_tags opts = \<lparr>base_tag = Some LATEST, env_tag = Some (ro_env_image_tag opts),
     instance_tag = Some (ro_instance_image_tag opts)\<rparr>"

definition run_instances ::
    "harness \<Rightarrow> 'd docker \<Rightarrow> (payload list \<Rightarrow> payload list) \<Rightarrow> (string, run_prediction) pydict \<Rightarrow>
     dataset_instance list \<Rightarrow> run_options \<Rightarrow> ('d world, payload list \<times> payload list) io" where
  "run_instances h dk sched predictions instances opts =
     bind_io (lift (mapE (\<lambda>x. make_test_spec (h_env h) (Inl x) (ro_namespace opts) (run_tags opts)
                                ''x86_64'') instances)) (\<lambda>specs.
     bind_io (list_images dk) (\<lambda>tags.
     let existing_images = filter (\<lambda>t. t \<in> set (map instance_image_key specs)) tags in
     bind_io (lift (mapE (instance_payload predictions opts existing_images) specs)) (\<lambda>payloads.
       run_threadpool sched (run_payload h dk opts) payloads (ro_max_workers opts))))"

section \<open>\<open>get_dataset_from_preds\<close>\<close>

definition empty_patch :: "run_prediction \<Rightarrow> bool" where
  "empty_patch p \<longleftrightarrow> rp_patch p = Some [] \<or> rp_patch p = None"

text \<open>Has the instance a prediction and, with it, a file of that name in its log directory.\<close>

definition has_log ::
    "(string, run_prediction) pydict \<Rightarrow> string \<Rightarrow> string \<Rightarrow> 'd world \<Rightarrow> dataset_instance \<Rightarrow> bool" where
  "has_log predictions run_id name w inst =
     (case map_of predictions (di_instance_id inst) of
        None \<Rightarrow> False
      | Some p \<Rightarrow> path_exists w (log_dir run_id p (rp_instance_id p) @ ''/'' @ name))"

definition get_dataset_from_preds ::
    "dataset_instance list \<Rightarrow> string list \<Rightarrow> (string, run_prediction) pydict \<Rightarrow> string \<Rightarrow> bool \<Rightarrow> bool \<Rightarrow>
     'd world \<Rightarrow> exc + dataset_instance list" where
  "get_dataset_from_preds dataset instance_ids predictions run_id rewrite_reports exclude_completed w =
     (let dataset_ids = map di_instance_id dataset; prediction_ids = keys predictions;
          missing = filter (\<lambda>i. i \<notin> set dataset_ids) prediction_ids in
      if missing \<noteq> [] then
        Inl (ValueError (''Some prediction IDs not found in dataset!'' @ newline # ''Missing IDs:''
          @ newline # join '' '' missing))
      else
        let dataset = (if instance_ids \<noteq> []
              then filter (\<lambda>i. di_instance_id i \<in> set instance_ids) dataset else dataset) in
        if rewrite_reports then
          Inr (filter (\<lambda>i. di_instance_id i \<in> set prediction_ids
                 \<and> di_instance_id i \<in> di_instance_id ` set (filter (has_log predictions run_id ''test_output.txt'' w) dataset))
               dataset)
        else
          let completed_ids = map di_instance_id (filter (has_log predictions run_id ''report.json'' w) dataset);
              dataset = (if completed_ids \<noteq> [] \<and> exclude_completed
                then filter (\<lambda>i. di_instance_id i \<notin> set completed_ids) dataset else dataset);
              empty_patch_ids = map fst (filter (\<lambda>(k, v). empty_patch v) predictions)
          in Inr (filter (\<lambda>i. di_instance_id i \<in> set prediction_ids
                    \<and> di_instance_id i \<notin> set empty_patch_ids) dataset))"

section \<open>\<open>main\<close>, local runs\<close>

definition main_run ::
    "harness \<Rightarrow> 'd docker \<Rightarrow> (build_request list \<Rightarrow> build_request list) \<Rightarrow> (payload list \<Rightarrow> payload list) \<Rightarrow>
     dataset_instance list \<Rightarrow> string list \<Rightarrow> run_prediction list \<Rightarrow> run_options \<Rightarrow> ('d world, unit) io" where
  "main_run h dk sched1 sched2 dataset instance_ids preds opts =
     (if ro_run_id opts = [] then raise AssertionError
      else if ro_force_rebuild opts \<and> ro_namespace opts \<noteq> None then
        raise (ValueError ''Cannot force rebuild and use a namespace at the same time.'')
      else
        let predictions = dict_update [] (map (\<lambda>p. (rp_instance_id p, p)) preds) in
        bind_io (\<lambda>w. (w, get_dataset_from_preds dataset instance_ids predictions (ro_run_id opts)
                           (ro_rewrite_reports opts) True w)) (\<lambda>chosen.
        bind_io (list_images dk) (\<lambda>existing_images.
        bind_io (if chosen = [] then ret ()
                 else
                   bind_io (if ro_namespace opts = None \<and> \<not> ro_rewrite_reports opts
                            then bind_io (build_env_images (h_env h) dk sched1 (Inl chosen) (ro_force_rebuild opts)
                                   (ro_max_workers opts) (ro_namespace opts) (Some (ro_instance_image_tag opts))
                                   (Some (ro_env_image_tag opts))) (\<lambda>_. ret ())
                            else ret ()) (\<lambda>_.
                   bind_io (run_instances h dk sched2 predictions chosen opts) (\<lambda>_. ret ()))) (\<lambda>_.
          clean_images dk existing_images (ro_cache_level opts) (ro_clean opts)))))"

end
