(* ===== verification/Harness_Effects.thy ===== *)
theory Harness_Effects
  imports Run_Evaluation
begin

text \<open>
  How the operations of the harness change the world, as preorders on worlds that every operation
  obeys: no file is deleted, a file that is not written stays as it is, and no container is left
  behind. The rules for the combinators are proved once, for any preorder.
\<close>

named_theorems effects \<open>operations that respect a preorder on worlds\<close>

locale effect_order =
  fixes le :: "'w \<Rightarrow> 'w \<Rightarrow> bool"
  assumes le_refl: "le w w"
    and le_trans: "le a b \<Longrightarrow> le b c \<Longrightarrow> le a c"
begin

definition obeys :: "('w, 'a) io \<Rightarrow> bool" where
  "obeys m \<longleftrightarrow> (\<forall>w. le w (fst (m w)))"

lemma obeysD: "obeys m \<Longrightarrow> m w = (w1, r) \<Longrightarrow> le w w1"
  by (metis obeys_def fst_conv)

lemma obeysI: "(\<And>w w1 r. m w = (w1, r) \<Longrightarrow> le w w1) \<Longrightarrow> obeys m"
  by (simp add: obeys_def) (metis prod.collapse)

lemma obeys_pure [effects]: "obeys (ret x)" "obeys (raise e)" "obeys (lift r)" "obeys (\<lambda>w. (w, r))"
  by (simp_all add: obeys_def le_refl)

lemma obeys_bind [effects]:
  assumes "obeys m" and "\<And>x. obeys (f x)"
  shows "obeys (bind_io m f)"
proof (rule obeysI)
  fix w w1 r
  assume run: "bind_io m f w = (w1, r)"
  obtain a s where m: "m w = (a, s)" by fastforce
  then have a: "le w a" using assms(1) by (rule obeysD [rotated])
  show "le w w1"
  proof (cases s)
    case (Inl e)
    with run m a show ?thesis by (simp add: bind_io_def)
  next
    case (Inr x)
    with run m have "f x a = (w1, r)" by (simp add: bind_io_def)
    then show ?thesis using obeysD [OF assms(2)] a le_trans by blast
  qed
qed

lemma obeys_try [effects]:
  assumes "obeys m" and "\<And>e. obeys (h e)"
  shows "obeys (try_io m h)"
proof (rule obeysI)
  fix w w1 r
  assume run: "try_io m h w = (w1, r)"
  obtain a s where m: "m w = (a, s)" by fastforce
  then have a: "le w a" using assms(1) by (rule obeysD [rotated])
  show "le w w1"
  proof (cases s)
    case (Inl e)
    with run m have "h e a = (w1, r)" by (simp add: try_io_def)
    then show ?thesis using obeysD [OF assms(2)] a le_trans by blast
  next
    case (Inr x)
    with run m a show ?thesis by (simp add: try_io_def)
  qed
qed

lemma obeys_if [effects]: "obeys a \<Longrightarrow> obeys b \<Longrightarrow> obeys (if p then a else b)"
  by simp

lemma obeys_pair: "(\<And>a b. obeys (f a b)) \<Longrightarrow> obeys (case x of (a, b) \<Rightarrow> f a b)"
  by (cases x) simp

lemma obeys_test: "obeys m \<Longrightarrow> obeys n \<Longrightarrow> obeys (\<lambda>w. if q w then m w else n w)"
  by (simp add: obeys_def)

lemma obeys_for_each [effects]: "(\<And>x. obeys (f x)) \<Longrightarrow> obeys (for_each f xs)"
  by (induction xs) (auto intro: effects)

lemma obeys_run_all:
  assumes "\<And>p. obeys (f p)"
  shows "le w (fst (run_all f ps w))"
proof (induction ps arbitrary: w)
  case (Cons p ps)
  obtain a r where a: "f p w = (a, r)" by fastforce
  then have "le w a" using assms by (rule obeysD [rotated])
  moreover have "le a (fst (run_all f ps a))" by (rule Cons.IH)
  ultimately have "le w (fst (run_all f ps a))" by (rule le_trans)
  then show ?case by (simp add: a split: prod.splits sum.splits) (metis fst_conv)
qed (simp add: le_refl)

lemma obeys_threadpool [effects]:
  assumes "\<And>p. obeys (f p)"
  shows "obeys (run_threadpool sched f ps n)"
  using obeys_run_all [of f, OF assms] by (simp add: obeys_def run_threadpool_def split: prod.splits) (metis fst_conv)

end

section \<open>The calls of the daemon and of the file system\<close>

text \<open>A preorder that the calls of the daemon respect, and writing the files of a set.\<close>

locale harness_order = effect_order le for le :: "'d world \<Rightarrow> 'd world \<Rightarrow> bool" +
  fixes dk :: "'d docker" and written :: "string set"
  assumes writes: "p \<in> written \<Longrightarrow> obeys (write_text p t)"
    and calls: "obeys (on_docker (images_get dk a))" "obeys (on_docker (images_pull dk a))"
      "obeys (on_docker (images_remove dk a))" "obeys (on_docker (images_tags dk))"
      "obeys (on_docker (api_build dk req))"
      "obeys (on_docker (container_start dk a))" "obeys (on_docker (container_stop dk a))"
      "obeys (on_docker (container_remove dk a))" "obeys (on_docker (container_pid dk a))"
      "obeys (on_docker (kill_process dk n))" "obeys (on_docker (put_archive dk a b t))"
      "obeys (on_docker (exec_run dk a b))" "obeys (on_docker (exec_stream dk a b timeout))"
      "obeys (on_docker (exec_pid dk a))"
begin

lemmas rules = effects calls

lemma obeys_read: "obeys (read_text p)"
  by (simp add: obeys_def read_text_def le_refl)

lemma remove_image_ok: "obeys (remove_image dk i l)"
  unfolding remove_image_def by (cases l) (auto intro!: rules)

lemma stop_container_ok: "obeys (stop_container dk c l)"
  unfolding stop_container_def by (cases l) (auto intro!: rules)

lemma cleanup_container_ok: "obeys (cleanup_container dk c l)"
  unfolding cleanup_container_def by (cases l; cases c) (auto intro!: rules stop_container_ok)

lemma exec_run_with_timeout_ok: "obeys (exec_run_with_timeout dk c cmd t)"
  unfolding exec_run_with_timeout_def by (auto intro!: rules split: option.splits)

lemma copy_to_container_ok: "obeys (copy_to_container dk c t p)"
  unfolding copy_to_container_def by (auto intro!: rules)

lemma list_images_ok: "obeys (list_images dk)"
  unfolding list_images_def by (rule calls)

lemma clean_images_ok: "obeys (clean_images dk a b c)"
  unfolding clean_images_def by (auto intro!: rules list_images_ok remove_image_ok)

lemma build_image_ok: "obeys (build_image dk req)"
  unfolding build_image_def by (auto intro!: rules)

lemma image_exists_ok: "obeys (image_exists dk i)"
  unfolding image_exists_def by (auto intro!: rules)

lemma build_instance_image_ok: "obeys (build_instance_image env dk spec b)"
  unfolding build_instance_image_def Let_def by (auto intro!: rules image_exists_ok build_image_ok)

lemma instance_image_at_hand_ok: "obeys (instance_image_at_hand env dk spec b)"
  unfolding instance_image_at_hand_def Let_def
  by (auto intro!: rules image_exists_ok build_instance_image_ok)

lemma try_patch_ok: "obeys (try_patch dk c cmds st)"
  by (induction cmds arbitrary: st) (auto intro!: rules split: prod.splits)

lemma git_diff_ok: "obeys (git_diff dk c)"
  unfolding git_diff_def by (auto intro!: rules split: prod.splits)

lemma finish_run_ok: "obeys (finish_run dk spec b c r)"
  unfolding finish_run_def by (auto intro!: rules cleanup_container_ok remove_image_ok)

lemmas step_rules = rules copy_to_container_ok try_patch_ok git_diff_ok exec_run_with_timeout_ok
  image_exists_ok build_image_ok remove_image_ok

end

text \<open>The run of an instance, when the creation of a container respects the preorder as well.\<close>

locale run_order = harness_order le dk written
  for le :: "'d world \<Rightarrow> 'd world \<Rightarrow> bool" and dk :: "'d docker" and written +
  assumes create: "obeys (on_docker (containers_create dk a b c v))"
begin

lemma build_container_ok: "obeys (build_container env dk spec run_id b f)"
  unfolding build_container_def
  by (auto intro!: step_rules create instance_image_at_hand_ok)

end

section \<open>The preorders\<close>

lemma on_docker_files: "on_docker m w = (w1, r) \<Longrightarrow> w_files w1 = w_files w"
  by (auto simp: on_docker_def split: prod.splits)

lemma files_fst_on_docker [simp]: "w_files (fst (on_docker m w)) = w_files w"
  by (auto simp: on_docker_def split: prod.splits)

text \<open>No file is deleted.\<close>

definition files_grow :: "'d world \<Rightarrow> 'd world \<Rightarrow> bool" where
  "files_grow w w1 \<longleftrightarrow> (\<forall>p. path_exists w p \<longrightarrow> path_exists w1 p)"

interpretation fg: effect_order "files_grow :: 'd world \<Rightarrow> 'd world \<Rightarrow> bool"
  by unfold_locales (auto simp: files_grow_def)

interpretation grow: run_order "files_grow :: 'd world \<Rightarrow> 'd world \<Rightarrow> bool" dk UNIV for dk
  by unfold_locales
    (auto simp: files_grow_def path_exists_def fg.obeys_def write_text_def map_of_dict_set)

text \<open>A file that is not written stays as it is.\<close>

definition file_kept :: "string \<Rightarrow> 'd world \<Rightarrow> 'd world \<Rightarrow> bool" where
  "file_kept p w w1 \<longleftrightarrow> map_of (w_files w1) p = map_of (w_files w) p"

interpretation fk: effect_order "file_kept p :: 'd world \<Rightarrow> 'd world \<Rightarrow> bool" for p
  by unfold_locales (auto simp: file_kept_def)

interpretation kept: run_order "file_kept p :: 'd world \<Rightarrow> 'd world \<Rightarrow> bool" dk "- {p}" for p dk
  by unfold_locales (auto simp: file_kept_def fk.obeys_def write_text_def map_of_dict_set)

end
