(* ===== verification/Run_Evaluation_Properties.thy ===== *)
theory Run_Evaluation_Properties
  imports Harness_Effects Test_Spec_Correct Json_Roundtrip
begin

text \<open>
  The evaluation harness as a whole: what a run on an instance returns and leaves behind, that a second
  run takes up where the first one stopped, that no container survives its run, and that the run
  report counts what the runs returned. Two theorems state what the code does against its comments:
  a patch that no command could apply is evaluated like one that was applied, and an environment image
  that failed to build does not keep its instances from being built.
\<close>

section \<open>What an operation leaves in a file\<close>

definition leaves :: "string \<Rightarrow> ('d world, 'a) io \<Rightarrow> (string option \<Rightarrow> exc + 'a \<Rightarrow> bool) \<Rightarrow> bool" where
  "leaves p m Q \<longleftrightarrow>
     (\<forall>w w1 r. map_of (w_files w) p = None \<longrightarrow> m w = (w1, r) \<longrightarrow> Q (map_of (w_files w1) p) r)"

lemma leaves_bind:
  assumes "fk.obeys p m" and "\<And>x. leaves p (f x) Q" and "\<And>e. Q None (Inl e)"
  shows "leaves p (bind_io m f) Q"
  unfolding leaves_def
proof (intro allI impI)
  fix w w1 r
  assume w: "map_of (w_files w) p = None" and run: "bind_io m f w = (w1, r)"
  obtain a s where m: "m w = (a, s)" by fastforce
  with assms(1) have "file_kept p w a" by (blast dest: fk.obeysD)
  with w have a: "map_of (w_files a) p = None" by (simp add: file_kept_def)
  show "Q (map_of (w_files w1) p) r"
  proof (cases s)
    case (Inl e)
    with run m a assms(3) show ?thesis by (auto simp: bind_io_def)
  next
    case (Inr x)
    with run m have "f x a = (w1, r)" by (simp add: bind_io_def)
    with a assms(2) [of x] show ?thesis by (simp add: leaves_def)
  qed
qed

lemma leaves_lift:
  assumes "\<And>x. v = Inr x \<Longrightarrow> leaves p (f x) Q" and "\<And>e. Q None (Inl e)"
  shows "leaves p (bind_io (lift v) f) Q"
proof (cases v)
  case (Inl e)
  with assms(2) show ?thesis by (auto simp: leaves_def bind_io_def)
next
  case (Inr x)
  with assms(1) show ?thesis by simp
qed

lemma leaves_raise: "Q None (Inl e) \<Longrightarrow> leaves p (raise e) Q"
  by (auto simp: leaves_def)

lemma leaves_written: "Q (Some t) (Inr x) \<Longrightarrow> leaves p (bind_io (write_text p t) (\<lambda>_. ret x)) Q"
  by (auto simp: leaves_def bind_io_def write_text_def map_of_dict_set)

lemma leaves_if: "(b \<Longrightarrow> leaves p m Q) \<Longrightarrow> (\<not> b \<Longrightarrow> leaves p n Q) \<Longrightarrow> leaves p (if b then m else n) Q"
  by simp

lemma leaves_pair: "(\<And>a b. leaves p (f a b) Q) \<Longrightarrow> leaves p (case x of (a, b) \<Rightarrow> f a b) Q"
  by (cases x) simp

lemma run_files_differ:
  "log_dir r p i @ ''/patch.diff'' \<noteq> report_file r p i" "log_dir r p i @ ''/eval.sh'' \<noteq> report_file r p i"
  "test_output_file r p i \<noteq> report_file r p i"
  by (simp_all add: report_file_def test_output_file_def)

lemma lookup_Inr: "lookup d k = Inr v \<Longrightarrow> map_of d k = Some v"
  by (auto simp: lookup_def split: option.splits)

text \<open>The report is written by the evaluations that complete, and by no other.\<close>

lemma evaluate_in_leaves:
  "leaves (report_file run_id pred (sp_instance_id spec)) (evaluate_in h dk spec pred run_id timeout c)
     (\<lambda>f r. case r of Inl e \<Rightarrow> f = None
        | Inr report \<Rightarrow> f = Some (report_text h report) \<and> map_of report (sp_instance_id spec) \<noteq> None \<and>
            (\<exists>output. grade h spec pred output = Inr report))"
  unfolding evaluate_in_def Let_def
  by (intro leaves_written leaves_lift leaves_bind leaves_raise leaves_if leaves_pair
      kept.calls kept.writes kept.git_diff_ok kept.try_patch_ok kept.exec_run_with_timeout_ok
      kept.copy_to_container_ok)
    (auto simp: run_files_differ dest: lookup_Inr)

lemma finish_run_result: "finish_run dk spec b c r w = (w1, s) \<Longrightarrow> s = Inr r"
proof -
  have "\<exists>w1. remove_image dk i Logged w = (w1, Inr ())" for i w
    by (cases "on_docker (images_remove dk i) w"; cases "snd (on_docker (images_remove dk i) w)")
      (auto simp: remove_image_def try_io_def)
  moreover have "\<exists>w1. cleanup_container dk c Logged w = (w1, Inr ())" for c w
  proof (cases c)
    case None
    then show ?thesis by (simp add: cleanup_container_def)
  next
    case (Some x)
    have "\<exists>w1. stop_container dk x Logged w = (w1, Inr ())"
      by (auto simp: stop_container_def try_io_def bind_io_def split: prod.splits sum.splits)
    then show ?thesis
      by (auto simp: Some cleanup_container_def try_io_def bind_io_def split: prod.splits sum.splits)
  qed
  ultimately obtain a b' where "cleanup_container dk c Logged w = (a, Inr ())"
      and "remove_image dk (instance_image_key spec) Logged a = (b', Inr ())"
    by metis
  then show "finish_run dk spec b c r w = (w1, s) \<Longrightarrow> s = Inr r"
    by (auto simp: finish_run_def bind_io_def split: if_splits)
qed

lemma finish_run_leaves: "fk.obeys p (finish_run dk spec b c r)"
  by (rule kept.finish_run_ok)

section \<open>What a run returns\<close>

lemma run_result:
  assumes "\<not> path_exists w (report_file run_id pred (sp_instance_id spec))"
    and "run_instance h dk spec pred rm_image force_rebuild run_id timeout False w = (w1, res)"
  shows "\<exists>r. res = Inr r \<and>
    (rr_completed r \<longleftrightarrow> path_exists w1 (report_file run_id pred (sp_instance_id spec))) \<and>
    (\<not> rr_completed r \<longrightarrow> rr_resolved r = JBool False) \<and>
    (rr_completed r \<longrightarrow> (\<exists>output report entry. grade h spec pred output = Inr report \<and>
       map_of report (sp_instance_id spec) = Some entry \<and>
       map_of (w_files w1) (report_file run_id pred (sp_instance_id spec)) = Some (report_text h report) \<and>
       rr_resolved r = JBool (resolved entry)))"
proof -
  let ?p = "report_file run_id pred (sp_instance_id spec)"
  have none: "map_of (w_files w) ?p = None" using assms(1) by (simp add: path_exists_def)
  have run: "run_fresh h dk spec pred rm_image force_rebuild run_id timeout w = (w1, res)"
    using assms by (simp add: run_instance_def Let_def)
  obtain a s where b: "build_container (h_env h) dk spec run_id rm_image force_rebuild w = (a, s)"
    by fastforce
  then have a: "map_of (w_files a) ?p = None"
    using fk.obeysD [OF kept.build_container_ok b, of ?p] none by (simp add: file_kept_def)
  have keep: "map_of (w_files w1) ?p = map_of (w_files x) ?p \<and> res = Inr r"
    if "finish_run dk spec rm_image c r x = (w1, res)" for c r x
    using fk.obeysD [OF finish_run_leaves that, of ?p] finish_run_result [OF that]
    by (simp add: file_kept_def)
  show ?thesis
  proof (cases s)
    case (Inl e)
    with run b have "finish_run dk spec rm_image None not_completed a = (w1, res)"
      by (simp add: run_fresh_def)
    from keep [OF this] a show ?thesis by (simp add: not_completed_def path_exists_def)
  next
    case (Inr c)
    obtain x t where ev: "evaluate_in h dk spec pred run_id timeout c a = (x, t)" by fastforce
    note leaves = evaluate_in_leaves [of run_id pred spec h dk timeout c, unfolded leaves_def,
        THEN spec, THEN spec, THEN spec, THEN mp, OF a, THEN mp, OF ev]
    show ?thesis
    proof (cases t)
      case (Inl e)
      with run b Inr ev have "finish_run dk spec rm_image (Some c) not_completed x = (w1, res)"
        by (simp add: run_fresh_def)
      from keep [OF this] leaves Inl show ?thesis by (simp add: not_completed_def path_exists_def)
    next
      case rep: (Inr report)
      with run b Inr ev have "finish_run dk spec rm_image (Some c) (completed_with spec report) x = (w1, res)"
        by (simp add: run_fresh_def)
      from keep [OF this] leaves rep show ?thesis
        by (auto simp: completed_with_def path_exists_def) blast
    qed
  qed
qed


section \<open>Patches that cannot be applied\<close>

text \<open>
  Whatever the three commands that apply a patch answer, the patch counts as applied: the last one
  sets the flag when it fails as well. The branch that reports a failed patch is never reached.
\<close>

theorem patch_always_counts_as_applied:
  assumes "try_patch dk c GIT_APPLY_CMDS (False, []) w = (w1, Inr (applied_patch, out))"
  shows "applied_patch"
  using assms by (auto simp: GIT_APPLY_CMDS_def bind_io_def split: prod.splits sum.splits if_splits)

section \<open>Taking up a run again\<close>

definition selected ::
    "string list \<Rightarrow> (string, run_prediction) pydict \<Rightarrow> dataset_instance \<Rightarrow> bool" where
  "selected ids predictions i \<longleftrightarrow> (ids \<noteq> [] \<longrightarrow> di_instance_id i \<in> set ids) \<and>
     di_instance_id i \<in> set (keys predictions) \<and>
     di_instance_id i \<notin> fst ` set (filter (\<lambda>(k, p). empty_patch p) predictions)"

lemma chosen_are_selected:
  assumes "get_dataset_from_preds dataset ids predictions run_id False True w = Inr chosen"
  shows "chosen = filter (\<lambda>i. selected ids predictions i \<and> \<not> has_log predictions run_id ''report.json'' w i)
    dataset"
  using assms
  by (auto simp: get_dataset_from_preds_def Let_def has_log_def filter_empty_conv selected_def
      split: if_splits option.splits intro!: filter_cong)

lemma chosen_again:
  assumes "get_dataset_from_preds dataset ids predictions run_id False True w = Inr chosen"
  shows "get_dataset_from_preds dataset ids predictions run_id False True w1 =
    Inr (filter (\<lambda>i. selected ids predictions i \<and> \<not> has_log predictions run_id ''report.json'' w1 i) dataset)"
proof -
  have "\<exists>again. get_dataset_from_preds dataset ids predictions run_id False True w1 = Inr again"
    using assms by (auto simp: get_dataset_from_preds_def Let_def split: if_splits)
  then show ?thesis using chosen_are_selected by blast
qed

lemma run_fresh_grows: "fg.obeys (run_fresh h dk spec pred b f run_id timeout)"
proof (rule fg.obeysI)
  fix w w1 r
  assume run: "run_fresh h dk spec pred b f run_id timeout w = (w1, r)"
  obtain a s where ba: "build_container (h_env h) dk spec run_id b f w = (a, s)" by fastforce
  then have a: "files_grow w a" by (rule fg.obeysD [OF grow.build_container_ok])
  have ev: "fg.obeys (evaluate_in h dk spec pred run_id timeout c)" for c
    unfolding evaluate_in_def Let_def
    by (intro effects allI) (auto intro!: effects grow.calls grow.writes grow.git_diff_ok
        grow.try_patch_ok grow.exec_run_with_timeout_ok grow.copy_to_container_ok split: prod.splits)
  have fin: "fg.obeys (finish_run dk spec b c x)" for c x
    by (rule grow.finish_run_ok)
  show "files_grow w w1"
  proof (cases s)
    case (Inl e)
    with run ba have "finish_run dk spec b None not_completed a = (w1, r)" by (simp add: run_fresh_def)
    from fg.obeysD [OF fin this] a show ?thesis by (rule fg.le_trans [rotated])
  next
    case (Inr c)
    obtain x t where e: "evaluate_in h dk spec pred run_id timeout c a = (x, t)" by fastforce
    then have "files_grow a x" by (rule fg.obeysD [OF ev])
    moreover from run ba Inr e obtain res where "finish_run dk spec b (Some c) res x = (w1, r)"
      by (cases t) (auto simp: run_fresh_def)
    then have "files_grow x w1" by (rule fg.obeysD [OF fin])
    ultimately show ?thesis using a fg.le_trans by blast
  qed
qed

lemma run_instance_grows: "fg.obeys (run_instance h dk spec pred b f run_id timeout rw)"
proof -
  have "fg.obeys (rewrite_report h spec pred run_id)"
    unfolding rewrite_report_def Let_def
    by (intro fg.obeys_test effects grow.obeys_read grow.writes) simp
  moreover note run_fresh_grows [of h dk spec pred b f run_id timeout]
  ultimately show ?thesis
    unfolding run_instance_def Let_def
    by (intro fg.obeys_if fg.obeys_test effects grow.obeys_read)
qed

lemma run_instances_grows: "fg.obeys (run_instances h dk sched predictions instances opts)"
  unfolding run_instances_def Let_def run_payload_def
  by (auto intro!: effects grow.list_images_ok run_instance_grows split: prod.splits)

text \<open>
  C7. A run that is started again, after a run over the chosen instances and with the same dataset and
  predictions, chooses exactly those of the former that have left no report: what is finished is not
  repeated, and nothing else is lost.
\<close>

theorem resumed_run:
  assumes "get_dataset_from_preds dataset ids predictions run_id False True w = Inr chosen"
    and "run_instances h dk sched predictions chosen opts w = (w1, res)"
  shows "get_dataset_from_preds dataset ids predictions run_id False True w1 =
    Inr (filter (\<lambda>i. \<not> has_log predictions run_id ''report.json'' w1 i) chosen)"
proof -
  have "files_grow w w1" using assms(2) by (rule fg.obeysD [OF run_instances_grows])
  then have "has_log predictions run_id ''report.json'' w i \<Longrightarrow> has_log predictions run_id ''report.json'' w1 i" for i
    by (auto simp: has_log_def files_grow_def split: option.splits)
  then show ?thesis
    unfolding chosen_are_selected [OF assms(1)] chosen_again [OF assms(1)]
    by (auto intro!: filter_cong)
qed

section \<open>Containers\<close>

text \<open>What the daemon documents about containers: creating one adds its id to those that exist, removing
  it takes it away, and no other call adds one. \<open>live\<close> reads the ids off the state of the daemon.\<close>

definition adds_none :: "('d \<Rightarrow> string set) \<Rightarrow> ('d, 'a) io \<Rightarrow> bool" where
  "adds_none live m \<longleftrightarrow> (\<forall>d. live (fst (m d)) \<subseteq> live d)"

definition only_create_adds :: "'d docker \<Rightarrow> ('d \<Rightarrow> string set) \<Rightarrow> bool" where
  "only_create_adds dk live \<longleftrightarrow>
     (\<forall>a b t n req timeout.
        adds_none live (images_get dk a) \<and> adds_none live (images_pull dk a) \<and>
        adds_none live (images_remove dk a) \<and> adds_none live (images_tags dk) \<and>
        adds_none live (api_build dk req) \<and> adds_none live (container_start dk a) \<and>
        adds_none live (container_stop dk a) \<and> adds_none live (container_remove dk a) \<and>
        adds_none live (container_pid dk a) \<and> adds_none live (kill_process dk n) \<and>
        adds_none live (put_archive dk a b t) \<and> adds_none live (exec_run dk a b) \<and>
        adds_none live (exec_stream dk a b timeout) \<and> adds_none live (exec_pid dk a))"

definition created_and_removed :: "'d docker \<Rightarrow> ('d \<Rightarrow> string set) \<Rightarrow> bool" where
  "created_and_removed dk live \<longleftrightarrow>
     (\<forall>a n p v d d1 r. containers_create dk a n p v d = (d1, r) \<longrightarrow>
        live d1 \<subseteq> (case r of Inr i \<Rightarrow> insert i (live d) | Inl e \<Rightarrow> live d)) \<and>
     (\<forall>i d. live (fst (container_remove dk i d)) \<subseteq> live d - {i})"

definition no_new_containers :: "('d \<Rightarrow> string set) \<Rightarrow> 'd world \<Rightarrow> 'd world \<Rightarrow> bool" where
  "no_new_containers live w w1 \<longleftrightarrow> live (w_docker w1) \<subseteq> live (w_docker w)"

interpretation lv: effect_order "no_new_containers live :: 'd world \<Rightarrow> 'd world \<Rightarrow> bool" for live
  by unfold_locales (auto simp: no_new_containers_def)

lemma on_docker_run: "on_docker m w = (w1, r) \<longleftrightarrow> (\<exists>d. m (w_docker w) = (d, r) \<and> w1 = w\<lparr>w_docker := d\<rparr>)"
  by (auto simp: on_docker_def split: prod.splits)

lemma adds_none_obeys:
  assumes "adds_none live m" shows "lv.obeys live (on_docker m)"
proof (rule lv.obeysI)
  fix w w1 r
  assume "on_docker m w = (w1, r)"
  then obtain d where "m (w_docker w) = (d, r)" "w1 = w\<lparr>w_docker := d\<rparr>" by (auto simp: on_docker_run)
  with assms show "no_new_containers live w w1"
    unfolding adds_none_def no_new_containers_def by (metis fst_conv world.select_convs(2) world.surjective world.update_convs(2))
qed

lemma tracks_order:
  assumes "only_create_adds dk live"
  shows "harness_order (no_new_containers live) dk UNIV"
proof unfold_locales
  show "p \<in> UNIV \<Longrightarrow> lv.obeys live (write_text p t)" for p t
    by (simp add: lv.obeys_def no_new_containers_def write_text_def)
qed (use assms in \<open>auto simp: only_create_adds_def intro: adds_none_obeys\<close>)

text \<open>An operation whose result is a container adds at most that one.\<close>

definition creates :: "('d \<Rightarrow> string set) \<Rightarrow> ('d world, string) io \<Rightarrow> bool" where
  "creates live m \<longleftrightarrow> (\<forall>w w1 r. m w = (w1, r) \<longrightarrow> live (w_docker w1) \<subseteq>
     (case r of Inr c \<Rightarrow> insert c (live (w_docker w)) | Inl e \<Rightarrow> live (w_docker w)))"

lemma creates_bind:
  assumes "lv.obeys live m" and "\<And>x. creates live (f x)"
  shows "creates live (bind_io m f)"
  unfolding creates_def
proof (intro allI impI)
  fix w w1 r
  assume run: "bind_io m f w = (w1, r)"
  obtain a s where m: "m w = (a, s)" by fastforce
  then have a: "live (w_docker a) \<subseteq> live (w_docker w)"
    using lv.obeysD [OF assms(1)] by (simp add: no_new_containers_def)
  show "live (w_docker w1) \<subseteq> (case r of Inr c \<Rightarrow> insert c (live (w_docker w)) | Inl e \<Rightarrow> live (w_docker w))"
  proof (cases s)
    case (Inl e)
    with run m a show ?thesis by (auto simp: bind_io_def)
  next
    case (Inr x)
    with run m have "f x a = (w1, r)" by (simp add: bind_io_def)
    with assms(2) have "live (w_docker w1) \<subseteq>
        (case r of Inr c \<Rightarrow> insert c (live (w_docker a)) | Inl e \<Rightarrow> live (w_docker a))"
      by (simp add: creates_def)
    with a show ?thesis by (cases r) auto
  qed
qed

lemma creates_try_raise:
  assumes "creates live m"
  shows "creates live (try_io m (\<lambda>e. raise (g e)))"
  using assms by (auto simp: creates_def try_io_def split: prod.splits sum.splits) blast+

lemma build_container_creates:
  assumes "only_create_adds dk live" and "created_and_removed dk live"
  shows "creates live (build_container env dk spec run_id b f)"
proof -
  note ord = tracks_order [OF assms(1)]
  have "creates live (on_docker (containers_create dk a n p v))" for a n p v
    unfolding creates_def
  proof (intro allI impI)
    fix w w1 r
    assume "on_docker (containers_create dk a n p v) w = (w1, r)"
    then obtain d where "containers_create dk a n p v (w_docker w) = (d, r)" "w_docker w1 = d"
      by (auto simp: on_docker_run)
    with assms(2) show "live (w_docker w1) \<subseteq>
        (case r of Inr c \<Rightarrow> insert c (live (w_docker w)) | Inl e \<Rightarrow> live (w_docker w))"
      unfolding created_and_removed_def by blast
  qed
  then show ?thesis
    unfolding build_container_def
    by (intro creates_bind creates_try_raise effects harness_order.remove_image_ok [OF ord]
        harness_order.instance_image_at_hand_ok [OF ord])
qed

lemma cleanup_removes:
  assumes "only_create_adds dk live" and "created_and_removed dk live"
    and "cleanup_container dk (Some c) Logged w = (w1, r)"
  shows "live (w_docker w1) \<subseteq> live (w_docker w) - {c}"
proof -
  obtain a s where a: "stop_container dk c Logged w = (a, s)" by fastforce
  have st: "live (w_docker a) \<subseteq> live (w_docker w)"
    using lv.obeysD [OF harness_order.stop_container_ok [OF tracks_order [OF assms(1)]] a]
    by (simp add: no_new_containers_def)
  have "s = Inr ()"
    using a by (auto simp: stop_container_def try_io_def bind_io_def split: prod.splits sum.splits if_splits)
  with assms(3) a have "try_io (on_docker (container_remove dk c)) (\<lambda>e. ret ()) a = (w1, r)"
    by (simp add: cleanup_container_def bind_io_def)
  then have "w_docker w1 = fst (container_remove dk c (w_docker a))"
    by (auto simp: try_io_def on_docker_def split: prod.splits sum.splits)
  with assms(2) st show ?thesis by (auto simp: created_and_removed_def) blast+
qed

lemma run_fresh_containers:
  assumes "only_create_adds dk live" and "created_and_removed dk live"
  shows "lv.obeys live (run_fresh h dk spec pred b f run_id timeout)"
proof (rule lv.obeysI)
  fix w w1 r
  note ord = tracks_order [OF assms(1)]
  assume run: "run_fresh h dk spec pred b f run_id timeout w = (w1, r)"
  obtain a s where ba: "build_container (h_env h) dk spec run_id b f w = (a, s)" by fastforce
  with build_container_creates [OF assms] have a: "live (w_docker a) \<subseteq>
      (case s of Inr c \<Rightarrow> insert c (live (w_docker w)) | Inl e \<Rightarrow> live (w_docker w))"
    unfolding creates_def by blast
  have fin: "live (w_docker y) \<subseteq> live (w_docker x) - set_option c"
    if "finish_run dk spec b c v x = (y, t)" for c v x y t
  proof -
    obtain z u where z: "cleanup_container dk c Logged x = (z, u)" by fastforce
    have "live (w_docker z) \<subseteq> live (w_docker x) - set_option c"
      using z cleanup_removes [OF assms] lv.obeysD [OF harness_order.cleanup_container_ok [OF ord] z]
      by (cases c) (auto simp: cleanup_container_def)
    moreover have "lv.obeys live (bind_io (if b then remove_image dk (instance_image_key spec) Logged else ret ())
        (\<lambda>_. ret v))"
      by (intro effects harness_order.remove_image_ok [OF ord])
    ultimately show ?thesis
      using that z lv.obeysD unfolding finish_run_def no_new_containers_def
      by (auto simp: bind_io_def split: sum.splits) blast+
  qed
  have ev: "lv.obeys live (evaluate_in h dk spec pred run_id timeout c)" for c
    unfolding evaluate_in_def Let_def
    by (intro effects harness_order.calls [OF ord] harness_order.writes [OF ord] harness_order.git_diff_ok [OF ord]
        harness_order.try_patch_ok [OF ord] harness_order.exec_run_with_timeout_ok [OF ord]
        harness_order.copy_to_container_ok [OF ord] UNIV_I lv.obeys_pair)
  show "no_new_containers live w w1"
  proof (cases s)
    case (Inl e)
    with run ba have "finish_run dk spec b None not_completed a = (w1, r)" by (simp add: run_fresh_def)
    from fin [OF this] a Inl show ?thesis by (auto simp: no_new_containers_def)
  next
    case (Inr c)
    obtain x t where e: "evaluate_in h dk spec pred run_id timeout c a = (x, t)" by fastforce
    then have "live (w_docker x) \<subseteq> live (w_docker a)"
      using lv.obeysD [OF ev] by (simp add: no_new_containers_def)
    moreover from run ba Inr e obtain res where "finish_run dk spec b (Some c) res x = (w1, r)"
      by (cases t) (auto simp: run_fresh_def)
    from fin [OF this] have "live (w_docker w1) \<subseteq> live (w_docker x) - {c}" by simp
    ultimately show ?thesis using a Inr by (auto simp: no_new_containers_def)
  qed
qed

lemma run_instance_containers:
  assumes "only_create_adds dk live" and "created_and_removed dk live"
  shows "lv.obeys live (run_instance h dk spec pred b f run_id timeout rw)"
proof -
  note ord = tracks_order [OF assms(1)]
  have "lv.obeys live (rewrite_report h spec pred run_id)"
    unfolding rewrite_report_def Let_def
    by (intro lv.obeys_test effects harness_order.obeys_read [OF ord] harness_order.writes [OF ord] UNIV_I)
  moreover note run_fresh_containers [OF assms, of h spec pred b f run_id timeout]
  ultimately show ?thesis
    unfolding run_instance_def Let_def
    by (intro lv.obeys_if lv.obeys_test effects harness_order.obeys_read [OF ord])
qed


section \<open>Runs and the run report\<close>

text \<open>\<open>json.loads\<close>, and a report file as \<open>make_run_report\<close> uses it.\<close>

definition loads_json :: "json_reader \<Rightarrow> string \<Rightarrow> exc + json" where
  "loads_json R s =
     (case json_loads R s of Some v \<Rightarrow> Inr v | None \<Rightarrow> Inl (OtherException ''JSONDecodeError'' s))"

fun truth_fields :: "json \<Rightarrow> (string, bool) pydict" where
  "truth_fields (JObj d) = map (\<lambda>(k, v). (k, json_truthy v)) d"
| "truth_fields v = []"

fun read_report :: "json \<Rightarrow> exc + json_report" where
  "read_report (JObj d) = Inr (map (\<lambda>(k, v). (k, truth_fields v)) d)"
| "read_report v = Inl (TypeError ''a report is a dictionary'')"

lemma graded_report:
  assumes "grade h spec pred output = Inr report"
  shows "\<exists>r. report = [(rp_instance_id pred, r)] \<and>
    (\<forall>st. tests_status r = Some st \<longrightarrow> keys st = [FAIL_TO_PASS, PASS_TO_PASS, FAIL_TO_FAIL, PASS_TO_FAIL])"
proof -
  have k: "get_eval_tests_report sm g b et = Inr st \<Longrightarrow>
      keys st = [FAIL_TO_PASS, PASS_TO_PASS, FAIL_TO_FAIL, PASS_TO_FAIL]" for sm g b et st
    by (auto simp: get_eval_tests_report_def rbind_Inr_iff gold_keys)
  from assms obtain gs where "get_eval_report (h_parsers h) (grading_specs (te_specs (h_env h))) gs
      \<lparr>pred_instance_id = rp_instance_id pred, pred_patch = rp_patch pred\<rparr> output True = Inr report"
    by (auto simp: grade_def rbind_Inr_iff)
  then consider "report = [(rp_instance_id pred, empty_report\<lparr>patch_is_None := True\<rparr>)]"
    | "report = [(rp_instance_id pred, empty_report\<lparr>patch_exists := True\<rparr>)]"
    | sm g b et st status where "get_eval_tests_report sm g b et = Inr st"
        and "report = [(rp_instance_id pred, finish_report True st status
               (empty_report\<lparr>patch_exists := True, patch_successfully_applied := True\<rparr>))]"
    by (cases "rp_patch pred = None")
      (auto simp: get_eval_report_def Let_def rbind_Inr_iff split: prod.splits if_splits)
  then show ?thesis
  proof cases
    case 3
    from k [OF 3(1)] 3(2) show ?thesis by (simp add: finish_report_def Let_def)
  qed (simp_all add: empty_report_def)
qed

lemma report_json_ok:
  assumes "grade h spec pred output = Inr report"
  shows "json_ok F (report_json report)"
proof -
  from graded_report [OF assms] obtain r where r: "report = [(rp_instance_id pred, r)]"
      and st: "\<forall>st. tests_status r = Some st \<longrightarrow> keys st = [FAIL_TO_PASS, PASS_TO_PASS, FAIL_TO_FAIL, PASS_TO_FAIL]"
    by blast
  have o: "json_ok F (outcome_json x)" for x
    by (auto simp: outcome_json_def list_all_iff)
  have "json_ok F (JObj (map (\<lambda>(k, v). (k, outcome_json v)) st))" if "tests_status r = Some st" for st
  proof -
    have "fst \<circ> (\<lambda>(k :: string, v). (k, outcome_json v)) = fst" by auto
    moreover have "distinct (keys st)" using st that by (simp add: gold_keys)
    ultimately show ?thesis using o by (auto simp: list_all_iff)
  qed
  then show ?thesis
    by (auto simp: r report_json_def report_fields_def split: option.splits)
qed

lemma report_loads:
  assumes "grade h spec pred output = Inr report"
  shows "loads_json R (strip (report_text h report)) = Inr (report_json report)"
    and "strip (report_text h report) \<noteq> []"
proof -
  have n: "map (\<lambda>(k, r). (k, JObj (report_fields r))) report \<noteq> []"
    using graded_report [OF assms] by auto
  obtain u where t: "report_text h report = CHR 0x7B # u @ [CHR 0x7D]"
    unfolding report_text_def report_json_def dumps_indent_nested(2) [OF n]
    by (metis append.assoc append_Cons append_Nil)
  have s: "strip (report_text h report) = report_text h report"
    unfolding t by (rule strip_id) (auto simp: is_space_def)
  have "json_loads R (report_text h report) = Some (report_json report)"
    unfolding report_text_def by (rule json_loads_indented [OF report_json_ok [OF assms]])
  then show "loads_json R (strip (report_text h report)) = Inr (report_json report)"
    by (simp add: s loads_json_def)
  show "strip (report_text h report) \<noteq> []" by (simp only: s) (simp add: t)
qed

lemma report_paths: "report_path run_id p = report_file run_id p (rp_instance_id p)"
  by (simp add: report_path_def report_file_def log_dir_def model_dir_def)

text \<open>
  C5. What a run returned is what the run report counts: an instance whose run completed is counted as
  completed, and as resolved or unresolved as the run said, when the report is made from the files that
  the run left.
\<close>

theorem runs_are_counted:
  assumes "\<not> path_exists w (report_file run_id pred i)"
    and "run_instance h dk spec pred rm_image force_rebuild run_id timeout False w = (w1, Inr r)"
    and "rr_completed r" and "sp_instance_id spec = i" and "rp_instance_id pred = i"
    and "map_of predictions i = Some pred" and "\<not> empty_patch pred"
  shows "\<exists>b. rr_resolved r = JBool b \<and>
    run_step predictions (map_of (w_files w1)) (\<lambda>s. rbind (loads_json R s) read_report) run_id i sets =
    Inr (if b then sets\<lparr>completed_ids := insert i (completed_ids sets), resolved_ids := insert i (resolved_ids sets)\<rparr>
         else sets\<lparr>completed_ids := insert i (completed_ids sets), unresolved_ids := insert i (unresolved_ids sets)\<rparr>)"
proof -
  from run_result [of w run_id pred spec h dk rm_image force_rebuild timeout w1 "Inr r"] assms
  obtain outp report entry where g: "grade h spec pred outp = Inr report"
      and e: "map_of report i = Some entry"
      and f: "map_of (w_files w1) (report_path run_id pred) = Some (report_text h report)"
      and b: "rr_resolved r = JBool (resolved entry)"
    by (auto simp: report_paths)
  from graded_report [OF g] e assms(5) have rep: "report = [(i, entry)]" by auto
  have "read_resolved (\<lambda>s. rbind (loads_json R s) read_report) i (strip (report_text h report))
      = Inr (resolved entry)"
    unfolding read_resolved_def report_loads(1) [OF g]
    by (simp add: report_json_def rep lookup_def report_fields_def)
  moreover obtain q where "rp_patch pred = Some q" "q \<noteq> []"
    using assms(7) by (cases "rp_patch pred") (auto simp: empty_patch_def)
  ultimately have "run_step predictions (map_of (w_files w1)) (\<lambda>s. rbind (loads_json R s) read_report) run_id i sets =
    Inr (if resolved entry
         then sets\<lparr>completed_ids := insert i (completed_ids sets), resolved_ids := insert i (resolved_ids sets)\<rparr>
         else sets\<lparr>completed_ids := insert i (completed_ids sets), unresolved_ids := insert i (unresolved_ids sets)\<rparr>)"
    using report_loads(2) [OF g] by (simp add: run_step_def assms(6) f Let_def split: bool.splits)
  with b show ?thesis by blast
qed

section \<open>Environment images that failed to build\<close>

lemma zip_fst: "length xs = length ys \<Longrightarrow> map fst (zip xs ys) = xs"
  by simp

text \<open>
  Instances whose environment image failed to build are not skipped: the list of failed builds holds
  payloads, and the name of an image is in no such list.
\<close>

lemma failed_environments_are_not_skipped:
  assumes "mapE (env_image_key env) specs = Inr names"
  shows "skip_failed env env_failed specs = Inr specs"
  using mapE_length [OF assms] assms
  by (simp add: skip_failed_def name_equals_payload_def list_ex_iff case_prod_unfold)

section \<open>Caching\<close>

text \<open>An image of an instance is removed under every cache level but \<open>instance\<close>, the image of an
  environment under \<open>none\<close> and \<open>base\<close>, a base image under \<open>none\<close> alone.\<close>

lemma should_remove_levels:
  assumes "\<not> contains name ''/''" and "name \<notin> set prior"
  shows "should_remove name level clean prior \<longleftrightarrow>
    startswith name ''sweb.base'' \<and> level = ''none'' \<or>
    startswith name ''sweb.env'' \<and> level \<in> {''none'', ''base''} \<or>
    startswith name ''sweb.eval'' \<and> level \<in> {''none'', ''base'', ''env''}"
  using assms by (auto simp: should_remove_def Let_def startswith_iff)

section \<open>Examples\<close>

text \<open>
  A daemon whose state is the list of its containers, where every image exists, every command that
  runs in a container fails, and the evaluation script prints a log in which the test passes.
\<close>

definition sample_log :: string where
  "sample_log = traced START_TEST_OUTPUT @ ''test a ... ok'' @ [newline] @ traced END_TEST_OUTPUT"

definition sample_docker :: "string list docker" where
  "sample_docker = \<lparr>images_get = (\<lambda>i. ret ()), images_pull = (\<lambda>i. ret ()), images_remove = (\<lambda>i. ret ()),
     images_tags = ret [], api_build = (\<lambda>r. ret []),
     containers_create = (\<lambda>i n p v d. (''c1'' # d, Inr ''c1'')),
     container_start = (\<lambda>c. ret ()), container_stop = (\<lambda>c. ret ()),
     container_remove = (\<lambda>c d. (removeAll c d, Inr ())), container_pid = (\<lambda>c. ret 0),
     kill_process = (\<lambda>p. ret ()), put_archive = (\<lambda>c f t. ret ()),
     exec_run = (\<lambda>c cmd. ret (1, [])),
     exec_stream = (\<lambda>c cmd t. ret \<lparr>ex_output = sample_log, ex_alive = False, ex_error = None, ex_id = None\<rparr>),
     exec_pid = (\<lambda>i. ret 0)\<rparr>"

definition sample_harness :: harness where
  "sample_harness = \<lparr>h_env = sample_env, h_parsers = [(''swe-bench/humaneval'', parse_log_cargo)]\<rparr>"

definition graded_sample :: TestSpec where
  "graded_sample = sample_spec\<lparr>sp_FAIL_TO_PASS := JList [JStr ''a'']\<rparr>"

definition sample_prediction :: run_prediction where
  "sample_prediction = \<lparr>rp_model = ''m'', rp_patch = Some ''diff'', rp_instance_id = ''h-1''\<rparr>"

definition empty_world :: "string list world" where
  "empty_world = \<lparr>w_files = [], w_docker = []\<rparr>"

definition sample_report :: "(string, instance_report) pydict" where
  "sample_report = projr (grade sample_harness graded_sample sample_prediction sample_log)"

lemma sample_graded: "grade sample_harness graded_sample sample_prediction sample_log = Inr sample_report"
proof -
  have "\<not> isl (grade sample_harness graded_sample sample_prediction sample_log)" by code_simp
  then show ?thesis by (simp add: sample_report_def sum.collapse(2))
qed

lemma sample_report_entry: "map_option resolved (map_of sample_report ''h-1'') = Some True"
  unfolding sample_report_def by code_simp

lemma sample_script_graded: "eval_script graded_sample = Inr sample_script"
  using sample_script by (simp add: eval_script_def graded_sample_def)

lemma sample_calls:
  "on_docker (exec_run sample_docker c cmd) w = (w, Inr (1, []))"
  "on_docker (container_start sample_docker c) w = (w, Inr ())"
  "on_docker (put_archive sample_docker c f t) w = (w, Inr ())"
  "on_docker (exec_stream sample_docker c cmd time) w =
     (w, Inr \<lparr>ex_output = sample_log, ex_alive = False, ex_error = None, ex_id = None\<rparr>)"
  by (simp_all add: sample_docker_def on_docker_def)

lemma bind_io_run: "m w = (a, Inr x) \<Longrightarrow> bind_io m f w = f x a"
  by (simp add: bind_io_def)

lemma sample_copy: "contains f ''/'' \<Longrightarrow> copy_to_container sample_docker c t f w = (w, Inr ())"
  by (simp add: copy_to_container_def bind_io_def sample_calls)

lemma sample_patch_tried: "try_patch sample_docker c GIT_APPLY_CMDS (False, []) w = (w, Inr (True, []))"
  by (simp add: GIT_APPLY_CMDS_def bind_io_def sample_calls)

lemma sample_diff: "git_diff sample_docker c w = (w, Inr [])"
  by (simp add: git_diff_def bind_io_def sample_calls strip_def lstrip_def rstrip_def)

lemma sample_exec: "exec_run_with_timeout sample_docker c cmd time w = (w, Inr (sample_log, False))"
  by (simp add: exec_run_with_timeout_def bind_io_def sample_calls)

lemma sample_evaluated:
  "\<exists>w1. evaluate_in sample_harness sample_docker graded_sample sample_prediction ''r'' (Some 60) ''c1''
    w = (w1, Inr sample_report)"
proof -
  have i: "sp_instance_id graded_sample = ''h-1''" by (simp add: graded_sample_def sample_spec_def)
  obtain e where "lookup sample_report ''h-1'' = Inr e"
    using sample_report_entry by (auto simp: lookup_def)
  then show ?thesis
    unfolding evaluate_in_def Let_def i
    by (simp add: bind_io_def sample_calls sample_copy sample_patch_tried sample_diff sample_exec
        sample_script_graded sample_graded write_text_def DOCKER_PATCH_def)
qed

definition sample_run :: "string list world \<times> (exc + run_result)" where
  "sample_run = run_instance sample_harness sample_docker graded_sample sample_prediction False False ''r''
     (Some 60) False empty_world"

lemma sample_built:
  "snd (build_container (h_env sample_harness) sample_docker graded_sample ''r'' False False empty_world) =
   Inr ''c1''"
  by code_simp

lemma sample_no_report: "\<not> path_exists empty_world (report_file ''r'' sample_prediction (sp_instance_id graded_sample))"
  by (simp add: path_exists_def empty_world_def)

lemma sample_run_result: "snd sample_run = Inr \<lparr>rr_completed = True, rr_resolved = JBool True\<rparr>"
proof -
  obtain a where a: "build_container (h_env sample_harness) sample_docker graded_sample ''r'' False False
      empty_world = (a, Inr ''c1'')"
    using sample_built by (metis prod.collapse)
  obtain x where x: "evaluate_in sample_harness sample_docker graded_sample sample_prediction ''r'' (Some 60)
      ''c1'' a = (x, Inr sample_report)"
    using sample_evaluated by blast
  have c: "completed_with graded_sample sample_report = \<lparr>rr_completed = True, rr_resolved = JBool True\<rparr>"
    using sample_report_entry
    by (auto simp: completed_with_def graded_sample_def sample_spec_def)
  show ?thesis
    using sample_no_report a x
    by (simp add: sample_run_def run_instance_def run_fresh_def Let_def c)
      (metis finish_run_result prod.collapse)
qed

lemma sample_run_pair: "run_instance sample_harness sample_docker graded_sample sample_prediction False False
    ''r'' (Some 60) False empty_world = (fst sample_run, Inr \<lparr>rr_completed = True, rr_resolved = JBool True\<rparr>)"
  by (metis prod.collapse sample_run_def sample_run_result)


theorem patch_always_counts_as_applied_witness:
  "try_patch sample_docker ''c1'' GIT_APPLY_CMDS (False, []) empty_world = (empty_world, Inr (True, [])) \<and> True = True"
  using patch_always_counts_as_applied [OF sample_patch_tried] sample_patch_tried by simp

definition sample_predictions :: "(string, run_prediction) pydict" where
  "sample_predictions = [(''h-1'', sample_prediction)]"

definition sample_options :: run_options where
  "sample_options = \<lparr>ro_cache_level = ''env'', ro_clean = False, ro_force_rebuild = False, ro_max_workers = 1,
     ro_run_id = ''r'', ro_timeout = Some 60, ro_namespace = None, ro_instance_image_tag = LATEST,
     ro_env_image_tag = LATEST, ro_rewrite_reports = False\<rparr>"

definition sample_world :: "string list world" where
  "sample_world = fst (run_instances sample_harness sample_docker (\<lambda>ps. ps) sample_predictions [sample_instance]
     sample_options empty_world)"

lemma sample_instance_id: "di_instance_id sample_instance = ''h-1''"
  by (simp add: sample_instance_def)

theorem resumed_run_witness:
  "get_dataset_from_preds [sample_instance] [] sample_predictions ''r'' False True sample_world =
   Inr (filter (\<lambda>i. \<not> has_log sample_predictions ''r'' ''report.json'' sample_world i) [sample_instance])"
proof (rule resumed_run)
  show "get_dataset_from_preds [sample_instance] [] sample_predictions ''r'' False True empty_world =
      Inr [sample_instance]"
    by (simp add: get_dataset_from_preds_def sample_predictions_def sample_prediction_def has_log_def
        path_exists_def empty_world_def empty_patch_def sample_instance_id)
  show "run_instances sample_harness sample_docker (\<lambda>ps. ps) sample_predictions [sample_instance]
      sample_options empty_world = (sample_world, snd (run_instances sample_harness sample_docker (\<lambda>ps. ps)
        sample_predictions [sample_instance] sample_options empty_world))"
    by (simp add: sample_world_def)
qed


definition sample_reader :: json_reader where
  "sample_reader = \<lparr>jr_float = (\<lambda>s. 0), jr_wide = (\<lambda>n. [])\<rparr>"

theorem runs_are_counted_witness:
  "run_step sample_predictions (map_of (w_files (fst sample_run)))
     (\<lambda>s. rbind (loads_json sample_reader s) read_report) ''r'' ''h-1'' no_ids =
   Inr (no_ids\<lparr>completed_ids := {''h-1''}, resolved_ids := {''h-1''}\<rparr>)"
proof -
  have i: "sp_instance_id graded_sample = ''h-1''" by (simp add: graded_sample_def sample_spec_def)
  have "map_of sample_predictions ''h-1'' = Some sample_prediction" and "\<not> empty_patch sample_prediction"
    and "rp_instance_id sample_prediction = ''h-1''"
    by (simp_all add: sample_predictions_def sample_prediction_def empty_patch_def)
  from runs_are_counted [OF sample_no_report [unfolded i] sample_run_pair _ i this(3) this(1) this(2),
      of sample_reader no_ids]
  show ?thesis by (auto simp: no_ids_def)
qed

end
