(* ===== verification/Microagents.thy ===== *)
theory Microagents
  imports Py_Objects Regex
begin

text \<open>
  \<open>OpenHands/openhands/microagent\<close>: microagents, the files they are loaded from, and their triggers.
  A path is the list of its parts. The file system, the \<open>frontmatter\<close> package and the validation that
  pydantic makes of the class \<open>MicroagentMetadata\<close> are arguments.
\<close>

section \<open>Types\<close>

datatype MicroagentType = KNOWLEDGE_TYPE | REPO_KNOWLEDGE_TYPE | TASK_TYPE

fun microagent_type_value :: "MicroagentType \<Rightarrow> string" where
  "microagent_type_value KNOWLEDGE_TYPE = ''knowledge''"
| "microagent_type_value REPO_KNOWLEDGE_TYPE = ''repo''"
| "microagent_type_value TASK_TYPE = ''task''"

text \<open>What an f-string makes of it.\<close>

fun microagent_type_text :: "MicroagentType \<Rightarrow> string" where
  "microagent_type_text KNOWLEDGE_TYPE = ''MicroagentType.KNOWLEDGE''"
| "microagent_type_text REPO_KNOWLEDGE_TYPE = ''MicroagentType.REPO_KNOWLEDGE''"
| "microagent_type_text TASK_TYPE = ''MicroagentType.TASK''"

definition all_microagent_types :: "MicroagentType list" where
  "all_microagent_types = [KNOWLEDGE_TYPE, REPO_KNOWLEDGE_TYPE, TASK_TYPE]"

record input_metadata =
  im_name :: string
  im_description :: string

text \<open>The MCP configuration of a microagent, of which the lists of servers are looked at.\<close>

record mcp_tools =
  mt_sse_servers :: "json list"
  mt_stdio_servers :: "json list"

record microagent_metadata =
  mm_name :: string
  mm_type :: MicroagentType
  mm_version :: string
  mm_agent :: string
  mm_triggers :: "string list"
  mm_inputs :: "input_metadata list"
  mm_mcp_tools :: "mcp_tools option"

text \<open>The defaults of the fields.\<close>

definition microagent_defaults :: microagent_metadata where
  "microagent_defaults = \<lparr>mm_name = ''default'', mm_type = REPO_KNOWLEDGE_TYPE, mm_version = ''1.0.0'',
     mm_agent = ''CodeActAgent'', mm_triggers = [], mm_inputs = [], mm_mcp_tools = None\<rparr>"

text \<open>A microagent: its class and the fields.\<close>

datatype microagent_class = KnowledgeMicroagent | RepoMicroagent | TaskMicroagent

record microagent =
  mi_class :: microagent_class
  mi_name :: string
  mi_content :: string
  mi_metadata :: microagent_metadata
  mi_source :: string
  mi_type :: MicroagentType

section \<open>Constructors\<close>

text \<open>\<open>\$\{([a-zA-Z_][a-zA-Z0-9_]*)\}\<close>.\<close>

definition variable_pat :: re where
  "variable_pat = cat [Lit (CHR 0x24 # ''{''),
     Grp 1 (Seq (Cl (OneOf [Range CHR ''a'' CHR ''z'', Range CHR ''A'' CHR ''Z'', Chr CHR ''_'']))
       (star (OneOf [Range CHR ''a'' CHR ''z'', Range CHR ''A'' CHR ''Z'', Range CHR ''0'' CHR ''9'', Chr CHR ''_'']))),
     Lit ''}'']"

definition extract_variables :: "string \<Rightarrow> string list" where
  "extract_variables content = map (\<lambda>(s, m). grp m 1) (finditer variable_pat content)"

definition requires_user_input :: "microagent \<Rightarrow> bool" where
  "requires_user_input a \<longleftrightarrow> extract_variables (mi_content a) \<noteq> []"

definition missing_variables_prompt :: string where
  \<open>missing_variables_prompt = newline # newline # ''If the user didn'' @ CHR 0x27 # ''t provide any of these variables, ask the user to provide them first before the agent can proceed with the task.''\<close>

definition append_missing_variables_prompt :: "microagent \<Rightarrow> microagent" where
  "append_missing_variables_prompt a =
     (if \<not> requires_user_input a \<and> mm_inputs (mi_metadata a) = [] then a
      else a\<lparr>mi_content := mi_content a @ missing_variables_prompt\<rparr>)"

fun class_of_type :: "MicroagentType \<Rightarrow> microagent_class" where
  "class_of_type KNOWLEDGE_TYPE = KnowledgeMicroagent"
| "class_of_type REPO_KNOWLEDGE_TYPE = RepoMicroagent"
| "class_of_type TASK_TYPE = TaskMicroagent"

text \<open>The three \<open>__init__\<close> methods with their checks of the type.\<close>

definition new_microagent ::
    "microagent_class \<Rightarrow> string \<Rightarrow> string \<Rightarrow> microagent_metadata \<Rightarrow> string \<Rightarrow> MicroagentType \<Rightarrow>
     exc + microagent" where
  "new_microagent c name content metadata source t =
     (let a = \<lparr>mi_class = c, mi_name = name, mi_content = content, mi_metadata = metadata,
            mi_source = source, mi_type = t\<rparr> in
      case c of
        RepoMicroagent \<Rightarrow>
          if t \<noteq> REPO_KNOWLEDGE_TYPE
          then Inl (ValueError (''RepoMicroagent initialized with incorrect type: '' @ microagent_type_text t))
          else Inr a
      | KnowledgeMicroagent \<Rightarrow>
          if t \<notin> {KNOWLEDGE_TYPE, TASK_TYPE}
          then Inl (ValueError ''KnowledgeMicroagent must have type KNOWLEDGE or TASK'')
          else Inr a
      | TaskMicroagent \<Rightarrow>
          if t \<notin> {KNOWLEDGE_TYPE, TASK_TYPE}
          then Inl (ValueError ''KnowledgeMicroagent must have type KNOWLEDGE or TASK'')
          else if t \<noteq> TASK_TYPE
          then Inl (ValueError (''TaskMicroagent initialized with incorrect type: '' @ microagent_type_text t))
          else Inr (append_missing_variables_prompt a))"

section \<open>Triggers\<close>

definition match_trigger :: "microagent \<Rightarrow> string \<Rightarrow> string option" where
  "match_trigger a message =
     find (\<lambda>trigger. contains (lower message) (lower trigger)) (mm_triggers (mi_metadata a))"

section \<open>Loading a file\<close>

type_synonym path = "string list"

definition path_text :: "path \<Rightarrow> string" where "path_text p = join ''/'' p"

definition path_name :: "path \<Rightarrow> string" where
  "path_name p = (if p = [] then [] else last p)"

text \<open>\<open>with_suffix("")\<close>: the last dot and what follows it goes, unless the name starts or ends with it.\<close>

definition without_suffix :: "string \<Rightarrow> string" where
  "without_suffix name =
     (case rsplit1 ''.'' name of
        [stem, suffix] \<Rightarrow> if stem \<noteq> [] \<and> suffix \<noteq> [] then stem else name
      | _ \<Rightarrow> name)"

definition relative_to :: "path \<Rightarrow> path \<Rightarrow> exc + path" where
  "relative_to p base =
     (if take (length base) p = base then Inr (drop (length base) p)
      else Inl (ValueError (repr_str (path_text p) @ '' is not in the subpath of '' @ repr_str (path_text base))))"

record microagent_env =
  me_read :: "path \<Rightarrow> exc + string"          \<comment> \<open>the text of a file\<close>
  me_exists :: "path \<Rightarrow> bool"
  me_md_files :: "path \<Rightarrow> path list"          \<comment> \<open>\<open>rglob('*.md')\<close>\<close>
  me_frontmatter :: "string \<Rightarrow> exc + dict \<times> string"  \<comment> \<open>\<open>frontmatter.load\<close>: metadata and content\<close>
  me_validate :: "dict \<Rightarrow> exc + microagent_metadata" \<comment> \<open>\<open>MicroagentMetadata(**d)\<close>\<close>
  me_float :: "rat \<Rightarrow> string"
  me_exc :: "exc \<Rightarrow> string"                   \<comment> \<open>\<open>str\<close> of an exception\<close>

definition MicroagentValidationError :: "string \<Rightarrow> exc" where
  "MicroagentValidationError m = OtherException ''MicroagentValidationError'' m"

definition third_party_name :: "path \<Rightarrow> string option" where
  "third_party_name p = map_of
     [(''.cursorrules'', ''cursorrules''), (''agents.md'', ''agents''), (''agent.md'', ''agents'')]
     (lower (path_name p))"

definition repo_file :: "string \<Rightarrow> string \<Rightarrow> path \<Rightarrow> exc + microagent" where
  "repo_file name content p =
     new_microagent RepoMicroagent name content (microagent_defaults\<lparr>mm_name := name\<rparr>) (path_text p)
       REPO_KNOWLEDGE_TYPE"

definition derived_name :: "path \<Rightarrow> path option \<Rightarrow> exc + string option" where
  "derived_name p dir =
     (case dir of
        None \<Rightarrow> Inr None
      | Some base \<Rightarrow>
          (case third_party_name p of
             Some n \<Rightarrow> Inr (Some n)
           | None \<Rightarrow> rbind (relative_to p base) (\<lambda>r.
               if r = [] then Inl (ValueError ''. has an empty name'')
               else Inr (Some (path_text (butlast r @ [without_suffix (last r)]))))))"

text \<open>A version that is no string becomes one.\<close>

definition version_as_string :: "microagent_env \<Rightarrow> dict \<Rightarrow> dict" where
  "version_as_string env d =
     (case map_of d ''version'' of
        None \<Rightarrow> d
      | Some (JStr s) \<Rightarrow> d
      | Some v \<Rightarrow> dict_set d ''version'' (JStr (py_str (me_float env) v)))"

definition check_mcp_tools :: "microagent_metadata \<Rightarrow> exc + microagent_metadata" where
  "check_mcp_tools metadata =
     (case mm_mcp_tools metadata of
        None \<Rightarrow> Inr metadata
      | Some t \<Rightarrow>
          if mt_stdio_servers t = [] then
            Inl (MicroagentValidationError (''Microagent '' @ mm_name metadata
              @ '' has MCP tools configuration but no stdio servers. Only stdio servers are currently supported.''))
          else Inr metadata)"

definition invalid_type_note :: "microagent_env \<Rightarrow> dict \<Rightarrow> string" where
  \<open>invalid_type_note env d =
     (case map_of d ''type'' of
        None \<Rightarrow> []
      | Some v \<Rightarrow>
          if v \<in> set (map (\<lambda>t. JStr (microagent_type_value t)) all_microagent_types) then []
          else ''. Invalid "type" value: "'' @ py_str (me_float env) v @ ''". Valid types are: ''
            @ join '', '' (map (\<lambda>t. CHR 0x22 # microagent_type_value t @ [CHR 0x22]) all_microagent_types))\<close>

definition load_metadata :: "microagent_env \<Rightarrow> path \<Rightarrow> dict \<Rightarrow> exc + microagent_metadata" where
  "load_metadata env p d =
     (case rbind (me_validate env d) check_mcp_tools of
        Inr m \<Rightarrow> Inr m
      | Inl e \<Rightarrow> Inl (MicroagentValidationError (''Error validating microagent metadata in '' @ path_name p
          @ '': '' @ me_exc env e @ invalid_type_note env d)))"

text \<open>The type that the metadata imply, with the trigger of a task added where it is missing.\<close>

definition infer_type :: "microagent_metadata \<Rightarrow> MicroagentType \<times> microagent_metadata" where
  "infer_type metadata =
     (if mm_inputs metadata \<noteq> [] then
        let trigger = CHR ''/'' # mm_name metadata in
        (TASK_TYPE,
         if mm_triggers metadata = [] then metadata\<lparr>mm_triggers := [trigger]\<rparr>
         else if trigger \<notin> set (mm_triggers metadata)
         then metadata\<lparr>mm_triggers := mm_triggers metadata @ [trigger]\<rparr>
         else metadata)
      else if mm_triggers metadata \<noteq> [] then (KNOWLEDGE_TYPE, metadata)
      else (REPO_KNOWLEDGE_TYPE, metadata))"

definition load_microagent ::
    "microagent_env \<Rightarrow> path \<Rightarrow> path option \<Rightarrow> string option \<Rightarrow> exc + microagent" where
  "load_microagent env p dir file_content =
     rbind (derived_name p dir) (\<lambda>derived.
     rbind (case file_content of Some t \<Rightarrow> Inr t | None \<Rightarrow> me_read env p) (\<lambda>text.
       if path_name p = ''.openhands_instructions'' then repo_file ''repo_legacy'' text p
       else
         case third_party_name p of
           Some n \<Rightarrow> repo_file n text p
         | None \<Rightarrow>
             rbind (me_frontmatter env text) (\<lambda>(metadata_dict, content).
             rbind (load_metadata env p (version_as_string env metadata_dict)) (\<lambda>metadata.
               let (t, metadata) = infer_type metadata;
                   agent_name = (case derived of Some n \<Rightarrow> n | None \<Rightarrow> mm_name metadata)
               in new_microagent (class_of_type t) agent_name content metadata (path_text p) t))))"

section \<open>Loading a directory\<close>

text \<open>The files beside the directory: \<open>.cursorrules\<close>, and the first \<open>AGENTS.md\<close> in the order tried.\<close>

definition special_files :: "microagent_env \<Rightarrow> path \<Rightarrow> path list" where
  "special_files env dir =
     (let repo_root = butlast (butlast dir) in
      (if me_exists env (repo_root @ [''.cursorrules'']) then [repo_root @ [''.cursorrules'']] else [])
      @ (case find (\<lambda>f. me_exists env (repo_root @ [f])) [''AGENTS.md'', ''agents.md'', ''AGENT.md'', ''agent.md''] of
           Some f \<Rightarrow> [repo_root @ [f]] | None \<Rightarrow> []))"

type_synonym microagents = "(string, microagent) pydict"

definition add_loaded :: "microagent \<Rightarrow> microagents \<times> microagents \<Rightarrow> microagents \<times> microagents" where
  "add_loaded a = (\<lambda>(repo_agents, knowledge_agents).
     case mi_class a of
       RepoMicroagent \<Rightarrow> (dict_set repo_agents (mi_name a) a, knowledge_agents)
     | _ \<Rightarrow> (repo_agents, dict_set knowledge_agents (mi_name a) a))"

definition is_validation_error :: "exc \<Rightarrow> bool" where
  "is_validation_error e \<longleftrightarrow> (case e of OtherException c _ \<Rightarrow> c = ''MicroagentValidationError'' | _ \<Rightarrow> False)"

definition load_file ::
    "microagent_env \<Rightarrow> path \<Rightarrow> path \<Rightarrow> microagents \<times> microagents \<Rightarrow> exc + microagents \<times> microagents" where
  "load_file env dir f acc =
     (case load_microagent env f (Some dir) None of
        Inr a \<Rightarrow> Inr (add_loaded a acc)
      | Inl e \<Rightarrow>
          let m = ''Error loading microagent from '' @ path_text f @ '': '' @ me_exc env e in
          Inl (if is_validation_error e then MicroagentValidationError m else ValueError m))"

definition load_microagents_from_dir :: "microagent_env \<Rightarrow> path \<Rightarrow> exc + microagents \<times> microagents" where
  "load_microagents_from_dir env dir =
     (let md_files = (if me_exists env dir
            then filter (\<lambda>f. path_name f \<noteq> ''README.md'') (me_md_files env dir) else [])
      in foldE (load_file env dir) (special_files env dir @ md_files) ([], []))"

end
