(* ===== verification/Memory_Recall.thy ===== *)
theory Memory_Recall
  imports Microagents Controller_State
begin

text \<open>
  \<open>OpenHands/openhands/memory/memory.py\<close>: the class \<open>Memory\<close>, which answers the recall actions on the
  event stream. What it sends to the status callback is kept as a list. The classes \<open>RepositoryInfo\<close>,
  \<open>RuntimeInfo\<close> and \<open>ConversationInstructions\<close> are in \<open>utils/prompt.py\<close>.
\<close>

section \<open>State\<close>

record memory_repository_info =
  ri_repo_name :: "string option"
  ri_repo_directory :: "string option"
  ri_branch_name :: "string option"

record memory_runtime_info =
  ri_date :: string
  ri_available_hosts :: "(string, int) pydict"
  ri_additional_agent_instructions :: string
  ri_custom_secrets_descriptions :: "(string, string) pydict"
  ri_working_dir :: string

record memory =
  me_repo_microagents :: microagents
  me_knowledge_microagents :: microagents
  me_repository_info :: "memory_repository_info option"
  me_runtime_info :: "memory_runtime_info option"
  me_conversation_instructions :: "string option"

section \<open>Loading and settings\<close>

text \<open>\<open>_load_global_microagents\<close>: an error there ends the construction.\<close>

definition add_microagents :: "microagents \<times> microagents \<Rightarrow> memory \<Rightarrow> memory" where
  "add_microagents loaded m =
     m\<lparr>me_knowledge_microagents := dict_update (me_knowledge_microagents m) (snd loaded),
       me_repo_microagents := dict_update (me_repo_microagents m) (fst loaded)\<rparr>"

definition load_global_microagents :: "microagent_env \<Rightarrow> path \<Rightarrow> memory \<Rightarrow> exc + memory" where
  "load_global_microagents env dir m =
     rbind (load_microagents_from_dir env dir) (\<lambda>loaded. Inr (add_microagents loaded m))"

text \<open>\<open>_load_user_microagents\<close>: an error is logged, and nothing is loaded.\<close>

definition load_user_microagents :: "microagent_env \<Rightarrow> path \<Rightarrow> memory \<Rightarrow> memory" where
  "load_user_microagents env dir m =
     (case load_microagents_from_dir env dir of Inr loaded \<Rightarrow> add_microagents loaded m | Inl e \<Rightarrow> m)"

definition new_memory :: "microagent_env \<Rightarrow> path \<Rightarrow> path \<Rightarrow> exc + memory" where
  "new_memory env global_dir user_dir =
     rbind (load_global_microagents env global_dir
              \<lparr>me_repo_microagents = [], me_knowledge_microagents = [], me_repository_info = None,
                me_runtime_info = None, me_conversation_instructions = None\<rparr>) (\<lambda>m.
       Inr (load_user_microagents env user_dir m))"

definition load_user_workspace_microagents :: "microagent list \<Rightarrow> memory \<Rightarrow> memory" where
  "load_user_workspace_microagents agents m =
     fold (\<lambda>a m. case mi_class a of
        RepoMicroagent \<Rightarrow> m\<lparr>me_repo_microagents := dict_set (me_repo_microagents m) (mi_name a) a\<rparr>
      | _ \<Rightarrow> m\<lparr>me_knowledge_microagents := dict_set (me_knowledge_microagents m) (mi_name a) a\<rparr>) agents m"

definition get_microagent_mcp_tools :: "memory \<Rightarrow> mcp_tools list" where
  "get_microagent_mcp_tools m =
     List.map_filter (\<lambda>(name, a). mm_mcp_tools (mi_metadata a)) (me_repo_microagents m)"

definition set_repository_info :: "string \<Rightarrow> string \<Rightarrow> string option \<Rightarrow> memory \<Rightarrow> memory" where
  "set_repository_info repo_name repo_directory branch_name m =
     m\<lparr>me_repository_info :=
        (if repo_name \<noteq> [] \<or> repo_directory \<noteq> []
         then Some \<lparr>ri_repo_name = Some repo_name, ri_repo_directory = Some repo_directory,
                ri_branch_name = branch_name\<rparr>
         else None)\<rparr>"

definition set_runtime_info ::
    "(string, int) pydict \<Rightarrow> string \<Rightarrow> (string, string) pydict \<Rightarrow> string \<Rightarrow> string \<Rightarrow> memory \<Rightarrow> memory" where
  "set_runtime_info web_hosts additional_agent_instructions custom_secrets_descriptions working_dir date m =
     m\<lparr>me_runtime_info := Some
        (if web_hosts \<noteq> [] \<or> additional_agent_instructions \<noteq> []
         then \<lparr>ri_date = date, ri_available_hosts = web_hosts,
               ri_additional_agent_instructions = additional_agent_instructions,
               ri_custom_secrets_descriptions = custom_secrets_descriptions, ri_working_dir = working_dir\<rparr>
         else \<lparr>ri_date = date, ri_available_hosts = [], ri_additional_agent_instructions = [],
               ri_custom_secrets_descriptions = custom_secrets_descriptions, ri_working_dir = working_dir\<rparr>)\<rparr>"

definition set_conversation_instructions :: "string option \<Rightarrow> memory \<Rightarrow> memory" where
  "set_conversation_instructions instructions m =
     m\<lparr>me_conversation_instructions := Some (case instructions of Some s \<Rightarrow> s | None \<Rightarrow> [])\<rparr>"

section \<open>Recall\<close>

text \<open>\<open>if trigger:\<close> -- a trigger that is the empty string does not count, though it matches.\<close>

definition find_microagent_knowledge :: "memory \<Rightarrow> string \<Rightarrow> Events.microagent_knowledge list" where
  "find_microagent_knowledge m query =
     (if query = [] then []
      else List.map_filter (\<lambda>(name, a).
        case match_trigger a query of
          Some trigger \<Rightarrow>
            if trigger \<noteq> []
            then Some \<lparr>mk_name = mi_name a, mk_trigger = trigger, mk_content = mi_content a\<rparr> else None
        | None \<Rightarrow> None) (me_knowledge_microagents m))"

fun repo_instructions_from :: "string \<Rightarrow> microagents \<Rightarrow> string" where
  "repo_instructions_from acc [] = acc"
| "repo_instructions_from acc ((name, a) # rest) =
     repo_instructions_from ((if acc \<noteq> [] then acc @ [newline, newline] else acc) @ mi_content a) rest"

abbreviation or_empty :: "string option \<Rightarrow> string" where
  "or_empty x \<equiv> (case x of Some s \<Rightarrow> s | None \<Rightarrow> [])"

definition on_workspace_context_recall :: "memory \<Rightarrow> string \<Rightarrow> recall_observation option" where
  "on_workspace_context_recall m query =
     (let instructions = repo_instructions_from [] (me_repo_microagents m);
          knowledge = find_microagent_knowledge m query;
          repo = me_repository_info m; run = me_runtime_info m in
      if repo \<noteq> None \<or> run \<noteq> None \<or> instructions \<noteq> [] \<or> knowledge \<noteq> []
         \<or> me_conversation_instructions m \<noteq> None
      then Some
        \<lparr>ro_content = ''Added workspace context'', ro_recall_type = WORKSPACE_CONTEXT,
         ro_repo_name = (case repo of Some r \<Rightarrow> or_empty (ri_repo_name r) | None \<Rightarrow> []),
         ro_repo_directory = (case repo of Some r \<Rightarrow> or_empty (ri_repo_directory r) | None \<Rightarrow> []),
         ro_repo_branch = (case repo of Some r \<Rightarrow> or_empty (ri_branch_name r) | None \<Rightarrow> []),
         ro_repo_instructions = instructions,
         ro_runtime_hosts = (case run of Some r \<Rightarrow> ri_available_hosts r | None \<Rightarrow> []),
         ro_additional_agent_instructions =
           (case run of Some r \<Rightarrow> ri_additional_agent_instructions r | None \<Rightarrow> []),
         ro_date = (case run of Some r \<Rightarrow> ri_date r | None \<Rightarrow> []),
         ro_custom_secrets_descriptions =
           (case run of Some r \<Rightarrow> ri_custom_secrets_descriptions r | None \<Rightarrow> []),
         ro_conversation_instructions = or_empty (me_conversation_instructions m),
         ro_working_dir = (case run of Some r \<Rightarrow> ri_working_dir r | None \<Rightarrow> []),
         ro_microagent_knowledge = knowledge\<rparr>
      else None)"

definition on_microagent_recall :: "memory \<Rightarrow> string \<Rightarrow> recall_observation option" where
  "on_microagent_recall m query =
     (let knowledge = find_microagent_knowledge m query in
      if knowledge \<noteq> [] then Some
        \<lparr>ro_content = ''Retrieved knowledge from microagents'', ro_recall_type = KNOWLEDGE,
         ro_repo_name = [], ro_repo_directory = [], ro_repo_branch = [], ro_repo_instructions = [],
         ro_runtime_hosts = [], ro_additional_agent_instructions = [], ro_date = [],
         ro_custom_secrets_descriptions = [], ro_conversation_instructions = [], ro_working_dir = [],
         ro_microagent_knowledge = knowledge\<rparr>
      else None)"

text \<open>The observation that answers an event, or \<open>None\<close> for an event that the memory does not answer.\<close>

definition recall_answer :: "memory \<Rightarrow> event \<Rightarrow> event option" where
  "recall_answer m e =
     (let answer = (\<lambda>obs. (new_event (Observation (case obs of
            Some r \<Rightarrow> RecallObservation r | None \<Rightarrow> NullObservation [])))\<lparr>ev_cause := Some (event_id e)\<rparr>) in
      case ev_body e of
        Action (RecallAction t query thought) \<Rightarrow>
          if ev_source e = Some USER \<and> t = WORKSPACE_CONTEXT
          then Some (answer (on_workspace_context_recall m query))
          else if (ev_source e = Some USER \<or> ev_source e = Some AGENT) \<and> t = KNOWLEDGE
          then Some (answer (on_microagent_recall m query))
          else None
      | _ \<Rightarrow> None)"

text \<open>\<open>_on_event\<close>: the stream after it, and the message to the status callback when there is an error.\<close>

definition memory_on_event ::
    "py_env \<Rightarrow> string \<Rightarrow> memory \<Rightarrow> event \<Rightarrow> 'cb event_stream \<Rightarrow> 'cb event_stream \<times> string option" where
  "memory_on_event env now m e st =
     (case recall_answer m e of
        None \<Rightarrow> (st, None)
      | Some obs \<Rightarrow>
          (case add_event env now obs ENVIRONMENT st of
             (st', None) \<Rightarrow> (st', None)
           | (st', Some x) \<Rightarrow> (st', Some (''Error: '' @ exc_class x))))"

end
