(* ===== verification/Memory_Recall_Properties.thy ===== *)
theory Memory_Recall_Properties
  imports Memory_Recall Controller_Confirmation
begin

text \<open>
  Microagents are loaded with the class that their triggers and inputs imply, and the memory keeps
  them apart. A message of the user leads to a recall that the memory answers, and the answer releases
  the controller: the properties of the memory together with the event stream and the controller.
\<close>

section \<open>Microagents\<close>

text \<open>What a microagent is by its metadata.\<close>

definition microagent_ok :: "microagent \<Rightarrow> bool" where
  "microagent_ok a \<longleftrightarrow>
     (case mi_class a of
        RepoMicroagent \<Rightarrow> mi_type a = REPO_KNOWLEDGE_TYPE \<and> mm_triggers (mi_metadata a) = [] \<and>
          mm_inputs (mi_metadata a) = []
      | KnowledgeMicroagent \<Rightarrow> mi_type a = KNOWLEDGE_TYPE \<and> mm_triggers (mi_metadata a) \<noteq> [] \<and>
          mm_inputs (mi_metadata a) = []
      | TaskMicroagent \<Rightarrow> mi_type a = TASK_TYPE \<and> mm_inputs (mi_metadata a) \<noteq> [] \<and>
          (CHR ''/'' # mm_name (mi_metadata a)) \<in> set (mm_triggers (mi_metadata a)) \<and>
          endswith (mi_content a) missing_variables_prompt)"

lemma new_microagent_class:
  assumes "new_microagent c name content metadata source t = Inr a"
  shows "mi_class a = c \<and> mi_name a = name \<and> mi_metadata a = metadata \<and> mi_type a = t \<and>
    (c = TaskMicroagent \<and> mm_inputs metadata \<noteq> [] \<longrightarrow> mi_content a = content @ missing_variables_prompt)"
  using assms by (cases c)
    (auto simp: new_microagent_def append_missing_variables_prompt_def Let_def split: if_splits)

lemma infer_type_ok:
  assumes "infer_type metadata = (t, m)" and "new_microagent (class_of_type t) name content m source t = Inr a"
  shows "microagent_ok a"
proof -
  have "mm_inputs m = mm_inputs metadata" "mm_name m = mm_name metadata"
    using assms(1) by (auto simp: infer_type_def Let_def split: if_splits)
  moreover have "t = TASK_TYPE \<Longrightarrow> (CHR ''/'' # mm_name metadata) \<in> set (mm_triggers m) \<and> mm_inputs metadata \<noteq> []"
    "t = KNOWLEDGE_TYPE \<Longrightarrow> mm_triggers m \<noteq> [] \<and> mm_inputs metadata = []"
    "t = REPO_KNOWLEDGE_TYPE \<Longrightarrow> mm_triggers m = [] \<and> mm_inputs metadata = []"
    using assms(1) by (auto simp: infer_type_def Let_def split: if_splits)
  ultimately show ?thesis
    using new_microagent_class [OF assms(2)] by (cases t) (auto simp: microagent_ok_def endswith_def)
qed

lemma repo_file_ok: "repo_file name content p = Inr a \<Longrightarrow> microagent_ok a"
  by (auto simp: repo_file_def new_microagent_def microagent_ok_def microagent_defaults_def Let_def)

lemma load_microagent_ok: "load_microagent env p dir content = Inr a \<Longrightarrow> microagent_ok a"
proof -
  assume run: "load_microagent env p dir content = Inr a"
  then obtain derived s where d: "derived_name p dir = Inr derived"
      and t: "(case content of Some t \<Rightarrow> Inr t | None \<Rightarrow> me_read env p) = Inr s"
    unfolding load_microagent_def rbind_Inr_iff by blast
  show ?thesis
  proof (cases "path_name p = ''.openhands_instructions'' \<or> third_party_name p \<noteq> None")
    case True
    with run d t show ?thesis by (auto simp: load_microagent_def intro: repo_file_ok split: if_splits)
  next
    case False
    with run d t obtain md body where f: "me_frontmatter env s = Inr (md, body)"
      by (cases "me_frontmatter env s") (auto simp: load_microagent_def)
    with run d t False obtain metadata where "load_metadata env p (version_as_string env md) = Inr metadata"
      by (cases "load_metadata env p (version_as_string env md)") (auto simp: load_microagent_def)
    with run d t False f show ?thesis
      by (cases "infer_type metadata") (auto simp: load_microagent_def Let_def intro: infer_type_ok)
  qed
qed

definition kept_apart :: "microagents \<times> microagents \<Rightarrow> bool" where
  "kept_apart l \<longleftrightarrow>
     (\<forall>(n, a) \<in> set (fst l). mi_class a = RepoMicroagent \<and> n = mi_name a \<and> microagent_ok a) \<and>
     (\<forall>(n, a) \<in> set (snd l). mi_class a \<noteq> RepoMicroagent \<and> n = mi_name a \<and> microagent_ok a)"

lemma set_dict_set: "(k, v) \<in> set (dict_set d x y) \<Longrightarrow> (k, v) = (x, y) \<or> (k, v) \<in> set d"
  by (induction d) (auto split: if_splits)

lemma set_dict_update: "(k, v) \<in> set (dict_update d e) \<Longrightarrow> (k, v) \<in> set d \<or> (k, v) \<in> set e"
  by (induction d e rule: dict_update.induct) (auto dest!: set_dict_set)

lemma add_loaded_apart: "kept_apart l \<Longrightarrow> microagent_ok a \<Longrightarrow> kept_apart (add_loaded a l)"
  by (cases l; cases "mi_class a") (auto simp: kept_apart_def add_loaded_def dest!: set_dict_set)

lemma load_file_apart: "kept_apart acc \<Longrightarrow> load_file env dir f acc = Inr l \<Longrightarrow> kept_apart l"
  by (auto simp: load_file_def Let_def split: sum.splits intro: add_loaded_apart load_microagent_ok)

lemma load_files_apart: "kept_apart acc \<Longrightarrow> foldE (load_file env dir) fs acc = Inr l \<Longrightarrow> kept_apart l"
proof (induction fs arbitrary: acc)
  case (Cons f fs)
  then obtain a where "load_file env dir f acc = Inr a" "foldE (load_file env dir) fs a = Inr l"
    by (auto simp: rbind_Inr_iff)
  with Cons show ?case using load_file_apart by blast
qed simp

lemma load_dir_apart: "load_microagents_from_dir env dir = Inr l \<Longrightarrow> kept_apart l"
  using load_files_apart [of "([], [])"]
  by (simp add: load_microagents_from_dir_def Let_def kept_apart_def [of "([], [])"])

section \<open>The invariant of the memory\<close>

definition memory_ok :: "memory \<Rightarrow> bool" where
  "memory_ok m \<longleftrightarrow> kept_apart (me_repo_microagents m, me_knowledge_microagents m)"

lemma add_microagents_ok: "memory_ok m \<Longrightarrow> kept_apart l \<Longrightarrow> memory_ok (add_microagents l m)"
  by (auto simp: memory_ok_def kept_apart_def add_microagents_def dest!: set_dict_update)

lemma new_memory_ok: "new_memory env g u = Inr m \<Longrightarrow> memory_ok m"
proof -
  assume "new_memory env g u = Inr m"
  then obtain l where l: "load_microagents_from_dir env g = Inr l"
    and m: "m = load_user_microagents env u (add_microagents l \<lparr>me_repo_microagents = [],
      me_knowledge_microagents = [], me_repository_info = None, me_runtime_info = None,
      me_conversation_instructions = None\<rparr>)"
    by (auto simp: new_memory_def rbind_Inr_iff load_global_microagents_def simp del: split_paired_Ex)
  have "memory_ok (add_microagents l \<lparr>me_repo_microagents = [], me_knowledge_microagents = [],
      me_repository_info = None, me_runtime_info = None, me_conversation_instructions = None\<rparr>)"
    by (rule add_microagents_ok [OF _ load_dir_apart [OF l]]) (simp add: memory_ok_def kept_apart_def)
  then show ?thesis
    unfolding m by (cases "load_microagents_from_dir env u")
      (simp_all add: load_user_microagents_def add_microagents_ok load_dir_apart)
qed

lemma load_workspace_ok:
  "memory_ok m \<Longrightarrow> \<forall>a \<in> set agents. microagent_ok a \<Longrightarrow> memory_ok (load_user_workspace_microagents agents m)"
proof (induction agents arbitrary: m)
  case (Cons a agents)
  have "memory_ok (load_user_workspace_microagents [a] m)"
    using Cons.prems
    by (cases "mi_class a")
      (auto simp: memory_ok_def kept_apart_def load_user_workspace_microagents_def dest!: set_dict_set)
  from Cons.IH [OF this] Cons.prems show ?case by (simp add: load_user_workspace_microagents_def)
qed (simp add: load_user_workspace_microagents_def)

text \<open>
  A memory that is made from the directories, and given the microagents of a workspace, keeps the
  repository's microagents, which are always active and have no trigger, apart from the others, which
  have a trigger; every microagent is filed under its name and has the class that its metadata imply,
  and a task can be called by its name.
\<close>

theorem memory_keeps_microagents_apart:
  assumes "new_memory env global_dir user_dir = Inr m"
    and "\<forall>a \<in> set agents. \<exists>p dir content. load_microagent env p dir content = Inr a"
  shows "memory_ok (load_user_workspace_microagents agents m)"
  using assms by (auto intro: load_workspace_ok new_memory_ok load_microagent_ok)

section \<open>Knowledge\<close>

lemma in_map_filter: "y \<in> set (List.map_filter f xs) \<longleftrightarrow> (\<exists>x \<in> set xs. f x = Some y)"
  by (force simp: List.map_filter_def)

lemma find_first: "List.find P xs = Some x \<longleftrightarrow> (\<exists>ys zs. xs = ys @ x # zs \<and> P x \<and> (\<forall>y \<in> set ys. \<not> P y))"
  unfolding find_Some_iff
proof
  assume "\<exists>i<length xs. P (xs ! i) \<and> x = xs ! i \<and> (\<forall>j<i. \<not> P (xs ! j))"
  then obtain i where i: "i < length xs" "P (xs ! i)" "x = xs ! i" "\<forall>j<i. \<not> P (xs ! j)" by blast
  then have "xs = take i xs @ x # drop (Suc i) xs" by (simp add: id_take_nth_drop)
  moreover have "\<forall>y \<in> set (take i xs). \<not> P y" using i by (auto simp: in_set_conv_nth)
  ultimately show "\<exists>ys zs. xs = ys @ x # zs \<and> P x \<and> (\<forall>y \<in> set ys. \<not> P y)" using i by metis
next
  assume "\<exists>ys zs. xs = ys @ x # zs \<and> P x \<and> (\<forall>y \<in> set ys. \<not> P y)"
  then obtain ys zs where "xs = ys @ x # zs" "P x" "\<forall>y \<in> set ys. \<not> P y" by blast
  then show "\<exists>i<length xs. P (xs ! i) \<and> x = xs ! i \<and> (\<forall>j<i. \<not> P (xs ! j))"
    by (intro exI [of _ "length ys"]) (auto simp: nth_append)
qed

text \<open>
  What is recalled for a text is the knowledge of exactly those microagents one of whose triggers
  occurs in it, whatever the case, with the first trigger that does; but where that one is the empty
  string nothing is recalled, whatever triggers follow.
\<close>

theorem recalled_knowledge:
  assumes "query \<noteq> []"
  shows "k \<in> set (find_microagent_knowledge m query) \<longleftrightarrow>
    (\<exists>n a before trigger after. (n, a) \<in> set (me_knowledge_microagents m) \<and>
       mm_triggers (mi_metadata a) = before @ trigger # after \<and>
       contains (lower query) (lower trigger) \<and>
       (\<forall>t \<in> set before. \<not> contains (lower query) (lower t)) \<and> trigger \<noteq> [] \<and>
       k = \<lparr>mk_name = mi_name a, mk_trigger = trigger, mk_content = mi_content a\<rparr>)"
proof -
  have found: "(case f of Some t \<Rightarrow> if t \<noteq> [] then Some (X t) else None | None \<Rightarrow> None) = Some k \<longleftrightarrow>
      (\<exists>t. f = Some t \<and> t \<noteq> [] \<and> k = X t)" for f :: "string option" and X
    by (auto split: option.split)
  have "k \<in> set (find_microagent_knowledge m query) \<longleftrightarrow>
    (\<exists>(n, a) \<in> set (me_knowledge_microagents m). \<exists>trigger. match_trigger a query = Some trigger \<and>
       trigger \<noteq> [] \<and> k = \<lparr>mk_name = mi_name a, mk_trigger = trigger, mk_content = mi_content a\<rparr>)"
    using assms by (simp add: find_microagent_knowledge_def in_map_filter case_prod_unfold found)
  then show ?thesis by (simp only: match_trigger_def find_first) blast
qed

section \<open>Recalls are answered\<close>

text \<open>The recalls that the memory answers.\<close>

definition answered_recall :: "event \<Rightarrow> bool" where
  "answered_recall e \<longleftrightarrow> (\<exists>query thought.
     ev_body e = Action (RecallAction WORKSPACE_CONTEXT query thought) \<and> ev_source e = Some USER \<or>
     ev_body e = Action (RecallAction KNOWLEDGE query thought) \<and> ev_source e \<in> {Some USER, Some AGENT})"

definition recall_observation_event :: "recall_observation option \<Rightarrow> int \<Rightarrow> event" where
  "recall_observation_event obs cause =
     (new_event (Observation (case obs of Some r \<Rightarrow> RecallObservation r | None \<Rightarrow> NullObservation [])))
       \<lparr>ev_cause := Some cause\<rparr>"

lemma recall_answer_made:
  assumes "answered_recall e"
  shows "\<exists>obs. recall_answer m e = Some (recall_observation_event obs (event_id e))"
  using assms by (auto simp: answered_recall_def recall_answer_def recall_observation_event_def Let_def)

lemma recall_answer_publishable: "publishable env (recall_observation_event obs cause)"
  by (auto simp: publishable_def recall_observation_event_def event_ok_def event_id_def new_event_def
      event_message_def split: option.splits)

lemma memory_answers:
  assumes "stream_ok env st lg" and "answered_recall e"
  shows "\<exists>st' d answer. memory_on_event (env_py env) now mem e st = (st', None) \<and> stream_ok env st' (lg @ [d]) \<and>
    queue st' = queue st @ [answer] \<and> subscribers st' = subscribers st \<and>
    ev_cause answer = Some (event_id e) \<and> ev_source answer = Some ENVIRONMENT \<and>
    ev_id answer = Some (int (length lg))"
proof -
  obtain obs where obs: "recall_answer mem e = Some (recall_observation_event obs (event_id e))"
    using recall_answer_made [OF assms(2)] by blast
  let ?o = "recall_observation_event obs (event_id e)"
  obtain d where d: "event_to_dict (env_py env) (stamp now ENVIRONMENT (length lg) ?o) = Inr d"
    "event_from_dict (env_py env) d = Inr (serialised (stamp now ENVIRONMENT (length lg) ?o))"
    using publishable_to_dict [OF recall_answer_publishable] by blast
  have "replace_secrets (map snd (secrets st)) d = d"
    using assms(1) by (simp add: stream_ok_def replace_secrets_none)
  with add_event_appends [where env = "env_py env" and st = st and lg = lg and e = ?o and now = now
      and source = ENVIRONMENT and d = d] assms(1) d recall_answer_publishable [of env obs "event_id e"]
  obtain st' where "add_event (env_py env) now ?o ENVIRONMENT st = (st', None)"
    "stream_inv (env_py env) st' (lg @ [d])" "secrets st' = []" "subscribers st' = subscribers st"
    "queue st' = queue st @ [serialised (stamp now ENVIRONMENT (length lg) ?o)]"
    by (auto simp: stream_ok_def publishable_def stamp_def)
  with obs show ?thesis
    by (auto simp: memory_on_event_def stream_ok_def serialised_def stamp_def recall_observation_event_def)
qed

text \<open>The answer to the pending action releases it.\<close>

lemma answer_releases:
  assumes "pending_action (self m) = Some a" and "ev_cause e = Some (event_id (la_event a))"
    and "get_agent_state m \<notin> agent_state_value ` {AWAITING_USER_CONFIRMATION, USER_CONFIRMED, USER_REJECTED}"
  shows "handle_observation env e m = (Inr (), m\<lparr>self := (self m)\<lparr>pending_action := None\<rparr>\<rparr>)"
  using assms
  by (simp add: handle_observation_def reads_def seqP_def thenP_def bindP_def update_self_def modify_def
      get_agent_state_def whenP_def ret_def)

text \<open>A message of the user is recalled: the recall is published and waited for.\<close>

definition recall_for :: "event option \<Rightarrow> event \<Rightarrow> string \<Rightarrow> event" where
  "recall_for opening message text = new_event (Action (RecallAction
     (case opening of None \<Rightarrow> KNOWLEDGE
      | Some f \<Rightarrow> if event_id message = event_id f then WORKSPACE_CONTEXT else KNOWLEDGE) text []))"

lemma recall_for_publishable: "publishable env (recall_for opening message text)"
  by (simp add: publishable_def recall_for_def event_ok_def event_id_def new_event_def event_message_def)

lemma user_message_recalls:
  assumes "stream_ok env (stream m) lg" and "ev_body message = Action (MessageAction msg)"
    and "ev_source message = Some USER" and "cached_first_user_message (self m) = Some opening"
    and "get_agent_state m = agent_state_value RUNNING"
  shows "\<exists>m' a d. handle_message_action env message m = (Inr (), m') \<and> stream_ok env (stream m') (lg @ [d]) \<and>
    pending_action (self m') = Some a \<and> c_state (self m') = c_state (self m) \<and> delegates m' = delegates m \<and>
    queue (stream m') = queue (stream m) @ [serialised (la_event a)] \<and>
    la_event a = stamp (env_clock env (ticks m)) USER (length lg) (recall_for (Some opening) message (ma_content msg))"
proof -
  let ?r = "recall_for (Some opening) message (ma_content msg)"
  define m1 where "m1 = m\<lparr>self := (self m)\<lparr>pending_action := Some (live ?r)\<rparr>\<rparr>"
  have "stream_ok env (stream m1) lg" "pending_action (self m1) = Some (live ?r)" "publishable env (la_event (live ?r))"
    using assms(1) recall_for_publishable [of env "Some opening" message "ma_content msg"]
    by (simp_all add: m1_def live_def)
  from publish_pending_appends [OF this, of USER] obtain st' d where
    p: "publish_pending env USER m1 = (Inr (), m1\<lparr>stream := st', ticks := ticks m1 + 1, self := (self m1)
        \<lparr>pending_action := Some ((live ?r)\<lparr>la_event := stamp (env_clock env (ticks m1)) USER (length lg) ?r\<rparr>)\<rparr>\<rparr>)"
      "stream_ok env st' (lg @ [d])"
      "queue st' = queue (stream m1) @ [serialised (stamp (env_clock env (ticks m1)) USER (length lg) ?r)]"
    unfolding live_def live_action.simps by blast
  have "handle_message_action env message m = publish_pending env USER m1"
    using assms p(1)
    by (simp add: handle_message_action_def message_of.simps first_user_message_def reads_def bindP_def ret_def
        Let_def seqP_def thenP_def update_self_def modify_def whenP_def get_agent_state_def m1_def recall_for_def)
  with p show ?thesis by (auto simp: m1_def)
qed

lemma recall_for_answered:
  "answered_recall (serialised (stamp now USER i (recall_for opening message text)))"
  by (auto simp: answered_recall_def serialised_def stamp_def recall_for_def new_event_def split: option.splits)

text \<open>
  C15. A message of the user to a running agent is answered from the memory, and the agent is not kept
  waiting: the controller publishes a recall and waits for it; the memory, given the recall from the
  stream, publishes one observation that names it as its cause; and the controller, given the
  observation, waits no more.
\<close>

theorem user_messages_are_recalled:
  assumes "stream_ok env (stream m) lg" and "ev_body message = Action (MessageAction msg)"
    and "ev_source message = Some USER" and "cached_first_user_message (self m) = Some opening"
    and "get_agent_state m = agent_state_value RUNNING"
  shows "\<exists>m1 a st' answer.
    handle_message_action env message m = (Inr (), m1) \<and> pending_action (self m1) = Some a \<and>
    queue (stream m1) = queue (stream m) @ [serialised (la_event a)] \<and>
    memory_on_event (env_py env) now mem (serialised (la_event a)) (stream m1) = (st', None) \<and>
    queue st' = queue (stream m1) @ [answer] \<and> ev_cause answer = Some (event_id (la_event a)) \<and>
    handle_observation env answer (m1\<lparr>stream := st'\<rparr>) =
      (Inr (), m1\<lparr>stream := st', self := (self m1)\<lparr>pending_action := None\<rparr>\<rparr>)"
proof -
  obtain m1 a d where m1: "handle_message_action env message m = (Inr (), m1)" "stream_ok env (stream m1) (lg @ [d])"
      "pending_action (self m1) = Some a" "c_state (self m1) = c_state (self m)"
      "queue (stream m1) = queue (stream m) @ [serialised (la_event a)]"
      "la_event a = stamp (env_clock env (ticks m)) USER (length lg) (recall_for (Some opening) message (ma_content msg))"
    using user_message_recalls [OF assms] by blast
  have i: "event_id (serialised (la_event a)) = event_id (la_event a)"
    by (simp add: event_id_def serialised_def)
  have "answered_recall (serialised (la_event a))" unfolding m1(6) by (rule recall_for_answered)
  from memory_answers [OF m1(2) this, of now mem] i obtain st' answer where
    st': "memory_on_event (env_py env) now mem (serialised (la_event a)) (stream m1) = (st', None)"
      "queue st' = queue (stream m1) @ [answer]" "ev_cause answer = Some (event_id (la_event a))"
    by auto
  have "get_agent_state (m1\<lparr>stream := st'\<rparr>) = agent_state_value RUNNING"
    using assms(5) m1(4) by (simp add: get_agent_state_def)
  then have "handle_observation env answer (m1\<lparr>stream := st'\<rparr>) =
      (Inr (), m1\<lparr>stream := st', self := (self m1)\<lparr>pending_action := None\<rparr>\<rparr>)"
    using answer_releases [of "m1\<lparr>stream := st'\<rparr>" a answer env] m1(3) st'(3) by simp
  with m1 st' show ?thesis by blast
qed

section \<open>Examples\<close>

text \<open>A directory with one file, whose frontmatter gives a trigger.\<close>

definition sample_metadata :: microagent_metadata where
  "sample_metadata = microagent_defaults\<lparr>mm_name := ''git'', mm_triggers := [''GitHub'']\<rparr>"

definition sample_microagents :: microagent_env where
  "sample_microagents = \<lparr>me_read = (\<lambda>p. Inr ''use the API''), me_exists = (\<lambda>p. p = [''r'', ''o'', ''m'']),
     me_md_files = (\<lambda>p. [[''r'', ''o'', ''m'', ''github.md'']]), me_frontmatter = (\<lambda>s. Inr ([], s)),
     me_validate = (\<lambda>d. Inr sample_metadata), me_float = (\<lambda>x. ''0.0''), me_exc = (\<lambda>e. [])\<rparr>"

definition sample_memory :: memory where
  "sample_memory = projr (new_memory sample_microagents [''r'', ''o'', ''m''] [''u''])"

lemma sample_memory: "new_memory sample_microagents [''r'', ''o'', ''m''] [''u''] = Inr sample_memory"
proof -
  have "\<not> isl (new_memory sample_microagents [''r'', ''o'', ''m''] [''u''])" by code_simp
  then show ?thesis by (simp add: sample_memory_def sum.collapse(2))
qed

lemma sample_knowledge: "keys (me_knowledge_microagents sample_memory) = [''github'']"
  by code_simp

definition sample_agent :: microagent where
  "sample_agent = projr (load_microagent sample_microagents [''w'', ''notes.md''] (Some [''w'']) None)"

lemma sample_agent: "load_microagent sample_microagents [''w'', ''notes.md''] (Some [''w'']) None = Inr sample_agent"
proof -
  have "\<not> isl (load_microagent sample_microagents [''w'', ''notes.md''] (Some [''w'']) None)" by code_simp
  then show ?thesis by (simp add: sample_agent_def sum.collapse(2))
qed

theorem memory_keeps_microagents_apart_witness:
  "memory_ok (load_user_workspace_microagents [sample_agent] sample_memory)"
proof (rule memory_keeps_microagents_apart [OF sample_memory])
  show "\<forall>a \<in> set [sample_agent]. \<exists>p dir content. load_microagent sample_microagents p dir content = Inr a"
    using sample_agent by auto
qed

theorem recalled_knowledge_witness:
  "\<exists>n a before trigger after. (n, a) \<in> set (me_knowledge_microagents sample_memory) \<and>
     mm_triggers (mi_metadata a) = before @ trigger # after \<and>
     contains (lower ''push to github'') (lower trigger)"
proof -
  let ?k = "\<lparr>mk_name = ''github'', mk_trigger = ''GitHub'', mk_content = ''use the API''\<rparr>"
  have "find_microagent_knowledge sample_memory ''push to github'' = [?k]" by code_simp
  then have "?k \<in> set (find_microagent_knowledge sample_memory ''push to github'')" by simp
  with recalled_knowledge [of "''push to github''" ?k sample_memory] show ?thesis by blast
qed

definition sample_opening :: event where
  "sample_opening = (new_event (Action (MessageAction \<lparr>ma_content = ''hello'', ma_file_urls = None,
     ma_image_urls = None, ma_wait_for_response = False, ma_security_risk = RISK_UNKNOWN\<rparr>)))
     \<lparr>ev_id := Some 1, ev_source := Some USER\<rparr>"

definition talking :: "unit machine" where
  "talking = demo_machine\<lparr>self := (self demo_machine)\<lparr>cached_first_user_message := Some sample_opening\<rparr>,
     stream := stream_of ''s'' None []\<rparr>"

theorem user_messages_are_recalled_witness:
  "\<exists>m1 a st' answer.
    handle_message_action demo_agent sample_opening talking = (Inr (), m1) \<and> pending_action (self m1) = Some a \<and>
    queue (stream m1) = queue (stream talking) @ [serialised (la_event a)] \<and>
    memory_on_event (env_py demo_agent) ''now'' sample_memory (serialised (la_event a)) (stream m1) = (st', None) \<and>
    queue st' = queue (stream m1) @ [answer] \<and> ev_cause answer = Some (event_id (la_event a)) \<and>
    handle_observation demo_agent answer (m1\<lparr>stream := st'\<rparr>) =
      (Inr (), m1\<lparr>stream := st', self := (self m1)\<lparr>pending_action := None\<rparr>\<rparr>)"
proof (rule user_messages_are_recalled)
  show "stream_ok demo_agent (stream talking) []"
    using asking_stream by (simp add: talking_def asking_def)
  show "get_agent_state talking = agent_state_value RUNNING"
    by (simp add: get_agent_state_def talking_def demo_machine_def)
  show "cached_first_user_message (self talking) = Some sample_opening"
    by (simp add: talking_def)
qed (simp_all add: sample_opening_def new_event_def)

end
