(* ===== verification/Bash_Session.thy ===== *)
theory Bash_Session
  imports Regex Json Py_Objects Controller_State
begin

text \<open>
  \<open>OpenHands/openhands/runtime/utils/bash.py\<close> and the metadata of the prompt in
  \<open>events/observation/commands.py\<close>: the shell session in which the commands of the agent run. The pane of
  the terminal with its clock is a record of calls (\<open>pane_ops\<close>) on a state of any type; \<open>bashlex.parse\<close>,
  \<open>float\<close> and the reader of JSON numbers are in \<open>bash_env\<close>. A clock is a rational number of seconds.
\<close>

section \<open>The prompt and its metadata\<close>

definition CMD_OUTPUT_PS1_BEGIN :: string where
  "CMD_OUTPUT_PS1_BEGIN = newline # ''###PS1JSON###'' @ [newline]"

definition CMD_OUTPUT_PS1_END :: string where
  "CMD_OUTPUT_PS1_END = newline # ''###PS1END###''"

text \<open>\<open>^###PS1JSON###(.*?)###PS1END###\<close>, over lines.\<close>

definition CMD_OUTPUT_METADATA_PS1_REGEX :: re where
  "CMD_OUTPUT_METADATA_PS1_REGEX =
     Seq (Bol True) (Seq (Lit (strip CMD_OUTPUT_PS1_BEGIN))
       (Seq (Grp 1 (lazy_star DotAll)) (Lit (strip CMD_OUTPUT_PS1_END))))"

text \<open>What is used of a match: where it starts and ends, and its group.\<close>

record ps1_match =
  pm_start :: nat
  pm_end :: nat
  pm_group :: string

definition ps1_matches :: "string \<Rightarrow> ps1_match list" where
  "ps1_matches s = map (\<lambda>(t, m). \<lparr>pm_start = length (fst m) - length t, pm_end = length (fst m),
     pm_group = grp m 1\<rparr>) (finditer CMD_OUTPUT_METADATA_PS1_REGEX s)"

text \<open>A node of the syntax tree of \<open>bashlex\<close>: its kind, its position, the position of its here document, and
  its parts (none where it has no attribute of that name).\<close>

datatype bash_node = BashNode (bn_kind: string) (bn_start: int) (bn_end: int) (bn_heredoc: "(int \<times> int) option")
  (bn_parts: "bash_node list")

record bash_env =
  be_reader :: json_reader
  be_int_float :: "string \<Rightarrow> exc + int"   \<comment> \<open>\<open>int(float(s))\<close>\<close>
  be_float_text :: "rat \<Rightarrow> string"
  be_parse :: "string \<Rightarrow> exc + bash_node list" \<comment> \<open>\<open>bashlex.parse\<close>\<close>

definition to_ps1_prompt :: "(rat \<Rightarrow> string) \<Rightarrow> string" where
  \<open>to_ps1_prompt ff =
     CMD_OUTPUT_PS1_BEGIN
     @ replace (dumps_indent ff 2 0 (JObj [(''pid'', JStr ''$!''), (''exit_code'', JStr ''$?''),
         (''username'', JStr (CHR 0x5C # ''u'')), (''hostname'', JStr (CHR 0x5C # ''h'')),
         (''working_dir'', JStr ''$(pwd)''),
         (''py_interpreter_path'', JStr ''$(which python 2>/dev/null || echo "")'')]))
         [CHR 0x22] [CHR 0x5C, CHR 0x22]
     @ CMD_OUTPUT_PS1_END @ [newline]\<close>

definition matches_ps1_metadata :: "bash_env \<Rightarrow> string \<Rightarrow> ps1_match list" where
  "matches_ps1_metadata env s =
     filter (\<lambda>m. json_loads (be_reader env) (strip (pm_group m)) \<noteq> None) (ps1_matches s)"

text \<open>\<open>int(float(str(v)))\<close>, or \<open>-1\<close>; an infinite number raises an \<open>OverflowError\<close>, which is not caught.\<close>

definition number_field :: "bash_env \<Rightarrow> string \<Rightarrow> dict \<Rightarrow> exc + dict" where
  "number_field env k d =
     (case map_of d k of
        None \<Rightarrow> Inr d
      | Some v \<Rightarrow>
          (case be_int_float env (py_str (be_float_text env) v) of
             Inr n \<Rightarrow> Inr (dict_set d k (JInt n))
           | Inl e \<Rightarrow> if exc_class e \<in> set [''ValueError'', ''TypeError''] then Inr (dict_set d k (JInt (-1)))
               else Inl e))"

definition from_ps1_match :: "bash_env \<Rightarrow> ps1_match \<Rightarrow> exc + cmd_metadata" where
  "from_ps1_match env m =
     (case json_loads (be_reader env) (pm_group m) of
        None \<Rightarrow> Inl (OtherException ''JSONDecodeError'' (pm_group m))
      | Some (JObj d) \<Rightarrow>
          (case number_field env ''pid'' d of
             Inl e \<Rightarrow> Inl e
           | Inr d \<Rightarrow> (case number_field env ''exit_code'' d of Inl e \<Rightarrow> Inl e | Inr d \<Rightarrow> metadata_of d))
      | Some (JList xs) \<Rightarrow> Inl (TypeError ''the metadata is a list'')
      | Some v \<Rightarrow> Inl (OtherException ''AttributeError'' ''copy''))"

section \<open>\<open>split_bash_commands\<close>\<close>

text \<open>\<open>result[-1] += s\<close>.\<close>

definition add_to_last :: "string list \<Rightarrow> string \<Rightarrow> string list" where
  "add_to_last xs s = butlast xs @ [last xs @ s]"

text \<open>The loop over the nodes: the commands so far and the end of the last one.\<close>

fun split_nodes :: "string \<Rightarrow> bash_node list \<Rightarrow> int \<Rightarrow> string list \<Rightarrow> int \<times> string list" where
  "split_nodes commands [] last_end result = (last_end, result)"
| "split_nodes commands (node # nodes) last_end result =
     (let start = bn_start node;
          between = slice (Some last_end) (Some start) commands;
          result = (if last_end < start then
              if result \<noteq> [] then add_to_last result (rstrip between)
              else if strip between \<noteq> [] then [rstrip between] else []
            else result);
          command = rstrip (slice (Some start) (Some (bn_end node)) commands)
      in split_nodes commands nodes (bn_end node) (result @ [command]))"

definition parse_failed :: "string list \<Rightarrow> exc \<Rightarrow> bool" where
  "parse_failed classes e \<longleftrightarrow> exc_class e \<in> set classes"

definition split_bash_commands :: "bash_env \<Rightarrow> string \<Rightarrow> exc + string list" where
  "split_bash_commands env commands =
     (if strip commands = [] then Inr [[]]
      else case be_parse env commands of
        Inl e \<Rightarrow>
          if parse_failed [''ParsingError'', ''NotImplementedError'', ''TypeError'', ''AttributeError''] e
          then Inr [commands] else Inl e
      | Inr parsed \<Rightarrow>
          let (last_end, result) = split_nodes commands parsed 0 [];
              remaining = rstrip (slice_from last_end commands)
          in Inr (if last_end < int (length commands) \<and> result \<noteq> [] then add_to_last result remaining
                  else if last_end < int (length commands) \<and> remaining \<noteq> [] then result @ [remaining]
                  else result))"

section \<open>\<open>escape_bash_special_chars\<close>\<close>

text \<open>\<open>re.sub(r'\\([;&|><])', r'\\\\\1', s)\<close>.\<close>

definition is_special :: "char \<Rightarrow> bool" where
  "is_special c \<longleftrightarrow> c \<in> set '';&|><''"

fun escape_special :: "string \<Rightarrow> string" where
  "escape_special (c # d # r) =
     (if c = CHR 0x5C \<and> is_special d then CHR 0x5C # CHR 0x5C # d # escape_special r
      else c # escape_special (d # r))"
| "escape_special s = s"

definition quoted_word :: "string \<Rightarrow> bool" where
  "quoted_word w \<longleftrightarrow>
     startswith w [CHR 0x22] \<and> endswith w [CHR 0x22] \<or> startswith w [CHR 0x27] \<and> endswith w [CHR 0x27] \<or>
     startswith w ''$('' \<and> endswith w '')'' \<or> startswith w ''`'' \<and> endswith w ''`''"

text \<open>\<open>visit_node\<close>: the text so far and the position after it.\<close>

fun visit_node :: "string \<Rightarrow> bash_node \<Rightarrow> string \<times> int \<Rightarrow> string \<times> int"
and visit_nodes :: "string \<Rightarrow> bash_node list \<Rightarrow> string \<times> int \<Rightarrow> string \<times> int" where
  "visit_node command (BashNode kind a b heredoc parts) (acc, last_pos) =
     (if kind = ''redirect'' \<and> heredoc \<noteq> None then
        case heredoc of Some (h, k) \<Rightarrow>
          (acc @ slice (Some last_pos) (Some a) command @ slice (Some a) (Some h) command
             @ slice (Some h) (Some k) command, b)
      else if kind = ''word'' then
        let between = escape_special (slice (Some last_pos) (Some a) command);
            word_text = slice (Some a) (Some b) command
        in (acc @ between @ (if quoted_word word_text then word_text else escape_special word_text), b)
      else visit_nodes command parts (acc, last_pos))"
| "visit_nodes command [] st = st"
| "visit_nodes command (n # ns) st = visit_nodes command ns (visit_node command n st)"

fun escape_nodes :: "string \<Rightarrow> bash_node list \<Rightarrow> string \<times> int \<Rightarrow> string \<times> int" where
  "escape_nodes command [] st = st"
| "escape_nodes command (n # ns) (acc, last_pos) =
     escape_nodes command ns (visit_node command n
       (acc @ escape_special (slice (Some last_pos) (Some (bn_start n)) command), bn_start n))"

definition escape_bash_special_chars :: "bash_env \<Rightarrow> string \<Rightarrow> exc + string" where
  "escape_bash_special_chars env command =
     (if strip command = [] then Inr []
      else case be_parse env command of
        Inl e \<Rightarrow> if parse_failed [''ParsingError'', ''NotImplementedError'', ''TypeError''] e
          then Inr command else Inl e
      | Inr nodes \<Rightarrow>
          let (acc, last_pos) = escape_nodes command nodes ([], 0) in Inr (acc @ slice_from last_pos command))"

section \<open>The session\<close>

datatype BashCommandStatus = CONTINUE | COMPLETED | NO_CHANGE_TIMEOUT | HARD_TIMEOUT

text \<open>The pane: its lines, keys with or without enter, its history, the clock, sleeping, and whether the
  program is to go on.\<close>

record 't pane_ops =
  po_capture :: "'t \<Rightarrow> string list \<times> 't"
  po_send :: "string \<Rightarrow> bool \<Rightarrow> 't \<Rightarrow> 't"
  po_clear_history :: "'t \<Rightarrow> 't"
  po_time :: "'t \<Rightarrow> rat \<times> 't"
  po_sleep :: "rat \<Rightarrow> 't \<Rightarrow> 't"
  po_continue :: "'t \<Rightarrow> bool"
  po_kill :: "'t \<Rightarrow> 't"

record 't bash_session =
  bs_pane :: 't
  bs_cwd :: string
  bs_prev_status :: "BashCommandStatus option"
  bs_prev_output :: string
  bs_closed :: bool
  bs_initialized :: bool
  bs_no_change_timeout :: int

definition POLL_INTERVAL :: rat where "POLL_INTERVAL = 1 / 2"

definition on_pane :: "('t \<Rightarrow> 't) \<Rightarrow> 't bash_session \<Rightarrow> 't bash_session" where
  "on_pane f s = s\<lparr>bs_pane := f (bs_pane s)\<rparr>"

definition get_pane_content :: "'t pane_ops \<Rightarrow> 't bash_session \<Rightarrow> string \<times> 't bash_session" where
  "get_pane_content po s =
     (let (ls, t) = po_capture po (bs_pane s) in (join [newline] (map rstrip ls), s\<lparr>bs_pane := t\<rparr>))"

definition read_clock :: "'t pane_ops \<Rightarrow> 't bash_session \<Rightarrow> rat \<times> 't bash_session" where
  "read_clock po s = (let (now, t) = po_time po (bs_pane s) in (now, s\<lparr>bs_pane := t\<rparr>))"

definition clear_screen :: "'t pane_ops \<Rightarrow> 't bash_session \<Rightarrow> 't bash_session" where
  "clear_screen po s = on_pane (po_clear_history po \<circ> po_sleep po (1 / 10) \<circ> po_send po ''C-l'' False) s"

text \<open>\<open>initialize\<close>, from the pane that \<open>tmux\<close> made; \<open>cwd\<close> is the absolute path of the work directory.\<close>

definition initialize_session ::
    "bash_env \<Rightarrow> 't pane_ops \<Rightarrow> 't \<Rightarrow> string \<Rightarrow> int \<Rightarrow> 't bash_session" where
  \<open>initialize_session env po pane cwd no_change_timeout =
     clear_screen po (on_pane (po_sleep po (1 / 10) \<circ> po_send po
         (''export PROMPT_COMMAND='' @ [CHR 0x27] @ ''export PS1="'' @ to_ps1_prompt (be_float_text env) @ ''"''
            @ [CHR 0x27] @ ''; export PS2=""'') True)
       \<lparr>bs_pane = pane, bs_cwd = cwd, bs_prev_status = None, bs_prev_output = [], bs_closed = False,
        bs_initialized = True, bs_no_change_timeout = no_change_timeout\<rparr>)\<close>

definition close_session :: "'t pane_ops \<Rightarrow> 't bash_session \<Rightarrow> 't bash_session" where
  "close_session po s = (if bs_closed s then s else (on_pane (po_kill po) s)\<lparr>bs_closed := True\<rparr>)"

definition is_special_key :: "string \<Rightarrow> bool" where
  "is_special_key command \<longleftrightarrow> startswith (strip command) ''C-'' \<and> length (strip command) = 3"

section \<open>The output of a command\<close>

definition remove_command_prefix :: "string \<Rightarrow> string \<Rightarrow> string" where
  "remove_command_prefix command_output command = lstrip (removeprefix (lstrip command_output) (lstrip command))"

definition get_command_output ::
    "string \<Rightarrow> string \<Rightarrow> cmd_metadata \<Rightarrow> string \<Rightarrow> 't bash_session \<Rightarrow> (string \<times> cmd_metadata) \<times> 't bash_session" where
  "get_command_output command raw_command_output metadata continue_prefix s =
     (let (command_output, metadata) =
            (if bs_prev_output s \<noteq> []
             then (removeprefix raw_command_output (bs_prev_output s), metadata\<lparr>md_prefix := continue_prefix\<rparr>)
             else (raw_command_output, metadata))
      in ((rstrip (remove_command_prefix command_output command), metadata),
          s\<lparr>bs_prev_output := raw_command_output\<rparr>))"

text \<open>\<open>for i in range(len(ps1_matches) - 1)\<close>, and what follows the last match.\<close>

fun between_matches :: "string \<Rightarrow> ps1_match list \<Rightarrow> string" where
  "between_matches content (m # n # ms) =
     slice (Some (int (pm_end m) + 1)) (Some (int (pm_start n))) content @ [newline]
       @ between_matches content (n # ms)"
| "between_matches content [m] = slice_from (int (pm_end m) + 1) content"
| "between_matches content [] = []"

definition combine_outputs_between_matches :: "string \<Rightarrow> ps1_match list \<Rightarrow> bool \<Rightarrow> string" where
  "combine_outputs_between_matches content ms get_content_before_last_match =
     (case ms of
        [m] \<Rightarrow> if get_content_before_last_match then slice_to (int (pm_start m)) content
                else slice_from (int (pm_end m) + 1) content
      | [] \<Rightarrow> content
      | _ \<Rightarrow> between_matches content ms)"

text \<open>\<open>splitlines\<close>, of which the number of lines is used; a carriage return and a newline end one line.\<close>

definition is_line_end :: "char \<Rightarrow> bool" where
  "is_line_end c \<longleftrightarrow> c \<in> set [CHR 0x0A, CHR 0x0B, CHR 0x0C, CHR 0x0D, CHR 0x1C, CHR 0x1D, CHR 0x1E, CHR 0x85]"

fun count_lines :: "bool \<Rightarrow> string \<Rightarrow> nat" where
  "count_lines started [] = (if started then 1 else 0)"
| "count_lines started (c # cs) =
     (if c = CHR 0x0D \<and> startswith cs [newline] then count_lines True cs
      else if is_line_end c then Suc (count_lines False cs)
      else count_lines True cs)"

text \<open>\<open>upper\<close>, where the capital letter is a Latin-1 character too.\<close>

definition upper_char :: "char \<Rightarrow> char" where
  "upper_char c =
     (let n = (of_char c :: nat) in
      if 97 \<le> n \<and> n \<le> 122 \<or> 224 \<le> n \<and> n \<le> 254 \<and> n \<noteq> 247 then char_of (n - 32) else c)"

section \<open>The three ways a command ends\<close>

definition TIMEOUT_MESSAGE_TEMPLATE :: string where
  \<open>TIMEOUT_MESSAGE_TEMPLATE =
     ''You may wait longer to see additional output by sending empty command '' @ [CHR 0x27, CHR 0x27]
     @ '', send other commands to interact with the current process, send keys ("C-c", "C-z", "C-d") to interrupt/kill the previous command before sending your new command, or use the timeout parameter in execute_bash for future commands.''\<close>

definition previous_output_prefix :: string where
  "previous_output_prefix = ''[Below is the output of the previous command.]'' @ [newline]"

definition truncated_prefix :: "string \<Rightarrow> string" where
  "truncated_prefix raw =
     ''[Previous command outputs are truncated. Showing the last '' @ show_nat (count_lines False raw)
     @ '' lines of the output below.]'' @ [newline]"

definition completed_suffix :: "string \<Rightarrow> int \<Rightarrow> string" where
  "completed_suffix command exit_code =
     newline # ''[The command completed with exit code '' @ show_int exit_code
     @ (if is_special_key command then ''. CTRL+'' @ [upper_char (last command)] @ '' was sent.]'' else ''.]'')"

definition handle_completed_command ::
    "bash_env \<Rightarrow> 't pane_ops \<Rightarrow> string \<Rightarrow> string \<Rightarrow> ps1_match list \<Rightarrow> bool \<Rightarrow> 't bash_session \<Rightarrow>
     (exc + observation) \<times> 't bash_session" where
  "handle_completed_command env po command content ms hidden s =
     (if ms = [] then (Inl AssertionError, s)
      else case from_ps1_match env (last ms) of
        Inl e \<Rightarrow> (Inl e, s)
      | Inr metadata \<Rightarrow>
          let before_last = (length ms = 1);
              s = (case md_working_dir metadata of
                     Some d \<Rightarrow> if d \<noteq> bs_cwd s \<and> d \<noteq> [] then s\<lparr>bs_cwd := d\<rparr> else s
                   | None \<Rightarrow> s);
              raw = combine_outputs_between_matches content ms before_last;
              metadata = (if before_last then metadata\<lparr>md_prefix := truncated_prefix raw\<rparr> else metadata);
              metadata = metadata\<lparr>md_suffix := completed_suffix command (md_exit_code metadata)\<rparr>;
              ((output_text, metadata), s) = get_command_output command raw metadata [] s;
              s = clear_screen po (s\<lparr>bs_prev_status := Some COMPLETED, bs_prev_output := []\<rparr>)
          in (Inr (CmdOutputObservation (new_cmd_output output_text command (Some metadata) hidden)), s))"

definition handle_timeout_command ::
    "BashCommandStatus \<Rightarrow> string \<Rightarrow> string \<Rightarrow> string \<Rightarrow> ps1_match list \<Rightarrow> 't bash_session \<Rightarrow>
     (exc + observation) \<times> 't bash_session" where
  "handle_timeout_command status sfx command content ms s =
     (let s = s\<lparr>bs_prev_status := Some status\<rparr>;
          raw = combine_outputs_between_matches content ms False;
          metadata = default_metadata\<lparr>md_suffix := sfx\<rparr>;
          ((output_text, metadata), s) = get_command_output command raw metadata previous_output_prefix s
      in (Inr (CmdOutputObservation (new_cmd_output output_text command (Some metadata) False)), s))"

definition handle_nochange_timeout_command ::
    "string \<Rightarrow> string \<Rightarrow> ps1_match list \<Rightarrow> 't bash_session \<Rightarrow> (exc + observation) \<times> 't bash_session" where
  "handle_nochange_timeout_command command content ms s =
     handle_timeout_command NO_CHANGE_TIMEOUT
       (newline # ''[The command has no new output after '' @ show_int (bs_no_change_timeout s) @ '' seconds. ''
          @ TIMEOUT_MESSAGE_TEMPLATE @ '']'') command content ms s"

definition handle_hard_timeout_command ::
    "bash_env \<Rightarrow> string \<Rightarrow> string \<Rightarrow> ps1_match list \<Rightarrow> rat \<Rightarrow> 't bash_session \<Rightarrow>
     (exc + observation) \<times> 't bash_session" where
  "handle_hard_timeout_command env command content ms timeout s =
     handle_timeout_command HARD_TIMEOUT
       (newline # ''[The command timed out after '' @ be_float_text env timeout @ '' seconds. ''
          @ TIMEOUT_MESSAGE_TEMPLATE @ '']'') command content ms s"

section \<open>\<open>execute\<close>\<close>

text \<open>What stays the same over the polls: the action, its timeout, the command that was sent, the number of
  prompts before it, and the time it was sent.\<close>

record poll_job =
  pj_hidden :: bool
  pj_blocking :: bool
  pj_timeout :: "rat option"
  pj_command :: string
  pj_prompts :: nat
  pj_start :: rat

definition at_prompt :: "string \<Rightarrow> bool" where
  "at_prompt content \<longleftrightarrow> endswith (rstrip content) (rstrip CMD_OUTPUT_PS1_END)"

text \<open>One poll: what \<open>execute\<close> returns, or the time of the last change and the content to go on with.\<close>

definition poll_once ::
    "bash_env \<Rightarrow> 't pane_ops \<Rightarrow> poll_job \<Rightarrow> rat \<Rightarrow> string \<Rightarrow> 't bash_session \<Rightarrow>
     ((exc + observation) + rat \<times> string) \<times> 't bash_session" where
  "poll_once env po job changed last_content s =
     (let (content, s) = get_pane_content po s;
          ms = matches_ps1_metadata env content;
          (changed, s) = (if content \<noteq> last_content then read_clock po s else (changed, s))
      in if pj_prompts job < length ms \<or> at_prompt content then
           let (r, s) = handle_completed_command env po (pj_command job) content ms (pj_hidden job) s in (Inl r, s)
         else
           let (now, s) = read_clock po s in
           if \<not> pj_blocking job \<and> of_int (bs_no_change_timeout s) \<le> now - changed then
             let (r, s) = handle_nochange_timeout_command (pj_command job) content ms s in (Inl r, s)
           else
             let (now, s) = read_clock po s in
             case pj_timeout job of
               Some t \<Rightarrow>
                 if t \<noteq> 0 \<and> t \<le> now - pj_start job then
                   let (r, s) = handle_hard_timeout_command env (pj_command job) content ms t s in (Inl r, s)
                 else (Inr (changed, content), s)
             | None \<Rightarrow> (Inr (changed, content), s))"

text \<open>The loop may go on for ever; then the result is \<open>None\<close>.\<close>

partial_function (option) poll_loop ::
    "bash_env \<Rightarrow> 't pane_ops \<Rightarrow> poll_job \<Rightarrow> rat \<Rightarrow> string \<Rightarrow> 't bash_session \<Rightarrow>
     ((exc + observation) \<times> 't bash_session) option" where
  "poll_loop env po job changed last_content s =
     (if \<not> po_continue po (bs_pane s) then Some (Inl (RuntimeError ''Bash session was likely interrupted...''), s)
      else
        (case poll_once env po job changed last_content s of
           (Inl r, s) \<Rightarrow> Some (r, s)
         | (Inr (changed, content), s) \<Rightarrow>
             poll_loop env po job changed content (on_pane (po_sleep po POLL_INTERVAL) s)))"

declare poll_loop.simps [code]

definition no_running_command :: "string \<Rightarrow> observation" where
  "no_running_command what =
     CmdOutputObservation (new_cmd_output (''ERROR: No previous running command to '' @ what) []
       (Some default_metadata) False)"

definition multiple_commands :: "string list \<Rightarrow> observation" where
  "multiple_commands commands = ErrorObservation
     (''ERROR: Cannot execute multiple commands at once.'' @ newline #
      ''Please run each command separately OR chain them into a single command via && or ;'' @ newline #
      ''Provided commands:'' @ newline #
      join [newline] (map (\<lambda>(i, cmd). ''('' @ show_nat (i + 1) @ '') '' @ cmd) (enumerate 0 commands)))
     []"

definition command_running :: "'t bash_session \<Rightarrow> bool" where
  "command_running s \<longleftrightarrow>
     bs_prev_status s \<in> {Some CONTINUE, Some NO_CHANGE_TIMEOUT, Some HARD_TIMEOUT}"

text \<open>The answer to a command that is not sent as the one before it still runs.\<close>

definition not_executed_yet ::
    "bash_env \<Rightarrow> cmd_run \<Rightarrow> string \<Rightarrow> string \<Rightarrow> 't bash_session \<Rightarrow> (exc + observation) \<times> 't bash_session" where
  \<open>not_executed_yet env action command content s =
     (let raw = combine_outputs_between_matches content (matches_ps1_metadata env content) False;
          metadata = default_metadata\<lparr>md_suffix := newline # ''[Your command "'' @ command @ ''" is NOT executed. ''
            @ ''The previous command is still running - You CANNOT send new commands until the previous command is completed. ''
            @ ''By setting `is_input` to `true`, you can interact with the current process: ''
            @ TIMEOUT_MESSAGE_TEMPLATE @ '']''\<rparr>;
          ((output_text, metadata), s) = get_command_output command raw metadata previous_output_prefix s
      in (Inr (CmdOutputObservation (new_cmd_output output_text command (Some metadata) (cr_hidden action))), s))\<close>

text \<open>The keys that are sent for a command, if it is not empty; and the command as the polls report it.\<close>

definition send_command ::
    "bash_env \<Rightarrow> 't pane_ops \<Rightarrow> bool \<Rightarrow> string \<Rightarrow> 't bash_session \<Rightarrow> (exc + string) \<times> 't bash_session" where
  "send_command env po is_input command s =
     (if command = [] then (Inr command, s)
      else case (if is_input then Inr command else escape_bash_special_chars env command) of
        Inl e \<Rightarrow> (Inl e, s)
      | Inr sent \<Rightarrow> (Inr sent, on_pane (po_send po sent (\<not> is_special_key command)) s))"

definition execute ::
    "bash_env \<Rightarrow> 't pane_ops \<Rightarrow> cmd_run \<Rightarrow> rat option \<Rightarrow> 't bash_session \<Rightarrow>
     ((exc + observation) \<times> 't bash_session) option" where
  "execute env po action timeout s =
     (if \<not> bs_initialized s then Some (Inl (RuntimeError ''Bash session is not initialized''), s)
      else
        let command = strip (cr_command action) in
        if \<not> command_running s \<and> command = [] then Some (Inr (no_running_command ''retrieve logs from.''), s)
        else if \<not> command_running s \<and> cr_is_input action then
          Some (Inr (no_running_command ''interact with.''), s)
        else case split_bash_commands env command of
          Inl e \<Rightarrow> Some (Inl e, s)
        | Inr parts \<Rightarrow>
            if 1 < length parts then Some (Inr (multiple_commands parts), s)
            else
              let (content, s) = get_pane_content po s;
                  prompts = length (matches_ps1_metadata env content);
                  (start, s) = read_clock po s
              in if bs_prev_status s \<in> {Some HARD_TIMEOUT, Some NO_CHANGE_TIMEOUT} \<and> \<not> at_prompt content
                    \<and> \<not> cr_is_input action \<and> command \<noteq> []
                 then Some (not_executed_yet env action command content s)
                 else case send_command env po (cr_is_input action) command s of
                   (Inl e, s) \<Rightarrow> Some (Inl e, s)
                 | (Inr sent, s) \<Rightarrow>
                     poll_loop env po \<lparr>pj_hidden = cr_hidden action, pj_blocking = cr_blocking action,
                       pj_timeout = timeout, pj_command = sent, pj_prompts = prompts, pj_start = start\<rparr>
                       start content s)"

end
