(* ===== verification/Bash_Session_Correct.thy ===== *)
theory Bash_Session_Correct
  imports Bash_Session
begin

text \<open>
  The shell session as a state machine: what each poll and each call of \<open>execute\<close> does to the status, to the
  kept output and to the keys that are typed into the terminal; and that \<open>execute\<close> with a hard timeout
  returns on every terminal whose clock goes on.
\<close>

section \<open>What a call leaves alone\<close>

lemma clear_screen_keeps: "bs_prev_status (clear_screen po s) = bs_prev_status s"
  "bs_prev_output (clear_screen po s) = bs_prev_output s" "bs_cwd (clear_screen po s) = bs_cwd s"
  "bs_initialized (clear_screen po s) = bs_initialized s"
  by (simp_all add: clear_screen_def on_pane_def)

lemma get_pane_content_keeps:
  assumes "get_pane_content po s = (content, s1)"
  shows "s1 = s\<lparr>bs_pane := snd (po_capture po (bs_pane s))\<rparr>"
  using assms by (auto simp: get_pane_content_def split: prod.splits)

lemma read_clock_keeps: "read_clock po s = (now, s1) \<Longrightarrow> s1 = s\<lparr>bs_pane := snd (po_time po (bs_pane s))\<rparr>"
  by (auto simp: read_clock_def split: prod.splits)

lemma get_command_output_keeps:
  "snd (get_command_output c raw md p s) = s\<lparr>bs_prev_output := raw\<rparr>"
  by (simp add: get_command_output_def split: prod.split)

section \<open>Steps of the session\<close>

text \<open>A log of the keys typed into the terminal, which nothing but typing changes.\<close>

definition records :: "'t pane_ops \<Rightarrow> ('t \<Rightarrow> (string \<times> bool) list) \<Rightarrow> bool" where
  "records po typed \<longleftrightarrow>
     (\<forall>t. typed (snd (po_capture po t)) = typed t) \<and> (\<forall>t. typed (snd (po_time po t)) = typed t) \<and>
     (\<forall>d t. typed (po_sleep po d t) = typed t) \<and> (\<forall>t. typed (po_clear_history po t) = typed t) \<and>
     (\<forall>k e t. typed (po_send po k e t) = typed t @ [(k, e)])"

definition clear_key :: "string \<times> bool" where
  "clear_key = (''C-l'', False)"

text \<open>The state that the next command sees: the status and the output that is kept.\<close>

definition same_command :: "'t bash_session \<Rightarrow> 't bash_session \<Rightarrow> bool" where
  "same_command s s' \<longleftrightarrow> bs_prev_status s' = bs_prev_status s \<and> bs_prev_output s' = bs_prev_output s"

text \<open>Nothing has happened; or the command has ended and the screen is cleared; or it has timed out.\<close>

definition settled :: "'t pane_ops \<Rightarrow> ('t \<Rightarrow> (string \<times> bool) list) \<Rightarrow> 't bash_session \<Rightarrow> 't bash_session \<Rightarrow> bool" where
  "settled po typed s s' \<longleftrightarrow>
     same_command s s' \<and> (records po typed \<longrightarrow> typed (bs_pane s') = typed (bs_pane s)) \<or>
     bs_prev_status s' = Some COMPLETED \<and> bs_prev_output s' = [] \<and>
       (records po typed \<longrightarrow> typed (bs_pane s') = typed (bs_pane s) @ [clear_key]) \<or>
     bs_prev_status s' \<in> {Some NO_CHANGE_TIMEOUT, Some HARD_TIMEOUT} \<and>
       (records po typed \<longrightarrow> typed (bs_pane s') = typed (bs_pane s))"

definition quiet :: "'t pane_ops \<Rightarrow> ('t \<Rightarrow> (string \<times> bool) list) \<Rightarrow> 't bash_session \<Rightarrow> 't bash_session \<Rightarrow> bool" where
  "quiet po typed s s' \<longleftrightarrow> same_command s s' \<and> (records po typed \<longrightarrow> typed (bs_pane s') = typed (bs_pane s))"

lemma quiet_refl: "quiet po typed s s"
  by (simp add: quiet_def same_command_def)

lemma quiet_trans [trans]: "quiet po typed s s' \<Longrightarrow> quiet po typed s' s'' \<Longrightarrow> quiet po typed s s''"
  by (auto simp: quiet_def same_command_def)

lemma quiet_settled: "quiet po typed s s' \<Longrightarrow> settled po typed s' s'' \<Longrightarrow> settled po typed s s''"
  by (auto simp: quiet_def settled_def same_command_def)

lemma quiet_is_settled: "quiet po typed s s' \<Longrightarrow> settled po typed s s'"
  by (simp add: quiet_def settled_def)

lemma quiet_capture: "get_pane_content po s = (content, s1) \<Longrightarrow> quiet po typed s s1"
  by (drule get_pane_content_keeps) (simp add: quiet_def same_command_def records_def)

lemma quiet_clock: "read_clock po s = (now, s1) \<Longrightarrow> quiet po typed s s1"
  by (drule read_clock_keeps) (simp add: quiet_def same_command_def records_def)

lemma quiet_sleep: "quiet po typed s (on_pane (po_sleep po d) s)"
  by (simp add: quiet_def same_command_def records_def on_pane_def)

lemma clear_screen_typed:
  "records po typed \<Longrightarrow> typed (bs_pane (clear_screen po s)) = typed (bs_pane s) @ [clear_key]"
  by (simp add: clear_screen_def on_pane_def records_def clear_key_def)

lemma settled_completed:
  assumes "handle_completed_command env po c content ms hidden s = (r, s')"
  shows "settled po typed s s'"
proof (cases "ms = []")
  case True
  with assms show ?thesis by (simp add: handle_completed_command_def quiet_is_settled quiet_refl)
next
  case False
  show ?thesis
  proof (cases "from_ps1_match env (last ms)")
    case (Inl e)
    with False assms show ?thesis by (simp add: handle_completed_command_def quiet_is_settled quiet_refl)
  next
    case (Inr md)
    define s0 where "s0 = (case md_working_dir md of
        Some d \<Rightarrow> if d \<noteq> bs_cwd s \<and> d \<noteq> [] then s\<lparr>bs_cwd := d\<rparr> else s | None \<Rightarrow> s)"
    have "bs_pane s0 = bs_pane s" by (simp add: s0_def split: option.split)
    moreover obtain raw where "s' = clear_screen po (s0\<lparr>bs_prev_output := raw, bs_prev_status := Some COMPLETED,
        bs_prev_output := []\<rparr>)"
      using assms False Inr
      by (auto simp: handle_completed_command_def s0_def [symmetric] Let_def get_command_output_def
          split: prod.splits)
    ultimately show ?thesis by (simp add: settled_def clear_screen_keeps clear_screen_typed)
  qed
qed

lemma settled_timeout:
  assumes "handle_timeout_command status sfx c content ms s = (r, s')"
    and "status \<in> {NO_CHANGE_TIMEOUT, HARD_TIMEOUT}"
  shows "settled po typed s s'"
proof -
  from assms(1) obtain raw where "s' = s\<lparr>bs_prev_status := Some status, bs_prev_output := raw\<rparr>"
    by (auto simp: handle_timeout_command_def Let_def get_command_output_def split: prod.splits)
  with assms(2) show ?thesis by (auto simp: settled_def)
qed

text \<open>A poll that goes on has changed nothing; a poll that ends the command is one of these.\<close>

lemma poll_once_steps:
  assumes "poll_once env po job changed last_content s = (v, s')"
  shows "if isl v then settled po typed s s' else quiet po typed s s'"
proof -
  obtain content s1 where s1: "get_pane_content po s = (content, s1)" by fastforce
  define ms where "ms = matches_ps1_metadata env content"
  obtain ch s2 where s2: "(if content \<noteq> last_content then read_clock po s1 else (changed, s1)) = (ch, s2)" by fastforce
  obtain now3 s3 where s3: "read_clock po s2 = (now3, s3)" by fastforce
  obtain now4 s4 where s4: "read_clock po s3 = (now4, s4)" by fastforce
  note poll = assms [unfolded poll_once_def s1 Let_def prod.case ms_def [symmetric] s2]
  have q1: "quiet po typed s s1" using s1 by (rule quiet_capture)
  also have "quiet po typed s1 s2" using s2 quiet_clock [of po s1 ch s2 typed] by (auto simp: quiet_refl split: if_splits)
  finally have q2: "quiet po typed s s2" .
  have q3: "quiet po typed s s3" using q2 quiet_clock [OF s3] by (rule quiet_trans)
  have q4: "quiet po typed s s4" using q3 quiet_clock [OF s4] by (rule quiet_trans)
  show ?thesis
  proof (cases "pj_prompts job < length ms \<or> at_prompt content")
    case True
    obtain r s5 where r: "handle_completed_command env po (pj_command job) content ms (pj_hidden job) s2 = (r, s5)"
      by fastforce
    with True poll have "v = Inl r" "s' = s5" by (auto split: prod.splits)
    with quiet_settled [OF q2 settled_completed [OF r]] show ?thesis by simp
  next
    case prompt: False
    show ?thesis
    proof (cases "\<not> pj_blocking job \<and> of_int (bs_no_change_timeout s3) \<le> now3 - ch")
      case True
      obtain r s5 where r: "handle_nochange_timeout_command (pj_command job) content ms s3 = (r, s5)" by fastforce
      with True prompt poll s3 have "v = Inl r" "s' = s5" by (auto split: prod.splits)
      moreover have "settled po typed s3 s5"
        using r unfolding handle_nochange_timeout_command_def by (rule settled_timeout) simp
      ultimately show ?thesis using quiet_settled [OF q3] by simp
    next
      case change: False
      show ?thesis
      proof (cases "\<exists>t. pj_timeout job = Some t \<and> t \<noteq> 0 \<and> t \<le> now4 - pj_start job")
        case True
        then obtain t where t: "pj_timeout job = Some t" "t \<noteq> 0" "t \<le> now4 - pj_start job" by blast
        obtain r s5 where r: "handle_hard_timeout_command env (pj_command job) content ms t s4 = (r, s5)" by fastforce
        with t change prompt poll s3 s4 have "v = Inl r" "s' = s5" by (auto split: prod.splits)
        moreover have "settled po typed s4 s5"
          using r unfolding handle_hard_timeout_command_def by (rule settled_timeout) simp
        ultimately show ?thesis using quiet_settled [OF q4] by simp
      next
        case False
        with change prompt poll s3 s4 have "v = Inr (ch, content)" "s' = s4"
          by (auto split: prod.splits option.splits if_splits)
        with q4 show ?thesis by simp
      qed
    qed
  qed
qed

lemma poll_loop_steps:
  assumes "poll_loop env po job changed last_content s = Some (r, s')"
  shows "settled po typed s s'"
proof -
  have "settled po typed s (snd (r, s'))"
  proof (rule poll_loop.raw_induct [where P = "\<lambda>env po job changed last_content s v. settled po typed s (snd v)",
        OF _ assms])
    fix loop :: "bash_env \<Rightarrow> 'a pane_ops \<Rightarrow> poll_job \<Rightarrow> rat \<Rightarrow> string \<Rightarrow> 'a bash_session \<Rightarrow>
      ((exc + observation) \<times> 'a bash_session) option"
    fix env po job changed last_content s v
    assume IH: "\<And>env po job changed last_content s v.
        loop env po job changed last_content s = Some v \<Longrightarrow> settled po typed s (snd v)"
      and eq: "(if \<not> po_continue po (bs_pane s)
        then Some (Inl (RuntimeError ''Bash session was likely interrupted...''), s)
        else case poll_once env po job changed last_content s of
            (Inl r, s) \<Rightarrow> Some (r, s)
          | (Inr (changed, content), s) \<Rightarrow> loop env po job changed content (on_pane (po_sleep po POLL_INTERVAL) s)) =
        Some v"
    obtain w s1 where w: "poll_once env po job changed last_content s = (w, s1)" by fastforce
    note step = poll_once_steps [OF w, of typed]
    show "settled po typed s (snd v)"
    proof (cases "po_continue po (bs_pane s)")
      case False
      with eq quiet_is_settled [OF quiet_refl] show ?thesis by auto
    next
      case True
      show ?thesis
      proof (cases w)
        case (Inl r)
        with eq w True have "v = (r, s1)" by simp
        with step Inl show ?thesis by simp
      next
        case (Inr p)
        with eq w True have "loop env po job (fst p) (snd p) (on_pane (po_sleep po POLL_INTERVAL) s1) = Some v"
          by (simp split: prod.splits)
        then have "settled po typed (on_pane (po_sleep po POLL_INTERVAL) s1) (snd v)" by (rule IH)
        moreover have "quiet po typed s (on_pane (po_sleep po POLL_INTERVAL) s1)"
          using step Inr quiet_trans [OF _ quiet_sleep] by auto
        ultimately show ?thesis by (rule quiet_settled [rotated])
      qed
    qed
  qed
  then show ?thesis by simp
qed

section \<open>\<open>execute\<close>\<close>

definition running_timed_out :: "'t bash_session \<Rightarrow> bool" where
  "running_timed_out s \<longleftrightarrow> bs_prev_status s \<in> {Some HARD_TIMEOUT, Some NO_CHANGE_TIMEOUT}"

text \<open>The keys for the command \<open>c\<close>: none if it is empty, itself as input, and escaped otherwise.\<close>

definition keys_for :: "bash_env \<Rightarrow> bool \<Rightarrow> string \<Rightarrow> (string \<times> bool) list \<Rightarrow> bool" where
  "keys_for env is_input c ks \<longleftrightarrow>
     (if c = [] then ks = []
      else \<exists>k. (if is_input then k = c else escape_bash_special_chars env c = Inr k) \<and>
        ks = [(k, \<not> is_special_key c)])"

lemma send_command_steps:
  assumes "send_command env po is_input c s = (Inr k, s')"
  shows "same_command s s' \<and> (\<exists>ks. keys_for env is_input c ks \<and>
    (records po typed \<longrightarrow> typed (bs_pane s') = typed (bs_pane s) @ ks))"
proof (cases "c = []")
  case True
  with assms show ?thesis by (simp add: send_command_def keys_for_def same_command_def)
next
  case False
  with assms have "(if is_input then k = c else escape_bash_special_chars env c = Inr k)"
    and "s' = on_pane (po_send po k (\<not> is_special_key c)) s"
    by (auto simp: send_command_def split: sum.splits if_splits)
  with False show ?thesis
    by (intro conjI exI [of _ "[(k, \<not> is_special_key c)]"])
      (auto simp: keys_for_def on_pane_def same_command_def records_def)
qed

text \<open>The ways \<open>execute\<close> returns: without typing anything, or after typing the keys and polling.\<close>

lemma execute_cases:
  assumes "execute env po action timeout s = Some (r, s')"
  obtains (unsent) "quiet po typed s s'"
  | (refused) "running_timed_out s" "\<not> cr_is_input action" "strip (cr_command action) \<noteq> []"
      "bs_prev_status s' = bs_prev_status s" "records po typed \<longrightarrow> typed (bs_pane s') = typed (bs_pane s)"
  | (sent) ks s1 where "keys_for env (cr_is_input action) (strip (cr_command action)) ks"
      "same_command s s1" "records po typed \<longrightarrow> typed (bs_pane s1) = typed (bs_pane s) @ ks"
      "settled po typed s1 s'"
proof -
  define c where "c = strip (cr_command action)"
  obtain content s1 where s1: "get_pane_content po s = (content, s1)" by fastforce
  obtain start s2 where s2: "read_clock po s1 = (start, s2)" by fastforce
  have q: "quiet po typed s s2" using quiet_capture [OF s1] quiet_clock [OF s2] by (rule quiet_trans)
  have st: "bs_prev_status s2 = bs_prev_status s" using q by (simp add: quiet_def same_command_def)
  note run = assms [unfolded execute_def Let_def c_def [symmetric] s1 prod.case s2]
  consider "s' = s"
    | parts where "bs_initialized s" "command_running s \<or> c \<noteq> [] \<and> \<not> cr_is_input action"
        "split_bash_commands env c = Inr parts" "\<not> 1 < length parts"
    using run by (auto split: if_splits sum.splits)
  then show thesis
  proof cases
    case 1
    then show thesis by (intro unsent) (simp add: quiet_refl)
  next
    case 2
    show thesis
    proof (cases "bs_prev_status s2 \<in> {Some HARD_TIMEOUT, Some NO_CHANGE_TIMEOUT} \<and> \<not> at_prompt content
        \<and> \<not> cr_is_input action \<and> c \<noteq> []")
      case True
      with run 2 s2 have "not_executed_yet env action c content s2 = (r, s')" by (auto split: if_splits)
      then obtain raw where "s' = s2\<lparr>bs_prev_output := raw\<rparr>"
        by (auto simp: not_executed_yet_def Let_def get_command_output_def split: prod.splits)
      with True q st show thesis
        by (intro refused) (auto simp: running_timed_out_def c_def quiet_def)
    next
      case False
      obtain v s3 where v: "send_command env po (cr_is_input action) c s2 = (v, s3)" by fastforce
      show thesis
      proof (cases v)
        case (Inl e)
        with v have "s3 = s2" by (auto simp: send_command_def split: if_splits sum.splits)
        moreover have "s' = s3" using run 2 False s2 v Inl by (auto split: if_splits)
        ultimately show thesis using q by (intro unsent) simp
      next
        case (Inr k)
        obtain job where "poll_loop env po job start content s3 = Some (r, s')"
          using run 2 False s2 v Inr by (auto split: if_splits)
        then have o: "settled po typed s3 s'" by (rule poll_loop_steps)
        obtain ks where "keys_for env (cr_is_input action) c ks" "same_command s2 s3"
            "records po typed \<longrightarrow> typed (bs_pane s3) = typed (bs_pane s2) @ ks"
          using send_command_steps [OF v [unfolded Inr], of typed] by blast
        with o q show thesis
          by (intro sent [of ks s3]) (auto simp: c_def quiet_def same_command_def)
      qed
    qed
  qed
qed

text \<open>
  C39. A command is typed at most once, as it was given when it is input for the program that runs and
  escaped otherwise, and with enter unless it is a key such as \<open>C-c\<close>; after it only \<open>C-l\<close> is typed, and
  that when the command has completed.
\<close>

theorem command_typed_at_most_once:
  assumes "records po typed" and "execute env po action timeout s = Some (r, s')"
  shows "\<exists>ks cleared. typed (bs_pane s') = typed (bs_pane s) @ ks @ cleared \<and>
    (ks = [] \<or> keys_for env (cr_is_input action) (strip (cr_command action)) ks) \<and>
    (cleared = [] \<or> cleared = [clear_key] \<and> bs_prev_status s' = Some COMPLETED)"
  using assms(2)
proof (cases rule: execute_cases [where typed = typed])
  case unsent
  with assms(1) show ?thesis by (simp add: quiet_def)
next
  case refused
  with assms(1) show ?thesis by simp
next
  case (sent ks s1)
  with assms(1) have "typed (bs_pane s') = typed (bs_pane s1) \<or>
      typed (bs_pane s') = typed (bs_pane s1) @ [clear_key] \<and> bs_prev_status s' = Some COMPLETED"
    by (auto simp: settled_def)
  with assms(1) sent show ?thesis by (elim disjE) auto
qed

text \<open>
  C38. While a command that has timed out still runs (the terminal shows no prompt at its end), a new
  command types nothing into its terminal and does not change that it counts as running, unless the
  command is marked as input.
\<close>

theorem running_command_is_not_disturbed:
  assumes "records po typed" and "execute env po action timeout s = Some (r, s')" and "running_timed_out s"
    and "\<not> cr_is_input action" and "strip (cr_command action) \<noteq> []"
    and "get_pane_content po s = (content, s1)" and "\<not> at_prompt content"
  shows "typed (bs_pane s') = typed (bs_pane s) \<and> running_timed_out s'"
proof -
  obtain start s2 where s2: "read_clock po s1 = (start, s2)" by fastforce
  have q: "quiet po typed s s2" using quiet_capture [OF assms(6)] quiet_clock [OF s2] by (rule quiet_trans)
  then have st: "running_timed_out s2" using assms(3) by (simp add: quiet_def same_command_def running_timed_out_def)
  have "s' = s \<or> not_executed_yet env action (strip (cr_command action)) content s2 = (r, s')"
    using assms(2) st [unfolded running_timed_out_def] assms(4,5,7)
    by (auto simp: execute_def Let_def assms(6) s2 split: if_splits sum.splits)
  then consider "s' = s" | raw where "s' = s2\<lparr>bs_prev_output := raw\<rparr>"
    by (auto simp: not_executed_yet_def Let_def get_command_output_def split: prod.splits)
  then show ?thesis using q st assms(1,3) by cases (auto simp: quiet_def running_timed_out_def)
qed

section \<open>The invariant of a session\<close>

inductive session_run :: "bash_env \<Rightarrow> 't pane_ops \<Rightarrow> 't bash_session \<Rightarrow> bool" for env po where
  start: "session_run env po (initialize_session env po pane cwd seconds)"
| step: "session_run env po s \<Longrightarrow> execute env po action timeout s = Some (r, s') \<Longrightarrow> session_run env po s'"

text \<open>
  In every state that a session reaches, output of an earlier command is kept only while that command
  has timed out and still runs, so that the output of a later command is never cut by it; the status
  \<open>CONTINUE\<close>, which \<open>execute\<close> asks for, is never reached.
\<close>

theorem kept_output_only_while_running:
  assumes "session_run env po s"
  shows "bs_prev_status s \<noteq> Some CONTINUE \<and> (bs_prev_output s = [] \<or> running_timed_out s)"
  using assms
proof induction
  case (start pane cwd seconds)
  then show ?case by (simp add: initialize_session_def clear_screen_def on_pane_def)
next
  case (step s action timeout r s')
  from step.hyps(2) show ?case
  proof (cases rule: execute_cases [where typed = "\<lambda>_. []"])
    case unsent
    with step.IH show ?thesis by (simp add: quiet_def same_command_def running_timed_out_def)
  next
    case refused
    then show ?thesis by (auto simp: running_timed_out_def)
  next
    case (sent ks s1)
    with step.IH show ?thesis by (auto simp: settled_def same_command_def running_timed_out_def)
  qed
qed

section \<open>A hard timeout ends a command\<close>

text \<open>The clock of the terminal never goes back, and sleeping takes its time.\<close>

definition clock_runs :: "'t pane_ops \<Rightarrow> ('t \<Rightarrow> rat) \<Rightarrow> bool" where
  "clock_runs po now \<longleftrightarrow>
     (\<forall>t. fst (po_time po t) = now t) \<and> (\<forall>t. now t \<le> now (snd (po_time po t))) \<and>
     (\<forall>t. now t \<le> now (snd (po_capture po t))) \<and> (\<forall>k e t. now t \<le> now (po_send po k e t)) \<and>
     (\<forall>d t. now t + d \<le> now (po_sleep po d t))"

lemma capture_later:
  "clock_runs po now \<Longrightarrow> get_pane_content po s = (content, s1) \<Longrightarrow> now (bs_pane s) \<le> now (bs_pane s1)"
  by (drule get_pane_content_keeps) (simp add: clock_runs_def)

lemma clock_later:
  "clock_runs po now \<Longrightarrow> read_clock po s = (n, s1) \<Longrightarrow> n = now (bs_pane s) \<and> n \<le> now (bs_pane s1)"
  by (auto simp: read_clock_def clock_runs_def split: prod.splits) (metis fst_conv, metis fst_conv snd_conv)

text \<open>A poll that goes on was not late, and time has passed.\<close>

lemma poll_goes_on:
  assumes "clock_runs po now" and "pj_timeout job = Some t" and "0 < t"
    and "poll_once env po job changed last_content s = (Inr v, s')"
  shows "now (bs_pane s) < pj_start job + t \<and> now (bs_pane s) \<le> now (bs_pane s')"
proof -
  obtain content s1 where s1: "get_pane_content po s = (content, s1)" by fastforce
  obtain ch s2 where s2: "(if content \<noteq> last_content then read_clock po s1 else (changed, s1)) = (ch, s2)" by fastforce
  obtain now3 s3 where s3: "read_clock po s2 = (now3, s3)" by fastforce
  obtain now4 s4 where s4: "read_clock po s3 = (now4, s4)" by fastforce
  note poll = assms(4) [unfolded poll_once_def s1 Let_def prod.case s2 s3 s4 assms(2) option.case]
  have "s' = s4" "\<not> t \<le> now4 - pj_start job" using poll assms(3) by (auto split: if_splits prod.splits)
  moreover have "now (bs_pane s) \<le> now (bs_pane s1)" using assms(1) s1 by (rule capture_later)
  moreover have "now (bs_pane s1) \<le> now (bs_pane s2)"
    using s2 clock_later [OF assms(1), of s1 ch s2] by (auto split: if_splits)
  moreover have "now (bs_pane s2) \<le> now (bs_pane s3)" "now4 = now (bs_pane s3)" "now4 \<le> now (bs_pane s4)"
    using clock_later [OF assms(1) s3] clock_later [OF assms(1) s4] by auto
  ultimately show ?thesis by simp
qed

lemma poll_loop_returns:
  assumes "clock_runs po now" and "pj_timeout job = Some t" and "0 < t"
    and "pj_start job + t - now (bs_pane s) \<le> of_nat n * POLL_INTERVAL"
  shows "\<exists>r s'. poll_loop env po job changed last_content s = Some (r, s')"
  using assms(4)
proof (induction n arbitrary: changed last_content s)
  case 0
  then have late: "\<not> now (bs_pane s) < pj_start job + t" by simp
  obtain v s1 where v: "poll_once env po job changed last_content s = (v, s1)" by fastforce
  with late poll_goes_on [OF assms(1-3)] have "isl v" by (cases v) (auto simp: isl_def)
  with v show ?case by (subst poll_loop.simps) (auto simp: isl_def)
next
  case (Suc n)
  obtain v s1 where v: "poll_once env po job changed last_content s = (v, s1)" by fastforce
  show ?case
  proof (cases v)
    case (Inl r)
    with v show ?thesis by (subst poll_loop.simps) simp
  next
    case (Inr w)
    obtain ch content where w: "w = (ch, content)" by fastforce
    define s2 where "s2 = on_pane (po_sleep po POLL_INTERVAL) s1"
    have "now (bs_pane s1) + POLL_INTERVAL \<le> now (bs_pane s2)"
      using assms(1) by (simp add: clock_runs_def s2_def on_pane_def)
    moreover have "now (bs_pane s) \<le> now (bs_pane s1)"
      using poll_goes_on [OF assms(1-3) v [unfolded Inr]] by simp
    ultimately have "pj_start job + t - now (bs_pane s2) \<le> of_nat n * POLL_INTERVAL"
      using Suc.prems by (simp add: algebra_simps)
    from Suc.IH [OF this, of ch content] v Inr w show ?thesis
      by (subst poll_loop.simps) (simp add: s2_def)
  qed
qed

text \<open>
  C36. A call of \<open>execute\<close> with a hard timeout returns, whatever the terminal shows and also for a blocking
  command: on every terminal whose clock goes on while the session sleeps.
\<close>

theorem hard_timeout_returns:
  assumes "clock_runs po now" and "0 < t"
  shows "\<exists>r s'. execute env po action (Some t) s = Some (r, s')"
proof -
  have "\<exists>r s'. poll_loop env po job changed content s0 = Some (r, s')" if "pj_timeout job = Some t" for job changed content s0
  proof -
    obtain n :: nat where "(pj_start job + t - now (bs_pane s0)) / POLL_INTERVAL \<le> of_nat n"
      using reals_Archimedean2 less_imp_le by blast
    then have "pj_start job + t - now (bs_pane s0) \<le> of_nat n * POLL_INTERVAL"
      by (simp add: POLL_INTERVAL_def field_simps)
    with assms that show ?thesis by (rule_tac poll_loop_returns)
  qed
  then show ?thesis
    by (auto simp: execute_def Let_def split: prod.split sum.split)
qed

section \<open>The properties at work\<close>

text \<open>A terminal that shows the same lines for ever, with its clock and the keys typed.\<close>

record still_pane =
  sp_lines :: "string list"
  sp_time :: rat
  sp_typed :: "(string \<times> bool) list"

definition still_ops :: "still_pane pane_ops" where
  "still_ops = \<lparr>po_capture = (\<lambda>t. (sp_lines t, t)),
     po_send = (\<lambda>k e t. t\<lparr>sp_typed := sp_typed t @ [(k, e)]\<rparr>),
     po_clear_history = (\<lambda>t. t),
     po_time = (\<lambda>t. (sp_time t, t)),
     po_sleep = (\<lambda>d t. t\<lparr>sp_time := sp_time t + d\<rparr>),
     po_continue = (\<lambda>t. True),
     po_kill = (\<lambda>t. t)\<rparr>"

definition quiet_env :: bash_env where
  "quiet_env = \<lparr>be_reader = \<lparr>jr_float = (\<lambda>_. 0), jr_wide = (\<lambda>_. [])\<rparr>,
     be_int_float = (\<lambda>s. Inl (ValueError s)), be_float_text = (\<lambda>_. ''1.0''),
     be_parse = (\<lambda>s. Inl (OtherException ''ParsingError'' s))\<rparr>"

definition still_session :: "BashCommandStatus option \<Rightarrow> string \<Rightarrow> still_pane bash_session" where
  "still_session status old =
     \<lparr>bs_pane = \<lparr>sp_lines = [''working''], sp_time = 0, sp_typed = []\<rparr>, bs_cwd = ''/'', bs_prev_status = status,
      bs_prev_output = old, bs_closed = False, bs_initialized = True, bs_no_change_timeout = 30\<rparr>"

lemma still_records: "records still_ops sp_typed"
  by (simp add: records_def still_ops_def)

lemma still_clock: "clock_runs still_ops sp_time"
  by (simp add: clock_runs_def still_ops_def)

definition typed_command :: "string \<Rightarrow> cmd_run" where
  "typed_command c = \<lparr>cr_command = c, cr_is_input = False, cr_thought = [], cr_blocking = True, cr_is_static = False,
     cr_cwd = None, cr_hidden = False, cr_confirmation_state = CONFIRMED, cr_security_risk = RISK_LOW\<rparr>"

lemma sleep_is_typed:
  "map_option (\<lambda>(r, s). (bs_prev_status s, sp_typed (bs_pane s)))
     (execute quiet_env still_ops (typed_command ''sleep 60'') (Some 1) (still_session None [])) =
   Some (Some HARD_TIMEOUT, [(''sleep 60'', True)])"
  by code_simp

theorem hard_timeout_returns_witness:
  "\<exists>r s'. execute quiet_env still_ops (typed_command ''sleep 60'') (Some 1) (still_session None []) = Some (r, s')"
  using still_clock by (rule hard_timeout_returns) simp

theorem command_typed_at_most_once_witness:
  "\<exists>r s'. execute quiet_env still_ops (typed_command ''sleep 60'') (Some 1) (still_session None []) = Some (r, s') \<and>
     sp_typed (bs_pane s') = [(''sleep 60'', True)] \<and> bs_prev_status s' = Some HARD_TIMEOUT \<and>
     (\<exists>ks cleared. sp_typed (bs_pane s') = ks @ cleared \<and>
       (cleared = [] \<or> cleared = [clear_key] \<and> bs_prev_status s' = Some COMPLETED))"
proof -
  from sleep_is_typed obtain r s' where run:
    "execute quiet_env still_ops (typed_command ''sleep 60'') (Some 1) (still_session None []) = Some (r, s')"
    "sp_typed (bs_pane s') = [(''sleep 60'', True)]" "bs_prev_status s' = Some HARD_TIMEOUT"
    by auto
  have "sp_typed (bs_pane (still_session None [])) = []" by (simp add: still_session_def)
  with command_typed_at_most_once [OF still_records run(1)] run show ?thesis by auto
qed

lemma ls_is_not_typed:
  "map_option (\<lambda>(r, s). isl r) (execute quiet_env still_ops (typed_command ''ls'') None
     (still_session (Some HARD_TIMEOUT) ''working'')) = Some False"
  by code_simp

theorem running_command_is_not_disturbed_witness:
  "\<exists>r s'. execute quiet_env still_ops (typed_command ''ls'') None (still_session (Some HARD_TIMEOUT) ''working'') =
     Some (r, s') \<and> sp_typed (bs_pane s') = [] \<and> running_timed_out s'"
proof -
  from ls_is_not_typed obtain r s' where run:
    "execute quiet_env still_ops (typed_command ''ls'') None (still_session (Some HARD_TIMEOUT) ''working'') = Some (r, s')"
    by auto
  let ?s = "still_session (Some HARD_TIMEOUT) ''working''"
  have "running_timed_out ?s" "sp_typed (bs_pane ?s) = []" "strip (cr_command (typed_command ''ls'')) \<noteq> []"
    "\<not> cr_is_input (typed_command ''ls'')" "get_pane_content still_ops ?s = (''working'', ?s)" "\<not> at_prompt ''working''"
    by code_simp+
  with running_command_is_not_disturbed [OF still_records run, of "''working''" ?s] run show ?thesis by auto
qed

text \<open>The session that is made and runs one command.\<close>

definition fresh_session :: "still_pane bash_session" where
  "fresh_session =
     initialize_session quiet_env still_ops \<lparr>sp_lines = [''working''], sp_time = 0, sp_typed = []\<rparr> ''/'' 30"

lemma fresh_run_times_out:
  "map_option (\<lambda>(r, s). (bs_prev_status s, bs_prev_output s))
     (execute quiet_env still_ops (typed_command ''sleep 60'') (Some 1) fresh_session) =
   Some (Some HARD_TIMEOUT, ''working'')"
  by code_simp

theorem kept_output_only_while_running_witness:
  "\<exists>s. session_run quiet_env still_ops s \<and> bs_prev_output s = ''working'' \<and> running_timed_out s"
proof -
  from fresh_run_times_out obtain r s where run:
    "execute quiet_env still_ops (typed_command ''sleep 60'') (Some 1) fresh_session = Some (r, s)"
    "bs_prev_output s = ''working''"
    by auto
  have "session_run quiet_env still_ops s"
    using session_run.start [of quiet_env still_ops] run(1) unfolding fresh_session_def by (rule session_run.step)
  with kept_output_only_while_running [OF this] run(2) show ?thesis by auto
qed

end
