(* ===== verification/Bash_Session_Properties.thy ===== *)
theory Bash_Session_Properties
  imports Bash_Session_Correct Fn_Call_Correct
begin

text \<open>
  What the shell session reads off the terminal: the prompts in a text, the output of a command between two
  prompts with the exit code of the second, and that a poll that sees the terminal before the shell has
  echoed the command takes the old prompt for the end of the command.
\<close>

section \<open>The prompts in a text\<close>

definition PS1_BEGIN :: string where "PS1_BEGIN = ''###PS1JSON###''"
definition PS1_END :: string where "PS1_END = ''###PS1END###''"

lemma ps1_markers: "strip CMD_OUTPUT_PS1_BEGIN = PS1_BEGIN" "strip CMD_OUTPUT_PS1_END = PS1_END"
  "rstrip CMD_OUTPUT_PS1_END = newline # PS1_END"
  by code_simp+

lemma ps1_marker_chars: "newline \<notin> set PS1_BEGIN" "PS1_BEGIN \<noteq> []" "PS1_END \<noteq> []"
  by (simp_all add: PS1_BEGIN_def PS1_END_def)

text \<open>A prompt with its metadata.\<close>

definition prompt :: "string \<Rightarrow> string" where
  "prompt j = PS1_BEGIN @ j @ PS1_END"

definition one_block :: "string \<Rightarrow> bool" where
  "one_block j \<longleftrightarrow> \<not> contains (j @ butlast PS1_END) PS1_END"

lemma prompt_matches:
  assumes "one_block j" and "p = [] \<or> hd p = newline"
  shows "first CMD_OUTPUT_METADATA_PS1_REGEX (p, prompt j @ r, []) (rev (prompt j) @ p, r, [(1, j)])"
proof -
  have "cut PS1_END (j @ PS1_END @ r) = Some (j, r)"
    using assms(1) cut_at [of j PS1_END] ps1_marker_chars by (simp add: one_block_def)
  from lazy_until_end [OF this ps1_marker_chars(3), of 1 "rev PS1_BEGIN @ p" "[]"]
  have "first (Seq (Grp 1 (lazy_star DotAll)) (Lit PS1_END)) (rev PS1_BEGIN @ p, j @ PS1_END @ r, [])
      (rev PS1_END @ rev j @ rev PS1_BEGIN @ p, r, [(1, j)])" .
  from first_Seq [OF first_Lit this]
  have "first (Seq (Lit PS1_BEGIN) (Seq (Grp 1 (lazy_star DotAll)) (Lit PS1_END)))
      (p, PS1_BEGIN @ j @ PS1_END @ r, []) (rev PS1_END @ rev j @ rev PS1_BEGIN @ p, r, [(1, j)])" .
  moreover have "first (Bol True) (p, PS1_BEGIN @ j @ PS1_END @ r, []) (p, PS1_BEGIN @ j @ PS1_END @ r, [])"
    using assms(2) by (auto simp: first_def)
  ultimately show ?thesis
    unfolding CMD_OUTPUT_METADATA_PS1_REGEX_def ps1_markers by (auto simp: prompt_def intro: first_Seq)
qed

lemma no_prompt_here: "\<not> startswith r PS1_BEGIN \<Longrightarrow> rmatch CMD_OUTPUT_METADATA_PS1_REGEX (p, r, c) = []"
  by (simp add: CMD_OUTPUT_METADATA_PS1_REGEX_def ps1_markers match_lit_def)

lemma search_skips:
  assumes "\<And>i. i < length b \<Longrightarrow> \<not> startswith (drop i (b @ r)) PS1_BEGIN" and "b \<noteq> []"
  shows "search_go CMD_OUTPUT_METADATA_PS1_REGEX adv p (b @ r) =
    search_go CMD_OUTPUT_METADATA_PS1_REGEX False (rev b @ p) r"
  using assms
proof (induction b arbitrary: adv p)
  case (Cons x b)
  have "rmatch CMD_OUTPUT_METADATA_PS1_REGEX (p, x # b @ r, []) = []"
    using Cons.prems(1) [of 0] by (intro no_prompt_here) simp
  moreover have "search_go CMD_OUTPUT_METADATA_PS1_REGEX False (x # p) (b @ r) =
      search_go CMD_OUTPUT_METADATA_PS1_REGEX False (rev b @ x # p) r"
  proof (cases "b = []")
    case False
    with Cons.IH [of False "x # p"] Cons.prems(1) [of "Suc _"] show ?thesis by simp
  qed simp
  ultimately show ?case by simp
qed simp

lemma search_prompt:
  assumes "one_block j" and "p = [] \<or> hd p = newline"
  shows "search_go CMD_OUTPUT_METADATA_PS1_REGEX False p (prompt j @ r) =
    Some (p, prompt j @ r, (rev (prompt j) @ p, r, [(1, j)]))"
proof -
  from prompt_matches [OF assms] obtain ms where
    "rmatch CMD_OUTPUT_METADATA_PS1_REGEX (p, prompt j @ r, []) = (rev (prompt j) @ p, r, [(1, j)]) # ms"
    by (auto simp: first_def)
  moreover obtain x y where "prompt j @ r = x # y" by (cases "prompt j @ r") (auto simp: prompt_def PS1_BEGIN_def)
  ultimately show ?thesis by simp
qed

text \<open>Text in which no prompt begins, up to a line break.\<close>

lemma quiet_line:
  assumes "\<not> contains b PS1_BEGIN" and "i < length (b @ [newline])"
  shows "\<not> startswith (drop i ((b @ [newline]) @ r)) PS1_BEGIN"
proof
  assume "startswith (drop i ((b @ [newline]) @ r)) PS1_BEGIN"
  then obtain z where z: "drop i b @ newline # r = PS1_BEGIN @ z"
    using assms(2) by (auto simp: startswith_iff)
  then consider v where "drop i b = PS1_BEGIN @ v" | v where "PS1_BEGIN = drop i b @ v" "newline # r = v @ z"
    unfolding append_eq_append_conv2 by metis
  then show False
  proof cases
    case 1
    then have "b = take i b @ PS1_BEGIN @ v" by (metis append_take_drop_id)
    with assms(1) show False by (metis contains_iff)
  next
    case 2
    show False
    proof (cases v)
      case Nil
      with 2 have "b = take i b @ PS1_BEGIN @ []" by (metis append_Nil2 append_take_drop_id)
      with assms(1) show False by (metis contains_iff)
    next
      case (Cons x xs)
      with 2(2) have "newline \<in> set v" by simp
      then have "newline \<in> set PS1_BEGIN" unfolding 2(1) by simp
      with ps1_marker_chars(1) show False by simp
    qed
  qed
qed

lemma finditer_quiet:
  assumes "\<not> contains b PS1_BEGIN"
  shows "finditer_go CMD_OUTPUT_METADATA_PS1_REGEX adv p b = []"
proof -
  have "\<not> startswith (drop i b) PS1_BEGIN" for i
    using assms by (metis append_take_drop_id contains_iff startswith_iff)
  then have "search_go CMD_OUTPUT_METADATA_PS1_REGEX adv p b = None"
  proof (induction b arbitrary: adv p)
    case Nil
    from Nil [of 0] show ?case by (simp add: no_prompt_here)
  next
    case (Cons x b)
    from Cons.prems [of 0] have "rmatch CMD_OUTPUT_METADATA_PS1_REGEX (p, x # b, []) = []"
      by (intro no_prompt_here) simp
    moreover have "\<not> startswith (drop i b) PS1_BEGIN" for i using Cons.prems [of "Suc i"] by simp
    ultimately show ?case using Cons.IH [of False "x # p"] by simp
  qed
  then show ?thesis by (simp add: finditer_go.simps)
qed

text \<open>Where a prompt is found after a text, and where none is.\<close>

definition match_at :: "nat \<Rightarrow> string \<Rightarrow> ps1_match" where
  "match_at n j = \<lparr>pm_start = n, pm_end = n + length (prompt j), pm_group = j\<rparr>"

lemma finditer_skip:
  assumes "\<not> contains b PS1_BEGIN"
  shows "finditer_go CMD_OUTPUT_METADATA_PS1_REGEX False p (b @ newline # r) =
    finditer_go CMD_OUTPUT_METADATA_PS1_REGEX False (newline # rev b @ p) r"
proof -
  have "search_go CMD_OUTPUT_METADATA_PS1_REGEX False p ((b @ [newline]) @ r) =
      search_go CMD_OUTPUT_METADATA_PS1_REGEX False (rev (b @ [newline]) @ p) r"
    by (rule search_skips) (use quiet_line [OF assms] in auto)
  then show ?thesis by (simp add: finditer_go.simps [of _ _ p] finditer_go.simps [of _ _ "newline # rev b @ p"])
qed

lemma finditer_prompt:
  assumes "one_block j" and "p = [] \<or> hd p = newline"
  shows "finditer_go CMD_OUTPUT_METADATA_PS1_REGEX False p (prompt j @ r) =
    (prompt j, (rev (prompt j) @ p, r, [(1, j)]))
      # finditer_go CMD_OUTPUT_METADATA_PS1_REGEX False (rev (prompt j) @ p) r"
proof -
  have "length (prompt j) \<noteq> 0" by (simp add: prompt_def PS1_BEGIN_def)
  then show ?thesis by (subst finditer_go.simps) (simp add: search_prompt [OF assms])
qed

definition opens_line :: "string \<Rightarrow> bool" where
  "opens_line h \<longleftrightarrow> (h = [] \<or> last h = newline) \<and> \<not> contains h PS1_BEGIN"

lemma finditer_opened:
  assumes "opens_line h"
  shows "finditer_go CMD_OUTPUT_METADATA_PS1_REGEX False [] (h @ r) =
    finditer_go CMD_OUTPUT_METADATA_PS1_REGEX False (rev h) r"
proof (cases h rule: rev_cases)
  case (snoc b c)
  with assms have "c = newline" "\<not> contains b PS1_BEGIN"
    using contains_append1 by (auto simp: opens_line_def)
  with finditer_skip [of b "[]" r] snoc show ?thesis by simp
qed simp

lemma opened_line: "opens_line h \<Longrightarrow> rev h = [] \<or> hd (rev h) = newline"
  by (auto simp: opens_line_def hd_rev)

lemma one_prompt:
  assumes "opens_line h" and "one_block j" and "\<not> contains t PS1_BEGIN"
  shows "ps1_matches (h @ prompt j @ t) = [match_at (length h) j]"
  using finditer_quiet [OF assms(3)]
  by (simp add: ps1_matches_def finditer_def finditer_opened [OF assms(1)]
      finditer_prompt [OF assms(2) opened_line [OF assms(1)]] match_at_def grp_def group_def)

lemma two_prompts:
  assumes "opens_line h" and "one_block i" and "one_block j" and "\<not> contains (newline # b) PS1_BEGIN"
    and "\<not> contains t PS1_BEGIN"
  shows "ps1_matches (h @ prompt i @ newline # b @ newline # prompt j @ t) =
    [match_at (length h) i, match_at (length h + length (prompt i) + length b + 2) j]"
proof -
  have "finditer_go CMD_OUTPUT_METADATA_PS1_REGEX False (rev (prompt i) @ rev h) ((newline # b) @ newline # prompt j @ t)
      = finditer_go CMD_OUTPUT_METADATA_PS1_REGEX False (newline # rev (newline # b) @ rev (prompt i) @ rev h) (prompt j @ t)"
    by (rule finditer_skip [OF assms(4)])
  also have "\<dots> = [(prompt j, (rev (prompt j) @ newline # rev (newline # b) @ rev (prompt i) @ rev h, t, [(1, j)]))]"
    by (subst finditer_prompt [OF assms(3)]) (simp_all add: finditer_quiet [OF assms(5)])
  finally show ?thesis
    by (simp add: ps1_matches_def finditer_def finditer_opened [OF assms(1)]
        finditer_prompt [OF assms(2) opened_line [OF assms(1)]] match_at_def grp_def group_def)
qed

section \<open>The output between two prompts\<close>

definition blank :: "string \<Rightarrow> bool" where
  "blank s \<longleftrightarrow> list_all is_space s"

lemma lstrip_blank: "blank b \<Longrightarrow> lstrip (b @ s) = lstrip s"
  by (auto simp: blank_def lstrip_def list_all_iff dropWhile_append2)

lemma rstrip_blank: "blank b \<Longrightarrow> rstrip (s @ b) = rstrip s"
  using dropWhile_append2 [of "rev b" is_space "rev s"] by (simp add: blank_def rstrip_def list_all_iff)

lemma strip_blank: "blank a \<Longrightarrow> blank b \<Longrightarrow> strip (a @ s @ b) = strip s"
proof -
  assume a: "blank a" and b: "blank b"
  have "strip (a @ s @ b) = rstrip (lstrip (s @ b))" by (simp add: strip_def lstrip_blank [OF a])
  also have "\<dots> = rstrip (lstrip s)"
  proof (cases "blank s")
    case True
    with b have "lstrip (s @ b) = []" "lstrip s = []"
      by (auto simp: lstrip_def blank_def list_all_iff)
    then show ?thesis by simp
  next
    case False
    then obtain x where "x \<in> set s" "\<not> is_space x" by (auto simp: blank_def list_all_iff)
    then have "lstrip (s @ b) = lstrip s @ b" by (simp add: lstrip_def dropWhile_append1)
    with b show ?thesis by (simp add: rstrip_blank)
  qed
  finally show ?thesis by (simp add: strip_def)
qed

lemma blank_newline: "blank [newline]" "blank (newline # b) \<longleftrightarrow> blank b" "blank []" "blank b \<Longrightarrow> blank (drop n b)"
proof -
  have n: "is_space newline" by (simp add: is_space_def)
  then show "blank [newline]" "blank (newline # b) \<longleftrightarrow> blank b" "blank []" by (simp_all add: blank_def)
  show "blank b \<Longrightarrow> blank (drop n b)" by (auto simp: blank_def list_all_iff dest: in_set_dropD)
qed

lemma quiet_blank: "blank b \<Longrightarrow> \<not> contains b PS1_BEGIN"
proof
  assume b: "blank b" and "contains b PS1_BEGIN"
  then have "set PS1_BEGIN \<subseteq> set b" by (intro contains_set)
  moreover have "CHR ''#'' \<in> set PS1_BEGIN" by (simp add: PS1_BEGIN_def)
  ultimately have "CHR ''#'' \<in> set b" by (rule subsetD)
  with b have "is_space CHR ''#''" by (simp only: blank_def list_all_iff)
  then show False by (simp add: is_space_def)
qed

text \<open>A command as the polls have it: it begins with no white space.\<close>

definition trimmed :: "string \<Rightarrow> bool" where
  "trimmed c \<longleftrightarrow> c \<noteq> [] \<and> \<not> is_space (hd c)"

lemma trimmed_lstrip: "trimmed c \<Longrightarrow> lstrip (c @ s) = c @ s"
  by (cases c) (auto simp: trimmed_def lstrip_def)

lemma echoed_command_removed:
  assumes "trimmed c" and "blank b"
  shows "rstrip (remove_command_prefix (c @ newline # s @ b) c) = strip s"
proof -
  have "remove_command_prefix (c @ newline # s @ b) c = lstrip (newline # s @ b)"
    using trimmed_lstrip [OF assms(1), of "[]"] trimmed_lstrip [OF assms(1), of "newline # s @ b"]
    by (simp add: remove_command_prefix_def removeprefix_def)
  also have "rstrip \<dots> = strip ([newline] @ s @ b)" by (simp add: strip_def)
  finally show ?thesis using strip_blank [OF blank_newline(1) assms(2), of s] by simp
qed

lemma between_prompts:
  assumes "c = h @ prompt i @ newline # b @ newline # prompt j @ t"
  shows "combine_outputs_between_matches c
      [match_at (length h) i, match_at (length h + length (prompt i) + length b + 2) j] False =
    b @ newline # newline # drop 1 t"
proof -
  have "slice (Some (int (length h + length (prompt i)) + 1))
      (Some (int (length h + length (prompt i) + length b + 2))) c = b @ [newline]"
    by (simp add: assms slice_def slice_bound_def nat_add_distrib)
  moreover have "slice_from (int (length h + length (prompt i) + length b + 2 + length (prompt j)) + 1) c = drop 1 t"
  proof -
    have "c = (h @ prompt i @ newline # b @ newline # prompt j) @ t" by (simp add: assms)
    moreover have "nat (int (length h + length (prompt i) + length b + 2 + length (prompt j)) + 1) =
        length (h @ prompt i @ newline # b @ newline # prompt j) + 1"
      by simp
    ultimately show ?thesis by (simp only: slice_from_nonneg drop_append) simp
  qed
  ultimately show ?thesis by (simp add: combine_outputs_between_matches_def match_at_def add.assoc)
qed

section \<open>A command that has ended\<close>

text \<open>What the environment makes of the text in a prompt.\<close>

definition metadata_in :: "bash_env \<Rightarrow> string \<Rightarrow> cmd_metadata \<Rightarrow> bool" where
  "metadata_in env j md \<longleftrightarrow> json_loads (be_reader env) (strip j) \<noteq> None \<and>
     (\<forall>n. from_ps1_match env (match_at n j) = Inr md)"

definition cwd_after :: "cmd_metadata \<Rightarrow> string \<Rightarrow> string" where
  "cwd_after md cwd = (case md_working_dir md of Some d \<Rightarrow> if d \<noteq> [] then d else cwd | None \<Rightarrow> cwd)"

lemma completed_between_prompts:
  assumes "content = h @ prompt i @ newline # c @ newline # out @ newline # prompt j @ t"
    and "metadata_in env j md" and "trimmed c" and "blank t" and "bs_prev_output s = []"
  shows "\<exists>s'. handle_completed_command env po c content
      [match_at (length h) i, match_at (length h + length (prompt i) + length (c @ newline # out) + 2) j] hidden s =
    (Inr (CmdOutputObservation (new_cmd_output (strip out) c
        (Some (md\<lparr>md_suffix := completed_suffix c (md_exit_code md)\<rparr>)) hidden)), s') \<and>
    bs_prev_status s' = Some COMPLETED \<and> bs_prev_output s' = [] \<and> bs_cwd s' = cwd_after md (bs_cwd s)"
proof -
  define ms where "ms = [match_at (length h) i, match_at (length h + length (prompt i) + length (c @ newline # out) + 2) j]"
  have raw: "combine_outputs_between_matches content ms False = (c @ newline # out) @ newline # newline # drop 1 t"
    unfolding ms_def by (rule between_prompts) (simp add: assms(1))
  have "blank (newline # newline # drop 1 t)" using assms(4) by (simp add: blank_newline)
  from echoed_command_removed [OF assms(3) this, of out]
  have r: "rstrip (remove_command_prefix (combine_outputs_between_matches content ms False) c) = strip out"
    by (simp add: raw)
  have m: "ms \<noteq> []" "length ms \<noteq> Suc 0" "from_ps1_match env (last ms) = Inr md"
    using assms(2) by (simp_all add: metadata_in_def ms_def)
  define s0 where "s0 = (case md_working_dir md of
      Some d \<Rightarrow> if d \<noteq> bs_cwd s \<and> d \<noteq> [] then s\<lparr>bs_cwd := d\<rparr> else s | None \<Rightarrow> s)"
  have "bs_prev_output s0 = []" "bs_cwd s0 = cwd_after md (bs_cwd s)"
    using assms(5) by (simp_all add: s0_def cwd_after_def split: option.split)
  then show ?thesis
    unfolding ms_def [symmetric]
    by (simp add: handle_completed_command_def m s0_def [symmetric] Let_def r get_command_output_def
        clear_screen_keeps)
qed

text \<open>
  C37. When a poll finds the pane with the prompt from before the command, the echo of the command, its
  output and a new prompt, the command is reported as completed with exactly this output, stripped, with
  the exit code of the new prompt, and the session has the directory that the prompt names.
\<close>

theorem finished_command_is_reported:
  assumes "po_continue po (bs_pane s)" and "get_pane_content po s = (content, s1)"
    and "content = h @ prompt i @ newline # c @ newline # out @ newline # prompt j @ t"
    and "opens_line h" and "one_block i" and "one_block j" and "\<not> contains (newline # c @ newline # out) PS1_BEGIN"
    and "blank t" and "trimmed c" and "metadata_in env i md0" and "metadata_in env j md"
    and "pj_command job = c" and "pj_prompts job \<le> 1" and "bs_prev_output s = []"
  shows "\<exists>s'. poll_loop env po job changed last_content s =
    Some (Inr (CmdOutputObservation (new_cmd_output (strip out) c
        (Some (md\<lparr>md_suffix := completed_suffix c (md_exit_code md)\<rparr>)) (pj_hidden job))), s') \<and>
    bs_prev_status s' = Some COMPLETED \<and> bs_prev_output s' = [] \<and> bs_cwd s' = cwd_after md (bs_cwd s)"
proof -
  define ms where "ms = [match_at (length h) i, match_at (length h + length (prompt i) + length (c @ newline # out) + 2) j]"
  have "ps1_matches content = ms"
    using two_prompts [OF assms(4,5,6), of "c @ newline # out" t] assms(7) quiet_blank [OF assms(8)]
    by (simp add: assms(3) ms_def)
  then have ms: "matches_ps1_metadata env content = ms"
    using assms(10,11) by (simp add: matches_ps1_metadata_def metadata_in_def match_at_def ms_def)
  have two: "pj_prompts job < length ms" using assms(13) by (simp add: ms_def)
  obtain ch s2 where ch: "(if content \<noteq> last_content then read_clock po s1 else (changed, s1)) = (ch, s2)"
    by fastforce
  have s2: "bs_prev_output s2 = []" "bs_cwd s2 = bs_cwd s"
    using ch get_pane_content_keeps [OF assms(2)] assms(14) by (auto split: if_splits dest!: read_clock_keeps)
  from completed_between_prompts [OF assms(3,11,9,8) s2(1), of po "pj_hidden job"] obtain s' where
    s': "handle_completed_command env po c content ms (pj_hidden job) s2 =
      (Inr (CmdOutputObservation (new_cmd_output (strip out) c
        (Some (md\<lparr>md_suffix := completed_suffix c (md_exit_code md)\<rparr>)) (pj_hidden job))), s')"
      "bs_prev_status s' = Some COMPLETED" "bs_prev_output s' = []" "bs_cwd s' = cwd_after md (bs_cwd s2)"
    unfolding ms_def by blast
  have "poll_once env po job changed last_content s = (Inl (Inr (CmdOutputObservation (new_cmd_output (strip out) c
        (Some (md\<lparr>md_suffix := completed_suffix c (md_exit_code md)\<rparr>)) (pj_hidden job)))), s')"
    by (simp add: poll_once_def assms(2) ms ch two s'(1) assms(12))
  then have "poll_loop env po job changed last_content s = Some (Inr (CmdOutputObservation (new_cmd_output (strip out) c
        (Some (md\<lparr>md_suffix := completed_suffix c (md_exit_code md)\<rparr>)) (pj_hidden job))), s')"
    by (subst poll_loop.simps) (simp add: assms(1))
  with s' s2 show ?thesis by auto
qed

section \<open>The old prompt\<close>

lemma rstrip_ends: "\<not> is_space c \<Longrightarrow> rstrip (s @ [c]) = s @ [c]"
  by (simp add: rstrip_def)

lemma prompt_at_end:
  assumes "j = k @ [newline]" and "blank t"
  shows "at_prompt (h @ prompt j @ t)"
proof -
  obtain u c where u: "PS1_END = u @ [c]" "\<not> is_space c"
    by (rule that [of "butlast PS1_END" "last PS1_END"]) (simp_all add: PS1_END_def is_space_def)
  have "rstrip (h @ prompt j @ t) = rstrip ((h @ PS1_BEGIN @ j @ u) @ [c])"
    using rstrip_blank [OF assms(2), of "h @ prompt j"] by (simp add: prompt_def u(1))
  also have "\<dots> = h @ PS1_BEGIN @ k @ newline # PS1_END"
    using rstrip_ends [OF u(2), of "h @ PS1_BEGIN @ k @ newline # u"] by (simp add: assms(1) u(1))
  finally show ?thesis
    unfolding at_prompt_def ps1_markers endswith_iff by (intro exI [of _ "h @ PS1_BEGIN @ k"]) simp
qed

lemma completed_at_one_prompt:
  assumes "metadata_in env j md" and "bs_prev_output s = []"
  shows "\<exists>r s'. handle_completed_command env po c content [match_at n j] hidden s =
      (Inr (CmdOutputObservation r), s') \<and> cmd_exit_code r = md_exit_code md \<and> co_command r = c \<and>
      bs_prev_status s' = Some COMPLETED"
proof -
  have m: "from_ps1_match env (match_at n j) = Inr md" using assms(1) by (simp add: metadata_in_def)
  define s0 where "s0 = (case md_working_dir md of
      Some d \<Rightarrow> if d \<noteq> bs_cwd s \<and> d \<noteq> [] then s\<lparr>bs_cwd := d\<rparr> else s | None \<Rightarrow> s)"
  have "bs_prev_output s0 = []" using assms(2) by (simp add: s0_def split: option.split)
  then show ?thesis
    by (simp add: handle_completed_command_def m s0_def [symmetric] Let_def get_command_output_def
        clear_screen_keeps cmd_exit_code_def new_cmd_output_def)
qed

text \<open>
  A command whose echo the pane does not show yet at the first poll is reported as completed, with
  the exit code that the old prompt gave for the command before it: \<open>execute\<close> asks only that the pane ends
  with a prompt, not that anything has changed.
\<close>

theorem old_prompt_ends_new_command:
  assumes "bs_initialized s" and "bs_prev_status s \<in> {None, Some COMPLETED}" and "bs_prev_output s = []"
    and "strip (cr_command action) \<noteq> []" and "\<not> cr_is_input action"
    and "split_bash_commands env (strip (cr_command action)) = Inr [part]"
    and "escape_bash_special_chars env (strip (cr_command action)) = Inr sent"
    and "get_pane_content po s = (content, s1)" and "read_clock po s1 = (start, s2)"
    and "po_continue po (bs_pane s3)"
    and "s3 = on_pane (po_send po sent (\<not> is_special_key (strip (cr_command action)))) s2"
    and "get_pane_content po s3 = (content, s4)"
    and "content = h @ prompt j @ t" and "opens_line h" and "one_block j" and "j = k @ [newline]" and "blank t"
    and "metadata_in env j md"
  shows "\<exists>s' r. execute env po action timeout s = Some (Inr (CmdOutputObservation r), s') \<and>
    cmd_exit_code r = md_exit_code md \<and> co_command r = sent \<and> bs_prev_status s' = Some COMPLETED"
proof -
  have ms: "matches_ps1_metadata env content = [match_at (length h) j]"
    using one_prompt [OF assms(14,15) quiet_blank [OF assms(17)]] assms(18)
    by (simp add: matches_ps1_metadata_def assms(13) metadata_in_def match_at_def)
  have at: "at_prompt content" unfolding assms(13) by (rule prompt_at_end [OF assms(16,17)])
  have "bs_prev_output s4 = []"
    using get_pane_content_keeps [OF assms(8)] get_pane_content_keeps [OF assms(12)] read_clock_keeps [OF assms(9)]
      assms(3,11) by (simp add: on_pane_def)
  let ?job = "\<lparr>pj_hidden = cr_hidden action, pj_blocking = cr_blocking action, pj_timeout = timeout,
    pj_command = sent, pj_prompts = 1, pj_start = start\<rparr>"
  obtain r s' where r: "handle_completed_command env po sent content [match_at (length h) j] (cr_hidden action) s4 =
      (Inr (CmdOutputObservation r), s')" "cmd_exit_code r = md_exit_code md" "co_command r = sent"
      "bs_prev_status s' = Some COMPLETED"
    using completed_at_one_prompt [OF assms(18) \<open>bs_prev_output s4 = []\<close>] by blast
  have "poll_loop env po ?job start content s3 = Some (Inr (CmdOutputObservation r), s')"
    by (subst poll_loop.simps) (simp add: assms(10,12) poll_once_def ms at r(1))
  moreover have "execute env po action timeout s = poll_loop env po ?job start content s3"
    using assms(1,2,4-9,11) at
    by (auto simp: execute_def Let_def command_running_def ms send_command_def)
  ultimately show ?thesis using r by auto
qed

section \<open>The properties at work\<close>

definition ok_json :: string where
  \<open>ok_json = newline # ''{"exit_code": 0}'' @ [newline]\<close>

definition ok_prompt_lines :: "string list" where
  \<open>ok_prompt_lines = [PS1_BEGIN, ''{"exit_code": 0}'', PS1_END]\<close>

definition ok_metadata :: cmd_metadata where
  "ok_metadata = default_metadata\<lparr>md_exit_code := 0\<rparr>"

definition zero_env :: bash_env where
  "zero_env = quiet_env\<lparr>be_int_float := (\<lambda>s. if s = ''0'' then Inr 0 else Inl (ValueError s))\<rparr>"

definition shown_session :: "string list \<Rightarrow> still_pane bash_session" where
  "shown_session ls = (still_session None [])\<lparr>bs_pane := \<lparr>sp_lines = ls, sp_time = 0, sp_typed = []\<rparr>\<rparr>"

lemma ok_metadata_in: "metadata_in zero_env ok_json ok_metadata"
proof -
  have "from_ps1_match zero_env (match_at n ok_json) = from_ps1_match zero_env (match_at 0 ok_json)" for n
    by (simp add: from_ps1_match_def match_at_def cong: option.case_cong)
  moreover have "from_ps1_match zero_env (match_at 0 ok_json) = Inr ok_metadata"
    "json_loads (be_reader zero_env) (strip ok_json) \<noteq> None"
    by code_simp+
  ultimately show ?thesis by (simp add: metadata_in_def)
qed

lemma ok_one_block: "one_block ok_json" "opens_line []"
  by code_simp+

definition ls_job :: poll_job where
  "ls_job = \<lparr>pj_hidden = False, pj_blocking = False, pj_timeout = None, pj_command = ''ls'', pj_prompts = 1, pj_start = 0\<rparr>"

definition ls_lines :: "string list" where
  "ls_lines = ok_prompt_lines @ [''ls'', ''a.c''] @ ok_prompt_lines"

definition ls_content :: string where
  "ls_content = [] @ prompt ok_json @ newline # ''ls'' @ newline # ''a.c'' @ newline # prompt ok_json @ []"

theorem finished_command_is_reported_witness:
  "\<exists>r s'. poll_loop zero_env still_ops ls_job 0 [] (shown_session ls_lines) = Some (Inr (CmdOutputObservation r), s') \<and>
     co_content r = ''a.c'' \<and> cmd_exit_code r = 0 \<and> bs_prev_status s' = Some COMPLETED"
proof -
  let ?s = "shown_session ls_lines"
  have facts: "po_continue still_ops (bs_pane ?s)" "get_pane_content still_ops ?s = (ls_content, ?s)"
      "\<not> contains (newline # ''ls'' @ newline # ''a.c'') PS1_BEGIN" "blank []" "trimmed ''ls''"
      "pj_command ls_job = ''ls''" "pj_prompts ls_job \<le> 1" "bs_prev_output ?s = []"
    by code_simp+
  from finished_command_is_reported [OF facts(1,2) ls_content_def ok_one_block(2,1,1) facts(3,4,5) ok_metadata_in
      ok_metadata_in facts(6,7,8), of 0 "[]"] obtain s' where
    run: "poll_loop zero_env still_ops ls_job 0 [] ?s = Some (Inr (CmdOutputObservation (new_cmd_output (strip ''a.c'') ''ls''
        (Some (ok_metadata\<lparr>md_suffix := completed_suffix ''ls'' (md_exit_code ok_metadata)\<rparr>)) (pj_hidden ls_job))), s')"
      "bs_prev_status s' = Some COMPLETED"
    by blast
  have "co_content (new_cmd_output (strip ''a.c'') ''ls''
        (Some (ok_metadata\<lparr>md_suffix := completed_suffix ''ls'' (md_exit_code ok_metadata)\<rparr>)) (pj_hidden ls_job)) = ''a.c''"
    "cmd_exit_code (new_cmd_output (strip ''a.c'') ''ls''
        (Some (ok_metadata\<lparr>md_suffix := completed_suffix ''ls'' (md_exit_code ok_metadata)\<rparr>)) (pj_hidden ls_job)) = 0"
    by code_simp+
  with run show ?thesis by blast
qed

definition prompt_content :: string where
  "prompt_content = [] @ prompt ok_json @ []"

theorem old_prompt_ends_new_command_witness:
  "\<exists>s' r. execute zero_env still_ops (typed_command ''make'') None (shown_session ok_prompt_lines) =
     Some (Inr (CmdOutputObservation r), s') \<and> cmd_exit_code r = 0 \<and> co_command r = ''make''"
proof -
  let ?s = "shown_session ok_prompt_lines" and ?a = "typed_command ''make''"
  have facts: "bs_initialized ?s" "bs_prev_status ?s \<in> {None, Some COMPLETED}" "bs_prev_output ?s = []"
      "strip (cr_command ?a) \<noteq> []" "\<not> cr_is_input ?a"
      "split_bash_commands zero_env (strip (cr_command ?a)) = Inr [''make'']"
      "escape_bash_special_chars zero_env (strip (cr_command ?a)) = Inr ''make''"
      "get_pane_content still_ops ?s = (prompt_content, ?s)" "read_clock still_ops ?s = (0, ?s)"
    by code_simp+
  define s3 where "s3 = on_pane (po_send still_ops ''make'' (\<not> is_special_key (strip (cr_command ?a)))) ?s"
  have sent: "po_continue still_ops (bs_pane s3)" "get_pane_content still_ops s3 = (prompt_content, s3)"
    unfolding s3_def by code_simp+
  have j: "ok_json = butlast ok_json @ [newline]" "blank []" by code_simp+
  from old_prompt_ends_new_command [OF facts sent(1) s3_def sent(2) prompt_content_def ok_one_block(2,1) j ok_metadata_in,
      of None]
  show ?thesis by (auto simp: ok_metadata_def)
qed

end
