(* ===== verification/Bash_Parsing_Correct.thy ===== *)
theory Bash_Parsing_Correct
  imports Bash_Session
begin

text \<open>
  The two functions that read a command by the syntax tree of \<open>bashlex\<close>: when the positions in the tree
  are in order, splitting into commands loses white space only, and escaping adds backslashes only. A here
  document that ends after its redirection is copied twice.
\<close>

section \<open>Pieces of a text\<close>

text \<open>What is compared: the characters of some kind.\<close>

abbreviation inked :: "string \<Rightarrow> string" where
  "inked s \<equiv> filter (\<lambda>c. \<not> is_space c) s"

abbreviation plain :: "string \<Rightarrow> string" where
  "plain s \<equiv> filter (\<lambda>c. c \<noteq> CHR 0x5C) s"

lemma inked_dropWhile: "inked (dropWhile is_space s) = inked s"
  by (induction s) auto

lemma inked_rstrip: "inked (rstrip s) = inked s"
  by (simp add: rstrip_def rev_filter [symmetric] inked_dropWhile)

lemma inked_strip: "inked (strip s) = inked s"
  by (simp add: strip_def lstrip_def inked_rstrip inked_dropWhile)

lemma slice_nat: "0 \<le> i \<Longrightarrow> i \<le> j \<Longrightarrow> j \<le> int (length s) \<Longrightarrow>
    slice (Some i) (Some j) s = drop (nat i) (take (nat j) s)"
  by (simp add: slice_def slice_bound_def Let_def drop_take)

lemma slices_meet:
  assumes "0 \<le> i" and "i \<le> j" and "j \<le> k" and "k \<le> int (length s)"
  shows "slice (Some i) (Some j) s @ slice (Some j) (Some k) s = slice (Some i) (Some k) s"
proof -
  have "nat i \<le> nat j" "nat j \<le> nat k" using assms by simp_all
  then have "drop (nat i) (take (nat j) s) @ drop (nat j) (take (nat k) s) = drop (nat i) (take (nat k) s)"
    using take_add [of "nat j - nat i" "nat k - nat j" "drop (nat i) s"] by (simp add: drop_take)
  with assms show ?thesis by (simp add: slice_nat)
qed

lemma slice_rest:
  assumes "0 \<le> i" and "i \<le> int (length s)"
  shows "slice (Some 0) (Some i) s @ slice_from i s = s"
  using assms by (simp add: slice_nat slice_from_nonneg)

lemma slice_empty: "0 \<le> i \<Longrightarrow> i \<le> int (length s) \<Longrightarrow> slice (Some i) (Some i) s = []"
  by (simp add: slice_nat)

section \<open>Splitting into commands\<close>

fun in_order :: "int \<Rightarrow> int \<Rightarrow> bash_node list \<Rightarrow> bool" where
  "in_order len pos [] \<longleftrightarrow> pos \<le> len"
| "in_order len pos (n # ns) \<longleftrightarrow> pos \<le> bn_start n \<and> bn_start n \<le> bn_end n \<and> in_order len (bn_end n) ns"

lemma in_order_le: "in_order len pos ns \<Longrightarrow> pos \<le> len"
  by (induction ns arbitrary: pos) (auto intro: order_trans)

lemma concat_add_to_last: "xs \<noteq> [] \<Longrightarrow> concat (add_to_last xs s) = concat xs @ s"
  by (simp add: add_to_last_def) (metis append.assoc append_butlast_last_id concat.simps concat_append append_Nil2)

lemma split_nodes_inked:
  assumes "in_order (int (length s)) pos ns" and "0 \<le> pos" and "inked (concat result) = inked (slice (Some 0) (Some pos) s)"
    and "split_nodes s ns pos result = (last_end, result')"
  shows "inked (concat result') = inked (slice (Some 0) (Some last_end) s) \<and> 0 \<le> last_end \<and> last_end \<le> int (length s)"
  using assms
proof (induction ns arbitrary: pos result)
  case Nil
  then show ?case by simp
next
  case (Cons n ns)
  let ?a = "bn_start n" and ?b = "bn_end n"
  have pos: "pos \<le> ?a" "?a \<le> ?b" "?b \<le> int (length s)" "0 \<le> pos"
    using Cons.prems(1,2) in_order_le by auto
  define between where "between = slice (Some pos) (Some ?a) s"
  define r where "r = (if pos < ?a then
      if result \<noteq> [] then add_to_last result (rstrip between)
      else if strip between \<noteq> [] then [rstrip between] else []
    else result)"
  have gap: "inked (concat r) = inked (concat result) @ inked between"
  proof (cases "pos < ?a")
    case True
    consider "result \<noteq> []" | "result = []" "strip between \<noteq> []" | "result = []" "strip between = []" by blast
    then show ?thesis
    proof cases
      case 1
      with True show ?thesis by (simp add: r_def concat_add_to_last inked_rstrip)
    next
      case 2
      with True show ?thesis by (simp add: r_def inked_rstrip)
    next
      case 3
      with True show ?thesis using inked_strip [of between] by (simp add: r_def)
    qed
  next
    case False
    with pos show ?thesis by (simp add: r_def between_def slice_empty)
  qed
  have "inked (concat (r @ [rstrip (slice (Some ?a) (Some ?b) s)])) =
      inked (slice (Some 0) (Some pos) s @ between @ slice (Some ?a) (Some ?b) s)"
    by (simp add: gap inked_rstrip Cons.prems(3))
  also have "\<dots> = inked (slice (Some 0) (Some ?b) s)"
    using pos by (simp add: between_def slices_meet)
  finally have "inked (concat (r @ [rstrip (slice (Some ?a) (Some ?b) s)])) = inked (slice (Some 0) (Some ?b) s)" .
  moreover have "split_nodes s ns ?b (r @ [rstrip (slice (Some ?a) (Some ?b) s)]) = (last_end, result')"
    using Cons.prems(4) by (simp only: split_nodes.simps Let_def r_def between_def)
  moreover have "in_order (int (length s)) ?b ns" "0 \<le> ?b" using Cons.prems(1) pos by simp_all
  ultimately show ?case by (intro Cons.IH)
qed

text \<open>
  C40. Splitting a text into commands loses nothing but white space: whatever \<open>bashlex\<close> makes of the text, if
  the positions of its nodes are in order, the commands together have the characters of the text.
\<close>

theorem split_loses_white_space_only:
  assumes "split_bash_commands env commands = Inr parts"
    and "\<And>nodes. be_parse env commands = Inr nodes \<Longrightarrow> in_order (int (length commands)) 0 nodes"
  shows "inked (concat parts) = inked commands"
proof (cases "strip commands = []")
  case True
  with assms(1) inked_strip [of commands] show ?thesis by (auto simp: split_bash_commands_def)
next
  case False
  show ?thesis
  proof (cases "be_parse env commands")
    case (Inl e)
    with False assms(1) show ?thesis by (auto simp: split_bash_commands_def split: if_splits)
  next
    case (Inr nodes)
    obtain last_end result where r: "split_nodes commands nodes 0 [] = (last_end, result)" by fastforce
    have inv: "inked (concat result) = inked (slice (Some 0) (Some last_end) commands)" "0 \<le> last_end"
        "last_end \<le> int (length commands)"
      using split_nodes_inked [OF assms(2) [OF Inr] _ _ r] by (simp_all add: slice_empty)
    define rest where "rest = rstrip (slice_from last_end commands)"
    have "inked (concat result @ rest) = inked commands"
      using slice_rest [OF inv(2,3)] inv(1) by (simp add: rest_def inked_rstrip filter_append [symmetric])
    moreover have "rest = []" if "\<not> last_end < int (length commands)"
      using that inv by (simp add: rest_def slice_from_nonneg rstrip_def)
    moreover have "parts = (if last_end < int (length commands) \<and> result \<noteq> [] then add_to_last result rest
        else if last_end < int (length commands) \<and> rest \<noteq> [] then result @ [rest] else result)"
      using assms(1) False Inr r by (auto simp: split_bash_commands_def Let_def rest_def)
    ultimately show ?thesis by (auto simp: concat_add_to_last)
  qed
qed

section \<open>Escaping\<close>

lemma plain_escape_special: "plain (escape_special s) = plain s"
  by (induction s rule: escape_special.induct) auto

text \<open>The position after a node, or none when the positions in it are not in order.\<close>

fun span :: "bash_node \<Rightarrow> int \<Rightarrow> int option"
and spans :: "bash_node list \<Rightarrow> int \<Rightarrow> int option" where
  "span (BashNode kind a b heredoc parts) pos =
     (if kind = ''redirect'' \<and> heredoc \<noteq> None then
        case heredoc of Some (h, k) \<Rightarrow> if pos \<le> a \<and> a \<le> h \<and> h \<le> k \<and> k = b then Some b else None
      else if kind = ''word'' then if pos \<le> a \<and> a \<le> b then Some b else None
      else spans parts pos)"
| "spans [] pos = Some pos"
| "spans (n # ns) pos = Option.bind (span n pos) (spans ns)"

fun top_spans :: "bash_node list \<Rightarrow> int \<Rightarrow> int option" where
  "top_spans [] pos = Some pos"
| "top_spans (n # ns) pos = (if pos \<le> bn_start n then Option.bind (span n (bn_start n)) (top_spans ns) else None)"

lemma span_le:
  "span n pos = Some q \<Longrightarrow> pos \<le> q"
  "spans ns pos = Some q \<Longrightarrow> pos \<le> q"
proof (induction n pos and ns pos arbitrary: q and q rule: span_spans.induct)
  case (1 kind a b heredoc parts pos)
  then show ?case by (auto split: if_splits option.splits)
next
  case (3 n ns pos)
  from "3.prems" obtain p where "span n pos = Some p" "spans ns p = Some q" by (cases "span n pos") auto
  with "3.IH" show ?case by force
qed simp

lemma top_spans_le: "top_spans ns pos = Some q \<Longrightarrow> pos \<le> q"
proof (induction ns arbitrary: pos)
  case (Cons n ns)
  then obtain p where "pos \<le> bn_start n" "span n (bn_start n) = Some p" "top_spans ns p = Some q"
    by (cases "span n (bn_start n)") (auto split: if_splits)
  with Cons.IH [of p] span_le(1) [of n "bn_start n" p] show ?case by simp
qed simp

text \<open>The text so far has the plain characters of the command up to the position.\<close>

definition copied :: "string \<Rightarrow> string \<times> int \<Rightarrow> bool" where
  "copied s st \<longleftrightarrow> 0 \<le> snd st \<and> plain (fst st) = plain (slice (Some 0) (Some (snd st)) s)"

lemma copied_on:
  assumes "copied s (acc, pos)" and "plain t = plain (slice (Some pos) (Some q) s)" and "pos \<le> q"
    and "q \<le> int (length s)"
  shows "copied s (acc @ t, q)"
proof -
  have "slice (Some 0) (Some pos) s @ slice (Some pos) (Some q) s = slice (Some 0) (Some q) s"
    using assms by (intro slices_meet) (simp_all add: copied_def)
  with assms show ?thesis by (simp add: copied_def filter_append [symmetric])
qed

lemma visit_copies:
  "copied s st \<Longrightarrow> span n (snd st) = Some q \<Longrightarrow> q \<le> int (length s) \<Longrightarrow>
    copied s (visit_node s n st) \<and> snd (visit_node s n st) = q"
  "copied s st \<Longrightarrow> spans ns (snd st) = Some q \<Longrightarrow> q \<le> int (length s) \<Longrightarrow>
    copied s (visit_nodes s ns st) \<and> snd (visit_nodes s ns st) = q"
proof (induction s n st and s ns st arbitrary: q and q rule: visit_node_visit_nodes.induct)
  case (1 command kind a b heredoc parts acc last_pos)
  have pos: "0 \<le> last_pos" using "1.prems"(1) by (simp add: copied_def)
  consider h k where "kind = ''redirect''" "heredoc = Some (h, k)"
    | "\<not> (kind = ''redirect'' \<and> heredoc \<noteq> None)" "kind = ''word''"
    | "\<not> (kind = ''redirect'' \<and> heredoc \<noteq> None)" "kind \<noteq> ''word''"
    by (cases heredoc) auto
  then show ?case
  proof cases
    case 1
    with "1.prems"(2) have o: "last_pos \<le> a" "a \<le> h" "h \<le> k" "k = b" "q = b" by (auto split: if_splits)
    have "slice (Some last_pos) (Some a) command @ slice (Some a) (Some h) command @ slice (Some h) (Some k) command =
        slice (Some last_pos) (Some q) command"
      using o pos "1.prems"(3) by (simp add: slices_meet)
    then have "plain (slice (Some last_pos) (Some a) command @ slice (Some a) (Some h) command
        @ slice (Some h) (Some k) command) = plain (slice (Some last_pos) (Some q) command)" by (rule arg_cong)
    from copied_on [OF "1.prems"(1) this _ "1.prems"(3)] o 1 show ?thesis by simp
  next
    case 2
    with "1.prems"(2) have o: "last_pos \<le> a" "a \<le> b" "q = b" by (auto split: if_splits)
    let ?w = "slice (Some a) (Some b) command"
    have "slice (Some last_pos) (Some a) command @ ?w = slice (Some last_pos) (Some q) command"
      using o pos "1.prems"(3) by (simp add: slices_meet)
    then have "plain (slice (Some last_pos) (Some a) command) @ plain ?w = plain (slice (Some last_pos) (Some q) command)"
      using filter_append by metis
    then have "plain (escape_special (slice (Some last_pos) (Some a) command)
        @ (if quoted_word ?w then ?w else escape_special ?w)) = plain (slice (Some last_pos) (Some q) command)"
      by (cases "quoted_word ?w") (simp_all add: plain_escape_special)
    from copied_on [OF "1.prems"(1) this _ "1.prems"(3)] o 2 show ?thesis by (simp add: Let_def)
  next
    case 3
    then have kind: "(kind = ''redirect'' \<and> heredoc \<noteq> None) = False" "(kind = ''word'') = False" by simp_all
    have "spans parts (snd (acc, last_pos)) = Some q"
      using "1.prems"(2) by (simp only: span.simps kind if_False snd_conv)
    from "1.IH" [OF 3 "1.prems"(1) this "1.prems"(3)] show ?thesis
      by (simp only: visit_node.simps kind if_False)
  qed
next
  case (2 command st)
  then show ?case by simp
next
  case (3 command n ns st)
  from "3.prems"(2) obtain p where p: "span n (snd st) = Some p" "spans ns p = Some q"
    by (cases "span n (snd st)") auto
  then have "p \<le> int (length command)" using span_le(2) "3.prems"(3) by force
  with "3.IH" "3.prems" p show ?case by simp
qed

lemma escape_nodes_copies:
  assumes "copied s st" and "top_spans ns (snd st) = Some q" and "q \<le> int (length s)"
  shows "copied s (escape_nodes s ns st) \<and> snd (escape_nodes s ns st) = q"
  using assms
proof (induction ns arbitrary: st)
  case Nil
  then show ?case by simp
next
  case (Cons n ns)
  obtain acc pos where st: "st = (acc, pos)" by fastforce
  with Cons.prems(2) obtain p where p: "pos \<le> bn_start n" "span n (bn_start n) = Some p" "top_spans ns p = Some q"
    by (cases "span n (bn_start n)") (auto split: if_splits)
  have le: "p \<le> int (length s)" "bn_start n \<le> p"
    using top_spans_le [OF p(3)] span_le(1) [OF p(2)] Cons.prems(3) by auto
  have "copied s (acc @ escape_special (slice (Some pos) (Some (bn_start n)) s), bn_start n)"
    using Cons.prems(1) st p(1) le by (intro copied_on [of s acc pos]) (simp_all add: plain_escape_special)
  from visit_copies(1) [OF this, of n p] p(2) le(1)
  have "copied s (visit_node s n (acc @ escape_special (slice (Some pos) (Some (bn_start n)) s), bn_start n)) \<and>
    snd (visit_node s n (acc @ escape_special (slice (Some pos) (Some (bn_start n)) s), bn_start n)) = p" by simp
  with Cons.IH [OF _ _ Cons.prems(3)] p(3) st show ?case by simp
qed

text \<open>
  Escaping a command adds nothing to it and takes nothing from it but backslashes, when the positions
  in the tree are in order and each here document ends where its redirection ends.
\<close>

theorem escaping_changes_backslashes_only:
  assumes "escape_bash_special_chars env command = Inr sent" and "strip command \<noteq> []"
    and "\<And>nodes. be_parse env command = Inr nodes \<Longrightarrow>
      \<exists>q. top_spans nodes 0 = Some q \<and> q \<le> int (length command)"
  shows "plain sent = plain command"
proof (cases "be_parse env command")
  case (Inl e)
  with assms(1,2) show ?thesis by (simp add: escape_bash_special_chars_def split: if_splits)
next
  case (Inr nodes)
  from assms(3) [OF this] obtain q where q: "top_spans nodes 0 = Some q" "q \<le> int (length command)" by blast
  obtain acc pos where st: "escape_nodes command nodes ([], 0) = (acc, pos)" by fastforce
  have "copied command ([], 0)" by (simp add: copied_def slice_empty)
  from escape_nodes_copies [OF this, of nodes q] q have "copied command (escape_nodes command nodes ([], 0))"
    "snd (escape_nodes command nodes ([], 0)) = q" by simp_all
  then have "copied command (acc, pos)" "pos = q" by (simp_all add: st)
  then have "plain (acc @ slice_from pos command) = plain (slice (Some 0) (Some pos) command @ slice_from pos command)"
    by (simp add: copied_def)
  also have "\<dots> = plain command"
  proof -
    have "slice (Some 0) (Some pos) command @ slice_from pos command = command"
      using \<open>copied command (acc, pos)\<close> \<open>pos = q\<close> q(2) by (intro slice_rest) (simp_all add: copied_def)
    then show ?thesis by (rule arg_cong)
  qed
  finally show ?thesis using assms(1,2) Inr st by (auto simp: escape_bash_special_chars_def)
qed

section \<open>A here document with more on its first line\<close>

lemma escape_special_plain: "CHR 0x5C \<notin> set s \<Longrightarrow> escape_special s = s"
  by (induction s rule: escape_special.induct) auto

lemma escape_slice: "CHR 0x5C \<notin> set s \<Longrightarrow> escape_special (slice i j s) = slice i j s"
  using escape_special_plain set_slice by (metis subsetD)

text \<open>The tree of a pipeline of two words where the first command reads a here document.\<close>

definition heredoc_pipeline :: "int \<Rightarrow> int \<Rightarrow> int \<Rightarrow> int \<Rightarrow> int \<Rightarrow> int \<Rightarrow> int \<Rightarrow> int \<Rightarrow> int \<Rightarrow> bash_node" where
  "heredoc_pipeline w a b p p' c e h k =
     BashNode ''pipeline'' 0 e None
       [BashNode ''command'' 0 b None [BashNode ''word'' 0 w None [], BashNode ''redirect'' a b (Some (h, k)) []],
        BashNode ''pipe'' p p' None [],
        BashNode ''command'' c e None [BashNode ''word'' c e None []]]"

text \<open>
  A here document that does not start right after its redirection, as in \<open>cat <<E | wc\<close> and its lines,
  is sent to the shell twice: the text after the redirection, with the document, is copied a second time.
\<close>

theorem here_document_is_sent_twice:
  assumes "be_parse env command = Inr [heredoc_pipeline w a b p p' c e h k]"
    and "0 \<le> w" and "w \<le> a" and "a \<le> b" and "b \<le> c" and "c \<le> e" and "e \<le> h" and "h \<le> k"
    and "k \<le> int (length command)" and "CHR 0x5C \<notin> set command" and "strip command \<noteq> []"
  shows "escape_bash_special_chars env command = Inr (take (nat k) command @ drop (nat b) command)"
proof -
  let ?s = "\<lambda>i j. slice (Some i) (Some j) command"
  have first_copy: "?s 0 w @ ?s w a @ ?s a h @ ?s h k = take (nat k) command"
    using assms(2-9) by (simp add: slices_meet slice_nat [of 0 k])
  have second_copy: "?s b c @ ?s c e @ slice_from e command = drop (nat b) command"
  proof -
    have "?s b c @ ?s c e = ?s b e" using assms(2-9) by (simp add: slices_meet)
    moreover have "?s b e @ slice_from e command = drop (nat b) command"
    proof -
      have "drop (nat b) (take (nat e) command @ drop (nat e) command) =
          drop (nat b) (take (nat e) command) @ drop (nat e) command"
        using assms(2-9) by (simp only: drop_append) (simp add: nat_le_iff)
      then show ?thesis using assms(2-9) by (simp add: slice_nat slice_from_nonneg)
    qed
    ultimately show ?thesis by (metis append.assoc)
  qed
  have "escape_nodes command [heredoc_pipeline w a b p p' c e h k] ([], 0) =
      (?s 0 w @ ?s w a @ ?s a h @ ?s h k @ ?s b c @ ?s c e, e)"
    using assms(2-9)
    by (simp add: heredoc_pipeline_def escape_slice [OF assms(10)] slice_empty Let_def)
  then show ?thesis
    using assms(1,11) first_copy second_copy by (simp add: escape_bash_special_chars_def)
qed

section \<open>The properties at work\<close>

text \<open>An environment that parses one text, and the three texts.\<close>

definition parsing_env :: "string \<Rightarrow> bash_node list \<Rightarrow> bash_env" where
  "parsing_env t nodes = \<lparr>be_reader = \<lparr>jr_float = (\<lambda>_. 0), jr_wide = (\<lambda>_. [])\<rparr>,
     be_int_float = (\<lambda>s. Inl (ValueError s)), be_float_text = (\<lambda>_. []),
     be_parse = (\<lambda>s. if s = t then Inr nodes else Inl (OtherException ''ParsingError'' s))\<rparr>"

definition two_lines :: string where
  "two_lines = ''ls -l '' @ newline # ''pwd''"

definition two_lines_tree :: "bash_node list" where
  "two_lines_tree =
     [BashNode ''command'' 0 5 None [BashNode ''word'' 0 2 None [], BashNode ''word'' 3 5 None []],
      BashNode ''command'' 7 10 None [BashNode ''word'' 7 10 None []]]"

theorem split_loses_white_space_only_witness:
  "split_bash_commands (parsing_env two_lines two_lines_tree) two_lines = Inr [''ls -l'', ''pwd''] \<and>
   inked (concat [''ls -l'', ''pwd'']) = inked two_lines"
proof
  show split: "split_bash_commands (parsing_env two_lines two_lines_tree) two_lines = Inr [''ls -l'', ''pwd'']"
    by code_simp
  have "nodes = two_lines_tree" if "be_parse (parsing_env two_lines two_lines_tree) two_lines = Inr nodes" for nodes
    using that by (simp add: parsing_env_def)
  moreover have "in_order (int (length two_lines)) 0 two_lines_tree" by code_simp
  ultimately show "inked (concat [''ls -l'', ''pwd'']) = inked two_lines"
    by (intro split_loses_white_space_only [OF split]) simp
qed

definition find_exec :: string where
  "find_exec = ''ls '' @ [CHR 0x5C, CHR '';'']"

definition find_exec_tree :: "bash_node list" where
  "find_exec_tree = [BashNode ''command'' 0 5 None [BashNode ''word'' 0 2 None [], BashNode ''word'' 3 5 None []]]"

theorem escaping_changes_backslashes_only_witness:
  "escape_bash_special_chars (parsing_env find_exec find_exec_tree) find_exec =
     Inr (''ls '' @ [CHR 0x5C, CHR 0x5C, CHR '';'']) \<and>
   plain (''ls '' @ [CHR 0x5C, CHR 0x5C, CHR '';'']) = plain find_exec"
proof
  show sent: "escape_bash_special_chars (parsing_env find_exec find_exec_tree) find_exec =
      Inr (''ls '' @ [CHR 0x5C, CHR 0x5C, CHR '';''])"
    by code_simp
  have "strip find_exec \<noteq> []" by code_simp
  moreover have "nodes = find_exec_tree" if "be_parse (parsing_env find_exec find_exec_tree) find_exec = Inr nodes" for nodes
    using that by (simp add: parsing_env_def)
  moreover have "top_spans find_exec_tree 0 = Some 5" "5 \<le> int (length find_exec)" by code_simp+
  ultimately show "plain (''ls '' @ [CHR 0x5C, CHR 0x5C, CHR '';'']) = plain find_exec"
    by (intro escaping_changes_backslashes_only [OF sent]) auto
qed

definition counted_document :: string where
  "counted_document = ''cat <<E | wc'' @ newline # ''x'' @ newline # ''E''"

definition counted_document_tree :: bash_node where
  "counted_document_tree = heredoc_pipeline 3 4 7 8 9 10 12 13 16"

theorem here_document_is_sent_twice_witness:
  "escape_bash_special_chars (parsing_env counted_document [counted_document_tree]) counted_document =
     Inr (counted_document @ '' | wc'' @ newline # ''x'' @ newline # ''E'')"
proof -
  have "be_parse (parsing_env counted_document [counted_document_tree]) counted_document =
      Inr [heredoc_pipeline 3 4 7 8 9 10 12 13 16]"
    by (simp add: parsing_env_def counted_document_tree_def)
  moreover have "strip counted_document \<noteq> []" by code_simp
  moreover have "16 \<le> int (length counted_document)" "CHR 0x5C \<notin> set counted_document"
    by (simp_all add: counted_document_def)
  moreover have "take (nat 16) counted_document @ drop (nat 7) counted_document =
      counted_document @ '' | wc'' @ newline # ''x'' @ newline # ''E''"
    by (simp add: counted_document_def)
  ultimately show ?thesis
    using here_document_is_sent_twice [of "parsing_env counted_document [counted_document_tree]" counted_document
        3 4 7 8 9 10 12 13 16] by simp
qed

end
