(* ===== verification/LLM_Features.thy ===== *)
theory LLM_Features
  imports Py_Objects
begin

text \<open>
  \<open>llm/model_features.py\<close> and the fields of \<open>core/config/llm_config.py\<close>: what a model supports, by its name,
  and the configuration of an LLM. The patterns of the tables have no bracket, so \<open>fnmatch\<close> is modelled
  for \<open>*\<close> and \<open>?\<close>. A secret is its value.
\<close>

section \<open>Names of models\<close>

definition normalize_model_name :: "string \<Rightarrow> string" where
  "normalize_model_name model =
     (let raw = lower (strip model);
          name = (if CHR ''/'' \<in> set raw then
              let n = last (split_on ''/'' raw) in if CHR '':'' \<in> set n then hd (split_on '':'' n) else n
            else raw)
      in removesuffix name ''-gguf'')"

fun fnmatch :: "string \<Rightarrow> string \<Rightarrow> bool" where
  "fnmatch s [] = (s = [])"
| "fnmatch s (c # p) =
     (if c = CHR ''*'' then fnmatch s p \<or> (case s of [] \<Rightarrow> False | x # s \<Rightarrow> fnmatch s (c # p))
      else (case s of [] \<Rightarrow> False | x # s \<Rightarrow> (c = x \<or> c = CHR ''?'') \<and> fnmatch s p))"

definition model_matches :: "string \<Rightarrow> string list \<Rightarrow> bool" where
  "model_matches model patterns =
     list_ex (\<lambda>pat.
       let pat = lower pat in
       if CHR ''/'' \<in> set pat then fnmatch (lower (strip model)) pat
       else fnmatch (normalize_model_name model) pat) patterns"

section \<open>The tables\<close>

definition FUNCTION_CALLING_PATTERNS :: "string list" where
  "FUNCTION_CALLING_PATTERNS =
     [''claude-3-7-sonnet*'', ''claude-3.7-sonnet*'', ''claude-sonnet-3-7-latest'', ''claude-3-5-sonnet*'',
      ''claude-3.5-sonnet*'', ''claude-3.5-haiku*'', ''claude-3-5-haiku*'', ''claude-sonnet-4*'', ''claude-opus-4*'',
      ''gpt-4o*'', ''gpt-4.1'', ''gpt-5*'', ''o1-2024-12-17'', ''o3*'', ''o4-mini*'', ''gemini-2.5-pro*'',
      ''kimi-k2-0711-preview'', ''kimi-k2-instruct'', ''qwen3-coder*'', ''qwen3-coder-480b-a35b-instruct'',
      ''deepseek-chat'']"

definition REASONING_EFFORT_PATTERNS :: "string list" where
  "REASONING_EFFORT_PATTERNS =
     [''o1-2024-12-17'', ''o1'', ''o3'', ''o3-2025-04-16'', ''o3-mini-2025-01-31'', ''o3-mini'', ''o4-mini'',
      ''o4-mini-2025-04-16'', ''gemini-2.5-flash'', ''gemini-2.5-pro'', ''gpt-5*'', ''deepseek-r1-0528*'',
      ''claude-sonnet-4-5*'', ''claude-haiku-4-5*'']"

definition PROMPT_CACHE_PATTERNS :: "string list" where
  "PROMPT_CACHE_PATTERNS =
     [''claude-3-7-sonnet*'', ''claude-3.7-sonnet*'', ''claude-sonnet-3-7-latest'', ''claude-3-5-sonnet*'',
      ''claude-3-5-haiku*'', ''claude-3.5-haiku*'', ''claude-3-haiku-20240307'', ''claude-3-opus-20240229'',
      ''claude-sonnet-4*'', ''claude-opus-4*'']"

definition SUPPORTS_STOP_WORDS_FALSE_PATTERNS :: "string list" where
  "SUPPORTS_STOP_WORDS_FALSE_PATTERNS = [''o1*'', ''grok-4-0709'', ''grok-code-fast-1'', ''deepseek-r1-0528*'']"

record ModelFeatures =
  supports_function_calling :: bool
  supports_reasoning_effort :: bool
  supports_prompt_cache :: bool
  supports_stop_words :: bool

definition get_features :: "string \<Rightarrow> ModelFeatures" where
  "get_features model =
     \<lparr>supports_function_calling = model_matches model FUNCTION_CALLING_PATTERNS,
      supports_reasoning_effort = model_matches model REASONING_EFFORT_PATTERNS,
      supports_prompt_cache = model_matches model PROMPT_CACHE_PATTERNS,
      supports_stop_words = (\<not> model_matches model SUPPORTS_STOP_WORDS_FALSE_PATTERNS)\<rparr>"

section \<open>The configuration\<close>

record llm_config =
  lc_model :: string
  lc_api_key :: "string option"
  lc_base_url :: "string option"
  lc_api_version :: "string option"
  lc_aws_access_key_id :: "string option"
  lc_aws_secret_access_key :: "string option"
  lc_aws_region_name :: "string option"
  lc_num_retries :: int
  lc_timeout :: "int option"
  lc_temperature :: rat
  lc_top_p :: rat
  lc_top_k :: "rat option"
  lc_custom_llm_provider :: "string option"
  lc_max_input_tokens :: "int option"
  lc_max_output_tokens :: "int option"
  lc_input_cost_per_token :: "rat option"
  lc_output_cost_per_token :: "rat option"
  lc_drop_params :: bool
  lc_modify_params :: bool
  lc_disable_vision :: "bool option"
  lc_disable_stop_word :: "bool option"
  lc_caching_prompt :: bool
  lc_native_tool_calling :: "bool option"
  lc_reasoning_effort :: "string option"
  lc_seed :: "int option"
  lc_safety_settings :: "json list option"
  lc_completion_kwargs :: "dict option"

definition default_llm_config :: llm_config where
  "default_llm_config = \<lparr>lc_model = ''claude-sonnet-4-20250514'', lc_api_key = None, lc_base_url = None,
     lc_api_version = None, lc_aws_access_key_id = None, lc_aws_secret_access_key = None, lc_aws_region_name = None,
     lc_num_retries = 5, lc_timeout = None, lc_temperature = 0, lc_top_p = 1, lc_top_k = None,
     lc_custom_llm_provider = None, lc_max_input_tokens = None, lc_max_output_tokens = None,
     lc_input_cost_per_token = None, lc_output_cost_per_token = None, lc_drop_params = True, lc_modify_params = True,
     lc_disable_vision = None, lc_disable_stop_word = Some False, lc_caching_prompt = True,
     lc_native_tool_calling = None, lc_reasoning_effort = None, lc_seed = None, lc_safety_settings = None,
     lc_completion_kwargs = None\<rparr>"

section \<open>Patterns\<close>

lemma fnmatch_star: "fnmatch s [CHR ''*'']"
  by (induction s) auto

text \<open>A pattern of plain characters matches itself, and with a star at its end what begins with it.\<close>

lemma fnmatch_plain:
  assumes "\<forall>c \<in> set p. c \<noteq> CHR ''*'' \<and> c \<noteq> CHR ''?''"
  shows "fnmatch s p \<longleftrightarrow> s = p"
  using assms by (induction p arbitrary: s) (auto split: list.split)

lemma fnmatch_prefix:
  assumes "\<forall>c \<in> set p. c \<noteq> CHR ''*'' \<and> c \<noteq> CHR ''?''"
  shows "fnmatch s (p @ [CHR ''*'']) \<longleftrightarrow> startswith s p"
  using assms
proof (induction p arbitrary: s)
  case Nil
  then show ?case using fnmatch_star by simp
next
  case (Cons c p)
  then show ?case by (cases s) auto
qed

end
