(* ===== verification/LLM_Access.thy ===== *)
theory LLM_Access
  imports LLM_Features Messages Metrics
begin

text \<open>
  \<open>llm/llm.py\<close> and \<open>llm/retry_mixin.py\<close>: an LLM is made from its configuration, and a completion is a request to
  the provider, tried again after some exceptions. The packages \<open>litellm\<close>, \<open>httpx\<close> and \<open>tenacity\<close> are
  arguments: what \<open>litellm\<close> knows of models and costs is in \<open>llm_env\<close>, a provider with its clock (\<open>provider\<close>) works
  on a state of any type, and the retrying of \<open>tenacity\<close> is a function with the law \<open>tenacity\<close>. Messages
  are given by keyword. The log of completions and the listener of retries are left out. An exception has
  the name of the class in \<open>LLM_RETRY_EXCEPTIONS\<close> that it is an instance of, if there is one.
\<close>

section \<open>Responses and environments\<close>

record usage_report =
  up_prompt_tokens :: int
  up_completion_tokens :: int
  up_cached_tokens :: "int option"          \<comment> \<open>\<open>prompt_tokens_details.cached_tokens\<close>\<close>
  up_cache_creation_tokens :: int

text \<open>A response: the messages of its choices, and the header with the cost.\<close>

record completion =
  cp_id :: "string option"
  cp_messages :: "dict list"
  cp_usage :: "usage_report option"
  cp_cost_header :: "json option"
  cp_text :: string                          \<comment> \<open>\<open>str(resp)\<close>\<close>

record llm_env =
  le_conv :: conv_env
  le_get_model_info :: "string \<Rightarrow> exc + json"
  le_proxy_info :: "string \<Rightarrow> string \<Rightarrow> exc + (exc + json)"  \<comment> \<open>\<open>httpx.get(url, Bearer key)\<close>, then \<open>response.json()\<close>\<close>
  le_supports_vision :: "string \<Rightarrow> bool"
  le_force_vision :: string                  \<comment> \<open>\<open>OPENHANDS_FORCE_VISION\<close>\<close>
  le_completion_cost :: "completion \<Rightarrow> string option \<Rightarrow> (rat \<times> rat) option \<Rightarrow> exc + json"
  le_float :: "json \<Rightarrow> exc + rat"            \<comment> \<open>\<open>float(v)\<close>\<close>

record llm_object =
  lo_config :: llm_config
  lo_metrics :: metrics
  lo_model_info :: json                      \<comment> \<open>\<open>JNull\<close> for \<open>None\<close>\<close>
  lo_function_calling_active :: bool
  lo_cost_metric_supported :: bool
  lo_kwargs :: dict                          \<comment> \<open>what \<open>partial(litellm_completion, ...)\<close> holds\<close>

definition set_config :: "(llm_config \<Rightarrow> llm_config) \<Rightarrow> llm_object \<Rightarrow> llm_object" where
  "set_config f l = l\<lparr>lo_config := f (lo_config l)\<rparr>"

definition llm_model :: "llm_object \<Rightarrow> string" where
  "llm_model l = lc_model (lo_config l)"

definition contains_any :: "string list \<Rightarrow> string \<Rightarrow> bool" where
  "contains_any ks s \<longleftrightarrow> list_ex (\<lambda>k. contains s k) ks"

section \<open>\<open>init_model_info\<close>\<close>

definition keep_info :: "exc + json \<Rightarrow> json \<Rightarrow> json" where
  "keep_info r info = (case r of Inr v \<Rightarrow> v | Inl e \<Rightarrow> info)"

text \<open>The list under \<open>data\<close> in the answer of the proxy.\<close>

definition proxy_models :: "exc + json \<Rightarrow> exc + json list" where
  "proxy_models answer =
     (case rbind answer (\<lambda>v. get_item v ''data'' (JList [])) of
        Inl e \<Rightarrow> Inr []
      | Inr v \<Rightarrow> py_iter v)"

fun find_model :: "string \<Rightarrow> json list \<Rightarrow> exc + json" where
  "find_model name [] = Inr JNull"
| "find_model name (info # infos) =
     rbind (item info ''model_name'') (\<lambda>n. if n = JStr name then Inr info else find_model name infos)"

definition proxy_url :: "llm_config \<Rightarrow> string" where
  "proxy_url c =
     (let base_url = (case lc_base_url c of Some u \<Rightarrow> strip u | None \<Rightarrow> []) in
      (if startswith base_url ''http://'' \<or> startswith base_url ''https://'' then base_url else ''http://'' @ base_url)
        @ ''/v1/model/info'')"

definition api_key_text :: "llm_config \<Rightarrow> string" where
  "api_key_text c = (case lc_api_key c of Some k \<Rightarrow> if k \<noteq> [] then k else ''None'' | None \<Rightarrow> ''None'')"

definition info_from_proxy :: "llm_env \<Rightarrow> llm_object \<Rightarrow> exc + json" where
  "info_from_proxy env l =
     (if \<not> startswith (llm_model l) ''litellm_proxy/'' then Inr (lo_model_info l)
      else
        rbind (le_proxy_info env (proxy_url (lo_config l)) (api_key_text (lo_config l))) (\<lambda>answer.
        rbind (proxy_models answer) (\<lambda>infos.
        rbind (find_model (removeprefix (llm_model l) ''litellm_proxy/'') infos) (\<lambda>current.
        if json_truthy current then item current ''model_info'' else Inr (lo_model_info l)))))"

text \<open>A number in the info that is an \<open>int\<close>.\<close>

definition info_int :: "json \<Rightarrow> string \<Rightarrow> int option" where
  "info_int info k =
     (case info of
        JObj d \<Rightarrow> (case map_of d k of Some (JInt n) \<Rightarrow> Some n | Some (JBool b) \<Rightarrow> Some (if b then 1 else 0) | _ \<Rightarrow> None)
      | _ \<Rightarrow> None)"

definition sonnet_models :: "string list" where
  "sonnet_models = [''claude-3-7-sonnet'', ''claude-3.7-sonnet'', ''claude-sonnet-4'', ''claude-sonnet-4-5-20250929'',
     ''claude-haiku-4-5-20251001'']"

definition fill_max_tokens :: "json \<Rightarrow> llm_config \<Rightarrow> llm_config" where
  "fill_max_tokens info c =
     (let c = (if lc_max_input_tokens c = None then c\<lparr>lc_max_input_tokens := info_int info ''max_input_tokens''\<rparr> else c)
      in if lc_max_output_tokens c \<noteq> None then c
         else if contains_any sonnet_models (lc_model c) then c\<lparr>lc_max_output_tokens := Some 64000\<rparr>
         else c\<lparr>lc_max_output_tokens :=
           (case info_int info ''max_output_tokens'' of
              Some n \<Rightarrow> Some n | None \<Rightarrow> info_int info ''max_tokens'')\<rparr>)"

definition init_model_info :: "llm_env \<Rightarrow> llm_object \<Rightarrow> exc + llm_object" where
  "init_model_info env l =
     (let ask = le_get_model_info env; model = llm_model l;
          l = (if startswith model ''openrouter'' then l\<lparr>lo_model_info := keep_info (ask model) (lo_model_info l)\<rparr> else l)
      in rbind (info_from_proxy env l) (\<lambda>info.
         let info = (if json_truthy info then info else keep_info (ask (hd (split_on '':'' model))) info);
             info = (if json_truthy info then info else keep_info (ask (last (split_on ''/'' model))) info);
             c = lo_config l;
             c = (if startswith model ''huggingface'' \<and> lc_top_p c = 1 then c\<lparr>lc_top_p := 9 / 10\<rparr> else c);
             c = fill_max_tokens info c
         in Inr (l\<lparr>lo_model_info := info, lo_config := c,
              lo_function_calling_active :=
                (case lc_native_tool_calling c of
                   Some b \<Rightarrow> b | None \<Rightarrow> supports_function_calling (get_features model))\<rparr>)))"

section \<open>The parameters of the requests\<close>

definition option_json :: "('a \<Rightarrow> json) \<Rightarrow> 'a option \<Rightarrow> json" where
  "option_json f x = (case x of Some v \<Rightarrow> f v | None \<Rightarrow> JNull)"

definition base_params :: "llm_config \<Rightarrow> dict" where
  "base_params c =
     [(''temperature'', JFloat (lc_temperature c)), (''max_completion_tokens'', option_json JInt (lc_max_output_tokens c))]
     @ (case lc_top_k c of Some k \<Rightarrow> [(''top_k'', JFloat k)] | None \<Rightarrow> [])
     @ [(''top_p'', JFloat (lc_top_p c))]"

definition rewrite_openhands :: "llm_config \<Rightarrow> llm_config" where
  "rewrite_openhands c =
     (if startswith (lc_model c) ''openhands/''
      then c\<lparr>lc_model := ''litellm_proxy/'' @ removeprefix (lc_model c) ''openhands/'',
             lc_base_url := Some ''https://llm-proxy.app.all-hands.dev/''\<rparr>
      else c)"

definition reasoning_params :: "llm_config \<Rightarrow> dict \<Rightarrow> dict" where
  "reasoning_params c d =
     (if \<not> supports_reasoning_effort (get_features (lc_model c)) then d
      else
        let d = (if contains (lc_model c) ''gemini-2.5-pro'' then
                   if lc_reasoning_effort c \<in> {None, Some ''low'', Some ''none''}
                   then dict_del ''reasoning_effort''
                     (dict_set (dict_set d ''thinking'' (JObj [(''budget_tokens'', JInt 128)]))
                        ''allowed_openai_params'' (JList [JStr ''thinking'']))
                   else dict_set d ''reasoning_effort'' (option_json JStr (lc_reasoning_effort c))
                 else if contains_any [''claude-sonnet-4-5'', ''claude-haiku-4-5-20251001''] (lc_model c)
                 then dict_del ''reasoning_effort'' d
                 else case lc_reasoning_effort c of
                   Some e \<Rightarrow> dict_set d ''reasoning_effort'' (JStr e) | None \<Rightarrow> d)
        in dict_del ''top_p'' (dict_del ''temperature'' d))"

definition azure_params :: "llm_config \<Rightarrow> dict \<Rightarrow> dict" where
  "azure_params c d =
     (if startswith (lc_model c) ''azure''
      then dict_del ''max_completion_tokens'' (dict_set d ''max_tokens'' (option_json JInt (lc_max_output_tokens c)))
      else d)"

definition safety_params :: "llm_config \<Rightarrow> dict \<Rightarrow> dict" where
  "safety_params c d =
     (case lc_safety_settings c of
        Some (x # xs) \<Rightarrow>
          if contains (lower (lc_model c)) ''mistral'' \<or> contains (lower (lc_model c)) ''gemini''
          then dict_set d ''safety_settings'' (JList (x # xs)) else d
      | _ \<Rightarrow> d)"

definition aws_params :: "llm_config \<Rightarrow> dict \<Rightarrow> dict" where
  "aws_params c d =
     (let d = dict_set d ''aws_region_name'' (option_json JStr (lc_aws_region_name c));
          d = (case lc_aws_access_key_id c of
                 Some k \<Rightarrow> if k \<noteq> [] then dict_set d ''aws_access_key_id'' (JStr k) else d | None \<Rightarrow> d)
      in case lc_aws_secret_access_key c of
           Some k \<Rightarrow> if k \<noteq> [] then dict_set d ''aws_secret_access_key'' (JStr k) else d
         | None \<Rightarrow> d)"

definition opus_params :: "llm_config \<Rightarrow> dict \<Rightarrow> dict" where
  "opus_params c d =
     (if contains (lower (lc_model c)) ''claude-opus-4-1'' then
        let d = dict_set d ''thinking'' (JObj [(''type'', JStr ''disabled'')])
        in if has_key ''temperature'' d \<and> has_key ''top_p'' d then dict_del ''top_p'' d else d
      else d)"

definition model_params :: "llm_config \<Rightarrow> dict" where
  "model_params c =
     opus_params c (aws_params c (safety_params c (azure_params c (reasoning_params c (base_params c)))))"

text \<open>The arguments that \<open>partial\<close> is given by name; a second value for one of them is refused.\<close>

definition fixed_params :: "llm_config \<Rightarrow> dict" where
  "fixed_params c =
     [(''model'', JStr (lc_model c)),
      (''api_key'', case lc_api_key c of Some k \<Rightarrow> if k \<noteq> [] then JStr k else JNull | None \<Rightarrow> JNull),
      (''base_url'', option_json JStr (lc_base_url c)), (''api_version'', option_json JStr (lc_api_version c)),
      (''custom_llm_provider'', option_json JStr (lc_custom_llm_provider c)),
      (''timeout'', option_json JInt (lc_timeout c)), (''drop_params'', JBool (lc_drop_params c)),
      (''seed'', option_json JInt (lc_seed c))]"

definition partial_params :: "llm_config \<Rightarrow> dict \<Rightarrow> exc + dict" where
  "partial_params c kwargs =
     (case find (\<lambda>k. has_key k (fixed_params c)) (keys kwargs) of
        Some k \<Rightarrow> Inl (TypeError (''functools.partial() got multiple values for keyword argument '' @ repr_str k))
      | None \<Rightarrow> Inr (fixed_params c @ kwargs))"

text \<open>\<open>__init__\<close>.\<close>

definition new_llm :: "llm_env \<Rightarrow> llm_config \<Rightarrow> metrics option \<Rightarrow> exc + llm_object" where
  "new_llm env config shared =
     rbind (init_model_info env
       \<lparr>lo_config = config,
        lo_metrics = (case shared of Some m \<Rightarrow> m | None \<Rightarrow> new_metrics (lc_model config)),
        lo_model_info = JNull, lo_function_calling_active = False, lo_cost_metric_supported = True, lo_kwargs = []\<rparr>) (\<lambda>l.
     let c = rewrite_openhands (lo_config l);
         d = model_params c;
         d = (case lc_completion_kwargs c of Some e \<Rightarrow> dict_update d e | None \<Rightarrow> d)
     in rbind (partial_params c d) (\<lambda>d. Inr (l\<lparr>lo_config := c, lo_kwargs := d\<rparr>)))"

section \<open>What the LLM can do\<close>

definition supports_vision :: "llm_env \<Rightarrow> llm_object \<Rightarrow> bool" where
  "supports_vision env l \<longleftrightarrow>
     lower (le_force_vision env) \<in> set [''1'', ''true'', ''yes'', ''on''] \<or>
     le_supports_vision env (llm_model l) \<or> le_supports_vision env (last (split_on ''/'' (llm_model l))) \<or>
     (case lo_model_info l of JObj d \<Rightarrow> json_truthy (get_key d ''supports_vision'' (JBool False)) | _ \<Rightarrow> False)"

definition vision_is_active :: "llm_env \<Rightarrow> llm_object \<Rightarrow> bool" where
  "vision_is_active env l \<longleftrightarrow> lc_disable_vision (lo_config l) \<noteq> Some True \<and> supports_vision env l"

definition is_caching_prompt_active :: "llm_object \<Rightarrow> bool" where
  "is_caching_prompt_active l \<longleftrightarrow>
     lc_caching_prompt (lo_config l) \<and> supports_prompt_cache (get_features (llm_model l))"

definition is_local :: "llm_object \<Rightarrow> bool" where
  "is_local l \<longleftrightarrow>
     (case lc_base_url (lo_config l) of
        Some u \<Rightarrow> contains_any [''localhost'', ''127.0.0.1'', ''0.0.0.0''] u
      | None \<Rightarrow> startswith (llm_model l) ''ollama'')"

text \<open>\<open>format_messages_for_llm\<close>.\<close>

definition with_flags :: "llm_env \<Rightarrow> llm_object \<Rightarrow> message \<Rightarrow> message" where
  "with_flags env l m =
     (let model = llm_model l in
      m\<lparr>mg_cache_enabled := is_caching_prompt_active l,
        mg_vision_enabled := vision_is_active env l,
        mg_function_calling_enabled := lo_function_calling_active l,
        mg_force_string_serializer :=
          (mg_force_string_serializer m \<or> contains model ''deepseek'' \<or>
           contains model ''kimi-k2-instruct'' \<and> contains model ''groq'' \<or>
           contains_any [''openrouter/anthropic/claude-sonnet-4'', ''openrouter/anthropic/claude-sonnet-4-5-20250929'',
             ''openrouter/anthropic/claude-haiku-4-5-20251001''] model)\<rparr>)"

definition format_messages_for_llm :: "llm_env \<Rightarrow> llm_object \<Rightarrow> message list \<Rightarrow> exc + dict list" where
  "format_messages_for_llm env l ms = mapE (\<lambda>m. serialize_model (with_flags env l m)) ms"

section \<open>Costs and tokens\<close>

definition response_id :: "completion \<Rightarrow> string" where
  "response_id r = (case cp_id r of Some i \<Rightarrow> i | None \<Rightarrow> ''unknown'')"

definition custom_cost :: "llm_config \<Rightarrow> (rat \<times> rat) option" where
  "custom_cost c =
     (case (lc_input_cost_per_token c, lc_output_cost_per_token c) of
        (Some i, Some k) \<Rightarrow> Some (i, k) | _ \<Rightarrow> None)"

text \<open>The cost from the header, from the package, or from the package under the short name of the model.\<close>

definition response_cost :: "llm_env \<Rightarrow> llm_object \<Rightarrow> completion \<Rightarrow> rat option \<Rightarrow> exc + rat" where
  "response_cost env l r header =
     (let ask = (\<lambda>model. le_completion_cost env r model (custom_cost (lo_config l))) in
      case header of
        Some c \<Rightarrow> Inr c
      | None \<Rightarrow>
          rbind (case ask None of
                   Inr v \<Rightarrow> if v \<noteq> JNull then Inr v else ask (Some (join ''/'' (tl (split_on ''/'' (llm_model l)))))
                 | Inl e \<Rightarrow> ask (Some (join ''/'' (tl (split_on ''/'' (llm_model l)))))) (le_float env))"

definition completion_cost :: "llm_env \<Rightarrow> rat \<Rightarrow> completion \<Rightarrow> llm_object \<Rightarrow> (exc + rat) \<times> llm_object" where
  "completion_cost env now r l =
     (if \<not> lo_cost_metric_supported l then (Inr 0, l)
      else
        case (case cp_cost_header r of Some h \<Rightarrow> rbind (le_float env h) (\<lambda>c. Inr (Some c)) | None \<Rightarrow> Inr None) of
          Inl e \<Rightarrow> (Inl e, l)
        | Inr header \<Rightarrow>
            (case rbind (response_cost env l r header) (\<lambda>c. rbind (add_cost now c (lo_metrics l)) (\<lambda>m. Inr (c, m))) of
               Inr (c, m) \<Rightarrow> (Inr c, l\<lparr>lo_metrics := m\<rparr>)
             | Inl e \<Rightarrow> (Inr 0, l\<lparr>lo_cost_metric_supported := False\<rparr>)))"

text \<open>The window of the model; \<open>TokenUsage\<close> refuses what is no integer (\<open>None\<close>, say).\<close>

definition info_window :: "json \<Rightarrow> exc + int" where
  "info_window info =
     (case info of
        JObj d \<Rightarrow>
          (case map_of d ''max_input_tokens'' of
             None \<Rightarrow> Inr 0
           | Some v \<Rightarrow> (case info_int info ''max_input_tokens'' of
               Some n \<Rightarrow> Inr n | None \<Rightarrow> Inl (OtherException ''ValidationError'' ''context_window'')))
      | _ \<Rightarrow> Inr 0)"

definition post_completion :: "llm_env \<Rightarrow> rat \<Rightarrow> completion \<Rightarrow> llm_object \<Rightarrow> (exc + rat) \<times> llm_object" where
  "post_completion env now r l =
     (let (cost, l) = completion_cost env now r l;
          cur_cost = (case cost of Inr c \<Rightarrow> c | Inl e \<Rightarrow> 0)
      in case cp_usage r of
           None \<Rightarrow> (Inr cur_cost, l)
         | Some u \<Rightarrow>
             (case info_window (lo_model_info l) of
                Inl e \<Rightarrow> (Inl e, l)
              | Inr window \<Rightarrow>
                  (Inr cur_cost, l\<lparr>lo_metrics := add_token_usage
                     \<lparr>n_prompt = up_prompt_tokens u, n_completion = up_completion_tokens u,
                      n_cache_read = (case up_cached_tokens u of Some n \<Rightarrow> n | None \<Rightarrow> 0),
                      n_cache_write = up_cache_creation_tokens u, n_window = window\<rparr>
                     (response_id r) (lo_metrics l)\<rparr>)))"

section \<open>A completion\<close>

datatype prompt_messages = Objects "message list" | Dicts "dict list"

text \<open>The arguments of a call: the messages, the tools, and the rest.\<close>

record completion_call =
  cl_messages :: prompt_messages
  cl_tools :: "dict list option"
  cl_others :: dict

text \<open>What the provider is sent; \<open>litellm.modify_params\<close> is set before.\<close>

record request =
  rq_messages :: "dict list"
  rq_tools :: "dict list option"
  rq_params :: dict
  rq_modify_params :: bool

record 'w provider =
  pv_complete :: "request \<Rightarrow> 'w \<Rightarrow> (exc + completion) \<times> 'w"
  pv_time :: "'w \<Rightarrow> rat \<times> 'w"
  pv_should_exit :: "'w \<Rightarrow> bool"

definition STOP_WORDS :: json where
  "STOP_WORDS = JList [JStr ''</function'']"

definition no_response :: "completion \<Rightarrow> exc" where
  "no_response r = OtherException ''LLMNoResponseError''
     (''Response choices is less than 1 - This is only seen in Gemini models so far. Response: '' @ cp_text r)"

fun call_messages :: "llm_env \<Rightarrow> llm_object \<Rightarrow> prompt_messages \<Rightarrow> exc + dict list" where
  "call_messages env l (Objects ms) = format_messages_for_llm env l ms"
| "call_messages env l (Dicts ms) = Inr ms"

text \<open>The tools of a call that are described in the prompt, as the model cannot call functions.\<close>

definition mocked_tools :: "llm_object \<Rightarrow> completion_call \<Rightarrow> dict list option" where
  "mocked_tools l c = (if lo_function_calling_active l then None else cl_tools c)"

definition mocked_params :: "llm_config \<Rightarrow> dict \<Rightarrow> dict" where
  "mocked_params c d =
     (let d = (if supports_stop_words (get_features (lc_model c)) \<and> lc_disable_stop_word c \<noteq> Some True
               then dict_set d ''stop'' STOP_WORDS else d)
      in if contains (lc_model c) ''openhands-lm'' then dict_set d ''tool_choice'' (JStr ''none'')
         else dict_del ''tool_choice'' d)"

definition make_request :: "llm_env \<Rightarrow> llm_object \<Rightarrow> completion_call \<Rightarrow> exc + request" where
  "make_request env l c =
     (let model = llm_model l in
      rbind (call_messages env l (cl_messages c)) (\<lambda>messages.
      rbind (case mocked_tools l c of
               None \<Rightarrow> Inr (messages, cl_tools c, cl_others c)
             | Some tools \<Rightarrow>
                 rbind (convert_fncall_messages_to_non_fncall_messages (le_conv env) messages tools
                     (\<not> contains_any [''openhands-lm'', ''devstral''] model)) (\<lambda>ms.
                 Inr (ms, None, mocked_params (lo_config l) (cl_others c)))) (\<lambda>(ms, tools, others).
      if ms = [] then Inl (ValueError ''The messages list is empty. At least one message is required.'')
      else
        let others = (if contains model ''litellm_proxy'' then others else dict_del ''extra_body'' others)
        in Inr \<lparr>rq_messages = ms, rq_tools = tools, rq_params = dict_update (lo_kwargs l) others,
             rq_modify_params = lc_modify_params (lo_config l)\<rparr>)))"

text \<open>The text of the first choice is read back as a call of a tool.\<close>

definition read_response :: "llm_env \<Rightarrow> dict list option \<Rightarrow> dict list \<Rightarrow> completion \<Rightarrow> exc + completion" where
  "read_response env tools messages r =
     rbind (case tools of
              None \<Rightarrow> Inr r
            | Some ts \<Rightarrow>
                (case cp_messages r of
                   [] \<Rightarrow> Inl (no_response r)
                 | m # ms \<Rightarrow>
                     rbind (convert_non_fncall_messages_to_fncall_messages (le_conv env) (messages @ [m]) ts) (\<lambda>all.
                     if all = [] then Inl IndexError else Inr (r\<lparr>cp_messages := last all # ms\<rparr>)))) (\<lambda>r.
     if cp_messages r = [] then Inl (no_response r) else Inr r)"

definition add_latency :: "rat \<Rightarrow> completion \<Rightarrow> llm_object \<Rightarrow> llm_object" where
  "add_latency latency r l = l\<lparr>lo_metrics := add_response_latency latency (response_id r) (lo_metrics l)\<rparr>"

text \<open>\<open>wrapper\<close>: one attempt, on the LLM and the provider.\<close>

definition attempt ::
    "llm_env \<Rightarrow> 'w provider \<Rightarrow> completion_call \<Rightarrow> llm_object \<times> 'w \<Rightarrow> (exc + completion) \<times> llm_object \<times> 'w" where
  "attempt env pv c s =
     (let (l, w) = s in
      case make_request env l c of
        Inl e \<Rightarrow> (Inl e, l, w)
      | Inr q \<Rightarrow>
          let tools = mocked_tools l c;
              (start, w) = pv_time pv w;
              (answer, w) = pv_complete pv q w in
          (case answer of
             Inl e \<Rightarrow> (Inl e, l, w)
           | Inr r \<Rightarrow>
               let (now, w) = pv_time pv w;
                   l = add_latency (now - start) r l in
               (case read_response env tools (rq_messages q) r of
                  Inl e \<Rightarrow> (Inl e, l, w)
                | Inr r \<Rightarrow>
                    let (now, w) = pv_time pv w;
                        (cost, l) = post_completion env now r l
                    in (case cost of Inl e \<Rightarrow> Inl e | Inr x \<Rightarrow> Inr r, l, w))))"

section \<open>Retries\<close>

definition LLM_RETRY_EXCEPTIONS :: "string list" where
  "LLM_RETRY_EXCEPTIONS = [''APIConnectionError'', ''RateLimitError'', ''ServiceUnavailableError'', ''Timeout'',
     ''InternalServerError'', ''LLMNoResponseError'']"

definition is_retried :: "exc \<Rightarrow> bool" where
  "is_retried e \<longleftrightarrow> exc_class e \<in> set LLM_RETRY_EXCEPTIONS"

text \<open>\<open>stop_after_attempt(num_retries) | stop_if_should_exit()\<close>.\<close>

definition stops :: "int \<Rightarrow> 'w provider \<Rightarrow> nat \<Rightarrow> llm_object \<times> 'w \<Rightarrow> bool" where
  "stops num_retries pv k s \<longleftrightarrow> num_retries \<le> int k \<or> pv_should_exit pv (snd s)"

definition before_sleep :: "exc \<Rightarrow> completion_call \<Rightarrow> completion_call" where
  "before_sleep e c =
     (if exc_class e = ''LLMNoResponseError'' \<and> py_eq (get_key (cl_others c) ''temperature'' (JInt 0)) (JInt 0)
      then c\<lparr>cl_others := dict_set (cl_others c) ''temperature'' (JFloat 1)\<rparr> else c)"

text \<open>The retrying of a function by \<open>tenacity\<close>: which exceptions are retried, when to stop (by the number of
  the attempt), what happens before the next attempt, the number of the attempt, the arguments and the state.
  It does what its documentation says: with \<open>reraise\<close> the exception of the last attempt is raised.\<close>

type_synonym ('c, 'r, 's) retrying =
  "('c \<Rightarrow> 's \<Rightarrow> (exc + 'r) \<times> 's) \<Rightarrow> (exc \<Rightarrow> bool) \<Rightarrow> (nat \<Rightarrow> 's \<Rightarrow> bool) \<Rightarrow> (exc \<Rightarrow> 'c \<Rightarrow> 'c) \<Rightarrow> nat \<Rightarrow> 'c \<Rightarrow> 's
    \<Rightarrow> (exc + 'r) \<times> 's"

definition tenacity :: "('c, 'r, 's) retrying \<Rightarrow> bool" where
  "tenacity rt \<longleftrightarrow>
     (\<forall>f retried stop before k c s. rt f retried stop before k c s =
        (case f c s of
           (Inr r, s') \<Rightarrow> (Inr r, s')
         | (Inl e, s') \<Rightarrow>
             if \<not> retried e \<or> stop k s' then (Inl e, s') else rt f retried stop before (Suc k) (before e c) s'))"

definition complete ::
    "llm_env \<Rightarrow> 'w provider \<Rightarrow> (completion_call, completion, llm_object \<times> 'w) retrying \<Rightarrow> completion_call
      \<Rightarrow> llm_object \<times> 'w \<Rightarrow> (exc + completion) \<times> llm_object \<times> 'w" where
  "complete env pv rt c s =
     rt (attempt env pv) is_retried (stops (lc_num_retries (lo_config (fst s))) pv) before_sleep 1 c s"

end
