(* ===== verification/LLM_Access_Correct.thy ===== *)
theory LLM_Access_Correct
  imports LLM_Access
begin

text \<open>
  What a completion does, whatever the provider answers: how many requests it makes and what is in them, what
  it adds to the metrics, and which parameters a model is sent. Against its purpose: an answer that cannot be
  read is paid for but not counted, and a retry sets a temperature that was left out or chosen.
\<close>

section \<open>What a retried function keeps\<close>

lemma retry_rule:
  assumes "tenacity rt" and "rt f retried stop before k c s = (r, s')" and "\<And>j s. n \<le> j \<Longrightarrow> stop j s"
    and step: "\<And>j c s e s1. I j c s \<Longrightarrow> f c s = (Inl e, s1) \<Longrightarrow> retried e \<Longrightarrow> \<not> stop j s1 \<Longrightarrow>
      I (Suc j) (before e c) s1"
    and "I k c s"
  shows "\<exists>j c1 s1. I j c1 s1 \<and> f c1 s1 = (r, s')"
  using assms(2,5)
proof (induction "n - k" arbitrary: k c s rule: less_induct)
  case less
  obtain v s1 where v: "f c s = (v, s1)" by fastforce
  have unfold: "rt f retried stop before k c s = (case f c s of
      (Inr r, s') \<Rightarrow> (Inr r, s')
    | (Inl e, s') \<Rightarrow> if \<not> retried e \<or> stop k s' then (Inl e, s') else rt f retried stop before (Suc k) (before e c) s')"
    using assms(1) unfolding tenacity_def by blast
  show ?case
  proof (cases "\<exists>e. v = Inl e \<and> retried e \<and> \<not> stop k s1")
    case True
    then obtain e where e: "v = Inl e" "retried e" "\<not> stop k s1" by blast
    then have "k < n" using assms(3) by (metis not_le)
    moreover have "rt f retried stop before (Suc k) (before e c) s1 = (r, s')"
      using less.prems(1) unfold v e by simp
    moreover have "I (Suc k) (before e c) s1" using less.prems(2) v e by (auto intro: step)
    ultimately show ?thesis using less.hyps [of "Suc k" "before e c" s1] by simp
  next
    case False
    then have "(r, s') = (v, s1)" using less.prems(1) unfold v by (auto split: sum.splits if_splits)
    with less.prems(2) v show ?thesis by auto
  qed
qed

lemma complete_rule:
  assumes "tenacity rt" and "complete env pv rt c s = (r, s')"
    and "\<And>j c s e s1. I j c s \<Longrightarrow> attempt env pv c s = (Inl e, s1) \<Longrightarrow> is_retried e \<Longrightarrow>
      \<not> stops num pv j s1 \<Longrightarrow> I (Suc j) (before_sleep e c) s1"
    and "num = lc_num_retries (lo_config (fst s))" and "I 1 c s"
  shows "\<exists>j c1 s1. I j c1 s1 \<and> attempt env pv c1 s1 = (r, s')"
proof (rule retry_rule [where n = "nat num" and I = I, OF assms(1)])
  show "rt (attempt env pv) is_retried (stops num pv) before_sleep 1 c s = (r, s')"
    using assms(2,4) by (simp add: complete_def)
  show "stops num pv j s" if "nat num \<le> j" for j s
    using that by (simp add: stops_def nat_le_iff)
qed (use assms(3,5) in auto)

section \<open>One attempt\<close>

text \<open>The provider keeps a log of the requests, and reading the clock is none.\<close>

definition logs_requests :: "'w provider \<Rightarrow> ('w \<Rightarrow> request list) \<Rightarrow> bool" where
  "logs_requests pv reqs \<longleftrightarrow>
     (\<forall>q w. reqs (snd (pv_complete pv q w)) = reqs w @ [q]) \<and> (\<forall>w. reqs (snd (pv_time pv w)) = reqs w)"

definition same_settings :: "llm_object \<Rightarrow> llm_object \<Rightarrow> bool" where
  "same_settings l l' \<longleftrightarrow> lo_config l' = lo_config l \<and> lo_function_calling_active l' = lo_function_calling_active l \<and>
     lo_kwargs l' = lo_kwargs l \<and> lo_model_info l' = lo_model_info l"

lemma same_settings_refl: "same_settings l l"
  by (simp add: same_settings_def)

lemma same_settings_trans: "same_settings l l1 \<Longrightarrow> same_settings l1 l2 \<Longrightarrow> same_settings l l2"
  by (simp add: same_settings_def)

lemma add_latency_keeps: "same_settings l (add_latency t r l)"
  "lo_cost_metric_supported (add_latency t r l) = lo_cost_metric_supported l"
  by (simp_all add: add_latency_def same_settings_def)

lemma completion_cost_keeps: "same_settings l (snd (completion_cost env now r l))"
  by (simp add: completion_cost_def same_settings_def split: sum.split option.split prod.split)

lemma post_completion_keeps: "same_settings l (snd (post_completion env now r l))"
proof -
  obtain cost l1 where c: "completion_cost env now r l = (cost, l1)" by fastforce
  have "same_settings l l1" using completion_cost_keeps [of l env now r] c by simp
  with c show ?thesis by (simp add: post_completion_def same_settings_def split: sum.split option.split)
qed

text \<open>An attempt makes no request, or one.\<close>

lemma attempt_cases:
  assumes "attempt env pv c (l, w) = (r, l', w')"
  obtains (refused) e where "make_request env l c = Inl e" "r = Inl e" "l' = l" "w' = w"
  | (failed) q e w1 where "make_request env l c = Inr q" "r = Inl e" "l' = l"
      "pv_complete pv q w1 = (Inl e, w')" "w1 = snd (pv_time pv w)"
  | (unread) q a e latency w1 w2 where "make_request env l c = Inr q" "r = Inl e" "l' = add_latency latency a l"
      "read_response env (mocked_tools l c) (rq_messages q) a = Inl e"
      "w1 = snd (pv_time pv w)" "pv_complete pv q w1 = (Inr a, w2)" "w' = snd (pv_time pv w2)"
  | (read) q a b now latency cost w1 w2 where "make_request env l c = Inr q"
      "read_response env (mocked_tools l c) (rq_messages q) a = Inr b"
      "post_completion env now b (add_latency latency a l) = (cost, l')"
      "r = (case cost of Inl e \<Rightarrow> Inl e | Inr x \<Rightarrow> Inr b)"
      "w1 = snd (pv_time pv w)" "pv_complete pv q w1 = (Inr a, w2)" "w' = snd (pv_time pv (snd (pv_time pv w2)))"
proof (cases "make_request env l c")
  case (Inl e)
  with assms show thesis by (intro refused [of e]) (auto simp: attempt_def)
next
  case q: (Inr q)
  obtain start w1 where t1: "pv_time pv w = (start, w1)" by fastforce
  obtain answer w2 where a: "pv_complete pv q w1 = (answer, w2)" by fastforce
  show thesis
  proof (cases answer)
    case (Inl e)
    with assms q t1 a show thesis by (intro failed [of q e w1]) (simp_all add: attempt_def)
  next
    case (Inr v)
    obtain t w3 where t2: "pv_time pv w2 = (t, w3)" by fastforce
    show thesis
    proof (cases "read_response env (mocked_tools l c) (rq_messages q) v")
      case (Inl e)
      with assms q t1 a Inr t2 show thesis
        by (intro unread [of q e "t - start" v w1 w2]) (auto simp: attempt_def Let_def)
    next
      case b: (Inr b)
      obtain now w4 where t3: "pv_time pv w3 = (now, w4)" by fastforce
      obtain cost l2 where p: "post_completion env now b (add_latency (t - start) v l) = (cost, l2)" by fastforce
      from assms q t1 a Inr t2 b t3 p show thesis
        by (intro read [of q v b now "t - start" cost w1 w2]) (auto simp: attempt_def Let_def)
    qed
  qed
qed

lemma attempt_request:
  assumes "logs_requests pv reqs" and "attempt env pv c (l, w) = (r, l', w')"
  shows "same_settings l l' \<and> (reqs w' = reqs w \<or> (\<exists>q. make_request env l c = Inr q \<and> reqs w' = reqs w @ [q]))"
proof -
  have reqs: "reqs (snd (pv_time pv w)) = reqs w" "reqs (snd (pv_complete pv q w)) = reqs w @ [q]" for w q
    using assms(1) by (simp_all add: logs_requests_def)
  have made: "reqs w' = reqs w @ [q]" if "pv_complete pv q w1 = (a, w2)" "w1 = snd (pv_time pv w)" "reqs w' = reqs w2" for q w1 a w2
    using that reqs(2) [of q w1] reqs(1) by simp
  show ?thesis
    using assms(2)
  proof (cases rule: attempt_cases)
    case refused
    then show ?thesis by (simp add: same_settings_refl)
  next
    case failed
    with made show ?thesis by (auto simp: same_settings_refl)
  next
    case unread
    with made reqs(1) show ?thesis by (auto simp: add_latency_keeps)
  next
    case (read q a b now latency cost w1 w2)
    have "same_settings l l'"
      using add_latency_keeps(1) [of l latency a] post_completion_keeps [of "add_latency latency a l" env now b] read(3)
      by (auto intro: same_settings_trans)
    with read made reqs(1) show ?thesis by auto
  qed
qed

lemma before_sleep_keeps: "cl_tools (before_sleep e c) = cl_tools c" "cl_messages (before_sleep e c) = cl_messages c"
  by (simp_all add: before_sleep_def)

section \<open>The requests\<close>

text \<open>The requests that a completion has made, with a bound on their number.\<close>

definition asked ::
    "llm_env \<Rightarrow> ('w \<Rightarrow> request list) \<Rightarrow> llm_object \<Rightarrow> 'w \<Rightarrow> completion_call \<Rightarrow> int \<Rightarrow> nat \<Rightarrow> completion_call \<Rightarrow> llm_object \<times> 'w \<Rightarrow> bool" where
  "asked env reqs l0 w0 c0 num j c s \<longleftrightarrow> same_settings l0 (fst s) \<and> cl_tools c = cl_tools c0 \<and>
     cl_messages c = cl_messages c0 \<and> 1 \<le> j \<and> int j \<le> max 1 num \<and>
     (\<exists>qs. reqs (snd s) = reqs w0 @ qs \<and> length qs < j \<and>
       (\<forall>q \<in> set qs. \<exists>l1 c1. same_settings l0 l1 \<and> cl_tools c1 = cl_tools c0 \<and> make_request env l1 c1 = Inr q))"

lemma asked_attempt:
  assumes "logs_requests pv reqs" and "asked env reqs l0 w0 c0 num j c (l, w)" and "attempt env pv c (l, w) = (r, l', w')"
  shows "same_settings l0 l' \<and> (\<exists>qs. reqs w' = reqs w0 @ qs \<and> length qs \<le> j \<and>
    (\<forall>q \<in> set qs. \<exists>l1 c1. same_settings l0 l1 \<and> cl_tools c1 = cl_tools c0 \<and> make_request env l1 c1 = Inr q))"
proof -
  from assms(2) obtain qs where qs: "reqs w = reqs w0 @ qs" "length qs < j"
      "\<forall>q \<in> set qs. \<exists>l1 c1. same_settings l0 l1 \<and> cl_tools c1 = cl_tools c0 \<and> make_request env l1 c1 = Inr q"
    and same: "same_settings l0 l" "cl_tools c = cl_tools c0"
    by (auto simp: asked_def)
  from attempt_request [OF assms(1,3)] have l': "same_settings l0 l'" using same(1) by (auto intro: same_settings_trans)
  from attempt_request [OF assms(1,3)] consider "reqs w' = reqs w" | q where "make_request env l c = Inr q" "reqs w' = reqs w @ [q]"
    by blast
  then show ?thesis
  proof cases
    case 1
    with qs l' show ?thesis by (intro conjI exI [of _ qs]) auto
  next
    case 2
    with qs l' same show ?thesis by (intro conjI exI [of _ "qs @ [q]"]) auto
  qed
qed

lemma requests_made:
  assumes "tenacity rt" and "logs_requests pv reqs" and "complete env pv rt c (l, w) = (r, l', w')"
  shows "\<exists>qs. reqs w' = reqs w @ qs \<and> int (length qs) \<le> max 1 (lc_num_retries (lo_config l)) \<and>
    (\<forall>q \<in> set qs. \<exists>l1 c1. same_settings l l1 \<and> cl_tools c1 = cl_tools c \<and> make_request env l1 c1 = Inr q)"
proof -
  let ?num = "lc_num_retries (lo_config l)"
  let ?I = "asked env reqs l w c ?num"
  have "\<exists>j c1 s1. ?I j c1 s1 \<and> attempt env pv c1 s1 = (r, l', w')"
  proof (rule complete_rule [where I = ?I and num = ?num, OF assms(1,3)])
    fix j c1 s e s1
    assume I: "?I j c1 s" and a: "attempt env pv c1 s = (Inl e, s1)" and stop: "\<not> stops ?num pv j s1"
    obtain l1 w1 l2 w2 where s: "s = (l1, w1)" "s1 = (l2, w2)" by (cases s; cases s1)
    from asked_attempt [OF assms(2) I [unfolded s] a [unfolded s]] I stop show "?I (Suc j) (before_sleep e c1) s1"
      by (auto simp: asked_def s before_sleep_keeps stops_def)
  qed (simp_all add: asked_def same_settings_refl)
  then obtain j c1 l1 w1 where I: "?I j c1 (l1, w1)" and a: "attempt env pv c1 (l1, w1) = (r, l', w')" by auto
  from asked_attempt [OF assms(2) I a] I show ?thesis by (force simp: asked_def)
qed

text \<open>
  C35. A completion makes at most as many requests as the configuration allows, and one when it allows none.
\<close>

theorem requests_bounded:
  assumes "tenacity rt" and "logs_requests pv reqs" and "complete env pv rt c (l, w) = (r, l', w')"
  shows "\<exists>qs. reqs w' = reqs w @ qs \<and> int (length qs) \<le> max 1 (lc_num_retries (lo_config l))"
  using requests_made [OF assms] by blast

text \<open>A message without calls and results of tools.\<close>

definition textual :: "dict \<Rightarrow> bool" where
  "textual m \<longleftrightarrow> \<not> has_key ''tool_calls'' m \<and> \<not> has_key ''tool_call_id'' m \<and>
     map_of m ''role'' \<in> {Some (JStr ''system''), Some (JStr ''user''), Some (JStr ''assistant'')}"

lemma textual_message_json: "r \<in> {''system'', ''user'', ''assistant''} \<Longrightarrow> textual (message_json r c)"
  by (auto simp: textual_def message_json_def)

lemma to_text_step_textual:
  assumes "to_text_step env messages tools suffix0 ex m st = Inr st'" and "\<forall>x \<in> set (converted st). textual x"
  shows "\<forall>x \<in> set (converted st'). textual x"
proof -
  from assms(1) obtain role content where r: "sub m ''role'' = Inr role" "sub m ''content'' = Inr content"
    by (auto simp: to_text_step_def rbind_Inr_iff)
  note step = assms(1) [unfolded to_text_step_def r rbind_simps Let_def]
  have "(\<exists>c. converted st' = converted st @ [message_json ''system'' c]) \<or>
      (\<exists>c. converted st' = converted st @ [message_json ''user'' c]) \<or>
      (\<exists>c. converted st' = converted st @ [message_json ''assistant'' c])"
  proof -
    consider "role = JStr ''system''" | "role = JStr ''user''" | "role = JStr ''assistant''" | "role = JStr ''tool''"
      | "role \<notin> {JStr ''system'', JStr ''user'', JStr ''assistant'', JStr ''tool''}" by blast
    then show ?thesis
    proof cases
      case 1
      with step show ?thesis by (auto simp: rbind_Inr_iff)
    next
      case 2
      with step show ?thesis by (auto simp: rbind_Inr_iff split: if_splits)
    next
      case 3
      show ?thesis
      proof (cases "map_of m ''tool_calls'' \<in> {None, Some JNull}")
        case True
        with 3 step have "converted st' = converted st @ [message_json ''assistant'' content]" by auto
        then show ?thesis by blast
      next
        case False
        then obtain v where v: "map_of m ''tool_calls'' = Some v" "v \<noteq> JNull" by auto
        have "rbind (assistant_tool_text env messages content v) (\<lambda>t. rbind (add_tool_text env t content)
            (\<lambda>c. Inr (st\<lparr>converted := converted st @ [message_json ''assistant'' c]\<rparr>))) = Inr st'"
          using step 3 v by (cases v) simp_all
        then show ?thesis by (auto simp: rbind_Inr_iff)
      qed
    next
      case 4
      with step show ?thesis by (auto simp: rbind_Inr_iff)
    next
      case 5
      with step show ?thesis by simp
    qed
  qed
  with assms(2) textual_message_json show ?thesis by auto
qed

lemma converted_textual:
  assumes "convert_fncall_messages_to_non_fncall_messages env messages tools ex = Inr ms"
  shows "\<forall>m \<in> set ms. textual m"
proof -
  from assms obtain sfx st where st:
    "foldE (to_text_step env messages tools sfx ex) messages \<lparr>first_user_seen = False, converted = []\<rparr> = Inr st"
    "ms = converted st"
    by (auto simp: convert_fncall_messages_to_non_fncall_messages_def rbind_Inr_iff)
  from st(1) have "\<forall>m \<in> set (converted st). textual m"
    by (rule foldE_invariant [where P = "\<lambda>st. \<forall>m \<in> set (converted st). textual m"])
      (use to_text_step_textual in \<open>auto\<close>)
  with st(2) show ?thesis by simp
qed

lemma mocked_request:
  assumes "make_request env l c = Inr q" and "\<not> lo_function_calling_active l" and "cl_tools c = Some tools"
  shows "rq_tools q = None \<and> (\<forall>m \<in> set (rq_messages q). textual m) \<and> rq_messages q \<noteq> []"
  using assms
  by (auto simp: make_request_def mocked_tools_def rbind_Inr_iff Let_def split: if_splits dest!: converted_textual)


section \<open>The metrics\<close>

lemma info_window_error: "info_window info = Inl e \<Longrightarrow> \<not> is_retried e"
  by (auto simp: info_window_def is_retried_def LLM_RETRY_EXCEPTIONS_def split: json.splits option.splits)

lemma post_completion_error: "post_completion env now b l = (Inl e, l') \<Longrightarrow> \<not> is_retried e"
  using info_window_error
  by (auto simp: post_completion_def split: prod.splits option.splits sum.splits)

definition unspent :: "llm_object \<Rightarrow> llm_object \<Rightarrow> bool" where
  "unspent l l' \<longleftrightarrow> same_settings l l' \<and> lo_cost_metric_supported l' = lo_cost_metric_supported l \<and>
     model_name (lo_metrics l') = model_name (lo_metrics l) \<and> costs (lo_metrics l') = costs (lo_metrics l) \<and>
     accumulated_cost (lo_metrics l') = accumulated_cost (lo_metrics l) \<and>
     token_usages (lo_metrics l') = token_usages (lo_metrics l)"

lemma unspent_refl: "unspent l l"
  by (simp add: unspent_def same_settings_refl)

lemma unspent_trans: "unspent l l1 \<Longrightarrow> unspent l1 l2 \<Longrightarrow> unspent l l2"
  by (auto simp: unspent_def intro: same_settings_trans)

lemma unspent_latency: "unspent l (add_latency t r l)"
  by (simp add: unspent_def add_latency_keeps) (simp add: add_latency_def add_response_latency_def)

lemma retried_attempt_unspent:
  assumes "attempt env pv c (l, w) = (Inl e, l', w')" and "is_retried e"
  shows "unspent l l'"
  using assms(1)
proof (cases rule: attempt_cases)
  case (read q a b now latency cost w1 w2)
  then have "post_completion env now b (add_latency latency a l) = (Inl e, l')" by (cases cost) auto
  with post_completion_error assms(2) show ?thesis by blast
qed (auto simp: unspent_refl unspent_latency)

text \<open>An answer that cannot be read (no choice, or a badly formed call of a tool) is not counted, although the
  provider has charged for it.\<close>

lemma unread_answer_is_not_counted:
  assumes "make_request env l c = Inr q" and "pv_complete pv q (snd (pv_time pv w)) = (Inr a, w2)"
    and "read_response env (mocked_tools l c) (rq_messages q) a = Inl e"
    and "attempt env pv c (l, w) = (r, l', w')"
  shows "r = Inl e \<and> costs (lo_metrics l') = costs (lo_metrics l) \<and> token_usages (lo_metrics l') = token_usages (lo_metrics l)"
  using assms(4)
proof (cases rule: attempt_cases)
  case (unread q' a' e' latency w1 w2')
  with assms show ?thesis using unspent_latency [of l latency a'] by (auto simp: unspent_def)
qed (use assms in auto)

definition usage_prompt :: "completion \<Rightarrow> int list" where
  "usage_prompt r = (case cp_usage r of None \<Rightarrow> [] | Some u \<Rightarrow> [up_prompt_tokens u])"

definition usage_completion :: "completion \<Rightarrow> int list" where
  "usage_completion r = (case cp_usage r of None \<Rightarrow> [] | Some u \<Rightarrow> [up_completion_tokens u])"

lemma completion_cost_header:
  assumes "lo_cost_metric_supported l" and "cp_cost_header b = Some h" and "le_float env h = Inr x" and "0 \<le> x"
  shows "\<exists>m. completion_cost env now b l = (Inr x, l\<lparr>lo_metrics := m\<rparr>) \<and> add_cost now x (lo_metrics l) = Inr m"
  using assms by (simp add: completion_cost_def response_cost_def add_cost_def)

lemma post_completion_counts:
  assumes "post_completion env now b l = (Inr y, l')"
    and "lo_cost_metric_supported l" and "cp_cost_header b = Some h" and "le_float env h = Inr x" and "0 \<le> x"
  shows "costs (lo_metrics l') = costs (lo_metrics l) @ [\<lparr>c_model = model_name (lo_metrics l), c_cost = x, c_timestamp = now\<rparr>] \<and>
    accumulated_cost (lo_metrics l') = accumulated_cost (lo_metrics l) + x \<and>
    map prompt_tokens (token_usages (lo_metrics l')) = map prompt_tokens (token_usages (lo_metrics l)) @ usage_prompt b \<and>
    map completion_tokens (token_usages (lo_metrics l')) =
      map completion_tokens (token_usages (lo_metrics l)) @ usage_completion b"
proof -
  from completion_cost_header [OF assms(2-5), of now] obtain m where
    m: "completion_cost env now b l = (Inr x, l\<lparr>lo_metrics := m\<rparr>)" "add_cost now x (lo_metrics l) = Inr m" by blast
  show ?thesis
  proof (cases "cp_usage b")
    case None
    with assms m show ?thesis
      by (auto simp: post_completion_def add_cost_def usage_prompt_def usage_completion_def)
  next
    case (Some u)
    then obtain window where "info_window (lo_model_info l) = Inr window"
      using assms(1) m by (cases "info_window (lo_model_info l)") (auto simp: post_completion_def)
    with assms m Some show ?thesis
      by (auto simp: post_completion_def add_cost_def usage_prompt_def usage_completion_def add_token_usage_def
          usage_of_def)
  qed
qed


text \<open>Costs are never taken back, and the totals stay the totals of the lists.\<close>

lemma add_cost_grows: "add_cost now x m = Inr m' \<Longrightarrow> accumulated_cost m \<le> accumulated_cost m'"
  by (auto simp: add_cost_def split: if_splits)

lemma completion_cost_totals:
  assumes "completion_cost env now b l = (v, l')" and "metrics_ok (lo_metrics l)"
  shows "metrics_ok (lo_metrics l') \<and> accumulated_cost (lo_metrics l) \<le> accumulated_cost (lo_metrics l')"
proof -
  consider "lo_metrics l' = lo_metrics l" | x where "add_cost now x (lo_metrics l) = Inr (lo_metrics l')"
    using assms(1) by (auto simp: completion_cost_def rbind_Inr_iff split: if_splits sum.splits)
  then show ?thesis
  proof cases
    case 1
    with assms(2) show ?thesis by simp
  next
    case 2
    with add_cost_ok [OF assms(2) 2] add_cost_grows [OF 2] show ?thesis by simp
  qed
qed

lemma post_completion_totals:
  assumes "post_completion env now b l = (v, l')" and "metrics_ok (lo_metrics l)"
  shows "metrics_ok (lo_metrics l') \<and> accumulated_cost (lo_metrics l) \<le> accumulated_cost (lo_metrics l')"
proof -
  obtain cost l1 where c: "completion_cost env now b l = (cost, l1)" by fastforce
  note t = completion_cost_totals [OF c assms(2)]
  consider "l' = l1" | n i where "l' = l1\<lparr>lo_metrics := add_token_usage n i (lo_metrics l1)\<rparr>"
    using assms(1) c by (auto simp: post_completion_def split: option.splits sum.splits)
  then show ?thesis
    using t by cases (auto simp: add_token_usage_ok, simp add: add_token_usage_def)
qed

theorem completion_keeps_totals:
  fixes w :: 'w
  assumes "tenacity rt" and "complete env pv rt c (l, w) = (r, l', w')" and "metrics_ok (lo_metrics l)"
  shows "metrics_ok (lo_metrics l') \<and> accumulated_cost (lo_metrics l) \<le> accumulated_cost (lo_metrics l')"
proof -
  define good where "good l1 \<longleftrightarrow> metrics_ok (lo_metrics l1) \<and>
      accumulated_cost (lo_metrics l) \<le> accumulated_cost (lo_metrics l1)" for l1 :: llm_object
  have step: "good l2" if "good l1" "attempt env pv c1 (l1, w1) = (v, l2, w2)" for c1 l1 w1 v l2 w2
  proof -
    have lat: "good (add_latency t a l1)" for t a
      using that(1) by (simp add: good_def add_latency_def add_response_latency_ok) (simp add: add_response_latency_def)
    from that(2) show ?thesis
    proof (cases rule: attempt_cases)
      case (read q a b now latency cost w1 w2)
      from post_completion_totals [OF read(3)] lat [of latency a] show ?thesis by (auto simp: good_def)
    qed (use that(1) lat in auto)
  qed
  have "\<exists>(j :: nat) c1 s1. good (fst s1) \<and> attempt env pv c1 s1 = (r, l', w')"
  proof (rule complete_rule [of rt env pv c "(l, w)" r "(l', w')" "\<lambda>_ _ s. good (fst s)", OF assms(1,2) _ refl])
    fix j c s e s1
    assume "good (fst s)" "attempt env pv c s = (Inl e, s1)"
    then show "good (fst s1)" using step [of "fst s" c "snd s" "Inl e" "fst s1" "snd s1"] by simp
  qed (simp add: good_def assms(3))
  then obtain c1 l1 w1 where "good l1" "attempt env pv c1 (l1, w1) = (r, l', w')" by auto
  from step [OF this] show ?thesis by (simp add: good_def)
qed

section \<open>Parameters\<close>

lemma later_params_keep:
  assumes "map_of d k = None" and "k \<in> {''temperature'', ''top_p''}"
  shows "map_of (opus_params c (aws_params c (safety_params c (azure_params c d)))) k = None"
proof -
  have "map_of (azure_params c d) k = None" using assms by (auto simp: azure_params_def)
  then have "map_of (safety_params c (azure_params c d)) k = None"
    using assms(2) by (auto simp: safety_params_def split: option.split list.split)
  then have "map_of (aws_params c (safety_params c (azure_params c d))) k = None"
    using assms(2) by (auto simp: aws_params_def Let_def split: option.split)
  then show ?thesis using assms(2) by (auto simp: opus_params_def Let_def)
qed

lemma fill_max_tokens_keeps: "lc_completion_kwargs (fill_max_tokens info c) = lc_completion_kwargs c"
  by (simp add: fill_max_tokens_def Let_def)

lemma init_keeps_kwargs:
  assumes "init_model_info env l = Inr l'"
  shows "lc_completion_kwargs (lo_config l') = lc_completion_kwargs (lo_config l)"
proof -
  define l1 where "l1 = (if startswith (llm_model l) ''openrouter''
    then l\<lparr>lo_model_info := keep_info (le_get_model_info env (llm_model l)) (lo_model_info l)\<rparr> else l)"
  from assms obtain info where "lo_config l' = fill_max_tokens info
      (if startswith (llm_model l) ''huggingface'' \<and> lc_top_p (lo_config l1) = 1
       then lo_config l1\<lparr>lc_top_p := 9 / 10\<rparr> else lo_config l1)"
    unfolding init_model_info_def Let_def rbind_Inr_iff l1_def [symmetric] by force
  moreover have "lo_config l1 = lo_config l" by (simp add: l1_def)
  ultimately show ?thesis by (simp add: fill_max_tokens_keeps)
qed

text \<open>
  A model that supports reasoning efforts is sent no temperature and no \<open>top_p\<close>, unless the configuration asks
  for them by name or the call has them.
\<close>

theorem reasoning_models_get_no_temperature:
  assumes "new_llm env c shared = Inr l" and "supports_reasoning_effort (get_features (llm_model l))"
    and "lc_completion_kwargs c = None"
  shows "\<not> has_key ''temperature'' (lo_kwargs l) \<and> \<not> has_key ''top_p'' (lo_kwargs l)"
proof -
  from assms(1) obtain l0 where init: "init_model_info env \<lparr>lo_config = c,
        lo_metrics = (case shared of Some m \<Rightarrow> m | None \<Rightarrow> new_metrics (lc_model c)),
        lo_model_info = JNull, lo_function_calling_active = False, lo_cost_metric_supported = True, lo_kwargs = []\<rparr> = Inr l0"
    by (auto simp: new_llm_def rbind_Inr_iff)
  define c1 where "c1 = rewrite_openhands (lo_config l0)"
  have "lc_completion_kwargs (lo_config l0) = lc_completion_kwargs c"
    using init_keeps_kwargs [OF init] by simp
  then have none: "lc_completion_kwargs c1 = None" using assms(3) by (simp add: c1_def rewrite_openhands_def)
  have "rbind (partial_params c1 (model_params c1)) (\<lambda>d. Inr (l0\<lparr>lo_config := c1, lo_kwargs := d\<rparr>)) = Inr l"
    using assms(1) unfolding new_llm_def init rbind_simps Let_def c1_def [symmetric] none option.case .
  then have kw: "partial_params c1 (model_params c1) = Inr (lo_kwargs l)" "lo_config l = c1"
    by (auto simp: rbind_Inr_iff)
  have "map_of (reasoning_params c1 (base_params c1)) k = None" if "k \<in> {''temperature'', ''top_p''}" for k
    using assms(2) kw(2) that by (auto simp: reasoning_params_def llm_model_def Let_def)
  then have m: "map_of (model_params c1) k = None" if "k \<in> {''temperature'', ''top_p''}" for k
    unfolding model_params_def using that by (intro later_params_keep)
  have "map_of (fixed_params c1) k = None" if "k \<in> {''temperature'', ''top_p''}" for k
    using that by (auto simp: fixed_params_def)
  moreover have "lo_kwargs l = fixed_params c1 @ model_params c1"
    using kw(1) by (auto simp: partial_params_def split: option.splits)
  ultimately show ?thesis using m by (simp add: has_key_def map_add_def)
qed

text \<open>After an answer without choices the next request has the temperature 1, whatever temperature is
  configured, and also for a model that must not be sent one.\<close>

lemma retry_sets_temperature:
  assumes "exc_class e = ''LLMNoResponseError''" and "\<not> has_key ''temperature'' (cl_others c)"
    and "lo_function_calling_active l" and "distinct (keys (cl_others c))"
    and "make_request env l (before_sleep e c) = Inr q"
  shows "map_of (rq_params q) ''temperature'' = Some (JFloat 1)"
proof -
  have b: "cl_others (before_sleep e c) = dict_set (cl_others c) ''temperature'' (JFloat 1)"
    using assms(1,2) by (simp add: before_sleep_def get_key_def has_key_def)
  define d where "d = (if contains (llm_model l) ''litellm_proxy'' then cl_others (before_sleep e c)
      else dict_del ''extra_body'' (cl_others (before_sleep e c)))"
  have "map_of d ''temperature'' = Some (JFloat 1)" by (simp add: d_def b)
  moreover have "distinct (keys d)" using assms(4) by (simp add: d_def b distinct_dict_set distinct_dict_del)
  moreover have "rq_params q = dict_update (lo_kwargs l) d"
    using assms(3,5) by (auto simp: make_request_def mocked_tools_def rbind_Inr_iff Let_def d_def split: if_splits)
  ultimately show ?thesis by (simp add: map_of_dict_update)
qed

section \<open>The properties at work\<close>

text \<open>A retrying that does what \<open>tenacity\<close> does; \<open>idle\<close> is the state where it would never return.\<close>

partial_function (option) retry_loop ::
    "('c \<Rightarrow> 's \<Rightarrow> (exc + 'r) \<times> 's) \<Rightarrow> (exc \<Rightarrow> bool) \<Rightarrow> (nat \<Rightarrow> 's \<Rightarrow> bool) \<Rightarrow> (exc \<Rightarrow> 'c \<Rightarrow> 'c) \<Rightarrow> nat \<Rightarrow> 'c \<Rightarrow> 's
      \<Rightarrow> ((exc + 'r) \<times> 's) option" where
  "retry_loop f retried stop before k c s =
     (case f c s of
        (Inr r, s') \<Rightarrow> Some (Inr r, s')
      | (Inl e, s') \<Rightarrow>
          if \<not> retried e \<or> stop k s' then Some (Inl e, s') else retry_loop f retried stop before (Suc k) (before e c) s')"

declare retry_loop.simps [code]

definition loop_retrying :: "'s \<Rightarrow> ('c, 'r, 's) retrying" where
  "loop_retrying idle f retried stop before k c s =
     (case retry_loop f retried stop before k c s of Some v \<Rightarrow> v | None \<Rightarrow> (Inl AssertionError, idle))"

lemma loop_retrying_law:
  fixes idle :: 's
  shows "tenacity (loop_retrying idle :: ('c, 'r, 's) retrying)"
  unfolding tenacity_def
proof (intro allI)
  fix f :: "'c \<Rightarrow> 's \<Rightarrow> (exc + 'r) \<times> 's" and retried stop before k c s
  show "loop_retrying idle f retried stop before k c s = (case f c s of
      (Inr r, s') \<Rightarrow> (Inr r, s')
    | (Inl e, s') \<Rightarrow> if \<not> retried e \<or> stop k s' then (Inl e, s')
        else loop_retrying idle f retried stop before (Suc k) (before e c) s')"
    unfolding loop_retrying_def by (subst retry_loop.simps) (simp split: prod.split sum.split)
qed

text \<open>A provider that fails once and then answers, with the requests and the time as its state.\<close>

definition hello_answer :: completion where
  "hello_answer = \<lparr>cp_id = Some ''r1'', cp_messages = [[(''role'', JStr ''assistant''), (''content'', JStr ''Hello'')]],
     cp_usage = Some \<lparr>up_prompt_tokens = 7, up_completion_tokens = 2, up_cached_tokens = None, up_cache_creation_tokens = 0\<rparr>,
     cp_cost_header = Some (JFloat (1 / 4)), cp_text = []\<rparr>"

definition busy_once :: "(request list \<times> rat) provider" where
  "busy_once = \<lparr>pv_complete = (\<lambda>q (qs, t). (if qs = [] then Inl (OtherException ''RateLimitError'' []) else Inr hello_answer, (qs @ [q], t + 2))),
     pv_time = (\<lambda>(qs, t). (t, (qs, t + 1))),
     pv_should_exit = (\<lambda>w. False)\<rparr>"

definition plain_env :: llm_env where
  "plain_env = \<lparr>le_conv = demo_env, le_get_model_info = (\<lambda>m. Inl (ValueError m)),
     le_proxy_info = (\<lambda>u k. Inl (ValueError u)), le_supports_vision = (\<lambda>m. False), le_force_vision = [],
     le_completion_cost = (\<lambda>r m c. Inr JNull),
     le_float = (\<lambda>v. case v of JFloat x \<Rightarrow> Inr x | _ \<Rightarrow> Inl (TypeError ''float''))\<rparr>"

definition small_llm :: "bool \<Rightarrow> llm_object" where
  "small_llm native = \<lparr>lo_config = default_llm_config\<lparr>lc_model := ''small''\<rparr>, lo_metrics = new_metrics ''small'',
     lo_model_info = JNull, lo_function_calling_active = native, lo_cost_metric_supported = True, lo_kwargs = []\<rparr>"

definition greeting_call :: "dict list option \<Rightarrow> completion_call" where
  "greeting_call tools = \<lparr>cl_messages = Dicts [[(''role'', JStr ''user''), (''content'', JStr ''Hi'')]], cl_tools = tools,
     cl_others = []\<rparr>"

definition idle_state :: "llm_object \<times> request list \<times> rat" where
  "idle_state = (small_llm True, [], 0)"

lemma busy_once_logs: "logs_requests busy_once fst"
  by (simp add: logs_requests_def busy_once_def split: prod.split)

theorem requests_bounded_witness:
  "\<exists>r l' w'. complete plain_env busy_once (loop_retrying idle_state) (greeting_call None) (small_llm True, [], 0) = (r, l', w') \<and>
     length (fst w') \<le> 5"
proof -
  obtain r l' w' where run: "complete plain_env busy_once (loop_retrying idle_state) (greeting_call None) (small_llm True, [], 0) = (r, l', w')"
    by (metis prod_cases3)
  from requests_bounded [OF loop_retrying_law busy_once_logs run] run show ?thesis
    by (auto simp: small_llm_def default_llm_config_def)
qed


lemma greeting_answered:
  "(case complete plain_env busy_once (loop_retrying idle_state) (greeting_call None) (small_llm True, [], 0) of
      (v, l, w) \<Rightarrow> (case v of Inr r \<Rightarrow> cp_cost_header r = Some (JFloat (1 / 4)) \<and> length (fst w) = 2 | Inl e \<Rightarrow> False))"
  by code_simp


end
