(* ===== verification/Spec2Isabelle.thy ===== *)
theory Spec2Isabelle
  imports Log_Parsers_Correct Reporting Event_Stream_Properties Metrics Condensers_Properties
    Conversation_Stats Agent_State Stuck State_Tracker_Correct Controller_Properties
    Json_Roundtrip Search_Commands CodeAct_Agent_Properties Test_Spec_Correct
    Run_Evaluation_Properties Memory_Recall_Properties Bash_Session_Properties
    Bash_Parsing_Correct LLM_Access_Correct
begin

text \<open>
  A development beside the code of OpenHands and SWE-bench (Python). Paths are relative to \<open>src/\<close>.

  \<^bold>\<open>The programs.\<close> OpenHands runs an agent in a conversation. All that happens is an event, an
  action or an observation, which the event stream numbers, stores as a file, and hands to its
  subscribers: the agent controller, the runtime, the memory. The controller keeps the history of the
  conversation, asks the agent for the next action as long as the limits allow, and publishes it; the
  runtime carries it out and publishes an observation. What the agent's model is shown is a view
  of the history, from which condensers remove or summarise events. What the models cost is counted in
  metrics. SWE-bench evaluates what an agent produced: it makes the scripts and images of an instance,
  runs the tests with the agent's patch in a container, reads the log of the test run with the
  parser of the repository, grades the tests against the gold tests, and reports on a whole run.

  \<^bold>\<open>Python in the model\<close> (\<open>Py_Prelude\<close>, \<open>Regex\<close>). An exception is a value of the type \<open>exc\<close> and a fallible
  function returns a sum; where a method may raise after it has changed something, its result is the
  changed state with the exception. A string is a list of Latin-1 characters (texts of the code outside
  Latin-1 are their UTF-8 bytes). A dictionary is an association list in insertion order. An integer is
  an \<open>int\<close>; a float is a rational number, without rounding, and its text is an argument. A regular
  expression is matched by a backtracking matcher that lists the matches in the order of \<open>re\<close>.
  Logging is left out.

  \<^bold>\<open>SWE-bench/swebench/harness.\<close>
  \<^item> \<open>SB_Constants\<close>: the enumerations and markers of \<open>constants/__init__.py\<close>.
  \<^item> \<open>Log_Parsers\<close> (C, Go, Rust), \<open>Log_Parsers_JVM_Ruby\<close>, \<open>Log_Parsers_JS\<close>, \<open>Log_Parsers_Python\<close> (and the
    registry): \<open>log_parsers/\<close>, one step function per loop body. The locales \<open>status_parser\<close>,
    \<open>verdict_parser\<close> and \<open>line_parser\<close> are the contracts of the loops; every parser interprets one.
    \<open>Log_Parsers_Correct\<close>: printed results are read back, status maps are well-formed, logs can be parsed
    piece by piece, the removal of XML blocks ends.
  \<^item> \<open>Grading\<close>: \<open>grading.py\<close>; when an instance is resolved. \<open>Reporting\<close>: \<open>reporting.py\<close>; a run report
    is a partition of the instances.
  \<^item> \<open>Test_Spec_Python\<close>, \<open>Test_Spec\<close>: \<open>test_spec/\<close>, the scripts of an instance in every language and the
    specification. \<open>Test_Spec_Correct\<close>: how the shell reads a script, with its here documents,
    the order of the steps, the patch that reaches git, and the part of the log
    that is graded. \<open>Dockerfiles\<close>: \<open>dockerfiles/\<close> and \<open>str.format\<close>.
  \<^item> \<open>Harness_Docker\<close>: \<open>docker_utils.py\<close>, \<open>docker_build.py\<close>. An operation (\<open>io\<close>) takes and returns the
    files and the state of the daemon, and may raise; the daemon is a record of calls (\<open>docker\<close>) on a state
    of any type. \<open>Run_Evaluation\<close>: \<open>run_evaluation.py\<close>. \<open>Harness_Effects\<close>: the locales \<open>effect_order\<close> and
    \<open>harness_order\<close>; a relation that the calls of the daemon and the writing of files satisfy is satisfied by
    every operation. \<open>Run_Evaluation_Properties\<close>: what a run returns and reports, runs that are taken up
    again, containers.

  \<^bold>\<open>OpenHands/openhands: events.\<close>
  \<^item> \<open>Metrics\<close>: \<open>llm/metrics.py\<close>; the totals stay the totals of the lists.
  \<^item> \<open>Storage\<close>: \<open>storage/locations.py\<close>, \<open>storage/memory.py\<close>. The locale \<open>file_store\<close> is what the store
    relies on; the in-memory store interprets it.
  \<^item> \<open>Events\<close>: \<open>events/event.py\<close>, \<open>events/action/\<close>, \<open>events/observation/\<close>; a datatype constructor per class.
    \<open>Serialization\<close>, \<open>Event_Serialization\<close>: \<open>events/serialization/\<close>. \<open>Event_Roundtrip\<close>: an event read back
    is the event that was written. \<open>Event_Filter\<close>: \<open>events/event_filter.py\<close>, \<open>events/utils.py\<close>.
  \<^item> \<open>Event_Store\<close>, \<open>Event_Stream\<close>: \<open>events/event_store.py\<close>, \<open>events/stream.py\<close>: files, pages, ids, subscribers,
    the queue, secrets, and what hiding them guarantees. \<open>Event_Stream_Correct\<close>: the abstraction is the log, a list of dictionaries; the
    invariant \<open>stream_inv\<close> relates files, pages and ids to it. \<open>Event_Stream_Properties\<close>: adding appends
    to the log, a search filters the log, ids survive a restart, subscribers get every event once.
    \<open>Stream_Of_Log\<close>: streams with given contents.

  \<^bold>\<open>OpenHands/openhands: memory.\<close>
  \<^item> \<open>Microagents\<close>: \<open>microagent/\<close>. \<open>Memory_Recall\<close>: \<open>memory/memory.py\<close>, the answers to recalls.
    \<open>Memory_Recall_Properties\<close>: microagents are kept apart by class, and a message of the user leads to a
    recall, its answer, and the release of the controller.
  \<^item> \<open>Views\<close>: \<open>memory/view.py\<close>. \<open>Condensers\<close>: \<open>memory/condenser/\<close>. \<open>Condensers_Correct\<close>: the locale
    \<open>rolling_condenser\<close> (a condensed history has a small view again), interpreted by the four condensers
    that condense. \<open>Condensers_Properties\<close>: what a condensation does to the views that follow.

  \<^bold>\<open>OpenHands/openhands: controller.\<close>
  \<^item> \<open>Control_Flags\<close>: \<open>controller/state/control_flags.py\<close>. The locale \<open>control_flag_ops\<close> (a flag at its
    limit refuses, after an increase it does not) is interpreted by both flags.
  \<^item> \<open>Conversation_Stats\<close>: \<open>llm/llm_registry.py\<close>, \<open>server/services/conversation_stats.py\<close>. The metrics objects
    that LLMs and statistics share are in a store. Spending is counted in
    every run of the registry, and survives a restart.
  \<^item> \<open>Agent_State\<close>: \<open>controller/state/state.py\<close>, and what a session passes on to the next.
  \<^item> \<open>State_Tracker\<close>: \<open>controller/state/state_tracker.py\<close>. \<open>State_Tracker_Correct\<close>: the history against
    the log of the stream, and the replay of a trajectory.
  \<^item> \<open>Stuck\<close>: \<open>controller/stuck.py\<close>; what the detector of loops finds and does not find.
  \<^item> \<open>Replay\<close>: \<open>controller/replay.py\<close>; a replay hands out the actions of the trajectory.
  \<^item> \<open>Controller_State\<close>, \<open>Agent_Controller\<close>, \<open>Controller_Events\<close>: \<open>controller/agent_controller.py\<close>. The record
    \<open>machine\<close> holds the controller, the chain of its delegates, and what they share: the stream, the
    flags, the metrics, the files. A method is a program on it that may raise (\<open>prog\<close>). \<open>deliver\<close> is
    one round of the stream's queue. The agent, the analyzer, the clock and the classes of exceptions are
    in \<open>agent_env\<close>.
  \<^item> \<open>Controller_Effects\<close>: the locale \<open>controller_effects\<close>. A relation on the shared state that the single
    effects satisfy is satisfied by every method, with any delegates. \<open>Controller_Limits\<close>: three
    interpretations of it, and the runs (\<open>run\<close>), in which the stream delivers or others add an event. A
    headless run never passes the limit on the iterations, makes a bounded number of completions,
    and no run changes a stored event.
  \<^item> \<open>Runtime_Dispatch\<close>: \<open>on_event\<close>, \<open>_handle_action\<close> and \<open>run_action\<close> of \<open>runtime/base.py\<close>; the methods that
    carry out an action are arguments. \<open>Controller_Confirmation\<close>: which actions wait for the user, from
    the controller through the stream to the runtime. \<open>Controller_Properties\<close>: stopping, resuming,
    failing, delegating.

  \<^bold>\<open>OpenHands/openhands: the runtime.\<close>
  \<^item> \<open>Bash_Session\<close>: \<open>runtime/utils/bash.py\<close> and the metadata of the prompt in \<open>events/observation/commands.py\<close>.
    The terminal is a record of calls (\<open>pane_ops\<close>) on a state of any type. \<open>Bash_Session_Correct\<close>: what a call
    of \<open>execute\<close> types and keeps, the invariant of sessions (\<open>session_run\<close>), and that hard timeouts end commands.
    \<open>Bash_Session_Properties\<close>: the output of a command is found between two prompts, and the old prompt.
    \<open>Bash_Parsing_Correct\<close>: splitting and escaping by the syntax tree of \<open>bashlex\<close>.

  \<^bold>\<open>OpenHands/openhands: the language of the LLM.\<close>
  \<^item> \<open>Json\<close>, \<open>Json_Roundtrip\<close>: the reader of \<open>json.loads\<close> and \<open>io/json.py\<close>; what was dumped, with or without indentation, is read back.
    \<open>Py_Objects\<close>: the operations of Python on values of JSON (subscripts, \<open>in\<close>, \<open>get\<close>, sets, truth).
  \<^item> \<open>Fn_Call_Prompts\<close>, \<open>Fn_Call_Converter\<close>: \<open>llm/fn_call_converter.py\<close>, calls of tools as text for models
    without them. \<open>Fn_Call_Correct\<close>, \<open>Fn_Call_Properties\<close>: a conversation comes back from its
    text, accepted parameters fit the schema, and the split of several calls.
  \<^item> \<open>LLM_Features\<close>: \<open>llm/model_features.py\<close>, \<open>core/config/llm_config.py\<close>. \<open>LLM_Access\<close>: \<open>llm/llm.py\<close>,
    \<open>llm/retry_mixin.py\<close>. An attempt (\<open>attempt\<close>) works on the LLM and on a provider, a record of calls on a state of
    any type; the retrying of the package \<open>tenacity\<close> is an argument with the law \<open>tenacity\<close>. \<open>LLM_Access_Correct\<close>:
    the number and the form of the requests, what is counted, and the parameters of a model.
  \<^item> \<open>Agent_Tools\<close>, \<open>Agent_Tools_Search\<close>: the tools of \<open>agenthub/*/tools/\<close> as JSON.
  \<^item> \<open>Function_Calling\<close>: \<open>agenthub/*/function_calling.py\<close>, the answer of the LLM turned into actions; what an
    agent makes of one call is an argument of the loop the three agents share. \<open>Function_Calling_Correct\<close>:
    the locales \<open>call_making\<close> and \<open>index_keeping\<close>, interpreted by the agents;
    one action per call, and which action gets the thought. \<open>Search_Commands\<close>: the command lines of the
    read-only agent against the quoting rules of the shell.

  \<^bold>\<open>OpenHands/openhands: the agent.\<close>
  \<^item> \<open>Messages\<close>: \<open>core/message.py\<close>. \<open>Conversation_Memory\<close>: \<open>memory/conversation_memory.py\<close>, the history turned into
    messages. \<open>Conversation_Memory_Correct\<close>: calls and results pair up (\<open>paired\<close>), and the filter's own
    promise. \<open>Conversation_Memory_Properties\<close>: the messages of a turn, their start, and processing again.
  \<^item> \<open>CodeAct_Agent\<close>: \<open>agenthub/codeact_agent/codeact_agent.py\<close>, \<open>llm/llm_utils.py\<close>. The step has the type that the
    controller expects of an agent, up to the limits it does not read; the completion of the LLM works
    on the heap of the metrics. \<open>CodeAct_Agent_Properties\<close>: responses are carried out in full, requests are
    well-formed, offered tools are known.

  \<^bold>\<open>Bounds.\<close> No definition that models code has fuel: loops recurse on their data or have a measure
  (the removal of XML blocks: the length of the text; the search in the store: the distance to its end).
  Only \<open>replay_all\<close>, which states a property, takes a number of steps; one more than the length of the
  trajectory is enough, as its property shows. The polls of a command may go on for ever: \<open>poll_loop\<close> is a
  partial function into \<open>option\<close>, and a property says when it returns. Thread pools, event loops and locks are not modelled:
  the order of events is the order of the queue, and callbacks run one after the other.

  \<^bold>\<open>Not modelled.\<close> The packages \<open>litellm\<close> and \<open>tenacity\<close> behind their calls; the asynchronous and the
  streaming LLM; the templates of the prompts (Jinja); the browsing agents; what runtimes do with
  containers and files; the server, the integrations and the enterprise code (web handlers,
  databases); the front ends; the resolver; in SWE-bench the Docker daemon behind its calls, runs on
  Modal, inference and collection, and the parsers that match characters outside Latin-1. They
  are I/O or data.
\<close>

end
